(* ===== verification/Guardian_Prelude.thy ===== *)
theory Guardian_Prelude
  imports Main "HOL-Library.Word"
begin

text \<open>
  Shared vocabulary of the Guardian F401 development: the C integer types as machine words,
  pointers that may be NULL as options, byte buffers as lists with the \<open>memcpy\<close>-style
  update \<open>buf_write\<close>, the big-endian wire encodings that every component of the firmware
  repeats, the saturating diagnostic counter, and a generic contract for state machines
  (\<open>transition_system\<close>) with the invariant and monotonicity rules the components use.
\<close>

unbundle bit_operations_syntax

section \<open>C types\<close>

type_synonym u8 = "8 word"
type_synonym u16 = "16 word"
type_synonym u32 = "32 word"
type_synonym u64 = "64 word"

text \<open>Signed integers are the same words, read with \<open>sint\<close>.\<close>

type_synonym i16 = "16 word"
type_synonym i32 = "32 word"
type_synonym i64 = "64 word"

text \<open>An enumeration value that may come from the wire or from a cast keeps its integer.\<close>

type_synonym c_enum = "32 word"

text \<open>A pointer argument: \<open>None\<close> is NULL, \<open>Some x\<close> points to \<open>x\<close>.\<close>

type_synonym 'a ptr = "'a option"

named_theorems be_simps \<open>equations that reduce a component's byte-order helper to the shared one\<close>
named_theorems buf_simps \<open>length and lookup facts about buffers and slices\<close>

section \<open>Buffers\<close>

text \<open>\<open>buf_write buf off data\<close> is \<open>memcpy(&buf[off], data, length data)\<close>, and
  \<open>buf_read buf off n\<close> is the \<open>n\<close> bytes at \<open>&buf[off]\<close>.\<close>

definition buf_write :: "'a list \<Rightarrow> nat \<Rightarrow> 'a list \<Rightarrow> 'a list" where
  "buf_write buf off data = take off buf @ data @ drop (off + length data) buf"

definition buf_read :: "'a list \<Rightarrow> nat \<Rightarrow> nat \<Rightarrow> 'a list" where
  "buf_read buf off n = take n (drop off buf)"

section \<open>Big-endian integers\<close>

definition be16_bytes :: "u16 \<Rightarrow> u8 list" where
  "be16_bytes v = [ucast (drop_bit 8 v AND 0xFF), ucast (v AND 0xFF)]"

definition be32_bytes :: "u32 \<Rightarrow> u8 list" where
  "be32_bytes v =
     [ucast (drop_bit 24 v AND 0xFF), ucast (drop_bit 16 v AND 0xFF),
      ucast (drop_bit 8 v AND 0xFF), ucast (v AND 0xFF)]"

definition be64_bytes :: "u64 \<Rightarrow> u8 list" where
  "be64_bytes v =
     [ucast (drop_bit 56 v AND 0xFF), ucast (drop_bit 48 v AND 0xFF),
      ucast (drop_bit 40 v AND 0xFF), ucast (drop_bit 32 v AND 0xFF),
      ucast (drop_bit 24 v AND 0xFF), ucast (drop_bit 16 v AND 0xFF),
      ucast (drop_bit 8 v AND 0xFF), ucast (v AND 0xFF)]"

definition be16_at :: "u8 list \<Rightarrow> nat \<Rightarrow> u16" where
  "be16_at b i = push_bit 8 (ucast (b ! i)) OR ucast (b ! (i + 1))"

definition be32_at :: "u8 list \<Rightarrow> nat \<Rightarrow> u32" where
  "be32_at b i =
     push_bit 24 (ucast (b ! i)) OR push_bit 16 (ucast (b ! (i + 1)))
     OR push_bit 8 (ucast (b ! (i + 2))) OR ucast (b ! (i + 3))"

definition be64_at :: "u8 list \<Rightarrow> nat \<Rightarrow> u64" where
  "be64_at b i =
     push_bit 56 (ucast (b ! i)) OR push_bit 48 (ucast (b ! (i + 1)))
     OR push_bit 40 (ucast (b ! (i + 2))) OR push_bit 32 (ucast (b ! (i + 3)))
     OR push_bit 24 (ucast (b ! (i + 4))) OR push_bit 16 (ucast (b ! (i + 5)))
     OR push_bit 8 (ucast (b ! (i + 6))) OR ucast (b ! (i + 7))"

section \<open>Saturating diagnostic counters\<close>

definition sat_inc_u32 :: "u32 \<Rightarrow> u32" where
  "sat_inc_u32 v = (if v \<noteq> 0xFFFFFFFF then v + 1 else v)"

section \<open>Reachable states\<close>

text \<open>The states a component can reach from an initial state by its operations.\<close>

inductive reachable :: "('s \<Rightarrow> bool) \<Rightarrow> ('s \<Rightarrow> 's \<Rightarrow> bool) \<Rightarrow> 's \<Rightarrow> bool"
  for init :: "'s \<Rightarrow> bool" and step :: "'s \<Rightarrow> 's \<Rightarrow> bool" where
  reachable_init: "init s \<Longrightarrow> reachable init step s"
| reachable_step: "reachable init step s \<Longrightarrow> step s t \<Longrightarrow> reachable init step t"

section \<open>Facts about buffers\<close>

lemma length_buf_write [buf_simps, simp]:
  "off + length data \<le> length buf \<Longrightarrow> length (buf_write buf off data) = length buf"
  by (simp add: buf_write_def)

lemma length_buf_read [buf_simps]:
  "off + n \<le> length buf \<Longrightarrow> length (buf_read buf off n) = n"
  by (simp add: buf_read_def)

lemma buf_read_write_same:
  "off \<le> length buf \<Longrightarrow> n = length data \<Longrightarrow> buf_read (buf_write buf off data) off n = data"
  by (simp add: buf_read_def buf_write_def)

lemma take_buf_write_0: "n \<le> length data \<Longrightarrow> take n (buf_write buf 0 data) = take n data"
  by (simp add: buf_write_def)

lemma buf_write_0: "buf_write buf 0 data = data @ drop (length data) buf"
  by (simp add: buf_write_def)

lemma list_update_buf_write: "i < length xs \<Longrightarrow> xs[i := a] = buf_write xs i [a]"
  by (simp add: buf_write_def upd_conv_take_nth_drop)

lemma list_update_0_buf_write: "xs \<noteq> [] \<Longrightarrow> xs[0 := a] = buf_write xs 0 [a]"
  by (rule list_update_buf_write) simp

lemma buf_write_adjacent:
  "off + length d1 \<le> length buf \<Longrightarrow> k = off + length d1 \<Longrightarrow>
   buf_write (buf_write buf off d1) k d2 = buf_write buf off (d1 @ d2)"
  by (cases "d1 = []") (simp_all add: buf_write_def min_absorb2 ac_simps)

lemma buf_write_Nil [simp]: "off \<le> length buf \<Longrightarrow> buf_write buf off [] = buf"
  by (simp add: buf_write_def)

lemma nth_append_skip:
  "length xs \<le> i \<Longrightarrow> (xs @ ys) ! i = ys ! (i - length xs)"
  by (simp add: nth_append)

lemma buf_read_append_skip:
  "length xs \<le> off \<Longrightarrow> buf_read (xs @ ys) off n = buf_read ys (off - length xs) n"
  by (simp add: buf_read_def)

lemma buf_read_0: "buf_read xs 0 n = take n xs"
  by (simp add: buf_read_def)

section \<open>Facts about big-endian integers\<close>

lemma length_be_bytes [simp, buf_simps]:
  "length (be16_bytes a) = 2" "length (be32_bytes b) = 4" "length (be64_bytes c) = 8"
  by (simp_all add: be16_bytes_def be32_bytes_def be64_bytes_def)

lemma ucast_and_255: "(ucast (x AND 255 :: 'a::len word) :: u8) = ucast x"
proof -
  have eq: "(255 :: 'a word) = mask 8" by (simp add: mask_eq_exp_minus_1)
  show ?thesis
    unfolding eq by (rule bit_word_eqI) (auto simp: bit_simps dest: bit_imp_le_length)
qed

lemma ucast_u8_u32_u8 [simp]: "(ucast (ucast (x :: u8) :: u32) :: u8) = x"
  by (rule bit_word_eqI) (simp add: bit_simps)

lemma xor_cancel_word [simp]:
  "a XOR x = b XOR x \<longleftrightarrow> a = b" "x XOR a = x XOR b \<longleftrightarrow> a = b" for x :: "'a::len word"
  by (metis xor.assoc xor.right_neutral xor_self_eq, metis xor.assoc xor.left_neutral xor_self_eq)

lemma bit_u8_beyond: "8 \<le> n \<Longrightarrow> \<not> bit (w :: u8) n"
  using bit_imp_le_length [of w n] by auto

lemma be16_bytes_at: "be16_bytes (be16_at b i) = [b ! i, b ! (i + 1)]"
  unfolding be16_bytes_def be16_at_def ucast_and_255
  by (intro arg_cong2 [where f = Cons] refl; rule bit_word_eqI)
    (auto simp: bit_simps bit_u8_beyond)

lemma be32_bytes_at: "be32_bytes (be32_at b i) = [b ! i, b ! (i + 1), b ! (i + 2), b ! (i + 3)]"
  unfolding be32_bytes_def be32_at_def ucast_and_255
  by (intro arg_cong2 [where f = Cons] refl; rule bit_word_eqI)
    (auto simp: bit_simps bit_u8_beyond)

lemma be64_bytes_at: "be64_bytes (be64_at b i) = map (\<lambda>j. b ! (i + j)) [0, 1, 2, 3, 4, 5, 6, 7]"
  unfolding be64_bytes_def be64_at_def ucast_and_255 list.map
  by (intro arg_cong2 [where f = Cons] refl; rule bit_word_eqI)
    (auto simp: bit_simps bit_u8_beyond)

lemma byte_bits_eq:
  fixes v w :: "'a::len word"
  assumes "(ucast (drop_bit k v) :: u8) = ucast (drop_bit k w)" "k \<le> n" "n < k + 8"
  shows "bit v n = bit w n"
proof -
  have "bit (ucast (drop_bit k v) :: u8) (n - k) = bit (ucast (drop_bit k w) :: u8) (n - k)"
    using assms(1) by simp
  with assms(2,3) show ?thesis by (auto simp: bit_simps)
qed

lemma be16_bytes_inj [simp]: "be16_bytes v = be16_bytes w \<longleftrightarrow> v = w"
proof
  assume "be16_bytes v = be16_bytes w"
  then have eq: "(ucast (drop_bit 8 v) :: u8) = ucast (drop_bit 8 w)"
    "(ucast (drop_bit 0 v) :: u8) = ucast (drop_bit 0 w)"
    by (simp_all add: be16_bytes_def ucast_and_255)
  show "v = w"
  proof (rule bit_word_eqI)
    fix n assume "n < LENGTH(16)"
    then consider "n < 0 + 8" | "8 \<le> n" "n < 8 + 8" by fastforce
    then show "bit v n = bit w n"
      by cases (rule byte_bits_eq [OF eq(2)] byte_bits_eq [OF eq(1)]; simp)+
  qed
qed simp

lemma be32_bytes_inj [simp]: "be32_bytes v = be32_bytes w \<longleftrightarrow> v = w"
proof
  assume "be32_bytes v = be32_bytes w"
  then have eq: "(ucast (drop_bit 24 v) :: u8) = ucast (drop_bit 24 w)"
    "(ucast (drop_bit 16 v) :: u8) = ucast (drop_bit 16 w)"
    "(ucast (drop_bit 8 v) :: u8) = ucast (drop_bit 8 w)"
    "(ucast (drop_bit 0 v) :: u8) = ucast (drop_bit 0 w)"
    by (simp_all add: be32_bytes_def ucast_and_255)
  show "v = w"
  proof (rule bit_word_eqI)
    fix n assume "n < LENGTH(32)"
    then consider "n < 0 + 8" | "8 \<le> n" "n < 8 + 8" | "16 \<le> n" "n < 16 + 8"
      | "24 \<le> n" "n < 24 + 8" by fastforce
    then show "bit v n = bit w n"
      using eq [THEN byte_bits_eq, of n] by cases simp_all
  qed
qed simp

lemma be64_bytes_inj [simp]: "be64_bytes v = be64_bytes w \<longleftrightarrow> v = w"
proof
  assume "be64_bytes v = be64_bytes w"
  then have eq: "(ucast (drop_bit 56 v) :: u8) = ucast (drop_bit 56 w)"
    "(ucast (drop_bit 48 v) :: u8) = ucast (drop_bit 48 w)"
    "(ucast (drop_bit 40 v) :: u8) = ucast (drop_bit 40 w)"
    "(ucast (drop_bit 32 v) :: u8) = ucast (drop_bit 32 w)"
    "(ucast (drop_bit 24 v) :: u8) = ucast (drop_bit 24 w)"
    "(ucast (drop_bit 16 v) :: u8) = ucast (drop_bit 16 w)"
    "(ucast (drop_bit 8 v) :: u8) = ucast (drop_bit 8 w)"
    "(ucast (drop_bit 0 v) :: u8) = ucast (drop_bit 0 w)"
    by (simp_all add: be64_bytes_def ucast_and_255)
  show "v = w"
  proof (rule bit_word_eqI)
    fix n assume n: "n < LENGTH(64)"
    show "bit v n = bit w n"
      using eq [THEN byte_bits_eq, of n] n by simp (meson not_less)
  qed
qed simp

lemma be16_at_bytes: "be16_at (be16_bytes v @ rest) 0 = v"
  by (subst be16_bytes_inj [symmetric]) (simp add: be16_bytes_at, simp add: be16_bytes_def)

lemma be32_at_bytes: "be32_at (be32_bytes v @ rest) 0 = v"
  by (subst be32_bytes_inj [symmetric]) (simp add: be32_bytes_at, simp add: be32_bytes_def)

lemma be64_at_bytes: "be64_at (be64_bytes v @ rest) 0 = v"
  by (subst be64_bytes_inj [symmetric]) (simp add: be64_bytes_at, simp add: be64_bytes_def)

text \<open>Reading past a prefix, and inside a slice.\<close>

lemma be_at_skip [buf_simps]:
  "length xs \<le> i \<Longrightarrow> be16_at (xs @ ys) i = be16_at ys (i - length xs)"
  "length xs \<le> i \<Longrightarrow> be32_at (xs @ ys) i = be32_at ys (i - length xs)"
  "length xs \<le> i \<Longrightarrow> be64_at (xs @ ys) i = be64_at ys (i - length xs)"
  by (simp_all add: be16_at_def be32_at_def be64_at_def nth_append Suc_diff_le
      flip: diff_add_assoc2)

lemma be_at_Cons [buf_simps]:
  "0 < i \<Longrightarrow> be16_at (x # xs) i = be16_at xs (i - 1)"
  "0 < i \<Longrightarrow> be32_at (x # xs) i = be32_at xs (i - 1)"
  "0 < i \<Longrightarrow> be64_at (x # xs) i = be64_at xs (i - 1)"
  using be_at_skip [of "[x]" i xs] by simp_all

lemma be_at_take [buf_simps]:
  "i + 2 \<le> n \<Longrightarrow> be16_at (take n b) i = be16_at b i"
  "i + 4 \<le> n \<Longrightarrow> be32_at (take n b) i = be32_at b i"
  "i + 8 \<le> n \<Longrightarrow> be64_at (take n b) i = be64_at b i"
  by (simp_all add: be16_at_def be32_at_def be64_at_def)

lemma be_at_append_left [buf_simps]:
  "i + 2 \<le> length xs \<Longrightarrow> be16_at (xs @ ys) i = be16_at xs i"
  "i + 4 \<le> length xs \<Longrightarrow> be32_at (xs @ ys) i = be32_at xs i"
  "i + 8 \<le> length xs \<Longrightarrow> be64_at (xs @ ys) i = be64_at xs i"
  by (simp_all add: be16_at_def be32_at_def be64_at_def nth_append)

lemma be16_at_list_update: "i + 2 \<le> k \<Longrightarrow> be16_at (b[k := x]) i = be16_at b i"
  by (simp add: be16_at_def)

lemmas be_at_bytes [buf_simps] = be16_at_bytes be32_at_bytes be64_at_bytes
  be16_at_bytes [where rest = "[]", simplified] be32_at_bytes [where rest = "[]", simplified]
  be64_at_bytes [where rest = "[]", simplified]

lemmas be_bytes_at = be16_bytes_at be32_bytes_at be64_bytes_at

lemma buf_read_adjacent:
  "k = i + n \<Longrightarrow> buf_read b i n @ buf_read b k m = buf_read b i (n + m)"
  by (simp add: buf_read_def take_add) (simp add: add.commute)

lemma buf_read_be:
  "i + 2 \<le> length b \<Longrightarrow> buf_read b i 2 = be16_bytes (be16_at b i)"
  "i + 4 \<le> length b \<Longrightarrow> buf_read b i 4 = be32_bytes (be32_at b i)"
  unfolding be16_bytes_at be32_bytes_at buf_read_def
  by (rule nth_equalityI; auto simp: nth_Cons' less_Suc_eq numeral_eq_Suc)+

lemma buf_write_fill:
  "length d \<le> n \<Longrightarrow> i + n \<le> length b \<Longrightarrow>
   buf_write (buf_write b i (replicate n z)) i d = buf_write b i (d @ replicate (n - length d) z)"
  by (simp add: buf_write_def)

lemma buf_write_into_fill:
  "k = length xs \<Longrightarrow> length d \<le> n \<Longrightarrow> length xs + n \<le> length b \<Longrightarrow>
   buf_write (buf_write b 0 (xs @ replicate n z)) k d = buf_write b 0 (xs @ d @ replicate (n - length d) z)"
  by (simp add: buf_write_def)

section \<open>Facts about saturating counters\<close>

lemma unat_sat_inc_u32: "unat (sat_inc_u32 v) = min (unat v + 1) (2 ^ 32 - 1)"
proof (cases "v = 0xFFFFFFFF")
  case True
  then show ?thesis by (simp add: sat_inc_u32_def)
next
  case False
  then have "unat v \<noteq> 0xFFFFFFFF" by (simp add: word_unat_eq_iff)
  moreover have "unat v < 2 ^ 32" using unsigned_less [of v] by simp
  ultimately show ?thesis using False
    by (simp add: sat_inc_u32_def unat_word_ariths)
qed

lemma sat_inc_u32_ge: "v \<le> sat_inc_u32 v"
proof -
  have "unat v < 2 ^ 32" using unsigned_less [of v] by simp
  then show ?thesis by (simp add: word_le_nat_alt unat_sat_inc_u32)
qed

section \<open>Small values\<close>

lemma one_le_word [simp]: "1 \<le> w \<longleftrightarrow> w \<noteq> 0" for w :: "'a::len word"
  by (simp add: word_le_nat_alt Suc_le_eq unat_gt_0)

lemma small_enum_byte:
  "w \<le> 3 \<Longrightarrow> (ucast (b :: u8) :: c_enum) = w \<longleftrightarrow> b = ucast w"
proof -
  assume "w \<le> 3"
  then have "unat w < 256" by (simp add: word_le_nat_alt)
  then have "(ucast (ucast w :: u8) :: c_enum) = w"
    by (simp add: word_unat_eq_iff unsigned_ucast_eq unsigned_take_bit_eq take_bit_nat_eq_self)
  then show ?thesis by auto
qed

section \<open>State machines: invariants and monotone quantities\<close>

text \<open>
  The contract that a component's operations keep its invariant, and the fact every client
  draws from it: the invariant holds in each reachable state and along each run.
\<close>

locale transition_system =
  fixes init :: "'s \<Rightarrow> bool" and step :: "'s \<Rightarrow> 's \<Rightarrow> bool" and inv :: "'s \<Rightarrow> bool"
  assumes inv_init: "init s \<Longrightarrow> inv s"
    and inv_step: "inv s \<Longrightarrow> step s t \<Longrightarrow> inv t"
begin

lemma reachable_inv: "reachable init step s \<Longrightarrow> inv s"
  by (induction rule: reachable.induct) (auto intro: inv_init inv_step)

lemma run_inv: "step\<^sup>*\<^sup>* s t \<Longrightarrow> inv s \<Longrightarrow> inv t"
  by (induction rule: rtranclp_induct) (auto intro: inv_step)

end

text \<open>A quantity no operation lowers never falls along a run.\<close>

locale monotone_system = transition_system init step inv
  for init :: "'s \<Rightarrow> bool" and step :: "'s \<Rightarrow> 's \<Rightarrow> bool" and inv :: "'s \<Rightarrow> bool" +
  fixes m :: "'s \<Rightarrow> 'm::order"
  assumes mono_step: "inv s \<Longrightarrow> step s t \<Longrightarrow> m s \<le> m t"
begin

lemma mono_run: "step\<^sup>*\<^sup>* s t \<Longrightarrow> inv s \<Longrightarrow> m s \<le> m t"
proof (induction rule: rtranclp_induct)
  case base
  show ?case by simp
next
  case (step t u)
  then have "m t \<le> m u" by (meson run_inv mono_step)
  with step show ?case by (auto intro: order_trans)
qed

end

section \<open>Replay guards\<close>

text \<open>The messages of a stream that a guard lets through.\<close>

fun accepted :: "('s \<Rightarrow> 'm \<Rightarrow> bool \<times> 's) \<Rightarrow> 's \<Rightarrow> 'm list \<Rightarrow> 'm list" where
  "accepted offer s [] = []"
| "accepted offer s (m # ms) =
     (case offer s m of (ok, t) \<Rightarrow> if ok then m # accepted offer t ms else accepted offer t ms)"

text \<open>
  The contract of a guard against replays: it follows one session, and lets a message through
  only if the message belongs to that session and its number lies above the guard's level,
  which it then raises to that number.
\<close>

locale replay_guard =
  fixes offer :: "'s \<Rightarrow> 'm \<Rightarrow> bool \<times> 's" and good :: "'s \<Rightarrow> bool" and fit :: "'m \<Rightarrow> bool"
    and session :: "'s \<Rightarrow> 'k" and key :: "'m \<Rightarrow> 'k" and level :: "'s \<Rightarrow> nat" and num :: "'m \<Rightarrow> nat"
  assumes offer_accept: "good s \<Longrightarrow> fit m \<Longrightarrow> offer s m = (True, t) \<Longrightarrow>
      good t \<and> session t = session s \<and> key m = session s \<and> level s < num m \<and> level t = num m"
    and offer_reject: "good s \<Longrightarrow> fit m \<Longrightarrow> offer s m = (False, t) \<Longrightarrow>
      good t \<and> session t = session s \<and> level t = level s"
begin

lemma accepted_increasing:
  "good s \<Longrightarrow> list_all fit ms \<Longrightarrow> sorted_wrt (<) (level s # map num (accepted offer s ms))"
proof (induction ms arbitrary: s)
  case (Cons m ms)
  obtain ok t where o: "offer s m = (ok, t)" by fastforce
  show ?case
  proof (cases ok)
    case True
    then have "good t" "level s < num m" "level t = num m"
      using offer_accept [of s m t] o Cons.prems by auto
    then show ?thesis using Cons.IH [of t] Cons.prems o True by auto
  next
    case False
    then have "good t" "level t = level s" using offer_reject [of s m t] o Cons.prems by auto
    then show ?thesis using Cons.IH [of t] Cons.prems o False by simp
  qed
qed simp

lemma accepted_same_session:
  "good s \<Longrightarrow> list_all fit ms \<Longrightarrow> m \<in> set (accepted offer s ms) \<Longrightarrow> key m = session s"
proof (induction ms arbitrary: s)
  case (Cons x ms)
  obtain ok t where o: "offer s x = (ok, t)" by fastforce
  have t: "good t" "session t = session s" "ok \<Longrightarrow> key x = session s"
    using offer_accept [of s x t] offer_reject [of s x t] o Cons.prems by (cases ok; auto)+
  then show ?case using Cons.IH [of t] Cons.prems o by (auto split: if_split_asm)
qed simp

lemma accepted_distinct:
  "good s \<Longrightarrow> list_all fit ms \<Longrightarrow> distinct (map num (accepted offer s ms))"
  using accepted_increasing [of s ms] strict_sorted_iff by auto

end

end
