(* ===== verification/Guardian_Protocol.thy ===== *)
theory Guardian_Protocol
  imports Guardian_Prelude
begin

text \<open>
  The Guardian Protocol v0.1 codec of \<open>firmware/Protocol\<close>: the frame record, the
  reflected CRC-32, and the encoder and decoder with every error branch in the order the
  source tests them. The lemmas relate the codec to the abstract wire message
  (\<open>wire_message\<close>): decoding inverts encoding, encoding inverts decoding, and the CRC
  separates any two blocks that differ in one byte.
\<close>

section \<open>Constants and types\<close>

abbreviation (input) GUARDIAN_MAGIC_0 :: u8 where "GUARDIAN_MAGIC_0 \<equiv> 0x47"
abbreviation (input) GUARDIAN_MAGIC_1 :: u8 where "GUARDIAN_MAGIC_1 \<equiv> 0x46"
abbreviation (input) GUARDIAN_PROTOCOL_VERSION :: u8 where "GUARDIAN_PROTOCOL_VERSION \<equiv> 0x01"
abbreviation (input) GUARDIAN_HEADER_SIZE :: nat where "GUARDIAN_HEADER_SIZE \<equiv> 12"
abbreviation (input) GUARDIAN_CRC_SIZE :: nat where "GUARDIAN_CRC_SIZE \<equiv> 4"
abbreviation (input) GUARDIAN_MAX_PAYLOAD_SIZE :: nat where "GUARDIAN_MAX_PAYLOAD_SIZE \<equiv> 256"
abbreviation (input) GUARDIAN_MAX_FRAME_SIZE :: nat where "GUARDIAN_MAX_FRAME_SIZE \<equiv> 272"
abbreviation (input) GUARDIAN_SUPPORTED_FLAGS :: u8 where "GUARDIAN_SUPPORTED_FLAGS \<equiv> 0x00"

abbreviation (input) GUARDIAN_OFFSET_MAGIC_0 :: nat where "GUARDIAN_OFFSET_MAGIC_0 \<equiv> 0"
abbreviation (input) GUARDIAN_OFFSET_MAGIC_1 :: nat where "GUARDIAN_OFFSET_MAGIC_1 \<equiv> 1"
abbreviation (input) GUARDIAN_OFFSET_VERSION :: nat where "GUARDIAN_OFFSET_VERSION \<equiv> 2"
abbreviation (input) GUARDIAN_OFFSET_MESSAGE_TYPE :: nat where "GUARDIAN_OFFSET_MESSAGE_TYPE \<equiv> 3"
abbreviation (input) GUARDIAN_OFFSET_COMMAND :: nat where "GUARDIAN_OFFSET_COMMAND \<equiv> 4"
abbreviation (input) GUARDIAN_OFFSET_FLAGS :: nat where "GUARDIAN_OFFSET_FLAGS \<equiv> 5"
abbreviation (input) GUARDIAN_OFFSET_SEQUENCE :: nat where "GUARDIAN_OFFSET_SEQUENCE \<equiv> 6"
abbreviation (input) GUARDIAN_OFFSET_PAYLOAD_LENGTH :: nat where "GUARDIAN_OFFSET_PAYLOAD_LENGTH \<equiv> 10"

abbreviation (input) GUARDIAN_MESSAGE_REQUEST :: c_enum where "GUARDIAN_MESSAGE_REQUEST \<equiv> 0x01"
abbreviation (input) GUARDIAN_MESSAGE_RESPONSE :: c_enum where "GUARDIAN_MESSAGE_RESPONSE \<equiv> 0x02"
abbreviation (input) GUARDIAN_MESSAGE_EVENT :: c_enum where "GUARDIAN_MESSAGE_EVENT \<equiv> 0x03"
abbreviation (input) GUARDIAN_MESSAGE_ERROR :: c_enum where "GUARDIAN_MESSAGE_ERROR \<equiv> 0x04"
abbreviation (input) GUARDIAN_MESSAGE_TELEMETRY :: c_enum where "GUARDIAN_MESSAGE_TELEMETRY \<equiv> 0x05"

abbreviation (input) GUARDIAN_COMMAND_PING :: u8 where "GUARDIAN_COMMAND_PING \<equiv> 0x01"
abbreviation (input) GUARDIAN_COMMAND_DEVICE_INFO :: u8 where "GUARDIAN_COMMAND_DEVICE_INFO \<equiv> 0x02"
abbreviation (input) GUARDIAN_COMMAND_GET_STATUS :: u8 where "GUARDIAN_COMMAND_GET_STATUS \<equiv> 0x10"
abbreviation (input) GUARDIAN_COMMAND_GET_DSP_FEATURES :: u8 where "GUARDIAN_COMMAND_GET_DSP_FEATURES \<equiv> 0x11"
abbreviation (input) GUARDIAN_COMMAND_GET_HEALTH_STATUS :: u8 where "GUARDIAN_COMMAND_GET_HEALTH_STATUS \<equiv> 0x12"
abbreviation (input) GUARDIAN_COMMAND_BASELINE_CONTROL :: u8 where "GUARDIAN_COMMAND_BASELINE_CONTROL \<equiv> 0x13"
abbreviation (input) GUARDIAN_COMMAND_GET_CONTROL_STATUS :: u8 where "GUARDIAN_COMMAND_GET_CONTROL_STATUS \<equiv> 0x14"
abbreviation (input) GUARDIAN_COMMAND_CONTROL_COMMAND :: u8 where "GUARDIAN_COMMAND_CONTROL_COMMAND \<equiv> 0x15"
abbreviation (input) GUARDIAN_COMMAND_SET_TELEMETRY :: u8 where "GUARDIAN_COMMAND_SET_TELEMETRY \<equiv> 0x20"
abbreviation (input) GUARDIAN_COMMAND_MACHINE_TELEMETRY :: u8 where "GUARDIAN_COMMAND_MACHINE_TELEMETRY \<equiv> 0x21"
abbreviation (input) GUARDIAN_COMMAND_AUTH_BEGIN :: u8 where "GUARDIAN_COMMAND_AUTH_BEGIN \<equiv> 0x30"
abbreviation (input) GUARDIAN_COMMAND_AUTH_FINISH :: u8 where "GUARDIAN_COMMAND_AUTH_FINISH \<equiv> 0x31"
abbreviation (input) GUARDIAN_COMMAND_GET_SECURITY_STATUS :: u8 where "GUARDIAN_COMMAND_GET_SECURITY_STATUS \<equiv> 0x32"
abbreviation (input) GUARDIAN_COMMAND_SECURE_COMMAND :: u8 where "GUARDIAN_COMMAND_SECURE_COMMAND \<equiv> 0x33"
abbreviation (input) GUARDIAN_COMMAND_GET_FIRMWARE_STATUS :: u8 where "GUARDIAN_COMMAND_GET_FIRMWARE_STATUS \<equiv> 0x40"
abbreviation (input) GUARDIAN_COMMAND_FIRMWARE_BEGIN :: u8 where "GUARDIAN_COMMAND_FIRMWARE_BEGIN \<equiv> 0x41"
abbreviation (input) GUARDIAN_COMMAND_FIRMWARE_CHUNK :: u8 where "GUARDIAN_COMMAND_FIRMWARE_CHUNK \<equiv> 0x42"
abbreviation (input) GUARDIAN_COMMAND_FIRMWARE_FINALIZE :: u8 where "GUARDIAN_COMMAND_FIRMWARE_FINALIZE \<equiv> 0x43"
abbreviation (input) GUARDIAN_COMMAND_FIRMWARE_ACTIVATE :: u8 where "GUARDIAN_COMMAND_FIRMWARE_ACTIVATE \<equiv> 0x44"

text \<open>Error identifiers carried in the one-byte payload of an ERROR frame.\<close>

datatype guardian_error_code =
    GUARDIAN_ERROR_MALFORMED_FRAME | GUARDIAN_ERROR_UNSUPPORTED_VERSION
  | GUARDIAN_ERROR_UNSUPPORTED_MESSAGE_TYPE | GUARDIAN_ERROR_UNSUPPORTED_FLAGS
  | GUARDIAN_ERROR_UNKNOWN_COMMAND | GUARDIAN_ERROR_INVALID_PAYLOAD
  | GUARDIAN_ERROR_INTERNAL | GUARDIAN_ERROR_BUSY | GUARDIAN_ERROR_UNAUTHORIZED
  | GUARDIAN_ERROR_REPLAY_DETECTED | GUARDIAN_ERROR_SIGNATURE_INVALID
  | GUARDIAN_ERROR_ROLLBACK_BLOCKED | GUARDIAN_ERROR_UPDATE_FAILED

fun guardian_error_value :: "guardian_error_code \<Rightarrow> u8" where
  "guardian_error_value GUARDIAN_ERROR_MALFORMED_FRAME = 0x01"
| "guardian_error_value GUARDIAN_ERROR_UNSUPPORTED_VERSION = 0x02"
| "guardian_error_value GUARDIAN_ERROR_UNSUPPORTED_MESSAGE_TYPE = 0x03"
| "guardian_error_value GUARDIAN_ERROR_UNSUPPORTED_FLAGS = 0x04"
| "guardian_error_value GUARDIAN_ERROR_UNKNOWN_COMMAND = 0x05"
| "guardian_error_value GUARDIAN_ERROR_INVALID_PAYLOAD = 0x06"
| "guardian_error_value GUARDIAN_ERROR_INTERNAL = 0x07"
| "guardian_error_value GUARDIAN_ERROR_BUSY = 0x08"
| "guardian_error_value GUARDIAN_ERROR_UNAUTHORIZED = 0x09"
| "guardian_error_value GUARDIAN_ERROR_REPLAY_DETECTED = 0x0A"
| "guardian_error_value GUARDIAN_ERROR_SIGNATURE_INVALID = 0x0B"
| "guardian_error_value GUARDIAN_ERROR_ROLLBACK_BLOCKED = 0x0C"
| "guardian_error_value GUARDIAN_ERROR_UPDATE_FAILED = 0x0D"

datatype guardian_protocol_result =
    GUARDIAN_PROTOCOL_OK
  | GUARDIAN_PROTOCOL_ERROR_NULL_ARGUMENT | GUARDIAN_PROTOCOL_ERROR_OUTPUT_TOO_SMALL
  | GUARDIAN_PROTOCOL_ERROR_FRAME_TOO_SHORT | GUARDIAN_PROTOCOL_ERROR_MAGIC
  | GUARDIAN_PROTOCOL_ERROR_VERSION | GUARDIAN_PROTOCOL_ERROR_MESSAGE_TYPE
  | GUARDIAN_PROTOCOL_ERROR_FLAGS | GUARDIAN_PROTOCOL_ERROR_PAYLOAD_TOO_LARGE
  | GUARDIAN_PROTOCOL_ERROR_LENGTH_MISMATCH | GUARDIAN_PROTOCOL_ERROR_CRC

text \<open>\<open>payload\<close> is the inline array of 256 bytes; \<open>payload_length\<close> of them are meaningful.\<close>

record guardian_frame =
  message_type :: c_enum
  command :: u8
  flags :: u8
  sequence :: u32
  payload_length :: u16
  payload :: "u8 list"

definition wf_frame :: "guardian_frame \<Rightarrow> bool" where
  "wf_frame f \<longleftrightarrow> length (payload f) = GUARDIAN_MAX_PAYLOAD_SIZE"

text \<open>\<open>memset(frame, 0, sizeof(*frame))\<close>.\<close>

definition zero_frame :: guardian_frame where
  "zero_frame = \<lparr>message_type = 0, command = 0, flags = 0, sequence = 0, payload_length = 0,
     payload = replicate GUARDIAN_MAX_PAYLOAD_SIZE 0\<rparr>"

section \<open>The codec\<close>

abbreviation (input) GUARDIAN_CRC32_POLYNOMIAL :: u32 where "GUARDIAN_CRC32_POLYNOMIAL \<equiv> 0xEDB88320"
abbreviation (input) GUARDIAN_CRC32_INITIAL :: u32 where "GUARDIAN_CRC32_INITIAL \<equiv> 0xFFFFFFFF"
abbreviation (input) GUARDIAN_CRC32_FINAL_XOR :: u32 where "GUARDIAN_CRC32_FINAL_XOR \<equiv> 0xFFFFFFFF"

text \<open>The pointer argument of a byte-order helper is a buffer and an offset into it.\<close>

definition guardian_read_u16_be :: "u8 list \<Rightarrow> nat \<Rightarrow> u16" where
  "guardian_read_u16_be input i =
     (let high = push_bit 8 (ucast (input ! i) :: u16); low = ucast (input ! (i + 1))
      in high OR low)"

definition guardian_read_u32_be :: "u8 list \<Rightarrow> nat \<Rightarrow> u32" where
  "guardian_read_u32_be input i =
     (let byte_0 = push_bit 24 (ucast (input ! i) :: u32);
          byte_1 = push_bit 16 (ucast (input ! (i + 1)));
          byte_2 = push_bit 8 (ucast (input ! (i + 2)));
          byte_3 = ucast (input ! (i + 3))
      in byte_0 OR byte_1 OR byte_2 OR byte_3)"

definition guardian_write_u16_be :: "u8 list \<Rightarrow> nat \<Rightarrow> u16 \<Rightarrow> u8 list" where
  "guardian_write_u16_be output i v =
     output[i := ucast (drop_bit 8 v AND 0xFF), i + 1 := ucast (v AND 0xFF)]"

definition guardian_write_u32_be :: "u8 list \<Rightarrow> nat \<Rightarrow> u32 \<Rightarrow> u8 list" where
  "guardian_write_u32_be output i v =
     output[i := ucast (drop_bit 24 v AND 0xFF), i + 1 := ucast (drop_bit 16 v AND 0xFF),
       i + 2 := ucast (drop_bit 8 v AND 0xFF), i + 3 := ucast (v AND 0xFF)]"

definition guardian_message_type_is_valid :: "u8 \<Rightarrow> bool" where
  "guardian_message_type_is_valid t =
     (if t < ucast GUARDIAN_MESSAGE_REQUEST then False
      else if t > ucast GUARDIAN_MESSAGE_TELEMETRY then False
      else True)"

text \<open>One pass of the inner loop, the eight passes for one byte, and the loop over the block.\<close>

definition crc32_bit_step :: "u32 \<Rightarrow> u32" where
  "crc32_bit_step crc =
     (if crc AND 1 \<noteq> 0 then drop_bit 1 crc XOR GUARDIAN_CRC32_POLYNOMIAL else drop_bit 1 crc)"

definition crc32_byte_step :: "u8 \<Rightarrow> u32 \<Rightarrow> u32" where
  "crc32_byte_step b crc = (crc32_bit_step ^^ 8) (crc XOR ucast b)"

definition guardian_crc32 :: "u8 list ptr \<Rightarrow> nat \<Rightarrow> u32" where
  "guardian_crc32 data n =
     (case data of
        None \<Rightarrow>
          (if n \<noteq> 0 then 0 else GUARDIAN_CRC32_INITIAL XOR GUARDIAN_CRC32_FINAL_XOR)
      | Some bytes \<Rightarrow>
          fold crc32_byte_step (take n bytes) GUARDIAN_CRC32_INITIAL
            XOR GUARDIAN_CRC32_FINAL_XOR)"

text \<open>The stores of the encoder once every check has passed.\<close>

definition encode_frame_bytes :: "guardian_frame \<Rightarrow> u8 list \<Rightarrow> u8 list" where
  "encode_frame_bytes f out =
     (let n = unat (payload_length f);
          out1 = out[GUARDIAN_OFFSET_MAGIC_0 := GUARDIAN_MAGIC_0,
             GUARDIAN_OFFSET_MAGIC_1 := GUARDIAN_MAGIC_1,
             GUARDIAN_OFFSET_VERSION := GUARDIAN_PROTOCOL_VERSION,
             GUARDIAN_OFFSET_MESSAGE_TYPE := ucast (message_type f),
             GUARDIAN_OFFSET_COMMAND := command f,
             GUARDIAN_OFFSET_FLAGS := flags f];
          out2 = guardian_write_u32_be out1 GUARDIAN_OFFSET_SEQUENCE (sequence f);
          out3 = guardian_write_u16_be out2 GUARDIAN_OFFSET_PAYLOAD_LENGTH (payload_length f);
          out4 = (if payload_length f \<noteq> 0
                  then buf_write out3 GUARDIAN_HEADER_SIZE (take n (payload f)) else out3);
          crc = guardian_crc32 (Some out4) (GUARDIAN_HEADER_SIZE + n)
      in guardian_write_u32_be out4 (GUARDIAN_HEADER_SIZE + n) crc)"

text \<open>The encoder returns its result code, the output buffer and \<open>*output_size\<close>; the last
  two are unchanged on an error. \<open>output_size\<close> is \<open>None\<close> for a NULL out-parameter.\<close>

definition guardian_protocol_encode ::
  "guardian_frame ptr \<Rightarrow> u8 list ptr \<Rightarrow> nat \<Rightarrow> nat ptr
     \<Rightarrow> guardian_protocol_result \<times> u8 list ptr \<times> nat ptr" where
  "guardian_protocol_encode frame output output_capacity output_size =
     (case (frame, output, output_size) of
        (Some f, Some out, Some _) \<Rightarrow>
          (if \<not> guardian_message_type_is_valid (ucast (message_type f))
           then (GUARDIAN_PROTOCOL_ERROR_MESSAGE_TYPE, output, output_size)
           else if flags f \<noteq> GUARDIAN_SUPPORTED_FLAGS
           then (GUARDIAN_PROTOCOL_ERROR_FLAGS, output, output_size)
           else if unat (payload_length f) > GUARDIAN_MAX_PAYLOAD_SIZE
           then (GUARDIAN_PROTOCOL_ERROR_PAYLOAD_TOO_LARGE, output, output_size)
           else
             let n = unat (payload_length f);
                 required_size = GUARDIAN_HEADER_SIZE + n + GUARDIAN_CRC_SIZE
             in
             if output_capacity < required_size
             then (GUARDIAN_PROTOCOL_ERROR_OUTPUT_TOO_SMALL, output, output_size)
             else
               (GUARDIAN_PROTOCOL_OK, Some (encode_frame_bytes f out), Some required_size))
      | _ \<Rightarrow> (GUARDIAN_PROTOCOL_ERROR_NULL_ARGUMENT, output, output_size))"

text \<open>The decoder returns its result code and the output frame, unchanged on an error.\<close>

definition guardian_protocol_decode ::
  "u8 list ptr \<Rightarrow> nat \<Rightarrow> guardian_frame ptr \<Rightarrow> guardian_protocol_result \<times> guardian_frame ptr" where
  "guardian_protocol_decode input input_size frame =
     (case (input, frame) of
        (Some inp, Some f) \<Rightarrow>
          (if input_size < GUARDIAN_HEADER_SIZE + GUARDIAN_CRC_SIZE
           then (GUARDIAN_PROTOCOL_ERROR_FRAME_TOO_SHORT, frame)
           else if inp ! GUARDIAN_OFFSET_MAGIC_0 \<noteq> GUARDIAN_MAGIC_0
           then (GUARDIAN_PROTOCOL_ERROR_MAGIC, frame)
           else if inp ! GUARDIAN_OFFSET_MAGIC_1 \<noteq> GUARDIAN_MAGIC_1
           then (GUARDIAN_PROTOCOL_ERROR_MAGIC, frame)
           else if inp ! GUARDIAN_OFFSET_VERSION \<noteq> GUARDIAN_PROTOCOL_VERSION
           then (GUARDIAN_PROTOCOL_ERROR_VERSION, frame)
           else if \<not> guardian_message_type_is_valid (inp ! GUARDIAN_OFFSET_MESSAGE_TYPE)
           then (GUARDIAN_PROTOCOL_ERROR_MESSAGE_TYPE, frame)
           else if inp ! GUARDIAN_OFFSET_FLAGS \<noteq> GUARDIAN_SUPPORTED_FLAGS
           then (GUARDIAN_PROTOCOL_ERROR_FLAGS, frame)
           else
             let plen = guardian_read_u16_be inp GUARDIAN_OFFSET_PAYLOAD_LENGTH; n = unat plen in
             if n > GUARDIAN_MAX_PAYLOAD_SIZE
             then (GUARDIAN_PROTOCOL_ERROR_PAYLOAD_TOO_LARGE, frame)
             else if input_size \<noteq> GUARDIAN_HEADER_SIZE + n + GUARDIAN_CRC_SIZE
             then (GUARDIAN_PROTOCOL_ERROR_LENGTH_MISMATCH, frame)
             else
               let received_crc = guardian_read_u32_be inp (GUARDIAN_HEADER_SIZE + n);
                   calculated_crc = guardian_crc32 (Some inp) (GUARDIAN_HEADER_SIZE + n)
               in
               if received_crc \<noteq> calculated_crc
               then (GUARDIAN_PROTOCOL_ERROR_CRC, frame)
               else
                 (GUARDIAN_PROTOCOL_OK,
                  Some (f\<lparr>message_type := ucast (inp ! GUARDIAN_OFFSET_MESSAGE_TYPE),
                     command := inp ! GUARDIAN_OFFSET_COMMAND,
                     flags := inp ! GUARDIAN_OFFSET_FLAGS,
                     sequence := guardian_read_u32_be inp GUARDIAN_OFFSET_SEQUENCE,
                     payload_length := plen,
                     payload := (if plen \<noteq> 0
                       then buf_write (payload f) 0 (buf_read inp GUARDIAN_HEADER_SIZE n)
                       else payload f)\<rparr>)))
      | _ \<Rightarrow> (GUARDIAN_PROTOCOL_ERROR_NULL_ARGUMENT, frame))"

fun guardian_protocol_result_string :: "guardian_protocol_result \<Rightarrow> string" where
  "guardian_protocol_result_string GUARDIAN_PROTOCOL_OK = ''ok''"
| "guardian_protocol_result_string GUARDIAN_PROTOCOL_ERROR_NULL_ARGUMENT = ''null argument''"
| "guardian_protocol_result_string GUARDIAN_PROTOCOL_ERROR_OUTPUT_TOO_SMALL =
     ''output buffer too small''"
| "guardian_protocol_result_string GUARDIAN_PROTOCOL_ERROR_FRAME_TOO_SHORT = ''frame too short''"
| "guardian_protocol_result_string GUARDIAN_PROTOCOL_ERROR_MAGIC = ''invalid magic''"
| "guardian_protocol_result_string GUARDIAN_PROTOCOL_ERROR_VERSION = ''unsupported version''"
| "guardian_protocol_result_string GUARDIAN_PROTOCOL_ERROR_MESSAGE_TYPE =
     ''unsupported message type''"
| "guardian_protocol_result_string GUARDIAN_PROTOCOL_ERROR_FLAGS = ''unsupported flags''"
| "guardian_protocol_result_string GUARDIAN_PROTOCOL_ERROR_PAYLOAD_TOO_LARGE =
     ''payload too large''"
| "guardian_protocol_result_string GUARDIAN_PROTOCOL_ERROR_LENGTH_MISMATCH =
     ''frame length mismatch''"
| "guardian_protocol_result_string GUARDIAN_PROTOCOL_ERROR_CRC = ''CRC mismatch''"

section \<open>The abstract wire message\<close>

text \<open>What a frame says, without the unused part of its payload array, and its wire image.\<close>

record wire_message =
  wm_type :: u8
  wm_command :: u8
  wm_sequence :: u32
  wm_payload :: "u8 list"

definition wm_valid :: "wire_message \<Rightarrow> bool" where
  "wm_valid m \<longleftrightarrow>
     guardian_message_type_is_valid (wm_type m) \<and> length (wm_payload m) \<le> GUARDIAN_MAX_PAYLOAD_SIZE"

definition frame_payload :: "guardian_frame \<Rightarrow> u8 list" where
  "frame_payload f = take (unat (payload_length f)) (payload f)"

definition abs_frame :: "guardian_frame \<Rightarrow> wire_message" where
  "abs_frame f = \<lparr>wm_type = ucast (message_type f), wm_command = command f,
     wm_sequence = sequence f, wm_payload = frame_payload f\<rparr>"

definition crc32_block :: "u8 list \<Rightarrow> u32" where
  "crc32_block bs = fold crc32_byte_step bs GUARDIAN_CRC32_INITIAL XOR GUARDIAN_CRC32_FINAL_XOR"

definition wire_body :: "wire_message \<Rightarrow> u8 list" where
  "wire_body m =
     [GUARDIAN_MAGIC_0, GUARDIAN_MAGIC_1, GUARDIAN_PROTOCOL_VERSION, wm_type m, wm_command m,
      GUARDIAN_SUPPORTED_FLAGS]
     @ be32_bytes (wm_sequence m) @ be16_bytes (of_nat (length (wm_payload m))) @ wm_payload m"

definition wire_bytes :: "wire_message \<Rightarrow> u8 list" where
  "wire_bytes m = wire_body m @ be32_bytes (crc32_block (wire_body m))"

text \<open>A frame the encoder accepts.\<close>

definition encodable :: "guardian_frame \<Rightarrow> bool" where
  "encodable f \<longleftrightarrow> wf_frame f \<and> guardian_message_type_is_valid (ucast (message_type f)) \<and>
     flags f = GUARDIAN_SUPPORTED_FLAGS \<and> unat (payload_length f) \<le> GUARDIAN_MAX_PAYLOAD_SIZE"

text \<open>A frame that answers a request: it can be encoded and wrapped, names the request's command and
  sequence, and is a response or an error.\<close>

definition answers :: "guardian_frame \<Rightarrow> guardian_frame \<Rightarrow> bool" where
  "answers req resp \<longleftrightarrow> encodable resp \<and> command resp = command req \<and> sequence resp = sequence req
     \<and> unat (payload_length resp) \<le> 223 \<and> message_type resp \<in> {GUARDIAN_MESSAGE_RESPONSE, GUARDIAN_MESSAGE_ERROR}"

text \<open>A component's request handler on pointers that are not NULL.\<close>

definition served :: "('s ptr \<Rightarrow> guardian_frame ptr \<Rightarrow> guardian_frame ptr \<Rightarrow> guardian_protocol_result \<times> 's ptr \<times> guardian_frame ptr)
    \<Rightarrow> 's \<Rightarrow> guardian_frame \<Rightarrow> guardian_frame \<Rightarrow> guardian_protocol_result \<times> 's \<times> guardian_frame" where
  "served handle s req resp =
     (case handle (Some s) (Some req) (Some resp) of (r, s', resp') \<Rightarrow> (r, the s', the resp'))"

section \<open>Codec lemmas\<close>

lemma guardian_read_be [be_simps]:
  "guardian_read_u16_be b i = be16_at b i" "guardian_read_u32_be b i = be32_at b i"
  by (simp_all add: guardian_read_u16_be_def guardian_read_u32_be_def be16_at_def be32_at_def
      Let_def or.assoc)

lemma guardian_write_be [be_simps]:
  "i + 2 \<le> length b \<Longrightarrow> guardian_write_u16_be b i v = buf_write b i (be16_bytes v)"
  "i + 4 \<le> length b \<Longrightarrow> guardian_write_u32_be b i w = buf_write b i (be32_bytes w)"
  by (simp_all add: guardian_write_u16_be_def guardian_write_u32_be_def be16_bytes_def
      be32_bytes_def list_update_buf_write buf_write_adjacent)

lemma guardian_crc32_Some: "guardian_crc32 (Some b) n = crc32_block (take n b)"
  by (simp add: guardian_crc32_def crc32_block_def)

lemma length_wire_body [simp]: "length (wire_body m) = 12 + length (wm_payload m)"
  by (simp add: wire_body_def)

lemma length_wire_bytes [simp]: "length (wire_bytes m) = 16 + length (wm_payload m)"
  by (simp add: wire_bytes_def)

lemma unat_payload_length_le: "n \<le> 256 \<Longrightarrow> unat (of_nat n :: u16) = n"
  by (simp add: unat_of_nat)

lemma length_frame_payload:
  "encodable f \<Longrightarrow> length (frame_payload f) = unat (payload_length f)"
  by (simp add: encodable_def wf_frame_def frame_payload_def)

lemma wire_body_abs_frame:
  assumes "encodable f"
  shows "wire_body (abs_frame f) =
    [GUARDIAN_MAGIC_0, GUARDIAN_MAGIC_1, GUARDIAN_PROTOCOL_VERSION, ucast (message_type f),
     command f, flags f] @ be32_bytes (sequence f) @ be16_bytes (payload_length f)
     @ frame_payload f"
  using assms length_frame_payload [OF assms]
  by (simp add: wire_body_def abs_frame_def encodable_def)

lemma encode_frame_bytes_eq:
  assumes f: "encodable f" and l: "16 + unat (payload_length f) \<le> length out"
  shows "encode_frame_bytes f out = buf_write out 0 (wire_bytes (abs_frame f))"
proof -
  let ?n = "unat (payload_length f)"
  let ?hdr = "[GUARDIAN_MAGIC_0, GUARDIAN_MAGIC_1, GUARDIAN_PROTOCOL_VERSION,
     ucast (message_type f), command f, flags f]"
  have pl: "length (frame_payload f) = ?n" by (rule length_frame_payload [OF f])
  have ne: "out \<noteq> []" using l by auto
  define out3 where "out3 = guardian_write_u16_be (guardian_write_u32_be
     (out[0 := GUARDIAN_MAGIC_0, 1 := GUARDIAN_MAGIC_1, 2 := GUARDIAN_PROTOCOL_VERSION,
       3 := ucast (message_type f), 4 := command f, 5 := flags f]) 6 (sequence f)) 10
     (payload_length f)"
  have out3: "out3 = buf_write out 0 (?hdr @ be32_bytes (sequence f) @ be16_bytes (payload_length f))"
    using l ne by (simp add: out3_def guardian_write_be list_update_buf_write
        list_update_0_buf_write buf_write_adjacent [where off = 0])
  define out4 where "out4 = (if payload_length f \<noteq> 0
     then buf_write out3 12 (take ?n (payload f)) else out3)"
  have out4: "out4 = buf_write out 0 (wire_body (abs_frame f))"
    using l pl by (simp add: out4_def out3 buf_write_adjacent wire_body_abs_frame [OF f]
        frame_payload_def)
  have crc: "guardian_crc32 (Some out4) (12 + ?n) = crc32_block (wire_body (abs_frame f))"
    using pl by (simp add: guardian_crc32_Some out4 take_buf_write_0 abs_frame_def)
  have "encode_frame_bytes f out
      = guardian_write_u32_be out4 (12 + ?n) (crc32_block (wire_body (abs_frame f)))"
    unfolding crc [symmetric] out4_def out3_def encode_frame_bytes_def Let_def ..
  also have "\<dots> = buf_write out 0 (wire_bytes (abs_frame f))"
    using l pl unfolding out4
    by (simp add: guardian_write_be buf_write_adjacent wire_bytes_def abs_frame_def)
  finally show ?thesis .
qed

lemma encode_ok:
  assumes f: "encodable f" and cap: "16 + unat (payload_length f) \<le> cap" and len: "cap \<le> length out"
  shows "guardian_protocol_encode (Some f) (Some out) cap (Some n0) =
    (GUARDIAN_PROTOCOL_OK, Some (buf_write out 0 (wire_bytes (abs_frame f))),
     Some (length (wire_bytes (abs_frame f))))"
proof -
  have "length (wire_bytes (abs_frame f)) = 16 + unat (payload_length f)"
    by (simp add: abs_frame_def length_frame_payload [OF f])
  then show ?thesis
    using f cap len encode_frame_bytes_eq [OF f, of out]
    by (simp add: guardian_protocol_encode_def encodable_def Let_def)
qed

lemma decode_wire:
  assumes m: "wm_valid m" and f0: "wf_frame f0"
  shows "\<exists>f. guardian_protocol_decode (Some (wire_bytes m @ rest)) (length (wire_bytes m)) (Some f0)
           = (GUARDIAN_PROTOCOL_OK, Some f) \<and> abs_frame f = m \<and> encodable f"
proof -
  let ?n = "length (wm_payload m)"
  let ?w = "wire_bytes m @ rest"
  have n: "?n \<le> 256" using m by (simp add: wm_valid_def)
  have plen: "be16_at ?w 10 = of_nat ?n"
    by (simp add: wire_bytes_def wire_body_def buf_simps)
  have seq: "be32_at ?w 6 = wm_sequence m"
    by (simp add: wire_bytes_def wire_body_def buf_simps)
  have crc: "be32_at ?w (12 + ?n) = crc32_block (wire_body m)"
    by (simp add: wire_bytes_def buf_simps)
  have body: "take (12 + ?n) ?w = wire_body m" by (simp add: wire_bytes_def)
  have pay: "buf_read ?w 12 ?n = wm_payload m"
    by (simp add: wire_bytes_def wire_body_def buf_read_def)
  have ix: "?w ! 0 = 0x47" "?w ! 1 = 0x46" "?w ! 2 = 1" "?w ! 3 = wm_type m"
    "?w ! 4 = wm_command m" "?w ! 5 = 0"
    by (simp_all add: wire_bytes_def wire_body_def)
  define f where "f = f0\<lparr>message_type := ucast (wm_type m), command := wm_command m, flags := 0,
    sequence := wm_sequence m, payload_length := of_nat ?n,
    payload := (if (of_nat ?n :: u16) \<noteq> 0 then buf_write (payload f0) 0 (wm_payload m)
      else payload f0)\<rparr>"
  have dec: "guardian_protocol_decode (Some ?w) (length (wire_bytes m)) (Some f0)
      = (GUARDIAN_PROTOCOL_OK, Some f)"
    using m n unfolding f_def
    by (simp add: guardian_protocol_decode_def guardian_read_be Let_def plen seq crc pay ix body
        ix(2) [simplified] body [simplified] guardian_crc32_Some wm_valid_def unat_payload_length_le)
  have z: "(of_nat ?n :: u16) = 0 \<longleftrightarrow> wm_payload m = []"
    using n unat_payload_length_le [of ?n] by (auto simp: word_unat_eq_iff)
  have "abs_frame f = m"
    using n z by (simp add: abs_frame_def f_def frame_payload_def unat_payload_length_le
        take_buf_write_0)
  moreover have "encodable f"
    using m n f0 z by (simp add: encodable_def f_def wf_frame_def wm_valid_def
        unat_payload_length_le)
  ultimately show ?thesis using dec by blast
qed

lemma decode_ok_bytes:
  assumes dec: "guardian_protocol_decode (Some inp) n (Some f0) = (GUARDIAN_PROTOCOL_OK, Some f)"
    and n: "n \<le> length inp" and f0: "wf_frame f0"
  shows "encodable f \<and> take n inp = wire_bytes (abs_frame f)"
proof -
  let ?k = "unat (be16_at inp 10)"
  from dec have g: "16 \<le> n" "inp ! 0 = 0x47" "inp ! 1 = 0x46" "inp ! 2 = 1"
    "guardian_message_type_is_valid (inp ! 3)" "inp ! 5 = 0" "?k \<le> 256" "n = 16 + ?k"
    "be32_at inp (12 + ?k) = crc32_block (take (12 + ?k) inp)"
    and f: "f = f0\<lparr>message_type := ucast (inp ! 3), command := inp ! 4, flags := inp ! 5,
      sequence := be32_at inp 6, payload_length := be16_at inp 10,
      payload := (if be16_at inp 10 \<noteq> 0 then buf_write (payload f0) 0 (buf_read inp 12 ?k)
        else payload f0)\<rparr>"
    by (auto simp: guardian_protocol_decode_def guardian_read_be guardian_crc32_Some Let_def
        split: if_splits)
  have pl: "length (buf_read inp 12 ?k) = ?k" using g n by (simp add: length_buf_read)
  have fp: "frame_payload f = buf_read inp 12 ?k"
    using pl by (auto simp: f frame_payload_def take_buf_write_0)
  have enc: "encodable f"
    using g f0 pl by (auto simp: f encodable_def wf_frame_def)
  have nth: "take 12 inp = [inp ! 0, inp ! 1, inp ! 2, inp ! 3, inp ! 4, inp ! 5] @
      [inp ! 6, inp ! 7, inp ! 8, inp ! 9] @ [inp ! 10, inp ! 11]"
    using g n by (intro nth_equalityI) (auto simp: nth_Cons' less_Suc_eq numeral_eq_Suc)
  have "wire_body (abs_frame f) = take 12 inp @ buf_read inp 12 ?k"
    unfolding wire_body_abs_frame [OF enc] nth fp
    using g by (simp add: f be32_bytes_at be16_bytes_at)
  also have "\<dots> = take (12 + ?k) inp" by (simp add: buf_read_def take_add)
  finally have body: "wire_body (abs_frame f) = take (12 + ?k) inp" .
  have "be32_bytes (crc32_block (take (12 + ?k) inp)) = take 4 (drop (12 + ?k) inp)"
    unfolding g(9) [symmetric] be32_bytes_at
    using g n by (intro nth_equalityI) (auto simp: nth_Cons' less_Suc_eq numeral_eq_Suc)
  then have "wire_bytes (abs_frame f) = take (12 + ?k) inp @ take 4 (drop (12 + ?k) inp)"
    unfolding wire_bytes_def body by simp
  also have "\<dots> = take n inp" unfolding g(8) by (simp add: take_add [symmetric] del: take_take)
  finally show ?thesis using enc by simp
qed

lemma decode_error_frame:
  "guardian_protocol_decode inp n (Some f) = (r, f') \<Longrightarrow> r \<noteq> GUARDIAN_PROTOCOL_OK \<Longrightarrow> f' = Some f"
  by (auto simp: guardian_protocol_decode_def Let_def split: option.splits if_splits)

lemma decode_ok_frame:
  "guardian_protocol_decode inp n (Some f) = (GUARDIAN_PROTOCOL_OK, f') \<Longrightarrow> \<exists>g. f' = Some g"
  by (auto simp: guardian_protocol_decode_def Let_def split: option.splits if_splits)

section \<open>The CRC separates one-byte corruptions\<close>

text \<open>
  The feedback polynomial has its top bit set, so a pass of the inner loop can be undone: the
  top bit of the result tells whether the polynomial was added. The byte step is therefore a
  bijection of the accumulator for a fixed byte, and injective in the byte.
\<close>

lemma crc32_bit_step_top: "bit (crc32_bit_step c) 31 \<longleftrightarrow> bit c 0"
proof -
  have "\<not> bit c 32" using bit_imp_le_length [of c 32] by auto
  then show ?thesis
    by (simp add: crc32_bit_step_def bit_simps and_one_eq bit_0 even_iff_mod_2_eq_zero)
qed

lemma inj_crc32_bit_step: "inj crc32_bit_step"
proof (rule injI)
  fix c d assume eq: "crc32_bit_step c = crc32_bit_step d"
  then have b0: "bit c 0 = bit d 0" by (metis crc32_bit_step_top)
  have "drop_bit 1 c = drop_bit 1 d"
    using eq b0 by (auto simp: crc32_bit_step_def and_one_eq bit_0 even_iff_mod_2_eq_zero
        split: if_splits)
  show "c = d"
  proof (rule bit_word_eqI)
    fix n assume "n < LENGTH(32)"
    show "bit c n = bit d n"
    proof (cases n)
      case 0
      with b0 show ?thesis by simp
    next
      case (Suc k)
      have "bit (drop_bit 1 c) k = bit (drop_bit 1 d) k" using \<open>drop_bit 1 c = drop_bit 1 d\<close> by simp
      with Suc show ?thesis by (simp add: bit_simps)
    qed
  qed
qed

lemma crc32_bit_steps_eq: "(crc32_bit_step ^^ n) c = (crc32_bit_step ^^ n) d \<longleftrightarrow> c = d"
  by (rule inj_eq [OF inj_fn [OF inj_crc32_bit_step]])

lemma crc32_byte_step_inj_acc: "crc32_byte_step b c = crc32_byte_step b d \<Longrightarrow> c = d"
  unfolding crc32_byte_step_def crc32_bit_steps_eq by simp

lemma crc32_byte_step_inj_byte: "crc32_byte_step a c = crc32_byte_step b c \<Longrightarrow> a = b"
  unfolding crc32_byte_step_def crc32_bit_steps_eq
  by (simp, metis ucast_u8_u32_u8)

lemma fold_crc32_inj_acc: "fold crc32_byte_step bs c = fold crc32_byte_step bs d \<Longrightarrow> c = d"
  by (induction bs arbitrary: c d) (auto dest: crc32_byte_step_inj_acc)

lemma crc32_block_eq_fold:
  "crc32_block a = crc32_block b \<longleftrightarrow>
   fold crc32_byte_step a 0xFFFFFFFF = fold crc32_byte_step b 0xFFFFFFFF"
  by (simp add: crc32_block_def)

lemma crc32_block_single_byte:
  assumes "i < length bs" "x \<noteq> bs ! i"
  shows "crc32_block (bs[i := x]) \<noteq> crc32_block bs"
proof
  let ?pre = "take i bs" and ?post = "drop (Suc i) bs"
  assume "crc32_block (bs[i := x]) = crc32_block bs"
  moreover have "bs = ?pre @ bs ! i # ?post" using assms(1) by (simp add: id_take_nth_drop)
  moreover have "bs[i := x] = ?pre @ x # ?post" using assms(1) by (simp add: upd_conv_take_nth_drop)
  ultimately have "fold crc32_byte_step (?pre @ x # ?post) 0xFFFFFFFF
      = fold crc32_byte_step (?pre @ bs ! i # ?post) 0xFFFFFFFF"
    by (metis crc32_block_eq_fold)
  then have "crc32_byte_step x (fold crc32_byte_step ?pre 0xFFFFFFFF)
      = crc32_byte_step (bs ! i) (fold crc32_byte_step ?pre 0xFFFFFFFF)"
    by (auto dest: fold_crc32_inj_acc)
  with assms(2) show False by (auto dest: crc32_byte_step_inj_byte)
qed


section \<open>Codec properties\<close>

text \<open>C1: Round trip. The bytes the encoder writes for an encodable frame are decoded, into any
  caller frame, to a frame with the same type, command, sequence and payload; the encoder
  succeeds whenever the capacity suffices and touches nothing behind the frame.\<close>

theorem encode_decode_roundtrip:
  assumes "encodable f" "16 + unat (payload_length f) \<le> cap" "cap \<le> length out" "wf_frame f0"
  shows "\<exists>out' g.
    guardian_protocol_encode (Some f) (Some out) cap (Some n0)
      = (GUARDIAN_PROTOCOL_OK, Some out', Some (16 + unat (payload_length f)))
    \<and> length out' = length out
    \<and> drop (16 + unat (payload_length f)) out' = drop (16 + unat (payload_length f)) out
    \<and> guardian_protocol_decode (Some out') (16 + unat (payload_length f)) (Some f0)
      = (GUARDIAN_PROTOCOL_OK, Some g)
    \<and> abs_frame g = abs_frame f"
proof -
  let ?m = "abs_frame f" and ?n = "16 + unat (payload_length f)"
  have len: "length (wire_bytes ?m) = ?n"
    by (simp add: abs_frame_def length_frame_payload [OF assms(1)])
  have valid: "wm_valid ?m"
    using assms(1) by (simp add: wm_valid_def abs_frame_def length_frame_payload encodable_def)
  let ?out = "buf_write out 0 (wire_bytes ?m)"
  have "guardian_protocol_encode (Some f) (Some out) cap (Some n0)
      = (GUARDIAN_PROTOCOL_OK, Some ?out, Some ?n)"
    using encode_ok [OF assms(1-3)] len by simp
  moreover have "length ?out = length out" "drop ?n ?out = drop ?n out"
    using assms(2,3) len by (simp_all add: buf_write_0)
  moreover obtain g where "guardian_protocol_decode (Some ?out) ?n (Some f0)
      = (GUARDIAN_PROTOCOL_OK, Some g)" "abs_frame g = ?m"
    using decode_wire [OF valid assms(4)] len unfolding buf_write_0 by metis
  ultimately show ?thesis by blast
qed

definition sample_frame :: guardian_frame where
  "sample_frame = zero_frame\<lparr>message_type := GUARDIAN_MESSAGE_REQUEST, command := 0x15,
     sequence := 7, payload_length := 2, payload := [1, 2] @ replicate 254 0\<rparr>"

lemma encodable_sample [simp]: "encodable sample_frame" "payload_length sample_frame = 2"
  by (simp_all add: encodable_def sample_frame_def zero_frame_def wf_frame_def guardian_message_type_is_valid_def)

lemma wf_zero_frame [simp]: "wf_frame zero_frame"
  by (simp add: wf_frame_def zero_frame_def)

theorem encode_decode_roundtrip_witness:
  "\<exists>out' g.
    guardian_protocol_encode (Some sample_frame) (Some (replicate 272 0)) 272 (Some 0)
      = (GUARDIAN_PROTOCOL_OK, Some out', Some 18)
    \<and> guardian_protocol_decode (Some out') 18 (Some zero_frame) = (GUARDIAN_PROTOCOL_OK, Some g)
    \<and> abs_frame g = abs_frame sample_frame"
  using encode_decode_roundtrip [of sample_frame 272 "replicate 272 0" zero_frame 0] by auto

text \<open>The wire format is canonical. Whatever byte string the decoder accepts is exactly what
  the encoder produces for the decoded frame, so no two byte strings carry the same message.\<close>

theorem decode_encode_canonical:
  assumes "guardian_protocol_decode (Some inp) n (Some f0) = (GUARDIAN_PROTOCOL_OK, Some f)"
    "n \<le> length inp" "wf_frame f0" "n \<le> cap" "cap \<le> length out"
  shows "\<exists>out'. guardian_protocol_encode (Some f) (Some out) cap (Some n0)
      = (GUARDIAN_PROTOCOL_OK, Some out', Some n) \<and> take n out' = take n inp"
proof -
  from decode_ok_bytes [OF assms(1-3)]
  have ok: "encodable f" "take n inp = wire_bytes (abs_frame f)" by auto
  then have n: "n = length (wire_bytes (abs_frame f))" "n = 16 + unat (payload_length f)"
    using assms(2) length_frame_payload [OF ok(1)] by (auto dest: arg_cong [where f = length] simp: abs_frame_def)
  have "guardian_protocol_encode (Some f) (Some out) cap (Some n0)
      = (GUARDIAN_PROTOCOL_OK, Some (buf_write out 0 (wire_bytes (abs_frame f))), Some n)"
    using encode_ok [OF ok(1) _ assms(5), of n0] assms(4) n by simp
  moreover have "take n (buf_write out 0 (wire_bytes (abs_frame f))) = take n inp"
    using n ok(2) by (simp add: buf_write_0)
  ultimately show ?thesis by blast
qed

text \<open>The wire image of an empty PING request, as the decoder sees it.\<close>

definition sample_wire :: "u8 list" where
  "sample_wire = wire_bytes \<lparr>wm_type = 1, wm_command = 1, wm_sequence = 9, wm_payload = []\<rparr>"

lemma sample_wire_decodes:
  "length sample_wire = 16"
  "guardian_protocol_decode (Some sample_wire) 16 (Some zero_frame)
     = (GUARDIAN_PROTOCOL_OK, Some (zero_frame\<lparr>message_type := 1, command := 1, sequence := 9\<rparr>))"
  by (simp add: sample_wire_def)
    (simp add: sample_wire_def guardian_protocol_decode_def guardian_read_be guardian_crc32_Some
      wire_bytes_def wire_body_def buf_simps guardian_message_type_is_valid_def zero_frame_def)

theorem decode_encode_canonical_witness:
  "\<exists>f out'.
     guardian_protocol_decode (Some sample_wire) 16 (Some zero_frame)
       = (GUARDIAN_PROTOCOL_OK, Some f)
     \<and> guardian_protocol_encode (Some f) (Some (replicate 272 0)) 272 (Some 0)
       = (GUARDIAN_PROTOCOL_OK, Some out', Some 16) \<and> take 16 out' = sample_wire"
  using decode_encode_canonical [OF sample_wire_decodes(2), of 272 "replicate 272 0" 0]
    sample_wire_decodes by auto

text \<open>C3: Corruption detection. If one byte of an encoded frame is replaced by a different value,
  wherever it is (header, length, payload or CRC), the decoder never reports success.\<close>

theorem single_byte_corruption_rejected:
  assumes m: "wm_valid m" and i: "i < length (wire_bytes m)" and x: "x \<noteq> wire_bytes m ! i"
    and f0: "wf_frame f0"
  shows "fst (guardian_protocol_decode (Some ((wire_bytes m)[i := x])) (length (wire_bytes m)) (Some f0))
    \<noteq> GUARDIAN_PROTOCOL_OK"
proof
  let ?w = "wire_bytes m"
  assume "fst (guardian_protocol_decode (Some (?w[i := x])) (length ?w) (Some f0)) = GUARDIAN_PROTOCOL_OK"
  then obtain g where "guardian_protocol_decode (Some (?w[i := x])) (length ?w) (Some f0)
      = (GUARDIAN_PROTOCOL_OK, Some g)"
    by (metis decode_ok_frame prod.collapse)
  from decode_ok_bytes [OF this _ f0] have eq: "?w[i := x] = wire_bytes (abs_frame g)" by simp
  let ?b = "wire_body m" and ?b' = "wire_body (abs_frame g)"
  have len: "length ?b' = length ?b" using arg_cong [OF eq, of length] by simp
  show False
  proof (cases "i < length ?b")
    case True
    then have "?b[i := x] @ be32_bytes (crc32_block ?b) = ?b' @ be32_bytes (crc32_block ?b')"
      using eq by (simp add: wire_bytes_def list_update_append)
    then have "?b[i := x] = ?b'" "crc32_block ?b = crc32_block ?b'" using len by simp_all
    moreover have "x \<noteq> ?b ! i"
      using x True by (simp add: wire_bytes_def nth_append del: length_wire_body)
    ultimately show False using crc32_block_single_byte [OF True] by metis
  next
    case False
    then have "?w[i := x] = ?b @ (be32_bytes (crc32_block ?b))[i - length ?b := x]"
      by (simp add: wire_bytes_def list_update_append del: length_wire_body)
    with eq have "?b @ (be32_bytes (crc32_block ?b))[i - length ?b := x]
        = ?b' @ be32_bytes (crc32_block ?b')"
      by (simp only: wire_bytes_def)
    then have "?b = ?b'" using len by (metis append_eq_append_conv)
    then have "wire_bytes (abs_frame g) = ?w" by (simp add: wire_bytes_def)
    then show False using eq x i by (metis nth_list_update_eq)
  qed
qed

theorem single_byte_corruption_rejected_witness:
  "fst (guardian_protocol_decode (Some (sample_wire[14 := sample_wire ! 14 XOR 1])) 16
     (Some zero_frame)) \<noteq> GUARDIAN_PROTOCOL_OK"
proof -
  have "y XOR 1 \<noteq> y" for y :: u8 by (metis xor.right_neutral xor_cancel_word(2) zero_neq_one)
  with single_byte_corruption_rejected [of "\<lparr>wm_type = 1, wm_command = 1, wm_sequence = 9, wm_payload = []\<rparr>"
      14 "sample_wire ! 14 XOR 1" zero_frame]
  show ?thesis
    by (simp add: sample_wire_def [symmetric] sample_wire_decodes(1) wm_valid_def
        guardian_message_type_is_valid_def)
qed

section \<open>Request handlers\<close>

lemma error_frame_answers:
  "wf_frame resp \<Longrightarrow> answers req (resp\<lparr>message_type := GUARDIAN_MESSAGE_ERROR, command := command req,
     flags := GUARDIAN_SUPPORTED_FLAGS, sequence := sequence req, payload_length := 1, payload := (payload resp)[0 := e]\<rparr>)"
  by (simp add: answers_def encodable_def wf_frame_def guardian_message_type_is_valid_def)

lemma response_frame_answers:
  "length pl = 256 \<Longrightarrow> unat n \<le> 223 \<Longrightarrow>
   answers req (resp\<lparr>message_type := GUARDIAN_MESSAGE_RESPONSE, command := command req,
     flags := GUARDIAN_SUPPORTED_FLAGS, sequence := sequence req, payload_length := n, payload := pl\<rparr>)"
  by (simp add: answers_def encodable_def wf_frame_def guardian_message_type_is_valid_def)

text \<open>
  The contract every component with host commands keeps towards the link: a request is handled
  without a protocol failure, the component stays in a good state, and the frame it filled in
  answers the request.  A client of the contract knows that the answer reaches the host.
\<close>

locale frame_service =
  fixes good :: "'s \<Rightarrow> bool"
    and handle :: "'s \<Rightarrow> guardian_frame \<Rightarrow> guardian_frame \<Rightarrow> guardian_protocol_result \<times> 's \<times> guardian_frame"
  assumes handled: "good s \<Longrightarrow> wf_frame resp \<Longrightarrow> handle s req resp = (r, s', resp') \<Longrightarrow>
      r = GUARDIAN_PROTOCOL_OK \<and> good s' \<and> answers req resp'"
begin

lemma answer_travels:
  assumes "good s" "wf_frame resp" "handle s req resp = (r, s', resp')" "wf_frame f0"
  shows "\<exists>g. guardian_protocol_decode (Some (wire_bytes (abs_frame resp'))) (length (wire_bytes (abs_frame resp'))) (Some f0)
      = (GUARDIAN_PROTOCOL_OK, Some g) \<and> abs_frame g = abs_frame resp'"
proof -
  have "answers req resp'" using handled[OF assms(1-3)] by simp
  then have "wm_valid (abs_frame resp')"
    using length_frame_payload[of resp'] by (simp add: answers_def wm_valid_def abs_frame_def encodable_def)
  then show ?thesis using decode_wire[OF _ assms(4), where rest = "[]"] by fastforce
qed

end

end
