(* ===== verification/Guardian_Parser.thy ===== *)
theory Guardian_Parser
  imports Guardian_Protocol
begin

text \<open>
  The incremental byte parser of \<open>firmware/Protocol/Src/guardian_parser.c\<close>: its state record,
  its three-state switch (with the recovery branch for a corrupted state value), and the run of
  the parser over a byte stream. The lemmas show that the bounded buffer is never overrun, that
  every frame the parser reports stands in the stream, that a stream of encoded frames is
  delivered completely and in order, and that the parser returns to synchronization.
\<close>

section \<open>Model\<close>

datatype guardian_parser_result =
    GUARDIAN_PARSER_NO_FRAME | GUARDIAN_PARSER_FRAME_READY
  | GUARDIAN_PARSER_ERROR_CRC | GUARDIAN_PARSER_ERROR_PROTOCOL | GUARDIAN_PARSER_ERROR_OVERSIZE

text \<open>\<open>GUARDIAN_PARSER_OTHER\<close> stands for a state value outside the enumeration (the
  \<open>default\<close> branch of the switch).\<close>

datatype guardian_parser_state =
    GUARDIAN_PARSER_WAIT_MAGIC_0 | GUARDIAN_PARSER_WAIT_MAGIC_1 | GUARDIAN_PARSER_READ_FRAME
  | GUARDIAN_PARSER_OTHER c_enum

record guardian_parser =
  p_state :: guardian_parser_state
  p_buffer :: "u8 list"
  p_index :: nat
  p_expected_size :: nat
  p_frames_received :: u32
  p_crc_errors :: u32
  p_protocol_errors :: u32
  p_oversize_errors :: u32
  p_last_protocol_result :: guardian_protocol_result

definition guardian_parser_read_u16_be :: "u8 list \<Rightarrow> nat \<Rightarrow> u16" where
  "guardian_parser_read_u16_be input i =
     (let high = push_bit 8 (ucast (input ! i) :: u16); low = ucast (input ! (i + 1))
      in high OR low)"

definition guardian_parser_return_to_sync :: "guardian_parser \<Rightarrow> guardian_parser" where
  "guardian_parser_return_to_sync p =
     p\<lparr>p_state := GUARDIAN_PARSER_WAIT_MAGIC_0, p_index := 0, p_expected_size := 0\<rparr>"

text \<open>Initialization does not touch the buffer bytes.\<close>

definition guardian_parser_init :: "guardian_parser ptr \<Rightarrow> guardian_parser ptr" where
  "guardian_parser_init parser =
     (case parser of
        None \<Rightarrow> None
      | Some p \<Rightarrow> Some (p\<lparr>p_state := GUARDIAN_PARSER_WAIT_MAGIC_0, p_index := 0,
          p_expected_size := 0, p_frames_received := 0, p_crc_errors := 0,
          p_protocol_errors := 0, p_oversize_errors := 0,
          p_last_protocol_result := GUARDIAN_PROTOCOL_OK\<rparr>))"

definition guardian_parser_reset_stream :: "guardian_parser ptr \<Rightarrow> guardian_parser ptr" where
  "guardian_parser_reset_stream parser = map_option guardian_parser_return_to_sync parser"

text \<open>The end of the collection branch: decode the complete candidate and classify the result.
  The decoder is called on the parser's own buffer and on the caller's frame.\<close>

definition parser_finish ::
  "guardian_parser \<Rightarrow> guardian_frame \<Rightarrow> guardian_parser_result \<times> guardian_parser \<times> guardian_frame" where
  "parser_finish p frame =
     (case guardian_protocol_decode (Some (p_buffer p)) (p_expected_size p) (Some frame) of
        (decode_result, frame') \<Rightarrow>
          let p1 = guardian_parser_return_to_sync (p\<lparr>p_last_protocol_result := decode_result\<rparr>) in
          if decode_result = GUARDIAN_PROTOCOL_OK
          then (GUARDIAN_PARSER_FRAME_READY,
                p1\<lparr>p_frames_received := p_frames_received p1 + 1\<rparr>, the frame')
          else if decode_result = GUARDIAN_PROTOCOL_ERROR_CRC
          then (GUARDIAN_PARSER_ERROR_CRC, p1\<lparr>p_crc_errors := p_crc_errors p1 + 1\<rparr>, the frame')
          else (GUARDIAN_PARSER_ERROR_PROTOCOL,
                p1\<lparr>p_protocol_errors := p_protocol_errors p1 + 1\<rparr>, the frame'))"

text \<open>The collection branch of the switch.\<close>

definition parser_collect ::
  "guardian_parser \<Rightarrow> u8 \<Rightarrow> guardian_frame
     \<Rightarrow> guardian_parser_result \<times> guardian_parser \<times> guardian_frame" where
  "parser_collect p b frame =
     (if p_index p \<ge> GUARDIAN_MAX_FRAME_SIZE
      then (GUARDIAN_PARSER_ERROR_OVERSIZE,
            guardian_parser_return_to_sync (p\<lparr>p_oversize_errors := p_oversize_errors p + 1\<rparr>), frame)
      else
        let p1 = p\<lparr>p_buffer := (p_buffer p)[p_index p := b], p_index := p_index p + 1\<rparr>;
            plen = unat (guardian_parser_read_u16_be (p_buffer p1) GUARDIAN_OFFSET_PAYLOAD_LENGTH)
        in
        if p_index p1 = GUARDIAN_HEADER_SIZE \<and> plen > GUARDIAN_MAX_PAYLOAD_SIZE
        then (GUARDIAN_PARSER_ERROR_OVERSIZE,
              guardian_parser_return_to_sync
                (p1\<lparr>p_oversize_errors := p_oversize_errors p1 + 1,
                   p_last_protocol_result := GUARDIAN_PROTOCOL_ERROR_PAYLOAD_TOO_LARGE\<rparr>), frame)
        else
          let p2 = (if p_index p1 = GUARDIAN_HEADER_SIZE
                    then p1\<lparr>p_expected_size := GUARDIAN_HEADER_SIZE + plen + GUARDIAN_CRC_SIZE\<rparr>
                    else p1)
          in
          if p_expected_size p2 = 0 \<or> p_index p2 < p_expected_size p2
          then (GUARDIAN_PARSER_NO_FRAME, p2, frame)
          else parser_finish p2 frame)"

text \<open>The switch over the parser state, for non-NULL arguments.\<close>

definition parser_push ::
  "guardian_parser \<Rightarrow> u8 \<Rightarrow> guardian_frame
     \<Rightarrow> guardian_parser_result \<times> guardian_parser \<times> guardian_frame" where
  "parser_push p b frame =
     (case p_state p of
        GUARDIAN_PARSER_WAIT_MAGIC_0 \<Rightarrow>
          (GUARDIAN_PARSER_NO_FRAME,
           if b = GUARDIAN_MAGIC_0
           then p\<lparr>p_buffer := (p_buffer p)[0 := b], p_index := 1,
                  p_state := GUARDIAN_PARSER_WAIT_MAGIC_1\<rparr>
           else p, frame)
      | GUARDIAN_PARSER_WAIT_MAGIC_1 \<Rightarrow>
          (GUARDIAN_PARSER_NO_FRAME,
           if b = GUARDIAN_MAGIC_1
           then p\<lparr>p_buffer := (p_buffer p)[1 := b], p_index := 2,
                  p_state := GUARDIAN_PARSER_READ_FRAME\<rparr>
           else if b = GUARDIAN_MAGIC_0
           then p\<lparr>p_buffer := (p_buffer p)[0 := b], p_index := 1\<rparr>
           else guardian_parser_return_to_sync p, frame)
      | GUARDIAN_PARSER_READ_FRAME \<Rightarrow> parser_collect p b frame
      | GUARDIAN_PARSER_OTHER _ \<Rightarrow>
          (GUARDIAN_PARSER_ERROR_PROTOCOL,
           guardian_parser_return_to_sync (p\<lparr>p_protocol_errors := p_protocol_errors p + 1\<rparr>),
           frame))"

definition guardian_parser_push_byte ::
  "guardian_parser ptr \<Rightarrow> u8 \<Rightarrow> guardian_frame ptr
     \<Rightarrow> guardian_parser_result \<times> guardian_parser ptr \<times> guardian_frame ptr" where
  "guardian_parser_push_byte parser b frame =
     (case (parser, frame) of
        (Some p, Some f) \<Rightarrow>
          (case parser_push p b f of (r, p', f') \<Rightarrow> (r, Some p', Some f'))
      | _ \<Rightarrow> (GUARDIAN_PARSER_ERROR_PROTOCOL, parser, frame))"

text \<open>A receive loop: push the bytes of a stream one by one and keep the frames reported ready.\<close>

fun parser_feed ::
  "guardian_parser \<Rightarrow> guardian_frame \<Rightarrow> u8 list
     \<Rightarrow> guardian_frame list \<times> guardian_parser \<times> guardian_frame" where
  "parser_feed p f [] = ([], p, f)"
| "parser_feed p f (b # bs) =
     (case guardian_parser_push_byte (Some p) b (Some f) of
        (r, p', f') \<Rightarrow>
          (case parser_feed (the p') (the f') bs of
             (fs, rest) \<Rightarrow>
               (if r = GUARDIAN_PARSER_FRAME_READY then the f' # fs else fs, rest)))"

section \<open>Invariant\<close>

text \<open>The candidate bytes collected so far.\<close>

definition candidate :: "guardian_parser \<Rightarrow> u8 list" where
  "candidate p = take (p_index p) (p_buffer p)"

text \<open>The buffer has its declared size, the index stays inside it, and in the collection state
  the expected size is the one declared by the header once the header is complete.\<close>

definition parser_inv :: "guardian_parser \<Rightarrow> bool" where
  "parser_inv p \<longleftrightarrow> length (p_buffer p) = GUARDIAN_MAX_FRAME_SIZE \<and>
     (case p_state p of
        GUARDIAN_PARSER_WAIT_MAGIC_0 \<Rightarrow> p_index p = 0 \<and> p_expected_size p = 0
      | GUARDIAN_PARSER_WAIT_MAGIC_1 \<Rightarrow>
          p_index p = 1 \<and> p_expected_size p = 0 \<and> p_buffer p ! 0 = GUARDIAN_MAGIC_0
      | GUARDIAN_PARSER_READ_FRAME \<Rightarrow>
          2 \<le> p_index p \<and> p_buffer p ! 0 = GUARDIAN_MAGIC_0 \<and> p_buffer p ! 1 = GUARDIAN_MAGIC_1 \<and>
          (if p_index p < GUARDIAN_HEADER_SIZE then p_expected_size p = 0
           else p_expected_size p = 16 + unat (be16_at (p_buffer p) 10) \<and>
             p_expected_size p \<le> GUARDIAN_MAX_FRAME_SIZE \<and> p_index p < p_expected_size p)
      | GUARDIAN_PARSER_OTHER _ \<Rightarrow> False)"

abbreviation synced :: "guardian_parser \<Rightarrow> bool" where
  "synced p \<equiv> parser_inv p \<and> p_state p = GUARDIAN_PARSER_WAIT_MAGIC_0"

lemma encodable_wf [simp]: "encodable f \<Longrightarrow> wf_frame f"
  by (simp add: encodable_def)

lemma guardian_parser_read_be [be_simps]: "guardian_parser_read_u16_be b i = be16_at b i"
  by (simp add: guardian_parser_read_u16_be_def be16_at_def Let_def)

lemma push_byte_Some:
  "guardian_parser_push_byte (Some p) b (Some f) =
     (case parser_push p b f of (r, p', f') \<Rightarrow> (r, Some p', Some f'))"
  by (simp add: guardian_parser_push_byte_def)

lemma candidate_append:
  "p_index p < length (p_buffer p) \<Longrightarrow>
   candidate (p\<lparr>p_buffer := (p_buffer p)[p_index p := b], p_index := p_index p + 1\<rparr>) = candidate p @ [b]"
  by (simp add: candidate_def take_Suc_conv_app_nth)

lemma synced_return_to_sync:
  "length (p_buffer p) = 272 \<Longrightarrow>
   synced (guardian_parser_return_to_sync p) \<and> candidate (guardian_parser_return_to_sync p) = []"
  by (simp add: guardian_parser_return_to_sync_def parser_inv_def candidate_def)

text \<open>The four things a byte can do to the parser: extend the candidate, drop it, restart it,
  or complete it as a frame. The candidate and the new byte spell the frame that is reported.\<close>

definition push_outcome ::
  "guardian_parser \<Rightarrow> u8 \<Rightarrow> guardian_frame
     \<Rightarrow> guardian_parser_result \<Rightarrow> guardian_parser \<Rightarrow> guardian_frame \<Rightarrow> bool" where
  "push_outcome p b f r p' f' \<longleftrightarrow>
     (r = GUARDIAN_PARSER_NO_FRAME \<and> candidate p' = candidate p @ [b] \<and> f' = f)
   \<or> (r \<noteq> GUARDIAN_PARSER_FRAME_READY \<and> candidate p' = [] \<and> synced p' \<and> f' = f)
   \<or> (r = GUARDIAN_PARSER_NO_FRAME \<and> p_index p = 1 \<and> candidate p' = [b] \<and> f' = f)
   \<or> (r = GUARDIAN_PARSER_FRAME_READY \<and> synced p' \<and> candidate p' = [] \<and> encodable f' \<and>
      candidate p @ [b] = wire_bytes (abs_frame f'))"

lemma parser_finish_outcome:
  assumes fin: "parser_finish q f = (r, p', f')" and len: "length (p_buffer q) = 272"
    and ix: "p_index q = p_expected_size q" "p_expected_size q \<le> 272"
    and cand: "candidate q = candidate p @ [b]" and f: "wf_frame f"
  shows "parser_inv p' \<and> wf_frame f' \<and> push_outcome p b f r p' f'"
proof -
  obtain dr g where dec: "guardian_protocol_decode (Some (p_buffer q)) (p_expected_size q) (Some f) = (dr, g)"
    by fastforce
  let ?p1 = "guardian_parser_return_to_sync (q\<lparr>p_last_protocol_result := dr\<rparr>)"
  have sync: "synced (?p1\<lparr>p_frames_received := x\<rparr>)" "synced (?p1\<lparr>p_crc_errors := x\<rparr>)"
    "synced (?p1\<lparr>p_protocol_errors := x\<rparr>)" "candidate (?p1\<lparr>p_frames_received := x\<rparr>) = []"
    "candidate (?p1\<lparr>p_crc_errors := x\<rparr>) = []" "candidate (?p1\<lparr>p_protocol_errors := x\<rparr>) = []" for x
    using len by (simp_all add: guardian_parser_return_to_sync_def parser_inv_def candidate_def)
  show ?thesis
  proof (cases "dr = GUARDIAN_PROTOCOL_OK")
    case True
    with dec obtain h where h: "g = Some h" by (auto dest: decode_ok_frame)
    from decode_ok_bytes [OF _ _ f] dec True h len ix
    have ok: "encodable h" "take (p_expected_size q) (p_buffer q) = wire_bytes (abs_frame h)" by auto
    then have "candidate p @ [b] = wire_bytes (abs_frame h)"
      using cand ix by (simp add: candidate_def)
    with fin dec True h ok sync show ?thesis
      by (auto simp: parser_finish_def push_outcome_def Let_def)
  next
    case False
    with dec have "g = Some f" by (auto dest: decode_error_frame)
    with fin dec False f sync show ?thesis
      by (auto simp: parser_finish_def push_outcome_def Let_def split: if_splits)
  qed
qed

text \<open>The collection branch when the bounds check passes, with the byte appended.\<close>

abbreviation (input) appended :: "guardian_parser \<Rightarrow> u8 \<Rightarrow> guardian_parser" where
  "appended p b \<equiv> p\<lparr>p_buffer := (p_buffer p)[p_index p := b], p_index := p_index p + 1\<rparr>"

lemma parser_collect_eq:
  assumes "p_index p < 272"
  shows "parser_collect p b f =
    (let q = appended p b; n = unat (be16_at (p_buffer q) 10) in
     if p_index p + 1 = 12 \<and> n > 256
     then (GUARDIAN_PARSER_ERROR_OVERSIZE, guardian_parser_return_to_sync
       (q\<lparr>p_oversize_errors := p_oversize_errors q + 1,
          p_last_protocol_result := GUARDIAN_PROTOCOL_ERROR_PAYLOAD_TOO_LARGE\<rparr>), f)
     else let q2 = (if p_index p + 1 = 12 then q\<lparr>p_expected_size := 16 + n\<rparr> else q) in
       if p_expected_size q2 = 0 \<or> p_index p + 1 < p_expected_size q2
       then (GUARDIAN_PARSER_NO_FRAME, q2, f) else parser_finish q2 f)"
  using assms by (simp add: parser_collect_def guardian_parser_read_be Let_def)

lemma parser_collect_outcome:
  assumes inv: "parser_inv p" "p_state p = GUARDIAN_PARSER_READ_FRAME" and f: "wf_frame f"
    and push: "parser_collect p b f = (r, p', f')"
  shows "parser_inv p' \<and> wf_frame f' \<and> push_outcome p b f r p' f'"
proof -
  let ?q = "p\<lparr>p_buffer := (p_buffer p)[p_index p := b], p_index := p_index p + 1\<rparr>"
  let ?n = "unat (be16_at (p_buffer ?q) 10)"
  have len: "length (p_buffer p) = 272" and magic: "2 \<le> p_index p" "p_buffer p ! 0 = 0x47"
    "p_buffer p ! 1 = 0x46" and ix: "p_index p < 272"
    using inv by (auto simp: parser_inv_def split: if_splits)
  have cand: "candidate ?q = candidate p @ [b]" using candidate_append [of p b] ix len by simp
  note st = parser_collect_eq [OF ix, of b f]
  consider (short) "p_index p + 1 < 12" | (header) "p_index p + 1 = 12" | (long) "12 \<le> p_index p"
    by linarith
  then show ?thesis
  proof cases
    case short
    then have "p_expected_size p = 0" using inv by (simp add: parser_inv_def)
    with short st push have "r = GUARDIAN_PARSER_NO_FRAME" "p' = ?q" "f' = f"
      by (simp_all add: Let_def)
    moreover have "parser_inv ?q"
      using inv short len magic by (simp add: parser_inv_def nth_list_update)
    ultimately show ?thesis using f cand by (simp add: push_outcome_def)
  next
    case header
    let ?q2 = "?q\<lparr>p_expected_size := 16 + ?n\<rparr>"
    show ?thesis
    proof (cases "?n > 256")
      case True
      with header st push f len show ?thesis
        by (auto simp: push_outcome_def guardian_parser_return_to_sync_def parser_inv_def
            candidate_def Let_def)
    next
      case False
      then have "r = GUARDIAN_PARSER_NO_FRAME" "p' = ?q2" "f' = f"
        using header st push by (simp_all add: Let_def)
      moreover have "parser_inv ?q2"
        using inv header len magic False by (simp add: parser_inv_def nth_list_update)
      moreover have "candidate ?q2 = candidate p @ [b]" using cand by (simp add: candidate_def)
      ultimately show ?thesis using f by (simp add: push_outcome_def)
    qed
  next
    case long
    then have e: "p_expected_size p = 16 + unat (be16_at (p_buffer p) 10)"
      "p_expected_size p \<le> 272" "p_index p < p_expected_size p"
      using inv by (simp_all add: parser_inv_def)
    have be: "be16_at (p_buffer ?q) 10 = be16_at (p_buffer p) 10"
      using long by (simp add: be16_at_list_update)
    show ?thesis
    proof (cases "p_index p + 1 < p_expected_size p")
      case True
      with long e st push have "r = GUARDIAN_PARSER_NO_FRAME" "p' = ?q" "f' = f"
        by (simp_all add: Let_def)
      moreover have "parser_inv ?q"
        using inv long len magic e True be by (simp add: parser_inv_def nth_list_update)
      ultimately show ?thesis using f cand by (simp add: push_outcome_def)
    next
      case False
      with long e st push have "parser_finish ?q f = (r, p', f')" by (simp add: Let_def)
      then show ?thesis
        by (rule parser_finish_outcome) (use len e False cand f in auto)
    qed
  qed
qed

lemma parser_push_outcome:
  assumes inv: "parser_inv p" and f: "wf_frame f" and push: "parser_push p b f = (r, p', f')"
  shows "parser_inv p' \<and> wf_frame f' \<and> push_outcome p b f r p' f'"
proof (cases "p_state p")
  case GUARDIAN_PARSER_WAIT_MAGIC_0
  then have "length (p_buffer p) = 272" using inv by (simp add: parser_inv_def)
  then obtain x bs where "p_buffer p = x # bs" by (cases "p_buffer p") auto
  with GUARDIAN_PARSER_WAIT_MAGIC_0 assms show ?thesis
    by (auto simp: parser_push_def push_outcome_def parser_inv_def candidate_def split: if_splits)
next
  case GUARDIAN_PARSER_WAIT_MAGIC_1
  then have pre: "p_index p = 1" "p_expected_size p = 0" "p_buffer p ! 0 = 0x47"
      "length (p_buffer p) = 272"
    using inv by (simp_all add: parser_inv_def)
  then obtain x y bs where bs: "p_buffer p = x # y # bs"
    by (cases "p_buffer p"; cases "tl (p_buffer p)") auto
  from GUARDIAN_PARSER_WAIT_MAGIC_1 pre bs f push show ?thesis
    by (auto simp: parser_push_def push_outcome_def parser_inv_def candidate_def
        guardian_parser_return_to_sync_def split: if_splits)
next
  case GUARDIAN_PARSER_READ_FRAME
  with push have "parser_collect p b f = (r, p', f')" by (simp add: parser_push_def)
  with GUARDIAN_PARSER_READ_FRAME show ?thesis by (rule parser_collect_outcome [OF inv _ f])
next
  case (GUARDIAN_PARSER_OTHER x)
  with inv show ?thesis by (simp add: parser_inv_def)
qed


lemma push_byte_outcome:
  assumes "parser_inv p" "wf_frame f" "guardian_parser_push_byte (Some p) b (Some f) = (r, p', f')"
  obtains q g where "p' = Some q" "f' = Some g" "parser_push p b f = (r, q, g)" "parser_inv q" "wf_frame g"
    "push_outcome p b f r q g"
  using assms parser_push_outcome [OF assms(1,2)]
  by (auto simp: push_byte_Some split: prod.splits)

lemma parser_feed_Cons:
  "parser_feed p f (b # bs) =
     (case parser_push p b f of (r, q, g) \<Rightarrow>
        (case parser_feed q g bs of (fs, rest) \<Rightarrow>
           (if r = GUARDIAN_PARSER_FRAME_READY then g # fs else fs, rest)))"
  by (simp add: push_byte_Some split: prod.splits)

declare parser_feed.simps(2) [simp del]

lemma parser_feed_append:
  "parser_feed p f (xs @ ys) =
     (case parser_feed p f xs of (fs, q, g) \<Rightarrow>
        (case parser_feed q g ys of (gs, rest) \<Rightarrow> (fs @ gs, rest)))"
  by (induction xs arbitrary: p f) (auto simp: parser_feed_Cons split: prod.splits)

lemma parser_feed_inv:
  "parser_inv p \<Longrightarrow> wf_frame f \<Longrightarrow> parser_feed p f bs = (fs, q, g) \<Longrightarrow>
   parser_inv q \<and> wf_frame g"
proof (induction bs arbitrary: p f fs)
  case (Cons b bs)
  obtain r p1 f1 fs1 where "parser_push p b f = (r, p1, f1)" "parser_feed p1 f1 bs = (fs1, q, g)"
    using Cons.prems(3) by (auto simp: parser_feed_Cons split: prod.splits)
  with Cons.IH [of p1 f1] parser_push_outcome [OF Cons.prems(1,2)] show ?case by blast
qed simp

section \<open>Soundness: every reported frame stands in the stream\<close>

text \<open>\<open>interleaved fs bs\<close>: the wire images of the frames \<open>fs\<close> occur in \<open>bs\<close> in this order,
  without overlap.\<close>

inductive interleaved :: "guardian_frame list \<Rightarrow> u8 list \<Rightarrow> bool" where
  interleaved_Nil: "interleaved [] gap"
| interleaved_Cons:
    "encodable f \<Longrightarrow> interleaved fs rest \<Longrightarrow>
     interleaved (f # fs) (gap @ wire_bytes (abs_frame f) @ rest)"

inductive_cases interleaved_ConsE: "interleaved (f # fs) bs"

lemma interleaved_prefix: "interleaved fs bs \<Longrightarrow> interleaved fs (xs @ bs)"
proof (induction rule: interleaved.induct)
  case (interleaved_Cons f fs rest gap)
  then show ?case using interleaved.interleaved_Cons [of f fs rest "xs @ gap"] by simp
qed (rule interleaved_Nil)

lemma feed_interleaved:
  "parser_inv p \<Longrightarrow> wf_frame f \<Longrightarrow> parser_feed p f bs = (fs, q, g) \<Longrightarrow>
   interleaved fs (candidate p @ bs)"
proof (induction bs arbitrary: p f fs)
  case Nil
  then show ?case by (auto intro: interleaved_Nil)
next
  case (Cons b bs)
  obtain r p1 f1 fs1 where push: "parser_push p b f = (r, p1, f1)"
    and rest: "parser_feed p1 f1 bs = (fs1, q, g)"
    and fs: "fs = (if r = GUARDIAN_PARSER_FRAME_READY then f1 # fs1 else fs1)"
    using Cons.prems(3) by (auto simp: parser_feed_Cons split: prod.splits)
  from parser_push_outcome [OF Cons.prems(1,2) push]
  have inv: "parser_inv p1" "wf_frame f1" and out: "push_outcome p b f r p1 f1" by auto
  note IH = Cons.IH [OF inv rest]
  from out show ?case
    unfolding push_outcome_def
  proof (elim disjE conjE)
    assume "r = GUARDIAN_PARSER_NO_FRAME" "candidate p1 = candidate p @ [b]"
    then show ?thesis using IH fs by simp
  next
    assume "r \<noteq> GUARDIAN_PARSER_FRAME_READY" "candidate p1 = []"
    then show ?thesis using interleaved_prefix [OF IH, of "candidate p @ [b]"] fs by simp
  next
    assume "r = GUARDIAN_PARSER_NO_FRAME" "candidate p1 = [b]"
    then show ?thesis using interleaved_prefix [OF IH, of "candidate p"] fs by simp
  next
    assume "r = GUARDIAN_PARSER_FRAME_READY" "candidate p1 = []" "encodable f1"
      "candidate p @ [b] = wire_bytes (abs_frame f1)"
    then show ?thesis
      using interleaved_Cons [of f1 fs1 bs "[]"] IH fs by (metis append.left_neutral append_assoc append_Cons)
  qed
qed

section \<open>Delivery: encoded frames are received\<close>

text \<open>While the bytes of an encoded frame arrive, the candidate is the prefix received so far.\<close>

lemma index_of_state:
  assumes "parser_inv p"
  shows "p_state p = GUARDIAN_PARSER_WAIT_MAGIC_0 \<longleftrightarrow> p_index p = 0"
    "p_state p = GUARDIAN_PARSER_WAIT_MAGIC_1 \<longleftrightarrow> p_index p = 1"
    "p_state p = GUARDIAN_PARSER_READ_FRAME \<longleftrightarrow> 2 \<le> p_index p"
  using assms by (auto simp: parser_inv_def split: guardian_parser_state.splits)

lemma wire_bytes_length_field: "be16_at (wire_bytes m) 10 = of_nat (length (wm_payload m))"
  by (simp add: wire_bytes_def wire_body_def buf_simps)

lemma wire_bytes_magic: "wire_bytes m ! 0 = GUARDIAN_MAGIC_0" "wire_bytes m ! 1 = GUARDIAN_MAGIC_1"
  by (simp_all add: wire_bytes_def wire_body_def)

lemma candidate_length_field:
  assumes "candidate q = take (p_index q) (wire_bytes m)" "12 \<le> p_index q" "wm_valid m"
  shows "unat (be16_at (p_buffer q) 10) = length (wm_payload m)"
proof -
  have "be16_at (p_buffer q) 10 = be16_at (candidate q) 10"
    using assms(2) by (simp add: candidate_def buf_simps)
  also have "\<dots> = of_nat (length (wm_payload m))"
    using assms(1,2) by (simp add: buf_simps wire_bytes_length_field)
  finally show ?thesis using assms(3) by (simp add: wm_valid_def unat_payload_length_le)
qed

lemma push_prefix:
  assumes inv: "parser_inv p" and cand: "candidate p = take (p_index p) (wire_bytes m)"
    and m: "wm_valid m" and more: "p_index p + 1 < length (wire_bytes m)" and f: "wf_frame f"
  shows "\<exists>q. parser_push p (wire_bytes m ! p_index p) f = (GUARDIAN_PARSER_NO_FRAME, q, f)
    \<and> parser_inv q \<and> candidate q = take (p_index q) (wire_bytes m) \<and> p_index q = p_index p + 1"
proof -
  let ?b = "wire_bytes m ! p_index p"
  obtain r q g where push: "parser_push p ?b f = (r, q, g)" by (metis prod_cases3)
  from parser_push_outcome [OF inv f push] have invq: "parser_inv q" by simp
  have len: "length (p_buffer p) = 272" "p_index p < 272"
    using inv more m by (auto simp: parser_inv_def wm_valid_def)
  have app: "candidate (appended p ?b) = take (p_index p + 1) (wire_bytes m)"
    using candidate_append [of p ?b] len cand more by (simp add: take_Suc_conv_app_nth)
  have app': "candidate q' = take (p_index p + 1) (wire_bytes m)"
    if "p_buffer q' = p_buffer (appended p ?b)" "p_index q' = p_index p + 1" for q'
    using app that by (simp add: candidate_def)
  have main: "r = GUARDIAN_PARSER_NO_FRAME \<and> g = f \<and> p_index q = p_index p + 1
      \<and> p_buffer q = p_buffer (appended p ?b)"
  proof (cases "p_index p < 2")
    case True
    then consider "p_index p = 0" | "p_index p = 1" by linarith
    then show ?thesis
      by cases (use push index_of_state [OF inv] wire_bytes_magic [of m] in
          \<open>auto simp: parser_push_def\<close>)
  next
    case False
    then have rd: "parser_push p ?b f = parser_collect p ?b f"
      using index_of_state(3) [OF inv] by (simp add: parser_push_def)
    have n: "unat (be16_at (p_buffer (appended p ?b)) 10) = length (wm_payload m)"
      if "11 \<le> p_index p"
      using candidate_length_field [of "appended p ?b" m] app that m by simp
    have e: "p_index p < 12 \<Longrightarrow> p_expected_size p = 0"
      "12 \<le> p_index p \<Longrightarrow> p_expected_size p = 16 + length (wm_payload m)"
      using inv False index_of_state(3) [OF inv] candidate_length_field [OF cand _ m]
      by (auto simp: parser_inv_def)
    have "length (wm_payload m) \<le> 256" using m by (simp add: wm_valid_def)
    then show ?thesis
      using push e n more unfolding rd parser_collect_eq [OF len(2)]
      by (cases "p_index p < 12") (auto simp: Let_def split: if_splits)
  qed
  with push app' [of q] invq show ?thesis by auto
qed

lemma feed_prefix:
  assumes p: "synced p" and m: "wm_valid m" and f: "wf_frame f"
  shows "k < length (wire_bytes m) \<Longrightarrow>
    \<exists>q. parser_feed p f (take k (wire_bytes m)) = ([], q, f) \<and> parser_inv q
      \<and> candidate q = take (p_index q) (wire_bytes m) \<and> p_index q = k"
proof (induction k)
  case 0
  then show ?case using p by (auto simp: parser_inv_def candidate_def)
next
  case (Suc k)
  then obtain q where q: "parser_feed p f (take k (wire_bytes m)) = ([], q, f)" "parser_inv q"
    "candidate q = take (p_index q) (wire_bytes m)" "p_index q = k" by auto
  from push_prefix [OF q(2,3) m _ f] Suc.prems q(4)
  obtain q' where q': "parser_push q (wire_bytes m ! k) f = (GUARDIAN_PARSER_NO_FRAME, q', f)"
    "parser_inv q'" "candidate q' = take (p_index q') (wire_bytes m)" "p_index q' = Suc k" by auto
  have "take (Suc k) (wire_bytes m) = take k (wire_bytes m) @ [wire_bytes m ! k]"
    using Suc.prems by (simp add: take_Suc_conv_app_nth)
  then have "parser_feed p f (take (Suc k) (wire_bytes m)) = ([], q', f)"
    using q(1) q'(1) by (simp add: parser_feed_append parser_feed_Cons)
  with q' show ?case by auto
qed

lemma push_last:
  assumes inv: "parser_inv p" and cand: "candidate p = take (p_index p) (wire_bytes m)"
    and m: "wm_valid m" and last: "p_index p + 1 = length (wire_bytes m)" and f: "wf_frame f"
  shows "\<exists>q g. parser_push p (wire_bytes m ! p_index p) f = (GUARDIAN_PARSER_FRAME_READY, q, g)
    \<and> synced q \<and> abs_frame g = m \<and> wf_frame g"
proof -
  let ?b = "wire_bytes m ! p_index p" and ?n = "length (wire_bytes m)"
  have ix: "12 \<le> p_index p" using last by simp
  have len: "length (p_buffer p) = 272" "p_index p < 272"
    using inv last m by (auto simp: parser_inv_def wm_valid_def)
  have e: "p_expected_size p = ?n"
    using inv ix index_of_state(3) [OF inv] candidate_length_field [OF cand ix m]
    by (auto simp: parser_inv_def)
  have "p_index p < length (p_buffer p)" "p_index p < ?n" using len last by simp_all
  then have "candidate (appended p ?b) = take (p_index p + 1) (wire_bytes m)"
    using take_Suc_conv_app_nth [of "p_index p" "wire_bytes m"] cand
    unfolding candidate_append [OF \<open>p_index p < length (p_buffer p)\<close>] Suc_eq_plus1 by metis
  then have "take ?n (p_buffer (appended p ?b)) = wire_bytes m"
    using last by (simp add: candidate_def)
  then have buf: "p_buffer (appended p ?b) = wire_bytes m @ drop ?n (p_buffer (appended p ?b))"
    by (metis append_take_drop_id)
  obtain g where g: "guardian_protocol_decode (Some (p_buffer (appended p ?b))) ?n (Some f)
      = (GUARDIAN_PROTOCOL_OK, Some g)" "abs_frame g = m" "encodable g"
    using decode_wire [OF m f] by (metis buf)
  have "parser_push p ?b f = parser_collect p ?b f"
    using index_of_state(3) [OF inv] ix by (simp add: parser_push_def)
  also have "\<dots> = parser_finish (appended p ?b) f"
    using ix e last unfolding parser_collect_eq [OF len(2)] by (simp add: Let_def)
  finally have push: "parser_push p ?b f = parser_finish (appended p ?b) f" .
  have len': "length (p_buffer (appended p ?b)) = 272" using len by simp
  show ?thesis
    unfolding push parser_finish_def
    using g e len' by (simp add: Let_def guardian_parser_return_to_sync_def parser_inv_def)
qed

lemma feed_wire:
  assumes p: "synced p" and m: "wm_valid m" and f: "wf_frame f"
  shows "\<exists>g q. parser_feed p f (wire_bytes m) = ([g], q, g) \<and> abs_frame g = m \<and> synced q \<and> wf_frame g"
proof -
  let ?w = "wire_bytes m"
  define k where "k = length ?w - 1"
  have k: "k < length ?w" "k + 1 = length ?w" by (simp_all add: k_def)
  from feed_prefix [OF p m f k(1)]
  obtain q where q: "parser_feed p f (take k ?w) = ([], q, f)" "parser_inv q"
    "candidate q = take (p_index q) ?w" "p_index q = k" by auto
  from push_last [OF q(2,3) m _ f] k(2) q(4)
  obtain q' g where "parser_push q (?w ! k) f = (GUARDIAN_PARSER_FRAME_READY, q', g)"
    "synced q'" "abs_frame g = m" "wf_frame g" by auto
  moreover have "?w = take k ?w @ [?w ! k]"
    using k take_Suc_conv_app_nth [of k ?w] by simp
  ultimately show ?thesis
    using q(1) parser_feed_append [of p f "take k ?w" "[?w ! k]"] by (auto simp: parser_feed_Cons)
qed


section \<open>The receiver contract\<close>

text \<open>
  What a client of a stream receiver relies on: feeding is compositional, a noise byte leaves a
  ready receiver ready, and the wire image of a message delivers exactly that message and leaves the
  receiver ready. From these, every stream of messages separated by noise is delivered
  completely and in order.
\<close>

locale stream_receiver =
  fixes feed :: "'s \<Rightarrow> 'b list \<Rightarrow> 'm list \<times> 's" and ready :: "'s \<Rightarrow> bool"
    and wire :: "'m \<Rightarrow> 'b list" and valid :: "'m \<Rightarrow> bool" and noise :: "'b \<Rightarrow> bool"
  assumes feed_Nil: "feed s [] = ([], s)"
    and feed_append: "feed s (xs @ ys) =
      (fst (feed s xs) @ fst (feed (snd (feed s xs)) ys), snd (feed (snd (feed s xs)) ys))"
    and feed_noise: "ready s \<Longrightarrow> noise b \<Longrightarrow> fst (feed s [b]) = [] \<and> ready (snd (feed s [b]))"
    and feed_message: "ready s \<Longrightarrow> valid m \<Longrightarrow>
      fst (feed s (wire m)) = [m] \<and> ready (snd (feed s (wire m)))"
begin

lemma feed_gap:
  "ready s \<Longrightarrow> list_all noise gap \<Longrightarrow> fst (feed s gap) = [] \<and> ready (snd (feed s gap))"
proof (induction gap arbitrary: s)
  case (Cons b gap)
  then show ?case using feed_append [of s "[b]" gap] feed_noise [of s b] by simp
qed (simp add: feed_Nil)

lemma feed_stream:
  "ready s \<Longrightarrow> list_all (\<lambda>(gap, m). list_all noise gap \<and> valid m) gms \<Longrightarrow>
   fst (feed s (concat (map (\<lambda>(gap, m). gap @ wire m) gms))) = map snd gms
   \<and> ready (snd (feed s (concat (map (\<lambda>(gap, m). gap @ wire m) gms))))"
proof (induction gms arbitrary: s)
  case (Cons x gms)
  obtain gap m where x: "x = (gap, m)" by fastforce
  let ?s1 = "snd (feed s gap)" and ?s2 = "snd (feed (snd (feed s gap)) (wire m))"
  have s1: "fst (feed s gap) = []" "ready ?s1" using feed_gap [of s gap] Cons.prems x by auto
  have s2: "fst (feed ?s1 (wire m)) = [m]" "ready ?s2"
    using feed_message [of ?s1 m] s1 Cons.prems x by auto
  have "feed s ((gap @ wire m) @ ys) = (m # fst (feed ?s2 ys), snd (feed ?s2 ys))" for ys
    using s1 s2 feed_append [of s "gap @ wire m" ys] feed_append [of s gap "wire m"] by simp
  with Cons.IH [OF s2(2)] Cons.prems x show ?case by simp
qed (simp add: feed_Nil)

end

text \<open>The parser with the caller's frame as a receiver of wire messages.\<close>

definition parser_receive ::
  "guardian_parser \<times> guardian_frame \<Rightarrow> u8 list
     \<Rightarrow> wire_message list \<times> (guardian_parser \<times> guardian_frame)" where
  "parser_receive s bs =
     (case s of (p, f) \<Rightarrow> (case parser_feed p f bs of (fs, s') \<Rightarrow> (map abs_frame fs, s')))"

definition parser_ready :: "guardian_parser \<times> guardian_frame \<Rightarrow> bool" where
  "parser_ready s \<longleftrightarrow> synced (fst s) \<and> wf_frame (snd s)"

interpretation rx: stream_receiver parser_receive parser_ready wire_bytes wm_valid
  "\<lambda>b. b \<noteq> GUARDIAN_MAGIC_0"
proof unfold_locales
  fix s and xs ys :: "u8 list"
  show "parser_receive s [] = ([], s)" by (simp add: parser_receive_def split: prod.splits)
  show "parser_receive s (xs @ ys) =
     (fst (parser_receive s xs) @ fst (parser_receive (snd (parser_receive s xs)) ys),
      snd (parser_receive (snd (parser_receive s xs)) ys))"
    by (simp add: parser_receive_def parser_feed_append split: prod.splits)
next
  fix s :: "guardian_parser \<times> guardian_frame" and b :: u8
  assume "parser_ready s" "b \<noteq> GUARDIAN_MAGIC_0"
  then show "fst (parser_receive s [b]) = [] \<and> parser_ready (snd (parser_receive s [b]))"
    by (auto simp: parser_receive_def parser_ready_def parser_feed_Cons parser_push_def
        split: prod.splits)
next
  fix s :: "guardian_parser \<times> guardian_frame" and m
  assume "parser_ready s" "wm_valid m"
  then show "fst (parser_receive s (wire_bytes m)) = [m] \<and> parser_ready (snd (parser_receive s (wire_bytes m)))"
    using feed_wire [of "fst s" m "snd s"]
    by (auto simp: parser_receive_def parser_ready_def split: prod.splits)
qed

section \<open>Recovery\<close>

text \<open>One step of the receive loop, as a transition system with the parser invariant.\<close>

definition parser_initial :: "guardian_parser \<times> guardian_frame \<Rightarrow> bool" where
  "parser_initial s \<longleftrightarrow> (\<exists>p. length (p_buffer p) = GUARDIAN_MAX_FRAME_SIZE \<and>
     guardian_parser_init (Some p) = Some (fst s)) \<and> wf_frame (snd s)"

inductive parser_step ::
  "guardian_parser \<times> guardian_frame \<Rightarrow> guardian_parser \<times> guardian_frame \<Rightarrow> bool" where
  step_push: "guardian_parser_push_byte (Some p) b (Some f) = (r, Some q, Some g) \<Longrightarrow>
     parser_step (p, f) (q, g)"
| step_reset: "guardian_parser_reset_stream (Some p) = Some q \<Longrightarrow> parser_step (p, f) (q, f)"

inductive_cases parser_stepE: "parser_step s t"

lemma init_synced:
  "length (p_buffer p) = 272 \<Longrightarrow> guardian_parser_init (Some p) = Some q \<Longrightarrow> synced q"
  by (auto simp: guardian_parser_init_def parser_inv_def)

interpretation parser: transition_system parser_initial parser_step
  "\<lambda>(p, f). parser_inv p \<and> wf_frame f"
proof unfold_locales
  fix s assume "parser_initial s"
  then show "case s of (p, f) \<Rightarrow> parser_inv p \<and> wf_frame f"
    by (auto simp: parser_initial_def dest!: init_synced)
next
  fix s t assume inv: "case s of (p, f) \<Rightarrow> parser_inv p \<and> wf_frame f" and st: "parser_step s t"
  from st show "case t of (p, f) \<Rightarrow> parser_inv p \<and> wf_frame f"
  proof cases
    case (step_push p b f r q g)
    with inv have "parser_inv p" "wf_frame f" by simp_all
    from push_byte_outcome [OF this step_push(3)] have "parser_inv q" "wf_frame g" by auto
    with step_push show ?thesis by simp
  next
    case (step_reset p q f)
    with inv synced_return_to_sync [of p] show ?thesis
      by (auto simp: guardian_parser_reset_stream_def parser_inv_def)
  qed
qed

text \<open>Collection ends after a bounded number of bytes, whatever they are.\<close>

lemma length_candidate: "parser_inv p \<Longrightarrow> length (candidate p) = p_index p"
  by (auto simp: parser_inv_def candidate_def split: guardian_parser_state.splits if_splits)

lemma collect_step:
  assumes inv: "parser_inv p" and st: "p_state p = GUARDIAN_PARSER_READ_FRAME" and f: "wf_frame f"
    and push: "parser_push p b f = (r, q, g)"
  shows "synced q \<or> p_state q = GUARDIAN_PARSER_READ_FRAME \<and> p_index q = p_index p + 1"
proof -
  have ix: "2 \<le> p_index p" using index_of_state(3) [OF inv] st by simp
  from parser_push_outcome [OF inv f push]
  have q: "parser_inv q" and out: "push_outcome p b f r q g" by auto
  from out consider "synced q" | "candidate q = candidate p @ [b]"
    using ix unfolding push_outcome_def by auto
  then show ?thesis
  proof cases
    case 2
    then have "p_index q = p_index p + 1"
      using arg_cong [OF 2, of length] length_candidate [OF inv] length_candidate [OF q] by simp
    then show ?thesis using index_of_state(3) [OF q] ix by simp
  qed simp
qed

lemma collect_bounded:
  "parser_inv p \<Longrightarrow> p_state p = GUARDIAN_PARSER_READ_FRAME \<Longrightarrow> wf_frame f \<Longrightarrow>
   272 - p_index p \<le> length bs \<Longrightarrow>
   \<exists>k \<le> 272 - p_index p. \<exists>fs q g. parser_feed p f (take k bs) = (fs, q, g) \<and> synced q"
proof (induction bs arbitrary: p f)
  case Nil
  then show ?case by (auto simp: parser_inv_def split: if_splits)
next
  case (Cons b bs)
  obtain r q g where push: "parser_push p b f = (r, q, g)" by (metis prod_cases3)
  from parser_push_outcome [OF Cons.prems(1,3) push] have q: "parser_inv q" "wf_frame g" by auto
  have ix: "p_index p < 272" using Cons.prems(1,2) by (auto simp: parser_inv_def split: if_splits)
  from collect_step [OF Cons.prems(1,2,3) push] show ?case
  proof (elim disjE)
    assume "synced q"
    then show ?thesis
      using ix push by (intro exI [of _ 1]) (simp add: parser_feed_Cons)
  next
    assume rd: "p_state q = GUARDIAN_PARSER_READ_FRAME \<and> p_index q = p_index p + 1"
    then have "272 - p_index q \<le> length bs" using Cons.prems(4) ix by simp
    from Cons.IH [OF q(1) _ q(2) this] rd obtain k fs q' g' where
      k: "k \<le> 272 - p_index q" "parser_feed q g (take k bs) = (fs, q', g')" "synced q'" by blast
    then have "Suc k \<le> 272 - p_index p" using rd ix by simp
    with k push show ?thesis
      by (intro exI [of _ "Suc k"]) (simp add: parser_feed_Cons)
  qed
qed

section \<open>Parser properties\<close>

text \<open>C4: No overrun. In every state that initialization, byte pushes and stream resets can
  reach, the write index lies inside the 272-byte buffer, and the candidate is never longer
  than the frame its header declares.\<close>

theorem parser_never_overruns:
  assumes "reachable parser_initial parser_step (p, f)"
  shows "length (p_buffer p) = GUARDIAN_MAX_FRAME_SIZE \<and> p_index p < length (p_buffer p)
    \<and> p_expected_size p \<le> length (p_buffer p)
    \<and> (p_expected_size p \<noteq> 0 \<longrightarrow>
        p_index p < p_expected_size p \<and> p_expected_size p = 16 + unat (be16_at (p_buffer p) 10))"
  using parser.reachable_inv [OF assms]
  by (auto simp: parser_inv_def split: guardian_parser_state.splits if_splits)

definition sample_parser :: guardian_parser where
  "sample_parser = \<lparr>p_state = GUARDIAN_PARSER_WAIT_MAGIC_0, p_buffer = replicate 272 0,
     p_index = 0, p_expected_size = 0, p_frames_received = 0, p_crc_errors = 0,
     p_protocol_errors = 0, p_oversize_errors = 0,
     p_last_protocol_result = GUARDIAN_PROTOCOL_OK\<rparr>"

lemma sample_parser_synced [simp]: "synced sample_parser"
  by (simp add: sample_parser_def parser_inv_def)

lemma sample_parser_initial: "parser_initial (sample_parser, zero_frame)"
  unfolding parser_initial_def
  by (auto intro!: exI [of _ sample_parser] simp: guardian_parser_init_def sample_parser_def)

theorem parser_never_overruns_witness:
  "length (p_buffer sample_parser) = 272 \<and> p_index sample_parser < length (p_buffer sample_parser)"
  using parser_never_overruns [OF reachable_init [of parser_initial, OF sample_parser_initial]]
  by simp

text \<open>C5: Soundness. Whatever bytes arrive, the frames the parser reports are valid and their wire
  images occur in the received stream, in the order reported and without overlap; the parser
  never invents or duplicates a frame.\<close>

theorem reported_frames_in_stream:
  assumes "synced p" "wf_frame f" "parser_feed p f bs = (fs, q, g)"
  shows "interleaved fs bs"
proof -
  have "candidate p = []" using assms(1) index_of_state(1) [of p] by (simp add: candidate_def)
  then show ?thesis using feed_interleaved [of p f bs fs q g] assms by simp
qed

theorem reported_frames_in_stream_witness:
  "\<exists>fs q g. parser_feed sample_parser zero_frame sample_wire = (fs, q, g)
     \<and> length fs = 1 \<and> interleaved fs sample_wire"
proof -
  have "wm_valid \<lparr>wm_type = 1, wm_command = 1, wm_sequence = 9, wm_payload = []\<rparr>"
    by (simp add: wm_valid_def guardian_message_type_is_valid_def)
  from feed_wire [OF sample_parser_synced this wf_zero_frame]
  obtain g q where feed: "parser_feed sample_parser zero_frame sample_wire = ([g], q, g)"
    unfolding sample_wire_def by blast
  with reported_frames_in_stream [OF sample_parser_synced wf_zero_frame feed] show ?thesis by auto
qed



text \<open>C7: Recovery. A candidate is abandoned or completed after at most
  \<open>GUARDIAN_MAX_FRAME_SIZE\<close> bytes, whatever the header claims, and the parser is synchronized
  again, ready to deliver the next frame.\<close>

theorem collection_ends:
  assumes "parser_inv p" "p_state p = GUARDIAN_PARSER_READ_FRAME" "wf_frame f"
    "GUARDIAN_MAX_FRAME_SIZE - p_index p \<le> length bs"
  shows "\<exists>k \<le> GUARDIAN_MAX_FRAME_SIZE - p_index p. \<exists>fs q g.
    parser_feed p f (take k bs) = (fs, q, g) \<and> synced q"
  using assms by (rule collect_bounded)

theorem collection_ends_witness:
  "\<exists>k \<le> 270. \<exists>fs q g. parser_feed
     (sample_parser\<lparr>p_state := GUARDIAN_PARSER_READ_FRAME, p_index := 2,
        p_buffer := [0x47, 0x46] @ replicate 270 0\<rparr>) zero_frame (take k (replicate 270 0xFF)) = (fs, q, g) \<and> synced q"
  using collection_ends [of "sample_parser\<lparr>p_state := GUARDIAN_PARSER_READ_FRAME, p_index := 2,
        p_buffer := [0x47, 0x46] @ replicate 270 0\<rparr>" zero_frame "replicate 270 0xFF"]
  by (simp add: parser_inv_def sample_parser_def)

end
