(* ===== verification/Guardian_Crypto.thy ===== *)
theory Guardian_Crypto
  imports Guardian_Prelude
begin

text \<open>
  The cryptographic primitives of \<open>firmware/Security/Src/guardian_crypto.c\<close>: the streaming
  SHA-256 context with its compression function, block buffering and padding, HMAC-SHA-256, the
  constant-time comparison and the zeroization loop. The lemmas show that the buffered, chunked
  implementation computes the padded block-by-block hash of the whole message, that HMAC is the
  nested hash of RFC 2104 over it, and that the comparison decides equality. The interface
  \<open>message_authenticator\<close> is what the session layer relies on.
\<close>

section \<open>SHA-256\<close>

abbreviation (input) GUARDIAN_SHA256_BLOCK_SIZE :: nat where "GUARDIAN_SHA256_BLOCK_SIZE \<equiv> 64"
abbreviation (input) GUARDIAN_SHA256_SIZE :: nat where "GUARDIAN_SHA256_SIZE \<equiv> 32"

record guardian_sha256_context =
  sha_state :: "u32 list"
  sha_buffer :: "u8 list"
  sha_buffer_length :: nat
  sha_total_length :: u64

definition guardian_sha256_k :: "u32 list" where
  "guardian_sha256_k =
    [0x428A2F98, 0x71374491, 0xB5C0FBCF, 0xE9B5DBA5, 0x3956C25B, 0x59F111F1, 0x923F82A4, 0xAB1C5ED5,
     0xD807AA98, 0x12835B01, 0x243185BE, 0x550C7DC3, 0x72BE5D74, 0x80DEB1FE, 0x9BDC06A7, 0xC19BF174,
     0xE49B69C1, 0xEFBE4786, 0x0FC19DC6, 0x240CA1CC, 0x2DE92C6F, 0x4A7484AA, 0x5CB0A9DC, 0x76F988DA,
     0x983E5152, 0xA831C66D, 0xB00327C8, 0xBF597FC7, 0xC6E00BF3, 0xD5A79147, 0x06CA6351, 0x14292967,
     0x27B70A85, 0x2E1B2138, 0x4D2C6DFC, 0x53380D13, 0x650A7354, 0x766A0ABB, 0x81C2C92E, 0x92722C85,
     0xA2BFE8A1, 0xA81A664B, 0xC24B8B70, 0xC76C51A3, 0xD192E819, 0xD6990624, 0xF40E3585, 0x106AA070,
     0x19A4C116, 0x1E376C08, 0x2748774C, 0x34B0BCB5, 0x391C0CB3, 0x4ED8AA4A, 0x5B9CCA4F, 0x682E6FF3,
     0x748F82EE, 0x78A5636F, 0x84C87814, 0x8CC70208, 0x90BEFFFA, 0xA4506CEB, 0xBEF9A3F7, 0xC67178F2]"

definition guardian_sha256_rotr :: "u32 \<Rightarrow> nat \<Rightarrow> u32" where
  "guardian_sha256_rotr v count = drop_bit count v OR push_bit (32 - count) v"

definition guardian_sha256_read_u32_be :: "u8 list \<Rightarrow> nat \<Rightarrow> u32" where
  "guardian_sha256_read_u32_be data i =
     push_bit 24 (ucast (data ! i)) OR push_bit 16 (ucast (data ! (i + 1)))
     OR push_bit 8 (ucast (data ! (i + 2))) OR ucast (data ! (i + 3))"

definition guardian_sha256_write_u32_be :: "u8 list \<Rightarrow> nat \<Rightarrow> u32 \<Rightarrow> u8 list" where
  "guardian_sha256_write_u32_be data i v =
     data[i := ucast (drop_bit 24 v AND 0xFF), i + 1 := ucast (drop_bit 16 v AND 0xFF),
       i + 2 := ucast (drop_bit 8 v AND 0xFF), i + 3 := ucast (v AND 0xFF)]"

definition sha256_initial :: "u32 list" where
  "sha256_initial = [0x6A09E667, 0xBB67AE85, 0x3C6EF372, 0xA54FF53A,
     0x510E527F, 0x9B05688C, 0x1F83D9AB, 0x5BE0CD19]"

text \<open>Initialization leaves the buffer bytes as they are.\<close>

definition guardian_sha256_init :: "guardian_sha256_context \<Rightarrow> guardian_sha256_context" where
  "guardian_sha256_init context =
     context\<lparr>sha_state := sha256_initial, sha_buffer_length := 0, sha_total_length := 0\<rparr>"

text \<open>The two loops that fill the message schedule.\<close>

definition schedule_step :: "nat \<Rightarrow> u32 list \<Rightarrow> u32 list" where
  "schedule_step i schedule =
     (let x = schedule ! (i - 15); y = schedule ! (i - 2);
          s0 = guardian_sha256_rotr x 7 XOR guardian_sha256_rotr x 18 XOR drop_bit 3 x;
          s1 = guardian_sha256_rotr y 17 XOR guardian_sha256_rotr y 19 XOR drop_bit 10 y
      in schedule[i := schedule ! (i - 16) + s0 + schedule ! (i - 7) + s1])"

definition message_schedule :: "u8 list \<Rightarrow> u32 list" where
  "message_schedule block =
     (let first = fold (\<lambda>i schedule. schedule[i := guardian_sha256_read_u32_be block (i * 4)])
            [0..<16] (replicate 64 0)
      in fold schedule_step [16..<64] first)"

text \<open>One round on the working variables a to h, for a round constant and a schedule word.\<close>

fun sha256_round ::
  "u32 \<times> u32 \<Rightarrow> u32 \<times> u32 \<times> u32 \<times> u32 \<times> u32 \<times> u32 \<times> u32 \<times> u32
     \<Rightarrow> u32 \<times> u32 \<times> u32 \<times> u32 \<times> u32 \<times> u32 \<times> u32 \<times> u32" where
  "sha256_round (k, w) (a, b, c, d, e, f, g, h) =
     (let sigma1 = guardian_sha256_rotr e 6 XOR guardian_sha256_rotr e 11
            XOR guardian_sha256_rotr e 25;
          choose_efg = (e AND f) XOR (NOT e AND g);
          temp1 = h + sigma1 + choose_efg + k + w;
          sigma0 = guardian_sha256_rotr a 2 XOR guardian_sha256_rotr a 13
            XOR guardian_sha256_rotr a 22;
          majority = (a AND b) XOR (a AND c) XOR (b AND c);
          temp2 = sigma0 + majority
      in (temp1 + temp2, a, b, c, d + temp1, e, f, g))"

definition sha256_compress :: "u32 list \<Rightarrow> u8 list \<Rightarrow> u32 list" where
  "sha256_compress st block =
     (let schedule = message_schedule block;
          (a, b, c, d, e, f, g, h) =
            fold (\<lambda>i. sha256_round (guardian_sha256_k ! i, schedule ! i)) [0..<64]
              (st ! 0, st ! 1, st ! 2, st ! 3, st ! 4, st ! 5, st ! 6, st ! 7)
      in [st ! 0 + a, st ! 1 + b, st ! 2 + c, st ! 3 + d,
          st ! 4 + e, st ! 5 + f, st ! 6 + g, st ! 7 + h])"

definition guardian_sha256_transform ::
  "guardian_sha256_context \<Rightarrow> u8 list \<Rightarrow> guardian_sha256_context" where
  "guardian_sha256_transform context block =
     context\<lparr>sha_state := sha256_compress (sha_state context) block\<rparr>"

text \<open>
  The absorption loop. Its body copies \<open>copy_length\<close> bytes; on a context whose buffer is
  already full (never the case: every path empties a full buffer at once) the body would copy
  nothing, and the model stops there.
\<close>

function sha256_update_loop ::
  "guardian_sha256_context \<Rightarrow> u8 list \<Rightarrow> nat \<Rightarrow> nat \<Rightarrow> guardian_sha256_context" where
  "sha256_update_loop context data index n =
     (let available = GUARDIAN_SHA256_BLOCK_SIZE - sha_buffer_length context;
          remaining = n - index;
          copy_length = (if remaining < available then remaining else available) in
      if index < n \<and> copy_length \<noteq> 0
      then
        let c1 = context\<lparr>sha_buffer := buf_write (sha_buffer context) (sha_buffer_length context)
                   (buf_read data index copy_length),
                 sha_buffer_length := sha_buffer_length context + copy_length\<rparr>;
            c2 = (if sha_buffer_length c1 = GUARDIAN_SHA256_BLOCK_SIZE
                  then (guardian_sha256_transform c1 (sha_buffer c1))\<lparr>sha_buffer_length := 0\<rparr>
                  else c1)
        in sha256_update_loop c2 data (index + copy_length) n
      else context)"
  by pat_completeness auto
termination
  by (relation "measure (\<lambda>(_, _, index, n). n - index)") (auto split: if_splits)

definition guardian_sha256_update ::
  "guardian_sha256_context \<Rightarrow> u8 list ptr \<Rightarrow> nat \<Rightarrow> guardian_sha256_context" where
  "guardian_sha256_update context data n =
     (case data of
        None \<Rightarrow> context
      | Some bytes \<Rightarrow>
          sha256_update_loop (context\<lparr>sha_total_length := sha_total_length context + of_nat n\<rparr>)
            bytes 0 n)"

definition zero_sha256_context :: guardian_sha256_context where
  "zero_sha256_context = \<lparr>sha_state = replicate 8 0, sha_buffer = replicate 64 0,
     sha_buffer_length = 0, sha_total_length = 0\<rparr>"

text \<open>Padding and output; the context is zeroized at the end.\<close>

definition guardian_sha256_final ::
  "guardian_sha256_context \<Rightarrow> u8 list \<Rightarrow> guardian_sha256_context \<times> u8 list" where
  "guardian_sha256_final context digest =
     (let bit_length = sha_total_length context * 8;
          c1 = context\<lparr>sha_buffer := (sha_buffer context)[sha_buffer_length context := 0x80],
                 sha_buffer_length := sha_buffer_length context + 1\<rparr>;
          c2 = (if sha_buffer_length c1 > 56
                then let b = buf_write (sha_buffer c1) (sha_buffer_length c1)
                       (replicate (GUARDIAN_SHA256_BLOCK_SIZE - sha_buffer_length c1) 0)
                     in (guardian_sha256_transform (c1\<lparr>sha_buffer := b\<rparr>) b)\<lparr>sha_buffer_length := 0\<rparr>
                else c1);
          b3 = buf_write (sha_buffer c2) (sha_buffer_length c2)
                 (replicate (56 - sha_buffer_length c2) 0);
          b4 = b3[56 := ucast (drop_bit 56 bit_length AND 0xFF),
                  57 := ucast (drop_bit 48 bit_length AND 0xFF),
                  58 := ucast (drop_bit 40 bit_length AND 0xFF),
                  59 := ucast (drop_bit 32 bit_length AND 0xFF),
                  60 := ucast (drop_bit 24 bit_length AND 0xFF),
                  61 := ucast (drop_bit 16 bit_length AND 0xFF),
                  62 := ucast (drop_bit 8 bit_length AND 0xFF),
                  63 := ucast (bit_length AND 0xFF)];
          c5 = guardian_sha256_transform (c2\<lparr>sha_buffer := b4\<rparr>) b4;
          digest' = fold (\<lambda>i d. guardian_sha256_write_u32_be d (i * 4) (sha_state c5 ! i))
                      [0..<8] digest
      in (zero_sha256_context, digest'))"

text \<open>The digest out-parameter is returned; NULL stays NULL.\<close>

definition guardian_sha256 :: "u8 list ptr \<Rightarrow> nat \<Rightarrow> u8 list ptr \<Rightarrow> u8 list ptr" where
  "guardian_sha256 data n digest =
     (case digest of
        None \<Rightarrow> None
      | Some d \<Rightarrow>
          let context = guardian_sha256_update (guardian_sha256_init zero_sha256_context) data n
          in Some (snd (guardian_sha256_final context d)))"

section \<open>HMAC, comparison and zeroization\<close>

definition hmac_key_block :: "u8 list ptr \<Rightarrow> nat \<Rightarrow> u8 list" where
  "hmac_key_block key key_length =
     (let key_block = replicate GUARDIAN_SHA256_BLOCK_SIZE 0 in
      if key_length > GUARDIAN_SHA256_BLOCK_SIZE
      then buf_write key_block 0
        (the (guardian_sha256 key key_length (Some (replicate GUARDIAN_SHA256_SIZE 0))))
      else if key_length \<noteq> 0
      then buf_write key_block 0 (take key_length (the key))
      else key_block)"

definition guardian_hmac_sha256 ::
  "u8 list ptr \<Rightarrow> nat \<Rightarrow> u8 list ptr \<Rightarrow> nat \<Rightarrow> u8 list ptr \<Rightarrow> u8 list ptr" where
  "guardian_hmac_sha256 key key_length data data_length digest =
     (case digest of
        None \<Rightarrow> None
      | Some d \<Rightarrow>
          if key = None \<and> key_length \<noteq> 0
          then Some (buf_write d 0 (replicate GUARDIAN_SHA256_SIZE 0))
          else
            let key_block = hmac_key_block key key_length;
                inner_pad = map (\<lambda>b. b XOR 0x36) key_block;
                outer_pad = map (\<lambda>b. b XOR 0x5C) key_block;
                inner1 = guardian_sha256_update (guardian_sha256_init zero_sha256_context)
                           (Some inner_pad) (length inner_pad);
                inner2 = guardian_sha256_update inner1 data data_length;
                inner_digest = snd (guardian_sha256_final inner2 (replicate GUARDIAN_SHA256_SIZE 0));
                outer1 = guardian_sha256_update (guardian_sha256_init zero_sha256_context)
                           (Some outer_pad) (length outer_pad);
                outer2 = guardian_sha256_update outer1 (Some inner_digest) (length inner_digest)
            in Some (snd (guardian_sha256_final outer2 d)))"

definition guardian_crypto_constant_time_equal :: "u8 list ptr \<Rightarrow> u8 list ptr \<Rightarrow> nat \<Rightarrow> bool" where
  "guardian_crypto_constant_time_equal left right n =
     (case (left, right) of
        (Some l, Some r) \<Rightarrow>
          n \<noteq> 0 \<and> fold (\<lambda>i difference. difference OR (l ! i XOR r ! i)) [0..<n] 0 = 0
      | _ \<Rightarrow> False)"

text \<open>The zeroization loop over the first \<open>n\<close> bytes.\<close>

fun crypto_zero_loop :: "u8 list \<Rightarrow> nat \<Rightarrow> u8 list" where
  "crypto_zero_loop (_ # bytes) (Suc n) = 0 # crypto_zero_loop bytes n"
| "crypto_zero_loop bytes _ = bytes"

definition guardian_crypto_zero :: "u8 list ptr \<Rightarrow> nat \<Rightarrow> u8 list ptr" where
  "guardian_crypto_zero data n = map_option (\<lambda>bytes. crypto_zero_loop bytes n) data"

section \<open>Reference definitions\<close>

text \<open>Absorb all complete blocks of a message; the remainder is shorter than a block.\<close>

function absorb :: "u32 list \<Rightarrow> u8 list \<Rightarrow> u32 list \<times> u8 list" where
  "absorb st m =
     (if length m < 64 then (st, m) else absorb (sha256_compress st (take 64 m)) (drop 64 m))"
  by pat_completeness auto
termination by (relation "measure (length \<circ> snd)") auto

text \<open>The padding of FIPS 180-4: a one bit, zeros, and the bit length in 64 bits.\<close>

definition sha256_padding :: "nat \<Rightarrow> u8 list" where
  "sha256_padding n =
     0x80 # replicate ((119 - n mod 64) mod 64) 0 @ be64_bytes (of_nat n * 8)"

definition sha256_reference :: "u8 list \<Rightarrow> u8 list" where
  "sha256_reference m =
     concat (map be32_bytes (fst (absorb sha256_initial (m @ sha256_padding (length m)))))"

text \<open>The key block and the nested hash of RFC 2104.\<close>

definition hmac_key_pad :: "u8 list \<Rightarrow> u8 list" where
  "hmac_key_pad k =
     (let k' = (if length k > 64 then sha256_reference k else k) in k' @ replicate (64 - length k') 0)"

definition hmac_reference :: "u8 list \<Rightarrow> u8 list \<Rightarrow> u8 list" where
  "hmac_reference k m =
     sha256_reference (map (\<lambda>b. b XOR 0x5C) (hmac_key_pad k)
       @ sha256_reference (map (\<lambda>b. b XOR 0x36) (hmac_key_pad k) @ m))"

section \<open>The streaming hash implements the reference\<close>

declare absorb.simps [simp del] sha256_update_loop.simps [simp del]

lemma absorb_short: "length m < 64 \<Longrightarrow> absorb st m = (st, m)"
  by (simp add: absorb.simps)

lemma absorb_block: "length b = 64 \<Longrightarrow> absorb st (b @ m) = absorb (sha256_compress st b) m"
  by (subst absorb.simps) simp

lemma absorb_append: "absorb st (a @ b) = absorb (fst (absorb st a)) (snd (absorb st a) @ b)"
proof (induction st a rule: absorb.induct)
  case (1 st a)
  show ?case
  proof (cases "length a < 64")
    case False
    have "absorb st (a @ b) = absorb (sha256_compress st (take 64 a)) (drop 64 a @ b)"
      using absorb_block [of "take 64 a" st "drop 64 a @ b"] False by (simp flip: append_assoc)
    with 1 [OF False] False show ?thesis by (simp add: absorb.simps [of st a])
  qed (simp add: absorb_short)
qed

lemma length_sha256_compress [simp]: "length (sha256_compress st b) = 8"
  by (simp add: sha256_compress_def Let_def split: prod.splits)

lemma length_absorb_state: "length st = 8 \<Longrightarrow> length (fst (absorb st m)) = 8"
  by (induction st m rule: absorb.induct) (subst absorb.simps, simp)

lemma length_absorb_rest: "length (snd (absorb st m)) = length m mod 64"
proof (induction st m rule: absorb.induct)
  case (1 st m)
  then show ?case by (subst absorb.simps) (simp add: mod_if [of "length m"])
qed

text \<open>A context between calls, and the bytes it holds back.\<close>

definition sha_wf :: "guardian_sha256_context \<Rightarrow> bool" where
  "sha_wf c \<longleftrightarrow> length (sha_state c) = 8 \<and> length (sha_buffer c) = 64 \<and> sha_buffer_length c < 64"

definition sha_pending :: "guardian_sha256_context \<Rightarrow> u8 list" where
  "sha_pending c = take (sha_buffer_length c) (sha_buffer c)"

text \<open>The context after the message \<open>m\<close>.\<close>

definition sha_absorbed :: "guardian_sha256_context \<Rightarrow> u8 list \<Rightarrow> bool" where
  "sha_absorbed c m \<longleftrightarrow> sha_wf c \<and> absorb sha256_initial m = (sha_state c, sha_pending c)
     \<and> sha_total_length c = of_nat (length m)"

lemma buf_write_pending:
  "sha_wf c \<Longrightarrow> sha_buffer_length c + length d \<le> 64 \<Longrightarrow>
   take (sha_buffer_length c + length d) (buf_write (sha_buffer c) (sha_buffer_length c) d)
     = sha_pending c @ d"
  by (simp add: buf_write_def sha_pending_def sha_wf_def)

lemma sha256_update_loop_absorb:
  "sha_wf c \<Longrightarrow> i \<le> n \<Longrightarrow> n \<le> length data \<Longrightarrow>
   sha_wf (sha256_update_loop c data i n)
   \<and> absorb (sha_state c) (sha_pending c @ drop i (take n data))
      = (sha_state (sha256_update_loop c data i n), sha_pending (sha256_update_loop c data i n))
   \<and> sha_total_length (sha256_update_loop c data i n) = sha_total_length c"
proof (induction c data i n rule: sha256_update_loop.induct)
  case (1 c data i n)
  note wf = 1(2) and i = 1(3) and n = 1(4)
  define k where "k = (if n - i < 64 - sha_buffer_length c then n - i else 64 - sha_buffer_length c)"
  show ?case
  proof (cases "i < n")
    case False
    have "length (sha_pending c) < 64" using wf by (simp add: sha_pending_def sha_wf_def)
    moreover have "sha256_update_loop c data i n = c"
      using False by (subst sha256_update_loop.simps) (simp add: Let_def)
    ultimately show ?thesis using False wf i n by (simp add: absorb_short)
  next
    case True
    have k: "k \<noteq> 0" "i + k \<le> n" "sha_buffer_length c + k \<le> 64"
      using True wf by (auto simp: k_def sha_wf_def)
    define d where "d = buf_read data i k"
    have d: "length d = k" using k n by (simp add: d_def buf_read_def)
    define c1 where "c1 = c\<lparr>sha_buffer := buf_write (sha_buffer c) (sha_buffer_length c) d,
        sha_buffer_length := sha_buffer_length c + k\<rparr>"
    define c2 where "c2 = (if sha_buffer_length c1 = 64
        then (guardian_sha256_transform c1 (sha_buffer c1))\<lparr>sha_buffer_length := 0\<rparr> else c1)"
    have "take k (drop i (take n data)) = d"
      using k by (simp add: d_def buf_read_def drop_take min_def)
    then have rest: "drop i (take n data) = d @ drop (i + k) (take n data)"
      using append_take_drop_id [of k "drop i (take n data)"] by (simp add: add.commute)
    have loop: "sha256_update_loop c data i n = sha256_update_loop c2 data (i + k) n"
      using True k by (subst sha256_update_loop.simps)
        (simp add: Let_def k_def [symmetric] d_def [symmetric] c1_def [symmetric] c2_def [symmetric])
    have pend: "take (sha_buffer_length c + k) (sha_buffer c1) = sha_pending c @ d"
      using buf_write_pending [OF wf, of d] d k by (simp add: c1_def)
    have len1: "length (sha_buffer c1) = 64" using wf d k by (simp add: c1_def sha_wf_def)
    have wf2: "sha_wf c2"
      using wf k len1 by (auto simp: c2_def sha_wf_def guardian_sha256_transform_def c1_def)
    have ab: "absorb (sha_state c) (sha_pending c @ drop i (take n data))
        = absorb (sha_state c2) (sha_pending c2 @ drop (i + k) (take n data))"
    proof (cases "sha_buffer_length c + k = 64")
      case True
      then have full: "sha_buffer c1 = sha_pending c @ d" using pend len1 by simp
      with len1 have full2: "length (sha_pending c @ d) = 64" by simp
      have "sha_state c2 = sha256_compress (sha_state c) (sha_pending c @ d)" "sha_pending c2 = []"
        using True full by (simp_all add: c2_def c1_def guardian_sha256_transform_def sha_pending_def)
      then show ?thesis using absorb_block [OF full2] rest by simp
    next
      case False
      then have "c2 = c1" by (simp add: c2_def c1_def)
      then have "sha_state c2 = sha_state c" "sha_pending c2 = sha_pending c @ d"
        using pend by (simp_all add: c1_def sha_pending_def)
      then show ?thesis using rest by simp
    qed
    have tot: "sha_total_length c2 = sha_total_length c"
      by (simp add: c2_def c1_def guardian_sha256_transform_def)
    have "sha_wf (sha256_update_loop c2 data (i + k) n)
      \<and> absorb (sha_state c2) (sha_pending c2 @ drop (i + k) (take n data))
         = (sha_state (sha256_update_loop c2 data (i + k) n), sha_pending (sha256_update_loop c2 data (i + k) n))
      \<and> sha_total_length (sha256_update_loop c2 data (i + k) n) = sha_total_length c2"
      by (rule 1(1) [OF refl refl k_def conjI [OF True k(1)] c1_def [unfolded d_def] c2_def wf2 k(2) n])
    then show ?thesis unfolding loop using ab tot by simp
  qed
qed

lemma sha_absorbed_init: "length (sha_buffer c) = 64 \<Longrightarrow> sha_absorbed (guardian_sha256_init c) []"
  by (simp add: sha_absorbed_def guardian_sha256_init_def sha_wf_def sha_pending_def absorb_short
      sha256_initial_def)

lemma sha_absorbed_update:
  assumes "sha_absorbed c m" "n \<le> length data"
  shows "sha_absorbed (guardian_sha256_update c (Some data) n) (m @ take n data)"
proof -
  let ?c = "c\<lparr>sha_total_length := sha_total_length c + of_nat n\<rparr>"
  have wf: "sha_wf ?c" and ab: "absorb sha256_initial m = (sha_state ?c, sha_pending ?c)"
    using assms(1) by (simp_all add: sha_absorbed_def sha_wf_def sha_pending_def)
  from sha256_update_loop_absorb [OF wf _ assms(2), of 0] assms ab
  show ?thesis
    by (simp add: sha_absorbed_def guardian_sha256_update_def absorb_append [of _ m])
qed

lemma fold_write_words:
  "length ws = k \<Longrightarrow> 4 * k \<le> length d \<Longrightarrow>
   fold (\<lambda>i d. guardian_sha256_write_u32_be d (i * 4) (ws ! i)) [0..<k] d
     = buf_write d 0 (concat (map be32_bytes ws))"
proof (induction k arbitrary: ws)
  case 0
  then show ?case by simp
next
  case (Suc k)
  obtain vs v where ws: "ws = vs @ [v]" "length vs = k"
    using Suc.prems(1) by (metis length_Suc_conv_rev)
  have cong: "fold (\<lambda>i d. guardian_sha256_write_u32_be d (i * 4) (ws ! i)) [0..<k] d
      = fold (\<lambda>i d. guardian_sha256_write_u32_be d (i * 4) (vs ! i)) [0..<k] d"
    using ws by (intro fold_cong) (auto simp: nth_append)
  have len: "length (concat (map be32_bytes vs)) = 4 * k"
    using ws(2) by (induction vs arbitrary: k) auto
  have "fold (\<lambda>i d. guardian_sha256_write_u32_be d (i * 4) (ws ! i)) [0..<Suc k] d
      = guardian_sha256_write_u32_be (buf_write d 0 (concat (map be32_bytes vs))) (k * 4) v"
    using cong Suc ws by (simp add: nth_append)
  also have "\<dots> = buf_write d 0 (concat (map be32_bytes vs) @ be32_bytes v)"
    using Suc.prems(2) len
    by (simp add: guardian_sha256_write_u32_be_def list_update_buf_write buf_write_adjacent
        be32_bytes_def)
  finally show ?case by (simp add: ws(1))
qed

lemma length_field_bytes:
  "length b = 64 \<Longrightarrow>
   b[56 := ucast (drop_bit 56 l AND 0xFF), 57 := ucast (drop_bit 48 l AND 0xFF),
     58 := ucast (drop_bit 40 l AND 0xFF), 59 := ucast (drop_bit 32 l AND 0xFF),
     60 := ucast (drop_bit 24 l AND 0xFF), 61 := ucast (drop_bit 16 l AND 0xFF),
     62 := ucast (drop_bit 8 l AND 0xFF), 63 := ucast (l AND 0xFF)] = take 56 b @ be64_bytes l"
  for l :: u64
  by (simp add: list_update_buf_write buf_write_adjacent be64_bytes_def)
    (simp add: buf_write_def)

lemma sha256_final_state:
  assumes "sha_absorbed c m"
  shows "snd (guardian_sha256_final c d) =
    fold (\<lambda>i d. guardian_sha256_write_u32_be d (i * 4)
      (fst (absorb sha256_initial (m @ sha256_padding (length m))) ! i)) [0..<8] d"
proof -
  let ?bl = "sha_buffer_length c" and ?len = "be64_bytes (of_nat (length m) * 8)"
  let ?b1 = "(sha_buffer c)[?bl := 0x80]"
  have wf: "sha_wf c" and ab: "absorb sha256_initial m = (sha_state c, sha_pending c)"
    and tot: "sha_total_length c = of_nat (length m)"
    using assms by (simp_all add: sha_absorbed_def)
  have bl: "length m mod 64 = ?bl"
    using length_absorb_rest [of sha256_initial m] ab wf by (simp add: sha_pending_def sha_wf_def)
  have lt: "?bl < 64" "length (sha_buffer c) = 64" using wf by (simp_all add: sha_wf_def)
  have b1: "take (?bl + 1) ?b1 = sha_pending c @ [0x80]"
    using lt by (simp add: sha_pending_def take_Suc_conv_app_nth)
  have plen: "length (sha_pending c) = ?bl" using lt by (simp add: sha_pending_def)
  have ab': "absorb sha256_initial (m @ p) = absorb (sha_state c) (sha_pending c @ p)" for p
    using ab by (simp add: absorb_append [of _ m])
  have blk: "absorb st b = (sha256_compress st b, [])" if "length b = 64" for st b
    using absorb_block [OF that, of st "[]"] by (simp add: absorb_short)
  show ?thesis
  proof (cases "?bl + 1 > 56")
    case True
    let ?w1 = "sha_pending c @ 0x80 # replicate (63 - ?bl) 0" and ?w2 = "replicate 56 0 @ ?len"
    have w1: "buf_write ?b1 (?bl + 1) (replicate (64 - (?bl + 1)) 0) = ?w1"
      using b1 lt by (simp add: buf_write_def)
    have w2: "buf_write ?w1 0 (replicate 56 0) = replicate 56 0 @ drop 56 ?w1"
      by (simp add: buf_write_def)
    have len1: "length ?w1 = 64" using plen lt by simp
    have z: "(119 - ?bl) mod 64 = (63 - ?bl) + 56" using True lt by simp
    have pad: "sha_pending c @ sha256_padding (length m) = ?w1 @ ?w2"
      unfolding sha256_padding_def bl z replicate_add by simp
    have "fst (absorb sha256_initial (m @ sha256_padding (length m)))
        = sha256_compress (sha256_compress (sha_state c) ?w1) ?w2"
      using ab' [of "sha256_padding (length m)"] absorb_block [OF len1] pad blk [of ?w2] by simp
    moreover have "snd (guardian_sha256_final c d) =
        fold (\<lambda>i d. guardian_sha256_write_u32_be d (i * 4)
          (sha256_compress (sha256_compress (sha_state c) ?w1) ?w2 ! i)) [0..<8] d"
      using True w1 len1 tot
      by (simp add: guardian_sha256_final_def Let_def guardian_sha256_transform_def w1 [simplified] w2 [simplified]
          length_field_bytes)
    ultimately show ?thesis by simp
  next
    case False
    let ?w = "sha_pending c @ 0x80 # replicate (55 - ?bl) 0 @ ?len"
    have w: "take 56 (buf_write ?b1 (?bl + 1) (replicate (56 - (?bl + 1)) 0))
        = sha_pending c @ 0x80 # replicate (55 - ?bl) 0"
      using b1 lt plen False by (simp add: buf_write_def take_Cons')
    have len1: "length ?w = 64" using plen lt False by simp
    have len0: "length (buf_write ?b1 (?bl + 1) (replicate (56 - (?bl + 1)) 0)) = 64"
      using lt False by simp
    have z: "(119 - ?bl) mod 64 = 55 - ?bl"
    proof -
      have "119 - ?bl = (55 - ?bl) + 64" using False by simp
      then have "(119 - ?bl) mod 64 = (55 - ?bl) mod 64"
        by (simp only: mod_add_self2)
      also have "\<dots> = 55 - ?bl" by (rule mod_less) simp
      finally show ?thesis .
    qed
    have pad: "sha_pending c @ sha256_padding (length m) = ?w"
      unfolding sha256_padding_def bl z by simp
    have "fst (absorb sha256_initial (m @ sha256_padding (length m))) = sha256_compress (sha_state c) ?w"
      using ab' [of "sha256_padding (length m)"] pad blk [OF len1] by simp
    moreover have "snd (guardian_sha256_final c d) =
        fold (\<lambda>i d. guardian_sha256_write_u32_be d (i * 4) (sha256_compress (sha_state c) ?w ! i)) [0..<8] d"
      using False len0 tot
      by (simp add: guardian_sha256_final_def Let_def guardian_sha256_transform_def
          length_field_bytes [OF len0 [simplified]] w [simplified])
    ultimately show ?thesis by simp
  qed
qed

lemma sha256_final_digest:
  assumes "sha_absorbed c m" "32 \<le> length d"
  shows "snd (guardian_sha256_final c d) = buf_write d 0 (sha256_reference m)"
proof -
  have "length (fst (absorb sha256_initial (m @ sha256_padding (length m)))) = 8"
    by (simp add: length_absorb_state sha256_initial_def)
  then show ?thesis
    unfolding sha256_final_state [OF assms(1)] sha256_reference_def
    using assms(2) by (intro fold_write_words) simp_all
qed

lemma length_concat_be32: "length (concat (map be32_bytes ws)) = 4 * length ws"
  by (induction ws) auto

lemma length_sha256_reference [simp]: "length (sha256_reference m) = 32"
  by (simp add: sha256_reference_def length_concat_be32 length_absorb_state sha256_initial_def)

lemma buf_write_whole: "length d = length b \<Longrightarrow> buf_write b 0 d = d"
  by (simp add: buf_write_def)

lemma zero_context_buffer [simp]: "length (sha_buffer zero_sha256_context) = 64"
  by (simp add: zero_sha256_context_def)

lemma guardian_sha256_reference:
  assumes "n \<le> length data" "32 \<le> length d"
  shows "guardian_sha256 (Some data) n (Some d) = Some (buf_write d 0 (sha256_reference (take n data)))"
  using sha256_final_digest [OF sha_absorbed_update [OF sha_absorbed_init] assms(2)] assms(1)
  by (simp add: guardian_sha256_def)

lemma hmac_key_block_pad:
  "n = length k \<Longrightarrow> hmac_key_block (Some k) n = hmac_key_pad k"
  by (simp add: hmac_key_block_def hmac_key_pad_def Let_def guardian_sha256_reference buf_write_whole)
    (auto simp: buf_write_def)

lemma guardian_hmac_reference:
  assumes "n = length k" "j \<le> length data" "32 \<le> length d"
  shows "guardian_hmac_sha256 (Some k) n (Some data) j (Some d)
    = Some (buf_write d 0 (hmac_reference k (take j data)))"
proof -
  let ?z = "guardian_sha256_init zero_sha256_context"
  have init: "sha_absorbed ?z []" by (rule sha_absorbed_init) simp
  have pad: "sha_absorbed (guardian_sha256_update ?z (Some p) (length p)) p" for p
    using sha_absorbed_update [OF init, of "length p" p] by simp
  have snoc: "sha_absorbed (guardian_sha256_update (guardian_sha256_update ?z (Some p) (length p)) (Some q) i)
      (p @ take i q)" if "i \<le> length q" for p q i
    by (rule sha_absorbed_update [OF pad that])
  have inner: "snd (guardian_sha256_final (guardian_sha256_update
      (guardian_sha256_update ?z (Some p) (length p)) (Some data) j) (replicate 32 0))
      = sha256_reference (p @ take j data)" for p
    using sha256_final_digest [OF snoc [OF assms(2)]] by (simp add: buf_write_whole)
  have outer: "snd (guardian_sha256_final (guardian_sha256_update
      (guardian_sha256_update ?z (Some p) (length p)) (Some q) (length q)) d)
      = buf_write d 0 (sha256_reference (p @ q))" for p q
    using sha256_final_digest [OF snoc assms(3)] by simp
  show ?thesis
    unfolding guardian_hmac_sha256_def hmac_reference_def option.case Let_def inner outer
      hmac_key_block_pad [OF assms(1)] by simp
qed

lemma length_hmac_reference [simp]: "length (hmac_reference k m) = 32"
  by (simp add: hmac_reference_def)

section \<open>Comparison and zeroization\<close>

lemma fold_or_zero:
  "fold (\<lambda>i d. d OR (f i :: u8)) xs d = 0 \<longleftrightarrow> d = 0 \<and> (\<forall>i\<in>set xs. f i = 0)"
proof (induction xs arbitrary: d)
  case (Cons x xs)
  have "d OR f x = 0 \<longleftrightarrow> d = 0 \<and> f x = 0"
    by (auto simp: bit_eq_iff bit_simps)
  with Cons show ?case by auto
qed simp

lemma xor_zero_iff: "a XOR b = 0 \<longleftrightarrow> a = b" for a b :: "'a::len word"
  by (metis xor_self_eq xor_cancel_word(1))

lemma constant_time_equal_iff:
  "n \<le> length l \<Longrightarrow> n \<le> length r \<Longrightarrow>
   guardian_crypto_constant_time_equal (Some l) (Some r) n \<longleftrightarrow> n \<noteq> 0 \<and> take n l = take n r"
  by (auto simp: guardian_crypto_constant_time_equal_def fold_or_zero xor_zero_iff
      list_eq_iff_nth_eq)

lemma constant_time_equal_full:
  "length l = n \<Longrightarrow> length r = n \<Longrightarrow> n \<noteq> 0 \<Longrightarrow>
   guardian_crypto_constant_time_equal (Some l) (Some r) n \<longleftrightarrow> l = r"
  by (simp add: constant_time_equal_iff)

lemma crypto_zero_loop_eq:
  "n \<le> length bytes \<Longrightarrow> crypto_zero_loop bytes n = replicate n 0 @ drop n bytes"
  by (induction bytes n rule: crypto_zero_loop.induct) auto

lemma guardian_crypto_zero_whole: "guardian_crypto_zero (Some b) (length b) = Some (replicate (length b) 0)"
  by (simp add: guardian_crypto_zero_def crypto_zero_loop_eq)

section \<open>The authenticator interface\<close>

text \<open>
  What the session layer relies on: a tag has a fixed length and is determined by key and
  message, and the comparison of tags decides equality. A verifier built from the two accepts
  exactly the tag of the message.
\<close>

locale message_authenticator =
  fixes tag :: "'k \<Rightarrow> 'b list \<Rightarrow> 'b list" and size_ok :: "'b list \<Rightarrow> bool"
    and same :: "'b list \<Rightarrow> 'b list \<Rightarrow> bool"
  assumes tag_size: "size_ok (tag k m)"
    and same_iff: "size_ok a \<Longrightarrow> size_ok b \<Longrightarrow> same a b \<longleftrightarrow> a = b"
begin

lemma verify_iff: "size_ok t \<Longrightarrow> same (tag k m) t \<longleftrightarrow> t = tag k m"
  using same_iff [OF tag_size] by auto

lemma verify_own: "same (tag k m) (tag k m)"
  by (simp add: verify_iff tag_size)

end

interpretation hmac: message_authenticator hmac_reference "\<lambda>t. length t = 32"
  "\<lambda>a b. guardian_crypto_constant_time_equal (Some a) (Some b) 32"
  by unfold_locales (simp_all add: constant_time_equal_full)

section \<open>Crypto properties\<close>

text \<open>C8: SHA-256 correctness. For every message and every split of it into two updates, the
  streaming context with its 64-byte buffer computes the block-by-block hash of the padded
  message, and the one-shot function stores exactly that digest and nothing behind it.\<close>

theorem sha256_streaming_correct:
  assumes "32 \<le> length d"
  shows "guardian_sha256 (Some (a @ b)) (length (a @ b)) (Some d)
      = Some (sha256_reference (a @ b) @ drop 32 d)
    \<and> snd (guardian_sha256_final
        (guardian_sha256_update (guardian_sha256_update (guardian_sha256_init zero_sha256_context)
           (Some a) (length a)) (Some b) (length b)) d)
      = sha256_reference (a @ b) @ drop 32 d"
proof -
  have "sha_absorbed (guardian_sha256_update (guardian_sha256_update
      (guardian_sha256_init zero_sha256_context) (Some a) (length a)) (Some b) (length b)) (a @ b)"
    using sha_absorbed_update [OF sha_absorbed_update
        [OF sha_absorbed_init [OF zero_context_buffer] order_refl [of "length a"]] order_refl [of "length b"]]
    by simp
  from sha256_final_digest [OF this assms] guardian_sha256_reference [OF order_refl [of "length (a @ b)"] assms]
  show ?thesis by (simp add: buf_write_0)
qed

theorem sha256_streaming_correct_witness:
  "guardian_sha256 (Some ([1, 2] @ [3])) 3 (Some (replicate 32 0)) = Some (sha256_reference [1, 2, 3])"
  using sha256_streaming_correct [of "replicate 32 0" "[1, 2]" "[3]"] by (simp add: numeral_3_eq_3)

text \<open>C9: HMAC correctness. The implementation with its pads and two contexts is the nested hash of
  RFC 2104 for keys of every length (a key longer than a block is hashed first), and the tag
  comparison accepts exactly the tag of the message.\<close>

theorem hmac_correct:
  assumes "length d = 32" "length t = 32"
  shows "guardian_hmac_sha256 (Some k) (length k) (Some m) (length m) (Some d)
      = Some (hmac_reference k m)
    \<and> (guardian_crypto_constant_time_equal
         (guardian_hmac_sha256 (Some k) (length k) (Some m) (length m) (Some d)) (Some t) 32
       \<longleftrightarrow> t = hmac_reference k m)"
proof -
  have "guardian_hmac_sha256 (Some k) (length k) (Some m) (length m) (Some d) = Some (hmac_reference k m)"
    using guardian_hmac_reference [of "length k" k "length m" m d] assms(1)
    by (simp add: buf_write_whole)
  then show ?thesis using hmac.verify_iff [of t k m] assms(2) by simp
qed

theorem hmac_correct_witness:
  "guardian_hmac_sha256 (Some [1]) 1 (Some [2]) 1 (Some (replicate 32 0)) = Some (hmac_reference [1] [2])
   \<and> \<not> guardian_crypto_constant_time_equal
        (guardian_hmac_sha256 (Some [1]) 1 (Some [2]) 1 (Some (replicate 32 0)))
        (Some ((hmac_reference [1] [2])[0 := hmac_reference [1] [2] ! 0 XOR 1])) 32"
proof -
  let ?t = "(hmac_reference [1] [2])[0 := hmac_reference [1] [2] ! 0 XOR 1]"
  have "y XOR 1 \<noteq> y" for y :: u8 by (metis xor.right_neutral xor_cancel_word(2) zero_neq_one)
  moreover have "0 < length (hmac_reference [1] [2])" by simp
  ultimately have "?t \<noteq> hmac_reference [1] [2]" by (metis nth_list_update_eq)
  with hmac_correct [of "replicate 32 0" ?t "[1]" "[2]"] show ?thesis by auto
qed

end
