(* ===== verification/Guardian_Security.thy ===== *)
theory Guardian_Security
  imports Guardian_Crypto Guardian_Protocol
begin

text \<open>
  The authenticated session layer of \<open>firmware/Security/Src/guardian_security.c\<close>: provisioning,
  the two-message challenge-response handshake, the secure-command envelope with its strict
  counter, role authorization, response wrapping and the status snapshot. Secrets are bound by
  HMAC over transcripts; the lemmas show that a request is accepted exactly when it is the
  envelope of the live session at the expected counter, that accepted counters are consecutive
  along every run, that a session is established only by the proof of the pre-shared key, and
  that roles stay below the provisioned ceiling.
\<close>

section \<open>Constants and types\<close>

abbreviation (input) GUARDIAN_SECURITY_SCHEMA_VERSION :: u8 where
  "GUARDIAN_SECURITY_SCHEMA_VERSION \<equiv> 1"
abbreviation (input) GUARDIAN_SECURITY_PSK_SIZE :: nat where "GUARDIAN_SECURITY_PSK_SIZE \<equiv> 32"
abbreviation (input) GUARDIAN_SECURITY_NONCE_SIZE :: nat where "GUARDIAN_SECURITY_NONCE_SIZE \<equiv> 16"
abbreviation (input) GUARDIAN_SECURITY_SESSION_KEY_SIZE :: nat where
  "GUARDIAN_SECURITY_SESSION_KEY_SIZE \<equiv> 32"
abbreviation (input) GUARDIAN_SECURITY_TAG_SIZE :: nat where "GUARDIAN_SECURITY_TAG_SIZE \<equiv> 16"
abbreviation (input) GUARDIAN_SECURITY_AUTH_BEGIN_REQUEST_SIZE :: u16 where
  "GUARDIAN_SECURITY_AUTH_BEGIN_REQUEST_SIZE \<equiv> 18"
abbreviation (input) GUARDIAN_SECURITY_AUTH_BEGIN_RESPONSE_SIZE :: u16 where
  "GUARDIAN_SECURITY_AUTH_BEGIN_RESPONSE_SIZE \<equiv> 38"
abbreviation (input) GUARDIAN_SECURITY_AUTH_FINISH_REQUEST_SIZE :: u16 where
  "GUARDIAN_SECURITY_AUTH_FINISH_REQUEST_SIZE \<equiv> 22"
abbreviation (input) GUARDIAN_SECURITY_AUTH_FINISH_RESPONSE_SIZE :: u16 where
  "GUARDIAN_SECURITY_AUTH_FINISH_RESPONSE_SIZE \<equiv> 8"
abbreviation (input) GUARDIAN_SECURITY_STATUS_PAYLOAD_SIZE :: u16 where
  "GUARDIAN_SECURITY_STATUS_PAYLOAD_SIZE \<equiv> 36"
abbreviation (input) GUARDIAN_SECURITY_REQUEST_OVERHEAD :: u16 where
  "GUARDIAN_SECURITY_REQUEST_OVERHEAD \<equiv> 32"
abbreviation (input) GUARDIAN_SECURITY_RESPONSE_OVERHEAD :: u16 where
  "GUARDIAN_SECURITY_RESPONSE_OVERHEAD \<equiv> 33"
abbreviation (input) GUARDIAN_SECURITY_MAX_REQUEST_INNER_PAYLOAD :: u16 where
  "GUARDIAN_SECURITY_MAX_REQUEST_INNER_PAYLOAD \<equiv> 224"
abbreviation (input) GUARDIAN_SECURITY_MAX_RESPONSE_INNER_PAYLOAD :: u16 where
  "GUARDIAN_SECURITY_MAX_RESPONSE_INNER_PAYLOAD \<equiv> 223"
abbreviation (input) GUARDIAN_SECURITY_DEFAULT_SESSION_TIMEOUT_SECONDS :: u16 where
  "GUARDIAN_SECURITY_DEFAULT_SESSION_TIMEOUT_SECONDS \<equiv> 300"
abbreviation (input) GUARDIAN_SECURITY_PENDING_TIMEOUT_SECONDS :: u16 where
  "GUARDIAN_SECURITY_PENDING_TIMEOUT_SECONDS \<equiv> 30"
abbreviation (input) GUARDIAN_SECURITY_TRANSCRIPT_CAPACITY :: nat where
  "GUARDIAN_SECURITY_TRANSCRIPT_CAPACITY \<equiv> 288"

text \<open>Roles are compared as integers and read from the wire, so they keep their value.\<close>

abbreviation (input) GUARDIAN_SECURITY_ROLE_NONE :: c_enum where "GUARDIAN_SECURITY_ROLE_NONE \<equiv> 0"
abbreviation (input) GUARDIAN_SECURITY_ROLE_OBSERVER :: c_enum where
  "GUARDIAN_SECURITY_ROLE_OBSERVER \<equiv> 1"
abbreviation (input) GUARDIAN_SECURITY_ROLE_OPERATOR :: c_enum where
  "GUARDIAN_SECURITY_ROLE_OPERATOR \<equiv> 2"
abbreviation (input) GUARDIAN_SECURITY_ROLE_ADMIN :: c_enum where "GUARDIAN_SECURITY_ROLE_ADMIN \<equiv> 3"

datatype guardian_security_result =
    GUARDIAN_SECURITY_OK | GUARDIAN_SECURITY_ERROR_NULL_ARGUMENT
  | GUARDIAN_SECURITY_ERROR_INVALID_PAYLOAD | GUARDIAN_SECURITY_ERROR_UNAUTHORIZED
  | GUARDIAN_SECURITY_ERROR_REPLAY | GUARDIAN_SECURITY_ERROR_RANDOM
  | GUARDIAN_SECURITY_ERROR_OUTPUT_TOO_SMALL

text \<open>The nonce callback gets its context and the output array and returns success, the filled
  array and the new context. It is supplied by the platform, hence a field of the configuration.\<close>

record 'c guardian_security_config =
  sc_psk :: "u8 list"
  sc_max_role :: c_enum
  sc_random :: "('c ptr \<Rightarrow> u8 list \<Rightarrow> bool \<times> u8 list \<times> 'c ptr) ptr"
  sc_random_context :: "'c ptr"
  sc_session_timeout_seconds :: u16

record guardian_security_pending =
  pe_valid :: u8
  pe_role :: c_enum
  pe_session_id :: u32
  pe_client_nonce :: "u8 list"
  pe_device_nonce :: "u8 list"
  pe_started_seconds :: u32

record guardian_security_session =
  se_valid :: u8
  se_role :: c_enum
  se_session_id :: u32
  se_session_key :: "u8 list"
  se_next_counter :: u64
  se_last_activity_seconds :: u32

record guardian_security_status_t =
  ss_configured :: u8
  ss_active :: u8
  ss_active_role :: c_enum
  ss_session_id :: u32
  ss_next_counter :: u64
  ss_timeout_seconds :: u16
  ss_remaining_seconds :: u16
  ss_auth_successes :: u32
  ss_auth_failures :: u32
  ss_replay_rejections :: u32
  ss_unauthorized_rejections :: u32

record 'c guardian_security =
  s_config :: "'c guardian_security_config"
  s_configured :: u8
  s_pending :: guardian_security_pending
  s_session :: guardian_security_session
  s_auth_successes :: u32
  s_auth_failures :: u32
  s_replay_rejections :: u32
  s_unauthorized_rejections :: u32

definition zero_config :: "'c guardian_security_config" where
  "zero_config = \<lparr>sc_psk = replicate 32 0, sc_max_role = 0, sc_random = None,
     sc_random_context = None, sc_session_timeout_seconds = 0\<rparr>"

definition zero_pending :: guardian_security_pending where
  "zero_pending = \<lparr>pe_valid = 0, pe_role = 0, pe_session_id = 0, pe_client_nonce = replicate 16 0,
     pe_device_nonce = replicate 16 0, pe_started_seconds = 0\<rparr>"

definition zero_session :: guardian_security_session where
  "zero_session = \<lparr>se_valid = 0, se_role = 0, se_session_id = 0, se_session_key = replicate 32 0,
     se_next_counter = 0, se_last_activity_seconds = 0\<rparr>"

definition zero_security :: "'c guardian_security" where
  "zero_security = \<lparr>s_config = zero_config, s_configured = 0, s_pending = zero_pending,
     s_session = zero_session, s_auth_successes = 0, s_auth_failures = 0,
     s_replay_rejections = 0, s_unauthorized_rejections = 0\<rparr>"

text \<open>The labels without their terminating zero: \<open>GF-M10-SERVER\<close>, \<open>GF-M10-CLIENT\<close>,
  \<open>GF-M10-SESSION\<close>, \<open>GF-M10-REQUEST\<close> and \<open>GF-M10-RESPONSE\<close>.\<close>

definition guardian_security_server_label :: "u8 list" where
  "guardian_security_server_label =
     [0x47, 0x46, 0x2D, 0x4D, 0x31, 0x30, 0x2D, 0x53, 0x45, 0x52, 0x56, 0x45, 0x52]"

definition guardian_security_client_label :: "u8 list" where
  "guardian_security_client_label =
     [0x47, 0x46, 0x2D, 0x4D, 0x31, 0x30, 0x2D, 0x43, 0x4C, 0x49, 0x45, 0x4E, 0x54]"

definition guardian_security_session_label :: "u8 list" where
  "guardian_security_session_label =
     [0x47, 0x46, 0x2D, 0x4D, 0x31, 0x30, 0x2D, 0x53, 0x45, 0x53, 0x53, 0x49, 0x4F, 0x4E]"

definition guardian_security_request_label :: "u8 list" where
  "guardian_security_request_label =
     [0x47, 0x46, 0x2D, 0x4D, 0x31, 0x30, 0x2D, 0x52, 0x45, 0x51, 0x55, 0x45, 0x53, 0x54]"

definition guardian_security_response_label :: "u8 list" where
  "guardian_security_response_label =
     [0x47, 0x46, 0x2D, 0x4D, 0x31, 0x30, 0x2D, 0x52, 0x45, 0x53, 0x50, 0x4F, 0x4E, 0x53, 0x45]"

section \<open>Helpers\<close>

definition guardian_security_increment_u32 :: "u32 ptr \<Rightarrow> u32 ptr" where
  "guardian_security_increment_u32 v =
     (case v of None \<Rightarrow> None | Some x \<Rightarrow> Some (if x \<noteq> 0xFFFFFFFF then x + 1 else x))"

text \<open>The increment applied to a counter field of the context.\<close>

definition count :: "u32 \<Rightarrow> u32" where
  "count x = the (guardian_security_increment_u32 (Some x))"

definition guardian_security_write_u16_be :: "u8 list \<Rightarrow> nat \<Rightarrow> u16 \<Rightarrow> u8 list" where
  "guardian_security_write_u16_be output i v =
     output[i := ucast (drop_bit 8 v AND 0xFF), i + 1 := ucast (v AND 0xFF)]"

definition guardian_security_write_u32_be :: "u8 list \<Rightarrow> nat \<Rightarrow> u32 \<Rightarrow> u8 list" where
  "guardian_security_write_u32_be output i v =
     output[i := ucast (drop_bit 24 v AND 0xFF), i + 1 := ucast (drop_bit 16 v AND 0xFF),
       i + 2 := ucast (drop_bit 8 v AND 0xFF), i + 3 := ucast (v AND 0xFF)]"

definition guardian_security_write_u64_be :: "u8 list \<Rightarrow> nat \<Rightarrow> u64 \<Rightarrow> u8 list" where
  "guardian_security_write_u64_be output i v =
     output[i := ucast (drop_bit 56 v AND 0xFF), i + 1 := ucast (drop_bit 48 v AND 0xFF),
       i + 2 := ucast (drop_bit 40 v AND 0xFF), i + 3 := ucast (drop_bit 32 v AND 0xFF),
       i + 4 := ucast (drop_bit 24 v AND 0xFF), i + 5 := ucast (drop_bit 16 v AND 0xFF),
       i + 6 := ucast (drop_bit 8 v AND 0xFF), i + 7 := ucast (v AND 0xFF)]"

definition guardian_security_read_u16_be :: "u8 list \<Rightarrow> nat \<Rightarrow> u16" where
  "guardian_security_read_u16_be input i =
     push_bit 8 (ucast (input ! i)) OR ucast (input ! (i + 1))"

definition guardian_security_read_u32_be :: "u8 list \<Rightarrow> nat \<Rightarrow> u32" where
  "guardian_security_read_u32_be input i =
     push_bit 24 (ucast (input ! i)) OR push_bit 16 (ucast (input ! (i + 1)))
     OR push_bit 8 (ucast (input ! (i + 2))) OR ucast (input ! (i + 3))"

definition guardian_security_read_u64_be :: "u8 list \<Rightarrow> nat \<Rightarrow> u64" where
  "guardian_security_read_u64_be input i =
     push_bit 56 (ucast (input ! i)) OR push_bit 48 (ucast (input ! (i + 1)))
     OR push_bit 40 (ucast (input ! (i + 2))) OR push_bit 32 (ucast (input ! (i + 3)))
     OR push_bit 24 (ucast (input ! (i + 4))) OR push_bit 16 (ucast (input ! (i + 5)))
     OR push_bit 8 (ucast (input ! (i + 6))) OR ucast (input ! (i + 7))"

definition guardian_security_clear_pending :: "'c guardian_security \<Rightarrow> 'c guardian_security" where
  "guardian_security_clear_pending s = s\<lparr>s_pending := zero_pending\<rparr>"

definition guardian_security_clear_session :: "'c guardian_security \<Rightarrow> 'c guardian_security" where
  "guardian_security_clear_session s = s\<lparr>s_session := zero_session\<rparr>"

text \<open>Ages are differences of 32-bit seconds and wrap.\<close>

definition guardian_security_expire_pending ::
  "'c guardian_security \<Rightarrow> u32 \<Rightarrow> 'c guardian_security" where
  "guardian_security_expire_pending s now =
     (if pe_valid (s_pending s) = 0 then s
      else
        let elapsed = now - pe_started_seconds (s_pending s) in
        if elapsed \<ge> ucast GUARDIAN_SECURITY_PENDING_TIMEOUT_SECONDS
        then guardian_security_clear_pending s else s)"

definition guardian_security_expire_session ::
  "'c guardian_security \<Rightarrow> u32 \<Rightarrow> 'c guardian_security" where
  "guardian_security_expire_session s now =
     (if se_valid (s_session s) = 0 then s
      else
        let elapsed = now - se_last_activity_seconds (s_session s) in
        if elapsed \<ge> ucast (sc_session_timeout_seconds (s_config s))
        then guardian_security_clear_session s else s)"

text \<open>\<open>None\<close> is the return value 0; the transcript and its length are unchanged then.\<close>

definition guardian_security_append ::
  "u8 list ptr \<Rightarrow> nat \<Rightarrow> nat ptr \<Rightarrow> u8 list ptr \<Rightarrow> nat \<Rightarrow> (u8 list \<times> nat) option" where
  "guardian_security_append transcript capacity len data data_length =
     (case (transcript, len) of
        (Some t, Some l) \<Rightarrow>
          if data = None \<and> data_length \<noteq> 0 then None
          else if l + data_length > capacity then None
          else Some (if data_length \<noteq> 0 then buf_write t l (take data_length (the data)) else t,
                     l + data_length)
      | _ \<Rightarrow> None)"

text \<open>A sequence of appends to a fresh transcript, stopping at the first failure.\<close>

fun append_all :: "(u8 list \<times> nat) list \<Rightarrow> u8 list \<times> nat \<Rightarrow> (u8 list \<times> nat) option" where
  "append_all [] tr = Some tr"
| "append_all ((d, n) # ds) (t, l) =
     (case guardian_security_append (Some t) GUARDIAN_SECURITY_TRANSCRIPT_CAPACITY (Some l) (Some d) n of
        None \<Rightarrow> None | Some tr \<Rightarrow> append_all ds tr)"

definition fresh_transcript :: "u8 list \<times> nat" where
  "fresh_transcript = (replicate GUARDIAN_SECURITY_TRANSCRIPT_CAPACITY 0, 0)"

text \<open>The three authenticators; \<open>None\<close> is the return value 0.\<close>

definition guardian_security_handshake_mac ::
  "'c guardian_security \<Rightarrow> u8 list \<Rightarrow> c_enum \<Rightarrow> u32 \<Rightarrow> u8 list \<Rightarrow> u8 list \<Rightarrow> u8 list
     \<Rightarrow> u8 list option" where
  "guardian_security_handshake_mac s label role session_id client_nonce device_nonce digest =
     (let scalar = guardian_security_write_u32_be
            ((replicate 6 0)[0 := GUARDIAN_SECURITY_SCHEMA_VERSION, 1 := ucast role]) 2 session_id
      in case append_all [(label, length label), (scalar, 6),
            (client_nonce, GUARDIAN_SECURITY_NONCE_SIZE),
            (device_nonce, GUARDIAN_SECURITY_NONCE_SIZE)] fresh_transcript of
           None \<Rightarrow> None
         | Some (transcript, len) \<Rightarrow>
             guardian_hmac_sha256 (Some (sc_psk (s_config s))) GUARDIAN_SECURITY_PSK_SIZE
               (Some transcript) len (Some digest))"

definition guardian_security_request_tag ::
  "'c guardian_security \<Rightarrow> guardian_frame \<Rightarrow> u32 \<Rightarrow> u64 \<Rightarrow> u8 \<Rightarrow> u8 list \<Rightarrow> u16 \<Rightarrow> u8 list
     \<Rightarrow> u8 list option" where
  "guardian_security_request_tag s outer_request session_id counter inner_command inner_payload
     inner_length tag =
     (let scalar1 = guardian_security_write_u32_be
            ((replicate 20 0)[0 := GUARDIAN_SECURITY_SCHEMA_VERSION]) 1 session_id;
          scalar2 = guardian_security_write_u64_be scalar1 5 counter;
          scalar3 = guardian_security_write_u32_be scalar2 13 (sequence outer_request);
          scalar4 = guardian_security_write_u16_be (scalar3[17 := inner_command]) 18 inner_length
      in case append_all [(guardian_security_request_label, length guardian_security_request_label),
            (scalar4, 20), (inner_payload, unat inner_length)] fresh_transcript of
           None \<Rightarrow> None
         | Some (transcript, len) \<Rightarrow>
             guardian_hmac_sha256 (Some (se_session_key (s_session s)))
               GUARDIAN_SECURITY_SESSION_KEY_SIZE (Some transcript) len (Some tag))"

definition guardian_security_response_tag ::
  "'c guardian_security \<Rightarrow> guardian_frame \<Rightarrow> u32 \<Rightarrow> u64 \<Rightarrow> guardian_frame \<Rightarrow> u8 list
     \<Rightarrow> u8 list option" where
  "guardian_security_response_tag s outer_request session_id counter inner_response tag =
     (let scalar1 = guardian_security_write_u32_be
            ((replicate 21 0)[0 := GUARDIAN_SECURITY_SCHEMA_VERSION]) 1 session_id;
          scalar2 = guardian_security_write_u64_be scalar1 5 counter;
          scalar3 = guardian_security_write_u32_be scalar2 13 (sequence outer_request);
          scalar4 = guardian_security_write_u16_be
            (scalar3[17 := ucast (message_type inner_response), 18 := command inner_response])
            19 (payload_length inner_response)
      in case append_all [(guardian_security_response_label, length guardian_security_response_label),
            (scalar4, 21), (payload inner_response, unat (payload_length inner_response))]
            fresh_transcript of
           None \<Rightarrow> None
         | Some (transcript, len) \<Rightarrow>
             guardian_hmac_sha256 (Some (se_session_key (s_session s)))
               GUARDIAN_SECURITY_SESSION_KEY_SIZE (Some transcript) len (Some tag))"

section \<open>Provisioning\<close>

definition guardian_security_init :: "'c guardian_security ptr \<Rightarrow> 'c guardian_security ptr" where
  "guardian_security_init security = map_option (\<lambda>_. zero_security) security"

definition guardian_security_clear :: "'c guardian_security ptr \<Rightarrow> 'c guardian_security ptr" where
  "guardian_security_clear security = map_option (\<lambda>_. zero_security) security"

definition guardian_security_configure ::
  "'c guardian_security ptr \<Rightarrow> 'c guardian_security_config ptr
     \<Rightarrow> guardian_security_result \<times> 'c guardian_security ptr" where
  "guardian_security_configure security config =
     (case (security, config) of
        (Some s, Some c) \<Rightarrow>
          if sc_max_role c < GUARDIAN_SECURITY_ROLE_OBSERVER
             \<or> sc_max_role c > GUARDIAN_SECURITY_ROLE_ADMIN
          then (GUARDIAN_SECURITY_ERROR_INVALID_PAYLOAD, security)
          else if sc_random c = None
          then (GUARDIAN_SECURITY_ERROR_INVALID_PAYLOAD, security)
          else
            let s1 = the (guardian_security_clear (Some s));
                s2 = s1\<lparr>s_config := c\<rparr>;
                s3 = (if sc_session_timeout_seconds (s_config s2) = 0
                      then s2\<lparr>s_config := (s_config s2)\<lparr>sc_session_timeout_seconds :=
                             GUARDIAN_SECURITY_DEFAULT_SESSION_TIMEOUT_SECONDS\<rparr>\<rparr>
                      else s2)
            in (GUARDIAN_SECURITY_OK, Some (s3\<lparr>s_configured := 1\<rparr>))
      | _ \<Rightarrow> (GUARDIAN_SECURITY_ERROR_NULL_ARGUMENT, security))"

section \<open>Handshake\<close>

text \<open>
  The handlers for non-NULL arguments return the result, the context, the response buffer and
  \<open>*response_length\<close>. The callback is not NULL in a provisioned context
  (\<open>guardian_security_configure\<close> checks it).
\<close>

definition auth_fail :: "'c guardian_security \<Rightarrow> 'c guardian_security" where
  "auth_fail s = s\<lparr>s_auth_failures := count (s_auth_failures s)\<rparr>"

definition unauthorized :: "'c guardian_security \<Rightarrow> 'c guardian_security" where
  "unauthorized s = s\<lparr>s_unauthorized_rejections := count (s_unauthorized_rejections s)\<rparr>"

definition auth_begin_core ::
  "'c guardian_security \<Rightarrow> u8 list \<Rightarrow> u16 \<Rightarrow> u32 \<Rightarrow> u8 list \<Rightarrow> u16 \<Rightarrow> u16
     \<Rightarrow> guardian_security_result \<times> 'c guardian_security \<times> u8 list \<times> u16" where
  "auth_begin_core s req request_length now resp response_capacity rlen =
     (if s_configured s = 0 then (GUARDIAN_SECURITY_ERROR_UNAUTHORIZED, s, resp, rlen)
      else if request_length \<noteq> GUARDIAN_SECURITY_AUTH_BEGIN_REQUEST_SIZE
      then (GUARDIAN_SECURITY_ERROR_INVALID_PAYLOAD, auth_fail s, resp, rlen)
      else if response_capacity < GUARDIAN_SECURITY_AUTH_BEGIN_RESPONSE_SIZE
      then (GUARDIAN_SECURITY_ERROR_OUTPUT_TOO_SMALL, s, resp, rlen)
      else if req ! 0 \<noteq> GUARDIAN_SECURITY_SCHEMA_VERSION
      then (GUARDIAN_SECURITY_ERROR_INVALID_PAYLOAD, auth_fail s, resp, rlen)
      else
        let requested_role = ucast (req ! 1) in
        if requested_role < GUARDIAN_SECURITY_ROLE_OBSERVER
           \<or> requested_role > sc_max_role (s_config s)
        then (GUARDIAN_SECURITY_ERROR_UNAUTHORIZED, unauthorized s, resp, rlen)
        else
          let s1 = guardian_security_expire_pending s now;
              (ok, random_bytes, context') =
                the (sc_random (s_config s1)) (sc_random_context (s_config s1)) (replicate 20 0);
              s2 = s1\<lparr>s_config := (s_config s1)\<lparr>sc_random_context := context'\<rparr>\<rparr>
          in
          if \<not> ok then (GUARDIAN_SECURITY_ERROR_RANDOM, s2, resp, rlen)
          else
            let s3 = guardian_security_clear_pending s2;
                random_id = guardian_security_read_u32_be random_bytes 0;
                session_id = (if random_id = 0 then 1 else random_id);
                p = (s_pending s3)\<lparr>pe_valid := 1, pe_role := requested_role,
                      pe_session_id := session_id,
                      pe_client_nonce := buf_write (pe_client_nonce (s_pending s3)) 0
                        (buf_read req 2 GUARDIAN_SECURITY_NONCE_SIZE),
                      pe_device_nonce := buf_write (pe_device_nonce (s_pending s3)) 0
                        (buf_read random_bytes 4 GUARDIAN_SECURITY_NONCE_SIZE),
                      pe_started_seconds := now\<rparr>;
                s4 = s3\<lparr>s_pending := p\<rparr>
            in
            case guardian_security_handshake_mac s4 guardian_security_server_label requested_role
                   (pe_session_id p) (pe_client_nonce p) (pe_device_nonce p) (replicate 32 0) of
              None \<Rightarrow> (GUARDIAN_SECURITY_ERROR_INVALID_PAYLOAD,
                       guardian_security_clear_pending s4, resp, rlen)
            | Some server_proof \<Rightarrow>
                let resp1 = resp[0 := GUARDIAN_SECURITY_SCHEMA_VERSION, 1 := ucast requested_role];
                    resp2 = guardian_security_write_u32_be resp1 2 (pe_session_id p);
                    resp3 = buf_write resp2 6 (take GUARDIAN_SECURITY_NONCE_SIZE (pe_device_nonce p));
                    resp4 = buf_write resp3 22 (take GUARDIAN_SECURITY_TAG_SIZE server_proof)
                in (GUARDIAN_SECURITY_OK, s4, resp4, GUARDIAN_SECURITY_AUTH_BEGIN_RESPONSE_SIZE))"

text \<open>The NULL checks shared by the two handshake entry points.\<close>

definition with_handshake_args ::
  "('c guardian_security \<Rightarrow> u8 list \<Rightarrow> u8 list \<Rightarrow> u16
      \<Rightarrow> guardian_security_result \<times> 'c guardian_security \<times> u8 list \<times> u16)
     \<Rightarrow> 'c guardian_security ptr \<Rightarrow> u8 list ptr \<Rightarrow> u8 list ptr \<Rightarrow> u16 ptr
     \<Rightarrow> guardian_security_result \<times> 'c guardian_security ptr \<times> u8 list ptr \<times> u16 ptr" where
  "with_handshake_args body security request response response_length =
     (case (security, request, response, response_length) of
        (Some s, Some req, Some resp, Some rlen) \<Rightarrow>
          (case body s req resp rlen of (r, s', resp', rlen') \<Rightarrow> (r, Some s', Some resp', Some rlen'))
      | _ \<Rightarrow> (GUARDIAN_SECURITY_ERROR_NULL_ARGUMENT, security, response, response_length))"

definition guardian_security_auth_begin ::
  "'c guardian_security ptr \<Rightarrow> u8 list ptr \<Rightarrow> u16 \<Rightarrow> u32 \<Rightarrow> u8 list ptr \<Rightarrow> u16 \<Rightarrow> u16 ptr
     \<Rightarrow> guardian_security_result \<times> 'c guardian_security ptr \<times> u8 list ptr \<times> u16 ptr" where
  "guardian_security_auth_begin security request request_length now response response_capacity
     response_length =
     with_handshake_args
       (\<lambda>s req resp rlen. auth_begin_core s req request_length now resp response_capacity rlen)
       security request response response_length"

text \<open>Activation of the verified session, from line 1027 of the source on.\<close>

definition activate_session ::
  "'c guardian_security \<Rightarrow> c_enum \<Rightarrow> u32 \<Rightarrow> u8 list \<Rightarrow> u32 \<Rightarrow> 'c guardian_security" where
  "activate_session s role session_id session_key now =
     (let s1 = guardian_security_clear_session s;
          s2 = s1\<lparr>s_session := (s_session s1)\<lparr>se_valid := 1, se_role := role,
                 se_session_id := session_id,
                 se_session_key := buf_write (se_session_key (s_session s1)) 0
                   (take GUARDIAN_SECURITY_SESSION_KEY_SIZE session_key),
                 se_next_counter := 1, se_last_activity_seconds := now\<rparr>\<rparr>
      in s2\<lparr>s_auth_successes := count (s_auth_successes s2)\<rparr>)"

definition auth_finish_core ::
  "'c guardian_security \<Rightarrow> u8 list \<Rightarrow> u16 \<Rightarrow> u32 \<Rightarrow> u8 list \<Rightarrow> u16 \<Rightarrow> u16
     \<Rightarrow> guardian_security_result \<times> 'c guardian_security \<times> u8 list \<times> u16" where
  "auth_finish_core s0 req request_length now resp response_capacity rlen =
     (if s_configured s0 = 0 then (GUARDIAN_SECURITY_ERROR_UNAUTHORIZED, s0, resp, rlen)
      else
        let s = guardian_security_expire_pending s0 now; p = s_pending s in
        if request_length \<noteq> GUARDIAN_SECURITY_AUTH_FINISH_REQUEST_SIZE
        then (GUARDIAN_SECURITY_ERROR_INVALID_PAYLOAD, auth_fail s, resp, rlen)
        else if response_capacity < GUARDIAN_SECURITY_AUTH_FINISH_RESPONSE_SIZE
        then (GUARDIAN_SECURITY_ERROR_OUTPUT_TOO_SMALL, s, resp, rlen)
        else if pe_valid p = 0
        then (GUARDIAN_SECURITY_ERROR_UNAUTHORIZED, auth_fail s, resp, rlen)
        else if req ! 0 \<noteq> GUARDIAN_SECURITY_SCHEMA_VERSION
        then (GUARDIAN_SECURITY_ERROR_INVALID_PAYLOAD, auth_fail s, resp, rlen)
        else
          let role = ucast (req ! 1); session_id = guardian_security_read_u32_be req 2 in
          if role \<noteq> pe_role p \<or> session_id \<noteq> pe_session_id p
          then (GUARDIAN_SECURITY_ERROR_UNAUTHORIZED,
                guardian_security_clear_pending (auth_fail s), resp, rlen)
          else
            case guardian_security_handshake_mac s guardian_security_client_label role session_id
                   (pe_client_nonce p) (pe_device_nonce p) (replicate 32 0) of
              None \<Rightarrow> (GUARDIAN_SECURITY_ERROR_INVALID_PAYLOAD,
                       guardian_security_clear_pending s, resp, rlen)
            | Some expected_proof \<Rightarrow>
                if \<not> guardian_crypto_constant_time_equal (Some expected_proof) (Some (drop 6 req))
                      GUARDIAN_SECURITY_TAG_SIZE
                then (GUARDIAN_SECURITY_ERROR_UNAUTHORIZED,
                      guardian_security_clear_pending (auth_fail s), resp, rlen)
                else
                  case guardian_security_handshake_mac s guardian_security_session_label role
                         session_id (pe_client_nonce p) (pe_device_nonce p) (replicate 32 0) of
                    None \<Rightarrow> (GUARDIAN_SECURITY_ERROR_INVALID_PAYLOAD,
                             guardian_security_clear_pending s, resp, rlen)
                  | Some session_key \<Rightarrow>
                      let s1 = activate_session s role session_id session_key now;
                          resp1 = resp[0 := GUARDIAN_SECURITY_SCHEMA_VERSION, 1 := ucast role];
                          resp2 = guardian_security_write_u32_be resp1 2 session_id;
                          resp3 = guardian_security_write_u16_be resp2 6
                                    (sc_session_timeout_seconds (s_config s1))
                      in (GUARDIAN_SECURITY_OK, guardian_security_clear_pending s1, resp3,
                          GUARDIAN_SECURITY_AUTH_FINISH_RESPONSE_SIZE))"

definition guardian_security_auth_finish ::
  "'c guardian_security ptr \<Rightarrow> u8 list ptr \<Rightarrow> u16 \<Rightarrow> u32 \<Rightarrow> u8 list ptr \<Rightarrow> u16 \<Rightarrow> u16 ptr
     \<Rightarrow> guardian_security_result \<times> 'c guardian_security ptr \<times> u8 list ptr \<times> u16 ptr" where
  "guardian_security_auth_finish security request request_length now response response_capacity
     response_length =
     with_handshake_args
       (\<lambda>s req resp rlen. auth_finish_core s req request_length now resp response_capacity rlen)
       security request response response_length"

section \<open>Secure commands\<close>

text \<open>The last part of the unwrapping, after the tag has been verified.\<close>

definition accept_request ::
  "'c guardian_security \<Rightarrow> guardian_frame \<Rightarrow> u32 \<Rightarrow> u64 \<Rightarrow> u8 \<Rightarrow> u16 \<Rightarrow> guardian_frame \<Rightarrow> u64
     \<Rightarrow> guardian_security_result \<times> 'c guardian_security \<times> guardian_frame \<times> u64" where
  "accept_request s outer now request_counter inner_command inner_length inner ctr =
     (if request_counter \<noteq> se_next_counter (s_session s)
      then (GUARDIAN_SECURITY_ERROR_REPLAY,
            s\<lparr>s_replay_rejections := count (s_replay_rejections s)\<rparr>, inner, ctr)
      else
        let inner' = zero_frame\<lparr>message_type := GUARDIAN_MESSAGE_REQUEST, command := inner_command,
              flags := GUARDIAN_SUPPORTED_FLAGS, sequence := sequence outer,
              payload_length := inner_length,
              payload := (if inner_length \<noteq> 0
                then buf_write (payload zero_frame) 0 (buf_read (payload outer) 16 (unat inner_length))
                else payload zero_frame)\<rparr>;
            s1 = s\<lparr>s_session := (s_session s)\<lparr>se_next_counter := se_next_counter (s_session s) + 1\<rparr>\<rparr>
        in
        if se_next_counter (s_session s1) = 0
        then (GUARDIAN_SECURITY_ERROR_REPLAY, guardian_security_clear_session s1, inner', request_counter)
        else (GUARDIAN_SECURITY_OK,
              s1\<lparr>s_session := (s_session s1)\<lparr>se_last_activity_seconds := now\<rparr>\<rparr>, inner', request_counter))"

definition unwrap_core ::
  "'c guardian_security \<Rightarrow> guardian_frame \<Rightarrow> u32 \<Rightarrow> guardian_frame \<Rightarrow> u64
     \<Rightarrow> guardian_security_result \<times> 'c guardian_security \<times> guardian_frame \<times> u64" where
  "unwrap_core s0 outer now inner ctr =
     (let s = guardian_security_expire_session s0 now in
      if se_valid (s_session s) = 0
      then (GUARDIAN_SECURITY_ERROR_UNAUTHORIZED, unauthorized s, inner, ctr)
      else if payload_length outer < GUARDIAN_SECURITY_REQUEST_OVERHEAD
      then (GUARDIAN_SECURITY_ERROR_INVALID_PAYLOAD, auth_fail s, inner, ctr)
      else if payload outer ! 0 \<noteq> GUARDIAN_SECURITY_SCHEMA_VERSION
      then (GUARDIAN_SECURITY_ERROR_INVALID_PAYLOAD, auth_fail s, inner, ctr)
      else
        let session_id = guardian_security_read_u32_be (payload outer) 1 in
        if session_id \<noteq> se_session_id (s_session s)
        then (GUARDIAN_SECURITY_ERROR_UNAUTHORIZED, unauthorized s, inner, ctr)
        else
          let request_counter = guardian_security_read_u64_be (payload outer) 5;
              inner_command = payload outer ! 13;
              inner_length = guardian_security_read_u16_be (payload outer) 14 in
          if inner_length > GUARDIAN_SECURITY_MAX_REQUEST_INNER_PAYLOAD
          then (GUARDIAN_SECURITY_ERROR_INVALID_PAYLOAD, auth_fail s, inner, ctr)
          else if payload_length outer \<noteq> GUARDIAN_SECURITY_REQUEST_OVERHEAD + inner_length
          then (GUARDIAN_SECURITY_ERROR_INVALID_PAYLOAD, auth_fail s, inner, ctr)
          else
            case guardian_security_request_tag s outer session_id request_counter inner_command
                   (drop 16 (payload outer)) inner_length (replicate 32 0) of
              None \<Rightarrow> (GUARDIAN_SECURITY_ERROR_INVALID_PAYLOAD, s, inner, ctr)
            | Some expected_tag \<Rightarrow>
                if \<not> guardian_crypto_constant_time_equal (Some expected_tag)
                      (Some (drop (16 + unat inner_length) (payload outer))) GUARDIAN_SECURITY_TAG_SIZE
                then (GUARDIAN_SECURITY_ERROR_UNAUTHORIZED, auth_fail s, inner, ctr)
                else accept_request s outer now request_counter inner_command inner_length inner ctr)"

definition guardian_security_unwrap_request ::
  "'c guardian_security ptr \<Rightarrow> guardian_frame ptr \<Rightarrow> u32 \<Rightarrow> guardian_frame ptr \<Rightarrow> u64 ptr
     \<Rightarrow> guardian_security_result \<times> 'c guardian_security ptr \<times> guardian_frame ptr \<times> u64 ptr" where
  "guardian_security_unwrap_request security outer_request now inner_request counter =
     (case (security, outer_request, inner_request, counter) of
        (Some s, Some outer, Some inner, Some ctr) \<Rightarrow>
          (case unwrap_core s outer now inner ctr of
             (r, s', inner', ctr') \<Rightarrow> (r, Some s', Some inner', Some ctr'))
      | _ \<Rightarrow> (GUARDIAN_SECURITY_ERROR_NULL_ARGUMENT, security, inner_request, counter))"

definition guardian_security_required_role :: "u8 \<Rightarrow> c_enum" where
  "guardian_security_required_role cmd =
     (if cmd = GUARDIAN_COMMAND_BASELINE_CONTROL then GUARDIAN_SECURITY_ROLE_OPERATOR
      else if cmd = GUARDIAN_COMMAND_CONTROL_COMMAND then GUARDIAN_SECURITY_ROLE_OPERATOR
      else GUARDIAN_SECURITY_ROLE_ADMIN)"

definition guardian_security_authorize ::
  "'c guardian_security ptr \<Rightarrow> u8 \<Rightarrow> bool \<times> 'c guardian_security ptr" where
  "guardian_security_authorize security cmd =
     (case security of
        None \<Rightarrow> (False, None)
      | Some s \<Rightarrow>
          if se_valid (s_session s) = 0 then (False, Some s)
          else if se_role (s_session s) < guardian_security_required_role cmd
          then (False, Some (unauthorized s))
          else (True, Some s))"

text \<open>The response stays partly written when the tag cannot be computed, as in the source.\<close>

definition wrap_core ::
  "'c guardian_security \<Rightarrow> guardian_frame \<Rightarrow> u64 \<Rightarrow> guardian_frame \<Rightarrow> guardian_frame
     \<Rightarrow> guardian_security_result \<times> guardian_frame" where
  "wrap_core s outer_request counter inner out0 =
     (if se_valid (s_session s) = 0 then (GUARDIAN_SECURITY_ERROR_UNAUTHORIZED, out0)
      else if payload_length inner > GUARDIAN_SECURITY_MAX_RESPONSE_INNER_PAYLOAD
      then (GUARDIAN_SECURITY_ERROR_OUTPUT_TOO_SMALL, out0)
      else
        let n = unat (payload_length inner);
            pl1 = (payload zero_frame)[0 := GUARDIAN_SECURITY_SCHEMA_VERSION];
            pl2 = guardian_security_write_u32_be pl1 1 (se_session_id (s_session s));
            pl3 = guardian_security_write_u64_be pl2 5 counter;
            pl4 = pl3[13 := ucast (message_type inner), 14 := command inner];
            pl5 = guardian_security_write_u16_be pl4 15 (payload_length inner);
            pl6 = (if payload_length inner \<noteq> 0 then buf_write pl5 17 (take n (payload inner)) else pl5);
            out1 = zero_frame\<lparr>message_type := GUARDIAN_MESSAGE_RESPONSE,
              command := command outer_request, flags := GUARDIAN_SUPPORTED_FLAGS,
              sequence := sequence outer_request, payload := pl6\<rparr>
        in
        case guardian_security_response_tag s outer_request (se_session_id (s_session s)) counter
               inner (replicate 32 0) of
          None \<Rightarrow> (GUARDIAN_SECURITY_ERROR_INVALID_PAYLOAD, out1)
        | Some tag \<Rightarrow>
            (GUARDIAN_SECURITY_OK,
             out1\<lparr>payload := buf_write pl6 (17 + n) (take GUARDIAN_SECURITY_TAG_SIZE tag),
               payload_length := GUARDIAN_SECURITY_RESPONSE_OVERHEAD + payload_length inner\<rparr>))"

definition guardian_security_wrap_response ::
  "'c guardian_security ptr \<Rightarrow> guardian_frame ptr \<Rightarrow> u64 \<Rightarrow> guardian_frame ptr \<Rightarrow> guardian_frame ptr
     \<Rightarrow> guardian_security_result \<times> guardian_frame ptr" where
  "guardian_security_wrap_response security outer_request counter inner_response outer_response =
     (case (security, outer_request, inner_response, outer_response) of
        (Some s, Some outer, Some inner, Some out0) \<Rightarrow>
          (case wrap_core s outer counter inner out0 of (r, out') \<Rightarrow> (r, Some out'))
      | _ \<Rightarrow> (GUARDIAN_SECURITY_ERROR_NULL_ARGUMENT, outer_response))"

section \<open>Status\<close>

definition zero_status :: guardian_security_status_t where
  "zero_status = \<lparr>ss_configured = 0, ss_active = 0, ss_active_role = 0, ss_session_id = 0,
     ss_next_counter = 0, ss_timeout_seconds = 0, ss_remaining_seconds = 0, ss_auth_successes = 0,
     ss_auth_failures = 0, ss_replay_rejections = 0, ss_unauthorized_rejections = 0\<rparr>"

definition guardian_security_status ::
  "'c guardian_security ptr \<Rightarrow> u32 \<Rightarrow> guardian_security_status_t \<times> 'c guardian_security ptr" where
  "guardian_security_status security now =
     (case security of
        None \<Rightarrow> (zero_status, None)
      | Some s0 \<Rightarrow>
          let s = guardian_security_expire_session (guardian_security_expire_pending s0 now) now;
              st = zero_status\<lparr>ss_configured := s_configured s,
                ss_timeout_seconds := (if s_configured s \<noteq> 0
                  then sc_session_timeout_seconds (s_config s) else 0),
                ss_auth_successes := s_auth_successes s, ss_auth_failures := s_auth_failures s,
                ss_replay_rejections := s_replay_rejections s,
                ss_unauthorized_rejections := s_unauthorized_rejections s\<rparr>
          in
          if se_valid (s_session s) \<noteq> 0
          then
            let elapsed = now - se_last_activity_seconds (s_session s);
                timeout = ucast (sc_session_timeout_seconds (s_config s)) :: u32
            in (st\<lparr>ss_active := 1, ss_active_role := se_role (s_session s),
                  ss_session_id := se_session_id (s_session s),
                  ss_next_counter := se_next_counter (s_session s),
                  ss_remaining_seconds := (if elapsed < timeout then ucast (timeout - elapsed)
                    else ss_remaining_seconds st)\<rparr>, Some s)
          else (st, Some s))"

definition guardian_security_encode_status_payload ::
  "guardian_security_status_t ptr \<Rightarrow> u8 list ptr \<Rightarrow> u16 \<Rightarrow> u16 ptr
     \<Rightarrow> guardian_security_result \<times> u8 list ptr \<times> u16 ptr" where
  "guardian_security_encode_status_payload status pl payload_capacity plen =
     (case (status, pl, plen) of
        (Some st, Some b, Some _) \<Rightarrow>
          if payload_capacity < GUARDIAN_SECURITY_STATUS_PAYLOAD_SIZE
          then (GUARDIAN_SECURITY_ERROR_OUTPUT_TOO_SMALL, pl, plen)
          else
            let b1 = b[0 := GUARDIAN_SECURITY_SCHEMA_VERSION, 1 := ss_configured st,
                       2 := ss_active st, 3 := ucast (ss_active_role st)];
                b2 = guardian_security_write_u32_be b1 4 (ss_session_id st);
                b3 = guardian_security_write_u64_be b2 8 (ss_next_counter st);
                b4 = guardian_security_write_u16_be b3 16 (ss_timeout_seconds st);
                b5 = guardian_security_write_u16_be b4 18 (ss_remaining_seconds st);
                b6 = guardian_security_write_u32_be b5 20 (ss_auth_successes st);
                b7 = guardian_security_write_u32_be b6 24 (ss_auth_failures st);
                b8 = guardian_security_write_u32_be b7 28 (ss_replay_rejections st);
                b9 = guardian_security_write_u32_be b8 32 (ss_unauthorized_rejections st)
            in (GUARDIAN_SECURITY_OK, Some b9, Some GUARDIAN_SECURITY_STATUS_PAYLOAD_SIZE)
      | _ \<Rightarrow> (GUARDIAN_SECURITY_ERROR_NULL_ARGUMENT, pl, plen))"

section \<open>Reference transcripts and envelopes\<close>

definition handshake_transcript :: "u8 list \<Rightarrow> c_enum \<Rightarrow> u32 \<Rightarrow> u8 list \<Rightarrow> u8 list \<Rightarrow> u8 list" where
  "handshake_transcript label role session_id client_nonce device_nonce =
     label @ [GUARDIAN_SECURITY_SCHEMA_VERSION, ucast role] @ be32_bytes session_id
     @ client_nonce @ device_nonce"

definition request_transcript :: "u32 \<Rightarrow> u64 \<Rightarrow> u32 \<Rightarrow> u8 \<Rightarrow> u8 list \<Rightarrow> u8 list" where
  "request_transcript session_id counter seq cmd pl =
     guardian_security_request_label @ [GUARDIAN_SECURITY_SCHEMA_VERSION] @ be32_bytes session_id
     @ be64_bytes counter @ be32_bytes seq @ [cmd] @ be16_bytes (of_nat (length pl)) @ pl"

definition response_transcript :: "u32 \<Rightarrow> u64 \<Rightarrow> u32 \<Rightarrow> u8 \<Rightarrow> u8 \<Rightarrow> u8 list \<Rightarrow> u8 list" where
  "response_transcript session_id counter seq mtype cmd pl =
     guardian_security_response_label @ [GUARDIAN_SECURITY_SCHEMA_VERSION] @ be32_bytes session_id
     @ be64_bytes counter @ be32_bytes seq @ [mtype, cmd] @ be16_bytes (of_nat (length pl)) @ pl"

text \<open>The payload of a secure command as a client holding the session key builds it.\<close>

definition request_envelope :: "u8 list \<Rightarrow> u32 \<Rightarrow> u64 \<Rightarrow> u32 \<Rightarrow> u8 \<Rightarrow> u8 list \<Rightarrow> u8 list" where
  "request_envelope key session_id counter seq cmd pl =
     [GUARDIAN_SECURITY_SCHEMA_VERSION] @ be32_bytes session_id @ be64_bytes counter @ [cmd]
     @ be16_bytes (of_nat (length pl)) @ pl
     @ take GUARDIAN_SECURITY_TAG_SIZE (hmac_reference key (request_transcript session_id counter seq cmd pl))"

definition response_envelope ::
  "u8 list \<Rightarrow> u32 \<Rightarrow> u64 \<Rightarrow> u32 \<Rightarrow> u8 \<Rightarrow> u8 \<Rightarrow> u8 list \<Rightarrow> u8 list" where
  "response_envelope key session_id counter seq mtype cmd pl =
     [GUARDIAN_SECURITY_SCHEMA_VERSION] @ be32_bytes session_id @ be64_bytes counter @ [mtype, cmd]
     @ be16_bytes (of_nat (length pl)) @ pl
     @ take GUARDIAN_SECURITY_TAG_SIZE
         (hmac_reference key (response_transcript session_id counter seq mtype cmd pl))"

section \<open>Transcript lemmas\<close>

lemma count_sat [simp]: "count x = sat_inc_u32 x"
  by (simp add: count_def guardian_security_increment_u32_def sat_inc_u32_def)

lemma security_read_be [be_simps]:
  "guardian_security_read_u16_be b i = be16_at b i"
  "guardian_security_read_u32_be b i = be32_at b i"
  "guardian_security_read_u64_be b i = be64_at b i"
  by (simp_all add: guardian_security_read_u16_be_def guardian_security_read_u32_be_def
      guardian_security_read_u64_be_def be16_at_def be32_at_def be64_at_def)

lemma security_write_be [be_simps]:
  "i + 2 \<le> length b \<Longrightarrow> guardian_security_write_u16_be b i v = buf_write b i (be16_bytes v)"
  "i + 4 \<le> length b \<Longrightarrow> guardian_security_write_u32_be b i w = buf_write b i (be32_bytes w)"
  "i + 8 \<le> length b \<Longrightarrow> guardian_security_write_u64_be b i x = buf_write b i (be64_bytes x)"
  by (simp_all add: guardian_security_write_u16_be_def guardian_security_write_u32_be_def
      guardian_security_write_u64_be_def be16_bytes_def be32_bytes_def be64_bytes_def
      list_update_buf_write buf_write_adjacent)

lemmas label_defs = guardian_security_server_label_def guardian_security_client_label_def
  guardian_security_session_label_def guardian_security_request_label_def
  guardian_security_response_label_def

lemma append_all_ok:
  "length t = 288 \<Longrightarrow> list_all (\<lambda>(d, n). n \<le> length d) ds \<Longrightarrow> l + sum_list (map snd ds) \<le> 288 \<Longrightarrow>
   append_all ds (t, l) =
     Some (buf_write t l (concat (map (\<lambda>(d, n). take n d) ds)), l + sum_list (map snd ds))"
proof (induction ds arbitrary: t l)
  case (Cons x ds)
  obtain d n where x: "x = (d, n)" by fastforce
  have dn: "length (take n d) = n" "l + n \<le> 288" using Cons.prems x by auto
  let ?t = "buf_write t l (take n d)"
  have step: "append_all (x # ds) (t, l) = append_all ds (?t, l + n)"
    using dn Cons.prems(1) x by (simp add: guardian_security_append_def)
  have "append_all ds (?t, l + n)
      = Some (buf_write ?t (l + n) (concat (map (\<lambda>(d, n). take n d) ds)), l + n + sum_list (map snd ds))"
    using Cons.prems x dn by (intro Cons.IH) auto
  also have "buf_write ?t (l + n) (concat (map (\<lambda>(d, n). take n d) ds))
      = buf_write t l (take n d @ concat (map (\<lambda>(d, n). take n d) ds))"
    using dn Cons.prems(1) by (intro buf_write_adjacent) auto
  finally show ?case unfolding step by (simp add: x)
qed simp

lemma transcript_hmac:
  assumes "length k = 32" "list_all (\<lambda>(d, n). n \<le> length d) ds" "sum_list (map snd ds) \<le> 288"
  shows "(case append_all ds fresh_transcript of None \<Rightarrow> None
      | Some (t, len) \<Rightarrow> guardian_hmac_sha256 (Some k) 32 (Some t) len (Some (replicate 32 0)))
    = Some (hmac_reference k (concat (map (\<lambda>(d, n). take n d) ds)))"
proof -
  let ?c = "concat (map (\<lambda>(d, n). take n d) ds)" and ?n = "sum_list (map snd ds)"
  have len: "length ?c = ?n" using assms(2) by (induction ds) auto
  have "append_all ds fresh_transcript = Some (buf_write (replicate 288 0) 0 ?c, ?n)"
    using append_all_ok [of "replicate 288 0" ds 0] assms by (simp add: fresh_transcript_def)
  moreover have "take ?n (buf_write (replicate 288 0) 0 ?c) = ?c"
    using len by (simp add: take_buf_write_0)
  moreover have "?n \<le> length (buf_write (replicate 288 (0 :: u8)) 0 ?c)"
    using len assms(3) by simp
  ultimately show ?thesis
    using guardian_hmac_reference [of 32 k ?n "buf_write (replicate 288 0) 0 ?c" "replicate 32 0"] assms(1)
    by (simp add: buf_write_whole)
qed

lemma handshake_mac_eq:
  assumes "length (sc_psk (s_config s)) = 32" "length cn = 16" "length dn = 16" "length label \<le> 100"
  shows "guardian_security_handshake_mac s label role sid cn dn (replicate 32 0)
    = Some (hmac_reference (sc_psk (s_config s)) (handshake_transcript label role sid cn dn))"
proof -
  let ?sc = "guardian_security_write_u32_be ((replicate 6 0)[0 := 1, 1 := ucast role]) 2 sid"
  have sc: "?sc = [1, ucast role] @ be32_bytes sid"
    by (simp add: security_write_be buf_write_def numeral_eq_Suc)
  show ?thesis
    unfolding guardian_security_handshake_mac_def Let_def sc
    using assms by (subst transcript_hmac) (auto simp: handshake_transcript_def)
qed

lemma request_tag_eq:
  assumes "length (se_session_key (s_session s)) = 32" "unat n \<le> 224" "unat n \<le> length pl"
  shows "guardian_security_request_tag s outer sid ctr cmd pl n (replicate 32 0)
    = Some (hmac_reference (se_session_key (s_session s))
        (request_transcript sid ctr (sequence outer) cmd (take (unat n) pl)))"
proof -
  have sc: "guardian_security_write_u16_be ((guardian_security_write_u32_be
      (guardian_security_write_u64_be (guardian_security_write_u32_be ((replicate 20 0)[0 := 1]) 1 sid)
        5 ctr) 13 (sequence outer))[17 := cmd]) 18 n
    = [1] @ be32_bytes sid @ be64_bytes ctr @ be32_bytes (sequence outer) @ [cmd] @ be16_bytes n"
    by (simp add: security_write_be list_update_0_buf_write list_update_buf_write buf_write_adjacent)
      (simp add: buf_write_def)
  have n: "of_nat (min (length pl) (unat n)) = n"
    using assms(3) by (simp add: min_absorb2)
  show ?thesis
    unfolding guardian_security_request_tag_def Let_def sc
    using assms n by (subst transcript_hmac) (auto simp: request_transcript_def label_defs)
qed

lemma response_tag_eq:
  assumes "length (se_session_key (s_session s)) = 32" "unat (payload_length inner) \<le> 224"
    "unat (payload_length inner) \<le> length (payload inner)"
  shows "guardian_security_response_tag s outer sid ctr inner (replicate 32 0)
    = Some (hmac_reference (se_session_key (s_session s))
        (response_transcript sid ctr (sequence outer) (ucast (message_type inner)) (command inner)
          (frame_payload inner)))"
proof -
  let ?n = "payload_length inner"
  have sc: "guardian_security_write_u16_be ((guardian_security_write_u32_be
      (guardian_security_write_u64_be (guardian_security_write_u32_be ((replicate 21 0)[0 := 1]) 1 sid)
        5 ctr) 13 (sequence outer))[17 := ucast (message_type inner), 18 := command inner]) 19 ?n
    = [1] @ be32_bytes sid @ be64_bytes ctr @ be32_bytes (sequence outer)
      @ [ucast (message_type inner), command inner] @ be16_bytes ?n"
    by (simp add: security_write_be list_update_0_buf_write list_update_buf_write buf_write_adjacent)
      (simp add: buf_write_def)
  have n: "of_nat (min (length (payload inner)) (unat ?n)) = ?n"
    using assms(3) by (simp add: min_absorb2)
  show ?thesis
    unfolding guardian_security_response_tag_def Let_def sc
    using assms n by (subst transcript_hmac) (auto simp: response_transcript_def frame_payload_def label_defs)
qed

section \<open>Invariant\<close>

text \<open>The contract of the platform's nonce callback: it fills the array it is given.\<close>

definition random_fills :: "'c guardian_security_config \<Rightarrow> bool" where
  "random_fills c \<longleftrightarrow>
     (\<forall>r. sc_random c = Some r \<longrightarrow> (\<forall>context out. length (fst (snd (r context out))) = length out))"

definition role_ok :: "'c guardian_security \<Rightarrow> c_enum \<Rightarrow> bool" where
  "role_ok s role \<longleftrightarrow> GUARDIAN_SECURITY_ROLE_OBSERVER \<le> role \<and> role \<le> sc_max_role (s_config s)"

definition sec_inv :: "'c guardian_security \<Rightarrow> bool" where
  "sec_inv s \<longleftrightarrow> length (sc_psk (s_config s)) = GUARDIAN_SECURITY_PSK_SIZE \<and> random_fills (s_config s) \<and>
     (s_configured s \<noteq> 0 \<longrightarrow> sc_random (s_config s) \<noteq> None \<and>
        sc_max_role (s_config s) \<le> GUARDIAN_SECURITY_ROLE_ADMIN \<and>
        sc_session_timeout_seconds (s_config s) \<noteq> 0) \<and>
     (pe_valid (s_pending s) \<noteq> 0 \<longrightarrow> s_configured s \<noteq> 0 \<and> role_ok s (pe_role (s_pending s)) \<and>
        pe_session_id (s_pending s) \<noteq> 0 \<and>
        length (pe_client_nonce (s_pending s)) = GUARDIAN_SECURITY_NONCE_SIZE \<and>
        length (pe_device_nonce (s_pending s)) = GUARDIAN_SECURITY_NONCE_SIZE) \<and>
     (se_valid (s_session s) \<noteq> 0 \<longrightarrow> s_configured s \<noteq> 0 \<and> role_ok s (se_role (s_session s)) \<and>
        se_session_id (s_session s) \<noteq> 0 \<and>
        length (se_session_key (s_session s)) = GUARDIAN_SECURITY_SESSION_KEY_SIZE \<and>
        se_next_counter (s_session s) \<noteq> 0)"

definition live :: "'c guardian_security \<Rightarrow> u32 \<Rightarrow> bool" where
  "live s now \<longleftrightarrow> se_valid (s_session s) \<noteq> 0 \<and>
     now - se_last_activity_seconds (s_session s) < ucast (sc_session_timeout_seconds (s_config s))"

text \<open>The checks that stand between the expiry test and the counter test of the unwrapping.\<close>

definition envelope_checks :: "'c guardian_security \<Rightarrow> guardian_frame \<Rightarrow> bool" where
  "envelope_checks s outer \<longleftrightarrow>
     (let p = payload outer; n = be16_at p 14; key = se_session_key (s_session s) in
      payload_length outer = 32 + n \<and> n \<le> 224 \<and> p ! 0 = 1 \<and>
      be32_at p 1 = se_session_id (s_session s) \<and>
      take 16 (drop (16 + unat n) p) =
        take 16 (hmac_reference key (request_transcript (be32_at p 1) (be64_at p 5) (sequence outer)
          (p ! 13) (take (unat n) (drop 16 p)))))"

definition wf_outer :: "guardian_frame \<Rightarrow> bool" where
  "wf_outer f \<longleftrightarrow> wf_frame f \<and> unat (payload_length f) \<le> GUARDIAN_MAX_PAYLOAD_SIZE"

lemma sec_inv_zero [simp]: "sec_inv zero_security"
  by (simp add: sec_inv_def zero_security_def zero_config_def zero_pending_def zero_session_def
      random_fills_def)

lemma zero_records [simp]:
  "pe_valid zero_pending = 0" "se_valid zero_session = 0"
  "length (pe_client_nonce zero_pending) = 16" "length (pe_device_nonce zero_pending) = 16"
  "length (se_session_key zero_session) = 32"
  by (simp_all add: zero_pending_def zero_session_def)

lemma expire_session_eq:
  "guardian_security_expire_session s now =
     (if live s now \<or> se_valid (s_session s) = 0 then s else s\<lparr>s_session := zero_session\<rparr>)"
  by (auto simp: guardian_security_expire_session_def live_def Let_def
      guardian_security_clear_session_def)

lemma expire_pending_cases:
  "guardian_security_expire_pending s now = s \<or>
   guardian_security_expire_pending s now = s\<lparr>s_pending := zero_pending\<rparr>"
  by (auto simp: guardian_security_expire_pending_def Let_def guardian_security_clear_pending_def)

lemma sec_inv_expire [simp]:
  "sec_inv s \<Longrightarrow> sec_inv (guardian_security_expire_pending s now)"
  "sec_inv s \<Longrightarrow> sec_inv (guardian_security_expire_session s now)"
  using expire_pending_cases [of s now]
  by (auto simp: sec_inv_def role_ok_def expire_session_eq)

lemma sec_inv_counters [simp]:
  "sec_inv (auth_fail s) = sec_inv s" "sec_inv (unauthorized s) = sec_inv s"
  "sec_inv (s\<lparr>s_replay_rejections := x\<rparr>) = sec_inv s"
  by (simp_all add: auth_fail_def unauthorized_def sec_inv_def role_ok_def)

lemma sec_inv_clear [simp]:
  "sec_inv s \<Longrightarrow> sec_inv (guardian_security_clear_pending s)"
  "sec_inv s \<Longrightarrow> sec_inv (guardian_security_clear_session s)"
  by (simp_all add: sec_inv_def role_ok_def guardian_security_clear_pending_def
      guardian_security_clear_session_def)

section \<open>Unwrapping\<close>

lemma take_16_payload:
  assumes "length p = 256"
  shows "take 16 p = [p ! 0] @ be32_bytes (be32_at p 1) @ be64_bytes (be64_at p 5) @ [p ! 13]
    @ be16_bytes (be16_at p 14)"
  unfolding be_bytes_at using assms
  by (intro nth_equalityI) (auto simp: nth_Cons' less_Suc_eq numeral_eq_Suc)

lemma envelope_checks_iff:
  assumes "wf_outer outer"
  shows "envelope_checks s outer \<longleftrightarrow>
    (\<exists>ctr cmd pl. length pl \<le> 224 \<and> frame_payload outer = request_envelope (se_session_key (s_session s))
       (se_session_id (s_session s)) ctr (sequence outer) cmd pl)"
proof
  let ?p = "payload outer" and ?n = "be16_at (payload outer) 14"
  have len: "length ?p = 256" using assms by (simp add: wf_outer_def wf_frame_def)
  assume "envelope_checks s outer"
  then have g: "payload_length outer = 32 + ?n" "unat ?n \<le> 224" "?p ! 0 = 1"
    "be32_at ?p 1 = se_session_id (s_session s)"
    "take 16 (drop (16 + unat ?n) ?p) = take 16 (hmac_reference (se_session_key (s_session s))
       (request_transcript (be32_at ?p 1) (be64_at ?p 5) (sequence outer) (?p ! 13)
         (take (unat ?n) (drop 16 ?p))))"
    by (simp_all add: envelope_checks_def Let_def word_le_nat_alt)
  have plen: "unat (payload_length outer) = 32 + unat ?n"
    using g(1,2) by (simp add: unat_word_ariths)
  have "frame_payload outer = take 16 ?p @ take (unat ?n) (drop 16 ?p) @ take 16 (drop (16 + unat ?n) ?p)"
    unfolding frame_payload_def plen
    using take_add [of 16 "unat ?n + 16" ?p] take_add [of "unat ?n" 16 "drop 16 ?p"]
    by (simp add: add.commute)
  also have "\<dots> = request_envelope (se_session_key (s_session s)) (se_session_id (s_session s))
      (be64_at ?p 5) (sequence outer) (?p ! 13) (take (unat ?n) (drop 16 ?p))"
    unfolding g(5) take_16_payload [OF len] request_envelope_def using g len by simp
  finally show "\<exists>ctr cmd pl. length pl \<le> 224 \<and> frame_payload outer = request_envelope
      (se_session_key (s_session s)) (se_session_id (s_session s)) ctr (sequence outer) cmd pl"
    using g(2) len by (intro exI conjI) auto
next
  assume "\<exists>ctr cmd pl. length pl \<le> 224 \<and> frame_payload outer = request_envelope
      (se_session_key (s_session s)) (se_session_id (s_session s)) ctr (sequence outer) cmd pl"
  then obtain ctr cmd pl where pl: "length pl \<le> 224" and env: "frame_payload outer = request_envelope
      (se_session_key (s_session s)) (se_session_id (s_session s)) ctr (sequence outer) cmd pl" by blast
  obtain rest where p: "payload outer = request_envelope
      (se_session_key (s_session s)) (se_session_id (s_session s)) ctr (sequence outer) cmd pl @ rest"
    using env by (metis append_take_drop_id frame_payload_def)
  have "length (frame_payload outer) = unat (payload_length outer)"
    using assms by (simp add: frame_payload_def wf_outer_def wf_frame_def)
  then have "unat (payload_length outer) = 32 + length pl"
    using env by (simp add: request_envelope_def)
  then have len: "payload_length outer = 32 + of_nat (length pl)"
    using pl by (simp add: word_unat_eq_iff unat_word_ariths unat_of_nat)
  have n: "unat (of_nat (length pl) :: u16) = length pl" using pl by (simp add: unat_of_nat)
  have f: "be16_at (payload outer) 14 = of_nat (length pl)"
    "be32_at (payload outer) 1 = se_session_id (s_session s)" "be64_at (payload outer) 5 = ctr"
    "payload outer ! 0 = 1" "payload outer ! 13 = cmd"
    unfolding p request_envelope_def by (simp_all add: buf_simps nth_append)
  have d: "take (length pl) (drop 16 (payload outer)) = pl"
    "take 16 (drop (16 + length pl) (payload outer)) = take 16 (hmac_reference (se_session_key (s_session s))
       (request_transcript (se_session_id (s_session s)) ctr (sequence outer) cmd pl))"
    unfolding p request_envelope_def by (simp_all add: drop_Cons')
  show "envelope_checks s outer"
    using len pl n by (simp add: envelope_checks_def Let_def f f(2) [simplified] d word_le_nat_alt)
qed

lemma unwrap_core_live:
  assumes "live s now" "length (se_session_key (s_session s)) = 32" "wf_outer outer"
  shows "envelope_checks s outer \<Longrightarrow> unwrap_core s outer now inner ctr =
      accept_request s outer now (be64_at (payload outer) 5) (payload outer ! 13)
        (be16_at (payload outer) 14) inner ctr"
    and "\<not> envelope_checks s outer \<Longrightarrow>
      fst (unwrap_core s outer now inner ctr) \<notin> {GUARDIAN_SECURITY_OK, GUARDIAN_SECURITY_ERROR_REPLAY}"
proof -
  let ?p = "payload outer" and ?n = "be16_at (payload outer) 14"
  have len: "length ?p = 256" using assms(3) by (simp add: wf_outer_def wf_frame_def)
  have exp: "guardian_security_expire_session s now = s" using assms(1) by (simp add: expire_session_eq)
  have valid: "se_valid (s_session s) \<noteq> 0" using assms(1) by (simp add: live_def)
  let ?h = "hmac_reference (se_session_key (s_session s))
     (request_transcript (be32_at ?p 1) (be64_at ?p 5) (sequence outer) (?p ! 13) (take (unat ?n) (drop 16 ?p)))"
  have tag: "guardian_security_request_tag s outer (be32_at ?p 1) (be64_at ?p 5) (?p ! 13)
      (drop 16 ?p) ?n (replicate 32 0) = Some ?h" if "?n \<le> 224"
    using that len assms(2) by (intro request_tag_eq) (auto simp: word_le_nat_alt)
  have eq: "guardian_crypto_constant_time_equal (Some ?h) (Some (drop (16 + unat ?n) ?p)) 16
      \<longleftrightarrow> take 16 ?h = take 16 (drop (16 + unat ?n) ?p)" if "?n \<le> 224"
    using that len by (subst constant_time_equal_iff) (auto simp: word_le_nat_alt)
  have ge: "payload_length outer = 32 + ?n \<Longrightarrow> ?n \<le> 224 \<Longrightarrow> \<not> payload_length outer < 32"
    by (simp add: word_le_nat_alt word_less_nat_alt unat_word_ariths)
  show "envelope_checks s outer \<Longrightarrow> unwrap_core s outer now inner ctr =
      accept_request s outer now (be64_at ?p 5) (?p ! 13) ?n inner ctr"
    using tag eq ge valid
    by (auto simp: unwrap_core_def exp security_read_be envelope_checks_def Let_def)
  show "\<not> envelope_checks s outer \<Longrightarrow>
      fst (unwrap_core s outer now inner ctr) \<notin> {GUARDIAN_SECURITY_OK, GUARDIAN_SECURITY_ERROR_REPLAY}"
    using tag eq valid
    by (auto simp: unwrap_core_def exp security_read_be envelope_checks_def Let_def not_less not_le)
qed

lemma unwrap_core_dead:
  "\<not> live s now \<Longrightarrow> fst (unwrap_core s outer now inner ctr) = GUARDIAN_SECURITY_ERROR_UNAUTHORIZED"
  by (auto simp: unwrap_core_def Let_def expire_session_eq)

lemma unwrap_Some:
  "guardian_security_unwrap_request (Some s) (Some outer) now (Some inner) (Some ctr) =
     (case unwrap_core s outer now inner ctr of
        (r, s', inner', ctr') \<Rightarrow> (r, Some s', Some inner', Some ctr'))"
  by (simp add: guardian_security_unwrap_request_def)

section \<open>Operations as steps\<close>

datatype 'c sec_op =
    Configure "'c guardian_security_config"
  | Clear
  | Auth_begin "u8 list" u16 u32 "u8 list" u16
  | Auth_finish "u8 list" u16 u32 "u8 list" u16
  | Unwrap guardian_frame u32
  | Authorize u8
  | Status u32

datatype sec_event = Silent | Established c_enum u32 | Accepted u64 guardian_frame

text \<open>What an operation does to the context, and what it reports to the application.\<close>

fun sec_exec :: "'c guardian_security \<Rightarrow> 'c sec_op \<Rightarrow> sec_event \<times> 'c guardian_security" where
  "sec_exec s (Configure c) = (Silent, the (snd (guardian_security_configure (Some s) (Some c))))"
| "sec_exec s Clear = (Silent, the (guardian_security_clear (Some s)))"
| "sec_exec s (Auth_begin req n now resp cap) =
     (case guardian_security_auth_begin (Some s) (Some req) n now (Some resp) cap (Some 0) of
        (_, s', _) \<Rightarrow> (Silent, the s'))"
| "sec_exec s (Auth_finish req n now resp cap) =
     (case guardian_security_auth_finish (Some s) (Some req) n now (Some resp) cap (Some 0) of
        (r, s', _) \<Rightarrow>
          (if r = GUARDIAN_SECURITY_OK
           then Established (se_role (s_session (the s'))) (se_session_id (s_session (the s')))
           else Silent, the s'))"
| "sec_exec s (Unwrap outer now) =
     (case guardian_security_unwrap_request (Some s) (Some outer) now (Some zero_frame) (Some 0) of
        (r, s', inner, ctr) \<Rightarrow>
          (if r = GUARDIAN_SECURITY_OK then Accepted (the ctr) (the inner) else Silent, the s'))"
| "sec_exec s (Authorize cmd) = (Silent, the (snd (guardian_security_authorize (Some s) cmd)))"
| "sec_exec s (Status now) = (Silent, the (snd (guardian_security_status (Some s) now)))"

text \<open>The caller's side: arrays have the declared sizes, frames come from the decoder.\<close>

fun op_ok :: "'c sec_op \<Rightarrow> bool" where
  "op_ok (Configure c) \<longleftrightarrow> length (sc_psk c) = GUARDIAN_SECURITY_PSK_SIZE \<and> random_fills c"
| "op_ok (Auth_begin req n now resp cap) \<longleftrightarrow> unat n \<le> length req \<and> unat cap \<le> length resp"
| "op_ok (Auth_finish req n now resp cap) \<longleftrightarrow> unat n \<le> length req \<and> unat cap \<le> length resp"
| "op_ok (Unwrap outer now) \<longleftrightarrow> wf_outer outer"
| "op_ok _ \<longleftrightarrow> True"

inductive sec_step :: "'c guardian_security \<Rightarrow> 'c guardian_security \<Rightarrow> bool" where
  sec_stepI: "op_ok op \<Longrightarrow> sec_exec s op = (e, t) \<Longrightarrow> sec_step s t"

inductive_cases sec_stepE: "sec_step s t"

fun sec_run :: "'c guardian_security \<Rightarrow> 'c sec_op list \<Rightarrow> sec_event list \<times> 'c guardian_security" where
  "sec_run s [] = ([], s)"
| "sec_run s (op # ops) =
     (case sec_exec s op of (e, s1) \<Rightarrow> (case sec_run s1 ops of (es, s2) \<Rightarrow> (e # es, s2)))"

fun accepted_counters :: "sec_event list \<Rightarrow> u64 list" where
  "accepted_counters [] = []"
| "accepted_counters (Accepted c _ # es) = c # accepted_counters es"
| "accepted_counters (_ # es) = accepted_counters es"

fun is_established :: "sec_event \<Rightarrow> bool" where
  "is_established (Established _ _) = True"
| "is_established _ = False"

section \<open>Every operation keeps the invariant\<close>

lemma sec_inv_configure:
  "sec_inv s \<Longrightarrow> length (sc_psk c) = 32 \<Longrightarrow> random_fills c \<Longrightarrow>
   sec_inv (the (snd (guardian_security_configure (Some s) (Some c))))"
  by (auto simp: guardian_security_configure_def guardian_security_clear_def Let_def sec_inv_def
      random_fills_def zero_security_def)

lemma auth_begin_core_inv:
  assumes inv: "sec_inv s" and n: "unat n \<le> length req"
  shows "sec_inv (fst (snd (auth_begin_core s req n now resp cap rlen)))
    \<and> s_session (fst (snd (auth_begin_core s req n now resp cap rlen))) = s_session s"
proof (cases "s_configured s = 0 \<or> n \<noteq> 18 \<or> cap < 38 \<or> req ! 0 \<noteq> 1
    \<or> (ucast (req ! 1) :: c_enum) < 1 \<or> (ucast (req ! 1) :: c_enum) > sc_max_role (s_config s)")
  case True
  then show ?thesis
    using inv by (auto simp: auth_begin_core_def Let_def auth_fail_def [symmetric]
        unauthorized_def [symmetric])
      (auto simp: auth_fail_def unauthorized_def)
next
  case False
  define s1 where "s1 = guardian_security_expire_pending s now"
  have inv1: "sec_inv s1" using inv by (simp add: s1_def)
  have s1: "s_session s1 = s_session s" "s_config s1 = s_config s" "s_configured s1 = s_configured s"
    using expire_pending_cases [of s now] by (auto simp: s1_def)
  obtain ok rb ctx where rnd: "the (sc_random (s_config s1)) (sc_random_context (s_config s1))
      (replicate 20 0) = (ok, rb, ctx)" by (metis prod_cases3)
  obtain r where r: "sc_random (s_config s1) = Some r"
    using inv1 False s1 by (auto simp: sec_inv_def)
  then have "length (fst (snd (r (sc_random_context (s_config s1)) (replicate 20 0)))) = 20"
    using inv1 by (simp add: sec_inv_def random_fills_def)
  with rnd r have len: "length rb = 20" by simp
  have lreq: "18 \<le> length req" using n False by simp
  show ?thesis
    using False inv1 s1 rnd len lreq
    by (simp add: auth_begin_core_def Let_def s1_def [symmetric] guardian_security_clear_pending_def
        split: option.splits)
      (auto simp: sec_inv_def random_fills_def role_ok_def buf_write_whole buf_read_def not_less)
qed

text \<open>The proof a client holding the pre-shared key sends, and the session both sides derive.\<close>

definition client_finish :: "u8 list \<Rightarrow> guardian_security_pending \<Rightarrow> u8 list" where
  "client_finish psk p =
     [GUARDIAN_SECURITY_SCHEMA_VERSION, ucast (pe_role p)] @ be32_bytes (pe_session_id p)
     @ take GUARDIAN_SECURITY_TAG_SIZE (hmac_reference psk (handshake_transcript
         guardian_security_client_label (pe_role p) (pe_session_id p) (pe_client_nonce p)
         (pe_device_nonce p)))"

definition derived_session :: "u8 list \<Rightarrow> guardian_security_pending \<Rightarrow> u32 \<Rightarrow> guardian_security_session" where
  "derived_session psk p now =
     \<lparr>se_valid = 1, se_role = pe_role p, se_session_id = pe_session_id p,
      se_session_key = hmac_reference psk (handshake_transcript guardian_security_session_label
        (pe_role p) (pe_session_id p) (pe_client_nonce p) (pe_device_nonce p)),
      se_next_counter = 1, se_last_activity_seconds = now\<rparr>"

definition challenge_open :: "'c guardian_security \<Rightarrow> u32 \<Rightarrow> bool" where
  "challenge_open s now \<longleftrightarrow> pe_valid (s_pending s) \<noteq> 0 \<and>
     now - pe_started_seconds (s_pending s) < ucast GUARDIAN_SECURITY_PENDING_TIMEOUT_SECONDS"

lemma expire_pending_eq:
  "guardian_security_expire_pending s now =
     (if challenge_open s now \<or> pe_valid (s_pending s) = 0 then s else s\<lparr>s_pending := zero_pending\<rparr>)"
  by (auto simp: guardian_security_expire_pending_def challenge_open_def Let_def
      guardian_security_clear_pending_def)

lemma take_22:
  assumes "22 \<le> length r"
  shows "take 22 r = [r ! 0, r ! 1] @ be32_bytes (be32_at r 2) @ take 16 (drop 6 r)"
proof -
  have "take 6 r = [r ! 0, r ! 1] @ be32_bytes (be32_at r 2)"
    unfolding be_bytes_at using assms
    by (intro nth_equalityI) (auto simp: nth_Cons' less_Suc_eq numeral_eq_Suc)
  then show ?thesis using take_add [of 6 16 r] by simp
qed

lemma client_finish_iff:
  assumes "22 \<le> length r" "pe_role p \<le> 3"
  shows "take 22 r = client_finish psk p \<longleftrightarrow>
    r ! 0 = 1 \<and> ucast (r ! 1) = pe_role p \<and> be32_at r 2 = pe_session_id p
    \<and> take 16 (hmac_reference psk (handshake_transcript guardian_security_client_label (pe_role p)
        (pe_session_id p) (pe_client_nonce p) (pe_device_nonce p))) = take 16 (drop 6 r)"
  unfolding take_22 [OF assms(1)] client_finish_def small_enum_byte [OF assms(2)]
  by auto

text \<open>The one way to complete the handshake: the challenge is open and the request is the client's proof.\<close>

definition finish_valid :: "'c guardian_security \<Rightarrow> u8 list \<Rightarrow> u16 \<Rightarrow> u32 \<Rightarrow> u16 \<Rightarrow> bool" where
  "finish_valid s req n now cap \<longleftrightarrow> s_configured s \<noteq> 0 \<and> n = 22 \<and> 8 \<le> cap \<and> challenge_open s now
     \<and> take 22 req = client_finish (sc_psk (s_config s)) (s_pending s)"

lemma handshake_mac_pending:
  assumes "sec_inv s" "challenge_open s now" "length label \<le> 100"
  shows "guardian_security_handshake_mac s label (pe_role (s_pending s)) (pe_session_id (s_pending s))
      (pe_client_nonce (s_pending s)) (pe_device_nonce (s_pending s)) (replicate 32 0)
    = Some (hmac_reference (sc_psk (s_config s)) (handshake_transcript label (pe_role (s_pending s))
        (pe_session_id (s_pending s)) (pe_client_nonce (s_pending s)) (pe_device_nonce (s_pending s))))"
  using assms by (intro handshake_mac_eq) (auto simp: sec_inv_def challenge_open_def)

lemma length_labels [simp]:
  "length guardian_security_client_label \<le> 100" "length guardian_security_session_label \<le> 100"
  "length guardian_security_server_label \<le> 100"
  by (simp_all add: label_defs)

lemma pending_role_le: "sec_inv s \<Longrightarrow> challenge_open s now \<Longrightarrow> pe_role (s_pending s) \<le> 3"
  by (auto simp: sec_inv_def challenge_open_def role_ok_def)

lemmas finish_eval = auth_finish_core_def Let_def expire_pending_eq security_read_be
  guardian_security_clear_pending_def

lemma auth_finish_core_ok:
  assumes inv: "sec_inv s" and n: "unat n \<le> length req" and ok: "finish_valid s req n now cap"
  shows "fst (auth_finish_core s req n now resp cap rlen) = GUARDIAN_SECURITY_OK \<and>
    fst (snd (auth_finish_core s req n now resp cap rlen)) =
      s\<lparr>s_session := derived_session (sc_psk (s_config s)) (s_pending s) now,
        s_auth_successes := sat_inc_u32 (s_auth_successes s), s_pending := zero_pending\<rparr>"
proof -
  let ?p = "s_pending s" and ?psk = "sc_psk (s_config s)"
  have c: "s_configured s \<noteq> 0" "n = 22" "8 \<le> cap" "challenge_open s now"
    "take 22 req = client_finish ?psk ?p" using ok by (simp_all add: finish_valid_def)
  have v: "pe_valid ?p \<noteq> 0" using c(4) by (simp add: challenge_open_def)
  let ?h = "hmac_reference ?psk (handshake_transcript guardian_security_client_label (pe_role ?p)
      (pe_session_id ?p) (pe_client_nonce ?p) (pe_device_nonce ?p))"
  have f: "req ! 0 = 1" "ucast (req ! 1) = pe_role ?p" "be32_at req 2 = pe_session_id ?p"
    "take 16 ?h = take 16 (drop 6 req)"
    using client_finish_iff [of req ?p ?psk] pending_role_le [OF inv c(4)] c n by auto
  have eq: "guardian_crypto_constant_time_equal (Some ?h) (Some (drop 6 req)) 16"
    using c(2) n f(4) by (subst constant_time_equal_iff) auto
  show ?thesis
    using c v f eq handshake_mac_pending [OF inv c(4)]
    by (simp add: finish_eval f(2) [simplified] activate_session_def guardian_security_clear_session_def
        derived_session_def buf_write_whole zero_session_def not_less)
qed

lemma auth_finish_core_fail:
  assumes inv: "sec_inv s" and n: "unat n \<le> length req" and bad: "\<not> finish_valid s req n now cap"
  shows "fst (auth_finish_core s req n now resp cap rlen) \<noteq> GUARDIAN_SECURITY_OK \<and>
    s_session (fst (snd (auth_finish_core s req n now resp cap rlen))) = s_session s \<and>
    sec_inv (fst (snd (auth_finish_core s req n now resp cap rlen)))"
proof -
  have inv': "sec_inv (s\<lparr>s_pending := zero_pending\<rparr>)" "sec_inv (auth_fail s\<lparr>s_pending := zero_pending\<rparr>)"
    "sec_inv (auth_fail (s\<lparr>s_pending := zero_pending\<rparr>))"
    using sec_inv_clear(1) [of s] sec_inv_clear(1) [of "auth_fail s"] inv
    by (simp_all add: guardian_security_clear_pending_def)
  have sess: "s_session (auth_fail u) = s_session u" for u :: "'c guardian_security"
    by (simp add: auth_fail_def)
  show ?thesis
  proof (cases "s_configured s = 0 \<or> n \<noteq> 22 \<or> cap < 8 \<or> \<not> challenge_open s now")
    case True
    then show ?thesis using inv inv' sess by (auto simp: finish_eval)
  next
    case False
    let ?p = "s_pending s" and ?psk = "sc_psk (s_config s)"
    let ?h = "hmac_reference ?psk (handshake_transcript guardian_security_client_label (pe_role ?p)
      (pe_session_id ?p) (pe_client_nonce ?p) (pe_device_nonce ?p))"
    from False have c: "s_configured s \<noteq> 0" "n = 22" "\<not> cap < 8" "challenge_open s now" by auto
    have v: "pe_valid ?p \<noteq> 0" using c(4) by (simp add: challenge_open_def)
    have "take 22 req \<noteq> client_finish ?psk ?p"
      using bad c by (simp add: finish_valid_def)
    then consider (ver) "req ! 0 \<noteq> 1"
      | (id) "req ! 0 = 1" "ucast (req ! 1) \<noteq> pe_role ?p \<or> be32_at req 2 \<noteq> pe_session_id ?p"
      | (tag) "req ! 0 = 1" "ucast (req ! 1) = pe_role ?p" "be32_at req 2 = pe_session_id ?p"
        "take 16 ?h \<noteq> take 16 (drop 6 req)"
      using client_finish_iff [of req ?p ?psk] pending_role_le [OF inv c(4)] c n by auto
    then show ?thesis
    proof cases
      case tag
      have "\<not> guardian_crypto_constant_time_equal (Some ?h) (Some (drop 6 req)) 16"
        using c(2) n tag(4) by (subst constant_time_equal_iff) auto
      then show ?thesis
        using c v tag handshake_mac_pending [OF inv c(4)] inv' sess
        by (simp add: finish_eval tag(2) [simplified])
    qed (use c v inv inv' sess in \<open>simp_all add: finish_eval\<close>)
  qed
qed

lemma accept_request_cases:
  "accept_request s outer now rc cmd n inner ctr = (r, s', inner', ctr') \<Longrightarrow>
   (r \<noteq> GUARDIAN_SECURITY_OK \<and> s_session s' = s_session s)
   \<or> (r \<noteq> GUARDIAN_SECURITY_OK \<and> s_session s' = zero_session)
   \<or> (r = GUARDIAN_SECURITY_OK \<and> rc = se_next_counter (s_session s) \<and> ctr' = rc \<and> rc + 1 \<noteq> 0 \<and>
      s' = s\<lparr>s_session := (s_session s)\<lparr>se_next_counter := rc + 1, se_last_activity_seconds := now\<rparr>\<rparr>)"
  by (auto simp: accept_request_def Let_def guardian_security_clear_session_def split: if_splits)

lemma accept_request_ok:
  assumes "c = se_next_counter (s_session s)" "c + 1 \<noteq> 0" "length pl \<le> 224"
    "buf_read (payload outer) 16 (length pl) = pl"
  shows "\<exists>s' i'. accept_request s outer now c cmd (of_nat (length pl)) inner ctr
    = (GUARDIAN_SECURITY_OK, s', i', c) \<and> command i' = cmd \<and> frame_payload i' = pl"
proof -
  have n: "unat (of_nat (length pl) :: u16) = length pl" using assms(3) by (simp add: unat_of_nat)
  then have z: "(of_nat (length pl) :: u16) = 0 \<longleftrightarrow> pl = []"
    by (auto simp: word_unat_eq_iff)
  show ?thesis
    using assms n z by (simp add: accept_request_def Let_def frame_payload_def take_buf_write_0)
qed

lemma accept_request_bad:
  "\<not> (c = se_next_counter (s_session s) \<and> se_next_counter (s_session s) + 1 \<noteq> 0) \<Longrightarrow>
   fst (accept_request s outer now c cmd n inner ctr) \<noteq> GUARDIAN_SECURITY_OK"
  by (auto simp: accept_request_def Let_def)

lemma accept_request_inv:
  "sec_inv s \<Longrightarrow> sec_inv (fst (snd (accept_request s outer now rc cmd n inner ctr)))"
  by (auto simp: accept_request_def Let_def guardian_security_clear_session_def sec_inv_def role_ok_def)

text \<open>What unwrapping can do to the session.\<close>

lemma unwrap_core_session:
  assumes "unwrap_core s outer now inner ctr = (r, s', inner', ctr')"
  shows "(r \<noteq> GUARDIAN_SECURITY_OK \<and> (s_session s' = s_session s \<or> s_session s' = zero_session))
   \<or> (r = GUARDIAN_SECURITY_OK \<and> live s now \<and> ctr' = se_next_counter (s_session s) \<and> ctr' + 1 \<noteq> 0 \<and>
      s' = s\<lparr>s_session := (s_session s)\<lparr>se_next_counter := ctr' + 1, se_last_activity_seconds := now\<rparr>\<rparr>)"
proof (cases "live s now")
  case True
  then show ?thesis
    using assms
    by (auto simp: unwrap_core_def Let_def expire_session_eq auth_fail_def unauthorized_def
        split: if_splits option.splits dest!: accept_request_cases)
next
  case False
  then show ?thesis
    using assms by (auto simp: unwrap_core_def Let_def expire_session_eq auth_fail_def unauthorized_def
        split: if_splits)
qed

lemma unwrap_core_inv:
  "sec_inv s \<Longrightarrow> sec_inv (fst (snd (unwrap_core s outer now inner ctr)))"
  using accept_request_inv [of "guardian_security_expire_session s now"]
  by (auto simp: unwrap_core_def Let_def split: option.splits)

lemma auth_begin_Some:
  "guardian_security_auth_begin (Some s) (Some req) n now (Some resp) cap (Some l) =
     (case auth_begin_core s req n now resp cap l of (r, s', b, l') \<Rightarrow> (r, Some s', Some b, Some l'))"
  by (simp add: guardian_security_auth_begin_def with_handshake_args_def)

lemma auth_finish_Some:
  "guardian_security_auth_finish (Some s) (Some req) n now (Some resp) cap (Some l) =
     (case auth_finish_core s req n now resp cap l of (r, s', b, l') \<Rightarrow> (r, Some s', Some b, Some l'))"
  by (simp add: guardian_security_auth_finish_def with_handshake_args_def)

lemma sec_inv_derived:
  assumes "sec_inv s" "challenge_open s now"
  shows "sec_inv (s\<lparr>s_session := derived_session (sc_psk (s_config s)) (s_pending s) now,
    s_auth_successes := x, s_pending := zero_pending\<rparr>)"
  using assms by (auto simp: sec_inv_def challenge_open_def derived_session_def role_ok_def)

lemma auth_finish_core_inv:
  "sec_inv s \<Longrightarrow> unat n \<le> length req \<Longrightarrow>
   sec_inv (fst (snd (auth_finish_core s req n now resp cap rlen)))"
  by (cases "finish_valid s req n now cap")
    (simp_all add: auth_finish_core_ok auth_finish_core_fail sec_inv_derived finish_valid_def)

lemma sec_inv_status:
  "sec_inv s \<Longrightarrow> sec_inv (the (snd (guardian_security_status (Some s) now)))"
  by (simp add: guardian_security_status_def Let_def)

lemma sec_inv_authorize:
  "sec_inv s \<Longrightarrow> sec_inv (the (snd (guardian_security_authorize (Some s) cmd)))"
  by (simp add: guardian_security_authorize_def)

lemma sec_exec_inv: "sec_inv s \<Longrightarrow> op_ok op \<Longrightarrow> sec_inv (snd (sec_exec s op))"
proof (induction s op rule: sec_exec.induct)
  case (3 s req n now resp cap)
  then show ?case using auth_begin_core_inv [of s n req now resp cap 0]
    by (auto simp: auth_begin_Some split: prod.splits)
next
  case (4 s req n now resp cap)
  then show ?case using auth_finish_core_inv [of s n req now resp cap 0]
    by (auto simp: auth_finish_Some split: prod.splits)
next
  case (5 s outer now)
  then show ?case using unwrap_core_inv [of s outer now zero_frame 0]
    by (auto simp: unwrap_Some split: prod.splits)
qed (simp_all add: sec_inv_configure sec_inv_authorize sec_inv_status guardian_security_clear_def)

interpretation sec: transition_system "\<lambda>s. s = zero_security" sec_step sec_inv
  by unfold_locales (auto elim!: sec_stepE dest: sec_exec_inv)

section \<open>The counter along a run\<close>

text \<open>The counter of a session changes only when a request is accepted, by one; a session ends only
  by losing its validity, and nothing but a completed handshake starts one.\<close>

lemma sec_exec_counter:
  "sec_inv s \<Longrightarrow> op_ok op \<Longrightarrow> sec_exec s op = (e, t) \<Longrightarrow>
   (case e of
      Silent \<Rightarrow> se_valid (s_session t) = 0 \<or> s_session t = s_session s
    | Established role sid \<Rightarrow> True
    | Accepted c f \<Rightarrow> se_valid (s_session s) \<noteq> 0 \<and> se_valid (s_session t) \<noteq> 0 \<and>
        c = se_next_counter (s_session s) \<and> se_next_counter (s_session t) = c + 1 \<and> c + 1 \<noteq> 0)"
proof (induction s op rule: sec_exec.induct)
  case (1 s c)
  then show ?case
    by (auto simp: guardian_security_configure_def guardian_security_clear_def Let_def zero_security_def)
next
  case (3 s req n now resp cap)
  then show ?case using auth_begin_core_inv [of s n req now resp cap 0]
    by (auto simp: auth_begin_Some split: prod.splits)
next
  case (4 s req n now resp cap)
  then show ?case using auth_finish_core_fail [of s n req now cap resp 0]
      auth_finish_core_ok [of s n req now cap resp 0]
    by (cases "finish_valid s req n now cap") (auto simp: auth_finish_Some split: prod.splits if_splits)
next
  case (5 s outer now)
  obtain r s' inner' ctr' where u: "unwrap_core s outer now zero_frame 0 = (r, s', inner', ctr')"
    by (metis prod_cases4)
  from unwrap_core_session [OF u] 5 u show ?case
    by (auto simp: unwrap_Some live_def)
next
  case (6 s cmd)
  then show ?case
    by (auto simp: guardian_security_authorize_def unauthorized_def split: if_splits)
next
  case (7 s now)
  then show ?case
    using expire_pending_cases [of s now]
    by (auto simp: guardian_security_status_def Let_def expire_session_eq split: if_splits)
qed (auto simp: guardian_security_clear_def zero_security_def)

lemma sec_run_counters:
  "sec_inv s \<Longrightarrow> list_all op_ok ops \<Longrightarrow> sec_run s ops = (es, t) \<Longrightarrow> \<not> list_ex is_established es \<Longrightarrow>
   (se_valid (s_session s) = 0 \<longrightarrow> accepted_counters es = []) \<and>
   (\<exists>k. accepted_counters es = map of_nat [unat (se_next_counter (s_session s))..<
        unat (se_next_counter (s_session s)) + k]
      \<and> unat (se_next_counter (s_session s)) + k < 2 ^ 64)"
proof (induction ops arbitrary: s es)
  case Nil
  then show ?case
    using unsigned_less [of "se_next_counter (s_session s)"] by (auto intro!: exI [of _ 0])
next
  case (Cons op ops)
  obtain e s1 es1 where e: "sec_exec s op = (e, s1)" and r: "sec_run s1 ops = (es1, t)"
    and es: "es = e # es1" using Cons.prems(3) by (auto split: prod.splits)
  have ok: "op_ok op" "list_all op_ok ops" "\<not> list_ex is_established es1" "\<not> is_established e"
    using Cons.prems es by auto
  have inv1: "sec_inv s1" using sec_exec_inv [OF Cons.prems(1) ok(1)] e by simp
  note IH = Cons.IH [OF inv1 ok(2) r ok(3)]
  note st = sec_exec_counter [OF Cons.prems(1) ok(1) e]
  show ?case
  proof (cases e)
    case Silent
    then have acc: "accepted_counters es = accepted_counters es1" using es by simp
    from st Silent consider "se_valid (s_session s1) = 0" | "s_session s1 = s_session s" by auto
    then show ?thesis
    proof cases
      case 1
      with IH acc show ?thesis
        using unsigned_less [of "se_next_counter (s_session s)"] by (auto intro!: exI [of _ 0])
    next
      case 2
      with IH acc show ?thesis by simp
    qed
  next
    case (Accepted c f)
    let ?n = "unat (se_next_counter (s_session s))"
    from st Accepted have c: "c = se_next_counter (s_session s)"
      "se_next_counter (s_session s1) = c + 1" "c + 1 \<noteq> 0" "se_valid (s_session s) \<noteq> 0" by auto
    have n1: "unat (se_next_counter (s_session s1)) = ?n + 1"
      using c by (metis unatSuc add.commute Suc_eq_plus1)
    from IH n1 obtain k where k: "accepted_counters es1 = map of_nat [?n + 1..<?n + 1 + k]"
      "?n + 1 + k < 2 ^ 64" by auto
    have "[?n..<?n + Suc k] = ?n # [?n + 1..<?n + 1 + k]" by (simp add: upt_conv_Cons del: upt_Suc)
    then have "accepted_counters es = map of_nat [?n..<?n + Suc k]"
      using es Accepted c(1) k(1) by (simp del: upt_Suc)
    with k(2) c(4) show ?thesis by (auto intro!: exI [of _ "Suc k"])
  qed (use ok in simp)
qed

section \<open>Responses\<close>

lemma wrap_core_ok:
  assumes v: "se_valid (s_session s) \<noteq> 0" and k: "length (se_session_key (s_session s)) = 32"
    and inner: "wf_frame inner" "unat (payload_length inner) \<le> 223"
  shows "\<exists>out. wrap_core s outer ctr inner out0 = (GUARDIAN_SECURITY_OK, out) \<and> encodable out
    \<and> command out = command outer \<and> sequence out = sequence outer \<and> message_type out = 2
    \<and> frame_payload out = response_envelope (se_session_key (s_session s)) (se_session_id (s_session s))
        ctr (sequence outer) (ucast (message_type inner)) (command inner) (frame_payload inner)"
proof -
  let ?n = "payload_length inner" and ?sid = "se_session_id (s_session s)"
  let ?hdr = "[1] @ be32_bytes ?sid @ be64_bytes ctr @ [ucast (message_type inner), command inner]
     @ be16_bytes ?n"
  let ?h = "hmac_reference (se_session_key (s_session s)) (response_transcript ?sid ctr (sequence outer)
     (ucast (message_type inner)) (command inner) (frame_payload inner))"
  have fl: "length (frame_payload inner) = unat ?n"
    using inner by (simp add: frame_payload_def wf_frame_def)
  have z: "length (payload zero_frame) = 256" "payload zero_frame \<noteq> []" by (auto simp: zero_frame_def)
  have pl5: "guardian_security_write_u16_be ((guardian_security_write_u64_be (guardian_security_write_u32_be
      ((payload zero_frame)[0 := 1]) 1 ?sid) 5 ctr)[13 := ucast (message_type inner), 14 := command inner]) 15 ?n
    = buf_write (payload zero_frame) 0 ?hdr"
    using z by (simp add: security_write_be list_update_0_buf_write list_update_buf_write buf_write_adjacent)
  have pl6: "(if ?n \<noteq> 0 then buf_write (buf_write (payload zero_frame) 0 ?hdr) 17 (take (unat ?n) (payload inner))
      else buf_write (payload zero_frame) 0 ?hdr) = buf_write (payload zero_frame) 0 (?hdr @ frame_payload inner)"
    using z by (simp add: buf_write_adjacent frame_payload_def)
  have pl7: "buf_write (buf_write (payload zero_frame) 0 (?hdr @ frame_payload inner)) (17 + unat ?n) (take 16 ?h)
      = buf_write (payload zero_frame) 0 (?hdr @ frame_payload inner @ take 16 ?h)"
    using z fl inner by (subst buf_write_adjacent) auto
  have tag: "guardian_security_response_tag s outer ?sid ctr inner (replicate 32 0) = Some ?h"
    using k inner by (intro response_tag_eq) (auto simp: wf_frame_def)
  let ?out = "zero_frame\<lparr>message_type := 2, command := command outer, flags := 0,
     sequence := sequence outer,
     payload := buf_write (payload zero_frame) 0 (?hdr @ frame_payload inner @ take 16 ?h),
     payload_length := 33 + ?n\<rparr>"
  have "wrap_core s outer ctr inner out0 = (GUARDIAN_SECURITY_OK, ?out)"
    using v inner tag unfolding wrap_core_def Let_def pl5 pl6
    by (simp add: pl7 [simplified] word_less_nat_alt)
  moreover have len: "unat (33 + ?n) = 33 + unat ?n"
    using inner(2) by (simp add: unat_word_ariths)
  moreover have "frame_payload ?out = response_envelope (se_session_key (s_session s)) ?sid
        ctr (sequence outer) (ucast (message_type inner)) (command inner) (frame_payload inner)"
    using fl by (simp add: frame_payload_def len take_buf_write_0 [simplified] response_envelope_def)
  moreover have "encodable ?out"
    using z fl inner(2) len
    by (simp add: encodable_def wf_frame_def guardian_message_type_is_valid_def)
  ultimately show ?thesis by auto
qed

section \<open>Security properties\<close>

lemma live_key: "sec_inv s \<Longrightarrow> live s now \<Longrightarrow> length (se_session_key (s_session s)) = 32"
  by (simp add: sec_inv_def live_def)

text \<open>A provisioned context with an open challenge and a session, and a request for it.\<close>

definition sample_config :: "unit guardian_security_config" where
  "sample_config = \<lparr>sc_psk = replicate 32 7, sc_max_role = GUARDIAN_SECURITY_ROLE_OPERATOR,
     sc_random = Some (\<lambda>c out. (True, map (\<lambda>_. 5) out, c)), sc_random_context = None,
     sc_session_timeout_seconds = 300\<rparr>"

definition sample_security :: "unit guardian_security" where
  "sample_security = zero_security\<lparr>s_config := sample_config, s_configured := 1,
     s_pending := \<lparr>pe_valid = 1, pe_role = 2, pe_session_id = 5, pe_client_nonce = replicate 16 1,
       pe_device_nonce = replicate 16 2, pe_started_seconds = 0\<rparr>,
     s_session := \<lparr>se_valid = 1, se_role = 2, se_session_id = 5, se_session_key = replicate 32 9,
       se_next_counter = 1, se_last_activity_seconds = 0\<rparr>\<rparr>"

definition sample_outer :: guardian_frame where
  "sample_outer = zero_frame\<lparr>message_type := GUARDIAN_MESSAGE_REQUEST, command := 0x22, sequence := 9,
     payload_length := 33,
     payload := request_envelope (replicate 32 9) 5 1 9 0x15 [1] @ replicate 223 0\<rparr>"

lemma sample_config_ok: "length (sc_psk sample_config) = 32" "random_fills sample_config"
  by (simp_all add: sample_config_def random_fills_def)

lemma sample_security_inv: "sec_inv sample_security"
  using sample_config_ok by (simp add: sec_inv_def sample_security_def role_ok_def)
    (simp add: sample_config_def)

lemma length_request_envelope [simp]: "length (request_envelope k sid c sq cmd pl) = 32 + length pl"
  by (simp add: request_envelope_def)

lemma sample_outer_ok:
  "wf_outer sample_outer" "sequence sample_outer = 9"
  "frame_payload sample_outer = request_envelope (replicate 32 9) 5 1 9 0x15 [1]"
  by (simp_all add: wf_outer_def wf_frame_def sample_outer_def frame_payload_def)

lemma sample_live: "live sample_security 1"
  by (simp add: live_def sample_security_def sample_config_def)



text \<open>C11: No replay. Along every sequence of operations (configuration, clearing, handshake attempts,
  requests, authorization checks, status reads) in which no new session is established, the
  counters of the accepted requests are consecutive from the counter the context expects; no
  counter is accepted twice, and the 64-bit counter never wraps.\<close>

theorem accepted_counters_consecutive:
  assumes "sec_inv s" "list_all op_ok ops" "sec_run s ops = (es, t)" "\<not> list_ex is_established es"
  shows "distinct (accepted_counters es) \<and>
    (\<exists>k. unat (se_next_counter (s_session s)) + k < 2 ^ 64 \<and>
      accepted_counters es = map of_nat [unat (se_next_counter (s_session s))..<
        unat (se_next_counter (s_session s)) + k])"
proof -
  from sec_run_counters [OF assms] obtain k where k:
    "accepted_counters es = map of_nat [unat (se_next_counter (s_session s))..<
        unat (se_next_counter (s_session s)) + k]"
    "unat (se_next_counter (s_session s)) + k < 2 ^ 64" by auto
  have "inj_on (of_nat :: nat \<Rightarrow> u64) {..<2 ^ 64}"
    by (rule inj_onI, drule arg_cong [where f = unat]) (simp add: unat_of_nat)
  then have "distinct (accepted_counters es)"
    unfolding k(1) distinct_map using k(2) by (auto elim: inj_on_subset)
  with k show ?thesis by auto
qed

lemma sample_run:
  "\<exists>f t. sec_run sample_security [Status 0, Unwrap sample_outer 1, Unwrap sample_outer 1]
     = ([Silent, Accepted 1 f, Silent], t)"
proof -
  let ?s1 = "sample_security\<lparr>s_session := (s_session sample_security)\<lparr>se_next_counter := 2,
     se_last_activity_seconds := 1\<rparr>\<rparr>"
  have st: "the (snd (guardian_security_status (Some sample_security) 0)) = sample_security"
    by (simp add: guardian_security_status_def Let_def expire_session_eq expire_pending_eq
        sample_security_def live_def challenge_open_def sample_config_def)
  have c: "be64_at (payload sample_outer) 5 = 1"
    by (simp add: sample_outer_def request_envelope_def buf_simps)
  have env: "envelope_checks sample_security sample_outer" "envelope_checks ?s1 sample_outer"
    using sample_outer_ok by (auto simp: envelope_checks_iff sample_security_def intro!: exI [of _ "1 :: u64"] exI [of _ "0x15 :: u8"] exI [of _ "[1 :: u8]"])
  have k: "length (se_session_key (s_session sample_security)) = 32"
    "length (se_session_key (s_session ?s1)) = 32" by (simp_all add: sample_security_def)
  have l: "live ?s1 1" by (simp add: live_def sample_security_def sample_config_def)
  show ?thesis
    using unwrap_core_live(1) [OF sample_live k(1) sample_outer_ok(1) env(1), of zero_frame 0]
      unwrap_core_live(1) [OF l k(2) sample_outer_ok(1) env(2), of zero_frame 0]
    by (simp add: st unwrap_Some accept_request_def Let_def c) (simp add: sample_security_def)
qed

theorem accepted_counters_consecutive_witness:
  "\<exists>es t. sec_run sample_security [Status 0, Unwrap sample_outer 1, Unwrap sample_outer 1] = (es, t)
     \<and> distinct (accepted_counters es) \<and> accepted_counters es = [1]"
proof -
  obtain f t where run: "sec_run sample_security [Status 0, Unwrap sample_outer 1, Unwrap sample_outer 1]
      = ([Silent, Accepted 1 f, Silent], t)" using sample_run by blast
  have ok: "list_all op_ok [Status 0, Unwrap sample_outer 1, Unwrap sample_outer 1]"
    by (simp add: sample_outer_ok)
  from accepted_counters_consecutive [OF sample_security_inv ok run] run show ?thesis by auto
qed

text \<open>C12: The handshake. AUTH_FINISH succeeds exactly when the context is provisioned, a challenge is
  open for less than thirty seconds and the request carries the client proof, an HMAC under the
  pre-shared key of role, session identifier and both nonces; the session then has the
  challenged role and identifier, the derived key and counter one, and the challenge is spent.
  Otherwise the current session is untouched.\<close>

theorem handshake_completes_iff:
  assumes "sec_inv s" "22 \<le> length req" "8 \<le> length resp"
    and fin: "guardian_security_auth_finish (Some s) (Some req) 22 now (Some resp) 8 (Some n0)
      = (r, Some s', resp', n')"
  shows "(r = GUARDIAN_SECURITY_OK \<longleftrightarrow> s_configured s \<noteq> 0 \<and> challenge_open s now
      \<and> take 22 req = client_finish (sc_psk (s_config s)) (s_pending s))
    \<and> (r = GUARDIAN_SECURITY_OK \<longrightarrow> pe_valid (s_pending s') = 0
        \<and> s_session s' = derived_session (sc_psk (s_config s)) (s_pending s) now)
    \<and> (r \<noteq> GUARDIAN_SECURITY_OK \<longrightarrow> s_session s' = s_session s)"
proof -
  have v: "finish_valid s req 22 now 8 \<longleftrightarrow> s_configured s \<noteq> 0 \<and> challenge_open s now
      \<and> take 22 req = client_finish (sc_psk (s_config s)) (s_pending s)"
    by (simp add: finish_valid_def)
  have n: "unat (22 :: u16) \<le> length req" using assms(2) by simp
  obtain b l where core: "auth_finish_core s req 22 now resp 8 n0 = (r, s', b, l)"
    using fin by (auto simp: auth_finish_Some split: prod.splits)
  show ?thesis
    unfolding v [symmetric]
    using auth_finish_core_ok [OF assms(1) n, of now 8 resp n0]
      auth_finish_core_fail [OF assms(1) n, of now 8 resp n0] core
    by (cases "finish_valid s req 22 now 8") auto
qed

theorem handshake_completes_iff_witness:
  "\<exists>s' resp' n'. guardian_security_auth_finish (Some sample_security)
      (Some (client_finish (replicate 32 7) (s_pending sample_security))) 22 10
      (Some (replicate 8 0)) 8 (Some 0) = (GUARDIAN_SECURITY_OK, Some s', resp', n')
    \<and> s_session s' = derived_session (replicate 32 7) (s_pending sample_security) 10"
proof -
  let ?req = "client_finish (replicate 32 7) (s_pending sample_security)"
  have len: "length ?req = 22" by (simp add: client_finish_def)
  obtain r s' resp' n' where fin: "guardian_security_auth_finish (Some sample_security) (Some ?req) 22 10
      (Some (replicate 8 0)) 8 (Some 0) = (r, Some s', resp', n')"
    unfolding auth_finish_Some by (metis (no_types, lifting) case_prod_conv prod_cases4)
  have "s_configured sample_security \<noteq> 0" "challenge_open sample_security 10"
    "sc_psk (s_config sample_security) = replicate 32 7"
    by (simp_all add: sample_security_def challenge_open_def sample_config_def)
  with handshake_completes_iff [OF sample_security_inv _ _ fin] len fin show ?thesis by simp
qed

text \<open>Role ceiling. In every reachable context, a command is authorized only for a live session whose
  role lies between the role the command requires and the provisioned maximum; the requirement is
  OPERATOR for baseline and control commands and ADMIN for every other command. A context
  provisioned below ADMIN therefore never authorizes anything else.\<close>

theorem authorization_bounded:
  assumes "reachable (\<lambda>s. s = zero_security) sec_step s"
    and "fst (guardian_security_authorize (Some s) cmd)"
  shows "se_valid (s_session s) \<noteq> 0 \<and> s_configured s \<noteq> 0
    \<and> guardian_security_required_role cmd \<le> se_role (s_session s)
    \<and> se_role (s_session s) \<le> sc_max_role (s_config s)
    \<and> sc_max_role (s_config s) \<le> GUARDIAN_SECURITY_ROLE_ADMIN
    \<and> (cmd \<notin> {GUARDIAN_COMMAND_BASELINE_CONTROL, GUARDIAN_COMMAND_CONTROL_COMMAND} \<longrightarrow>
        sc_max_role (s_config s) = GUARDIAN_SECURITY_ROLE_ADMIN)"
proof -
  have inv: "sec_inv s" by (rule sec.reachable_inv [OF assms(1)])
  from assms(2) have v: "se_valid (s_session s) \<noteq> 0"
    and r: "guardian_security_required_role cmd \<le> se_role (s_session s)"
    by (auto simp: guardian_security_authorize_def split: if_splits)
  from inv v have m: "se_role (s_session s) \<le> sc_max_role (s_config s)" "sc_max_role (s_config s) \<le> 3"
    "s_configured s \<noteq> 0" by (auto simp: sec_inv_def role_ok_def)
  have "sc_max_role (s_config s) = 3" if "cmd \<notin> {0x13, 0x15}"
    using that r m by (simp add: guardian_security_required_role_def)
  with v r m show ?thesis by simp
qed

lemma sample_reachable:
  "\<exists>s. reachable (\<lambda>s. s = zero_security) sec_step s \<and> se_valid (s_session (s :: unit guardian_security)) = 1
     \<and> se_role (s_session s) = 2"
proof -
  define s1 where "s1 = zero_security\<lparr>s_config := sample_config, s_configured := 1\<rparr>"
  let ?req = "[1, 2] @ replicate 16 (1 :: u8)"
  let ?p = "\<lparr>pe_valid = 1, pe_role = 2, pe_session_id = 0x05050505, pe_client_nonce = replicate 16 1,
     pe_device_nonce = replicate 16 5, pe_started_seconds = 0\<rparr>"
  define s2 where "s2 = s1\<lparr>s_pending := ?p\<rparr>"
  let ?fin = "client_finish (replicate 32 7) ?p"
  have e1: "sec_exec zero_security (Configure sample_config) = (Silent, s1)"
    by (simp add: guardian_security_configure_def guardian_security_clear_def s1_def sample_config_def)
  have mac: "guardian_security_handshake_mac s2 guardian_security_server_label 2 0x05050505
      (replicate 16 1) (replicate 16 5) (replicate 32 0) \<noteq> None"
    by (subst handshake_mac_eq) (simp_all add: s2_def s1_def sample_config_def)
  have id: "be32_at (replicate 20 5) 0 = 0x05050505" by (simp add: be32_at_def)
  have "fst (snd (auth_begin_core s1 ?req 18 0 (replicate 38 0) 38 0)) = s2"
    using mac by (auto simp: auth_begin_core_def s1_def s2_def sample_config_def zero_security_def
        expire_pending_eq guardian_security_clear_pending_def security_read_be id buf_write_whole buf_read_def
        zero_pending_def Let_def)
  then have e2: "sec_exec s1 (Auth_begin ?req 18 0 (replicate 38 0) 38) = (Silent, s2)"
    by (auto simp: auth_begin_Some split: prod.splits)
  have r0: "reachable (\<lambda>s. s = zero_security) sec_step (zero_security :: unit guardian_security)"
    by (rule reachable_init) simp
  have r1: "reachable (\<lambda>s. s = zero_security) sec_step s1"
    by (rule reachable_step [OF r0 sec_stepI [OF _ e1]]) (simp add: sample_config_ok)
  have r2: "reachable (\<lambda>s. s = zero_security) sec_step s2"
    by (rule reachable_step [OF r1 sec_stepI [OF _ e2]]) simp
  have len: "length ?fin = 22" by (simp add: client_finish_def)
  have v: "finish_valid s2 ?fin 22 1 8"
    using len by (simp add: finish_valid_def s2_def s1_def challenge_open_def sample_config_def)
  obtain e s3 where e3: "sec_exec s2 (Auth_finish ?fin 22 1 (replicate 8 0) 8) = (e, s3)" by fastforce
  then have s3: "s_session s3 = derived_session (replicate 32 7) ?p 1"
    using auth_finish_core_ok [OF sec.reachable_inv [OF r2] _ v, of "replicate 8 0" 0] len
    by (auto simp: auth_finish_Some s2_def s1_def sample_config_def split: prod.splits)
  have "reachable (\<lambda>s. s = zero_security) sec_step s3"
    by (rule reachable_step [OF r2 sec_stepI [OF _ e3]]) (simp add: len)
  with s3 show ?thesis by (auto simp: derived_session_def)
qed

theorem authorization_bounded_witness:
  "\<exists>s. fst (guardian_security_authorize (Some (s :: unit guardian_security)) GUARDIAN_COMMAND_CONTROL_COMMAND)
     \<and> GUARDIAN_SECURITY_ROLE_OPERATOR \<le> se_role (s_session s)
     \<and> se_role (s_session s) \<le> sc_max_role (s_config s)"
proof -
  obtain s :: "unit guardian_security" where s: "reachable (\<lambda>s. s = zero_security) sec_step s"
    "se_valid (s_session s) = 1" "se_role (s_session s) = 2" using sample_reachable by blast
  then have "fst (guardian_security_authorize (Some s) 0x15)"
    by (simp add: guardian_security_authorize_def guardian_security_required_role_def)
  with authorization_bounded [OF s(1) this] s(3) show ?thesis by auto
qed

text \<open>Domain separation. The byte strings that are authenticated determine every field they cover
  (session, counter, frame sequence, command, payload), and no string is authenticated in two
  roles: requests differ from responses, and the server, client and session-key transcripts of
  the handshake differ from each other, so no proof can be reflected.\<close>

theorem transcripts_injective:
  shows "(request_transcript sid ctr sq cmd pl = request_transcript sid' ctr' sq' cmd' pl' \<longleftrightarrow>
      (sid, ctr, sq, cmd, pl) = (sid', ctr', sq', cmd', pl'))
    \<and> (response_transcript sid ctr sq mt cmd pl = response_transcript sid' ctr' sq' mt' cmd' pl' \<longleftrightarrow>
      (sid, ctr, sq, mt, cmd, pl) = (sid', ctr', sq', mt', cmd', pl'))
    \<and> request_transcript sid ctr sq cmd pl \<noteq> response_transcript sid' ctr' sq' mt' cmd' pl'
    \<and> handshake_transcript guardian_security_client_label r sid cn dn
        \<noteq> handshake_transcript guardian_security_server_label r' sid' cn' dn'
    \<and> handshake_transcript guardian_security_client_label r sid cn dn
        \<noteq> handshake_transcript guardian_security_session_label r' sid' cn' dn'
    \<and> handshake_transcript guardian_security_server_label r sid cn dn
        \<noteq> handshake_transcript guardian_security_session_label r' sid' cn' dn'"
  by (auto simp: request_transcript_def response_transcript_def handshake_transcript_def label_defs)

text \<open>Responses. In a context with a session every response of at most 223 payload bytes is wrapped
  successfully into a frame the protocol encoder accepts, addressed to the request's command and
  sequence, whose payload is the authenticated envelope of the inner response.\<close>

theorem response_wrapped:
  assumes "sec_inv s" "se_valid (s_session s) \<noteq> 0" "wf_frame inner" "unat (payload_length inner) \<le> 223"
  shows "\<exists>out. guardian_security_wrap_response (Some s) (Some outer) ctr (Some inner) (Some out0)
      = (GUARDIAN_SECURITY_OK, Some out) \<and> encodable out
    \<and> command out = command outer \<and> sequence out = sequence outer
    \<and> message_type out = GUARDIAN_MESSAGE_RESPONSE
    \<and> frame_payload out = response_envelope (se_session_key (s_session s)) (se_session_id (s_session s))
        ctr (sequence outer) (ucast (message_type inner)) (command inner) (frame_payload inner)"
  using wrap_core_ok [OF assms(2) _ assms(3,4), of outer ctr out0] assms(1,2)
  by (auto simp: guardian_security_wrap_response_def sec_inv_def)

theorem response_wrapped_witness:
  "\<exists>out. guardian_security_wrap_response (Some sample_security) (Some sample_outer) 1 (Some sample_frame)
       (Some zero_frame) = (GUARDIAN_SECURITY_OK, Some out)
     \<and> encodable out \<and> frame_payload out = response_envelope (replicate 32 9) 5 1 9 1 0x15 [1, 2]"
proof -
  have "se_valid (s_session sample_security) \<noteq> 0" "se_session_key (s_session sample_security) = replicate 32 9"
    "se_session_id (s_session sample_security) = 5" by (simp_all add: sample_security_def)
  moreover have "ucast (message_type sample_frame) = (1 :: u8)" "command sample_frame = 0x15"
    "frame_payload sample_frame = [1, 2]" "wf_frame sample_frame"
    by (simp_all add: sample_frame_def frame_payload_def wf_frame_def)
  ultimately show ?thesis
    using response_wrapped [OF sample_security_inv, of sample_frame sample_outer 1 zero_frame]
      sample_outer_ok(2) by auto
qed

end
