(* ===== verification/Guardian_Device_Service.thy ===== *)
theory Guardian_Device_Service
  imports Guardian_Protocol
begin

text \<open>
  The device service of \<open>firmware/App/Src/guardian_device_service.c\<close>: the public identity, the
  runtime snapshot and the PING, DEVICE_INFO and GET_STATUS handlers.  The service keeps the
  \<open>frame_service\<close> contract.
\<close>

section \<open>Types\<close>

datatype guardian_device_state =
    GUARDIAN_DEVICE_STATE_BOOT | GUARDIAN_DEVICE_STATE_IDLE | GUARDIAN_DEVICE_STATE_RUNNING
  | GUARDIAN_DEVICE_STATE_DEGRADED | GUARDIAN_DEVICE_STATE_FAULT

fun guardian_device_state_value :: "guardian_device_state \<Rightarrow> u8" where
  "guardian_device_state_value GUARDIAN_DEVICE_STATE_BOOT = 0x00"
| "guardian_device_state_value GUARDIAN_DEVICE_STATE_IDLE = 0x01"
| "guardian_device_state_value GUARDIAN_DEVICE_STATE_RUNNING = 0x02"
| "guardian_device_state_value GUARDIAN_DEVICE_STATE_DEGRADED = 0x03"
| "guardian_device_state_value GUARDIAN_DEVICE_STATE_FAULT = 0x04"

text \<open>\<open>di_model\<close> points to the characters of the model string; the terminating zero follows them.\<close>

record guardian_device_identity =
  di_model :: "u8 list ptr"
  di_firmware_major :: u8
  di_firmware_minor :: u8
  di_firmware_patch :: u8
  di_device_id :: u32

record guardian_device_runtime =
  dr_state :: guardian_device_state
  dr_uptime_seconds :: u32
  dr_rx_frames :: u32
  dr_tx_frames :: u32
  dr_protocol_errors :: u32
  dr_last_error :: u8

record guardian_device_service =
  ds_identity :: guardian_device_identity

abbreviation (input) GUARDIAN_DEVICE_MODEL_MAX_LENGTH :: nat where "GUARDIAN_DEVICE_MODEL_MAX_LENGTH \<equiv> 32"
abbreviation (input) GUARDIAN_DEVICE_PAYLOAD_SCHEMA_VERSION :: u8 where "GUARDIAN_DEVICE_PAYLOAD_SCHEMA_VERSION \<equiv> 1"

section \<open>Operations\<close>

definition guardian_device_write_u32_be :: "u8 list \<Rightarrow> nat \<Rightarrow> u32 \<Rightarrow> u8 list" where
  "guardian_device_write_u32_be output i v =
     output[i := ucast (drop_bit 24 v AND 0xFF), i + 1 := ucast (drop_bit 16 v AND 0xFF),
       i + 2 := ucast (drop_bit 8 v AND 0xFF), i + 3 := ucast (v AND 0xFF)]"

text \<open>\<open>model[i]\<close> of a zero-terminated string, and the scan for its terminator.\<close>

definition string_char :: "u8 list \<Rightarrow> nat \<Rightarrow> u8" where
  "string_char model i = (if i < length model then model ! i else 0)"

function model_length_loop :: "u8 list \<Rightarrow> nat \<Rightarrow> nat" where
  "model_length_loop model n =
     (if n \<le> GUARDIAN_DEVICE_MODEL_MAX_LENGTH
      then if string_char model n = 0 then n else model_length_loop model (n + 1)
      else n)"
  by pat_completeness auto
termination by (relation "measure (\<lambda>(_, n). 33 - n)") auto

declare model_length_loop.simps [simp del]

definition guardian_device_model_length :: "u8 list ptr \<Rightarrow> nat" where
  "guardian_device_model_length model =
     (case model of None \<Rightarrow> 0 | Some m \<Rightarrow> model_length_loop m 0)"

definition guardian_device_make_error ::
  "guardian_frame \<Rightarrow> guardian_frame \<Rightarrow> guardian_error_code \<Rightarrow> guardian_frame" where
  "guardian_device_make_error request response err =
     response\<lparr>command := command request, sequence := sequence request,
       message_type := GUARDIAN_MESSAGE_ERROR, flags := GUARDIAN_SUPPORTED_FLAGS,
       payload_length := 1, payload := (payload response)[0 := guardian_error_value err]\<rparr>"

definition guardian_device_handle_ping :: "guardian_frame \<Rightarrow> guardian_frame \<Rightarrow> guardian_frame" where
  "guardian_device_handle_ping request response =
     response\<lparr>command := command request, sequence := sequence request,
       message_type := GUARDIAN_MESSAGE_RESPONSE, flags := GUARDIAN_SUPPORTED_FLAGS,
       payload_length := 4, payload := (payload response)[0 := 80, 1 := 79, 2 := 78, 3 := 71]\<rparr>"

definition guardian_device_handle_info ::
  "guardian_device_service \<Rightarrow> guardian_frame \<Rightarrow> guardian_frame \<Rightarrow> guardian_frame" where
  "guardian_device_handle_info service request response =
     (let i = ds_identity service;
          n = guardian_device_model_length (di_model i);
          b1 = (payload response)[0 := GUARDIAN_DEVICE_PAYLOAD_SCHEMA_VERSION,
             1 := di_firmware_major i, 2 := di_firmware_minor i, 3 := di_firmware_patch i];
          b2 = guardian_device_write_u32_be b1 4 (di_device_id i);
          b3 = b2[8 := of_nat n];
          b4 = buf_write b3 9 (take n (case di_model i of None \<Rightarrow> [] | Some m \<Rightarrow> m))
      in response\<lparr>command := command request, sequence := sequence request,
           message_type := GUARDIAN_MESSAGE_RESPONSE, flags := GUARDIAN_SUPPORTED_FLAGS,
           payload := b4, payload_length := 9 + of_nat n\<rparr>)"

definition guardian_device_handle_status ::
  "guardian_device_runtime \<Rightarrow> guardian_frame \<Rightarrow> guardian_frame \<Rightarrow> guardian_frame" where
  "guardian_device_handle_status runtime request response =
     (let b1 = (payload response)[0 := GUARDIAN_DEVICE_PAYLOAD_SCHEMA_VERSION,
             1 := guardian_device_state_value (dr_state runtime)];
          b2 = guardian_device_write_u32_be b1 2 (dr_uptime_seconds runtime);
          b3 = guardian_device_write_u32_be b2 6 (dr_rx_frames runtime);
          b4 = guardian_device_write_u32_be b3 10 (dr_tx_frames runtime);
          b5 = guardian_device_write_u32_be b4 14 (dr_protocol_errors runtime)
      in response\<lparr>command := command request, sequence := sequence request,
           message_type := GUARDIAN_MESSAGE_RESPONSE, flags := GUARDIAN_SUPPORTED_FLAGS,
           payload := b5[18 := dr_last_error runtime], payload_length := 19\<rparr>)"

definition guardian_device_service_init ::
  "guardian_device_service ptr \<Rightarrow> guardian_device_identity ptr
     \<Rightarrow> guardian_protocol_result \<times> guardian_device_service ptr" where
  "guardian_device_service_init service identity =
     (case (service, identity) of
        (Some s, Some i) \<Rightarrow>
          let n = guardian_device_model_length (di_model i) in
          if n = 0 then (GUARDIAN_PROTOCOL_ERROR_LENGTH_MISMATCH, service)
          else if n > GUARDIAN_DEVICE_MODEL_MAX_LENGTH
          then (GUARDIAN_PROTOCOL_ERROR_PAYLOAD_TOO_LARGE, service)
          else (GUARDIAN_PROTOCOL_OK, Some (s\<lparr>ds_identity := i\<rparr>))
      | _ \<Rightarrow> (GUARDIAN_PROTOCOL_ERROR_NULL_ARGUMENT, service))"

definition guardian_device_service_handle ::
  "guardian_device_service ptr \<Rightarrow> guardian_device_runtime ptr \<Rightarrow> guardian_frame ptr \<Rightarrow> guardian_frame ptr
     \<Rightarrow> guardian_protocol_result \<times> guardian_frame ptr" where
  "guardian_device_service_handle service runtime request response =
     (case (service, runtime, request, response) of
        (Some s, Some rt, Some req, Some resp) \<Rightarrow>
          if message_type req \<noteq> GUARDIAN_MESSAGE_REQUEST
          then (GUARDIAN_PROTOCOL_OK, Some (guardian_device_make_error req resp GUARDIAN_ERROR_MALFORMED_FRAME))
          else if payload_length req \<noteq> 0
          then (GUARDIAN_PROTOCOL_OK, Some (guardian_device_make_error req resp GUARDIAN_ERROR_INVALID_PAYLOAD))
          else if command req = GUARDIAN_COMMAND_PING
          then (GUARDIAN_PROTOCOL_OK, Some (guardian_device_handle_ping req resp))
          else if command req = GUARDIAN_COMMAND_DEVICE_INFO
          then (GUARDIAN_PROTOCOL_OK, Some (guardian_device_handle_info s req resp))
          else if command req = GUARDIAN_COMMAND_GET_STATUS
          then (GUARDIAN_PROTOCOL_OK, Some (guardian_device_handle_status rt req resp))
          else (GUARDIAN_PROTOCOL_OK, Some (guardian_device_make_error req resp GUARDIAN_ERROR_UNKNOWN_COMMAND))
      | _ \<Rightarrow> (GUARDIAN_PROTOCOL_ERROR_NULL_ARGUMENT, response))"

section \<open>The service answers every request\<close>

lemma model_length_loop_bounds: "n \<le> 33 \<Longrightarrow> n \<le> model_length_loop m n \<and> model_length_loop m n \<le> 33"
proof (induction m n rule: model_length_loop.induct)
  case (1 model n)
  then show ?case
    by (subst (1 2) model_length_loop.simps) auto
qed

lemma model_length_loop_within:
  "n \<le> length m \<Longrightarrow> model_length_loop m n \<le> length m"
proof (induction m n rule: model_length_loop.induct)
  case (1 model n)
  have "string_char model n \<noteq> 0 \<Longrightarrow> n < length model" by (auto simp: string_char_def split: if_splits)
  with 1 show ?case by (subst model_length_loop.simps) auto
qed

lemma model_length_bounds: "guardian_device_model_length p \<le> 33"
  using model_length_loop_bounds[of 0] by (simp add: guardian_device_model_length_def split: option.splits)

text \<open>A service whose identity the initializer accepted.\<close>

definition device_configured :: "guardian_device_service \<Rightarrow> bool" where
  "device_configured s \<longleftrightarrow> 0 < guardian_device_model_length (di_model (ds_identity s))
     \<and> guardian_device_model_length (di_model (ds_identity s)) \<le> 32"

lemma device_service_init_configured:
  "guardian_device_service_init (Some s) (Some i) = (GUARDIAN_PROTOCOL_OK, Some s') \<Longrightarrow>
   device_configured s' \<and> ds_identity s' = i"
  by (auto simp: guardian_device_service_init_def device_configured_def Let_def split: if_splits)

lemma length_device_write [simp]: "length (guardian_device_write_u32_be b i v) = length b"
  by (simp add: guardian_device_write_u32_be_def)

lemma device_error_answers [intro]: "wf_frame resp \<Longrightarrow> answers req (guardian_device_make_error req resp e)"
  by (simp add: guardian_device_make_error_def answers_def encodable_def wf_frame_def guardian_message_type_is_valid_def)

lemma device_ping_answers [intro]: "wf_frame resp \<Longrightarrow> answers req (guardian_device_handle_ping req resp)"
  by (simp add: guardian_device_handle_ping_def answers_def encodable_def wf_frame_def guardian_message_type_is_valid_def)

lemma device_status_answers [intro]: "wf_frame resp \<Longrightarrow> answers req (guardian_device_handle_status rt req resp)"
  by (simp add: guardian_device_handle_status_def answers_def encodable_def wf_frame_def Let_def guardian_message_type_is_valid_def)

lemma device_info_answers [intro]:
  assumes "wf_frame resp" "device_configured s"
  shows "answers req (guardian_device_handle_info s req resp)"
proof -
  let ?n = "guardian_device_model_length (di_model (ds_identity s))"
  have "unat (9 + of_nat ?n :: u16) = 9 + ?n"
    using assms(2) by (simp add: device_configured_def unat_word_ariths(1) unat_of_nat)
  then show ?thesis
    using assms by (auto simp: guardian_device_handle_info_def answers_def encodable_def wf_frame_def Let_def
        guardian_message_type_is_valid_def device_configured_def split: option.splits)
qed

text \<open>The handler as a service whose state is the configuration and the runtime snapshot, which it
  only reads.\<close>

definition device_handle :: "guardian_device_service \<times> guardian_device_runtime \<Rightarrow> guardian_frame \<Rightarrow> guardian_frame
    \<Rightarrow> guardian_protocol_result \<times> (guardian_device_service \<times> guardian_device_runtime) \<times> guardian_frame" where
  "device_handle s req resp =
     (case guardian_device_service_handle (Some (fst s)) (Some (snd s)) (Some req) (Some resp) of
        (r, resp') \<Rightarrow> (r, s, the resp'))"

lemma device_service_answers:
  "device_configured s \<Longrightarrow> wf_frame resp \<Longrightarrow>
   \<exists>resp'. guardian_device_service_handle (Some s) (Some rt) (Some req) (Some resp) = (GUARDIAN_PROTOCOL_OK, Some resp')
     \<and> answers req resp'"
  by (auto simp: guardian_device_service_handle_def)

interpretation device: frame_service "\<lambda>s. device_configured (fst s)" device_handle
proof
  fix s :: "guardian_device_service \<times> guardian_device_runtime" and resp req r s' resp'
  assume "device_configured (fst s)" "wf_frame resp" "device_handle s req resp = (r, s', resp')"
  then show "r = GUARDIAN_PROTOCOL_OK \<and> device_configured (fst s') \<and> answers req resp'"
    using device_service_answers[of "fst s" resp "snd s" req] by (auto simp: device_handle_def)
qed

end
