(* ===== verification/Guardian_Telemetry.thy ===== *)
theory Guardian_Telemetry
  imports Guardian_Device_Service
begin

text \<open>
  Asynchronous telemetry of \<open>firmware/Telemetry/Src/guardian_telemetry.c\<close>: the millisecond
  scheduler, the SET_TELEMETRY handler and the due-frame builder.  The lemmas give the schedule:
  frames are never closer than the configured period, and their sequence numbers advance by one
  and skip zero.
\<close>

section \<open>Types\<close>

record guardian_machine_measurements =
  mm_temperature_centi_c :: i16
  mm_vibration_mg_rms :: u16
  mm_current_ma :: u16
  mm_rpm :: u16
  mm_supply_mv :: u16
  mm_status_flags :: u16

record guardian_telemetry =
  tm_enabled :: u8
  tm_period_ms :: u16
  tm_elapsed_ms :: u32
  tm_timestamp_ms :: u32
  tm_next_sequence :: u32
  tm_measurements :: guardian_machine_measurements

abbreviation (input) GUARDIAN_TELEMETRY_SCHEMA_VERSION :: u8 where "GUARDIAN_TELEMETRY_SCHEMA_VERSION \<equiv> 1"
abbreviation (input) GUARDIAN_TELEMETRY_MIN_PERIOD_MS :: u16 where "GUARDIAN_TELEMETRY_MIN_PERIOD_MS \<equiv> 100"
abbreviation (input) GUARDIAN_TELEMETRY_MAX_PERIOD_MS :: u16 where "GUARDIAN_TELEMETRY_MAX_PERIOD_MS \<equiv> 60000"
abbreviation (input) GUARDIAN_TELEMETRY_DEFAULT_PERIOD_MS :: u16 where "GUARDIAN_TELEMETRY_DEFAULT_PERIOD_MS \<equiv> 1000"

definition zero_measurements :: guardian_machine_measurements where
  "zero_measurements = \<lparr>mm_temperature_centi_c = 0, mm_vibration_mg_rms = 0, mm_current_ma = 0, mm_rpm = 0,
     mm_supply_mv = 0, mm_status_flags = 0\<rparr>"

section \<open>Operations\<close>

definition guardian_telemetry_read_u16_be :: "u8 list \<Rightarrow> nat \<Rightarrow> u16" where
  "guardian_telemetry_read_u16_be input i = push_bit 8 (ucast (input ! i)) OR ucast (input ! (i + 1))"

definition guardian_telemetry_write_u16_be :: "u8 list \<Rightarrow> nat \<Rightarrow> u16 \<Rightarrow> u8 list" where
  "guardian_telemetry_write_u16_be output i v =
     output[i := ucast (drop_bit 8 v AND 0xFF), i + 1 := ucast (v AND 0xFF)]"

definition guardian_telemetry_write_i16_be :: "u8 list \<Rightarrow> nat \<Rightarrow> i16 \<Rightarrow> u8 list" where
  "guardian_telemetry_write_i16_be output i v = guardian_telemetry_write_u16_be output i v"

definition guardian_telemetry_write_u32_be :: "u8 list \<Rightarrow> nat \<Rightarrow> u32 \<Rightarrow> u8 list" where
  "guardian_telemetry_write_u32_be output i v =
     output[i := ucast (drop_bit 24 v AND 0xFF), i + 1 := ucast (drop_bit 16 v AND 0xFF),
       i + 2 := ucast (drop_bit 8 v AND 0xFF), i + 3 := ucast (v AND 0xFF)]"

definition guardian_telemetry_make_error ::
  "guardian_frame \<Rightarrow> guardian_frame \<Rightarrow> guardian_error_code \<Rightarrow> guardian_frame" where
  "guardian_telemetry_make_error request response err =
     response\<lparr>command := command request, sequence := sequence request,
       message_type := GUARDIAN_MESSAGE_ERROR, flags := GUARDIAN_SUPPORTED_FLAGS,
       payload_length := 1, payload := (payload response)[0 := guardian_error_value err]\<rparr>"

definition guardian_telemetry_make_config_response ::
  "guardian_telemetry \<Rightarrow> guardian_frame \<Rightarrow> guardian_frame \<Rightarrow> guardian_frame" where
  "guardian_telemetry_make_config_response t request response =
     response\<lparr>command := command request, sequence := sequence request,
       message_type := GUARDIAN_MESSAGE_RESPONSE, flags := GUARDIAN_SUPPORTED_FLAGS, payload_length := 4,
       payload := guardian_telemetry_write_u16_be
         ((payload response)[0 := GUARDIAN_TELEMETRY_SCHEMA_VERSION, 1 := tm_enabled t]) 2 (tm_period_ms t)\<rparr>"

definition initial_telemetry :: guardian_telemetry where
  "initial_telemetry = \<lparr>tm_enabled = 0, tm_period_ms = GUARDIAN_TELEMETRY_DEFAULT_PERIOD_MS, tm_elapsed_ms = 0,
     tm_timestamp_ms = 0, tm_next_sequence = 1, tm_measurements = zero_measurements\<rparr>"

definition guardian_telemetry_init :: "guardian_telemetry ptr \<Rightarrow> guardian_telemetry ptr" where
  "guardian_telemetry_init telemetry = (case telemetry of None \<Rightarrow> None | Some _ \<Rightarrow> Some initial_telemetry)"

definition guardian_telemetry_tick_1ms :: "guardian_telemetry ptr \<Rightarrow> guardian_telemetry ptr" where
  "guardian_telemetry_tick_1ms telemetry =
     (case telemetry of
        None \<Rightarrow> None
      | Some t \<Rightarrow>
          let t1 = t\<lparr>tm_timestamp_ms := tm_timestamp_ms t + 1\<rparr> in
          Some (if tm_enabled t1 \<noteq> 0 \<and> tm_elapsed_ms t1 \<noteq> 0xFFFFFFFF
                then t1\<lparr>tm_elapsed_ms := tm_elapsed_ms t1 + 1\<rparr> else t1))"

definition guardian_telemetry_set_measurements ::
  "guardian_telemetry ptr \<Rightarrow> guardian_machine_measurements ptr \<Rightarrow> guardian_telemetry ptr" where
  "guardian_telemetry_set_measurements telemetry measurements =
     (case (telemetry, measurements) of
        (Some t, Some m) \<Rightarrow> Some (t\<lparr>tm_measurements := m\<rparr>)
      | _ \<Rightarrow> telemetry)"

definition guardian_telemetry_handle_request ::
  "guardian_telemetry ptr \<Rightarrow> guardian_frame ptr \<Rightarrow> guardian_frame ptr
     \<Rightarrow> guardian_protocol_result \<times> guardian_telemetry ptr \<times> guardian_frame ptr" where
  "guardian_telemetry_handle_request telemetry request response =
     (case (telemetry, request, response) of
        (Some t, Some req, Some resp) \<Rightarrow>
          if message_type req \<noteq> GUARDIAN_MESSAGE_REQUEST
          then (GUARDIAN_PROTOCOL_OK, telemetry, Some (guardian_telemetry_make_error req resp GUARDIAN_ERROR_MALFORMED_FRAME))
          else if command req \<noteq> GUARDIAN_COMMAND_SET_TELEMETRY
          then (GUARDIAN_PROTOCOL_OK, telemetry, Some (guardian_telemetry_make_error req resp GUARDIAN_ERROR_UNKNOWN_COMMAND))
          else if payload_length req \<noteq> 4
          then (GUARDIAN_PROTOCOL_OK, telemetry, Some (guardian_telemetry_make_error req resp GUARDIAN_ERROR_INVALID_PAYLOAD))
          else if payload req ! 0 \<noteq> GUARDIAN_TELEMETRY_SCHEMA_VERSION
          then (GUARDIAN_PROTOCOL_OK, telemetry, Some (guardian_telemetry_make_error req resp GUARDIAN_ERROR_INVALID_PAYLOAD))
          else if payload req ! 1 > 1
          then (GUARDIAN_PROTOCOL_OK, telemetry, Some (guardian_telemetry_make_error req resp GUARDIAN_ERROR_INVALID_PAYLOAD))
          else
            let requested_period_ms = guardian_telemetry_read_u16_be (payload req) 2 in
            if requested_period_ms < GUARDIAN_TELEMETRY_MIN_PERIOD_MS
               \<or> requested_period_ms > GUARDIAN_TELEMETRY_MAX_PERIOD_MS
            then (GUARDIAN_PROTOCOL_OK, telemetry, Some (guardian_telemetry_make_error req resp GUARDIAN_ERROR_INVALID_PAYLOAD))
            else
              let t' = t\<lparr>tm_enabled := payload req ! 1, tm_period_ms := requested_period_ms, tm_elapsed_ms := 0\<rparr>
              in (GUARDIAN_PROTOCOL_OK, Some t', Some (guardian_telemetry_make_config_response t' req resp))
      | _ \<Rightarrow> (GUARDIAN_PROTOCOL_ERROR_NULL_ARGUMENT, telemetry, response))"

text \<open>The stores of a due frame.\<close>

definition due_frame :: "guardian_telemetry \<Rightarrow> guardian_device_state \<Rightarrow> guardian_frame \<Rightarrow> guardian_frame" where
  "due_frame t state frame =
     (let m = tm_measurements t;
          b1 = (payload frame)[0 := GUARDIAN_TELEMETRY_SCHEMA_VERSION, 1 := guardian_device_state_value state];
          b2 = guardian_telemetry_write_u32_be b1 2 (tm_timestamp_ms t);
          b3 = guardian_telemetry_write_i16_be b2 6 (mm_temperature_centi_c m);
          b4 = guardian_telemetry_write_u16_be b3 8 (mm_vibration_mg_rms m);
          b5 = guardian_telemetry_write_u16_be b4 10 (mm_current_ma m);
          b6 = guardian_telemetry_write_u16_be b5 12 (mm_rpm m);
          b7 = guardian_telemetry_write_u16_be b6 14 (mm_supply_mv m);
          b8 = guardian_telemetry_write_u16_be b7 16 (mm_status_flags m)
      in frame\<lparr>message_type := GUARDIAN_MESSAGE_TELEMETRY, command := GUARDIAN_COMMAND_MACHINE_TELEMETRY,
           flags := GUARDIAN_SUPPORTED_FLAGS, sequence := tm_next_sequence t, payload_length := 18, payload := b8\<rparr>)"

definition guardian_telemetry_make_due_frame ::
  "guardian_telemetry ptr \<Rightarrow> guardian_device_state \<Rightarrow> guardian_frame ptr
     \<Rightarrow> bool \<times> guardian_telemetry ptr \<times> guardian_frame ptr" where
  "guardian_telemetry_make_due_frame telemetry state frame =
     (case (telemetry, frame) of
        (Some t, Some f) \<Rightarrow>
          if tm_enabled t = 0 then (False, telemetry, frame)
          else if tm_elapsed_ms t < ucast (tm_period_ms t) then (False, telemetry, frame)
          else (True,
                Some (t\<lparr>tm_elapsed_ms := 0,
                   tm_next_sequence := (if tm_next_sequence t = 0xFFFFFFFF then 1 else tm_next_sequence t + 1)\<rparr>),
                Some (due_frame t state f))
      | _ \<Rightarrow> (False, telemetry, frame))"

section \<open>The handler answers every request\<close>

definition telemetry_inv :: "guardian_telemetry \<Rightarrow> bool" where
  "telemetry_inv t \<longleftrightarrow> tm_enabled t \<le> 1 \<and> tm_next_sequence t \<noteq> 0
     \<and> GUARDIAN_TELEMETRY_MIN_PERIOD_MS \<le> tm_period_ms t \<and> tm_period_ms t \<le> GUARDIAN_TELEMETRY_MAX_PERIOD_MS"

lemma length_telemetry_write [simp]:
  "length (guardian_telemetry_write_u16_be b i v) = length b" "length (guardian_telemetry_write_i16_be b i v) = length b"
  "length (guardian_telemetry_write_u32_be b i w) = length b"
  by (simp_all add: guardian_telemetry_write_u16_be_def guardian_telemetry_write_i16_be_def guardian_telemetry_write_u32_be_def)

lemma telemetry_error_answers [intro]: "wf_frame resp \<Longrightarrow> answers req (guardian_telemetry_make_error req resp e)"
  by (simp add: guardian_telemetry_make_error_def answers_def encodable_def wf_frame_def guardian_message_type_is_valid_def)

lemma telemetry_config_answers [intro]:
  "wf_frame resp \<Longrightarrow> answers req (guardian_telemetry_make_config_response t req resp)"
  by (simp add: guardian_telemetry_make_config_response_def answers_def encodable_def wf_frame_def
      guardian_message_type_is_valid_def)

interpretation telemetry: frame_service telemetry_inv "served guardian_telemetry_handle_request"
proof
  fix t resp req r t' resp'
  assume "telemetry_inv t" "wf_frame resp" "served guardian_telemetry_handle_request t req resp = (r, t', resp')"
  then show "r = GUARDIAN_PROTOCOL_OK \<and> telemetry_inv t' \<and> answers req resp'"
    by (auto simp: served_def guardian_telemetry_handle_request_def telemetry_inv_def not_less Let_def split: if_splits)
qed

section \<open>The schedule\<close>

datatype telemetry_op =
    Telemetry_tick
  | Telemetry_measure guardian_machine_measurements
  | Telemetry_request guardian_frame guardian_frame
  | Telemetry_poll guardian_device_state guardian_frame

text \<open>One operation, with the frame it emits.\<close>

fun telemetry_exec :: "guardian_telemetry \<Rightarrow> telemetry_op \<Rightarrow> guardian_telemetry \<times> guardian_frame option" where
  "telemetry_exec t Telemetry_tick = (the (guardian_telemetry_tick_1ms (Some t)), None)"
| "telemetry_exec t (Telemetry_measure m) = (the (guardian_telemetry_set_measurements (Some t) (Some m)), None)"
| "telemetry_exec t (Telemetry_request req resp) =
     (the (fst (snd (guardian_telemetry_handle_request (Some t) (Some req) (Some resp)))), None)"
| "telemetry_exec t (Telemetry_poll state f) =
     (case guardian_telemetry_make_due_frame (Some t) state (Some f) of
        (due, t', f') \<Rightarrow> (the t', if due then f' else None))"

fun telemetry_run :: "guardian_telemetry \<Rightarrow> telemetry_op list \<Rightarrow> guardian_telemetry" where
  "telemetry_run t [] = t"
| "telemetry_run t (op # ops) = telemetry_run (fst (telemetry_exec t op)) ops"

text \<open>The frames of a run, each with the number of clock ticks before it.\<close>

fun telemetry_frames :: "nat \<Rightarrow> guardian_telemetry \<Rightarrow> telemetry_op list \<Rightarrow> (nat \<times> guardian_frame) list" where
  "telemetry_frames n t [] = []"
| "telemetry_frames n t (op # ops) =
     (case telemetry_exec t op of (t', out) \<Rightarrow>
        (case out of None \<Rightarrow> [] | Some f \<Rightarrow> [(n, f)])
        @ telemetry_frames (if op = Telemetry_tick then n + 1 else n) t' ops)"

lemma telemetry_exec_inv: "telemetry_inv t \<Longrightarrow> telemetry_inv (fst (telemetry_exec t op))"
proof (cases op)
  case (Telemetry_request req resp)
  assume "telemetry_inv t"
  then show ?thesis unfolding Telemetry_request
    by (auto simp: guardian_telemetry_handle_request_def telemetry_inv_def not_less Let_def)
next
  case (Telemetry_poll state f)
  assume "telemetry_inv t"
  moreover have "v \<noteq> 0xFFFFFFFF \<Longrightarrow> v + 1 \<noteq> 0" for v :: u32
    using eq_neg_iff_add_eq_0[of v 1] by auto
  ultimately show ?thesis unfolding Telemetry_poll
    by (auto simp: guardian_telemetry_make_due_frame_def telemetry_inv_def)
qed (auto simp: guardian_telemetry_tick_1ms_def guardian_telemetry_set_measurements_def telemetry_inv_def Let_def)


lemma unat_ucast_u16: "unat (ucast (x :: u16) :: u32) = unat x"
  by transfer (simp add: take_bit_take_bit)

lemma successively_Cons_iff:
  "successively P (x # xs) \<longleftrightarrow> (\<forall>y ys. xs = y # ys \<longrightarrow> P x y) \<and> successively P xs"
  by (cases xs) auto

definition next_telemetry_sequence :: "u32 \<Rightarrow> u32" where
  "next_telemetry_sequence n = (if n = 0xFFFFFFFF then 1 else n + 1)"

fun is_request :: "telemetry_op \<Rightarrow> bool" where
  "is_request (Telemetry_request _ _) = True"
| "is_request _ = False"

text \<open>\<open>p\<close> is a pace the scheduler keeps: at most the period, and at most the smallest period a host
  can configure when hosts may reconfigure.\<close>

definition paced :: "nat \<Rightarrow> guardian_telemetry \<Rightarrow> telemetry_op list \<Rightarrow> bool" where
  "paced p t ops \<longleftrightarrow> telemetry_inv t \<and> p \<le> unat (tm_period_ms t) \<and> (p \<le> 100 \<or> list_all (\<lambda>op. \<not> is_request op) ops)"

lemma paced_minimum: "telemetry_inv t \<Longrightarrow> paced 100 t ops"
  by (simp add: paced_def telemetry_inv_def word_le_nat_alt)

lemma telemetry_silent_step:
  assumes "paced p t (op # ops)" "telemetry_exec t op = (t', None)"
  shows "paced p t' ops" "tm_next_sequence t' = tm_next_sequence t"
    "unat (tm_elapsed_ms t') \<le> unat (tm_elapsed_ms t) + (if op = Telemetry_tick then 1 else 0)"
proof -
  have inv: "telemetry_inv t'" using assms telemetry_exec_inv[of t op] by (simp add: paced_def)
  have inc: "unat (tm_elapsed_ms t + 1) \<le> unat (tm_elapsed_ms t) + 1"
    by (simp add: unat_word_ariths(1) mod_less_eq_dividend)
  have per: "tm_period_ms t' = tm_period_ms t \<or> (is_request op \<and> 100 \<le> unat (tm_period_ms t'))"
    using assms(2) inv
    by (cases op) (auto simp: guardian_telemetry_tick_1ms_def guardian_telemetry_set_measurements_def
        guardian_telemetry_make_due_frame_def telemetry_inv_def word_le_nat_alt Let_def split: if_splits)
  show "paced p t' ops" using assms(1) inv per by (auto simp: paced_def)
  show "tm_next_sequence t' = tm_next_sequence t"
    "unat (tm_elapsed_ms t') \<le> unat (tm_elapsed_ms t) + (if op = Telemetry_tick then 1 else 0)"
    using assms(2) inc
    by (cases op; auto simp: guardian_telemetry_tick_1ms_def guardian_telemetry_set_measurements_def
        guardian_telemetry_handle_request_def guardian_telemetry_make_due_frame_def Let_def split: if_splits)+
qed

lemma telemetry_emitting_step:
  assumes "paced p t (op # ops)" "telemetry_exec t op = (t', Some f)"
  shows "paced p t' ops" "op \<noteq> Telemetry_tick" "tm_elapsed_ms t' = 0" "p \<le> unat (tm_elapsed_ms t)"
    "sequence f = tm_next_sequence t" "tm_next_sequence t' = next_telemetry_sequence (sequence f)"
proof -
  obtain state f0 where op: "op = Telemetry_poll state f0" using assms(2) by (cases op) auto
  then have t': "tm_period_ms t \<le> tm_period_ms t" "\<not> tm_elapsed_ms t < ucast (tm_period_ms t)"
      "t' = t\<lparr>tm_elapsed_ms := 0, tm_next_sequence := next_telemetry_sequence (tm_next_sequence t)\<rparr>"
      "f = due_frame t state f0"
    using assms(2) by (auto simp: guardian_telemetry_make_due_frame_def next_telemetry_sequence_def split: if_splits)
  have "telemetry_inv t'" using assms telemetry_exec_inv[of t op] by (simp add: paced_def)
  then show "paced p t' ops" using assms(1) t'(3) by (auto simp: paced_def)
  have "unat (tm_period_ms t) \<le> unat (tm_elapsed_ms t)"
    using t'(2) unat_ucast_u16[of "tm_period_ms t"] by (simp add: not_less word_le_nat_alt)
  then show "p \<le> unat (tm_elapsed_ms t)" using assms(1) by (simp add: paced_def)
  show "op \<noteq> Telemetry_tick" "tm_elapsed_ms t' = 0" "sequence f = tm_next_sequence t"
    "tm_next_sequence t' = next_telemetry_sequence (sequence f)"
    using op t' by (simp_all add: due_frame_def Let_def)
qed

lemma telemetry_first_frame:
  "paced p t ops \<Longrightarrow> telemetry_frames n t ops = (m, g) # rest \<Longrightarrow>
   n + p \<le> m + unat (tm_elapsed_ms t) \<and> sequence g = tm_next_sequence t"
proof (induction ops arbitrary: n t)
  case (Cons op ops)
  obtain t' out where x: "telemetry_exec t op = (t', out)" by fastforce
  show ?case
  proof (cases out)
    case None
    note s = telemetry_silent_step[OF Cons.prems(1) x[unfolded None]]
    show ?thesis
      using Cons.IH[OF s(1), of "if op = Telemetry_tick then n + 1 else n"] Cons.prems(2) s x None
      by (auto split: if_splits)
  next
    case (Some f)
    then show ?thesis
      using telemetry_emitting_step[OF Cons.prems(1) x[unfolded Some]] Cons.prems(2) x by auto
  qed
qed simp

lemma telemetry_frames_paced:
  "paced p t ops \<Longrightarrow> successively (\<lambda>(n, f) (m, g). n + p \<le> m \<and> sequence g = next_telemetry_sequence (sequence f))
     (telemetry_frames n t ops)"
proof (induction ops arbitrary: n t)
  case (Cons op ops)
  obtain t' out where x: "telemetry_exec t op = (t', out)" by fastforce
  show ?case
  proof (cases out)
    case None
    then show ?thesis using Cons.IH[OF telemetry_silent_step(1)[OF Cons.prems x[unfolded None]]] x by simp
  next
    case (Some f)
    note e = telemetry_emitting_step[OF Cons.prems x[unfolded Some]]
    show ?thesis
      using Cons.IH[OF e(1)] telemetry_first_frame[OF e(1)] e(2-) x Some by (fastforce simp: successively_Cons_iff)
  qed
qed simp

lemma telemetry_frame_encodable:
  "wf_frame f0 \<Longrightarrow> guardian_telemetry_make_due_frame (Some t) state (Some f0) = (True, t', Some f) \<Longrightarrow> encodable f"
  by (auto simp: guardian_telemetry_make_due_frame_def due_frame_def encodable_def wf_frame_def Let_def
      guardian_message_type_is_valid_def split: if_splits)

text \<open>C14: Telemetry keeps its pace. From power-up, whatever the host requests and however often
  the link polls, two successive telemetry frames lie at least 100 clock ticks apart and carry
  successive sequence numbers; while no request reconfigures the stream they lie at least the
  configured period apart.\<close>

theorem telemetry_never_bursts:
  "successively (\<lambda>(n, f) (m, g). n + 100 \<le> m \<and> sequence g = next_telemetry_sequence (sequence f))
     (telemetry_frames 0 initial_telemetry ops)
   \<and> successively (\<lambda>(n, f) (m, g). n + unat (tm_period_ms (telemetry_run initial_telemetry ops)) \<le> m)
        (telemetry_frames 0 (telemetry_run initial_telemetry ops) (filter (\<lambda>op. \<not> is_request op) later))"
proof -
  let ?t = "telemetry_run initial_telemetry ops"
  have inv0: "telemetry_inv initial_telemetry" by (simp add: telemetry_inv_def initial_telemetry_def)
  have "telemetry_inv t \<Longrightarrow> telemetry_inv (telemetry_run t ops)" for t
    by (induction ops arbitrary: t) (auto intro: telemetry_exec_inv)
  then have "paced (unat (tm_period_ms ?t)) ?t (filter (\<lambda>op. \<not> is_request op) later)"
    using inv0 by (simp add: paced_def list_all_iff)
  note p = telemetry_frames_paced[OF this, of 0]
  have "successively (\<lambda>(n, f) (m, g). n + unat (tm_period_ms ?t) \<le> m)
      (telemetry_frames 0 ?t (filter (\<lambda>op. \<not> is_request op) later))"
    by (rule successively_mono[OF p]) auto
  then show ?thesis using telemetry_frames_paced[OF paced_minimum[OF inv0]] by blast
qed

end
