(* ===== verification/Guardian_Float.thy ===== *)
theory Guardian_Float
  imports Complex_Main
begin

text \<open>
  IEEE-754 binary32 arithmetic as the Cortex-M4F and the host compilers of the project evaluate
  \<open>float\<close> expressions: every operation computes the exact result and rounds it to nearest,
  ties to even.  A finite value is the rational number it stands for; the two zeros are one value
  here, which is visible only to a division by zero, and the modelled sources divide by positive
  numbers.  The lemmas give what the components need: rounding is monotone and keeps representable
  numbers, so a representable bound of an exact result bounds the computed one.
\<close>

section \<open>Powers of two and rounding of integers\<close>

abbreviation pow2 :: "int \<Rightarrow> rat" where
  "pow2 e \<equiv> 2 powi e"

lemma pow2_add: "pow2 (a + b) = pow2 a * pow2 b"
  by (simp add: power_int_add)

lemma pow2_pos [simp]: "0 < pow2 e"
  by (rule zero_less_power_int) simp

lemma pow2_not_neg [simp]: "\<not> pow2 e < 0"
  by (simp add: not_less less_imp_le)

lemma pow2_mono: "a \<le> b \<Longrightarrow> pow2 a \<le> pow2 b"
  by (rule power_int_increasing) simp_all

lemma pow2_less_iff [simp]: "pow2 a < pow2 b \<longleftrightarrow> a < b"
  by (smt (verit) pow2_mono power_int_strict_increasing one_less_numeral_iff semiring_norm(76) linorder_not_less)

lemma pow2_int: "0 \<le> e \<Longrightarrow> pow2 e = of_int (2 ^ nat e)"
  by (simp add: power_int_def)

definition round_even :: "rat \<Rightarrow> int" where
  "round_even y =
     (let n = \<lfloor>y\<rfloor>; d = y - of_int n in if d < 1 / 2 \<or> (d = 1 / 2 \<and> even n) then n else n + 1)"

lemma round_even_int [simp]: "round_even (of_int n) = n"
  by (simp add: round_even_def)

lemma round_even_mono:
  assumes "y \<le> z"
  shows "round_even y \<le> round_even z"
proof (cases "\<lfloor>y\<rfloor> = \<lfloor>z\<rfloor>")
  case True
  then show ?thesis using assms by (auto simp: round_even_def Let_def)
next
  case False
  then have "\<lfloor>y\<rfloor> + 1 \<le> \<lfloor>z\<rfloor>" using floor_mono[OF assms] by linarith
  moreover have "round_even y \<le> \<lfloor>y\<rfloor> + 1" "\<lfloor>z\<rfloor> \<le> round_even z"
    by (simp_all add: round_even_def Let_def)
  ultimately show ?thesis by linarith
qed

lemma round_even_le: "y \<le> of_int n \<Longrightarrow> round_even y \<le> n"
  using round_even_mono[of y "of_int n"] by simp

lemma round_even_ge: "of_int n \<le> y \<Longrightarrow> n \<le> round_even y"
  using round_even_mono[of "of_int n" y] by simp

section \<open>Binary exponents\<close>

function bit_length :: "int \<Rightarrow> int" where
  "bit_length n = (if n \<le> 0 then 0 else 1 + bit_length (n div 2))"
  by pat_completeness auto
termination by (relation "measure nat") auto

declare bit_length.simps [simp del]

lemma bit_length_int_bounds:
  "0 < n \<Longrightarrow> 1 \<le> bit_length n \<and> 2 ^ nat (bit_length n - 1) \<le> n \<and> n < 2 ^ nat (bit_length n)"
proof (induction n rule: bit_length.induct)
  case (1 n)
  show ?case
  proof (cases "n div 2 = 0")
    case True
    then have "n = 1" using 1(2) by linarith
    then show ?thesis by (simp add: bit_length.simps)
  next
    case False
    define b where "b = bit_length (n div 2)"
    have "0 < n div 2" using 1(2) False by linarith
    then have ih: "1 \<le> b" "2 ^ nat (b - 1) \<le> n div 2" "n div 2 < 2 ^ nat b"
      using 1 by (auto simp: b_def)
    have len: "bit_length n = 1 + b"
      using 1(2) by (subst bit_length.simps) (simp add: b_def)
    have "nat b = Suc (nat (b - 1))" "nat (1 + b) = Suc (nat b)" using ih(1) by linarith+
    then have "2 ^ nat b \<le> n" "n < 2 ^ nat (1 + b)" using ih(2,3) by simp_all
    then show ?thesis using len ih(1) by simp
  qed
qed

lemma bit_length_bounds:
  assumes "0 < n"
  shows "pow2 (bit_length n - 1) \<le> of_int n" "of_int n < pow2 (bit_length n)"
proof -
  have b: "1 \<le> bit_length n" "2 ^ nat (bit_length n - 1) \<le> n" "n < 2 ^ nat (bit_length n)"
    using bit_length_int_bounds[OF assms] by simp_all
  then have "pow2 (bit_length n - 1) = of_int (2 ^ nat (bit_length n - 1))" "pow2 (bit_length n) = of_int (2 ^ nat (bit_length n))"
    by (intro pow2_int; linarith)+
  then show "pow2 (bit_length n - 1) \<le> of_int n" "of_int n < pow2 (bit_length n)"
    using b(2,3) by (simp_all only: of_int_le_iff of_int_less_iff)
qed

text \<open>The exponent of a positive rational: \<open>2\<^sup>e \<le> a < 2\<^sup>e\<^sup>+\<^sup>1\<close>.\<close>

definition expo :: "rat \<Rightarrow> int" where
  "expo a = (let (p, q) = quotient_of a;
                 e = bit_length p - bit_length q
             in if a < pow2 e then e - 1 else e)"

lemma pow2_nat: "pow2 (int n) = 2 ^ n"
  by (simp add: power_int_def)

lemma pow2_diff: "pow2 (a - b) = pow2 a / pow2 b"
  by (simp add: power_int_diff)

lemma expo_bounds:
  assumes "0 < a"
  shows "pow2 (expo a) \<le> a" "a < pow2 (expo a + 1)"
proof -
  obtain p q where pq: "quotient_of a = (p, q)" by fastforce
  have q: "0 < q" using pq by (rule quotient_of_denom_pos)
  have a: "a = of_int p / of_int q" using pq by (rule quotient_of_div)
  have p: "0 < p" using assms a q by (simp add: zero_less_divide_iff)
  define m n where "m = bit_length p" and "n = bit_length q"
  have rp: "pow2 (m - 1) \<le> of_int p" "of_int p < pow2 m" and rq: "pow2 (n - 1) \<le> of_int q" "of_int q < pow2 n"
    using bit_length_bounds[OF p] bit_length_bounds[OF q] by (simp_all add: m_def n_def)
  have lower: "pow2 (m - n - 1) \<le> a"
  proof -
    have "pow2 (m - 1) * of_int q \<le> of_int p * pow2 n"
      using rp(1) rq(2) q p by (intro mult_mono) (auto simp: less_imp_le)
    then have "pow2 (m - 1) / pow2 n \<le> a" unfolding a using q by (simp add: field_simps)
    moreover have "m - n - 1 = m - 1 - n" by simp
    ultimately show ?thesis by (simp only: pow2_diff[symmetric])
  qed
  have upper: "a < pow2 (m - n + 1)"
  proof -
    have "of_int p * pow2 (n - 1) < pow2 m * of_int q"
      using rp(2) rq(1) q p by (intro mult_less_le_imp_less) (auto simp: less_imp_le)
    then have "a < pow2 m / pow2 (n - 1)" unfolding a using q by (simp add: field_simps)
    moreover have "m - n + 1 = m - (n - 1)" by simp
    ultimately show ?thesis by (simp only: pow2_diff[symmetric])
  qed
  show "pow2 (expo a) \<le> a" "a < pow2 (expo a + 1)"
    using lower upper by (auto simp: expo_def pq m_def n_def Let_def)
qed

lemma expo_less: "0 < a \<Longrightarrow> a < pow2 k \<Longrightarrow> expo a < k"
  by (metis expo_bounds(1) le_less_trans pow2_less_iff)

lemma expo_mono: "0 < a \<Longrightarrow> a \<le> b \<Longrightarrow> expo a \<le> expo b"
  using expo_less[of a "expo b + 1"] expo_bounds(2)[of b] by linarith


section \<open>Rounding to binary32\<close>

text \<open>The exponent of the last place of a magnitude: 23 places below its leading bit, at least that
  of the subnormal numbers.\<close>

definition ulp_expo :: "rat \<Rightarrow> int" where
  "ulp_expo a = (if a = 0 then -149 else max (expo a) (-126) - 23)"

definition round_mag :: "rat \<Rightarrow> rat" where
  "round_mag a = (let u = pow2 (ulp_expo a) in of_int (round_even (a / u)) * u)"

definition round_val :: "rat \<Rightarrow> rat" where
  "round_val q = (if 0 \<le> q then round_mag q else - round_mag (- q))"

text \<open>A finite binary32 number: an integer of at most 24 bits times a power of two.\<close>

definition representable :: "rat \<Rightarrow> bool" where
  "representable q \<longleftrightarrow>
     (\<exists>k j. q = of_int k * pow2 j \<and> \<bar>k\<bar> < 2 ^ 24 \<and> -149 \<le> j) \<and> \<bar>q\<bar> < pow2 128"

lemma ulp_expo_bounds: "0 < a \<Longrightarrow> a < pow2 (ulp_expo a + 24)"
  using expo_bounds(2)[of a] pow2_mono[of "expo a + 1" "ulp_expo a + 24"]
  by (simp add: ulp_expo_def)

lemma ulp_expo_ge [simp]: "-149 \<le> ulp_expo a"
  by (simp add: ulp_expo_def max_def)

lemma ulp_expo_mono: "0 \<le> a \<Longrightarrow> a \<le> b \<Longrightarrow> ulp_expo a \<le> ulp_expo b"
  using expo_mono[of a b] by (cases "a = 0") (auto simp: ulp_expo_def max_def)

lemma divide_pow2_int: "j \<le> i \<Longrightarrow> of_int k * pow2 i / pow2 j = of_int (k * 2 ^ nat (i - j))"
  using pow2_int[of "i - j"] by (simp add: pow2_diff flip: times_divide_eq_right)

lemma round_mag_nonneg: "0 \<le> a \<Longrightarrow> 0 \<le> round_mag a"
  using round_even_ge[of 0 "a / pow2 (ulp_expo a)"] by (simp add: round_mag_def Let_def)

lemma round_mag_grid_le:
  assumes "a \<le> of_int k * pow2 i" "ulp_expo a \<le> i"
  shows "round_mag a \<le> of_int k * pow2 i"
proof -
  have "a / pow2 (ulp_expo a) \<le> of_int (k * 2 ^ nat (i - ulp_expo a))"
    using assms divide_right_mono[OF assms(1), of "pow2 (ulp_expo a)"] by (simp add: divide_pow2_int less_imp_le)
  then have "round_even (a / pow2 (ulp_expo a)) \<le> k * 2 ^ nat (i - ulp_expo a)"
    by (rule round_even_le)
  then have "round_mag a \<le> of_int (k * 2 ^ nat (i - ulp_expo a)) * pow2 (ulp_expo a)"
    unfolding round_mag_def Let_def by (intro mult_right_mono) (auto simp: less_imp_le simp del: of_int_mult)
  also have "\<dots> = of_int k * pow2 i"
    unfolding divide_pow2_int[OF assms(2), symmetric] by simp
  finally show ?thesis .
qed

lemma round_mag_grid_ge:
  assumes "of_int k * pow2 i \<le> a" "ulp_expo a \<le> i"
  shows "of_int k * pow2 i \<le> round_mag a"
proof -
  have "of_int (k * 2 ^ nat (i - ulp_expo a)) \<le> a / pow2 (ulp_expo a)"
    using assms divide_right_mono[OF assms(1), of "pow2 (ulp_expo a)"] by (simp add: divide_pow2_int less_imp_le)
  then have "k * 2 ^ nat (i - ulp_expo a) \<le> round_even (a / pow2 (ulp_expo a))"
    by (rule round_even_ge)
  then have "of_int (k * 2 ^ nat (i - ulp_expo a)) * pow2 (ulp_expo a) \<le> round_mag a"
    unfolding round_mag_def Let_def by (intro mult_right_mono) (auto simp: less_imp_le simp del: of_int_mult)
  moreover have "of_int (k * 2 ^ nat (i - ulp_expo a)) * pow2 (ulp_expo a) = of_int k * pow2 i"
    unfolding divide_pow2_int[OF assms(2), symmetric] by simp
  ultimately show ?thesis by argo
qed

lemma round_mag_mono:
  assumes "0 \<le> a" "a \<le> b"
  shows "round_mag a \<le> round_mag b"
proof (cases "ulp_expo a = ulp_expo b")
  case True
  then show ?thesis
    using assms round_even_mono[of "a / pow2 (ulp_expo b)" "b / pow2 (ulp_expo b)"]
    by (simp add: round_mag_def Let_def divide_right_mono less_imp_le)
next
  case False
  then have less: "ulp_expo a < ulp_expo b" using ulp_expo_mono[OF assms] by simp
  then have b: "0 < b" using assms ulp_expo_ge[of a] by (auto simp: ulp_expo_def split: if_splits)
  have eb: "ulp_expo b = expo b - 23" "-126 < expo b"
    using less b ulp_expo_ge[of a] by (auto simp: ulp_expo_def max_def split: if_splits)
  have "a \<le> of_int 1 * pow2 (expo b)"
  proof (cases "a = 0")
    case False
    then have "expo a < expo b" "0 < a" using less eb assms by (auto simp: ulp_expo_def)
    then show ?thesis using expo_bounds(2)[of a] pow2_mono[of "expo a + 1" "expo b"] by simp
  qed (simp add: less_imp_le)
  then have "round_mag a \<le> of_int 1 * pow2 (expo b)"
    using less eb by (intro round_mag_grid_le) auto
  also have "\<dots> \<le> round_mag b"
    using expo_bounds(1)[OF b] eb by (intro round_mag_grid_ge) auto
  finally show ?thesis .
qed

lemma round_mag_fixed:
  assumes "a = of_int k * pow2 j" "0 \<le> k" "k < 2 ^ 24" "-149 \<le> j"
  shows "round_mag a = a"
proof (cases "k = 0")
  case False
  then have a: "0 < a" using assms by simp
  have "of_int k < (of_int (2 ^ 24) :: rat)" using assms(3) by (simp only: of_int_less_iff)
  then have "of_int k * pow2 j < pow2 24 * pow2 j" by (intro mult_strict_right_mono) simp_all
  then have "a < pow2 (24 + j)" unfolding assms(1) pow2_add .
  then have "expo a < 24 + j" using a by (rule expo_less[rotated])
  then have "ulp_expo a \<le> j" using a assms(4) by (simp add: ulp_expo_def)
  then show ?thesis
    using round_mag_grid_le[of a k j] round_mag_grid_ge[of k j a] assms(1) by (simp add: antisym)
qed (simp add: assms round_mag_def round_even_def)


lemma round_mag_representable:
  assumes "0 \<le> a"
  obtains k j where "round_mag a = of_int k * pow2 j" "0 \<le> k" "k < 2 ^ 24" "-149 \<le> j"
proof -
  define n where "n = round_even (a / pow2 (ulp_expo a))"
  have r: "round_mag a = of_int n * pow2 (ulp_expo a)" by (simp add: round_mag_def n_def Let_def)
  have n0: "0 \<le> n" using assms unfolding n_def by (intro round_even_ge) (simp add: less_imp_le)
  have "a \<le> pow2 (ulp_expo a + 24)"
    using ulp_expo_bounds[of a] assms by (cases "a = 0") (auto simp: less_imp_le)
  then have "a / pow2 (ulp_expo a) \<le> of_int (2 ^ 24)"
    by (simp add: pow2_add divide_le_eq mult.commute)
  then have n1: "n \<le> 2 ^ 24" unfolding n_def by (rule round_even_le)
  show ?thesis
  proof (cases "n = 2 ^ 24")
    case True
    then have "round_mag a = of_int 1 * pow2 (24 + ulp_expo a)" using r by (simp add: pow2_add)
    moreover have "-149 \<le> 24 + ulp_expo a" using ulp_expo_ge[of a] by linarith
    ultimately show ?thesis using that[of 1 "24 + ulp_expo a"] by simp
  next
    case False
    then show ?thesis using that[OF r n0 _ ulp_expo_ge] n1 by simp
  qed
qed

lemma round_val_neg: "round_val (- q) = - round_val q"
  by (cases "q = 0") (auto simp: round_val_def round_mag_def round_even_def)

lemma round_val_mono:
  assumes "p \<le> q"
  shows "round_val p \<le> round_val q"
proof -
  consider "0 \<le> p" | "p < 0" "0 \<le> q" | "q < 0" using assms by linarith
  then show ?thesis
  proof cases
    case 1 then show ?thesis using assms round_mag_mono[of p q] by (simp add: round_val_def)
  next
    case 2 then show ?thesis using round_mag_nonneg[of q] round_mag_nonneg[of "- p"] by (simp add: round_val_def)
  next
    case 3 then show ?thesis using assms round_mag_mono[of "- q" "- p"] by (simp add: round_val_def)
  qed
qed

lemma representableI:
  "q = of_int k * pow2 j \<Longrightarrow> \<bar>k\<bar> < 2 ^ 24 \<Longrightarrow> -149 \<le> j \<Longrightarrow> \<bar>q\<bar> < pow2 128 \<Longrightarrow> representable q"
  unfolding representable_def by blast

lemma representable_neg: "representable q \<Longrightarrow> representable (- q)"
proof -
  assume "representable q"
  then obtain k j where "q = of_int k * pow2 j" "\<bar>k\<bar> < 2 ^ 24" "-149 \<le> j" "\<bar>q\<bar> < pow2 128"
    unfolding representable_def by blast
  then show ?thesis by (intro representableI[of _ "- k" j]) simp_all
qed

lemma representable_uminus [simp]: "representable (- q) \<longleftrightarrow> representable q"
  using representable_neg[of q] representable_neg[of "- q"] by auto

lemma round_val_fixed:
  assumes "representable q"
  shows "round_val q = q"
proof -
  have "representable q \<Longrightarrow> 0 \<le> q \<Longrightarrow> round_val q = q" for q
  proof -
    assume "representable q" "0 \<le> q"
    then obtain k j where "q = of_int k * pow2 j" "\<bar>k\<bar> < 2 ^ 24" "-149 \<le> j"
      unfolding representable_def by blast
    moreover from this \<open>0 \<le> q\<close> have "0 \<le> k"
      by (metis of_int_0_le_iff pow2_pos zero_le_mult_iff linorder_not_le)
    ultimately show "round_val q = q"
      using round_mag_fixed[of q k j] \<open>0 \<le> q\<close> by (simp add: round_val_def)
  qed
  from this[of q] this[of "- q"] assms show ?thesis
    by (cases "0 \<le> q") (auto simp: round_val_neg)
qed

lemma round_val_representable:
  assumes "\<bar>round_val q\<bar> < pow2 128"
  shows "representable (round_val q)"
proof (cases "0 \<le> q")
  case True
  obtain k j where "round_mag q = of_int k * pow2 j" "0 \<le> k" "k < 2 ^ 24" "-149 \<le> j"
    using round_mag_representable[OF True] by metis
  then show ?thesis using True assms by (intro representableI[of _ k j]) (simp_all add: round_val_def)
next
  case False
  then obtain k j where "round_mag (- q) = of_int k * pow2 j" "0 \<le> k" "k < 2 ^ 24" "-149 \<le> j"
    using round_mag_representable[of "- q"] by (metis linorder_not_le neg_0_le_iff_le less_imp_le)
  then have "representable (round_mag (- q))"
    using False assms by (intro representableI[of _ k j]) (simp_all add: round_val_def)
  then show ?thesis using False by (simp add: round_val_def)
qed

lemma representable_int:
  assumes "\<bar>k\<bar> < 2 ^ 24"
  shows "representable (of_int k)"
proof -
  have "\<bar>of_int k :: rat\<bar> < of_int (2 ^ 24)" using assms by (metis of_int_abs of_int_less_iff)
  then have "\<bar>of_int k :: rat\<bar> < pow2 128" by simp
  then show ?thesis using assms unfolding representable_def by (intro conjI exI[of _ k] exI[of _ 0]) simp_all
qed

lemma representable_scaled:
  "\<bar>k\<bar> < 2 ^ 24 \<Longrightarrow> -149 \<le> j \<Longrightarrow> j \<le> 104 \<Longrightarrow> representable (of_int k * pow2 j)"
proof -
  assume a: "\<bar>k\<bar> < 2 ^ 24" "-149 \<le> j" "j \<le> 104"
  have "\<bar>of_int k :: rat\<bar> < of_int (2 ^ 24)" using a(1) by (metis of_int_abs of_int_less_iff)
  then have "\<bar>of_int k :: rat\<bar> < pow2 24" by simp
  then have "\<bar>of_int k * pow2 j\<bar> < pow2 24 * pow2 j" by (simp add: abs_mult)
  also have "\<dots> \<le> pow2 128" using a(3) pow2_mono[of "24 + j" 128] by (simp only: pow2_add[symmetric])
  finally show ?thesis using a unfolding representable_def by blast
qed

section \<open>Values and operations\<close>

datatype f32 = F32_NaN | F32_PInf | F32_NInf | F32 rat

definition round32 :: "rat \<Rightarrow> f32" where
  "round32 q = (let r = round_val q in
     if pow2 128 \<le> r then F32_PInf else if r \<le> - pow2 128 then F32_NInf else F32 r)"

fun f32_neg :: "f32 \<Rightarrow> f32" where
  "f32_neg F32_NaN = F32_NaN"
| "f32_neg F32_PInf = F32_NInf"
| "f32_neg F32_NInf = F32_PInf"
| "f32_neg (F32 q) = F32 (- q)"

fun f32_add :: "f32 \<Rightarrow> f32 \<Rightarrow> f32" where
  "f32_add (F32 p) (F32 q) = round32 (p + q)"
| "f32_add F32_NaN y = F32_NaN"
| "f32_add x F32_NaN = F32_NaN"
| "f32_add F32_PInf F32_NInf = F32_NaN"
| "f32_add F32_NInf F32_PInf = F32_NaN"
| "f32_add F32_PInf y = F32_PInf"
| "f32_add F32_NInf y = F32_NInf"
| "f32_add x y = y"

definition f32_sub :: "f32 \<Rightarrow> f32 \<Rightarrow> f32" where
  "f32_sub x y = f32_add x (f32_neg y)"

text \<open>An infinite result with a given sign, NaN for sign zero (the invalid operations).\<close>

definition f32_signed_inf :: "rat \<Rightarrow> f32" where
  "f32_signed_inf s = (if 0 < s then F32_PInf else if s < 0 then F32_NInf else F32_NaN)"

fun f32_sign :: "f32 \<Rightarrow> rat" where
  "f32_sign F32_NaN = 0"
| "f32_sign F32_PInf = 1"
| "f32_sign F32_NInf = -1"
| "f32_sign (F32 q) = sgn q"

fun f32_mul :: "f32 \<Rightarrow> f32 \<Rightarrow> f32" where
  "f32_mul (F32 p) (F32 q) = round32 (p * q)"
| "f32_mul x y = f32_signed_inf (f32_sign x * f32_sign y)"

fun f32_div :: "f32 \<Rightarrow> f32 \<Rightarrow> f32" where
  "f32_div (F32 p) (F32 q) = (if q = 0 then f32_signed_inf (sgn p) else round32 (p / q))"
| "f32_div F32_NaN y = F32_NaN"
| "f32_div (F32 p) F32_NaN = F32_NaN"
| "f32_div (F32 p) y = F32 0"
| "f32_div x (F32 q) = (if q = 0 then x else f32_signed_inf (f32_sign x * sgn q))"
| "f32_div x y = F32_NaN"

fun f32_less :: "f32 \<Rightarrow> f32 \<Rightarrow> bool" where
  "f32_less (F32 p) (F32 q) = (p < q)"
| "f32_less F32_NInf (F32 q) = True"
| "f32_less F32_NInf F32_PInf = True"
| "f32_less (F32 p) F32_PInf = True"
| "f32_less x y = False"

fun f32_le :: "f32 \<Rightarrow> f32 \<Rightarrow> bool" where
  "f32_le F32_NaN y = False"
| "f32_le x F32_NaN = False"
| "f32_le x y = (\<not> f32_less y x)"

text \<open>The square root: the integer root of the scaled argument, rounded by comparing with the
  midpoint of the next representable number.\<close>

function int_sqrt :: "int \<Rightarrow> int" where
  "int_sqrt n = (if n \<le> 0 then 0 else
     let r = 2 * int_sqrt (n div 4) in if (r + 1) * (r + 1) \<le> n then r + 1 else r)"
  by pat_completeness auto
termination by (relation "measure nat") auto

declare int_sqrt.simps [simp del]

definition sqrt_mag :: "rat \<Rightarrow> rat" where
  "sqrt_mag a = (let u = pow2 (expo a div 2 - 23); y = a / (u * u);
                     n = int_sqrt \<lfloor>y\<rfloor>; m = of_int n + 1 / 2
                 in of_int (if y < m * m \<or> (y = m * m \<and> even n) then n else n + 1) * u)"

fun f32_sqrt :: "f32 \<Rightarrow> f32" where
  "f32_sqrt (F32 q) = (if q < 0 then F32_NaN else if q = 0 then F32 0 else F32 (sqrt_mag q))"
| "f32_sqrt F32_PInf = F32_PInf"
| "f32_sqrt x = F32_NaN"

text \<open>Conversion from unsigned and signed integers, and to an integer by truncation (for a value in the range of
  the target, where the conversion is defined).\<close>

definition f32_of_nat :: "nat \<Rightarrow> f32" where
  "f32_of_nat n = round32 (of_nat n)"

definition f32_of_int :: "int \<Rightarrow> f32" where
  "f32_of_int z = round32 (of_int z)"

fun f32_trunc :: "f32 \<Rightarrow> int" where
  "f32_trunc (F32 q) = (if 0 \<le> q then \<lfloor>q\<rfloor> else \<lceil>q\<rceil>)"
| "f32_trunc x = 0"


section \<open>Bounds of computed values\<close>

lemma representable_code [code]: "representable q \<longleftrightarrow> round_val q = q \<and> \<bar>q\<bar> < pow2 128"
  using round_val_fixed[of q] round_val_representable[of q] by (auto simp: representable_def)

lemma representable_pow2: "-149 \<le> j \<Longrightarrow> j < 128 \<Longrightarrow> representable (pow2 j)"
  using pow2_less_iff[of j 128] by (intro representableI[of _ 1 j]) (simp_all del: pow2_less_iff)

lemma representable_zero [simp]: "representable 0"
  using representable_int[of 0] by simp

lemma representable_numeral [simp]: "(numeral n :: int) < 2 ^ 24 \<Longrightarrow> representable (numeral n)"
  using representable_int[of "numeral n"] by simp

lemma representable_one [simp]: "representable 1"
  using representable_int[of 1] by simp

lemma round32_fixed: "representable q \<Longrightarrow> round32 q = F32 q"
  by (auto simp: round32_def Let_def round_val_fixed representable_def abs_less_iff not_le)

text \<open>A finite value between two rational bounds.\<close>

fun f32_within :: "rat \<Rightarrow> rat \<Rightarrow> f32 \<Rightarrow> bool" where
  "f32_within lo hi (F32 q) \<longleftrightarrow> representable q \<and> lo \<le> q \<and> q \<le> hi"
| "f32_within lo hi x \<longleftrightarrow> False"

lemma f32_withinE:
  assumes "f32_within lo hi x"
  obtains q where "x = F32 q" "representable q" "lo \<le> q" "q \<le> hi"
  using assms by (cases x) auto

lemma f32_within_weaken: "f32_within lo hi x \<Longrightarrow> lo' \<le> lo \<Longrightarrow> hi \<le> hi' \<Longrightarrow> f32_within lo' hi' x"
  by (cases x) auto

lemma round32_within:
  assumes "lo \<le> q" "q \<le> hi" "representable lo" "representable hi"
  shows "f32_within lo hi (round32 q)"
proof -
  have b: "lo \<le> round_val q" "round_val q \<le> hi"
    using assms round_val_mono[of lo q] round_val_mono[of q hi] by (simp_all add: round_val_fixed)
  moreover have m: "\<bar>lo\<bar> < pow2 128" "\<bar>hi\<bar> < pow2 128" using assms(3,4) by (simp_all add: representable_def)
  ultimately have "\<bar>round_val q\<bar> < pow2 128" by linarith
  then show ?thesis
    using b round_val_representable[of q] by (auto simp: round32_def Let_def abs_less_iff not_le)
qed

lemma f32_add_within:
  assumes "f32_within a b x" "f32_within c d y" "lo \<le> a + c" "b + d \<le> hi" "representable lo" "representable hi"
  shows "f32_within lo hi (f32_add x y)"
  using assms by (auto elim!: f32_withinE intro!: round32_within)

lemma f32_neg_within: "f32_within c d y \<Longrightarrow> f32_within (- d) (- c) (f32_neg y)"
  by (cases y) auto

lemma f32_sub_within:
  assumes "f32_within a b x" "f32_within c d y" "lo \<le> a - d" "b - c \<le> hi" "representable lo" "representable hi"
  shows "f32_within lo hi (f32_sub x y)"
  unfolding f32_sub_def using assms by (intro f32_add_within[OF assms(1) f32_neg_within[OF assms(2)]]) auto

lemma f32_mul_within:
  assumes "f32_within 0 b x" "f32_within 0 d y" "b * d \<le> hi" "representable hi"
  shows "f32_within 0 hi (f32_mul x y)"
proof -
  from assms obtain p q where "x = F32 p" "y = F32 q" "0 \<le> p" "p \<le> b" "0 \<le> q" "q \<le> d"
    by (auto elim!: f32_withinE)
  moreover from this have "p * q \<le> hi" using mult_mono[of p b q d] assms(3) by linarith
  ultimately show ?thesis using assms(4) by (simp add: round32_within)
qed

lemma f32_div_within:
  assumes "f32_within 0 b x" "f32_within c d y" "0 < c" "b / c \<le> hi" "representable hi"
  shows "f32_within 0 hi (f32_div x y)"
proof -
  from assms obtain p q where "x = F32 p" "y = F32 q" "0 \<le> p" "p \<le> b" "c \<le> q"
    by (auto elim!: f32_withinE)
  moreover from this have "p / q \<le> hi" using frac_le[of b p c q] assms(3,4) by linarith
  ultimately show ?thesis using assms(3,5) by (simp add: round32_within)
qed

lemma f32_of_nat_within:
  "of_nat n \<le> hi \<Longrightarrow> representable hi \<Longrightarrow> f32_within 0 hi (f32_of_nat n)"
  unfolding f32_of_nat_def by (intro round32_within) simp_all

lemma f32_of_nat_exact: "n < 2 ^ 24 \<Longrightarrow> f32_of_nat n = F32 (of_nat n)"
  using representable_int[of "int n"] by (simp add: f32_of_nat_def round32_fixed)

text \<open>The integer square root, and the bounds of the rounded one.\<close>

lemma int_sqrt_bounds:
  "0 \<le> n \<Longrightarrow> 0 \<le> int_sqrt n \<and> int_sqrt n * int_sqrt n \<le> n \<and> n < (int_sqrt n + 1) * (int_sqrt n + 1)"
proof (induction n rule: int_sqrt.induct)
  case (1 n)
  show ?case
  proof (cases "n \<le> 0")
    case False
    define r where "r = int_sqrt (n div 4)"
    have ih: "0 \<le> r" "r * r \<le> n div 4" "n div 4 < (r + 1) * (r + 1)" using 1(1)[OF False] False r_def by auto
    then have "4 * (r * r) \<le> n" "n < 4 * ((r + 1) * (r + 1))" by linarith+
    then have "(2 * r) * (2 * r) \<le> n" "n < (2 * r + 2) * (2 * r + 2)" by (simp_all add: algebra_simps)
    moreover have "int_sqrt n = (if (2 * r + 1) * (2 * r + 1) \<le> n then 2 * r + 1 else 2 * r)"
      using False by (subst int_sqrt.simps) (simp add: r_def Let_def)
    ultimately show ?thesis using ih(1) by (auto simp: algebra_simps)
  qed (use 1 in \<open>simp add: int_sqrt.simps\<close>)
qed

lemma sqrt_mag_shape:
  assumes "0 < a"
  obtains m where "sqrt_mag a = of_int m * pow2 (expo a div 2 - 23)" "0 < m" "m \<le> 2 ^ 24"
    "(of_int m - 1 / 2) ^ 2 \<le> a / pow2 (expo a div 2 - 23) ^ 2"
    "a / pow2 (expo a div 2 - 23) ^ 2 \<le> (of_int m + 1 / 2) ^ 2"
proof -
  define u y where "u = pow2 (expo a div 2 - 23)" and "y = a / (u * u)"
  define n where "n = int_sqrt \<lfloor>y\<rfloor>"
  have u: "0 < u" by (simp add: u_def)
  have uu: "u * u = pow2 (2 * (expo a div 2) - 46)" by (simp add: u_def flip: pow2_add)
  have e: "2 * (expo a div 2) \<le> expo a" "expo a + 1 \<le> 2 * (expo a div 2) + 2" by linarith+
  have y46: "pow2 46 \<le> y"
  proof -
    have "pow2 46 * (u * u) \<le> a"
      using expo_bounds(1)[OF assms] pow2_mono[OF e(1)] unfolding uu pow2_add[symmetric] by simp
    then show ?thesis using u unfolding y_def by (simp add: le_divide_eq)
  qed
  have y48: "y < pow2 48"
  proof -
    have "a < pow2 48 * (u * u)"
      using expo_bounds(2)[OF assms] pow2_mono[OF e(2)] unfolding uu pow2_add[symmetric] by (simp add: add.commute)
    then show ?thesis using u unfolding y_def by (simp add: divide_less_eq)
  qed
  have fl: "0 \<le> \<lfloor>y\<rfloor>" using y46 by simp
  have n0: "0 \<le> n" and "n * n \<le> \<lfloor>y\<rfloor>" "\<lfloor>y\<rfloor> < (n + 1) * (n + 1)"
    using int_sqrt_bounds[OF fl] by (simp_all add: n_def)
  then have ny: "of_int (n * n) \<le> y" "y < of_int ((n + 1) * (n + 1))"
    by (metis le_floor_iff, metis floor_less_iff)
  have nmax: "n < 2 ^ 24"
  proof (rule ccontr)
    assume "\<not> n < 2 ^ 24"
    then have "2 ^ 24 * 2 ^ 24 \<le> n * n" by (intro mult_mono) simp_all
    then have "(of_int (2 ^ 24 * 2 ^ 24) :: rat) \<le> of_int (n * n)" by (simp only: of_int_le_iff)
    then show False using ny(1) y48 by simp
  qed
  have npos: "0 < n" using ny(2) y46 n0 by (cases "n = 0") auto
  define m where "m = (if y < (of_int n + 1 / 2) * (of_int n + 1 / 2)
     \<or> (y = (of_int n + 1 / 2) * (of_int n + 1 / 2) \<and> even n) then n else n + 1)"
  have "sqrt_mag a = of_int m * u"
    by (simp only: sqrt_mag_def Let_def m_def n_def y_def u_def)
  moreover have "(of_int m - 1 / 2) ^ 2 \<le> y" "y \<le> (of_int m + 1 / 2) ^ 2"
    using ny npos by (auto simp: m_def power2_eq_square algebra_simps split: if_splits)
  moreover have "0 < m" "m \<le> 2 ^ 24" using npos nmax by (auto simp: m_def)
  ultimately show ?thesis using that[of m] unfolding u_def y_def by (simp add: power2_eq_square)
qed

text \<open>The root of a representable number is representable and within half a place of the exact
  one.\<close>

lemma sqrt_mag_bounds:
  assumes "0 < a" "representable a"
  shows "representable (sqrt_mag a)" "0 < sqrt_mag a" "sqrt_mag a \<le> pow2 (expo a div 2 + 1)"
    "(sqrt_mag a - pow2 (expo a div 2 - 24)) ^ 2 \<le> a" "a \<le> (sqrt_mag a + pow2 (expo a div 2 - 24)) ^ 2"
proof -
  define u where "u = pow2 (expo a div 2 - 23)"
  obtain m where m: "sqrt_mag a = of_int m * u" "0 < m" "m \<le> 2 ^ 24"
    and near: "(of_int m - 1 / 2) ^ 2 \<le> a / u ^ 2" "a / u ^ 2 \<le> (of_int m + 1 / 2) ^ 2"
    using sqrt_mag_shape[OF assms(1)] unfolding u_def by metis
  have u: "0 < u" "u / 2 = pow2 (expo a div 2 - 24)"
    by (simp_all add: u_def pow2_diff)
  show "0 < sqrt_mag a" using m u by simp
  have "of_int m * u \<le> of_int (2 ^ 24) * u" using m(3) u by (intro mult_right_mono) (simp_all only: of_int_le_iff less_imp_le)
  also have "\<dots> = pow2 (expo a div 2 + 1)" unfolding u_def by (simp add: pow2_diff pow2_add)
  finally show le: "sqrt_mag a \<le> pow2 (expo a div 2 + 1)" using m(1) by simp
  have "(of_int m * u - u / 2) ^ 2 = (of_int m - 1 / 2) ^ 2 * u ^ 2"
    "(of_int m * u + u / 2) ^ 2 = (of_int m + 1 / 2) ^ 2 * u ^ 2"
    by (simp_all add: power2_eq_square algebra_simps)
  moreover have "(of_int m - 1 / 2) ^ 2 * u ^ 2 \<le> a" "a \<le> (of_int m + 1 / 2) ^ 2 * u ^ 2"
    using near u(1) by (simp_all only: le_divide_eq divide_le_eq zero_less_power if_True)
  ultimately show "(sqrt_mag a - pow2 (expo a div 2 - 24)) ^ 2 \<le> a" "a \<le> (sqrt_mag a + pow2 (expo a div 2 - 24)) ^ 2"
    unfolding m(1) u(2)[symmetric] by simp_all
  have e: "-149 \<le> expo a" "expo a < 128"
  proof -
    obtain k j where k: "a = of_int k * pow2 j" "-149 \<le> j" using assms(2) unfolding representable_def by blast
    then have "1 \<le> k" using assms(1) by (simp add: zero_less_mult_iff)
    then have "1 * pow2 (-149) \<le> a" unfolding k(1) using k(2) by (intro mult_mono pow2_mono) simp_all
    then have "pow2 (-149) < pow2 (expo a + 1)" using expo_bounds(2)[OF assms(1)] by simp
    then show "-149 \<le> expo a" unfolding pow2_less_iff by simp
    show "expo a < 128" using assms by (intro expo_less) (simp_all add: representable_def)
  qed
  show "representable (sqrt_mag a)"
  proof (cases "m = 2 ^ 24")
    case True
    then have "sqrt_mag a = pow2 (expo a div 2 + 1)" using m(1) by (simp add: u_def pow2_diff pow2_add)
    then show ?thesis using e by (simp add: representable_pow2)
  next
    case False
    then show ?thesis unfolding m(1) u_def using m e by (intro representable_scaled) auto
  qed
qed

lemma f32_sqrt_within:
  assumes "f32_within 0 b x" "b < pow2 (2 * k)" "k < 128"
  shows "f32_within 0 (pow2 k) (f32_sqrt x)"
proof -
  obtain a where a: "x = F32 a" "representable a" "0 \<le> a" "a \<le> b" using assms(1) by (rule f32_withinE)
  show ?thesis
  proof (cases "a = 0")
    case False
    then have "expo a < 2 * k" using a assms(2) by (intro expo_less) auto
    then have "pow2 (expo a div 2 + 1) \<le> pow2 k" by (intro pow2_mono) linarith
    then show ?thesis using a False sqrt_mag_bounds[of a] by simp
  qed (use a in \<open>simp add: less_imp_le\<close>)
qed


section \<open>Moving towards a value\<close>

lemma representable_grid:
  assumes "representable q"
  obtains k where "q = of_int k * pow2 (-149)"
proof -
  obtain k j where k: "q = of_int k * pow2 j" "-149 \<le> j" using assms unfolding representable_def by blast
  then have "q = of_int (k * 2 ^ nat (j + 149)) * pow2 (-149)"
    using divide_pow2_int[of "-149" j k] by (simp add: divide_eq_eq)
  then show ?thesis by (rule that)
qed

lemma representable_gap:
  assumes "representable p" "representable q" "p < q"
  shows "pow2 (-149) \<le> q - p"
proof -
  obtain k l where kl: "p = of_int k * pow2 (-149)" "q = of_int l * pow2 (-149)"
    using assms(1,2) representable_grid by metis
  then have "k < l" using assms(3) by (simp add: mult_less_cancel_right)
  then have "of_int 1 * pow2 (-149) \<le> of_int (l - k) * pow2 (-149)"
    by (intro mult_right_mono) (simp_all only: of_int_le_iff, simp_all)
  then show ?thesis unfolding kl by (simp add: algebra_simps)
qed

text \<open>The rounded distance to a larger number, divided by at least two, stays below the exact
  distance.\<close>

lemma rounded_share_le:
  assumes "representable p" "representable q" "p \<le> q" "q - p < pow2 127" "2 \<le> n"
  shows "f32_within 0 (q - p) (f32_div (round32 (q - p)) (F32 n))"
proof (cases "p = q")
  case False
  define d where "d = q - p"
  have d: "0 < d" "pow2 (-149) \<le> d" "d < pow2 127"
    using False assms representable_gap[OF assms(1,2)] by (auto simp: d_def)
  have e: "-149 \<le> expo d" "expo d < 127"
    using d expo_less[of d 127] expo_bounds(2)[of d] by (simp_all, metis le_less_trans pow2_less_iff zle_add1_eq_le)
  have "f32_within 0 (pow2 (expo d + 1)) (round32 d)"
    using d(1) e expo_bounds(2)[OF d(1)] by (intro round32_within) (simp_all add: representable_pow2 less_imp_le)
  then obtain w where w: "round32 d = F32 w" "0 \<le> w" "w \<le> pow2 (expo d + 1)" by (rule f32_withinE)
  have "w / n \<le> pow2 (expo d + 1) / 2" using w assms(5) by (intro frac_le) simp_all
  then have "f32_within 0 (pow2 (expo d)) (round32 (w / n))"
    using w e assms(5) by (intro round32_within) (simp_all add: representable_pow2 pow2_add)
  then have "f32_within 0 d (round32 (w / n))"
    by (rule f32_within_weaken) (use d expo_bounds(1)[OF d(1)] in auto)
  then show ?thesis using w assms(5) by (simp add: d_def)
qed (use assms in \<open>simp add: round32_fixed\<close>)

lemma round32_neg: "round32 (- q) = f32_neg (round32 q)"
proof -
  have "(0::rat) < pow2 128" by (rule pow2_pos)
  then show ?thesis by (auto simp: round32_def Let_def round_val_neg)
qed

lemma f32_div_neg: "f32_div (f32_neg (F32 w)) (F32 n) = f32_neg (f32_div (F32 w) (F32 n))"
  by (auto simp: f32_signed_inf_def round32_neg sgn_if)

text \<open>The update of a running mean moves it towards the new observation and never past it.\<close>

lemma running_mean_up:
  assumes "representable m" "representable v" "m \<le> v" "v - m < pow2 127" "2 \<le> n"
  shows "f32_within m v (f32_add (F32 m) (f32_div (f32_sub (F32 v) (F32 m)) (F32 n)))"
proof -
  have "f32_within 0 (v - m) (f32_div (f32_sub (F32 v) (F32 m)) (F32 n))"
    using rounded_share_le[OF assms] by (simp add: f32_sub_def)
  then show ?thesis
    using assms by (intro f32_add_within[of m m _ 0 "v - m"]) simp_all
qed

lemma running_mean_down:
  assumes "representable m" "representable v" "v \<le> m" "m - v < pow2 127" "2 \<le> n"
  shows "f32_within v m (f32_add (F32 m) (f32_div (f32_sub (F32 v) (F32 m)) (F32 n)))"
proof -
  have sub: "f32_sub (F32 v) (F32 m) = f32_neg (round32 (m - v))"
    using round32_neg[of "m - v"] by (simp add: f32_sub_def)
  have share: "f32_within 0 (m - v) (f32_div (round32 (m - v)) (F32 n))"
    using rounded_share_le[OF assms(2,1,3,4,5)] .
  then obtain w where w: "round32 (m - v) = F32 w"
    using assms(5) by (cases "round32 (m - v)") (auto simp: f32_signed_inf_def sgn_if split: if_splits)
  have "f32_within (- (m - v)) (- 0) (f32_neg (f32_div (round32 (m - v)) (F32 n)))"
    using share by (rule f32_neg_within)
  then have "f32_within (- (m - v)) 0 (f32_div (f32_sub (F32 v) (F32 m)) (F32 n))"
    unfolding sub w f32_div_neg by simp
  then show ?thesis
    using assms by (intro f32_add_within[of m m _ "- (m - v)" 0]) simp_all
qed


section \<open>Magnitude bounds and conversion to integers\<close>

abbreviation f32_bounded :: "rat \<Rightarrow> f32 \<Rightarrow> bool" where
  "f32_bounded b x \<equiv> f32_within (- b) b x"

lemma f32_add_bounded:
  "f32_bounded a x \<Longrightarrow> f32_bounded b y \<Longrightarrow> a + b \<le> c \<Longrightarrow> representable c \<Longrightarrow> f32_bounded c (f32_add x y)"
  by (rule f32_add_within[of "- a" a x "- b" b y]) simp_all

lemma f32_sub_bounded:
  "f32_bounded a x \<Longrightarrow> f32_bounded b y \<Longrightarrow> a + b \<le> c \<Longrightarrow> representable c \<Longrightarrow> f32_bounded c (f32_sub x y)"
  by (rule f32_sub_within[of "- a" a x "- b" b y]) simp_all

lemma f32_mul_bounded:
  assumes "f32_bounded a x" "f32_bounded b y" "a * b \<le> c" "representable c"
  shows "f32_bounded c (f32_mul x y)"
proof -
  from assms(1,2) obtain p q where pq: "x = F32 p" "y = F32 q" "\<bar>p\<bar> \<le> a" "\<bar>q\<bar> \<le> b"
    by (auto elim!: f32_withinE simp: abs_le_iff)
  then have "\<bar>p * q\<bar> \<le> a * b" unfolding abs_mult by (intro mult_mono) simp_all
  then have "\<bar>p * q\<bar> \<le> c" using assms(3) by linarith
  then show ?thesis using pq(1,2) assms(4) by (simp add: round32_within abs_le_iff)
qed

lemma f32_of_int_bounded: "of_int \<bar>z\<bar> \<le> b \<Longrightarrow> representable b \<Longrightarrow> f32_bounded b (f32_of_int z)"
  unfolding f32_of_int_def by (intro round32_within) (simp_all add: abs_le_iff)

lemma f32_square_within:
  assumes "f32_bounded a x" "a * a \<le> c" "representable c"
  shows "f32_within 0 c (f32_mul x x)"
proof -
  from assms(1) obtain p where p: "x = F32 p" "\<bar>p\<bar> \<le> a" by (auto elim!: f32_withinE simp: abs_le_iff)
  have "p * p \<le> a * a" using p(2) mult_mono[of "\<bar>p\<bar>" a "\<bar>p\<bar>" a] by (simp flip: abs_mult)
  then show ?thesis using p assms(2,3) by (simp add: round32_within)
qed

text \<open>\<open>(uint16_t)(value + 0.5F)\<close> of a value up to an integer stays up to that integer.\<close>

lemma f32_half_up:
  assumes "f32_within 0 (of_nat k) v" "k < 2 ^ 22"
  shows "0 \<le> f32_trunc (f32_add v (F32 (1 / 2))) \<and> f32_trunc (f32_add v (F32 (1 / 2))) \<le> int k"
proof -
  have half: "representable (1 / 2)" using representable_scaled[of 1 "-1"] by simp
  have "of_int (2 * int k + 1) * pow2 (-1) = of_nat k + 1 / 2" by simp
  moreover have "representable (of_int (2 * int k + 1) * pow2 (-1))"
    using assms(2) by (intro representable_scaled) simp_all
  ultimately have k: "representable (of_nat k + 1 / 2)" by (simp only:)
  have "f32_within 0 (of_nat k + 1 / 2) (f32_add v (F32 (1 / 2)))"
    by (rule f32_add_within[OF assms(1), of "1 / 2" "1 / 2"]) (use half k in simp_all)
  then obtain q where q: "f32_add v (F32 (1 / 2)) = F32 q" "0 \<le> q" "q \<le> of_nat k + 1 / 2" by (rule f32_withinE)
  have "\<lfloor>q\<rfloor> \<le> \<lfloor>of_int (int k) + 1 / 2 :: rat\<rfloor>" using q(3) by (intro floor_mono) simp
  also have "\<dots> = int k" by (rule floor_unique) simp_all
  finally show ?thesis using q by simp
qed

end
