(* ===== verification/Guardian_Acquisition.thy ===== *)
theory Guardian_Acquisition
  imports Guardian_Telemetry Guardian_Float "HOL-Library.Signed_Division"
begin

text \<open>
  The portable acquisition processor of \<open>firmware/Acquisition/Src/guardian_acquisition.c\<close>:
  calibration, the conversion of one interleaved ADC block into engineering units and the
  calibrated vibration block for the DSP.  Local integer variables are mathematical integers
  whose C width is written out at each operation (\<open>u64\<close>, \<open>u32\<close>, \<open>i32\<close>, \<open>i64\<close> conversions), so a
  wrap-around of the source is a wrap-around here.  The lemmas show the integer square root
  exact and, for 12-bit codes, that no conversion wraps: the measurements are the engineering
  formulas over unbounded integers.
\<close>

section \<open>Types\<close>

abbreviation (input) GUARDIAN_ACQUISITION_ADC_MAX_CODE :: int where "GUARDIAN_ACQUISITION_ADC_MAX_CODE \<equiv> 4095"
abbreviation (input) GUARDIAN_ACQUISITION_FACTORY_VDDA_MV :: int where "GUARDIAN_ACQUISITION_FACTORY_VDDA_MV \<equiv> 3300"
abbreviation (input) GUARDIAN_ACQUISITION_CHANNEL_COUNT :: nat where "GUARDIAN_ACQUISITION_CHANNEL_COUNT \<equiv> 5"
abbreviation (input) GUARDIAN_ACQUISITION_FRAMES_PER_BLOCK :: nat where "GUARDIAN_ACQUISITION_FRAMES_PER_BLOCK \<equiv> 64"
abbreviation (input) GUARDIAN_ACQUISITION_CHANNEL_CURRENT :: nat where "GUARDIAN_ACQUISITION_CHANNEL_CURRENT \<equiv> 1"
abbreviation (input) GUARDIAN_ACQUISITION_CHANNEL_SUPPLY :: nat where "GUARDIAN_ACQUISITION_CHANNEL_SUPPLY \<equiv> 2"
abbreviation (input) GUARDIAN_ACQUISITION_CHANNEL_TEMPERATURE :: nat where "GUARDIAN_ACQUISITION_CHANNEL_TEMPERATURE \<equiv> 3"
abbreviation (input) GUARDIAN_ACQUISITION_CHANNEL_VREFINT :: nat where "GUARDIAN_ACQUISITION_CHANNEL_VREFINT \<equiv> 4"

abbreviation (input) GUARDIAN_ACQUISITION_STATUS_VALID :: u16 where "GUARDIAN_ACQUISITION_STATUS_VALID \<equiv> 0x0001"
abbreviation (input) GUARDIAN_ACQUISITION_STATUS_ADC_SATURATED :: u16 where "GUARDIAN_ACQUISITION_STATUS_ADC_SATURATED \<equiv> 0x0002"
abbreviation (input) GUARDIAN_ACQUISITION_STATUS_RPM_STALE :: u16 where "GUARDIAN_ACQUISITION_STATUS_RPM_STALE \<equiv> 0x0004"
abbreviation (input) GUARDIAN_ACQUISITION_STATUS_DMA_DROP :: u16 where "GUARDIAN_ACQUISITION_STATUS_DMA_DROP \<equiv> 0x0008"
abbreviation (input) GUARDIAN_ACQUISITION_STATUS_DEFAULT_CALIBRATION :: u16 where "GUARDIAN_ACQUISITION_STATUS_DEFAULT_CALIBRATION \<equiv> 0x0010"
abbreviation (input) GUARDIAN_ACQUISITION_STATUS_ADC_ERROR :: u16 where "GUARDIAN_ACQUISITION_STATUS_ADC_ERROR \<equiv> 0x0020"
abbreviation (input) GUARDIAN_ACQUISITION_STATUS_DMA_ERROR :: u16 where "GUARDIAN_ACQUISITION_STATUS_DMA_ERROR \<equiv> 0x0040"

datatype guardian_acquisition_result =
    GUARDIAN_ACQUISITION_OK | GUARDIAN_ACQUISITION_ERROR_NULL_ARGUMENT | GUARDIAN_ACQUISITION_ERROR_LENGTH
  | GUARDIAN_ACQUISITION_ERROR_CALIBRATION | GUARDIAN_ACQUISITION_ERROR_REFERENCE

record guardian_acquisition_calibration =
  cal_vrefint_cal_code :: u16
  cal_temperature_cal_30_code :: u16
  cal_temperature_cal_110_code :: u16
  cal_vibration_zero_code :: u16
  cal_vibration_mg_per_code_num :: u32
  cal_vibration_mg_per_code_den :: u32
  cal_current_zero_code :: u16
  cal_current_ma_per_code_num :: u32
  cal_current_ma_per_code_den :: u32
  cal_supply_divider_num :: u16
  cal_supply_divider_den :: u16
  cal_base_status_flags :: u16

record guardian_acquisition_aux =
  aux_rpm :: u16
  aux_rpm_valid :: u8
  aux_hardware_status_flags :: u16

record guardian_acquisition_signal_block =
  sb_sequence :: u32
  sb_sample_rate_hz :: u32
  sb_sample_count :: u16
  sb_vibration_mg :: "i16 list"
  sb_status_flags :: u16

record guardian_acquisition_stats_t =
  as_blocks_processed :: u32
  as_invalid_blocks :: u32
  as_saturated_blocks :: u32

record guardian_acquisition =
  aq_calibration :: guardian_acquisition_calibration
  aq_latest :: guardian_machine_measurements
  aq_next_block_sequence :: u32
  aq_stats :: guardian_acquisition_stats_t

definition zero_signal_block :: guardian_acquisition_signal_block where
  "zero_signal_block = \<lparr>sb_sequence = 0, sb_sample_rate_hz = 0, sb_sample_count = 0,
     sb_vibration_mg = replicate GUARDIAN_ACQUISITION_FRAMES_PER_BLOCK 0, sb_status_flags = 0\<rparr>"

definition zero_acquisition_stats :: guardian_acquisition_stats_t where
  "zero_acquisition_stats = \<lparr>as_blocks_processed = 0, as_invalid_blocks = 0, as_saturated_blocks = 0\<rparr>"

section \<open>C integer conversions\<close>

definition to_u64 :: "int \<Rightarrow> int" where "to_u64 x = x mod 2 ^ 64"
definition to_u32 :: "int \<Rightarrow> int" where "to_u32 x = x mod 2 ^ 32"
definition to_i64 :: "int \<Rightarrow> int" where "to_i64 x = (x + 2 ^ 63) mod 2 ^ 64 - 2 ^ 63"
definition to_i32 :: "int \<Rightarrow> int" where "to_i32 x = (x + 2 ^ 31) mod 2 ^ 32 - 2 ^ 31"

section \<open>Operations\<close>

definition guardian_acquisition_increment_u32 :: "u32 \<Rightarrow> u32" where
  "guardian_acquisition_increment_u32 v = (if v \<noteq> 0xFFFFFFFF then v + 1 else v)"

text \<open>The two loops of the digit-by-digit square root, over \<open>uint64_t\<close> variables (never negative).\<close>

function isqrt_skip :: "int \<Rightarrow> int \<Rightarrow> int" where
  "isqrt_skip b remainder =
     (if b > remainder \<and> 0 < b then isqrt_skip (b div 4) remainder else b)"
  by pat_completeness auto
termination by (relation "measure (\<lambda>(b, _). nat b)") auto

function isqrt_loop :: "int \<Rightarrow> int \<Rightarrow> int \<Rightarrow> int" where
  "isqrt_loop b remainder result =
     (if 0 < b
      then if remainder \<ge> to_u64 (result + b)
           then isqrt_loop (b div 4) (to_u64 (remainder - to_u64 (result + b))) (to_u64 (result div 2 + b))
           else isqrt_loop (b div 4) remainder (result div 2)
      else result)"
  by pat_completeness auto
termination by (relation "measure (\<lambda>(b, _, _). nat b)") auto

declare isqrt_skip.simps [simp del] isqrt_loop.simps [simp del]

definition guardian_acquisition_isqrt_u64 :: "int \<Rightarrow> int" where
  "guardian_acquisition_isqrt_u64 v =
     (let b = isqrt_skip (2 ^ 62) v; result = isqrt_loop b v 0
      in if result > 2 ^ 32 - 1 then 2 ^ 32 - 1 else result)"

definition guardian_acquisition_u16 :: "int \<Rightarrow> u16" where
  "guardian_acquisition_u16 v = (if v > 65535 then 65535 else word_of_int v)"

definition guardian_acquisition_i16 :: "int \<Rightarrow> i16" where
  "guardian_acquisition_i16 v = word_of_int (if v > 32767 then 32767 else if v < -32768 then -32768 else v)"

definition guardian_acquisition_normalize_code :: "int \<Rightarrow> int \<Rightarrow> int" where
  "guardian_acquisition_normalize_code code vdda_mv =
     (let s1 = to_u64 (code * vdda_mv);
          s2 = to_u64 (s1 + GUARDIAN_ACQUISITION_FACTORY_VDDA_MV div 2);
          scaled = s2 div GUARDIAN_ACQUISITION_FACTORY_VDDA_MV
      in if scaled > 2 ^ 32 - 1 then 2 ^ 32 - 1 else scaled)"

definition guardian_acquisition_vibration_sample_mg :: "int \<Rightarrow> guardian_acquisition_calibration \<Rightarrow> i16" where
  "guardian_acquisition_vibration_sample_mg normalized_delta cal =
     (let scaled = to_i64 (normalized_delta * uint (cal_vibration_mg_per_code_num cal));
          denominator = uint (cal_vibration_mg_per_code_den cal);
          rounded = (if scaled \<ge> 0 then to_i64 (scaled + denominator div 2) else to_i64 (scaled - denominator div 2))
      in guardian_acquisition_i16 (rounded sdiv denominator))"

definition guardian_acquisition_calibration_valid :: "guardian_acquisition_calibration ptr \<Rightarrow> bool" where
  "guardian_acquisition_calibration_valid calibration =
     (case calibration of
        None \<Rightarrow> False
      | Some c \<Rightarrow>
          if cal_vrefint_cal_code c = 0 then False
          else if cal_temperature_cal_30_code c = cal_temperature_cal_110_code c then False
          else if cal_vibration_mg_per_code_den c = 0 then False
          else if cal_current_ma_per_code_den c = 0 then False
          else if cal_supply_divider_den c = 0 then False
          else True)"

definition guardian_acquisition_init ::
  "guardian_acquisition ptr \<Rightarrow> guardian_acquisition_calibration ptr
     \<Rightarrow> guardian_acquisition_result \<times> guardian_acquisition ptr" where
  "guardian_acquisition_init acquisition calibration =
     (case (acquisition, calibration) of
        (Some _, Some c) \<Rightarrow>
          if \<not> guardian_acquisition_calibration_valid calibration
          then (GUARDIAN_ACQUISITION_ERROR_CALIBRATION, acquisition)
          else (GUARDIAN_ACQUISITION_OK,
                Some \<lparr>aq_calibration = c, aq_latest = zero_measurements, aq_next_block_sequence = 0,
                   aq_stats = zero_acquisition_stats\<rparr>)
      | _ \<Rightarrow> (GUARDIAN_ACQUISITION_ERROR_NULL_ARGUMENT, acquisition))"

text \<open>The first loop of a block: channel totals and rail detection.\<close>

definition sum_step :: "u16 list \<Rightarrow> nat \<Rightarrow> nat \<Rightarrow> int list \<times> bool \<Rightarrow> int list \<times> bool" where
  "sum_step samples frame_index channel_index acc =
     (case acc of (totals, saturated) \<Rightarrow>
        let sample = uint (samples ! (frame_index * GUARDIAN_ACQUISITION_CHANNEL_COUNT + channel_index))
        in (totals[channel_index := to_u64 (totals ! channel_index + sample)],
            if sample = 0 \<or> sample \<ge> GUARDIAN_ACQUISITION_ADC_MAX_CODE then True else saturated))"

definition channel_sums :: "u16 list \<Rightarrow> nat \<Rightarrow> int list \<times> bool" where
  "channel_sums samples frame_count =
     fold (\<lambda>frame_index. fold (sum_step samples frame_index) [0..<GUARDIAN_ACQUISITION_CHANNEL_COUNT])
       [0..<frame_count] (replicate GUARDIAN_ACQUISITION_CHANNEL_COUNT 0, False)"

text \<open>The rounded channel averages.\<close>

definition channel_average :: "nat \<Rightarrow> int \<Rightarrow> int" where
  "channel_average frame_count s =
     to_u32 (to_u64 (s + int frame_count div 2) div int frame_count)"

text \<open>The second loop: vibration samples and their square sum.\<close>

definition vibration_step ::
  "guardian_acquisition_calibration \<Rightarrow> u16 list \<Rightarrow> int \<Rightarrow> nat \<Rightarrow> i16 list \<times> int \<Rightarrow> i16 list \<times> int" where
  "vibration_step cal samples vdda_mv frame_index acc =
     (case acc of (vib, square_sum) \<Rightarrow>
        let raw = uint (samples ! (frame_index * GUARDIAN_ACQUISITION_CHANNEL_COUNT));
            normalized = guardian_acquisition_normalize_code raw vdda_mv;
            delta = to_i32 (to_i32 normalized - uint (cal_vibration_zero_code cal))
        in (vib[frame_index := guardian_acquisition_vibration_sample_mg delta cal],
            to_u64 (square_sum + to_u64 (delta * delta))))"

definition vibration_loop ::
  "guardian_acquisition_calibration \<Rightarrow> u16 list \<Rightarrow> int \<Rightarrow> nat \<Rightarrow> i16 list \<times> int" where
  "vibration_loop cal samples vdda_mv frame_count =
     fold (vibration_step cal samples vdda_mv) [0..<frame_count]
       (replicate GUARDIAN_ACQUISITION_FRAMES_PER_BLOCK 0, 0)"

text \<open>The measurements of a block whose averages are known.\<close>

definition block_measurements ::
  "guardian_acquisition_calibration \<Rightarrow> guardian_acquisition_aux \<Rightarrow> nat \<Rightarrow> int list \<Rightarrow> bool \<Rightarrow> int \<Rightarrow> int
     \<Rightarrow> guardian_machine_measurements" where
  "block_measurements cal aux frame_count average saturated vdda_mv square_sum =
     (let normalized_temperature_code =
            guardian_acquisition_normalize_code (average ! GUARDIAN_ACQUISITION_CHANNEL_TEMPERATURE) vdda_mv;
          temperature_span = uint (cal_temperature_cal_110_code cal) - uint (cal_temperature_cal_30_code cal);
          temperature_offset = to_i32 (to_i32 normalized_temperature_code - uint (cal_temperature_cal_30_code cal));
          temperature_centi_c = to_i64 (3000 + to_i64 (temperature_offset * 8000) sdiv temperature_span);
          vibration_rms_code = guardian_acquisition_isqrt_u64 (square_sum div int frame_count);
          vibration_mg = to_u64 (vibration_rms_code * uint (cal_vibration_mg_per_code_num cal))
            div uint (cal_vibration_mg_per_code_den cal);
          normalized_current_code =
            guardian_acquisition_normalize_code (average ! GUARDIAN_ACQUISITION_CHANNEL_CURRENT) vdda_mv;
          current_delta0 = to_i32 (to_i32 normalized_current_code - uint (cal_current_zero_code cal));
          current_delta = (if current_delta0 < 0 then 0 else current_delta0);
          current_ma = to_u64 (current_delta * uint (cal_current_ma_per_code_num cal))
            div uint (cal_current_ma_per_code_den cal);
          supply_mv0 = to_u64 (average ! GUARDIAN_ACQUISITION_CHANNEL_SUPPLY * vdda_mv)
            div GUARDIAN_ACQUISITION_ADC_MAX_CODE;
          supply_mv = to_u64 (supply_mv0 * uint (cal_supply_divider_num cal)) div uint (cal_supply_divider_den cal);
          f1 = (cal_base_status_flags cal OR aux_hardware_status_flags aux) OR GUARDIAN_ACQUISITION_STATUS_VALID;
          f2 = (if aux_rpm_valid aux = 0 then f1 OR GUARDIAN_ACQUISITION_STATUS_RPM_STALE else f1);
          f3 = (if saturated then f2 OR GUARDIAN_ACQUISITION_STATUS_ADC_SATURATED else f2)
      in \<lparr>mm_temperature_centi_c = guardian_acquisition_i16 temperature_centi_c,
          mm_vibration_mg_rms = guardian_acquisition_u16 vibration_mg,
          mm_current_ma = guardian_acquisition_u16 current_ma,
          mm_rpm = (if aux_rpm_valid aux \<noteq> 0 then aux_rpm aux else 0),
          mm_supply_mv = guardian_acquisition_u16 supply_mv,
          mm_status_flags = f3\<rparr>)"

definition reference_mv :: "guardian_acquisition_calibration \<Rightarrow> int list \<Rightarrow> int" where
  "reference_mv cal average =
     to_u32 (to_u64 (GUARDIAN_ACQUISITION_FACTORY_VDDA_MV * uint (cal_vrefint_cal_code cal)
         + average ! GUARDIAN_ACQUISITION_CHANNEL_VREFINT div 2)
       div (average ! GUARDIAN_ACQUISITION_CHANNEL_VREFINT))"

definition invalid_block :: "guardian_acquisition \<Rightarrow> guardian_acquisition" where
  "invalid_block a = a\<lparr>aq_stats := (aq_stats a)\<lparr>as_invalid_blocks :=
     guardian_acquisition_increment_u32 (as_invalid_blocks (aq_stats a))\<rparr>\<rparr>"

definition guardian_acquisition_process_block_ex ::
  "guardian_acquisition ptr \<Rightarrow> u16 list ptr \<Rightarrow> nat \<Rightarrow> guardian_acquisition_aux ptr \<Rightarrow> u32
     \<Rightarrow> guardian_acquisition_signal_block ptr
     \<Rightarrow> guardian_acquisition_result \<times> guardian_acquisition ptr \<times> guardian_acquisition_signal_block ptr" where
  "guardian_acquisition_process_block_ex acquisition samples sample_count aux sample_rate_hz signal_block =
     (case (acquisition, samples, aux) of
        (Some a, Some xs, Some ax) \<Rightarrow>
          let cal = aq_calibration a; frame_count = sample_count div GUARDIAN_ACQUISITION_CHANNEL_COUNT in
          if \<not> guardian_acquisition_calibration_valid (Some cal)
          then (GUARDIAN_ACQUISITION_ERROR_CALIBRATION, Some (invalid_block a), signal_block)
          else if sample_count = 0 \<or> sample_count mod GUARDIAN_ACQUISITION_CHANNEL_COUNT \<noteq> 0
          then (GUARDIAN_ACQUISITION_ERROR_LENGTH, Some (invalid_block a), signal_block)
          else if frame_count > GUARDIAN_ACQUISITION_FRAMES_PER_BLOCK
          then (GUARDIAN_ACQUISITION_ERROR_LENGTH, Some (invalid_block a), signal_block)
          else if signal_block \<noteq> None \<and> sample_rate_hz = 0
          then (GUARDIAN_ACQUISITION_ERROR_LENGTH, Some (invalid_block a), signal_block)
          else
            let cleared = map_option (\<lambda>_. zero_signal_block) signal_block;
                (totals, saturated) = channel_sums xs frame_count;
                average = map (channel_average frame_count) totals in
            if average ! GUARDIAN_ACQUISITION_CHANNEL_VREFINT = 0
            then (GUARDIAN_ACQUISITION_ERROR_REFERENCE, Some (invalid_block a), cleared)
            else
              let vdda_mv = reference_mv cal average;
                  (vib, square_sum) = vibration_loop cal xs vdda_mv frame_count;
                  m = block_measurements cal ax frame_count average saturated vdda_mv square_sum;
                  s1 = (if saturated then (aq_stats a)\<lparr>as_saturated_blocks :=
                      guardian_acquisition_increment_u32 (as_saturated_blocks (aq_stats a))\<rparr> else aq_stats a);
                  s2 = s1\<lparr>as_blocks_processed := guardian_acquisition_increment_u32 (as_blocks_processed s1)\<rparr>
              in (GUARDIAN_ACQUISITION_OK,
                  Some (a\<lparr>aq_latest := m, aq_next_block_sequence := aq_next_block_sequence a + 1, aq_stats := s2\<rparr>),
                  map_option (\<lambda>b. b\<lparr>sb_vibration_mg := vib, sb_sequence := aq_next_block_sequence a,
                    sb_sample_rate_hz := sample_rate_hz, sb_sample_count := of_nat frame_count,
                    sb_status_flags := mm_status_flags m\<rparr>) cleared)
      | _ \<Rightarrow> (GUARDIAN_ACQUISITION_ERROR_NULL_ARGUMENT, acquisition, signal_block))"

definition guardian_acquisition_process_block ::
  "guardian_acquisition ptr \<Rightarrow> u16 list ptr \<Rightarrow> nat \<Rightarrow> guardian_acquisition_aux ptr
     \<Rightarrow> guardian_acquisition_result \<times> guardian_acquisition ptr" where
  "guardian_acquisition_process_block acquisition samples sample_count aux =
     (case guardian_acquisition_process_block_ex acquisition samples sample_count aux 0 None of
        (r, a, _) \<Rightarrow> (r, a))"

definition guardian_acquisition_latest :: "guardian_acquisition ptr \<Rightarrow> guardian_machine_measurements" where
  "guardian_acquisition_latest acquisition =
     (case acquisition of None \<Rightarrow> zero_measurements | Some a \<Rightarrow> aq_latest a)"

definition guardian_acquisition_stats :: "guardian_acquisition ptr \<Rightarrow> guardian_acquisition_stats_t" where
  "guardian_acquisition_stats acquisition =
     (case acquisition of None \<Rightarrow> zero_acquisition_stats | Some a \<Rightarrow> aq_stats a)"


section \<open>The square root is exact\<close>

text \<open>At weight \<open>4\<^sup>k\<close> the loop has found the root \<open>s\<close> down to the bits above \<open>k\<close>: it keeps the
  remainder \<open>n - s\<^sup>2\<close> and the result scaled to \<open>s \<cdot> 2\<^sup>k\<^sup>+\<^sup>1\<close>.\<close>

lemma isqrt_loop_step:
  assumes "0 \<le> s" "s\<^sup>2 \<le> n" "n < 2 ^ 64" "s + 2 ^ Suc k \<le> 2 ^ 32"
  shows "isqrt_loop (4 ^ k) (n - s\<^sup>2) (s * 2 ^ Suc k) =
    (let t = (if (s + 2 ^ k)\<^sup>2 \<le> n then s + 2 ^ k else s) in isqrt_loop (4 ^ k div 4) (n - t\<^sup>2) (t * 2 ^ k))"
proof -
  have four: "(4::int) ^ k = 2 ^ k * 2 ^ k" by (simp add: power_mult_distrib[symmetric])
  have sq: "(s + 2 ^ k)\<^sup>2 = s\<^sup>2 + (s * 2 ^ Suc k + 4 ^ k)" by (simp add: four power2_eq_square algebra_simps)
  have "(s + 2 ^ k)\<^sup>2 < (2 ^ 32)\<^sup>2" 
  proof (intro power_strict_mono)
    have "(2::int) ^ Suc k = 2 * 2 ^ k" "(0::int) < 2 ^ k" by simp_all
    then show "s + 2 ^ k < 2 ^ 32" using assms(4) by linarith
  qed (use assms(1) in simp_all)
  moreover have "0 \<le> s * 2 ^ Suc k + 4 ^ k" using assms(1) by simp
  moreover have "(2 ^ 32 :: int)\<^sup>2 = 2 ^ 64" by simp
  ultimately have "0 \<le> s * 2 ^ Suc k + 4 ^ k" "s * 2 ^ Suc k + 4 ^ k < 2 ^ 64"
    using sq zero_le_power2[of s] by linarith+
  then have w: "to_u64 (s * 2 ^ Suc k + 4 ^ k) = s * 2 ^ Suc k + 4 ^ k"
    unfolding to_u64_def by (rule mod_pos_pos_trivial)
  have half: "s * 2 ^ Suc k div 2 = s * 2 ^ k" by simp
  have t: "s * 2 ^ k + 4 ^ k = (s + 2 ^ k) * 2 ^ k" by (simp add: four algebra_simps)
  have "(s + 2 ^ k) * 2 ^ k \<le> 2 ^ 32 * 2 ^ 31"
  proof (intro mult_mono)
    have "(2::int) ^ Suc k = 2 * 2 ^ k" "(0::int) < 2 ^ k" by simp_all
    then show "s + 2 ^ k \<le> 2 ^ 32" using assms(4) by linarith
    have "(2::int) ^ Suc k \<le> 2 ^ 32" using assms(1,4) by linarith
    then show "(2::int) ^ k \<le> 2 ^ 31" by simp
  qed (simp_all add: assms(1))
  then have v: "to_u64 (s * 2 ^ k + 4 ^ k) = (s + 2 ^ k) * 2 ^ k"
    unfolding t using assms(1) by (simp add: to_u64_def)
  have d: "to_u64 (n - s\<^sup>2 - (s * 2 ^ Suc k + 4 ^ k)) = n - (s + 2 ^ k)\<^sup>2" if "(s + 2 ^ k)\<^sup>2 \<le> n"
    using that assms(3) zero_le_power2[of "s + 2 ^ k"] unfolding sq to_u64_def
    by (intro trans[OF mod_pos_pos_trivial]) simp_all
  have c: "to_u64 (s * 2 ^ Suc k + 4 ^ k) \<le> n - s\<^sup>2 \<longleftrightarrow> (s + 2 ^ k)\<^sup>2 \<le> n" unfolding w sq by linarith
  have pos: "(0::int) < 4 ^ k" by simp
  show ?thesis
  proof (cases "(s + 2 ^ k)\<^sup>2 \<le> n")
    case True
    then show ?thesis
      by (subst isqrt_loop.simps) (simp only: pos c if_True half v Let_def, simp only: w d)
  next
    case False
    then show ?thesis
      by (subst isqrt_loop.simps) (simp only: pos c if_True if_False half Let_def)
  qed
qed

lemma isqrt_loop_exact:
  assumes "0 \<le> s" "s\<^sup>2 \<le> n" "n < (s + 2 ^ Suc k)\<^sup>2" "n < 2 ^ 64" "s + 2 ^ Suc k \<le> 2 ^ 32"
  shows "\<exists>r. isqrt_loop (4 ^ k) (n - s\<^sup>2) (s * 2 ^ Suc k) = r \<and> 0 \<le> r \<and> r\<^sup>2 \<le> n \<and> n < (r + 1)\<^sup>2 \<and> r < 2 ^ 32"
  using assms
proof (induction k arbitrary: s)
  case 0
  define t where "t = (if (s + 2 ^ 0)\<^sup>2 \<le> n then s + 2 ^ 0 else s)"
  have "isqrt_loop (4 ^ 0) (n - s\<^sup>2) (s * 2 ^ Suc 0) = isqrt_loop 0 (n - t\<^sup>2) t"
    using isqrt_loop_step[OF 0(1,2,4,5)] by (simp add: t_def Let_def)
  also have "\<dots> = t" by (simp add: isqrt_loop.simps)
  finally show ?case using 0 by (auto simp: t_def add.commute)
next
  case (Suc k)
  define t where "t = (if (s + 2 ^ Suc k)\<^sup>2 \<le> n then s + 2 ^ Suc k else s)"
  have "t + 2 ^ Suc k \<le> s + 2 ^ Suc (Suc k)" by (simp add: t_def)
  then have t: "0 \<le> t" "t\<^sup>2 \<le> n" "n < (t + 2 ^ Suc k)\<^sup>2" "t + 2 ^ Suc k \<le> 2 ^ 32"
    using Suc.prems by (auto simp: t_def add.assoc)
  have "isqrt_loop (4 ^ Suc k) (n - s\<^sup>2) (s * 2 ^ Suc (Suc k)) = isqrt_loop (4 ^ k) (n - t\<^sup>2) (t * 2 ^ Suc k)"
    using isqrt_loop_step[OF Suc.prems(1,2,4,5)] by (simp add: t_def Let_def)
  then show ?case using Suc.IH[OF t(1-3) Suc.prems(4) t(4)] by simp
qed

lemma isqrt_skip_exact:
  assumes "0 < n" "n < 4 * 4 ^ k"
  shows "\<exists>j\<le>k. isqrt_skip (4 ^ k) n = 4 ^ j \<and> n < 4 * 4 ^ j"
  using assms
proof (induction k)
  case 0
  then show ?case by (auto simp: isqrt_skip.simps)
next
  case (Suc k)
  show ?case
  proof (cases "4 ^ Suc k > n")
    case True
    then have "isqrt_skip (4 ^ Suc k) n = isqrt_skip (4 ^ k) n" by (subst isqrt_skip.simps) simp
    then show ?thesis using Suc True by (auto intro: le_SucI)
  next
    case False
    then show ?thesis using Suc.prems by (subst isqrt_skip.simps) auto
  qed
qed

lemma isqrt_skip_zero: "isqrt_skip (4 ^ k) 0 = 0"
  by (induction k) (subst isqrt_skip.simps; simp add: isqrt_skip.simps)+

lemma isqrt_loops_exact:
  assumes "0 \<le> n" "n < 2 ^ 64"
  shows "\<exists>r. isqrt_loop (isqrt_skip (2 ^ 62) n) n 0 = r \<and> 0 \<le> r \<and> r\<^sup>2 \<le> n \<and> n < (r + 1)\<^sup>2 \<and> r < 2 ^ 32"
proof (cases "n = 0")
  case True
  have "(2 ^ 62 :: int) = 4 ^ 31" by simp
  then show ?thesis using True by (simp add: isqrt_skip_zero[of 31, simplified] isqrt_loop.simps)
next
  case False
  have b: "(2 ^ 62 :: int) = 4 ^ 31" by simp
  obtain j where j: "j \<le> 31" "isqrt_skip (4 ^ 31) n = 4 ^ j" "n < 4 * 4 ^ j"
    using isqrt_skip_exact[of n 31] assms False by auto
  have sq: "4 * 4 ^ j = (0 + 2 ^ Suc j :: int)\<^sup>2"
    by (simp add: power2_eq_square power_mult_distrib[symmetric])
  have "(2::int) ^ Suc j \<le> 2 ^ 32" using j(1) by (intro power_increasing) auto
  then show ?thesis
    using isqrt_loop_exact[of 0 n j] assms j(2,3) unfolding sq b by auto
qed

lemma isqrt_exact:
  assumes "0 \<le> n" "n < 2 ^ 64"
  shows "0 \<le> guardian_acquisition_isqrt_u64 n" "(guardian_acquisition_isqrt_u64 n)\<^sup>2 \<le> n"
    "n < (guardian_acquisition_isqrt_u64 n + 1)\<^sup>2" "guardian_acquisition_isqrt_u64 n < 2 ^ 32"
proof -
  obtain r where r: "isqrt_loop (isqrt_skip (2 ^ 62) n) n 0 = r" "0 \<le> r" "r\<^sup>2 \<le> n" "n < (r + 1)\<^sup>2" "r < 2 ^ 32"
    using isqrt_loops_exact[OF assms] by blast
  then have "guardian_acquisition_isqrt_u64 n = r" by (simp add: guardian_acquisition_isqrt_u64_def Let_def)
  then show "0 \<le> guardian_acquisition_isqrt_u64 n" "(guardian_acquisition_isqrt_u64 n)\<^sup>2 \<le> n"
    "n < (guardian_acquisition_isqrt_u64 n + 1)\<^sup>2" "guardian_acquisition_isqrt_u64 n < 2 ^ 32" using r by simp_all
qed

lemma square_root_unique:
  fixes r s n :: int
  assumes "0 \<le> r" "r\<^sup>2 \<le> n" "n < (r + 1)\<^sup>2" "0 \<le> s" "s\<^sup>2 \<le> n" "n < (s + 1)\<^sup>2"
  shows "r = s"
proof -
  have "r\<^sup>2 < (s + 1)\<^sup>2" "s\<^sup>2 < (r + 1)\<^sup>2" using assms by linarith+
  then have "r < s + 1" "s < r + 1" using assms power2_less_imp_less[of r "s + 1"] power2_less_imp_less[of s "r + 1"] by linarith+
  then show ?thesis by simp
qed

lemma isqrt_is_int_sqrt: "0 \<le> n \<Longrightarrow> n < 2 ^ 64 \<Longrightarrow> guardian_acquisition_isqrt_u64 n = int_sqrt n"
  using int_sqrt_bounds[of n] isqrt_exact[of n] square_root_unique[of "guardian_acquisition_isqrt_u64 n" n "int_sqrt n"]
  by (simp add: power2_eq_square)


section \<open>The engineering formulas\<close>

text \<open>The reference computation over unbounded integers.\<close>

definition channel_total :: "u16 list \<Rightarrow> nat \<Rightarrow> nat \<Rightarrow> int" where
  "channel_total samples n ch = (\<Sum>f\<leftarrow>[0..<n]. uint (samples ! (f * 5 + ch)))"

definition mean_code :: "u16 list \<Rightarrow> nat \<Rightarrow> nat \<Rightarrow> int" where
  "mean_code samples n ch = (channel_total samples n ch + int n div 2) div int n"

definition supply_reference :: "guardian_acquisition_calibration \<Rightarrow> u16 list \<Rightarrow> nat \<Rightarrow> int" where
  "supply_reference cal samples n =
     (3300 * uint (cal_vrefint_cal_code cal) + mean_code samples n 4 div 2) div mean_code samples n 4"

definition compensated :: "int \<Rightarrow> int \<Rightarrow> int" where
  "compensated vdda code = (code * vdda + 1650) div 3300"

definition deflection :: "guardian_acquisition_calibration \<Rightarrow> u16 list \<Rightarrow> int \<Rightarrow> nat \<Rightarrow> int" where
  "deflection cal samples vdda f = compensated vdda (uint (samples ! (f * 5))) - uint (cal_vibration_zero_code cal)"

definition milli_g :: "guardian_acquisition_calibration \<Rightarrow> int \<Rightarrow> i16" where
  "milli_g cal d =
     (let x = d * uint (cal_vibration_mg_per_code_num cal); h = uint (cal_vibration_mg_per_code_den cal)
      in guardian_acquisition_i16 ((if 0 \<le> x then x + h div 2 else x - h div 2) sdiv h))"

definition engineering_measurements ::
  "guardian_acquisition_calibration \<Rightarrow> guardian_acquisition_aux \<Rightarrow> u16 list \<Rightarrow> nat \<Rightarrow> guardian_machine_measurements" where
  "engineering_measurements cal aux samples n =
     (let v = supply_reference cal samples n;
          span = uint (cal_temperature_cal_110_code cal) - uint (cal_temperature_cal_30_code cal);
          t = compensated v (mean_code samples n 3) - uint (cal_temperature_cal_30_code cal);
          rms = int_sqrt ((\<Sum>f\<leftarrow>[0..<n]. (deflection cal samples v f)\<^sup>2) div int n);
          i = max 0 (compensated v (mean_code samples n 1) - uint (cal_current_zero_code cal))
      in \<lparr>mm_temperature_centi_c = guardian_acquisition_i16 (3000 + (t * 8000) sdiv span),
          mm_vibration_mg_rms = guardian_acquisition_u16
            (rms * uint (cal_vibration_mg_per_code_num cal) div uint (cal_vibration_mg_per_code_den cal)),
          mm_current_ma = guardian_acquisition_u16
            (i * uint (cal_current_ma_per_code_num cal) div uint (cal_current_ma_per_code_den cal)),
          mm_rpm = (if aux_rpm_valid aux \<noteq> 0 then aux_rpm aux else 0),
          mm_supply_mv = guardian_acquisition_u16
            (mean_code samples n 2 * v div 4095 * uint (cal_supply_divider_num cal) div uint (cal_supply_divider_den cal)),
          mm_status_flags = cal_base_status_flags cal OR aux_hardware_status_flags aux OR GUARDIAN_ACQUISITION_STATUS_VALID
            OR (if aux_rpm_valid aux = 0 then GUARDIAN_ACQUISITION_STATUS_RPM_STALE else 0)
            OR (if list_ex (\<lambda>x. x = 0 \<or> 4095 \<le> x) (take (5 * n) samples)
                then GUARDIAN_ACQUISITION_STATUS_ADC_SATURATED else 0)\<rparr>)"

subsection \<open>Conversions that do not wrap\<close>

lemma to_u64_id: "0 \<le> x \<Longrightarrow> x < 18446744073709551616 \<Longrightarrow> to_u64 x = x"
  by (simp add: to_u64_def)

lemma to_u32_id: "0 \<le> x \<Longrightarrow> x < 4294967296 \<Longrightarrow> to_u32 x = x"
  by (simp add: to_u32_def)

lemma to_i32_id: "- 2147483648 \<le> x \<Longrightarrow> x < 2147483648 \<Longrightarrow> to_i32 x = x"
  unfolding to_i32_def by (subst mod_pos_pos_trivial) simp_all

lemma to_i64_id: "- 9223372036854775808 \<le> x \<Longrightarrow> x < 9223372036854775808 \<Longrightarrow> to_i64 x = x"
  unfolding to_i64_def by (subst mod_pos_pos_trivial) simp_all

lemma int_div_less: "0 < b \<Longrightarrow> a < k * b \<Longrightarrow> a div b < k" for a b k :: int
proof (rule ccontr)
  assume a: "0 < b" "a < k * b" "\<not> a div b < k"
  then have "k * b \<le> a div b * b" by (intro mult_right_mono) simp_all
  then show False using a minus_mod_eq_div_mult[of a b] pos_mod_sign[of b a] by linarith
qed

lemma uint_u16_bounds: "0 \<le> uint (x :: u16)" "uint x < 65536"
  using uint_lt2p[of x] by simp_all

lemma uint_u32_bounds: "0 \<le> uint (x :: u32)" "uint x < 4294967296"
  using uint_lt2p[of x] by simp_all

lemma sum_upt_bounds:
  "(\<And>f. f < n \<Longrightarrow> lo \<le> g f \<and> g f \<le> hi) \<Longrightarrow> lo * int n \<le> (\<Sum>f\<leftarrow>[0..<n]. g f) \<and> (\<Sum>f\<leftarrow>[0..<n]. g f) \<le> hi * int n"
proof (induction n)
  case (Suc n)
  have "lo * int n \<le> (\<Sum>f\<leftarrow>[0..<n]. g f) \<and> (\<Sum>f\<leftarrow>[0..<n]. g f) \<le> hi * int n" using Suc by simp
  then show ?case using Suc.prems[of n] by (simp add: algebra_simps)
qed simp

lemma channel_total_bounds:
  assumes "list_all (\<lambda>x. uint x \<le> 4095) samples" "5 * n \<le> length samples" "ch < 5"
  shows "0 \<le> channel_total samples n ch" "channel_total samples n ch \<le> 4095 * int n"
  using sum_upt_bounds[of n 0 "\<lambda>f. uint (samples ! (f * 5 + ch))" 4095] assms
  by (auto simp: channel_total_def list_all_length)

lemma channel_total_small: "0 \<le> channel_total samples n ch \<and> channel_total samples n ch \<le> 65535 * int n"
  using sum_upt_bounds[of n 0 "\<lambda>f. uint (samples ! (f * 5 + ch))" 65535] uint_u16_bounds
  by (auto simp: channel_total_def less_imp_le zless_imp_add1_zle[of _ 65536, simplified])

lemma upt_5: "[0..<5] = [0, 1, 2, 3, 4::nat]"
  by (simp add: upt_rec)

lemma channel_sums_total:
  "n \<le> 64 \<Longrightarrow> channel_sums samples n = (map (channel_total samples n) [0..<5],
     list_ex (\<lambda>f. list_ex (\<lambda>ch. let x = uint (samples ! (f * 5 + ch)) in x = 0 \<or> 4095 \<le> x) [0..<5]) [0..<n])"
proof (induction n)
  case 0
  then show ?case by (simp add: channel_sums_def channel_total_def upt_5 numeral_eq_Suc)
next
  case (Suc n)
  have "0 \<le> channel_total samples n ch + uint (samples ! (n * 5 + ch))"
    "channel_total samples n ch + uint (samples ! (n * 5 + ch)) < 18446744073709551616" for ch
    using channel_total_small[of samples n ch] Suc.prems uint_u16_bounds[of "samples ! (n * 5 + ch)"] by auto
  then have w: "to_u64 (channel_total samples n ch + uint (samples ! (n * 5 + ch))) = channel_total samples (Suc n) ch" for ch
    by (simp add: to_u64_id channel_total_def)
  have "channel_sums samples (Suc n) = fold (sum_step samples n) [0..<5] (channel_sums samples n)"
    by (simp add: channel_sums_def)
  also have "\<dots> = (map (channel_total samples (Suc n)) [0..<5],
     list_ex (\<lambda>f. list_ex (\<lambda>ch. let x = uint (samples ! (f * 5 + ch)) in x = 0 \<or> 4095 \<le> x) [0..<5]) [0..<Suc n])"
    using Suc w[of 0] w[of 1] w[of 2] w[of 3] w[of 4]
    by (auto simp: upt_5 sum_step_def Let_def)
  finally show ?case .
qed


text \<open>What an ADC block of 12-bit codes over \<open>n\<close> frames with a live reference channel is.\<close>

definition adc_block :: "u16 list \<Rightarrow> nat \<Rightarrow> bool" where
  "adc_block samples n \<longleftrightarrow> 0 < n \<and> n \<le> 64 \<and> length samples = 5 * n
     \<and> list_all (\<lambda>x. uint x \<le> 4095) samples \<and> mean_code samples n 4 \<noteq> 0"

lemma mean_code_bounds:
  assumes "adc_block samples n" "ch < 5"
  shows "0 \<le> mean_code samples n ch" "mean_code samples n ch \<le> 4095"
proof -
  have n: "0 < int n" and t: "0 \<le> channel_total samples n ch" "channel_total samples n ch \<le> 4095 * int n"
    using assms channel_total_bounds[of samples n ch] by (simp_all add: adc_block_def)
  then show "0 \<le> mean_code samples n ch" by (simp add: mean_code_def pos_imp_zdiv_nonneg_iff)
  have "channel_total samples n ch + int n div 2 < 4096 * int n" using n t by linarith
  then have "mean_code samples n ch < 4096"
    unfolding mean_code_def using n by (intro int_div_less)
  then show "mean_code samples n ch \<le> 4095" by simp
qed

lemma channel_averages:
  assumes "adc_block samples n"
  shows "map (channel_average n) (fst (channel_sums samples n)) = map (mean_code samples n) [0..<5]"
proof -
  have "channel_average n (channel_total samples n ch) = mean_code samples n ch" if "ch < 5" for ch
  proof -
    have b: "0 \<le> channel_total samples n ch" "channel_total samples n ch \<le> 4095 * int n" "0 < n" "n \<le> 64"
      using assms that channel_total_bounds[of samples n ch] by (simp_all add: adc_block_def)
    then have "to_u64 (channel_total samples n ch + int n div 2) = channel_total samples n ch + int n div 2"
      by (intro to_u64_id) linarith+
    then show ?thesis
      using mean_code_bounds[OF assms that] by (simp add: channel_average_def mean_code_def[symmetric] to_u32_id)
  qed
  then show ?thesis using assms by (simp add: channel_sums_total adc_block_def)
qed

lemma supply_reference_bounds:
  assumes "adc_block samples n"
  shows "0 \<le> supply_reference cal samples n" "supply_reference cal samples n \<le> 216267547"
proof -
  let ?m = "mean_code samples n 4"
  have m: "1 \<le> ?m" "?m \<le> 4095" using mean_code_bounds[OF assms, of 4] assms by (auto simp: adc_block_def)
  have c: "0 \<le> uint (cal_vrefint_cal_code cal)" "uint (cal_vrefint_cal_code cal) < 65536" by (rule uint_u16_bounds)+
  show "0 \<le> supply_reference cal samples n"
    using m c by (simp add: supply_reference_def pos_imp_zdiv_nonneg_iff)
  have x: "0 \<le> 3300 * uint (cal_vrefint_cal_code cal) + ?m div 2"
    "3300 * uint (cal_vrefint_cal_code cal) + ?m div 2 \<le> 216267547" using m c by linarith+
  have "supply_reference cal samples n \<le> 3300 * uint (cal_vrefint_cal_code cal) + ?m div 2"
    unfolding supply_reference_def using m x zdiv_mono2[of "3300 * uint (cal_vrefint_cal_code cal) + ?m div 2" 1 ?m] by simp
  then show "supply_reference cal samples n \<le> 216267547" using x by linarith
qed

lemma reference_mv_exact:
  assumes "adc_block samples n"
  shows "reference_mv cal (map (mean_code samples n) [0..<5]) = supply_reference cal samples n"
proof -
  let ?m = "mean_code samples n 4"
  have m: "1 \<le> ?m" "?m \<le> 4095" using mean_code_bounds[OF assms, of 4] assms by (auto simp: adc_block_def)
  have "to_u64 (3300 * uint (cal_vrefint_cal_code cal) + ?m div 2) = 3300 * uint (cal_vrefint_cal_code cal) + ?m div 2"
    using m uint_u16_bounds[of "cal_vrefint_cal_code cal"] by (intro to_u64_id) linarith+
  then show ?thesis
    using supply_reference_bounds[OF assms, of cal]
    by (simp add: reference_mv_def supply_reference_def[symmetric] upt_5 to_u32_id)
qed

lemma normalize_exact:
  assumes "0 \<le> code" "code \<le> 4095" "0 \<le> v" "v \<le> 216267547"
  shows "guardian_acquisition_normalize_code code v = compensated v code"
    "0 \<le> compensated v code" "compensated v code < 268435456"
proof -
  have p: "0 \<le> code * v" "code * v \<le> 4095 * 216267547"
    using assms by (simp, intro mult_mono) simp_all
  then have "to_u64 (code * v) = code * v" "to_u64 (code * v + 1650) = code * v + 1650"
    by (intro to_u64_id; simp)+
  moreover show b: "0 \<le> compensated v code" "compensated v code < 268435456"
    using p unfolding compensated_def by (simp add: pos_imp_zdiv_nonneg_iff, intro int_div_less) simp_all
  ultimately show "guardian_acquisition_normalize_code code v = compensated v code"
    by (simp add: guardian_acquisition_normalize_code_def compensated_def Let_def)
qed

lemma deflection_exact:
  assumes "adc_block samples n" "f < n" "0 \<le> v" "v \<le> 216267547"
  shows "to_i32 (to_i32 (guardian_acquisition_normalize_code (uint (samples ! (f * 5))) v) - uint (cal_vibration_zero_code cal))
      = deflection cal samples v f" "\<bar>deflection cal samples v f\<bar> \<le> 268435456"
proof -
  have "0 \<le> uint (samples ! (f * 5))" "uint (samples ! (f * 5)) \<le> 4095"
    using assms(1,2) by (auto simp: adc_block_def list_all_length)
  note c = normalize_exact[OF this assms(3,4)]
  show b: "\<bar>deflection cal samples v f\<bar> \<le> 268435456"
    using c(2,3) uint_u16_bounds[of "cal_vibration_zero_code cal"] unfolding deflection_def by linarith
  have "to_i32 (compensated v (uint (samples ! (f * 5)))) = compensated v (uint (samples ! (f * 5)))"
    using c(2,3) by (intro to_i32_id) simp_all
  then show "to_i32 (to_i32 (guardian_acquisition_normalize_code (uint (samples ! (f * 5))) v) - uint (cal_vibration_zero_code cal))
      = deflection cal samples v f"
    using b unfolding c(1) deflection_def by (simp add: to_i32_id abs_le_iff)
qed

lemma vibration_sample_exact:
  assumes "\<bar>d\<bar> \<le> 268435456"
  shows "guardian_acquisition_vibration_sample_mg d cal = milli_g cal d"
proof -
  let ?x = "d * uint (cal_vibration_mg_per_code_num cal)" and ?h = "uint (cal_vibration_mg_per_code_den cal)"
  have "\<bar>?x\<bar> \<le> 268435456 * 4294967296"
    unfolding abs_mult using assms uint_u32_bounds[of "cal_vibration_mg_per_code_num cal"] by (intro mult_mono) simp_all
  moreover have "0 \<le> ?h" "?h < 4294967296" by (rule uint_u32_bounds)+
  ultimately have "to_i64 ?x = ?x" "to_i64 (?x + ?h div 2) = ?x + ?h div 2" "to_i64 (?x - ?h div 2) = ?x - ?h div 2"
    by (intro to_i64_id; linarith)+
  then show ?thesis by (simp add: guardian_acquisition_vibration_sample_mg_def milli_g_def Let_def)
qed


lemma vibration_loop_exact:
  assumes "adc_block samples n" "0 \<le> v" "v \<le> 216267547"
  shows "vibration_loop cal samples v n =
    (map (\<lambda>f. milli_g cal (deflection cal samples v f)) [0..<n] @ replicate (64 - n) 0,
     \<Sum>f\<leftarrow>[0..<n]. (deflection cal samples v f)\<^sup>2)"
proof -
  define g where "g = deflection cal samples v"
  have n: "n \<le> 64" using assms(1) by (simp add: adc_block_def)
  have b: "\<bar>g f\<bar> \<le> 268435456" if "f < n" for f using deflection_exact(2)[OF assms(1) that assms(2,3)] by (simp add: g_def)
  have sq: "0 \<le> (g f)\<^sup>2 \<and> (g f)\<^sup>2 \<le> 72057594037927936" if "f < n" for f
    using b[OF that] power_mono[of "\<bar>g f\<bar>" 268435456 2] by (simp add: power2_abs)
  have "m \<le> n \<Longrightarrow> fold (vibration_step cal samples v) [0..<m] (replicate 64 0, 0) =
      (map (\<lambda>f. milli_g cal (g f)) [0..<m] @ replicate (64 - m) 0, \<Sum>f\<leftarrow>[0..<m]. (g f)\<^sup>2)" for m
  proof (induction m)
    case (Suc m)
    have tot: "0 \<le> (\<Sum>f\<leftarrow>[0..<m]. (g f)\<^sup>2)" "(\<Sum>f\<leftarrow>[0..<m]. (g f)\<^sup>2) \<le> 72057594037927936 * int m"
      using sum_upt_bounds[of m 0 "\<lambda>f. (g f)\<^sup>2" 72057594037927936] sq Suc.prems by simp_all
    have m: "m < n" "int m < 64" using Suc.prems n by simp_all
    have "to_u64 (g m * g m) = (g m)\<^sup>2" using sq[OF m(1)] by (simp add: to_u64_id power2_eq_square)
    moreover have "to_u64 ((\<Sum>f\<leftarrow>[0..<m]. (g f)\<^sup>2) + (g m)\<^sup>2) = (\<Sum>f\<leftarrow>[0..<m]. (g f)\<^sup>2) + (g m)\<^sup>2"
      using tot sq[OF m(1)] m(2) by (intro to_u64_id) linarith+
    moreover have "(map (\<lambda>f. milli_g cal (g f)) [0..<m] @ replicate (64 - m) 0)[m := x]
        = map (\<lambda>f. milli_g cal (g f)) [0..<m] @ x # replicate (64 - Suc m) 0" for x
      using m n by (simp add: list_update_append Suc_diff_Suc[symmetric])
    ultimately show ?case
      using Suc vibration_sample_exact[OF b[OF m(1)], of cal]
        deflection_exact(1)[OF assms(1) m(1) assms(2,3), of cal]
      by (simp add: vibration_step_def g_def Let_def)
  qed simp
  then show ?thesis by (simp add: vibration_loop_def g_def)
qed

lemma saturation_exact:
  fixes samples :: "u16 list"
  assumes "length samples = 5 * n"
  shows "list_ex (\<lambda>f. list_ex (\<lambda>ch. let x = uint (samples ! (f * 5 + ch)) in x = 0 \<or> 4095 \<le> x) [0..<5]) [0..<n]
    \<longleftrightarrow> list_ex (\<lambda>x. x = 0 \<or> 4095 \<le> x) samples"
proof -
  have w: "uint x = 0 \<or> 4095 \<le> uint x \<longleftrightarrow> x = 0 \<or> 4095 \<le> x" for x :: u16
    by (simp add: word_le_def unsigned_eq_0_iff)
  have e: "(\<exists>f<n. \<exists>ch<5. P (f * 5 + ch)) \<longleftrightarrow> (\<exists>i<5 * n. P i)" for P
  proof
    assume "\<exists>i<5 * n. P i"
    then obtain i where i: "i < 5 * n" "P i" by blast
    then have "i div 5 < n" "i mod 5 < 5" "P (i div 5 * 5 + i mod 5)" by (simp_all add: less_mult_imp_div_less mult.commute)
    then show "\<exists>f<n. \<exists>ch<5. P (f * 5 + ch)" by blast
  next
    assume "\<exists>f<n. \<exists>ch<5. P (f * 5 + ch)"
    then obtain f ch where "f < n" "ch < 5" "P (f * 5 + ch)" by blast
    moreover from this have "f * 5 + ch < 5 * n" by linarith
    ultimately show "\<exists>i<5 * n. P i" by blast
  qed
  have "list_ex (\<lambda>f. list_ex (\<lambda>ch. let x = uint (samples ! (f * 5 + ch)) in x = 0 \<or> 4095 \<le> x) [0..<5]) [0..<n]
      \<longleftrightarrow> (\<exists>f<n. \<exists>ch<5. samples ! (f * 5 + ch) = 0 \<or> 4095 \<le> samples ! (f * 5 + ch))"
    unfolding Let_def w by (simp add: list_ex_iff Bex_def)
  also have "\<dots> \<longleftrightarrow> list_ex (\<lambda>x. x = 0 \<or> 4095 \<le> x) samples"
    unfolding e[where P = "\<lambda>i. samples ! i = 0 \<or> 4095 \<le> samples ! i"] using assms by (simp add: list_ex_length)
  finally show ?thesis .
qed


lemma abs_sdiv_le: "\<bar>a sdiv b\<bar> \<le> \<bar>a\<bar>" for a b :: int
proof -
  have "0 \<le> \<bar>a\<bar> div \<bar>b\<bar>" "\<bar>a\<bar> div \<bar>b\<bar> \<le> \<bar>a\<bar>"
    by (cases "b = 0"; simp add: pos_imp_zdiv_nonneg_iff zdiv_mono2[of "\<bar>a\<bar>" 1 "\<bar>b\<bar>", simplified])+
  then show ?thesis by (auto simp: signed_divide_int_def sgn_if)
qed

lemma centi_degrees_i64:
  assumes "\<bar>t\<bar> \<le> 268435456"
  shows "to_i64 (t * 8000) = t * 8000" "to_i64 (3000 + t * 8000 sdiv s) = 3000 + t * 8000 sdiv s"
proof -
  show "to_i64 (t * 8000) = t * 8000" using assms by (intro to_i64_id) linarith+
  show "to_i64 (3000 + t * 8000 sdiv s) = 3000 + t * 8000 sdiv s"
    using assms abs_sdiv_le[of "t * 8000" s] by (intro to_i64_id) linarith+
qed

lemma mean_square_bounds:
  assumes "adc_block samples n" "0 \<le> v" "v \<le> 216267547"
  shows "0 \<le> (\<Sum>f\<leftarrow>[0..<n]. (deflection cal samples v f)\<^sup>2) div int n"
    "(\<Sum>f\<leftarrow>[0..<n]. (deflection cal samples v f)\<^sup>2) div int n < 18446744073709551616"
proof -
  have "0 \<le> (deflection cal samples v f)\<^sup>2 \<and> (deflection cal samples v f)\<^sup>2 \<le> 72057594037927936" if "f < n" for f
    using deflection_exact(2)[OF assms(1) that assms(2,3), of cal] power_mono[of "\<bar>deflection cal samples v f\<bar>" 268435456 2]
    by (simp add: power2_abs)
  then have "0 \<le> (\<Sum>f\<leftarrow>[0..<n]. (deflection cal samples v f)\<^sup>2)"
    "(\<Sum>f\<leftarrow>[0..<n]. (deflection cal samples v f)\<^sup>2) \<le> 72057594037927936 * int n"
    using sum_upt_bounds[of n 0 "\<lambda>f. (deflection cal samples v f)\<^sup>2" 72057594037927936] by simp_all
  moreover have "0 < int n" using assms(1) by (simp add: adc_block_def)
  ultimately show "0 \<le> (\<Sum>f\<leftarrow>[0..<n]. (deflection cal samples v f)\<^sup>2) div int n"
    "(\<Sum>f\<leftarrow>[0..<n]. (deflection cal samples v f)\<^sup>2) div int n < 18446744073709551616"
    by (simp add: pos_imp_zdiv_nonneg_iff, intro int_div_less) linarith+
qed

lemma product_u64: "0 \<le> x \<Longrightarrow> x < 4294967296 \<Longrightarrow> to_u64 (x * uint (k :: u32)) = x * uint k"
proof (rule to_u64_id)
  assume x: "0 \<le> x" "x < 4294967296"
  show "0 \<le> x * uint k" using x by simp
  have "x * uint k \<le> 4294967295 * 4294967295"
    using x uint_u32_bounds[of k] by (intro mult_mono) simp_all
  then show "x * uint k < 18446744073709551616" by simp
qed

lemma measurements_exact:
  assumes "adc_block samples n"
  shows "block_measurements cal aux n (map (mean_code samples n) [0..<5])
      (list_ex (\<lambda>x. x = 0 \<or> 4095 \<le> x) samples) (supply_reference cal samples n)
      (\<Sum>f\<leftarrow>[0..<n]. (deflection cal samples (supply_reference cal samples n) f)\<^sup>2)
    = engineering_measurements cal aux samples n"
proof -
  define v where "v = supply_reference cal samples n"
  define q where "q = (\<Sum>f\<leftarrow>[0..<n]. (deflection cal samples v f)\<^sup>2) div int n"
  have v: "0 \<le> v" "v \<le> 216267547" using supply_reference_bounds[OF assms] by (simp_all add: v_def)
  have code: "guardian_acquisition_normalize_code (mean_code samples n ch) v = compensated v (mean_code samples n ch)"
      "0 \<le> compensated v (mean_code samples n ch)" "compensated v (mean_code samples n ch) < 268435456"
      "to_i32 (compensated v (mean_code samples n ch)) = compensated v (mean_code samples n ch)" if "ch < 5" for ch
  proof -
    note c = normalize_exact[OF mean_code_bounds[OF assms that] v]
    show "guardian_acquisition_normalize_code (mean_code samples n ch) v = compensated v (mean_code samples n ch)"
      "0 \<le> compensated v (mean_code samples n ch)" "compensated v (mean_code samples n ch) < 268435456" by (rule c)+
    show "to_i32 (compensated v (mean_code samples n ch)) = compensated v (mean_code samples n ch)"
      using c by (intro to_i32_id) linarith+
  qed
  have off: "to_i32 (compensated v (mean_code samples n ch) - uint (z :: u16)) = compensated v (mean_code samples n ch) - uint z"
    if "ch < 5" for ch z
    using code(2,3)[OF that] uint_u16_bounds[of z] by (intro to_i32_id) linarith+
  let ?t = "compensated v (mean_code samples n 3) - uint (cal_temperature_cal_30_code cal)"
  have t: "\<bar>?t\<bar> \<le> 268435456" 
    using code(2,3)[of 3, simplified] uint_u16_bounds[of "cal_temperature_cal_30_code cal"] by linarith
  let ?span = "uint (cal_temperature_cal_110_code cal) - uint (cal_temperature_cal_30_code cal)"
  note t1 = centi_degrees_i64[OF t]
  have q: "0 \<le> q" "q < 18446744073709551616" using mean_square_bounds[OF assms v] by (simp_all add: q_def)
  then have rms: "guardian_acquisition_isqrt_u64 q = int_sqrt q" "0 \<le> int_sqrt q" "int_sqrt q < 4294967296"
    using isqrt_is_int_sqrt[of q] isqrt_exact[of q] by simp_all
  let ?i = "max 0 (compensated v (mean_code samples n 1) - uint (cal_current_zero_code cal))"
  have i: "0 \<le> ?i" "?i < 4294967296" 
    using code(2,3)[of 1, simplified] uint_u16_bounds[of "cal_current_zero_code cal"] unfolding One_nat_def by linarith+
  have s0: "0 \<le> mean_code samples n 2 * v" "mean_code samples n 2 * v \<le> 4095 * 216267547"
    using v mean_code_bounds[OF assms, of 2] by (simp, intro mult_mono) simp_all
  then have s1: "to_u64 (mean_code samples n 2 * v) = mean_code samples n 2 * v" by (intro to_u64_id) simp_all
  have "0 \<le> mean_code samples n 2 * v div 4095" "mean_code samples n 2 * v div 4095 < 216267548"
    using s0 by (simp add: pos_imp_zdiv_nonneg_iff, intro int_div_less) simp_all
  then have "0 \<le> mean_code samples n 2 * v div 4095 * uint (cal_supply_divider_num cal)"
    "mean_code samples n 2 * v div 4095 * uint (cal_supply_divider_num cal) \<le> 216267548 * 65536"
    using uint_u16_bounds[of "cal_supply_divider_num cal"] by (simp, intro mult_mono) simp_all
  then have s2: "to_u64 (mean_code samples n 2 * v div 4095 * uint (cal_supply_divider_num cal))
      = mean_code samples n 2 * v div 4095 * uint (cal_supply_divider_num cal)" by (intro to_u64_id) simp_all
  have five: "(1::nat) < 5" "(2::nat) < 5" "(3::nat) < 5" "(4::nat) < 5" by simp_all
  have idx: "map (mean_code samples n) [0..<5] ! ch = mean_code samples n ch" if "ch < 5" for ch using that by simp
  have cur: "(if to_i32 (compensated v (mean_code samples n 1) - uint (cal_current_zero_code cal)) < 0 then 0
      else to_i32 (compensated v (mean_code samples n 1) - uint (cal_current_zero_code cal))) = ?i"
    using off[of 1 "cal_current_zero_code cal"] by simp
  have fl: "take (5 * n) samples = samples" using assms by (simp add: adc_block_def)
  show ?thesis
    unfolding block_measurements_def engineering_measurements_def v_def[symmetric] Let_def q_def[symmetric] fl
      five[THEN idx] five[THEN code(1)] five[THEN code(4)] cur off[OF five(3)] t1 rms(1) product_u64[OF rms(2,3)]
      product_u64[OF i] s1 s2
    by (simp add: or.assoc)
qed


text \<open>A block of 12-bit codes is converted by the engineering formulas, in the measurements and in
  the vibration samples handed to the DSP.\<close>

definition engineering_block :: "guardian_acquisition \<Rightarrow> guardian_acquisition_aux \<Rightarrow> u16 list \<Rightarrow> nat \<Rightarrow> u32
    \<Rightarrow> guardian_acquisition_signal_block" where
  "engineering_block a aux samples n rate =
     (let cal = aq_calibration a; v = supply_reference cal samples n in
      \<lparr>sb_sequence = aq_next_block_sequence a, sb_sample_rate_hz = rate, sb_sample_count = of_nat n,
       sb_vibration_mg = map (\<lambda>f. milli_g cal (deflection cal samples v f)) [0..<n] @ replicate (64 - n) 0,
       sb_status_flags = mm_status_flags (engineering_measurements cal aux samples n)\<rparr>)"

lemma process_block_exact:
  assumes "adc_block samples n" "guardian_acquisition_calibration_valid (Some (aq_calibration a))" "rate \<noteq> 0"
  shows "\<exists>a'. guardian_acquisition_process_block_ex (Some a) (Some samples) (5 * n) (Some aux) rate (Some b)
      = (GUARDIAN_ACQUISITION_OK, Some a', Some (engineering_block a aux samples n rate))
    \<and> aq_latest a' = engineering_measurements (aq_calibration a) aux samples n
    \<and> aq_calibration a' = aq_calibration a \<and> aq_next_block_sequence a' = aq_next_block_sequence a + 1"
proof -
  let ?cal = "aq_calibration a"
  have n: "0 < n" "n \<le> 64" "length samples = 5 * n" "mean_code samples n 4 \<noteq> 0" using assms(1) by (simp_all add: adc_block_def)
  obtain totals where totals: "channel_sums samples n = (totals, list_ex (\<lambda>x. x = 0 \<or> 4095 \<le> x) samples)"
    using channel_sums_total[OF n(2), of samples] saturation_exact[OF n(3)] by simp
  then have av: "map (channel_average n) totals = map (mean_code samples n) [0..<5]"
    using channel_averages[OF assms(1)] by simp
  have v: "vibration_loop ?cal samples (supply_reference ?cal samples n) n =
    (map (\<lambda>f. milli_g ?cal (deflection ?cal samples (supply_reference ?cal samples n) f)) [0..<n] @ replicate (64 - n) 0,
     \<Sum>f\<leftarrow>[0..<n]. (deflection ?cal samples (supply_reference ?cal samples n) f)\<^sup>2)"
    by (rule vibration_loop_exact[OF assms(1) supply_reference_bounds[OF assms(1)]])
  have "map (mean_code samples n) [0..<5] ! 4 = mean_code samples n 4" by simp
  then show ?thesis
    using n assms(2,3)
    by (simp add: guardian_acquisition_process_block_ex_def totals Let_def av reference_mv_exact[OF assms(1)] v
        measurements_exact[OF assms(1)] engineering_block_def zero_signal_block_def)
qed


text \<open>A calibration and one scan frame, for the witness.\<close>

definition sample_calibration :: guardian_acquisition_calibration where
  "sample_calibration = \<lparr>cal_vrefint_cal_code = 1500, cal_temperature_cal_30_code = 940,
     cal_temperature_cal_110_code = 1210, cal_vibration_zero_code = 2048, cal_vibration_mg_per_code_num = 3,
     cal_vibration_mg_per_code_den = 2, cal_current_zero_code = 100, cal_current_ma_per_code_num = 5,
     cal_current_ma_per_code_den = 2, cal_supply_divider_num = 11, cal_supply_divider_den = 1,
     cal_base_status_flags = GUARDIAN_ACQUISITION_STATUS_DEFAULT_CALIBRATION\<rparr>"

definition sample_acquisition :: guardian_acquisition where
  "sample_acquisition = \<lparr>aq_calibration = sample_calibration, aq_latest = zero_measurements,
     aq_next_block_sequence = 7, aq_stats = zero_acquisition_stats\<rparr>"

definition sample_aux :: guardian_acquisition_aux where
  "sample_aux = \<lparr>aux_rpm = 1450, aux_rpm_valid = 1, aux_hardware_status_flags = 0\<rparr>"

lemma sample_adc_block: "adc_block [2148, 700, 1365, 1000, 1500] 1"
  by (simp add: adc_block_def mean_code_def channel_total_def)

text \<open>C15: Exact conversion. For every calibration the initializer accepts and every block of up to
  64 scan frames of 12-bit codes with a non-zero reference average, processing succeeds, and the
  measurements and the vibration block are those of the engineering formulas over unbounded
  integers: no intermediate value of the C code wraps at its width.\<close>

theorem acquisition_is_exact:
  assumes "adc_block samples n" "guardian_acquisition_calibration_valid (Some (aq_calibration a))" "rate \<noteq> 0"
  shows "\<exists>a'. guardian_acquisition_process_block_ex (Some a) (Some samples) (5 * n) (Some aux) rate (Some b)
      = (GUARDIAN_ACQUISITION_OK, Some a', Some (engineering_block a aux samples n rate))
    \<and> aq_latest a' = engineering_measurements (aq_calibration a) aux samples n
    \<and> aq_calibration a' = aq_calibration a \<and> aq_next_block_sequence a' = aq_next_block_sequence a + 1"
  by (rule process_block_exact[OF assms])

theorem acquisition_is_exact_witness:
  "\<exists>a'. guardian_acquisition_process_block_ex (Some sample_acquisition) (Some [2148, 700, 1365, 1000, 1500]) 5
      (Some sample_aux) 4000 (Some zero_signal_block)
    = (GUARDIAN_ACQUISITION_OK, Some a', Some (engineering_block sample_acquisition sample_aux [2148, 700, 1365, 1000, 1500] 1 4000))
    \<and> mm_current_ma (aq_latest a') = 1500"
proof -
  have "guardian_acquisition_calibration_valid (Some (aq_calibration sample_acquisition))"
    by (simp add: guardian_acquisition_calibration_valid_def sample_acquisition_def sample_calibration_def)
  moreover have "mm_current_ma (engineering_measurements (aq_calibration sample_acquisition) sample_aux [2148, 700, 1365, 1000, 1500] 1) = 1500"
    by (simp add: engineering_measurements_def supply_reference_def compensated_def mean_code_def channel_total_def Let_def
        sample_acquisition_def sample_calibration_def guardian_acquisition_u16_def)
  ultimately show ?thesis
    using acquisition_is_exact[OF sample_adc_block, of sample_acquisition 4000 sample_aux zero_signal_block] by auto
qed

end
