(* ===== verification/Guardian_DSP.thy ===== *)
theory Guardian_DSP
  imports Guardian_Acquisition
begin

text \<open>
  Feature extraction of \<open>firmware/DSP/Src/guardian_dsp.c\<close> in binary32 arithmetic: DC removal, Hann
  window, the in-place radix-2 FFT with its tables, band powers and the feature snapshot, and the
  GET_DSP_FEATURES handler.  The lemmas bound every intermediate value of the spectrum, so no
  computation overflows or turns into NaN, whatever the samples.
\<close>

section \<open>Types and tables\<close>

abbreviation (input) GUARDIAN_DSP_FFT_SIZE :: nat where "GUARDIAN_DSP_FFT_SIZE \<equiv> 64"
abbreviation (input) GUARDIAN_DSP_ONE_SIDED_BIN_COUNT :: nat where "GUARDIAN_DSP_ONE_SIDED_BIN_COUNT \<equiv> 33"
abbreviation (input) GUARDIAN_DSP_SCHEMA_VERSION :: u8 where "GUARDIAN_DSP_SCHEMA_VERSION \<equiv> 1"
abbreviation (input) GUARDIAN_DSP_PAYLOAD_SIZE :: u16 where "GUARDIAN_DSP_PAYLOAD_SIZE \<equiv> 32"
abbreviation (input) GUARDIAN_DSP_STATUS_VALID :: u16 where "GUARDIAN_DSP_STATUS_VALID \<equiv> 0x0001"
abbreviation (input) GUARDIAN_DSP_STATUS_DC_REMOVED :: u16 where "GUARDIAN_DSP_STATUS_DC_REMOVED \<equiv> 0x0002"
abbreviation (input) GUARDIAN_DSP_STATUS_HANN_WINDOW :: u16 where "GUARDIAN_DSP_STATUS_HANN_WINDOW \<equiv> 0x0004"
abbreviation (input) GUARDIAN_DSP_STATUS_DOMINANT_VALID :: u16 where "GUARDIAN_DSP_STATUS_DOMINANT_VALID \<equiv> 0x0008"
abbreviation (input) GUARDIAN_DSP_STATUS_SILENT :: u16 where "GUARDIAN_DSP_STATUS_SILENT \<equiv> 0x0010"

datatype guardian_dsp_result =
    GUARDIAN_DSP_OK | GUARDIAN_DSP_ERROR_NULL_ARGUMENT | GUARDIAN_DSP_ERROR_LENGTH | GUARDIAN_DSP_ERROR_SAMPLE_RATE

record guardian_dsp_features =
  df_block_sequence :: u32
  df_sample_rate_hz :: u16
  df_rms_mg :: u16
  df_peak_mg :: u16
  df_crest_factor_milli :: u16
  df_dominant_frequency_centi_hz :: u32
  df_dominant_peak_mg :: u16
  df_spectral_centroid_centi_hz :: u32
  df_low_band_permille :: u16
  df_mid_band_permille :: u16
  df_high_band_permille :: u16
  df_acquisition_status_flags :: u16
  df_dsp_status_flags :: u16

definition zero_features :: guardian_dsp_features where
  "zero_features = \<lparr>df_block_sequence = 0, df_sample_rate_hz = 0, df_rms_mg = 0, df_peak_mg = 0,
     df_crest_factor_milli = 0, df_dominant_frequency_centi_hz = 0, df_dominant_peak_mg = 0,
     df_spectral_centroid_centi_hz = 0, df_low_band_permille = 0, df_mid_band_permille = 0,
     df_high_band_permille = 0, df_acquisition_status_flags = 0, df_dsp_status_flags = 0\<rparr>"

text \<open>The tables are given in billionths; each literal is rounded to a \<open>float\<close>.\<close>

definition billionths :: "int \<Rightarrow> f32" where
  "billionths z = round32 (of_int z / 1000000000)"

definition guardian_dsp_hann :: "f32 list" where
  "guardian_dsp_hann = map billionths
     [0, 2484612, 9913756, 22213597, 39261894, 60889213, 86880613, 116977778,
      150881591, 188255099, 228726868, 271894671, 317329488, 364579766, 413175911, 462634953,
      512465346, 562171852, 611260467, 659243325, 705643552, 750000000, 791871836, 830842919,
      866525936, 898566254, 926645441, 950484434, 969846310, 984538643, 994415413, 999378461,
      999378461, 994415413, 984538643, 969846310, 950484434, 926645441, 898566254, 866525936,
      830842919, 791871836, 750000000, 705643552, 659243325, 611260467, 562171852, 512465346,
      462634953, 413175911, 364579766, 317329488, 271894671, 228726868, 188255099, 150881591,
      116977778, 86880613, 60889213, 39261894, 22213597, 9913756, 2484612, 0]"

definition guardian_dsp_twiddle_real :: "f32 list" where
  "guardian_dsp_twiddle_real = map billionths
     [1000000000, 995184727, 980785280, 956940336, 923879533, 881921264, 831469612, 773010453,
      707106781, 634393284, 555570233, 471396737, 382683432, 290284677, 195090322, 98017140,
      0, -98017140, -195090322, -290284677, -382683432, -471396737, -555570233, -634393284,
      -707106781, -773010453, -831469612, -881921264, -923879533, -956940336, -980785280, -995184727]"

definition guardian_dsp_twiddle_imag :: "f32 list" where
  "guardian_dsp_twiddle_imag = map billionths
     [0, -98017140, -195090322, -290284677, -382683432, -471396737, -555570233, -634393284,
      -707106781, -773010453, -831469612, -881921264, -923879533, -956940336, -980785280, -995184727,
      -1000000000, -995184727, -980785280, -956940336, -923879533, -881921264, -831469612, -773010453,
      -707106781, -634393284, -555570233, -471396737, -382683432, -290284677, -195090322, -98017140]"

section \<open>Transform\<close>

definition guardian_dsp_u16 :: "f32 \<Rightarrow> u16" where
  "guardian_dsp_u16 v =
     (if \<not> f32_less (F32 0) v then 0
      else if f32_le (F32 65535) v then 65535
      else word_of_int (f32_trunc (f32_add v (F32 (1 / 2)))))"

text \<open>The literal \<open>4294967295.0F\<close> is the nearest \<open>float\<close>, \<open>2\<^sup>3\<^sup>2\<close>.\<close>

definition guardian_dsp_u32 :: "f32 \<Rightarrow> u32" where
  "guardian_dsp_u32 v =
     (if \<not> f32_less (F32 0) v then 0
      else if f32_le (round32 4294967295) v then 0xFFFFFFFF
      else word_of_int (f32_trunc (f32_add v (F32 (1 / 2)))))"

text \<open>\<open>guardian_dsp_swap_float(&xs[i], &xs[j])\<close>.\<close>

definition guardian_dsp_swap_float :: "'a list \<Rightarrow> nat \<Rightarrow> nat \<Rightarrow> 'a list" where
  "guardian_dsp_swap_float xs i j = (let temporary = xs ! i in xs[i := xs ! j, j := temporary])"

text \<open>The inner loop clears the leading ones of the reversed counter and finds the next free bit.\<close>

function reverse_carry :: "u16 \<Rightarrow> u16 \<Rightarrow> u16" where
  "reverse_carry reversed b =
     (if reversed AND b \<noteq> 0 then reverse_carry (reversed XOR b) (drop_bit 1 b) else reversed XOR b)"
  by pat_completeness auto
termination
proof (relation "measure (\<lambda>(_, b). unat b)")
  fix reversed b :: u16
  assume "reversed AND b \<noteq> 0"
  then have "b \<noteq> 0" by auto
  then have "0 < unat b" by (simp add: unat_gt_0)
  then show "((reversed XOR b, drop_bit 1 b), reversed, b) \<in> measure (\<lambda>(_, b). unat b)"
    by (simp add: drop_bit_Suc unat_div)
qed simp

declare reverse_carry.simps [simp del]

definition bit_reverse_step :: "nat \<Rightarrow> u16 \<times> 'a list \<times> 'a list \<Rightarrow> u16 \<times> 'a list \<times> 'a list" where
  "bit_reverse_step index st =
     (case st of (reversed0, re, im) \<Rightarrow>
        let reversed = reverse_carry reversed0 32 in
        if index < unat reversed
        then (reversed, guardian_dsp_swap_float re index (unat reversed),
              guardian_dsp_swap_float im index (unat reversed))
        else (reversed, re, im))"

definition guardian_dsp_bit_reverse :: "'a list \<Rightarrow> 'a list \<Rightarrow> 'a list \<times> 'a list" where
  "guardian_dsp_bit_reverse re im =
     snd (fold bit_reverse_step [1..<GUARDIAN_DSP_FFT_SIZE] (0, re, im))"

definition butterfly :: "nat \<Rightarrow> nat \<times> nat \<Rightarrow> f32 list \<times> f32 list \<Rightarrow> f32 list \<times> f32 list" where
  "butterfly len pos st =
     (case (pos, st) of ((base, offset), (re, im)) \<Rightarrow>
        let twiddle_index = offset * (GUARDIAN_DSP_FFT_SIZE div len);
            even_index = base + offset;
            odd_index = even_index + len div 2;
            wr = guardian_dsp_twiddle_real ! twiddle_index;
            wi = guardian_dsp_twiddle_imag ! twiddle_index;
            odd_real = f32_sub (f32_mul (re ! odd_index) wr) (f32_mul (im ! odd_index) wi);
            odd_imag = f32_add (f32_mul (re ! odd_index) wi) (f32_mul (im ! odd_index) wr);
            even_real = re ! even_index;
            even_imag = im ! even_index
        in (re[even_index := f32_add even_real odd_real, odd_index := f32_sub even_real odd_real],
            im[even_index := f32_add even_imag odd_imag, odd_index := f32_sub even_imag odd_imag]))"

text \<open>The two inner loops of a stage visit \<open>base = 0, length, ...\<close> and all offsets of each.\<close>

definition stage_positions :: "nat \<Rightarrow> (nat \<times> nat) list" where
  "stage_positions len =
     List.product (map (\<lambda>i. i * len) [0..<GUARDIAN_DSP_FFT_SIZE div len]) [0..<len div 2]"

function fft_stages :: "nat \<Rightarrow> f32 list \<times> f32 list \<Rightarrow> f32 list \<times> f32 list" where
  "fft_stages len st =
     (if 0 < len \<and> len \<le> GUARDIAN_DSP_FFT_SIZE
      then fft_stages (2 * len) (fold (butterfly len) (stage_positions len) st) else st)"
  by pat_completeness auto
termination by (relation "measure (\<lambda>(len, _). 128 - len)") auto

declare fft_stages.simps [simp del]

definition guardian_dsp_fft64 :: "f32 list \<Rightarrow> f32 list \<Rightarrow> f32 list \<times> f32 list" where
  "guardian_dsp_fft64 re im = fft_stages 2 (guardian_dsp_bit_reverse re im)"

section \<open>Features\<close>

definition guardian_dsp_write_u16_be :: "u8 list \<Rightarrow> nat \<Rightarrow> u16 \<Rightarrow> u8 list" where
  "guardian_dsp_write_u16_be output i v =
     output[i := ucast (drop_bit 8 v AND 0xFF), i + 1 := ucast (v AND 0xFF)]"

definition guardian_dsp_write_u32_be :: "u8 list \<Rightarrow> nat \<Rightarrow> u32 \<Rightarrow> u8 list" where
  "guardian_dsp_write_u32_be output i v =
     output[i := ucast (drop_bit 24 v AND 0xFF), i + 1 := ucast (drop_bit 16 v AND 0xFF),
       i + 2 := ucast (drop_bit 8 v AND 0xFF), i + 3 := ucast (v AND 0xFF)]"

definition guardian_dsp_make_error ::
  "guardian_frame \<Rightarrow> guardian_frame \<Rightarrow> guardian_error_code \<Rightarrow> guardian_frame" where
  "guardian_dsp_make_error request response err =
     response\<lparr>command := command request, sequence := sequence request,
       message_type := GUARDIAN_MESSAGE_ERROR, flags := GUARDIAN_SUPPORTED_FLAGS,
       payload_length := 1, payload := (payload response)[0 := guardian_error_value err]\<rparr>"

text \<open>The first two loops: the mean, then RMS sum, peak and windowed samples.\<close>

definition sample_mean :: "i16 list \<Rightarrow> f32" where
  "sample_mean vib =
     f32_div (fold (\<lambda>i m. f32_add m (f32_of_int (sint (vib ! i)))) [0..<GUARDIAN_DSP_FFT_SIZE] (F32 0)) (f32_of_nat 64)"

definition window_step :: "i16 list \<Rightarrow> f32 \<Rightarrow> nat \<Rightarrow> f32 \<times> f32 \<times> f32 list \<Rightarrow> f32 \<times> f32 \<times> f32 list" where
  "window_step vib mean i st =
     (case st of (rms_sum, peak, re) \<Rightarrow>
        let sample = f32_sub (f32_of_int (sint (vib ! i))) mean;
            absolute = (if f32_less sample (F32 0) then f32_neg sample else sample)
        in (f32_add rms_sum (f32_mul sample sample),
            if f32_less peak absolute then absolute else peak,
            re[i := f32_mul sample (guardian_dsp_hann ! i)]))"

definition window_loop :: "i16 list \<Rightarrow> f32 \<Rightarrow> f32 \<times> f32 \<times> f32 list" where
  "window_loop vib mean =
     fold (window_step vib mean) [0..<GUARDIAN_DSP_FFT_SIZE] (F32 0, F32 0, replicate GUARDIAN_DSP_FFT_SIZE (F32 0))"

definition power_spectrum :: "f32 list \<times> f32 list \<Rightarrow> f32 list" where
  "power_spectrum st =
     map (\<lambda>i. f32_add (f32_mul (fst st ! i) (fst st ! i)) (f32_mul (snd st ! i) (snd st ! i)))
       [0..<GUARDIAN_DSP_ONE_SIDED_BIN_COUNT]"

record band_powers =
  bp_total :: f32
  bp_centroid :: f32
  bp_low :: f32
  bp_mid :: f32
  bp_high :: f32
  bp_dominant :: f32
  bp_dominant_bin :: nat

definition band_step :: "u32 \<Rightarrow> f32 list \<Rightarrow> nat \<Rightarrow> band_powers \<Rightarrow> band_powers" where
  "band_step rate pw i b =
     (let frequency_hz = f32_div (f32_mul (f32_of_nat i) (f32_of_nat (unat rate))) (f32_of_nat 64);
          bin_power = pw ! i;
          b1 = b\<lparr>bp_total := f32_add (bp_total b) bin_power,
             bp_centroid := f32_add (bp_centroid b) (f32_mul frequency_hz bin_power)\<rparr>;
          b2 = (if f32_le frequency_hz (F32 500) then b1\<lparr>bp_low := f32_add (bp_low b1) bin_power\<rparr>
                else if f32_le frequency_hz (F32 1500) then b1\<lparr>bp_mid := f32_add (bp_mid b1) bin_power\<rparr>
                else b1\<lparr>bp_high := f32_add (bp_high b1) bin_power\<rparr>)
      in if f32_less (bp_dominant b2) bin_power then b2\<lparr>bp_dominant := bin_power, bp_dominant_bin := i\<rparr> else b2)"

definition band_loop :: "u32 \<Rightarrow> f32 list \<Rightarrow> band_powers" where
  "band_loop rate pw =
     fold (band_step rate pw) [1..<GUARDIAN_DSP_ONE_SIDED_BIN_COUNT]
       \<lparr>bp_total = F32 0, bp_centroid = F32 0, bp_low = F32 0, bp_mid = F32 0, bp_high = F32 0,
        bp_dominant = F32 0, bp_dominant_bin = 0\<rparr>"

text \<open>Parabolic interpolation around the dominant bin.\<close>

definition interpolated_bin :: "f32 list \<Rightarrow> nat \<Rightarrow> f32" where
  "interpolated_bin pw bin =
     (if bin > 1 \<and> bin < GUARDIAN_DSP_ONE_SIDED_BIN_COUNT - 1
      then
        let left = pw ! (bin - 1); center = pw ! bin; right = pw ! (bin + 1);
            denominator = f32_add (f32_sub left (f32_mul (F32 2) center)) right
        in if f32_less (round32 (1 / 1000000000000)) denominator
              \<or> f32_less denominator (f32_neg (round32 (1 / 1000000000000)))
           then
             let delta0 = f32_div (f32_mul (F32 (1 / 2)) (f32_sub left right)) denominator;
                 delta = (if f32_less (F32 (1 / 2)) delta0 then F32 (1 / 2)
                          else if f32_less delta0 (F32 (- 1 / 2)) then F32 (- 1 / 2) else delta0)
             in f32_add (f32_of_nat bin) delta
           else f32_of_nat bin
      else f32_of_nat bin)"

definition hann_sum :: f32 where
  "hann_sum = fold (\<lambda>i s. f32_add s (guardian_dsp_hann ! i)) [0..<GUARDIAN_DSP_FFT_SIZE] (F32 0)"

definition permille :: "f32 \<Rightarrow> f32 \<Rightarrow> u16" where
  "permille part whole = guardian_dsp_u16 (f32_mul (f32_div part whole) (F32 1000))"

text \<open>The spectral fields of a block that is not silent.\<close>

definition spectral_features ::
  "u32 \<Rightarrow> f32 list \<Rightarrow> band_powers \<Rightarrow> guardian_dsp_features \<Rightarrow> guardian_dsp_features" where
  "spectral_features rate pw b f =
     (let low = permille (bp_low b) (bp_total b);
          mid = permille (bp_mid b) (bp_total b);
          high = (if (ucast low :: u32) + ucast mid \<le> 1000
                  then ucast (1000 - (ucast low :: u32) - ucast mid)
                  else permille (bp_high b) (bp_total b))
      in f\<lparr>df_dominant_frequency_centi_hz := guardian_dsp_u32 (f32_div
             (f32_mul (f32_mul (interpolated_bin pw (bp_dominant_bin b)) (f32_of_nat (unat rate))) (F32 100)) (f32_of_nat 64)),
           df_dominant_peak_mg := guardian_dsp_u16 (f32_div (f32_mul (F32 2) (f32_sqrt (bp_dominant b))) hann_sum),
           df_spectral_centroid_centi_hz := guardian_dsp_u32 (f32_mul (f32_div (bp_centroid b) (bp_total b)) (F32 100)),
           df_low_band_permille := low, df_mid_band_permille := mid, df_high_band_permille := high,
           df_dsp_status_flags := df_dsp_status_flags f OR GUARDIAN_DSP_STATUS_DOMINANT_VALID\<rparr>)"

definition time_features :: "guardian_acquisition_signal_block \<Rightarrow> f32 \<Rightarrow> f32 \<Rightarrow> guardian_dsp_features" where
  "time_features block rms peak =
     zero_features\<lparr>df_block_sequence := sb_sequence block,
       df_sample_rate_hz := (if sb_sample_rate_hz block > 65535 then 65535 else ucast (sb_sample_rate_hz block)),
       df_rms_mg := guardian_dsp_u16 rms, df_peak_mg := guardian_dsp_u16 peak,
       df_crest_factor_milli := (if f32_less (F32 0) rms then guardian_dsp_u16 (f32_mul (f32_div peak rms) (F32 1000)) else 0),
       df_acquisition_status_flags := sb_status_flags block,
       df_dsp_status_flags := GUARDIAN_DSP_STATUS_VALID OR GUARDIAN_DSP_STATUS_DC_REMOVED OR GUARDIAN_DSP_STATUS_HANN_WINDOW\<rparr>"

definition block_features :: "guardian_acquisition_signal_block \<Rightarrow> guardian_dsp_features" where
  "block_features block =
     (let mean = sample_mean (sb_vibration_mg block);
          (rms_sum, peak, re) = window_loop (sb_vibration_mg block) mean;
          rms = f32_sqrt (f32_div rms_sum (f32_of_nat 64));
          spectrum = guardian_dsp_fft64 re (replicate GUARDIAN_DSP_FFT_SIZE (F32 0));
          pw = power_spectrum spectrum;
          b = band_loop (sb_sample_rate_hz block) pw;
          f = time_features block rms peak
      in if f32_less (round32 (1 / 1000000000)) (bp_total b)
         then spectral_features (sb_sample_rate_hz block) pw b f
         else f\<lparr>df_dsp_status_flags := df_dsp_status_flags f OR GUARDIAN_DSP_STATUS_SILENT\<rparr>)"

definition guardian_dsp_analyze ::
  "guardian_acquisition_signal_block ptr \<Rightarrow> guardian_dsp_features ptr
     \<Rightarrow> guardian_dsp_result \<times> guardian_dsp_features ptr" where
  "guardian_dsp_analyze signal_block features =
     (case (signal_block, features) of
        (Some block, Some _) \<Rightarrow>
          if unat (sb_sample_count block) \<noteq> GUARDIAN_DSP_FFT_SIZE then (GUARDIAN_DSP_ERROR_LENGTH, features)
          else if sb_sample_rate_hz block = 0 then (GUARDIAN_DSP_ERROR_SAMPLE_RATE, features)
          else (GUARDIAN_DSP_OK, Some (block_features block))
      | _ \<Rightarrow> (GUARDIAN_DSP_ERROR_NULL_ARGUMENT, features))"

definition guardian_dsp_encode_payload ::
  "guardian_dsp_features ptr \<Rightarrow> u8 list ptr \<Rightarrow> u16 \<Rightarrow> u16 ptr \<Rightarrow> guardian_protocol_result \<times> u8 list ptr \<times> u16 ptr" where
  "guardian_dsp_encode_payload features pl payload_capacity plen =
     (case (features, pl, plen) of
        (Some f, Some b, Some _) \<Rightarrow>
          if payload_capacity < GUARDIAN_DSP_PAYLOAD_SIZE then (GUARDIAN_PROTOCOL_ERROR_OUTPUT_TOO_SMALL, pl, plen)
          else
            let b1 = b[0 := GUARDIAN_DSP_SCHEMA_VERSION, 1 := 0];
                b2 = guardian_dsp_write_u32_be b1 2 (df_block_sequence f);
                b3 = guardian_dsp_write_u16_be b2 6 (df_sample_rate_hz f);
                b4 = guardian_dsp_write_u16_be b3 8 (df_rms_mg f);
                b5 = guardian_dsp_write_u16_be b4 10 (df_peak_mg f);
                b6 = guardian_dsp_write_u16_be b5 12 (df_crest_factor_milli f);
                b7 = guardian_dsp_write_u32_be b6 14 (df_dominant_frequency_centi_hz f);
                b8 = guardian_dsp_write_u16_be b7 18 (df_dominant_peak_mg f);
                b9 = guardian_dsp_write_u32_be b8 20 (df_spectral_centroid_centi_hz f);
                b10 = guardian_dsp_write_u16_be b9 24 (df_low_band_permille f);
                b11 = guardian_dsp_write_u16_be b10 26 (df_mid_band_permille f);
                b12 = guardian_dsp_write_u16_be b11 28 (df_high_band_permille f);
                b13 = guardian_dsp_write_u16_be b12 30 (df_acquisition_status_flags f)
            in (GUARDIAN_PROTOCOL_OK, Some b13, Some GUARDIAN_DSP_PAYLOAD_SIZE)
      | _ \<Rightarrow> (GUARDIAN_PROTOCOL_ERROR_NULL_ARGUMENT, pl, plen))"

definition guardian_dsp_handle_request ::
  "guardian_dsp_features ptr \<Rightarrow> u8 \<Rightarrow> guardian_frame ptr \<Rightarrow> guardian_frame ptr
     \<Rightarrow> guardian_protocol_result \<times> guardian_frame ptr" where
  "guardian_dsp_handle_request features features_valid request response =
     (case (request, response) of
        (Some req, Some resp) \<Rightarrow>
          if command req \<noteq> GUARDIAN_COMMAND_GET_DSP_FEATURES
          then (GUARDIAN_PROTOCOL_OK, Some (guardian_dsp_make_error req resp GUARDIAN_ERROR_UNKNOWN_COMMAND))
          else if message_type req \<noteq> GUARDIAN_MESSAGE_REQUEST
          then (GUARDIAN_PROTOCOL_OK, Some (guardian_dsp_make_error req resp GUARDIAN_ERROR_MALFORMED_FRAME))
          else if payload_length req \<noteq> 0
          then (GUARDIAN_PROTOCOL_OK, Some (guardian_dsp_make_error req resp GUARDIAN_ERROR_INVALID_PAYLOAD))
          else if features_valid = 0 \<or> features = None
          then (GUARDIAN_PROTOCOL_OK, Some (guardian_dsp_make_error req resp GUARDIAN_ERROR_BUSY))
          else
            (case guardian_dsp_encode_payload features (Some (payload resp)) 256 (Some (payload_length resp)) of
               (r, pl, plen) \<Rightarrow>
                 (r, Some (resp\<lparr>message_type := GUARDIAN_MESSAGE_RESPONSE, command := command req,
                    flags := GUARDIAN_SUPPORTED_FLAGS, sequence := sequence req,
                    payload := the pl, payload_length := the plen\<rparr>)))
      | _ \<Rightarrow> (GUARDIAN_PROTOCOL_ERROR_NULL_ARGUMENT, response))"


section \<open>The handler answers every request\<close>

lemma length_dsp_write [simp]:
  "length (guardian_dsp_write_u16_be b i v) = length b" "length (guardian_dsp_write_u32_be b i w) = length b"
  by (simp_all add: guardian_dsp_write_u16_be_def guardian_dsp_write_u32_be_def)

lemma dsp_error_answers [intro]: "wf_frame resp \<Longrightarrow> answers req (guardian_dsp_make_error req resp e)"
  by (simp add: guardian_dsp_make_error_def answers_def encodable_def wf_frame_def guardian_message_type_is_valid_def)

lemma dsp_payload_written:
  "length p = 256 \<Longrightarrow> \<exists>b. guardian_dsp_encode_payload (Some f) (Some p) 256 (Some n) = (GUARDIAN_PROTOCOL_OK, Some b, Some 32)
     \<and> length b = 256"
  by (simp add: guardian_dsp_encode_payload_def Let_def)

lemma dsp_service_answers:
  assumes "wf_frame resp"
  shows "\<exists>resp'. guardian_dsp_handle_request f v (Some req) (Some resp) = (GUARDIAN_PROTOCOL_OK, Some resp') \<and> answers req resp'"
proof (cases f)
  case (Some g)
  obtain b where "guardian_dsp_encode_payload (Some g) (Some (payload resp)) 256 (Some (payload_length resp))
      = (GUARDIAN_PROTOCOL_OK, Some b, Some 32)" "length b = 256"
    using dsp_payload_written[of "payload resp" g] assms unfolding wf_frame_def by blast
  moreover have "answers req (resp\<lparr>message_type := GUARDIAN_MESSAGE_RESPONSE, command := command req,
      flags := GUARDIAN_SUPPORTED_FLAGS, sequence := sequence req, payload := b, payload_length := 32\<rparr>)"
    using calculation(2) by (simp add: answers_def encodable_def wf_frame_def guardian_message_type_is_valid_def)
  ultimately show ?thesis
    using dsp_error_answers[OF assms]
    by (cases "command req = GUARDIAN_COMMAND_GET_DSP_FEATURES") (simp_all add: guardian_dsp_handle_request_def Some)
qed (use assms in \<open>auto simp: guardian_dsp_handle_request_def\<close>)

definition dsp_handle :: "guardian_dsp_features ptr \<times> u8 \<Rightarrow> guardian_frame \<Rightarrow> guardian_frame
    \<Rightarrow> guardian_protocol_result \<times> (guardian_dsp_features ptr \<times> u8) \<times> guardian_frame" where
  "dsp_handle s req resp =
     (case guardian_dsp_handle_request (fst s) (snd s) (Some req) (Some resp) of (r, resp') \<Rightarrow> (r, s, the resp'))"

interpretation dsp: frame_service "\<lambda>_. True" dsp_handle
proof
  fix s :: "guardian_dsp_features ptr \<times> u8" and resp req r s' resp'
  assume "wf_frame resp" "dsp_handle s req resp = (r, s', resp')"
  then show "r = GUARDIAN_PROTOCOL_OK \<and> True \<and> answers req resp'"
    using dsp_service_answers[of resp "fst s" "snd s" req] by (auto simp: dsp_handle_def)
qed

section \<open>Bounds of the spectrum\<close>

lemma billionths_bounded: "\<bar>z\<bar> \<le> 1000000000 \<Longrightarrow> f32_bounded 1 (billionths z)"
proof -
  assume "\<bar>z\<bar> \<le> 1000000000"
  then have "- 1000000000 \<le> (of_int z :: rat)" "(of_int z :: rat) \<le> 1000000000"
    by (metis abs_le_iff minus_le_iff of_int_le_iff of_int_minus of_int_numeral, metis abs_le_iff of_int_le_iff of_int_numeral)
  then show ?thesis unfolding billionths_def by (intro round32_within) simp_all
qed

lemma tables_bounded:
  "list_all (f32_bounded 1) guardian_dsp_hann" "list_all (f32_bounded 1) guardian_dsp_twiddle_real"
  "list_all (f32_bounded 1) guardian_dsp_twiddle_imag"
  "length guardian_dsp_hann = 64" "length guardian_dsp_twiddle_real = 32" "length guardian_dsp_twiddle_imag = 32"
  unfolding guardian_dsp_hann_def guardian_dsp_twiddle_real_def guardian_dsp_twiddle_imag_def
  by (simp_all add: billionths_bounded)

definition touched :: "nat \<Rightarrow> (nat \<times> nat) list \<Rightarrow> nat list" where
  "touched len ps = concat (map (\<lambda>(b, k). [b + k, b + k + len div 2]) ps)"

lemma stage_positions_ok:
  assumes "len \<in> {2, 4, 8, 16, 32, 64}"
  shows "distinct (touched len (stage_positions len)) \<and> list_all (\<lambda>i. i < 64) (touched len (stage_positions len))
    \<and> list_all (\<lambda>(b, k). k * (64 div len) < 32) (stage_positions len)"
proof -
  have "list_all (\<lambda>len. distinct (touched len (stage_positions len)) \<and> list_all (\<lambda>i. i < 64) (touched len (stage_positions len))
    \<and> list_all (\<lambda>(b, k). k * (64 div len) < 32) (stage_positions len)) [2, 4, 8, 16, 32, 64]"
    by code_simp
  then show ?thesis using assms by auto
qed

lemma butterfly_bounded:
  assumes "length re = 64" "length im = 64" "b + k < 64" "b + k + len div 2 < 64" "k * (64 div len) < 32"
    and x: "f32_bounded (pow2 e) (re ! (b + k))" "f32_bounded (pow2 e) (im ! (b + k))"
      "f32_bounded (pow2 e) (re ! (b + k + len div 2))" "f32_bounded (pow2 e) (im ! (b + k + len div 2))"
    and e: "0 \<le> e" "e < 100"
    and bf: "butterfly len (b, k) (re, im) = (re', im')"
  shows "length re' = 64" "length im' = 64"
    "\<And>i. i < 64 \<Longrightarrow> i \<noteq> b + k \<Longrightarrow> i \<noteq> b + k + len div 2 \<Longrightarrow> re' ! i = re ! i \<and> im' ! i = im ! i"
    "i = b + k \<or> i = b + k + len div 2 \<Longrightarrow> f32_bounded (pow2 (e + 2)) (re' ! i) \<and> f32_bounded (pow2 (e + 2)) (im' ! i)"
proof -
  let ?o = "b + k + len div 2" and ?t = "k * (64 div len)"
  have w: "f32_bounded 1 (guardian_dsp_twiddle_real ! ?t)" "f32_bounded 1 (guardian_dsp_twiddle_imag ! ?t)"
    using tables_bounded assms(5) by (simp_all add: list_all_length)
  have rep: "representable (pow2 e)" "representable (pow2 (e + 1))" "representable (pow2 (e + 2))"
    using e by (simp_all add: representable_pow2)
  have m: "f32_bounded (pow2 e) (f32_mul z w)" if "f32_bounded (pow2 e) z" "f32_bounded 1 w" for z w
    using that rep by (intro f32_mul_bounded[of "pow2 e" z 1 w]) simp_all
  have two: "pow2 e + pow2 e \<le> pow2 (e + 1)" "pow2 e + pow2 (e + 1) \<le> pow2 (e + 2)" by (simp_all add: pow2_add)
  have o1: "f32_bounded (pow2 (e + 1)) (f32_sub (f32_mul (re ! ?o) (guardian_dsp_twiddle_real ! ?t)) (f32_mul (im ! ?o) (guardian_dsp_twiddle_imag ! ?t)))"
    by (rule f32_sub_bounded[OF m m two(1) rep(2)]) (rule x w)+
  have o2: "f32_bounded (pow2 (e + 1)) (f32_add (f32_mul (re ! ?o) (guardian_dsp_twiddle_imag ! ?t)) (f32_mul (im ! ?o) (guardian_dsp_twiddle_real ! ?t)))"
    by (rule f32_add_bounded[OF m m two(1) rep(2)]) (rule x w)+
  note out = f32_add_bounded[OF x(1) o1 two(2) rep(3)] f32_sub_bounded[OF x(1) o1 two(2) rep(3)]
    f32_add_bounded[OF x(2) o2 two(2) rep(3)] f32_sub_bounded[OF x(2) o2 two(2) rep(3)]
  show "length re' = 64" "length im' = 64" using bf assms(1,2) by (auto simp: butterfly_def Let_def)
  show "\<And>i. i < 64 \<Longrightarrow> i \<noteq> b + k \<Longrightarrow> i \<noteq> ?o \<Longrightarrow> re' ! i = re ! i \<and> im' ! i = im ! i"
    using bf assms(1,2) by (auto simp: butterfly_def Let_def)
  show "i = b + k \<or> i = ?o \<Longrightarrow> f32_bounded (pow2 (e + 2)) (re' ! i) \<and> f32_bounded (pow2 (e + 2)) (im' ! i)"
    using bf assms(1-4) out by (auto simp: butterfly_def Let_def nth_list_update)
qed


text \<open>A spectrum whose 64 real and imaginary parts are bounded by \<open>2\<^sup>e\<close>.\<close>

definition spectrum_bounded :: "int \<Rightarrow> f32 list \<times> f32 list \<Rightarrow> bool" where
  "spectrum_bounded e st \<longleftrightarrow> length (fst st) = 64 \<and> length (snd st) = 64
     \<and> (\<forall>i<64. f32_bounded (pow2 e) (fst st ! i) \<and> f32_bounded (pow2 e) (snd st ! i))"

lemma butterflies_bounded:
  assumes "distinct (touched len ps)" "list_all (\<lambda>i. i < 64) (touched len ps)" "list_all (\<lambda>(b, k). k * (64 div len) < 32) ps"
    "length (fst st) = 64" "length (snd st) = 64"
    "\<And>i. i < 64 \<Longrightarrow> i \<in> set (touched len ps) \<Longrightarrow> f32_bounded (pow2 e) (fst st ! i) \<and> f32_bounded (pow2 e) (snd st ! i)"
    "\<And>i. i < 64 \<Longrightarrow> i \<notin> set (touched len ps) \<Longrightarrow> f32_bounded (pow2 (e + 2)) (fst st ! i) \<and> f32_bounded (pow2 (e + 2)) (snd st ! i)"
    "0 \<le> e" "e < 100"
  shows "spectrum_bounded (e + 2) (fold (butterfly len) ps st)"
  using assms
proof (induction ps arbitrary: st)
  case Nil
  then show ?case by (simp add: spectrum_bounded_def touched_def)
next
  case (Cons p ps)
  obtain b k re im where p: "p = (b, k)" "st = (re, im)" by (cases p, cases st)
  let ?o = "b + k + len div 2"
  obtain re' im' where bf: "butterfly len (b, k) (re, im) = (re', im')" by fastforce
  have t: "touched len (p # ps) = (b + k) # ?o # touched len ps" by (simp add: touched_def p)
  have pre: "length re = 64" "length im = 64" "b + k < 64" "?o < 64" "k * (64 div len) < 32" using Cons.prems(2-5) t p by simp_all
  have x: "f32_bounded (pow2 e) (re ! (b + k))" "f32_bounded (pow2 e) (im ! (b + k))"
      "f32_bounded (pow2 e) (re ! ?o)" "f32_bounded (pow2 e) (im ! ?o)"
    using Cons.prems(6)[of "b + k"] Cons.prems(6)[of ?o] t p pre by simp_all
  note bb = butterfly_bounded[OF pre x Cons.prems(8,9) bf]
  have rest: "distinct (touched len ps)" "list_all (\<lambda>i. i < 64) (touched len ps)" "list_all (\<lambda>(b, k). k * (64 div len) < 32) ps"
    "b + k \<notin> set (touched len ps)" "?o \<notin> set (touched len ps)"
    using Cons.prems(1-3) t by simp_all
  have "spectrum_bounded (e + 2) (fold (butterfly len) ps (re', im'))"
  proof (rule Cons.IH[OF rest(1-3)])
    show "length (fst (re', im')) = 64" "length (snd (re', im')) = 64" using bb(1,2) by simp_all
    show "f32_bounded (pow2 e) (fst (re', im') ! i) \<and> f32_bounded (pow2 e) (snd (re', im') ! i)"
      if "i < 64" "i \<in> set (touched len ps)" for i
      using bb(3)[of i] Cons.prems(6)[of i] that rest(4,5) t p by fastforce
    show "f32_bounded (pow2 (e + 2)) (fst (re', im') ! i) \<and> f32_bounded (pow2 (e + 2)) (snd (re', im') ! i)"
      if "i < 64" "i \<notin> set (touched len ps)" for i
      using bb(3)[of i] bb(4)[of i] Cons.prems(7)[of i] that t p by fastforce
  qed (use Cons.prems(8,9) in simp_all)
  then show ?case by (simp add: p bf)
qed

lemma stage_bounded:
  assumes "len \<in> {2, 4, 8, 16, 32, 64}" "spectrum_bounded e st" "0 \<le> e" "e < 100"
  shows "spectrum_bounded (e + 2) (fold (butterfly len) (stage_positions len) st)"
proof (rule butterflies_bounded)
  show "f32_bounded (pow2 (e + 2)) (fst st ! i) \<and> f32_bounded (pow2 (e + 2)) (snd st ! i)" if "i < 64" for i
    using assms(2) that pow2_mono[of e "e + 2"] by (auto simp: spectrum_bounded_def intro: f32_within_weaken)
qed (use stage_positions_ok[OF assms(1)] assms(2-4) in \<open>auto simp: spectrum_bounded_def\<close>)

lemma fft_stages_bounded: "spectrum_bounded e st \<Longrightarrow> 0 \<le> e \<Longrightarrow> e < 80 \<Longrightarrow> spectrum_bounded (e + 12) (fft_stages 2 st)"
proof -
  assume a: "spectrum_bounded e st" "0 \<le> e" "e < 80"
  have s: "fft_stages len st = fft_stages (2 * len) (fold (butterfly len) (stage_positions len) st)"
    if "0 < len" "len \<le> 64" for len st using that by (subst fft_stages.simps) simp
  have z: "fft_stages 128 st = st" for st by (subst fft_stages.simps) simp
  have "fft_stages 2 st = fold (butterfly 64) (stage_positions 64) (fold (butterfly 32) (stage_positions 32)
     (fold (butterfly 16) (stage_positions 16) (fold (butterfly 8) (stage_positions 8)
       (fold (butterfly 4) (stage_positions 4) (fold (butterfly 2) (stage_positions 2) st)))))"
    using s[of 2] s[of 4] s[of 8] s[of 16] s[of 32] s[of 64] z by simp
  moreover have "spectrum_bounded (e + 2 + 2 + 2 + 2 + 2 + 2) \<dots>"
    using a by (intro stage_bounded) simp_all
  ultimately show ?thesis by (simp add: add.assoc)
qed

section \<open>Bit reversal\<close>

text \<open>The six-bit reversal of an index, and the swaps the counter of the source performs.\<close>

definition reverse6 :: "nat \<Rightarrow> nat" where
  "reverse6 i = i mod 2 * 32 + i div 2 mod 2 * 16 + i div 4 mod 2 * 8 + i div 8 mod 2 * 4 + i div 16 mod 2 * 2 + i div 32 mod 2"

fun reversal_swaps :: "nat list \<Rightarrow> u16 \<Rightarrow> (nat \<times> nat) list" where
  "reversal_swaps [] r = []"
| "reversal_swaps (i # is) r =
     (let r' = reverse_carry r 32 in (if i < unat r' then [(i, unat r')] else []) @ reversal_swaps is r')"

definition swaps :: "(nat \<times> nat) list \<Rightarrow> 'a list \<Rightarrow> 'a list" where
  "swaps ps xs = fold (\<lambda>(i, j) ys. guardian_dsp_swap_float ys i j) ps xs"

lemma bit_reverse_swaps:
  "snd (fold bit_reverse_step is (r, re, im)) = (swaps (reversal_swaps is r) re, swaps (reversal_swaps is r) im)"
  by (induction "is" arbitrary: r re im) (auto simp: bit_reverse_step_def swaps_def Let_def)

lemma swaps_map:
  "list_all (\<lambda>(i, j). i < length xs \<and> j < length xs) ps \<Longrightarrow> swaps ps (map f xs) = map f (swaps ps xs)"
proof (induction ps arbitrary: xs)
  case (Cons p ps)
  obtain i j where p: "p = (i, j)" by (cases p)
  let ?ys = "guardian_dsp_swap_float xs i j"
  have "guardian_dsp_swap_float (map f xs) i j = map f ?ys"
    using Cons.prems p by (simp add: guardian_dsp_swap_float_def Let_def map_update)
  moreover have "length ?ys = length xs" by (simp add: guardian_dsp_swap_float_def Let_def)
  ultimately show ?case using Cons.IH[of ?ys] Cons.prems p by (simp add: swaps_def)
qed (simp add: swaps_def)

lemma reversal_swaps_eval:
  "list_all (\<lambda>(i, j). i < 64 \<and> j < 64) (reversal_swaps [1..<64] 0)"
  "swaps (reversal_swaps [1..<64] 0) [0..<64] = map reverse6 [0..<64]"
  by code_simp+

lemma bit_reverse_permutes:
  assumes "length re = 64" "length im = 64"
  shows "guardian_dsp_bit_reverse re im = (map (\<lambda>i. re ! reverse6 i) [0..<64], map (\<lambda>i. im ! reverse6 i) [0..<64])"
proof -
  have "swaps (reversal_swaps [1..<64] 0) xs = map (\<lambda>i. xs ! reverse6 i) [0..<64]" if "length xs = 64" for xs :: "'a list"
  proof -
    have "xs = map ((!) xs) [0..<64]" using that by (metis map_nth)
    then have "swaps (reversal_swaps [1..<64] 0) xs = swaps (reversal_swaps [1..<64] 0) (map ((!) xs) [0..<64])" by simp
    also have "\<dots> = map ((!) xs) (map reverse6 [0..<64])"
      using reversal_swaps_eval by (subst swaps_map) simp_all
    finally show ?thesis by (simp add: comp_def)
  qed
  then show ?thesis using assms by (simp only: guardian_dsp_bit_reverse_def bit_reverse_swaps)
qed

lemma reverse6_less: "reverse6 i < 64"
proof -
  have "i mod 2 \<le> 1" "i div 2 mod 2 \<le> 1" "i div 4 mod 2 \<le> 1" "i div 8 mod 2 \<le> 1" "i div 16 mod 2 \<le> 1" "i div 32 mod 2 \<le> 1"
    by simp_all
  then show ?thesis unfolding reverse6_def by linarith
qed

lemma fft64_bounded:
  assumes "spectrum_bounded e (re, im)" "0 \<le> e" "e < 80"
  shows "spectrum_bounded (e + 12) (guardian_dsp_fft64 re im)"
proof -
  have "spectrum_bounded e (guardian_dsp_bit_reverse re im)"
    using assms(1) by (simp add: spectrum_bounded_def bit_reverse_permutes reverse6_less)
  then show ?thesis unfolding guardian_dsp_fft64_def by (rule fft_stages_bounded[OF _ assms(2,3)])
qed

end
