(* ===== verification/Guardian_Health.thy ===== *)
theory Guardian_Health
  imports Guardian_DSP
begin

text \<open>
  The machine-health model of \<open>firmware/Health\<close>: the Welford baseline per feature, weighted
  deviation scoring in binary32 arithmetic, the READY/WARNING/ALARM persistence machine, and the
  GET_HEALTH_STATUS and BASELINE_CONTROL handler.
\<close>

section \<open>Types\<close>

datatype guardian_health_state =
    GUARDIAN_HEALTH_STATE_UNTRAINED | GUARDIAN_HEALTH_STATE_LEARNING
  | GUARDIAN_HEALTH_STATE_READY | GUARDIAN_HEALTH_STATE_WARNING | GUARDIAN_HEALTH_STATE_ALARM

fun guardian_health_state_value :: "guardian_health_state \<Rightarrow> u8" where
  "guardian_health_state_value GUARDIAN_HEALTH_STATE_UNTRAINED = 0"
| "guardian_health_state_value GUARDIAN_HEALTH_STATE_LEARNING = 1"
| "guardian_health_state_value GUARDIAN_HEALTH_STATE_READY = 2"
| "guardian_health_state_value GUARDIAN_HEALTH_STATE_WARNING = 3"
| "guardian_health_state_value GUARDIAN_HEALTH_STATE_ALARM = 4"

record guardian_health_status =
  hs_state :: guardian_health_state
  hs_baseline_samples :: u16
  hs_baseline_target :: u16
  hs_anomaly_score :: u16
  hs_health_score :: u16
  hs_max_deviation_milli :: u16
  hs_dominant_feature :: u8
  hs_consecutive_anomalous :: u8
  hs_quality_flags :: u16
  hs_block_sequence :: u32
  hs_current_rms_mg :: u16
  hs_current_crest_factor_milli :: u16
  hs_current_dominant_frequency_centi_hz :: u32
  hs_baseline_rms_mean_mg :: u16
  hs_baseline_rms_std_mg :: u16
  hs_exceeded_feature_mask :: u16
  hs_rejected_inputs :: u16


record guardian_health_stat =
  st_mean :: f32
  st_m2 :: f32

record guardian_health =
  hl_status :: guardian_health_status
  hl_stats :: "guardian_health_stat list"
  hl_baseline_sample_rate_hz :: u32
  hl_anomalous_streak :: u8
  hl_recovery_streak :: u8
  hl_rejected_inputs_total :: u32

abbreviation (input) GUARDIAN_HEALTH_SCHEMA_VERSION :: u8 where "GUARDIAN_HEALTH_SCHEMA_VERSION \<equiv> 1"
abbreviation (input) GUARDIAN_HEALTH_STATUS_PAYLOAD_SIZE :: u16 where "GUARDIAN_HEALTH_STATUS_PAYLOAD_SIZE \<equiv> 36"
abbreviation (input) GUARDIAN_BASELINE_CONTROL_PAYLOAD_SIZE :: u16 where "GUARDIAN_BASELINE_CONTROL_PAYLOAD_SIZE \<equiv> 4"
abbreviation (input) GUARDIAN_HEALTH_BASELINE_MIN_SAMPLES :: u16 where "GUARDIAN_HEALTH_BASELINE_MIN_SAMPLES \<equiv> 16"
abbreviation (input) GUARDIAN_HEALTH_BASELINE_MAX_SAMPLES :: u16 where "GUARDIAN_HEALTH_BASELINE_MAX_SAMPLES \<equiv> 1024"
abbreviation (input) GUARDIAN_HEALTH_FEATURE_COUNT :: nat where "GUARDIAN_HEALTH_FEATURE_COUNT \<equiv> 7"
abbreviation (input) GUARDIAN_HEALTH_FEATURE_NONE :: u8 where "GUARDIAN_HEALTH_FEATURE_NONE \<equiv> 0xFF"
abbreviation (input) GUARDIAN_HEALTH_FEATURE_RMS :: nat where "GUARDIAN_HEALTH_FEATURE_RMS \<equiv> 0"
abbreviation (input) GUARDIAN_HEALTH_QUALITY_REFERENCE_CALIBRATION :: u16 where "GUARDIAN_HEALTH_QUALITY_REFERENCE_CALIBRATION \<equiv> 0x0001"
abbreviation (input) GUARDIAN_HEALTH_QUALITY_INPUT_REJECTED :: u16 where "GUARDIAN_HEALTH_QUALITY_INPUT_REJECTED \<equiv> 0x0002"
abbreviation (input) GUARDIAN_HEALTH_QUALITY_SAMPLE_RATE_MISMATCH :: u16 where "GUARDIAN_HEALTH_QUALITY_SAMPLE_RATE_MISMATCH \<equiv> 0x0004"
abbreviation (input) GUARDIAN_HEALTH_QUALITY_BASELINE_READY :: u16 where "GUARDIAN_HEALTH_QUALITY_BASELINE_READY \<equiv> 0x0008"
abbreviation (input) GUARDIAN_HEALTH_QUALITY_ANOMALY_PRESENT :: u16 where "GUARDIAN_HEALTH_QUALITY_ANOMALY_PRESENT \<equiv> 0x0010"
abbreviation (input) GUARDIAN_BASELINE_ACTION_START :: u8 where "GUARDIAN_BASELINE_ACTION_START \<equiv> 1"
abbreviation (input) GUARDIAN_BASELINE_ACTION_RESET :: u8 where "GUARDIAN_BASELINE_ACTION_RESET \<equiv> 2"

abbreviation (input) GUARDIAN_HEALTH_WARNING_Z :: f32 where "GUARDIAN_HEALTH_WARNING_Z \<equiv> F32 3"
abbreviation (input) GUARDIAN_HEALTH_ALARM_Z :: f32 where "GUARDIAN_HEALTH_ALARM_Z \<equiv> F32 6"
abbreviation (input) GUARDIAN_HEALTH_RECOVERY_Z :: f32 where "GUARDIAN_HEALTH_RECOVERY_Z \<equiv> F32 2"
abbreviation (input) GUARDIAN_HEALTH_WARNING_STREAK :: u8 where "GUARDIAN_HEALTH_WARNING_STREAK \<equiv> 3"
abbreviation (input) GUARDIAN_HEALTH_ALARM_STREAK :: u8 where "GUARDIAN_HEALTH_ALARM_STREAK \<equiv> 2"
abbreviation (input) GUARDIAN_HEALTH_RECOVERY_STREAK :: u8 where "GUARDIAN_HEALTH_RECOVERY_STREAK \<equiv> 5"

definition guardian_health_rejected_acquisition_flags :: u16 where
  "guardian_health_rejected_acquisition_flags = GUARDIAN_ACQUISITION_STATUS_ADC_SATURATED
     OR GUARDIAN_ACQUISITION_STATUS_DMA_DROP OR GUARDIAN_ACQUISITION_STATUS_ADC_ERROR
     OR GUARDIAN_ACQUISITION_STATUS_DMA_ERROR"

definition guardian_health_sigma_floor :: "f32 list" where
  "guardian_health_sigma_floor = [F32 5, F32 50, F32 500, F32 500, F32 10, F32 10, F32 10]"

definition guardian_health_weight :: "f32 list" where
  "guardian_health_weight = map round32 [3 / 2, 6 / 5, 1, 9 / 10, 4 / 5, 4 / 5, 4 / 5]"

section \<open>Operations\<close>

definition guardian_health_increment_u32 :: "u32 \<Rightarrow> u32" where
  "guardian_health_increment_u32 v = (if v \<noteq> 0xFFFFFFFF then v + 1 else v)"

definition guardian_health_u16 :: "f32 \<Rightarrow> u16" where
  "guardian_health_u16 v =
     (if \<not> f32_less (F32 0) v then 0
      else if f32_le (F32 65535) v then 65535
      else word_of_int (f32_trunc (f32_add v (F32 (1 / 2)))))"

definition guardian_health_abs :: "f32 \<Rightarrow> f32" where
  "guardian_health_abs v = (if f32_less v (F32 0) then f32_neg v else v)"

definition guardian_health_vector :: "guardian_dsp_features \<Rightarrow> f32 list" where
  "guardian_health_vector f =
     [f32_of_nat (unat (df_rms_mg f)), f32_of_nat (unat (df_crest_factor_milli f)),
      f32_of_nat (unat (df_dominant_frequency_centi_hz f)), f32_of_nat (unat (df_spectral_centroid_centi_hz f)),
      f32_of_nat (unat (df_low_band_permille f)), f32_of_nat (unat (df_mid_band_permille f)),
      f32_of_nat (unat (df_high_band_permille f))]"

definition guardian_health_input_valid :: "guardian_dsp_features ptr \<Rightarrow> bool" where
  "guardian_health_input_valid features =
     (case features of
        None \<Rightarrow> False
      | Some f \<Rightarrow>
          if df_dsp_status_flags f AND GUARDIAN_DSP_STATUS_VALID = 0 then False
          else if df_acquisition_status_flags f AND GUARDIAN_ACQUISITION_STATUS_VALID = 0 then False
          else if df_acquisition_status_flags f AND guardian_health_rejected_acquisition_flags \<noteq> 0 then False
          else if df_sample_rate_hz f = 0 then False
          else True)"

definition guardian_health_sigma :: "guardian_health \<Rightarrow> nat \<Rightarrow> f32" where
  "guardian_health_sigma h feature =
     (let sigma = guardian_health_sigma_floor ! feature in
      if hs_baseline_samples (hl_status h) > 1
      then
        let variance = f32_div (st_m2 (hl_stats h ! feature)) (f32_of_nat (unat (hs_baseline_samples (hl_status h)) - 1))
        in if f32_less (F32 0) variance
           then let candidate = f32_sqrt variance in if f32_less sigma candidate then candidate else sigma
           else sigma
      else sigma)"

definition guardian_health_update_baseline_summary :: "guardian_health \<Rightarrow> guardian_health" where
  "guardian_health_update_baseline_summary h =
     (if hs_baseline_samples (hl_status h) = 0
      then h\<lparr>hl_status := (hl_status h)\<lparr>hs_baseline_rms_mean_mg := 0, hs_baseline_rms_std_mg := 0\<rparr>\<rparr>
      else h\<lparr>hl_status := (hl_status h)\<lparr>
        hs_baseline_rms_mean_mg := guardian_health_u16 (st_mean (hl_stats h ! GUARDIAN_HEALTH_FEATURE_RMS)),
        hs_baseline_rms_std_mg := guardian_health_u16 (guardian_health_sigma h GUARDIAN_HEALTH_FEATURE_RMS)\<rparr>\<rparr>)"

definition zero_health_status :: guardian_health_status where
  "zero_health_status = \<lparr>hs_state = GUARDIAN_HEALTH_STATE_UNTRAINED, hs_baseline_samples = 0, hs_baseline_target = 0,
     hs_anomaly_score = 0, hs_health_score = 0, hs_max_deviation_milli = 0, hs_dominant_feature = 0,
     hs_consecutive_anomalous = 0, hs_quality_flags = 0, hs_block_sequence = 0, hs_current_rms_mg = 0,
     hs_current_crest_factor_milli = 0, hs_current_dominant_frequency_centi_hz = 0, hs_baseline_rms_mean_mg = 0,
     hs_baseline_rms_std_mg = 0, hs_exceeded_feature_mask = 0, hs_rejected_inputs = 0\<rparr>"

definition initial_health :: guardian_health where
  "initial_health =
     \<lparr>hl_status = zero_health_status\<lparr>hs_state := GUARDIAN_HEALTH_STATE_UNTRAINED, hs_health_score := 1000,
        hs_dominant_feature := GUARDIAN_HEALTH_FEATURE_NONE\<rparr>,
      hl_stats = replicate GUARDIAN_HEALTH_FEATURE_COUNT \<lparr>st_mean = F32 0, st_m2 = F32 0\<rparr>,
      hl_baseline_sample_rate_hz = 0, hl_anomalous_streak = 0, hl_recovery_streak = 0, hl_rejected_inputs_total = 0\<rparr>"

definition guardian_health_reset :: "guardian_health ptr \<Rightarrow> guardian_health ptr" where
  "guardian_health_reset health = (case health of None \<Rightarrow> None | Some _ \<Rightarrow> Some initial_health)"

definition guardian_health_init :: "guardian_health ptr \<Rightarrow> guardian_health ptr" where
  "guardian_health_init health = guardian_health_reset health"

definition guardian_health_start_baseline :: "guardian_health ptr \<Rightarrow> u16 \<Rightarrow> bool \<times> guardian_health ptr" where
  "guardian_health_start_baseline health target_samples =
     (case health of
        None \<Rightarrow> (False, None)
      | Some _ \<Rightarrow>
          if target_samples < GUARDIAN_HEALTH_BASELINE_MIN_SAMPLES \<or> target_samples > GUARDIAN_HEALTH_BASELINE_MAX_SAMPLES
          then (False, health)
          else
            let h = the (guardian_health_reset health)
            in (True, Some (h\<lparr>hl_status := (hl_status h)\<lparr>hs_state := GUARDIAN_HEALTH_STATE_LEARNING,
                 hs_baseline_target := target_samples\<rparr>\<rparr>)))"

definition guardian_health_reject_input :: "guardian_health \<Rightarrow> u16 \<Rightarrow> guardian_health" where
  "guardian_health_reject_input h quality_flag =
     (let total' = guardian_health_increment_u32 (hl_rejected_inputs_total h) in
      h\<lparr>hl_rejected_inputs_total := total',
        hl_status := (hl_status h)\<lparr>hs_rejected_inputs := (if total' > 65535 then 65535 else ucast total'),
          hs_quality_flags := hs_quality_flags (hl_status h) OR quality_flag\<rparr>\<rparr>)"

text \<open>The body of the learning loop for one feature.\<close>

definition learn_stat :: "nat \<Rightarrow> f32 \<Rightarrow> guardian_health_stat \<Rightarrow> guardian_health_stat" where
  "learn_stat next_count v st =
     (let delta = f32_sub v (st_mean st);
          mean = f32_add (st_mean st) (f32_div delta (f32_of_nat next_count));
          delta_after = f32_sub v mean
      in \<lparr>st_mean = mean, st_m2 = f32_add (st_m2 st) (f32_mul delta delta_after)\<rparr>)"

definition guardian_health_learn :: "guardian_health \<Rightarrow> guardian_dsp_features \<Rightarrow> guardian_health" where
  "guardian_health_learn h f =
     (let v = guardian_health_vector f;
          h1 = (if hs_baseline_samples (hl_status h) = 0
                then h\<lparr>hl_baseline_sample_rate_hz := ucast (df_sample_rate_hz f)\<rparr> else h);
          next_count = hs_baseline_samples (hl_status h1) + 1;
          h2 = h1\<lparr>hl_stats := map (\<lambda>i. learn_stat (unat next_count) (v ! i) (hl_stats h1 ! i)) [0..<GUARDIAN_HEALTH_FEATURE_COUNT]\<rparr>;
          q = hs_quality_flags (hl_status h2);
          h3 = h2\<lparr>hl_status := (hl_status h2)\<lparr>hs_baseline_samples := next_count,
             hs_quality_flags := (if df_acquisition_status_flags f AND GUARDIAN_ACQUISITION_STATUS_DEFAULT_CALIBRATION \<noteq> 0
                then q OR GUARDIAN_HEALTH_QUALITY_REFERENCE_CALIBRATION else q),
             hs_block_sequence := df_block_sequence f,
             hs_current_rms_mg := df_rms_mg f,
             hs_current_crest_factor_milli := df_crest_factor_milli f,
             hs_current_dominant_frequency_centi_hz := df_dominant_frequency_centi_hz f\<rparr>\<rparr>;
          h4 = guardian_health_update_baseline_summary h3
      in if hs_baseline_samples (hl_status h4) \<ge> hs_baseline_target (hl_status h4)
         then h4\<lparr>hl_status := (hl_status h4)\<lparr>hs_state := GUARDIAN_HEALTH_STATE_READY,
            hs_quality_flags := hs_quality_flags (hl_status h4) OR GUARDIAN_HEALTH_QUALITY_BASELINE_READY,
            hs_anomaly_score := 0, hs_health_score := 1000, hs_dominant_feature := GUARDIAN_HEALTH_FEATURE_NONE\<rparr>\<rparr>
         else h4)"

text \<open>The scoring loop keeps the largest weighted deviation, its feature and the mask of features
  at warning level.\<close>

definition weighted_deviation :: "guardian_health \<Rightarrow> f32 list \<Rightarrow> nat \<Rightarrow> f32" where
  "weighted_deviation h v i =
     (let deviation = guardian_health_abs (f32_sub (v ! i) (st_mean (hl_stats h ! i)));
          normalized = f32_div deviation (guardian_health_sigma h i)
      in f32_mul normalized (guardian_health_weight ! i))"

definition score_step :: "guardian_health \<Rightarrow> f32 list \<Rightarrow> nat \<Rightarrow> f32 \<times> u8 \<times> u16 \<Rightarrow> f32 \<times> u8 \<times> u16" where
  "score_step h v i acc =
     (case acc of (maximum, dominant, exceeded) \<Rightarrow>
        let weighted = weighted_deviation h v i;
            exceeded' = (if f32_le GUARDIAN_HEALTH_WARNING_Z weighted then exceeded OR push_bit i 1 else exceeded)
        in if f32_less maximum weighted then (weighted, of_nat i, exceeded') else (maximum, dominant, exceeded'))"

definition score_loop :: "guardian_health \<Rightarrow> guardian_dsp_features \<Rightarrow> f32 \<times> u8 \<times> u16" where
  "score_loop h f =
     fold (score_step h (guardian_health_vector f)) [0..<GUARDIAN_HEALTH_FEATURE_COUNT] (F32 0, GUARDIAN_HEALTH_FEATURE_NONE, 0)"

text \<open>The persistence machine on the maximal weighted deviation.\<close>

definition saturating_inc :: "u8 \<Rightarrow> u8" where
  "saturating_inc v = (if v \<noteq> 255 then v + 1 else v)"

definition health_transition :: "f32 \<Rightarrow> guardian_health \<Rightarrow> guardian_health" where
  "health_transition z h =
     (let st = hs_state (hl_status h) in
      if f32_le GUARDIAN_HEALTH_ALARM_Z z
      then
        let streak = saturating_inc (hl_anomalous_streak h)
        in h\<lparr>hl_recovery_streak := 0, hl_anomalous_streak := streak,
             hl_status := (hl_status h)\<lparr>hs_state :=
               (if streak \<ge> GUARDIAN_HEALTH_ALARM_STREAK then GUARDIAN_HEALTH_STATE_ALARM
                else if st = GUARDIAN_HEALTH_STATE_READY then GUARDIAN_HEALTH_STATE_WARNING else st)\<rparr>\<rparr>
      else if f32_le GUARDIAN_HEALTH_WARNING_Z z
      then
        let streak = saturating_inc (hl_anomalous_streak h)
        in h\<lparr>hl_recovery_streak := 0, hl_anomalous_streak := streak,
             hl_status := (hl_status h)\<lparr>hs_state :=
               (if streak \<ge> GUARDIAN_HEALTH_WARNING_STREAK \<and> st \<noteq> GUARDIAN_HEALTH_STATE_ALARM
                then GUARDIAN_HEALTH_STATE_WARNING else st)\<rparr>\<rparr>
      else if f32_less z GUARDIAN_HEALTH_RECOVERY_Z
      then
        let streak = saturating_inc (hl_recovery_streak h)
        in h\<lparr>hl_anomalous_streak := 0, hl_recovery_streak := streak,
             hl_status := (hl_status h)\<lparr>hs_state :=
               (if streak \<ge> GUARDIAN_HEALTH_RECOVERY_STREAK
                   \<and> (st = GUARDIAN_HEALTH_STATE_WARNING \<or> st = GUARDIAN_HEALTH_STATE_ALARM)
                then GUARDIAN_HEALTH_STATE_READY else st)\<rparr>\<rparr>
      else h\<lparr>hl_anomalous_streak := 0, hl_recovery_streak := 0\<rparr>)"

definition guardian_health_score :: "guardian_health \<Rightarrow> guardian_dsp_features \<Rightarrow> guardian_health" where
  "guardian_health_score h f =
     (case score_loop h f of (z, dominant, exceeded) \<Rightarrow>
        let raw = f32_mul (f32_div z GUARDIAN_HEALTH_ALARM_Z) (F32 1000);
            score = (if f32_less (F32 1000) raw then F32 1000 else raw);
            anomaly = guardian_health_u16 score;
            s = hl_status h;
            s' = s\<lparr>hs_block_sequence := df_block_sequence f,
               hs_current_rms_mg := df_rms_mg f,
               hs_current_crest_factor_milli := df_crest_factor_milli f,
               hs_current_dominant_frequency_centi_hz := df_dominant_frequency_centi_hz f,
               hs_exceeded_feature_mask := exceeded,
               hs_dominant_feature := dominant,
               hs_max_deviation_milli := guardian_health_u16 (f32_mul z (F32 1000)),
               hs_anomaly_score := anomaly,
               hs_health_score := 1000 - anomaly,
               hs_quality_flags := (if f32_le GUARDIAN_HEALTH_WARNING_Z z
                 then hs_quality_flags s OR GUARDIAN_HEALTH_QUALITY_ANOMALY_PRESENT
                 else hs_quality_flags s AND NOT GUARDIAN_HEALTH_QUALITY_ANOMALY_PRESENT)\<rparr>;
            h' = health_transition z (h\<lparr>hl_status := s'\<rparr>)
        in h'\<lparr>hl_status := (hl_status h')\<lparr>hs_consecutive_anomalous := hl_anomalous_streak h'\<rparr>\<rparr>)"

definition guardian_health_ingest :: "guardian_health ptr \<Rightarrow> guardian_dsp_features ptr \<Rightarrow> guardian_health ptr" where
  "guardian_health_ingest health features =
     (case health of
        None \<Rightarrow> None
      | Some h \<Rightarrow>
          if \<not> guardian_health_input_valid features
          then Some (guardian_health_reject_input h GUARDIAN_HEALTH_QUALITY_INPUT_REJECTED)
          else
            let f = the features in
            if hl_baseline_sample_rate_hz h \<noteq> 0 \<and> ucast (df_sample_rate_hz f) \<noteq> hl_baseline_sample_rate_hz h
            then Some (guardian_health_reject_input h
                   (GUARDIAN_HEALTH_QUALITY_INPUT_REJECTED OR GUARDIAN_HEALTH_QUALITY_SAMPLE_RATE_MISMATCH))
            else if hs_state (hl_status h) = GUARDIAN_HEALTH_STATE_LEARNING
            then Some (guardian_health_learn h f)
            else if hs_state (hl_status h) = GUARDIAN_HEALTH_STATE_READY
                 \<or> hs_state (hl_status h) = GUARDIAN_HEALTH_STATE_WARNING
                 \<or> hs_state (hl_status h) = GUARDIAN_HEALTH_STATE_ALARM
            then Some (guardian_health_score h f)
            else health)"

definition guardian_health_status_of :: "guardian_health ptr \<Rightarrow> guardian_health_status" where
  "guardian_health_status_of health = (case health of None \<Rightarrow> zero_health_status | Some h \<Rightarrow> hl_status h)"

definition guardian_health_write_u16_be :: "u8 list \<Rightarrow> nat \<Rightarrow> u16 \<Rightarrow> u8 list" where
  "guardian_health_write_u16_be output i v =
     output[i := ucast (drop_bit 8 v AND 0xFF), i + 1 := ucast (v AND 0xFF)]"

definition guardian_health_write_u32_be :: "u8 list \<Rightarrow> nat \<Rightarrow> u32 \<Rightarrow> u8 list" where
  "guardian_health_write_u32_be output i v =
     output[i := ucast (drop_bit 24 v AND 0xFF), i + 1 := ucast (drop_bit 16 v AND 0xFF),
       i + 2 := ucast (drop_bit 8 v AND 0xFF), i + 3 := ucast (v AND 0xFF)]"

definition guardian_health_read_u16_be :: "u8 list \<Rightarrow> nat \<Rightarrow> u16" where
  "guardian_health_read_u16_be input i = push_bit 8 (ucast (input ! i)) OR ucast (input ! (i + 1))"

definition guardian_health_make_error ::
  "guardian_frame \<Rightarrow> guardian_frame \<Rightarrow> guardian_error_code \<Rightarrow> guardian_frame" where
  "guardian_health_make_error request response err =
     response\<lparr>message_type := GUARDIAN_MESSAGE_ERROR, command := command request,
       flags := GUARDIAN_SUPPORTED_FLAGS, sequence := sequence request, payload_length := 1,
       payload := (payload response)[0 := guardian_error_value err]\<rparr>"

definition guardian_health_encode_status_payload ::
  "guardian_health_status ptr \<Rightarrow> u8 list ptr \<Rightarrow> u16 \<Rightarrow> u16 ptr \<Rightarrow> guardian_protocol_result \<times> u8 list ptr \<times> u16 ptr" where
  "guardian_health_encode_status_payload status pl payload_capacity plen =
     (case (status, pl, plen) of
        (Some s, Some b, Some _) \<Rightarrow>
          if payload_capacity < GUARDIAN_HEALTH_STATUS_PAYLOAD_SIZE
          then (GUARDIAN_PROTOCOL_ERROR_OUTPUT_TOO_SMALL, pl, plen)
          else
            let b1 = b[0 := GUARDIAN_HEALTH_SCHEMA_VERSION, 1 := guardian_health_state_value (hs_state s)];
                b2 = guardian_health_write_u16_be b1 2 (hs_baseline_samples s);
                b3 = guardian_health_write_u16_be b2 4 (hs_baseline_target s);
                b4 = guardian_health_write_u16_be b3 6 (hs_anomaly_score s);
                b5 = guardian_health_write_u16_be b4 8 (hs_health_score s);
                b6 = guardian_health_write_u16_be b5 10 (hs_max_deviation_milli s);
                b7 = b6[12 := hs_dominant_feature s, 13 := hs_consecutive_anomalous s];
                b8 = guardian_health_write_u16_be b7 14 (hs_quality_flags s);
                b9 = guardian_health_write_u32_be b8 16 (hs_block_sequence s);
                b10 = guardian_health_write_u16_be b9 20 (hs_current_rms_mg s);
                b11 = guardian_health_write_u16_be b10 22 (hs_current_crest_factor_milli s);
                b12 = guardian_health_write_u32_be b11 24 (hs_current_dominant_frequency_centi_hz s);
                b13 = guardian_health_write_u16_be b12 28 (hs_baseline_rms_mean_mg s);
                b14 = guardian_health_write_u16_be b13 30 (hs_baseline_rms_std_mg s);
                b15 = guardian_health_write_u16_be b14 32 (hs_exceeded_feature_mask s);
                b16 = guardian_health_write_u16_be b15 34 (hs_rejected_inputs s)
            in (GUARDIAN_PROTOCOL_OK, Some b16, Some GUARDIAN_HEALTH_STATUS_PAYLOAD_SIZE)
      | _ \<Rightarrow> (GUARDIAN_PROTOCOL_ERROR_NULL_ARGUMENT, pl, plen))"

text \<open>The BASELINE_CONTROL branch of the handler, after the command test.\<close>

definition baseline_response :: "guardian_health \<Rightarrow> u8 \<Rightarrow> guardian_frame \<Rightarrow> guardian_frame \<Rightarrow> guardian_frame" where
  "baseline_response h action request response =
     response\<lparr>message_type := GUARDIAN_MESSAGE_RESPONSE, command := command request,
       flags := GUARDIAN_SUPPORTED_FLAGS, sequence := sequence request,
       payload := guardian_health_write_u16_be ((payload response)[0 := GUARDIAN_HEALTH_SCHEMA_VERSION, 1 := action]) 2
         (if action = GUARDIAN_BASELINE_ACTION_START then hs_baseline_target (hl_status h) else 0),
       payload_length := GUARDIAN_BASELINE_CONTROL_PAYLOAD_SIZE\<rparr>"

definition baseline_control :: "guardian_health \<Rightarrow> guardian_frame \<Rightarrow> guardian_frame \<Rightarrow> guardian_health \<times> guardian_frame" where
  "baseline_control h request response =
     (if payload_length request \<noteq> GUARDIAN_BASELINE_CONTROL_PAYLOAD_SIZE
      then (h, guardian_health_make_error request response GUARDIAN_ERROR_INVALID_PAYLOAD)
      else if payload request ! 0 \<noteq> GUARDIAN_HEALTH_SCHEMA_VERSION
      then (h, guardian_health_make_error request response GUARDIAN_ERROR_INVALID_PAYLOAD)
      else
        let action = payload request ! 1;
            target_samples = guardian_health_read_u16_be (payload request) 2 in
        if action = GUARDIAN_BASELINE_ACTION_START
        then (case guardian_health_start_baseline (Some h) target_samples of (ok, h') \<Rightarrow>
                if \<not> ok then (the h', guardian_health_make_error request response GUARDIAN_ERROR_INVALID_PAYLOAD)
                else (the h', baseline_response (the h') action request response))
        else if action = GUARDIAN_BASELINE_ACTION_RESET
        then if target_samples \<noteq> 0
             then (h, guardian_health_make_error request response GUARDIAN_ERROR_INVALID_PAYLOAD)
             else let h' = the (guardian_health_reset (Some h)) in (h', baseline_response h' action request response)
        else (h, guardian_health_make_error request response GUARDIAN_ERROR_INVALID_PAYLOAD))"

definition guardian_health_handle_request ::
  "guardian_health ptr \<Rightarrow> guardian_frame ptr \<Rightarrow> guardian_frame ptr
     \<Rightarrow> guardian_protocol_result \<times> guardian_health ptr \<times> guardian_frame ptr" where
  "guardian_health_handle_request health request response =
     (case (health, request, response) of
        (Some h, Some req, Some resp) \<Rightarrow>
          if message_type req \<noteq> GUARDIAN_MESSAGE_REQUEST
          then (GUARDIAN_PROTOCOL_OK, health, Some (guardian_health_make_error req resp GUARDIAN_ERROR_MALFORMED_FRAME))
          else if command req = GUARDIAN_COMMAND_GET_HEALTH_STATUS
          then
            if payload_length req \<noteq> 0
            then (GUARDIAN_PROTOCOL_OK, health, Some (guardian_health_make_error req resp GUARDIAN_ERROR_INVALID_PAYLOAD))
            else
              (case guardian_health_encode_status_payload (Some (hl_status h)) (Some (payload resp)) 256
                     (Some (payload_length resp)) of
                 (r, pl, plen) \<Rightarrow>
                   (r, health, Some (resp\<lparr>message_type := GUARDIAN_MESSAGE_RESPONSE, command := command req,
                      flags := GUARDIAN_SUPPORTED_FLAGS, sequence := sequence req,
                      payload := the pl, payload_length := the plen\<rparr>)))
          else if command req = GUARDIAN_COMMAND_BASELINE_CONTROL
          then (case baseline_control h req resp of (h', resp') \<Rightarrow> (GUARDIAN_PROTOCOL_OK, Some h', Some resp'))
          else (GUARDIAN_PROTOCOL_OK, health, Some (guardian_health_make_error req resp GUARDIAN_ERROR_UNKNOWN_COMMAND))
      | _ \<Rightarrow> (GUARDIAN_PROTOCOL_ERROR_NULL_ARGUMENT, health, response))"

end
