(* ===== verification/Guardian_Control.thy ===== *)
theory Guardian_Control
  imports Guardian_Health "HOL-Library.Sublist"
begin

text \<open>
  The supervisory control of \<open>firmware/Control/Src/guardian_control.c\<close>: the permit state machine
  with its latched faults, the board-specific output adapter as a callback with explicit context,
  the local inputs, the host actions and the request handler. The lemmas establish the safety
  envelope of the run permit, its agreement with the commanded output, the persistence of
  latched faults, the impossibility of an automatic restart, and that the host can never
  energize the machine.
\<close>

section \<open>Constants and types\<close>

abbreviation (input) GUARDIAN_CONTROL_SCHEMA_VERSION :: u8 where
  "GUARDIAN_CONTROL_SCHEMA_VERSION \<equiv> 1"
abbreviation (input) GUARDIAN_CONTROL_STATUS_PAYLOAD_SIZE :: u16 where
  "GUARDIAN_CONTROL_STATUS_PAYLOAD_SIZE \<equiv> 28"
abbreviation (input) GUARDIAN_CONTROL_COMMAND_REQUEST_SIZE :: u16 where
  "GUARDIAN_CONTROL_COMMAND_REQUEST_SIZE \<equiv> 2"
abbreviation (input) GUARDIAN_CONTROL_COMMAND_RESPONSE_SIZE :: u16 where
  "GUARDIAN_CONTROL_COMMAND_RESPONSE_SIZE \<equiv> 4"

abbreviation (input) GUARDIAN_CONTROL_FAULT_HEALTH_NOT_READY :: u16 where
  "GUARDIAN_CONTROL_FAULT_HEALTH_NOT_READY \<equiv> 0x0001"
abbreviation (input) GUARDIAN_CONTROL_FAULT_HEALTH_ALARM :: u16 where
  "GUARDIAN_CONTROL_FAULT_HEALTH_ALARM \<equiv> 0x0002"
abbreviation (input) GUARDIAN_CONTROL_FAULT_INTERLOCK_OPEN :: u16 where
  "GUARDIAN_CONTROL_FAULT_INTERLOCK_OPEN \<equiv> 0x0004"
abbreviation (input) GUARDIAN_CONTROL_FAULT_OUTPUT_FAILURE :: u16 where
  "GUARDIAN_CONTROL_FAULT_OUTPUT_FAILURE \<equiv> 0x0008"
abbreviation (input) GUARDIAN_CONTROL_FAULT_OUTPUT_UNAVAILABLE :: u16 where
  "GUARDIAN_CONTROL_FAULT_OUTPUT_UNAVAILABLE \<equiv> 0x0010"

abbreviation (input) GUARDIAN_CONTROL_REASON_HEALTH_NOT_READY :: u8 where
  "GUARDIAN_CONTROL_REASON_HEALTH_NOT_READY \<equiv> 0x80"
abbreviation (input) GUARDIAN_CONTROL_REASON_HEALTH_ALARM :: u8 where
  "GUARDIAN_CONTROL_REASON_HEALTH_ALARM \<equiv> 0x81"
abbreviation (input) GUARDIAN_CONTROL_REASON_INTERLOCK :: u8 where
  "GUARDIAN_CONTROL_REASON_INTERLOCK \<equiv> 0x82"
abbreviation (input) GUARDIAN_CONTROL_REASON_OUTPUT_FAILURE :: u8 where
  "GUARDIAN_CONTROL_REASON_OUTPUT_FAILURE \<equiv> 0x83"
abbreviation (input) GUARDIAN_CONTROL_REASON_LOCAL_RUN :: u8 where
  "GUARDIAN_CONTROL_REASON_LOCAL_RUN \<equiv> 0x84"
abbreviation (input) GUARDIAN_CONTROL_REASON_LOCAL_STOP :: u8 where
  "GUARDIAN_CONTROL_REASON_LOCAL_STOP \<equiv> 0x85"
abbreviation (input) GUARDIAN_CONTROL_REASON_HEALTH_WARNING :: u8 where
  "GUARDIAN_CONTROL_REASON_HEALTH_WARNING \<equiv> 0x86"
abbreviation (input) GUARDIAN_CONTROL_REASON_HEALTH_RECOVERED :: u8 where
  "GUARDIAN_CONTROL_REASON_HEALTH_RECOVERED \<equiv> 0x87"

datatype guardian_control_state =
    GUARDIAN_CONTROL_STATE_DISABLED | GUARDIAN_CONTROL_STATE_ARMED
  | GUARDIAN_CONTROL_STATE_ACTIVE | GUARDIAN_CONTROL_STATE_DEGRADED
  | GUARDIAN_CONTROL_STATE_FAULT_LATCHED

fun guardian_control_state_value :: "guardian_control_state \<Rightarrow> u8" where
  "guardian_control_state_value GUARDIAN_CONTROL_STATE_DISABLED = 0"
| "guardian_control_state_value GUARDIAN_CONTROL_STATE_ARMED = 1"
| "guardian_control_state_value GUARDIAN_CONTROL_STATE_ACTIVE = 2"
| "guardian_control_state_value GUARDIAN_CONTROL_STATE_DEGRADED = 3"
| "guardian_control_state_value GUARDIAN_CONTROL_STATE_FAULT_LATCHED = 4"

text \<open>A host action arrives as a byte, so it keeps its integer value.\<close>

abbreviation (input) GUARDIAN_CONTROL_ACTION_ARM :: c_enum where "GUARDIAN_CONTROL_ACTION_ARM \<equiv> 1"
abbreviation (input) GUARDIAN_CONTROL_ACTION_DISARM :: c_enum where
  "GUARDIAN_CONTROL_ACTION_DISARM \<equiv> 2"
abbreviation (input) GUARDIAN_CONTROL_ACTION_CLEAR_FAULT :: c_enum where
  "GUARDIAN_CONTROL_ACTION_CLEAR_FAULT \<equiv> 3"

datatype guardian_control_result =
    GUARDIAN_CONTROL_OK | GUARDIAN_CONTROL_ERROR_NULL_ARGUMENT
  | GUARDIAN_CONTROL_ERROR_DENIED | GUARDIAN_CONTROL_ERROR_OUTPUT

text \<open>The output adapter of the board: a callback that reports success, and its context.\<close>

record 'c guardian_control_output =
  out_apply :: "('c ptr \<Rightarrow> u8 \<Rightarrow> bool \<times> 'c ptr) ptr"
  out_context :: "'c ptr"

record guardian_control_status_t =
  cs_state :: guardian_control_state
  cs_supervision_enabled :: u8
  cs_local_run_request :: u8
  cs_run_permit :: u8
  cs_interlock_closed :: u8
  cs_health_state :: guardian_health_state
  cs_output_available :: u8
  cs_latched_faults :: u16
  cs_active_faults :: u16
  cs_health_score :: u16
  cs_anomaly_score :: u16
  cs_transition_count :: u32
  cs_fault_latch_count :: u32
  cs_last_transition_reason :: u8
  cs_reserved :: u8
  cs_reserved2 :: u16

record 'c guardian_control =
  ct_status :: guardian_control_status_t
  ct_output :: "'c guardian_control_output"

text \<open>Update of the status inside the control record.\<close>

definition upd :: "(guardian_control_status_t \<Rightarrow> guardian_control_status_t) \<Rightarrow> 'c guardian_control \<Rightarrow> 'c guardian_control" where
  "upd f c = c\<lparr>ct_status := f (ct_status c)\<rparr>"

section \<open>Policy\<close>

definition guardian_control_increment_u32 :: "u32 ptr \<Rightarrow> u32 ptr" where
  "guardian_control_increment_u32 v =
     (case v of None \<Rightarrow> None | Some x \<Rightarrow> Some (if x \<noteq> 0xFFFFFFFF then x + 1 else x))"

definition guardian_control_transition ::
  "'c guardian_control \<Rightarrow> guardian_control_state \<Rightarrow> u8 \<Rightarrow> 'c guardian_control" where
  "guardian_control_transition c st reason =
     (if cs_state (ct_status c) \<noteq> st
      then upd (\<lambda>s. s\<lparr>cs_state := st,
             cs_transition_count := the (guardian_control_increment_u32 (Some (cs_transition_count s))),
             cs_last_transition_reason := reason\<rparr>) c
      else c)"

definition guardian_control_active_faults :: "'c guardian_control \<Rightarrow> u16" where
  "guardian_control_active_faults c =
     (let s = ct_status c;
          f0 = 0;
          f1 = (if cs_health_state s = GUARDIAN_HEALTH_STATE_UNTRAINED
                   \<or> cs_health_state s = GUARDIAN_HEALTH_STATE_LEARNING
                then f0 OR GUARDIAN_CONTROL_FAULT_HEALTH_NOT_READY else f0);
          f2 = (if cs_health_state s = GUARDIAN_HEALTH_STATE_ALARM
                then f1 OR GUARDIAN_CONTROL_FAULT_HEALTH_ALARM else f1);
          f3 = (if cs_interlock_closed s = 0
                then f2 OR GUARDIAN_CONTROL_FAULT_INTERLOCK_OPEN else f2);
          f4 = (if cs_output_available s = 0
                then f3 OR GUARDIAN_CONTROL_FAULT_OUTPUT_UNAVAILABLE else f3)
      in if cs_latched_faults s AND GUARDIAN_CONTROL_FAULT_OUTPUT_FAILURE \<noteq> 0
         then f4 OR GUARDIAN_CONTROL_FAULT_OUTPUT_FAILURE else f4)"

definition refresh_active :: "'c guardian_control \<Rightarrow> 'c guardian_control" where
  "refresh_active c = upd (\<lambda>s. s\<lparr>cs_active_faults := guardian_control_active_faults c\<rparr>) c"

text \<open>A call of the output callback: its success, and the control with the new callback context.\<close>

definition call_output :: "'c guardian_control \<Rightarrow> u8 \<Rightarrow> bool \<times> 'c guardian_control" where
  "call_output c v =
     (case the (out_apply (ct_output c)) (out_context (ct_output c)) v of
        (ok, context') \<Rightarrow> (ok, c\<lparr>ct_output := (ct_output c)\<lparr>out_context := context'\<rparr>\<rparr>))"

definition guardian_control_latch_fault ::
  "'c guardian_control \<Rightarrow> u16 \<Rightarrow> u8 \<Rightarrow> 'c guardian_control" where
  "guardian_control_latch_fault c faults reason =
     (let new_faults = faults AND NOT (cs_latched_faults (ct_status c));
          c1 = upd (\<lambda>s. s\<lparr>cs_latched_faults := cs_latched_faults s OR faults\<rparr>) c;
          c2 = (if new_faults \<noteq> 0
                then upd (\<lambda>s. s\<lparr>cs_fault_latch_count :=
                       the (guardian_control_increment_u32 (Some (cs_fault_latch_count s)))\<rparr>) c1
                else c1);
          c3 = upd (\<lambda>s. s\<lparr>cs_supervision_enabled := 0, cs_run_permit := 0\<rparr>) c2;
          c4 = (if out_apply (ct_output c3) \<noteq> None
                then (case call_output c3 0 of
                        (ok, c') \<Rightarrow>
                          if \<not> ok
                          then upd (\<lambda>s. s\<lparr>cs_latched_faults :=
                                 cs_latched_faults s OR GUARDIAN_CONTROL_FAULT_OUTPUT_FAILURE\<rparr>) c'
                          else c')
                else c3)
      in refresh_active (guardian_control_transition c4 GUARDIAN_CONTROL_STATE_FAULT_LATCHED reason))"

abbreviation (input) latch_output_failure :: "'c guardian_control \<Rightarrow> 'c guardian_control" where
  "latch_output_failure c \<equiv> guardian_control_latch_fault c GUARDIAN_CONTROL_FAULT_OUTPUT_FAILURE
     GUARDIAN_CONTROL_REASON_OUTPUT_FAILURE"

definition guardian_control_apply_output ::
  "'c guardian_control \<Rightarrow> u8 \<Rightarrow> guardian_control_result \<times> 'c guardian_control" where
  "guardian_control_apply_output c run_permit =
     (if out_apply (ct_output c) = None
      then (GUARDIAN_CONTROL_ERROR_DENIED,
            refresh_active (upd (\<lambda>s. s\<lparr>cs_output_available := 0\<rparr>) c))
      else
        let permit = (if run_permit \<noteq> 0 then 1 else 0) in
        case call_output c permit of
          (ok, c1) \<Rightarrow>
            if \<not> ok then (GUARDIAN_CONTROL_ERROR_OUTPUT, latch_output_failure c1)
            else (GUARDIAN_CONTROL_OK, upd (\<lambda>s. s\<lparr>cs_run_permit := permit\<rparr>) c1))"

definition guardian_control_evaluate :: "'c guardian_control \<Rightarrow> 'c guardian_control" where
  "guardian_control_evaluate c0 =
     (let c = refresh_active c0; s = ct_status c in
      if cs_latched_faults s \<noteq> 0
      then
        let c1 = snd (guardian_control_apply_output c 0);
            c2 = upd (\<lambda>s. s\<lparr>cs_supervision_enabled := 0\<rparr>) c1
        in guardian_control_transition c2 GUARDIAN_CONTROL_STATE_FAULT_LATCHED
             (cs_last_transition_reason (ct_status c2))
      else if cs_supervision_enabled s = 0
      then
        let (ok, c1) = (if out_apply (ct_output c) \<noteq> None then call_output c 0 else (True, c)) in
        if \<not> ok then latch_output_failure c1
        else
          let c2 = upd (\<lambda>s. s\<lparr>cs_run_permit := 0\<rparr>) c1
          in guardian_control_transition c2 GUARDIAN_CONTROL_STATE_DISABLED
               (cs_last_transition_reason (ct_status c2))
      else if cs_active_faults s AND GUARDIAN_CONTROL_FAULT_INTERLOCK_OPEN \<noteq> 0
      then guardian_control_latch_fault c GUARDIAN_CONTROL_FAULT_INTERLOCK_OPEN
             GUARDIAN_CONTROL_REASON_INTERLOCK
      else if cs_active_faults s AND GUARDIAN_CONTROL_FAULT_HEALTH_NOT_READY \<noteq> 0
      then guardian_control_latch_fault c GUARDIAN_CONTROL_FAULT_HEALTH_NOT_READY
             GUARDIAN_CONTROL_REASON_HEALTH_NOT_READY
      else if cs_active_faults s AND GUARDIAN_CONTROL_FAULT_HEALTH_ALARM \<noteq> 0
      then guardian_control_latch_fault c GUARDIAN_CONTROL_FAULT_HEALTH_ALARM
             GUARDIAN_CONTROL_REASON_HEALTH_ALARM
      else if cs_local_run_request s = 0
      then
        case guardian_control_apply_output c 0 of
          (r, c1) \<Rightarrow>
            if r \<noteq> GUARDIAN_CONTROL_OK then c1
            else guardian_control_transition c1 GUARDIAN_CONTROL_STATE_ARMED
                   GUARDIAN_CONTROL_REASON_LOCAL_STOP
      else
        case guardian_control_apply_output c 1 of
          (r, c1) \<Rightarrow>
            if r \<noteq> GUARDIAN_CONTROL_OK then c1
            else if cs_health_state (ct_status c1) = GUARDIAN_HEALTH_STATE_WARNING
            then guardian_control_transition c1 GUARDIAN_CONTROL_STATE_DEGRADED
                   GUARDIAN_CONTROL_REASON_HEALTH_WARNING
            else guardian_control_transition c1 GUARDIAN_CONTROL_STATE_ACTIVE
                   (if cs_state (ct_status c1) = GUARDIAN_CONTROL_STATE_DEGRADED
                    then GUARDIAN_CONTROL_REASON_HEALTH_RECOVERED
                    else GUARDIAN_CONTROL_REASON_LOCAL_RUN))"

section \<open>Interface\<close>

definition zero_control_status :: guardian_control_status_t where
  "zero_control_status = \<lparr>cs_state = GUARDIAN_CONTROL_STATE_DISABLED, cs_supervision_enabled = 0,
     cs_local_run_request = 0, cs_run_permit = 0, cs_interlock_closed = 0,
     cs_health_state = GUARDIAN_HEALTH_STATE_UNTRAINED, cs_output_available = 0,
     cs_latched_faults = 0, cs_active_faults = 0, cs_health_score = 0, cs_anomaly_score = 0,
     cs_transition_count = 0, cs_fault_latch_count = 0, cs_last_transition_reason = 0,
     cs_reserved = 0, cs_reserved2 = 0\<rparr>"

definition initial_control :: "'c guardian_control" where
  "initial_control =
     \<lparr>ct_status = zero_control_status\<lparr>cs_state := GUARDIAN_CONTROL_STATE_DISABLED,
        cs_health_state := GUARDIAN_HEALTH_STATE_UNTRAINED, cs_health_score := 1000,
        cs_output_available := 0, cs_interlock_closed := 0,
        cs_active_faults := GUARDIAN_CONTROL_FAULT_HEALTH_NOT_READY
          OR GUARDIAN_CONTROL_FAULT_INTERLOCK_OPEN OR GUARDIAN_CONTROL_FAULT_OUTPUT_UNAVAILABLE\<rparr>,
      ct_output = \<lparr>out_apply = None, out_context = None\<rparr>\<rparr>"

definition guardian_control_init :: "'c guardian_control ptr \<Rightarrow> 'c guardian_control ptr" where
  "guardian_control_init control = map_option (\<lambda>_. initial_control) control"

definition guardian_control_configure_output ::
  "'c guardian_control ptr \<Rightarrow> 'c guardian_control_output ptr
     \<Rightarrow> guardian_control_result \<times> 'c guardian_control ptr" where
  "guardian_control_configure_output control output =
     (case (control, output) of
        (Some c, Some out) \<Rightarrow>
          if out_apply out = None then (GUARDIAN_CONTROL_ERROR_NULL_ARGUMENT, control)
          else
            let c1 = upd (\<lambda>s. s\<lparr>cs_output_available := 1\<rparr>) (c\<lparr>ct_output := out\<rparr>) in
            case call_output c1 0 of
              (ok, c2) \<Rightarrow>
                if \<not> ok then (GUARDIAN_CONTROL_ERROR_OUTPUT, Some (latch_output_failure c2))
                else (GUARDIAN_CONTROL_OK,
                      Some (refresh_active (upd (\<lambda>s. s\<lparr>cs_run_permit := 0\<rparr>) c2)))
      | _ \<Rightarrow> (GUARDIAN_CONTROL_ERROR_NULL_ARGUMENT, control))"

definition guardian_control_set_local_run_request ::
  "'c guardian_control ptr \<Rightarrow> u8 \<Rightarrow> 'c guardian_control ptr" where
  "guardian_control_set_local_run_request control requested =
     map_option (\<lambda>c. guardian_control_evaluate
       (upd (\<lambda>s. s\<lparr>cs_local_run_request := (if requested \<noteq> 0 then 1 else 0)\<rparr>) c)) control"

definition guardian_control_set_interlock ::
  "'c guardian_control ptr \<Rightarrow> u8 \<Rightarrow> 'c guardian_control ptr" where
  "guardian_control_set_interlock control is_closed =
     map_option (\<lambda>c. guardian_control_evaluate
       (upd (\<lambda>s. s\<lparr>cs_interlock_closed := (if is_closed \<noteq> 0 then 1 else 0)\<rparr>) c)) control"

definition guardian_control_update_health ::
  "'c guardian_control ptr \<Rightarrow> guardian_health_status ptr \<Rightarrow> 'c guardian_control ptr" where
  "guardian_control_update_health control health =
     (case (control, health) of
        (Some c, Some h) \<Rightarrow>
          Some (guardian_control_evaluate
            (upd (\<lambda>s. s\<lparr>cs_health_state := hs_state h, cs_health_score := hs_health_score h,
               cs_anomaly_score := hs_anomaly_score h\<rparr>) c))
      | _ \<Rightarrow> control)"

text \<open>The three host actions.\<close>

definition action_disarm :: "'c guardian_control \<Rightarrow> c_enum \<Rightarrow> guardian_control_result \<times> 'c guardian_control" where
  "action_disarm c action =
     (let c1 = upd (\<lambda>s. s\<lparr>cs_supervision_enabled := 0\<rparr>) c;
          (ok, c2) = (if out_apply (ct_output c1) \<noteq> None then call_output c1 0 else (True, c1)) in
      if \<not> ok then (GUARDIAN_CONTROL_ERROR_OUTPUT, latch_output_failure c2)
      else
        let c3 = upd (\<lambda>s. s\<lparr>cs_run_permit := 0\<rparr>) c2;
            c4 = (if cs_latched_faults (ct_status c3) \<noteq> 0
                  then guardian_control_transition c3 GUARDIAN_CONTROL_STATE_FAULT_LATCHED (ucast action)
                  else guardian_control_transition c3 GUARDIAN_CONTROL_STATE_DISABLED (ucast action))
        in (GUARDIAN_CONTROL_OK, refresh_active c4))"

definition action_clear_fault ::
  "'c guardian_control \<Rightarrow> c_enum \<Rightarrow> guardian_control_result \<times> 'c guardian_control" where
  "action_clear_fault c action =
     (let s = ct_status c in
      if cs_supervision_enabled s \<noteq> 0 then (GUARDIAN_CONTROL_ERROR_DENIED, c)
      else if cs_local_run_request s \<noteq> 0 then (GUARDIAN_CONTROL_ERROR_DENIED, c)
      else if cs_health_state s \<noteq> GUARDIAN_HEALTH_STATE_READY then (GUARDIAN_CONTROL_ERROR_DENIED, c)
      else if cs_interlock_closed s = 0 then (GUARDIAN_CONTROL_ERROR_DENIED, c)
      else if out_apply (ct_output c) = None then (GUARDIAN_CONTROL_ERROR_DENIED, c)
      else
        case call_output c 0 of
          (ok, c1) \<Rightarrow>
            if \<not> ok then (GUARDIAN_CONTROL_ERROR_OUTPUT, latch_output_failure c1)
            else
              let c2 = upd (\<lambda>s. s\<lparr>cs_latched_faults := 0, cs_run_permit := 0\<rparr>) c1;
                  c3 = guardian_control_transition c2 GUARDIAN_CONTROL_STATE_DISABLED (ucast action)
              in (GUARDIAN_CONTROL_OK, refresh_active c3))"

definition action_arm :: "'c guardian_control \<Rightarrow> c_enum \<Rightarrow> guardian_control_result \<times> 'c guardian_control" where
  "action_arm c action =
     (let s = ct_status c in
      if cs_latched_faults s \<noteq> 0 then (GUARDIAN_CONTROL_ERROR_DENIED, c)
      else if cs_local_run_request s \<noteq> 0 then (GUARDIAN_CONTROL_ERROR_DENIED, c)
      else if cs_health_state s \<noteq> GUARDIAN_HEALTH_STATE_READY then (GUARDIAN_CONTROL_ERROR_DENIED, c)
      else if cs_interlock_closed s = 0 then (GUARDIAN_CONTROL_ERROR_DENIED, c)
      else if out_apply (ct_output c) = None then (GUARDIAN_CONTROL_ERROR_DENIED, c)
      else
        case guardian_control_apply_output c 0 of
          (r, c1) \<Rightarrow>
            if r \<noteq> GUARDIAN_CONTROL_OK then (GUARDIAN_CONTROL_ERROR_OUTPUT, c1)
            else
              let c2 = upd (\<lambda>s. s\<lparr>cs_supervision_enabled := 1\<rparr>) c1;
                  c3 = guardian_control_transition c2 GUARDIAN_CONTROL_STATE_ARMED (ucast action)
              in (GUARDIAN_CONTROL_OK, refresh_active c3))"

definition guardian_control_action ::
  "'c guardian_control ptr \<Rightarrow> c_enum \<Rightarrow> guardian_control_result \<times> 'c guardian_control ptr" where
  "guardian_control_action control action =
     (case control of
        None \<Rightarrow> (GUARDIAN_CONTROL_ERROR_NULL_ARGUMENT, None)
      | Some c \<Rightarrow>
          apsnd Some
            (if action = GUARDIAN_CONTROL_ACTION_DISARM then action_disarm c action
             else if action = GUARDIAN_CONTROL_ACTION_CLEAR_FAULT then action_clear_fault c action
             else if action = GUARDIAN_CONTROL_ACTION_ARM then action_arm c action
             else (GUARDIAN_CONTROL_ERROR_DENIED, c)))"

definition guardian_control_status :: "'c guardian_control ptr \<Rightarrow> guardian_control_status_t" where
  "guardian_control_status control =
     (case control of
        None \<Rightarrow> zero_control_status\<lparr>cs_state := GUARDIAN_CONTROL_STATE_DISABLED,
          cs_health_state := GUARDIAN_HEALTH_STATE_UNTRAINED, cs_health_score := 1000,
          cs_active_faults := GUARDIAN_CONTROL_FAULT_OUTPUT_UNAVAILABLE\<rparr>
      | Some c \<Rightarrow> ct_status c)"

definition guardian_control_run_permit :: "'c guardian_control ptr \<Rightarrow> u8" where
  "guardian_control_run_permit control =
     (case control of None \<Rightarrow> 0 | Some c \<Rightarrow> cs_run_permit (ct_status c))"

section \<open>Requests\<close>

definition guardian_control_write_u16_be :: "u8 list \<Rightarrow> nat \<Rightarrow> u16 \<Rightarrow> u8 list" where
  "guardian_control_write_u16_be output i v =
     output[i := ucast (drop_bit 8 v AND 0xFF), i + 1 := ucast (v AND 0xFF)]"

definition guardian_control_write_u32_be :: "u8 list \<Rightarrow> nat \<Rightarrow> u32 \<Rightarrow> u8 list" where
  "guardian_control_write_u32_be output i v =
     output[i := ucast (drop_bit 24 v AND 0xFF), i + 1 := ucast (drop_bit 16 v AND 0xFF),
       i + 2 := ucast (drop_bit 8 v AND 0xFF), i + 3 := ucast (v AND 0xFF)]"

definition guardian_control_make_error ::
  "guardian_frame \<Rightarrow> guardian_frame \<Rightarrow> guardian_error_code \<Rightarrow> guardian_frame" where
  "guardian_control_make_error request response err =
     response\<lparr>message_type := GUARDIAN_MESSAGE_ERROR, command := command request,
       flags := GUARDIAN_SUPPORTED_FLAGS, sequence := sequence request, payload_length := 1,
       payload := (payload response)[0 := guardian_error_value err]\<rparr>"

definition guardian_control_encode_status_payload ::
  "guardian_control_status_t ptr \<Rightarrow> u8 list ptr \<Rightarrow> u16 \<Rightarrow> u16 ptr
     \<Rightarrow> guardian_protocol_result \<times> u8 list ptr \<times> u16 ptr" where
  "guardian_control_encode_status_payload status pl payload_capacity plen =
     (case (status, pl, plen) of
        (Some s, Some b, Some _) \<Rightarrow>
          if payload_capacity < GUARDIAN_CONTROL_STATUS_PAYLOAD_SIZE
          then (GUARDIAN_PROTOCOL_ERROR_OUTPUT_TOO_SMALL, pl, plen)
          else
            let b1 = b[0 := GUARDIAN_CONTROL_SCHEMA_VERSION, 1 := guardian_control_state_value (cs_state s),
                  2 := cs_supervision_enabled s, 3 := cs_local_run_request s, 4 := cs_run_permit s,
                  5 := cs_interlock_closed s, 6 := guardian_health_state_value (cs_health_state s),
                  7 := cs_output_available s];
                b2 = guardian_control_write_u16_be b1 8 (cs_latched_faults s);
                b3 = guardian_control_write_u16_be b2 10 (cs_active_faults s);
                b4 = guardian_control_write_u16_be b3 12 (cs_health_score s);
                b5 = guardian_control_write_u16_be b4 14 (cs_anomaly_score s);
                b6 = guardian_control_write_u32_be b5 16 (cs_transition_count s);
                b7 = guardian_control_write_u32_be b6 20 (cs_fault_latch_count s);
                b8 = b7[24 := cs_last_transition_reason s, 25 := 0];
                b9 = guardian_control_write_u16_be b8 26 0
            in (GUARDIAN_PROTOCOL_OK, Some b9, Some GUARDIAN_CONTROL_STATUS_PAYLOAD_SIZE)
      | _ \<Rightarrow> (GUARDIAN_PROTOCOL_ERROR_NULL_ARGUMENT, pl, plen))"

definition control_command ::
  "'c guardian_control \<Rightarrow> guardian_frame \<Rightarrow> guardian_frame \<Rightarrow> 'c guardian_control \<times> guardian_frame" where
  "control_command c request response =
     (if payload_length request \<noteq> GUARDIAN_CONTROL_COMMAND_REQUEST_SIZE
      then (c, guardian_control_make_error request response GUARDIAN_ERROR_INVALID_PAYLOAD)
      else if payload request ! 0 \<noteq> GUARDIAN_CONTROL_SCHEMA_VERSION
      then (c, guardian_control_make_error request response GUARDIAN_ERROR_INVALID_PAYLOAD)
      else
        let action = ucast (payload request ! 1) in
        if action \<noteq> GUARDIAN_CONTROL_ACTION_ARM \<and> action \<noteq> GUARDIAN_CONTROL_ACTION_DISARM
           \<and> action \<noteq> GUARDIAN_CONTROL_ACTION_CLEAR_FAULT
        then (c, guardian_control_make_error request response GUARDIAN_ERROR_INVALID_PAYLOAD)
        else
          case guardian_control_action (Some c) action of
            (result, control') \<Rightarrow>
              let c' = the control' in
              if result = GUARDIAN_CONTROL_ERROR_DENIED
              then (c', guardian_control_make_error request response GUARDIAN_ERROR_BUSY)
              else if result = GUARDIAN_CONTROL_ERROR_OUTPUT
              then (c', guardian_control_make_error request response GUARDIAN_ERROR_INTERNAL)
              else if result \<noteq> GUARDIAN_CONTROL_OK
              then (c', guardian_control_make_error request response GUARDIAN_ERROR_INVALID_PAYLOAD)
              else
                (c', response\<lparr>message_type := GUARDIAN_MESSAGE_RESPONSE, command := command request,
                   flags := GUARDIAN_SUPPORTED_FLAGS, sequence := sequence request,
                   payload := (payload response)[0 := GUARDIAN_CONTROL_SCHEMA_VERSION, 1 := ucast action,
                     2 := guardian_control_state_value (cs_state (ct_status c')),
                     3 := cs_run_permit (ct_status c')],
                   payload_length := GUARDIAN_CONTROL_COMMAND_RESPONSE_SIZE\<rparr>))"

definition guardian_control_handle_request ::
  "'c guardian_control ptr \<Rightarrow> guardian_frame ptr \<Rightarrow> guardian_frame ptr
     \<Rightarrow> guardian_protocol_result \<times> 'c guardian_control ptr \<times> guardian_frame ptr" where
  "guardian_control_handle_request control request response =
     (case (control, request, response) of
        (Some c, Some req, Some resp) \<Rightarrow>
          if message_type req \<noteq> GUARDIAN_MESSAGE_REQUEST
          then (GUARDIAN_PROTOCOL_OK, control,
                Some (guardian_control_make_error req resp GUARDIAN_ERROR_MALFORMED_FRAME))
          else if command req = GUARDIAN_COMMAND_GET_CONTROL_STATUS
          then
            if payload_length req \<noteq> 0
            then (GUARDIAN_PROTOCOL_OK, control,
                  Some (guardian_control_make_error req resp GUARDIAN_ERROR_INVALID_PAYLOAD))
            else
              (case guardian_control_encode_status_payload (Some (ct_status c)) (Some (payload resp)) 256
                     (Some (payload_length resp)) of
                 (r, pl, plen) \<Rightarrow>
                   (r, control, Some (resp\<lparr>message_type := GUARDIAN_MESSAGE_RESPONSE,
                      command := command req, flags := GUARDIAN_SUPPORTED_FLAGS,
                      sequence := sequence req, payload := the pl, payload_length := the plen\<rparr>)))
          else if command req = GUARDIAN_COMMAND_CONTROL_COMMAND
          then (case control_command c req resp of (c', resp') \<Rightarrow> (GUARDIAN_PROTOCOL_OK, Some c', Some resp'))
          else (GUARDIAN_PROTOCOL_OK, control,
                Some (guardian_control_make_error req resp GUARDIAN_ERROR_UNKNOWN_COMMAND))
      | _ \<Rightarrow> (GUARDIAN_PROTOCOL_ERROR_NULL_ARGUMENT, control, response))"

section \<open>Invariant\<close>

text \<open>
  The documented behaviour of an output adapter that the physical claim needs: its context
  remembers the value it was last called with (\<open>cmd\<close> reads it), whether or not the call
  reported success.
\<close>

definition records_command :: "('c ptr \<Rightarrow> u8) \<Rightarrow> ('c ptr \<Rightarrow> u8 \<Rightarrow> bool \<times> 'c ptr) \<Rightarrow> bool" where
  "records_command cmd f \<longleftrightarrow> (\<forall>context v. cmd (snd (f context v)) = v)"

definition supervised_state :: "guardian_control_state \<Rightarrow> bool" where
  "supervised_state st \<longleftrightarrow> st \<in> {GUARDIAN_CONTROL_STATE_ARMED, GUARDIAN_CONTROL_STATE_ACTIVE,
     GUARDIAN_CONTROL_STATE_DEGRADED}"

text \<open>What holds also in the middle of an operation, after an input has been stored.\<close>

definition control_base :: "('c ptr \<Rightarrow> u8) \<Rightarrow> 'c guardian_control \<Rightarrow> bool" where
  "control_base cmd c \<longleftrightarrow>
     (let s = ct_status c in
      cs_output_available s = (if out_apply (ct_output c) = None then 0 else 1) \<and>
      cs_local_run_request s \<in> {0, 1} \<and> cs_interlock_closed s \<in> {0, 1} \<and>
      (\<forall>f. out_apply (ct_output c) = Some f \<longrightarrow> records_command cmd f))"

definition control_pre :: "('c ptr \<Rightarrow> u8) \<Rightarrow> 'c guardian_control \<Rightarrow> bool" where
  "control_pre cmd c \<longleftrightarrow>
     (let s = ct_status c in
      control_base cmd c \<and>
      (cs_latched_faults s \<noteq> 0 \<longleftrightarrow> cs_state s = GUARDIAN_CONTROL_STATE_FAULT_LATCHED) \<and>
      cs_supervision_enabled s = (if supervised_state (cs_state s) then 1 else 0) \<and>
      (cs_supervision_enabled s \<noteq> 0 \<longrightarrow> out_apply (ct_output c) \<noteq> None) \<and>
      cs_run_permit s \<in> {0, 1} \<and> (cs_run_permit s \<noteq> 0 \<longrightarrow> cs_supervision_enabled s \<noteq> 0) \<and>
      (out_apply (ct_output c) \<noteq> None \<longrightarrow> cmd (out_context (ct_output c)) = cs_run_permit s))"

text \<open>The envelope in which the run permit may be asserted.\<close>

definition permit_envelope :: "guardian_control_status_t \<Rightarrow> bool" where
  "permit_envelope s \<longleftrightarrow>
     cs_supervision_enabled s = 1 \<and> cs_latched_faults s = 0 \<and> cs_interlock_closed s = 1 \<and>
     cs_local_run_request s = 1 \<and> cs_output_available s = 1 \<and>
     (cs_health_state s = GUARDIAN_HEALTH_STATE_READY \<and> cs_state s = GUARDIAN_CONTROL_STATE_ACTIVE \<or>
      cs_health_state s = GUARDIAN_HEALTH_STATE_WARNING \<and> cs_state s = GUARDIAN_CONTROL_STATE_DEGRADED)"

definition control_inv :: "('c ptr \<Rightarrow> u8) \<Rightarrow> 'c guardian_control \<Rightarrow> bool" where
  "control_inv cmd c \<longleftrightarrow> control_pre cmd c \<and>
     cs_active_faults (ct_status c) = guardian_control_active_faults c \<and>
     (cs_run_permit (ct_status c) \<noteq> 0 \<longrightarrow> permit_envelope (ct_status c))"

lemma supervised_state_simps [simp]:
  "\<not> supervised_state GUARDIAN_CONTROL_STATE_DISABLED" "supervised_state GUARDIAN_CONTROL_STATE_ARMED"
  "supervised_state GUARDIAN_CONTROL_STATE_ACTIVE" "supervised_state GUARDIAN_CONTROL_STATE_DEGRADED"
  "\<not> supervised_state GUARDIAN_CONTROL_STATE_FAULT_LATCHED"
  by (simp_all add: supervised_state_def)

lemmas control_inv_defs = control_inv_def control_pre_def control_base_def permit_envelope_def Let_def

lemma ct_upd [simp]: "ct_status (upd f c) = f (ct_status c)" "ct_output (upd f c) = ct_output c"
  by (simp_all add: upd_def)

lemma control_increment_sat [simp]: "the (guardian_control_increment_u32 (Some x)) = sat_inc_u32 x"
  by (simp add: guardian_control_increment_u32_def sat_inc_u32_def)

lemma active_faults_cong:
  "cs_health_state (ct_status c) = cs_health_state (ct_status d) \<Longrightarrow>
   cs_interlock_closed (ct_status c) = cs_interlock_closed (ct_status d) \<Longrightarrow>
   cs_output_available (ct_status c) = cs_output_available (ct_status d) \<Longrightarrow>
   cs_latched_faults (ct_status c) = cs_latched_faults (ct_status d) \<Longrightarrow>
   guardian_control_active_faults c = guardian_control_active_faults d"
  by (simp add: guardian_control_active_faults_def)

lemma refresh_active_simps [simp]:
  "ct_status (refresh_active c) = (ct_status c)\<lparr>cs_active_faults := guardian_control_active_faults c\<rparr>"
  "ct_output (refresh_active c) = ct_output c"
  "guardian_control_active_faults (refresh_active c) = guardian_control_active_faults c"
  by (simp_all add: refresh_active_def) (rule active_faults_cong; simp)

lemma transition_simps [simp]:
  "ct_output (guardian_control_transition c st r) = ct_output c"
  "cs_state (ct_status (guardian_control_transition c st r)) = st"
  "cs_supervision_enabled (ct_status (guardian_control_transition c st r)) = cs_supervision_enabled (ct_status c)"
  "cs_local_run_request (ct_status (guardian_control_transition c st r)) = cs_local_run_request (ct_status c)"
  "cs_run_permit (ct_status (guardian_control_transition c st r)) = cs_run_permit (ct_status c)"
  "cs_interlock_closed (ct_status (guardian_control_transition c st r)) = cs_interlock_closed (ct_status c)"
  "cs_health_state (ct_status (guardian_control_transition c st r)) = cs_health_state (ct_status c)"
  "cs_output_available (ct_status (guardian_control_transition c st r)) = cs_output_available (ct_status c)"
  "cs_latched_faults (ct_status (guardian_control_transition c st r)) = cs_latched_faults (ct_status c)"
  "cs_active_faults (ct_status (guardian_control_transition c st r)) = cs_active_faults (ct_status c)"
  "guardian_control_active_faults (guardian_control_transition c st r) = guardian_control_active_faults c"
  by (simp_all add: guardian_control_transition_def) (intro impI active_faults_cong; simp)

lemma call_outputE:
  assumes "call_output c v = (ok, d)"
  obtains "ct_status d = ct_status c" "out_apply (ct_output d) = out_apply (ct_output c)"
    "\<And>cmd f. out_apply (ct_output c) = Some f \<Longrightarrow> records_command cmd f \<Longrightarrow> cmd (out_context (ct_output d)) = v"
proof -
  from assms have "d = c\<lparr>ct_output := (ct_output c)\<lparr>out_context :=
      snd (the (out_apply (ct_output c)) (out_context (ct_output c)) v)\<rparr>\<rparr>"
    by (auto simp: call_output_def split: prod.splits)
  with that show thesis by (simp add: records_command_def)
qed

text \<open>Which faults are active, read off bit by bit.\<close>

lemma active_fault_bits:
  "guardian_control_active_faults c AND 4 \<noteq> 0 \<longleftrightarrow> cs_interlock_closed (ct_status c) = 0"
  "guardian_control_active_faults c AND 1 \<noteq> 0 \<longleftrightarrow>
     cs_health_state (ct_status c) \<in> {GUARDIAN_HEALTH_STATE_UNTRAINED, GUARDIAN_HEALTH_STATE_LEARNING}"
  "guardian_control_active_faults c AND 2 \<noteq> 0 \<longleftrightarrow> cs_health_state (ct_status c) = GUARDIAN_HEALTH_STATE_ALARM"
  by (auto simp: guardian_control_active_faults_def Let_def)

lemma latch_fault_effect:
  fixes c :: "'c guardian_control" and faults :: u16 and reason :: u8
  assumes "faults \<noteq> 0"
  defines "d \<equiv> guardian_control_latch_fault c faults reason"
  shows "cs_supervision_enabled (ct_status d) = 0" "cs_run_permit (ct_status d) = 0"
    "cs_state (ct_status d) = GUARDIAN_CONTROL_STATE_FAULT_LATCHED"
    "cs_latched_faults (ct_status d) \<in> {cs_latched_faults (ct_status c) OR faults,
       cs_latched_faults (ct_status c) OR faults OR 8}"
    "cs_local_run_request (ct_status d) = cs_local_run_request (ct_status c)"
    "cs_interlock_closed (ct_status d) = cs_interlock_closed (ct_status c)"
    "cs_health_state (ct_status d) = cs_health_state (ct_status c)"
    "cs_output_available (ct_status d) = cs_output_available (ct_status c)"
    "cs_active_faults (ct_status d) = guardian_control_active_faults d"
    "out_apply (ct_output d) = out_apply (ct_output c)"
    "\<And>cmd f. out_apply (ct_output c) = Some f \<Longrightarrow> records_command cmd f \<Longrightarrow>
       cmd (out_context (ct_output d)) = 0"
proof -
  define c2 where "c2 = (if faults AND NOT (cs_latched_faults (ct_status c)) \<noteq> 0
     then upd (\<lambda>s. s\<lparr>cs_fault_latch_count := the (guardian_control_increment_u32 (Some (cs_fault_latch_count s)))\<rparr>)
       (upd (\<lambda>s. s\<lparr>cs_latched_faults := cs_latched_faults s OR faults\<rparr>) c)
     else upd (\<lambda>s. s\<lparr>cs_latched_faults := cs_latched_faults s OR faults\<rparr>) c)"
  define c3 where "c3 = upd (\<lambda>s. s\<lparr>cs_supervision_enabled := 0, cs_run_permit := 0\<rparr>) c2"
  obtain ok c' where call: "call_output c3 0 = (ok, c')" by fastforce
  from call have c': "ct_status c' = ct_status c3" "out_apply (ct_output c') = out_apply (ct_output c3)"
    "\<And>cmd f. out_apply (ct_output c3) = Some f \<Longrightarrow> records_command cmd f \<Longrightarrow> cmd (out_context (ct_output c')) = 0"
    by (auto elim!: call_outputE)
  define c4 where "c4 = (if out_apply (ct_output c3) \<noteq> None
     then (if \<not> ok then upd (\<lambda>s. s\<lparr>cs_latched_faults := cs_latched_faults s OR 8\<rparr>) c' else c') else c3)"
  have d: "d = refresh_active (guardian_control_transition c4 GUARDIAN_CONTROL_STATE_FAULT_LATCHED reason)"
    unfolding d_def guardian_control_latch_fault_def Let_def c2_def [symmetric] c3_def [symmetric] call
      prod.case c4_def ..
  have c3: "cs_latched_faults (ct_status c3) = cs_latched_faults (ct_status c) OR faults"
    "ct_output c3 = ct_output c" "cs_supervision_enabled (ct_status c3) = 0" "cs_run_permit (ct_status c3) = 0"
    "cs_local_run_request (ct_status c3) = cs_local_run_request (ct_status c)"
    "cs_interlock_closed (ct_status c3) = cs_interlock_closed (ct_status c)"
    "cs_health_state (ct_status c3) = cs_health_state (ct_status c)"
    "cs_output_available (ct_status c3) = cs_output_available (ct_status c)"
    by (simp_all add: c3_def c2_def)
  show "cs_supervision_enabled (ct_status d) = 0" "cs_run_permit (ct_status d) = 0"
    "cs_state (ct_status d) = GUARDIAN_CONTROL_STATE_FAULT_LATCHED"
    "cs_latched_faults (ct_status d) \<in> {cs_latched_faults (ct_status c) OR faults,
       cs_latched_faults (ct_status c) OR faults OR 8}"
    "cs_local_run_request (ct_status d) = cs_local_run_request (ct_status c)"
    "cs_interlock_closed (ct_status d) = cs_interlock_closed (ct_status c)"
    "cs_health_state (ct_status d) = cs_health_state (ct_status c)"
    "cs_output_available (ct_status d) = cs_output_available (ct_status c)"
    "cs_active_faults (ct_status d) = guardian_control_active_faults d"
    "out_apply (ct_output d) = out_apply (ct_output c)"
    using c3 c' by (simp_all add: d c4_def or.assoc)
  show "cmd (out_context (ct_output d)) = 0"
    if "out_apply (ct_output c) = Some f" "records_command cmd f" for cmd f
    using c3 c'(3) [of f cmd] that by (simp add: d c4_def)
qed

lemma or_nonzero: "b \<noteq> 0 \<Longrightarrow> a OR b \<noteq> 0" "b \<noteq> 0 \<Longrightarrow> a OR b OR e \<noteq> 0" for a b e :: u16
  by (auto simp: bit_eq_iff bit_simps)

lemma latch_inv:
  assumes "control_base cmd c" "faults \<noteq> 0"
  shows "control_inv cmd (guardian_control_latch_fault c faults reason)"
proof -
  have "cs_latched_faults (ct_status (guardian_control_latch_fault c faults reason)) \<noteq> 0"
    using latch_fault_effect(4) [OF assms(2), where c = c and reason = reason] or_nonzero assms(2) by auto
  then show ?thesis
    using assms(1) latch_fault_effect [OF assms(2), where c = c and reason = reason]
    by (auto simp: control_inv_defs supervised_state_def)
qed

lemma control_base_cong:
  "control_base cmd c \<Longrightarrow> out_apply (ct_output d) = out_apply (ct_output c) \<Longrightarrow>
   cs_output_available (ct_status d) = cs_output_available (ct_status c) \<Longrightarrow>
   cs_local_run_request (ct_status d) = cs_local_run_request (ct_status c) \<Longrightarrow>
   cs_interlock_closed (ct_status d) = cs_interlock_closed (ct_status c) \<Longrightarrow> control_base cmd d"
  by (simp add: control_base_def Let_def)

text \<open>The three outcomes of a call of the output, on a control that is in order.\<close>

lemma output_called:
  assumes base: "control_base cmd c" and call: "call_output c v = (ok, d)"
    and ap: "out_apply (ct_output c) \<noteq> None"
  shows "ct_status d = ct_status c" "out_apply (ct_output d) = out_apply (ct_output c)"
    "cmd (out_context (ct_output d)) = v" "control_base cmd d"
proof -
  obtain f where f: "out_apply (ct_output c) = Some f" "records_command cmd f"
    using base ap by (auto simp: control_base_def Let_def)
  from call show *: "ct_status d = ct_status c" "out_apply (ct_output d) = out_apply (ct_output c)"
    "cmd (out_context (ct_output d)) = v"
    by (auto elim!: call_outputE intro: f)
  show "control_base cmd d" using base by (rule control_base_cong) (simp_all add: *)
qed

lemma optional_output:
  assumes base: "control_base cmd c"
    and call: "(if out_apply (ct_output c) \<noteq> None then call_output c v else (True, c)) = (ok, d)"
  shows "ct_status d = ct_status c \<and> out_apply (ct_output d) = out_apply (ct_output c) \<and> control_base cmd d
    \<and> (out_apply (ct_output c) \<noteq> None \<longrightarrow> cmd (out_context (ct_output d)) = v)"
proof (cases "out_apply (ct_output c) = None")
  case True
  then show ?thesis using call base by simp
next
  case False
  then have "call_output c v = (ok, d)" using call by simp
  from output_called [OF base this False] show ?thesis by simp
qed

lemma apply_output_cases:
  assumes base: "control_base cmd c" and ap: "guardian_control_apply_output c v = (r, d)"
  obtains (unavailable) "out_apply (ct_output c) = None" "r = GUARDIAN_CONTROL_ERROR_DENIED"
      "d = refresh_active (upd (\<lambda>s. s\<lparr>cs_output_available := 0\<rparr>) c)"
    | (failed) c1 where "r = GUARDIAN_CONTROL_ERROR_OUTPUT" "control_inv cmd d" "control_base cmd c1"
        "ct_status c1 = ct_status c" "out_apply (ct_output c1) = out_apply (ct_output c)"
        "d = latch_output_failure c1"
    | (applied) "r = GUARDIAN_CONTROL_OK" "out_apply (ct_output c) \<noteq> None"
        "ct_status d = (ct_status c)\<lparr>cs_run_permit := (if v \<noteq> 0 then 1 else 0)\<rparr>"
        "out_apply (ct_output d) = out_apply (ct_output c)"
        "cmd (out_context (ct_output d)) = (if v \<noteq> 0 then 1 else 0)"
proof (cases "out_apply (ct_output c) = None")
  case True
  then show ?thesis using ap unavailable by (simp add: guardian_control_apply_output_def)
next
  case False
  let ?v = "if v \<noteq> 0 then 1 else 0 :: u8"
  obtain ok c1 where call: "call_output c ?v = (ok, c1)" by fastforce
  note c1 = output_called [OF base call False]
  show ?thesis
  proof (cases ok)
    case True
    then have "r = GUARDIAN_CONTROL_OK" "d = upd (\<lambda>s. s\<lparr>cs_run_permit := ?v\<rparr>) c1"
      using ap call False by (auto simp: guardian_control_apply_output_def Let_def)
    with c1 False show ?thesis by (intro applied) simp_all
  next
    case notok: False
    then have "r = GUARDIAN_CONTROL_ERROR_OUTPUT" "d = latch_output_failure c1"
      using ap call False by (auto simp: guardian_control_apply_output_def Let_def)
    with c1 latch_inv [OF c1(4), of 8] show ?thesis by (intro failed) simp_all
  qed
qed

text \<open>A control on which nothing is pending: no permit, no supervision.\<close>

lemma control_inv_quiet:
  assumes "control_base cmd d" "cs_supervision_enabled (ct_status d) = 0" "cs_run_permit (ct_status d) = 0"
    "cs_latched_faults (ct_status d) \<noteq> 0 \<longleftrightarrow> cs_state (ct_status d) = GUARDIAN_CONTROL_STATE_FAULT_LATCHED"
    "\<not> supervised_state (cs_state (ct_status d))"
    "cs_active_faults (ct_status d) = guardian_control_active_faults d"
    "out_apply (ct_output d) \<noteq> None \<Longrightarrow> cmd (out_context (ct_output d)) = 0"
  shows "control_inv cmd d"
  using assms by (simp add: control_inv_def control_pre_def Let_def)

lemma disabled_id:
  "cs_supervision_enabled (ct_status d) = 0 \<Longrightarrow> upd (\<lambda>s. s\<lparr>cs_supervision_enabled := 0\<rparr>) d = d"
  by (cases d; cases "ct_status d") (simp add: upd_def)

lemma transition_id: "cs_state (ct_status d) = st \<Longrightarrow> guardian_control_transition d st r = d"
  by (simp add: guardian_control_transition_def)

lemma evaluate_inv:
  assumes pre: "control_pre cmd c0"
  shows "control_inv cmd (guardian_control_evaluate c0)"
proof -
  define c where "c = refresh_active c0"
  have base: "control_base cmd c"
    using pre by (auto simp: c_def control_pre_def Let_def intro: control_base_cong)
  have c: "cs_latched_faults (ct_status c) \<noteq> 0 \<longleftrightarrow> cs_state (ct_status c) = GUARDIAN_CONTROL_STATE_FAULT_LATCHED"
    "cs_supervision_enabled (ct_status c) = (if supervised_state (cs_state (ct_status c)) then 1 else 0)"
    "cs_supervision_enabled (ct_status c) \<noteq> 0 \<Longrightarrow> out_apply (ct_output c) \<noteq> None"
    "cs_run_permit (ct_status c) \<noteq> 0 \<Longrightarrow> cs_supervision_enabled (ct_status c) \<noteq> 0"
    "cs_active_faults (ct_status c) = guardian_control_active_faults c"
    using pre by (auto simp: c_def control_pre_def Let_def)
  have flags: "cs_interlock_closed (ct_status c) \<in> {0, 1}" "cs_local_run_request (ct_status c) \<in> {0, 1}"
    "cs_output_available (ct_status c) = (if out_apply (ct_output c) = None then 0 else 1)"
    using base by (auto simp: control_base_def Let_def)
  note bits = active_fault_bits [of c]
  consider (latched) "cs_latched_faults (ct_status c) \<noteq> 0"
    | (off) "cs_latched_faults (ct_status c) = 0" "cs_supervision_enabled (ct_status c) = 0"
    | (fault) "cs_latched_faults (ct_status c) = 0" "cs_supervision_enabled (ct_status c) \<noteq> 0"
        "guardian_control_active_faults c AND 4 \<noteq> 0 \<or> guardian_control_active_faults c AND 1 \<noteq> 0
          \<or> guardian_control_active_faults c AND 2 \<noteq> 0"
    | (run) "cs_latched_faults (ct_status c) = 0" "cs_supervision_enabled (ct_status c) \<noteq> 0"
        "guardian_control_active_faults c AND 4 = 0" "guardian_control_active_faults c AND 1 = 0"
        "guardian_control_active_faults c AND 2 = 0"
    by blast
  then show ?thesis
  proof cases
    case latched
    obtain r d where ap: "guardian_control_apply_output c 0 = (r, d)" by fastforce
    have ev: "guardian_control_evaluate c0 = guardian_control_transition
        (upd (\<lambda>s. s\<lparr>cs_supervision_enabled := 0\<rparr>) d) GUARDIAN_CONTROL_STATE_FAULT_LATCHED
        (cs_last_transition_reason (ct_status d))"
      using latched by (simp add: guardian_control_evaluate_def Let_def c_def [symmetric] ap)
    have off: "cs_run_permit (ct_status c) = 0" using c(1,2,4) latched by auto
    from base ap show ?thesis
    proof (cases rule: apply_output_cases)
      case unavailable
      then show ?thesis unfolding ev
        using base latched off flags
        by (intro control_inv_quiet) (auto simp: control_base_def Let_def intro!: active_faults_cong)
    next
      case (failed c1)
      then have "cs_supervision_enabled (ct_status d) = 0"
        "cs_state (ct_status d) = GUARDIAN_CONTROL_STATE_FAULT_LATCHED"
        by (simp_all add: latch_fault_effect)
      then have "guardian_control_evaluate c0 = d"
        unfolding ev by (simp add: disabled_id transition_id)
      with failed show ?thesis by simp
    next
      case applied
      then show ?thesis unfolding ev
        using base latched c(5)
        by (intro control_inv_quiet)
          (auto intro!: active_faults_cong elim!: control_base_cong)
    qed
  next
    case off
    obtain ok d where call: "(if out_apply (ct_output c) \<noteq> None then call_output c 0 else (True, c)) = (ok, d)"
      by fastforce
    have ev: "guardian_control_evaluate c0 = (if \<not> ok then latch_output_failure d
        else guardian_control_transition (upd (\<lambda>s. s\<lparr>cs_run_permit := 0\<rparr>) d)
          GUARDIAN_CONTROL_STATE_DISABLED (cs_last_transition_reason (ct_status d)))"
      using off call by (simp add: guardian_control_evaluate_def Let_def c_def [symmetric])
    have d: "ct_status d = ct_status c" "out_apply (ct_output d) = out_apply (ct_output c)" "control_base cmd d"
      "out_apply (ct_output c) \<noteq> None \<Longrightarrow> cmd (out_context (ct_output d)) = 0"
      using optional_output [OF base call] by auto
    show ?thesis
    proof (cases ok)
      case True
      then show ?thesis unfolding ev
        using d off c(5) control_base_cong [OF d(3)]
        by (simp, intro control_inv_quiet) (auto intro!: active_faults_cong)
    next
      case False
      then show ?thesis unfolding ev using latch_inv [OF d(3), of 8] by simp
    qed
  next
    case fault
    then show ?thesis
      using latch_inv [OF base] c(5)
      by (auto simp: guardian_control_evaluate_def Let_def c_def [symmetric])
  next
    case run
    then have ap_ok: "out_apply (ct_output c) \<noteq> None" and il: "cs_interlock_closed (ct_status c) = 1"
      and hs: "cs_health_state (ct_status c) \<in> {GUARDIAN_HEALTH_STATE_READY, GUARDIAN_HEALTH_STATE_WARNING}"
      using c(3) bits flags by (cases "cs_health_state (ct_status c)"; auto)+
    let ?v = "cs_local_run_request (ct_status c)"
    obtain r d where ap: "guardian_control_apply_output c ?v = (r, d)" by fastforce
    have ev: "guardian_control_evaluate c0 = (if r \<noteq> GUARDIAN_CONTROL_OK then d
        else if ?v = 0 then guardian_control_transition d GUARDIAN_CONTROL_STATE_ARMED 0x85
        else if cs_health_state (ct_status d) = GUARDIAN_HEALTH_STATE_WARNING
        then guardian_control_transition d GUARDIAN_CONTROL_STATE_DEGRADED 0x86
        else guardian_control_transition d GUARDIAN_CONTROL_STATE_ACTIVE
          (if cs_state (ct_status d) = GUARDIAN_CONTROL_STATE_DEGRADED then 0x87 else 0x84))"
      using run c(5) ap flags(2)
      by (auto simp: guardian_control_evaluate_def Let_def c_def [symmetric])
    from base ap show ?thesis
    proof (cases rule: apply_output_cases)
      case unavailable
      then show ?thesis using ap_ok by simp
    next
      case failed
      then show ?thesis unfolding ev by simp
    next
      case applied
      have act: "guardian_control_active_faults d = guardian_control_active_faults c"
        using applied by (intro active_faults_cong) simp_all
      have sup: "cs_supervision_enabled (ct_status c) = 1" using run(2) c(2) by (auto split: if_splits)
      show ?thesis unfolding ev
        using applied act il hs run flags c(5) sup base
        by (auto simp: control_inv_defs)
    qed
  qed
qed

section \<open>Every operation keeps the invariant\<close>

lemma control_inv_initial: "control_inv cmd initial_control"
  by (simp add: control_inv_defs initial_control_def zero_control_status_def
      guardian_control_active_faults_def)

lemma control_inv_preD: "control_inv cmd c \<Longrightarrow> control_pre cmd c" "control_inv cmd c \<Longrightarrow> control_base cmd c"
  unfolding control_inv_def control_pre_def Let_def by blast+

lemma configure_output_inv:
  assumes inv: "control_inv cmd c" and out: "\<And>f. out_apply out = Some f \<Longrightarrow> records_command cmd f"
  shows "control_inv cmd (the (snd (guardian_control_configure_output (Some c) (Some out))))"
proof (cases "out_apply out = None")
  case True
  then show ?thesis using inv by (simp add: guardian_control_configure_output_def)
next
  case False
  let ?c1 = "upd (\<lambda>s. s\<lparr>cs_output_available := 1\<rparr>) (c\<lparr>ct_output := out\<rparr>)"
  have base: "control_base cmd ?c1"
    using inv out False by (auto simp: control_inv_def control_pre_def control_base_def Let_def upd_def)
  obtain ok d where call: "call_output ?c1 0 = (ok, d)" by fastforce
  have ap: "out_apply (ct_output ?c1) \<noteq> None" using False by (simp add: upd_def)
  note d = output_called [OF base call ap]
  show ?thesis
  proof (cases ok)
    case True
    let ?e = "refresh_active (upd (\<lambda>s. s\<lparr>cs_run_permit := 0\<rparr>) d)"
    have res: "the (snd (guardian_control_configure_output (Some c) (Some out))) = ?e"
      using True False call by (auto simp: guardian_control_configure_output_def)
    have "control_base cmd ?e" using d(4) by (rule control_base_cong) simp_all
    moreover have "ct_status ?e = (ct_status c)\<lparr>cs_output_available := 1, cs_run_permit := 0,
        cs_active_faults := guardian_control_active_faults ?e\<rparr>" "ct_output ?e = ct_output d"
      using d(1) by (simp_all add: upd_def)
    ultimately show ?thesis unfolding res
      using inv d(2,3) ap by (simp add: control_inv_def control_pre_def Let_def)
  next
    case notok: False
    then show ?thesis
      using False call latch_inv [OF d(4), of 8] by (auto simp: guardian_control_configure_output_def)
  qed
qed

lemma setters_inv:
  assumes "control_inv cmd c"
  shows "control_inv cmd (the (guardian_control_set_local_run_request (Some c) v))"
    "control_inv cmd (the (guardian_control_set_interlock (Some c) v))"
    "control_inv cmd (the (guardian_control_update_health (Some c) h))"
  using assms control_inv_preD(1) [OF assms]
  by (auto simp: guardian_control_set_local_run_request_def guardian_control_set_interlock_def
      guardian_control_update_health_def control_pre_def control_base_def Let_def upd_def
      split: option.splits intro!: evaluate_inv)

text \<open>The two branches of an action that drives the output low: success, or a latched failure.\<close>

lemma action_disarm_inv:
  assumes inv: "control_inv cmd c"
  shows "control_inv cmd (snd (action_disarm c a))"
    "cs_run_permit (ct_status (snd (action_disarm c a))) = 0"
proof -
  let ?c1 = "upd (\<lambda>s. s\<lparr>cs_supervision_enabled := 0\<rparr>) c"
  have base: "control_base cmd ?c1" using control_inv_preD(2) [OF inv] by (rule control_base_cong) simp_all
  obtain ok d where call: "(if out_apply (ct_output ?c1) \<noteq> None then call_output ?c1 0 else (True, ?c1)) = (ok, d)"
    by fastforce
  from optional_output [OF base call]
  have d: "ct_status d = ct_status ?c1" "out_apply (ct_output d) = out_apply (ct_output c)" "control_base cmd d"
    "out_apply (ct_output c) \<noteq> None \<Longrightarrow> cmd (out_context (ct_output d)) = 0" by auto
  let ?st = "if cs_latched_faults (ct_status c) \<noteq> 0 then GUARDIAN_CONTROL_STATE_FAULT_LATCHED
     else GUARDIAN_CONTROL_STATE_DISABLED"
  let ?e = "refresh_active (guardian_control_transition (upd (\<lambda>s. s\<lparr>cs_run_permit := 0\<rparr>) d) ?st (ucast a))"
  have res: "snd (action_disarm c a) = (if \<not> ok then latch_output_failure d else ?e)"
    unfolding action_disarm_def Let_def call using d(1) by simp
  have "control_inv cmd ?e"
    using d control_base_cong [OF d(3), of ?e] by (intro control_inv_quiet) auto
  then show "control_inv cmd (snd (action_disarm c a))"
    using res latch_inv [OF d(3), of 8] by simp
  show "cs_run_permit (ct_status (snd (action_disarm c a))) = 0"
    unfolding res by (simp add: latch_fault_effect)
qed

lemma action_clear_inv:
  assumes inv: "control_inv cmd c"
  shows "control_inv cmd (snd (action_clear_fault c a)) \<and>
    (snd (action_clear_fault c a) = c \<or> cs_run_permit (ct_status (snd (action_clear_fault c a))) = 0)"
proof (cases "cs_supervision_enabled (ct_status c) \<noteq> 0 \<or> cs_local_run_request (ct_status c) \<noteq> 0
    \<or> cs_health_state (ct_status c) \<noteq> GUARDIAN_HEALTH_STATE_READY
    \<or> cs_interlock_closed (ct_status c) = 0 \<or> out_apply (ct_output c) = None")
  case True
  then show ?thesis using inv by (auto simp: action_clear_fault_def Let_def)
next
  case False
  obtain ok d where call: "call_output c 0 = (ok, d)" by fastforce
  note d = output_called [OF control_inv_preD(2) [OF inv] call]
  let ?e = "refresh_active (guardian_control_transition
     (upd (\<lambda>s. s\<lparr>cs_latched_faults := 0, cs_run_permit := 0\<rparr>) d) GUARDIAN_CONTROL_STATE_DISABLED (ucast a))"
  have res: "snd (action_clear_fault c a) = (if \<not> ok then latch_output_failure d else ?e)"
    unfolding action_clear_fault_def Let_def using False call by auto
  have "control_inv cmd ?e"
    using d False control_base_cong [OF d(4), of ?e] by (intro control_inv_quiet) auto
  then show ?thesis unfolding res using latch_inv [OF d(4), of 8] False by (simp add: latch_fault_effect)
qed

lemma action_arm_inv:
  assumes inv: "control_inv cmd c"
  shows "control_inv cmd (snd (action_arm c a)) \<and>
    (snd (action_arm c a) = c \<or> cs_run_permit (ct_status (snd (action_arm c a))) = 0)"
proof (cases "cs_latched_faults (ct_status c) \<noteq> 0 \<or> cs_local_run_request (ct_status c) \<noteq> 0
    \<or> cs_health_state (ct_status c) \<noteq> GUARDIAN_HEALTH_STATE_READY
    \<or> cs_interlock_closed (ct_status c) = 0 \<or> out_apply (ct_output c) = None")
  case True
  then show ?thesis using inv by (auto simp: action_arm_def Let_def)
next
  case False
  obtain r d where ap: "guardian_control_apply_output c 0 = (r, d)" by fastforce
  let ?e = "refresh_active (guardian_control_transition (upd (\<lambda>s. s\<lparr>cs_supervision_enabled := 1\<rparr>) d)
     GUARDIAN_CONTROL_STATE_ARMED (ucast a))"
  have res: "snd (action_arm c a) = (if r \<noteq> GUARDIAN_CONTROL_OK then d else ?e)"
    unfolding action_arm_def Let_def using False ap by auto
  from control_inv_preD(2) [OF inv] ap show ?thesis
  proof (cases rule: apply_output_cases)
    case unavailable
    then show ?thesis using False by simp
  next
    case (failed c1)
    then show ?thesis unfolding res by (simp add: latch_fault_effect)
  next
    case applied
    then show ?thesis unfolding res
      using False inv by (simp add: control_inv_def control_pre_def control_base_def Let_def)
  qed
qed

text \<open>A host action leaves the control as it is or takes the permit away.\<close>

lemma control_action_inv:
  assumes "control_inv cmd c"
  shows "control_inv cmd (the (snd (guardian_control_action (Some c) a))) \<and>
    (the (snd (guardian_control_action (Some c) a)) = c
     \<or> cs_run_permit (ct_status (the (snd (guardian_control_action (Some c) a)))) = 0)"
  using assms action_disarm_inv [OF assms, of a] action_clear_inv [OF assms, of a] action_arm_inv [OF assms, of a]
  by (auto simp: guardian_control_action_def)

text \<open>A request either leaves the control alone or performs one of the three actions.\<close>

lemma handle_request_control:
  "the (fst (snd (guardian_control_handle_request (Some c) (Some req) (Some resp)))) =
     (if message_type req = GUARDIAN_MESSAGE_REQUEST \<and> command req = GUARDIAN_COMMAND_CONTROL_COMMAND
         \<and> payload_length req = 2 \<and> payload req ! 0 = 1 \<and> payload req ! 1 \<in> {1, 2, 3}
      then the (snd (guardian_control_action (Some c) (ucast (payload req ! 1)))) else c)"
proof -
  have b: "(ucast (b :: u8) :: c_enum) = 1 \<longleftrightarrow> b = 1" "(ucast b :: c_enum) = 2 \<longleftrightarrow> b = 2"
    "(ucast b :: c_enum) = 3 \<longleftrightarrow> b = 3" for b
    by (simp_all add: small_enum_byte)
  show ?thesis
    by (auto simp: guardian_control_handle_request_def control_command_def Let_def b
        split: prod.splits)
qed

section \<open>Operations as steps\<close>

datatype 'c control_op =
    Configure_output "'c guardian_control_output"
  | Set_local_run u8
  | Set_interlock u8
  | Update_health guardian_health_status
  | Host_action c_enum
  | Host_request guardian_frame guardian_frame

fun control_exec :: "'c guardian_control \<Rightarrow> 'c control_op \<Rightarrow> 'c guardian_control" where
  "control_exec c (Configure_output out) = the (snd (guardian_control_configure_output (Some c) (Some out)))"
| "control_exec c (Set_local_run v) = the (guardian_control_set_local_run_request (Some c) v)"
| "control_exec c (Set_interlock v) = the (guardian_control_set_interlock (Some c) v)"
| "control_exec c (Update_health h) = the (guardian_control_update_health (Some c) (Some h))"
| "control_exec c (Host_action a) = the (snd (guardian_control_action (Some c) a))"
| "control_exec c (Host_request req resp) =
     the (fst (snd (guardian_control_handle_request (Some c) (Some req) (Some resp))))"

fun control_op_ok :: "('c ptr \<Rightarrow> u8) \<Rightarrow> 'c control_op \<Rightarrow> bool" where
  "control_op_ok cmd (Configure_output out) \<longleftrightarrow> (\<forall>f. out_apply out = Some f \<longrightarrow> records_command cmd f)"
| "control_op_ok cmd _ \<longleftrightarrow> True"

inductive control_step :: "('c ptr \<Rightarrow> u8) \<Rightarrow> 'c guardian_control \<Rightarrow> 'c guardian_control \<Rightarrow> bool"
  for cmd :: "'c ptr \<Rightarrow> u8" where
  control_stepI: "control_op_ok cmd op \<Longrightarrow> control_step cmd c (control_exec c op)"

inductive_cases control_stepE: "control_step cmd c d"

lemma control_exec_inv:
  "control_inv cmd c \<Longrightarrow> control_op_ok cmd op \<Longrightarrow> control_inv cmd (control_exec c op)"
  by (cases op) (simp_all add: configure_output_inv setters_inv control_action_inv handle_request_control)

interpretation control: transition_system "\<lambda>c. c = initial_control" "control_step cmd" "control_inv cmd"
  for cmd
  by unfold_locales (auto simp: control_inv_initial elim!: control_stepE intro: control_exec_inv)

text \<open>The host's operations, and the part of an operation a restart needs.\<close>

fun is_host_op :: "'c control_op \<Rightarrow> bool" where
  "is_host_op (Host_action _) = True"
| "is_host_op (Host_request _ _) = True"
| "is_host_op _ = False"

datatype op_kind = K_clear | K_arm | K_run | K_other

definition action_kind :: "c_enum \<Rightarrow> op_kind" where
  "action_kind a = (if a = GUARDIAN_CONTROL_ACTION_CLEAR_FAULT then K_clear
     else if a = GUARDIAN_CONTROL_ACTION_ARM then K_arm else K_other)"

fun kind_of :: "'c control_op \<Rightarrow> op_kind" where
  "kind_of (Host_action a) = action_kind a"
| "kind_of (Host_request req _) =
     (if command req = GUARDIAN_COMMAND_CONTROL_COMMAND then action_kind (ucast (payload req ! 1))
      else K_other)"
| "kind_of (Set_local_run v) = (if v \<noteq> 0 then K_run else K_other)"
| "kind_of _ = K_other"

section \<open>Latched faults persist\<close>

text \<open>\<open>keeps c d\<close>: from \<open>c\<close> to \<open>d\<close> no latched fault is lost, and supervision ends only with a fault.\<close>

definition keeps :: "'c guardian_control \<Rightarrow> 'c guardian_control \<Rightarrow> bool" where
  "keeps c d \<longleftrightarrow> cs_local_run_request (ct_status d) = cs_local_run_request (ct_status c) \<and>
     (\<exists>x. cs_latched_faults (ct_status d) = cs_latched_faults (ct_status c) OR x) \<and>
     (cs_latched_faults (ct_status d) \<noteq> 0 \<or>
      cs_supervision_enabled (ct_status d) = cs_supervision_enabled (ct_status c))"

lemma or_zero_iff: "a OR b = 0 \<longleftrightarrow> a = 0 \<and> b = 0" for a b :: u16
  by (auto simp: bit_eq_iff bit_simps)

lemma keeps_trans: "keeps c d \<Longrightarrow> keeps d e \<Longrightarrow> keeps c e"
  unfolding keeps_def by (metis or.assoc or_zero_iff)

lemma keeps_same:
  "cs_local_run_request (ct_status d) = cs_local_run_request (ct_status c) \<Longrightarrow>
   cs_latched_faults (ct_status d) = cs_latched_faults (ct_status c) \<Longrightarrow>
   cs_supervision_enabled (ct_status d) = cs_supervision_enabled (ct_status c) \<or> cs_latched_faults (ct_status c) \<noteq> 0 \<Longrightarrow>
   keeps c d"
  unfolding keeps_def by (metis or.right_neutral)

lemma keeps_call: "call_output c v = (ok, d) \<Longrightarrow> keeps c d"
  by (erule call_outputE) (simp add: keeps_same)

lemma keeps_latch: "faults \<noteq> 0 \<Longrightarrow> keeps c (guardian_control_latch_fault c faults reason)"
  using latch_fault_effect(4,5) [of faults c reason]
  by (auto simp: keeps_def or_zero_iff)

lemma keeps_apply: "guardian_control_apply_output c v = (r, d) \<Longrightarrow> keeps c d"
  by (auto simp: guardian_control_apply_output_def Let_def keeps_same split: if_splits prod.splits
      intro: keeps_trans [OF keeps_call keeps_latch] keeps_trans [OF keeps_call keeps_same])

lemma keeps_evaluate: "keeps c (guardian_control_evaluate c)"
proof -
  let ?c = "refresh_active c"
  have r: "keeps c ?c" by (rule keeps_same) simp_all
  obtain r0 d0 where a0: "guardian_control_apply_output ?c 0 = (r0, d0)" by fastforce
  obtain r1 d1 where a1: "guardian_control_apply_output ?c 1 = (r1, d1)" by fastforce
  obtain ok d where call: "call_output ?c 0 = (ok, d)" by fastforce
  have t: "keeps c (guardian_control_transition e st q)" if "keeps c e" for e st q
    using that by (rule keeps_trans) (simp add: keeps_same)
  have u: "keeps c (upd (\<lambda>s. s\<lparr>cs_run_permit := 0\<rparr>) e)" if "keeps c e" for e
    using that by (rule keeps_trans) (simp add: keeps_same)
  have v: "keeps c (upd (\<lambda>s. s\<lparr>cs_supervision_enabled := 0\<rparr>) d0)"
    if "cs_latched_faults (ct_status c) \<noteq> 0"
    using keeps_trans [OF r keeps_apply [OF a0]] that by (auto simp: keeps_def or_zero_iff)
  note k = keeps_trans [OF r keeps_apply [OF a0]] keeps_trans [OF r keeps_apply [OF a1]]
    keeps_trans [OF r keeps_call [OF call]] r
  have l: "keeps c (guardian_control_latch_fault ?c f q)" "keeps c (guardian_control_latch_fault d f q)"
    if "f \<noteq> 0" for f q
    using keeps_trans [OF r keeps_latch [OF that]] keeps_trans [OF k(3) keeps_latch [OF that]] by auto
  show ?thesis
    by (simp add: guardian_control_evaluate_def Let_def a0 a1 call k l t u v)
qed

text \<open>Every operation but a fault clearance keeps the latched faults.\<close>

lemma keeps_setters:
  "\<exists>e. cs_latched_faults (ct_status e) = cs_latched_faults (ct_status c) \<and>
     cs_supervision_enabled (ct_status e) = cs_supervision_enabled (ct_status c) \<and>
     cs_local_run_request (ct_status e) = (if v \<noteq> 0 then 1 else 0) \<and>
     keeps e (the (guardian_control_set_local_run_request (Some c) v))"
  "keeps c (the (guardian_control_set_interlock (Some c) v))"
  "keeps c (the (guardian_control_update_health (Some c) h))"
proof -
  let ?e = "upd (\<lambda>s. s\<lparr>cs_local_run_request := (if v \<noteq> 0 then 1 else 0)\<rparr>) c"
  show "\<exists>e. cs_latched_faults (ct_status e) = cs_latched_faults (ct_status c) \<and>
     cs_supervision_enabled (ct_status e) = cs_supervision_enabled (ct_status c) \<and>
     cs_local_run_request (ct_status e) = (if v \<noteq> 0 then 1 else 0) \<and>
     keeps e (the (guardian_control_set_local_run_request (Some c) v))"
    by (intro exI [of _ ?e]) (simp add: guardian_control_set_local_run_request_def keeps_evaluate)
  show "keeps c (the (guardian_control_set_interlock (Some c) v))"
    unfolding guardian_control_set_interlock_def option.map option.sel
    by (rule keeps_trans [OF keeps_same keeps_evaluate]) simp_all
  show "keeps c (the (guardian_control_update_health (Some c) h))"
  proof (cases h)
    case None
    then show ?thesis by (simp add: guardian_control_update_health_def keeps_same)
  next
    case (Some k)
    show ?thesis
      unfolding guardian_control_update_health_def Some prod.case option.case option.sel
      by (rule keeps_trans [OF keeps_same keeps_evaluate]) simp_all
  qed
qed

lemma keeps_configure: "keeps c (the (snd (guardian_control_configure_output (Some c) (Some out))))"
proof -
  let ?c1 = "upd (\<lambda>s. s\<lparr>cs_output_available := 1\<rparr>) (c\<lparr>ct_output := out\<rparr>)"
  obtain ok d where call: "call_output ?c1 0 = (ok, d)" by fastforce
  have d: "keeps c d" by (rule keeps_trans [OF _ keeps_call [OF call]]) (simp add: keeps_same upd_def)
  have "keeps c (refresh_active (upd (\<lambda>s. s\<lparr>cs_run_permit := 0\<rparr>) d))"
    by (rule keeps_trans [OF d keeps_same]) simp_all
  moreover have "keeps c (latch_output_failure d)" by (rule keeps_trans [OF d keeps_latch]) simp
  moreover have "keeps c c" by (rule keeps_same) simp_all
  ultimately show ?thesis by (simp add: guardian_control_configure_output_def call)
qed

lemma disarm_effect:
  shows "\<exists>x. cs_latched_faults (ct_status (snd (action_disarm c a))) = cs_latched_faults (ct_status c) OR x"
    "cs_supervision_enabled (ct_status (snd (action_disarm c a))) = 0"
    "cs_local_run_request (ct_status (snd (action_disarm c a))) = cs_local_run_request (ct_status c)"
proof -
  let ?c1 = "upd (\<lambda>s. s\<lparr>cs_supervision_enabled := 0\<rparr>) c"
  obtain ok d where call: "(if out_apply (ct_output ?c1) \<noteq> None then call_output ?c1 0 else (True, ?c1)) = (ok, d)"
    by fastforce
  then have d: "ct_status d = ct_status ?c1" by (auto split: if_splits elim: call_outputE)
  have res: "snd (action_disarm c a) = (if \<not> ok then latch_output_failure d
      else refresh_active (guardian_control_transition (upd (\<lambda>s. s\<lparr>cs_run_permit := 0\<rparr>) d)
        (if cs_latched_faults (ct_status c) \<noteq> 0 then GUARDIAN_CONTROL_STATE_FAULT_LATCHED
         else GUARDIAN_CONTROL_STATE_DISABLED) (ucast a)))"
    unfolding action_disarm_def Let_def call using d by simp
  have l: "keeps d (latch_output_failure d)" by (rule keeps_latch) simp
  have o: "\<exists>x. b = b OR x" for b :: u16 by (rule exI [of _ 0]) simp
  show "\<exists>x. cs_latched_faults (ct_status (snd (action_disarm c a))) = cs_latched_faults (ct_status c) OR x"
    "cs_supervision_enabled (ct_status (snd (action_disarm c a))) = 0"
    "cs_local_run_request (ct_status (snd (action_disarm c a))) = cs_local_run_request (ct_status c)"
    unfolding res using l d o by (auto simp: keeps_def latch_fault_effect)
qed

lemma clear_effect:
  "keeps c (snd (action_clear_fault c a)) \<or>
   (cs_supervision_enabled (ct_status c) = 0 \<and> cs_local_run_request (ct_status c) = 0 \<and>
    cs_latched_faults (ct_status (snd (action_clear_fault c a))) = 0 \<and>
    cs_supervision_enabled (ct_status (snd (action_clear_fault c a))) = 0)"
proof -
  obtain ok d where call: "call_output c 0 = (ok, d)" by fastforce
  then have d: "ct_status d = ct_status c" by (auto elim: call_outputE)
  have "keeps c (latch_output_failure d)" by (rule keeps_trans [OF keeps_call [OF call] keeps_latch]) simp
  moreover have "keeps c c" by (rule keeps_same) simp_all
  ultimately show ?thesis using d by (simp add: action_clear_fault_def Let_def call)
qed

lemma arm_effect:
  "keeps c (snd (action_arm c a)) \<or>
   (cs_latched_faults (ct_status c) = 0 \<and> cs_local_run_request (ct_status c) = 0 \<and>
    cs_latched_faults (ct_status (snd (action_arm c a))) = 0 \<and>
    cs_supervision_enabled (ct_status (snd (action_arm c a))) = 1 \<and>
    cs_local_run_request (ct_status (snd (action_arm c a))) = 0)"
proof -
  obtain r d where ap: "guardian_control_apply_output c 0 = (r, d)" by fastforce
  have k: "keeps c d" by (rule keeps_apply [OF ap])
  have ok: "cs_latched_faults (ct_status d) = cs_latched_faults (ct_status c)"
    "cs_local_run_request (ct_status d) = cs_local_run_request (ct_status c)"
    if "r = GUARDIAN_CONTROL_OK"
    using ap that by (auto simp: guardian_control_apply_output_def Let_def split: if_splits prod.splits
        elim!: call_outputE)
  have "keeps c c" by (rule keeps_same) simp_all
  with k ok show ?thesis by (simp add: action_arm_def Let_def ap)
qed

section \<open>No automatic restart\<close>

text \<open>The operations still missing before the permit can be asserted.\<close>

definition stage :: "'c guardian_control \<Rightarrow> op_kind list" where
  "stage c =
     (if cs_latched_faults (ct_status c) \<noteq> 0 then [K_clear, K_arm, K_run]
      else if cs_supervision_enabled (ct_status c) = 0 then [K_arm, K_run]
      else if cs_local_run_request (ct_status c) = 0 then [K_run] else [])"

lemma stage_mono:
  assumes "\<exists>x. cs_latched_faults (ct_status d) = cs_latched_faults (ct_status c) OR x"
    "cs_latched_faults (ct_status d) \<noteq> 0 \<or> cs_supervision_enabled (ct_status d) = 0 \<or>
     cs_supervision_enabled (ct_status d) = cs_supervision_enabled (ct_status c)"
    "cs_local_run_request (ct_status d) = cs_local_run_request (ct_status c) \<or>
     cs_local_run_request (ct_status d) = 0"
  shows "subseq (stage c) (stage d)"
  using assms by (auto simp: stage_def or_zero_iff)

lemma keeps_stage: "keeps c d \<Longrightarrow> subseq (stage c) (stage d)"
  by (rule stage_mono) (auto simp: keeps_def)

lemma subseq_ConsI: "subseq xs ys \<Longrightarrow> subseq xs (k # ys)"
  by (rule subseq_order.order_trans) auto

lemma action_stage:
  "subseq (stage c) (action_kind a # stage (the (snd (guardian_control_action (Some c) a))))"
proof -
  have dis: "subseq (stage c) (stage (snd (action_disarm c a)))"
    using disarm_effect [of c a] by (intro stage_mono) auto
  have clr: "subseq (stage c) (K_clear # stage (snd (action_clear_fault c a)))"
    using clear_effect [of c a]
  proof
    assume "keeps c (snd (action_clear_fault c a))"
    then show ?thesis by (intro subseq_ConsI keeps_stage)
  qed (auto simp: stage_def)
  have arm: "subseq (stage c) (K_arm # stage (snd (action_arm c a)))"
    using arm_effect [of c a]
  proof
    assume "keeps c (snd (action_arm c a))"
    then show ?thesis by (intro subseq_ConsI keeps_stage)
  qed (auto simp: stage_def)
  show ?thesis
    using dis clr arm
    by (auto simp: guardian_control_action_def action_kind_def intro: subseq_ConsI)
qed

lemma exec_stage: "subseq (stage c) (kind_of op # stage (control_exec c op))"
proof (cases op)
  case (Set_local_run v)
  obtain e where e: "cs_latched_faults (ct_status e) = cs_latched_faults (ct_status c)"
    "cs_supervision_enabled (ct_status e) = cs_supervision_enabled (ct_status c)"
    "cs_local_run_request (ct_status e) = (if v \<noteq> 0 then 1 else 0)"
    "keeps e (control_exec c op)"
    using keeps_setters(1) [of c v] Set_local_run by auto
  have "subseq (stage c) (kind_of op # stage e)"
    using e(1-3) Set_local_run by (auto simp: stage_def)
  moreover have "subseq (kind_of op # stage e) (kind_of op # stage (control_exec c op))"
    using keeps_stage [OF e(4)] by simp
  ultimately show ?thesis by (rule subseq_order.order_trans)
next
  case (Host_action a)
  then show ?thesis using action_stage by simp
next
  case (Host_request req resp)
  then show ?thesis
    using action_stage [of c "ucast (payload req ! 1)"]
    by (auto simp: handle_request_control intro: subseq_ConsI)
qed (auto intro!: subseq_ConsI keeps_stage keeps_configure keeps_setters)

fun control_run :: "'c guardian_control \<Rightarrow> 'c control_op list \<Rightarrow> 'c guardian_control" where
  "control_run c [] = c"
| "control_run c (op # ops) = control_run (control_exec c op) ops"

lemma run_stage: "subseq (stage c) (map kind_of ops @ stage (control_run c ops))"
proof (induction ops arbitrary: c)
  case (Cons op ops)
  have "subseq (kind_of op # stage (control_exec c op))
      (kind_of op # map kind_of ops @ stage (control_run (control_exec c op) ops))"
    using Cons.IH by simp
  from subseq_order.order_trans [OF exec_stage this] show ?case by simp
qed simp

lemma control_run_inv:
  "control_inv cmd c \<Longrightarrow> list_all (control_op_ok cmd) ops \<Longrightarrow> control_inv cmd (control_run c ops)"
  by (induction ops arbitrary: c) (auto intro: control_exec_inv)

text \<open>Steps that are not a fault clearance.\<close>

inductive uncleared_step :: "('c ptr \<Rightarrow> u8) \<Rightarrow> 'c guardian_control \<Rightarrow> 'c guardian_control \<Rightarrow> bool"
  for cmd :: "'c ptr \<Rightarrow> u8" where
  uncleared_stepI: "control_op_ok cmd op \<Longrightarrow> kind_of op \<noteq> K_clear \<Longrightarrow>
     uncleared_step cmd c (control_exec c op)"

inductive_cases uncleared_stepE: "uncleared_step cmd c d"

definition latched_set :: "'c guardian_control \<Rightarrow> nat set" where
  "latched_set c = {i. bit (cs_latched_faults (ct_status c)) i}"

lemma latched_set_or:
  "\<exists>x. cs_latched_faults (ct_status d) = cs_latched_faults (ct_status c) OR x \<Longrightarrow>
   latched_set c \<subseteq> latched_set d"
  by (auto simp: latched_set_def bit_simps)

lemma keeps_latched_set: "keeps c d \<Longrightarrow> latched_set c \<subseteq> latched_set d"
  by (rule latched_set_or) (simp add: keeps_def)

lemma action_latched:
  assumes "action_kind a \<noteq> K_clear"
  shows "latched_set c \<subseteq> latched_set (the (snd (guardian_control_action (Some c) a)))"
proof -
  have "latched_set c \<subseteq> latched_set (snd (action_arm c a))"
    using arm_effect [of c a]
  proof
    assume "keeps c (snd (action_arm c a))"
    then show ?thesis by (rule keeps_latched_set)
  qed (simp add: latched_set_def)
  then show ?thesis
    using assms latched_set_or [OF disarm_effect(1)]
    by (auto simp: guardian_control_action_def action_kind_def split: if_splits)
qed

lemma exec_latched: "kind_of op \<noteq> K_clear \<Longrightarrow> latched_set c \<subseteq> latched_set (control_exec c op)"
proof (cases op)
  case (Set_local_run v)
  then show ?thesis using keeps_setters(1) [of c v]
    by (auto simp: latched_set_def keeps_def bit_simps)
next
  case (Host_action a)
  then show "kind_of op \<noteq> K_clear \<Longrightarrow> ?thesis" using action_latched by simp
next
  case (Host_request req resp)
  then show "kind_of op \<noteq> K_clear \<Longrightarrow> ?thesis"
    using action_latched [of "ucast (payload req ! 1)" c] by (auto simp: handle_request_control split: if_splits)
qed (simp_all add: keeps_latched_set keeps_configure keeps_setters)

interpretation uncleared: monotone_system "\<lambda>c. c = initial_control" "uncleared_step cmd" "control_inv cmd"
  latched_set for cmd
proof unfold_locales
  fix c d :: "'a guardian_control"
  show "c = initial_control \<Longrightarrow> control_inv cmd c" by (simp add: control_inv_initial)
  show "control_inv cmd c \<Longrightarrow> uncleared_step cmd c d \<Longrightarrow> control_inv cmd d"
    by (auto elim!: uncleared_stepE intro: control_exec_inv)
  show "uncleared_step cmd c d \<Longrightarrow> latched_set c \<le> latched_set d"
    by (erule uncleared_stepE) (simp add: exec_latched)
qed

section \<open>Control properties\<close>

text \<open>An adapter that always succeeds and whose context is the last command.\<close>

definition sample_output :: "u8 guardian_control_output" where
  "sample_output = \<lparr>out_apply = Some (\<lambda>_ v. (True, Some v)), out_context = None\<rparr>"

definition ready_health :: guardian_health_status where
  "ready_health = \<lparr>hs_state = GUARDIAN_HEALTH_STATE_READY, hs_baseline_samples = 16, hs_baseline_target = 16,
     hs_anomaly_score = 0, hs_health_score = 1000, hs_max_deviation_milli = 0, hs_dominant_feature = 255,
     hs_consecutive_anomalous = 0, hs_quality_flags = 8, hs_block_sequence = 1, hs_current_rms_mg = 0,
     hs_current_crest_factor_milli = 0, hs_current_dominant_frequency_centi_hz = 0,
     hs_baseline_rms_mean_mg = 0, hs_baseline_rms_std_mg = 0, hs_exceeded_feature_mask = 0,
     hs_rejected_inputs = 0\<rparr>"

definition start_ops :: "u8 control_op list" where
  "start_ops = [Configure_output sample_output, Set_interlock 1, Update_health ready_health,
     Host_action GUARDIAN_CONTROL_ACTION_ARM, Set_local_run 1]"

definition last_command :: "u8 ptr \<Rightarrow> u8" where
  "last_command p = (case p of None \<Rightarrow> 0 | Some v \<Rightarrow> v)"

lemmas control_eval = upd_def refresh_active_def guardian_control_transition_def call_output_def
  guardian_control_active_faults_def guardian_control_latch_fault_def guardian_control_apply_output_def
  guardian_control_evaluate_def guardian_control_configure_output_def guardian_control_set_interlock_def
  guardian_control_update_health_def guardian_control_action_def action_arm_def action_disarm_def
  action_clear_fault_def guardian_control_set_local_run_request_def initial_control_def
  zero_control_status_def sample_output_def ready_health_def Let_def

lemma start_ops_ok: "list_all (control_op_ok last_command) start_ops"
  by (simp add: start_ops_def sample_output_def records_command_def last_command_def)

lemma start_ops_run: "cs_run_permit (ct_status (control_run initial_control start_ops)) = 1"
  by (simp add: start_ops_def control_eval)

lemma run_reachable:
  "reachable (\<lambda>c. c = initial_control) (control_step cmd) c \<Longrightarrow> list_all (control_op_ok cmd) ops \<Longrightarrow>
   reachable (\<lambda>c. c = initial_control) (control_step cmd) (control_run c ops)"
  by (induction ops arbitrary: c) (auto intro: reachable_step control_stepI)

lemma sample_control_reachable:
  "reachable (\<lambda>c. c = initial_control) (control_step last_command) (control_run initial_control start_ops)"
  by (rule run_reachable [OF reachable_init start_ops_ok]) simp

text \<open>C16: Safety envelope. In every state the control can reach by configuring outputs, local inputs, health
  updates and host requests, an asserted run permit means: supervision is armed, no fault is
  latched, the interlock is closed, the local run request is present, an output is installed,
  and the machine health is READY (state ACTIVE) or WARNING (state DEGRADED). For an adapter that remembers its
  last command, the installed output was last commanded with exactly the published run permit, even after
  callback failures, and the published state and the fault masks are consistent with each other.\<close>

theorem run_permit_envelope:
  assumes "reachable (\<lambda>c. c = initial_control) (control_step cmd) c"
  shows "(guardian_control_run_permit (Some c) \<noteq> 0 \<longrightarrow>
      guardian_control_run_permit (Some c) = 1 \<and> permit_envelope (guardian_control_status (Some c)))
    \<and> (out_apply (ct_output c) \<noteq> None \<longrightarrow>
      cmd (out_context (ct_output c)) = guardian_control_run_permit (Some c))
    \<and> (out_apply (ct_output c) = None \<longrightarrow> guardian_control_run_permit (Some c) = 0)
    \<and> (cs_latched_faults (ct_status c) \<noteq> 0 \<longleftrightarrow> cs_state (ct_status c) = GUARDIAN_CONTROL_STATE_FAULT_LATCHED)
    \<and> (cs_supervision_enabled (ct_status c) \<noteq> 0 \<longleftrightarrow> supervised_state (cs_state (ct_status c)))
    \<and> cs_active_faults (ct_status c) = guardian_control_active_faults c"
  using control.reachable_inv [OF assms]
  by (auto simp: control_inv_def control_pre_def Let_def guardian_control_run_permit_def guardian_control_status_def)

theorem run_permit_envelope_witness:
  "permit_envelope (ct_status (control_run initial_control start_ops))
   \<and> last_command (out_context (ct_output (control_run initial_control start_ops))) = 1"
proof -
  have "out_apply (ct_output (control_run initial_control start_ops)) \<noteq> None"
    by (simp add: start_ops_def control_eval)
  with run_permit_envelope [OF sample_control_reachable] start_ops_run show ?thesis
    by (simp add: guardian_control_run_permit_def guardian_control_status_def)
qed

text \<open>The host cannot energize. No host action and no host request asserts the run permit: after it the
  permit is low or the control is unchanged; every other operation that raises the permit finds
  supervision already armed.\<close>

theorem host_never_energizes:
  assumes inv: "control_inv cmd c" and ok: "control_op_ok cmd op"
    and low: "cs_run_permit (ct_status c) = 0" and high: "cs_run_permit (ct_status (control_exec c op)) \<noteq> 0"
  shows "\<not> is_host_op op \<and> cs_supervision_enabled (ct_status c) = 1"
proof -
  have act: "cs_run_permit (ct_status (the (snd (guardian_control_action (Some c) a)))) = 0" for a
    using control_action_inv [OF inv, of a] low by auto
  have "\<not> is_host_op op"
    using high low act by (cases op) (auto simp: handle_request_control act split: if_splits)
  moreover have "stage (control_exec c op) = []"
    using control_exec_inv [OF inv ok] high by (simp add: control_inv_def permit_envelope_def stage_def)
  then have "subseq (stage c) [kind_of op]" using exec_stage [of c op] by simp
  then have "cs_supervision_enabled (ct_status c) \<noteq> 0"
    by (auto simp: stage_def split: if_splits)
  ultimately show ?thesis using inv by (auto simp: control_inv_def control_pre_def Let_def split: if_splits)
qed

lemma armed_ops_run:
  "control_inv last_command (control_run initial_control (butlast start_ops))"
  "cs_run_permit (ct_status (control_run initial_control (butlast start_ops))) = 0"
proof -
  have "list_all (control_op_ok last_command) (butlast start_ops)"
    using start_ops_ok by (simp add: start_ops_def)
  then show "control_inv last_command (control_run initial_control (butlast start_ops))"
    by (rule control_run_inv [OF control_inv_initial])
  show "cs_run_permit (ct_status (control_run initial_control (butlast start_ops))) = 0"
    by (simp add: start_ops_def control_eval)
qed

theorem host_never_energizes_witness:
  "cs_run_permit (ct_status (control_exec (control_run initial_control (butlast start_ops)) (Set_local_run 1))) = 1
   \<and> cs_supervision_enabled (ct_status (control_run initial_control (butlast start_ops))) = 1"
proof -
  have run: "control_exec (control_run initial_control (butlast start_ops)) (Set_local_run 1)
      = control_run initial_control start_ops" by (simp add: start_ops_def)
  have ok: "control_op_ok last_command (Set_local_run 1)" by simp
  from host_never_energizes [OF armed_ops_run(1) ok armed_ops_run(2)] run start_ops_run
  show ?thesis by simp
qed

text \<open>Latched faults persist. Along every run without a fault clearance no latched fault disappears, and
  as long as one is latched the state is FAULT_LATCHED and the permit is low, whatever the local
  inputs, the health model or the host do.\<close>

theorem latched_faults_persist:
  assumes "control_inv cmd c" "(uncleared_step cmd)\<^sup>*\<^sup>* c d" "cs_latched_faults (ct_status c) \<noteq> 0"
  shows "latched_set c \<subseteq> latched_set d \<and> cs_latched_faults (ct_status d) \<noteq> 0
    \<and> cs_state (ct_status d) = GUARDIAN_CONTROL_STATE_FAULT_LATCHED \<and> cs_run_permit (ct_status d) = 0"
proof -
  have sub: "latched_set c \<subseteq> latched_set d" by (rule uncleared.mono_run [OF assms(2,1)])
  obtain i where "bit (cs_latched_faults (ct_status c)) i" using assms(3) by (metis bit_eqI bit_0_eq bot_apply bot_bool_def)
  with sub have "bit (cs_latched_faults (ct_status d)) i" by (auto simp: latched_set_def)
  then have l: "cs_latched_faults (ct_status d) \<noteq> 0" by auto
  have "control_inv cmd d" by (rule uncleared.run_inv [OF assms(2,1)])
  with l sub show ?thesis by (auto simp: control_inv_def control_pre_def permit_envelope_def Let_def)
qed

text \<open>The running machine after its interlock opened.\<close>

definition tripped_control :: "u8 guardian_control" where
  "tripped_control = control_run initial_control (start_ops @ [Set_interlock 0])"

lemma tripped_control_inv: "control_inv last_command tripped_control"
  unfolding tripped_control_def using start_ops_ok by (intro control_run_inv control_inv_initial) simp

lemma tripped_control_latched: "cs_latched_faults (ct_status tripped_control) = 4"
  by (simp add: tripped_control_def start_ops_def control_eval)

theorem latched_faults_persist_witness:
  "cs_run_permit (ct_status (control_exec (control_exec tripped_control (Set_interlock 1)) (Set_local_run 1))) = 0"
proof -
  have s1: "uncleared_step last_command tripped_control (control_exec tripped_control (Set_interlock 1))"
    by (rule uncleared_stepI) simp_all
  have s2: "uncleared_step last_command (control_exec tripped_control (Set_interlock 1))
      (control_exec (control_exec tripped_control (Set_interlock 1)) (Set_local_run 1))"
    by (rule uncleared_stepI) simp_all
  note run = converse_rtranclp_into_rtranclp [OF s1 r_into_rtranclp [of "uncleared_step last_command", OF s2]]
  from latched_faults_persist [OF tripped_control_inv run] tripped_control_latched show ?thesis by simp
qed

text \<open>C20: No automatic restart. If a fault is latched and the permit is asserted after some sequence of
  operations, then that sequence contains, in this order, a host fault clearance, a host ARM
  and a new local run request.\<close>

theorem restart_needs_clear_arm_run:
  assumes "control_inv cmd c" "list_all (control_op_ok cmd) ops"
    and "cs_latched_faults (ct_status c) \<noteq> 0" "cs_run_permit (ct_status (control_run c ops)) \<noteq> 0"
  shows "subseq [K_clear, K_arm, K_run] (map kind_of ops)"
proof -
  have "stage (control_run c ops) = []"
    using control_run_inv [OF assms(1,2)] assms(4) by (simp add: control_inv_def permit_envelope_def stage_def)
  moreover have "stage c = [K_clear, K_arm, K_run]" using assms(3) by (simp add: stage_def)
  ultimately show ?thesis using run_stage [of c ops] by simp
qed

theorem restart_needs_clear_arm_run_witness:
  "let ops = [Set_local_run 0, Set_interlock 1, Host_action GUARDIAN_CONTROL_ACTION_CLEAR_FAULT,
       Host_action GUARDIAN_CONTROL_ACTION_ARM, Set_local_run 1]
   in cs_run_permit (ct_status (control_run tripped_control ops)) = 1
      \<and> subseq [K_clear, K_arm, K_run] (map kind_of ops)"
proof -
  let ?ops = "[Set_local_run 0, Set_interlock 1, Host_action GUARDIAN_CONTROL_ACTION_CLEAR_FAULT,
       Host_action GUARDIAN_CONTROL_ACTION_ARM, Set_local_run 1] :: u8 control_op list"
  have p: "cs_run_permit (ct_status (control_run tripped_control ?ops)) = 1"
    by (simp add: tripped_control_def start_ops_def control_eval)
  have "list_all (control_op_ok last_command) ?ops" by simp
  from restart_needs_clear_arm_run [OF tripped_control_inv this] tripped_control_latched p
  show ?thesis by (simp add: Let_def)
qed

section \<open>The handler answers every request\<close>

lemma control_error_answers: "wf_frame resp \<Longrightarrow> answers req (guardian_control_make_error req resp e)"
  by (simp add: answers_def guardian_control_make_error_def encodable_def wf_frame_def
      guardian_message_type_is_valid_def)

lemma control_success_answers:
  "wf_frame resp \<Longrightarrow> answers req (resp\<lparr>message_type := GUARDIAN_MESSAGE_RESPONSE, command := command req,
     flags := GUARDIAN_SUPPORTED_FLAGS, sequence := sequence req,
     payload := (payload resp)[0 := a, 1 := b, 2 := d, 3 := e], payload_length := 4\<rparr>)"
  by (simp add: answers_def encodable_def wf_frame_def guardian_message_type_is_valid_def)

lemma control_command_answers: "wf_frame resp \<Longrightarrow> answers req (snd (control_command c req resp))"
  by (cases "guardian_control_action (Some c) (ucast (payload req ! 1))")
    (simp add: control_command_def control_error_answers control_success_answers [simplified] Let_def)

lemma control_status_written:
  assumes "wf_frame resp"
  shows "\<exists>b. guardian_control_encode_status_payload (Some s) (Some (payload resp)) 256 (Some n) = (GUARDIAN_PROTOCOL_OK, Some b, Some 28)
    \<and> length b = 256"
  using assms
  by (simp add: guardian_control_encode_status_payload_def wf_frame_def Let_def guardian_control_write_u16_be_def
      guardian_control_write_u32_be_def)

lemma control_answers:
  assumes "wf_frame resp"
  shows "\<exists>c' resp'. guardian_control_handle_request (Some c) (Some req) (Some resp)
      = (GUARDIAN_PROTOCOL_OK, Some c', Some resp') \<and> answers req resp'"
proof -
  obtain b where "guardian_control_encode_status_payload (Some (ct_status c)) (Some (payload resp)) 256
      (Some (payload_length resp)) = (GUARDIAN_PROTOCOL_OK, Some b, Some 28)" "length b = 256"
    using control_status_written [OF assms] by blast
  then show ?thesis
    using control_command_answers [OF assms, of req c] control_error_answers [OF assms, of req]
    by (auto simp: guardian_control_handle_request_def split: prod.splits)
      (simp add: answers_def encodable_def wf_frame_def guardian_message_type_is_valid_def)
qed

interpretation control_service: frame_service "\<lambda>_. True" "served guardian_control_handle_request"
proof
  fix c :: "'c guardian_control" and resp req r c' resp'
  assume "wf_frame resp" "served guardian_control_handle_request c req resp = (r, c', resp')"
  then show "r = GUARDIAN_PROTOCOL_OK \<and> True \<and> answers req resp'"
    using control_answers [of resp c req] by (auto simp: served_def)
qed

end
