(* ===== verification/Guardian_DSP_Bounds.thy ===== *)
theory Guardian_DSP_Bounds
  imports Guardian_DSP
begin

text \<open>
  Bounds of the feature extraction: the window, the spectrum and the band powers of any block stay
  far below the largest \<open>float\<close>, the band powers never exceed the total, and the published shares
  lie between 0 and 1000.
\<close>

section \<open>Bounds of the features\<close>

lemma representable_multiple: "n < 2 ^ 24 \<Longrightarrow> 0 \<le> j \<Longrightarrow> j \<le> 104 \<Longrightarrow> representable (of_nat n * pow2 j)"
  using representable_scaled[of "int n" j] by simp

lemma sample_bounded: "f32_bounded (pow2 15) (f32_of_int (sint (v :: i16)))"
proof -
  have "- 32768 \<le> sint v" "sint v < 32768" using sint_lt[of v] sint_ge[of v] by simp_all
  then have "\<bar>sint v\<bar> \<le> 32768" by simp
  then have "of_int \<bar>sint v\<bar> \<le> (of_int 32768 :: rat)" by (simp only: of_int_le_iff)
  then show ?thesis by (intro f32_of_int_bounded) (simp_all add: representable_pow2)
qed

lemma sample_mean_bounded: "f32_bounded (pow2 15) (sample_mean vib)"
proof -
  have "n \<le> 64 \<Longrightarrow> f32_bounded (of_nat n * pow2 15) (fold (\<lambda>i m. f32_add m (f32_of_int (sint (vib ! i)))) [0..<n] (F32 0))" for n
  proof (induction n)
    case (Suc n)
    have "of_nat n * pow2 15 + pow2 15 \<le> of_nat (Suc n) * pow2 15" by (simp add: algebra_simps)
    moreover have "representable (of_nat (Suc n) * pow2 15)" using Suc.prems by (intro representable_multiple) simp_all
    moreover have "f32_bounded (of_nat n * pow2 15) (fold (\<lambda>i m. f32_add m (f32_of_int (sint (vib ! i)))) [0..<n] (F32 0))"
      using Suc by simp
    ultimately have "f32_bounded (of_nat (Suc n) * pow2 15)
        (f32_add (fold (\<lambda>i m. f32_add m (f32_of_int (sint (vib ! i)))) [0..<n] (F32 0)) (f32_of_int (sint (vib ! n))))"
      using f32_add_bounded[OF _ sample_bounded] by blast
    then show ?case by (simp only: upt_Suc fold_append fold_simps comp_apply zero_le if_True le0)
  qed simp
  from this[of 64] obtain q where q: "fold (\<lambda>i m. f32_add m (f32_of_int (sint (vib ! i)))) [0..<64] (F32 0) = F32 q"
      "\<bar>q\<bar> \<le> of_nat 64 * pow2 15"
    by (auto elim!: f32_withinE simp: abs_le_iff)
  have "f32_of_nat 64 = F32 64" using f32_of_nat_exact[of 64] by simp
  moreover have "f32_bounded (pow2 15) (round32 (q / 64))"
    using q(2) representable_pow2[of 15] by (intro round32_within) (auto simp: abs_le_iff)
  ultimately show ?thesis unfolding sample_mean_def q(1) by simp
qed

definition window_ok :: "nat \<Rightarrow> f32 \<times> f32 \<times> f32 list \<Rightarrow> bool" where
  "window_ok n st \<longleftrightarrow> f32_within 0 (of_nat n * pow2 32) (fst st) \<and> f32_within 0 (pow2 16) (fst (snd st))
     \<and> length (snd (snd st)) = 64 \<and> (\<forall>i<64. f32_bounded (pow2 16) (snd (snd st) ! i))"

lemma window_step_ok:
  assumes "window_ok n st" "n < 64"
  shows "window_ok (Suc n) (window_step vib (sample_mean vib) n st)"
proof -
  obtain s p re where st: "st = (s, p, re)" by (cases st)
  define x where "x = f32_sub (f32_of_int (sint (vib ! n))) (sample_mean vib)"
  have x: "f32_bounded (pow2 16) x"
    unfolding x_def by (rule f32_sub_bounded[OF sample_bounded sample_mean_bounded]) (simp_all add: representable_pow2)
  then obtain q where q: "x = F32 q" "representable q" "- pow2 16 \<le> q" "q \<le> pow2 16" by (rule f32_withinE)
  then have a: "f32_within 0 (pow2 16) (if f32_less x (F32 0) then f32_neg x else x)" by auto
  have sq: "f32_within 0 (pow2 32) (f32_mul x x)"
    by (rule f32_square_within[OF x]) (simp, rule representable_pow2, simp_all)
  have rep: "representable (of_nat (Suc n) * pow2 32)" using assms(2) by (intro representable_multiple) simp_all
  have "of_nat n * pow2 32 + pow2 32 \<le> of_nat (Suc n) * pow2 32" by (simp add: algebra_simps)
  then have s: "f32_within 0 (of_nat (Suc n) * pow2 32) (f32_add s (f32_mul x x))"
    using assms(1) st rep by (intro f32_add_within[OF _ sq, of 0 "of_nat n * pow2 32"]) (simp_all add: window_ok_def)
  have "f32_bounded 1 (guardian_dsp_hann ! n)" using tables_bounded assms(2) by (simp add: list_all_length)
  then have h: "f32_bounded (pow2 16) (f32_mul x (guardian_dsp_hann ! n))"
    by (rule f32_mul_bounded[OF x]) (simp_all add: representable_pow2)
  have "window_step vib (sample_mean vib) n st =
      (f32_add s (f32_mul x x), if f32_less p (if f32_less x (F32 0) then f32_neg x else x)
         then if f32_less x (F32 0) then f32_neg x else x else p, re[n := f32_mul x (guardian_dsp_hann ! n)])"
    by (simp only: window_step_def st x_def Let_def prod.case)
  then show ?thesis
    using assms st s a h by (auto simp: window_ok_def nth_list_update)
qed

lemma window_loop_ok: "window_ok 64 (window_loop vib (sample_mean vib))"
proof -
  have "n \<le> 64 \<Longrightarrow> window_ok n (fold (window_step vib (sample_mean vib)) [0..<n] (F32 0, F32 0, replicate 64 (F32 0)))" for n
  proof (induction n)
    case 0
    then show ?case by (simp add: window_ok_def)
  next
    case (Suc n)
    then show ?case using window_step_ok[of n] by simp
  qed
  then show ?thesis by (simp add: window_loop_def)
qed

lemma power_bounded:
  assumes "spectrum_bounded 28 st" "i < 33"
  shows "f32_within 0 (pow2 57) (power_spectrum st ! i)"
proof -
  have b: "f32_bounded (pow2 28) (fst st ! i)" "f32_bounded (pow2 28) (snd st ! i)"
    using assms by (simp_all add: spectrum_bounded_def)
  have sq: "f32_within 0 (pow2 56) (f32_mul x x)" if "f32_bounded (pow2 28) x" for x
    by (rule f32_square_within[OF that]) (simp, rule representable_pow2, simp_all)
  have "representable (pow2 57)" by (rule representable_pow2) simp_all
  then have "f32_within 0 (pow2 57) (f32_add (f32_mul (fst st ! i) (fst st ! i)) (f32_mul (snd st ! i) (snd st ! i)))"
    using f32_add_within[OF sq[OF b(1)] sq[OF b(2)], of 0 "pow2 57"] by simp
  then show ?thesis using assms(2) by (simp add: power_spectrum_def)
qed


text \<open>Adding the same power to a part and to the whole keeps the part below the whole.\<close>

lemma part_add_within:
  assumes "f32_within 0 t l" "f32_within 0 hi x" "f32_add (F32 t) x = F32 t'"
  shows "f32_within 0 t' (f32_add l x)"
proof -
  obtain p q where pq: "l = F32 p" "x = F32 q" "0 \<le> p" "p \<le> t" "0 \<le> q"
    using assms(1,2) by (auto elim!: f32_withinE)
  have t': "t' = round_val (t + q)" "round_val (t + q) < pow2 128"
    using assms(3) pq(2) by (auto simp: round32_def Let_def split: if_splits)
  have "0 \<le> round_val (p + q)" "round_val (p + q) \<le> round_val (t + q)"
    using pq round_val_mono[of 0 "p + q"] round_val_mono[of "p + q" "t + q"] by (simp_all add: round_val_fixed)
  moreover from this t' have "representable (round_val (p + q))" by (intro round_val_representable) simp
  ultimately show ?thesis using pq t' by (auto simp: round32_def Let_def)
qed

definition bands_ok :: "nat \<Rightarrow> band_powers \<Rightarrow> bool" where
  "bands_ok n b \<longleftrightarrow> (\<exists>t. bp_total b = F32 t \<and> representable t \<and> 0 \<le> t \<and> t \<le> of_nat n * pow2 57
     \<and> f32_within 0 t (bp_low b) \<and> f32_within 0 t (bp_mid b) \<and> f32_within 0 t (bp_high b))
   \<and> f32_within 0 (of_nat n * pow2 88) (bp_centroid b) \<and> f32_within 0 (pow2 57) (bp_dominant b) \<and> bp_dominant_bin b < 33"

lemma bin_frequency_within:
  assumes "i < 33"
  shows "f32_within 0 (pow2 31) (f32_div (f32_mul (f32_of_nat i) (f32_of_nat (unat (rate :: u32)))) (f32_of_nat 64))"
proof -
  have "of_nat (unat rate) \<le> (of_nat (2 ^ 32) :: rat)" 
  proof (subst of_nat_le_iff)
    have "unat rate < 2 ^ LENGTH(32)" by (rule unsigned_less)
    then show "unat rate \<le> 2 ^ 32" by simp
  qed
  then have "of_nat (unat rate) \<le> pow2 32" by simp
  moreover have "representable (pow2 32)" "representable (pow2 37)" "representable (pow2 31)" by (rule representable_pow2; simp)+
  ultimately have r: "f32_within 0 (pow2 32) (f32_of_nat (unat rate))" by (intro f32_of_nat_within)
  have i: "f32_within 0 (pow2 5) (f32_of_nat i)"
    using assms by (intro f32_of_nat_within) (simp, rule representable_pow2, simp_all)
  have m: "f32_within 0 (pow2 37) (f32_mul (f32_of_nat i) (f32_of_nat (unat rate)))"
    using f32_mul_within[OF i r, of "pow2 37"] \<open>representable (pow2 37)\<close> by simp
  have "f32_within 64 64 (f32_of_nat 64)" using f32_of_nat_exact[of 64] by simp
  from f32_div_within[OF m this, of "pow2 31"] \<open>representable (pow2 31)\<close> show ?thesis by simp
qed

lemma band_step_ok:
  assumes "bands_ok n b" "n < 1000" "i < 33" "f32_within 0 (pow2 57) (pw ! i)"
  shows "bands_ok (Suc n) (band_step rate pw i b)"
proof -
  obtain t where t: "bp_total b = F32 t" "representable t" "0 \<le> t" "t \<le> of_nat n * pow2 57"
      "f32_within 0 t (bp_low b)" "f32_within 0 t (bp_mid b)" "f32_within 0 t (bp_high b)"
    using assms(1) by (auto simp: bands_ok_def)
  let ?f = "f32_div (f32_mul (f32_of_nat i) (f32_of_nat (unat rate))) (f32_of_nat 64)" and ?x = "pw ! i"
  have rep: "representable (of_nat (Suc n) * pow2 57)" "representable (of_nat (Suc n) * pow2 88)" "representable (pow2 88)"
    using assms(2) by (intro representable_multiple representable_pow2; simp)+
  have "of_nat n * pow2 57 + pow2 57 \<le> of_nat (Suc n) * pow2 57" "of_nat n * pow2 88 + pow2 88 \<le> of_nat (Suc n) * pow2 88"
    by (simp_all add: algebra_simps)
  note le = this
  have tt: "f32_within t (of_nat n * pow2 57) (F32 t)" using t by simp
  obtain t' where t': "f32_add (F32 t) ?x = F32 t'" "representable t'" "t \<le> t'" "t' \<le> of_nat (Suc n) * pow2 57"
    using f32_add_within[OF tt assms(4), of t "of_nat (Suc n) * pow2 57"] le(1) rep(1) t(2) by (auto elim!: f32_withinE)
  have part: "f32_within 0 t' (f32_add l ?x)" "f32_within 0 t' l" if "f32_within 0 t l" for l
    using part_add_within[OF that assms(4) t'(1)] f32_within_weaken[OF that order_refl t'(3)] by simp_all
  have m: "f32_within 0 (pow2 88) (f32_mul ?f ?x)"
    using f32_mul_within[OF bin_frequency_within[OF assms(3)] assms(4), of "pow2 88"] rep(3) by simp
  have "f32_within 0 (of_nat n * pow2 88) (bp_centroid b)" using assms(1) by (simp add: bands_ok_def)
  from f32_add_within[OF this m _ le(2) _ rep(2), of 0]
  have c: "f32_within 0 (of_nat (Suc n) * pow2 88) (f32_add (bp_centroid b) (f32_mul ?f ?x))" by simp
  have t0: "0 \<le> t'" using t(3) t'(3) by simp
  have d: "f32_within 0 (pow2 57) (bp_dominant b)" "bp_dominant_bin b < 33" using assms(1) by (simp_all add: bands_ok_def)
  note facts = t'(1,2,4) t0 part[OF t(5)] part[OF t(6)] part[OF t(7)] c d assms(3,4)
  show ?thesis
    unfolding bands_ok_def band_step_def Let_def t(1) using facts by (auto simp: t(1) simp del: f32_add.simps f32_mul.simps of_nat_Suc)
qed

lemma band_loop_ok:
  assumes "\<And>i. i < 33 \<Longrightarrow> f32_within 0 (pow2 57) (pw ! i)"
  shows "bands_ok 32 (band_loop rate pw)"
proof -
  let ?b = "\<lparr>bp_total = F32 0, bp_centroid = F32 0, bp_low = F32 0, bp_mid = F32 0, bp_high = F32 0,
        bp_dominant = F32 0, bp_dominant_bin = 0\<rparr>"
  have "n \<le> 32 \<Longrightarrow> bands_ok n (fold (band_step rate pw) [1..<Suc n] ?b)" for n
  proof (induction n)
    case 0
    then show ?case by (simp add: bands_ok_def)
  next
    case (Suc n)
    then have "bands_ok (Suc n) (band_step rate pw (Suc n) (fold (band_step rate pw) [1..<Suc n] ?b))"
      using assms by (intro band_step_ok) simp_all
    then show ?case by simp
  qed
  from this[of 32] show ?thesis by (simp add: band_loop_def)
qed


lemma dsp_u16_le:
  assumes "f32_within 0 (of_nat k) v" "k < 65535"
  shows "unat (guardian_dsp_u16 v) \<le> k"
proof -
  have h: "0 \<le> f32_trunc (f32_add v (F32 (1 / 2)))" "f32_trunc (f32_add v (F32 (1 / 2))) \<le> int k"
    using f32_half_up[OF assms(1)] assms(2) by simp_all
  then have "unat (word_of_int (f32_trunc (f32_add v (F32 (1 / 2)))) :: u16) \<le> k"
    using assms(2) by (simp add: unsigned_of_int nat_le_iff take_bit_eq_mod)
  moreover have "\<not> f32_le (F32 65535) v"
    using assms by (auto elim!: f32_withinE)
  ultimately show ?thesis by (simp add: guardian_dsp_u16_def del: f32_add.simps)
qed

lemma permille_le:
  assumes "f32_within 0 t part" "0 < t" "representable t"
  shows "unat (permille part (F32 t)) \<le> 1000"
proof -
  have "f32_within 0 1 (f32_div part (F32 t))"
    by (rule f32_div_within[OF assms(1), of t t]) (use assms in simp_all)
  then have "f32_within 0 1000 (f32_mul (f32_div part (F32 t)) (F32 1000))"
    using f32_mul_within[of 1 "f32_div part (F32 t)" 1000 "F32 1000" 1000] by simp
  then show ?thesis unfolding permille_def by (intro dsp_u16_le) simp_all
qed

definition block_spectrum :: "guardian_acquisition_signal_block \<Rightarrow> f32 list \<times> f32 list" where
  "block_spectrum block = guardian_dsp_fft64
     (snd (snd (window_loop (sb_vibration_mg block) (sample_mean (sb_vibration_mg block))))) (replicate 64 (F32 0))"

lemma block_spectrum_bounded: "spectrum_bounded 28 (block_spectrum block)"
proof -
  have "spectrum_bounded 16 (snd (snd (window_loop (sb_vibration_mg block) (sample_mean (sb_vibration_mg block)))), replicate 64 (F32 0))"
    using window_loop_ok[of "sb_vibration_mg block"] by (simp add: window_ok_def spectrum_bounded_def)
  from fft64_bounded[OF this] show ?thesis by (simp add: block_spectrum_def)
qed

lemma shares_complete:
  assumes "unat low \<le> 1000" "unat mid \<le> 1000" "(ucast (low :: u16) :: u32) + ucast (mid :: u16) \<le> 1000"
  shows "unat low + unat mid + unat (ucast (1000 - (ucast low :: u32) - ucast mid) :: u16) = 1000"
proof -
  have u: "unat (ucast low :: u32) = unat low" "unat (ucast mid :: u32) = unat mid" by (rule unat_ucast_u16)+
  have "unat ((ucast low :: u32) + ucast mid) = unat low + unat mid"
    using assms(1,2) by (simp add: unat_word_ariths(1) u)
  then have le: "unat low + unat mid \<le> 1000" using assms(3) by (simp add: word_le_nat_alt)
  have "unat (1000 - ((ucast low :: u32) + ucast mid)) = 1000 - (unat low + unat mid)"
    using assms(3) \<open>unat ((ucast low :: u32) + ucast mid) = unat low + unat mid\<close> by (subst unat_sub) simp_all
  then have "unat (ucast (1000 - (ucast low :: u32) - ucast mid) :: u16) = 1000 - (unat low + unat mid)"
    by (simp add: diff_diff_eq unsigned_ucast_eq take_bit_nat_eq_self)
  then show ?thesis using le by simp
qed


lemma block_features_cases:
  obtains (silent) f where "block_features block = f\<lparr>df_dsp_status_flags := 7 OR GUARDIAN_DSP_STATUS_SILENT\<rparr>"
      "df_low_band_permille f = 0" "df_mid_band_permille f = 0" "df_high_band_permille f = 0"
  | (spectral) b f t where "block_features block = spectral_features (sb_sample_rate_hz block) (power_spectrum (block_spectrum block)) b f"
      "bands_ok 32 b" "bp_total b = F32 t" "0 < t" "df_dsp_status_flags f = 7"
proof -
  let ?b = "band_loop (sb_sample_rate_hz block) (power_spectrum (block_spectrum block))"
  obtain s p re where w: "window_loop (sb_vibration_mg block) (sample_mean (sb_vibration_mg block)) = (s, p, re)"
    by (metis prod_cases3)
  define f where "f = time_features block (f32_sqrt (f32_div s (f32_of_nat 64))) p"
  have sp: "guardian_dsp_fft64 re (replicate 64 (F32 0)) = block_spectrum block" by (simp add: block_spectrum_def w)
  have ok: "bands_ok 32 ?b" using power_bounded[OF block_spectrum_bounded] by (intro band_loop_ok)
  then obtain t where t: "bp_total ?b = F32 t" by (auto simp: bands_ok_def)
  have f: "df_dsp_status_flags f = 7" "df_low_band_permille f = 0" "df_mid_band_permille f = 0" "df_high_band_permille f = 0"
    by (simp_all add: f_def time_features_def zero_features_def)
  have "f32_within 0 1 (round32 (1 / 1000000000))" by (rule round32_within) simp_all
  then have pos: "0 < t" if "f32_less (round32 (1 / 1000000000)) (F32 t)" using that by (auto elim!: f32_withinE)
  have bf: "block_features block = (if f32_less (round32 (1 / 1000000000)) (bp_total ?b)
      then spectral_features (sb_sample_rate_hz block) (power_spectrum (block_spectrum block)) ?b f
      else f\<lparr>df_dsp_status_flags := df_dsp_status_flags f OR GUARDIAN_DSP_STATUS_SILENT\<rparr>)"
    by (simp only: block_features_def w Let_def prod.case sp f_def)
  show thesis
  proof (cases "f32_less (round32 (1 / 1000000000)) (F32 t)")
    case True
    then show thesis using spectral[OF _ ok t pos f(1)] bf t by simp
  next
    case False
    then show thesis using silent[of f] bf t f by simp
  qed
qed



end
