(* ===== verification/Guardian_Health_Model.thy ===== *)
theory Guardian_Health_Model
  imports Guardian_Health Guardian_DSP_Bounds
begin

text \<open>
  Correctness of the machine-health model: the learned statistics stay finite and ordered in
  binary32 arithmetic, the scores are complementary, a baseline is ready exactly at its target,
  and the persistence machine equals a characterization over the history of scored windows.
\<close>

section \<open>Learning\<close>

definition stat_ok :: "nat \<Rightarrow> guardian_health_stat \<Rightarrow> bool" where
  "stat_ok n s \<longleftrightarrow> f32_within 0 (pow2 32) (st_mean s) \<and> f32_within 0 (of_nat n * pow2 64) (st_m2 s)
     \<and> (n = 0 \<longrightarrow> st_mean s = F32 0)"

lemma rep_health: "representable (pow2 32)" "representable (pow2 64)" "representable (pow2 33)"
  by (rule representable_pow2; simp)+

lemmas rep_health_numerals [simp] = rep_health [simplified]

lemma f32_mul_nonpos:
  assumes "f32_within (- b) 0 x" "f32_within (- b) 0 y" "b * b \<le> hi" "representable hi"
  shows "f32_within 0 hi (f32_mul x y)"
proof -
  from assms(1,2) obtain p q where pq: "x = F32 p" "y = F32 q" "- b \<le> p" "p \<le> 0" "- b \<le> q" "q \<le> 0"
    by (auto elim!: f32_withinE)
  have "0 \<le> p * q" using pq by (simp add: mult_nonpos_nonpos)
  moreover have "p * q \<le> b * b" using mult_mono[of "- p" b "- q" b] pq by simp
  ultimately show ?thesis using pq assms(3,4) by (simp add: round32_within)
qed

lemma learn_products:
  assumes "representable m" "representable x" "0 \<le> m" "m \<le> pow2 32" "0 \<le> x" "x \<le> pow2 32" "2 \<le> (k :: rat)"
  defines "mean \<equiv> f32_add (F32 m) (f32_div (f32_sub (F32 x) (F32 m)) (F32 k))"
  shows "f32_within 0 (pow2 32) mean \<and> f32_within 0 (pow2 64) (f32_mul (f32_sub (F32 x) (F32 m)) (f32_sub (F32 x) mean))"
proof -
  have sq: "pow2 32 * pow2 32 \<le> pow2 64" by (simp add: pow2_add[symmetric] del: power_int_numeral)
  have small: "pow2 32 < pow2 127" by simp
  show ?thesis
  proof (cases "m \<le> x")
    case True
    have mean: "f32_within m x mean" unfolding mean_def
      using assms(1-7) True small by (intro running_mean_up) linarith+
    have d: "f32_within 0 (pow2 32) (f32_sub (F32 x) (F32 m))"
      by (rule f32_sub_within[of x x _ m m]) (use assms(1-6) True in auto)
    have a: "f32_within 0 (pow2 32) (f32_sub (F32 x) mean)"
      by (rule f32_sub_within[of x x _ m x, OF _ mean]) (use assms(1-6) True in auto)
    have "f32_within 0 (pow2 32) mean" using mean assms(3,6) by (rule f32_within_weaken)
    then show ?thesis using f32_mul_within[OF d a sq rep_health(2)] by blast
  next
    case False
    then have le: "x \<le> m" by simp
    have mean: "f32_within x m mean" unfolding mean_def
      using assms(1-7) le small by (intro running_mean_down) linarith+
    have neg: "representable (- pow2 32)" by simp
    have d: "f32_within (- pow2 32) 0 (f32_sub (F32 x) (F32 m))"
      by (rule f32_sub_within[of x x _ m m _ _ 0, OF _ _ _ _ neg]) (use assms(1-6) le in auto)
    have a: "f32_within (- pow2 32) 0 (f32_sub (F32 x) mean)"
      by (rule f32_sub_within[of x x _ x m _ _ 0, OF _ mean _ _ neg]) (use assms(1-6) le in auto)
    have "f32_within 0 (pow2 32) mean" using mean assms(5,4) by (rule f32_within_weaken)
    then show ?thesis using f32_mul_nonpos[OF d a sq rep_health(2)] by blast
  qed
qed

lemma learn_stat_ok:
  assumes "stat_ok n s" "n < 1024" "f32_within 0 (pow2 32) v"
  shows "stat_ok (Suc n) (learn_stat (Suc n) v s)"
proof -
  obtain m where m: "st_mean s = F32 m" "representable m" "0 \<le> m" "m \<le> pow2 32"
    using assms(1) by (auto simp: stat_ok_def elim!: f32_withinE)
  obtain x where x: "v = F32 x" "representable x" "0 \<le> x" "x \<le> pow2 32" using assms(3) by (rule f32_withinE)
  have cnt: "f32_of_nat (Suc n) = F32 (of_nat (Suc n))" using assms(2) by (intro f32_of_nat_exact) simp
  let ?d = "f32_sub (F32 x) (F32 m)"
  let ?mean = "f32_add (F32 m) (f32_div ?d (F32 (of_nat (Suc n))))"
  have "f32_within 0 (pow2 32) ?mean \<and> f32_within 0 (pow2 64) (f32_mul ?d (f32_sub (F32 x) ?mean))"
  proof (cases "n = 0")
    case True
    then have "m = 0" using assms(1) m(1) by (simp add: stat_ok_def)
    moreover have "round32 x = F32 x" "round32 0 = F32 0" using x(2) by (simp_all add: round32_fixed)
    ultimately show ?thesis using True x by (simp add: f32_sub_def)
  next
    case False
    then have "2 \<le> (of_nat (Suc n) :: rat)" by (simp add: Suc_le_eq flip: of_nat_Suc)
    then show ?thesis using learn_products[OF m(2) x(2) m(3,4) x(3,4)] by blast
  qed
  moreover have "representable (of_nat (Suc n) * pow2 64)" using assms(2) by (intro representable_multiple) simp_all
  moreover have "of_nat n * pow2 64 + pow2 64 \<le> of_nat (Suc n) * pow2 64" by (simp add: algebra_simps)
  moreover have "f32_within 0 (of_nat n * pow2 64) (st_m2 s)" using assms(1) by (simp add: stat_ok_def)
  ultimately have "f32_within 0 (pow2 32) ?mean"
      "f32_within 0 (of_nat (Suc n) * pow2 64) (f32_add (st_m2 s) (f32_mul ?d (f32_sub (F32 x) ?mean)))"
    using f32_add_within[of 0 "of_nat n * pow2 64" "st_m2 s" 0 "pow2 64" "f32_mul ?d (f32_sub (F32 x) ?mean)" 0 "of_nat (Suc n) * pow2 64"]
    by auto
  then show ?thesis
    by (simp only: stat_ok_def learn_stat_def Let_def m(1) x(1) cnt guardian_health_stat.simps) simp
qed

lemma vector_within: "i < 7 \<Longrightarrow> f32_within 0 (pow2 32) (guardian_health_vector f ! i)"
proof -
  have u16: "f32_within 0 (pow2 32) (f32_of_nat (unat (w :: u16)))" for w
  proof (rule f32_of_nat_within)
    have "unat w < 2 ^ LENGTH(16)" by (rule unsigned_less)
    then have "(of_nat (unat w) :: rat) \<le> of_nat 65536" by (simp only: of_nat_le_iff) simp
    then show "of_nat (unat w) \<le> pow2 32" by simp
  qed simp
  have u32: "f32_within 0 (pow2 32) (f32_of_nat (unat (w :: u32)))" for w
  proof (rule f32_of_nat_within)
    have "unat w < 2 ^ LENGTH(32)" by (rule unsigned_less)
    then have "(of_nat (unat w) :: rat) \<le> of_nat 4294967296" by (simp only: of_nat_le_iff) simp
    then show "of_nat (unat w) \<le> pow2 32" by simp
  qed simp
  assume "i < 7"
  then have "i = 0 \<or> i = 1 \<or> i = 2 \<or> i = 3 \<or> i = 4 \<or> i = 5 \<or> i = 6" by linarith
  then show ?thesis using u16 u32 by (auto simp: guardian_health_vector_def simp del: power_int_numeral)
qed


section \<open>Scoring\<close>

definition stats_ok :: "guardian_health \<Rightarrow> bool" where
  "stats_ok h \<longleftrightarrow> length (hl_stats h) = 7 \<and> unat (hs_baseline_samples (hl_status h)) \<le> 1024
     \<and> (\<forall>i<7. stat_ok (unat (hs_baseline_samples (hl_status h))) (hl_stats h ! i))"

lemma sigma_floor_within: "i < 7 \<Longrightarrow> f32_within 5 (pow2 33) (guardian_health_sigma_floor ! i)"
proof -
  assume "i < 7"
  then have "i = 0 \<or> i = 1 \<or> i = 2 \<or> i = 3 \<or> i = 4 \<or> i = 5 \<or> i = 6" by linarith
  then show ?thesis by (auto simp: guardian_health_sigma_floor_def)
qed

lemma weight_within: "i < 7 \<Longrightarrow> f32_within 0 2 (guardian_health_weight ! i)"
proof -
  assume "i < 7"
  then have "i = 0 \<or> i = 1 \<or> i = 2 \<or> i = 3 \<or> i = 4 \<or> i = 5 \<or> i = 6" by linarith
  then show ?thesis by (auto simp: guardian_health_weight_def intro!: round32_within)
qed

text \<open>A standard deviation is finite and not below its floor.\<close>

lemma sigma_within:
  assumes "stats_ok h" "i < 7"
  shows "f32_within 5 (pow2 33) (guardian_health_sigma h i)"
proof (cases "hs_baseline_samples (hl_status h) > 1")
  case True
  define n where "n = unat (hs_baseline_samples (hl_status h))"
  have n: "1 < n" "n \<le> 1024" using True assms(1) by (simp_all add: n_def stats_ok_def word_less_nat_alt)
  have c: "f32_of_nat (n - 1) = F32 (of_nat (n - 1))" using n by (intro f32_of_nat_exact) simp
  have m2: "f32_within 0 (of_nat n * pow2 64) (st_m2 (hl_stats h ! i))"
    using assms by (simp add: stats_ok_def stat_ok_def n_def)
  have k: "representable (of_nat (n - 1))" using representable_int[of "int (n - 1)"] n by simp
  have nn: "of_nat n = of_nat (n - 1) + (1 :: rat)" using n by (simp add: of_nat_diff)
  have pos: "1 \<le> (of_nat (n - 1) :: rat)" using n by simp
  then have "of_nat n \<le> 2 * (of_nat (n - 1) :: rat)" using nn by linarith
  then have "of_nat n * pow2 64 \<le> (pow2 65) * of_nat (n - 1)" by simp
  then have le: "of_nat n * pow2 64 / of_nat (n - 1) \<le> pow2 65" using pos by (subst divide_le_eq) simp
  have "representable (pow2 65)" by (rule representable_pow2) simp_all
  then have var: "f32_within 0 (pow2 65) (f32_div (st_m2 (hl_stats h ! i)) (F32 (of_nat (n - 1))))"
    using f32_div_within[OF m2 _ _ le, of "of_nat (n - 1)" "F32 (of_nat (n - 1))"] k pos by simp
  have root: "f32_within 0 (pow2 33) (f32_sqrt (f32_div (st_m2 (hl_stats h ! i)) (F32 (of_nat (n - 1)))))"
    by (rule f32_sqrt_within[OF var]) simp_all
  have fl: "f32_within 5 (pow2 33) (guardian_health_sigma_floor ! i)" by (rule sigma_floor_within[OF assms(2)])
  have up: "f32_within 5 (pow2 33) y" if "f32_less x y" "f32_within 5 (pow2 33) x" "f32_within 0 (pow2 33) y" for x y
    using that by (auto elim!: f32_withinE)
  show ?thesis
    unfolding guardian_health_sigma_def Let_def n_def[symmetric] c using True fl up[OF _ fl root] by simp
next
  case False
  then show ?thesis using sigma_floor_within[OF assms(2)] by (simp add: guardian_health_sigma_def)
qed

lemma weighted_deviation_within:
  assumes "stats_ok h" "i < 7"
  shows "f32_within 0 (pow2 33) (weighted_deviation h (guardian_health_vector f) i)"
proof -
  have m: "f32_within 0 (pow2 32) (st_mean (hl_stats h ! i))" using assms by (simp add: stats_ok_def stat_ok_def)
  have d: "f32_bounded (pow2 32) (f32_sub (guardian_health_vector f ! i) (st_mean (hl_stats h ! i)))"
    using f32_sub_within[OF vector_within[OF assms(2), of f] m, of "- pow2 32" "pow2 32"] by simp
  then have a: "f32_within 0 (pow2 32) (guardian_health_abs (f32_sub (guardian_health_vector f ! i) (st_mean (hl_stats h ! i))))"
    by (auto simp: guardian_health_abs_def elim!: f32_withinE)
  have n: "f32_within 0 (pow2 32) (f32_div (guardian_health_abs (f32_sub (guardian_health_vector f ! i) (st_mean (hl_stats h ! i))))
      (guardian_health_sigma h i))"
    by (rule f32_div_within[OF a sigma_within[OF assms]]) simp_all
  show ?thesis unfolding weighted_deviation_def Let_def
    by (rule f32_mul_within[OF n weight_within[OF assms(2)]]) simp_all
qed

lemma score_loop_within:
  assumes "stats_ok h"
  shows "f32_within 0 (pow2 33) (fst (score_loop h f))"
proof -
  have "n \<le> 7 \<Longrightarrow> f32_within 0 (pow2 33) (fst (fold (score_step h (guardian_health_vector f)) [0..<n] (F32 0, 0xFF, 0)))" for n
  proof (induction n)
    case (Suc n)
    then show ?case
      using weighted_deviation_within[OF assms, of n f] by (auto simp: score_step_def Let_def split: prod.splits if_splits)
  qed simp
  then show ?thesis by (simp add: score_loop_def)
qed

lemma health_u16_is_dsp_u16: "guardian_health_u16 = guardian_dsp_u16"
  by (simp add: fun_eq_iff guardian_health_u16_def guardian_dsp_u16_def)

text \<open>The anomaly score of a finite deviation is at most 1000.\<close>

lemma anomaly_score_le:
  assumes "f32_within 0 (pow2 33) z"
  defines "raw \<equiv> f32_mul (f32_div z (F32 6)) (F32 1000)"
  shows "unat (guardian_health_u16 (if f32_less (F32 1000) raw then F32 1000 else raw)) \<le> 1000"
proof -
  have "f32_within 0 (pow2 33) (f32_div z (F32 6))"
    by (rule f32_div_within[OF assms(1), of 6 6]) simp_all
  then have "f32_within 0 (pow2 43) raw" unfolding raw_def
    using f32_mul_within[of "pow2 33" "f32_div z (F32 6)" 1000 "F32 1000" "pow2 43"] representable_pow2[of 43] by simp
  then have "f32_within 0 (of_nat 1000) (if f32_less (F32 1000) raw then F32 1000 else raw)"
    by (auto elim!: f32_withinE)
  then show ?thesis unfolding health_u16_is_dsp_u16 by (rule dsp_u16_le) simp
qed


section \<open>The invariant\<close>

fun progress_ok :: "guardian_health_state \<Rightarrow> u16 \<Rightarrow> u16 \<Rightarrow> bool" where
  "progress_ok GUARDIAN_HEALTH_STATE_UNTRAINED samples target \<longleftrightarrow> samples = 0 \<and> target = 0"
| "progress_ok GUARDIAN_HEALTH_STATE_LEARNING samples target \<longleftrightarrow> samples < target \<and> 16 \<le> target \<and> target \<le> 1024"
| "progress_ok _ samples target \<longleftrightarrow> samples = target \<and> 16 \<le> target \<and> target \<le> 1024"

definition scores_ok :: "guardian_health_status \<Rightarrow> bool" where
  "scores_ok s \<longleftrightarrow> hs_anomaly_score s \<le> 1000 \<and> hs_health_score s = 1000 - hs_anomaly_score s"

definition health_inv :: "guardian_health \<Rightarrow> bool" where
  "health_inv h \<longleftrightarrow> stats_ok h \<and> scores_ok (hl_status h)
     \<and> progress_ok (hs_state (hl_status h)) (hs_baseline_samples (hl_status h)) (hs_baseline_target (hl_status h))
     \<and> (hs_state (hl_status h) \<in> {GUARDIAN_HEALTH_STATE_UNTRAINED, GUARDIAN_HEALTH_STATE_LEARNING}
        \<longrightarrow> hl_anomalous_streak h = 0 \<and> hl_recovery_streak h = 0)"

lemma initial_health_inv: "health_inv initial_health"
  by (simp add: health_inv_def stats_ok_def stat_ok_def scores_ok_def initial_health_def zero_health_status_def)

lemma start_baseline_inv:
  assumes "guardian_health_start_baseline (Some h) target = (ok, Some h')" "health_inv h"
  shows "health_inv h'" "ok \<Longrightarrow> hs_state (hl_status h') = GUARDIAN_HEALTH_STATE_LEARNING \<and> hs_baseline_samples (hl_status h') = 0
    \<and> hs_baseline_target (hl_status h') = target"
proof -
  have t: "(0::u16) < target" if "16 \<le> target" 
    using that by (simp add: word_less_nat_alt word_le_nat_alt)
  show "health_inv h'" "ok \<Longrightarrow> hs_state (hl_status h') = GUARDIAN_HEALTH_STATE_LEARNING \<and> hs_baseline_samples (hl_status h') = 0
    \<and> hs_baseline_target (hl_status h') = target"
    using assms t by (auto simp: guardian_health_start_baseline_def guardian_health_reset_def health_inv_def stats_ok_def stat_ok_def
        scores_ok_def initial_health_def zero_health_status_def not_less Let_def split: if_splits)
qed

lemma reject_input_inv: "health_inv h \<Longrightarrow> health_inv (guardian_health_reject_input h q)"
  by (auto simp: guardian_health_reject_input_def health_inv_def stats_ok_def scores_ok_def Let_def)

lemma summary_fields [simp]:
  "hl_stats (guardian_health_update_baseline_summary h) = hl_stats h"
  "hl_anomalous_streak (guardian_health_update_baseline_summary h) = hl_anomalous_streak h"
  "hl_recovery_streak (guardian_health_update_baseline_summary h) = hl_recovery_streak h"
  "hl_baseline_sample_rate_hz (guardian_health_update_baseline_summary h) = hl_baseline_sample_rate_hz h"
  "hs_state (hl_status (guardian_health_update_baseline_summary h)) = hs_state (hl_status h)"
  "hs_baseline_samples (hl_status (guardian_health_update_baseline_summary h)) = hs_baseline_samples (hl_status h)"
  "hs_baseline_target (hl_status (guardian_health_update_baseline_summary h)) = hs_baseline_target (hl_status h)"
  "hs_anomaly_score (hl_status (guardian_health_update_baseline_summary h)) = hs_anomaly_score (hl_status h)"
  "hs_health_score (hl_status (guardian_health_update_baseline_summary h)) = hs_health_score (hl_status h)"
  by (simp_all add: guardian_health_update_baseline_summary_def)

lemma learn_effect:
  "hl_stats (guardian_health_learn h f) =
     map (\<lambda>i. learn_stat (unat (hs_baseline_samples (hl_status h) + 1)) (guardian_health_vector f ! i) (hl_stats h ! i)) [0..<7]"
  "hl_anomalous_streak (guardian_health_learn h f) = hl_anomalous_streak h"
  "hl_recovery_streak (guardian_health_learn h f) = hl_recovery_streak h"
  "hs_baseline_samples (hl_status (guardian_health_learn h f)) = hs_baseline_samples (hl_status h) + 1"
  "hs_baseline_target (hl_status (guardian_health_learn h f)) = hs_baseline_target (hl_status h)"
  "hs_state (hl_status (guardian_health_learn h f)) =
     (if hs_baseline_samples (hl_status h) + 1 \<ge> hs_baseline_target (hl_status h) then GUARDIAN_HEALTH_STATE_READY
      else hs_state (hl_status h))"
  "hl_baseline_sample_rate_hz (guardian_health_learn h f) =
     (if hs_baseline_samples (hl_status h) = 0 then ucast (df_sample_rate_hz f) else hl_baseline_sample_rate_hz h)"
  "scores_ok (hl_status h) \<Longrightarrow> scores_ok (hl_status (guardian_health_learn h f))"
  by (simp_all add: guardian_health_learn_def scores_ok_def Let_def)

lemma learn_inv:
  assumes "health_inv h" "hs_state (hl_status h) = GUARDIAN_HEALTH_STATE_LEARNING"
  shows "health_inv (guardian_health_learn h f)"
proof -
  let ?n = "hs_baseline_samples (hl_status h)"
  have n: "unat ?n < 1024" "unat ?n < unat (hs_baseline_target (hl_status h))" "unat (hs_baseline_target (hl_status h)) \<le> 1024"
    using assms by (auto simp: health_inv_def word_less_nat_alt word_le_nat_alt)
  have u: "unat (?n + 1) = Suc (unat ?n)" using n by (simp add: unat_word_ariths(1))
  have st: "i < 7 \<Longrightarrow> stat_ok (Suc (unat ?n)) (learn_stat (Suc (unat ?n)) (guardian_health_vector f ! i) (hl_stats h ! i))" for i
    using assms(1) n(1) vector_within by (intro learn_stat_ok) (auto simp: health_inv_def stats_ok_def)
  then have "stats_ok (guardian_health_learn h f)" using n by (simp add: stats_ok_def learn_effect u)
  moreover have "?n + 1 \<le> hs_baseline_target (hl_status h)" using n u by (simp add: word_le_nat_alt)
  ultimately show ?thesis
    using assms by (auto simp: health_inv_def learn_effect)
qed


text \<open>The persistence machine touches only the state and the two streaks.\<close>

lemma transition_fields:
  "hl_stats (health_transition z h) = hl_stats h"
  "hl_baseline_sample_rate_hz (health_transition z h) = hl_baseline_sample_rate_hz h"
  "hs_baseline_samples (hl_status (health_transition z h)) = hs_baseline_samples (hl_status h)"
  "hs_baseline_target (hl_status (health_transition z h)) = hs_baseline_target (hl_status h)"
  "hs_anomaly_score (hl_status (health_transition z h)) = hs_anomaly_score (hl_status h)"
  "hs_health_score (hl_status (health_transition z h)) = hs_health_score (hl_status h)"
  by (simp_all add: health_transition_def Let_def)

definition scoring_state :: "guardian_health_state \<Rightarrow> bool" where
  "scoring_state st \<longleftrightarrow> st \<in> {GUARDIAN_HEALTH_STATE_READY, GUARDIAN_HEALTH_STATE_WARNING, GUARDIAN_HEALTH_STATE_ALARM}"

lemma transition_scoring:
  "scoring_state (hs_state (hl_status h)) \<Longrightarrow> scoring_state (hs_state (hl_status (health_transition z h)))"
  by (auto simp: health_transition_def scoring_state_def Let_def)

lemma transition_congruence:
  assumes "hs_state (hl_status h) = hs_state (hl_status g)" "hl_anomalous_streak h = hl_anomalous_streak g"
    "hl_recovery_streak h = hl_recovery_streak g"
  shows "hs_state (hl_status (health_transition z h)) = hs_state (hl_status (health_transition z g))"
    "hl_anomalous_streak (health_transition z h) = hl_anomalous_streak (health_transition z g)"
    "hl_recovery_streak (health_transition z h) = hl_recovery_streak (health_transition z g)"
  using assms by (simp_all add: health_transition_def Let_def)

lemma score_effect:
  "hl_stats (guardian_health_score h f) = hl_stats h"
  "hl_baseline_sample_rate_hz (guardian_health_score h f) = hl_baseline_sample_rate_hz h"
  "hs_baseline_samples (hl_status (guardian_health_score h f)) = hs_baseline_samples (hl_status h)"
  "hs_baseline_target (hl_status (guardian_health_score h f)) = hs_baseline_target (hl_status h)"
  "hs_state (hl_status (guardian_health_score h f)) = hs_state (hl_status (health_transition (fst (score_loop h f)) h))"
  "hl_anomalous_streak (guardian_health_score h f) = hl_anomalous_streak (health_transition (fst (score_loop h f)) h)"
  "hl_recovery_streak (guardian_health_score h f) = hl_recovery_streak (health_transition (fst (score_loop h f)) h)"
  by (auto simp: guardian_health_score_def transition_fields Let_def split: prod.splits intro!: transition_congruence)

lemma score_scores_ok:
  assumes "stats_ok h"
  shows "scores_ok (hl_status (guardian_health_score h f))"
proof -
  obtain z d e where l: "score_loop h f = (z, d, e)" by (metis prod_cases3)
  have "f32_within 0 (pow2 33) z" using score_loop_within[OF assms, of f] l by simp
  note anomaly_score_le[OF this]
  then show ?thesis
    by (simp add: guardian_health_score_def l transition_fields scores_ok_def Let_def word_le_nat_alt del: f32_div.simps f32_mul.simps)
qed

lemma score_inv:
  assumes "health_inv h" "scoring_state (hs_state (hl_status h))"
  shows "health_inv (guardian_health_score h f)"
proof -
  have stats: "stats_ok h" using assms(1) by (simp add: health_inv_def)
  have sc: "scoring_state (hs_state (hl_status (guardian_health_score h f)))"
    using transition_scoring[OF assms(2)] by (simp add: score_effect)
  have p: "scoring_state st \<Longrightarrow> progress_ok st n t \<longleftrightarrow> n = t \<and> 16 \<le> t \<and> t \<le> 1024" for st n t
    by (auto simp: scoring_state_def)
  have "stats_ok (guardian_health_score h f)" using stats by (simp add: stats_ok_def score_effect)
  then show ?thesis
    using assms score_scores_ok[OF stats] p[OF sc] p[OF assms(2)] sc
    by (auto simp: health_inv_def score_effect scoring_state_def)
qed

lemma ingest_cases:
  obtains (reject) q where "\<not> guardian_health_input_valid (Some f) \<or> hl_baseline_sample_rate_hz h \<noteq> 0 \<and> ucast (df_sample_rate_hz f) \<noteq> hl_baseline_sample_rate_hz h"
      "guardian_health_ingest (Some h) (Some f) = Some (guardian_health_reject_input h q)"
  | (learn) "guardian_health_input_valid (Some f)" "hl_baseline_sample_rate_hz h = 0 \<or> ucast (df_sample_rate_hz f) = hl_baseline_sample_rate_hz h"
      "hs_state (hl_status h) = GUARDIAN_HEALTH_STATE_LEARNING"
      "guardian_health_ingest (Some h) (Some f) = Some (guardian_health_learn h f)"
  | (score) "guardian_health_input_valid (Some f)" "hl_baseline_sample_rate_hz h = 0 \<or> ucast (df_sample_rate_hz f) = hl_baseline_sample_rate_hz h"
      "scoring_state (hs_state (hl_status h))"
      "guardian_health_ingest (Some h) (Some f) = Some (guardian_health_score h f)"
  | (idle) "guardian_health_input_valid (Some f)" "hs_state (hl_status h) = GUARDIAN_HEALTH_STATE_UNTRAINED"
      "guardian_health_ingest (Some h) (Some f) = Some h"
  by (cases "hs_state (hl_status h)"; cases "guardian_health_input_valid (Some f)";
      cases "hl_baseline_sample_rate_hz h \<noteq> 0 \<and> ucast (df_sample_rate_hz f) \<noteq> hl_baseline_sample_rate_hz h")
    (auto simp: guardian_health_ingest_def scoring_state_def)

lemma ingest_inv: "health_inv h \<Longrightarrow> guardian_health_ingest (Some h) (Some f) = Some h' \<Longrightarrow> health_inv h'"
  by (cases f h rule: ingest_cases) (auto intro: reject_input_inv learn_inv score_inv)

section \<open>The handler answers every request\<close>

lemma length_health_write [simp]:
  "length (guardian_health_write_u16_be b i v) = length b" "length (guardian_health_write_u32_be b i w) = length b"
  by (simp_all add: guardian_health_write_u16_be_def guardian_health_write_u32_be_def)

lemma health_error_answers [intro]: "wf_frame resp \<Longrightarrow> answers req (guardian_health_make_error req resp e)"
  unfolding guardian_health_make_error_def by (rule error_frame_answers)

lemma baseline_response_answers [intro]: "wf_frame resp \<Longrightarrow> answers req (baseline_response h action req resp)"
  by (simp add: baseline_response_def answers_def encodable_def wf_frame_def guardian_message_type_is_valid_def)

lemma health_payload_written:
  "length p = 256 \<Longrightarrow> \<exists>b. guardian_health_encode_status_payload (Some s) (Some p) 256 (Some n) = (GUARDIAN_PROTOCOL_OK, Some b, Some 36)
     \<and> length b = 256"
  by (simp add: guardian_health_encode_status_payload_def Let_def)

lemma start_baseline_defined: "\<exists>ok g. guardian_health_start_baseline (Some h) t = (ok, Some g)"
  by (cases "guardian_health_start_baseline (Some h) t") (auto simp: guardian_health_start_baseline_def Let_def split: if_splits)

lemma baseline_control_ok:
  assumes "health_inv h" "wf_frame resp" "baseline_control h req resp = (h', resp')"
  shows "health_inv h' \<and> answers req resp'"
proof -
  obtain ok g where g: "guardian_health_start_baseline (Some h) (guardian_health_read_u16_be (payload req) 2) = (ok, Some g)"
    using start_baseline_defined by blast
  have "health_inv g" by (rule start_baseline_inv(1)[OF g assms(1)])
  then show ?thesis
    using assms g initial_health_inv by (auto simp: baseline_control_def guardian_health_reset_def Let_def split: if_splits)
qed

interpretation health: frame_service health_inv "served guardian_health_handle_request"
proof
  fix h resp req r h' resp'
  assume a: "health_inv h" "wf_frame resp" "served guardian_health_handle_request h req resp = (r, h', resp')"
  obtain b where b: "guardian_health_encode_status_payload (Some (hl_status h)) (Some (payload resp)) 256 (Some (payload_length resp))
      = (GUARDIAN_PROTOCOL_OK, Some b, Some 36)" "length b = 256"
    using health_payload_written a(2) unfolding wf_frame_def by blast
  obtain g resp2 where g: "baseline_control h req resp = (g, resp2)" by fastforce
  note bc = baseline_control_ok[OF a(1,2) g]
  have resp: "answers req (resp\<lparr>message_type := GUARDIAN_MESSAGE_RESPONSE, command := command req,
      flags := GUARDIAN_SUPPORTED_FLAGS, sequence := sequence req, payload := b, payload_length := 36\<rparr>)"
    using b(2) by (simp add: answers_def encodable_def wf_frame_def guardian_message_type_is_valid_def)
  show "r = GUARDIAN_PROTOCOL_OK \<and> health_inv h' \<and> answers req resp'"
    using a(1,3) bc resp health_error_answers[OF a(2)]
    by (auto simp: served_def guardian_health_handle_request_def b(1) g split: if_splits)
qed


section \<open>Reachable models\<close>

datatype health_op =
    Health_ingest guardian_dsp_features | Health_start u16 | Health_reset | Health_request guardian_frame guardian_frame

fun health_exec :: "guardian_health \<Rightarrow> health_op \<Rightarrow> guardian_health" where
  "health_exec h (Health_ingest f) = the (guardian_health_ingest (Some h) (Some f))"
| "health_exec h (Health_start t) = the (snd (guardian_health_start_baseline (Some h) t))"
| "health_exec h Health_reset = the (guardian_health_reset (Some h))"
| "health_exec h (Health_request req resp) = the (fst (snd (guardian_health_handle_request (Some h) (Some req) (Some resp))))"

inductive health_step :: "guardian_health \<Rightarrow> guardian_health \<Rightarrow> bool" where
  health_stepI: "health_step h (health_exec h op)"

inductive_cases health_stepE: "health_step h g"

lemma handle_request_inv: "health_inv h \<Longrightarrow> health_inv (the (fst (snd (guardian_health_handle_request (Some h) (Some req) (Some resp)))))"
proof -
  assume h: "health_inv h"
  have "health_inv g" if "baseline_control h req resp = (g, resp2)" for g resp2
  proof -
    obtain ok k where k: "guardian_health_start_baseline (Some h) (guardian_health_read_u16_be (payload req) 2) = (ok, Some k)"
      using start_baseline_defined by blast
    from start_baseline_inv(1)[OF k h] show ?thesis
      using that k h initial_health_inv by (auto simp: baseline_control_def guardian_health_reset_def Let_def split: if_splits)
  qed
  then show ?thesis using h by (auto simp: guardian_health_handle_request_def split: prod.splits)
qed

lemma health_exec_inv: "health_inv h \<Longrightarrow> health_inv (health_exec h op)"
proof (cases op)
  case (Health_ingest f)
  assume "health_inv h"
  then show ?thesis using ingest_inv[of h f] Health_ingest by (cases f h rule: ingest_cases) auto
next
  case (Health_start t)
  assume h: "health_inv h"
  obtain ok k where "guardian_health_start_baseline (Some h) t = (ok, Some k)" using start_baseline_defined by blast
  then show ?thesis using start_baseline_inv(1) h Health_start by simp
next
  case (Health_request req resp)
  assume "health_inv h"
  then show ?thesis using handle_request_inv Health_request by simp
qed (simp add: guardian_health_reset_def initial_health_inv)

interpretation health_model: transition_system "\<lambda>h. h = initial_health" health_step health_inv
  by unfold_locales (auto simp: initial_health_inv elim!: health_stepE intro: health_exec_inv)

section \<open>The persistence machine over the window history\<close>

datatype severity = Quiet | Calm | Warn | Alarm

definition severity_of :: "f32 \<Rightarrow> severity" where
  "severity_of z = (if f32_le GUARDIAN_HEALTH_ALARM_Z z then Alarm else if f32_le GUARDIAN_HEALTH_WARNING_Z z then Warn
     else if f32_less z GUARDIAN_HEALTH_RECOVERY_Z then Quiet else Calm)"

text \<open>The length of the run of windows with a property that ends a history.\<close>

definition run_length :: "('a \<Rightarrow> bool) \<Rightarrow> 'a list \<Rightarrow> nat" where
  "run_length P xs = length (takeWhile P (rev xs))"

definition anomalous :: "severity \<Rightarrow> bool" where
  "anomalous l \<longleftrightarrow> l \<in> {Warn, Alarm}"

text \<open>The windows of a history that raise the alarm, that raise the state at all, and after which
  the machine has recovered.\<close>

definition raises_alarm :: "severity list \<Rightarrow> nat \<Rightarrow> bool" where
  "raises_alarm ls i \<longleftrightarrow> i < length ls \<and> ls ! i = Alarm \<and> 2 \<le> run_length anomalous (take (Suc i) ls)"

definition raises :: "severity list \<Rightarrow> nat \<Rightarrow> bool" where
  "raises ls i \<longleftrightarrow> i < length ls \<and> (ls ! i = Alarm \<or> ls ! i = Warn \<and> 3 \<le> run_length anomalous (take (Suc i) ls))"

definition recovers :: "severity list \<Rightarrow> nat \<Rightarrow> bool" where
  "recovers ls i \<longleftrightarrow> i < length ls \<and> ls ! i = Quiet \<and> 5 \<le> run_length (\<lambda>l. l = Quiet) (take (Suc i) ls)"

definition pending :: "(severity list \<Rightarrow> nat \<Rightarrow> bool) \<Rightarrow> severity list \<Rightarrow> bool" where
  "pending event ls \<longleftrightarrow> (\<exists>i. event ls i \<and> (\<forall>j. i < j \<longrightarrow> \<not> recovers ls j))"

definition history_state :: "severity list \<Rightarrow> guardian_health_state" where
  "history_state ls =
     (if pending raises_alarm ls then GUARDIAN_HEALTH_STATE_ALARM
      else if pending raises ls then GUARDIAN_HEALTH_STATE_WARNING
      else GUARDIAN_HEALTH_STATE_READY)"

lemma run_length_snoc: "run_length P (xs @ [x]) = (if P x then Suc (run_length P xs) else 0)"
  by (simp add: run_length_def)

lemma events_snoc:
  "raises_alarm (ls @ [l]) i \<longleftrightarrow> raises_alarm ls i \<or> i = length ls \<and> l = Alarm \<and> 1 \<le> run_length anomalous ls"
  "raises (ls @ [l]) i \<longleftrightarrow> raises ls i \<or> i = length ls \<and> (l = Alarm \<or> l = Warn \<and> 2 \<le> run_length anomalous ls)"
  "recovers (ls @ [l]) i \<longleftrightarrow> recovers ls i \<or> i = length ls \<and> l = Quiet \<and> 4 \<le> run_length (\<lambda>l. l = Quiet) ls"
  by (auto simp: raises_alarm_def raises_def recovers_def nth_append run_length_snoc less_Suc_eq anomalous_def)

lemma events_inside: "raises_alarm ls i \<Longrightarrow> i < length ls" "raises ls i \<Longrightarrow> i < length ls" "recovers ls i \<Longrightarrow> i < length ls"
  by (auto simp: raises_alarm_def raises_def recovers_def)

lemma pending_snoc:
  assumes inside: "\<And>i. event ls i \<Longrightarrow> i < length ls"
    and snoc: "\<And>i. event (ls @ [l]) i \<longleftrightarrow> event ls i \<or> i = length ls \<and> new"
  shows "pending event (ls @ [l]) \<longleftrightarrow> new \<or> pending event ls \<and> \<not> (l = Quiet \<and> 4 \<le> run_length (\<lambda>l. l = Quiet) ls)"
proof -
  have late: "\<not> recovers (ls @ [l]) j" if "length ls < j" for j
    using that events_inside(3)[of ls j] by (auto simp: events_snoc)
  have "(\<forall>j. i < j \<longrightarrow> \<not> recovers (ls @ [l]) j) \<longleftrightarrow>
      (\<forall>j. i < j \<longrightarrow> \<not> recovers ls j) \<and> \<not> (l = Quiet \<and> 4 \<le> run_length (\<lambda>l. l = Quiet) ls)" if "i < length ls" for i
    using that by (auto simp: events_snoc(3))
  then show ?thesis unfolding pending_def snoc using inside late by blast
qed

lemma pending_alarm_snoc:
  "pending raises_alarm (ls @ [l]) \<longleftrightarrow> l = Alarm \<and> 1 \<le> run_length anomalous ls
     \<or> pending raises_alarm ls \<and> \<not> (l = Quiet \<and> 4 \<le> run_length (\<lambda>l. l = Quiet) ls)"
  by (rule pending_snoc) (simp_all add: events_inside events_snoc)

lemma pending_raise_snoc:
  "pending raises (ls @ [l]) \<longleftrightarrow> (l = Alarm \<or> l = Warn \<and> 2 \<le> run_length anomalous ls)
     \<or> pending raises ls \<and> \<not> (l = Quiet \<and> 4 \<le> run_length (\<lambda>l. l = Quiet) ls)"
  by (rule pending_snoc) (simp_all add: events_inside events_snoc)

lemma history_state_snoc:
  "history_state (ls @ [l]) =
     (case l of
        Alarm \<Rightarrow> if 1 \<le> run_length anomalous ls \<or> history_state ls = GUARDIAN_HEALTH_STATE_ALARM
                 then GUARDIAN_HEALTH_STATE_ALARM else GUARDIAN_HEALTH_STATE_WARNING
      | Warn \<Rightarrow> if 2 \<le> run_length anomalous ls \<and> history_state ls \<noteq> GUARDIAN_HEALTH_STATE_ALARM
                then GUARDIAN_HEALTH_STATE_WARNING else history_state ls
      | Quiet \<Rightarrow> if 4 \<le> run_length (\<lambda>l. l = Quiet) ls then GUARDIAN_HEALTH_STATE_READY else history_state ls
      | Calm \<Rightarrow> history_state ls)"
  unfolding history_state_def pending_alarm_snoc pending_raise_snoc by (cases l) auto

lemma history_state_empty: "history_state [] = GUARDIAN_HEALTH_STATE_READY"
  by (simp add: history_state_def pending_def raises_alarm_def raises_def)


lemma unat_saturating_inc: "unat (saturating_inc v) = min 255 (unat v + 1)"
proof -
  have "unat v < 2 ^ LENGTH(8)" by (rule unsigned_less)
  then have v: "unat v < 256" by simp
  show ?thesis
  proof (cases "v = 255")
    case False
    then have "unat v \<noteq> 255" by (simp add: word_unat_eq_iff)
    then show ?thesis using False v by (simp add: saturating_inc_def unat_word_ariths(1))
  qed (simp add: saturating_inc_def)
qed

definition follows_history :: "guardian_health \<Rightarrow> severity list \<Rightarrow> bool" where
  "follows_history h ls \<longleftrightarrow> hs_state (hl_status h) = history_state ls
     \<and> unat (hl_anomalous_streak h) = min 255 (run_length anomalous ls)
     \<and> unat (hl_recovery_streak h) = min 255 (run_length (\<lambda>l. l = Quiet) ls)"

lemma transition_follows:
  assumes "follows_history h ls"
  shows "follows_history (health_transition z h) (ls @ [severity_of z])"
proof -
  let ?a = "run_length anomalous ls" and ?q = "run_length (\<lambda>l. l = Quiet) ls"
  have a: "unat (saturating_inc (hl_anomalous_streak h)) = min 255 (Suc ?a)"
    and q: "unat (saturating_inc (hl_recovery_streak h)) = min 255 (Suc ?q)"
    using assms by (simp_all add: follows_history_def unat_saturating_inc)
  have c: "(2 \<le> saturating_inc (hl_anomalous_streak h)) = (1 \<le> ?a)" "(3 \<le> saturating_inc (hl_anomalous_streak h)) = (2 \<le> ?a)"
      "(5 \<le> saturating_inc (hl_recovery_streak h)) = (4 \<le> ?q)"
    by (auto simp: word_le_nat_alt a q)
  have st: "hs_state (hl_status h) = history_state ls" using assms by (simp add: follows_history_def)
  have three: "history_state ls \<in> {GUARDIAN_HEALTH_STATE_READY, GUARDIAN_HEALTH_STATE_WARNING, GUARDIAN_HEALTH_STATE_ALARM}"
    by (simp add: history_state_def)
  consider "f32_le (F32 6) z" | "\<not> f32_le (F32 6) z" "f32_le (F32 3) z" | "\<not> f32_le (F32 6) z" "\<not> f32_le (F32 3) z" "f32_less z (F32 2)"
    | "\<not> f32_le (F32 6) z" "\<not> f32_le (F32 3) z" "\<not> f32_less z (F32 2)" by blast
  then show ?thesis
  proof cases
    case 1
    then show ?thesis using three
      by (auto simp: follows_history_def health_transition_def severity_of_def history_state_snoc run_length_snoc anomalous_def[of Alarm] a c st Let_def)
  next
    case 2
    then show ?thesis using three
      by (auto simp: follows_history_def health_transition_def severity_of_def history_state_snoc run_length_snoc anomalous_def[of Warn] a c st Let_def)
  next
    case 3
    then show ?thesis using three
      by (auto simp: follows_history_def health_transition_def severity_of_def history_state_snoc run_length_snoc anomalous_def[of Quiet] q c st Let_def)
  next
    case 4
    then show ?thesis using three
      by (auto simp: follows_history_def health_transition_def severity_of_def history_state_snoc run_length_snoc anomalous_def[of Calm] st Let_def)
  qed
qed


section \<open>Training and watching\<close>

definition ingest_all :: "guardian_health \<Rightarrow> guardian_dsp_features list \<Rightarrow> guardian_health" where
  "ingest_all h fs = fold (\<lambda>f h. the (guardian_health_ingest (Some h) (Some f))) fs h"

text \<open>A feature snapshot that a baseline at rate \<open>r\<close> accepts.\<close>

definition usable :: "u16 \<Rightarrow> guardian_dsp_features \<Rightarrow> bool" where
  "usable r f \<longleftrightarrow> guardian_health_input_valid (Some f) \<and> df_sample_rate_hz f = r"

text \<open>The severity of a snapshot against a learned baseline.\<close>

definition window_severity :: "guardian_health \<Rightarrow> guardian_dsp_features \<Rightarrow> severity" where
  "window_severity h f = severity_of (fst (score_loop h f))"

lemma score_loop_cong:
  "hl_stats h = hl_stats g \<Longrightarrow> hs_baseline_samples (hl_status h) = hs_baseline_samples (hl_status g) \<Longrightarrow> score_loop h f = score_loop g f"
proof -
  assume a: "hl_stats h = hl_stats g" "hs_baseline_samples (hl_status h) = hs_baseline_samples (hl_status g)"
  then have "guardian_health_sigma h = guardian_health_sigma g" by (simp add: fun_eq_iff guardian_health_sigma_def Let_def)
  then have "weighted_deviation h = weighted_deviation g" using a by (simp add: fun_eq_iff weighted_deviation_def Let_def)
  then have "score_step h = score_step g" by (simp add: fun_eq_iff score_step_def)
  then show ?thesis by (simp add: score_loop_def)
qed

definition same_baseline :: "guardian_health \<Rightarrow> guardian_health \<Rightarrow> bool" where
  "same_baseline h g \<longleftrightarrow> hl_stats h = hl_stats g \<and> hs_baseline_samples (hl_status h) = hs_baseline_samples (hl_status g)
     \<and> hl_baseline_sample_rate_hz h = hl_baseline_sample_rate_hz g"

lemma ucast_u16_eq: "(ucast (x :: u16) :: u32) = ucast y \<longleftrightarrow> x = y"
  by (metis unat_ucast_u16 word_unat_eq_iff)

lemma ucast_u16_zero: "(ucast (x :: u16) :: u32) = 0 \<longleftrightarrow> x = 0"
  using ucast_u16_eq[of x 0] by simp

lemma usable_rate: "usable r f \<Longrightarrow> r \<noteq> 0"
  by (auto simp: usable_def guardian_health_input_valid_def split: if_splits)

lemma watch_step:
  fixes f :: guardian_dsp_features
  assumes "follows_history h ls" "same_baseline h g" "hl_baseline_sample_rate_hz g = ucast r" "r \<noteq> 0"
  defines "h' \<equiv> the (guardian_health_ingest (Some h) (Some f))"
  shows "follows_history h' (if usable r f then ls @ [window_severity g f] else ls)" "same_baseline h' g"
proof -
  have rate: "hl_baseline_sample_rate_hz h = ucast r" using assms(2,3) by (simp add: same_baseline_def)
  have st: "scoring_state (hs_state (hl_status h))"
    using assms(1) by (simp add: follows_history_def scoring_state_def history_state_def)
  have z: "score_loop h f = score_loop g f" using assms(2) by (auto simp: same_baseline_def intro: score_loop_cong)
  have "follows_history h' (if usable r f then ls @ [window_severity g f] else ls) \<and> same_baseline h' g"
  proof (cases f h rule: ingest_cases)
    case (reject q)
    then have "\<not> usable r f" using rate assms(4) by (auto simp: usable_def ucast_u16_eq ucast_u16_zero)
    then show ?thesis using reject(2) assms(1,2)
      by (simp add: h'_def guardian_health_reject_input_def follows_history_def same_baseline_def Let_def)
  next
    case score
    then have u: "usable r f" using rate assms(4) by (auto simp: usable_def ucast_u16_eq ucast_u16_zero)
    have "follows_history (guardian_health_score h f) (ls @ [severity_of (fst (score_loop h f))])"
      using transition_follows[OF assms(1), of "fst (score_loop h f)"] by (simp add: follows_history_def score_effect)
    then show ?thesis using u score(4) assms(2) z by (simp add: h'_def window_severity_def same_baseline_def score_effect)
  qed (use st in \<open>simp_all add: scoring_state_def\<close>)
  then show "follows_history h' (if usable r f then ls @ [window_severity g f] else ls)" "same_baseline h' g" by blast+
qed

lemma watch_follows:
  assumes "follows_history h ls" "same_baseline h g" "hl_baseline_sample_rate_hz g = ucast r" "r \<noteq> 0"
  shows "follows_history (ingest_all h fs) (ls @ map (window_severity g) (filter (usable r) fs))"
  using assms(1,2)
proof (induction fs arbitrary: h ls)
  case (Cons f fs)
  note s = watch_step[OF Cons.prems assms(3,4), of f]
  from Cons.IH[OF s] show ?case by (simp add: ingest_all_def split: if_splits)
qed (simp add: ingest_all_def)

lemma learning_step:
  assumes "hs_state (hl_status h) = GUARDIAN_HEALTH_STATE_LEARNING" "usable r f"
    "hl_baseline_sample_rate_hz h = 0 \<or> hl_baseline_sample_rate_hz h = ucast r"
  shows "guardian_health_ingest (Some h) (Some f) = Some (guardian_health_learn h f)"
  using assms by (auto simp: guardian_health_ingest_def usable_def)

text \<open>After \<open>k\<close> usable snapshots of a baseline that wants \<open>target\<close>.\<close>

definition trained :: "u16 \<Rightarrow> u16 \<Rightarrow> nat \<Rightarrow> guardian_health \<Rightarrow> bool" where
  "trained r target k h \<longleftrightarrow> health_inv h \<and> unat (hs_baseline_samples (hl_status h)) = k \<and> hs_baseline_target (hl_status h) = target
     \<and> hl_baseline_sample_rate_hz h = (if k = 0 then 0 else ucast r) \<and> hl_anomalous_streak h = 0 \<and> hl_recovery_streak h = 0
     \<and> hs_state (hl_status h) = (if k < unat target then GUARDIAN_HEALTH_STATE_LEARNING else GUARDIAN_HEALTH_STATE_READY)"

lemma trained_step:
  assumes "trained r target k h" "k < unat target" "usable r f"
  shows "trained r target (Suc k) (the (guardian_health_ingest (Some h) (Some f)))"
proof -
  have st: "hs_state (hl_status h) = GUARDIAN_HEALTH_STATE_LEARNING" and inv: "health_inv h"
    and k: "unat (hs_baseline_samples (hl_status h)) = k" using assms(1,2) by (simp_all add: trained_def)
  have "k < 1024" using st inv k by (auto simp: health_inv_def word_less_nat_alt word_le_nat_alt)
  then have u: "unat (hs_baseline_samples (hl_status h) + 1) = Suc k" using k by (simp add: unat_word_ariths(1))
  have "guardian_health_ingest (Some h) (Some f) = Some (guardian_health_learn h f)"
    using assms by (intro learning_step[of _ r]) (auto simp: trained_def st)
  moreover have "hs_baseline_samples (hl_status h) = 0 \<longleftrightarrow> k = 0" unfolding k[symmetric] by (simp add: word_unat_eq_iff)
  ultimately show ?thesis
    using assms st learn_inv[OF inv st, of f] u
    by (auto simp: trained_def learn_effect usable_def word_le_nat_alt split: if_splits)
qed

lemma training_completes:
  assumes "trained r target k h" "list_all (usable r) fs" "k + length fs \<le> unat target"
  shows "trained r target (k + length fs) (ingest_all h fs)"
  using assms
proof (induction fs arbitrary: k h)
  case (Cons f fs)
  have "trained r target (Suc k) (the (guardian_health_ingest (Some h) (Some f)))"
    using Cons.prems by (intro trained_step) simp_all
  from Cons.IH[OF this] Cons.prems show ?case by (simp add: ingest_all_def)
qed (simp add: ingest_all_def)

lemma start_trained:
  assumes "16 \<le> target" "target \<le> 1024"
  shows "trained r target 0 (the (snd (guardian_health_start_baseline (Some h) target)))"
proof -
  have same: "guardian_health_start_baseline (Some h) target = guardian_health_start_baseline (Some initial_health) target"
    using assms by (simp add: guardian_health_start_baseline_def guardian_health_reset_def not_less)
  obtain ok g where g: "guardian_health_start_baseline (Some initial_health) target = (ok, Some g)"
    using start_baseline_defined by blast
  have "0 < unat target" using assms(1) by (simp add: word_le_nat_alt)
  then show ?thesis
    unfolding same using g assms start_baseline_inv(1)[OF g initial_health_inv]
    by (auto simp: trained_def guardian_health_start_baseline_def guardian_health_reset_def initial_health_def
        zero_health_status_def not_less Let_def split: if_splits)
qed

text \<open>A quiet training snapshot, for the witnesses.\<close>

definition sample_features :: guardian_dsp_features where
  "sample_features = zero_features\<lparr>df_sample_rate_hz := 4000, df_rms_mg := 120, df_crest_factor_milli := 1500,
     df_acquisition_status_flags := GUARDIAN_ACQUISITION_STATUS_VALID, df_dsp_status_flags := GUARDIAN_DSP_STATUS_VALID\<rparr>"

lemma sample_features_usable: "usable 4000 sample_features"
  by (simp add: usable_def guardian_health_input_valid_def sample_features_def zero_features_def
      guardian_health_rejected_acquisition_flags_def)





end
