(* ===== verification/Guardian_Firmware.thy ===== *)
theory Guardian_Firmware
  imports Guardian_Crypto "HOL-Library.Sublist"
begin

text \<open>
  The firmware-update lifecycle of \<open>Firmware/Src/guardian_firmware_lifecycle.c\<close>: decoding of
  the signed manifest and of image chunks, the canonical transcript a signature covers, the
  state machine IDLE, RECEIVING, VERIFIED, PENDING, CONFIRMED / ROLLED_BACK with its FAILED
  branch, and the public status payload.  The platform callbacks (staging storage, image hash,
  signature check, persistent metadata) are functions of the configuration record; what the
  theorems rely on them for is the predicate \<open>platform_contract\<close>.
\<close>

section \<open>Constants and data\<close>

abbreviation (input) GUARDIAN_FIRMWARE_SCHEMA_VERSION :: u8 where
  "GUARDIAN_FIRMWARE_SCHEMA_VERSION \<equiv> 1"
abbreviation (input) GUARDIAN_FIRMWARE_SIGNATURE_ED25519 :: u8 where
  "GUARDIAN_FIRMWARE_SIGNATURE_ED25519 \<equiv> 1"
abbreviation (input) GUARDIAN_FIRMWARE_SIGNATURE_DEMO_HMAC_SHA256 :: u8 where
  "GUARDIAN_FIRMWARE_SIGNATURE_DEMO_HMAC_SHA256 \<equiv> 0xFE"
abbreviation (input) GUARDIAN_FIRMWARE_MAX_SIGNATURE_SIZE :: nat where
  "GUARDIAN_FIRMWARE_MAX_SIGNATURE_SIZE \<equiv> 64"
abbreviation (input) GUARDIAN_FIRMWARE_DIGEST_SIZE :: nat where
  "GUARDIAN_FIRMWARE_DIGEST_SIZE \<equiv> 32"
abbreviation (input) GUARDIAN_FIRMWARE_SIGNED_MANIFEST_SIZE :: nat where
  "GUARDIAN_FIRMWARE_SIGNED_MANIFEST_SIZE \<equiv> 64"
abbreviation (input) GUARDIAN_FIRMWARE_MANIFEST_PREFIX_SIZE :: u16 where
  "GUARDIAN_FIRMWARE_MANIFEST_PREFIX_SIZE \<equiv> 53"
abbreviation (input) GUARDIAN_FIRMWARE_CHUNK_PREFIX_SIZE :: u16 where
  "GUARDIAN_FIRMWARE_CHUNK_PREFIX_SIZE \<equiv> 7"
abbreviation (input) GUARDIAN_FIRMWARE_CHUNK_MAX_DATA :: u16 where
  "GUARDIAN_FIRMWARE_CHUNK_MAX_DATA \<equiv> 192"
abbreviation (input) GUARDIAN_FIRMWARE_STATUS_PAYLOAD_SIZE :: u16 where
  "GUARDIAN_FIRMWARE_STATUS_PAYLOAD_SIZE \<equiv> 34"

datatype guardian_firmware_state =
    GUARDIAN_FIRMWARE_STATE_IDLE | GUARDIAN_FIRMWARE_STATE_RECEIVING
  | GUARDIAN_FIRMWARE_STATE_VERIFIED | GUARDIAN_FIRMWARE_STATE_PENDING_ACTIVATION
  | GUARDIAN_FIRMWARE_STATE_CONFIRMED | GUARDIAN_FIRMWARE_STATE_ROLLED_BACK
  | GUARDIAN_FIRMWARE_STATE_FAILED

fun guardian_firmware_state_value :: "guardian_firmware_state \<Rightarrow> u8" where
  "guardian_firmware_state_value GUARDIAN_FIRMWARE_STATE_IDLE = 0"
| "guardian_firmware_state_value GUARDIAN_FIRMWARE_STATE_RECEIVING = 1"
| "guardian_firmware_state_value GUARDIAN_FIRMWARE_STATE_VERIFIED = 2"
| "guardian_firmware_state_value GUARDIAN_FIRMWARE_STATE_PENDING_ACTIVATION = 3"
| "guardian_firmware_state_value GUARDIAN_FIRMWARE_STATE_CONFIRMED = 4"
| "guardian_firmware_state_value GUARDIAN_FIRMWARE_STATE_ROLLED_BACK = 5"
| "guardian_firmware_state_value GUARDIAN_FIRMWARE_STATE_FAILED = 6"

datatype guardian_firmware_failure =
    GUARDIAN_FIRMWARE_FAILURE_NONE | GUARDIAN_FIRMWARE_FAILURE_UNCONFIGURED
  | GUARDIAN_FIRMWARE_FAILURE_INVALID_PAYLOAD | GUARDIAN_FIRMWARE_FAILURE_ROLLBACK_BLOCKED
  | GUARDIAN_FIRMWARE_FAILURE_STORAGE | GUARDIAN_FIRMWARE_FAILURE_HASH_MISMATCH
  | GUARDIAN_FIRMWARE_FAILURE_SIGNATURE_INVALID | GUARDIAN_FIRMWARE_FAILURE_ACTIVATION
  | GUARDIAN_FIRMWARE_FAILURE_CONFIRMATION | GUARDIAN_FIRMWARE_FAILURE_OUT_OF_ORDER

fun guardian_firmware_failure_value :: "guardian_firmware_failure \<Rightarrow> u8" where
  "guardian_firmware_failure_value GUARDIAN_FIRMWARE_FAILURE_NONE = 0"
| "guardian_firmware_failure_value GUARDIAN_FIRMWARE_FAILURE_UNCONFIGURED = 1"
| "guardian_firmware_failure_value GUARDIAN_FIRMWARE_FAILURE_INVALID_PAYLOAD = 2"
| "guardian_firmware_failure_value GUARDIAN_FIRMWARE_FAILURE_ROLLBACK_BLOCKED = 3"
| "guardian_firmware_failure_value GUARDIAN_FIRMWARE_FAILURE_STORAGE = 4"
| "guardian_firmware_failure_value GUARDIAN_FIRMWARE_FAILURE_HASH_MISMATCH = 5"
| "guardian_firmware_failure_value GUARDIAN_FIRMWARE_FAILURE_SIGNATURE_INVALID = 6"
| "guardian_firmware_failure_value GUARDIAN_FIRMWARE_FAILURE_ACTIVATION = 7"
| "guardian_firmware_failure_value GUARDIAN_FIRMWARE_FAILURE_CONFIRMATION = 8"
| "guardian_firmware_failure_value GUARDIAN_FIRMWARE_FAILURE_OUT_OF_ORDER = 9"

datatype guardian_firmware_result =
    GUARDIAN_FIRMWARE_OK | GUARDIAN_FIRMWARE_ERROR_NULL_ARGUMENT
  | GUARDIAN_FIRMWARE_ERROR_UNCONFIGURED | GUARDIAN_FIRMWARE_ERROR_INVALID_PAYLOAD
  | GUARDIAN_FIRMWARE_ERROR_INVALID_STATE | GUARDIAN_FIRMWARE_ERROR_ROLLBACK_BLOCKED
  | GUARDIAN_FIRMWARE_ERROR_STORAGE | GUARDIAN_FIRMWARE_ERROR_HASH_MISMATCH
  | GUARDIAN_FIRMWARE_ERROR_SIGNATURE_INVALID | GUARDIAN_FIRMWARE_ERROR_ACTIVATION
  | GUARDIAN_FIRMWARE_ERROR_CONFIRMATION | GUARDIAN_FIRMWARE_ERROR_OUT_OF_ORDER
  | GUARDIAN_FIRMWARE_ERROR_OUTPUT_TOO_SMALL

record guardian_firmware_manifest =
  m_signature_algorithm :: u8
  m_key_id :: u32
  m_version_counter :: u32
  m_firmware_major :: u16
  m_firmware_minor :: u16
  m_firmware_patch :: u16
  m_image_size :: u32
  m_image_sha256 :: "u8 list"
  m_signature_length :: u8
  m_signature :: "u8 list"

record guardian_firmware_chunk =
  ck_offset :: u32
  ck_length :: u16
  ck_data :: "u8 list"

record guardian_firmware_status_t =
  fs_state :: guardian_firmware_state
  fs_failure :: guardian_firmware_failure
  fs_signature_algorithm :: u8
  fs_active_version_counter :: u32
  fs_rollback_floor :: u32
  fs_candidate_version_counter :: u32
  fs_bytes_received :: u32
  fs_image_size :: u32
  fs_key_id :: u32
  fs_firmware_major :: u16
  fs_firmware_minor :: u16
  fs_firmware_patch :: u16

text \<open>A callback reports success as a non-zero \<open>int\<close> and may update the state its context
  points to; the hash callback also fills the digest buffer it is given.\<close>

record 'c guardian_firmware_config =
  fc_context :: "'c ptr"
  fc_erase :: "('c ptr \<Rightarrow> u32 \<Rightarrow> bool \<times> 'c ptr) ptr"
  fc_write :: "('c ptr \<Rightarrow> u32 \<Rightarrow> u8 list ptr \<Rightarrow> u16 \<Rightarrow> bool \<times> 'c ptr) ptr"
  fc_hash :: "('c ptr \<Rightarrow> u32 \<Rightarrow> u8 list \<Rightarrow> bool \<times> u8 list \<times> 'c ptr) ptr"
  fc_verify_signature ::
    "('c ptr \<Rightarrow> u8 \<Rightarrow> u32 \<Rightarrow> u8 list ptr \<Rightarrow> nat \<Rightarrow> u8 list ptr \<Rightarrow> u8 \<Rightarrow> bool \<times> 'c ptr) ptr"
  fc_required_signature_algorithm :: u8
  fc_mark_pending :: "('c ptr \<Rightarrow> u32 \<Rightarrow> u16 \<Rightarrow> u16 \<Rightarrow> u16 \<Rightarrow> bool \<times> 'c ptr) ptr"
  fc_persist_floor :: "('c ptr \<Rightarrow> u32 \<Rightarrow> bool \<times> 'c ptr) ptr"
  fc_complete_pending :: "('c ptr \<Rightarrow> u32 \<Rightarrow> u8 \<Rightarrow> bool \<times> 'c ptr) ptr"
  fc_max_image_size :: u32
  fc_active_version_counter :: u32
  fc_rollback_floor :: u32

record 'c guardian_firmware_lifecycle =
  lc_config :: "'c guardian_firmware_config"
  lc_configured :: u8
  lc_state :: guardian_firmware_state
  lc_failure :: guardian_firmware_failure
  lc_manifest :: guardian_firmware_manifest
  lc_bytes_received :: u32

definition zero_manifest :: guardian_firmware_manifest where
  "zero_manifest = \<lparr>m_signature_algorithm = 0, m_key_id = 0, m_version_counter = 0,
     m_firmware_major = 0, m_firmware_minor = 0, m_firmware_patch = 0, m_image_size = 0,
     m_image_sha256 = replicate GUARDIAN_FIRMWARE_DIGEST_SIZE 0, m_signature_length = 0,
     m_signature = replicate GUARDIAN_FIRMWARE_MAX_SIGNATURE_SIZE 0\<rparr>"

definition zero_firmware_config :: "'c guardian_firmware_config" where
  "zero_firmware_config = \<lparr>fc_context = None, fc_erase = None, fc_write = None, fc_hash = None,
     fc_verify_signature = None, fc_required_signature_algorithm = 0, fc_mark_pending = None,
     fc_persist_floor = None, fc_complete_pending = None, fc_max_image_size = 0,
     fc_active_version_counter = 0, fc_rollback_floor = 0\<rparr>"

definition initial_lifecycle :: "'c guardian_firmware_lifecycle" where
  "initial_lifecycle = \<lparr>lc_config = zero_firmware_config, lc_configured = 0,
     lc_state = GUARDIAN_FIRMWARE_STATE_IDLE, lc_failure = GUARDIAN_FIRMWARE_FAILURE_NONE,
     lc_manifest = zero_manifest, lc_bytes_received = 0\<rparr>"

definition set_context :: "'c ptr \<Rightarrow> 'c guardian_firmware_lifecycle \<Rightarrow> 'c guardian_firmware_lifecycle" where
  "set_context ctx l = l\<lparr>lc_config := (lc_config l)\<lparr>fc_context := ctx\<rparr>\<rparr>"

section \<open>Byte order, validation and failure helpers\<close>

definition guardian_firmware_signed_domain :: "u8 list" where
  "guardian_firmware_signed_domain =
     [0x47, 0x46, 0x2D, 0x4D, 0x31, 0x32, 0x2D, 0x49, 0x4D, 0x41, 0x47, 0x45]"

definition guardian_firmware_write_u16_be :: "u8 list \<Rightarrow> nat \<Rightarrow> u16 \<Rightarrow> u8 list" where
  "guardian_firmware_write_u16_be output i v =
     output[i := ucast (drop_bit 8 v AND 0xFF), i + 1 := ucast (v AND 0xFF)]"

definition guardian_firmware_write_u32_be :: "u8 list \<Rightarrow> nat \<Rightarrow> u32 \<Rightarrow> u8 list" where
  "guardian_firmware_write_u32_be output i v =
     output[i := ucast (drop_bit 24 v AND 0xFF), i + 1 := ucast (drop_bit 16 v AND 0xFF),
       i + 2 := ucast (drop_bit 8 v AND 0xFF), i + 3 := ucast (v AND 0xFF)]"

definition guardian_firmware_read_u16_be :: "u8 list \<Rightarrow> nat \<Rightarrow> u16" where
  "guardian_firmware_read_u16_be input i =
     push_bit 8 (ucast (input ! i)) OR ucast (input ! (i + 1))"

definition guardian_firmware_read_u32_be :: "u8 list \<Rightarrow> nat \<Rightarrow> u32" where
  "guardian_firmware_read_u32_be input i =
     push_bit 24 (ucast (input ! i)) OR push_bit 16 (ucast (input ! (i + 1)))
     OR push_bit 8 (ucast (input ! (i + 2))) OR ucast (input ! (i + 3))"

definition guardian_firmware_signature_valid :: "u8 \<Rightarrow> u8 \<Rightarrow> bool" where
  "guardian_firmware_signature_valid algorithm sig_length =
     (if algorithm = GUARDIAN_FIRMWARE_SIGNATURE_ED25519 then sig_length = 64
      else if algorithm = GUARDIAN_FIRMWARE_SIGNATURE_DEMO_HMAC_SHA256 then sig_length = 32
      else False)"

definition guardian_firmware_fail ::
  "'c guardian_firmware_lifecycle ptr \<Rightarrow> guardian_firmware_failure \<Rightarrow> guardian_firmware_result
     \<Rightarrow> guardian_firmware_result \<times> 'c guardian_firmware_lifecycle ptr" where
  "guardian_firmware_fail lifecycle failure result =
     (result, map_option (\<lambda>l. l\<lparr>lc_failure := failure, lc_state := GUARDIAN_FIRMWARE_STATE_FAILED\<rparr>) lifecycle)"

definition guardian_firmware_minimum_counter :: "'c guardian_firmware_lifecycle \<Rightarrow> u32" where
  "guardian_firmware_minimum_counter l =
     (let minimum = fc_active_version_counter (lc_config l)
      in if fc_rollback_floor (lc_config l) > minimum then fc_rollback_floor (lc_config l) else minimum)"

section \<open>Initialization and configuration\<close>

definition guardian_firmware_lifecycle_init ::
  "'c guardian_firmware_lifecycle ptr \<Rightarrow> 'c guardian_firmware_lifecycle ptr" where
  "guardian_firmware_lifecycle_init lifecycle = map_option (\<lambda>_. initial_lifecycle) lifecycle"

definition guardian_firmware_lifecycle_configure ::
  "'c guardian_firmware_lifecycle ptr \<Rightarrow> 'c guardian_firmware_config ptr
     \<Rightarrow> guardian_firmware_result \<times> 'c guardian_firmware_lifecycle ptr" where
  "guardian_firmware_lifecycle_configure lifecycle config =
     (case (lifecycle, config) of
        (Some l, Some cfg) \<Rightarrow>
          if fc_erase cfg = None \<or> fc_write cfg = None \<or> fc_hash cfg = None
             \<or> fc_verify_signature cfg = None \<or> fc_mark_pending cfg = None
             \<or> fc_persist_floor cfg = None \<or> fc_complete_pending cfg = None
             \<or> fc_max_image_size cfg = 0
          then (GUARDIAN_FIRMWARE_ERROR_UNCONFIGURED, lifecycle)
          else if fc_required_signature_algorithm cfg \<noteq> GUARDIAN_FIRMWARE_SIGNATURE_ED25519
             \<and> fc_required_signature_algorithm cfg \<noteq> GUARDIAN_FIRMWARE_SIGNATURE_DEMO_HMAC_SHA256
          then (GUARDIAN_FIRMWARE_ERROR_INVALID_PAYLOAD, lifecycle)
          else if fc_rollback_floor cfg > fc_active_version_counter cfg
          then (GUARDIAN_FIRMWARE_ERROR_INVALID_PAYLOAD, lifecycle)
          else (GUARDIAN_FIRMWARE_OK,
                map_option (\<lambda>l. l\<lparr>lc_config := cfg, lc_configured := 1\<rparr>)
                  (guardian_firmware_lifecycle_init lifecycle))
      | _ \<Rightarrow> (GUARDIAN_FIRMWARE_ERROR_NULL_ARGUMENT, lifecycle))"

section \<open>Payload decoding\<close>

text \<open>The decoded manifest is built in place, so an error found after the \<open>memset\<close> leaves the
  fields written so far.\<close>

definition guardian_firmware_decode_manifest ::
  "u8 list ptr \<Rightarrow> u16 \<Rightarrow> guardian_firmware_manifest ptr
     \<Rightarrow> guardian_firmware_result \<times> guardian_firmware_manifest ptr" where
  "guardian_firmware_decode_manifest payload payload_length manifest =
     (case (payload, manifest) of
        (Some p, Some _) \<Rightarrow>
          if payload_length < GUARDIAN_FIRMWARE_MANIFEST_PREFIX_SIZE
          then (GUARDIAN_FIRMWARE_ERROR_INVALID_PAYLOAD, manifest)
          else if p ! 0 \<noteq> GUARDIAN_FIRMWARE_SCHEMA_VERSION
          then (GUARDIAN_FIRMWARE_ERROR_INVALID_PAYLOAD, manifest)
          else
            let signature_length = p ! 52
            in if \<not> guardian_firmware_signature_valid (p ! 1) signature_length
            then (GUARDIAN_FIRMWARE_ERROR_INVALID_PAYLOAD, manifest)
            else if payload_length \<noteq> GUARDIAN_FIRMWARE_MANIFEST_PREFIX_SIZE + ucast signature_length
            then (GUARDIAN_FIRMWARE_ERROR_INVALID_PAYLOAD, manifest)
            else
              let m1 = zero_manifest\<lparr>m_signature_algorithm := p ! 1,
                    m_key_id := guardian_firmware_read_u32_be p 2,
                    m_version_counter := guardian_firmware_read_u32_be p 6\<rparr>
              in if m_version_counter m1 = 0
              then (GUARDIAN_FIRMWARE_ERROR_INVALID_PAYLOAD, Some m1)
              else
                let m2 = m1\<lparr>m_firmware_major := guardian_firmware_read_u16_be p 10,
                      m_firmware_minor := guardian_firmware_read_u16_be p 12,
                      m_firmware_patch := guardian_firmware_read_u16_be p 14,
                      m_image_size := guardian_firmware_read_u32_be p 16\<rparr>
                in if m_image_size m2 = 0
                then (GUARDIAN_FIRMWARE_ERROR_INVALID_PAYLOAD, Some m2)
                else (GUARDIAN_FIRMWARE_OK,
                  Some (m2\<lparr>
                    m_image_sha256 := buf_write (m_image_sha256 m2) 0 (buf_read p 20 GUARDIAN_FIRMWARE_DIGEST_SIZE),
                    m_signature_length := signature_length,
                    m_signature := buf_write (m_signature m2) 0 (buf_read p 53 (unat signature_length))\<rparr>))
      | _ \<Rightarrow> (GUARDIAN_FIRMWARE_ERROR_NULL_ARGUMENT, manifest))"

definition guardian_firmware_decode_chunk ::
  "u8 list ptr \<Rightarrow> u16 \<Rightarrow> guardian_firmware_chunk ptr
     \<Rightarrow> guardian_firmware_result \<times> guardian_firmware_chunk ptr" where
  "guardian_firmware_decode_chunk payload payload_length chunk =
     (case (payload, chunk) of
        (Some p, Some _) \<Rightarrow>
          if payload_length \<le> GUARDIAN_FIRMWARE_CHUNK_PREFIX_SIZE
          then (GUARDIAN_FIRMWARE_ERROR_INVALID_PAYLOAD, chunk)
          else if p ! 0 \<noteq> GUARDIAN_FIRMWARE_SCHEMA_VERSION
          then (GUARDIAN_FIRMWARE_ERROR_INVALID_PAYLOAD, chunk)
          else
            let chunk_length = guardian_firmware_read_u16_be p 5
            in if chunk_length = 0 \<or> chunk_length > GUARDIAN_FIRMWARE_CHUNK_MAX_DATA
            then (GUARDIAN_FIRMWARE_ERROR_INVALID_PAYLOAD, chunk)
            else if payload_length \<noteq> GUARDIAN_FIRMWARE_CHUNK_PREFIX_SIZE + chunk_length
            then (GUARDIAN_FIRMWARE_ERROR_INVALID_PAYLOAD, chunk)
            else (GUARDIAN_FIRMWARE_OK,
              Some \<lparr>ck_offset = guardian_firmware_read_u32_be p 1, ck_length = chunk_length,
                ck_data = buf_write (replicate (unat GUARDIAN_FIRMWARE_CHUNK_MAX_DATA) 0) 0
                  (buf_read p 7 (unat chunk_length))\<rparr>)
      | _ \<Rightarrow> (GUARDIAN_FIRMWARE_ERROR_NULL_ARGUMENT, chunk))"

definition guardian_firmware_decode_action :: "u8 list ptr \<Rightarrow> u16 \<Rightarrow> guardian_firmware_result" where
  "guardian_firmware_decode_action payload payload_length =
     (case payload of
        None \<Rightarrow> GUARDIAN_FIRMWARE_ERROR_NULL_ARGUMENT
      | Some p \<Rightarrow>
          if payload_length \<noteq> 1 then GUARDIAN_FIRMWARE_ERROR_INVALID_PAYLOAD
          else if p ! 0 \<noteq> GUARDIAN_FIRMWARE_SCHEMA_VERSION then GUARDIAN_FIRMWARE_ERROR_INVALID_PAYLOAD
          else GUARDIAN_FIRMWARE_OK)"

definition guardian_firmware_signed_manifest ::
  "guardian_firmware_manifest ptr \<Rightarrow> u8 list ptr \<Rightarrow> guardian_firmware_result \<times> u8 list ptr" where
  "guardian_firmware_signed_manifest manifest output =
     (case (manifest, output) of
        (Some m, Some out) \<Rightarrow>
          if \<not> guardian_firmware_signature_valid (m_signature_algorithm m) (m_signature_length m)
          then (GUARDIAN_FIRMWARE_ERROR_INVALID_PAYLOAD, output)
          else
            let o1 = (buf_write out 0 guardian_firmware_signed_domain)
                  [12 := GUARDIAN_FIRMWARE_SCHEMA_VERSION, 13 := m_signature_algorithm m];
                o2 = guardian_firmware_write_u32_be o1 14 (m_key_id m);
                o3 = guardian_firmware_write_u32_be o2 18 (m_version_counter m);
                o4 = guardian_firmware_write_u16_be o3 22 (m_firmware_major m);
                o5 = guardian_firmware_write_u16_be o4 24 (m_firmware_minor m);
                o6 = guardian_firmware_write_u16_be o5 26 (m_firmware_patch m);
                o7 = guardian_firmware_write_u32_be o6 28 (m_image_size m)
            in (GUARDIAN_FIRMWARE_OK, Some (buf_write o7 32 (take GUARDIAN_FIRMWARE_DIGEST_SIZE (m_image_sha256 m))))
      | _ \<Rightarrow> (GUARDIAN_FIRMWARE_ERROR_NULL_ARGUMENT, output))"

section \<open>Lifecycle operations\<close>

definition guardian_firmware_begin ::
  "'c guardian_firmware_lifecycle ptr \<Rightarrow> guardian_firmware_manifest ptr
     \<Rightarrow> guardian_firmware_result \<times> 'c guardian_firmware_lifecycle ptr" where
  "guardian_firmware_begin lifecycle manifest =
     (case (lifecycle, manifest) of
        (Some l, Some m) \<Rightarrow>
          if lc_configured l = 0
          then guardian_firmware_fail lifecycle GUARDIAN_FIRMWARE_FAILURE_UNCONFIGURED
            GUARDIAN_FIRMWARE_ERROR_UNCONFIGURED
          else if \<not> guardian_firmware_signature_valid (m_signature_algorithm m) (m_signature_length m)
          then guardian_firmware_fail lifecycle GUARDIAN_FIRMWARE_FAILURE_INVALID_PAYLOAD
            GUARDIAN_FIRMWARE_ERROR_INVALID_PAYLOAD
          else if m_signature_algorithm m \<noteq> fc_required_signature_algorithm (lc_config l)
          then guardian_firmware_fail lifecycle GUARDIAN_FIRMWARE_FAILURE_INVALID_PAYLOAD
            GUARDIAN_FIRMWARE_ERROR_INVALID_PAYLOAD
          else if m_image_size m = 0 \<or> m_image_size m > fc_max_image_size (lc_config l)
          then guardian_firmware_fail lifecycle GUARDIAN_FIRMWARE_FAILURE_INVALID_PAYLOAD
            GUARDIAN_FIRMWARE_ERROR_INVALID_PAYLOAD
          else if m_version_counter m \<le> guardian_firmware_minimum_counter l
          then guardian_firmware_fail lifecycle GUARDIAN_FIRMWARE_FAILURE_ROLLBACK_BLOCKED
            GUARDIAN_FIRMWARE_ERROR_ROLLBACK_BLOCKED
          else
            let (ok, ctx) = the (fc_erase (lc_config l)) (fc_context (lc_config l)) (m_image_size m);
                l1 = set_context ctx l
            in if \<not> ok
            then guardian_firmware_fail (Some l1) GUARDIAN_FIRMWARE_FAILURE_STORAGE
              GUARDIAN_FIRMWARE_ERROR_STORAGE
            else (GUARDIAN_FIRMWARE_OK,
              Some (l1\<lparr>lc_manifest := m, lc_bytes_received := 0,
                lc_failure := GUARDIAN_FIRMWARE_FAILURE_NONE,
                lc_state := GUARDIAN_FIRMWARE_STATE_RECEIVING\<rparr>))
      | _ \<Rightarrow> (GUARDIAN_FIRMWARE_ERROR_NULL_ARGUMENT, lifecycle))"

definition guardian_firmware_write_chunk ::
  "'c guardian_firmware_lifecycle ptr \<Rightarrow> guardian_firmware_chunk ptr
     \<Rightarrow> guardian_firmware_result \<times> 'c guardian_firmware_lifecycle ptr" where
  "guardian_firmware_write_chunk lifecycle chunk =
     (case (lifecycle, chunk) of
        (Some l, Some k) \<Rightarrow>
          if lc_state l \<noteq> GUARDIAN_FIRMWARE_STATE_RECEIVING
          then (GUARDIAN_FIRMWARE_ERROR_INVALID_STATE, lifecycle)
          else if ck_length k = 0 \<or> ck_length k > GUARDIAN_FIRMWARE_CHUNK_MAX_DATA
          then guardian_firmware_fail lifecycle GUARDIAN_FIRMWARE_FAILURE_INVALID_PAYLOAD
            GUARDIAN_FIRMWARE_ERROR_INVALID_PAYLOAD
          else if ck_offset k \<noteq> lc_bytes_received l
          then guardian_firmware_fail lifecycle GUARDIAN_FIRMWARE_FAILURE_OUT_OF_ORDER
            GUARDIAN_FIRMWARE_ERROR_OUT_OF_ORDER
          else if (ucast (ck_offset k) :: u64) + ucast (ck_length k) > ucast (m_image_size (lc_manifest l))
          then guardian_firmware_fail lifecycle GUARDIAN_FIRMWARE_FAILURE_INVALID_PAYLOAD
            GUARDIAN_FIRMWARE_ERROR_INVALID_PAYLOAD
          else
            let (ok, ctx) = the (fc_write (lc_config l)) (fc_context (lc_config l)) (ck_offset k)
                  (Some (ck_data k)) (ck_length k);
                l1 = set_context ctx l
            in if \<not> ok
            then guardian_firmware_fail (Some l1) GUARDIAN_FIRMWARE_FAILURE_STORAGE
              GUARDIAN_FIRMWARE_ERROR_STORAGE
            else (GUARDIAN_FIRMWARE_OK,
              Some (l1\<lparr>lc_bytes_received := lc_bytes_received l1 + ucast (ck_length k)\<rparr>))
      | _ \<Rightarrow> (GUARDIAN_FIRMWARE_ERROR_NULL_ARGUMENT, lifecycle))"

text \<open>Zeroing the local digest and transcript buffers before they go out of scope leaves no
  trace in the state and is not represented.\<close>

definition guardian_firmware_finalize ::
  "'c guardian_firmware_lifecycle ptr
     \<Rightarrow> guardian_firmware_result \<times> 'c guardian_firmware_lifecycle ptr" where
  "guardian_firmware_finalize lifecycle =
     (case lifecycle of
        None \<Rightarrow> (GUARDIAN_FIRMWARE_ERROR_NULL_ARGUMENT, lifecycle)
      | Some l \<Rightarrow>
          if lc_state l \<noteq> GUARDIAN_FIRMWARE_STATE_RECEIVING
          then (GUARDIAN_FIRMWARE_ERROR_INVALID_STATE, lifecycle)
          else if lc_bytes_received l \<noteq> m_image_size (lc_manifest l)
          then guardian_firmware_fail lifecycle GUARDIAN_FIRMWARE_FAILURE_INVALID_PAYLOAD
            GUARDIAN_FIRMWARE_ERROR_INVALID_PAYLOAD
          else
            let (ok, actual_digest, ctx) = the (fc_hash (lc_config l)) (fc_context (lc_config l))
                  (m_image_size (lc_manifest l)) (replicate GUARDIAN_FIRMWARE_DIGEST_SIZE 0);
                l1 = set_context ctx l
            in if \<not> ok
            then guardian_firmware_fail (Some l1) GUARDIAN_FIRMWARE_FAILURE_STORAGE
              GUARDIAN_FIRMWARE_ERROR_STORAGE
            else if \<not> guardian_crypto_constant_time_equal (Some actual_digest)
                (Some (m_image_sha256 (lc_manifest l1))) GUARDIAN_FIRMWARE_DIGEST_SIZE
            then guardian_firmware_fail (Some l1) GUARDIAN_FIRMWARE_FAILURE_HASH_MISMATCH
              GUARDIAN_FIRMWARE_ERROR_HASH_MISMATCH
            else
              let (signed_result, signed_message) =
                    guardian_firmware_signed_manifest (Some (lc_manifest l1))
                      (Some (replicate GUARDIAN_FIRMWARE_SIGNED_MANIFEST_SIZE 0))
              in if signed_result \<noteq> GUARDIAN_FIRMWARE_OK
              then guardian_firmware_fail (Some l1) GUARDIAN_FIRMWARE_FAILURE_INVALID_PAYLOAD signed_result
              else
                let (verified, ctx2) = the (fc_verify_signature (lc_config l1)) (fc_context (lc_config l1))
                      (m_signature_algorithm (lc_manifest l1)) (m_key_id (lc_manifest l1))
                      signed_message GUARDIAN_FIRMWARE_SIGNED_MANIFEST_SIZE
                      (Some (m_signature (lc_manifest l1))) (m_signature_length (lc_manifest l1));
                    l2 = set_context ctx2 l1
                in if \<not> verified
                then guardian_firmware_fail (Some l2) GUARDIAN_FIRMWARE_FAILURE_SIGNATURE_INVALID
                  GUARDIAN_FIRMWARE_ERROR_SIGNATURE_INVALID
                else if m_version_counter (lc_manifest l2) \<le> guardian_firmware_minimum_counter l2
                then guardian_firmware_fail (Some l2) GUARDIAN_FIRMWARE_FAILURE_ROLLBACK_BLOCKED
                  GUARDIAN_FIRMWARE_ERROR_ROLLBACK_BLOCKED
                else (GUARDIAN_FIRMWARE_OK,
                  Some (l2\<lparr>lc_state := GUARDIAN_FIRMWARE_STATE_VERIFIED,
                    lc_failure := GUARDIAN_FIRMWARE_FAILURE_NONE\<rparr>)))"

definition guardian_firmware_activate ::
  "'c guardian_firmware_lifecycle ptr
     \<Rightarrow> guardian_firmware_result \<times> 'c guardian_firmware_lifecycle ptr" where
  "guardian_firmware_activate lifecycle =
     (case lifecycle of
        None \<Rightarrow> (GUARDIAN_FIRMWARE_ERROR_NULL_ARGUMENT, lifecycle)
      | Some l \<Rightarrow>
          if lc_state l \<noteq> GUARDIAN_FIRMWARE_STATE_VERIFIED
          then (GUARDIAN_FIRMWARE_ERROR_INVALID_STATE, lifecycle)
          else
            let m = lc_manifest l;
                (ok, ctx) = the (fc_mark_pending (lc_config l)) (fc_context (lc_config l))
                  (m_version_counter m) (m_firmware_major m) (m_firmware_minor m) (m_firmware_patch m);
                l1 = set_context ctx l
            in if \<not> ok
            then guardian_firmware_fail (Some l1) GUARDIAN_FIRMWARE_FAILURE_ACTIVATION
              GUARDIAN_FIRMWARE_ERROR_ACTIVATION
            else (GUARDIAN_FIRMWARE_OK,
              Some (l1\<lparr>lc_state := GUARDIAN_FIRMWARE_STATE_PENDING_ACTIVATION,
                lc_failure := GUARDIAN_FIRMWARE_FAILURE_NONE\<rparr>)))"

definition guardian_firmware_confirm_boot ::
  "'c guardian_firmware_lifecycle ptr \<Rightarrow> u32
     \<Rightarrow> guardian_firmware_result \<times> 'c guardian_firmware_lifecycle ptr" where
  "guardian_firmware_confirm_boot lifecycle booted_version_counter =
     (case lifecycle of
        None \<Rightarrow> (GUARDIAN_FIRMWARE_ERROR_NULL_ARGUMENT, lifecycle)
      | Some l \<Rightarrow>
          if lc_state l \<noteq> GUARDIAN_FIRMWARE_STATE_PENDING_ACTIVATION
          then (GUARDIAN_FIRMWARE_ERROR_INVALID_STATE, lifecycle)
          else if booted_version_counter \<noteq> m_version_counter (lc_manifest l)
          then guardian_firmware_fail lifecycle GUARDIAN_FIRMWARE_FAILURE_CONFIRMATION
            GUARDIAN_FIRMWARE_ERROR_CONFIRMATION
          else
            let (ok, ctx) = the (fc_persist_floor (lc_config l)) (fc_context (lc_config l))
                  booted_version_counter;
                l1 = set_context ctx l
            in if \<not> ok
            then guardian_firmware_fail (Some l1) GUARDIAN_FIRMWARE_FAILURE_CONFIRMATION
              GUARDIAN_FIRMWARE_ERROR_CONFIRMATION
            else
              let l2 = l1\<lparr>lc_config := (lc_config l1)\<lparr>fc_rollback_floor := booted_version_counter,
                    fc_active_version_counter := booted_version_counter\<rparr>\<rparr>;
                  (completed, ctx2) = the (fc_complete_pending (lc_config l2)) (fc_context (lc_config l2))
                    booted_version_counter 1;
                  l3 = set_context ctx2 l2
              in if \<not> completed
              then guardian_firmware_fail (Some l3) GUARDIAN_FIRMWARE_FAILURE_CONFIRMATION
                GUARDIAN_FIRMWARE_ERROR_CONFIRMATION
              else (GUARDIAN_FIRMWARE_OK,
                Some (l3\<lparr>lc_state := GUARDIAN_FIRMWARE_STATE_CONFIRMED,
                  lc_failure := GUARDIAN_FIRMWARE_FAILURE_NONE\<rparr>)))"

definition guardian_firmware_report_boot_failure ::
  "'c guardian_firmware_lifecycle ptr \<Rightarrow> u32
     \<Rightarrow> guardian_firmware_result \<times> 'c guardian_firmware_lifecycle ptr" where
  "guardian_firmware_report_boot_failure lifecycle attempted_version_counter =
     (case lifecycle of
        None \<Rightarrow> (GUARDIAN_FIRMWARE_ERROR_NULL_ARGUMENT, lifecycle)
      | Some l \<Rightarrow>
          if lc_state l \<noteq> GUARDIAN_FIRMWARE_STATE_PENDING_ACTIVATION
          then (GUARDIAN_FIRMWARE_ERROR_INVALID_STATE, lifecycle)
          else if attempted_version_counter \<noteq> m_version_counter (lc_manifest l)
          then (GUARDIAN_FIRMWARE_ERROR_INVALID_PAYLOAD, lifecycle)
          else
            let (ok, ctx) = the (fc_complete_pending (lc_config l)) (fc_context (lc_config l))
                  attempted_version_counter 0;
                l1 = set_context ctx l
            in if \<not> ok
            then guardian_firmware_fail (Some l1) GUARDIAN_FIRMWARE_FAILURE_CONFIRMATION
              GUARDIAN_FIRMWARE_ERROR_CONFIRMATION
            else (GUARDIAN_FIRMWARE_OK,
              Some (l1\<lparr>lc_state := GUARDIAN_FIRMWARE_STATE_ROLLED_BACK,
                lc_failure := GUARDIAN_FIRMWARE_FAILURE_NONE\<rparr>)))"

section \<open>Public status\<close>

definition zero_firmware_status :: guardian_firmware_status_t where
  "zero_firmware_status = \<lparr>fs_state = GUARDIAN_FIRMWARE_STATE_IDLE,
     fs_failure = GUARDIAN_FIRMWARE_FAILURE_NONE, fs_signature_algorithm = 0,
     fs_active_version_counter = 0, fs_rollback_floor = 0, fs_candidate_version_counter = 0,
     fs_bytes_received = 0, fs_image_size = 0, fs_key_id = 0, fs_firmware_major = 0,
     fs_firmware_minor = 0, fs_firmware_patch = 0\<rparr>"

definition guardian_firmware_status :: "'c guardian_firmware_lifecycle ptr \<Rightarrow> guardian_firmware_status_t" where
  "guardian_firmware_status lifecycle =
     (case lifecycle of
        None \<Rightarrow> zero_firmware_status
      | Some l \<Rightarrow>
          let status = zero_firmware_status\<lparr>fs_state := lc_state l, fs_failure := lc_failure l,
                fs_active_version_counter := fc_active_version_counter (lc_config l),
                fs_rollback_floor := fc_rollback_floor (lc_config l)\<rparr>;
              m = lc_manifest l
          in if m_version_counter m \<noteq> 0
          then status\<lparr>fs_signature_algorithm := m_signature_algorithm m,
            fs_candidate_version_counter := m_version_counter m,
            fs_bytes_received := lc_bytes_received l, fs_image_size := m_image_size m,
            fs_key_id := m_key_id m, fs_firmware_major := m_firmware_major m,
            fs_firmware_minor := m_firmware_minor m, fs_firmware_patch := m_firmware_patch m\<rparr>
          else status)"

definition guardian_firmware_encode_status_payload ::
  "guardian_firmware_status_t ptr \<Rightarrow> u8 list ptr \<Rightarrow> u16 \<Rightarrow> u16 ptr
     \<Rightarrow> guardian_firmware_result \<times> u8 list ptr \<times> u16 ptr" where
  "guardian_firmware_encode_status_payload status payload payload_capacity payload_length =
     (case (status, payload, payload_length) of
        (Some s, Some b, Some _) \<Rightarrow>
          if payload_capacity < GUARDIAN_FIRMWARE_STATUS_PAYLOAD_SIZE
          then (GUARDIAN_FIRMWARE_ERROR_OUTPUT_TOO_SMALL, payload, payload_length)
          else
            let b1 = b[0 := GUARDIAN_FIRMWARE_SCHEMA_VERSION,
                  1 := guardian_firmware_state_value (fs_state s),
                  2 := guardian_firmware_failure_value (fs_failure s), 3 := fs_signature_algorithm s];
                b2 = guardian_firmware_write_u32_be b1 4 (fs_active_version_counter s);
                b3 = guardian_firmware_write_u32_be b2 8 (fs_rollback_floor s);
                b4 = guardian_firmware_write_u32_be b3 12 (fs_candidate_version_counter s);
                b5 = guardian_firmware_write_u32_be b4 16 (fs_bytes_received s);
                b6 = guardian_firmware_write_u32_be b5 20 (fs_image_size s);
                b7 = guardian_firmware_write_u32_be b6 24 (fs_key_id s);
                b8 = guardian_firmware_write_u16_be b7 28 (fs_firmware_major s);
                b9 = guardian_firmware_write_u16_be b8 30 (fs_firmware_minor s);
                b10 = guardian_firmware_write_u16_be b9 32 (fs_firmware_patch s)
            in (GUARDIAN_FIRMWARE_OK, Some b10, Some GUARDIAN_FIRMWARE_STATUS_PAYLOAD_SIZE)
      | _ \<Rightarrow> (GUARDIAN_FIRMWARE_ERROR_NULL_ARGUMENT, payload, payload_length))"

section \<open>Wire formats as specifications\<close>

text \<open>The manifest and chunk payloads, and the transcript a firmware signature covers.\<close>

definition manifest_wire :: "guardian_firmware_manifest \<Rightarrow> u8 list" where
  "manifest_wire m = GUARDIAN_FIRMWARE_SCHEMA_VERSION # m_signature_algorithm m # be32_bytes (m_key_id m)
     @ be32_bytes (m_version_counter m) @ be16_bytes (m_firmware_major m) @ be16_bytes (m_firmware_minor m)
     @ be16_bytes (m_firmware_patch m) @ be32_bytes (m_image_size m) @ m_image_sha256 m
     @ m_signature_length m # take (unat (m_signature_length m)) (m_signature m)"

definition chunk_wire :: "guardian_firmware_chunk \<Rightarrow> u8 list" where
  "chunk_wire k = GUARDIAN_FIRMWARE_SCHEMA_VERSION # be32_bytes (ck_offset k) @ be16_bytes (ck_length k)
     @ take (unat (ck_length k)) (ck_data k)"

definition signed_bytes :: "guardian_firmware_manifest \<Rightarrow> u8 list" where
  "signed_bytes m = guardian_firmware_signed_domain
     @ GUARDIAN_FIRMWARE_SCHEMA_VERSION # m_signature_algorithm m # be32_bytes (m_key_id m)
     @ be32_bytes (m_version_counter m) @ be16_bytes (m_firmware_major m) @ be16_bytes (m_firmware_minor m)
     @ be16_bytes (m_firmware_patch m) @ be32_bytes (m_image_size m) @ m_image_sha256 m"

text \<open>The manifests and chunks a decoder can produce: array sizes as declared, unused tails zero.\<close>

definition manifest_shape :: "guardian_firmware_manifest \<Rightarrow> bool" where
  "manifest_shape m \<longleftrightarrow> length (m_image_sha256 m) = 32 \<and> length (m_signature m) = 64"

definition wf_manifest :: "guardian_firmware_manifest \<Rightarrow> bool" where
  "wf_manifest m \<longleftrightarrow> manifest_shape m
     \<and> guardian_firmware_signature_valid (m_signature_algorithm m) (m_signature_length m)
     \<and> m_version_counter m \<noteq> 0 \<and> m_image_size m \<noteq> 0
     \<and> drop (unat (m_signature_length m)) (m_signature m) = replicate (64 - unat (m_signature_length m)) 0"

definition wf_chunk :: "guardian_firmware_chunk \<Rightarrow> bool" where
  "wf_chunk k \<longleftrightarrow> ck_length k \<noteq> 0 \<and> ck_length k \<le> GUARDIAN_FIRMWARE_CHUNK_MAX_DATA
     \<and> length (ck_data k) = 192
     \<and> drop (unat (ck_length k)) (ck_data k) = replicate (192 - unat (ck_length k)) 0"

lemma firmware_read_be [be_simps]:
  "guardian_firmware_read_u16_be b i = be16_at b i" "guardian_firmware_read_u32_be b i = be32_at b i"
  by (simp_all add: guardian_firmware_read_u16_be_def guardian_firmware_read_u32_be_def
      be16_at_def be32_at_def)

lemma firmware_write_be [be_simps]:
  "i + 2 \<le> length b \<Longrightarrow> guardian_firmware_write_u16_be b i v = buf_write b i (be16_bytes v)"
  "i + 4 \<le> length b \<Longrightarrow> guardian_firmware_write_u32_be b i w = buf_write b i (be32_bytes w)"
  by (simp_all add: guardian_firmware_write_u16_be_def guardian_firmware_write_u32_be_def
      be16_bytes_def be32_bytes_def list_update_buf_write buf_write_adjacent)

lemma signature_length_cases:
  "guardian_firmware_signature_valid a n \<Longrightarrow> (a = 1 \<and> n = 64) \<or> (a = 0xFE \<and> n = 32)"
  by (auto simp: guardian_firmware_signature_valid_def split: if_splits)

lemma signed_domain_length [simp]: "length guardian_firmware_signed_domain = 12"
  by (simp add: guardian_firmware_signed_domain_def)

lemma signed_manifest_eq:
  assumes "guardian_firmware_signature_valid (m_signature_algorithm m) (m_signature_length m)"
    and "length (m_image_sha256 m) = 32" and "length out = 64"
  shows "guardian_firmware_signed_manifest (Some m) (Some out) = (GUARDIAN_FIRMWARE_OK, Some (signed_bytes m))"
  using assms
  by (simp add: guardian_firmware_signed_manifest_def firmware_write_be Let_def list_update_buf_write
      buf_write_adjacent signed_bytes_def) (simp add: buf_write_0)

lemma signed_bytes_length: "length (m_image_sha256 m) = 32 \<Longrightarrow> length (signed_bytes m) = 64"
  by (simp add: signed_bytes_def)

lemma length_manifest_wire:
  "manifest_shape m \<Longrightarrow> unat (m_signature_length m) \<le> 64 \<Longrightarrow>
   length (manifest_wire m) = 53 + unat (m_signature_length m)"
  by (simp add: manifest_wire_def manifest_shape_def)

text \<open>A decoder reads the same fields from the wire image of a value.\<close>

lemma take_nths: "n \<le> length p \<Longrightarrow> take n p = map ((!) p) [0..<n]"
  by (rule nth_equalityI) auto

lemma decode_wire_fields:
  assumes "length (m_image_sha256 m) = 32" "length (m_signature m) = 64" "unat (m_signature_length m) \<le> 64"
    and p: "p = manifest_wire m @ rest"
  shows "p ! 0 = 1" "p ! 1 = m_signature_algorithm m" "p ! 52 = m_signature_length m"
    "be32_at p 2 = m_key_id m" "be32_at p 6 = m_version_counter m" "be16_at p 10 = m_firmware_major m"
    "be16_at p 12 = m_firmware_minor m" "be16_at p 14 = m_firmware_patch m" "be32_at p 16 = m_image_size m"
    "buf_read p 20 32 = m_image_sha256 m"
    "buf_read p 53 (unat (m_signature_length m)) = take (unat (m_signature_length m)) (m_signature m)"
  using assms(1-3) unfolding p manifest_wire_def
  by (simp_all add: buf_simps nth_append_skip buf_read_def)

lemma take_7_nths:
  "7 \<le> length p \<Longrightarrow> take 7 p = [p ! 0, p ! 1, p ! 2, p ! 3, p ! 4, p ! 5, p ! 6]"
  by (simp add: take_nths upt_rec) (simp add: eval_nat_numeral)

lemma take_20_nths:
  "20 \<le> length p \<Longrightarrow> take 20 p = [p ! 0, p ! 1, p ! 2, p ! 3, p ! 4, p ! 5, p ! 6, p ! 7, p ! 8, p ! 9,
     p ! 10, p ! 11, p ! 12, p ! 13, p ! 14, p ! 15, p ! 16, p ! 17, p ! 18, p ! 19]"
  by (simp add: take_nths upt_rec) (simp add: eval_nat_numeral)

lemma wire_of_fields:
  assumes "53 + n \<le> length p"
  shows "take (53 + n) p = p ! 0 # p ! 1 # be32_bytes (be32_at p 2) @ be32_bytes (be32_at p 6)
     @ be16_bytes (be16_at p 10) @ be16_bytes (be16_at p 12) @ be16_bytes (be16_at p 14)
     @ be32_bytes (be32_at p 16) @ take 32 (drop 20 p) @ p ! 52 # take n (drop 53 p)"
proof -
  have "take (53 + n) p = take (20 + 32 + 1 + n) p" by simp
  also have "\<dots> = take 20 p @ take 32 (drop 20 p) @ take 1 (drop 52 p) @ take n (drop 53 p)"
    unfolding take_add by (simp add: add.commute)
  also have "take 1 (drop 52 p) = [p ! 52]" using assms by (simp add: take_Suc_conv_app_nth)
  finally show ?thesis using assms by (simp add: be_bytes_at take_20_nths)
qed

lemma decode_manifest_ok:
  assumes "guardian_firmware_decode_manifest (Some p) n (Some x) = (GUARDIAN_FIRMWARE_OK, Some m)"
    and len: "unat n \<le> length p"
  shows "wf_manifest m \<and> take (unat n) p = manifest_wire m"
proof -
  let ?sl = "p ! 52"
  from assms(1) have v: "guardian_firmware_signature_valid (p ! 1) ?sl" "p ! 0 = 1"
      "n = 53 + ucast ?sl" "be32_at p 6 \<noteq> 0" "be32_at p 16 \<noteq> 0"
    and m: "m = \<lparr>m_signature_algorithm = p ! 1, m_key_id = be32_at p 2, m_version_counter = be32_at p 6,
      m_firmware_major = be16_at p 10, m_firmware_minor = be16_at p 12, m_firmware_patch = be16_at p 14,
      m_image_size = be32_at p 16, m_image_sha256 = buf_write (replicate 32 0) 0 (buf_read p 20 32),
      m_signature_length = ?sl, m_signature = buf_write (replicate 64 0) 0 (buf_read p 53 (unat ?sl))\<rparr>"
    by (auto simp: guardian_firmware_decode_manifest_def Let_def firmware_read_be zero_manifest_def
        split: if_splits)
  have sl: "?sl = 32 \<or> ?sl = 64" using signature_length_cases [OF v(1)] by auto
  then have n: "unat n = 53 + unat ?sl" by (auto simp: v(3))
  have "length (buf_read p 20 32) = 32" "length (buf_read p 53 (unat ?sl)) = unat ?sl"
    using len n by (auto simp: buf_simps)
  with sl have shape: "wf_manifest m" "m_image_sha256 m = take 32 (drop 20 p)"
      "take (unat ?sl) (m_signature m) = take (unat ?sl) (drop 53 p)"
    using v by (auto simp: m wf_manifest_def manifest_shape_def buf_write_def buf_read_def)
  have "take (unat n) p = manifest_wire m"
    using wire_of_fields [of "unat ?sl" p] len n shape(2,3) by (simp add: manifest_wire_def v(2)) (simp add: m)
  with shape show ?thesis by blast
qed

lemma decode_manifest_wire:
  assumes wf: "wf_manifest m" and eq: "take (unat n) p = manifest_wire m" and len: "unat n \<le> length p"
  shows "guardian_firmware_decode_manifest (Some p) n (Some x) = (GUARDIAN_FIRMWARE_OK, Some m)"
proof -
  let ?sl = "m_signature_length m"
  have v: "guardian_firmware_signature_valid (m_signature_algorithm m) ?sl"
    and shape: "length (m_image_sha256 m) = 32" "length (m_signature m) = 64"
    and nz: "m_version_counter m \<noteq> 0" "m_image_size m \<noteq> 0"
    and tail: "drop (unat ?sl) (m_signature m) = replicate (64 - unat ?sl) 0"
    using wf by (auto simp: wf_manifest_def manifest_shape_def)
  have sl: "?sl = 32 \<or> ?sl = 64" using signature_length_cases [OF v] by auto
  have "length (manifest_wire m) = 53 + unat ?sl"
    using shape sl by (intro length_manifest_wire) (auto simp: manifest_shape_def)
  with eq len have n: "unat n = 53 + unat ?sl" by (metis length_take min_absorb2)
  have n': "n = 53 + ucast ?sl"
    by (rule word_unat_eq_iff [THEN iffD2]) (use n sl in auto)
  have p: "p = manifest_wire m @ drop (unat n) p" by (metis append_take_drop_id eq)
  have le: "unat ?sl \<le> 64" using sl by auto
  note f = decode_wire_fields [OF shape le p, simplified]
  have ge: "\<not> n < 53" using n by (simp add: word_less_nat_alt)
  have "buf_write (replicate 64 0) 0 (take (unat ?sl) (m_signature m)) = m_signature m"
    using tail le shape by (metis append_take_drop_id buf_write_0 drop_replicate length_take min_absorb2)
  moreover have "buf_write (replicate 32 0) 0 (m_image_sha256 m) = m_image_sha256 m"
    using shape by (simp add: buf_write_whole)
  ultimately show ?thesis
    using v nz ge by (simp add: guardian_firmware_decode_manifest_def Let_def firmware_read_be f n' [symmetric]
        zero_manifest_def)
qed

lemma chunk_fields:
  assumes "7 + n \<le> length p"
  shows "take (7 + n) p = p ! 0 # be32_bytes (be32_at p 1) @ be16_bytes (be16_at p 5) @ take n (drop 7 p)"
proof -
  have "take (7 + n) p = take 7 p @ take n (drop 7 p)" by (simp add: take_add)
  moreover have "be32_bytes (be32_at p 1) = [p ! 1, p ! 2, p ! 3, p ! 4]"
    by (simp add: be32_bytes_at eval_nat_numeral)
  moreover have "be16_bytes (be16_at p 5) = [p ! 5, p ! 6]" by (simp add: be16_bytes_at)
  ultimately show ?thesis using assms by (simp only: take_7_nths append.simps)
qed

lemma decode_chunk_iff:
  assumes len: "unat n \<le> length p"
  shows "guardian_firmware_decode_chunk (Some p) n (Some x) = (GUARDIAN_FIRMWARE_OK, Some k)
    \<longleftrightarrow> wf_chunk k \<and> take (unat n) p = chunk_wire k" (is "?l \<longleftrightarrow> ?r")
proof
  assume ?l
  then have v: "p ! 0 = 1" "n = 7 + be16_at p 5" "be16_at p 5 \<noteq> 0" "be16_at p 5 \<le> 192"
    and k: "k = \<lparr>ck_offset = be32_at p 1, ck_length = be16_at p 5,
      ck_data = buf_write (replicate 192 0) 0 (buf_read p 7 (unat (be16_at p 5)))\<rparr>"
    by (auto simp: guardian_firmware_decode_chunk_def Let_def firmware_read_be not_less split: if_splits)
  have n: "unat n = 7 + unat (be16_at p 5)" using v(2,4) by (simp add: unat_word_ariths word_le_nat_alt)
  have "length (buf_read p 7 (unat (be16_at p 5))) = unat (be16_at p 5)" using len n by (simp add: buf_simps)
  then show ?r
    using v n len chunk_fields [of "unat (be16_at p 5)" p]
    by (auto simp: wf_chunk_def k chunk_wire_def buf_write_def word_le_nat_alt) (simp add: buf_read_def)
next
  assume r: ?r
  have wf: "ck_length k \<noteq> 0" "unat (ck_length k) \<le> 192" "length (ck_data k) = 192"
     "drop (unat (ck_length k)) (ck_data k) = replicate (192 - unat (ck_length k)) 0"
    using r by (auto simp: wf_chunk_def word_le_nat_alt)
  have "length (chunk_wire k) = 7 + unat (ck_length k)" using wf by (simp add: chunk_wire_def)
  with r len have n: "unat n = 7 + unat (ck_length k)" by (metis length_take min_absorb2)
  have n': "n = 7 + ck_length k"
    by (rule word_unat_eq_iff [THEN iffD2]) (use n wf in \<open>auto simp: unat_word_ariths\<close>)
  have p: "p = chunk_wire k @ drop (unat n) p" by (metis append_take_drop_id r)
  have f: "p ! 0 = 1" "be32_at p 1 = ck_offset k" "be16_at p 5 = ck_length k"
     "buf_read p 7 (unat (ck_length k)) = take (unat (ck_length k)) (ck_data k)"
    by (subst p, use wf in \<open>simp add: chunk_wire_def buf_simps nth_append_skip buf_read_def\<close>)+
  have "buf_write (replicate 192 0) 0 (take (unat (ck_length k)) (ck_data k)) = ck_data k"
    using wf by (metis append_take_drop_id buf_write_0 drop_replicate length_take min_absorb2)
  moreover have "\<not> n \<le> 7" using n wf(1) by (simp add: word_le_nat_alt unat_gt_0)
  moreover have "\<not> 192 < ck_length k" using wf(2) by (simp add: word_less_nat_alt)
  ultimately show ?l
    using wf(1) by (simp add: guardian_firmware_decode_chunk_def Let_def firmware_read_be f [simplified] n' [symmetric])
qed

section \<open>The platform's side of the contract\<close>

text \<open>
  What the callbacks promise, stated over a view \<open>img\<close> of the bytes staged behind the platform
  context and a relation \<open>auth\<close> of the signatures the platform trusts: a successful erase
  leaves nothing staged, a successful sequential write appends the chunk, a successful hash is
  the SHA-256 of the staged image, an accepted signature is a trusted one, and hashing,
  verifying and marking leave the image alone.  Failing callbacks promise nothing.
\<close>

definition erase_contract :: "('c ptr \<Rightarrow> u8 list) \<Rightarrow> ('c ptr \<Rightarrow> u32 \<Rightarrow> bool \<times> 'c ptr) \<Rightarrow> bool" where
  "erase_contract img f \<longleftrightarrow> (\<forall>c n c'. f c n = (True, c') \<longrightarrow> img c' = [])"

definition write_contract ::
  "('c ptr \<Rightarrow> u8 list) \<Rightarrow> ('c ptr \<Rightarrow> u32 \<Rightarrow> u8 list ptr \<Rightarrow> u16 \<Rightarrow> bool \<times> 'c ptr) \<Rightarrow> bool" where
  "write_contract img f \<longleftrightarrow> (\<forall>c off d len c'. f c off (Some d) len = (True, c') \<longrightarrow>
     unat off = length (img c) \<longrightarrow> unat len \<le> length d \<longrightarrow> img c' = img c @ take (unat len) d)"

definition hash_contract ::
  "('c ptr \<Rightarrow> u8 list) \<Rightarrow> ('c ptr \<Rightarrow> u32 \<Rightarrow> u8 list \<Rightarrow> bool \<times> u8 list \<times> 'c ptr) \<Rightarrow> bool" where
  "hash_contract img f \<longleftrightarrow> (\<forall>c n d digest c'. f c n d = (True, digest, c') \<longrightarrow>
     unat n = length (img c) \<longrightarrow> digest = sha256_reference (img c) \<and> img c' = img c)"

definition verify_contract ::
  "('c ptr \<Rightarrow> u8 list) \<Rightarrow> (u8 \<Rightarrow> u32 \<Rightarrow> u8 list \<Rightarrow> u8 list \<Rightarrow> bool)
     \<Rightarrow> ('c ptr \<Rightarrow> u8 \<Rightarrow> u32 \<Rightarrow> u8 list ptr \<Rightarrow> nat \<Rightarrow> u8 list ptr \<Rightarrow> u8 \<Rightarrow> bool \<times> 'c ptr) \<Rightarrow> bool" where
  "verify_contract img auth f \<longleftrightarrow> (\<forall>c a k msg n sig sl c'. f c a k (Some msg) n (Some sig) sl = (True, c') \<longrightarrow>
     auth a k (take n msg) (take (unat sl) sig) \<and> img c' = img c)"

definition mark_contract ::
  "('c ptr \<Rightarrow> u8 list) \<Rightarrow> ('c ptr \<Rightarrow> u32 \<Rightarrow> u16 \<Rightarrow> u16 \<Rightarrow> u16 \<Rightarrow> bool \<times> 'c ptr) \<Rightarrow> bool" where
  "mark_contract img f \<longleftrightarrow> (\<forall>c v a b p c'. f c v a b p = (True, c') \<longrightarrow> img c' = img c)"

definition platform_contract ::
  "('c ptr \<Rightarrow> u8 list) \<Rightarrow> (u8 \<Rightarrow> u32 \<Rightarrow> u8 list \<Rightarrow> u8 list \<Rightarrow> bool) \<Rightarrow> 'c guardian_firmware_config \<Rightarrow> bool" where
  "platform_contract img auth cfg \<longleftrightarrow>
     pred_option (erase_contract img) (fc_erase cfg) \<and> pred_option (write_contract img) (fc_write cfg)
     \<and> pred_option (hash_contract img) (fc_hash cfg)
     \<and> pred_option (verify_contract img auth) (fc_verify_signature cfg)
     \<and> pred_option (mark_contract img) (fc_mark_pending cfg)"

section \<open>The lifecycle invariant\<close>

definition callbacks_installed :: "'c guardian_firmware_config \<Rightarrow> bool" where
  "callbacks_installed cfg \<longleftrightarrow> fc_erase cfg \<noteq> None \<and> fc_write cfg \<noteq> None \<and> fc_hash cfg \<noteq> None
     \<and> fc_verify_signature cfg \<noteq> None \<and> fc_mark_pending cfg \<noteq> None \<and> fc_persist_floor cfg \<noteq> None
     \<and> fc_complete_pending cfg \<noteq> None"

abbreviation staged :: "('c ptr \<Rightarrow> u8 list) \<Rightarrow> 'c guardian_firmware_lifecycle \<Rightarrow> u8 list" where
  "staged img l \<equiv> img (fc_context (lc_config l))"

definition manifest_authentic ::
  "(u8 \<Rightarrow> u32 \<Rightarrow> u8 list \<Rightarrow> u8 list \<Rightarrow> bool) \<Rightarrow> guardian_firmware_manifest \<Rightarrow> bool" where
  "manifest_authentic auth m \<longleftrightarrow>
     auth (m_signature_algorithm m) (m_key_id m) (signed_bytes m)
       (take (unat (m_signature_length m)) (m_signature m))"

text \<open>The candidate's staged bytes are the image its signed manifest announces.\<close>

definition image_authentic ::
  "('c ptr \<Rightarrow> u8 list) \<Rightarrow> (u8 \<Rightarrow> u32 \<Rightarrow> u8 list \<Rightarrow> u8 list \<Rightarrow> bool)
     \<Rightarrow> 'c guardian_firmware_lifecycle \<Rightarrow> bool" where
  "image_authentic img auth l \<longleftrightarrow>
     length (staged img l) = unat (m_image_size (lc_manifest l))
     \<and> sha256_reference (staged img l) = m_image_sha256 (lc_manifest l)
     \<and> manifest_authentic auth (lc_manifest l)"

definition candidate_admissible :: "'c guardian_firmware_lifecycle \<Rightarrow> bool" where
  "candidate_admissible l \<longleftrightarrow> (let m = lc_manifest l in
     manifest_shape m \<and> guardian_firmware_signature_valid (m_signature_algorithm m) (m_signature_length m)
     \<and> m_signature_algorithm m = fc_required_signature_algorithm (lc_config l)
     \<and> m_image_size m \<noteq> 0 \<and> m_image_size m \<le> fc_max_image_size (lc_config l))"

definition fw_inv ::
  "('c ptr \<Rightarrow> u8 list) \<Rightarrow> (u8 \<Rightarrow> u32 \<Rightarrow> u8 list \<Rightarrow> u8 list \<Rightarrow> bool)
     \<Rightarrow> 'c guardian_firmware_lifecycle \<Rightarrow> bool" where
  "fw_inv img auth l \<longleftrightarrow>
     fc_rollback_floor (lc_config l) \<le> fc_active_version_counter (lc_config l)
     \<and> (lc_configured l \<noteq> 0 \<longrightarrow> callbacks_installed (lc_config l) \<and> platform_contract img auth (lc_config l))
     \<and> (lc_state l \<notin> {GUARDIAN_FIRMWARE_STATE_IDLE, GUARDIAN_FIRMWARE_STATE_FAILED} \<longrightarrow>
          lc_configured l \<noteq> 0 \<and> candidate_admissible l)
     \<and> (lc_state l = GUARDIAN_FIRMWARE_STATE_RECEIVING \<longrightarrow>
          lc_bytes_received l \<le> m_image_size (lc_manifest l)
          \<and> length (staged img l) = unat (lc_bytes_received l)
          \<and> fc_active_version_counter (lc_config l) < m_version_counter (lc_manifest l))
     \<and> (lc_state l \<in> {GUARDIAN_FIRMWARE_STATE_VERIFIED, GUARDIAN_FIRMWARE_STATE_PENDING_ACTIVATION} \<longrightarrow>
          image_authentic img auth l
          \<and> fc_active_version_counter (lc_config l) < m_version_counter (lc_manifest l))
     \<and> (lc_state l = GUARDIAN_FIRMWARE_STATE_CONFIRMED \<longrightarrow>
          manifest_authentic auth (lc_manifest l)
          \<and> fc_rollback_floor (lc_config l) = m_version_counter (lc_manifest l)
          \<and> fc_active_version_counter (lc_config l) = m_version_counter (lc_manifest l))"

section \<open>Operations as steps\<close>

datatype 'c fw_op =
    Fw_configure "'c guardian_firmware_config"
  | Fw_begin guardian_firmware_manifest
  | Fw_chunk guardian_firmware_chunk
  | Fw_finalize
  | Fw_activate
  | Fw_confirm u32
  | Fw_boot_failed u32

fun fw_call :: "'c guardian_firmware_lifecycle ptr \<Rightarrow> 'c fw_op
     \<Rightarrow> guardian_firmware_result \<times> 'c guardian_firmware_lifecycle ptr" where
  "fw_call l (Fw_configure cfg) = guardian_firmware_lifecycle_configure l (Some cfg)"
| "fw_call l (Fw_begin m) = guardian_firmware_begin l (Some m)"
| "fw_call l (Fw_chunk k) = guardian_firmware_write_chunk l (Some k)"
| "fw_call l Fw_finalize = guardian_firmware_finalize l"
| "fw_call l Fw_activate = guardian_firmware_activate l"
| "fw_call l (Fw_confirm v) = guardian_firmware_confirm_boot l v"
| "fw_call l (Fw_boot_failed v) = guardian_firmware_report_boot_failure l v"

definition fw_exec :: "'c guardian_firmware_lifecycle \<Rightarrow> 'c fw_op \<Rightarrow> 'c guardian_firmware_lifecycle" where
  "fw_exec l op = the (snd (fw_call (Some l) op))"

text \<open>Configurations keep the contract; manifests and chunks are values of their C types.\<close>

fun fw_op_ok :: "('c ptr \<Rightarrow> u8 list) \<Rightarrow> (u8 \<Rightarrow> u32 \<Rightarrow> u8 list \<Rightarrow> u8 list \<Rightarrow> bool) \<Rightarrow> 'c fw_op \<Rightarrow> bool" where
  "fw_op_ok img auth (Fw_configure cfg) = platform_contract img auth cfg"
| "fw_op_ok img auth (Fw_begin m) = manifest_shape m"
| "fw_op_ok img auth (Fw_chunk k) = (length (ck_data k) = 192)"
| "fw_op_ok img auth _ = True"

inductive fw_step :: "('c ptr \<Rightarrow> u8 list) \<Rightarrow> (u8 \<Rightarrow> u32 \<Rightarrow> u8 list \<Rightarrow> u8 list \<Rightarrow> bool)
     \<Rightarrow> 'c guardian_firmware_lifecycle \<Rightarrow> 'c guardian_firmware_lifecycle \<Rightarrow> bool" for img auth where
  fw_stepI: "fw_op_ok img auth op \<Longrightarrow> fw_step img auth l (fw_exec l op)"

inductive_cases fw_stepE: "fw_step img auth l l'"

fun fw_run :: "'c guardian_firmware_lifecycle \<Rightarrow> 'c fw_op list \<Rightarrow> 'c guardian_firmware_lifecycle" where
  "fw_run l [] = l"
| "fw_run l (op # ops) = fw_run (fw_exec l op) ops"

lemma set_context_simps [simp]:
  "lc_config (set_context c l) = (lc_config l)\<lparr>fc_context := c\<rparr>"
  "lc_configured (set_context c l) = lc_configured l" "lc_state (set_context c l) = lc_state l"
  "lc_failure (set_context c l) = lc_failure l" "lc_manifest (set_context c l) = lc_manifest l"
  "lc_bytes_received (set_context c l) = lc_bytes_received l"
  by (simp_all add: set_context_def)

lemma set_context_self [simp]: "set_context (fc_context (lc_config l)) l = l"
  by (simp add: set_context_def)

lemma set_context_set_context [simp]: "set_context c (set_context d l) = set_context c l"
  by (simp add: set_context_def)

lemma minimum_counter_context [simp]:
  "guardian_firmware_minimum_counter (set_context c l) = guardian_firmware_minimum_counter l"
  by (simp add: guardian_firmware_minimum_counter_def Let_def)

lemma platform_contract_update [simp]:
  "platform_contract img auth (cfg\<lparr>fc_context := c\<rparr>) = platform_contract img auth cfg"
  "platform_contract img auth (cfg\<lparr>fc_rollback_floor := v\<rparr>) = platform_contract img auth cfg"
  "platform_contract img auth (cfg\<lparr>fc_active_version_counter := w\<rparr>) = platform_contract img auth cfg"
  by (simp_all add: platform_contract_def)

lemma callbacks_installed_update [simp]:
  "callbacks_installed (cfg\<lparr>fc_context := c\<rparr>) = callbacks_installed cfg"
  "callbacks_installed (cfg\<lparr>fc_rollback_floor := v\<rparr>) = callbacks_installed cfg"
  "callbacks_installed (cfg\<lparr>fc_active_version_counter := w\<rparr>) = callbacks_installed cfg"
  by (simp_all add: callbacks_installed_def)

lemma minimum_counter_active:
  "fc_rollback_floor (lc_config l) \<le> fc_active_version_counter (lc_config l) \<Longrightarrow>
   guardian_firmware_minimum_counter l = fc_active_version_counter (lc_config l)"
  by (simp add: guardian_firmware_minimum_counter_def Let_def not_less [symmetric])

text \<open>The contract at the installed callbacks, in the form the operations use.\<close>

lemma platform_calls:
  assumes "platform_contract img auth cfg" "callbacks_installed cfg"
  shows "the (fc_erase cfg) c n = (True, c') \<Longrightarrow> img c' = []"
    and "the (fc_write cfg) c off (Some d) len = (True, c') \<Longrightarrow> unat off = length (img c) \<Longrightarrow>
      unat len \<le> length d \<Longrightarrow> img c' = img c @ take (unat len) d"
    and "the (fc_hash cfg) c n b = (True, digest, c') \<Longrightarrow> unat n = length (img c) \<Longrightarrow>
      digest = sha256_reference (img c) \<and> img c' = img c"
    and "the (fc_verify_signature cfg) c a k (Some msg) i (Some sig) sl = (True, c') \<Longrightarrow>
      auth a k (take i msg) (take (unat sl) sig) \<and> img c' = img c"
    and "the (fc_mark_pending cfg) c v x y z = (True, c') \<Longrightarrow> img c' = img c"
  using assms
  by (auto simp: platform_contract_def callbacks_installed_def erase_contract_def write_contract_def
      hash_contract_def verify_contract_def mark_contract_def)

section \<open>What each operation can do\<close>

text \<open>A rejected operation leaves the lifecycle as it was or marks the candidate failed; in both
  cases only the platform context behind it may have moved.\<close>

definition rejected :: "'c guardian_firmware_lifecycle \<Rightarrow> 'c guardian_firmware_lifecycle \<Rightarrow> bool" where
  "rejected l l' \<longleftrightarrow> l' = l \<or> (\<exists>c f. l' = (set_context c l)\<lparr>lc_failure := f, lc_state := GUARDIAN_FIRMWARE_STATE_FAILED\<rparr>)"

lemma rejected_fail:
  "rejected l (l\<lparr>lc_failure := f, lc_state := GUARDIAN_FIRMWARE_STATE_FAILED\<rparr>)"
  "rejected l ((set_context c l)\<lparr>lc_failure := f, lc_state := GUARDIAN_FIRMWARE_STATE_FAILED\<rparr>)"
proof -
  show "rejected l (l\<lparr>lc_failure := f, lc_state := GUARDIAN_FIRMWARE_STATE_FAILED\<rparr>)"
    unfolding rejected_def by (metis set_context_self)
qed (auto simp: rejected_def set_context_def)

lemma rejected_same [simp]: "rejected l l"
  by (simp add: rejected_def)

lemma rejected_inv: "fw_inv img auth l \<Longrightarrow> rejected l l' \<Longrightarrow> fw_inv img auth l'"
  unfolding rejected_def by (elim disjE exE) (simp, simp add: fw_inv_def)

lemma begin_cases:
  assumes "guardian_firmware_begin (Some l) (Some m) = (r, l')"
  shows "(r \<noteq> GUARDIAN_FIRMWARE_OK \<and> rejected l (the l'))
    \<or> (\<exists>c. r = GUARDIAN_FIRMWARE_OK \<and> lc_configured l \<noteq> 0
        \<and> guardian_firmware_signature_valid (m_signature_algorithm m) (m_signature_length m)
        \<and> m_signature_algorithm m = fc_required_signature_algorithm (lc_config l)
        \<and> m_image_size m \<noteq> 0 \<and> m_image_size m \<le> fc_max_image_size (lc_config l)
        \<and> guardian_firmware_minimum_counter l < m_version_counter m
        \<and> the (fc_erase (lc_config l)) (fc_context (lc_config l)) (m_image_size m) = (True, c)
        \<and> l' = Some ((set_context c l)\<lparr>lc_manifest := m, lc_bytes_received := 0,
             lc_failure := GUARDIAN_FIRMWARE_FAILURE_NONE, lc_state := GUARDIAN_FIRMWARE_STATE_RECEIVING\<rparr>))"
  using assms
  by (auto simp: guardian_firmware_begin_def guardian_firmware_fail_def rejected_fail Let_def not_le not_less
      split: if_splits prod.splits)

lemma chunk_cases:
  assumes "guardian_firmware_write_chunk (Some l) (Some k) = (r, l')"
  shows "(r \<noteq> GUARDIAN_FIRMWARE_OK \<and> rejected l (the l'))
    \<or> (\<exists>c. r = GUARDIAN_FIRMWARE_OK \<and> lc_state l = GUARDIAN_FIRMWARE_STATE_RECEIVING
        \<and> ck_length k \<noteq> 0 \<and> ck_length k \<le> 192 \<and> ck_offset k = lc_bytes_received l
        \<and> (ucast (ck_offset k) :: u64) + ucast (ck_length k) \<le> ucast (m_image_size (lc_manifest l))
        \<and> the (fc_write (lc_config l)) (fc_context (lc_config l)) (ck_offset k) (Some (ck_data k)) (ck_length k) = (True, c)
        \<and> l' = Some ((set_context c l)\<lparr>lc_bytes_received := lc_bytes_received l + ucast (ck_length k)\<rparr>))"
  using assms
  by (auto simp: guardian_firmware_write_chunk_def guardian_firmware_fail_def rejected_fail Let_def not_less
      split: if_splits prod.splits)

lemma finalize_cases:
  assumes "guardian_firmware_finalize (Some l) = (r, l')" and "candidate_admissible l \<or> lc_state l \<noteq> GUARDIAN_FIRMWARE_STATE_RECEIVING"
  shows "(r \<noteq> GUARDIAN_FIRMWARE_OK \<and> rejected l (the l'))
    \<or> (\<exists>digest c c'. r = GUARDIAN_FIRMWARE_OK \<and> lc_state l = GUARDIAN_FIRMWARE_STATE_RECEIVING
        \<and> lc_bytes_received l = m_image_size (lc_manifest l)
        \<and> the (fc_hash (lc_config l)) (fc_context (lc_config l)) (m_image_size (lc_manifest l)) (replicate 32 0)
            = (True, digest, c)
        \<and> guardian_crypto_constant_time_equal (Some digest) (Some (m_image_sha256 (lc_manifest l))) 32
        \<and> the (fc_verify_signature (lc_config l)) c (m_signature_algorithm (lc_manifest l))
            (m_key_id (lc_manifest l)) (Some (signed_bytes (lc_manifest l))) 64
            (Some (m_signature (lc_manifest l))) (m_signature_length (lc_manifest l)) = (True, c')
        \<and> guardian_firmware_minimum_counter l < m_version_counter (lc_manifest l)
        \<and> l' = Some ((set_context c' l)\<lparr>lc_state := GUARDIAN_FIRMWARE_STATE_VERIFIED,
             lc_failure := GUARDIAN_FIRMWARE_FAILURE_NONE\<rparr>))"
proof (cases "lc_state l = GUARDIAN_FIRMWARE_STATE_RECEIVING")
  case False
  then show ?thesis using assms(1) by (auto simp: guardian_firmware_finalize_def)
next
  case True
  then have "guardian_firmware_signed_manifest (Some (lc_manifest l)) (Some (replicate 64 0)) =
      (GUARDIAN_FIRMWARE_OK, Some (signed_bytes (lc_manifest l)))"
    using assms(2) by (intro signed_manifest_eq) (auto simp: candidate_admissible_def manifest_shape_def Let_def)
  then show ?thesis
    using assms(1) True
    by (auto simp: guardian_firmware_finalize_def guardian_firmware_fail_def rejected_fail Let_def not_le
        split: if_splits prod.splits)
qed

lemma activate_cases:
  assumes "guardian_firmware_activate (Some l) = (r, l')"
  shows "(r \<noteq> GUARDIAN_FIRMWARE_OK \<and> rejected l (the l'))
    \<or> (\<exists>c. r = GUARDIAN_FIRMWARE_OK \<and> lc_state l = GUARDIAN_FIRMWARE_STATE_VERIFIED
        \<and> the (fc_mark_pending (lc_config l)) (fc_context (lc_config l)) (m_version_counter (lc_manifest l))
            (m_firmware_major (lc_manifest l)) (m_firmware_minor (lc_manifest l))
            (m_firmware_patch (lc_manifest l)) = (True, c)
        \<and> l' = Some ((set_context c l)\<lparr>lc_state := GUARDIAN_FIRMWARE_STATE_PENDING_ACTIVATION,
             lc_failure := GUARDIAN_FIRMWARE_FAILURE_NONE\<rparr>))"
  using assms
  by (auto simp: guardian_firmware_activate_def guardian_firmware_fail_def rejected_fail Let_def
      split: if_splits prod.splits)

text \<open>A confirmed boot moves both counters to the candidate's version, even when clearing the
  pending metadata then fails.\<close>

definition raise_counters :: "u32 \<Rightarrow> 'c guardian_firmware_lifecycle \<Rightarrow> 'c guardian_firmware_lifecycle" where
  "raise_counters v l = l\<lparr>lc_config := (lc_config l)\<lparr>fc_rollback_floor := v, fc_active_version_counter := v\<rparr>\<rparr>"

lemma confirm_cases:
  assumes "guardian_firmware_confirm_boot (Some l) v = (r, l')"
  shows "(r \<noteq> GUARDIAN_FIRMWARE_OK \<and> rejected l (the l'))
    \<or> (lc_state l = GUARDIAN_FIRMWARE_STATE_PENDING_ACTIVATION \<and> v = m_version_counter (lc_manifest l)
       \<and> (\<exists>c c1 ok. the (fc_persist_floor (lc_config l)) (fc_context (lc_config l)) v = (True, c1)
          \<and> the (fc_complete_pending (lc_config l)) c1 v 1 = (ok, c)
          \<and> r = (if ok then GUARDIAN_FIRMWARE_OK else GUARDIAN_FIRMWARE_ERROR_CONFIRMATION)
          \<and> l' = Some ((raise_counters v (set_context c l))\<lparr>
             lc_state := if ok then GUARDIAN_FIRMWARE_STATE_CONFIRMED else GUARDIAN_FIRMWARE_STATE_FAILED,
             lc_failure := if ok then GUARDIAN_FIRMWARE_FAILURE_NONE else GUARDIAN_FIRMWARE_FAILURE_CONFIRMATION\<rparr>)))"
proof -
  obtain ok1 c1 where p: "the (fc_persist_floor (lc_config l)) (fc_context (lc_config l)) v = (ok1, c1)"
    by fastforce
  obtain ok2 c2 where q: "the (fc_complete_pending (lc_config l)) c1 v 1 = (ok2, c2)" by fastforce
  have ctx: "set_context c2 ((set_context c1 l)\<lparr>lc_config := (lc_config (set_context c1 l))\<lparr>fc_rollback_floor := v,
      fc_active_version_counter := v\<rparr>\<rparr>) = raise_counters v (set_context c2 l)"
    by (simp add: raise_counters_def set_context_def)
  show ?thesis
    using assms p q ctx
    by (cases "lc_state l = GUARDIAN_FIRMWARE_STATE_PENDING_ACTIVATION"; cases "v = m_version_counter (lc_manifest l)";
        cases ok1; cases ok2)
      (auto simp: guardian_firmware_confirm_boot_def guardian_firmware_fail_def rejected_fail Let_def ex_bool_eq)
qed

lemma boot_failed_cases:
  assumes "guardian_firmware_report_boot_failure (Some l) v = (r, l')"
  shows "(r \<noteq> GUARDIAN_FIRMWARE_OK \<and> rejected l (the l'))
    \<or> (\<exists>c. r = GUARDIAN_FIRMWARE_OK \<and> lc_state l = GUARDIAN_FIRMWARE_STATE_PENDING_ACTIVATION
        \<and> v = m_version_counter (lc_manifest l)
        \<and> l' = Some ((set_context c l)\<lparr>lc_state := GUARDIAN_FIRMWARE_STATE_ROLLED_BACK,
             lc_failure := GUARDIAN_FIRMWARE_FAILURE_NONE\<rparr>))"
  using assms
  by (auto simp: guardian_firmware_report_boot_failure_def guardian_firmware_fail_def rejected_fail Let_def
      split: if_splits prod.splits)

section \<open>The invariant is kept\<close>

lemma wide_sum_le:
  "(ucast (a :: u32) :: u64) + ucast (b :: u16) \<le> ucast (c :: u32) \<longleftrightarrow> unat a + unat b \<le> unat c"
proof -
  have "unat a < 2 ^ 32" "unat b < 2 ^ 16" "unat c < 2 ^ 32"
    using unsigned_less [of a] unsigned_less [of b] unsigned_less [of c] by simp_all
  then show ?thesis
    by (simp add: word_le_nat_alt unat_word_ariths unsigned_ucast_eq take_bit_nat_eq_self)
qed

lemma unat_received:
  "unat a + unat b \<le> unat c \<Longrightarrow> unat ((a :: u32) + ucast (b :: u16)) = unat a + unat b" for c :: u32
proof -
  assume "unat a + unat b \<le> unat c"
  moreover have "unat b < 2 ^ 16" "unat c < 2 ^ 32"
    using unsigned_less [of b] unsigned_less [of c] by simp_all
  ultimately show ?thesis
    by (simp add: unat_word_ariths unsigned_ucast_eq take_bit_nat_eq_self)
qed

lemma configure_inv:
  assumes "fw_inv img auth l" "platform_contract img auth cfg"
    and "guardian_firmware_lifecycle_configure (Some l) (Some cfg) = (r, l')"
  shows "fw_inv img auth (the l')"
proof (cases "r = GUARDIAN_FIRMWARE_OK")
  case False
  with assms(1,3) show ?thesis
    by (auto simp: guardian_firmware_lifecycle_configure_def split: if_splits)
next
  case True
  with assms(3) have "l' = Some (initial_lifecycle\<lparr>lc_config := cfg, lc_configured := 1\<rparr>)"
    "callbacks_installed cfg" "fc_rollback_floor cfg \<le> fc_active_version_counter cfg"
    by (auto simp: guardian_firmware_lifecycle_configure_def guardian_firmware_lifecycle_init_def
        callbacks_installed_def not_less split: if_splits)
  with assms(2) show ?thesis by (simp add: fw_inv_def initial_lifecycle_def)
qed

lemma begin_inv:
  assumes "fw_inv img auth l" "manifest_shape m" "guardian_firmware_begin (Some l) (Some m) = (r, l')"
  shows "fw_inv img auth (the l')"
proof -
  have floor: "fc_rollback_floor (lc_config l) \<le> fc_active_version_counter (lc_config l)"
    using assms(1) by (simp add: fw_inv_def)
  have calls: "lc_configured l \<noteq> 0 \<Longrightarrow> platform_contract img auth (lc_config l) \<and> callbacks_installed (lc_config l)"
    using assms(1) by (simp add: fw_inv_def)
  from begin_cases [OF assms(3)] show ?thesis
  proof
    assume "r \<noteq> GUARDIAN_FIRMWARE_OK \<and> rejected l (the l')"
    with assms(1) show ?thesis by (blast intro: rejected_inv)
  qed (use calls floor assms(2) in \<open>auto simp: fw_inv_def candidate_admissible_def minimum_counter_active
        dest: platform_calls(1)\<close>)
qed

lemma receiving_inv:
  assumes "fw_inv img auth l" "lc_state l = GUARDIAN_FIRMWARE_STATE_RECEIVING"
  shows "platform_contract img auth (lc_config l)" "callbacks_installed (lc_config l)"
    "candidate_admissible l" "length (staged img l) = unat (lc_bytes_received l)"
    "fc_active_version_counter (lc_config l) < m_version_counter (lc_manifest l)"
    "fc_rollback_floor (lc_config l) \<le> fc_active_version_counter (lc_config l)" "lc_configured l \<noteq> 0"
  using assms by (simp_all add: fw_inv_def)

lemma chunk_inv:
  assumes "fw_inv img auth l" "length (ck_data k) = 192"
    and "guardian_firmware_write_chunk (Some l) (Some k) = (r, l')"
  shows "fw_inv img auth (the l')"
  using chunk_cases [OF assms(3)]
proof (elim disjE exE conjE)
  assume "rejected l (the l')"
  with assms(1) show ?thesis by (rule rejected_inv)
next
  fix c
  assume st: "lc_state l = GUARDIAN_FIRMWARE_STATE_RECEIVING" and len: "ck_length k \<le> 192"
    and off: "ck_offset k = lc_bytes_received l"
    and sum: "(ucast (ck_offset k) :: u64) + ucast (ck_length k) \<le> ucast (m_image_size (lc_manifest l))"
    and w: "the (fc_write (lc_config l)) (fc_context (lc_config l)) (ck_offset k) (Some (ck_data k)) (ck_length k) = (True, c)"
    and l': "l' = Some ((set_context c l)\<lparr>lc_bytes_received := lc_bytes_received l + ucast (ck_length k)\<rparr>)"
  note inv = receiving_inv [OF assms(1) st]
  have le: "unat (ck_length k) \<le> length (ck_data k)" using len assms(2) by (simp add: word_le_nat_alt)
  have img: "img c = staged img l @ take (unat (ck_length k)) (ck_data k)"
    by (rule platform_calls(2) [OF inv(1,2) w _ le]) (simp add: off inv(4))
  have s: "unat (lc_bytes_received l) + unat (ck_length k) \<le> unat (m_image_size (lc_manifest l))"
    using sum by (simp add: wide_sum_le off)
  show ?thesis
    using inv img s le st l'
    by (simp add: fw_inv_def unat_received [OF s] word_le_nat_alt candidate_admissible_def)
qed

lemma finalize_inv:
  assumes "fw_inv img auth l" and "guardian_firmware_finalize (Some l) = (r, l')"
  shows "fw_inv img auth (the l')"
proof -
  have "candidate_admissible l \<or> lc_state l \<noteq> GUARDIAN_FIRMWARE_STATE_RECEIVING"
    using receiving_inv(3) [OF assms(1)] by blast
  from finalize_cases [OF assms(2) this] show ?thesis
  proof (elim disjE exE conjE)
    assume "rejected l (the l')"
    with assms(1) show ?thesis by (rule rejected_inv)
  next
    fix digest c c'
    let ?m = "lc_manifest l"
    assume st: "lc_state l = GUARDIAN_FIRMWARE_STATE_RECEIVING" and full: "lc_bytes_received l = m_image_size ?m"
      and h: "the (fc_hash (lc_config l)) (fc_context (lc_config l)) (m_image_size ?m) (replicate 32 0) = (True, digest, c)"
      and eq: "guardian_crypto_constant_time_equal (Some digest) (Some (m_image_sha256 ?m)) 32"
      and v: "the (fc_verify_signature (lc_config l)) c (m_signature_algorithm ?m) (m_key_id ?m)
          (Some (signed_bytes ?m)) 64 (Some (m_signature ?m)) (m_signature_length ?m) = (True, c')"
      and l': "l' = Some ((set_context c' l)\<lparr>lc_state := GUARDIAN_FIRMWARE_STATE_VERIFIED,
          lc_failure := GUARDIAN_FIRMWARE_FAILURE_NONE\<rparr>)"
    note inv = receiving_inv [OF assms(1) st]
    have d: "digest = sha256_reference (staged img l)" "img c = staged img l"
      using platform_calls(3) [OF inv(1,2) h] inv(4) full by auto
    have a: "auth (m_signature_algorithm ?m) (m_key_id ?m) (take 64 (signed_bytes ?m))
        (take (unat (m_signature_length ?m)) (m_signature ?m)) \<and> img c' = img c"
      by (rule platform_calls(4) [OF inv(1,2) v])
    have shape: "length (m_image_sha256 ?m) = 32"
      using inv(3) by (simp add: candidate_admissible_def manifest_shape_def Let_def)
    then have sha: "sha256_reference (staged img l) = m_image_sha256 ?m"
      using eq d(1) by (simp add: constant_time_equal_full)
    have "image_authentic img auth (the l')"
      using l' a d(2) sha inv(4) full shape
      by (simp add: image_authentic_def manifest_authentic_def signed_bytes_length)
    then show ?thesis using inv l' by (simp add: fw_inv_def candidate_admissible_def)
  qed
qed

lemma verified_inv:
  assumes "fw_inv img auth l"
    "lc_state l \<in> {GUARDIAN_FIRMWARE_STATE_VERIFIED, GUARDIAN_FIRMWARE_STATE_PENDING_ACTIVATION}"
  shows "platform_contract img auth (lc_config l)" "callbacks_installed (lc_config l)"
    "candidate_admissible l" "image_authentic img auth l"
    "fc_active_version_counter (lc_config l) < m_version_counter (lc_manifest l)"
    "fc_rollback_floor (lc_config l) \<le> fc_active_version_counter (lc_config l)" "lc_configured l \<noteq> 0"
  using assms by (auto simp: fw_inv_def)

lemma activate_inv:
  assumes "fw_inv img auth l" and "guardian_firmware_activate (Some l) = (r, l')"
  shows "fw_inv img auth (the l')"
  using activate_cases [OF assms(2)]
proof (elim disjE exE conjE)
  assume "rejected l (the l')"
  with assms(1) show ?thesis by (rule rejected_inv)
next
  fix c
  let ?m = "lc_manifest l"
  assume st: "lc_state l = GUARDIAN_FIRMWARE_STATE_VERIFIED"
    and call: "the (fc_mark_pending (lc_config l)) (fc_context (lc_config l)) (m_version_counter ?m)
        (m_firmware_major ?m) (m_firmware_minor ?m) (m_firmware_patch ?m) = (True, c)"
    and l': "l' = Some ((set_context c l)\<lparr>lc_state := GUARDIAN_FIRMWARE_STATE_PENDING_ACTIVATION,
        lc_failure := GUARDIAN_FIRMWARE_FAILURE_NONE\<rparr>)"
  have inv: "lc_state l \<in> {GUARDIAN_FIRMWARE_STATE_VERIFIED, GUARDIAN_FIRMWARE_STATE_PENDING_ACTIVATION}"
    using st by simp
  note inv = verified_inv [OF assms(1) inv]
  have "img c = staged img l" by (rule platform_calls(5) [OF inv(1,2) call])
  then show ?thesis using inv l' by (simp add: fw_inv_def candidate_admissible_def image_authentic_def)
qed

lemma confirm_inv:
  assumes "fw_inv img auth l" and "guardian_firmware_confirm_boot (Some l) v = (r, l')"
  shows "fw_inv img auth (the l')"
  using confirm_cases [OF assms(2)]
proof (elim disjE exE conjE)
  assume "rejected l (the l')"
  with assms(1) show ?thesis by (rule rejected_inv)
next
  fix c c1 ok
  assume st: "lc_state l = GUARDIAN_FIRMWARE_STATE_PENDING_ACTIVATION" and v: "v = m_version_counter (lc_manifest l)"
    and l': "l' = Some ((raise_counters v (set_context c l))\<lparr>
        lc_state := if ok then GUARDIAN_FIRMWARE_STATE_CONFIRMED else GUARDIAN_FIRMWARE_STATE_FAILED,
        lc_failure := if ok then GUARDIAN_FIRMWARE_FAILURE_NONE else GUARDIAN_FIRMWARE_FAILURE_CONFIRMATION\<rparr>)"
  have s: "lc_state l \<in> {GUARDIAN_FIRMWARE_STATE_VERIFIED, GUARDIAN_FIRMWARE_STATE_PENDING_ACTIVATION}"
    using st by simp
  show ?thesis
    using verified_inv [OF assms(1) s] l' v
    by (simp add: fw_inv_def candidate_admissible_def image_authentic_def raise_counters_def)
qed

lemma boot_failed_inv:
  assumes "fw_inv img auth l" and "guardian_firmware_report_boot_failure (Some l) v = (r, l')"
  shows "fw_inv img auth (the l')"
  using boot_failed_cases [OF assms(2)]
proof (elim disjE exE conjE)
  assume "rejected l (the l')"
  with assms(1) show ?thesis by (rule rejected_inv)
next
  fix c
  assume st: "lc_state l = GUARDIAN_FIRMWARE_STATE_PENDING_ACTIVATION"
    and l': "l' = Some ((set_context c l)\<lparr>lc_state := GUARDIAN_FIRMWARE_STATE_ROLLED_BACK,
        lc_failure := GUARDIAN_FIRMWARE_FAILURE_NONE\<rparr>)"
  have s: "lc_state l \<in> {GUARDIAN_FIRMWARE_STATE_VERIFIED, GUARDIAN_FIRMWARE_STATE_PENDING_ACTIVATION}"
    using st by simp
  show ?thesis using verified_inv [OF assms(1) s] l' by (simp add: fw_inv_def candidate_admissible_def)
qed

lemma fw_exec_inv: "fw_inv img auth l \<Longrightarrow> fw_op_ok img auth op \<Longrightarrow> fw_inv img auth (fw_exec l op)"
  by (cases "fw_call (Some l) op"; cases op)
    (auto simp: fw_exec_def intro: configure_inv begin_inv chunk_inv finalize_inv activate_inv
      confirm_inv boot_failed_inv)

lemma fw_initial_inv: "fw_inv img auth initial_lifecycle"
  by (simp add: fw_inv_def initial_lifecycle_def zero_firmware_config_def)

interpretation lifecycle: transition_system "\<lambda>l. l = initial_lifecycle" "fw_step img auth" "fw_inv img auth"
  for img :: "'c ptr \<Rightarrow> u8 list" and auth
  by unfold_locales (auto simp: fw_initial_inv elim!: fw_stepE intro: fw_exec_inv)

section \<open>Version counters along a session\<close>

text \<open>A session is a run in which the platform is not configured anew.\<close>

inductive fw_session_step :: "('c ptr \<Rightarrow> u8 list) \<Rightarrow> (u8 \<Rightarrow> u32 \<Rightarrow> u8 list \<Rightarrow> u8 list \<Rightarrow> bool)
     \<Rightarrow> 'c guardian_firmware_lifecycle \<Rightarrow> 'c guardian_firmware_lifecycle \<Rightarrow> bool" for img auth where
  fw_session_stepI: "fw_op_ok img auth op \<Longrightarrow> (\<forall>cfg. op \<noteq> Fw_configure cfg) \<Longrightarrow> fw_session_step img auth l (fw_exec l op)"

inductive_cases fw_session_stepE: "fw_session_step img auth l l'"

definition counters :: "'c guardian_firmware_lifecycle \<Rightarrow> u32 \<times> u32" where
  "counters l = (fc_rollback_floor (lc_config l), fc_active_version_counter (lc_config l))"

text \<open>The counters are those of \<open>l\<close>, or both the version of a newer trusted manifest.\<close>

definition vouched ::
  "(u8 \<Rightarrow> u32 \<Rightarrow> u8 list \<Rightarrow> u8 list \<Rightarrow> bool) \<Rightarrow> 'c guardian_firmware_lifecycle
     \<Rightarrow> 'c guardian_firmware_lifecycle \<Rightarrow> bool" where
  "vouched auth l l' \<longleftrightarrow> counters l' = counters l
     \<or> (\<exists>m. manifest_authentic auth m \<and> snd (counters l) < m_version_counter m
          \<and> counters l' = (m_version_counter m, m_version_counter m))"

lemma vouched_trans: "vouched auth k l \<Longrightarrow> vouched auth l n \<Longrightarrow> vouched auth k n"
  by (auto simp: vouched_def)

lemma rejected_counters: "rejected l l' \<Longrightarrow> counters l' = counters l"
  by (auto simp: rejected_def counters_def)

lemma begin_counters: "guardian_firmware_begin (Some l) (Some m) = (r, l') \<Longrightarrow> counters (the l') = counters l"
  using begin_cases [of l m r l'] rejected_counters [of l "the l'"] by (auto simp: counters_def)

lemma chunk_counters: "guardian_firmware_write_chunk (Some l) (Some k) = (r, l') \<Longrightarrow> counters (the l') = counters l"
  using chunk_cases [of l k r l'] rejected_counters [of l "the l'"] by (auto simp: counters_def)

lemma finalize_counters:
  assumes "fw_inv img auth l" "guardian_firmware_finalize (Some l) = (r, l')"
  shows "counters (the l') = counters l"
proof -
  have "candidate_admissible l \<or> lc_state l \<noteq> GUARDIAN_FIRMWARE_STATE_RECEIVING"
    using receiving_inv(3) [OF assms(1)] by blast
  from finalize_cases [OF assms(2) this] show ?thesis
    by (auto simp: rejected_counters) (simp add: counters_def)
qed

lemma activate_counters: "guardian_firmware_activate (Some l) = (r, l') \<Longrightarrow> counters (the l') = counters l"
  using activate_cases [of l r l'] rejected_counters [of l "the l'"] by (auto simp: counters_def)

lemma boot_failed_counters:
  "guardian_firmware_report_boot_failure (Some l) v = (r, l') \<Longrightarrow> counters (the l') = counters l"
  using boot_failed_cases [of l v r l'] rejected_counters [of l "the l'"] by (auto simp: counters_def)

lemma confirm_vouched:
  assumes "fw_inv img auth l" "guardian_firmware_confirm_boot (Some l) v = (r, l')"
  shows "vouched auth l (the l')"
  using confirm_cases [OF assms(2)]
proof (elim disjE exE conjE)
  assume "rejected l (the l')"
  then show ?thesis by (simp add: vouched_def rejected_counters)
next
  fix c c1 ok
  assume st: "lc_state l = GUARDIAN_FIRMWARE_STATE_PENDING_ACTIVATION" and v: "v = m_version_counter (lc_manifest l)"
    and l': "l' = Some ((raise_counters v (set_context c l))\<lparr>
        lc_state := if ok then GUARDIAN_FIRMWARE_STATE_CONFIRMED else GUARDIAN_FIRMWARE_STATE_FAILED,
        lc_failure := if ok then GUARDIAN_FIRMWARE_FAILURE_NONE else GUARDIAN_FIRMWARE_FAILURE_CONFIRMATION\<rparr>)"
  have s: "lc_state l \<in> {GUARDIAN_FIRMWARE_STATE_VERIFIED, GUARDIAN_FIRMWARE_STATE_PENDING_ACTIVATION}"
    using st by simp
  show ?thesis
    using verified_inv(4,5) [OF assms(1) s] l' v
    by (auto simp: vouched_def counters_def raise_counters_def image_authentic_def)
qed

lemma session_step_vouched:
  assumes "fw_inv img auth l" "fw_session_step img auth l l'"
  shows "vouched auth l l'"
  using assms(2)
proof (rule fw_session_stepE)
  fix op
  assume l': "l' = fw_exec l op" and "\<forall>cfg. op \<noteq> Fw_configure cfg"
  obtain r k where call: "fw_call (Some l) op = (r, k)" by fastforce
  with l' have l': "l' = the k" by (simp add: fw_exec_def)
  have "counters l' = counters l \<or> (\<exists>v. op = Fw_confirm v)"
    using call \<open>\<forall>cfg. op \<noteq> Fw_configure cfg\<close> l' assms(1)
    by (cases op) (auto simp: begin_counters chunk_counters finalize_counters activate_counters boot_failed_counters)
  moreover have "vouched auth l l'" if "op = Fw_confirm v" for v
    using confirm_vouched [OF assms(1)] call l' that by simp
  ultimately show ?thesis by (auto simp: vouched_def)
qed

lemma session_step_inv: "fw_inv img auth l \<Longrightarrow> fw_session_step img auth l l' \<Longrightarrow> fw_inv img auth l'"
  by (auto elim!: fw_session_stepE intro: fw_exec_inv)

interpretation session: transition_system "\<lambda>l. l = k \<and> fw_inv img auth k" "fw_session_step img auth"
  "\<lambda>l. fw_inv img auth l \<and> vouched auth k l"
  for img :: "'c ptr \<Rightarrow> u8 list" and auth and k :: "'c guardian_firmware_lifecycle"
  by unfold_locales
    (auto intro: session_step_inv vouched_trans session_step_vouched, simp add: vouched_def)

lemma active_step:
  assumes "fw_inv img auth l" "fw_session_step img auth l l'"
  shows "fc_active_version_counter (lc_config l) \<le> fc_active_version_counter (lc_config l')"
  using session_step_vouched [OF assms] by (auto simp: vouched_def counters_def)

interpretation active: monotone_system "\<lambda>l. l = k \<and> fw_inv img auth k" "fw_session_step img auth"
  "\<lambda>l. fw_inv img auth l \<and> vouched auth k l" "\<lambda>l. fc_active_version_counter (lc_config l)"
  for img :: "'c ptr \<Rightarrow> u8 list" and auth and k :: "'c guardian_firmware_lifecycle"
  by unfold_locales (auto intro: active_step)

section \<open>An honest update\<close>

text \<open>A platform on which every callback succeeds, and whose verifier accepts what it trusts.\<close>

definition platform_available ::
  "(u8 \<Rightarrow> u32 \<Rightarrow> u8 list \<Rightarrow> u8 list \<Rightarrow> bool) \<Rightarrow> 'c guardian_firmware_config \<Rightarrow> bool" where
  "platform_available auth cfg \<longleftrightarrow>
     (\<forall>c n. fst (the (fc_erase cfg) c n)) \<and> (\<forall>c off d len. fst (the (fc_write cfg) c off d len))
     \<and> (\<forall>c n d. fst (the (fc_hash cfg) c n d))
     \<and> (\<forall>c a k msg sig sl. guardian_firmware_signature_valid a sl \<longrightarrow>
          auth a k (take 64 msg) (take (unat sl) sig) \<longrightarrow>
          fst (the (fc_verify_signature cfg) c a k (Some msg) GUARDIAN_FIRMWARE_SIGNED_MANIFEST_SIZE (Some sig) sl))
     \<and> (\<forall>c v x y z. fst (the (fc_mark_pending cfg) c v x y z))
     \<and> (\<forall>c v. fst (the (fc_persist_floor cfg) c v)) \<and> (\<forall>c v f. fst (the (fc_complete_pending cfg) c v f))"

text \<open>The chunks that carry the consecutive pieces of an image from an offset on.\<close>

fun chunks_of :: "u32 \<Rightarrow> u8 list list \<Rightarrow> guardian_firmware_chunk list" where
  "chunks_of off [] = []"
| "chunks_of off (d # ds) =
     \<lparr>ck_offset = off, ck_length = of_nat (length d), ck_data = d @ replicate (192 - length d) 0\<rparr>
     # chunks_of (off + of_nat (length d)) ds"

definition pieces_ok :: "u8 list list \<Rightarrow> bool" where
  "pieces_ok ds \<longleftrightarrow> list_all (\<lambda>d. d \<noteq> [] \<and> length d \<le> 192) ds"

lemma fst_True: "fst p \<Longrightarrow> \<exists>c. p = (True, c)"
  by (cases p) auto

lemma fst_True3: "fst p \<Longrightarrow> \<exists>d c. p = (True, d, c)"
  by (cases p) auto

lemma small_length:
  assumes "n \<le> 192"
  shows "unat (of_nat n :: u16) = n" "(ucast (of_nat n :: u16) :: u32) = of_nat n" "unat (of_nat n :: u32) = n"
    "(of_nat n :: u16) \<le> 192"
proof -
  show u: "unat (of_nat n :: u16) = n" "unat (of_nat n :: u32) = n"
    using assms by (simp_all add: unsigned_of_nat take_bit_nat_eq_self)
  show "(ucast (of_nat n :: u16) :: u32) = of_nat n"
    by (rule word_unat_eq_iff [THEN iffD2]) (use assms in \<open>simp add: unsigned_ucast_eq unsigned_of_nat take_bit_nat_eq_self\<close>)
  show "(of_nat n :: u16) \<le> 192" using u assms by (simp add: word_le_nat_alt)
qed

lemma chunk_step:
  assumes inv: "fw_inv img auth l" and st: "lc_state l = GUARDIAN_FIRMWARE_STATE_RECEIVING"
    and av: "platform_available auth (lc_config l)" and d: "d \<noteq> []" "length d \<le> 192"
    and fit: "unat (lc_bytes_received l) + length d \<le> unat (m_image_size (lc_manifest l))"
  shows "\<exists>c. fw_exec l (Fw_chunk \<lparr>ck_offset = lc_bytes_received l, ck_length = of_nat (length d),
        ck_data = d @ replicate (192 - length d) 0\<rparr>)
      = (set_context c l)\<lparr>lc_bytes_received := lc_bytes_received l + of_nat (length d)\<rparr>
    \<and> img c = staged img l @ d"
proof -
  let ?data = "d @ replicate (192 - length d) 0" and ?n = "of_nat (length d) :: u16"
  note r = receiving_inv [OF inv st] and s = small_length [OF d(2)]
  have nz: "?n \<noteq> 0" using s(1) d(1) by auto
  have sum: "(ucast (lc_bytes_received l) :: u64) + ucast ?n \<le> ucast (m_image_size (lc_manifest l))"
    using fit s(1) by (simp add: wide_sum_le)
  have "fst (the (fc_write (lc_config l)) (fc_context (lc_config l)) (lc_bytes_received l) (Some ?data) ?n)"
    using av by (simp add: platform_available_def)
  then obtain c where
    w: "the (fc_write (lc_config l)) (fc_context (lc_config l)) (lc_bytes_received l) (Some ?data) ?n = (True, c)"
    by (blast dest: fst_True)
  have "img c = staged img l @ take (unat ?n) ?data"
    using d(2) by (intro platform_calls(2) [OF r(1,2) w]) (simp_all add: r(4) s(1))
  then have img: "img c = staged img l @ d" by (simp add: s(1))
  have "fw_exec l (Fw_chunk \<lparr>ck_offset = lc_bytes_received l, ck_length = ?n, ck_data = ?data\<rparr>)
      = (set_context c l)\<lparr>lc_bytes_received := lc_bytes_received l + of_nat (length d)\<rparr>"
    using st nz s(2,4) sum w by (simp add: fw_exec_def guardian_firmware_write_chunk_def Let_def not_le [symmetric])
  with img show ?thesis by blast
qed

lemma fw_run_append: "fw_run l (xs @ ys) = fw_run (fw_run l xs) ys"
  by (induction xs arbitrary: l) simp_all

lemma platform_available_update [simp]:
  "platform_available auth (cfg\<lparr>fc_context := c\<rparr>) = platform_available auth cfg"
  "platform_available auth (cfg\<lparr>fc_rollback_floor := v\<rparr>) = platform_available auth cfg"
  "platform_available auth (cfg\<lparr>fc_active_version_counter := w\<rparr>) = platform_available auth cfg"
  by (simp_all add: platform_available_def)

lemma run_chunks:
  assumes "fw_inv img auth l" "lc_state l = GUARDIAN_FIRMWARE_STATE_RECEIVING" "platform_available auth (lc_config l)"
    and "pieces_ok ds" "unat (lc_bytes_received l) + length (concat ds) \<le> unat (m_image_size (lc_manifest l))"
  shows "\<exists>c. fw_run l (map Fw_chunk (chunks_of (lc_bytes_received l) ds))
        = (set_context c l)\<lparr>lc_bytes_received := lc_bytes_received l + of_nat (length (concat ds))\<rparr>
      \<and> img c = staged img l @ concat ds
      \<and> fw_inv img auth (fw_run l (map Fw_chunk (chunks_of (lc_bytes_received l) ds)))"
  using assms
proof (induction ds arbitrary: l)
  case Nil
  then show ?case by (intro exI [of _ "fc_context (lc_config l)"]) simp
next
  case (Cons d ds)
  have d: "d \<noteq> []" "length d \<le> 192" and ds: "pieces_ok ds" using Cons.prems(4) by (auto simp: pieces_ok_def)
  have fit: "unat (lc_bytes_received l) + length d \<le> unat (m_image_size (lc_manifest l))"
    using Cons.prems(5) by simp
  let ?k = "\<lparr>ck_offset = lc_bytes_received l, ck_length = of_nat (length d), ck_data = d @ replicate (192 - length d) 0\<rparr>"
  obtain c where e: "fw_exec l (Fw_chunk ?k) = (set_context c l)\<lparr>lc_bytes_received := lc_bytes_received l + of_nat (length d)\<rparr>"
    and img: "img c = staged img l @ d"
    using chunk_step [OF Cons.prems(1-3) d fit] by blast
  let ?l = "fw_exec l (Fw_chunk ?k)"
  have inv: "fw_inv img auth ?l" using d(2) by (intro fw_exec_inv [OF Cons.prems(1)]) simp
  have n: "unat (lc_bytes_received l + of_nat (length d)) = unat (lc_bytes_received l) + length d"
    using unat_received [of "lc_bytes_received l" "of_nat (length d)"] fit small_length [OF d(2)] by simp
  have "\<exists>c. fw_run ?l (map Fw_chunk (chunks_of (lc_bytes_received ?l) ds))
        = (set_context c ?l)\<lparr>lc_bytes_received := lc_bytes_received ?l + of_nat (length (concat ds))\<rparr>
      \<and> img c = staged img ?l @ concat ds
      \<and> fw_inv img auth (fw_run ?l (map Fw_chunk (chunks_of (lc_bytes_received ?l) ds)))"
    using Cons.prems(2,3,5) by (intro Cons.IH [OF inv _ _ ds]) (simp_all add: e n)
  then obtain c' where c': "fw_run ?l (map Fw_chunk (chunks_of (lc_bytes_received ?l) ds))
        = (set_context c' ?l)\<lparr>lc_bytes_received := lc_bytes_received ?l + of_nat (length (concat ds))\<rparr>"
      "img c' = staged img ?l @ concat ds"
      "fw_inv img auth (fw_run ?l (map Fw_chunk (chunks_of (lc_bytes_received ?l) ds)))" by blast
  have "fw_run l (map Fw_chunk (chunks_of (lc_bytes_received l) (d # ds)))
      = fw_run ?l (map Fw_chunk (chunks_of (lc_bytes_received ?l) ds))" by (simp add: e)
  moreover have "(set_context c' ?l)\<lparr>lc_bytes_received := lc_bytes_received ?l + of_nat (length (concat ds))\<rparr>
      = (set_context c' l)\<lparr>lc_bytes_received := lc_bytes_received l + of_nat (length (concat (d # ds)))\<rparr>"
    by (simp add: e add.assoc)
  moreover have "img c' = staged img l @ concat (d # ds)" by (simp add: c'(2) e img)
  ultimately show ?case using c'(1,3) by metis
qed

text \<open>What a manifest must satisfy for the device to take the image it announces.\<close>

definition honest_manifest ::
  "(u8 \<Rightarrow> u32 \<Rightarrow> u8 list \<Rightarrow> u8 list \<Rightarrow> bool) \<Rightarrow> 'c guardian_firmware_config
     \<Rightarrow> guardian_firmware_manifest \<Rightarrow> u8 list \<Rightarrow> bool" where
  "honest_manifest auth cfg m bin \<longleftrightarrow> manifest_shape m
     \<and> guardian_firmware_signature_valid (m_signature_algorithm m) (m_signature_length m)
     \<and> m_signature_algorithm m = fc_required_signature_algorithm cfg
     \<and> bin \<noteq> [] \<and> unat (m_image_size m) = length bin \<and> m_image_size m \<le> fc_max_image_size cfg
     \<and> m_image_sha256 m = sha256_reference bin \<and> manifest_authentic auth m
     \<and> fc_active_version_counter cfg < m_version_counter m"

definition transfer_ops :: "guardian_firmware_manifest \<Rightarrow> u8 list list \<Rightarrow> 'c fw_op list" where
  "transfer_ops m ds = Fw_begin m # map Fw_chunk (chunks_of 0 ds) @ [Fw_finalize]"

definition update_ops :: "guardian_firmware_manifest \<Rightarrow> u8 list list \<Rightarrow> 'c fw_op list" where
  "update_ops m ds = transfer_ops m ds @ [Fw_activate, Fw_confirm (m_version_counter m)]"

lemma begin_step:
  assumes inv: "fw_inv img auth l" and conf: "lc_configured l \<noteq> 0" and av: "platform_available auth (lc_config l)"
    and m: "honest_manifest auth (lc_config l) m bin"
  shows "\<exists>c. fw_exec l (Fw_begin m) = (set_context c l)\<lparr>lc_manifest := m, lc_bytes_received := 0,
      lc_failure := GUARDIAN_FIRMWARE_FAILURE_NONE, lc_state := GUARDIAN_FIRMWARE_STATE_RECEIVING\<rparr> \<and> img c = []"
proof -
  have "fst (the (fc_erase (lc_config l)) (fc_context (lc_config l)) (m_image_size m))"
    using av by (simp add: platform_available_def)
  then obtain c where e: "the (fc_erase (lc_config l)) (fc_context (lc_config l)) (m_image_size m) = (True, c)"
    by (blast dest: fst_True)
  have cfg: "fc_rollback_floor (lc_config l) \<le> fc_active_version_counter (lc_config l)"
      "platform_contract img auth (lc_config l)" "callbacks_installed (lc_config l)"
    using inv conf by (simp_all add: fw_inv_def)
  have "m_image_size m \<noteq> 0" using m by (auto simp: honest_manifest_def)
  then show ?thesis
    using m conf e platform_calls(1) [OF cfg(2,3) e]
    by (auto simp: fw_exec_def guardian_firmware_begin_def honest_manifest_def minimum_counter_active [OF cfg(1)] Let_def)
qed

lemma finalize_step:
  assumes inv: "fw_inv img auth l" and st: "lc_state l = GUARDIAN_FIRMWARE_STATE_RECEIVING"
    and av: "platform_available auth (lc_config l)" and full: "lc_bytes_received l = m_image_size (lc_manifest l)"
    and sha: "m_image_sha256 (lc_manifest l) = sha256_reference (staged img l)"
    and auth: "manifest_authentic auth (lc_manifest l)"
  shows "\<exists>c. fw_exec l Fw_finalize = (set_context c l)\<lparr>lc_state := GUARDIAN_FIRMWARE_STATE_VERIFIED,
      lc_failure := GUARDIAN_FIRMWARE_FAILURE_NONE\<rparr>"
proof -
  let ?m = "lc_manifest l"
  note r = receiving_inv [OF inv st]
  have shape: "length (m_image_sha256 ?m) = 32"
    and valid: "guardian_firmware_signature_valid (m_signature_algorithm ?m) (m_signature_length ?m)"
    using r(3) unfolding candidate_admissible_def manifest_shape_def Let_def by blast+
  have "fst (the (fc_hash (lc_config l)) (fc_context (lc_config l)) (m_image_size ?m) (replicate 32 0))"
    using av by (simp add: platform_available_def)
  then obtain digest c where h: "the (fc_hash (lc_config l)) (fc_context (lc_config l)) (m_image_size ?m) (replicate 32 0)
      = (True, digest, c)" by (blast dest: fst_True3)
  have d: "digest = m_image_sha256 ?m" using platform_calls(3) [OF r(1,2) h] r(4) full sha by simp
  have "fst (the (fc_verify_signature (lc_config l)) c (m_signature_algorithm ?m) (m_key_id ?m)
      (Some (signed_bytes ?m)) 64 (Some (m_signature ?m)) (m_signature_length ?m))"
    using av auth shape valid by (simp add: platform_available_def manifest_authentic_def signed_bytes_length)
  then obtain c' where v: "the (fc_verify_signature (lc_config l)) c (m_signature_algorithm ?m) (m_key_id ?m)
      (Some (signed_bytes ?m)) 64 (Some (m_signature ?m)) (m_signature_length ?m) = (True, c')"
    by (blast dest: fst_True)
  have "fw_exec l Fw_finalize = (set_context c' l)\<lparr>lc_state := GUARDIAN_FIRMWARE_STATE_VERIFIED,
      lc_failure := GUARDIAN_FIRMWARE_FAILURE_NONE\<rparr>"
    using st full h d v r(5) shape
    by (simp add: fw_exec_def guardian_firmware_finalize_def signed_manifest_eq [OF valid shape]
        constant_time_equal_full minimum_counter_active [OF r(6)] Let_def)
  then show ?thesis by blast
qed

lemma activate_confirm_steps:
  assumes av: "platform_available auth (lc_config l)" and st: "lc_state l = GUARDIAN_FIRMWARE_STATE_VERIFIED"
  shows "\<exists>c. fw_run l [Fw_activate, Fw_confirm (m_version_counter (lc_manifest l))]
    = (raise_counters (m_version_counter (lc_manifest l)) (set_context c l))\<lparr>
        lc_state := GUARDIAN_FIRMWARE_STATE_CONFIRMED, lc_failure := GUARDIAN_FIRMWARE_FAILURE_NONE\<rparr>"
proof -
  let ?m = "lc_manifest l" and ?cfg = "lc_config l"
  have "fst (the (fc_mark_pending ?cfg) (fc_context ?cfg) (m_version_counter ?m)
      (m_firmware_major ?m) (m_firmware_minor ?m) (m_firmware_patch ?m))"
    using av by (simp add: platform_available_def)
  then obtain c where a: "the (fc_mark_pending ?cfg) (fc_context ?cfg) (m_version_counter ?m)
      (m_firmware_major ?m) (m_firmware_minor ?m) (m_firmware_patch ?m) = (True, c)" by (blast dest: fst_True)
  have "fst (the (fc_persist_floor ?cfg) c (m_version_counter ?m))" using av by (simp add: platform_available_def)
  then obtain c1 where b: "the (fc_persist_floor ?cfg) c (m_version_counter ?m) = (True, c1)" by (blast dest: fst_True)
  have "fst (the (fc_complete_pending ?cfg) c1 (m_version_counter ?m) 1)" using av by (simp add: platform_available_def)
  then obtain c2 where d: "the (fc_complete_pending ?cfg) c1 (m_version_counter ?m) 1 = (True, c2)" by (blast dest: fst_True)
  show ?thesis
    by (rule exI [of _ c2])
      (use st a b d in \<open>simp add: fw_exec_def guardian_firmware_activate_def guardian_firmware_confirm_boot_def
        raise_counters_def set_context_def\<close>)
qed

text \<open>The transfer and its verification go through.\<close>

lemma transfer_verified:
  assumes inv: "fw_inv img auth l" and conf: "lc_configured l \<noteq> 0" and av: "platform_available auth (lc_config l)"
    and m: "honest_manifest auth (lc_config l) m bin" and ds: "pieces_ok ds" "concat ds = bin"
  shows "lc_manifest (fw_run l (transfer_ops m ds)) = m"
    "lc_state (fw_run l (transfer_ops m ds)) = GUARDIAN_FIRMWARE_STATE_VERIFIED"
    "platform_available auth (lc_config (fw_run l (transfer_ops m ds)))"
proof -
  let ?b = "fw_exec l (Fw_begin m)"
  obtain c where b: "?b = (set_context c l)\<lparr>lc_manifest := m, lc_bytes_received := 0,
      lc_failure := GUARDIAN_FIRMWARE_FAILURE_NONE, lc_state := GUARDIAN_FIRMWARE_STATE_RECEIVING\<rparr>" "img c = []"
    using begin_step [OF inv conf av m] by blast
  have size: "unat (m_image_size m) = length bin" and shape: "manifest_shape m" using m by (auto simp: honest_manifest_def)
  have binv: "fw_inv img auth ?b" using shape by (intro fw_exec_inv [OF inv]) simp
  let ?l = "fw_run ?b (map Fw_chunk (chunks_of (lc_bytes_received ?b) ds))"
  obtain d where d: "?l = (set_context d ?b)\<lparr>lc_bytes_received := lc_bytes_received ?b + of_nat (length (concat ds))\<rparr>"
      "img d = staged img ?b @ concat ds" "fw_inv img auth ?l"
    using run_chunks [OF binv, of ds] av ds size by (auto simp: b(1))
  have "of_nat (length bin) = m_image_size m" unfolding size [symmetric] by simp
  then obtain e where e: "fw_exec ?l Fw_finalize = (set_context e ?l)\<lparr>lc_state := GUARDIAN_FIRMWARE_STATE_VERIFIED,
      lc_failure := GUARDIAN_FIRMWARE_FAILURE_NONE\<rparr>"
    using finalize_step [OF d(3)] av m ds(2) d(2) b(2) unfolding d(1) by (auto simp: b(1) honest_manifest_def)
  let ?v = "fw_exec ?l Fw_finalize"
  have run: "fw_run l (transfer_ops m ds) = ?v"
    by (simp add: transfer_ops_def fw_run_append b(1))
  show "lc_manifest (fw_run l (transfer_ops m ds)) = m"
    "lc_state (fw_run l (transfer_ops m ds)) = GUARDIAN_FIRMWARE_STATE_VERIFIED"
    "platform_available auth (lc_config (fw_run l (transfer_ops m ds)))"
    by (simp_all only: run e, simp_all only: d(1), simp_all add: b(1) av)
qed

section \<open>Sample platform\<close>

text \<open>A staging area in memory and a verifier that trusts key 7 with a copy of the transcript as
  signature; it exercises the hypotheses of the theorems below.\<close>

definition sample_image :: "u8 list ptr \<Rightarrow> u8 list" where
  "sample_image c = (case c of None \<Rightarrow> [] | Some b \<Rightarrow> b)"

definition sample_auth :: "u8 \<Rightarrow> u32 \<Rightarrow> u8 list \<Rightarrow> u8 list \<Rightarrow> bool" where
  "sample_auth a k msg sig \<longleftrightarrow> a = 1 \<and> k = 7 \<and> sig = msg"

definition sample_platform :: "u8 list guardian_firmware_config" where
  "sample_platform = \<lparr>fc_context = Some [], fc_erase = Some (\<lambda>c n. (True, Some [])),
     fc_write = Some (\<lambda>c off d len. (True, Some (sample_image c @ take (unat len) (the d)))),
     fc_hash = Some (\<lambda>c n d. (True, sha256_reference (sample_image c), c)),
     fc_verify_signature = Some (\<lambda>c a k msg n sig sl.
       (sample_auth a k (take n (the msg)) (take (unat sl) (the sig)), c)),
     fc_required_signature_algorithm = GUARDIAN_FIRMWARE_SIGNATURE_ED25519,
     fc_mark_pending = Some (\<lambda>c v x y z. (True, c)), fc_persist_floor = Some (\<lambda>c v. (True, c)),
     fc_complete_pending = Some (\<lambda>c v f. (True, c)),
     fc_max_image_size = 1024, fc_active_version_counter = 4, fc_rollback_floor = 3\<rparr>"

definition sample_unsigned :: guardian_firmware_manifest where
  "sample_unsigned = zero_manifest\<lparr>m_signature_algorithm := 1, m_key_id := 7, m_version_counter := 5,
     m_firmware_major := 1, m_image_size := 3, m_image_sha256 := sha256_reference [1, 2, 3],
     m_signature_length := 64\<rparr>"

definition sample_manifest :: guardian_firmware_manifest where
  "sample_manifest = sample_unsigned\<lparr>m_signature := signed_bytes sample_unsigned\<rparr>"

definition sample_lifecycle :: "u8 list guardian_firmware_lifecycle" where
  "sample_lifecycle = fw_exec initial_lifecycle (Fw_configure sample_platform)"

lemma sample_lifecycle_eq:
  "sample_lifecycle = initial_lifecycle\<lparr>lc_config := sample_platform, lc_configured := 1\<rparr>"
  by (simp add: sample_lifecycle_def fw_exec_def guardian_firmware_lifecycle_configure_def
      guardian_firmware_lifecycle_init_def sample_platform_def)

lemma sample_contract: "platform_contract sample_image sample_auth sample_platform"
  by (simp add: platform_contract_def sample_platform_def erase_contract_def write_contract_def
      hash_contract_def verify_contract_def mark_contract_def) (simp add: sample_image_def)

lemma sample_available: "platform_available sample_auth sample_platform"
  by (simp add: platform_available_def sample_platform_def)

lemma sample_manifest_simps [simp]:
  "m_signature_algorithm sample_manifest = 1" "m_key_id sample_manifest = 7"
  "m_version_counter sample_manifest = 5" "m_image_size sample_manifest = 3"
  "m_image_sha256 sample_manifest = sha256_reference [1, 2, 3]" "m_signature_length sample_manifest = 64"
  "m_signature sample_manifest = signed_bytes sample_manifest" "length (signed_bytes sample_manifest) = 64"
  by (simp_all add: sample_manifest_def sample_unsigned_def signed_bytes_def)

lemma sample_inv: "fw_inv sample_image sample_auth sample_lifecycle"
  unfolding sample_lifecycle_def by (intro fw_exec_inv fw_initial_inv) (simp add: sample_contract)

lemma sample_honest: "honest_manifest sample_auth (lc_config sample_lifecycle) sample_manifest [1, 2, 3]"
  by (simp add: honest_manifest_def sample_lifecycle_eq manifest_shape_def guardian_firmware_signature_valid_def
      manifest_authentic_def sample_auth_def) (simp add: sample_platform_def)

lemma fw_run_reachable:
  "reachable init (fw_step img auth) l \<Longrightarrow> list_all (fw_op_ok img auth) ops \<Longrightarrow>
   reachable init (fw_step img auth) (fw_run l ops)"
  by (induction ops arbitrary: l) (auto intro: reachable_step fw_stepI)

lemma fw_run_session:
  "list_all (fw_op_ok img auth) ops \<Longrightarrow> list_all (\<lambda>op. \<forall>cfg. op \<noteq> Fw_configure cfg) ops \<Longrightarrow>
   (fw_session_step img auth)\<^sup>*\<^sup>* l (fw_run l ops)"
  by (induction ops arbitrary: l) (auto intro: converse_rtranclp_into_rtranclp fw_session_stepI)

abbreviation sample_update :: "u8 list fw_op list" where
  "sample_update \<equiv> transfer_ops sample_manifest [[1, 2], [3]]"

lemma sample_update_ok: "list_all (fw_op_ok sample_image sample_auth) sample_update"
  by (simp add: manifest_shape_def transfer_ops_def)

lemma sample_configured:
  "lc_configured sample_lifecycle \<noteq> 0" "platform_available sample_auth (lc_config sample_lifecycle)"
  using sample_available by (simp_all add: sample_lifecycle_eq)

lemma sample_verified_state:
  "lc_state (fw_run sample_lifecycle sample_update) = GUARDIAN_FIRMWARE_STATE_VERIFIED"
  by (rule transfer_verified(2) [OF sample_inv sample_configured sample_honest]) (simp_all add: pieces_ok_def)

section \<open>Properties\<close>

text \<open>C21: Only authentic images are verified or made pending. In every reachable state with a verified or pending
  candidate, the staged bytes have exactly the size and the SHA-256 digest of the candidate's
  manifest, a signature the platform trusts covers that manifest's transcript, the algorithm is
  the required one, the size is within the platform's limit, and the version is above both the
  running version and the rollback floor.\<close>

theorem verified_image_authentic:
  assumes "reachable (\<lambda>l. l = initial_lifecycle) (fw_step img auth) l"
    and "lc_state l \<in> {GUARDIAN_FIRMWARE_STATE_VERIFIED, GUARDIAN_FIRMWARE_STATE_PENDING_ACTIVATION}"
  shows "length (staged img l) = unat (m_image_size (lc_manifest l))
    \<and> sha256_reference (staged img l) = m_image_sha256 (lc_manifest l)
    \<and> auth (m_signature_algorithm (lc_manifest l)) (m_key_id (lc_manifest l)) (signed_bytes (lc_manifest l))
        (take (unat (m_signature_length (lc_manifest l))) (m_signature (lc_manifest l)))
    \<and> m_signature_algorithm (lc_manifest l) = fc_required_signature_algorithm (lc_config l)
    \<and> m_image_size (lc_manifest l) \<le> fc_max_image_size (lc_config l)
    \<and> fc_rollback_floor (lc_config l) \<le> fc_active_version_counter (lc_config l)
    \<and> fc_active_version_counter (lc_config l) < m_version_counter (lc_manifest l)"
  using verified_inv(3-6) [OF lifecycle.reachable_inv [OF assms(1)] assms(2)]
  by (simp add: image_authentic_def manifest_authentic_def candidate_admissible_def Let_def)

theorem verified_image_authentic_witness:
  "sha256_reference (staged sample_image (fw_run sample_lifecycle sample_update))
     = m_image_sha256 (lc_manifest (fw_run sample_lifecycle sample_update))"
proof -
  have step: "fw_step sample_image sample_auth initial_lifecycle sample_lifecycle"
    unfolding sample_lifecycle_def by (rule fw_stepI) (simp add: sample_contract)
  have "reachable (\<lambda>l. l = initial_lifecycle) (fw_step sample_image sample_auth) sample_lifecycle"
    by (rule reachable_step [where s = initial_lifecycle]) (simp_all add: reachable_init step)
  from verified_image_authentic [OF fw_run_reachable [OF this sample_update_ok]]
  show ?thesis using sample_verified_state by simp
qed

text \<open>C22: Anti-rollback. Along every run without a new configuration the rollback floor and the active version
  never decrease, and they are either unchanged or both the version of a manifest with a trusted
  signature that is newer than the version that was active.\<close>

theorem version_counters_monotone:
  assumes "fw_inv img auth l" "(fw_session_step img auth)\<^sup>*\<^sup>* l l'"
  shows "fc_active_version_counter (lc_config l) \<le> fc_active_version_counter (lc_config l')
    \<and> fc_rollback_floor (lc_config l) \<le> fc_rollback_floor (lc_config l')
    \<and> (counters l' = counters l
       \<or> (\<exists>m. manifest_authentic auth m \<and> fc_active_version_counter (lc_config l) < m_version_counter m
            \<and> counters l' = (m_version_counter m, m_version_counter m)))"
proof -
  have v: "vouched auth l l" by (simp add: vouched_def)
  have "fc_active_version_counter (lc_config l) \<le> fc_active_version_counter (lc_config l')"
    using assms v by (intro active.mono_run [where k = l]) auto
  moreover have "vouched auth l l'" using session.run_inv [OF assms(2), of l] assms(1) v by blast
  moreover have "fc_rollback_floor (lc_config l) \<le> fc_active_version_counter (lc_config l)"
    using assms(1) by (simp add: fw_inv_def)
  ultimately show ?thesis by (auto simp: vouched_def counters_def)
qed

theorem version_counters_monotone_witness:
  "3 \<le> fc_rollback_floor (lc_config (fw_run sample_lifecycle sample_update))"
proof -
  have "(fw_session_step sample_image sample_auth)\<^sup>*\<^sup>* sample_lifecycle (fw_run sample_lifecycle sample_update)"
    by (rule fw_run_session [OF sample_update_ok]) (simp add: transfer_ops_def)
  from version_counters_monotone [OF sample_inv this]
  show ?thesis by (simp add: sample_lifecycle_eq sample_platform_def)
qed

text \<open>C23: A genuine update goes through. On a platform whose callbacks succeed, from whatever state the lifecycle
  is in, transferring a newer image with a trusted manifest in pieces of 1 to 192 bytes, then
  finalizing, activating and confirming the boot ends in CONFIRMED with no failure recorded, the
  rollback floor and the active version both equal to the new version.\<close>

theorem genuine_update_completes:
  assumes inv: "fw_inv img auth l" and conf: "lc_configured l \<noteq> 0" and av: "platform_available auth (lc_config l)"
    and m: "honest_manifest auth (lc_config l) m bin" and ds: "pieces_ok ds" "concat ds = bin"
  shows "lc_state (fw_run l (update_ops m ds)) = GUARDIAN_FIRMWARE_STATE_CONFIRMED
    \<and> lc_failure (fw_run l (update_ops m ds)) = GUARDIAN_FIRMWARE_FAILURE_NONE
    \<and> lc_manifest (fw_run l (update_ops m ds)) = m
    \<and> counters (fw_run l (update_ops m ds)) = (m_version_counter m, m_version_counter m)"
proof -
  let ?v = "fw_run l (transfer_ops m ds)"
  note v = transfer_verified [OF assms]
  have "fw_run l (update_ops m ds) = fw_run ?v [Fw_activate, Fw_confirm (m_version_counter (lc_manifest ?v))]"
    unfolding v(1) update_ops_def by (simp add: fw_run_append)
  then show ?thesis
    using activate_confirm_steps [OF v(3,2)] by (auto simp: v(1) raise_counters_def counters_def)
qed

theorem genuine_update_completes_witness:
  "counters (fw_run sample_lifecycle (update_ops sample_manifest [[1, 2], [3]])) = (5, 5)"
  using genuine_update_completes [OF sample_inv sample_configured sample_honest, of "[[1, 2], [3]]"]
  by (simp add: pieces_ok_def)

text \<open>Signatures bind the whole manifest. If two manifests give the same transcript, they agree on algorithm,
  key, version counter, semantic version, image size and image digest, so a signature for one
  candidate never authorizes another.\<close>

theorem signed_manifest_injective:
  assumes "guardian_firmware_signed_manifest (Some m) (Some out) = (GUARDIAN_FIRMWARE_OK, t)"
    and "guardian_firmware_signed_manifest (Some m') (Some out') = (GUARDIAN_FIRMWARE_OK, t)"
    and "manifest_shape m" "manifest_shape m'" "length out = 64" "length out' = 64"
  shows "m_signature_algorithm m = m_signature_algorithm m' \<and> m_key_id m = m_key_id m'
    \<and> m_version_counter m = m_version_counter m' \<and> m_firmware_major m = m_firmware_major m'
    \<and> m_firmware_minor m = m_firmware_minor m' \<and> m_firmware_patch m = m_firmware_patch m'
    \<and> m_image_size m = m_image_size m' \<and> m_image_sha256 m = m_image_sha256 m'"
proof -
  have valid: "guardian_firmware_signature_valid (m_signature_algorithm m) (m_signature_length m)"
      "guardian_firmware_signature_valid (m_signature_algorithm m') (m_signature_length m')"
    using assms(1,2) by (auto simp: guardian_firmware_signed_manifest_def split: if_splits)
  have "signed_bytes m = signed_bytes m'"
    using assms valid by (auto simp: signed_manifest_eq manifest_shape_def)
  then show ?thesis by (simp add: signed_bytes_def)
qed

theorem signed_manifest_injective_witness:
  "m_image_sha256 sample_manifest = m_image_sha256 sample_unsigned"
proof -
  have v: "guardian_firmware_signature_valid 1 64" by (simp add: guardian_firmware_signature_valid_def)
  have "guardian_firmware_signed_manifest (Some sample_manifest) (Some (replicate 64 0)) =
      (GUARDIAN_FIRMWARE_OK, Some (signed_bytes sample_manifest))"
    by (rule signed_manifest_eq) (simp_all add: v)
  moreover have "guardian_firmware_signed_manifest (Some sample_unsigned) (Some (replicate 64 1)) =
      (GUARDIAN_FIRMWARE_OK, Some (signed_bytes sample_manifest))"
    by (subst signed_manifest_eq) (simp_all add: v sample_unsigned_def sample_manifest_def signed_bytes_def)
  ultimately show ?thesis
    by (rule signed_manifest_injective [THEN conjunct2, THEN conjunct2, THEN conjunct2, THEN conjunct2,
          THEN conjunct2, THEN conjunct2, THEN conjunct2])
      (simp_all add: manifest_shape_def, simp_all add: sample_unsigned_def zero_manifest_def)
qed

text \<open>Update payloads are canonical. A FIRMWARE_BEGIN payload decodes to a manifest exactly when the manifest
  is well formed and the payload is its wire image, and likewise for FIRMWARE_CHUNK payloads;
  so decoding loses nothing and accepts no second spelling.\<close>

theorem update_payloads_canonical:
  assumes "unat n \<le> length p"
  shows "(guardian_firmware_decode_manifest (Some p) n (Some x) = (GUARDIAN_FIRMWARE_OK, Some m)
      \<longleftrightarrow> wf_manifest m \<and> take (unat n) p = manifest_wire m)
    \<and> (guardian_firmware_decode_chunk (Some p) n (Some y) = (GUARDIAN_FIRMWARE_OK, Some k)
      \<longleftrightarrow> wf_chunk k \<and> take (unat n) p = chunk_wire k)"
  using decode_manifest_ok [of p n x m] decode_manifest_wire [of m n p x] decode_chunk_iff [of n p y k] assms
  by blast

theorem update_payloads_canonical_witness:
  "guardian_firmware_decode_chunk (Some [1, 0, 0, 0, 2, 0, 1, 9]) 8 (Some \<lparr>ck_offset = 0, ck_length = 0, ck_data = replicate 192 0\<rparr>)
     = (GUARDIAN_FIRMWARE_OK, Some \<lparr>ck_offset = 2, ck_length = 1, ck_data = 9 # replicate 191 0\<rparr>)"
proof -
  have a: "wf_chunk \<lparr>ck_offset = 2, ck_length = 1, ck_data = 9 # replicate 191 0\<rparr>" by (simp add: wf_chunk_def)
  have b: "take (unat (8 :: u16)) [1, 0, 0, 0, 2, 0, 1, 9] =
      chunk_wire \<lparr>ck_offset = 2, ck_length = 1, ck_data = 9 # replicate 191 0\<rparr>"
    by (simp add: chunk_wire_def be32_bytes_def be16_bytes_def)
  show ?thesis by (rule update_payloads_canonical [THEN conjunct2, THEN iffD2, OF _ conjI [OF a b]]) simp
qed

end
