(* ===== verification/Guardian_Embedded_Link.thy ===== *)
theory Guardian_Embedded_Link
  imports Guardian_Parser Guardian_Security Guardian_Control Guardian_Health_Model Guardian_Firmware
begin

text \<open>
  The embedded link (\<open>src/firmware/Platform/Src/guardian_embedded_link.c\<close>): the middleware that owns
  every other component of the node, feeds received bytes to the parser, dispatches each request
  to the component that serves it, enforces the protected wrapping of privileged commands, and
  transmits the answers and the telemetry.  The transport callbacks are supplied by the platform
  and are fields of the I/O record; each gets the transport context and returns the new one.  The
  contexts of the transport, of the output adapter, of the nonce source and of the update storage
  are separate objects of the platform (type variables \<open>'w\<close>, \<open>'o\<close>, \<open>'r\<close>, \<open>'f\<close>).
\<close>

section \<open>Types\<close>

text \<open>\<open>read_byte\<close> reports whether it stored a byte; \<open>write\<close> reports how many bytes it queued.\<close>

record 'w guardian_embedded_io =
  io_read_byte :: "('w ptr \<Rightarrow> u8 \<Rightarrow> bool \<times> u8 \<times> 'w ptr) ptr"
  io_write :: "('w ptr \<Rightarrow> u8 list \<Rightarrow> nat \<times> 'w ptr) ptr"
  io_uptime_seconds :: "('w ptr \<Rightarrow> u32 \<times> 'w ptr) ptr"
  io_context :: "'w ptr"

record guardian_embedded_link_stats_t =
  ls_rx_frames :: u32
  ls_tx_frames :: u32
  ls_protocol_errors :: u32
  ls_tx_queue_failures :: u32
  ls_last_error :: u8

record ('w, 'o, 'r, 'f) guardian_embedded_link =
  lk_parser :: guardian_parser
  lk_service :: guardian_device_service
  lk_telemetry :: guardian_telemetry
  lk_dsp_features :: guardian_dsp_features
  lk_dsp_features_valid :: u8
  lk_health :: guardian_health
  lk_control :: "'o guardian_control"
  lk_security :: "'r guardian_security"
  lk_firmware :: "'f guardian_firmware_lifecycle"
  lk_security_required :: u8
  lk_io :: "'w guardian_embedded_io"
  lk_state :: guardian_device_state
  lk_stats :: guardian_embedded_link_stats_t

abbreviation (input) GUARDIAN_EMBEDDED_DEFAULT_RX_BUDGET :: nat where "GUARDIAN_EMBEDDED_DEFAULT_RX_BUDGET \<equiv> 64"

text \<open>What \<open>memset\<close> leaves of the link.\<close>

definition zero_link_stats :: guardian_embedded_link_stats_t where
  "zero_link_stats = \<lparr>ls_rx_frames = 0, ls_tx_frames = 0, ls_protocol_errors = 0, ls_tx_queue_failures = 0,
     ls_last_error = 0\<rparr>"

definition zero_parser :: guardian_parser where
  "zero_parser = \<lparr>p_state = GUARDIAN_PARSER_WAIT_MAGIC_0, p_buffer = replicate GUARDIAN_MAX_FRAME_SIZE 0,
     p_index = 0, p_expected_size = 0, p_frames_received = 0, p_crc_errors = 0, p_protocol_errors = 0,
     p_oversize_errors = 0, p_last_protocol_result = GUARDIAN_PROTOCOL_OK\<rparr>"

definition zero_link :: "('w, 'o, 'r, 'f) guardian_embedded_link" where
  "zero_link = \<lparr>lk_parser = zero_parser,
     lk_service = \<lparr>ds_identity = \<lparr>di_model = None, di_firmware_major = 0, di_firmware_minor = 0,
       di_firmware_patch = 0, di_device_id = 0\<rparr>\<rparr>,
     lk_telemetry = \<lparr>tm_enabled = 0, tm_period_ms = 0, tm_elapsed_ms = 0, tm_timestamp_ms = 0,
       tm_next_sequence = 0, tm_measurements = zero_measurements\<rparr>,
     lk_dsp_features = zero_features, lk_dsp_features_valid = 0,
     lk_health = \<lparr>hl_status = zero_health_status, hl_stats = replicate 7 \<lparr>st_mean = F32 0, st_m2 = F32 0\<rparr>,
       hl_baseline_sample_rate_hz = 0, hl_anomalous_streak = 0, hl_recovery_streak = 0,
       hl_rejected_inputs_total = 0\<rparr>,
     lk_control = \<lparr>ct_status = zero_control_status, ct_output = \<lparr>out_apply = None, out_context = None\<rparr>\<rparr>,
     lk_security = zero_security, lk_firmware = initial_lifecycle, lk_security_required = 0,
     lk_io = \<lparr>io_read_byte = None, io_write = None, io_uptime_seconds = None, io_context = None\<rparr>,
     lk_state = GUARDIAN_DEVICE_STATE_BOOT, lk_stats = zero_link_stats\<rparr>"

section \<open>Helpers\<close>

definition guardian_embedded_increment_u32 :: "u32 \<Rightarrow> u32" where
  "guardian_embedded_increment_u32 v = (if v \<noteq> 0xFFFFFFFF then v + 1 else v)"

definition guardian_embedded_control_device_state :: "guardian_control_status_t \<Rightarrow> guardian_device_state" where
  "guardian_embedded_control_device_state status =
     (if cs_state status = GUARDIAN_CONTROL_STATE_ACTIVE then GUARDIAN_DEVICE_STATE_RUNNING
      else if cs_state status = GUARDIAN_CONTROL_STATE_DEGRADED then GUARDIAN_DEVICE_STATE_DEGRADED
      else if cs_state status = GUARDIAN_CONTROL_STATE_FAULT_LATCHED then GUARDIAN_DEVICE_STATE_FAULT
      else GUARDIAN_DEVICE_STATE_IDLE)"

definition guardian_embedded_sync_control_state ::
  "('w, 'o, 'r, 'f) guardian_embedded_link \<Rightarrow> ('w, 'o, 'r, 'f) guardian_embedded_link" where
  "guardian_embedded_sync_control_state link =
     (let status = guardian_control_status (Some (lk_control link)) in
      if cs_supervision_enabled status = 0 \<and> cs_state status \<noteq> GUARDIAN_CONTROL_STATE_FAULT_LATCHED
      then link else link\<lparr>lk_state := guardian_embedded_control_device_state status\<rparr>)"

definition guardian_embedded_update_control_health ::
  "('w, 'o, 'r, 'f) guardian_embedded_link \<Rightarrow> ('w, 'o, 'r, 'f) guardian_embedded_link" where
  "guardian_embedded_update_control_health link =
     (let health = guardian_health_status_of (Some (lk_health link)) in
      guardian_embedded_sync_control_state
        (link\<lparr>lk_control := the (guardian_control_update_health (Some (lk_control link)) (Some health))\<rparr>))"

text \<open>A call of the uptime callback.\<close>

definition read_uptime :: "('w, 'o, 'r, 'f) guardian_embedded_link \<Rightarrow> u32 \<times> ('w, 'o, 'r, 'f) guardian_embedded_link" where
  "read_uptime link =
     (case the (io_uptime_seconds (lk_io link)) (io_context (lk_io link)) of
        (now, context') \<Rightarrow> (now, link\<lparr>lk_io := (lk_io link)\<lparr>io_context := context'\<rparr>\<rparr>))"

definition guardian_embedded_runtime ::
  "('w, 'o, 'r, 'f) guardian_embedded_link \<Rightarrow> guardian_device_runtime \<times> ('w, 'o, 'r, 'f) guardian_embedded_link" where
  "guardian_embedded_runtime link =
     (case read_uptime link of
        (uptime, link') \<Rightarrow>
          (\<lparr>dr_state = lk_state link', dr_uptime_seconds = uptime, dr_rx_frames = ls_rx_frames (lk_stats link'),
             dr_tx_frames = ls_tx_frames (lk_stats link'), dr_protocol_errors = ls_protocol_errors (lk_stats link'),
             dr_last_error = ls_last_error (lk_stats link')\<rparr>, link'))"

text \<open>One more protocol error, and the error identifier it leaves.\<close>

definition note_error :: "u8 \<Rightarrow> ('w, 'o, 'r, 'f) guardian_embedded_link \<Rightarrow> ('w, 'o, 'r, 'f) guardian_embedded_link" where
  "note_error e link = link\<lparr>lk_stats := (lk_stats link)\<lparr>
     ls_protocol_errors := guardian_embedded_increment_u32 (ls_protocol_errors (lk_stats link)), ls_last_error := e\<rparr>\<rparr>"

definition guardian_embedded_record_response_error ::
  "('w, 'o, 'r, 'f) guardian_embedded_link \<Rightarrow> guardian_frame \<Rightarrow> ('w, 'o, 'r, 'f) guardian_embedded_link" where
  "guardian_embedded_record_response_error link response =
     (if message_type response \<noteq> GUARDIAN_MESSAGE_ERROR then link
      else note_error (if payload_length response = 1 then payload response ! 0 else ls_last_error (lk_stats link)) link)"

definition guardian_embedded_transmit ::
  "('w, 'o, 'r, 'f) guardian_embedded_link \<Rightarrow> guardian_frame \<Rightarrow> ('w, 'o, 'r, 'f) guardian_embedded_link" where
  "guardian_embedded_transmit link frame =
     (case guardian_protocol_encode (Some frame) (Some (replicate GUARDIAN_MAX_FRAME_SIZE 0))
             GUARDIAN_MAX_FRAME_SIZE (Some 0) of
        (result, encoded, encoded_size) \<Rightarrow>
          if result \<noteq> GUARDIAN_PROTOCOL_OK
          then note_error (guardian_error_value GUARDIAN_ERROR_INTERNAL) link
          else
            case the (io_write (lk_io link)) (io_context (lk_io link)) (take (the encoded_size) (the encoded)) of
              (written, context') \<Rightarrow>
                let link1 = link\<lparr>lk_io := (lk_io link)\<lparr>io_context := context'\<rparr>\<rparr> in
                if written \<noteq> the encoded_size
                then note_error (guardian_error_value GUARDIAN_ERROR_BUSY)
                       (link1\<lparr>lk_stats := (lk_stats link1)\<lparr>ls_tx_queue_failures :=
                          guardian_embedded_increment_u32 (ls_tx_queue_failures (lk_stats link1))\<rparr>\<rparr>)
                else link1\<lparr>lk_stats := (lk_stats link1)\<lparr>ls_tx_frames :=
                       guardian_embedded_increment_u32 (ls_tx_frames (lk_stats link1))\<rparr>\<rparr>)"

definition guardian_embedded_make_response :: "guardian_frame \<Rightarrow> guardian_frame" where
  "guardian_embedded_make_response request =
     zero_frame\<lparr>message_type := GUARDIAN_MESSAGE_RESPONSE, command := command request,
       flags := GUARDIAN_SUPPORTED_FLAGS, sequence := sequence request\<rparr>"

definition guardian_embedded_make_error :: "guardian_frame \<Rightarrow> guardian_error_code \<Rightarrow> guardian_frame" where
  "guardian_embedded_make_error request err =
     zero_frame\<lparr>message_type := GUARDIAN_MESSAGE_ERROR, command := command request,
       flags := GUARDIAN_SUPPORTED_FLAGS, sequence := sequence request, payload_length := 1,
       payload := (payload zero_frame)[0 := guardian_error_value err]\<rparr>"

definition guardian_embedded_security_error :: "guardian_security_result \<Rightarrow> guardian_error_code" where
  "guardian_embedded_security_error result =
     (if result = GUARDIAN_SECURITY_ERROR_REPLAY then GUARDIAN_ERROR_REPLAY_DETECTED
      else if result = GUARDIAN_SECURITY_ERROR_UNAUTHORIZED then GUARDIAN_ERROR_UNAUTHORIZED
      else if result = GUARDIAN_SECURITY_ERROR_INVALID_PAYLOAD then GUARDIAN_ERROR_INVALID_PAYLOAD
      else GUARDIAN_ERROR_INTERNAL)"

definition guardian_embedded_firmware_error :: "guardian_firmware_result \<Rightarrow> guardian_error_code" where
  "guardian_embedded_firmware_error result =
     (if result = GUARDIAN_FIRMWARE_ERROR_ROLLBACK_BLOCKED then GUARDIAN_ERROR_ROLLBACK_BLOCKED
      else if result = GUARDIAN_FIRMWARE_ERROR_SIGNATURE_INVALID then GUARDIAN_ERROR_SIGNATURE_INVALID
      else if result = GUARDIAN_FIRMWARE_ERROR_INVALID_PAYLOAD \<or> result = GUARDIAN_FIRMWARE_ERROR_OUT_OF_ORDER
      then GUARDIAN_ERROR_INVALID_PAYLOAD
      else if result = GUARDIAN_FIRMWARE_ERROR_INVALID_STATE then GUARDIAN_ERROR_BUSY
      else if result = GUARDIAN_FIRMWARE_ERROR_UNCONFIGURED \<or> result = GUARDIAN_FIRMWARE_ERROR_STORAGE
        \<or> result = GUARDIAN_FIRMWARE_ERROR_HASH_MISMATCH \<or> result = GUARDIAN_FIRMWARE_ERROR_ACTIVATION
        \<or> result = GUARDIAN_FIRMWARE_ERROR_CONFIRMATION
      then GUARDIAN_ERROR_UPDATE_FAILED
      else GUARDIAN_ERROR_INTERNAL)"

section \<open>Privileged commands\<close>

text \<open>The answer of a firmware command: an empty response, or the error its result maps to.\<close>

definition firmware_reply :: "guardian_frame \<Rightarrow> guardian_firmware_result \<Rightarrow> guardian_frame" where
  "firmware_reply request result =
     (if result \<noteq> GUARDIAN_FIRMWARE_OK
      then guardian_embedded_make_error request (guardian_embedded_firmware_error result)
      else guardian_embedded_make_response request)"

text \<open>The four firmware branches: decode the payload, and on success run the operation.\<close>

definition firmware_command ::
  "'f guardian_firmware_lifecycle \<Rightarrow> guardian_frame \<Rightarrow> guardian_firmware_result \<times> 'f guardian_firmware_lifecycle" where
  "firmware_command fw request =
     (if command request = GUARDIAN_COMMAND_FIRMWARE_BEGIN
      then (case guardian_firmware_decode_manifest (Some (payload request)) (payload_length request) (Some zero_manifest) of
              (result, manifest) \<Rightarrow>
                if result = GUARDIAN_FIRMWARE_OK
                then apsnd the (guardian_firmware_begin (Some fw) manifest) else (result, fw))
      else if command request = GUARDIAN_COMMAND_FIRMWARE_CHUNK
      then (case guardian_firmware_decode_chunk (Some (payload request)) (payload_length request)
                   (Some \<lparr>ck_offset = 0, ck_length = 0, ck_data = replicate 192 0\<rparr>) of
              (result, chunk) \<Rightarrow>
                if result = GUARDIAN_FIRMWARE_OK
                then apsnd the (guardian_firmware_write_chunk (Some fw) chunk) else (result, fw))
      else
        let result = guardian_firmware_decode_action (Some (payload request)) (payload_length request) in
        if result \<noteq> GUARDIAN_FIRMWARE_OK then (result, fw)
        else if command request = GUARDIAN_COMMAND_FIRMWARE_FINALIZE
        then apsnd the (guardian_firmware_finalize (Some fw))
        else apsnd the (guardian_firmware_activate (Some fw)))"

definition is_firmware_command :: "u8 \<Rightarrow> bool" where
  "is_firmware_command c \<longleftrightarrow> c = GUARDIAN_COMMAND_FIRMWARE_BEGIN \<or> c = GUARDIAN_COMMAND_FIRMWARE_CHUNK
     \<or> c = GUARDIAN_COMMAND_FIRMWARE_FINALIZE \<or> c = GUARDIAN_COMMAND_FIRMWARE_ACTIVATE"

definition guardian_embedded_dispatch_privileged ::
  "('w, 'o, 'r, 'f) guardian_embedded_link \<Rightarrow> guardian_frame \<Rightarrow> guardian_frame
     \<Rightarrow> guardian_protocol_result \<times> ('w, 'o, 'r, 'f) guardian_embedded_link \<times> guardian_frame" where
  "guardian_embedded_dispatch_privileged link request response =
     (if command request = GUARDIAN_COMMAND_BASELINE_CONTROL
      then
        case guardian_health_handle_request (Some (lk_health link)) (Some request) (Some response) of
          (result, health, resp) \<Rightarrow>
            let link1 = link\<lparr>lk_health := the health\<rparr> in
            (result,
             if result = GUARDIAN_PROTOCOL_OK \<and> message_type (the resp) = GUARDIAN_MESSAGE_RESPONSE
             then guardian_embedded_update_control_health link1 else link1, the resp)
      else if command request = GUARDIAN_COMMAND_CONTROL_COMMAND
      then
        case guardian_control_handle_request (Some (lk_control link)) (Some request) (Some response) of
          (result, control, resp) \<Rightarrow>
            (result, guardian_embedded_sync_control_state (link\<lparr>lk_control := the control\<rparr>), the resp)
      else if is_firmware_command (command request)
      then
        case firmware_command (lk_firmware link) request of
          (result, fw) \<Rightarrow> (GUARDIAN_PROTOCOL_OK, link\<lparr>lk_firmware := fw\<rparr>, firmware_reply request result)
      else (GUARDIAN_PROTOCOL_OK, link, guardian_embedded_make_error request GUARDIAN_ERROR_UNKNOWN_COMMAND))"

section \<open>Interface\<close>

definition guardian_embedded_link_init ::
  "('w, 'o, 'r, 'f) guardian_embedded_link ptr \<Rightarrow> 'w guardian_embedded_io ptr \<Rightarrow> guardian_device_identity ptr
     \<Rightarrow> guardian_protocol_result \<times> ('w, 'o, 'r, 'f) guardian_embedded_link ptr" where
  "guardian_embedded_link_init link io identity =
     (case (link, io, identity) of
        (Some _, Some i, Some ident) \<Rightarrow>
          if io_read_byte i = None \<or> io_write i = None \<or> io_uptime_seconds i = None
          then (GUARDIAN_PROTOCOL_ERROR_NULL_ARGUMENT, link)
          else
            let l0 = zero_link;
                l1 = l0\<lparr>lk_io := i, lk_state := GUARDIAN_DEVICE_STATE_IDLE,
                  lk_parser := the (guardian_parser_init (Some (lk_parser l0))),
                  lk_telemetry := the (guardian_telemetry_init (Some (lk_telemetry l0))),
                  lk_health := the (guardian_health_init (Some (lk_health l0))),
                  lk_control := the (guardian_control_init (Some (lk_control l0))),
                  lk_security := the (guardian_security_init (Some (lk_security l0))),
                  lk_firmware := the (guardian_firmware_lifecycle_init (Some (lk_firmware l0))),
                  lk_security_required := 0\<rparr>
            in (case guardian_device_service_init (Some (lk_service l1)) (Some ident) of
                  (result, service) \<Rightarrow> (result, Some (l1\<lparr>lk_service := the service\<rparr>)))
      | _ \<Rightarrow> (GUARDIAN_PROTOCOL_ERROR_NULL_ARGUMENT, link))"

definition guardian_embedded_link_set_state ::
  "('w, 'o, 'r, 'f) guardian_embedded_link ptr \<Rightarrow> guardian_device_state \<Rightarrow> ('w, 'o, 'r, 'f) guardian_embedded_link ptr" where
  "guardian_embedded_link_set_state link state =
     map_option (\<lambda>l.
       let control_status = guardian_control_status (Some (lk_control l)) in
       if cs_supervision_enabled control_status \<noteq> 0 \<or> cs_state control_status = GUARDIAN_CONTROL_STATE_FAULT_LATCHED
       then l else l\<lparr>lk_state := state\<rparr>) link"

definition guardian_embedded_link_update_telemetry ::
  "('w, 'o, 'r, 'f) guardian_embedded_link ptr \<Rightarrow> guardian_machine_measurements ptr
     \<Rightarrow> ('w, 'o, 'r, 'f) guardian_embedded_link ptr" where
  "guardian_embedded_link_update_telemetry link measurements =
     map_option (\<lambda>l. l\<lparr>lk_telemetry := the (guardian_telemetry_set_measurements (Some (lk_telemetry l)) measurements)\<rparr>) link"

definition guardian_embedded_link_update_dsp ::
  "('w, 'o, 'r, 'f) guardian_embedded_link ptr \<Rightarrow> guardian_dsp_features ptr \<Rightarrow> ('w, 'o, 'r, 'f) guardian_embedded_link ptr" where
  "guardian_embedded_link_update_dsp link features =
     (case (link, features) of
        (Some l, Some f) \<Rightarrow>
          let l1 = l\<lparr>lk_dsp_features := f, lk_dsp_features_valid := 1,
                lk_health := the (guardian_health_ingest (Some (lk_health l)) (Some f))\<rparr>
          in Some (guardian_embedded_update_control_health l1)
      | _ \<Rightarrow> link)"

definition guardian_embedded_link_health_status ::
  "('w, 'o, 'r, 'f) guardian_embedded_link ptr \<Rightarrow> guardian_health_status" where
  "guardian_embedded_link_health_status link = guardian_health_status_of (map_option lk_health link)"

definition guardian_embedded_link_configure_control_output ::
  "('w, 'o, 'r, 'f) guardian_embedded_link ptr \<Rightarrow> 'o guardian_control_output ptr
     \<Rightarrow> guardian_control_result \<times> ('w, 'o, 'r, 'f) guardian_embedded_link ptr" where
  "guardian_embedded_link_configure_control_output link output =
     (case link of
        None \<Rightarrow> (GUARDIAN_CONTROL_ERROR_NULL_ARGUMENT, None)
      | Some l \<Rightarrow>
          (case guardian_control_configure_output (Some (lk_control l)) output of
             (result, control) \<Rightarrow>
               (result, Some (guardian_embedded_sync_control_state (l\<lparr>lk_control := the control\<rparr>)))))"

definition guardian_embedded_link_set_local_run_request ::
  "('w, 'o, 'r, 'f) guardian_embedded_link ptr \<Rightarrow> u8 \<Rightarrow> ('w, 'o, 'r, 'f) guardian_embedded_link ptr" where
  "guardian_embedded_link_set_local_run_request link requested =
     map_option (\<lambda>l. guardian_embedded_sync_control_state
       (l\<lparr>lk_control := the (guardian_control_set_local_run_request (Some (lk_control l)) requested)\<rparr>)) link"

definition guardian_embedded_link_set_interlock ::
  "('w, 'o, 'r, 'f) guardian_embedded_link ptr \<Rightarrow> u8 \<Rightarrow> ('w, 'o, 'r, 'f) guardian_embedded_link ptr" where
  "guardian_embedded_link_set_interlock link is_closed =
     map_option (\<lambda>l. guardian_embedded_sync_control_state
       (l\<lparr>lk_control := the (guardian_control_set_interlock (Some (lk_control l)) is_closed)\<rparr>)) link"

definition guardian_embedded_link_control_status ::
  "('w, 'o, 'r, 'f) guardian_embedded_link ptr \<Rightarrow> guardian_control_status_t" where
  "guardian_embedded_link_control_status link = guardian_control_status (map_option lk_control link)"

definition guardian_embedded_link_run_permit :: "('w, 'o, 'r, 'f) guardian_embedded_link ptr \<Rightarrow> u8" where
  "guardian_embedded_link_run_permit link =
     (case link of None \<Rightarrow> 0 | Some l \<Rightarrow> guardian_control_run_permit (Some (lk_control l)))"

definition guardian_embedded_link_configure_security ::
  "('w, 'o, 'r, 'f) guardian_embedded_link ptr \<Rightarrow> 'r guardian_security_config ptr
     \<Rightarrow> guardian_security_result \<times> ('w, 'o, 'r, 'f) guardian_embedded_link ptr" where
  "guardian_embedded_link_configure_security link config =
     (case link of
        None \<Rightarrow> (GUARDIAN_SECURITY_ERROR_NULL_ARGUMENT, None)
      | Some l \<Rightarrow>
          (case guardian_security_configure (Some (lk_security l)) config of
             (result, security) \<Rightarrow> (result, Some (l\<lparr>lk_security := the security\<rparr>))))"

definition guardian_embedded_link_require_security ::
  "('w, 'o, 'r, 'f) guardian_embedded_link ptr \<Rightarrow> u8 \<Rightarrow> ('w, 'o, 'r, 'f) guardian_embedded_link ptr" where
  "guardian_embedded_link_require_security link required =
     map_option (\<lambda>l. l\<lparr>lk_security_required := (if required \<noteq> 0 then 1 else 0)\<rparr>) link"

definition guardian_embedded_link_security_status ::
  "('w, 'o, 'r, 'f) guardian_embedded_link ptr
     \<Rightarrow> guardian_security_status_t \<times> ('w, 'o, 'r, 'f) guardian_embedded_link ptr" where
  "guardian_embedded_link_security_status link =
     (case link of
        None \<Rightarrow> (fst (guardian_security_status (None :: 'r guardian_security ptr) 0), None)
      | Some l \<Rightarrow>
          (case read_uptime l of
             (now, l1) \<Rightarrow>
               (case guardian_security_status (Some (lk_security l1)) now of
                  (status, security) \<Rightarrow> (status, Some (l1\<lparr>lk_security := the security\<rparr>)))))"

definition guardian_embedded_link_configure_firmware ::
  "('w, 'o, 'r, 'f) guardian_embedded_link ptr \<Rightarrow> 'f guardian_firmware_config ptr
     \<Rightarrow> guardian_firmware_result \<times> ('w, 'o, 'r, 'f) guardian_embedded_link ptr" where
  "guardian_embedded_link_configure_firmware link config =
     (case link of
        None \<Rightarrow> (GUARDIAN_FIRMWARE_ERROR_NULL_ARGUMENT, None)
      | Some l \<Rightarrow>
          (case guardian_firmware_lifecycle_configure (Some (lk_firmware l)) config of
             (result, fw) \<Rightarrow> (result, Some (l\<lparr>lk_firmware := the fw\<rparr>))))"

definition guardian_embedded_link_firmware_status ::
  "('w, 'o, 'r, 'f) guardian_embedded_link ptr \<Rightarrow> guardian_firmware_status_t" where
  "guardian_embedded_link_firmware_status link = guardian_firmware_status (map_option lk_firmware link)"

definition guardian_embedded_link_confirm_firmware_boot ::
  "('w, 'o, 'r, 'f) guardian_embedded_link ptr \<Rightarrow> u32
     \<Rightarrow> guardian_firmware_result \<times> ('w, 'o, 'r, 'f) guardian_embedded_link ptr" where
  "guardian_embedded_link_confirm_firmware_boot link booted_version_counter =
     (case link of
        None \<Rightarrow> (GUARDIAN_FIRMWARE_ERROR_NULL_ARGUMENT, None)
      | Some l \<Rightarrow>
          (case guardian_firmware_confirm_boot (Some (lk_firmware l)) booted_version_counter of
             (result, fw) \<Rightarrow> (result, Some (l\<lparr>lk_firmware := the fw\<rparr>))))"

definition guardian_embedded_link_report_firmware_boot_failure ::
  "('w, 'o, 'r, 'f) guardian_embedded_link ptr \<Rightarrow> u32
     \<Rightarrow> guardian_firmware_result \<times> ('w, 'o, 'r, 'f) guardian_embedded_link ptr" where
  "guardian_embedded_link_report_firmware_boot_failure link attempted_version_counter =
     (case link of
        None \<Rightarrow> (GUARDIAN_FIRMWARE_ERROR_NULL_ARGUMENT, None)
      | Some l \<Rightarrow>
          (case guardian_firmware_report_boot_failure (Some (lk_firmware l)) attempted_version_counter of
             (result, fw) \<Rightarrow> (result, Some (l\<lparr>lk_firmware := the fw\<rparr>))))"

definition guardian_embedded_link_tick_1ms ::
  "('w, 'o, 'r, 'f) guardian_embedded_link ptr \<Rightarrow> ('w, 'o, 'r, 'f) guardian_embedded_link ptr" where
  "guardian_embedded_link_tick_1ms link =
     map_option (\<lambda>l. l\<lparr>lk_telemetry := the (guardian_telemetry_tick_1ms (Some (lk_telemetry l)))\<rparr>) link"

definition guardian_embedded_link_stats :: "('w, 'o, 'r, 'f) guardian_embedded_link ptr \<Rightarrow> guardian_embedded_link_stats_t" where
  "guardian_embedded_link_stats link = (case link of None \<Rightarrow> zero_link_stats | Some l \<Rightarrow> lk_stats l)"

section \<open>Requests\<close>

text \<open>The branches of the poll loop that the link serves itself.  Each returns the link and the
  frame it leaves in \<open>output\<close>.\<close>

definition auth_begin_request ::
  "('w, 'o, 'r, 'f) guardian_embedded_link \<Rightarrow> guardian_frame \<Rightarrow> u32 \<Rightarrow> ('w, 'o, 'r, 'f) guardian_embedded_link \<times> guardian_frame" where
  "auth_begin_request link request now =
     (let output = guardian_embedded_make_response request in
      case guardian_security_auth_begin (Some (lk_security link)) (Some (payload request)) (payload_length request) now
             (Some (payload output)) 256 (Some (payload_length output)) of
        (result, security, pl, plen) \<Rightarrow>
          (link\<lparr>lk_security := the security\<rparr>,
           if result \<noteq> GUARDIAN_SECURITY_OK
           then guardian_embedded_make_error request (guardian_embedded_security_error result)
           else output\<lparr>payload := the pl, payload_length := the plen\<rparr>))"

definition auth_finish_request ::
  "('w, 'o, 'r, 'f) guardian_embedded_link \<Rightarrow> guardian_frame \<Rightarrow> u32 \<Rightarrow> ('w, 'o, 'r, 'f) guardian_embedded_link \<times> guardian_frame" where
  "auth_finish_request link request now =
     (let output = guardian_embedded_make_response request in
      case guardian_security_auth_finish (Some (lk_security link)) (Some (payload request)) (payload_length request) now
             (Some (payload output)) 256 (Some (payload_length output)) of
        (result, security, pl, plen) \<Rightarrow>
          (link\<lparr>lk_security := the security\<rparr>,
           if result \<noteq> GUARDIAN_SECURITY_OK
           then guardian_embedded_make_error request (guardian_embedded_security_error result)
           else output\<lparr>payload := the pl, payload_length := the plen\<rparr>))"

definition security_status_request ::
  "('w, 'o, 'r, 'f) guardian_embedded_link \<Rightarrow> guardian_frame \<Rightarrow> u32 \<Rightarrow> ('w, 'o, 'r, 'f) guardian_embedded_link \<times> guardian_frame" where
  "security_status_request link request now =
     (if payload_length request \<noteq> 0
      then (link, guardian_embedded_make_error request GUARDIAN_ERROR_INVALID_PAYLOAD)
      else
        case guardian_security_status (Some (lk_security link)) now of
          (status, security) \<Rightarrow>
            let output = guardian_embedded_make_response request in
            case guardian_security_encode_status_payload (Some status) (Some (payload output)) 256
                   (Some (payload_length output)) of
              (result, pl, plen) \<Rightarrow>
                (link\<lparr>lk_security := the security\<rparr>,
                 if result \<noteq> GUARDIAN_SECURITY_OK then guardian_embedded_make_error request GUARDIAN_ERROR_INTERNAL
                 else output\<lparr>payload := the pl, payload_length := the plen\<rparr>))"

definition firmware_status_request ::
  "('w, 'o, 'r, 'f) guardian_embedded_link \<Rightarrow> guardian_frame \<Rightarrow> guardian_frame" where
  "firmware_status_request link request =
     (if payload_length request \<noteq> 0
      then guardian_embedded_make_error request GUARDIAN_ERROR_INVALID_PAYLOAD
      else
        let status = guardian_firmware_status (Some (lk_firmware link));
            output = guardian_embedded_make_response request in
        case guardian_firmware_encode_status_payload (Some status) (Some (payload output)) 256
               (Some (payload_length output)) of
          (result, pl, plen) \<Rightarrow>
            if result \<noteq> GUARDIAN_FIRMWARE_OK then guardian_embedded_make_error request GUARDIAN_ERROR_INTERNAL
            else output\<lparr>payload := the pl, payload_length := the plen\<rparr>)"

text \<open>The protected branch.  \<open>protocol_result\<close> and \<open>output\<close> are variables of the poll loop.\<close>

definition secure_request ::
  "('w, 'o, 'r, 'f) guardian_embedded_link \<Rightarrow> guardian_frame \<Rightarrow> u32 \<Rightarrow> guardian_protocol_result \<Rightarrow> guardian_frame
     \<Rightarrow> guardian_protocol_result \<times> ('w, 'o, 'r, 'f) guardian_embedded_link \<times> guardian_frame" where
  "secure_request link request now protocol_result output =
     (case guardian_security_unwrap_request (Some (lk_security link)) (Some request) now (Some zero_frame) (Some 0) of
        (result, security, inner, counter) \<Rightarrow>
          let link1 = link\<lparr>lk_security := the security\<rparr>; inner_request = the inner in
          if result \<noteq> GUARDIAN_SECURITY_OK
          then (protocol_result, link1, guardian_embedded_make_error request (guardian_embedded_security_error result))
          else
            case guardian_security_authorize (Some (lk_security link1)) (command inner_request) of
              (allowed, security2) \<Rightarrow>
                let link2 = link1\<lparr>lk_security := the security2\<rparr>;
                    (protocol_result', link3, inner_response) =
                      (if \<not> allowed
                       then (protocol_result, link2, guardian_embedded_make_error inner_request GUARDIAN_ERROR_UNAUTHORIZED)
                       else guardian_embedded_dispatch_privileged link2 inner_request zero_frame)
                in
                if protocol_result' \<noteq> GUARDIAN_PROTOCOL_OK then (protocol_result', link3, output)
                else
                  case guardian_security_wrap_response (Some (lk_security link3)) (Some request) (the counter)
                         (Some inner_response) (Some output) of
                    (result', out') \<Rightarrow>
                      (protocol_result', link3,
                       if result' \<noteq> GUARDIAN_SECURITY_OK
                       then guardian_embedded_make_error request (guardian_embedded_security_error result')
                       else the out'))"

definition privileged_command :: "u8 \<Rightarrow> bool" where
  "privileged_command c \<longleftrightarrow> c = GUARDIAN_COMMAND_BASELINE_CONTROL \<or> c = GUARDIAN_COMMAND_CONTROL_COMMAND
     \<or> is_firmware_command c"

text \<open>The chain of commands for one received frame, from the uptime read on.\<close>

definition dispatch_request ::
  "('w, 'o, 'r, 'f) guardian_embedded_link \<Rightarrow> guardian_frame \<Rightarrow> guardian_protocol_result \<Rightarrow> guardian_frame
     \<Rightarrow> guardian_protocol_result \<times> ('w, 'o, 'r, 'f) guardian_embedded_link \<times> guardian_frame" where
  "dispatch_request link0 request protocol_result output =
     (case read_uptime link0 of
        (now, link) \<Rightarrow>
          if command request = GUARDIAN_COMMAND_AUTH_BEGIN
          then (protocol_result, auth_begin_request link request now)
          else if command request = GUARDIAN_COMMAND_AUTH_FINISH
          then (protocol_result, auth_finish_request link request now)
          else if command request = GUARDIAN_COMMAND_GET_SECURITY_STATUS
          then (protocol_result, security_status_request link request now)
          else if command request = GUARDIAN_COMMAND_GET_FIRMWARE_STATUS
          then (protocol_result, link, firmware_status_request link request)
          else if command request = GUARDIAN_COMMAND_SECURE_COMMAND
          then secure_request link request now protocol_result output
          else if lk_security_required link \<noteq> 0 \<and> privileged_command (command request)
          then (protocol_result, link, guardian_embedded_make_error request GUARDIAN_ERROR_UNAUTHORIZED)
          else if command request = GUARDIAN_COMMAND_SET_TELEMETRY
          then (case guardian_telemetry_handle_request (Some (lk_telemetry link)) (Some request) (Some output) of
                  (r, telemetry, out) \<Rightarrow> (r, link\<lparr>lk_telemetry := the telemetry\<rparr>, the out))
          else if command request = GUARDIAN_COMMAND_GET_DSP_FEATURES
          then (case guardian_dsp_handle_request (Some (lk_dsp_features link)) (lk_dsp_features_valid link)
                       (Some request) (Some output) of (r, out) \<Rightarrow> (r, link, the out))
          else if command request = GUARDIAN_COMMAND_GET_HEALTH_STATUS
          then (case guardian_health_handle_request (Some (lk_health link)) (Some request) (Some output) of
                  (r, health, out) \<Rightarrow> (r, link\<lparr>lk_health := the health\<rparr>, the out))
          else if command request = GUARDIAN_COMMAND_BASELINE_CONTROL
          then guardian_embedded_dispatch_privileged link request output
          else if command request = GUARDIAN_COMMAND_GET_CONTROL_STATUS
          then (case guardian_control_handle_request (Some (lk_control link)) (Some request) (Some output) of
                  (r, control, out) \<Rightarrow>
                    (r, guardian_embedded_sync_control_state (link\<lparr>lk_control := the control\<rparr>), the out))
          else if command request = GUARDIAN_COMMAND_CONTROL_COMMAND
          then guardian_embedded_dispatch_privileged link request output
          else
            case guardian_embedded_runtime link of
              (runtime, link') \<Rightarrow>
                (case guardian_device_service_handle (Some (lk_service link')) (Some runtime) (Some request) (Some output) of
                   (r, out) \<Rightarrow> (r, link', the out)))"

section \<open>Polling\<close>

text \<open>The variables of \<open>guardian_embedded_link_poll\<close> that live across the iterations.\<close>

record poll_locals =
  pl_byte :: u8
  pl_request :: guardian_frame
  pl_output :: guardian_frame
  pl_protocol_result :: guardian_protocol_result

definition initial_locals :: poll_locals where
  "initial_locals = \<lparr>pl_byte = 0, pl_request = zero_frame, pl_output = zero_frame,
     pl_protocol_result = GUARDIAN_PROTOCOL_OK\<rparr>"

text \<open>The loop body after a byte has been read.\<close>

definition poll_byte ::
  "('w, 'o, 'r, 'f) guardian_embedded_link \<Rightarrow> poll_locals \<Rightarrow> ('w, 'o, 'r, 'f) guardian_embedded_link \<times> poll_locals" where
  "poll_byte link v =
     (case guardian_parser_push_byte (Some (lk_parser link)) (pl_byte v) (Some (pl_request v)) of
        (parser_result, parser, request) \<Rightarrow>
          let link1 = link\<lparr>lk_parser := the parser\<rparr>; v1 = v\<lparr>pl_request := the request\<rparr> in
          if parser_result = GUARDIAN_PARSER_NO_FRAME then (link1, v1)
          else if parser_result \<noteq> GUARDIAN_PARSER_FRAME_READY
          then (note_error (guardian_error_value GUARDIAN_ERROR_MALFORMED_FRAME) link1, v1)
          else
            let link2 = link1\<lparr>lk_stats := (lk_stats link1)\<lparr>ls_rx_frames :=
                  guardian_embedded_increment_u32 (ls_rx_frames (lk_stats link1))\<rparr>\<rparr> in
            case dispatch_request link2 (pl_request v1) (pl_protocol_result v1) (pl_output v1) of
              (protocol_result, link3, output) \<Rightarrow>
                let v2 = v1\<lparr>pl_protocol_result := protocol_result, pl_output := output\<rparr> in
                if protocol_result \<noteq> GUARDIAN_PROTOCOL_OK
                then (note_error (guardian_error_value GUARDIAN_ERROR_INTERNAL) link3, v2)
                else (guardian_embedded_transmit (guardian_embedded_record_response_error link3 output) output, v2))"

text \<open>The loop: the argument is what remains of the byte budget, so it ends.\<close>

fun poll_loop ::
  "nat \<Rightarrow> ('w, 'o, 'r, 'f) guardian_embedded_link \<Rightarrow> poll_locals \<Rightarrow> ('w, 'o, 'r, 'f) guardian_embedded_link \<times> poll_locals" where
  "poll_loop 0 link v = (link, v)"
| "poll_loop (Suc n) link v =
     (case the (io_read_byte (lk_io link)) (io_context (lk_io link)) (pl_byte v) of
        (got, b, context') \<Rightarrow>
          let link1 = link\<lparr>lk_io := (lk_io link)\<lparr>io_context := context'\<rparr>\<rparr>; v1 = v\<lparr>pl_byte := b\<rparr> in
          if \<not> got then (link1, v1)
          else case poll_byte link1 v1 of (link2, v2) \<Rightarrow> poll_loop n link2 v2)"

text \<open>The end of a poll: at most one due telemetry frame.\<close>

definition poll_telemetry ::
  "('w, 'o, 'r, 'f) guardian_embedded_link \<Rightarrow> guardian_frame \<Rightarrow> ('w, 'o, 'r, 'f) guardian_embedded_link" where
  "poll_telemetry link output =
     (case guardian_telemetry_make_due_frame (Some (lk_telemetry link)) (lk_state link) (Some output) of
        (due, telemetry, frame) \<Rightarrow>
          let link1 = link\<lparr>lk_telemetry := the telemetry\<rparr> in
          if due then guardian_embedded_transmit link1 (the frame) else link1)"

definition guardian_embedded_link_poll ::
  "('w, 'o, 'r, 'f) guardian_embedded_link ptr \<Rightarrow> nat \<Rightarrow> ('w, 'o, 'r, 'f) guardian_embedded_link ptr" where
  "guardian_embedded_link_poll link rx_budget =
     (case link of
        None \<Rightarrow> None
      | Some l \<Rightarrow>
          let budget = (if rx_budget = 0 then GUARDIAN_EMBEDDED_DEFAULT_RX_BUDGET else rx_budget) in
          case poll_loop budget l initial_locals of
            (l', v) \<Rightarrow> Some (poll_telemetry l' (pl_output v)))"

end
