(* ===== verification/Guardian_Link_Service.thy ===== *)
theory Guardian_Link_Service
  imports Guardian_Embedded_Link
begin

text \<open>
  The embedded link as a composition: an invariant that collects the invariants of the components
  it owns, a proof that each received frame is answered by exactly one frame for its command and
  sequence, and the two safety properties of the dispatch: privileged state changes only through an
  authorized command, and no received byte raises the run permit.
\<close>

section \<open>Invariant\<close>

definition link_inv :: "('o ptr \<Rightarrow> u8) \<Rightarrow> ('w, 'o, 'r, 'f) guardian_embedded_link \<Rightarrow> bool" where
  "link_inv cmd l \<longleftrightarrow> parser_inv (lk_parser l) \<and> device_configured (lk_service l) \<and> telemetry_inv (lk_telemetry l)
     \<and> health_inv (lk_health l) \<and> control_inv cmd (lk_control l) \<and> sec_inv (lk_security l)"

text \<open>The frame that the link sends for a request.\<close>

definition replies :: "guardian_frame \<Rightarrow> guardian_frame \<Rightarrow> bool" where
  "replies req out \<longleftrightarrow> encodable out \<and> command out = command req \<and> sequence out = sequence req
     \<and> message_type out \<in> {GUARDIAN_MESSAGE_RESPONSE, GUARDIAN_MESSAGE_ERROR}"

lemma answers_replies: "answers req out \<Longrightarrow> replies req out"
  by (simp add: answers_def replies_def)

lemma zero_frame_payload [simp]: "length (payload zero_frame) = 256" "payload_length zero_frame = 0"
  by (simp_all add: zero_frame_def)

lemma embedded_error_answers [simp]: "answers req (guardian_embedded_make_error req e)"
  by (simp add: answers_def guardian_embedded_make_error_def encodable_def wf_frame_def
      guardian_message_type_is_valid_def)

lemma embedded_response_answers [simp]:
  "answers req (guardian_embedded_make_response req)"
  by (simp add: answers_def guardian_embedded_make_response_def encodable_def wf_frame_def
      guardian_message_type_is_valid_def)

lemma filled_response_answers:
  "length pl = 256 \<Longrightarrow> unat n \<le> 223 \<Longrightarrow>
   answers req (guardian_embedded_make_response req\<lparr>payload := pl, payload_length := n\<rparr>)"
  by (simp add: answers_def guardian_embedded_make_response_def encodable_def wf_frame_def
      guardian_message_type_is_valid_def)

lemma length_make_response [simp]: "length (payload (guardian_embedded_make_response req)) = 256"
  by (simp add: guardian_embedded_make_response_def)

section \<open>Frame conditions\<close>

lemma sync_fields [simp]:
  "lk_parser (guardian_embedded_sync_control_state l) = lk_parser l"
  "lk_service (guardian_embedded_sync_control_state l) = lk_service l"
  "lk_telemetry (guardian_embedded_sync_control_state l) = lk_telemetry l"
  "lk_health (guardian_embedded_sync_control_state l) = lk_health l"
  "lk_control (guardian_embedded_sync_control_state l) = lk_control l"
  "lk_security (guardian_embedded_sync_control_state l) = lk_security l"
  "lk_firmware (guardian_embedded_sync_control_state l) = lk_firmware l"
  "lk_security_required (guardian_embedded_sync_control_state l) = lk_security_required l"
  "lk_io (guardian_embedded_sync_control_state l) = lk_io l"
  "lk_stats (guardian_embedded_sync_control_state l) = lk_stats l"
  by (simp_all add: guardian_embedded_sync_control_state_def Let_def)

lemma link_inv_sync [simp]: "link_inv cmd (guardian_embedded_sync_control_state l) = link_inv cmd l"
  by (simp add: link_inv_def)

text \<open>\<open>same_wiring\<close>: nothing but components served by a request has changed.\<close>

definition same_wiring :: "('w, 'o, 'r, 'f) guardian_embedded_link \<Rightarrow> ('w, 'o, 'r, 'f) guardian_embedded_link \<Rightarrow> bool" where
  "same_wiring l l' \<longleftrightarrow> lk_parser l' = lk_parser l \<and> lk_service l' = lk_service l \<and> lk_stats l' = lk_stats l
     \<and> lk_security_required l' = lk_security_required l
     \<and> io_read_byte (lk_io l') = io_read_byte (lk_io l) \<and> io_write (lk_io l') = io_write (lk_io l)
     \<and> io_uptime_seconds (lk_io l') = io_uptime_seconds (lk_io l)"

definition privileged_state :: "('w, 'o, 'r, 'f) guardian_embedded_link
     \<Rightarrow> guardian_health \<times> 'o guardian_control \<times> 'f guardian_firmware_lifecycle" where
  "privileged_state l = (lk_health l, lk_control l, lk_firmware l)"

lemma read_uptime_effect:
  "read_uptime l = (now, l') \<Longrightarrow>
   link_inv cmd l' = link_inv cmd l \<and> same_wiring l l' \<and> privileged_state l' = privileged_state l
   \<and> lk_security l' = lk_security l \<and> lk_telemetry l' = lk_telemetry l
   \<and> (\<exists>c. lk_io l' = (lk_io l)\<lparr>io_context := c\<rparr>
        \<and> the (io_uptime_seconds (lk_io l)) (io_context (lk_io l)) = (now, c))"
  by (auto simp: read_uptime_def link_inv_def same_wiring_def privileged_state_def split: prod.splits)

section \<open>Privileged commands\<close>

lemma firmware_reply_answers [simp]: "answers req (firmware_reply req r)"
  by (simp add: firmware_reply_def)

lemma update_health_inv:
  "control_inv cmd c \<Longrightarrow> control_inv cmd (the (guardian_control_update_health (Some c) (Some h)))"
  using control_exec_inv [of cmd c "Update_health h"] by simp

lemma health_request_served:
  assumes "health_inv h" "wf_frame resp"
  shows "\<exists>h' out. guardian_health_handle_request (Some h) (Some req) (Some resp) = (GUARDIAN_PROTOCOL_OK, Some h', Some out)
    \<and> health_inv h' \<and> answers req out"
proof -
  obtain r h' out where s: "served guardian_health_handle_request h req resp = (r, h', out)" by (metis prod_cases3)
  note a = health.handled [OF assms s]
  have "\<exists>g f. guardian_health_handle_request (Some h) (Some req) (Some resp) = (r, Some g, Some f)"
    using s by (auto simp: served_def guardian_health_handle_request_def split: prod.splits if_splits)
  with s a show ?thesis by (auto simp: served_def)
qed

lemma dispatch_privileged_ok:
  assumes inv: "link_inv cmd l" and resp: "wf_frame resp"
    and d: "guardian_embedded_dispatch_privileged l req resp = (r, l', out)"
  shows "r = GUARDIAN_PROTOCOL_OK \<and> link_inv cmd l' \<and> answers req out \<and> same_wiring l l'
    \<and> lk_security l' = lk_security l \<and> lk_telemetry l' = lk_telemetry l \<and> lk_io l' = lk_io l"
proof -
  obtain h' o1 where h: "guardian_health_handle_request (Some (lk_health l)) (Some req) (Some resp)
      = (GUARDIAN_PROTOCOL_OK, Some h', Some o1)" "health_inv h'" "answers req o1"
    using health_request_served [OF _ resp] inv unfolding link_inv_def by blast
  obtain c' o2 where c: "guardian_control_handle_request (Some (lk_control l)) (Some req) (Some resp)
      = (GUARDIAN_PROTOCOL_OK, Some c', Some o2)" "answers req o2"
    using control_answers [OF resp] by blast
  have ci: "control_inv cmd (lk_control l)" using inv by (simp add: link_inv_def)
  have "control_inv cmd c'" using control_exec_inv [OF ci, of "Host_request req resp"] c(1) by simp
  then show ?thesis
    using d inv h c update_health_inv [OF ci]
    by (auto simp: guardian_embedded_dispatch_privileged_def link_inv_def same_wiring_def
        guardian_embedded_update_control_health_def Let_def split: if_splits prod.splits)
qed

section \<open>The run permit\<close>

lemma apply_output_health:
  "cs_health_state (ct_status (snd (guardian_control_apply_output c v))) = cs_health_state (ct_status c)"
proof (cases "out_apply (ct_output c) = None")
  case False
  obtain ok c1 where c1: "call_output c (if v \<noteq> 0 then 1 else 0) = (ok, c1)" by fastforce
  then have "ct_status c1 = ct_status c" by (auto elim!: call_outputE)
  then show ?thesis using False c1 latch_fault_effect(7) [of 8 c1]
    by (auto simp: guardian_control_apply_output_def)
qed (simp add: guardian_control_apply_output_def refresh_active_def upd_def)

lemma evaluate_health: "cs_health_state (ct_status (guardian_control_evaluate c)) = cs_health_state (ct_status c)"
proof -
  define d where "d = refresh_active c"
  have d: "cs_health_state (ct_status d) = cs_health_state (ct_status c)" by (simp add: d_def refresh_active_def upd_def)
  obtain ok e where e: "(if out_apply (ct_output d) \<noteq> None then call_output d 0 else (True, d)) = (ok, e)" by fastforce
  then have "ct_status e = ct_status d" by (auto elim!: call_outputE split: if_splits)
  then show ?thesis
    using d e apply_output_health [of d 0] apply_output_health [of d 1]
    by (auto simp: guardian_control_evaluate_def Let_def d_def [symmetric] latch_fault_effect split: prod.splits)
qed

lemma unready_health_no_permit:
  assumes "control_inv cmd c" "hs_state h \<in> {GUARDIAN_HEALTH_STATE_UNTRAINED, GUARDIAN_HEALTH_STATE_LEARNING}"
  shows "cs_run_permit (ct_status (the (guardian_control_update_health (Some c) (Some h)))) = 0"
proof -
  let ?d = "the (guardian_control_update_health (Some c) (Some h))"
  have "cs_health_state (ct_status ?d) = hs_state h"
    by (simp add: guardian_control_update_health_def evaluate_health upd_def)
  then show ?thesis
    using update_health_inv [OF assms(1), of h] assms(2) by (auto simp: control_inv_def permit_envelope_def)
qed

lemma health_response_unready:
  assumes "guardian_health_handle_request (Some h) (Some req) (Some resp) = (r, Some h', Some out)" "health_inv h"
    "command req = GUARDIAN_COMMAND_BASELINE_CONTROL" "message_type out = GUARDIAN_MESSAGE_RESPONSE"
  shows "hs_state (hl_status h') \<in> {GUARDIAN_HEALTH_STATE_UNTRAINED, GUARDIAN_HEALTH_STATE_LEARNING}"
proof -
  obtain ok g where g: "guardian_health_start_baseline (Some h) (guardian_health_read_u16_be (payload req) 2) = (ok, Some g)"
    using start_baseline_defined by blast
  have "hs_state (hl_status initial_health) = GUARDIAN_HEALTH_STATE_UNTRAINED"
    by (simp add: initial_health_def zero_health_status_def)
  then show ?thesis
    using assms g start_baseline_inv(2) [OF g assms(2)]
    by (auto simp: guardian_health_handle_request_def baseline_control_def guardian_health_make_error_def
        guardian_health_reset_def Let_def split: if_splits)
qed

text \<open>The permit of a link, and an operation that does not raise it.\<close>

definition permit_kept :: "('w, 'o, 'r, 'f) guardian_embedded_link \<Rightarrow> ('w, 'o, 'r, 'f) guardian_embedded_link \<Rightarrow> bool" where
  "permit_kept l l' \<longleftrightarrow> (guardian_embedded_link_run_permit (Some l') \<noteq> 0 \<longrightarrow> guardian_embedded_link_run_permit (Some l) \<noteq> 0)"

lemma permit_kept_same: "lk_control l' = lk_control l \<Longrightarrow> permit_kept l l'"
  by (simp add: permit_kept_def guardian_embedded_link_run_permit_def)

lemma permit_kept_trans: "permit_kept a b \<Longrightarrow> permit_kept b c \<Longrightarrow> permit_kept a c"
  by (auto simp: permit_kept_def)

lemma control_request_permit:
  assumes "control_inv cmd c" "guardian_control_handle_request (Some c) (Some req) (Some resp) = (r, Some c', out)"
    "cs_run_permit (ct_status c') \<noteq> 0"
  shows "cs_run_permit (ct_status c) \<noteq> 0"
proof -
  have "c' = the (fst (snd (guardian_control_handle_request (Some c) (Some req) (Some resp))))" using assms(2) by simp
  then show ?thesis
    using assms(3) control_action_inv [OF assms(1), of "ucast (payload req ! 1)"]
    unfolding handle_request_control by (auto split: if_splits)
qed

lemma dispatch_privileged_permit:
  assumes inv: "link_inv cmd l" and resp: "wf_frame resp"
    and d: "guardian_embedded_dispatch_privileged l req resp = (r, l', out)"
  shows "permit_kept l l'"
proof -
  obtain h' o1 where h: "guardian_health_handle_request (Some (lk_health l)) (Some req) (Some resp)
      = (GUARDIAN_PROTOCOL_OK, Some h', Some o1)"
    using health_request_served [OF _ resp] inv unfolding link_inv_def by blast
  obtain c' o2 where c: "guardian_control_handle_request (Some (lk_control l)) (Some req) (Some resp)
      = (GUARDIAN_PROTOCOL_OK, Some c', Some o2)"
    using control_answers [OF resp] by blast
  have ci: "control_inv cmd (lk_control l)" "health_inv (lk_health l)" using inv by (simp_all add: link_inv_def)
  have b: "cs_run_permit (ct_status (the (guardian_control_update_health (Some (lk_control l)) (Some (hl_status h'))))) = 0"
    if "command req = GUARDIAN_COMMAND_BASELINE_CONTROL" "message_type o1 = GUARDIAN_MESSAGE_RESPONSE"
    using health_response_unready [OF h ci(2) that] by (rule unready_health_no_permit [OF ci(1)])
  show ?thesis
    using d h c b control_request_permit [OF ci(1) c]
    by (auto simp: guardian_embedded_dispatch_privileged_def permit_kept_def guardian_embedded_link_run_permit_def
        guardian_control_run_permit_def guardian_embedded_update_control_health_def guardian_health_status_of_def
        Let_def split: if_splits prod.splits)
qed

section \<open>Requests\<close>

lemma auth_begin_reply:
  assumes "auth_begin_core s req n now resp 256 rlen = (GUARDIAN_SECURITY_OK, s', b, m)" "length resp = 256"
    "sec_inv s" "unat n \<le> length req"
  shows "length b = 256 \<and> unat m \<le> 223"
  using assms
  by (auto simp: auth_begin_core_def Let_def guardian_security_write_u32_be_def length_buf_write
      split: if_splits prod.splits option.splits)

lemma auth_finish_reply:
  assumes "auth_finish_core s req n now resp 256 rlen = (GUARDIAN_SECURITY_OK, s', b, m)" "length resp = 256"
  shows "length b = 256 \<and> unat m \<le> 223"
  using assms
  by (auto simp: auth_finish_core_def Let_def guardian_security_write_u32_be_def guardian_security_write_u16_be_def
      split: if_splits prod.splits option.splits)

text \<open>What a request handled by the link itself guarantees: it touches the security context only.\<close>

definition security_only :: "('o ptr \<Rightarrow> u8) \<Rightarrow> ('w, 'o, 'r, 'f) guardian_embedded_link \<Rightarrow> guardian_frame
     \<Rightarrow> ('w, 'o, 'r, 'f) guardian_embedded_link \<Rightarrow> guardian_frame \<Rightarrow> bool" where
  "security_only cmd l req l' out \<longleftrightarrow> link_inv cmd l' \<and> answers req out \<and> (\<exists>s. l' = l\<lparr>lk_security := s\<rparr>)"

lemma auth_begin_request_ok:
  assumes "link_inv cmd l" "wf_outer req" "auth_begin_request l req now = (l', out)"
  shows "security_only cmd l req l' out"
proof -
  obtain r s' b m where b: "auth_begin_core (lk_security l) (payload req) (payload_length req) now
      (payload (guardian_embedded_make_response req)) 256 (payload_length (guardian_embedded_make_response req)) = (r, s', b, m)"
    by (metis prod_cases4)
  have n: "sec_inv (lk_security l)" "unat (payload_length req) \<le> length (payload req)"
    using assms by (simp_all add: link_inv_def wf_outer_def wf_frame_def)
  have "sec_inv s'" using auth_begin_core_inv [OF n] b by (metis fst_conv snd_conv)
  moreover have "r = GUARDIAN_SECURITY_OK \<Longrightarrow> length b = 256 \<and> unat m \<le> 223"
    using auth_begin_reply b n by (metis length_make_response)
  ultimately show ?thesis
    using assms b by (auto simp: security_only_def auth_begin_request_def auth_begin_Some Let_def link_inv_def
        intro: filled_response_answers split: if_splits)
qed

lemma auth_finish_request_ok:
  assumes "link_inv cmd l" "wf_outer req" "auth_finish_request l req now = (l', out)"
  shows "security_only cmd l req l' out"
proof -
  obtain r s' b m where b: "auth_finish_core (lk_security l) (payload req) (payload_length req) now
      (payload (guardian_embedded_make_response req)) 256 (payload_length (guardian_embedded_make_response req)) = (r, s', b, m)"
    by (metis prod_cases4)
  have n: "sec_inv (lk_security l)" "unat (payload_length req) \<le> length (payload req)"
    using assms by (simp_all add: link_inv_def wf_outer_def wf_frame_def)
  have "sec_inv s'" using auth_finish_core_inv [OF n] b by (metis fst_conv snd_conv)
  moreover have "r = GUARDIAN_SECURITY_OK \<Longrightarrow> length b = 256 \<and> unat m \<le> 223"
    using auth_finish_reply b by (metis length_make_response)
  ultimately show ?thesis
    using assms b by (auto simp: security_only_def auth_finish_request_def auth_finish_Some Let_def link_inv_def
        intro: filled_response_answers split: if_splits)
qed

lemma security_status_request_ok:
  assumes "link_inv cmd l" "security_status_request l req now = (l', out)"
  shows "security_only cmd l req l' out"
proof (cases "payload_length req = 0")
  case True
  have "\<exists>st s'. guardian_security_status (Some (lk_security l)) now = (st, Some s')"
    by (cases "guardian_security_status (Some (lk_security l)) now")
      (auto simp: guardian_security_status_def Let_def split: if_splits)
  then obtain st s' where s: "guardian_security_status (Some (lk_security l)) now = (st, Some s')" by blast
  then have "sec_inv s'" using sec_inv_status [of "lk_security l" now] assms(1) by (simp add: link_inv_def)
  moreover obtain b m where e: "guardian_security_encode_status_payload (Some st) (Some (payload (guardian_embedded_make_response req)))
      256 (Some (payload_length (guardian_embedded_make_response req))) = (GUARDIAN_SECURITY_OK, Some b, Some m)"
      "length b = 256" "unat m \<le> 223"
    by (simp add: guardian_security_encode_status_payload_def Let_def guardian_security_write_u32_be_def
        guardian_security_write_u16_be_def guardian_security_write_u64_be_def)
  ultimately show ?thesis
    using assms True s filled_response_answers [OF e(2,3)]
    by (auto simp: security_only_def security_status_request_def link_inv_def Let_def)
next
  case False
  then show ?thesis using assms by (auto simp: security_only_def security_status_request_def intro: exI [of _ "lk_security l"])
qed

lemma firmware_status_answers: "answers req (firmware_status_request l req)"
  by (auto simp: firmware_status_request_def guardian_firmware_encode_status_payload_def Let_def
      guardian_firmware_write_u32_be_def guardian_firmware_write_u16_be_def intro!: filled_response_answers)

text \<open>The protected branch: an accepted, authorized command is dispatched and its answer wrapped.\<close>

definition authorized_secure_command :: "'r guardian_security \<Rightarrow> guardian_frame \<Rightarrow> u32 \<Rightarrow> bool" where
  "authorized_secure_command s req now \<longleftrightarrow>
     (case unwrap_core s req now zero_frame 0 of (r, s', inner, ctr) \<Rightarrow>
        r = GUARDIAN_SECURITY_OK \<and> guardian_security_required_role (command inner) \<le> se_role (s_session s')
        \<and> privileged_command (command inner))"

lemma authorize_effect:
  "guardian_security_authorize (Some s) c = (ok, s') \<Longrightarrow>
   (ok \<longrightarrow> guardian_security_required_role c \<le> se_role (s_session s) \<and> s' = Some s)
   \<and> (s' = Some s \<or> s' = Some (unauthorized s))"
  by (auto simp: guardian_security_authorize_def not_less split: if_splits)

lemma unauthorized_fields [simp]:
  "s_session (unauthorized s) = s_session s" "sec_inv (unauthorized s) = sec_inv s"
  by (simp_all add: unauthorized_def sec_inv_def role_ok_def)

lemma dispatch_privileged_unchanged:
  "guardian_embedded_dispatch_privileged l req resp = (r, l', out) \<Longrightarrow> \<not> privileged_command (command req) \<Longrightarrow> l' = l"
  by (auto simp: guardian_embedded_dispatch_privileged_def privileged_command_def split: if_splits)

lemma secure_request_ok:
  assumes inv: "link_inv cmd l" and out0: "wf_frame out0"
    and q: "secure_request l req now GUARDIAN_PROTOCOL_OK out0 = (r, l', out)"
  shows "r = GUARDIAN_PROTOCOL_OK \<and> link_inv cmd l' \<and> replies req out \<and> same_wiring l l' \<and> lk_io l' = lk_io l
    \<and> lk_telemetry l' = lk_telemetry l \<and> permit_kept l l'
    \<and> (privileged_state l' = privileged_state l \<or> authorized_secure_command (lk_security l) req now)"
proof -
  obtain ur s1 inner ctr where u: "unwrap_core (lk_security l) req now zero_frame 0 = (ur, s1, inner, ctr)"
    by (metis prod_cases4)
  have s1: "sec_inv s1" using unwrap_core_inv [of "lk_security l" req now zero_frame 0] inv u by (simp add: link_inv_def)
  let ?l1 = "l\<lparr>lk_security := s1\<rparr>"
  show ?thesis
  proof (cases "ur = GUARDIAN_SECURITY_OK")
    case False
    then show ?thesis
      using q u inv s1 by (auto simp: secure_request_def unwrap_Some Let_def link_inv_def same_wiring_def
          privileged_state_def intro: answers_replies permit_kept_same)
  next
    case True
    obtain ok s2 where au: "guardian_security_authorize (Some s1) (command inner) = (ok, s2)" by fastforce
    have "se_valid (s_session s1) \<noteq> 0" using unwrap_core_session [OF u] True by (auto simp: live_def)
    moreover obtain t where t: "s2 = Some t" "s_session t = s_session s1" "sec_inv t"
        "ok \<Longrightarrow> guardian_security_required_role (command inner) \<le> se_role (s_session s1)"
      using authorize_effect [OF au] s1 by auto
    ultimately have k: "se_valid (s_session t) \<noteq> 0" "length (se_session_key (s_session t)) = 32"
      by (simp_all add: sec_inv_def)
    let ?l2 = "l\<lparr>lk_security := t\<rparr>"
    have inv2: "link_inv cmd ?l2" using inv t by (simp add: link_inv_def)
    obtain r3 l3 resp where d: "(if \<not> ok then (GUARDIAN_PROTOCOL_OK, ?l2, guardian_embedded_make_error inner GUARDIAN_ERROR_UNAUTHORIZED)
        else guardian_embedded_dispatch_privileged ?l2 inner zero_frame) = (r3, l3, resp)" by (metis prod_cases3)
    have l3: "r3 = GUARDIAN_PROTOCOL_OK \<and> link_inv cmd l3 \<and> answers inner resp \<and> same_wiring ?l2 l3
        \<and> lk_security l3 = lk_security ?l2 \<and> lk_telemetry l3 = lk_telemetry ?l2 \<and> lk_io l3 = lk_io ?l2"
    proof (cases ok)
      case True
      then show ?thesis using d by (intro dispatch_privileged_ok [OF inv2 wf_zero_frame]) simp
    next
      case False
      then show ?thesis using d inv2 by (auto simp: same_wiring_def)
    qed
    have "permit_kept ?l2 l3"
    proof (cases ok)
      case True
      then show ?thesis using d by (intro dispatch_privileged_permit [OF inv2 wf_zero_frame, of inner r3 l3 resp]) simp
    next
      case False
      then show ?thesis using d by (auto simp: permit_kept_same)
    qed
    moreover have "permit_kept l ?l2" by (rule permit_kept_same) simp
    ultimately have "permit_kept l l3" by (blast intro: permit_kept_trans)
    moreover
    have "privileged_state l3 = privileged_state l \<or> authorized_secure_command (lk_security l) req now"
    proof (cases "ok \<and> privileged_command (command inner)")
      case True
      then show ?thesis using t(4) u \<open>ur = GUARDIAN_SECURITY_OK\<close> by (simp add: authorized_secure_command_def)
    next
      case False
      then have "l3 = ?l2" using d dispatch_privileged_unchanged by (auto split: if_splits)
      then show ?thesis by (simp add: privileged_state_def)
    qed
    moreover have "wf_frame resp" "unat (payload_length resp) \<le> 223"
      using l3 by (auto simp: answers_def encodable_def)
    then obtain w where w: "wrap_core t req ctr resp out0 = (GUARDIAN_SECURITY_OK, w)" "encodable w"
        "command w = command req" "sequence w = sequence req" "message_type w = 2"
      using wrap_core_ok [OF k, of resp req ctr out0] by blast
    ultimately show ?thesis
      using q u True au t d l3
      by (simp add: secure_request_def unwrap_Some Let_def guardian_security_wrap_response_def same_wiring_def replies_def
          split: if_splits)
  qed
qed

section \<open>One received frame\<close>

lemma telemetry_request_served:
  assumes "telemetry_inv t" "wf_frame resp"
  shows "\<exists>t' out. guardian_telemetry_handle_request (Some t) (Some req) (Some resp) = (GUARDIAN_PROTOCOL_OK, Some t', Some out)
    \<and> telemetry_inv t' \<and> answers req out"
proof -
  obtain r t' out where s: "served guardian_telemetry_handle_request t req resp = (r, t', out)" by (metis prod_cases3)
  note a = telemetry.handled [OF assms s]
  have "\<exists>g f. guardian_telemetry_handle_request (Some t) (Some req) (Some resp) = (r, Some g, Some f)"
    using s by (auto simp: served_def guardian_telemetry_handle_request_def Let_def split: prod.splits if_splits)
  with s a show ?thesis by (auto simp: served_def)
qed

text \<open>The ways in which a received frame may change the health model, the control state and the
  update lifecycle.\<close>

definition privileged_access :: "u32 \<Rightarrow> ('w, 'o, 'r, 'f) guardian_embedded_link \<Rightarrow> guardian_frame
     \<Rightarrow> ('w, 'o, 'r, 'f) guardian_embedded_link \<Rightarrow> bool" where
  "privileged_access now l req l' \<longleftrightarrow> privileged_state l' = privileged_state l
     \<or> command req = GUARDIAN_COMMAND_SECURE_COMMAND \<and> authorized_secure_command (lk_security l) req now
     \<or> lk_security_required l = 0 \<and> command req \<in> {GUARDIAN_COMMAND_BASELINE_CONTROL, GUARDIAN_COMMAND_CONTROL_COMMAND}
        \<and> lk_firmware l' = lk_firmware l"

definition frame_handled :: "('o ptr \<Rightarrow> u8) \<Rightarrow> u32 \<Rightarrow> ('w, 'o, 'r, 'f) guardian_embedded_link \<Rightarrow> guardian_frame
     \<Rightarrow> guardian_protocol_result \<Rightarrow> ('w, 'o, 'r, 'f) guardian_embedded_link \<Rightarrow> guardian_frame \<Rightarrow> bool" where
  "frame_handled cmd now l req r l' out \<longleftrightarrow> r = GUARDIAN_PROTOCOL_OK \<and> link_inv cmd l' \<and> replies req out \<and> same_wiring l l'
     \<and> permit_kept l l' \<and> privileged_access now l req l'"

lemma frame_handledI:
  "link_inv cmd l' \<Longrightarrow> answers req out \<Longrightarrow> same_wiring l l' \<Longrightarrow> privileged_state l' = privileged_state l \<Longrightarrow>
   frame_handled cmd now l req GUARDIAN_PROTOCOL_OK l' out"
  by (auto simp: frame_handled_def privileged_access_def answers_replies privileged_state_def intro: permit_kept_same)

lemma security_only_handled:
  "security_only cmd l req l' out \<Longrightarrow> frame_handled cmd now l req GUARDIAN_PROTOCOL_OK l' out"
  by (rule frame_handledI) (auto simp: security_only_def same_wiring_def privileged_state_def)

lemma firmware_kept:
  "guardian_embedded_dispatch_privileged l req resp = (r, l', out) \<Longrightarrow> \<not> is_firmware_command (command req) \<Longrightarrow>
   lk_firmware l' = lk_firmware l"
  by (auto simp: guardian_embedded_dispatch_privileged_def guardian_embedded_update_control_health_def Let_def
      split: if_splits prod.splits)

lemma direct_privileged_handled:
  assumes "link_inv cmd l" "wf_frame out0" "guardian_embedded_dispatch_privileged l req out0 = (r, l', out)"
    "lk_security_required l = 0" "command req \<in> {GUARDIAN_COMMAND_BASELINE_CONTROL, GUARDIAN_COMMAND_CONTROL_COMMAND}"
  shows "frame_handled cmd now l req r l' out"
proof -
  have "\<not> is_firmware_command (command req)" using assms(5) by (auto simp: is_firmware_command_def)
  then show ?thesis
    using dispatch_privileged_ok [OF assms(1-3)] dispatch_privileged_permit [OF assms(1-3)] firmware_kept [OF assms(3)] assms(4,5)
    by (auto simp: frame_handled_def privileged_access_def intro: answers_replies)
qed

lemma local_reply_handled: "link_inv cmd l \<Longrightarrow> answers req out \<Longrightarrow> frame_handled cmd now l req GUARDIAN_PROTOCOL_OK l out"
  by (rule frame_handledI) (simp_all add: same_wiring_def)

lemma device_request_handled:
  assumes "link_inv cmd l" "wf_frame out0"
    "(case guardian_embedded_runtime l of (rt, l1) \<Rightarrow>
       case guardian_device_service_handle (Some (lk_service l1)) (Some rt) (Some req) (Some out0) of
         (r, out) \<Rightarrow> (r, l1, the out)) = (r, l', out)"
  shows "frame_handled cmd now l req r l' out"
proof -
  obtain rt l1 where rt: "guardian_embedded_runtime l = (rt, l1)" by fastforce
  have l1: "link_inv cmd l1" "same_wiring l l1" "privileged_state l1 = privileged_state l"
    using assms(1) rt read_uptime_effect [of l _ _ cmd] by (auto simp: guardian_embedded_runtime_def split: prod.splits)
  obtain out1 where o: "guardian_device_service_handle (Some (lk_service l1)) (Some rt) (Some req) (Some out0)
      = (GUARDIAN_PROTOCOL_OK, Some out1)" "answers req out1"
    using device_service_answers [OF _ assms(2)] l1(1) unfolding link_inv_def by blast
  then show ?thesis using frame_handledI [OF l1(1) o(2) l1(2,3)] assms(3) rt by simp
qed

lemma served_requests_handled:
  assumes inv: "link_inv cmd l" and out0: "wf_frame out0"
  shows "(case guardian_telemetry_handle_request (Some (lk_telemetry l)) (Some req) (Some out0) of
      (r, t, out) \<Rightarrow> (r, l\<lparr>lk_telemetry := the t\<rparr>, the out)) = (r, l', out) \<Longrightarrow> frame_handled cmd now l req r l' out"
    and "(case guardian_dsp_handle_request (Some (lk_dsp_features l)) (lk_dsp_features_valid l) (Some req) (Some out0) of
      (r, out) \<Rightarrow> (r, l, the out)) = (r, l', out) \<Longrightarrow> frame_handled cmd now l req r l' out"
    and "command req = GUARDIAN_COMMAND_GET_HEALTH_STATUS \<Longrightarrow>
      (case guardian_health_handle_request (Some (lk_health l)) (Some req) (Some out0) of
      (r, h, out) \<Rightarrow> (r, l\<lparr>lk_health := the h\<rparr>, the out)) = (r, l', out) \<Longrightarrow> frame_handled cmd now l req r l' out"
    and "command req = GUARDIAN_COMMAND_GET_CONTROL_STATUS \<Longrightarrow>
      (case guardian_control_handle_request (Some (lk_control l)) (Some req) (Some out0) of
      (r, c, out) \<Rightarrow> (r, guardian_embedded_sync_control_state (l\<lparr>lk_control := the c\<rparr>), the out)) = (r, l', out)
      \<Longrightarrow> frame_handled cmd now l req r l' out"
proof -
  have parts: "telemetry_inv (lk_telemetry l)" "health_inv (lk_health l)" using inv by (simp_all add: link_inv_def)
  show "frame_handled cmd now l req r l' out"
    if "(case guardian_telemetry_handle_request (Some (lk_telemetry l)) (Some req) (Some out0) of
      (r, t, out) \<Rightarrow> (r, l\<lparr>lk_telemetry := the t\<rparr>, the out)) = (r, l', out)"
    using telemetry_request_served [OF parts(1) out0, of req] that inv
    by (auto simp: link_inv_def same_wiring_def privileged_state_def intro!: frame_handledI)
  show "frame_handled cmd now l req r l' out"
    if "(case guardian_dsp_handle_request (Some (lk_dsp_features l)) (lk_dsp_features_valid l) (Some req) (Some out0) of
      (r, out) \<Rightarrow> (r, l, the out)) = (r, l', out)"
    using dsp_service_answers [OF out0, of "Some (lk_dsp_features l)" "lk_dsp_features_valid l" req] that inv
    by (auto simp: same_wiring_def intro!: frame_handledI)
  show "frame_handled cmd now l req r l' out"
    if c: "command req = GUARDIAN_COMMAND_GET_HEALTH_STATUS"
      and "(case guardian_health_handle_request (Some (lk_health l)) (Some req) (Some out0) of
      (r, h, out) \<Rightarrow> (r, l\<lparr>lk_health := the h\<rparr>, the out)) = (r, l', out)"
  proof -
    have "fst (snd (guardian_health_handle_request (Some (lk_health l)) (Some req) (Some out0))) = Some (lk_health l)"
      using c by (simp add: guardian_health_handle_request_def split: prod.splits)
    then show ?thesis
      using health_request_served [OF parts(2) out0, of req] that inv
      by (auto simp: link_inv_def same_wiring_def privileged_state_def intro!: frame_handledI)
  qed
  show "frame_handled cmd now l req r l' out"
    if c: "command req = GUARDIAN_COMMAND_GET_CONTROL_STATUS"
      and "(case guardian_control_handle_request (Some (lk_control l)) (Some req) (Some out0) of
      (r, c, out) \<Rightarrow> (r, guardian_embedded_sync_control_state (l\<lparr>lk_control := the c\<rparr>), the out)) = (r, l', out)"
  proof -
    have "fst (snd (guardian_control_handle_request (Some (lk_control l)) (Some req) (Some out0))) = Some (lk_control l)"
      using c by (simp add: guardian_control_handle_request_def split: prod.splits)
    then show ?thesis
      using control_answers [OF out0, of "lk_control l" req] that inv
      by (auto simp: link_inv_def same_wiring_def privileged_state_def intro!: frame_handledI)
  qed
qed

lemma secure_request_handled:
  assumes "link_inv cmd l" "wf_frame out0" "command req = GUARDIAN_COMMAND_SECURE_COMMAND"
    "secure_request l req now GUARDIAN_PROTOCOL_OK out0 = (r, l', out)"
  shows "frame_handled cmd now l req r l' out"
  using secure_request_ok [OF assms(1,2,4)] assms(3) by (auto simp: frame_handled_def privileged_access_def)

lemma handled_after_uptime:
  assumes "read_uptime l0 = (now, l)" "frame_handled cmd now l req r l' out"
  shows "frame_handled cmd now l0 req r l' out"
  using read_uptime_effect [OF assms(1), of cmd] assms(2) permit_kept_same [of l l0]
  by (auto simp: frame_handled_def privileged_access_def same_wiring_def privileged_state_def intro: permit_kept_trans)

lemma dispatch_handled:
  assumes inv0: "link_inv cmd l0" and req: "wf_outer req" and out0: "wf_frame out0"
    and d: "dispatch_request l0 req GUARDIAN_PROTOCOL_OK out0 = (r, l', out)"
  shows "frame_handled cmd (fst (read_uptime l0)) l0 req r l' out"
proof -
  obtain now l where up: "read_uptime l0 = (now, l)" by fastforce
  have inv: "link_inv cmd l" using read_uptime_effect [OF up, of cmd] inv0 by simp
  have "frame_handled cmd now l req r l' out"
  proof (cases "command req = GUARDIAN_COMMAND_SECURE_COMMAND")
    case True
    then show ?thesis using d up secure_request_handled [OF inv out0 True] by (simp add: dispatch_request_def)
  next
    case False
    note own = security_only_handled [OF auth_begin_request_ok [OF inv req]]
      security_only_handled [OF auth_finish_request_ok [OF inv req]]
      security_only_handled [OF security_status_request_ok [OF inv]]
    show ?thesis
      using d False inv unfolding dispatch_request_def up prod.case
      by (auto simp: privileged_command_def firmware_status_answers
          intro: own local_reply_handled served_requests_handled [OF inv out0] direct_privileged_handled [OF inv out0]
            device_request_handled [OF inv out0] split: if_splits)
  qed
  from handled_after_uptime [OF up this] show ?thesis by (simp add: up)
qed

section \<open>One received byte\<close>

definition locals_ok :: "poll_locals \<Rightarrow> bool" where
  "locals_ok v \<longleftrightarrow> wf_frame (pl_request v) \<and> wf_frame (pl_output v) \<and> pl_protocol_result v = GUARDIAN_PROTOCOL_OK"

lemma note_error_fields [simp]:
  "lk_parser (note_error e l) = lk_parser l" "lk_io (note_error e l) = lk_io l" "lk_control (note_error e l) = lk_control l"
  "lk_telemetry (note_error e l) = lk_telemetry l" "link_inv cmd (note_error e l) = link_inv cmd l"
  "privileged_state (note_error e l) = privileged_state l"
  by (simp_all add: note_error_def link_inv_def privileged_state_def)

lemma record_error_fields [simp]:
  "lk_parser (guardian_embedded_record_response_error l f) = lk_parser l"
  "lk_io (guardian_embedded_record_response_error l f) = lk_io l"
  "lk_control (guardian_embedded_record_response_error l f) = lk_control l"
  "link_inv cmd (guardian_embedded_record_response_error l f) = link_inv cmd l"
  "privileged_state (guardian_embedded_record_response_error l f) = privileged_state l"
  by (simp_all add: guardian_embedded_record_response_error_def)

lemma transmit_fields [simp]:
  "lk_parser (guardian_embedded_transmit l f) = lk_parser l"
  "lk_control (guardian_embedded_transmit l f) = lk_control l"
  "link_inv cmd (guardian_embedded_transmit l f) = link_inv cmd l"
  "privileged_state (guardian_embedded_transmit l f) = privileged_state l"
  by (simp_all add: guardian_embedded_transmit_def note_error_def link_inv_def privileged_state_def Let_def split: prod.splits)

text \<open>Transmission hands the wire image of the frame to the transport, once.\<close>

lemma transmit_io:
  assumes "encodable f"
  shows "lk_io (guardian_embedded_transmit l f) = (lk_io l)\<lparr>io_context :=
    snd (the (io_write (lk_io l)) (io_context (lk_io l)) (wire_bytes (abs_frame f)))\<rparr>"
proof -
  have "length (wire_bytes (abs_frame f)) \<le> 272"
    using assms length_frame_payload [OF assms] by (simp add: abs_frame_def encodable_def)
  moreover have "guardian_protocol_encode (Some f) (Some (replicate 272 0)) 272 (Some 0) =
      (GUARDIAN_PROTOCOL_OK, Some (buf_write (replicate 272 0) 0 (wire_bytes (abs_frame f))), Some (length (wire_bytes (abs_frame f))))"
    using assms by (intro encode_ok) (auto simp: encodable_def)
  ultimately show ?thesis
    by (simp add: guardian_embedded_transmit_def take_buf_write_0 note_error_def Let_def split: prod.splits)
qed

text \<open>The link on which a complete frame is dispatched.\<close>

definition count_frame :: "('w, 'o, 'r, 'f) guardian_embedded_link \<Rightarrow> guardian_parser \<Rightarrow> ('w, 'o, 'r, 'f) guardian_embedded_link" where
  "count_frame l p = l\<lparr>lk_parser := p,
     lk_stats := (lk_stats l)\<lparr>ls_rx_frames := guardian_embedded_increment_u32 (ls_rx_frames (lk_stats l))\<rparr>\<rparr>"

lemma count_frame_fields [simp]:
  "lk_parser (count_frame l p) = p" "lk_io (count_frame l p) = lk_io l" "lk_control (count_frame l p) = lk_control l"
  "lk_security (count_frame l p) = lk_security l" "lk_security_required (count_frame l p) = lk_security_required l"
  "lk_firmware (count_frame l p) = lk_firmware l"
  "privileged_state (count_frame l p) = privileged_state l" "parser_inv p \<Longrightarrow> link_inv cmd l \<Longrightarrow> link_inv cmd (count_frame l p)"
  by (simp_all add: count_frame_def privileged_state_def link_inv_def)

lemma poll_byte_cases:
  assumes inv: "link_inv cmd l" and v: "locals_ok v" and pb: "poll_byte l v = (l', v')"
  obtains (quiet) pr where "parser_push (lk_parser l) (pl_byte v) (pl_request v) = (pr, lk_parser l', pl_request v')"
      "pr \<noteq> GUARDIAN_PARSER_FRAME_READY" "link_inv cmd l'" "locals_ok v'" "lk_io l' = lk_io l"
      "privileged_state l' = privileged_state l"
    | (frame) p l3 where "parser_push (lk_parser l) (pl_byte v) (pl_request v) = (GUARDIAN_PARSER_FRAME_READY, p, pl_request v')"
      "encodable (pl_request v')" "link_inv cmd (count_frame l p)" "locals_ok v'"
      "dispatch_request (count_frame l p) (pl_request v') GUARDIAN_PROTOCOL_OK (pl_output v) = (GUARDIAN_PROTOCOL_OK, l3, pl_output v')"
      "frame_handled cmd (fst (read_uptime (count_frame l p))) (count_frame l p) (pl_request v') GUARDIAN_PROTOCOL_OK l3 (pl_output v')"
      "l' = guardian_embedded_transmit (guardian_embedded_record_response_error l3 (pl_output v')) (pl_output v')"
      "lk_parser l' = p" "link_inv cmd l'"
proof -
  have pi: "parser_inv (lk_parser l)" "wf_frame (pl_request v)" using inv v by (simp_all add: link_inv_def locals_ok_def)
  obtain pr p req where push: "guardian_parser_push_byte (Some (lk_parser l)) (pl_byte v) (Some (pl_request v)) = (pr, Some p, Some req)"
      "parser_push (lk_parser l) (pl_byte v) (pl_request v) = (pr, p, req)" "parser_inv p" "wf_frame req"
      "push_outcome (lk_parser l) (pl_byte v) (pl_request v) pr p req"
    by (metis pi push_byte_outcome prod_cases3)
  show ?thesis
  proof (cases "pr = GUARDIAN_PARSER_FRAME_READY")
    case False
    then show ?thesis
      using pb push inv v
      by (intro quiet [of pr])
        (auto simp: poll_byte_def Let_def link_inv_def locals_ok_def privileged_state_def note_error_def split: if_splits)
  next
    case True
    have enc: "encodable req" using push(5) True by (auto simp: push_outcome_def)
    have ci: "link_inv cmd (count_frame l p)" using inv push(3) by simp
    obtain r l3 out where d: "dispatch_request (count_frame l p) req GUARDIAN_PROTOCOL_OK (pl_output v) = (r, l3, out)"
      by (metis prod_cases3)
    have "wf_outer req" using enc by (simp add: wf_outer_def encodable_def)
    then have fh: "frame_handled cmd (fst (read_uptime (count_frame l p))) (count_frame l p) req r l3 out"
      using dispatch_handled [OF ci _ _ d] v by (simp add: locals_ok_def)
    then have r: "r = GUARDIAN_PROTOCOL_OK" by (simp add: frame_handled_def)
    have c: "l\<lparr>lk_parser := p, lk_stats := (lk_stats (l\<lparr>lk_parser := p\<rparr>))\<lparr>ls_rx_frames :=
        guardian_embedded_increment_u32 (ls_rx_frames (lk_stats (l\<lparr>lk_parser := p\<rparr>)))\<rparr>\<rparr> = count_frame l p"
      by (simp add: count_frame_def)
    have res: "l' = guardian_embedded_transmit (guardian_embedded_record_response_error l3 out) out"
      "v' = v\<lparr>pl_request := req, pl_protocol_result := GUARDIAN_PROTOCOL_OK, pl_output := out\<rparr>"
      using pb push(1) True v d r c by (auto simp: poll_byte_def Let_def locals_ok_def)
    show ?thesis
      by (rule frame [of p l3])
        (use res push True enc ci d r fh v in \<open>auto simp: locals_ok_def frame_handled_def replies_def same_wiring_def\<close>)
  qed
qed

section \<open>A poll\<close>

lemma link_inv_io [simp]: "link_inv cmd (l\<lparr>lk_io := i\<rparr>) = link_inv cmd l"
  by (simp add: link_inv_def)

lemma poll_byte_inv:
  assumes "link_inv cmd l" "locals_ok v" "poll_byte l v = (l', v')"
  shows "link_inv cmd l' \<and> locals_ok v' \<and> permit_kept l l'"
  using assms
proof (cases rule: poll_byte_cases)
  case quiet
  then show ?thesis by (auto simp: privileged_state_def intro: permit_kept_same)
next
  case (frame p l3)
  have "permit_kept l (count_frame l p)" "permit_kept l3 l'" using frame(7) by (simp_all add: permit_kept_same)
  with frame show ?thesis by (auto simp: frame_handled_def intro: permit_kept_trans)
qed

lemma poll_loop_inv:
  "link_inv cmd l \<Longrightarrow> locals_ok v \<Longrightarrow> poll_loop n l v = (l', v') \<Longrightarrow> link_inv cmd l' \<and> locals_ok v' \<and> permit_kept l l'"
proof (induction n arbitrary: l v)
  case 0
  then show ?case by (simp add: permit_kept_same)
next
  case (Suc n)
  obtain got b c where rd: "the (io_read_byte (lk_io l)) (io_context (lk_io l)) (pl_byte v) = (got, b, c)"
    by (metis prod_cases3)
  let ?l1 = "l\<lparr>lk_io := (lk_io l)\<lparr>io_context := c\<rparr>\<rparr>" and ?v1 = "v\<lparr>pl_byte := b\<rparr>"
  have ok1: "link_inv cmd ?l1" "locals_ok ?v1" "permit_kept l ?l1"
    using Suc.prems(1,2) by (simp_all add: locals_ok_def permit_kept_same)
  show ?case
  proof (cases got)
    case False
    then show ?thesis using Suc.prems(3) rd ok1 by auto
  next
    case True
    obtain l2 v2 where pb: "poll_byte ?l1 ?v1 = (l2, v2)" by fastforce
    note step = poll_byte_inv [OF ok1(1,2) pb]
    have "poll_loop n l2 v2 = (l', v')" using Suc.prems(3) rd True pb by simp
    with Suc.IH step have "link_inv cmd l' \<and> locals_ok v' \<and> permit_kept l2 l'" by blast
    then show ?thesis using step ok1(3) by (blast intro: permit_kept_trans)
  qed
qed

lemma initial_locals_ok [simp]: "locals_ok initial_locals"
  by (simp add: locals_ok_def initial_locals_def)

lemma due_frame_encodable: "wf_frame f \<Longrightarrow> encodable (due_frame t st f)"
  by (simp add: due_frame_def Let_def encodable_def wf_frame_def guardian_message_type_is_valid_def)

lemma telemetry_step:
  assumes "telemetry_inv t" "guardian_telemetry_make_due_frame (Some t) st (Some f) = (due, t', f')"
  shows "telemetry_inv (the t') \<and> (due \<longrightarrow> f' = Some (due_frame t st f))"
proof -
  have "tm_next_sequence t + 1 \<noteq> 0" if "tm_next_sequence t \<noteq> 0xFFFFFFFF"
  proof
    assume "tm_next_sequence t + 1 = 0"
    then have "tm_next_sequence t = - 1" by (simp add: eq_neg_iff_add_eq_0)
    with that show False by simp
  qed
  then show ?thesis
    using assms by (auto simp: guardian_telemetry_make_due_frame_def telemetry_inv_def split: if_splits)
qed

lemma poll_telemetry_inv:
  assumes "link_inv cmd l"
  shows "link_inv cmd (poll_telemetry l f)" "lk_control (poll_telemetry l f) = lk_control l"
    "privileged_state (poll_telemetry l f) = privileged_state l" "lk_parser (poll_telemetry l f) = lk_parser l"
proof -
  obtain due t' f' where m: "guardian_telemetry_make_due_frame (Some (lk_telemetry l)) (lk_state l) (Some f) = (due, t', f')"
    by (metis prod_cases3)
  have "telemetry_inv (the t')" using telemetry_step [OF _ m] assms by (simp add: link_inv_def)
  then have "link_inv cmd (l\<lparr>lk_telemetry := the t'\<rparr>)" using assms by (simp add: link_inv_def)
  then show "link_inv cmd (poll_telemetry l f)" "lk_control (poll_telemetry l f) = lk_control l"
    "privileged_state (poll_telemetry l f) = privileged_state l" "lk_parser (poll_telemetry l f) = lk_parser l"
    by (simp_all add: poll_telemetry_def m Let_def) (simp add: privileged_state_def)
qed

lemma poll_inv:
  assumes "link_inv cmd l" "guardian_embedded_link_poll (Some l) n = Some l'"
  shows "link_inv cmd l' \<and> permit_kept l l'"
proof -
  obtain l1 v1 where p: "poll_loop (if n = 0 then 64 else n) l initial_locals = (l1, v1)" by fastforce
  then have "l' = poll_telemetry l1 (pl_output v1)" using assms(2) by (simp add: guardian_embedded_link_poll_def Let_def)
  moreover note poll_loop_inv [OF assms(1) initial_locals_ok p]
  ultimately show ?thesis
    using poll_telemetry_inv [of cmd l1] permit_kept_same [of l' l1] by (auto intro: permit_kept_trans)
qed

section \<open>Reachable links\<close>

datatype ('o, 'r, 'f) link_op =
    Link_set_state guardian_device_state
  | Link_telemetry guardian_machine_measurements
  | Link_dsp guardian_dsp_features
  | Link_control_output "'o guardian_control_output"
  | Link_local_run u8
  | Link_interlock u8
  | Link_security "'r guardian_security_config"
  | Link_require_security u8
  | Link_security_status
  | Link_firmware "'f guardian_firmware_config"
  | Link_confirm_boot u32
  | Link_boot_failure u32
  | Link_tick
  | Link_poll nat

fun link_exec :: "('w, 'o, 'r, 'f) guardian_embedded_link \<Rightarrow> ('o, 'r, 'f) link_op \<Rightarrow> ('w, 'o, 'r, 'f) guardian_embedded_link" where
  "link_exec l (Link_set_state st) = the (guardian_embedded_link_set_state (Some l) st)"
| "link_exec l (Link_telemetry m) = the (guardian_embedded_link_update_telemetry (Some l) (Some m))"
| "link_exec l (Link_dsp f) = the (guardian_embedded_link_update_dsp (Some l) (Some f))"
| "link_exec l (Link_control_output out) = the (snd (guardian_embedded_link_configure_control_output (Some l) (Some out)))"
| "link_exec l (Link_local_run v) = the (guardian_embedded_link_set_local_run_request (Some l) v)"
| "link_exec l (Link_interlock v) = the (guardian_embedded_link_set_interlock (Some l) v)"
| "link_exec l (Link_security c) = the (snd (guardian_embedded_link_configure_security (Some l) (Some c)))"
| "link_exec l (Link_require_security v) = the (guardian_embedded_link_require_security (Some l) v)"
| "link_exec l Link_security_status = the (snd (guardian_embedded_link_security_status (Some l)))"
| "link_exec l (Link_firmware c) = the (snd (guardian_embedded_link_configure_firmware (Some l) (Some c)))"
| "link_exec l (Link_confirm_boot v) = the (snd (guardian_embedded_link_confirm_firmware_boot (Some l) v))"
| "link_exec l (Link_boot_failure v) = the (snd (guardian_embedded_link_report_firmware_boot_failure (Some l) v))"
| "link_exec l Link_tick = the (guardian_embedded_link_tick_1ms (Some l))"
| "link_exec l (Link_poll n) = the (guardian_embedded_link_poll (Some l) n)"

text \<open>The platform's side: the output adapter remembers its last command, the pre-shared key has its
  declared size and the nonce source fills the array it is given.\<close>

fun link_op_ok :: "('o ptr \<Rightarrow> u8) \<Rightarrow> ('o, 'r, 'f) link_op \<Rightarrow> bool" where
  "link_op_ok cmd (Link_control_output out) \<longleftrightarrow> control_op_ok cmd (Configure_output out)"
| "link_op_ok cmd (Link_security c) \<longleftrightarrow> op_ok (Configure c)"
| "link_op_ok cmd _ \<longleftrightarrow> True"

inductive link_step :: "('o ptr \<Rightarrow> u8) \<Rightarrow> ('w, 'o, 'r, 'f) guardian_embedded_link \<Rightarrow> ('w, 'o, 'r, 'f) guardian_embedded_link \<Rightarrow> bool"
  for cmd :: "'o ptr \<Rightarrow> u8" where
  link_stepI: "link_op_ok cmd op \<Longrightarrow> link_step cmd l (link_exec l op)"

inductive_cases link_stepE: "link_step cmd l l'"

definition link_initial :: "('w, 'o, 'r, 'f) guardian_embedded_link \<Rightarrow> bool" where
  "link_initial l \<longleftrightarrow> (\<exists>l0 io ident. guardian_embedded_link_init (Some l0) (Some io) (Some ident) = (GUARDIAN_PROTOCOL_OK, Some l))"

lemma link_initial_inv: "link_initial l \<Longrightarrow> link_inv cmd l"
proof -
  assume "link_initial l"
  then have i: "lk_parser l = the (guardian_parser_init (Some zero_parser))" "device_configured (lk_service l)"
      "lk_telemetry l = initial_telemetry" "lk_health l = initial_health" "lk_control l = initial_control"
      "lk_security l = zero_security"
    by (auto simp: link_initial_def guardian_embedded_link_init_def Let_def zero_link_def guardian_telemetry_init_def
        guardian_health_init_def guardian_health_reset_def guardian_control_init_def guardian_security_init_def
        guardian_device_service_init_def device_configured_def split: if_splits prod.splits)
  have "synced (lk_parser l)" unfolding i(1)
    by (rule init_synced [of zero_parser]) (simp_all add: zero_parser_def guardian_parser_init_def)
  moreover have "telemetry_inv initial_telemetry" by (simp add: telemetry_inv_def initial_telemetry_def)
  ultimately show ?thesis using i initial_health_inv control_inv_initial by (simp add: link_inv_def)
qed

lemma link_control_step:
  "link_inv cmd l \<Longrightarrow> control_op_ok cmd op \<Longrightarrow> link_inv cmd (l\<lparr>lk_control := control_exec (lk_control l) op\<rparr>)"
  using control_exec_inv [of cmd "lk_control l" op] by (simp add: link_inv_def)

lemma link_exec_inv:
  assumes inv: "link_inv cmd l" and ok: "link_op_ok cmd op"
  shows "link_inv cmd (link_exec l op)"
proof (cases op)
  case (Link_dsp f)
  let ?h = "the (guardian_health_ingest (Some (lk_health l)) (Some f))"
  have "health_inv ?h" using health_exec_inv [of "lk_health l" "Health_ingest f"] inv by (simp add: link_inv_def)
  then have "link_inv cmd (l\<lparr>lk_dsp_features := f, lk_dsp_features_valid := 1, lk_health := ?h\<rparr>)"
    using inv by (simp add: link_inv_def)
  from link_control_step [OF this, of "Update_health (hl_status ?h)"] show ?thesis
    by (simp add: Link_dsp guardian_embedded_link_update_dsp_def guardian_embedded_update_control_health_def
        guardian_health_status_of_def Let_def)
next
  case (Link_control_output out)
  then show ?thesis using link_control_step [OF inv, of "Configure_output out"] ok
    by (cases "guardian_control_configure_output (Some (lk_control l)) (Some out)")
      (simp add: guardian_embedded_link_configure_control_output_def)
next
  case (Link_local_run v)
  then show ?thesis using link_control_step [OF inv, of "Set_local_run v"]
    by (simp add: guardian_embedded_link_set_local_run_request_def)
next
  case (Link_interlock v)
  then show ?thesis using link_control_step [OF inv, of "Set_interlock v"]
    by (simp add: guardian_embedded_link_set_interlock_def)
next
  case (Link_security c)
  then show ?thesis using sec_exec_inv [of "lk_security l" "Configure c"] inv ok
    by (cases "guardian_security_configure (Some (lk_security l)) (Some c)")
      (simp add: guardian_embedded_link_configure_security_def link_inv_def)
next
  case Link_security_status
  obtain now l1 where up: "read_uptime l = (now, l1)" by fastforce
  then have "sec_inv (lk_security l1)" "link_inv cmd l1" using read_uptime_effect [OF up, of cmd] inv by (simp_all add: link_inv_def)
  then show ?thesis using sec_inv_status [of "lk_security l1" now] up
    by (cases "guardian_security_status (Some (lk_security l1)) now")
      (simp add: Link_security_status guardian_embedded_link_security_status_def link_inv_def)
next
  case (Link_poll n)
  obtain l' where "guardian_embedded_link_poll (Some l) n = Some l'"
    by (cases "guardian_embedded_link_poll (Some l) n") (auto simp: guardian_embedded_link_poll_def Let_def split: prod.splits)
  then show ?thesis using poll_inv [OF inv] Link_poll by simp
qed (use inv in \<open>auto simp: link_inv_def guardian_embedded_link_set_state_def guardian_embedded_link_update_telemetry_def
    guardian_telemetry_set_measurements_def telemetry_inv_def guardian_embedded_link_require_security_def
    guardian_embedded_link_configure_firmware_def guardian_embedded_link_confirm_firmware_boot_def
    guardian_embedded_link_report_firmware_boot_failure_def guardian_embedded_link_tick_1ms_def
    guardian_telemetry_tick_1ms_def Let_def split: prod.splits\<close>)

interpretation link: transition_system link_initial "link_step cmd" "link_inv cmd" for cmd
  by unfold_locales (auto elim!: link_stepE intro: link_initial_inv link_exec_inv)

section \<open>The reported device state\<close>

text \<open>While supervision is active the link reports the state of the controller; a successful DISARM
  ends supervision, and then the synchronization leaves the last reported state in place: a running
  node goes on to report RUNNING although the controller is DISABLED and its permit is low.\<close>

lemma disarm_keeps_reported_running:
  assumes run: "cs_state (ct_status (lk_control l)) = GUARDIAN_CONTROL_STATE_ACTIVE"
      "cs_supervision_enabled (ct_status (lk_control l)) \<noteq> 0" "cs_latched_faults (ct_status (lk_control l)) = 0"
    and out: "out_apply (ct_output (lk_control l)) = Some f" "fst (f (out_context (ct_output (lk_control l))) 0)"
    and req: "message_type req = GUARDIAN_MESSAGE_REQUEST" "command req = GUARDIAN_COMMAND_CONTROL_COMMAND"
      "payload_length req = 2" "payload req ! 0 = 1" "payload req ! 1 = 2"
    and d: "guardian_embedded_dispatch_privileged (guardian_embedded_sync_control_state l) req resp = (r, l', out)"
  shows "lk_state (guardian_embedded_sync_control_state l) = GUARDIAN_DEVICE_STATE_RUNNING"
    "lk_state l' = GUARDIAN_DEVICE_STATE_RUNNING"
    "cs_state (ct_status (lk_control l')) = GUARDIAN_CONTROL_STATE_DISABLED" "guardian_embedded_link_run_permit (Some l') = 0"
proof -
  show s: "lk_state (guardian_embedded_sync_control_state l) = GUARDIAN_DEVICE_STATE_RUNNING"
    using run by (simp add: guardian_embedded_sync_control_state_def guardian_control_status_def
        guardian_embedded_control_device_state_def)
  obtain c' where c': "guardian_control_action (Some (lk_control l)) 2 = (GUARDIAN_CONTROL_OK, Some c')"
      "cs_supervision_enabled (ct_status c') = 0" "cs_run_permit (ct_status c') = 0"
      "cs_state (ct_status c') = GUARDIAN_CONTROL_STATE_DISABLED"
    using run out
    by (cases "f (out_context (ct_output (lk_control l))) 0")
      (simp add: guardian_control_action_def action_disarm_def call_output_def upd_def Let_def
        guardian_control_transition_def refresh_active_def)
  then have "lk_control l' = c'" "l' = guardian_embedded_sync_control_state
      (guardian_embedded_sync_control_state l\<lparr>lk_control := c'\<rparr>)"
    using d req by (auto simp: guardian_embedded_dispatch_privileged_def guardian_control_handle_request_def control_command_def
        Let_def)
  with c' s show "lk_state l' = GUARDIAN_DEVICE_STATE_RUNNING"
    "cs_state (ct_status (lk_control l')) = GUARDIAN_CONTROL_STATE_DISABLED" "guardian_embedded_link_run_permit (Some l') = 0"
    by (simp_all add: guardian_embedded_link_run_permit_def guardian_control_run_permit_def)
      (simp add: guardian_embedded_sync_control_state_def guardian_control_status_def)
qed

section \<open>Properties\<close>

text \<open>A node on a transport whose context is the bytes still to be read and the bytes written.\<close>

definition sample_io :: "(u8 list \<times> u8 list) guardian_embedded_io" where
  "sample_io = \<lparr>io_read_byte = Some (\<lambda>c b. case c of
        Some (x # xs, ys) \<Rightarrow> (True, x, Some (xs, ys)) | _ \<Rightarrow> (False, b, c)),
     io_write = Some (\<lambda>c d. (length d, map_option (apsnd (\<lambda>ys. ys @ d)) c)),
     io_uptime_seconds = Some (\<lambda>c. (0, c)), io_context = Some ([], [])\<rparr>"

definition sample_identity :: guardian_device_identity where
  "sample_identity = \<lparr>di_model = Some [0x47, 0x46], di_firmware_major = 1, di_firmware_minor = 0,
     di_firmware_patch = 0, di_device_id = 7\<rparr>"

definition sample_link :: "(u8 list \<times> u8 list, u8, unit, u8 list) guardian_embedded_link" where
  "sample_link = the (snd (guardian_embedded_link_init (Some zero_link) (Some sample_io) (Some sample_identity)))"

lemma sample_model_length: "guardian_device_model_length (di_model sample_identity) = 2"
  by (simp add: sample_identity_def guardian_device_model_length_def string_char_def model_length_loop.simps)

lemma sample_link_initial: "link_initial sample_link"
  unfolding link_initial_def sample_link_def
  by (rule exI [of _ zero_link], rule exI [of _ sample_io], rule exI [of _ sample_identity])
    (simp add: guardian_embedded_link_init_def sample_io_def guardian_device_service_init_def sample_model_length Let_def)

lemma sample_link_reachable: "reachable link_initial (link_step cmd) sample_link"
  by (rule reachable_init) (rule sample_link_initial)

lemma poll_Some: "\<exists>l'. guardian_embedded_link_poll (Some l) n = Some l'"
  by (simp add: guardian_embedded_link_poll_def Let_def split: prod.splits)

text \<open>C18: Received bytes cannot energize. Whatever operations led to the present state and whatever
  bytes the transport delivers (telemetry, baseline and control requests, secure commands of any
  role, noise), a poll that starts with the run permit low ends with it low; and whenever the permit
  is asserted after a poll, its whole envelope holds.\<close>

theorem bytes_never_energize:
  assumes "reachable link_initial (link_step cmd) l" "guardian_embedded_link_poll (Some l) n = Some l'"
  shows "(guardian_embedded_link_run_permit (Some l) = 0 \<longrightarrow> guardian_embedded_link_run_permit (Some l') = 0)
    \<and> (guardian_embedded_link_run_permit (Some l') \<noteq> 0 \<longrightarrow> permit_envelope (guardian_embedded_link_control_status (Some l')))"
proof -
  from poll_inv [OF link.reachable_inv [OF assms(1)] assms(2)] show ?thesis
    by (auto simp: permit_kept_def link_inv_def control_inv_def guardian_embedded_link_run_permit_def
        guardian_control_run_permit_def guardian_embedded_link_control_status_def guardian_control_status_def)
qed

theorem bytes_never_energize_witness:
  "guardian_embedded_link_run_permit (guardian_embedded_link_poll (Some sample_link) 64) = 0"
proof -
  obtain l' where l': "guardian_embedded_link_poll (Some sample_link) 64 = Some l'" using poll_Some by blast
  have "guardian_embedded_link_run_permit (Some sample_link) = 0"
    by (simp add: sample_link_def guardian_embedded_link_init_def sample_io_def guardian_device_service_init_def
        sample_model_length Let_def guardian_embedded_link_run_permit_def guardian_control_run_permit_def
        guardian_control_init_def initial_control_def zero_control_status_def)
  with bytes_never_energize [OF sample_link_reachable l'] l' show ?thesis by simp
qed

text \<open>C25: Privileged state needs authorization. In every reachable state, a received frame changes the
  health model, the control state or the update lifecycle only if it is a secure command that the
  session accepted (authentic, fresh, at the next counter) for a privileged command its role covers;
  or, on a link that does not require security, a direct baseline or control command, which never
  touches the update lifecycle.\<close>

theorem privileged_state_needs_authorization:
  assumes "reachable link_initial (link_step cmd) l" "wf_outer req" "wf_frame out0"
    and "dispatch_request l req GUARDIAN_PROTOCOL_OK out0 = (r, l', out)"
    and "(lk_health l', lk_control l', lk_firmware l') \<noteq> (lk_health l, lk_control l, lk_firmware l)"
  shows "(command req = GUARDIAN_COMMAND_SECURE_COMMAND
      \<and> (\<exists>s inner ctr. guardian_security_unwrap_request (Some (lk_security l)) (Some req) (fst (read_uptime l)) (Some zero_frame) (Some 0)
            = (GUARDIAN_SECURITY_OK, Some s, Some inner, Some ctr)
          \<and> privileged_command (command inner) \<and> guardian_security_required_role (command inner) \<le> se_role (s_session s)))
    \<or> (lk_security_required l = 0 \<and> command req \<in> {GUARDIAN_COMMAND_BASELINE_CONTROL, GUARDIAN_COMMAND_CONTROL_COMMAND}
      \<and> lk_firmware l' = lk_firmware l)"
proof -
  have "privileged_access (fst (read_uptime l)) l req l'"
    using dispatch_handled [OF link.reachable_inv [OF assms(1)] assms(2-4)] by (simp add: frame_handled_def)
  then show ?thesis
    using assms(5) by (auto simp: privileged_access_def privileged_state_def authorized_secure_command_def unwrap_Some
        split: prod.splits)
qed

text \<open>A request to learn a baseline from 16 samples.\<close>

definition baseline_request :: guardian_frame where
  "baseline_request = zero_frame\<lparr>message_type := GUARDIAN_MESSAGE_REQUEST, command := GUARDIAN_COMMAND_BASELINE_CONTROL,
     payload_length := 4, payload := [1, 1, 0, 16] @ replicate 252 0\<rparr>"

theorem privileged_state_needs_authorization_witness:
  "\<exists>r l' out. dispatch_request sample_link baseline_request GUARDIAN_PROTOCOL_OK zero_frame = (r, l', out)
    \<and> lk_health l' \<noteq> lk_health sample_link \<and> lk_firmware l' = lk_firmware sample_link"
proof -
  obtain r l' out where d: "dispatch_request sample_link baseline_request GUARDIAN_PROTOCOL_OK zero_frame = (r, l', out)"
    by (metis prod_cases3)
  have lk: "sample_link = zero_link\<lparr>lk_io := sample_io, lk_state := GUARDIAN_DEVICE_STATE_IDLE,
      lk_parser := zero_parser, lk_telemetry := initial_telemetry, lk_health := initial_health,
      lk_control := initial_control, lk_service := \<lparr>ds_identity = sample_identity\<rparr>\<rparr>"
    by (simp add: sample_link_def guardian_embedded_link_init_def sample_io_def guardian_device_service_init_def
        sample_model_length Let_def zero_link_def guardian_control_init_def guardian_health_init_def guardian_health_reset_def
        guardian_telemetry_init_def guardian_parser_init_def zero_parser_def guardian_security_init_def
        guardian_firmware_lifecycle_init_def)
  have n: "guardian_health_read_u16_be (payload baseline_request) 2 = 16"
    by (simp add: baseline_request_def guardian_health_read_u16_be_def)
  obtain ok g where g: "guardian_health_start_baseline (Some initial_health) 16 = (ok, Some g)" "ok"
    by (simp add: guardian_health_start_baseline_def Let_def)
  have "lk_health l' = g"
    using d g n unfolding lk
    by (auto simp: dispatch_request_def read_uptime_def sample_io_def baseline_request_def zero_link_def
        guardian_embedded_dispatch_privileged_def guardian_health_handle_request_def baseline_control_def Let_def
        guardian_embedded_update_control_health_def split: if_splits)
  moreover have "hs_state (hl_status g) = GUARDIAN_HEALTH_STATE_LEARNING"
    using start_baseline_inv(2) [OF g(1) initial_health_inv g(2)] by simp
  moreover have "hs_state (hl_status (lk_health sample_link)) = GUARDIAN_HEALTH_STATE_UNTRAINED"
    unfolding lk by (simp add: initial_health_def zero_health_status_def)
  ultimately have neq: "lk_health l' \<noteq> lk_health sample_link" by auto
  have "wf_outer baseline_request" "command baseline_request = GUARDIAN_COMMAND_BASELINE_CONTROL"
    by (simp_all add: wf_outer_def wf_frame_def baseline_request_def)
  with privileged_state_needs_authorization [OF sample_link_reachable _ wf_zero_frame d] neq d show ?thesis by auto
qed

end
