(* ===== verification/Guardian_UART2.thy ===== *)
theory Guardian_UART2
  imports Guardian_Prelude
begin

text \<open>
  The USART2 driver of the node (\<open>src/firmware/Platform/STM32F401/Src/stm32f401_uart2.c\<close>): two ring
  buffers between the foreground code and the interrupt handler, their diagnostics, and the register
  configuration.  The registers the driver writes are fields of a record; the values it reads from the
  status, data and clock registers are arguments, because the hardware supplies them.  The theory
  shows that the rings are queues, first for the operations as a whole and then for every
  interleaving of the foreground's individual memory accesses with the interrupt handler.
\<close>

section \<open>Types\<close>

abbreviation (input) GUARDIAN_STM32F401_UART2_RX_CAPACITY :: u16 where "GUARDIAN_STM32F401_UART2_RX_CAPACITY \<equiv> 512"
abbreviation (input) GUARDIAN_STM32F401_UART2_TX_CAPACITY :: u16 where "GUARDIAN_STM32F401_UART2_TX_CAPACITY \<equiv> 512"
abbreviation (input) GUARDIAN_GPIO_TWO_BIT_MASK :: u32 where "GUARDIAN_GPIO_TWO_BIT_MASK \<equiv> 0x3"
abbreviation (input) GUARDIAN_GPIO_MODE_AF :: u32 where "GUARDIAN_GPIO_MODE_AF \<equiv> 0x2"
abbreviation (input) GUARDIAN_GPIO_AF_MASK :: u32 where "GUARDIAN_GPIO_AF_MASK \<equiv> 0xF"
abbreviation (input) GUARDIAN_STM32F401_USART2_TX_PIN :: nat where "GUARDIAN_STM32F401_USART2_TX_PIN \<equiv> 2"
abbreviation (input) GUARDIAN_STM32F401_USART2_RX_PIN :: nat where "GUARDIAN_STM32F401_USART2_RX_PIN \<equiv> 3"
abbreviation (input) GUARDIAN_STM32F401_USART2_AF :: u32 where "GUARDIAN_STM32F401_USART2_AF \<equiv> 7"

abbreviation (input) USART_SR_PE :: u32 where "USART_SR_PE \<equiv> 0x01"
abbreviation (input) USART_SR_FE :: u32 where "USART_SR_FE \<equiv> 0x02"
abbreviation (input) USART_SR_NE :: u32 where "USART_SR_NE \<equiv> 0x04"
abbreviation (input) USART_SR_ORE :: u32 where "USART_SR_ORE \<equiv> 0x08"
abbreviation (input) USART_SR_RXNE :: u32 where "USART_SR_RXNE \<equiv> 0x20"
abbreviation (input) USART_SR_TXE :: u32 where "USART_SR_TXE \<equiv> 0x80"
abbreviation (input) USART_CR1_RE :: u32 where "USART_CR1_RE \<equiv> 0x04"
abbreviation (input) USART_CR1_TE :: u32 where "USART_CR1_TE \<equiv> 0x08"
abbreviation (input) USART_CR1_RXNEIE :: u32 where "USART_CR1_RXNEIE \<equiv> 0x20"
abbreviation (input) USART_CR1_TXEIE :: u32 where "USART_CR1_TXEIE \<equiv> 0x80"
abbreviation (input) USART_CR1_UE :: u32 where "USART_CR1_UE \<equiv> 0x2000"
abbreviation (input) RCC_AHB1ENR_GPIOAEN :: u32 where "RCC_AHB1ENR_GPIOAEN \<equiv> 0x01"
abbreviation (input) RCC_APB1ENR_USART2EN :: u32 where "RCC_APB1ENR_USART2EN \<equiv> 0x20000"
abbreviation (input) RCC_CFGR_PPRE1 :: u32 where "RCC_CFGR_PPRE1 \<equiv> 0x1C00"

record guardian_stm32f401_uart2_stats_t =
  us_parity_errors :: u32
  us_framing_errors :: u32
  us_noise_errors :: u32
  us_hardware_overruns :: u32
  us_rx_queue_overruns :: u32
  us_tx_queue_rejections :: u32

text \<open>The registers the initialization configures.\<close>

record uart2_registers =
  rg_ahb1enr :: u32
  rg_apb1enr :: u32
  rg_moder :: u32
  rg_otyper :: u32
  rg_ospeedr :: u32
  rg_pupdr :: u32
  rg_afr0 :: u32
  rg_cr1 :: u32
  rg_cr2 :: u32
  rg_cr3 :: u32
  rg_brr :: u32
  rg_nvic_priority :: u32
  rg_nvic_enabled :: bool

text \<open>The static variables of the driver and the registers.\<close>

record uart2 =
  ur_rx_queue :: "u8 list"
  ur_rx_head :: u16
  ur_rx_tail :: u16
  ur_tx_queue :: "u8 list"
  ur_tx_head :: u16
  ur_tx_tail :: u16
  ur_stats :: guardian_stm32f401_uart2_stats_t
  ur_regs :: uart2_registers

section \<open>Operations\<close>

definition guardian_uart_increment_u32 :: "u32 \<Rightarrow> u32" where
  "guardian_uart_increment_u32 v = (if v \<noteq> 0xFFFFFFFF then v + 1 else v)"

definition guardian_rx_next :: "u16 \<Rightarrow> u16" where
  "guardian_rx_next index = (let i = index + 1 in if i \<ge> GUARDIAN_STM32F401_UART2_RX_CAPACITY then 0 else i)"

definition guardian_tx_next :: "u16 \<Rightarrow> u16" where
  "guardian_tx_next index = (let i = index + 1 in if i \<ge> GUARDIAN_STM32F401_UART2_TX_CAPACITY then 0 else i)"

text \<open>\<open>cfgr\<close> is the clock configuration register, \<open>core_clock\<close> the CMSIS variable \<open>SystemCoreClock\<close>
  after its update.\<close>

definition guardian_stm32f401_uart2_apb1_clock_hz :: "u32 \<Rightarrow> u32 \<Rightarrow> u32" where
  "guardian_stm32f401_uart2_apb1_clock_hz cfgr core_clock =
     (let ppre1 = drop_bit 10 (cfgr AND RCC_CFGR_PPRE1) in
      if ppre1 < 4 then core_clock else drop_bit (unat (ppre1 - 3)) core_clock)"

text \<open>The register writes of the initialization, in order.\<close>

definition configure_registers :: "u32 \<Rightarrow> u32 \<Rightarrow> uart2_registers \<Rightarrow> uart2_registers" where
  "configure_registers brr irq_priority r0 =
     (let tx = GUARDIAN_STM32F401_USART2_TX_PIN; rx = GUARDIAN_STM32F401_USART2_RX_PIN;
          r1 = r0\<lparr>rg_ahb1enr := rg_ahb1enr r0 OR RCC_AHB1ENR_GPIOAEN, rg_apb1enr := rg_apb1enr r0 OR RCC_APB1ENR_USART2EN\<rparr>;
          m1 = rg_moder r1 AND NOT (push_bit (tx * 2) GUARDIAN_GPIO_TWO_BIT_MASK);
          m2 = m1 OR push_bit (tx * 2) GUARDIAN_GPIO_MODE_AF;
          m3 = m2 AND NOT (push_bit (rx * 2) GUARDIAN_GPIO_TWO_BIT_MASK);
          m4 = m3 OR push_bit (rx * 2) GUARDIAN_GPIO_MODE_AF;
          o1 = rg_otyper r1 AND NOT (push_bit tx 1);
          o2 = o1 AND NOT (push_bit rx 1);
          s1 = rg_ospeedr r1 AND NOT (push_bit (tx * 2) GUARDIAN_GPIO_TWO_BIT_MASK);
          s2 = s1 OR push_bit (tx * 2) 1;
          s3 = s2 AND NOT (push_bit (rx * 2) GUARDIAN_GPIO_TWO_BIT_MASK);
          s4 = s3 OR push_bit (rx * 2) 1;
          p1 = rg_pupdr r1 AND NOT (push_bit (tx * 2) GUARDIAN_GPIO_TWO_BIT_MASK);
          p2 = p1 AND NOT (push_bit (rx * 2) GUARDIAN_GPIO_TWO_BIT_MASK);
          p3 = p2 OR push_bit (rx * 2) 1;
          a1 = rg_afr0 r1 AND NOT (push_bit (tx * 4) GUARDIAN_GPIO_AF_MASK);
          a2 = a1 OR push_bit (tx * 4) GUARDIAN_STM32F401_USART2_AF;
          a3 = a2 AND NOT (push_bit (rx * 4) GUARDIAN_GPIO_AF_MASK);
          a4 = a3 OR push_bit (rx * 4) GUARDIAN_STM32F401_USART2_AF
      in r1\<lparr>rg_moder := m4, rg_otyper := o2, rg_ospeedr := s4, rg_pupdr := p3, rg_afr0 := a4,
           rg_cr2 := 0, rg_cr3 := 0, rg_brr := brr, rg_nvic_priority := irq_priority, rg_nvic_enabled := True,
           rg_cr1 := (USART_CR1_RE OR USART_CR1_TE OR USART_CR1_RXNEIE) OR USART_CR1_UE\<rparr>)"

definition guardian_stm32f401_uart2_init :: "u32 \<Rightarrow> u32 \<Rightarrow> u32 \<Rightarrow> u32 \<Rightarrow> uart2 \<Rightarrow> bool \<times> uart2" where
  "guardian_stm32f401_uart2_init cfgr core_clock baud_rate irq_priority u =
     (if baud_rate = 0 then (False, u)
      else
        let pclk1_hz = guardian_stm32f401_uart2_apb1_clock_hz cfgr core_clock in
        if pclk1_hz = 0 then (False, u)
        else
          let brr = (pclk1_hz + baud_rate div 2) div baud_rate in
          if brr = 0 \<or> brr > 0xFFFF then (False, u)
          else (True, u\<lparr>ur_regs := configure_registers brr irq_priority (ur_regs u),
                  ur_rx_head := 0, ur_rx_tail := 0, ur_tx_head := 0, ur_tx_tail := 0\<rparr>))"

definition guardian_stm32f401_uart2_read_byte :: "uart2 \<Rightarrow> u8 ptr \<Rightarrow> bool \<times> u8 ptr \<times> uart2" where
  "guardian_stm32f401_uart2_read_byte u byte =
     (case byte of
        None \<Rightarrow> (False, None, u)
      | Some _ \<Rightarrow>
          let tail = ur_rx_tail u in
          if tail = ur_rx_head u then (False, byte, u)
          else (True, Some (ur_rx_queue u ! unat tail), u\<lparr>ur_rx_tail := guardian_rx_next tail\<rparr>))"

definition tx_reject :: "uart2 \<Rightarrow> uart2" where
  "tx_reject u = u\<lparr>ur_stats := (ur_stats u)\<lparr>us_tx_queue_rejections :=
     guardian_uart_increment_u32 (us_tx_queue_rejections (ur_stats u))\<rparr>\<rparr>"

definition tx_free_slots :: "u16 \<Rightarrow> u16 \<Rightarrow> nat" where
  "tx_free_slots head tail =
     (if head \<ge> tail then unat GUARDIAN_STM32F401_UART2_TX_CAPACITY - unat (head - tail) - 1
      else unat (tail - head) - 1)"

fun tx_store :: "u8 list \<Rightarrow> u8 list \<times> u16 \<Rightarrow> u8 list \<times> u16" where
  "tx_store [] (queue, head) = (queue, head)"
| "tx_store (b # bs) (queue, head) = tx_store bs (queue[unat head := b], guardian_tx_next head)"

text \<open>The data pointer with its length is the list of the bytes; NULL with length zero is \<open>None\<close>.\<close>

definition guardian_stm32f401_uart2_write :: "uart2 \<Rightarrow> u8 list ptr \<Rightarrow> nat \<times> uart2" where
  "guardian_stm32f401_uart2_write u data =
     (case data of
        None \<Rightarrow> (0, u)
      | Some d \<Rightarrow>
          if length d = 0 then (0, u)
          else if length d \<ge> unat GUARDIAN_STM32F401_UART2_TX_CAPACITY then (0, tx_reject u)
          else
            let head = ur_tx_head u; tail = ur_tx_tail u in
            if tx_free_slots head tail < length d then (0, tx_reject u)
            else
              case tx_store d (ur_tx_queue u, head) of
                (queue, head') \<Rightarrow>
                  (length d, u\<lparr>ur_tx_queue := queue, ur_tx_head := head',
                     ur_regs := (ur_regs u)\<lparr>rg_cr1 := rg_cr1 (ur_regs u) OR USART_CR1_TXEIE\<rparr>\<rparr>))"

text \<open>The three words of the unique identifier are read from the device.\<close>

definition guardian_stm32f401_public_device_id :: "u32 \<Rightarrow> u32 \<Rightarrow> u32 \<Rightarrow> u32" where
  "guardian_stm32f401_public_device_id uid0 uid1 uid2 = uid0 XOR uid1 XOR uid2"

definition guardian_stm32f401_uart2_stats :: "uart2 \<Rightarrow> guardian_stm32f401_uart2_stats_t" where
  "guardian_stm32f401_uart2_stats u = ur_stats u"

section \<open>The interrupt handler\<close>

text \<open>\<open>sr\<close> is the first read of the status register, \<open>dr\<close> the data register, \<open>sr2\<close> the second read of
  the status.  The result is the byte the handler writes to the data register, if any.\<close>

definition irq_receive :: "u32 \<Rightarrow> u32 \<Rightarrow> uart2 \<Rightarrow> uart2" where
  "irq_receive status dr u =
     (if status AND (USART_SR_RXNE OR USART_SR_PE OR USART_SR_FE OR USART_SR_NE OR USART_SR_ORE) = 0 then u
      else
        let received = ucast (dr AND 0xFF) :: u8;
            s0 = ur_stats u;
            s1 = (if status AND USART_SR_PE \<noteq> 0 then s0\<lparr>us_parity_errors := guardian_uart_increment_u32 (us_parity_errors s0)\<rparr> else s0);
            s2 = (if status AND USART_SR_FE \<noteq> 0 then s1\<lparr>us_framing_errors := guardian_uart_increment_u32 (us_framing_errors s1)\<rparr> else s1);
            s3 = (if status AND USART_SR_NE \<noteq> 0 then s2\<lparr>us_noise_errors := guardian_uart_increment_u32 (us_noise_errors s2)\<rparr> else s2);
            s4 = (if status AND USART_SR_ORE \<noteq> 0 then s3\<lparr>us_hardware_overruns := guardian_uart_increment_u32 (us_hardware_overruns s3)\<rparr> else s3);
            u1 = u\<lparr>ur_stats := s4\<rparr>
        in
        if status AND USART_SR_RXNE \<noteq> 0
           \<and> status AND (USART_SR_PE OR USART_SR_FE OR USART_SR_NE OR USART_SR_ORE) = 0
        then
          let nxt = guardian_rx_next (ur_rx_head u1) in
          if nxt \<noteq> ur_rx_tail u1
          then u1\<lparr>ur_rx_queue := (ur_rx_queue u1)[unat (ur_rx_head u1) := received], ur_rx_head := nxt\<rparr>
          else u1\<lparr>ur_stats := (ur_stats u1)\<lparr>us_rx_queue_overruns := guardian_uart_increment_u32 (us_rx_queue_overruns (ur_stats u1))\<rparr>\<rparr>
        else u1)"

definition irq_transmit :: "u32 \<Rightarrow> uart2 \<Rightarrow> u8 option \<times> uart2" where
  "irq_transmit sr2 u =
     (if rg_cr1 (ur_regs u) AND USART_CR1_TXEIE \<noteq> 0 \<and> sr2 AND USART_SR_TXE \<noteq> 0
      then
        if ur_tx_tail u \<noteq> ur_tx_head u
        then (Some (ur_tx_queue u ! unat (ur_tx_tail u)), u\<lparr>ur_tx_tail := guardian_tx_next (ur_tx_tail u)\<rparr>)
        else (None, u\<lparr>ur_regs := (ur_regs u)\<lparr>rg_cr1 := rg_cr1 (ur_regs u) AND NOT USART_CR1_TXEIE\<rparr>\<rparr>)
      else (None, u))"

definition guardian_stm32f401_uart2_irq_handler :: "u32 \<Rightarrow> u32 \<Rightarrow> u32 \<Rightarrow> uart2 \<Rightarrow> u8 option \<times> uart2" where
  "guardian_stm32f401_uart2_irq_handler sr dr sr2 u = irq_transmit sr2 (irq_receive sr dr u)"

section \<open>Ring buffers as queues\<close>

text \<open>What a ring of capacity \<open>n\<close> holds between its tail and its head.\<close>

definition ring :: "nat \<Rightarrow> 'a list \<Rightarrow> nat \<Rightarrow> nat \<Rightarrow> 'a list" where
  "ring n q head tail = map (\<lambda>i. q ! ((tail + i) mod n)) [0..<(head + n - tail) mod n]"

definition ring_ok :: "nat \<Rightarrow> 'a list \<Rightarrow> nat \<Rightarrow> nat \<Rightarrow> bool" where
  "ring_ok n q head tail \<longleftrightarrow> 0 < n \<and> length q = n \<and> head < n \<and> tail < n"

lemma mod_wrap: "x < n + n \<Longrightarrow> x mod n = (if x < n then x else x - n)" for x n :: nat
  by (cases "x < n") (simp_all add: le_mod_geq)

lemma ring_size_cases:
  assumes "h < n" "t < (n :: nat)"
  shows "(h + n - t) mod n = (if t \<le> h then h - t else h + n - t)"
  using assms by (cases "t \<le> h") (simp_all add: mod_wrap)

lemma length_ring [simp]: "length (ring n q h t) = (h + n - t) mod n"
  by (simp add: ring_def)

lemma ring_empty_iff: "h < n \<Longrightarrow> t < n \<Longrightarrow> ring n q h t = [] \<longleftrightarrow> h = t"
  by (simp add: ring_def ring_size_cases)

lemma ring_same [simp]: "t < n \<Longrightarrow> ring n q t t = []"
  by (simp add: ring_empty_iff)

text \<open>Cells that the producer has filled behind the head become part of the queue when it advances.\<close>

lemma upt_shift: "[m..<m + k] = map (\<lambda>j. m + j) [0..<k]"
  by (induction k) simp_all

lemma ring_extend:
  assumes "h < n" "t < n" "length (ring n q h t) + k < n"
  shows "ring n q ((h + k) mod n) t = ring n q h t @ map (\<lambda>j. q ! ((h + j) mod n)) [0..<k]"
proof -
  define m where "m = (h + n - t) mod n"
  have size: "((h + k) mod n + n - t) mod n = m + k"
    using assms unfolding m_def by (cases "t \<le> h"; cases "h + k < n") (auto simp: ring_size_cases mod_wrap split: if_splits)
  have tm: "(t + m) mod n = h"
    using assms(1,2) unfolding m_def by (cases "t \<le> h") (auto simp: ring_size_cases mod_wrap split: if_splits)
  have at: "(t + (m + j)) mod n = (h + j) mod n" for j
    using tm by (metis add.assoc mod_add_left_eq)
  have "ring n q ((h + k) mod n) t = map (\<lambda>i. q ! ((t + i) mod n)) ([0..<m] @ [m..<m + k])"
    unfolding ring_def size by (subst upt_add_eq_append) simp_all
  also have "\<dots> = ring n q h t @ map (\<lambda>j. q ! ((t + (m + j)) mod n)) [0..<k]"
    by (simp add: ring_def m_def [symmetric] upt_shift [of m k] o_def)
  finally show ?thesis unfolding at .
qed

text \<open>Writes behind the head do not touch the queue.\<close>

lemma ring_store:
  assumes "h < n" "t < n" "length (ring n q h t) + k < n"
  shows "ring n (q[(h + k) mod n := x]) h t = ring n q h t"
proof -
  let ?m = "(h + n - t) mod n"
  have "(h + k) mod n \<noteq> (t + i) mod n" if "i < ?m" for i
    using that assms by (cases "t \<le> h"; cases "h + k < n"; cases "t + i < n") (auto simp: ring_size_cases mod_wrap split: if_splits)
  then show ?thesis by (auto simp: ring_def intro!: map_cong nth_list_update_neq)
qed

lemma ring_push:
  assumes "ring_ok n q h t" "(h + 1) mod n \<noteq> t"
  shows "ring n (q[h := x]) ((h + 1) mod n) t = ring n q h t @ [x]"
proof -
  have b: "h < n" "t < n" "length q = n" using assms(1) by (simp_all add: ring_ok_def)
  then have s: "length (ring n q h t) + 1 < n"
    using assms(2) by (cases "t \<le> h"; cases "h + 1 < n") (auto simp: ring_size_cases mod_wrap split: if_splits)
  have "ring n (q[h := x]) h t = ring n q h t" using ring_store [OF b(1,2), of q 0 x] s b by simp
  then show ?thesis using ring_extend [OF b(1,2), of "q[h := x]" 1] s b by simp
qed

lemma ring_pop:
  assumes "ring_ok n q h t" "h \<noteq> t"
  shows "ring n q h t = q ! t # ring n q h ((t + 1) mod n)"
proof -
  have b: "h < n" "t < n" using assms(1) by (simp_all add: ring_ok_def)
  have m: "(h + n - t) mod n = Suc ((h + n - (t + 1) mod n) mod n)"
    using b assms(2) by (cases "t \<le> h"; cases "t + 1 < n") (auto simp: ring_size_cases mod_wrap split: if_splits)
  have "(t + Suc i) mod n = ((t + 1) mod n + i) mod n" for i by (simp add: mod_add_left_eq)
  then show ?thesis
    using b by (simp add: ring_def m upt_conv_Cons map_Suc_upt [symmetric] del: upt_Suc)
qed

section \<open>The driver's rings\<close>

lemma unat_next:
  "unat i < 512 \<Longrightarrow> unat (guardian_tx_next i) = (unat i + 1) mod 512"
  "unat i < 512 \<Longrightarrow> unat (guardian_rx_next i) = (unat i + 1) mod 512"
  by (auto simp: guardian_tx_next_def guardian_rx_next_def Let_def word_le_nat_alt unat_word_ariths(1) mod_wrap)

abbreviation tx_ring :: "uart2 \<Rightarrow> u8 list" where
  "tx_ring u \<equiv> ring 512 (ur_tx_queue u) (unat (ur_tx_head u)) (unat (ur_tx_tail u))"

abbreviation rx_ring :: "uart2 \<Rightarrow> u8 list" where
  "rx_ring u \<equiv> ring 512 (ur_rx_queue u) (unat (ur_rx_head u)) (unat (ur_rx_tail u))"

definition uart_ok :: "uart2 \<Rightarrow> bool" where
  "uart_ok u \<longleftrightarrow> ring_ok 512 (ur_tx_queue u) (unat (ur_tx_head u)) (unat (ur_tx_tail u))
     \<and> ring_ok 512 (ur_rx_queue u) (unat (ur_rx_head u)) (unat (ur_rx_tail u))"

lemma free_slots_ring:
  "unat h < 512 \<Longrightarrow> unat t < 512 \<Longrightarrow> tx_free_slots h t = 511 - length (ring 512 q (unat h) (unat t))"
  by (auto simp: tx_free_slots_def ring_size_cases word_le_nat_alt unat_sub_if')

section \<open>Interleaving\<close>

text \<open>
  The interrupt handler runs to completion, but it may run between any two accesses of the foreground
  to the shared variables.  The foreground is a small machine whose control states are the points
  between those accesses; the local variables it holds there are the arguments.
\<close>

datatype foreground =
    Fg_idle
  | Fg_load_head "u8 list"
  | Fg_load_tail "u8 list" u16
  | Fg_copy "u8 list" "u8 list" u16
  | Fg_enable_load
  | Fg_enable_store u32
  | Fg_rx_check u16
  | Fg_rx_load u16
  | Fg_rx_advance u16 u8

text \<open>The system with its history: the bytes of accepted writes, the bytes put on the line, the bytes
  the handler queued, and the bytes delivered to the reader.\<close>

record uart_system =
  sy_uart :: uart2
  sy_fg :: foreground
  sy_accepted :: "u8 list"
  sy_sent :: "u8 list"
  sy_arrived :: "u8 list"
  sy_delivered :: "u8 list"

text \<open>The byte an interrupt appends to the receive queue, if any.\<close>

definition irq_arrival :: "u32 \<Rightarrow> u32 \<Rightarrow> uart2 \<Rightarrow> u8 list" where
  "irq_arrival sr dr u = (if sr AND USART_SR_RXNE \<noteq> 0
       \<and> sr AND (USART_SR_PE OR USART_SR_FE OR USART_SR_NE OR USART_SR_ORE) = 0
       \<and> guardian_rx_next (ur_rx_head u) \<noteq> ur_rx_tail u
     then [ucast (dr AND 0xFF)] else [])"

definition interrupt :: "u32 \<Rightarrow> u32 \<Rightarrow> u32 \<Rightarrow> uart_system \<Rightarrow> uart_system" where
  "interrupt sr dr sr2 s =
     (case guardian_stm32f401_uart2_irq_handler sr dr sr2 (sy_uart s) of
        (out, u) \<Rightarrow> s\<lparr>sy_uart := u, sy_sent := sy_sent s @ (case out of None \<Rightarrow> [] | Some b \<Rightarrow> [b]),
           sy_arrived := sy_arrived s @ irq_arrival sr dr (sy_uart s)\<rparr>)"

text \<open>One access of the foreground.\<close>

fun foreground_access :: "uart_system \<Rightarrow> uart_system" where
  "foreground_access s =
     (let u = sy_uart s in
      case sy_fg s of
        Fg_idle \<Rightarrow> s
      | Fg_load_head d \<Rightarrow> s\<lparr>sy_fg := Fg_load_tail d (ur_tx_head u)\<rparr>
      | Fg_load_tail d h \<Rightarrow>
          if tx_free_slots h (ur_tx_tail u) < length d
          then s\<lparr>sy_uart := tx_reject u, sy_fg := Fg_idle\<rparr> else s\<lparr>sy_fg := Fg_copy d d h\<rparr>
      | Fg_copy d (b # bs) h \<Rightarrow>
          s\<lparr>sy_uart := u\<lparr>ur_tx_queue := (ur_tx_queue u)[unat h := b]\<rparr>, sy_fg := Fg_copy d bs (guardian_tx_next h)\<rparr>
      | Fg_copy d [] h \<Rightarrow>
          s\<lparr>sy_uart := u\<lparr>ur_tx_head := h\<rparr>, sy_fg := Fg_enable_load, sy_accepted := sy_accepted s @ d\<rparr>
      | Fg_enable_load \<Rightarrow> s\<lparr>sy_fg := Fg_enable_store (rg_cr1 (ur_regs u))\<rparr>
      | Fg_enable_store c \<Rightarrow>
          s\<lparr>sy_uart := u\<lparr>ur_regs := (ur_regs u)\<lparr>rg_cr1 := c OR USART_CR1_TXEIE\<rparr>\<rparr>, sy_fg := Fg_idle\<rparr>
      | Fg_rx_check t \<Rightarrow> s\<lparr>sy_fg := (if t = ur_rx_head u then Fg_idle else Fg_rx_load t)\<rparr>
      | Fg_rx_load t \<Rightarrow> s\<lparr>sy_fg := Fg_rx_advance t (ur_rx_queue u ! unat t)\<rparr>
      | Fg_rx_advance t b \<Rightarrow>
          s\<lparr>sy_uart := u\<lparr>ur_rx_tail := guardian_rx_next t\<rparr>, sy_fg := Fg_idle, sy_delivered := sy_delivered s @ [b]\<rparr>)"

declare foreground_access.simps [simp del]

text \<open>The calls an idle foreground may make.\<close>

definition call_write :: "u8 list \<Rightarrow> uart_system \<Rightarrow> uart_system" where
  "call_write d s = (if d = [] then s else if length d \<ge> 512 then s\<lparr>sy_uart := tx_reject (sy_uart s)\<rparr>
     else s\<lparr>sy_fg := Fg_load_head d\<rparr>)"

definition call_read :: "uart_system \<Rightarrow> uart_system" where
  "call_read s = s\<lparr>sy_fg := Fg_rx_check (ur_rx_tail (sy_uart s))\<rparr>"

inductive uart_step :: "uart_system \<Rightarrow> uart_system \<Rightarrow> bool" where
  step_interrupt: "uart_step s (interrupt sr dr sr2 s)"
| step_access: "uart_step s (foreground_access s)"
| step_write: "sy_fg s = Fg_idle \<Longrightarrow> uart_step s (call_write d s)"
| step_read: "sy_fg s = Fg_idle \<Longrightarrow> uart_step s (call_read s)"

inductive_cases uart_stepE: "uart_step s t"

section \<open>Invariant\<close>

definition filled :: "uart2 \<Rightarrow> u8 list \<Rightarrow> bool" where
  "filled u xs \<longleftrightarrow> (\<forall>j < length xs. ur_tx_queue u ! ((unat (ur_tx_head u) + j) mod 512) = xs ! j)"

fun fg_ok :: "uart2 \<Rightarrow> foreground \<Rightarrow> bool" where
  "fg_ok u (Fg_load_head d) \<longleftrightarrow> d \<noteq> []"
| "fg_ok u (Fg_load_tail d h) \<longleftrightarrow> d \<noteq> [] \<and> h = ur_tx_head u"
| "fg_ok u (Fg_copy d bs h) \<longleftrightarrow> length (tx_ring u) + length d < 512
     \<and> (\<exists>xs. d = xs @ bs \<and> unat h = (unat (ur_tx_head u) + length xs) mod 512 \<and> filled u xs)"
| "fg_ok u (Fg_rx_check t) \<longleftrightarrow> t = ur_rx_tail u"
| "fg_ok u (Fg_rx_load t) \<longleftrightarrow> t = ur_rx_tail u \<and> t \<noteq> ur_rx_head u"
| "fg_ok u (Fg_rx_advance t b) \<longleftrightarrow> t = ur_rx_tail u \<and> t \<noteq> ur_rx_head u \<and> b = ur_rx_queue u ! unat t"
| "fg_ok u _ \<longleftrightarrow> True"

text \<open>The transmit interrupt is enabled while bytes wait, except between publishing and enabling.\<close>

definition awake :: "uart2 \<Rightarrow> foreground \<Rightarrow> bool" where
  "awake u fg \<longleftrightarrow> tx_ring u = [] \<or> rg_cr1 (ur_regs u) AND USART_CR1_TXEIE \<noteq> 0 \<or> fg = Fg_enable_load \<or> (\<exists>c. fg = Fg_enable_store c)"

definition uart_inv :: "uart_system \<Rightarrow> bool" where
  "uart_inv s \<longleftrightarrow> uart_ok (sy_uart s) \<and> sy_accepted s = sy_sent s @ tx_ring (sy_uart s)
     \<and> sy_arrived s = sy_delivered s @ rx_ring (sy_uart s) \<and> fg_ok (sy_uart s) (sy_fg s) \<and> awake (sy_uart s) (sy_fg s)"

text \<open>The receive half of the handler.\<close>

lemma irq_receive_tx [simp]:
  "ur_tx_queue (irq_receive sr dr u) = ur_tx_queue u" "ur_tx_head (irq_receive sr dr u) = ur_tx_head u"
  "ur_tx_tail (irq_receive sr dr u) = ur_tx_tail u" "ur_regs (irq_receive sr dr u) = ur_regs u"
  "ur_rx_tail (irq_receive sr dr u) = ur_rx_tail u"
  by (simp_all add: irq_receive_def Let_def)

lemma irq_receive_cases:
  "ur_rx_queue (irq_receive sr dr u) = ur_rx_queue u \<and> ur_rx_head (irq_receive sr dr u) = ur_rx_head u \<and> irq_arrival sr dr u = []
   \<or> (\<exists>b. irq_arrival sr dr u = [b] \<and> guardian_rx_next (ur_rx_head u) \<noteq> ur_rx_tail u
       \<and> ur_rx_queue (irq_receive sr dr u) = (ur_rx_queue u)[unat (ur_rx_head u) := b]
       \<and> ur_rx_head (irq_receive sr dr u) = guardian_rx_next (ur_rx_head u))"
proof (cases "sr AND USART_SR_RXNE \<noteq> 0 \<and> sr AND (USART_SR_PE OR USART_SR_FE OR USART_SR_NE OR USART_SR_ORE) = 0")
  case True
  have "sr AND USART_SR_RXNE = (sr AND 0x2F) AND USART_SR_RXNE" by (simp add: and.assoc)
  then have "sr AND 0x2F \<noteq> 0" using True by auto
  with True show ?thesis by (auto simp: irq_receive_def irq_arrival_def Let_def)
next
  case False
  then show ?thesis by (auto simp: irq_receive_def irq_arrival_def Let_def)
qed

lemma receive_step:
  assumes "uart_ok u"
  shows "uart_ok (irq_receive sr dr u)" "rx_ring (irq_receive sr dr u) = rx_ring u @ irq_arrival sr dr u"
    "fg_ok u fg \<Longrightarrow> fg_ok (irq_receive sr dr u) fg" "awake (irq_receive sr dr u) fg = awake u fg"
proof -
  let ?v = "irq_receive sr dr u"
  have b: "unat (ur_rx_head u) < 512" "unat (ur_rx_tail u) < 512" "length (ur_rx_queue u) = 512"
    using assms by (simp_all add: uart_ok_def ring_ok_def)
  note nx = unat_next(2) [OF b(1)]
  have neq: "(unat (ur_rx_head u) + 1) mod 512 \<noteq> unat (ur_rx_tail u)" if "guardian_rx_next (ur_rx_head u) \<noteq> ur_rx_tail u"
    using that nx by (metis word_unat_eq_iff)
  show "uart_ok ?v" using irq_receive_cases [of sr dr u] assms nx by (auto simp: uart_ok_def ring_ok_def)
  show "rx_ring ?v = rx_ring u @ irq_arrival sr dr u"
    using irq_receive_cases [of sr dr u] ring_push [of 512 "ur_rx_queue u" "unat (ur_rx_head u)" "unat (ur_rx_tail u)"] assms nx neq
    by (auto simp: uart_ok_def)
  show "awake ?v fg = awake u fg" by (simp add: awake_def)
  have keep: "t \<noteq> ur_rx_head u \<Longrightarrow> t = ur_rx_tail u \<Longrightarrow> t \<noteq> ur_rx_head ?v \<and> ur_rx_queue ?v ! unat t = ur_rx_queue u ! unat t" for t
    using irq_receive_cases [of sr dr u] by (auto simp: word_unat_eq_iff [symmetric] nth_list_update)
  show "fg_ok ?v fg" if "fg_ok u fg"
    using that keep by (cases fg) (auto simp: filled_def)
qed

text \<open>The transmit half.\<close>

lemma irq_transmit_cases:
  "(\<exists>b. fst (irq_transmit sr2 u) = Some b \<and> b = ur_tx_queue u ! unat (ur_tx_tail u) \<and> ur_tx_tail u \<noteq> ur_tx_head u
      \<and> snd (irq_transmit sr2 u) = u\<lparr>ur_tx_tail := guardian_tx_next (ur_tx_tail u)\<rparr>)
   \<or> fst (irq_transmit sr2 u) = None \<and> (snd (irq_transmit sr2 u) = u \<or> ur_tx_tail u = ur_tx_head u
      \<and> snd (irq_transmit sr2 u) = u\<lparr>ur_regs := (ur_regs u)\<lparr>rg_cr1 := rg_cr1 (ur_regs u) AND NOT USART_CR1_TXEIE\<rparr>\<rparr>)"
  by (auto simp: irq_transmit_def)

lemma transmit_step:
  assumes ok: "uart_ok u" and t: "irq_transmit sr2 u = (out, v)"
  shows "uart_ok v" "tx_ring u = (case out of None \<Rightarrow> [] | Some b \<Rightarrow> [b]) @ tx_ring v" "rx_ring v = rx_ring u"
    "fg_ok u fg \<Longrightarrow> fg_ok v fg" "awake u fg \<Longrightarrow> awake v fg"
proof -
  have b: "unat (ur_tx_head u) < 512" "unat (ur_tx_tail u) < 512" using ok by (simp_all add: uart_ok_def ring_ok_def)
  note nx = unat_next(1) [OF b(2)]
  consider (pop) "out = Some (ur_tx_queue u ! unat (ur_tx_tail u))" "ur_tx_tail u \<noteq> ur_tx_head u"
      "v = u\<lparr>ur_tx_tail := guardian_tx_next (ur_tx_tail u)\<rparr>"
    | (stay) "out = None" "v = u"
    | (mute) "out = None" "ur_tx_tail u = ur_tx_head u"
      "v = u\<lparr>ur_regs := (ur_regs u)\<lparr>rg_cr1 := rg_cr1 (ur_regs u) AND NOT USART_CR1_TXEIE\<rparr>\<rparr>"
    using irq_transmit_cases [of sr2 u] t by auto
  then have "uart_ok v \<and> tx_ring u = (case out of None \<Rightarrow> [] | Some b \<Rightarrow> [b]) @ tx_ring v \<and> rx_ring v = rx_ring u
      \<and> (fg_ok u fg \<longrightarrow> fg_ok v fg) \<and> (awake u fg \<longrightarrow> awake v fg)"
  proof cases
    case pop
    have neq: "unat (ur_tx_head u) \<noteq> unat (ur_tx_tail u)" using pop(2) by (metis word_unat_eq_iff)
    have r: "tx_ring u = ur_tx_queue u ! unat (ur_tx_tail u) # tx_ring v"
      using ring_pop [of 512 "ur_tx_queue u", OF _ neq] ok nx pop(3) by (simp add: uart_ok_def)
    then have "length (tx_ring v) < length (tx_ring u)" by simp
    moreover have "uart_ok v" using ok nx pop(3) by (simp add: uart_ok_def ring_ok_def)
    moreover have "fg_ok u fg \<longrightarrow> fg_ok v fg"
      using \<open>length (tx_ring v) < length (tx_ring u)\<close> pop(3) by (cases fg) (auto simp: filled_def simp del: length_ring)
    moreover have "awake u fg \<longrightarrow> awake v fg" using r pop(3) by (auto simp: awake_def)
    ultimately show ?thesis using r pop by simp
  next
    case stay
    then show ?thesis using ok by simp
  next
    case mute
    have "fg_ok u fg \<longrightarrow> fg_ok v fg" using mute(3) by (cases fg) (auto simp: filled_def)
    moreover have "tx_ring u = []" using mute(2) b by simp
    ultimately show ?thesis using ok mute(1,3) by (simp add: uart_ok_def awake_def)
  qed
  then show "uart_ok v" "tx_ring u = (case out of None \<Rightarrow> [] | Some b \<Rightarrow> [b]) @ tx_ring v" "rx_ring v = rx_ring u"
    "fg_ok u fg \<Longrightarrow> fg_ok v fg" "awake u fg \<Longrightarrow> awake v fg" by auto
qed

lemma interrupt_inv: "uart_inv s \<Longrightarrow> uart_inv (interrupt sr dr sr2 s)"
proof -
  assume inv: "uart_inv s"
  let ?u = "irq_receive sr dr (sy_uart s)"
  obtain out v where t: "irq_transmit sr2 ?u = (out, v)" by fastforce
  have ok: "uart_ok (sy_uart s)" "fg_ok (sy_uart s) (sy_fg s)" "awake (sy_uart s) (sy_fg s)" using inv by (simp_all add: uart_inv_def)
  note r = receive_step [OF ok(1), where sr = sr and dr = dr]
  note x = transmit_step [OF r(1) t]
  have "tx_ring (sy_uart s) = (case out of None \<Rightarrow> [] | Some b \<Rightarrow> [b]) @ tx_ring v" using x(2) by simp
  then show ?thesis
    using inv t x(1,3) r(2) x(4) [OF r(3) [OF ok(2)]] x(5) r(4) ok(3)
    by (simp add: uart_inv_def interrupt_def guardian_stm32f401_uart2_irq_handler_def)
qed

section \<open>The foreground\<close>

lemma copy_step:
  assumes ok: "uart_ok u" and f: "fg_ok u (Fg_copy d (b # bs) h)"
  defines "v \<equiv> u\<lparr>ur_tx_queue := (ur_tx_queue u)[unat h := b]\<rparr>"
  shows "uart_ok v \<and> tx_ring v = tx_ring u \<and> fg_ok v (Fg_copy d bs (guardian_tx_next h))"
proof -
  obtain xs where x: "length (tx_ring u) + length d < 512" "d = xs @ b # bs"
      "unat h = (unat (ur_tx_head u) + length xs) mod 512" "filled u xs" using f by auto
  have b: "unat (ur_tx_head u) < 512" "unat (ur_tx_tail u) < 512" "length (ur_tx_queue u) = 512"
    using ok by (simp_all add: uart_ok_def ring_ok_def)
  have k: "length (tx_ring u) + length xs < 512" using x(1,2) by simp
  have r: "tx_ring v = tx_ring u" using ring_store [OF b(1,2) k] x(3) by (simp add: v_def)
  have "unat h < 512" using x(3) by simp
  then have nh: "unat (guardian_tx_next h) = (unat (ur_tx_head u) + length (xs @ [b])) mod 512"
    using x(3) by (simp add: unat_next mod_Suc_eq)
  have neq: "(unat (ur_tx_head u) + j) mod 512 \<noteq> (unat (ur_tx_head u) + length xs) mod 512" if "j < length xs" for j
    using that k b by (cases "unat (ur_tx_head u) + j < 512"; cases "unat (ur_tx_head u) + length xs < 512")
      (auto simp: mod_wrap split: if_splits)
  have "filled v (xs @ [b])" unfolding filled_def
  proof (intro allI impI)
    fix j assume "j < length (xs @ [b])"
    then show "ur_tx_queue v ! ((unat (ur_tx_head v) + j) mod 512) = (xs @ [b]) ! j"
      using neq [of j] x(3,4) b(3) by (cases "j < length xs") (auto simp: filled_def v_def nth_append less_Suc_eq)
  qed
  then show ?thesis
    using ok r nh x(1,2) by (auto simp: uart_ok_def ring_ok_def v_def simp del: length_ring intro: exI [of _ "xs @ [b]"])
qed

lemma publish_step:
  assumes ok: "uart_ok u" and f: "fg_ok u (Fg_copy d [] h)"
  shows "uart_ok (u\<lparr>ur_tx_head := h\<rparr>) \<and> tx_ring (u\<lparr>ur_tx_head := h\<rparr>) = tx_ring u @ d"
proof -
  have x: "length (tx_ring u) + length d < 512" "unat h = (unat (ur_tx_head u) + length d) mod 512" "filled u d"
    using f by auto
  have b: "unat (ur_tx_head u) < 512" "unat (ur_tx_tail u) < 512" using ok by (simp_all add: uart_ok_def ring_ok_def)
  have "map (\<lambda>j. ur_tx_queue u ! ((unat (ur_tx_head u) + j) mod 512)) [0..<length d] = d"
    using x(3) by (intro nth_equalityI) (auto simp: filled_def)
  then show ?thesis using ring_extend [OF b x(1)] ok x(2) by (simp add: uart_ok_def ring_ok_def)
qed

lemma access_inv:
  assumes inv: "uart_inv s"
  shows "uart_inv (foreground_access s)"
proof -
  have i: "uart_ok (sy_uart s)" "fg_ok (sy_uart s) (sy_fg s)" "sy_accepted s = sy_sent s @ tx_ring (sy_uart s)"
      "sy_arrived s = sy_delivered s @ rx_ring (sy_uart s)" "awake (sy_uart s) (sy_fg s)"
    using inv by (simp_all add: uart_inv_def)
  have b: "unat (ur_tx_head (sy_uart s)) < 512" "unat (ur_tx_tail (sy_uart s)) < 512" "unat (ur_rx_head (sy_uart s)) < 512"
      "unat (ur_rx_tail (sy_uart s)) < 512"
    using i(1) by (simp_all add: uart_ok_def ring_ok_def)
  show ?thesis
  proof (cases "sy_fg s")
    case (Fg_load_tail d h)
    then show ?thesis
      using inv i(2) b(1) free_slots_ring [OF b(1,2), of "ur_tx_queue (sy_uart s)"]
      by (auto simp: foreground_access.simps Let_def uart_inv_def uart_ok_def tx_reject_def awake_def filled_def)
  next
    case (Fg_copy d bs h)
    show ?thesis
    proof (cases bs)
      case Nil
      then show ?thesis using publish_step [of "sy_uart s" d h] i Fg_copy
        by (simp add: foreground_access.simps Let_def uart_inv_def awake_def)
    next
      case (Cons b' bs')
      then show ?thesis using copy_step [of "sy_uart s" d b' bs' h] i Fg_copy
        by (simp add: foreground_access.simps Let_def uart_inv_def awake_def del: fg_ok.simps)
    qed
  next
    case (Fg_enable_store c)
    have "(c OR x) AND x = x" for c x :: u32 by (rule bit_eqI) (auto simp: bit_simps)
    then have "(c OR 0x80) AND 0x80 = 0x80" by blast
    then show ?thesis using i Fg_enable_store
      by (simp add: foreground_access.simps Let_def uart_inv_def uart_ok_def awake_def)
  next
    case (Fg_rx_advance t b')
    have t: "t = ur_rx_tail (sy_uart s)" "t \<noteq> ur_rx_head (sy_uart s)" "b' = ur_rx_queue (sy_uart s) ! unat t"
      using i(2) Fg_rx_advance by auto
    have neq: "unat (ur_rx_head (sy_uart s)) \<noteq> unat (ur_rx_tail (sy_uart s))" using t by (metis word_unat_eq_iff)
    have "rx_ring (sy_uart s) = b' # rx_ring ((sy_uart s)\<lparr>ur_rx_tail := guardian_rx_next t\<rparr>)"
      using ring_pop [of 512 "ur_rx_queue (sy_uart s)", OF _ neq] i(1) t unat_next(2) [OF b(4)] by (simp add: uart_ok_def)
    then show ?thesis
      using i t Fg_rx_advance unat_next(2) [OF b(4)]
      by (simp add: foreground_access.simps Let_def uart_inv_def uart_ok_def ring_ok_def awake_def)
  qed (use inv i in \<open>auto simp: foreground_access.simps Let_def uart_inv_def awake_def\<close>)
qed

text \<open>Without interrupts the accesses of a call amount to the driver's function.\<close>

lemma copy_run:
  "sy_fg s = Fg_copy d bs h \<Longrightarrow> tx_store bs (ur_tx_queue (sy_uart s), h) = (q, h') \<Longrightarrow>
   (foreground_access ^^ length bs) s = s\<lparr>sy_uart := (sy_uart s)\<lparr>ur_tx_queue := q\<rparr>, sy_fg := Fg_copy d [] h'\<rparr>"
proof (induction bs arbitrary: s h)
  case (Cons b bs)
  let ?t = "s\<lparr>sy_uart := (sy_uart s)\<lparr>ur_tx_queue := (ur_tx_queue (sy_uart s))[unat h := b]\<rparr>, sy_fg := Fg_copy d bs (guardian_tx_next h)\<rparr>"
  have "foreground_access s = ?t" using Cons.prems(1) by (simp add: foreground_access.simps Let_def)
  then have "(foreground_access ^^ length (b # bs)) s = (foreground_access ^^ length bs) ?t"
    by (simp only: list.size funpow_Suc_right o_apply add_0_right add_Suc_right)
  also have "\<dots> = ?t\<lparr>sy_uart := (sy_uart ?t)\<lparr>ur_tx_queue := q\<rparr>, sy_fg := Fg_copy d [] h'\<rparr>"
    using Cons.prems(2) by (intro Cons.IH) simp_all
  finally show ?case by simp
qed simp

lemma idle_run: "sy_fg s = Fg_idle \<Longrightarrow> (foreground_access ^^ n) s = s"
  by (induction n) (simp_all add: foreground_access.simps Let_def)

lemma write_uninterrupted:
  assumes "sy_fg s = Fg_idle"
  shows "(foreground_access ^^ (length d + 5)) (call_write d s) =
    s\<lparr>sy_uart := snd (guardian_stm32f401_uart2_write (sy_uart s) (Some d)),
      sy_accepted := sy_accepted s @ (if fst (guardian_stm32f401_uart2_write (sy_uart s) (Some d)) = length d then d else [])\<rparr>"
proof (cases "d = [] \<or> length d \<ge> 512")
  case True
  then show ?thesis using assms by (auto simp: call_write_def guardian_stm32f401_uart2_write_def idle_run)
next
  case False
  let ?u = "sy_uart s" and ?s2 = "s\<lparr>sy_fg := Fg_copy d d (ur_tx_head (sy_uart s))\<rparr>"
  have two: "(foreground_access ^^ 2) (call_write d s) = (if tx_free_slots (ur_tx_head ?u) (ur_tx_tail ?u) < length d
      then s\<lparr>sy_uart := tx_reject ?u, sy_fg := Fg_idle\<rparr> else ?s2)"
    using False by (simp add: call_write_def numeral_2_eq_2 foreground_access.simps Let_def)
  have split: "(foreground_access ^^ (length d + 5)) x = (foreground_access ^^ (length d + 3)) ((foreground_access ^^ 2) x)" for x
    using funpow_add [of "length d + 3" 2 foreground_access] by (simp add: add.commute)
  show ?thesis
  proof (cases "tx_free_slots (ur_tx_head ?u) (ur_tx_tail ?u) < length d")
    case True
    then show ?thesis using False assms unfolding split two by (cases s) (simp add: guardian_stm32f401_uart2_write_def idle_run)
  next
    case room: False
    obtain q h' where st: "tx_store d (ur_tx_queue ?u, ur_tx_head ?u) = (q, h')" by fastforce
    have "(foreground_access ^^ (length d + 3)) ?s2 = (foreground_access ^^ 3) ((foreground_access ^^ length d) ?s2)"
      using funpow_add [of 3 "length d" foreground_access] by (simp add: add.commute)
    also have "\<dots> = (foreground_access ^^ 3) (?s2\<lparr>sy_uart := ?u\<lparr>ur_tx_queue := q\<rparr>, sy_fg := Fg_copy d [] h'\<rparr>)"
      using copy_run [of ?s2 d d "ur_tx_head ?u" q h'] st by simp
    finally show ?thesis
      using False room st assms unfolding split two
      by (cases s) (simp add: guardian_stm32f401_uart2_write_def numeral_3_eq_3 foreground_access.simps Let_def)
  qed
qed

lemma read_uninterrupted:
  assumes "sy_fg s = Fg_idle" "guardian_stm32f401_uart2_read_byte (sy_uart s) (Some b0) = (got, b, u)"
  shows "sy_uart ((foreground_access ^^ 3) (call_read s)) = u
    \<and> sy_delivered ((foreground_access ^^ 3) (call_read s)) = sy_delivered s @ (if got then [the b] else [])"
  using assms by (auto simp: call_read_def numeral_3_eq_3 foreground_access.simps Let_def
      guardian_stm32f401_uart2_read_byte_def split: if_splits)

section \<open>Reachable states\<close>

definition uart_initial :: "uart_system \<Rightarrow> bool" where
  "uart_initial s \<longleftrightarrow> (\<exists>cfgr clock baud prio u. guardian_stm32f401_uart2_init cfgr clock baud prio u = (True, sy_uart s)
       \<and> length (ur_rx_queue u) = 512 \<and> length (ur_tx_queue u) = 512)
     \<and> sy_fg s = Fg_idle \<and> sy_accepted s = [] \<and> sy_sent s = [] \<and> sy_arrived s = [] \<and> sy_delivered s = []"

lemma uart_init_effect:
  assumes "guardian_stm32f401_uart2_init cfgr clock baud prio u = (True, v)"
  shows "ur_rx_queue v = ur_rx_queue u" "ur_tx_queue v = ur_tx_queue u" "ur_rx_head v = 0" "ur_rx_tail v = 0"
    "ur_tx_head v = 0" "ur_tx_tail v = 0"
  using assms by (auto simp: guardian_stm32f401_uart2_init_def Let_def split: if_splits)

lemma uart_initial_inv: "uart_initial s \<Longrightarrow> uart_inv s"
proof -
  assume s: "uart_initial s"
  then obtain cfgr clock baud prio u where i: "guardian_stm32f401_uart2_init cfgr clock baud prio u = (True, sy_uart s)"
      "length (ur_rx_queue u) = 512" "length (ur_tx_queue u) = 512"
    unfolding uart_initial_def by blast
  note e = uart_init_effect [OF i(1)]
  show ?thesis using s i(2,3) e by (simp add: uart_inv_def uart_ok_def ring_ok_def awake_def uart_initial_def)
qed

lemma uart_step_inv: "uart_inv s \<Longrightarrow> uart_step s t \<Longrightarrow> uart_inv t"
proof (erule uart_stepE)
  fix d assume "uart_inv s" "sy_fg s = Fg_idle" "t = call_write d s"
  then show "uart_inv t" by (auto simp: call_write_def uart_inv_def uart_ok_def awake_def tx_reject_def)
next
  assume "uart_inv s" "sy_fg s = Fg_idle" "t = call_read s"
  then show "uart_inv t" by (simp add: call_read_def uart_inv_def awake_def)
qed (simp_all add: interrupt_inv access_inv)

interpretation uart: transition_system uart_initial uart_step uart_inv
  by unfold_locales (auto intro: uart_initial_inv uart_step_inv)

section \<open>Properties\<close>

text \<open>C2: The serial driver loses, duplicates and reorders nothing. However interrupts fall between the
  memory accesses of the foreground, the bytes put on the line are a prefix of the accepted writes in
  order and the rest waits in the transmit ring; the bytes delivered to the reader are a prefix of
  those the handler queued; the rings stay within their arrays; and an idle foreground never leaves
  bytes waiting with the transmit interrupt disabled.\<close>

theorem uart_is_fifo:
  assumes "reachable uart_initial uart_step s"
  shows "sy_accepted s = sy_sent s @ tx_ring (sy_uart s) \<and> sy_arrived s = sy_delivered s @ rx_ring (sy_uart s)
    \<and> unat (ur_tx_head (sy_uart s)) < length (ur_tx_queue (sy_uart s)) \<and> unat (ur_tx_tail (sy_uart s)) < length (ur_tx_queue (sy_uart s))
    \<and> unat (ur_rx_head (sy_uart s)) < length (ur_rx_queue (sy_uart s)) \<and> unat (ur_rx_tail (sy_uart s)) < length (ur_rx_queue (sy_uart s))
    \<and> (sy_fg s = Fg_idle \<and> tx_ring (sy_uart s) \<noteq> [] \<longrightarrow> rg_cr1 (ur_regs (sy_uart s)) AND USART_CR1_TXEIE \<noteq> 0)"
  using uart.reachable_inv [OF assms] by (auto simp: uart_inv_def uart_ok_def ring_ok_def awake_def)

text \<open>A driver at 115200 baud on a 42 MHz bus, interrupted in the middle of a write.\<close>

definition sample_uart :: uart2 where
  "sample_uart = snd (guardian_stm32f401_uart2_init 0 42000000 115200 5
     \<lparr>ur_rx_queue = replicate 512 0, ur_rx_head = 0, ur_rx_tail = 0, ur_tx_queue = replicate 512 0, ur_tx_head = 0, ur_tx_tail = 0,
       ur_stats = \<lparr>us_parity_errors = 0, us_framing_errors = 0, us_noise_errors = 0, us_hardware_overruns = 0,
         us_rx_queue_overruns = 0, us_tx_queue_rejections = 0\<rparr>,
       ur_regs = \<lparr>rg_ahb1enr = 0, rg_apb1enr = 0, rg_moder = 0, rg_otyper = 0, rg_ospeedr = 0, rg_pupdr = 0, rg_afr0 = 0,
         rg_cr1 = 0, rg_cr2 = 0, rg_cr3 = 0, rg_brr = 0, rg_nvic_priority = 0, rg_nvic_enabled = False\<rparr>\<rparr>)"

definition sample_system :: uart_system where
  "sample_system = \<lparr>sy_uart = sample_uart, sy_fg = Fg_idle, sy_accepted = [], sy_sent = [], sy_arrived = [], sy_delivered = []\<rparr>"

lemma sample_system_initial: "uart_initial sample_system"
  unfolding uart_initial_def
proof (intro conjI exI)
  show "guardian_stm32f401_uart2_init 0 42000000 115200 5
     \<lparr>ur_rx_queue = replicate 512 0, ur_rx_head = 0, ur_rx_tail = 0, ur_tx_queue = replicate 512 0, ur_tx_head = 0, ur_tx_tail = 0,
       ur_stats = \<lparr>us_parity_errors = 0, us_framing_errors = 0, us_noise_errors = 0, us_hardware_overruns = 0,
         us_rx_queue_overruns = 0, us_tx_queue_rejections = 0\<rparr>,
       ur_regs = \<lparr>rg_ahb1enr = 0, rg_apb1enr = 0, rg_moder = 0, rg_otyper = 0, rg_ospeedr = 0, rg_pupdr = 0, rg_afr0 = 0,
         rg_cr1 = 0, rg_cr2 = 0, rg_cr3 = 0, rg_brr = 0, rg_nvic_priority = 0, rg_nvic_enabled = False\<rparr>\<rparr> = (True, sy_uart sample_system)"
    by (simp add: sample_system_def sample_uart_def guardian_stm32f401_uart2_init_def guardian_stm32f401_uart2_apb1_clock_hz_def Let_def)
qed (simp_all add: sample_system_def)

definition interrupted_write :: uart_system where
  "interrupted_write = foreground_access (interrupt 0x20 0x55 0 (foreground_access (foreground_access (call_write [7] sample_system))))"

theorem uart_is_fifo_witness:
  "sy_arrived interrupted_write = [0x55] \<and> sy_accepted interrupted_write = []
    \<and> sy_arrived interrupted_write = sy_delivered interrupted_write @ rx_ring (sy_uart interrupted_write)"
proof -
  have u: "ur_rx_head sample_uart = 0" "ur_rx_tail sample_uart = 0" "ur_tx_head sample_uart = 0" "ur_tx_tail sample_uart = 0"
    by (simp_all add: sample_uart_def guardian_stm32f401_uart2_init_def guardian_stm32f401_uart2_apb1_clock_hz_def Let_def)
  have "reachable uart_initial uart_step (call_write [7] sample_system)"
  proof (rule reachable_step)
    show "reachable uart_initial uart_step sample_system" by (rule reachable_init) (rule sample_system_initial)
    show "uart_step sample_system (call_write [7] sample_system)" by (rule step_write) (simp add: sample_system_def)
  qed
  then have "reachable uart_initial uart_step interrupted_write"
    unfolding interrupted_write_def by (meson reachable_step step_access step_interrupt)
  moreover have "guardian_rx_next 0 = 1" by (simp add: guardian_rx_next_def word_le_nat_alt)
  ultimately show ?thesis
    using uart_is_fifo [of interrupted_write]
    by (simp add: interrupted_write_def sample_system_def call_write_def foreground_access.simps Let_def u tx_free_slots_def
        interrupt_def guardian_stm32f401_uart2_irq_handler_def irq_transmit_def irq_arrival_def split: prod.splits)
qed

end
