(* ===== verification/Guardian_Link_Transport.thy ===== *)
theory Guardian_Link_Transport
  imports Guardian_Link_Service Guardian_UART2 "HOL-Library.Sublist"
begin

text \<open>
  The link on its serial port.  A locale states what a byte transport promises in terms of the bytes
  it has delivered and the bytes it has accepted; inside it the link is shown to answer every request
  that the parser finds in the delivered bytes, in order.  The USART2 driver, with the interrupts that
  fall between two calls, and the uptime counter of
  \<open>src/firmware/App/Src/guardian_firmware_app.c\<close> are the instance.
\<close>

section \<open>Effect of a request on the transport\<close>

abbreviation tx_failures :: "('w, 'o, 'r, 'f) guardian_embedded_link \<Rightarrow> u32" where
  "tx_failures l \<equiv> ls_tx_queue_failures (lk_stats l)"

lemma request_io [simp]:
  "lk_io (fst (auth_begin_request l req now)) = lk_io l" "tx_failures (fst (auth_begin_request l req now)) = tx_failures l"
  "lk_io (fst (auth_finish_request l req now)) = lk_io l" "tx_failures (fst (auth_finish_request l req now)) = tx_failures l"
  "lk_io (fst (security_status_request l req now)) = lk_io l" "tx_failures (fst (security_status_request l req now)) = tx_failures l"
  by (simp_all add: auth_begin_request_def auth_finish_request_def security_status_request_def Let_def split: prod.splits)

lemma update_control_health_io [simp]:
  "lk_io (guardian_embedded_update_control_health l) = lk_io l"
  "tx_failures (guardian_embedded_update_control_health l) = tx_failures l"
  by (simp_all add: guardian_embedded_update_control_health_def Let_def)

lemma dispatch_privileged_io [simp]:
  "lk_io (fst (snd (guardian_embedded_dispatch_privileged l req resp))) = lk_io l"
  "tx_failures (fst (snd (guardian_embedded_dispatch_privileged l req resp))) = tx_failures l"
  by (simp_all add: guardian_embedded_dispatch_privileged_def Let_def split: prod.splits)

lemma secure_request_io:
  assumes q: "secure_request l req now r out0 = (r', l', out)"
  shows "lk_io l' = lk_io l \<and> tx_failures l' = tx_failures l"
proof -
  have d: "guardian_embedded_dispatch_privileged k i f = (a, k', b) \<Longrightarrow> lk_io k' = lk_io k \<and> tx_failures k' = tx_failures k"
    for k i f a k' b by (metis dispatch_privileged_io fst_conv snd_conv)
  show ?thesis
    using q by (auto simp: secure_request_def Let_def dest!: d split: prod.splits if_splits)
qed

lemma read_uptime_stats [simp]: "lk_stats (snd (read_uptime l)) = lk_stats l"
  by (simp add: read_uptime_def split: prod.splits)

lemma bookkeeping_failures [simp]:
  "tx_failures (guardian_embedded_record_response_error l f) = tx_failures l" "tx_failures (count_frame l p) = tx_failures l"
  by (simp_all add: guardian_embedded_record_response_error_def count_frame_def note_error_def)

text \<open>Handling a frame reads the uptime once or twice, touches the transport in no other way and leaves
  the count of failed transmissions alone.\<close>

lemma dispatch_io:
  assumes d: "dispatch_request l req r out0 = (r', l', out)"
  shows "(lk_io l' = lk_io (snd (read_uptime l)) \<or> lk_io l' = lk_io (snd (read_uptime (snd (read_uptime l)))))
    \<and> tx_failures l' = tx_failures l"
proof -
  obtain now l1 where up: "read_uptime l = (now, l1)" by fastforce
  have st: "lk_stats l1 = lk_stats l" using read_uptime_stats [of l] up by simp
  have own: "auth_begin_request l1 req now = (l', out) \<Longrightarrow> lk_io l' = lk_io l1 \<and> tx_failures l' = tx_failures l1"
      "auth_finish_request l1 req now = (l', out) \<Longrightarrow> lk_io l' = lk_io l1 \<and> tx_failures l' = tx_failures l1"
      "security_status_request l1 req now = (l', out) \<Longrightarrow> lk_io l' = lk_io l1 \<and> tx_failures l' = tx_failures l1"
      "guardian_embedded_dispatch_privileged l1 req f = (a, l', b) \<Longrightarrow> lk_io l' = lk_io l1 \<and> tx_failures l' = tx_failures l1" for f a b
    by (metis request_io dispatch_privileged_io fst_conv snd_conv)+
  have rt: "guardian_embedded_runtime l1 = (t, k) \<Longrightarrow> k = snd (read_uptime l1)" for t k
    by (auto simp: guardian_embedded_runtime_def split: prod.splits)
  show ?thesis
    using d st unfolding dispatch_request_def up prod.case snd_conv
    by (auto dest: own rt secure_request_io split: if_splits prod.splits)
qed

section \<open>Byte transports\<close>

definition wired :: "('w ptr \<Rightarrow> u8 \<Rightarrow> bool \<times> u8 \<times> 'w ptr) \<Rightarrow> ('w ptr \<Rightarrow> u8 list \<Rightarrow> nat \<times> 'w ptr) \<Rightarrow> ('w ptr \<Rightarrow> u32 \<times> 'w ptr)
     \<Rightarrow> ('w, 'o, 'r, 'f) guardian_embedded_link \<Rightarrow> bool" where
  "wired rd wr up l \<longleftrightarrow> io_read_byte (lk_io l) = Some rd \<and> io_write (lk_io l) = Some wr
     \<and> io_uptime_seconds (lk_io l) = Some up"

abbreviation port :: "('w, 'o, 'r, 'f) guardian_embedded_link \<Rightarrow> 'w ptr" where
  "port l \<equiv> io_context (lk_io l)"

abbreviation wire :: "guardian_frame \<Rightarrow> u8 list" where
  "wire f \<equiv> wire_bytes (abs_frame f)"

text \<open>The frames \<open>outs\<close> are sent in order: those not dropped extend the accepted bytes, and a dropped
  frame shows in the count of failed transmissions.\<close>

definition sends :: "u8 list \<Rightarrow> u32 \<Rightarrow> guardian_frame list \<Rightarrow> u8 list \<Rightarrow> u32 \<Rightarrow> bool" where
  "sends a k outs a' k' \<longleftrightarrow> (\<exists>kept. subseq kept (map wire outs) \<and> a' = a @ concat kept \<and> k \<le> k'
      \<and> (k' = 0 \<longrightarrow> kept = map wire outs))"

lemma sends_nil [simp]: "sends a k [] a' k' \<longleftrightarrow> a' = a \<and> k \<le> k'"
  by (auto simp: sends_def dest: list_emb_Nil2)

lemma sends_append:
  assumes "sends a k xs a1 k1" "sends a1 k1 ys a2 k2"
  shows "sends a k (xs @ ys) a2 k2"
proof -
  obtain u v where "subseq u (map wire xs)" "a1 = a @ concat u" "k \<le> k1" "k1 = 0 \<longrightarrow> u = map wire xs"
      "subseq v (map wire ys)" "a2 = a1 @ concat v" "k1 \<le> k2" "k2 = 0 \<longrightarrow> v = map wire ys"
    using assms unfolding sends_def by blast
  moreover from this have "k2 = 0 \<longrightarrow> k1 = 0" "k \<le> k2" by auto
  ultimately show ?thesis
    unfolding sends_def by (intro exI [of _ "u @ v"]) (auto simp: list_emb_append_mono)
qed

lemma increment_mono: "k \<le> guardian_embedded_increment_u32 k" "guardian_embedded_increment_u32 k \<noteq> 0"
proof -
  have "unat k < 2 ^ 32" using unsigned_less [of k] by simp
  moreover have "unat k \<noteq> 4294967295" if "k \<noteq> 0xFFFFFFFF" using that by (simp add: word_unat_eq_iff)
  ultimately show "k \<le> guardian_embedded_increment_u32 k" "guardian_embedded_increment_u32 k \<noteq> 0"
    by (auto simp: guardian_embedded_increment_u32_def word_le_nat_alt unat_word_ariths word_unat_eq_iff)
qed

lemma transmit_failures:
  assumes "encodable f"
  shows "tx_failures (guardian_embedded_transmit l f) =
    (if fst (the (io_write (lk_io l)) (io_context (lk_io l)) (wire f)) = length (wire f) then tx_failures l
     else guardian_embedded_increment_u32 (tx_failures l))"
proof -
  have "length (wire f) \<le> 272"
    using assms length_frame_payload [OF assms] by (simp add: abs_frame_def encodable_def)
  moreover have "guardian_protocol_encode (Some f) (Some (replicate 272 0)) 272 (Some 0) =
      (GUARDIAN_PROTOCOL_OK, Some (buf_write (replicate 272 0) 0 (wire f)), Some (length (wire f)))"
    using assms by (intro encode_ok) (auto simp: encodable_def)
  ultimately show ?thesis
    by (simp add: guardian_embedded_transmit_def take_buf_write_0 note_error_def Let_def split: prod.splits)
qed

text \<open>\<open>delivered\<close> are the bytes the transport has handed to its reader, \<open>accepted\<close> the bytes of the
  blocks it has taken for transmission; a block is taken completely or not at all.  \<open>ready\<close> holds
  between two calls.\<close>

locale byte_transport =
  fixes rd :: "'w ptr \<Rightarrow> u8 \<Rightarrow> bool \<times> u8 \<times> 'w ptr"
    and wr :: "'w ptr \<Rightarrow> u8 list \<Rightarrow> nat \<times> 'w ptr"
    and up :: "'w ptr \<Rightarrow> u32 \<times> 'w ptr"
    and ready :: "'w ptr \<Rightarrow> bool"
    and delivered :: "'w ptr \<Rightarrow> u8 list" and accepted :: "'w ptr \<Rightarrow> u8 list"
  assumes read_law: "rd c b = (got, x, c') \<Longrightarrow> ready c \<Longrightarrow>
      ready c' \<and> delivered c' = delivered c @ (if got then [x] else []) \<and> accepted c' = accepted c"
    and write_law: "wr c d = (n, c') \<Longrightarrow> ready c \<Longrightarrow>
      ready c' \<and> delivered c' = delivered c \<and> accepted c' = accepted c @ (if n = length d then d else [])"
    and uptime_law: "up c = (t, c') \<Longrightarrow> ready c \<Longrightarrow> ready c' \<and> delivered c' = delivered c \<and> accepted c' = accepted c"
begin

abbreviation connected :: "('w, 'o, 'r, 'f) guardian_embedded_link \<Rightarrow> bool" where
  "connected l \<equiv> wired rd wr up l \<and> ready (port l)"

lemma uptime_port:
  assumes "connected l"
  shows "delivered (port (snd (read_uptime l))) = delivered (port l) \<and> accepted (port (snd (read_uptime l))) = accepted (port l)
    \<and> connected (snd (read_uptime l))"
  using assms uptime_law [of "port l"]
  by (auto simp: read_uptime_def wired_def split: prod.splits)

lemma dispatch_port:
  assumes "dispatch_request l req r out0 = (r', l', out)" "connected l"
  shows "delivered (port l') = delivered (port l) \<and> accepted (port l') = accepted (port l) \<and> connected l'
    \<and> tx_failures l' = tx_failures l"
proof -
  have "connected (snd (read_uptime l))" using uptime_port [OF assms(2)] by blast
  then show ?thesis
    using dispatch_io [OF assms(1)] uptime_port [OF assms(2)] uptime_port [of "snd (read_uptime l)"] by (auto simp: wired_def)
qed

lemma transmit_port:
  assumes "encodable f" "connected l"
  defines "l' \<equiv> guardian_embedded_transmit l f"
  shows "sends (accepted (port l)) (tx_failures l) [f] (accepted (port l')) (tx_failures l') \<and> delivered (port l') = delivered (port l)
    \<and> connected l'"
proof -
  obtain n c where w: "wr (port l) (wire f) = (n, c)" by fastforce
  have io: "lk_io l' = (lk_io l)\<lparr>io_context := c\<rparr>"
      "tx_failures l' = (if n = length (wire f) then tx_failures l else guardian_embedded_increment_u32 (tx_failures l))"
    using transmit_io [OF assms(1), of l] transmit_failures [OF assms(1), of l] assms(2) w by (simp_all add: wired_def l'_def)
  have law: "ready c \<and> delivered c = delivered (port l) \<and> accepted c = accepted (port l) @ (if n = length (wire f) then wire f else [])"
    using write_law [OF w] assms(2) by blast
  have "sends (accepted (port l)) (tx_failures l) [f] (accepted c) (tx_failures l')"
    using law increment_mono [of "tx_failures l"] unfolding sends_def io(2)
    by (intro exI [of _ "if n = length (wire f) then [wire f] else []"]) simp
  then show ?thesis using law io(1) assms(2) by (simp add: wired_def)
qed

text \<open>One byte: the parser takes it, and a frame it completes is answered by one frame.\<close>

lemma poll_byte_port:
  assumes inv: "link_inv cmd l" and v: "locals_ok v" and pb: "poll_byte l v = (l', v')" and w: "connected l"
  shows "\<exists>pr outs. parser_push (lk_parser l) (pl_byte v) (pl_request v) = (pr, lk_parser l', pl_request v')
    \<and> list_all2 replies (if pr = GUARDIAN_PARSER_FRAME_READY then [pl_request v'] else []) outs
    \<and> sends (accepted (port l)) (tx_failures l) outs (accepted (port l')) (tx_failures l')
    \<and> delivered (port l') = delivered (port l) \<and> connected l'"
  using inv v pb
proof (cases rule: poll_byte_cases)
  case (quiet pr)
  have "tx_failures (fst (poll_byte l v)) = tx_failures l"
    using quiet(1,2) by (auto simp: poll_byte_def Let_def note_error_def push_byte_Some)
  then have "tx_failures l' = tx_failures l" using pb by simp
  then show ?thesis using w quiet by (intro exI [of _ pr] exI [of _ "[]"]) (simp add: wired_def)
next
  case (frame p l3)
  let ?l2 = "count_frame l p" and ?out = "pl_output v'"
  let ?l4 = "guardian_embedded_record_response_error l3 ?out"
  have w2: "connected ?l2" using w by (simp add: wired_def)
  note d = dispatch_port [OF frame(5) w2]
  have enc: "encodable ?out" "replies (pl_request v') ?out" using frame(6) by (simp_all add: frame_handled_def replies_def)
  have w4: "connected ?l4" using d by (simp add: wired_def)
  note t = transmit_port [OF enc(1) w4]
  show ?thesis
    using frame(1,7,8) t d enc by (intro exI [of _ GUARDIAN_PARSER_FRAME_READY] exI [of _ "[?out]"]) simp
qed

text \<open>The loop: the requests the parser finds in the bytes it takes are answered in their order.\<close>

lemma poll_loop_port:
  "link_inv cmd l \<Longrightarrow> locals_ok v \<Longrightarrow> connected l \<Longrightarrow> poll_loop n l v = (l', v') \<Longrightarrow>
    \<exists>bs reqs outs. delivered (port l') = delivered (port l) @ bs \<and> length bs \<le> n
      \<and> parser_feed (lk_parser l) (pl_request v) bs = (reqs, lk_parser l', pl_request v') \<and> list_all2 replies reqs outs
      \<and> sends (accepted (port l)) (tx_failures l) outs (accepted (port l')) (tx_failures l') \<and> connected l'"
proof (induction n arbitrary: l v)
  case 0
  then show ?case by simp
next
  case (Suc n)
  obtain got b c where rd: "rd (port l) (pl_byte v) = (got, b, c)" by (metis prod_cases3)
  let ?l1 = "l\<lparr>lk_io := (lk_io l)\<lparr>io_context := c\<rparr>\<rparr>" and ?v1 = "v\<lparr>pl_byte := b\<rparr>"
  have io: "the (io_read_byte (lk_io l)) (io_context (lk_io l)) (pl_byte v) = (got, b, c)"
    using rd Suc.prems(3) by (simp add: wired_def)
  have law: "ready c \<and> delivered c = delivered (port l) @ (if got then [b] else []) \<and> accepted c = accepted (port l)"
    using read_law [OF rd] Suc.prems(3) by blast
  have ok1: "link_inv cmd ?l1" "locals_ok ?v1" using Suc.prems(1,2) by (simp_all add: locals_ok_def)
  have c1: "connected ?l1" using law Suc.prems(3) by (simp add: wired_def)
  show ?case
  proof (cases got)
    case False
    then have "l' = ?l1" "v' = ?v1" using Suc.prems(4) io by auto
    then show ?thesis using law c1 False by simp
  next
    case True
    obtain l2 v2 where pb: "poll_byte ?l1 ?v1 = (l2, v2)" by fastforce
    have ok2: "link_inv cmd l2" "locals_ok v2" using poll_byte_inv [OF ok1 pb] by blast+
    obtain pr o1 where byte: "parser_push (lk_parser l) b (pl_request v) = (pr, lk_parser l2, pl_request v2)"
        "list_all2 replies (if pr = GUARDIAN_PARSER_FRAME_READY then [pl_request v2] else []) o1"
        "sends (accepted (port l)) (tx_failures l) o1 (accepted (port l2)) (tx_failures l2)"
        "delivered (port l2) = delivered (port l) @ [b]" "connected l2"
      using poll_byte_port [OF ok1 pb c1] law True by auto
    have "poll_loop n l2 v2 = (l', v')" using Suc.prems(4) io True pb by simp
    from Suc.IH [OF ok2 byte(5) this] obtain bs rs os where rest: "delivered (port l') = delivered (port l2) @ bs" "length bs \<le> n"
        "parser_feed (lk_parser l2) (pl_request v2) bs = (rs, lk_parser l', pl_request v')" "list_all2 replies rs os"
        "sends (accepted (port l2)) (tx_failures l2) os (accepted (port l')) (tx_failures l')" "connected l'"
      by blast
    have "list_all2 replies ((if pr = GUARDIAN_PARSER_FRAME_READY then [pl_request v2] else []) @ rs) (o1 @ os)"
      using byte(2) rest(4) by (rule list_all2_appendI)
    moreover have "sends (accepted (port l)) (tx_failures l) (o1 @ os) (accepted (port l')) (tx_failures l')"
      using byte(3) rest(5) by (rule sends_append)
    ultimately show ?thesis
      using rest(1,2,3,6) byte(1,4)
      by (intro exI [of _ "b # bs"] exI [of _ "(if pr = GUARDIAN_PARSER_FRAME_READY then [pl_request v2] else []) @ rs"] exI [of _ "o1 @ os"])
        (simp add: parser_feed_Cons)
  qed
qed

text \<open>A poll sends after the answers at most one frame, a telemetry event.\<close>

lemma poll_telemetry_port:
  assumes "link_inv cmd l" "connected l" "wf_frame f"
  defines "l' \<equiv> poll_telemetry l f"
  shows "\<exists>ev. length ev \<le> 1 \<and> (\<forall>e \<in> set ev. message_type e = GUARDIAN_MESSAGE_TELEMETRY)
    \<and> sends (accepted (port l)) (tx_failures l) ev (accepted (port l')) (tx_failures l')
    \<and> delivered (port l') = delivered (port l) \<and> connected l'"
proof -
  obtain due t' f' where m: "guardian_telemetry_make_due_frame (Some (lk_telemetry l)) (lk_state l) (Some f) = (due, t', f')"
    by (metis prod_cases3)
  let ?l1 = "l\<lparr>lk_telemetry := the t'\<rparr>" and ?e = "due_frame (lk_telemetry l) (lk_state l) f"
  have c1: "connected ?l1" using assms(2) by (simp add: wired_def)
  have f': "due \<longrightarrow> f' = Some ?e" using telemetry_step [OF _ m] assms(1) by (simp add: link_inv_def)
  show ?thesis
  proof (cases due)
    case False
    then show ?thesis using c1 by (intro exI [of _ "[]"]) (simp add: l'_def poll_telemetry_def m)
  next
    case True
    then have "l' = guardian_embedded_transmit ?l1 ?e" using f' by (simp add: l'_def poll_telemetry_def m Let_def)
    then show ?thesis
      using transmit_port [OF due_frame_encodable [OF assms(3), of "lk_telemetry l" "lk_state l"] c1]
      by (intro exI [of _ "[?e]"]) (simp add: due_frame_def Let_def)
  qed
qed

lemma poll_port:
  assumes inv: "link_inv cmd l" and conn: "connected l" and poll: "guardian_embedded_link_poll (Some l) n = Some l'"
  shows "\<exists>bs reqs outs ev f. delivered (port l') = delivered (port l) @ bs \<and> length bs \<le> (if n = 0 then 64 else n)
      \<and> parser_feed (lk_parser l) (pl_request initial_locals) bs = (reqs, lk_parser l', f)
      \<and> list_all2 replies reqs outs \<and> length ev \<le> 1 \<and> (\<forall>e \<in> set ev. message_type e = GUARDIAN_MESSAGE_TELEMETRY)
      \<and> sends (accepted (port l)) (tx_failures l) (outs @ ev) (accepted (port l')) (tx_failures l') \<and> connected l'"
proof -
  obtain l1 v1 where p: "poll_loop (if n = 0 then 64 else n) l initial_locals = (l1, v1)" by fastforce
  then have l': "l' = poll_telemetry l1 (pl_output v1)" using poll by (simp add: guardian_embedded_link_poll_def Let_def)
  have k: "link_inv cmd l1" "locals_ok v1" using poll_loop_inv [OF inv initial_locals_ok p] by blast+
  obtain bs reqs outs where loop: "delivered (port l1) = delivered (port l) @ bs" "length bs \<le> (if n = 0 then 64 else n)"
      "parser_feed (lk_parser l) (pl_request initial_locals) bs = (reqs, lk_parser l1, pl_request v1)" "list_all2 replies reqs outs"
      "sends (accepted (port l)) (tx_failures l) outs (accepted (port l1)) (tx_failures l1)" "connected l1"
    using poll_loop_port [OF inv initial_locals_ok conn p] by blast
  have "wf_frame (pl_output v1)" using k(2) by (simp add: locals_ok_def)
  from poll_telemetry_port [OF k(1) loop(6) this] obtain ev where ev: "length ev \<le> 1" "\<forall>e \<in> set ev. message_type e = GUARDIAN_MESSAGE_TELEMETRY"
      "sends (accepted (port l1)) (tx_failures l1) ev (accepted (port l')) (tx_failures l')"
      "delivered (port l') = delivered (port l1)" "connected l'"
    unfolding l' by blast
  moreover have "lk_parser l' = lk_parser l1" unfolding l' using poll_telemetry_inv(4) [OF k(1)] by simp
  ultimately show ?thesis using loop sends_append [OF loop(5) ev(3)] by metis
qed

end

section \<open>The USART2 driver as a transport\<close>

text \<open>The callbacks of \<open>guardian_firmware_app_init\<close> reach the driver through statics; here their context
  carries the driver with its logs, the interrupts that will fall before each of the next calls, as the
  values they read from the status and data registers, and the uptime counter.\<close>

record serial_world =
  sw_system :: uart_system
  sw_schedule :: "(u32 \<times> u32 \<times> u32) list list"
  sw_uptime_ms :: u32

definition run_interrupts :: "(u32 \<times> u32 \<times> u32) list \<Rightarrow> uart_system \<Rightarrow> uart_system" where
  "run_interrupts b s = fold (\<lambda>(sr, dr, sr2). interrupt sr dr sr2) b s"

definition take_interrupts :: "serial_world \<Rightarrow> serial_world" where
  "take_interrupts w = (case sw_schedule w of [] \<Rightarrow> w
     | b # bs \<Rightarrow> w\<lparr>sw_system := run_interrupts b (sw_system w), sw_schedule := bs\<rparr>)"

definition serial_read :: "serial_world ptr \<Rightarrow> u8 \<Rightarrow> bool \<times> u8 \<times> serial_world ptr" where
  "serial_read c byte =
     (case c of None \<Rightarrow> (False, byte, None)
      | Some w0 \<Rightarrow>
          let w = take_interrupts w0; s = sw_system w in
          case guardian_stm32f401_uart2_read_byte (sy_uart s) (Some byte) of
            (got, b, _) \<Rightarrow> (got, the b, Some (w\<lparr>sw_system := (foreground_access ^^ 3) (call_read s)\<rparr>)))"

definition serial_write :: "serial_world ptr \<Rightarrow> u8 list \<Rightarrow> nat \<times> serial_world ptr" where
  "serial_write c d =
     (case c of None \<Rightarrow> (0, None)
      | Some w0 \<Rightarrow>
          let w = take_interrupts w0; s = sw_system w in
          (fst (guardian_stm32f401_uart2_write (sy_uart s) (Some d)),
           Some (w\<lparr>sw_system := (foreground_access ^^ (length d + 5)) (call_write d s)\<rparr>)))"

definition guardian_firmware_uptime_seconds :: "serial_world ptr \<Rightarrow> u32 \<times> serial_world ptr" where
  "guardian_firmware_uptime_seconds c = (case c of None \<Rightarrow> (0, None) | Some w \<Rightarrow> (sw_uptime_ms w div 1000, Some w))"

definition serial_ready :: "serial_world ptr \<Rightarrow> bool" where
  "serial_ready c \<longleftrightarrow> (case c of None \<Rightarrow> True
     | Some w \<Rightarrow> sy_fg (sw_system w) = Fg_idle \<and> reachable uart_initial uart_step (sw_system w))"

definition serial_delivered :: "serial_world ptr \<Rightarrow> u8 list" where
  "serial_delivered c = (case c of None \<Rightarrow> [] | Some w \<Rightarrow> sy_delivered (sw_system w))"

definition serial_accepted :: "serial_world ptr \<Rightarrow> u8 list" where
  "serial_accepted c = (case c of None \<Rightarrow> [] | Some w \<Rightarrow> sy_accepted (sw_system w))"

lemmas serial_defs = serial_ready_def serial_delivered_def serial_accepted_def

lemma interrupt_logs [simp]:
  "sy_fg (interrupt sr dr sr2 s) = sy_fg s" "sy_delivered (interrupt sr dr sr2 s) = sy_delivered s"
  "sy_accepted (interrupt sr dr sr2 s) = sy_accepted s"
  by (simp_all add: interrupt_def split: prod.splits)

lemma run_interrupts_logs:
  "sy_fg (run_interrupts b s) = sy_fg s \<and> sy_delivered (run_interrupts b s) = sy_delivered s
    \<and> sy_accepted (run_interrupts b s) = sy_accepted s
    \<and> (reachable uart_initial uart_step s \<longrightarrow> reachable uart_initial uart_step (run_interrupts b s))"
proof (induction b arbitrary: s)
  case Nil
  then show ?case by (simp add: run_interrupts_def)
next
  case (Cons i b)
  obtain sr dr sr2 where i: "i = (sr, dr, sr2)" by (metis prod_cases3)
  have "reachable uart_initial uart_step s \<longrightarrow> reachable uart_initial uart_step (interrupt sr dr sr2 s)"
    by (meson reachable_step step_interrupt)
  then show ?case using Cons.IH [of "interrupt sr dr sr2 s"] by (simp add: run_interrupts_def i)
qed

lemma take_interrupts_serial:
  "serial_ready (Some w) \<Longrightarrow> serial_ready (Some (take_interrupts w))"
  "serial_delivered (Some (take_interrupts w)) = serial_delivered (Some w)"
  "serial_accepted (Some (take_interrupts w)) = serial_accepted (Some w)"
  using run_interrupts_logs by (auto simp: take_interrupts_def serial_defs split: list.splits)

lemma reachable_accesses:
  "reachable uart_initial uart_step s \<Longrightarrow> reachable uart_initial uart_step ((foreground_access ^^ n) s)"
  by (induction n) (simp, simp, meson reachable_step step_access)

lemma read_call:
  assumes "sy_fg s = Fg_idle"
  shows "sy_fg ((foreground_access ^^ 3) (call_read s)) = Fg_idle \<and> sy_accepted ((foreground_access ^^ 3) (call_read s)) = sy_accepted s"
  by (auto simp: call_read_def numeral_3_eq_3 foreground_access.simps Let_def)

interpretation serial: byte_transport serial_read serial_write guardian_firmware_uptime_seconds serial_ready serial_delivered serial_accepted
proof
  fix c b got x c'
  assume r: "serial_read c b = (got, x, c')" and ready: "serial_ready c"
  show "serial_ready c' \<and> serial_delivered c' = serial_delivered c @ (if got then [x] else []) \<and> serial_accepted c' = serial_accepted c"
  proof (cases c)
    case None
    then show ?thesis using r by (auto simp: serial_read_def serial_defs)
  next
    case (Some w0)
    let ?w = "take_interrupts w0"
    obtain y u where rb: "guardian_stm32f401_uart2_read_byte (sy_uart (sw_system ?w)) (Some b) = (got, y, u)"
        "x = the y" "c' = Some (?w\<lparr>sw_system := (foreground_access ^^ 3) (call_read (sw_system ?w))\<rparr>)"
      using r Some by (auto simp: serial_read_def Let_def split: prod.splits)
    note t = take_interrupts_serial [of w0]
    have idle: "sy_fg (sw_system ?w) = Fg_idle" "reachable uart_initial uart_step (sw_system ?w)"
      using t(1) ready Some by (simp_all add: serial_ready_def)
    have "reachable uart_initial uart_step (call_read (sw_system ?w))" using idle by (meson reachable_step step_read)
    from reachable_accesses [OF this, of 3] show ?thesis
      using read_uninterrupted [OF idle(1) rb(1)] read_call [OF idle(1)] t(2,3) rb(2,3) Some
      by (simp add: serial_defs)
  qed
next
  fix c d n c'
  assume r: "serial_write c d = (n, c')" and ready: "serial_ready c"
  show "serial_ready c' \<and> serial_delivered c' = serial_delivered c
      \<and> serial_accepted c' = serial_accepted c @ (if n = length d then d else [])"
  proof (cases c)
    case None
    then show ?thesis using r by (auto simp: serial_write_def serial_defs)
  next
    case (Some w0)
    let ?w = "take_interrupts w0"
    note t = take_interrupts_serial [of w0]
    have idle: "sy_fg (sw_system ?w) = Fg_idle" "reachable uart_initial uart_step (sw_system ?w)"
      using t(1) ready Some by (simp_all add: serial_ready_def)
    have "reachable uart_initial uart_step (call_write d (sw_system ?w))" using idle by (meson reachable_step step_write)
    from reachable_accesses [OF this, of "length d + 5"] show ?thesis
      using t(2,3) idle r Some unfolding write_uninterrupted [OF idle(1)]
      by (auto simp: serial_write_def Let_def write_uninterrupted serial_defs)
  qed
next
  fix c t c'
  assume "guardian_firmware_uptime_seconds c = (t, c')" "serial_ready c"
  then show "serial_ready c' \<and> serial_delivered c' = serial_delivered c \<and> serial_accepted c' = serial_accepted c"
    by (auto simp: guardian_firmware_uptime_seconds_def split: option.splits)
qed

section \<open>Properties\<close>

text \<open>C13: The device answers every request it receives, in order. A poll of a reachable link on the serial
  driver, with any interrupts between its calls, ends; it takes at most its budget of bytes from the
  receive queue; each request that the stream parser finds in them is answered by one response or error
  frame for the same command and sequence number, in the order of the requests; at most one telemetry
  frame follows; and the frames enter the transmit stream whole, in order, and without loss unless the
  link's count of failed transmissions shows it.\<close>

theorem link_answers_requests:
  assumes "reachable link_initial (link_step cmd) l"
    and "wired serial_read serial_write guardian_firmware_uptime_seconds l" "serial_ready (io_context (lk_io l))"
  shows "\<exists>l' bs reqs outs ev f kept. guardian_embedded_link_poll (Some l) n = Some l'
    \<and> serial_delivered (io_context (lk_io l')) = serial_delivered (io_context (lk_io l)) @ bs \<and> length bs \<le> (if n = 0 then 64 else n)
    \<and> parser_feed (lk_parser l) (pl_request initial_locals) bs = (reqs, lk_parser l', f)
    \<and> list_all2 replies reqs outs \<and> length ev \<le> 1 \<and> (\<forall>e \<in> set ev. message_type e = GUARDIAN_MESSAGE_TELEMETRY)
    \<and> subseq kept (map wire (outs @ ev)) \<and> serial_accepted (io_context (lk_io l')) = serial_accepted (io_context (lk_io l)) @ concat kept
    \<and> (ls_tx_queue_failures (lk_stats l') = 0 \<longrightarrow> kept = map wire (outs @ ev))"
proof -
  obtain l' where l': "guardian_embedded_link_poll (Some l) n = Some l'" using poll_Some by blast
  have c: "serial.connected l" using assms by simp
  show ?thesis
    using serial.poll_port [OF link.reachable_inv [OF assms(1)] c l'] l' unfolding sends_def by blast
qed

text \<open>A device at 115200 baud; a byte arrives by an interrupt before the first read.\<close>

definition serial_io :: "serial_world guardian_embedded_io" where
  "serial_io = \<lparr>io_read_byte = Some serial_read, io_write = Some serial_write, io_uptime_seconds = Some guardian_firmware_uptime_seconds,
     io_context = Some \<lparr>sw_system = sample_system, sw_schedule = [[(0x20, 0x47, 0)]], sw_uptime_ms = 5000\<rparr>\<rparr>"

definition serial_link :: "(serial_world, u8, unit, u8 list) guardian_embedded_link" where
  "serial_link = the (snd (guardian_embedded_link_init (Some zero_link) (Some serial_io) (Some sample_identity)))"

lemma serial_link_initial: "link_initial serial_link"
  unfolding link_initial_def serial_link_def
  by (rule exI [of _ zero_link], rule exI [of _ serial_io], rule exI [of _ sample_identity])
    (simp add: guardian_embedded_link_init_def serial_io_def guardian_device_service_init_def sample_model_length Let_def)

theorem link_answers_requests_witness:
  "\<exists>l' bs. guardian_embedded_link_poll (Some serial_link) 64 = Some l'
     \<and> serial_delivered (io_context (lk_io l')) = bs \<and> length bs \<le> 64"
proof -
  have io: "lk_io serial_link = serial_io"
    by (simp add: serial_link_def guardian_embedded_link_init_def serial_io_def guardian_device_service_init_def
        sample_model_length Let_def)
  have r: "reachable link_initial (link_step (\<lambda>_. 0)) serial_link" by (rule reachable_init) (rule serial_link_initial)
  have "wired serial_read serial_write guardian_firmware_uptime_seconds serial_link" by (simp add: wired_def io serial_io_def)
  moreover have "reachable uart_initial uart_step sample_system" by (rule reachable_init) (rule sample_system_initial)
  then have "serial_ready (io_context (lk_io serial_link))" by (simp add: io serial_io_def serial_ready_def sample_system_def)
  moreover have "serial_delivered (io_context (lk_io serial_link)) = []" by (simp add: io serial_io_def serial_delivered_def sample_system_def)
  ultimately show ?thesis using link_answers_requests [of _ serial_link 64, OF r] by fastforce
qed

end
