(* ===== verification/Guardian_Multinode.thy ===== *)
theory Guardian_Multinode
  imports Guardian_Prelude
begin

text \<open>
  The nodes of the multi-node architecture: identities, roles and capabilities with the registry that
  decides which node may ask for actuation (\<open>src/firmware/MultiNode/Src/guardian_multinode.c\<close>), the
  supervisory peer that watches heartbeats (\<open>guardian_mcxn947_supervisor.c\<close>) and the measurement node
  (\<open>guardian_st_measurement_node.c\<close>).  Enumerations keep the width of the C enum, since the code checks
  them for values outside their range.
\<close>

unbundle bit_operations_syntax

section \<open>Nodes and the registry\<close>

abbreviation (input) GUARDIAN_MULTINODE_MAX_NODES :: nat where "GUARDIAN_MULTINODE_MAX_NODES \<equiv> 5"
abbreviation (input) GUARDIAN_CAP_OBSERVATION :: u32 where "GUARDIAN_CAP_OBSERVATION \<equiv> 0x001"
abbreviation (input) GUARDIAN_CAP_SUPERVISION :: u32 where "GUARDIAN_CAP_SUPERVISION \<equiv> 0x002"
abbreviation (input) GUARDIAN_CAP_EVIDENCE_WITNESS :: u32 where "GUARDIAN_CAP_EVIDENCE_WITNESS \<equiv> 0x004"
abbreviation (input) GUARDIAN_CAP_RECOVERY_ASSIST :: u32 where "GUARDIAN_CAP_RECOVERY_ASSIST \<equiv> 0x008"
abbreviation (input) GUARDIAN_CAP_SIGNAL_PROCESSING :: u32 where "GUARDIAN_CAP_SIGNAL_PROCESSING \<equiv> 0x010"
abbreviation (input) GUARDIAN_CAP_POLICY_REFERENCE :: u32 where "GUARDIAN_CAP_POLICY_REFERENCE \<equiv> 0x020"
abbreviation (input) GUARDIAN_CAP_ACTUATION_GATE :: u32 where "GUARDIAN_CAP_ACTUATION_GATE \<equiv> 0x040"
abbreviation (input) GUARDIAN_CAP_SIGNATURE_VERIFY :: u32 where "GUARDIAN_CAP_SIGNATURE_VERIFY \<equiv> 0x080"
abbreviation (input) GUARDIAN_CAP_SENSOR_ACQUISITION :: u32 where "GUARDIAN_CAP_SENSOR_ACQUISITION \<equiv> 0x100"
abbreviation (input) GUARDIAN_CAP_ALL :: u32 where "GUARDIAN_CAP_ALL \<equiv> 0x1FF"

abbreviation (input) GUARDIAN_NODE_ROLE_INVALID :: c_enum where "GUARDIAN_NODE_ROLE_INVALID \<equiv> 0"
abbreviation (input) GUARDIAN_NODE_ROLE_F401_REFERENCE_CONTROL :: c_enum where "GUARDIAN_NODE_ROLE_F401_REFERENCE_CONTROL \<equiv> 1"
abbreviation (input) GUARDIAN_NODE_ROLE_MCXN947_SUPERVISORY_PEER :: c_enum where "GUARDIAN_NODE_ROLE_MCXN947_SUPERVISORY_PEER \<equiv> 2"
abbreviation (input) GUARDIAN_NODE_ROLE_ST_MEASUREMENT_REFERENCE :: c_enum where "GUARDIAN_NODE_ROLE_ST_MEASUREMENT_REFERENCE \<equiv> 3"
abbreviation (input) GUARDIAN_NODE_ROLE_SECURITY_WITNESS :: c_enum where "GUARDIAN_NODE_ROLE_SECURITY_WITNESS \<equiv> 4"
abbreviation (input) GUARDIAN_NODE_ROLE_HIGH_COMPUTE_PROCESSING :: c_enum where "GUARDIAN_NODE_ROLE_HIGH_COMPUTE_PROCESSING \<equiv> 5"

abbreviation (input) GUARDIAN_AUTHORITY_CLASS_NONE :: c_enum where "GUARDIAN_AUTHORITY_CLASS_NONE \<equiv> 0"
abbreviation (input) GUARDIAN_AUTHORITY_CLASS_OBSERVE :: c_enum where "GUARDIAN_AUTHORITY_CLASS_OBSERVE \<equiv> 1"
abbreviation (input) GUARDIAN_AUTHORITY_CLASS_WITNESS :: c_enum where "GUARDIAN_AUTHORITY_CLASS_WITNESS \<equiv> 2"
abbreviation (input) GUARDIAN_AUTHORITY_CLASS_REFERENCE_CONTROL :: c_enum where "GUARDIAN_AUTHORITY_CLASS_REFERENCE_CONTROL \<equiv> 3"

datatype guardian_multinode_result =
    GUARDIAN_MULTINODE_OK | GUARDIAN_MULTINODE_ERROR_NULL_ARGUMENT | GUARDIAN_MULTINODE_ERROR_INVALID_IDENTITY
  | GUARDIAN_MULTINODE_ERROR_INVALID_ROLE | GUARDIAN_MULTINODE_ERROR_INVALID_AUTHORITY_CLASS
  | GUARDIAN_MULTINODE_ERROR_INVALID_CAPABILITIES | GUARDIAN_MULTINODE_ERROR_AUTHORITY_ESCALATION
  | GUARDIAN_MULTINODE_ERROR_REGISTRY_FULL | GUARDIAN_MULTINODE_ERROR_DUPLICATE_NODE_ID
  | GUARDIAN_MULTINODE_ERROR_DUPLICATE_PRODUCER_ID | GUARDIAN_MULTINODE_ERROR_DUPLICATE_ROLE
  | GUARDIAN_MULTINODE_ERROR_TOPOLOGY_INCOMPLETE | GUARDIAN_MULTINODE_ERROR_NOT_REFERENCE_CONTROL

record guardian_multinode_node =
  mn_node_id :: u32
  mn_producer_id :: u32
  mn_key_id :: u32
  mn_role :: c_enum
  mn_authority_class :: c_enum
  mn_capabilities :: u32

record guardian_multinode_registry =
  mr_nodes :: "guardian_multinode_node list"
  mr_node_count :: nat

definition zero_multinode_node :: guardian_multinode_node where
  "zero_multinode_node = \<lparr>mn_node_id = 0, mn_producer_id = 0, mn_key_id = 0, mn_role = 0, mn_authority_class = 0,
     mn_capabilities = 0\<rparr>"

definition guardian_multinode_required_capabilities :: "c_enum \<Rightarrow> u32" where
  "guardian_multinode_required_capabilities role =
     (if role = GUARDIAN_NODE_ROLE_F401_REFERENCE_CONTROL
      then GUARDIAN_CAP_OBSERVATION OR GUARDIAN_CAP_POLICY_REFERENCE OR GUARDIAN_CAP_ACTUATION_GATE
      else if role = GUARDIAN_NODE_ROLE_MCXN947_SUPERVISORY_PEER
      then GUARDIAN_CAP_OBSERVATION OR GUARDIAN_CAP_SUPERVISION OR GUARDIAN_CAP_EVIDENCE_WITNESS
        OR GUARDIAN_CAP_RECOVERY_ASSIST OR GUARDIAN_CAP_SIGNATURE_VERIFY
      else if role = GUARDIAN_NODE_ROLE_ST_MEASUREMENT_REFERENCE
      then GUARDIAN_CAP_OBSERVATION OR GUARDIAN_CAP_SENSOR_ACQUISITION
      else if role = GUARDIAN_NODE_ROLE_SECURITY_WITNESS
      then GUARDIAN_CAP_OBSERVATION OR GUARDIAN_CAP_EVIDENCE_WITNESS OR GUARDIAN_CAP_SIGNATURE_VERIFY
      else if role = GUARDIAN_NODE_ROLE_HIGH_COMPUTE_PROCESSING
      then GUARDIAN_CAP_OBSERVATION OR GUARDIAN_CAP_SIGNAL_PROCESSING
      else 0)"

definition guardian_multinode_expected_authority :: "c_enum \<Rightarrow> c_enum" where
  "guardian_multinode_expected_authority role =
     (if role = GUARDIAN_NODE_ROLE_F401_REFERENCE_CONTROL then GUARDIAN_AUTHORITY_CLASS_REFERENCE_CONTROL
      else if role \<in> {GUARDIAN_NODE_ROLE_MCXN947_SUPERVISORY_PEER, GUARDIAN_NODE_ROLE_ST_MEASUREMENT_REFERENCE,
          GUARDIAN_NODE_ROLE_HIGH_COMPUTE_PROCESSING}
      then GUARDIAN_AUTHORITY_CLASS_OBSERVE
      else if role = GUARDIAN_NODE_ROLE_SECURITY_WITNESS then GUARDIAN_AUTHORITY_CLASS_WITNESS
      else GUARDIAN_AUTHORITY_CLASS_NONE)"

definition guardian_multinode_registry_init :: "guardian_multinode_registry ptr \<Rightarrow> guardian_multinode_registry ptr" where
  "guardian_multinode_registry_init registry = map_option (\<lambda>_.
     \<lparr>mr_nodes = replicate GUARDIAN_MULTINODE_MAX_NODES zero_multinode_node, mr_node_count = 0\<rparr>) registry"

definition guardian_multinode_validate_node :: "guardian_multinode_node ptr \<Rightarrow> guardian_multinode_result" where
  "guardian_multinode_validate_node node =
     (case node of
        None \<Rightarrow> GUARDIAN_MULTINODE_ERROR_NULL_ARGUMENT
      | Some n \<Rightarrow>
          if mn_node_id n = 0 \<or> mn_producer_id n = 0 \<or> mn_key_id n = 0 then GUARDIAN_MULTINODE_ERROR_INVALID_IDENTITY
          else if mn_role n \<le> GUARDIAN_NODE_ROLE_INVALID \<or> mn_role n > GUARDIAN_NODE_ROLE_HIGH_COMPUTE_PROCESSING
          then GUARDIAN_MULTINODE_ERROR_INVALID_ROLE
          else if mn_capabilities n = 0 \<or> mn_capabilities n AND NOT GUARDIAN_CAP_ALL \<noteq> 0
          then GUARDIAN_MULTINODE_ERROR_INVALID_CAPABILITIES
          else
            let required = guardian_multinode_required_capabilities (mn_role n);
                expected_authority = guardian_multinode_expected_authority (mn_role n) in
            if required = 0 then GUARDIAN_MULTINODE_ERROR_INVALID_ROLE
            else if mn_authority_class n \<noteq> expected_authority then GUARDIAN_MULTINODE_ERROR_INVALID_AUTHORITY_CLASS
            else if mn_capabilities n AND required \<noteq> required then GUARDIAN_MULTINODE_ERROR_INVALID_CAPABILITIES
            else if mn_capabilities n AND GUARDIAN_CAP_ACTUATION_GATE \<noteq> 0
              \<and> (mn_role n \<noteq> GUARDIAN_NODE_ROLE_F401_REFERENCE_CONTROL
                \<or> mn_authority_class n \<noteq> GUARDIAN_AUTHORITY_CLASS_REFERENCE_CONTROL)
            then GUARDIAN_MULTINODE_ERROR_AUTHORITY_ESCALATION
            else if mn_role n \<noteq> GUARDIAN_NODE_ROLE_F401_REFERENCE_CONTROL
              \<and> mn_authority_class n = GUARDIAN_AUTHORITY_CLASS_REFERENCE_CONTROL
            then GUARDIAN_MULTINODE_ERROR_AUTHORITY_ESCALATION
            else GUARDIAN_MULTINODE_OK)"

text \<open>The loop over the registered nodes.\<close>

fun duplicate_check :: "guardian_multinode_node \<Rightarrow> guardian_multinode_node list \<Rightarrow> guardian_multinode_result" where
  "duplicate_check node [] = GUARDIAN_MULTINODE_OK"
| "duplicate_check node (r # rs) =
     (if mn_node_id r = mn_node_id node then GUARDIAN_MULTINODE_ERROR_DUPLICATE_NODE_ID
      else if mn_producer_id r = mn_producer_id node then GUARDIAN_MULTINODE_ERROR_DUPLICATE_PRODUCER_ID
      else if mn_role r = mn_role node then GUARDIAN_MULTINODE_ERROR_DUPLICATE_ROLE
      else duplicate_check node rs)"

definition guardian_multinode_register_node ::
  "guardian_multinode_registry ptr \<Rightarrow> guardian_multinode_node ptr
     \<Rightarrow> guardian_multinode_result \<times> guardian_multinode_registry ptr" where
  "guardian_multinode_register_node registry node =
     (case (registry, node) of
        (Some r, Some n) \<Rightarrow>
          let result = guardian_multinode_validate_node (Some n) in
          if result \<noteq> GUARDIAN_MULTINODE_OK then (result, Some r)
          else if mr_node_count r \<ge> GUARDIAN_MULTINODE_MAX_NODES then (GUARDIAN_MULTINODE_ERROR_REGISTRY_FULL, Some r)
          else
            let dup = duplicate_check n (take (mr_node_count r) (mr_nodes r)) in
            if dup \<noteq> GUARDIAN_MULTINODE_OK then (dup, Some r)
            else (GUARDIAN_MULTINODE_OK,
              Some \<lparr>mr_nodes = (mr_nodes r)[mr_node_count r := n], mr_node_count = mr_node_count r + 1\<rparr>)
      | _ \<Rightarrow> (GUARDIAN_MULTINODE_ERROR_NULL_ARGUMENT, registry))"

text \<open>The loop that collects the roles seen, or ends at an invalid node.\<close>

fun topology_roles :: "guardian_multinode_node list \<Rightarrow> u32 \<Rightarrow> guardian_multinode_result + u32" where
  "topology_roles [] roles_seen = Inr roles_seen"
| "topology_roles (n # ns) roles_seen =
     (let result = guardian_multinode_validate_node (Some n) in
      if result \<noteq> GUARDIAN_MULTINODE_OK then Inl result
      else topology_roles ns (roles_seen OR push_bit (unat (mn_role n)) 1))"

definition guardian_multinode_validate_complete_topology :: "guardian_multinode_registry ptr \<Rightarrow> guardian_multinode_result" where
  "guardian_multinode_validate_complete_topology registry =
     (case registry of
        None \<Rightarrow> GUARDIAN_MULTINODE_ERROR_NULL_ARGUMENT
      | Some r \<Rightarrow>
          if mr_node_count r \<noteq> GUARDIAN_MULTINODE_MAX_NODES then GUARDIAN_MULTINODE_ERROR_TOPOLOGY_INCOMPLETE
          else
            case topology_roles (take (mr_node_count r) (mr_nodes r)) 0 of
              Inl result \<Rightarrow> result
            | Inr roles_seen \<Rightarrow>
                let expected_roles = push_bit (unat GUARDIAN_NODE_ROLE_F401_REFERENCE_CONTROL) 1
                  OR push_bit (unat GUARDIAN_NODE_ROLE_MCXN947_SUPERVISORY_PEER) 1
                  OR push_bit (unat GUARDIAN_NODE_ROLE_ST_MEASUREMENT_REFERENCE) 1
                  OR push_bit (unat GUARDIAN_NODE_ROLE_SECURITY_WITNESS) 1
                  OR push_bit (unat GUARDIAN_NODE_ROLE_HIGH_COMPUTE_PROCESSING) (1 :: u32) in
                if roles_seen \<noteq> expected_roles then GUARDIAN_MULTINODE_ERROR_TOPOLOGY_INCOMPLETE else GUARDIAN_MULTINODE_OK)"

fun actuation_search :: "u32 \<Rightarrow> guardian_multinode_node list \<Rightarrow> guardian_multinode_result \<times> u8" where
  "actuation_search rid [] = (GUARDIAN_MULTINODE_ERROR_INVALID_IDENTITY, 0)"
| "actuation_search rid (n # ns) =
     (if mn_node_id n = rid
      then
        let result = guardian_multinode_validate_node (Some n) in
        if result \<noteq> GUARDIAN_MULTINODE_OK then (result, 0)
        else if mn_role n \<noteq> GUARDIAN_NODE_ROLE_F401_REFERENCE_CONTROL
          \<or> mn_authority_class n \<noteq> GUARDIAN_AUTHORITY_CLASS_REFERENCE_CONTROL
          \<or> mn_capabilities n AND GUARDIAN_CAP_ACTUATION_GATE = 0
        then (GUARDIAN_MULTINODE_ERROR_NOT_REFERENCE_CONTROL, 0)
        else (GUARDIAN_MULTINODE_OK, 1)
      else actuation_search rid ns)"

definition guardian_multinode_can_request_actuation ::
  "guardian_multinode_registry ptr \<Rightarrow> u32 \<Rightarrow> u8 ptr \<Rightarrow> guardian_multinode_result \<times> u8 ptr" where
  "guardian_multinode_can_request_actuation registry requesting_node_id allowed =
     (let allowed0 = map_option (\<lambda>_. 0) allowed in
      case (registry, allowed0) of
        (Some r, Some _) \<Rightarrow>
          if requesting_node_id = 0 then (GUARDIAN_MULTINODE_ERROR_INVALID_IDENTITY, allowed0)
          else
            case actuation_search requesting_node_id (take (mr_node_count r) (mr_nodes r)) of
              (result, a) \<Rightarrow> (result, Some a)
      | _ \<Rightarrow> (GUARDIAN_MULTINODE_ERROR_NULL_ARGUMENT, allowed0))"

section \<open>The registry invariant\<close>

abbreviation registered :: "guardian_multinode_registry \<Rightarrow> guardian_multinode_node list" where
  "registered r \<equiv> take (mr_node_count r) (mr_nodes r)"

definition registry_ok :: "guardian_multinode_registry \<Rightarrow> bool" where
  "registry_ok r \<longleftrightarrow> length (mr_nodes r) = 5 \<and> mr_node_count r \<le> 5
     \<and> (\<forall>n \<in> set (registered r). guardian_multinode_validate_node (Some n) = GUARDIAN_MULTINODE_OK)
     \<and> distinct (map mn_node_id (registered r)) \<and> distinct (map mn_producer_id (registered r))
     \<and> distinct (map mn_role (registered r))"

definition registry_initial :: "guardian_multinode_registry \<Rightarrow> bool" where
  "registry_initial r \<longleftrightarrow> (\<exists>r0. guardian_multinode_registry_init (Some r0) = Some r)"

inductive registry_step :: "guardian_multinode_registry \<Rightarrow> guardian_multinode_registry \<Rightarrow> bool" where
  registry_init: "guardian_multinode_registry_init (Some r) = Some r' \<Longrightarrow> registry_step r r'"
| registry_register: "guardian_multinode_register_node (Some r) node = (result, Some r') \<Longrightarrow> registry_step r r'"

inductive_cases registry_stepE: "registry_step r r'"

text \<open>What a valid node is: its role fixes the authority class, and only the reference controller has the
  actuation gate.\<close>

lemma valid_node_facts:
  assumes "guardian_multinode_validate_node (Some n) = GUARDIAN_MULTINODE_OK"
  shows "mn_node_id n \<noteq> 0 \<and> mn_producer_id n \<noteq> 0 \<and> mn_key_id n \<noteq> 0 \<and> mn_role n \<in> {1, 2, 3, 4, 5}
    \<and> mn_authority_class n = guardian_multinode_expected_authority (mn_role n)
    \<and> mn_capabilities n AND guardian_multinode_required_capabilities (mn_role n) = guardian_multinode_required_capabilities (mn_role n)
    \<and> (mn_capabilities n AND GUARDIAN_CAP_ACTUATION_GATE \<noteq> 0 \<longleftrightarrow> mn_role n = GUARDIAN_NODE_ROLE_F401_REFERENCE_CONTROL)"
proof -
  have gate: "c AND 0x40 \<noteq> 0" if "c AND 0x61 = 0x61" for c :: u32
  proof -
    have "c AND 0x40 = (c AND 0x61) AND 0x40" by (simp add: and.assoc)
    then show ?thesis by (simp only: that) simp
  qed
  have req: "guardian_multinode_required_capabilities r \<noteq> 0 \<Longrightarrow> r \<in> {1, 2, 3, 4, 5}" for r
    by (auto simp: guardian_multinode_required_capabilities_def split: if_splits)
  let ?req = "guardian_multinode_required_capabilities (mn_role n)"
  have raw: "mn_node_id n \<noteq> 0" "mn_producer_id n \<noteq> 0" "mn_key_id n \<noteq> 0" "?req \<noteq> 0"
      "mn_authority_class n = guardian_multinode_expected_authority (mn_role n)" "mn_capabilities n AND ?req = ?req"
      "mn_capabilities n AND GUARDIAN_CAP_ACTUATION_GATE \<noteq> 0 \<longrightarrow> mn_role n = GUARDIAN_NODE_ROLE_F401_REFERENCE_CONTROL"
    using assms by (auto simp: guardian_multinode_validate_node_def Let_def split: if_split_asm)
  have "mn_capabilities n AND GUARDIAN_CAP_ACTUATION_GATE \<noteq> 0" if "mn_role n = GUARDIAN_NODE_ROLE_F401_REFERENCE_CONTROL"
    using raw(6) that by (intro gate) (simp add: guardian_multinode_required_capabilities_def)
  then show ?thesis using raw req [OF raw(4)] by blast
qed

lemma duplicate_check_OK:
  "duplicate_check n rs = GUARDIAN_MULTINODE_OK \<longleftrightarrow>
     (\<forall>r \<in> set rs. mn_node_id r \<noteq> mn_node_id n \<and> mn_producer_id r \<noteq> mn_producer_id n \<and> mn_role r \<noteq> mn_role n)"
  by (induction rs) auto

lemma register_step_ok:
  assumes ok: "registry_ok r" and reg: "guardian_multinode_register_node (Some r) node = (result, Some r')"
  shows "registry_ok r'"
proof (cases "r' = r")
  case False
  with reg obtain n where n: "guardian_multinode_validate_node (Some n) = GUARDIAN_MULTINODE_OK" "mr_node_count r < 5"
      "duplicate_check n (registered r) = GUARDIAN_MULTINODE_OK"
      "r' = \<lparr>mr_nodes = (mr_nodes r)[mr_node_count r := n], mr_node_count = mr_node_count r + 1\<rparr>"
    by (auto simp: guardian_multinode_register_node_def Let_def split: option.splits if_splits)
  have "registered r' = registered r @ [n]"
    using n(2,4) ok by (simp add: registry_ok_def take_Suc_conv_app_nth)
  then show ?thesis using ok n by (auto simp: registry_ok_def duplicate_check_OK)
qed (use ok in simp)

lemma registry_initial_ok: "guardian_multinode_registry_init (Some r) = Some r' \<Longrightarrow> registry_ok r'"
  by (auto simp: guardian_multinode_registry_init_def registry_ok_def)

interpretation registry: transition_system registry_initial registry_step registry_ok
  by unfold_locales (auto simp: registry_initial_def elim!: registry_stepE intro: registry_initial_ok register_step_ok)

lemma actuation_search_OK:
  assumes "\<forall>n \<in> set ns. guardian_multinode_validate_node (Some n) = GUARDIAN_MULTINODE_OK" "distinct (map mn_node_id ns)"
  shows "snd (actuation_search rid ns) \<noteq> 0 \<longleftrightarrow> (\<exists>n \<in> set ns. mn_node_id n = rid \<and> mn_role n = GUARDIAN_NODE_ROLE_F401_REFERENCE_CONTROL)"
  using assms
proof (induction ns)
  case (Cons n ns)
  have v: "guardian_multinode_validate_node (Some n) = GUARDIAN_MULTINODE_OK" using Cons.prems by simp
  note f = valid_node_facts [OF v]
  have "mn_role n = 1 \<Longrightarrow> mn_authority_class n = 3 \<and> mn_capabilities n AND 0x40 \<noteq> 0"
    using f by (simp add: guardian_multinode_expected_authority_def)
  moreover have "mn_node_id n = rid \<Longrightarrow> \<forall>m \<in> set ns. mn_node_id m \<noteq> rid" using Cons.prems(2) by (metis distinct.simps(2) imageI list.set_map list.simps(9))
  ultimately show ?case using Cons v by (auto simp: Let_def)
qed simp

lemma topology_roles_seen:
  assumes "\<forall>n \<in> set ns. guardian_multinode_validate_node (Some n) = GUARDIAN_MULTINODE_OK"
  shows "topology_roles ns seen = Inr (fold (\<lambda>n s. s OR push_bit (unat (mn_role n)) 1) ns seen)"
  using assms by (induction ns arbitrary: seen) (auto simp: Let_def)

lemma roles_seen_bit:
  "(\<forall>n \<in> set ns. mn_role n \<in> {1, 2, 3, 4, 5}) \<Longrightarrow>
   bit (fold (\<lambda>n s. s OR push_bit (unat (mn_role n)) (1 :: u32)) ns seen) 1 \<longleftrightarrow> bit seen 1 \<or> (\<exists>n \<in> set ns. mn_role n = 1)"
proof (induction ns arbitrary: seen)
  case (Cons n ns)
  have "bit (push_bit (unat (mn_role n)) (1 :: u32)) 1 \<longleftrightarrow> mn_role n = 1"
    using Cons.prems by (auto simp: bit_simps unat_eq_0 bit_1_iff)
  then show ?case using Cons by (auto simp: bit_or_iff)
qed simp

section \<open>The supervisory peer\<close>

datatype guardian_mcxn947_state =
    GUARDIAN_MCXN947_STATE_BOOTSTRAP | GUARDIAN_MCXN947_STATE_MONITORING | GUARDIAN_MCXN947_STATE_DEGRADED
  | GUARDIAN_MCXN947_STATE_SAFE_HOLD

datatype guardian_mcxn947_result =
    GUARDIAN_MCXN947_OK | GUARDIAN_MCXN947_ERROR_NULL_ARGUMENT | GUARDIAN_MCXN947_ERROR_INVALID_CONFIG
  | GUARDIAN_MCXN947_ERROR_INVALID_NODE | GUARDIAN_MCXN947_ERROR_NOT_AUTHENTICATED | GUARDIAN_MCXN947_ERROR_NOT_FRESH
  | GUARDIAN_MCXN947_ERROR_SEMANTICALLY_INCOMPATIBLE | GUARDIAN_MCXN947_ERROR_REPLAY_OR_REGRESSION
  | GUARDIAN_MCXN947_ERROR_ACTUATION_PROHIBITED | GUARDIAN_MCXN947_ERROR_INVALID_HEARTBEAT

record guardian_mcxn947_heartbeat =
  hb_sequence :: u32
  hb_epoch :: u32
  hb_authenticated :: u8
  hb_fresh :: u8
  hb_semantically_compatible :: u8
  hb_peer_healthy :: u8
  hb_disagreement :: u8

record guardian_mcxn947_recovery_request =
  rq_requesting_node_id :: u32
  rq_observed_epoch :: u32
  rq_observed_sequence :: u32
  rq_requested :: u8
  rq_actuation_authorized :: u8

record guardian_mcxn947_supervisor =
  sv_self :: guardian_multinode_node
  sv_state :: guardian_mcxn947_state
  sv_accepted_epoch :: u32
  sv_accepted_sequence :: u32
  sv_missed_heartbeats :: u32
  sv_missed_heartbeat_limit :: u32
  sv_heartbeat_initialized :: u8
  sv_recovery_requested :: u8

definition initial_supervisor :: guardian_mcxn947_supervisor where
  "initial_supervisor = \<lparr>sv_self = zero_multinode_node, sv_state = GUARDIAN_MCXN947_STATE_BOOTSTRAP, sv_accepted_epoch = 0,
     sv_accepted_sequence = 0, sv_missed_heartbeats = 0, sv_missed_heartbeat_limit = 0, sv_heartbeat_initialized = 0,
     sv_recovery_requested = 0\<rparr>"

definition guardian_mcxn947_supervisor_init :: "guardian_mcxn947_supervisor ptr \<Rightarrow> guardian_mcxn947_supervisor ptr" where
  "guardian_mcxn947_supervisor_init supervisor = map_option (\<lambda>_. initial_supervisor) supervisor"

definition guardian_mcxn947_supervisor_configure ::
  "guardian_mcxn947_supervisor ptr \<Rightarrow> guardian_multinode_node ptr \<Rightarrow> u32
     \<Rightarrow> guardian_mcxn947_result \<times> guardian_mcxn947_supervisor ptr" where
  "guardian_mcxn947_supervisor_configure supervisor self missed_heartbeat_limit =
     (case (supervisor, self) of
        (Some s, Some n) \<Rightarrow>
          if missed_heartbeat_limit = 0 then (GUARDIAN_MCXN947_ERROR_INVALID_CONFIG, Some s)
          else if guardian_multinode_validate_node (Some n) \<noteq> GUARDIAN_MULTINODE_OK
            \<or> mn_role n \<noteq> GUARDIAN_NODE_ROLE_MCXN947_SUPERVISORY_PEER
            \<or> mn_authority_class n \<noteq> GUARDIAN_AUTHORITY_CLASS_OBSERVE
            \<or> mn_capabilities n AND GUARDIAN_CAP_SUPERVISION = 0
            \<or> mn_capabilities n AND GUARDIAN_CAP_RECOVERY_ASSIST = 0
            \<or> mn_capabilities n AND GUARDIAN_CAP_ACTUATION_GATE \<noteq> 0
          then (GUARDIAN_MCXN947_ERROR_INVALID_NODE, Some s)
          else (GUARDIAN_MCXN947_OK, Some (the (guardian_mcxn947_supervisor_init (Some s))
            \<lparr>sv_self := n, sv_missed_heartbeat_limit := missed_heartbeat_limit\<rparr>))
      | _ \<Rightarrow> (GUARDIAN_MCXN947_ERROR_NULL_ARGUMENT, supervisor))"

definition guardian_mcxn947_supervisor_accept_heartbeat ::
  "guardian_mcxn947_supervisor ptr \<Rightarrow> guardian_mcxn947_heartbeat ptr
     \<Rightarrow> guardian_mcxn947_result \<times> guardian_mcxn947_supervisor ptr" where
  "guardian_mcxn947_supervisor_accept_heartbeat supervisor heartbeat =
     (case (supervisor, heartbeat) of
        (Some s, Some h) \<Rightarrow>
          if sv_missed_heartbeat_limit s = 0 then (GUARDIAN_MCXN947_ERROR_INVALID_CONFIG, Some s)
          else if hb_peer_healthy h > 1 \<or> hb_disagreement h > 1 then (GUARDIAN_MCXN947_ERROR_INVALID_HEARTBEAT, Some s)
          else if hb_authenticated h \<noteq> 1 then (GUARDIAN_MCXN947_ERROR_NOT_AUTHENTICATED, Some s)
          else if hb_fresh h \<noteq> 1 then (GUARDIAN_MCXN947_ERROR_NOT_FRESH, Some s)
          else if hb_semantically_compatible h \<noteq> 1 then (GUARDIAN_MCXN947_ERROR_SEMANTICALLY_INCOMPATIBLE, Some s)
          else if hb_epoch h = 0 \<or> hb_sequence h = 0 then (GUARDIAN_MCXN947_ERROR_REPLAY_OR_REGRESSION, Some s)
          else if sv_heartbeat_initialized s \<noteq> 0 \<and> hb_epoch h < sv_accepted_epoch s
          then (GUARDIAN_MCXN947_ERROR_REPLAY_OR_REGRESSION, Some s)
          else if sv_heartbeat_initialized s \<noteq> 0 \<and> hb_epoch h = sv_accepted_epoch s
            \<and> hb_sequence h \<le> sv_accepted_sequence s
          then (GUARDIAN_MCXN947_ERROR_REPLAY_OR_REGRESSION, Some s)
          else (GUARDIAN_MCXN947_OK, Some (s\<lparr>sv_accepted_epoch := hb_epoch h, sv_accepted_sequence := hb_sequence h,
            sv_heartbeat_initialized := 1, sv_missed_heartbeats := 0, sv_recovery_requested := 0,
            sv_state := (if hb_peer_healthy h \<noteq> 1 \<or> hb_disagreement h = 1 then GUARDIAN_MCXN947_STATE_DEGRADED
              else GUARDIAN_MCXN947_STATE_MONITORING)\<rparr>))
      | _ \<Rightarrow> (GUARDIAN_MCXN947_ERROR_NULL_ARGUMENT, supervisor))"

definition guardian_mcxn947_supervisor_note_missed_heartbeat ::
  "guardian_mcxn947_supervisor ptr \<Rightarrow> guardian_mcxn947_result \<times> guardian_mcxn947_supervisor ptr" where
  "guardian_mcxn947_supervisor_note_missed_heartbeat supervisor =
     (case supervisor of
        None \<Rightarrow> (GUARDIAN_MCXN947_ERROR_NULL_ARGUMENT, None)
      | Some s \<Rightarrow>
          if sv_missed_heartbeat_limit s = 0 then (GUARDIAN_MCXN947_ERROR_INVALID_CONFIG, Some s)
          else
            let s1 = (if sv_missed_heartbeats s < 0xFFFFFFFF
              then s\<lparr>sv_missed_heartbeats := sv_missed_heartbeats s + 1\<rparr> else s) in
            (GUARDIAN_MCXN947_OK, Some
              (if sv_missed_heartbeats s1 \<ge> sv_missed_heartbeat_limit s1
               then s1\<lparr>sv_state := GUARDIAN_MCXN947_STATE_SAFE_HOLD, sv_recovery_requested := 1\<rparr>
               else if sv_state s1 = GUARDIAN_MCXN947_STATE_MONITORING
               then s1\<lparr>sv_state := GUARDIAN_MCXN947_STATE_DEGRADED\<rparr> else s1)))"

definition guardian_mcxn947_supervisor_build_recovery_request ::
  "guardian_mcxn947_supervisor ptr \<Rightarrow> guardian_mcxn947_recovery_request ptr
     \<Rightarrow> guardian_mcxn947_result \<times> guardian_mcxn947_recovery_request ptr" where
  "guardian_mcxn947_supervisor_build_recovery_request supervisor request =
     (case (supervisor, request) of
        (Some s, Some _) \<Rightarrow> (GUARDIAN_MCXN947_OK, Some \<lparr>rq_requesting_node_id = mn_node_id (sv_self s),
          rq_observed_epoch = sv_accepted_epoch s, rq_observed_sequence = sv_accepted_sequence s,
          rq_requested = sv_recovery_requested s, rq_actuation_authorized = 0\<rparr>)
      | _ \<Rightarrow> (GUARDIAN_MCXN947_ERROR_NULL_ARGUMENT, request))"

definition guardian_mcxn947_supervisor_can_actuate ::
  "guardian_mcxn947_supervisor ptr \<Rightarrow> u8 ptr \<Rightarrow> guardian_mcxn947_result \<times> u8 ptr" where
  "guardian_mcxn947_supervisor_can_actuate supervisor allowed =
     (if supervisor = None \<or> allowed = None then (GUARDIAN_MCXN947_ERROR_NULL_ARGUMENT, allowed)
      else (GUARDIAN_MCXN947_ERROR_ACTUATION_PROHIBITED, Some 0))"

subsection \<open>The supervisor as a monitor of its history\<close>

text \<open>The scheduler hands the supervisor a heartbeat or tells it that one is missing.\<close>

datatype supervisor_event = Sv_heartbeat guardian_mcxn947_heartbeat | Sv_missed

fun supervisor_exec :: "guardian_mcxn947_supervisor \<Rightarrow> supervisor_event \<Rightarrow> bool \<times> guardian_mcxn947_supervisor" where
  "supervisor_exec s (Sv_heartbeat h) =
     (case guardian_mcxn947_supervisor_accept_heartbeat (Some s) (Some h) of (r, s') \<Rightarrow> (r = GUARDIAN_MCXN947_OK, the s'))"
| "supervisor_exec s Sv_missed = (False, the (snd (guardian_mcxn947_supervisor_note_missed_heartbeat (Some s))))"

text \<open>The specification remembers the last heartbeat that counts, if any, and how many are missing since.
  The number of a heartbeat orders epochs first, then sequences.\<close>

definition heartbeat_number :: "guardian_mcxn947_heartbeat \<Rightarrow> nat" where
  "heartbeat_number h = unat (hb_epoch h) * 2 ^ 32 + unat (hb_sequence h)"

definition heartbeat_proper :: "guardian_mcxn947_heartbeat \<Rightarrow> bool" where
  "heartbeat_proper h \<longleftrightarrow> hb_peer_healthy h \<le> 1 \<and> hb_disagreement h \<le> 1 \<and> hb_authenticated h = 1 \<and> hb_fresh h = 1
     \<and> hb_semantically_compatible h = 1 \<and> hb_epoch h \<noteq> 0 \<and> hb_sequence h \<noteq> 0"

fun monitor_step :: "supervisor_event \<Rightarrow> guardian_mcxn947_heartbeat option \<times> nat \<Rightarrow> guardian_mcxn947_heartbeat option \<times> nat" where
  "monitor_step (Sv_heartbeat h) (prev, missing) =
     (if heartbeat_proper h \<and> (case prev of None \<Rightarrow> True | Some l \<Rightarrow> heartbeat_number l < heartbeat_number h)
      then (Some h, 0) else (prev, missing))"
| "monitor_step Sv_missed (prev, missing) = (prev, missing + 1)"

fun monitor_state :: "nat \<Rightarrow> guardian_mcxn947_heartbeat option \<times> nat \<Rightarrow> guardian_mcxn947_state" where
  "monitor_state limit (prev, missing) =
     (if limit \<le> missing then GUARDIAN_MCXN947_STATE_SAFE_HOLD
      else case prev of None \<Rightarrow> GUARDIAN_MCXN947_STATE_BOOTSTRAP
        | Some h \<Rightarrow> if missing = 0 \<and> hb_peer_healthy h = 1 \<and> hb_disagreement h = 0
            then GUARDIAN_MCXN947_STATE_MONITORING else GUARDIAN_MCXN947_STATE_DEGRADED)"

fun supervisor_follows :: "guardian_mcxn947_supervisor \<Rightarrow> guardian_mcxn947_heartbeat option \<times> nat \<Rightarrow> bool" where
  "supervisor_follows s (prev, missing) \<longleftrightarrow>
     sv_missed_heartbeat_limit s \<noteq> 0 \<and> unat (sv_missed_heartbeats s) = min missing (2 ^ 32 - 1)
     \<and> sv_state s = monitor_state (unat (sv_missed_heartbeat_limit s)) (prev, missing)
     \<and> sv_recovery_requested s = (if unat (sv_missed_heartbeat_limit s) \<le> missing then 1 else 0)
     \<and> (case prev of None \<Rightarrow> sv_heartbeat_initialized s = 0
        | Some h \<Rightarrow> sv_heartbeat_initialized s \<noteq> 0 \<and> sv_accepted_epoch s = hb_epoch h \<and> sv_accepted_sequence s = hb_sequence h
            \<and> heartbeat_proper h)"

lemma pair_less:
  fixes a b c d :: u32
  shows "unat a * 2 ^ 32 + unat b < unat c * 2 ^ 32 + unat d \<longleftrightarrow> a < c \<or> (a = c \<and> b < d)"
proof -
  have b: "unat x < 2 ^ 32" for x :: u32 using unsigned_less [of x] by simp
  consider "unat a < unat c" | "unat a = unat c" | "unat c < unat a" by linarith
  then show ?thesis
  proof cases
    case 1
    then have "(unat a + 1) * 2 ^ 32 \<le> unat c * 2 ^ 32" by (intro mult_le_mono1) simp
    then show ?thesis using 1 b [of b] by (simp add: word_less_nat_alt)
  next
    case 3
    then have "(unat c + 1) * 2 ^ 32 \<le> unat a * 2 ^ 32" by (intro mult_le_mono1) simp
    then show ?thesis using 3 b [of d] by (auto simp: word_less_nat_alt word_unat_eq_iff)
  qed (simp add: word_less_nat_alt word_unat_eq_iff)
qed

lemma heartbeat_number_less:
  "heartbeat_number l < heartbeat_number h \<longleftrightarrow> hb_epoch l < hb_epoch h \<or> (hb_epoch l = hb_epoch h \<and> hb_sequence l < hb_sequence h)"
  unfolding heartbeat_number_def by (rule pair_less)

lemma heartbeat_exec:
  assumes "sv_missed_heartbeat_limit s \<noteq> 0"
  shows "supervisor_exec s (Sv_heartbeat h) =
    (if heartbeat_proper h \<and> (sv_heartbeat_initialized s \<noteq> 0 \<longrightarrow> sv_accepted_epoch s < hb_epoch h
        \<or> (sv_accepted_epoch s = hb_epoch h \<and> sv_accepted_sequence s < hb_sequence h))
     then (True, s\<lparr>sv_accepted_epoch := hb_epoch h, sv_accepted_sequence := hb_sequence h,
            sv_heartbeat_initialized := 1, sv_missed_heartbeats := 0, sv_recovery_requested := 0,
            sv_state := (if hb_peer_healthy h \<noteq> 1 \<or> hb_disagreement h = 1 then GUARDIAN_MCXN947_STATE_DEGRADED
              else GUARDIAN_MCXN947_STATE_MONITORING)\<rparr>)
     else (False, s))"
proof (cases "hb_peer_healthy h \<le> 1 \<and> hb_disagreement h \<le> 1 \<and> hb_authenticated h = 1 \<and> hb_fresh h = 1
     \<and> hb_semantically_compatible h = 1 \<and> hb_epoch h \<noteq> 0 \<and> hb_sequence h \<noteq> 0")
  case True
  then have p: "\<not> hb_peer_healthy h > 1" "\<not> hb_disagreement h > 1" "heartbeat_proper h" by (simp_all add: not_less heartbeat_proper_def)
  show ?thesis
    by (cases "hb_epoch h" "sv_accepted_epoch s" rule: linorder_cases; cases "hb_sequence h" "sv_accepted_sequence s" rule: linorder_cases)
      (use True p assms in \<open>auto simp: guardian_mcxn947_supervisor_accept_heartbeat_def dest: order.asym\<close>)
next
  case False
  then have "\<not> heartbeat_proper h" by (auto simp: heartbeat_proper_def)
  then show ?thesis using False assms by (auto simp: guardian_mcxn947_supervisor_accept_heartbeat_def not_less)
qed

declare supervisor_exec.simps [simp del]

lemma heartbeat_follows:
  assumes "supervisor_follows s (prev, missing)" "supervisor_exec s (Sv_heartbeat h) = (ok, s')"
  shows "supervisor_follows s' (monitor_step (Sv_heartbeat h) (prev, missing)) \<and> sv_missed_heartbeat_limit s' = sv_missed_heartbeat_limit s
    \<and> (ok \<longleftrightarrow> monitor_step (Sv_heartbeat h) (prev, missing) = (Some h, 0) \<and> heartbeat_proper h
        \<and> (case prev of None \<Rightarrow> True | Some l \<Rightarrow> heartbeat_number l < heartbeat_number h))"
proof -
  have z: "unat (sv_missed_heartbeat_limit s) \<noteq> 0" using assms(1) by (simp add: unat_eq_0)
  have one: "x \<le> 1 \<longleftrightarrow> x = 0 \<or> x = 1" for x :: u8
    by (auto simp: word_le_nat_alt word_unat_eq_iff)
  show ?thesis
  proof (cases "heartbeat_proper h \<and> (case prev of None \<Rightarrow> True | Some l \<Rightarrow> heartbeat_number l < heartbeat_number h)")
    case True
    then have "supervisor_exec s (Sv_heartbeat h) = (True, s\<lparr>sv_accepted_epoch := hb_epoch h, sv_accepted_sequence := hb_sequence h,
            sv_heartbeat_initialized := 1, sv_missed_heartbeats := 0, sv_recovery_requested := 0,
            sv_state := (if hb_peer_healthy h \<noteq> 1 \<or> hb_disagreement h = 1 then GUARDIAN_MCXN947_STATE_DEGRADED
              else GUARDIAN_MCXN947_STATE_MONITORING)\<rparr>)"
      using assms(1) by (simp add: heartbeat_exec heartbeat_number_less split: option.splits)
    then show ?thesis using assms True z one [of "hb_disagreement h"] by (auto simp: heartbeat_proper_def)
  next
    case False
    then have "supervisor_exec s (Sv_heartbeat h) = (False, s)"
      using assms(1) by (auto simp: heartbeat_exec heartbeat_number_less split: option.splits)
    then show ?thesis using assms False by auto
  qed
qed

lemma missed_follows:
  assumes "supervisor_follows s (prev, missing)" "supervisor_exec s Sv_missed = (ok, s')"
  shows "supervisor_follows s' (prev, missing + 1) \<and> sv_missed_heartbeat_limit s' = sv_missed_heartbeat_limit s \<and> \<not> ok"
proof -
  let ?n = "sv_missed_heartbeats s" and ?k = "sv_missed_heartbeat_limit s"
  have inc: "(if ?n < 0xFFFFFFFF then ?n + 1 else ?n) = sat_inc_u32 ?n"
  proof -
    have "unat ?n < 2 ^ 32" using unsigned_less [of ?n] by simp
    then have "?n < 0xFFFFFFFF \<longleftrightarrow> ?n \<noteq> 0xFFFFFFFF" by (auto simp: word_less_nat_alt word_unat_eq_iff)
    then show ?thesis by (simp add: sat_inc_u32_def)
  qed
  have n: "unat (sat_inc_u32 ?n) = min (missing + 1) (2 ^ 32 - 1)" using assms(1) unat_sat_inc_u32 [of ?n] by auto
  have "unat ?k < 2 ^ 32" using unsigned_less [of ?k] by simp
  then have ge: "?k \<le> sat_inc_u32 ?n \<longleftrightarrow> unat ?k \<le> missing + 1" using n by (auto simp: word_le_nat_alt)
  have s': "s' = (let s1 = s\<lparr>sv_missed_heartbeats := sat_inc_u32 ?n\<rparr> in
      if ?k \<le> sat_inc_u32 ?n then s1\<lparr>sv_state := GUARDIAN_MCXN947_STATE_SAFE_HOLD, sv_recovery_requested := 1\<rparr>
      else if sv_state s1 = GUARDIAN_MCXN947_STATE_MONITORING then s1\<lparr>sv_state := GUARDIAN_MCXN947_STATE_DEGRADED\<rparr> else s1)"
      "\<not> ok"
    using assms inc [symmetric]
    by (auto simp: supervisor_exec.simps guardian_mcxn947_supervisor_note_missed_heartbeat_def Let_def sat_inc_u32_def split: if_splits)
  show ?thesis
    using assms(1) n ge s' by (auto simp: Let_def split: option.splits if_splits)
qed

declare supervisor_follows.simps [simp del]

lemma exec_follows:
  assumes "supervisor_follows s m" "supervisor_exec s e = (ok, s')"
  shows "supervisor_follows s' (monitor_step e m) \<and> sv_missed_heartbeat_limit s' = sv_missed_heartbeat_limit s"
proof -
  obtain prev missing where m: "m = (prev, missing)" by fastforce
  show ?thesis
  proof (cases e)
    case (Sv_heartbeat h)
    then show ?thesis using heartbeat_follows [of s prev missing h ok s'] assms unfolding m by blast
  next
    case Sv_missed
    then show ?thesis using missed_follows [of s prev missing ok s'] assms unfolding m by simp
  qed
qed

definition supervisor_run :: "guardian_mcxn947_supervisor \<Rightarrow> supervisor_event list \<Rightarrow> guardian_mcxn947_supervisor" where
  "supervisor_run s es = fold (\<lambda>e s. snd (supervisor_exec s e)) es s"

lemma run_follows:
  "supervisor_follows s m \<Longrightarrow> supervisor_follows (supervisor_run s es) (fold monitor_step es m)
     \<and> sv_missed_heartbeat_limit (supervisor_run s es) = sv_missed_heartbeat_limit s"
proof (induction es arbitrary: s m)
  case (Cons e es)
  obtain ok s' where e: "supervisor_exec s e = (ok, s')" by fastforce
  note step = exec_follows [OF Cons.prems e]
  show ?case using Cons.IH [OF conjunct1 [OF step]] step by (simp add: supervisor_run_def e)
qed (simp add: supervisor_run_def)

text \<open>The accepted heartbeats are in strictly increasing order: a supervisor is a replay guard.\<close>

fun event_number :: "supervisor_event \<Rightarrow> nat" where
  "event_number (Sv_heartbeat h) = heartbeat_number h"
| "event_number Sv_missed = 0"

definition supervisor_level :: "guardian_mcxn947_supervisor \<Rightarrow> nat" where
  "supervisor_level s = (if sv_heartbeat_initialized s \<noteq> 0
     then unat (sv_accepted_epoch s) * 2 ^ 32 + unat (sv_accepted_sequence s) else 0)"

lemma follows_level:
  "supervisor_follows s (prev, missing) \<Longrightarrow> supervisor_level s = (case prev of None \<Rightarrow> 0 | Some h \<Rightarrow> heartbeat_number h)"
  by (auto simp: supervisor_follows.simps supervisor_level_def heartbeat_number_def split: option.splits)

lemma proper_number: "heartbeat_proper h \<Longrightarrow> 0 < heartbeat_number h"
  by (simp add: heartbeat_proper_def heartbeat_number_def unat_gt_0)

interpretation supervisor: replay_guard supervisor_exec "\<lambda>s. \<exists>m. supervisor_follows s m" "\<lambda>_. True" "\<lambda>_. ()" "\<lambda>_. ()"
  supervisor_level event_number
proof
  fix s e t
  assume "\<exists>m. supervisor_follows s m" and x: "supervisor_exec s e = (True, t)"
  then obtain prev missing where f: "supervisor_follows s (prev, missing)" by auto
  note t = exec_follows [OF f x]
  obtain h where e: "e = Sv_heartbeat h" using missed_follows [OF f] x by (cases e) auto
  note h = heartbeat_follows [OF f x [unfolded e]]
  have "supervisor_level t = heartbeat_number h"
    using conjunct1 [OF h] conjunct2 [OF conjunct2 [OF h]] follows_level [of t "Some h" 0] by simp
  moreover have "supervisor_level s < heartbeat_number h"
    using h follows_level [OF f] proper_number by (auto split: option.splits)
  moreover have "\<exists>m. supervisor_follows t m" using t by blast
  ultimately show "(\<exists>m. supervisor_follows t m) \<and> () = () \<and> () = () \<and> supervisor_level s < event_number e \<and> supervisor_level t = event_number e"
    using e by simp
next
  fix s e t
  assume "\<exists>m. supervisor_follows s m" and x: "supervisor_exec s e = (False, t)"
  then obtain prev missing where f: "supervisor_follows s (prev, missing)" by auto
  note t = exec_follows [OF f x]
  have "supervisor_level t = supervisor_level s"
  proof (cases e)
    case (Sv_heartbeat h)
    note h = heartbeat_follows [OF f x [unfolded Sv_heartbeat]]
    have "monitor_step e (prev, missing) = (prev, missing)" using h Sv_heartbeat by auto
    then show ?thesis using t follows_level [OF f] follows_level [of t prev missing] by simp
  next
    case Sv_missed
    then show ?thesis using missed_follows [OF f] x follows_level [OF f] follows_level [of t prev "missing + 1"] by auto
  qed
  then show "(\<exists>m. supervisor_follows t m) \<and> () = () \<and> supervisor_level t = supervisor_level s" using t by blast
qed

section \<open>The measurement node\<close>

abbreviation (input) GUARDIAN_ST_MEASUREMENT_MAX_QUALITY :: u8 where "GUARDIAN_ST_MEASUREMENT_MAX_QUALITY \<equiv> 100"
abbreviation (input) GUARDIAN_ST_SIGNAL_INVALID :: c_enum where "GUARDIAN_ST_SIGNAL_INVALID \<equiv> 0"
abbreviation (input) GUARDIAN_ST_SIGNAL_TRANSIENT :: c_enum where "GUARDIAN_ST_SIGNAL_TRANSIENT \<equiv> 10"

datatype guardian_st_measurement_result =
    GUARDIAN_ST_MEASUREMENT_OK | GUARDIAN_ST_MEASUREMENT_ERROR_NULL_ARGUMENT | GUARDIAN_ST_MEASUREMENT_ERROR_INVALID_NODE
  | GUARDIAN_ST_MEASUREMENT_ERROR_INVALID_POLICY | GUARDIAN_ST_MEASUREMENT_ERROR_INVALID_SAMPLE
  | GUARDIAN_ST_MEASUREMENT_ERROR_SEQUENCE_REGRESSION | GUARDIAN_ST_MEASUREMENT_ERROR_TIMESTAMP_REGRESSION
  | GUARDIAN_ST_MEASUREMENT_ERROR_OUT_OF_RANGE | GUARDIAN_ST_MEASUREMENT_ERROR_SATURATED
  | GUARDIAN_ST_MEASUREMENT_ERROR_QUALITY | GUARDIAN_ST_MEASUREMENT_ERROR_UNCERTAINTY
  | GUARDIAN_ST_MEASUREMENT_ERROR_ACTUATION_PROHIBITED

record guardian_st_measurement_policy =
  stp_max_uncertainty_milli :: u32
  stp_minimum_quality :: u8

record guardian_st_measurement_sample =
  sts_sensor_id :: u32
  sts_signal_type :: c_enum
  sts_sequence :: u32
  sts_timestamp_us :: u64
  sts_value_milli :: i32
  sts_valid_min_milli :: i32
  sts_valid_max_milli :: i32
  sts_uncertainty_milli :: u32
  sts_quality :: u8
  sts_saturated :: u8

record guardian_st_measurement_observation =
  sto_producer_node_id :: u32
  sto_sensor_id :: u32
  sto_signal_type :: c_enum
  sto_sequence :: u32
  sto_timestamp_us :: u64
  sto_value_milli :: i32
  sto_uncertainty_milli :: u32
  sto_quality :: u8
  sto_actuation_authorized :: u8

record guardian_st_measurement_node =
  stn_self :: guardian_multinode_node
  stn_policy :: guardian_st_measurement_policy
  stn_last_sequence :: u32
  stn_last_timestamp_us :: u64
  stn_accepted_samples :: u32
  stn_rejected_samples :: u32
  stn_initialized :: u8

definition zero_observation :: guardian_st_measurement_observation where
  "zero_observation = \<lparr>sto_producer_node_id = 0, sto_sensor_id = 0, sto_signal_type = 0, sto_sequence = 0, sto_timestamp_us = 0,
     sto_value_milli = 0, sto_uncertainty_milli = 0, sto_quality = 0, sto_actuation_authorized = 0\<rparr>"

definition zero_st_node :: guardian_st_measurement_node where
  "zero_st_node = \<lparr>stn_self = zero_multinode_node, stn_policy = \<lparr>stp_max_uncertainty_milli = 0, stp_minimum_quality = 0\<rparr>,
     stn_last_sequence = 0, stn_last_timestamp_us = 0, stn_accepted_samples = 0, stn_rejected_samples = 0, stn_initialized = 0\<rparr>"

definition guardian_st_signal_type_valid :: "c_enum \<Rightarrow> bool" where
  "guardian_st_signal_type_valid signal_type \<longleftrightarrow>
     signal_type > GUARDIAN_ST_SIGNAL_INVALID \<and> signal_type \<le> GUARDIAN_ST_SIGNAL_TRANSIENT"

definition guardian_st_measurement_node_init :: "guardian_st_measurement_node ptr \<Rightarrow> guardian_st_measurement_node ptr" where
  "guardian_st_measurement_node_init node = map_option (\<lambda>_. zero_st_node) node"

definition guardian_st_measurement_node_configure ::
  "guardian_st_measurement_node ptr \<Rightarrow> guardian_multinode_node ptr \<Rightarrow> guardian_st_measurement_policy ptr
     \<Rightarrow> guardian_st_measurement_result \<times> guardian_st_measurement_node ptr" where
  "guardian_st_measurement_node_configure node self policy =
     (case (node, self, policy) of
        (Some d, Some n, Some p) \<Rightarrow>
          if guardian_multinode_validate_node (Some n) \<noteq> GUARDIAN_MULTINODE_OK
            \<or> mn_role n \<noteq> GUARDIAN_NODE_ROLE_ST_MEASUREMENT_REFERENCE
            \<or> mn_authority_class n \<noteq> GUARDIAN_AUTHORITY_CLASS_OBSERVE
            \<or> mn_capabilities n AND GUARDIAN_CAP_SENSOR_ACQUISITION = 0
            \<or> mn_capabilities n AND GUARDIAN_CAP_ACTUATION_GATE \<noteq> 0
          then (GUARDIAN_ST_MEASUREMENT_ERROR_INVALID_NODE, Some d)
          else if stp_max_uncertainty_milli p = 0 \<or> stp_minimum_quality p = 0
            \<or> stp_minimum_quality p > GUARDIAN_ST_MEASUREMENT_MAX_QUALITY
          then (GUARDIAN_ST_MEASUREMENT_ERROR_INVALID_POLICY, Some d)
          else (GUARDIAN_ST_MEASUREMENT_OK, Some (the (guardian_st_measurement_node_init (Some d))
            \<lparr>stn_self := n, stn_policy := p, stn_initialized := 1\<rparr>))
      | _ \<Rightarrow> (GUARDIAN_ST_MEASUREMENT_ERROR_NULL_ARGUMENT, node))"

definition guardian_st_measurement_validate_sample ::
  "guardian_st_measurement_node ptr \<Rightarrow> guardian_st_measurement_sample ptr \<Rightarrow> guardian_st_measurement_result" where
  "guardian_st_measurement_validate_sample node sample =
     (case (node, sample) of
        (Some d, Some m) \<Rightarrow>
          if stn_initialized d \<noteq> 1 then GUARDIAN_ST_MEASUREMENT_ERROR_INVALID_NODE
          else if sts_sensor_id m = 0 \<or> sts_sequence m = 0 \<or> sts_timestamp_us m = 0
            \<or> \<not> guardian_st_signal_type_valid (sts_signal_type m) then GUARDIAN_ST_MEASUREMENT_ERROR_INVALID_SAMPLE
          else if sint (sts_valid_min_milli m) > sint (sts_valid_max_milli m) then GUARDIAN_ST_MEASUREMENT_ERROR_INVALID_SAMPLE
          else if sts_saturated m > 1 then GUARDIAN_ST_MEASUREMENT_ERROR_INVALID_SAMPLE
          else if sts_quality m > GUARDIAN_ST_MEASUREMENT_MAX_QUALITY then GUARDIAN_ST_MEASUREMENT_ERROR_INVALID_SAMPLE
          else if sts_saturated m = 1 then GUARDIAN_ST_MEASUREMENT_ERROR_SATURATED
          else if sint (sts_value_milli m) < sint (sts_valid_min_milli m)
            \<or> sint (sts_value_milli m) > sint (sts_valid_max_milli m) then GUARDIAN_ST_MEASUREMENT_ERROR_OUT_OF_RANGE
          else if sts_quality m < stp_minimum_quality (stn_policy d) then GUARDIAN_ST_MEASUREMENT_ERROR_QUALITY
          else if sts_uncertainty_milli m = 0 \<or> sts_uncertainty_milli m > stp_max_uncertainty_milli (stn_policy d)
          then GUARDIAN_ST_MEASUREMENT_ERROR_UNCERTAINTY
          else if stn_accepted_samples d > 0 \<and> sts_sequence m \<le> stn_last_sequence d
          then GUARDIAN_ST_MEASUREMENT_ERROR_SEQUENCE_REGRESSION
          else if stn_accepted_samples d > 0 \<and> sts_timestamp_us m \<le> stn_last_timestamp_us d
          then GUARDIAN_ST_MEASUREMENT_ERROR_TIMESTAMP_REGRESSION
          else GUARDIAN_ST_MEASUREMENT_OK
      | _ \<Rightarrow> GUARDIAN_ST_MEASUREMENT_ERROR_NULL_ARGUMENT)"

definition guardian_st_measurement_accept_sample ::
  "guardian_st_measurement_node ptr \<Rightarrow> guardian_st_measurement_sample ptr \<Rightarrow> guardian_st_measurement_observation ptr
     \<Rightarrow> guardian_st_measurement_result \<times> guardian_st_measurement_node ptr \<times> guardian_st_measurement_observation ptr" where
  "guardian_st_measurement_accept_sample node sample observation =
     (case (node, sample, observation) of
        (Some d, Some m, Some _) \<Rightarrow>
          let result = guardian_st_measurement_validate_sample (Some d) (Some m) in
          if result \<noteq> GUARDIAN_ST_MEASUREMENT_OK
          then (result, Some (if stn_rejected_samples d < 0xFFFFFFFF
              then d\<lparr>stn_rejected_samples := stn_rejected_samples d + 1\<rparr> else d), Some zero_observation)
          else
            let d1 = d\<lparr>stn_last_sequence := sts_sequence m, stn_last_timestamp_us := sts_timestamp_us m\<rparr>;
                d2 = (if stn_accepted_samples d1 < 0xFFFFFFFF
                  then d1\<lparr>stn_accepted_samples := stn_accepted_samples d1 + 1\<rparr> else d1) in
            (GUARDIAN_ST_MEASUREMENT_OK, Some d2,
             Some \<lparr>sto_producer_node_id = mn_node_id (stn_self d), sto_sensor_id = sts_sensor_id m,
               sto_signal_type = sts_signal_type m, sto_sequence = sts_sequence m, sto_timestamp_us = sts_timestamp_us m,
               sto_value_milli = sts_value_milli m, sto_uncertainty_milli = sts_uncertainty_milli m,
               sto_quality = sts_quality m, sto_actuation_authorized = 0\<rparr>)
      | _ \<Rightarrow> (GUARDIAN_ST_MEASUREMENT_ERROR_NULL_ARGUMENT, node, observation))"

definition guardian_st_measurement_can_actuate ::
  "guardian_st_measurement_node ptr \<Rightarrow> u8 ptr \<Rightarrow> guardian_st_measurement_result \<times> u8 ptr" where
  "guardian_st_measurement_can_actuate node allowed =
     (if node = None \<or> allowed = None then (GUARDIAN_ST_MEASUREMENT_ERROR_NULL_ARGUMENT, allowed)
      else (GUARDIAN_ST_MEASUREMENT_ERROR_ACTUATION_PROHIBITED, Some 0))"

text \<open>A measurement node is a replay guard twice: for the sequence numbers and for the timestamps.\<close>

definition sample_offer :: "guardian_st_measurement_node \<Rightarrow> guardian_st_measurement_sample \<Rightarrow> bool \<times> guardian_st_measurement_node" where
  "sample_offer d m = (case guardian_st_measurement_accept_sample (Some d) (Some m) (Some zero_observation) of
     (r, d', _) \<Rightarrow> (r = GUARDIAN_ST_MEASUREMENT_OK, the d'))"

lemma sample_offer_cases:
  assumes "sample_offer d m = (ok, d')"
  shows "if ok then guardian_st_measurement_validate_sample (Some d) (Some m) = GUARDIAN_ST_MEASUREMENT_OK
      \<and> stn_last_sequence d' = sts_sequence m \<and> stn_last_timestamp_us d' = sts_timestamp_us m \<and> stn_accepted_samples d' \<noteq> 0
    else stn_last_sequence d' = stn_last_sequence d \<and> stn_last_timestamp_us d' = stn_last_timestamp_us d
      \<and> stn_accepted_samples d' = stn_accepted_samples d"
proof -
  have "v + 1 \<noteq> 0" if "v < 0xFFFFFFFF" for v :: u32
  proof
    assume "v + 1 = 0"
    then have "v = 0xFFFFFFFF" by (simp add: eq_neg_iff_add_eq_0 [symmetric])
    then show False using that by simp
  qed
  moreover have "v < 0xFFFFFFFF" if "v = 0" for v :: u32 using that by (simp add: word_less_nat_alt)
  ultimately show ?thesis
    using assms by (auto simp: sample_offer_def guardian_st_measurement_accept_sample_def Let_def split: if_splits)
qed

lemma valid_sample_facts:
  assumes "guardian_st_measurement_validate_sample (Some d) (Some m) = GUARDIAN_ST_MEASUREMENT_OK"
  shows "sts_sequence m \<noteq> 0" "sts_timestamp_us m \<noteq> 0" "sts_saturated m = 0"
    "sint (sts_valid_min_milli m) \<le> sint (sts_value_milli m)" "sint (sts_value_milli m) \<le> sint (sts_valid_max_milli m)"
    "stp_minimum_quality (stn_policy d) \<le> sts_quality m" "sts_quality m \<le> 100"
    "0 < sts_uncertainty_milli m" "sts_uncertainty_milli m \<le> stp_max_uncertainty_milli (stn_policy d)"
    "stn_accepted_samples d \<noteq> 0 \<Longrightarrow> stn_last_sequence d < sts_sequence m \<and> stn_last_timestamp_us d < sts_timestamp_us m"
proof -
  have "x = 0" if "x \<le> 1" "x \<noteq> 1" for x :: u8 using that by (simp add: word_le_nat_alt word_unat_eq_iff)
  then show "sts_sequence m \<noteq> 0" "sts_timestamp_us m \<noteq> 0" "sts_saturated m = 0"
    "sint (sts_valid_min_milli m) \<le> sint (sts_value_milli m)" "sint (sts_value_milli m) \<le> sint (sts_valid_max_milli m)"
    "stp_minimum_quality (stn_policy d) \<le> sts_quality m" "sts_quality m \<le> 100"
    "0 < sts_uncertainty_milli m" "sts_uncertainty_milli m \<le> stp_max_uncertainty_milli (stn_policy d)"
    "stn_accepted_samples d \<noteq> 0 \<Longrightarrow> stn_last_sequence d < sts_sequence m \<and> stn_last_timestamp_us d < sts_timestamp_us m"
    using assms by (auto simp: guardian_st_measurement_validate_sample_def not_less not_le word_gt_0 split: if_split_asm)
qed

interpretation measured_sequence: replay_guard sample_offer "\<lambda>_. True" "\<lambda>_. True" "\<lambda>_. ()" "\<lambda>_. ()"
  "\<lambda>d. if stn_accepted_samples d \<noteq> 0 then unat (stn_last_sequence d) else 0" "\<lambda>m. unat (sts_sequence m)"
proof
  fix d m t assume "sample_offer d m = (True, t)"
  from sample_offer_cases [OF this] show "True \<and> () = () \<and> () = ()
      \<and> (if stn_accepted_samples d \<noteq> 0 then unat (stn_last_sequence d) else 0) < unat (sts_sequence m)
      \<and> (if stn_accepted_samples t \<noteq> 0 then unat (stn_last_sequence t) else 0) = unat (sts_sequence m)"
    using valid_sample_facts [of d m] by (simp add: word_less_nat_alt unat_gt_0)
next
  fix d m t assume "sample_offer d m = (False, t)"
  from sample_offer_cases [OF this] show "True \<and> () = ()
      \<and> (if stn_accepted_samples t \<noteq> 0 then unat (stn_last_sequence t) else 0)
        = (if stn_accepted_samples d \<noteq> 0 then unat (stn_last_sequence d) else 0)"
    by simp
qed

interpretation measured_time: replay_guard sample_offer "\<lambda>_. True" "\<lambda>_. True" "\<lambda>_. ()" "\<lambda>_. ()"
  "\<lambda>d. if stn_accepted_samples d \<noteq> 0 then unat (stn_last_timestamp_us d) else 0" "\<lambda>m. unat (sts_timestamp_us m)"
proof
  fix d m t assume "sample_offer d m = (True, t)"
  from sample_offer_cases [OF this] show "True \<and> () = () \<and> () = ()
      \<and> (if stn_accepted_samples d \<noteq> 0 then unat (stn_last_timestamp_us d) else 0) < unat (sts_timestamp_us m)
      \<and> (if stn_accepted_samples t \<noteq> 0 then unat (stn_last_timestamp_us t) else 0) = unat (sts_timestamp_us m)"
    using valid_sample_facts [of d m] by (simp add: word_less_nat_alt unat_gt_0)
next
  fix d m t assume "sample_offer d m = (False, t)"
  from sample_offer_cases [OF this] show "True \<and> () = ()
      \<and> (if stn_accepted_samples t \<noteq> 0 then unat (stn_last_timestamp_us t) else 0)
        = (if stn_accepted_samples d \<noteq> 0 then unat (stn_last_timestamp_us d) else 0)"
    by simp
qed

lemma accepted_samples_ordered:
  "sorted_wrt (<) (map (\<lambda>m. unat (sts_sequence m)) (accepted sample_offer d ms))
   \<and> sorted_wrt (<) (map (\<lambda>m. unat (sts_timestamp_us m)) (accepted sample_offer d ms))"
  using measured_sequence.accepted_increasing [where s = d and ms = ms] measured_time.accepted_increasing [where s = d and ms = ms] by (simp add: list.pred_True)

section \<open>Properties\<close>

text \<open>C19: Only the registered reference controller may ask for actuation. In every reachable registry the
  request of a node id is allowed exactly if that id is registered with the reference-control role; no two
  ids are allowed; and once the topology is complete exactly one is.\<close>

theorem only_controller_may_actuate:
  assumes "reachable registry_initial registry_step r"
  defines "may \<equiv> \<lambda>rid. snd (guardian_multinode_can_request_actuation (Some r) rid (Some 1)) \<noteq> Some 0"
  shows "(may rid \<longleftrightarrow> (\<exists>n \<in> set (take (mr_node_count r) (mr_nodes r)). mn_node_id n = rid
        \<and> mn_role n = GUARDIAN_NODE_ROLE_F401_REFERENCE_CONTROL))
    \<and> (may rid \<and> may rid' \<longrightarrow> rid = rid')
    \<and> (guardian_multinode_validate_complete_topology (Some r) = GUARDIAN_MULTINODE_OK \<longrightarrow> (\<exists>!i. may i))"
proof -
  have inv: "registry_ok r" using assms(1) by (rule registry.reachable_inv)
  let ?ns = "registered r"
  have v: "\<forall>n \<in> set ?ns. guardian_multinode_validate_node (Some n) = GUARDIAN_MULTINODE_OK" "distinct (map mn_node_id ?ns)"
    using inv by (simp_all add: registry_ok_def)
  have may: "may i \<longleftrightarrow> (\<exists>n \<in> set ?ns. mn_node_id n = i \<and> mn_role n = 1)" for i
  proof (cases "i = 0")
    case True
    then show ?thesis using v(1) valid_node_facts by (auto simp: may_def guardian_multinode_can_request_actuation_def)
  next
    case False
    then show ?thesis using actuation_search_OK [OF v, of i]
      by (auto simp: may_def guardian_multinode_can_request_actuation_def split: prod.splits)
  qed
  have uniq: "i = j" if mi: "may i" and mj: "may j" for i j
  proof -
    obtain m n where "m \<in> set ?ns" "n \<in> set ?ns" "mn_node_id m = i" "mn_node_id n = j" "mn_role m = mn_role n"
      using mi mj unfolding may by (metis (no_types))
    moreover have "inj_on mn_role (set ?ns)" using inv by (simp add: registry_ok_def distinct_map)
    ultimately show ?thesis by (auto dest: inj_onD)
  qed
  have "\<exists>i. may i" if "guardian_multinode_validate_complete_topology (Some r) = GUARDIAN_MULTINODE_OK"
  proof -
    have f: "fold (\<lambda>n s. s OR push_bit (unat (mn_role n)) 1) ?ns 0 = (0x3E :: u32)"
    proof -
      have c: "mr_node_count r = 5" using that by (simp add: guardian_multinode_validate_complete_topology_def split: if_splits)
      show ?thesis
        using that topology_roles_seen [OF v(1), of 0]
        by (simp add: guardian_multinode_validate_complete_topology_def c Let_def split: if_splits)
    qed
    have "\<forall>n \<in> set ?ns. mn_role n \<in> {1, 2, 3, 4, 5}" using v(1) valid_node_facts by blast
    from roles_seen_bit [OF this, of 0] have "\<exists>n \<in> set ?ns. mn_role n = 1" unfolding f by simp
    then show ?thesis unfolding may by blast
  qed
  then have "guardian_multinode_validate_complete_topology (Some r) = GUARDIAN_MULTINODE_OK \<longrightarrow> (\<exists>!i. may i)" using uniq by blast
  moreover have "may rid \<and> may rid' \<longrightarrow> rid = rid'" using uniq by blast
  ultimately show ?thesis using may [of rid] by blast
qed

text \<open>A registry with one node of each role.\<close>

definition node_of_role :: "u32 \<Rightarrow> guardian_multinode_node" where
  "node_of_role role = \<lparr>mn_node_id = 10 + role, mn_producer_id = 20 + role, mn_key_id = 30 + role, mn_role = role,
     mn_authority_class = guardian_multinode_expected_authority role,
     mn_capabilities = guardian_multinode_required_capabilities role\<rparr>"

definition sample_registry :: guardian_multinode_registry where
  "sample_registry = fold (\<lambda>n r. the (snd (guardian_multinode_register_node (Some r) (Some n)))) (map node_of_role [1, 2, 3, 4, 5])
     (the (guardian_multinode_registry_init (Some \<lparr>mr_nodes = [], mr_node_count = 0\<rparr>)))"

lemma fold_register_reachable:
  "reachable registry_initial registry_step r \<Longrightarrow> reachable registry_initial registry_step
     (fold (\<lambda>n r. the (snd (guardian_multinode_register_node (Some r) (Some n)))) ns r)"
proof (induction ns arbitrary: r)
  case (Cons n ns)
  have "\<exists>r'. snd (guardian_multinode_register_node (Some r) (Some n)) = Some r'"
    by (simp add: guardian_multinode_register_node_def Let_def)
  then obtain res r' where "guardian_multinode_register_node (Some r) (Some n) = (res, Some r')" by (metis prod.collapse)
  then show ?case using Cons by (auto intro!: Cons.IH intro: reachable_step registry_register)
qed simp

lemma sample_registry_reachable: "reachable registry_initial registry_step sample_registry"
  unfolding sample_registry_def
  by (rule fold_register_reachable, rule reachable_init) (auto simp: registry_initial_def guardian_multinode_registry_init_def)

theorem only_controller_may_actuate_witness:
  "guardian_multinode_validate_complete_topology (Some sample_registry) = GUARDIAN_MULTINODE_OK
   \<and> (\<exists>!i. snd (guardian_multinode_can_request_actuation (Some sample_registry) i (Some 1)) \<noteq> Some 0)"
proof -
  have "guardian_multinode_validate_complete_topology (Some sample_registry) = GUARDIAN_MULTINODE_OK" by code_simp
  then show ?thesis using only_controller_may_actuate [OF sample_registry_reachable] by blast
qed

text \<open>C17: The supervisory peer is the monitor its events determine. After any sequence of heartbeats and missed
  ones its state is the one the specification derives from the last heartbeat that counts (authentic,
  fresh, compatible, well formed, and above all earlier ones) and the number missing since: safe hold, with
  recovery requested, exactly while the limit is reached, also when the counter saturates; and the
  heartbeats it accepts have strictly increasing epoch and sequence.\<close>

theorem supervisor_refines_monitor:
  fixes events :: "supervisor_event list"
  assumes "guardian_mcxn947_supervisor_configure (Some s0) (Some node) limit = (GUARDIAN_MCXN947_OK, Some s)"
  defines "s' \<equiv> supervisor_run s events" and "m \<equiv> fold monitor_step events (None, 0)"
  shows "sv_state s' = monitor_state (unat limit) m
    \<and> sv_recovery_requested s' = (if unat limit \<le> snd m then 1 else 0)
    \<and> sorted_wrt (<) (map event_number (accepted supervisor_exec s events))"
proof -
  have lim: "sv_missed_heartbeat_limit s = limit" "supervisor_follows s (None, 0)"
    using assms(1) by (auto simp: guardian_mcxn947_supervisor_configure_def guardian_mcxn947_supervisor_init_def initial_supervisor_def
        supervisor_follows.simps unat_eq_0 split: if_splits)
  have "supervisor_follows s' m" "sv_missed_heartbeat_limit s' = limit"
    using run_follows [OF lim(2), of events] lim(1) by (simp_all add: s'_def m_def)
  moreover have "sorted_wrt (<) (supervisor_level s # map event_number (accepted supervisor_exec s events))"
    using lim(2) by (intro supervisor.accepted_increasing) (auto simp: list_all_iff)
  ultimately show ?thesis by (cases m) (auto simp: supervisor_follows.simps)
qed

definition sample_supervisor :: guardian_mcxn947_supervisor where
  "sample_supervisor = the (snd (guardian_mcxn947_supervisor_configure (Some initial_supervisor) (Some (node_of_role 2)) 3))"

definition heartbeat_of :: "u32 \<Rightarrow> guardian_mcxn947_heartbeat" where
  "heartbeat_of n = \<lparr>hb_sequence = n, hb_epoch = 1, hb_authenticated = 1, hb_fresh = 1, hb_semantically_compatible = 1,
     hb_peer_healthy = 1, hb_disagreement = 0\<rparr>"

theorem supervisor_refines_monitor_witness:
  "sv_state (supervisor_run sample_supervisor [Sv_heartbeat (heartbeat_of 1), Sv_missed, Sv_heartbeat (heartbeat_of 1), Sv_missed, Sv_missed])
     = GUARDIAN_MCXN947_STATE_SAFE_HOLD"
proof -
  have c: "guardian_mcxn947_supervisor_configure (Some initial_supervisor) (Some (node_of_role 2)) 3 = (GUARDIAN_MCXN947_OK, Some sample_supervisor)"
    by code_simp
  show ?thesis
    using supervisor_refines_monitor [OF c, of "[Sv_heartbeat (heartbeat_of 1), Sv_missed, Sv_heartbeat (heartbeat_of 1), Sv_missed, Sv_missed]"]
    by (simp add: heartbeat_proper_def heartbeat_of_def heartbeat_number_def)
qed

end
