(* ===== verification/Guardian_Corroboration.thy ===== *)
theory Guardian_Corroboration
  imports Guardian_Crypto
begin

text \<open>
  Corroboration of an observation by several nodes: the context that collects one report per configured
  peer and assesses whether enough of them agree (\<open>src/firmware/MultiNode/Src/guardian_multinode_corroboration.c\<close>),
  with the payloads exchanged, the observation (\<open>guardian_corroboration_wire.c\<close>) and its acknowledgement
  (\<open>guardian_corroboration_ack.c\<close>).
\<close>

unbundle bit_operations_syntax

section \<open>Types\<close>

abbreviation (input) GUARDIAN_CORROBORATION_CAPACITY :: nat where "GUARDIAN_CORROBORATION_CAPACITY \<equiv> 5"
abbreviation (input) GUARDIAN_CORROBORATION_COMMITMENT_BYTES :: nat where "GUARDIAN_CORROBORATION_COMMITMENT_BYTES \<equiv> 32"

datatype gc_state = GC_UNCONFIGURED | GC_INSUFFICIENT | GC_CORROBORATED | GC_CONFLICT_LATCHED | GC_REJOIN_REQUIRED

datatype gc_result = GC_OK | GC_REJECTED | GC_CLOCK_FAILURE | GC_EPOCH_CHANGE | GC_CONFLICT | GC_LATCHED

record gc_peer =
  gp_id :: u32
  gp_role :: u8

record gc_config =
  gf_generation :: u32
  gf_policy :: u32
  gf_profile :: u32
  gf_round :: u32
  gf_max_age :: u64
  gf_count :: u8
  gf_threshold :: u8
  gf_required_roles :: u8
  gf_peers :: "gc_peer list"

record gc_report =
  gr_id :: u32
  gr_generation :: u32
  gr_policy :: u32
  gr_profile :: u32
  gr_round :: u32
  gr_epoch :: u64
  gr_sequence :: u64
  gr_authenticated :: u8
  gr_persistent_freshness :: u8
  gr_same_round_ack :: u8
  gr_claims_actuation :: u8
  gr_commitment :: "u8 list"

record gc_slot =
  gl_report :: gc_report
  gl_received_at :: u64
  gl_seen :: u8
  gl_available :: u8

record gc_context =
  gx_state :: gc_state
  gx_config :: gc_config
  gx_slots :: "gc_slot list"
  gx_last_clock :: u64
  gx_clock_seen :: u8
  gx_conflict_present :: u8
  gx_conflicting_report :: gc_report

record gc_assessment =
  ga_state :: gc_state
  ga_eligible_for_local_review :: u8
  ga_fresh_count :: u8
  ga_role_coverage :: u8
  ga_config :: gc_config
  ga_sources :: "gc_slot list"
  ga_conflict_present :: u8
  ga_conflicting_report :: gc_report

definition zero_gc_config :: gc_config where
  "zero_gc_config = \<lparr>gf_generation = 0, gf_policy = 0, gf_profile = 0, gf_round = 0, gf_max_age = 0, gf_count = 0,
     gf_threshold = 0, gf_required_roles = 0, gf_peers = replicate GUARDIAN_CORROBORATION_CAPACITY \<lparr>gp_id = 0, gp_role = 0\<rparr>\<rparr>"

definition zero_gc_report :: gc_report where
  "zero_gc_report = \<lparr>gr_id = 0, gr_generation = 0, gr_policy = 0, gr_profile = 0, gr_round = 0, gr_epoch = 0, gr_sequence = 0,
     gr_authenticated = 0, gr_persistent_freshness = 0, gr_same_round_ack = 0, gr_claims_actuation = 0,
     gr_commitment = replicate GUARDIAN_CORROBORATION_COMMITMENT_BYTES 0\<rparr>"

definition zero_gc_slots :: "gc_slot list" where
  "zero_gc_slots = replicate GUARDIAN_CORROBORATION_CAPACITY
     \<lparr>gl_report = zero_gc_report, gl_received_at = 0, gl_seen = 0, gl_available = 0\<rparr>"

definition zero_gc_context :: gc_context where
  "zero_gc_context = \<lparr>gx_state = GC_UNCONFIGURED, gx_config = zero_gc_config, gx_slots = zero_gc_slots, gx_last_clock = 0,
     gx_clock_seen = 0, gx_conflict_present = 0, gx_conflicting_report = zero_gc_report\<rparr>"

definition zero_gc_assessment :: gc_assessment where
  "zero_gc_assessment = \<lparr>ga_state = GC_UNCONFIGURED, ga_eligible_for_local_review = 0, ga_fresh_count = 0, ga_role_coverage = 0,
     ga_config = zero_gc_config, ga_sources = zero_gc_slots, ga_conflict_present = 0, ga_conflicting_report = zero_gc_report\<rparr>"

section \<open>Operations\<close>

text \<open>The first configured peer with an id; a negative index is \<open>None\<close>.\<close>

fun peer_search :: "u32 \<Rightarrow> nat \<Rightarrow> gc_peer list \<Rightarrow> nat option" where
  "peer_search k i [] = None"
| "peer_search k i (p # ps) = (if gp_id p = k then Some i else peer_search k (i + 1) ps)"

definition peer_index :: "gc_context \<Rightarrow> u32 \<Rightarrow> nat option" where
  "peer_index c k = peer_search k 0 (take (unat (gf_count (gx_config c))) (gf_peers (gx_config c)))"

definition gc_init :: "gc_context ptr \<Rightarrow> gc_context ptr" where
  "gc_init c = map_option (\<lambda>_. zero_gc_context) c"

text \<open>The loop of \<open>gc_configure\<close>: the roles of the peers, unless one is invalid or repeats an id.\<close>

fun configured_roles :: "gc_peer list \<Rightarrow> gc_peer list \<Rightarrow> u8 \<Rightarrow> u8 option" where
  "configured_roles before [] roles = Some roles"
| "configured_roles before (p # ps) roles =
     (if gp_id p = 0 \<or> gp_role p \<ge> 5 then None
      else
        let roles' = roles OR push_bit (unat (gp_role p)) 1 in
        if list_ex (\<lambda>q. gp_id q = gp_id p) before then None else configured_roles (before @ [p]) ps roles')"

definition gc_configure :: "gc_context ptr \<Rightarrow> gc_config ptr \<Rightarrow> gc_result \<times> gc_context ptr" where
  "gc_configure c p =
     (case (c, p) of
        (Some x, Some f) \<Rightarrow>
          if gx_state x \<noteq> GC_UNCONFIGURED then (GC_REJECTED, c)
          else if gf_generation f = 0 \<or> gf_policy f = 0 \<or> gf_profile f = 0 \<or> gf_round f = 0 \<or> gf_max_age f = 0 \<or> gf_count f = 0
            \<or> gf_count f > of_nat GUARDIAN_CORROBORATION_CAPACITY \<or> gf_threshold f = 0 \<or> gf_threshold f > gf_count f
            \<or> gf_required_roles f = 0 \<or> gf_required_roles f AND 0xE0 \<noteq> 0
          then (GC_REJECTED, c)
          else
            (case configured_roles [] (take (unat (gf_count f)) (gf_peers f)) 0 of
               None \<Rightarrow> (GC_REJECTED, c)
             | Some roles \<Rightarrow>
                 if roles AND gf_required_roles f \<noteq> gf_required_roles f then (GC_REJECTED, c)
                 else (GC_OK, Some (x\<lparr>gx_config := f, gx_state := GC_INSUFFICIENT\<rparr>)))
      | _ \<Rightarrow> (GC_REJECTED, c))"

definition gc_require_rejoin :: "gc_context ptr \<Rightarrow> gc_context ptr" where
  "gc_require_rejoin c = map_option (\<lambda>x.
     if gx_state x \<noteq> GC_UNCONFIGURED \<and> gx_state x \<noteq> GC_CONFLICT_LATCHED then x\<lparr>gx_state := GC_REJOIN_REQUIRED\<rparr> else x) c"

definition clock_check :: "gc_context \<Rightarrow> u64 \<Rightarrow> u8 \<Rightarrow> gc_result \<times> gc_context" where
  "clock_check c now valid =
     (if valid \<noteq> 1 \<or> (gx_clock_seen c \<noteq> 0 \<and> now < gx_last_clock c)
      then (GC_CLOCK_FAILURE, the (gc_require_rejoin (Some c)))
      else (GC_OK, c\<lparr>gx_last_clock := now, gx_clock_seen := 1\<rparr>))"

text \<open>The loop of \<open>evaluate\<close> over the configured peers and their slots.\<close>

definition counts :: "u64 \<Rightarrow> u64 \<Rightarrow> gc_slot \<Rightarrow> bool" where
  "counts max_age now s \<longleftrightarrow> gl_seen s \<noteq> 0 \<and> gl_available s \<noteq> 0 \<and> gr_same_round_ack (gl_report s) = 1
     \<and> now \<ge> gl_received_at s \<and> now - gl_received_at s \<le> max_age"

fun evaluate_loop :: "u64 \<Rightarrow> u64 \<Rightarrow> (gc_peer \<times> gc_slot) list \<Rightarrow> u8 \<times> u8 \<Rightarrow> u8 \<times> u8" where
  "evaluate_loop max_age now [] acc = acc"
| "evaluate_loop max_age now ((p, s) # rest) (count, roles) =
     evaluate_loop max_age now rest
       (if counts max_age now s then (count + 1, roles OR push_bit (unat (gp_role p)) 1) else (count, roles))"

definition evaluate :: "gc_context \<Rightarrow> u64 \<Rightarrow> gc_context \<times> u8 \<times> u8" where
  "evaluate c now =
     (let f = gx_config c; n = unat (gf_count f) in
      case evaluate_loop (gf_max_age f) now (zip (take n (gf_peers f)) (take n (gx_slots c))) (0, 0) of
        (count, roles) \<Rightarrow>
          (if gx_state c = GC_INSUFFICIENT \<or> gx_state c = GC_CORROBORATED
           then c\<lparr>gx_state := (if count \<ge> gf_threshold f \<and> roles AND gf_required_roles f = gf_required_roles f
             then GC_CORROBORATED else GC_INSUFFICIENT)\<rparr>
           else c, count, roles))"

definition latch_conflict :: "gc_context \<Rightarrow> gc_report \<Rightarrow> gc_context" where
  "latch_conflict c r = c\<lparr>gx_state := GC_CONFLICT_LATCHED, gx_conflicting_report := r, gx_conflict_present := 1\<rparr>"

definition gc_submit :: "gc_context ptr \<Rightarrow> gc_report ptr \<Rightarrow> u64 \<Rightarrow> u8 \<Rightarrow> gc_result \<times> gc_context ptr" where
  "gc_submit c r now valid =
     (case (c, r) of
        (Some x, Some m) \<Rightarrow>
          if gx_state x = GC_UNCONFIGURED then (GC_REJECTED, c)
          else
            (case peer_index x (gr_id m) of
               None \<Rightarrow> (GC_REJECTED, c)
             | Some i \<Rightarrow>
                 let f = gx_config x; s = gx_slots x ! i in
                 if gr_generation m \<noteq> gf_generation f \<or> gr_policy m \<noteq> gf_policy f \<or> gr_profile m \<noteq> gf_profile f
                   \<or> gr_round m \<noteq> gf_round f \<or> gr_epoch m = 0 \<or> gr_sequence m = 0 \<or> gr_authenticated m \<noteq> 1
                   \<or> gr_persistent_freshness m \<noteq> 1 \<or> gr_same_round_ack m > 1 \<or> gr_claims_actuation m > 1
                 then (GC_REJECTED, c)
                 else if gl_seen s \<noteq> 0 \<and> gr_epoch m = gr_epoch (gl_report s) \<and> gr_sequence m \<le> gr_sequence (gl_report s)
                 then (GC_REJECTED, c)
                 else
                   case clock_check x now valid of
                     (result, x1) \<Rightarrow>
                       if result \<noteq> GC_OK then (GC_CLOCK_FAILURE, Some x1)
                       else if gx_state x1 = GC_CONFLICT_LATCHED \<or> gx_state x1 = GC_REJOIN_REQUIRED then (GC_LATCHED, Some x1)
                       else if gl_seen s \<noteq> 0 \<and> gr_epoch m \<noteq> gr_epoch (gl_report s)
                       then (GC_EPOCH_CHANGE, gc_require_rejoin (Some x1))
                       else if gr_claims_actuation m = 1 \<and> gp_role (gf_peers f ! i) \<noteq> 0
                       then (GC_CONFLICT, Some (latch_conflict x1 m))
                       else if list_ex (\<lambda>t. gl_seen t \<noteq> 0 \<and> gr_commitment m \<noteq> gr_commitment (gl_report t))
                           (take (unat (gf_count f)) (gx_slots x1))
                       then (GC_CONFLICT, Some (latch_conflict x1 m))
                       else
                         let x2 = x1\<lparr>gx_slots := (gx_slots x1)[i := \<lparr>gl_report = m, gl_received_at = now, gl_seen = 1, gl_available = 1\<rparr>]\<rparr> in
                         (GC_OK, Some (fst (evaluate x2 now))))
      | _ \<Rightarrow> (GC_REJECTED, c))"

definition gc_query :: "gc_context ptr \<Rightarrow> u64 \<Rightarrow> u8 \<Rightarrow> gc_assessment ptr \<Rightarrow> gc_result \<times> gc_context ptr \<times> gc_assessment ptr" where
  "gc_query c now valid out =
     (case out of
        None \<Rightarrow> (GC_REJECTED, c, None)
      | Some _ \<Rightarrow>
          case c of
            None \<Rightarrow> (GC_REJECTED, c, Some zero_gc_assessment)
          | Some x \<Rightarrow>
              if gx_state x = GC_UNCONFIGURED then (GC_REJECTED, c, Some zero_gc_assessment)
              else
                case clock_check x now valid of
                  (result, x1) \<Rightarrow>
                    case evaluate x1 now of
                      (x2, count, roles) \<Rightarrow>
                        (result, Some x2,
                         Some \<lparr>ga_state = gx_state x2,
                           ga_eligible_for_local_review = (if result = GC_OK \<and> gx_state x2 = GC_CORROBORATED then 1 else 0),
                           ga_fresh_count = count, ga_role_coverage = roles, ga_config = gx_config x2, ga_sources = gx_slots x2,
                           ga_conflict_present = gx_conflict_present x2, ga_conflicting_report = gx_conflicting_report x2\<rparr>))"

definition gc_link_loss :: "gc_context ptr \<Rightarrow> u32 \<Rightarrow> u64 \<Rightarrow> u8 \<Rightarrow> gc_result \<times> gc_context ptr" where
  "gc_link_loss c k now valid =
     (case c of
        None \<Rightarrow> (GC_REJECTED, c)
      | Some x \<Rightarrow>
          if gx_state x = GC_UNCONFIGURED then (GC_REJECTED, c)
          else
            (case peer_index x k of
               None \<Rightarrow> (GC_REJECTED, c)
             | Some i \<Rightarrow>
                 case clock_check x now valid of
                   (result, x1) \<Rightarrow>
                     if result \<noteq> GC_OK then (GC_CLOCK_FAILURE, Some x1)
                     else (GC_OK, Some (fst (evaluate (x1\<lparr>gx_slots := (gx_slots x1)[i := (gx_slots x1 ! i)\<lparr>gl_available := 0\<rparr>]\<rparr>) now)))))"

section \<open>Invariant\<close>

text \<open>The steps of a context; the arrays of a caller's configuration and report have their declared length.\<close>

inductive gc_operation :: "gc_context \<Rightarrow> gc_context \<Rightarrow> bool" where
  op_configure: "length (gf_peers f) = 5 \<Longrightarrow> gc_configure (Some x) (Some f) = (r, Some y) \<Longrightarrow> gc_operation x y"
| op_submit: "gc_submit (Some x) (Some m) now valid = (r, Some y) \<Longrightarrow> gc_operation x y"
| op_query: "gc_query (Some x) now valid out = (r, Some y, out') \<Longrightarrow> gc_operation x y"
| op_link_loss: "gc_link_loss (Some x) k now valid = (r, Some y) \<Longrightarrow> gc_operation x y"
| op_rejoin: "gc_require_rejoin (Some x) = Some y \<Longrightarrow> gc_operation x y"

inductive gc_step :: "gc_context \<Rightarrow> gc_context \<Rightarrow> bool" where
  gc_step_operation: "gc_operation x y \<Longrightarrow> gc_step x y"
| gc_step_init: "gc_init (Some x) = Some y \<Longrightarrow> gc_step x y"

inductive_cases gc_stepE: "gc_step x y"

definition gc_initial :: "gc_context \<Rightarrow> bool" where
  "gc_initial x \<longleftrightarrow> (\<exists>x0. gc_init (Some x0) = Some x)"

definition config_ok :: "gc_config \<Rightarrow> bool" where
  "config_ok f \<longleftrightarrow> length (gf_peers f) = 5 \<and> gf_count f \<le> 5 \<and> gf_threshold f \<noteq> 0
     \<and> distinct (map gp_id (take (unat (gf_count f)) (gf_peers f)))
     \<and> (\<forall>p \<in> set (take (unat (gf_count f)) (gf_peers f)). gp_id p \<noteq> 0 \<and> gp_role p < 5)"

text \<open>What is known of a report the context keeps for peer \<open>p\<close>.\<close>

definition report_ok :: "gc_config \<Rightarrow> gc_peer \<Rightarrow> gc_report \<Rightarrow> bool" where
  "report_ok f p m \<longleftrightarrow> gr_id m = gp_id p \<and> gr_generation m = gf_generation f \<and> gr_policy m = gf_policy f
     \<and> gr_profile m = gf_profile f \<and> gr_round m = gf_round f \<and> gr_authenticated m = 1 \<and> gr_persistent_freshness m = 1
     \<and> gr_epoch m \<noteq> 0 \<and> gr_sequence m \<noteq> 0 \<and> (gr_claims_actuation m \<noteq> 0 \<longrightarrow> gp_role p = 0)"

definition slots_ok :: "gc_config \<Rightarrow> gc_slot list \<Rightarrow> bool" where
  "slots_ok f ss \<longleftrightarrow> length ss = 5
     \<and> (\<forall>i < unat (gf_count f). gl_seen (ss ! i) \<noteq> 0 \<longrightarrow> report_ok f (gf_peers f ! i) (gl_report (ss ! i)))
     \<and> (\<forall>i < unat (gf_count f). \<forall>j < unat (gf_count f). gl_seen (ss ! i) \<noteq> 0 \<longrightarrow> gl_seen (ss ! j) \<noteq> 0
         \<longrightarrow> gr_commitment (gl_report (ss ! i)) = gr_commitment (gl_report (ss ! j)))"

definition gc_inv :: "gc_context \<Rightarrow> bool" where
  "gc_inv x \<longleftrightarrow> (if gx_state x = GC_UNCONFIGURED then x = zero_gc_context
     else config_ok (gx_config x) \<and> slots_ok (gx_config x) (gx_slots x))"

lemma configured_roles_Some:
  "configured_roles before ps roles = Some r \<Longrightarrow> distinct (map gp_id before) \<Longrightarrow>
     distinct (map gp_id (before @ ps)) \<and> (\<forall>p \<in> set ps. gp_id p \<noteq> 0 \<and> gp_role p < 5)"
proof (induction ps arbitrary: before roles)
  case (Cons p ps)
  then have "gp_id p \<noteq> 0" "gp_role p < 5" "gp_id p \<notin> gp_id ` set before"
      "configured_roles (before @ [p]) ps (roles OR push_bit (unat (gp_role p)) 1) = Some r"
    by (auto simp: Let_def list_ex_iff not_le split: if_splits)
  with Cons.IH [OF this(4)] Cons.prems(2) show ?case by auto
qed simp

lemma peer_search_Some:
  "peer_search k i ps = Some n \<Longrightarrow> i \<le> n \<and> n - i < length ps \<and> gp_id (ps ! (n - i)) = k"
proof (induction ps arbitrary: i)
  case (Cons p ps)
  show ?case
  proof (cases "gp_id p = k")
    case False
    then have n: "Suc i \<le> n" "n - Suc i < length ps" "gp_id (ps ! (n - Suc i)) = k"
      using Cons.IH [of "Suc i"] Cons.prems by simp_all
    then have "n - i = Suc (n - Suc i)" by simp
    then show ?thesis using n by simp
  qed (use Cons.prems in simp)
qed simp

lemma peer_index_Some:
  assumes "peer_index x k = Some i" "config_ok (gx_config x)"
  shows "i < unat (gf_count (gx_config x))" "i < 5" "gp_id (gf_peers (gx_config x) ! i) = k"
proof -
  have "length (take (unat (gf_count (gx_config x))) (gf_peers (gx_config x))) = unat (gf_count (gx_config x))" "unat (gf_count (gx_config x)) \<le> 5"
    using assms(2) by (simp_all add: config_ok_def word_le_nat_alt)
  then show "i < unat (gf_count (gx_config x))" "i < 5" "gp_id (gf_peers (gx_config x) ! i) = k"
    using peer_search_Some [OF assms(1) [unfolded peer_index_def]] by auto
qed

lemma require_rejoin_fields [simp]:
  "gx_config (the (gc_require_rejoin (Some x))) = gx_config x" "gx_slots (the (gc_require_rejoin (Some x))) = gx_slots x"
  "gx_state (the (gc_require_rejoin (Some x))) = (if gx_state x \<in> {GC_UNCONFIGURED, GC_CONFLICT_LATCHED} then gx_state x
     else GC_REJOIN_REQUIRED)"
  by (auto simp: gc_require_rejoin_def)

lemma clock_check_fields:
  assumes "clock_check x now valid = (r, y)"
  shows "gx_config y = gx_config x" "gx_slots y = gx_slots x" "r = GC_OK \<or> r = GC_CLOCK_FAILURE"
    "r = GC_OK \<longleftrightarrow> valid = 1 \<and> (gx_clock_seen x \<noteq> 0 \<longrightarrow> gx_last_clock x \<le> now)" "r = GC_OK \<Longrightarrow> gx_state y = gx_state x"
    "gx_state y = gx_state x \<or> gx_state y = GC_REJOIN_REQUIRED" "gx_state y = GC_UNCONFIGURED \<longleftrightarrow> gx_state x = GC_UNCONFIGURED"
    "gx_state x = GC_CONFLICT_LATCHED \<Longrightarrow> gx_state y = GC_CONFLICT_LATCHED"
    "r \<noteq> GC_OK \<Longrightarrow> gx_state y = (if gx_state x \<in> {GC_UNCONFIGURED, GC_CONFLICT_LATCHED} then gx_state x else GC_REJOIN_REQUIRED)"
proof -
  have "(r, y) = (if valid = 1 \<and> (gx_clock_seen x \<noteq> 0 \<longrightarrow> gx_last_clock x \<le> now)
      then (GC_OK, x\<lparr>gx_last_clock := now, gx_clock_seen := 1\<rparr>) else (GC_CLOCK_FAILURE, the (gc_require_rejoin (Some x))))"
    unfolding assms [symmetric] clock_check_def by (auto simp: not_less)
  then consider "r = GC_OK" "y = x\<lparr>gx_last_clock := now, gx_clock_seen := 1\<rparr>" "valid = 1 \<and> (gx_clock_seen x \<noteq> 0 \<longrightarrow> gx_last_clock x \<le> now)"
    | "r = GC_CLOCK_FAILURE" "y = the (gc_require_rejoin (Some x))" "\<not> (valid = 1 \<and> (gx_clock_seen x \<noteq> 0 \<longrightarrow> gx_last_clock x \<le> now))"
    by (simp split: if_splits)
  note cases = this
  show "gx_config y = gx_config x" "gx_slots y = gx_slots x" "r = GC_OK \<or> r = GC_CLOCK_FAILURE"
    "r = GC_OK \<longleftrightarrow> valid = 1 \<and> (gx_clock_seen x \<noteq> 0 \<longrightarrow> gx_last_clock x \<le> now)" "r = GC_OK \<Longrightarrow> gx_state y = gx_state x"
    "gx_state y = gx_state x \<or> gx_state y = GC_REJOIN_REQUIRED" "gx_state y = GC_UNCONFIGURED \<longleftrightarrow> gx_state x = GC_UNCONFIGURED"
    "gx_state x = GC_CONFLICT_LATCHED \<Longrightarrow> gx_state y = GC_CONFLICT_LATCHED"
    "r \<noteq> GC_OK \<Longrightarrow> gx_state y = (if gx_state x \<in> {GC_UNCONFIGURED, GC_CONFLICT_LATCHED} then gx_state x else GC_REJOIN_REQUIRED)"
    by (rule cases; simp)+
qed

lemma evaluate_fields [simp]:
  "gx_config (fst (evaluate x now)) = gx_config x" "gx_slots (fst (evaluate x now)) = gx_slots x"
  "gx_state (fst (evaluate x now)) = GC_UNCONFIGURED \<longleftrightarrow> gx_state x = GC_UNCONFIGURED"
  "gx_state x \<in> {GC_CONFLICT_LATCHED, GC_REJOIN_REQUIRED} \<Longrightarrow> gx_state (fst (evaluate x now)) = gx_state x"
  by (auto simp: evaluate_def Let_def split: prod.splits)

text \<open>A report that no check stops keeps the agreement of the stored reports.\<close>

lemma slots_ok_store:
  assumes ok: "slots_ok f ss" and i: "i < unat (gf_count f)" "unat (gf_count f) \<le> 5" and m: "report_ok f (gf_peers f ! i) m"
    and agree: "\<not> list_ex (\<lambda>t. gl_seen t \<noteq> 0 \<and> gr_commitment m \<noteq> gr_commitment (gl_report t)) (take (unat (gf_count f)) ss)"
  shows "slots_ok f (ss[i := \<lparr>gl_report = m, gl_received_at = now, gl_seen = 1, gl_available = 1\<rparr>])"
proof -
  have len: "length ss = 5" using ok by (simp add: slots_ok_def)
  have same: "gr_commitment m = gr_commitment (gl_report (ss ! j))" if "j < unat (gf_count f)" "gl_seen (ss ! j) \<noteq> 0" for j
  proof -
    have "ss ! j \<in> set (take (unat (gf_count f)) ss)"
      using that(1) i(2) len by (auto simp: set_conv_nth intro!: exI [of _ j])
    then show ?thesis using agree that(2) by (auto simp: list_ex_iff)
  qed
  show ?thesis
    unfolding slots_ok_def
  proof (intro conjI allI impI)
    let ?t = "ss[i := \<lparr>gl_report = m, gl_received_at = now, gl_seen = 1, gl_available = 1\<rparr>]"
    show "length ?t = 5" using len by simp
    fix a assume a: "a < unat (gf_count f)" "gl_seen (?t ! a) \<noteq> 0"
    show "report_ok f (gf_peers f ! a) (gl_report (?t ! a))"
      using ok a m i len by (cases "a = i") (simp_all add: slots_ok_def)
    fix b assume b: "b < unat (gf_count f)" "gl_seen (?t ! b) \<noteq> 0"
    have "gr_commitment (gl_report (?t ! c)) = gr_commitment m" if "c < unat (gf_count f)" "gl_seen (?t ! c) \<noteq> 0" for c
    proof (cases "c = i")
      case True
      then show ?thesis using i len by simp
    next
      case False
      then show ?thesis using same [of c] that by simp
    qed
    then show "gr_commitment (gl_report (?t ! a)) = gr_commitment (gl_report (?t ! b))" using a b by metis
  qed
qed

lemma slots_ok_lose:
  assumes "slots_ok f ss"
  shows "slots_ok f (ss[i := (ss ! i)\<lparr>gl_available := 0\<rparr>])"
proof (cases "i < length ss")
  case True
  then have "gl_seen (ss[i := (ss ! i)\<lparr>gl_available := 0\<rparr>] ! j) = gl_seen (ss ! j)"
      "gl_report (ss[i := (ss ! i)\<lparr>gl_available := 0\<rparr>] ! j) = gl_report (ss ! j)" for j
    by (cases "j = i"; simp)+
  then show ?thesis using assms unfolding slots_ok_def by (simp only: length_list_update) blast
qed (use assms in \<open>simp add: list_update_beyond not_less\<close>)

text \<open>Every operation on a configured context keeps the configuration, and what a latched state was.\<close>

abbreviation latched :: "gc_context \<Rightarrow> bool" where
  "latched x \<equiv> gx_state x \<in> {GC_CONFLICT_LATCHED, GC_REJOIN_REQUIRED}"

definition step_ok :: "gc_context \<Rightarrow> gc_context \<Rightarrow> bool" where
  "step_ok x y \<longleftrightarrow> gx_config y = gx_config x \<and> slots_ok (gx_config x) (gx_slots y) \<and> gx_state y \<noteq> GC_UNCONFIGURED
     \<and> (latched x \<longrightarrow> latched y)"

lemma step_ok_clock:
  assumes "clock_check x now valid = (r, y)" "slots_ok (gx_config x) (gx_slots x)" "gx_state x \<noteq> GC_UNCONFIGURED"
  shows "step_ok x y"
  using clock_check_fields [OF assms(1)] assms(2,3) unfolding step_ok_def by auto

lemma submit_ok:
  assumes inv: "config_ok (gx_config x)" "slots_ok (gx_config x) (gx_slots x)" "gx_state x \<noteq> GC_UNCONFIGURED"
    and sub: "gc_submit (Some x) (Some m) now valid = (r, Some y)"
  shows "step_ok x y"
proof -
  have same: "step_ok x x" using inv by (simp add: step_ok_def)
  show ?thesis
  proof (cases "peer_index x (gr_id m)")
    case None
    then show ?thesis using sub inv(3) same by (simp add: gc_submit_def)
  next
    case (Some i)
    note i = peer_index_Some [OF Some inv(1)]
    let ?f = "gx_config x" and ?s = "gx_slots x ! i"
    let ?bad = "gr_generation m \<noteq> gf_generation ?f \<or> gr_policy m \<noteq> gf_policy ?f \<or> gr_profile m \<noteq> gf_profile ?f
                   \<or> gr_round m \<noteq> gf_round ?f \<or> gr_epoch m = 0 \<or> gr_sequence m = 0 \<or> gr_authenticated m \<noteq> 1
                   \<or> gr_persistent_freshness m \<noteq> 1 \<or> gr_same_round_ack m > 1 \<or> gr_claims_actuation m > 1"
    let ?old = "gl_seen ?s \<noteq> 0 \<and> gr_epoch m = gr_epoch (gl_report ?s) \<and> gr_sequence m \<le> gr_sequence (gl_report ?s)"
    obtain res x1 where ck: "clock_check x now valid = (res, x1)" by fastforce
    note c = clock_check_fields [OF ck] and so = step_ok_clock [OF ck inv(2,3)]
    show ?thesis
    proof (cases "?bad \<or> ?old")
      case True
      then show ?thesis using sub inv(3) Some same by (auto simp: gc_submit_def Let_def split: if_splits)
    next
      case False
      then have b: "\<not> ?bad" "\<not> ?old" by blast+
      have "gc_submit (Some x) (Some m) now valid =
          (if res \<noteq> GC_OK then (GC_CLOCK_FAILURE, Some x1)
           else if gx_state x1 = GC_CONFLICT_LATCHED \<or> gx_state x1 = GC_REJOIN_REQUIRED then (GC_LATCHED, Some x1)
           else if gl_seen ?s \<noteq> 0 \<and> gr_epoch m \<noteq> gr_epoch (gl_report ?s) then (GC_EPOCH_CHANGE, gc_require_rejoin (Some x1))
           else if gr_claims_actuation m = 1 \<and> gp_role (gf_peers ?f ! i) \<noteq> 0 then (GC_CONFLICT, Some (latch_conflict x1 m))
           else if list_ex (\<lambda>t. gl_seen t \<noteq> 0 \<and> gr_commitment m \<noteq> gr_commitment (gl_report t)) (take (unat (gf_count ?f)) (gx_slots x1))
           then (GC_CONFLICT, Some (latch_conflict x1 m))
           else (GC_OK, Some (fst (evaluate (x1\<lparr>gx_slots := (gx_slots x1)[i := \<lparr>gl_report = m, gl_received_at = now, gl_seen = 1, gl_available = 1\<rparr>]\<rparr>) now))))"
        using b by (simp only: gc_submit_def prod.case option.case Some ck inv(3) Let_def if_False)
      then consider (kept) "y = x1" | (rejoin) "y = the (gc_require_rejoin (Some x1))" "\<not> latched x1"
        | (conflict) "y = latch_conflict x1 m"
        | (stored) "\<not> latched x1" "\<not> (gr_claims_actuation m = 1 \<and> gp_role (gf_peers ?f ! i) \<noteq> 0)"
            "\<not> list_ex (\<lambda>t. gl_seen t \<noteq> 0 \<and> gr_commitment m \<noteq> gr_commitment (gl_report t)) (take (unat (gf_count ?f)) (gx_slots x1))"
            "y = fst (evaluate (x1\<lparr>gx_slots := (gx_slots x1)[i := \<lparr>gl_report = m, gl_received_at = now, gl_seen = 1, gl_available = 1\<rparr>]\<rparr>) now)"
        using sub by (auto simp: gc_require_rejoin_def split: if_split_asm)
      then show ?thesis
      proof cases
        case stored
        have "gr_claims_actuation m \<noteq> 0 \<longrightarrow> gr_claims_actuation m = 1"
          using False by (auto simp: not_less word_le_nat_alt word_unat_eq_iff)
        then have "report_ok ?f (gf_peers ?f ! i) m" using False i(3) stored(2) by (auto simp: report_ok_def)
        moreover have "unat (gf_count ?f) \<le> 5" using inv(1) by (simp add: config_ok_def word_le_nat_alt)
        ultimately have "slots_ok ?f ((gx_slots x)[i := \<lparr>gl_report = m, gl_received_at = now, gl_seen = 1, gl_available = 1\<rparr>])"
          using slots_ok_store [OF inv(2) i(1), of m] stored(3) c(2) by simp
        then show ?thesis using stored so c(1,2) by (auto simp: step_ok_def)
      qed (use so in \<open>auto simp: step_ok_def latch_conflict_def\<close>)
    qed
  qed
qed

lemma gc_configure_inv:
  assumes "gc_inv x" "length (gf_peers f) = 5" "gc_configure (Some x) (Some f) = (r, Some y)"
  shows "gc_inv y" and "latched x \<Longrightarrow> y = x"
proof -
  have no: "gx_state x \<noteq> GC_UNCONFIGURED \<Longrightarrow> y = x" using assms(3) by (simp add: gc_configure_def)
  then show "latched x \<Longrightarrow> y = x" by auto
  show "gc_inv y"
  proof (cases "y = x")
    case False
    then have x: "x = zero_gc_context" using assms(1) no by (auto simp: gc_inv_def split: if_splits)
    obtain roles where f: "configured_roles [] (take (unat (gf_count f)) (gf_peers f)) 0 = Some roles" "gf_count f \<le> 5"
        "gf_threshold f \<noteq> 0" "y = x\<lparr>gx_config := f, gx_state := GC_INSUFFICIENT\<rparr>"
      using assms(3) False by (auto simp: gc_configure_def not_less split: if_split_asm option.split_asm)
    have "config_ok f" using configured_roles_Some [OF f(1)] f(2,3) assms(2) by (simp add: config_ok_def)
    moreover have "slots_ok f (gx_slots x)"
    proof -
      have "unat (gf_count f) \<le> 5" using f(2) by (simp add: word_le_nat_alt)
      then have "gl_seen (zero_gc_slots ! i) = 0" if "i < unat (gf_count f)" for i using that by (simp add: zero_gc_slots_def)
      then show ?thesis by (simp add: x zero_gc_context_def slots_ok_def) (simp add: zero_gc_slots_def)
    qed
    ultimately show ?thesis using f(4) by (simp add: gc_inv_def)
  qed (use assms(1) in simp)
qed

text \<open>An operation on a configured context.\<close>

lemma operation_configured:
  assumes "gc_inv x" "gx_state x \<noteq> GC_UNCONFIGURED" "gc_operation x y"
  shows "step_ok x y"
  using assms(3)
proof cases
  have inv: "config_ok (gx_config x)" "slots_ok (gx_config x) (gx_slots x)" using assms(1,2) by (simp_all add: gc_inv_def)
  have same: "step_ok x x" using inv assms(2) by (simp add: step_ok_def)
  case (op_configure f r)
  then show ?thesis using assms(2) same by (simp add: gc_configure_def)
next
  case (op_submit m now valid r)
  then show ?thesis using submit_ok assms(1,2) by (auto simp: gc_inv_def)
next
  case (op_query now valid out r out')
  have inv: "config_ok (gx_config x)" "slots_ok (gx_config x) (gx_slots x)" using assms(1,2) by (simp_all add: gc_inv_def)
  obtain res x1 where ck: "clock_check x now valid = (res, x1)" by fastforce
  have "y = x \<or> y = fst (evaluate x1 now)"
    using op_query assms(2) ck by (auto simp: gc_query_def split: option.splits prod.splits)
  then show ?thesis using step_ok_clock [OF ck inv(2) assms(2)] inv(2) assms(2) by (auto simp: step_ok_def)
next
  case (op_link_loss k now valid r)
  have inv: "config_ok (gx_config x)" "slots_ok (gx_config x) (gx_slots x)" using assms(1,2) by (simp_all add: gc_inv_def)
  obtain res x1 where ck: "clock_check x now valid = (res, x1)" by fastforce
  note so = step_ok_clock [OF ck inv(2) assms(2)]
  have "y = x \<or> y = x1 \<or> (\<exists>i. y = fst (evaluate (x1\<lparr>gx_slots := (gx_slots x1)[i := (gx_slots x1 ! i)\<lparr>gl_available := 0\<rparr>]\<rparr>) now))"
    using op_link_loss assms(2) ck by (auto simp: gc_link_loss_def split: option.splits if_splits)
  then show ?thesis
  proof (elim disjE exE)
    fix i assume y: "y = fst (evaluate (x1\<lparr>gx_slots := (gx_slots x1)[i := (gx_slots x1 ! i)\<lparr>gl_available := 0\<rparr>]\<rparr>) now)"
    have "slots_ok (gx_config x) ((gx_slots x1)[i := (gx_slots x1 ! i)\<lparr>gl_available := 0\<rparr>])"
      using so by (intro slots_ok_lose) (simp add: step_ok_def)
    then show ?thesis using so y by (auto simp: step_ok_def)
  qed (use so inv assms(2) in \<open>auto simp: step_ok_def\<close>)
next
  case op_rejoin
  have "slots_ok (gx_config x) (gx_slots x)" using assms(1,2) by (simp add: gc_inv_def)
  then show ?thesis using op_rejoin assms(2) by (cases "gx_state x = GC_CONFLICT_LATCHED") (auto simp: step_ok_def gc_require_rejoin_def)
qed

lemma operation_inv: "gc_inv x \<Longrightarrow> gc_operation x y \<Longrightarrow> gc_inv y"
proof (cases "gx_state x = GC_UNCONFIGURED")
  case True
  assume i: "gc_inv x" and op: "gc_operation x y"
  from op show "gc_inv y"
  proof cases
    case (op_configure f r)
    then show ?thesis using gc_configure_inv(1) [OF i] by blast
  qed (use i True in \<open>auto simp: gc_submit_def gc_query_def gc_link_loss_def gc_require_rejoin_def split: option.splits\<close>)
next
  case False
  assume i: "gc_inv x" and op: "gc_operation x y"
  from operation_configured [OF i False op] show "gc_inv y" using i False by (auto simp: gc_inv_def step_ok_def)
qed

interpretation corroboration: transition_system gc_initial gc_step gc_inv
proof
  have z: "gc_inv zero_gc_context" by (simp add: gc_inv_def zero_gc_context_def)
  show "gc_initial s \<Longrightarrow> gc_inv s" for s using z by (auto simp: gc_initial_def gc_init_def)
  show "gc_inv s \<Longrightarrow> gc_step s t \<Longrightarrow> gc_inv t" for s t using z by (auto simp: gc_init_def elim!: gc_stepE intro: operation_inv)
qed

text \<open>Once latched, a context stays latched whatever is done to it, short of a new initialisation.\<close>

lemma latched_stays:
  assumes "gc_operation\<^sup>*\<^sup>* x y" "gc_inv x" "latched x"
  shows "gc_inv y \<and> latched y"
  using assms
proof (induction rule: rtranclp_induct)
  case (step y z)
  then have y: "gc_inv y" "latched y" by blast+
  then have "gx_state y \<noteq> GC_UNCONFIGURED" by auto
  then show ?case using operation_configured [OF y(1) _ step.hyps(2)] operation_inv [OF y(1) step.hyps(2)] y(2) by (auto simp: step_ok_def)
qed simp

section \<open>What an assessment counts\<close>

text \<open>The peers whose report counts at time \<open>now\<close>.\<close>

definition backing :: "gc_context \<Rightarrow> u64 \<Rightarrow> nat set" where
  "backing x now = {i. i < unat (gf_count (gx_config x)) \<and> counts (gf_max_age (gx_config x)) now (gx_slots x ! i)}"

lemma evaluate_loop_filter:
  "length ps + unat c < 256 \<Longrightarrow> evaluate_loop a now ps (c, r) = (c', r') \<Longrightarrow>
     unat c' = unat c + length (filter (\<lambda>ps. counts a now (snd ps)) ps)
     \<and> (\<forall>k < 8. bit r' k \<longleftrightarrow> bit r k \<or> (\<exists>(p, s) \<in> set ps. counts a now s \<and> unat (gp_role p) = k))"
proof (induction ps arbitrary: c r)
  case (Cons q ps)
  obtain p s where q: "q = (p, s)" by fastforce
  show ?case
  proof (cases "counts a now s")
    case True
    have c1: "unat (c + 1) = unat c + 1" using Cons.prems(1) by (simp add: unat_word_ariths)
    have "evaluate_loop a now ps (c + 1, r OR push_bit (unat (gp_role p)) 1) = (c', r')" using Cons.prems(2) q True by simp
    from Cons.IH [OF _ this] c1 Cons.prems(1)
    have ih: "unat c' = unat c + 1 + length (filter (\<lambda>ps. counts a now (snd ps)) ps)"
        "\<forall>k < 8. bit r' k \<longleftrightarrow> bit (r OR push_bit (unat (gp_role p)) 1) k \<or> (\<exists>(p, s) \<in> set ps. counts a now s \<and> unat (gp_role p) = k)"
      by simp_all
    have "bit (push_bit (unat (gp_role p)) (1 :: u8)) k \<longleftrightarrow> unat (gp_role p) = k" if "k < 8" for k
      using that by (auto simp: bit_exp_iff)
    then show ?thesis using ih q True by (auto simp: bit_or_iff)
  next
    case False
    then show ?thesis using Cons.IH [of c r] Cons.prems q by auto
  qed
qed simp

lemma evaluate_spec:
  assumes ok: "config_ok (gx_config x)" "length (gx_slots x) = 5" and ev: "evaluate x now = (y, count, roles)"
  shows "unat count = card (backing x now)"
    and "roles AND gf_required_roles (gx_config x) = gf_required_roles (gx_config x) \<longleftrightarrow>
      (\<forall>k < 8. bit (gf_required_roles (gx_config x)) k \<longrightarrow> (\<exists>i \<in> backing x now. unat (gp_role (gf_peers (gx_config x) ! i)) = k))"
    and "gx_state y = (if gx_state x \<in> {GC_INSUFFICIENT, GC_CORROBORATED}
      then if count \<ge> gf_threshold (gx_config x) \<and> roles AND gf_required_roles (gx_config x) = gf_required_roles (gx_config x)
        then GC_CORROBORATED else GC_INSUFFICIENT
      else gx_state x)"
proof -
  let ?f = "gx_config x" and ?n = "unat (gf_count (gx_config x))"
  let ?ps = "zip (take ?n (gf_peers ?f)) (take ?n (gx_slots x))"
  have n: "?n \<le> 5" using ok(1) by (simp add: config_ok_def word_le_nat_alt)
  have len: "length ?ps = ?n" using n ok by (simp add: config_ok_def)
  have nth: "?ps ! i = (gf_peers ?f ! i, gx_slots x ! i)" if "i < ?n" for i using that n ok by (simp add: config_ok_def)
  have loop: "evaluate_loop (gf_max_age ?f) now ?ps (0, 0) = (count, roles)"
    using ev by (auto simp: evaluate_def Let_def split: prod.splits)
  have l: "unat count = length (filter (\<lambda>ps. counts (gf_max_age ?f) now (snd ps)) ?ps)"
      "\<forall>k < 8. bit roles k \<longleftrightarrow> (\<exists>(p, s) \<in> set ?ps. counts (gf_max_age ?f) now s \<and> unat (gp_role p) = k)"
    using evaluate_loop_filter [OF _ loop] n len by simp_all
  have "{i. i < length ?ps \<and> counts (gf_max_age ?f) now (snd (?ps ! i))} = backing x now"
    using nth len by (auto simp: backing_def)
  then show "unat count = card (backing x now)" using l(1) by (simp only: length_filter_conv_card)
  have cover: "(\<exists>(p, s) \<in> set ?ps. counts (gf_max_age ?f) now s \<and> unat (gp_role p) = k)
      \<longleftrightarrow> (\<exists>i \<in> backing x now. unat (gp_role (gf_peers ?f ! i)) = k)" for k
  proof -
    have "(\<exists>q \<in> set ?ps. P q) \<longleftrightarrow> (\<exists>i < ?n. P (gf_peers ?f ! i, gx_slots x ! i))" for P
      using len nth by (metis in_set_conv_nth)
    from this [of "\<lambda>(p, s). counts (gf_max_age ?f) now s \<and> unat (gp_role p) = k"] show ?thesis by (auto simp: backing_def)
  qed
  have "r AND q = q \<longleftrightarrow> (\<forall>k < 8. bit q k \<longrightarrow> bit r k)" for r q :: u8
    by (auto simp: bit_eq_iff bit_and_iff dest: bit_imp_le_length)
  then show "roles AND gf_required_roles ?f = gf_required_roles ?f \<longleftrightarrow>
      (\<forall>k < 8. bit (gf_required_roles ?f) k \<longrightarrow> (\<exists>i \<in> backing x now. unat (gp_role (gf_peers ?f ! i)) = k))"
    using l(2) cover by simp
  show "gx_state y = (if gx_state x \<in> {GC_INSUFFICIENT, GC_CORROBORATED}
      then if count \<ge> gf_threshold ?f \<and> roles AND gf_required_roles ?f = gf_required_roles ?f
        then GC_CORROBORATED else GC_INSUFFICIENT
      else gx_state x)"
    using ev loop by (auto simp: evaluate_def Let_def)
qed

section \<open>Payloads\<close>

text \<open>The observation a peer sends, 52 bytes, and the acknowledgement of one, 60 bytes, both with little-endian
  words.  The two files have the same byte-order helpers; the pointer argument is a buffer and an offset.\<close>

definition put32 :: "u8 list \<Rightarrow> nat \<Rightarrow> u32 \<Rightarrow> u8 list" where
  "put32 output i v = output[i := ucast v, i + 1 := ucast (drop_bit 8 v), i + 2 := ucast (drop_bit 16 v),
     i + 3 := ucast (drop_bit 24 v)]"

definition get32 :: "u8 list \<Rightarrow> nat \<Rightarrow> u32" where
  "get32 input i = ucast (input ! i) OR push_bit 8 (ucast (input ! (i + 1))) OR push_bit 16 (ucast (input ! (i + 2)))
     OR push_bit 24 (ucast (input ! (i + 3)))"

abbreviation (input) GC_WIRE_SIZE :: nat where "GC_WIRE_SIZE \<equiv> 52"
abbreviation (input) GC_WIRE_VERSION :: u8 where "GC_WIRE_VERSION \<equiv> 1"
abbreviation (input) GC_ACK_SIZE :: nat where "GC_ACK_SIZE \<equiv> 60"
abbreviation (input) GC_ACK_VERSION :: u8 where "GC_ACK_VERSION \<equiv> 1"
abbreviation (input) GC_ACK_KIND :: u8 where "GC_ACK_KIND \<equiv> 0xA1"

datatype gc_wire_result = GC_WIRE_OK | GC_WIRE_INVALID | GC_WIRE_CAPACITY
datatype gc_ack_result = GC_ACK_OK | GC_ACK_INVALID | GC_ACK_CAPACITY | GC_ACK_MISMATCH

record gc_wire_observation =
  gw_generation :: u32
  gw_policy :: u32
  gw_profile :: u32
  gw_round :: u32
  gw_claims_actuation :: u8
  gw_commitment :: "u8 list"

record gc_ack =
  gk_generation :: u32
  gk_policy :: u32
  gk_profile :: u32
  gk_round :: u32
  gk_observation_epoch :: u32
  gk_observation_sequence :: u32
  gk_commitment :: "u8 list"

definition wire_valid :: "gc_wire_observation \<Rightarrow> bool" where
  "wire_valid v \<longleftrightarrow> gw_generation v \<noteq> 0 \<and> gw_policy v \<noteq> 0 \<and> gw_profile v \<noteq> 0 \<and> gw_round v \<noteq> 0 \<and> gw_claims_actuation v \<le> 1"

definition gc_wire_encode :: "gc_wire_observation ptr \<Rightarrow> u8 list ptr \<Rightarrow> nat \<Rightarrow> nat ptr \<Rightarrow> gc_wire_result \<times> u8 list ptr \<times> nat ptr" where
  "gc_wire_encode observation output capacity output_length =
     (case output_length of
        None \<Rightarrow> (GC_WIRE_INVALID, output, None)
      | Some _ \<Rightarrow>
          case (observation, output) of
            (Some v, Some out) \<Rightarrow>
              if \<not> wire_valid v then (GC_WIRE_INVALID, output, Some 0)
              else if capacity < GC_WIRE_SIZE then (GC_WIRE_CAPACITY, output, Some 0)
              else
                let w0 = (replicate GC_WIRE_SIZE 0)[0 := GC_WIRE_VERSION, 1 := gw_claims_actuation v];
                    w1 = put32 (put32 (put32 (put32 w0 4 (gw_generation v)) 8 (gw_policy v)) 12 (gw_profile v)) 16 (gw_round v);
                    w2 = buf_write w1 20 (gw_commitment v) in
                (GC_WIRE_OK, Some (buf_write out 0 w2), Some GC_WIRE_SIZE)
          | _ \<Rightarrow> (GC_WIRE_INVALID, output, Some 0))"

definition gc_wire_decode :: "u8 list ptr \<Rightarrow> nat \<Rightarrow> gc_wire_observation ptr \<Rightarrow> gc_wire_result \<times> gc_wire_observation ptr" where
  "gc_wire_decode input n observation =
     (case (input, observation) of
        (Some b, Some _) \<Rightarrow>
          if n \<noteq> GC_WIRE_SIZE then (GC_WIRE_INVALID, observation)
          else if b ! 0 \<noteq> GC_WIRE_VERSION \<or> b ! 1 > 1 \<or> b ! 2 \<noteq> 0 \<or> b ! 3 \<noteq> 0 then (GC_WIRE_INVALID, observation)
          else
            let v = \<lparr>gw_generation = get32 b 4, gw_policy = get32 b 8, gw_profile = get32 b 12, gw_round = get32 b 16,
                  gw_claims_actuation = b ! 1, gw_commitment = buf_read b 20 32\<rparr> in
            if \<not> wire_valid v then (GC_WIRE_INVALID, observation) else (GC_WIRE_OK, Some v)
      | _ \<Rightarrow> (GC_WIRE_INVALID, observation))"

definition ack_valid :: "gc_ack ptr \<Rightarrow> bool" where
  "ack_valid a \<longleftrightarrow> (case a of None \<Rightarrow> False
     | Some v \<Rightarrow> gk_generation v \<noteq> 0 \<and> gk_policy v \<noteq> 0 \<and> gk_profile v \<noteq> 0 \<and> gk_round v \<noteq> 0
         \<and> gk_observation_epoch v \<noteq> 0 \<and> gk_observation_sequence v \<noteq> 0)"

definition gc_ack_encode :: "gc_ack ptr \<Rightarrow> u8 list ptr \<Rightarrow> nat \<Rightarrow> nat ptr \<Rightarrow> gc_ack_result \<times> u8 list ptr \<times> nat ptr" where
  "gc_ack_encode a output capacity len =
     (case len of
        None \<Rightarrow> (GC_ACK_INVALID, output, None)
      | Some _ \<Rightarrow>
          case (a, output) of
            (Some v, Some out) \<Rightarrow>
              if \<not> ack_valid a then (GC_ACK_INVALID, output, Some 0)
              else if capacity < GC_ACK_SIZE then (GC_ACK_CAPACITY, output, Some 0)
              else
                let b0 = (replicate GC_ACK_SIZE 0)[0 := GC_ACK_VERSION, 1 := GC_ACK_KIND];
                    b1 = put32 (put32 b0 4 (gk_generation v)) 8 (gk_policy v);
                    b2 = put32 (put32 b1 12 (gk_profile v)) 16 (gk_round v);
                    b3 = put32 (put32 b2 20 (gk_observation_epoch v)) 24 (gk_observation_sequence v);
                    b4 = buf_write b3 28 (gk_commitment v) in
                (GC_ACK_OK, Some (buf_write out 0 b4), Some GC_ACK_SIZE)
          | _ \<Rightarrow> (GC_ACK_INVALID, output, Some 0))"

definition gc_ack_decode :: "u8 list ptr \<Rightarrow> nat \<Rightarrow> gc_ack ptr \<Rightarrow> gc_ack_result \<times> gc_ack ptr" where
  "gc_ack_decode input n a =
     (case (input, a) of
        (Some b, Some _) \<Rightarrow>
          if n \<noteq> GC_ACK_SIZE then (GC_ACK_INVALID, a)
          else if b ! 0 \<noteq> GC_ACK_VERSION \<or> b ! 1 \<noteq> GC_ACK_KIND \<or> b ! 2 \<noteq> 0 \<or> b ! 3 \<noteq> 0 then (GC_ACK_INVALID, a)
          else
            let v = \<lparr>gk_generation = get32 b 4, gk_policy = get32 b 8, gk_profile = get32 b 12, gk_round = get32 b 16,
                  gk_observation_epoch = get32 b 20, gk_observation_sequence = get32 b 24, gk_commitment = buf_read b 28 32\<rparr> in
            if \<not> ack_valid (Some v) then (GC_ACK_INVALID, a) else (GC_ACK_OK, Some v)
      | _ \<Rightarrow> (GC_ACK_INVALID, a))"

definition gc_ack_match :: "gc_ack ptr \<Rightarrow> gc_ack ptr \<Rightarrow> gc_ack_result" where
  "gc_ack_match a pending =
     (case (a, pending) of
        (Some v, Some p) \<Rightarrow>
          if \<not> ack_valid a \<or> \<not> ack_valid pending then GC_ACK_INVALID
          else if gk_generation v \<noteq> gk_generation p \<or> gk_policy v \<noteq> gk_policy p \<or> gk_profile v \<noteq> gk_profile p
            \<or> gk_round v \<noteq> gk_round p \<or> gk_observation_epoch v \<noteq> gk_observation_epoch p
            \<or> gk_observation_sequence v \<noteq> gk_observation_sequence p
          then GC_ACK_MISMATCH
          else if fold (\<lambda>i diff. diff OR (gk_commitment v ! i XOR gk_commitment p ! i)) [0..<32] 0 = 0 then GC_ACK_OK
          else GC_ACK_MISMATCH
      | _ \<Rightarrow> GC_ACK_INVALID)"

subsection \<open>The payload formats are exact\<close>

definition le32 :: "u32 \<Rightarrow> u8 list" where
  "le32 v = [ucast v, ucast (drop_bit 8 v), ucast (drop_bit 16 v), ucast (drop_bit 24 v)]"

lemma length_le32 [simp]: "length (le32 v) = 4"
  by (simp add: le32_def)

lemma put32_buf_write: "i + 4 \<le> length out \<Longrightarrow> put32 out i v = buf_write out i (le32 v)"
  by (simp add: put32_def le32_def list_update_buf_write buf_write_adjacent)

lemma le32_get32: "le32 (get32 b i) = [b ! i, b ! (i + 1), b ! (i + 2), b ! (i + 3)]"
  unfolding get32_def le32_def
  by (intro arg_cong2 [where f = Cons] refl; rule bit_word_eqI) (auto simp: bit_simps bit_u8_beyond)

lemma le32_inj [simp]: "le32 v = le32 w \<longleftrightarrow> v = w"
proof -
  have "le32 u = rev (be32_bytes u)" for u by (simp add: le32_def be32_bytes_def ucast_and_255)
  then show ?thesis by simp
qed

lemma get32_le32: "get32 (le32 v @ rest) 0 = v"
proof -
  have "le32 (get32 (le32 v @ rest) 0) = le32 v" unfolding le32_get32 by (simp add: le32_def)
  then show ?thesis by simp
qed

lemma get32_skip: "length xs \<le> i \<Longrightarrow> get32 (xs @ ys) i = get32 ys (i - length xs)"
  by (simp add: get32_def nth_append Suc_diff_le)

lemma get32_Cons: "get32 (x # ys) (Suc i) = get32 ys i"
  by (simp add: get32_def numeral_3_eq_3)

definition wire_image :: "gc_wire_observation \<Rightarrow> u8 list" where
  "wire_image v = [1, gw_claims_actuation v, 0, 0] @ le32 (gw_generation v) @ le32 (gw_policy v) @ le32 (gw_profile v)
     @ le32 (gw_round v) @ gw_commitment v"

definition ack_image :: "gc_ack \<Rightarrow> u8 list" where
  "ack_image v = [1, 0xA1, 0, 0] @ le32 (gk_generation v) @ le32 (gk_policy v) @ le32 (gk_profile v) @ le32 (gk_round v)
     @ le32 (gk_observation_epoch v) @ le32 (gk_observation_sequence v) @ gk_commitment v"

lemma start_bytes:
  "2 < n \<Longrightarrow> (replicate n (0 :: u8))[0 := a, Suc 0 := b] = buf_write (replicate n 0) 0 [a, b, 0, 0]" if "4 \<le> n" for n
  using that by (auto intro!: nth_equalityI simp: buf_write_def nth_append nth_list_update nth_Cons' less_Suc_eq_0_disj)

lemma wire_encode_image:
  assumes "wire_valid v" "length (gw_commitment v) = 32" "52 \<le> capacity"
  shows "gc_wire_encode (Some v) (Some out) capacity (Some len) = (GC_WIRE_OK, Some (buf_write out 0 (wire_image v)), Some 52)"
proof -
  have "buf_write (put32 (put32 (put32 (put32 ((replicate 52 0)[0 := 1, 1 := gw_claims_actuation v]) 4 (gw_generation v)) 8 (gw_policy v))
      12 (gw_profile v)) 16 (gw_round v)) 20 (gw_commitment v) = wire_image v"
    using assms(2) by (simp add: start_bytes put32_buf_write buf_write_adjacent wire_image_def) (simp add: buf_write_def)
  then show ?thesis using assms(1,3) by (simp add: gc_wire_encode_def Let_def)
qed

lemma wire_decode_iff:
  assumes "n \<le> length b"
  shows "gc_wire_decode (Some b) n (Some v0) = (GC_WIRE_OK, Some v) \<longleftrightarrow>
    n = 52 \<and> wire_valid v \<and> length (gw_commitment v) = 32 \<and> take 52 b = wire_image v"
proof
  assume d: "gc_wire_decode (Some b) n (Some v0) = (GC_WIRE_OK, Some v)"
  then have n: "n = 52" and h: "b ! 0 = 1" "b ! Suc (Suc 0) = 0" "b ! 3 = 0"
    and v: "wire_valid v" "v = \<lparr>gw_generation = get32 b 4, gw_policy = get32 b 8, gw_profile = get32 b 12, gw_round = get32 b 16,
                  gw_claims_actuation = b ! 1, gw_commitment = buf_read b 20 32\<rparr>"
    by (simp_all add: gc_wire_decode_def Let_def numeral_2_eq_2 split: if_splits)
  have l: "52 \<le> length b" using assms n by simp
  have "take 52 b = buf_read b 0 4 @ buf_read b 4 4 @ buf_read b 8 4 @ buf_read b 12 4 @ buf_read b 16 4 @ buf_read b 20 32"
    unfolding buf_read_0 [symmetric] by (simp add: buf_read_adjacent)
  moreover have q: "buf_read b i 4 = [b ! i, b ! (i + 1), b ! (i + 2), b ! (i + 3)]" if "i + 4 \<le> length b" for i
    using buf_read_be(2) [OF that] be32_bytes_at by simp
  ultimately have "take 52 b = wire_image v"
    using l h by (simp add: wire_image_def v(2) le32_get32)
  then show "n = 52 \<and> wire_valid v \<and> length (gw_commitment v) = 32 \<and> take 52 b = wire_image v"
    using n v l by (simp add: length_buf_read)
next
  assume r: "n = 52 \<and> wire_valid v \<and> length (gw_commitment v) = 32 \<and> take 52 b = wire_image v"
  then have b: "b = wire_image v @ drop 52 b" by (metis append_take_drop_id)
  define h where "h = [1, gw_claims_actuation v, 0, 0]"
  have bh: "b = h @ le32 (gw_generation v) @ le32 (gw_policy v) @ le32 (gw_profile v) @ le32 (gw_round v) @ gw_commitment v @ drop 52 b" using b by (simp add: h_def wire_image_def)
  have "length h = 4" by (simp add: h_def)
  then have "get32 b 4 = gw_generation v" "get32 b 8 = gw_policy v" "get32 b 12 = gw_profile v" "get32 b 16 = gw_round v" "buf_read b 20 32 = gw_commitment v"
    using r by (subst bh; simp add: get32_skip get32_le32 buf_read_append_skip buf_read_def)+
  moreover have "b ! 0 = 1" "b ! 1 = gw_claims_actuation v" "b ! 2 = 0" "b ! 3 = 0" by (subst bh; simp add: h_def)+
  ultimately show "gc_wire_decode (Some b) n (Some v0) = (GC_WIRE_OK, Some v)"
    using r by (simp add: gc_wire_decode_def wire_valid_def not_less)
qed

lemma ack_encode_image:
  assumes "ack_valid (Some v)" "length (gk_commitment v) = 32" "60 \<le> capacity"
  shows "gc_ack_encode (Some v) (Some out) capacity (Some len) = (GC_ACK_OK, Some (buf_write out 0 (ack_image v)), Some 60)"
proof -
  have "buf_write (put32 (put32 (put32 (put32 (put32 (put32 ((replicate 60 0)[0 := 1, 1 := 0xA1]) 4 (gk_generation v)) 8 (gk_policy v))
      12 (gk_profile v)) 16 (gk_round v)) 20 (gk_observation_epoch v)) 24 (gk_observation_sequence v)) 28 (gk_commitment v) = ack_image v"
    using assms(2) by (simp add: start_bytes put32_buf_write buf_write_adjacent ack_image_def) (simp add: buf_write_def)
  then show ?thesis using assms(1,3) by (simp add: gc_ack_encode_def Let_def)
qed

lemma ack_decode_iff:
  assumes "n \<le> length b"
  shows "gc_ack_decode (Some b) n (Some v0) = (GC_ACK_OK, Some v) \<longleftrightarrow>
    n = 60 \<and> ack_valid (Some v) \<and> length (gk_commitment v) = 32 \<and> take 60 b = ack_image v"
proof
  assume d: "gc_ack_decode (Some b) n (Some v0) = (GC_ACK_OK, Some v)"
  then have n: "n = 60" and h: "b ! 0 = 1" "b ! Suc 0 = 0xA1" "b ! Suc (Suc 0) = 0" "b ! 3 = 0"
    and v: "ack_valid (Some v)" "v = \<lparr>gk_generation = get32 b 4, gk_policy = get32 b 8, gk_profile = get32 b 12, gk_round = get32 b 16,
                  gk_observation_epoch = get32 b 20, gk_observation_sequence = get32 b 24, gk_commitment = buf_read b 28 32\<rparr>"
    by (simp_all add: gc_ack_decode_def Let_def numeral_2_eq_2 split: if_splits)
  have l: "60 \<le> length b" using assms n by simp
  have "take 60 b = buf_read b 0 4 @ buf_read b 4 4 @ buf_read b 8 4 @ buf_read b 12 4 @ buf_read b 16 4 @ buf_read b 20 4
      @ buf_read b 24 4 @ buf_read b 28 32"
    unfolding buf_read_0 [symmetric] by (simp add: buf_read_adjacent)
  moreover have q: "buf_read b i 4 = [b ! i, b ! (i + 1), b ! (i + 2), b ! (i + 3)]" if "i + 4 \<le> length b" for i
    using buf_read_be(2) [OF that] be32_bytes_at by simp
  ultimately have "take 60 b = ack_image v"
    using l h by (simp add: ack_image_def v(2) le32_get32)
  then show "n = 60 \<and> ack_valid (Some v) \<and> length (gk_commitment v) = 32 \<and> take 60 b = ack_image v"
    using n v l by (simp add: length_buf_read)
next
  assume r: "n = 60 \<and> ack_valid (Some v) \<and> length (gk_commitment v) = 32 \<and> take 60 b = ack_image v"
  then have b: "b = ack_image v @ drop 60 b" by (metis append_take_drop_id)
  define h :: "u8 list" where "h = [1, 0xA1, 0, 0]"
  have bh: "b = h @ le32 (gk_generation v) @ le32 (gk_policy v) @ le32 (gk_profile v) @ le32 (gk_round v) @ le32 (gk_observation_epoch v) @ le32 (gk_observation_sequence v) @ gk_commitment v @ drop 60 b" using b by (simp add: h_def ack_image_def)
  have "length h = 4" by (simp add: h_def)
  then have "get32 b 4 = gk_generation v" "get32 b 8 = gk_policy v" "get32 b 12 = gk_profile v" "get32 b 16 = gk_round v" "get32 b 20 = gk_observation_epoch v" "get32 b 24 = gk_observation_sequence v" "buf_read b 28 32 = gk_commitment v"
    using r by (subst bh; simp add: get32_skip get32_le32 buf_read_append_skip buf_read_def)+
  moreover have "b ! 0 = 1" "b ! 1 = 0xA1" "b ! 2 = 0" "b ! 3 = 0" by (subst bh; simp add: h_def)+
  ultimately show "gc_ack_decode (Some b) n (Some v0) = (GC_ACK_OK, Some v)"
    using r by (cases v) (simp add: gc_ack_decode_def)
qed

lemma ack_match_iff:
  assumes "length (gk_commitment v) = 32" "length (gk_commitment p) = 32" "ack_valid (Some v)" "ack_valid (Some p)"
  shows "gc_ack_match (Some v) (Some p) = GC_ACK_OK \<longleftrightarrow> v = p"
proof -
  have "fold (\<lambda>i diff. diff OR (gk_commitment v ! i XOR gk_commitment p ! i)) [0..<32] 0 = 0 \<longleftrightarrow> gk_commitment v = gk_commitment p"
    using constant_time_equal_full [of "gk_commitment v" 32 "gk_commitment p"] assms(1,2) by (simp add: guardian_crypto_constant_time_equal_def)
  then show ?thesis using assms(3,4) by (cases v; cases p) (auto simp: gc_ack_match_def)
qed

lemma eligible_iff:
  assumes "gc_inv x" "gx_state x \<noteq> GC_UNCONFIGURED" and "gc_query (Some x) now valid (Some a0) = (r, Some x', Some a)"
  shows "ga_eligible_for_local_review a = 1 \<longleftrightarrow>
      valid = 1 \<and> (gx_clock_seen x \<noteq> 0 \<longrightarrow> gx_last_clock x \<le> now) \<and> gx_state x \<in> {GC_INSUFFICIENT, GC_CORROBORATED}
      \<and> unat (gf_threshold (gx_config x)) \<le> card (backing x now)
      \<and> (\<forall>k < 8. bit (gf_required_roles (gx_config x)) k \<longrightarrow>
          (\<exists>i \<in> backing x now. unat (gp_role (gf_peers (gx_config x) ! i)) = k))"
    and "ga_eligible_for_local_review a \<in> {0, 1}"
proof -
  have ok: "config_ok (gx_config x)" "slots_ok (gx_config x) (gx_slots x)" using assms(1,2) by (simp_all add: gc_inv_def)
  obtain res x1 where ck: "clock_check x now valid = (res, x1)" by fastforce
  obtain x2 count roles where ev: "evaluate x1 now = (x2, count, roles)" by (metis prod_cases3)
  have el: "ga_eligible_for_local_review a = (if res = GC_OK \<and> gx_state x2 = GC_CORROBORATED then 1 else 0)"
    using assms(2,3) ck ev by (auto simp: gc_query_def)
  then show "ga_eligible_for_local_review a \<in> {0, 1}" by simp
  note c = clock_check_fields [OF ck]
  have b: "backing x1 now = backing x now" using c(1,2) by (simp add: backing_def)
  have "length (gx_slots x1) = 5" using ok(2) c(2) by (simp add: slots_ok_def)
  note e = evaluate_spec [OF ok(1) [folded c(1)] this ev, unfolded b c(1)]
  show "ga_eligible_for_local_review a = 1 \<longleftrightarrow>
      valid = 1 \<and> (gx_clock_seen x \<noteq> 0 \<longrightarrow> gx_last_clock x \<le> now) \<and> gx_state x \<in> {GC_INSUFFICIENT, GC_CORROBORATED}
      \<and> unat (gf_threshold (gx_config x)) \<le> card (backing x now)
      \<and> (\<forall>k < 8. bit (gf_required_roles (gx_config x)) k \<longrightarrow>
          (\<exists>i \<in> backing x now. unat (gp_role (gf_peers (gx_config x) ! i)) = k))"
  proof (cases "res = GC_OK")
    case True
    then have "gx_state x2 = GC_CORROBORATED \<longleftrightarrow> gx_state x \<in> {GC_INSUFFICIENT, GC_CORROBORATED}
        \<and> gf_threshold (gx_config x) \<le> count \<and> roles AND gf_required_roles (gx_config x) = gf_required_roles (gx_config x)"
      using e(3) c(5) by auto
    then show ?thesis using el True c(4) e(1,2) by (simp add: word_le_nat_alt)
  next
    case False
    then show ?thesis using el c(4) by auto
  qed
qed

section \<open>Properties\<close>

text \<open>C26: Review needs real corroboration. A query of a reachable, configured context says that an observation is
  eligible for local review exactly if the clock is valid and has not gone back, the context is not latched,
  and the peers whose available, acknowledged report is at most \<open>max_age\<close> old reach the threshold and cover
  the required roles. Those reports come from distinct configured peers, each authenticated and fresh for the
  configured generation, policy, profile and round, all with the same commitment, and none of a peer other
  than the controller claims actuation. A context that was once latched is never eligible again before it is
  initialised anew.\<close>

theorem review_needs_corroboration:
  assumes "reachable gc_initial gc_step x" "gx_state x \<noteq> GC_UNCONFIGURED"
    and "gc_query (Some x) now valid (Some a0) = (r, Some x', Some a)"
  shows "(ga_eligible_for_local_review a = 1 \<longleftrightarrow>
      valid = 1 \<and> (gx_clock_seen x \<noteq> 0 \<longrightarrow> gx_last_clock x \<le> now) \<and> gx_state x \<in> {GC_INSUFFICIENT, GC_CORROBORATED}
      \<and> unat (gf_threshold (gx_config x)) \<le> card (backing x now)
      \<and> (\<forall>k < 8. bit (gf_required_roles (gx_config x)) k \<longrightarrow>
          (\<exists>i \<in> backing x now. unat (gp_role (gf_peers (gx_config x) ! i)) = k)))
    \<and> (\<forall>i \<in> backing x now. report_ok (gx_config x) (gf_peers (gx_config x) ! i) (gl_report (gx_slots x ! i)))
    \<and> (\<forall>i \<in> backing x now. \<forall>j \<in> backing x now.
        gr_commitment (gl_report (gx_slots x ! i)) = gr_commitment (gl_report (gx_slots x ! j))
        \<and> (i \<noteq> j \<longrightarrow> gr_id (gl_report (gx_slots x ! i)) \<noteq> gr_id (gl_report (gx_slots x ! j))))
    \<and> (\<forall>y. reachable gc_initial gc_step y \<and> gc_operation\<^sup>*\<^sup>* y x \<and> gx_state y \<in> {GC_CONFLICT_LATCHED, GC_REJOIN_REQUIRED}
        \<longrightarrow> ga_eligible_for_local_review a = 0)"
proof -
  have inv: "gc_inv x" using assms(1) by (rule corroboration.reachable_inv)
  then have ok: "config_ok (gx_config x)" "slots_ok (gx_config x) (gx_slots x)" using assms(2) by (simp_all add: gc_inv_def)
  note iff = eligible_iff [OF inv assms(2,3)]
  have mem: "i < unat (gf_count (gx_config x))" "gl_seen (gx_slots x ! i) \<noteq> 0" if "i \<in> backing x now" for i
    using that by (simp_all add: backing_def counts_def)
  have rep: "report_ok (gx_config x) (gf_peers (gx_config x) ! i) (gl_report (gx_slots x ! i))" if "i \<in> backing x now" for i
    using ok(2) mem [OF that] by (simp add: slots_ok_def)
  have n5: "unat (gf_count (gx_config x)) \<le> 5" using ok(1) by (simp add: config_ok_def word_le_nat_alt)
  have ids: "gp_id (gf_peers (gx_config x) ! i) \<noteq> gp_id (gf_peers (gx_config x) ! j)"
    if "i \<in> backing x now" "j \<in> backing x now" "i \<noteq> j" for i j
    using ok(1) mem [OF that(1)] mem [OF that(2)] that(3) n5 by (simp add: config_ok_def distinct_conv_nth)
  have agree: "gr_commitment (gl_report (gx_slots x ! i)) = gr_commitment (gl_report (gx_slots x ! j))"
    if "i \<in> backing x now" "j \<in> backing x now" for i j
    using ok(2) mem [OF that(1)] mem [OF that(2)] unfolding slots_ok_def by blast
  have latch: "ga_eligible_for_local_review a = 0"
    if "reachable gc_initial gc_step y" "gc_operation\<^sup>*\<^sup>* y x" "gx_state y \<in> {GC_CONFLICT_LATCHED, GC_REJOIN_REQUIRED}" for y
  proof -
    have "latched x" using latched_stays [OF that(2) corroboration.reachable_inv [OF that(1)] that(3)] by blast
    then have "ga_eligible_for_local_review a \<noteq> 1" using iff(1) by auto
    then show ?thesis using iff(2) by auto
  qed
  have "gr_id (gl_report (gx_slots x ! i)) = gp_id (gf_peers (gx_config x) ! i)" if "i \<in> backing x now" for i
    using rep [OF that] by (simp add: report_ok_def)
  with ids agree have "\<forall>i \<in> backing x now. \<forall>j \<in> backing x now.
        gr_commitment (gl_report (gx_slots x ! i)) = gr_commitment (gl_report (gx_slots x ! j))
        \<and> (i \<noteq> j \<longrightarrow> gr_id (gl_report (gx_slots x ! i)) \<noteq> gr_id (gl_report (gx_slots x ! j)))"
    by metis
  then show ?thesis using iff(1) rep latch by blast
qed

text \<open>Two peers, the controller and a measurement node, whose reports agree.\<close>

definition sample_gc_config :: gc_config where
  "sample_gc_config = \<lparr>gf_generation = 1, gf_policy = 2, gf_profile = 3, gf_round = 4, gf_max_age = 100, gf_count = 2,
     gf_threshold = 2, gf_required_roles = 0x05, gf_peers = [\<lparr>gp_id = 11, gp_role = 0\<rparr>, \<lparr>gp_id = 12, gp_role = 2\<rparr>]
       @ replicate 3 \<lparr>gp_id = 0, gp_role = 0\<rparr>\<rparr>"

definition gc_report_from :: "u32 \<Rightarrow> gc_report" where
  "gc_report_from k = zero_gc_report\<lparr>gr_id := k, gr_generation := 1, gr_policy := 2, gr_profile := 3, gr_round := 4, gr_epoch := 1,
     gr_sequence := 7, gr_authenticated := 1, gr_persistent_freshness := 1, gr_same_round_ack := 1\<rparr>"

definition gc_after_configure :: gc_context where
  "gc_after_configure = the (snd (gc_configure (Some zero_gc_context) (Some sample_gc_config)))"

definition gc_after_first :: gc_context where
  "gc_after_first = the (snd (gc_submit (Some gc_after_configure) (Some (gc_report_from 11)) 10 1))"

definition gc_after_second :: gc_context where
  "gc_after_second = the (snd (gc_submit (Some gc_after_first) (Some (gc_report_from 12)) 20 1))"

lemma gc_after_second_reachable: "reachable gc_initial gc_step gc_after_second"
proof -
  have sub: "\<exists>r y. gc_submit (Some x) (Some m) now valid = (r, Some y)" for x m now valid
    by (simp add: gc_submit_def gc_require_rejoin_def Let_def split: option.splits prod.splits)
  have "reachable gc_initial gc_step zero_gc_context" by (rule reachable_init) (simp add: gc_initial_def gc_init_def)
  moreover have "gc_step zero_gc_context gc_after_configure"
  proof (rule gc_step_operation, rule op_configure)
    show "length (gf_peers sample_gc_config) = 5" by (simp add: sample_gc_config_def)
    show "gc_configure (Some zero_gc_context) (Some sample_gc_config) = (GC_OK, Some gc_after_configure)" by code_simp
  qed
  moreover have "gc_step gc_after_configure gc_after_first"
    using sub [of gc_after_configure "gc_report_from 11" 10 1] unfolding gc_after_first_def by (metis gc_step_operation op_submit option.sel snd_conv)
  moreover have "gc_step gc_after_first gc_after_second"
    using sub [of gc_after_first "gc_report_from 12" 20 1] unfolding gc_after_second_def by (metis gc_step_operation op_submit option.sel snd_conv)
  ultimately show ?thesis by (meson reachable_step)
qed

theorem review_needs_corroboration_witness:
  "ga_eligible_for_local_review (the (snd (snd (gc_query (Some gc_after_second) 50 1 (Some zero_gc_assessment))))) = 1
   \<and> 2 \<le> card (backing gc_after_second 50)"
proof -
  have st: "gx_state gc_after_second \<noteq> GC_UNCONFIGURED" "unat (gf_threshold (gx_config gc_after_second)) = 2"
      "ga_eligible_for_local_review (the (snd (snd (gc_query (Some gc_after_second) 50 1 (Some zero_gc_assessment))))) = 1"
    by code_simp+
  have "\<exists>x a. snd (gc_query (Some gc_after_second) 50 1 (Some zero_gc_assessment)) = (Some x, Some a)"
    using st(1) by (simp add: gc_query_def split: prod.splits)
  then obtain r x a where q: "gc_query (Some gc_after_second) 50 1 (Some zero_gc_assessment) = (r, Some x, Some a)"
    by (metis prod.collapse)
  have "ga_eligible_for_local_review a = 1" using st(3) q by simp
  with review_needs_corroboration [OF gc_after_second_reachable st(1) q] st(2)
  have "2 \<le> card (backing gc_after_second 50)" by simp
  then show ?thesis using st(3) by simp
qed

end
