(* ===== verification/Guardian_Evidence.thy ===== *)
theory Guardian_Evidence
  imports Guardian_Multinode Guardian_Crypto "HOL-Library.Multiset"
begin

text \<open>
  Signed evidence.  The security witness signs records about the evidence of other nodes and checks them
  (\<open>src/firmware/MultiNode/Src/guardian_security_witness.c\<close>); the evidence chain binds such records to their
  producer, decides whether the producer may make that kind of claim, and links each item to the one before
  (\<open>guardian_signed_evidence.c\<close>).  The signature provider and the lookup of trusted producers are callbacks,
  parameters of the model.
\<close>

unbundle bit_operations_syntax

section \<open>The security witness: types\<close>

abbreviation (input) GUARDIAN_SECURITY_WITNESS_SCHEMA_VERSION :: u8 where "GUARDIAN_SECURITY_WITNESS_SCHEMA_VERSION \<equiv> 1"
abbreviation (input) GUARDIAN_SECURITY_WITNESS_SIGNATURE_ED25519 :: u8 where "GUARDIAN_SECURITY_WITNESS_SIGNATURE_ED25519 \<equiv> 1"
abbreviation (input) GUARDIAN_SECURITY_WITNESS_SIGNATURE_SIZE :: nat where "GUARDIAN_SECURITY_WITNESS_SIGNATURE_SIZE \<equiv> 64"
abbreviation (input) GUARDIAN_SECURITY_WITNESS_MAX_PAYLOAD :: nat where "GUARDIAN_SECURITY_WITNESS_MAX_PAYLOAD \<equiv> 256"
abbreviation (input) GUARDIAN_SECURITY_WITNESS_MAX_SUBJECTS :: nat where "GUARDIAN_SECURITY_WITNESS_MAX_SUBJECTS \<equiv> 5"
abbreviation (input) GUARDIAN_SECURITY_WITNESS_TRANSCRIPT_MAX_SIZE :: nat where "GUARDIAN_SECURITY_WITNESS_TRANSCRIPT_MAX_SIZE \<equiv> 128"
abbreviation (input) GUARDIAN_SECURITY_WITNESS_AUTHORITY_NONE :: u8 where "GUARDIAN_SECURITY_WITNESS_AUTHORITY_NONE \<equiv> 0"

abbreviation (input) GUARDIAN_SECURITY_WITNESS_EVIDENCE_INVALID :: c_enum where "GUARDIAN_SECURITY_WITNESS_EVIDENCE_INVALID \<equiv> 0"
abbreviation (input) GUARDIAN_SECURITY_WITNESS_EVIDENCE_OBSERVATION :: c_enum where "GUARDIAN_SECURITY_WITNESS_EVIDENCE_OBSERVATION \<equiv> 1"
abbreviation (input) GUARDIAN_SECURITY_WITNESS_EVIDENCE_SUPERVISION :: c_enum where "GUARDIAN_SECURITY_WITNESS_EVIDENCE_SUPERVISION \<equiv> 2"
abbreviation (input) GUARDIAN_SECURITY_WITNESS_EVIDENCE_RECOVERY_REQUEST :: c_enum where "GUARDIAN_SECURITY_WITNESS_EVIDENCE_RECOVERY_REQUEST \<equiv> 4"
abbreviation (input) GUARDIAN_SECURITY_WITNESS_EVIDENCE_EXECUTION_RESULT :: c_enum where "GUARDIAN_SECURITY_WITNESS_EVIDENCE_EXECUTION_RESULT \<equiv> 6"

abbreviation (input) GUARDIAN_SECURITY_WITNESS_PROVIDER_OK :: c_enum where "GUARDIAN_SECURITY_WITNESS_PROVIDER_OK \<equiv> 0"
abbreviation (input) GUARDIAN_SECURITY_WITNESS_PROVIDER_SIGNATURE_INVALID :: c_enum where "GUARDIAN_SECURITY_WITNESS_PROVIDER_SIGNATURE_INVALID \<equiv> 1"
abbreviation (input) GUARDIAN_SECURITY_WITNESS_PROVIDER_KEY_UNKNOWN :: c_enum where "GUARDIAN_SECURITY_WITNESS_PROVIDER_KEY_UNKNOWN \<equiv> 2"
abbreviation (input) GUARDIAN_SECURITY_WITNESS_PROVIDER_KEY_REVOKED :: c_enum where "GUARDIAN_SECURITY_WITNESS_PROVIDER_KEY_REVOKED \<equiv> 3"
abbreviation (input) GUARDIAN_SECURITY_WITNESS_PROVIDER_UNAVAILABLE :: c_enum where "GUARDIAN_SECURITY_WITNESS_PROVIDER_UNAVAILABLE \<equiv> 4"

datatype guardian_security_witness_result =
    GUARDIAN_SECURITY_WITNESS_OK | GUARDIAN_SECURITY_WITNESS_ERROR_NULL_ARGUMENT | GUARDIAN_SECURITY_WITNESS_ERROR_INVALID_NODE
  | GUARDIAN_SECURITY_WITNESS_ERROR_INVALID_CONFIG | GUARDIAN_SECURITY_WITNESS_ERROR_INVALID_EVIDENCE
  | GUARDIAN_SECURITY_WITNESS_ERROR_TRANSCRIPT | GUARDIAN_SECURITY_WITNESS_ERROR_REPLAY_OR_REGRESSION
  | GUARDIAN_SECURITY_WITNESS_ERROR_SUBJECT_TABLE_FULL | GUARDIAN_SECURITY_WITNESS_ERROR_SIGNATURE_INVALID
  | GUARDIAN_SECURITY_WITNESS_ERROR_KEY_UNKNOWN | GUARDIAN_SECURITY_WITNESS_ERROR_KEY_REVOKED
  | GUARDIAN_SECURITY_WITNESS_ERROR_PROVIDER_UNAVAILABLE | GUARDIAN_SECURITY_WITNESS_ERROR_PROVIDER_FAILURE
  | GUARDIAN_SECURITY_WITNESS_ERROR_ACTUATION_PROHIBITED

text \<open>Signing takes the context, the algorithm, the key, the message and the signature buffer, and gives the
  result with the buffer it leaves; verification takes the signature in its place.\<close>

record 'p guardian_security_witness_provider =
  wp_context :: "'p ptr"
  wp_sign :: "('p ptr \<Rightarrow> u8 \<Rightarrow> u32 \<Rightarrow> u8 list \<Rightarrow> u8 list \<Rightarrow> c_enum \<times> u8 list) option"
  wp_verify :: "('p ptr \<Rightarrow> u8 \<Rightarrow> u32 \<Rightarrow> u8 list \<Rightarrow> u8 list \<Rightarrow> c_enum) option"
  wp_signature_algorithm :: u8

record guardian_security_witness_input =
  wi_subject_node_id :: u32
  wi_subject_producer_id :: u32
  wi_subject_key_id :: u32
  wi_epoch :: u32
  wi_sequence :: u32
  wi_evidence_type :: c_enum
  wi_payload :: "u8 list ptr"
  wi_payload_length :: nat

record guardian_security_witness_record =
  wr_schema_version :: u8
  wr_evidence_type :: c_enum
  wr_signature_algorithm :: u8
  wr_authority_flags :: u8
  wr_witness_node_id :: u32
  wr_witness_producer_id :: u32
  wr_witness_key_id :: u32
  wr_subject_node_id :: u32
  wr_subject_producer_id :: u32
  wr_subject_key_id :: u32
  wr_epoch :: u32
  wr_sequence :: u32
  wr_payload_length :: u32
  wr_payload_digest :: "u8 list"
  wr_signature :: "u8 list"

record guardian_security_witness_subject_state =
  ws_subject_node_id :: u32
  ws_subject_producer_id :: u32
  ws_subject_key_id :: u32
  ws_accepted_epoch :: u32
  ws_accepted_sequence :: u32
  ws_active :: u8

record 'p guardian_security_witness_node =
  wn_self :: guardian_multinode_node
  wn_provider :: "'p guardian_security_witness_provider"
  wn_subjects :: "guardian_security_witness_subject_state list"
  wn_subject_count :: nat
  wn_initialized :: u8

definition zero_witness_record :: guardian_security_witness_record where
  "zero_witness_record = \<lparr>wr_schema_version = 0, wr_evidence_type = 0, wr_signature_algorithm = 0, wr_authority_flags = 0,
     wr_witness_node_id = 0, wr_witness_producer_id = 0, wr_witness_key_id = 0, wr_subject_node_id = 0, wr_subject_producer_id = 0,
     wr_subject_key_id = 0, wr_epoch = 0, wr_sequence = 0, wr_payload_length = 0,
     wr_payload_digest = replicate GUARDIAN_SHA256_SIZE 0, wr_signature = replicate GUARDIAN_SECURITY_WITNESS_SIGNATURE_SIZE 0\<rparr>"

definition zero_subject_state :: guardian_security_witness_subject_state where
  "zero_subject_state = \<lparr>ws_subject_node_id = 0, ws_subject_producer_id = 0, ws_subject_key_id = 0, ws_accepted_epoch = 0,
     ws_accepted_sequence = 0, ws_active = 0\<rparr>"

definition zero_witness_node :: "'p guardian_security_witness_node" where
  "zero_witness_node = \<lparr>wn_self = zero_multinode_node,
     wn_provider = \<lparr>wp_context = None, wp_sign = None, wp_verify = None, wp_signature_algorithm = 0\<rparr>,
     wn_subjects = replicate GUARDIAN_SECURITY_WITNESS_MAX_SUBJECTS zero_subject_state, wn_subject_count = 0, wn_initialized = 0\<rparr>"

section \<open>The security witness: operations\<close>

definition guardian_security_witness_domain :: "u8 list" where
  "guardian_security_witness_domain = map of_char ''GUARDIAN-F401:M17:EVIDENCE-WITNESS:V1''"

definition guardian_security_witness_evidence_type_valid :: "c_enum \<Rightarrow> bool" where
  "guardian_security_witness_evidence_type_valid type \<longleftrightarrow>
     type > GUARDIAN_SECURITY_WITNESS_EVIDENCE_INVALID \<and> type \<le> GUARDIAN_SECURITY_WITNESS_EVIDENCE_EXECUTION_RESULT"

definition guardian_security_witness_put_u32_be :: "u8 list \<Rightarrow> nat \<Rightarrow> u32 \<Rightarrow> u8 list" where
  "guardian_security_witness_put_u32_be output i v =
     output[i := ucast (drop_bit 24 v AND 0xFF), i + 1 := ucast (drop_bit 16 v AND 0xFF),
       i + 2 := ucast (drop_bit 8 v AND 0xFF), i + 3 := ucast (v AND 0xFF)]"

definition guardian_security_witness_map_provider :: "c_enum \<Rightarrow> guardian_security_witness_result" where
  "guardian_security_witness_map_provider result =
     (if result = GUARDIAN_SECURITY_WITNESS_PROVIDER_OK then GUARDIAN_SECURITY_WITNESS_OK
      else if result = GUARDIAN_SECURITY_WITNESS_PROVIDER_SIGNATURE_INVALID then GUARDIAN_SECURITY_WITNESS_ERROR_SIGNATURE_INVALID
      else if result = GUARDIAN_SECURITY_WITNESS_PROVIDER_KEY_UNKNOWN then GUARDIAN_SECURITY_WITNESS_ERROR_KEY_UNKNOWN
      else if result = GUARDIAN_SECURITY_WITNESS_PROVIDER_KEY_REVOKED then GUARDIAN_SECURITY_WITNESS_ERROR_KEY_REVOKED
      else if result = GUARDIAN_SECURITY_WITNESS_PROVIDER_UNAVAILABLE then GUARDIAN_SECURITY_WITNESS_ERROR_PROVIDER_UNAVAILABLE
      else GUARDIAN_SECURITY_WITNESS_ERROR_PROVIDER_FAILURE)"

definition guardian_security_witness_record_structurally_valid :: "guardian_security_witness_record \<Rightarrow> bool" where
  "guardian_security_witness_record_structurally_valid r \<longleftrightarrow>
     wr_schema_version r = GUARDIAN_SECURITY_WITNESS_SCHEMA_VERSION
     \<and> guardian_security_witness_evidence_type_valid (wr_evidence_type r)
     \<and> wr_signature_algorithm r = GUARDIAN_SECURITY_WITNESS_SIGNATURE_ED25519
     \<and> wr_authority_flags r = GUARDIAN_SECURITY_WITNESS_AUTHORITY_NONE
     \<and> wr_witness_node_id r \<noteq> 0 \<and> wr_witness_producer_id r \<noteq> 0 \<and> wr_witness_key_id r \<noteq> 0
     \<and> wr_subject_node_id r \<noteq> 0 \<and> wr_subject_producer_id r \<noteq> 0 \<and> wr_subject_key_id r \<noteq> 0
     \<and> wr_epoch r \<noteq> 0 \<and> wr_sequence r \<noteq> 0
     \<and> wr_payload_length r \<noteq> 0 \<and> wr_payload_length r \<le> of_nat GUARDIAN_SECURITY_WITNESS_MAX_PAYLOAD"

definition guardian_security_witness_subject_equal ::
  "guardian_security_witness_subject_state \<Rightarrow> guardian_security_witness_input \<Rightarrow> bool" where
  "guardian_security_witness_subject_equal s i \<longleftrightarrow> ws_active s = 1 \<and> ws_subject_node_id s = wi_subject_node_id i
     \<and> ws_subject_producer_id s = wi_subject_producer_id i \<and> ws_subject_key_id s = wi_subject_key_id i"

definition guardian_security_witness_init :: "'p guardian_security_witness_node ptr \<Rightarrow> 'p guardian_security_witness_node ptr" where
  "guardian_security_witness_init node = map_option (\<lambda>_. zero_witness_node) node"

definition guardian_security_witness_configure ::
  "'p guardian_security_witness_node ptr \<Rightarrow> guardian_multinode_node ptr \<Rightarrow> 'p guardian_security_witness_provider ptr
     \<Rightarrow> guardian_security_witness_result \<times> 'p guardian_security_witness_node ptr" where
  "guardian_security_witness_configure node self provider =
     (case (node, self, provider) of
        (Some w, Some n, Some p) \<Rightarrow>
          if guardian_multinode_validate_node (Some n) \<noteq> GUARDIAN_MULTINODE_OK
            \<or> mn_role n \<noteq> GUARDIAN_NODE_ROLE_SECURITY_WITNESS \<or> mn_authority_class n \<noteq> GUARDIAN_AUTHORITY_CLASS_WITNESS
            \<or> mn_capabilities n AND GUARDIAN_CAP_EVIDENCE_WITNESS = 0
            \<or> mn_capabilities n AND GUARDIAN_CAP_SIGNATURE_VERIFY = 0
            \<or> mn_capabilities n AND GUARDIAN_CAP_ACTUATION_GATE \<noteq> 0
          then (GUARDIAN_SECURITY_WITNESS_ERROR_INVALID_NODE, Some w)
          else if wp_sign p = None \<or> wp_verify p = None
            \<or> wp_signature_algorithm p \<noteq> GUARDIAN_SECURITY_WITNESS_SIGNATURE_ED25519
          then (GUARDIAN_SECURITY_WITNESS_ERROR_INVALID_CONFIG, Some w)
          else (GUARDIAN_SECURITY_WITNESS_OK, Some (the (guardian_security_witness_init (Some w))
            \<lparr>wn_self := n, wn_provider := p, wn_initialized := 1\<rparr>))
      | _ \<Rightarrow> (GUARDIAN_SECURITY_WITNESS_ERROR_NULL_ARGUMENT, node))"

text \<open>The stores of the transcript, after the buffer is cleared, with the final offset.\<close>

definition witness_transcript_store :: "guardian_security_witness_record \<Rightarrow> u8 list \<Rightarrow> u8 list \<times> nat" where
  "witness_transcript_store r out =
     (let d = length guardian_security_witness_domain;
          o1 = buf_write out 0 guardian_security_witness_domain;
          o2 = o1[d := wr_schema_version r, d + 1 := ucast (wr_evidence_type r), d + 2 := wr_signature_algorithm r,
            d + 3 := wr_authority_flags r];
          o3 = guardian_security_witness_put_u32_be o2 (d + 4) (wr_witness_node_id r);
          o4 = guardian_security_witness_put_u32_be o3 (d + 8) (wr_witness_producer_id r);
          o5 = guardian_security_witness_put_u32_be o4 (d + 12) (wr_witness_key_id r);
          o6 = guardian_security_witness_put_u32_be o5 (d + 16) (wr_subject_node_id r);
          o7 = guardian_security_witness_put_u32_be o6 (d + 20) (wr_subject_producer_id r);
          o8 = guardian_security_witness_put_u32_be o7 (d + 24) (wr_subject_key_id r);
          o9 = guardian_security_witness_put_u32_be o8 (d + 28) (wr_epoch r);
          o10 = guardian_security_witness_put_u32_be o9 (d + 32) (wr_sequence r);
          o11 = guardian_security_witness_put_u32_be o10 (d + 36) (wr_payload_length r);
          o12 = buf_write o11 (d + 40) (wr_payload_digest r) in
      (o12, d + 40 + GUARDIAN_SHA256_SIZE))"

definition guardian_security_witness_build_transcript ::
  "guardian_security_witness_record ptr \<Rightarrow> u8 list ptr \<Rightarrow> nat \<Rightarrow> nat ptr
     \<Rightarrow> guardian_security_witness_result \<times> u8 list ptr \<times> nat ptr" where
  "guardian_security_witness_build_transcript record0 output output_capacity output_length =
     (let len0 = map_option (\<lambda>_. 0) output_length in
      case (record0, output, len0) of
        (Some r, Some out, Some _) \<Rightarrow>
          if \<not> guardian_security_witness_record_structurally_valid r
          then (GUARDIAN_SECURITY_WITNESS_ERROR_INVALID_EVIDENCE, output, len0)
          else if output_capacity < GUARDIAN_SECURITY_WITNESS_TRANSCRIPT_MAX_SIZE
          then (GUARDIAN_SECURITY_WITNESS_ERROR_TRANSCRIPT, output, len0)
          else
            let cleared = buf_write out 0 (replicate output_capacity 0) in
            case witness_transcript_store r cleared of
              (stored, offset) \<Rightarrow>
                if offset > GUARDIAN_SECURITY_WITNESS_TRANSCRIPT_MAX_SIZE
                then (GUARDIAN_SECURITY_WITNESS_ERROR_TRANSCRIPT, Some (buf_write stored 0 (replicate output_capacity 0)), len0)
                else (GUARDIAN_SECURITY_WITNESS_OK, Some stored, Some offset)
      | _ \<Rightarrow> (GUARDIAN_SECURITY_WITNESS_ERROR_NULL_ARGUMENT, output, len0))"

text \<open>The search of \<open>guardian_security_witness_create\<close>: the slot of the subject, or the first inactive one.\<close>

fun subject_search ::
  "guardian_security_witness_input \<Rightarrow> nat \<Rightarrow> nat option \<Rightarrow> guardian_security_witness_subject_state list \<Rightarrow> nat option \<times> nat option" where
  "subject_search input i free [] = (None, free)"
| "subject_search input i free (s # ss) =
     (if guardian_security_witness_subject_equal s input then (Some i, free)
      else subject_search input (i + 1) (if free = None \<and> ws_active s = 0 then Some i else free) ss)"

definition guardian_security_witness_create ::
  "'p guardian_security_witness_node ptr \<Rightarrow> guardian_security_witness_input ptr \<Rightarrow> guardian_security_witness_record ptr
     \<Rightarrow> guardian_security_witness_result \<times> 'p guardian_security_witness_node ptr \<times> guardian_security_witness_record ptr" where
  "guardian_security_witness_create node input record0 =
     (case (node, input, record0) of
        (Some w, Some i, Some _) \<Rightarrow>
          let r0 = Some zero_witness_record in
          if wn_initialized w \<noteq> 1 then (GUARDIAN_SECURITY_WITNESS_ERROR_INVALID_CONFIG, node, r0)
          else if wi_subject_node_id i = 0 \<or> wi_subject_producer_id i = 0 \<or> wi_subject_key_id i = 0 \<or> wi_epoch i = 0
            \<or> wi_sequence i = 0 \<or> wi_payload i = None \<or> wi_payload_length i = 0
            \<or> wi_payload_length i > GUARDIAN_SECURITY_WITNESS_MAX_PAYLOAD
            \<or> \<not> guardian_security_witness_evidence_type_valid (wi_evidence_type i)
          then (GUARDIAN_SECURITY_WITNESS_ERROR_INVALID_EVIDENCE, node, r0)
          else
            case subject_search i 0 None (wn_subjects w) of
              (existing, free) \<Rightarrow>
                if (case existing of None \<Rightarrow> False
                    | Some k \<Rightarrow> wi_epoch i < ws_accepted_epoch (wn_subjects w ! k)
                        \<or> (wi_epoch i = ws_accepted_epoch (wn_subjects w ! k) \<and> wi_sequence i \<le> ws_accepted_sequence (wn_subjects w ! k)))
                then (GUARDIAN_SECURITY_WITNESS_ERROR_REPLAY_OR_REGRESSION, node, r0)
                else if existing = None \<and> free = None
                then (GUARDIAN_SECURITY_WITNESS_ERROR_SUBJECT_TABLE_FULL, node, r0)
                else
                  let r1 = \<lparr>wr_schema_version = GUARDIAN_SECURITY_WITNESS_SCHEMA_VERSION, wr_evidence_type = wi_evidence_type i,
                        wr_signature_algorithm = wp_signature_algorithm (wn_provider w),
                        wr_authority_flags = GUARDIAN_SECURITY_WITNESS_AUTHORITY_NONE,
                        wr_witness_node_id = mn_node_id (wn_self w), wr_witness_producer_id = mn_producer_id (wn_self w),
                        wr_witness_key_id = mn_key_id (wn_self w), wr_subject_node_id = wi_subject_node_id i,
                        wr_subject_producer_id = wi_subject_producer_id i, wr_subject_key_id = wi_subject_key_id i,
                        wr_epoch = wi_epoch i, wr_sequence = wi_sequence i, wr_payload_length = of_nat (wi_payload_length i),
                        wr_payload_digest = the (guardian_sha256 (wi_payload i) (wi_payload_length i)
                          (Some (wr_payload_digest zero_witness_record))),
                        wr_signature = wr_signature zero_witness_record\<rparr> in
                  case guardian_security_witness_build_transcript (Some r1)
                      (Some (replicate GUARDIAN_SECURITY_WITNESS_TRANSCRIPT_MAX_SIZE 0))
                      GUARDIAN_SECURITY_WITNESS_TRANSCRIPT_MAX_SIZE (Some 0) of
                    (result, transcript, transcript_length) \<Rightarrow>
                      if result \<noteq> GUARDIAN_SECURITY_WITNESS_OK then (result, node, r0)
                      else
                        case the (wp_sign (wn_provider w)) (wp_context (wn_provider w)) (wp_signature_algorithm (wn_provider w))
                            (mn_key_id (wn_self w)) (take (the transcript_length) (the transcript)) (wr_signature r1) of
                          (provider_result, signature) \<Rightarrow>
                            let signed = guardian_security_witness_map_provider provider_result in
                            if signed \<noteq> GUARDIAN_SECURITY_WITNESS_OK then (signed, node, r0)
                            else
                              let k = (case existing of Some k \<Rightarrow> k | None \<Rightarrow> the free);
                                  s0 = (if existing = None
                                    then zero_subject_state\<lparr>ws_subject_node_id := wi_subject_node_id i,
                                      ws_subject_producer_id := wi_subject_producer_id i,
                                      ws_subject_key_id := wi_subject_key_id i, ws_active := 1\<rparr>
                                    else wn_subjects w ! k);
                                  s1 = s0\<lparr>ws_accepted_epoch := wi_epoch i, ws_accepted_sequence := wi_sequence i\<rparr>;
                                  w1 = w\<lparr>wn_subjects := (wn_subjects w)[k := s1],
                                    wn_subject_count := (if existing = None \<and> wn_subject_count w < GUARDIAN_SECURITY_WITNESS_MAX_SUBJECTS
                                      then wn_subject_count w + 1 else wn_subject_count w)\<rparr> in
                              (GUARDIAN_SECURITY_WITNESS_OK, Some w1, Some (r1\<lparr>wr_signature := signature\<rparr>))
      | _ \<Rightarrow> (GUARDIAN_SECURITY_WITNESS_ERROR_NULL_ARGUMENT, node, record0))"

definition guardian_security_witness_verify ::
  "'p guardian_security_witness_node ptr \<Rightarrow> guardian_security_witness_record ptr \<Rightarrow> guardian_security_witness_result" where
  "guardian_security_witness_verify node record0 =
     (case (node, record0) of
        (Some w, Some r) \<Rightarrow>
          if wn_initialized w \<noteq> 1 then GUARDIAN_SECURITY_WITNESS_ERROR_INVALID_CONFIG
          else if \<not> guardian_security_witness_record_structurally_valid r then GUARDIAN_SECURITY_WITNESS_ERROR_INVALID_EVIDENCE
          else if wr_witness_node_id r \<noteq> mn_node_id (wn_self w) \<or> wr_witness_producer_id r \<noteq> mn_producer_id (wn_self w)
            \<or> wr_witness_key_id r \<noteq> mn_key_id (wn_self w) then GUARDIAN_SECURITY_WITNESS_ERROR_INVALID_EVIDENCE
          else
            (case guardian_security_witness_build_transcript (Some r)
                (Some (replicate GUARDIAN_SECURITY_WITNESS_TRANSCRIPT_MAX_SIZE 0))
                GUARDIAN_SECURITY_WITNESS_TRANSCRIPT_MAX_SIZE (Some 0) of
               (result, transcript, transcript_length) \<Rightarrow>
                 if result \<noteq> GUARDIAN_SECURITY_WITNESS_OK then result
                 else guardian_security_witness_map_provider
                   (the (wp_verify (wn_provider w)) (wp_context (wn_provider w)) (wr_signature_algorithm r) (wr_witness_key_id r)
                     (take (the transcript_length) (the transcript)) (wr_signature r)))
      | _ \<Rightarrow> GUARDIAN_SECURITY_WITNESS_ERROR_NULL_ARGUMENT)"

definition guardian_security_witness_can_actuate ::
  "'p guardian_security_witness_node ptr \<Rightarrow> u8 ptr \<Rightarrow> guardian_security_witness_result \<times> u8 ptr" where
  "guardian_security_witness_can_actuate node allowed =
     (case (node, allowed) of
        (Some _, Some _) \<Rightarrow> (GUARDIAN_SECURITY_WITNESS_ERROR_ACTUATION_PROHIBITED, Some 0)
      | _ \<Rightarrow> (GUARDIAN_SECURITY_WITNESS_ERROR_NULL_ARGUMENT, allowed))"

section \<open>Signed evidence: types\<close>

abbreviation (input) GUARDIAN_SIGNED_EVIDENCE_SCHEMA_VERSION :: u8 where "GUARDIAN_SIGNED_EVIDENCE_SCHEMA_VERSION \<equiv> 1"
abbreviation (input) GUARDIAN_SIGNED_EVIDENCE_AUTHORITY_NONE :: u8 where "GUARDIAN_SIGNED_EVIDENCE_AUTHORITY_NONE \<equiv> 0"
abbreviation (input) GUARDIAN_SIGNED_EVIDENCE_MAX_TRACKED_PRODUCERS :: nat where "GUARDIAN_SIGNED_EVIDENCE_MAX_TRACKED_PRODUCERS \<equiv> 5"
abbreviation (input) GUARDIAN_SIGNED_EVIDENCE_TRANSCRIPT_MAX_SIZE :: nat where "GUARDIAN_SIGNED_EVIDENCE_TRANSCRIPT_MAX_SIZE \<equiv> 192"
abbreviation (input) GUARDIAN_SIGNED_EVIDENCE_DIGEST_INPUT_MAX_SIZE :: nat where "GUARDIAN_SIGNED_EVIDENCE_DIGEST_INPUT_MAX_SIZE \<equiv> 320"

abbreviation (input) GUARDIAN_SIGNED_EVIDENCE_CLASS_INVALID :: c_enum where "GUARDIAN_SIGNED_EVIDENCE_CLASS_INVALID \<equiv> 0"
abbreviation (input) GUARDIAN_SIGNED_EVIDENCE_CLASS_MEASUREMENT :: c_enum where "GUARDIAN_SIGNED_EVIDENCE_CLASS_MEASUREMENT \<equiv> 1"
abbreviation (input) GUARDIAN_SIGNED_EVIDENCE_CLASS_ANALYSIS :: c_enum where "GUARDIAN_SIGNED_EVIDENCE_CLASS_ANALYSIS \<equiv> 2"
abbreviation (input) GUARDIAN_SIGNED_EVIDENCE_CLASS_FUSION :: c_enum where "GUARDIAN_SIGNED_EVIDENCE_CLASS_FUSION \<equiv> 3"
abbreviation (input) GUARDIAN_SIGNED_EVIDENCE_CLASS_SUPERVISION :: c_enum where "GUARDIAN_SIGNED_EVIDENCE_CLASS_SUPERVISION \<equiv> 4"
abbreviation (input) GUARDIAN_SIGNED_EVIDENCE_CLASS_RECOVERY :: c_enum where "GUARDIAN_SIGNED_EVIDENCE_CLASS_RECOVERY \<equiv> 5"

abbreviation (input) GUARDIAN_SIGNED_EVIDENCE_TRUST_UNKNOWN :: c_enum where "GUARDIAN_SIGNED_EVIDENCE_TRUST_UNKNOWN \<equiv> 0"
abbreviation (input) GUARDIAN_SIGNED_EVIDENCE_TRUST_TRUSTED :: c_enum where "GUARDIAN_SIGNED_EVIDENCE_TRUST_TRUSTED \<equiv> 1"
abbreviation (input) GUARDIAN_SIGNED_EVIDENCE_TRUST_REVOKED :: c_enum where "GUARDIAN_SIGNED_EVIDENCE_TRUST_REVOKED \<equiv> 3"

datatype guardian_signed_evidence_result =
    GUARDIAN_SIGNED_EVIDENCE_OK | GUARDIAN_SIGNED_EVIDENCE_ERROR_NULL_ARGUMENT | GUARDIAN_SIGNED_EVIDENCE_ERROR_INVALID_CONFIG
  | GUARDIAN_SIGNED_EVIDENCE_ERROR_INVALID_PRODUCER | GUARDIAN_SIGNED_EVIDENCE_ERROR_INVALID_ENVELOPE
  | GUARDIAN_SIGNED_EVIDENCE_ERROR_TRANSCRIPT | GUARDIAN_SIGNED_EVIDENCE_ERROR_SIGNATURE_INVALID
  | GUARDIAN_SIGNED_EVIDENCE_ERROR_KEY_UNKNOWN | GUARDIAN_SIGNED_EVIDENCE_ERROR_KEY_REVOKED
  | GUARDIAN_SIGNED_EVIDENCE_ERROR_PROVIDER_UNAVAILABLE | GUARDIAN_SIGNED_EVIDENCE_ERROR_PROVIDER_FAILURE
  | GUARDIAN_SIGNED_EVIDENCE_ERROR_UNTRUSTED | GUARDIAN_SIGNED_EVIDENCE_ERROR_UNAUTHORIZED_ROLE
  | GUARDIAN_SIGNED_EVIDENCE_ERROR_CHAIN_MISMATCH | GUARDIAN_SIGNED_EVIDENCE_ERROR_REPLAY_OR_REGRESSION
  | GUARDIAN_SIGNED_EVIDENCE_ERROR_TRACKING_TABLE_FULL | GUARDIAN_SIGNED_EVIDENCE_ERROR_ACTUATION_PROHIBITED

record guardian_signed_evidence_core =
  ec_schema_version :: u8
  ec_evidence_class :: c_enum
  ec_producer_role :: c_enum
  ec_actuation_authorized :: u8
  ec_producer_node_id :: u32
  ec_producer_id :: u32
  ec_producer_key_id :: u32
  ec_epoch :: u32
  ec_sequence :: u32
  ec_payload_digest :: "u8 list"
  ec_analysis_digest :: "u8 list"
  ec_previous_evidence_digest :: "u8 list"

record guardian_signed_evidence_envelope =
  ev_core :: guardian_signed_evidence_core
  ev_witness_record :: guardian_security_witness_record
  ev_evidence_digest :: "u8 list"

record guardian_signed_evidence_verdict =
  vd_signature_valid :: u8
  vd_trusted :: u8
  vd_authorized :: u8
  vd_chain_valid :: u8
  vd_fresh :: u8
  vd_accepted :: u8
  vd_actuation_authorized :: u8

text \<open>The lookup takes its context, the three ids and the caller's node and trust, which it may fill in.\<close>

type_synonym 'l evidence_lookup = "'l ptr \<Rightarrow> u32 \<Rightarrow> u32 \<Rightarrow> u32 \<Rightarrow> guardian_multinode_node \<Rightarrow> c_enum
  \<Rightarrow> bool \<times> guardian_multinode_node \<times> c_enum"

record 'l guardian_signed_evidence_config =
  eg_lookup :: "'l evidence_lookup option"
  eg_lookup_context :: "'l ptr"

record guardian_signed_evidence_producer_state =
  ep_producer_node_id :: u32
  ep_producer_id :: u32
  ep_producer_key_id :: u32
  ep_producer_role :: c_enum
  ep_accepted_epoch :: u32
  ep_accepted_sequence :: u32
  ep_last_evidence_digest :: "u8 list"
  ep_active :: u8

text \<open>The context points to the witness, which it shares with nobody while it runs.\<close>

record ('p, 'l) guardian_signed_evidence =
  ex_witness :: "'p guardian_security_witness_node ptr"
  ex_config :: "'l guardian_signed_evidence_config"
  ex_producers :: "guardian_signed_evidence_producer_state list"
  ex_producer_count :: nat
  ex_initialized :: u8

definition zero_evidence_core :: guardian_signed_evidence_core where
  "zero_evidence_core = \<lparr>ec_schema_version = 0, ec_evidence_class = 0, ec_producer_role = 0, ec_actuation_authorized = 0,
     ec_producer_node_id = 0, ec_producer_id = 0, ec_producer_key_id = 0, ec_epoch = 0, ec_sequence = 0,
     ec_payload_digest = replicate GUARDIAN_SHA256_SIZE 0, ec_analysis_digest = replicate GUARDIAN_SHA256_SIZE 0,
     ec_previous_evidence_digest = replicate GUARDIAN_SHA256_SIZE 0\<rparr>"

definition zero_envelope :: guardian_signed_evidence_envelope where
  "zero_envelope = \<lparr>ev_core = zero_evidence_core, ev_witness_record = zero_witness_record,
     ev_evidence_digest = replicate GUARDIAN_SHA256_SIZE 0\<rparr>"

definition zero_verdict :: guardian_signed_evidence_verdict where
  "zero_verdict = \<lparr>vd_signature_valid = 0, vd_trusted = 0, vd_authorized = 0, vd_chain_valid = 0, vd_fresh = 0, vd_accepted = 0,
     vd_actuation_authorized = 0\<rparr>"

definition zero_producer_state :: guardian_signed_evidence_producer_state where
  "zero_producer_state = \<lparr>ep_producer_node_id = 0, ep_producer_id = 0, ep_producer_key_id = 0, ep_producer_role = 0,
     ep_accepted_epoch = 0, ep_accepted_sequence = 0, ep_last_evidence_digest = replicate GUARDIAN_SHA256_SIZE 0, ep_active = 0\<rparr>"

definition zero_signed_evidence :: "('p, 'l) guardian_signed_evidence" where
  "zero_signed_evidence = \<lparr>ex_witness = None, ex_config = \<lparr>eg_lookup = None, eg_lookup_context = None\<rparr>,
     ex_producers = replicate GUARDIAN_SIGNED_EVIDENCE_MAX_TRACKED_PRODUCERS zero_producer_state, ex_producer_count = 0,
     ex_initialized = 0\<rparr>"

section \<open>Signed evidence: operations\<close>

definition guardian_signed_evidence_domain :: "u8 list" where
  "guardian_signed_evidence_domain = map of_char ''GUARDIAN-F401:M17:SIGNED-EVIDENCE:V1''"

definition guardian_signed_evidence_digest_domain :: "u8 list" where
  "guardian_signed_evidence_digest_domain = map of_char ''GUARDIAN-F401:M17:SIGNED-EVIDENCE-DIGEST:V1''"

definition guardian_signed_evidence_put_u32_be :: "u8 list \<Rightarrow> nat \<Rightarrow> u32 \<Rightarrow> u8 list" where
  "guardian_signed_evidence_put_u32_be output i v =
     output[i := ucast (drop_bit 24 v AND 0xFF), i + 1 := ucast (drop_bit 16 v AND 0xFF),
       i + 2 := ucast (drop_bit 8 v AND 0xFF), i + 3 := ucast (v AND 0xFF)]"

definition guardian_signed_evidence_all_zero :: "u8 list \<Rightarrow> bool" where
  "guardian_signed_evidence_all_zero value \<longleftrightarrow> fold (\<lambda>i aggregate. aggregate OR value ! i) [0..<GUARDIAN_SHA256_SIZE] 0 = 0"

definition guardian_signed_evidence_class_valid :: "c_enum \<Rightarrow> bool" where
  "guardian_signed_evidence_class_valid evidence_class \<longleftrightarrow>
     evidence_class > GUARDIAN_SIGNED_EVIDENCE_CLASS_INVALID \<and> evidence_class \<le> GUARDIAN_SIGNED_EVIDENCE_CLASS_RECOVERY"

definition guardian_signed_evidence_witness_type :: "c_enum \<Rightarrow> c_enum" where
  "guardian_signed_evidence_witness_type evidence_class =
     (if evidence_class = GUARDIAN_SIGNED_EVIDENCE_CLASS_MEASUREMENT then GUARDIAN_SECURITY_WITNESS_EVIDENCE_OBSERVATION
      else if evidence_class = GUARDIAN_SIGNED_EVIDENCE_CLASS_ANALYSIS \<or> evidence_class = GUARDIAN_SIGNED_EVIDENCE_CLASS_FUSION
      then GUARDIAN_SECURITY_WITNESS_EVIDENCE_EXECUTION_RESULT
      else if evidence_class = GUARDIAN_SIGNED_EVIDENCE_CLASS_SUPERVISION then GUARDIAN_SECURITY_WITNESS_EVIDENCE_SUPERVISION
      else if evidence_class = GUARDIAN_SIGNED_EVIDENCE_CLASS_RECOVERY then GUARDIAN_SECURITY_WITNESS_EVIDENCE_RECOVERY_REQUEST
      else GUARDIAN_SECURITY_WITNESS_EVIDENCE_INVALID)"

definition guardian_signed_evidence_role_authorized :: "c_enum \<Rightarrow> guardian_multinode_node ptr \<Rightarrow> bool" where
  "guardian_signed_evidence_role_authorized evidence_class resolved =
     (case resolved of
        None \<Rightarrow> False
      | Some n \<Rightarrow>
          if mn_capabilities n AND GUARDIAN_CAP_ACTUATION_GATE \<noteq> 0 then False
          else if evidence_class = GUARDIAN_SIGNED_EVIDENCE_CLASS_MEASUREMENT
          then mn_role n = GUARDIAN_NODE_ROLE_ST_MEASUREMENT_REFERENCE \<and> mn_authority_class n = GUARDIAN_AUTHORITY_CLASS_OBSERVE
            \<and> mn_capabilities n AND GUARDIAN_CAP_SENSOR_ACQUISITION \<noteq> 0
          else if evidence_class = GUARDIAN_SIGNED_EVIDENCE_CLASS_ANALYSIS \<or> evidence_class = GUARDIAN_SIGNED_EVIDENCE_CLASS_FUSION
          then mn_role n = GUARDIAN_NODE_ROLE_HIGH_COMPUTE_PROCESSING \<and> mn_authority_class n = GUARDIAN_AUTHORITY_CLASS_OBSERVE
            \<and> mn_capabilities n AND GUARDIAN_CAP_SIGNAL_PROCESSING \<noteq> 0
          else if evidence_class = GUARDIAN_SIGNED_EVIDENCE_CLASS_SUPERVISION
          then mn_role n = GUARDIAN_NODE_ROLE_MCXN947_SUPERVISORY_PEER \<and> mn_authority_class n = GUARDIAN_AUTHORITY_CLASS_OBSERVE
            \<and> mn_capabilities n AND GUARDIAN_CAP_SUPERVISION \<noteq> 0
          else if evidence_class = GUARDIAN_SIGNED_EVIDENCE_CLASS_RECOVERY
          then mn_role n = GUARDIAN_NODE_ROLE_MCXN947_SUPERVISORY_PEER \<and> mn_authority_class n = GUARDIAN_AUTHORITY_CLASS_OBSERVE
            \<and> mn_capabilities n AND GUARDIAN_CAP_RECOVERY_ASSIST \<noteq> 0
          else False)"

definition guardian_signed_evidence_map_witness_result :: "guardian_security_witness_result \<Rightarrow> guardian_signed_evidence_result" where
  "guardian_signed_evidence_map_witness_result result =
     (case result of
        GUARDIAN_SECURITY_WITNESS_OK \<Rightarrow> GUARDIAN_SIGNED_EVIDENCE_OK
      | GUARDIAN_SECURITY_WITNESS_ERROR_SIGNATURE_INVALID \<Rightarrow> GUARDIAN_SIGNED_EVIDENCE_ERROR_SIGNATURE_INVALID
      | GUARDIAN_SECURITY_WITNESS_ERROR_KEY_UNKNOWN \<Rightarrow> GUARDIAN_SIGNED_EVIDENCE_ERROR_KEY_UNKNOWN
      | GUARDIAN_SECURITY_WITNESS_ERROR_KEY_REVOKED \<Rightarrow> GUARDIAN_SIGNED_EVIDENCE_ERROR_KEY_REVOKED
      | GUARDIAN_SECURITY_WITNESS_ERROR_PROVIDER_UNAVAILABLE \<Rightarrow> GUARDIAN_SIGNED_EVIDENCE_ERROR_PROVIDER_UNAVAILABLE
      | GUARDIAN_SECURITY_WITNESS_ERROR_PROVIDER_FAILURE \<Rightarrow> GUARDIAN_SIGNED_EVIDENCE_ERROR_PROVIDER_FAILURE
      | _ \<Rightarrow> GUARDIAN_SIGNED_EVIDENCE_ERROR_INVALID_ENVELOPE)"

definition core_transcript_store :: "guardian_signed_evidence_core \<Rightarrow> u8 list \<Rightarrow> u8 list \<times> nat" where
  "core_transcript_store c out =
     (let d = length guardian_signed_evidence_domain;
          o1 = buf_write out 0 guardian_signed_evidence_domain;
          o2 = o1[d := ec_schema_version c, d + 1 := ucast (ec_evidence_class c), d + 2 := ucast (ec_producer_role c),
            d + 3 := ec_actuation_authorized c];
          o3 = guardian_signed_evidence_put_u32_be o2 (d + 4) (ec_producer_node_id c);
          o4 = guardian_signed_evidence_put_u32_be o3 (d + 8) (ec_producer_id c);
          o5 = guardian_signed_evidence_put_u32_be o4 (d + 12) (ec_producer_key_id c);
          o6 = guardian_signed_evidence_put_u32_be o5 (d + 16) (ec_epoch c);
          o7 = guardian_signed_evidence_put_u32_be o6 (d + 20) (ec_sequence c);
          o8 = buf_write o7 (d + 24) (ec_payload_digest c);
          o9 = buf_write o8 (d + 24 + GUARDIAN_SHA256_SIZE) (ec_analysis_digest c);
          o10 = buf_write o9 (d + 24 + 2 * GUARDIAN_SHA256_SIZE) (ec_previous_evidence_digest c) in
      (o10, d + 24 + 3 * GUARDIAN_SHA256_SIZE))"

definition guardian_signed_evidence_build_transcript ::
  "guardian_signed_evidence_core ptr \<Rightarrow> u8 list ptr \<Rightarrow> nat \<Rightarrow> nat ptr \<Rightarrow> guardian_signed_evidence_result \<times> u8 list ptr \<times> nat ptr" where
  "guardian_signed_evidence_build_transcript core output output_capacity output_length =
     (let len0 = map_option (\<lambda>_. 0) output_length in
      case (core, output, len0) of
        (Some c, Some out, Some _) \<Rightarrow>
          if ec_schema_version c \<noteq> GUARDIAN_SIGNED_EVIDENCE_SCHEMA_VERSION
            \<or> \<not> guardian_signed_evidence_class_valid (ec_evidence_class c)
            \<or> ec_actuation_authorized c \<noteq> GUARDIAN_SIGNED_EVIDENCE_AUTHORITY_NONE
            \<or> ec_producer_role c = GUARDIAN_NODE_ROLE_INVALID
            \<or> ec_producer_node_id c = 0 \<or> ec_producer_id c = 0 \<or> ec_producer_key_id c = 0 \<or> ec_epoch c = 0 \<or> ec_sequence c = 0
          then (GUARDIAN_SIGNED_EVIDENCE_ERROR_INVALID_ENVELOPE, output, len0)
          else if output_capacity < GUARDIAN_SIGNED_EVIDENCE_TRANSCRIPT_MAX_SIZE
          then (GUARDIAN_SIGNED_EVIDENCE_ERROR_TRANSCRIPT, output, len0)
          else
            let cleared = buf_write out 0 (replicate output_capacity 0) in
            case core_transcript_store c cleared of
              (stored, offset) \<Rightarrow>
                if offset > GUARDIAN_SIGNED_EVIDENCE_TRANSCRIPT_MAX_SIZE
                then (GUARDIAN_SIGNED_EVIDENCE_ERROR_TRANSCRIPT, Some (buf_write stored 0 (replicate output_capacity 0)), len0)
                else (GUARDIAN_SIGNED_EVIDENCE_OK, Some stored, Some offset)
      | _ \<Rightarrow> (GUARDIAN_SIGNED_EVIDENCE_ERROR_NULL_ARGUMENT, output, len0))"

text \<open>The transcript buffer of a caller, filled for a core.\<close>

definition local_transcript :: "guardian_signed_evidence_core \<Rightarrow> guardian_signed_evidence_result \<times> u8 list \<times> nat" where
  "local_transcript core =
     (case guardian_signed_evidence_build_transcript (Some core)
         (Some (replicate GUARDIAN_SIGNED_EVIDENCE_TRANSCRIPT_MAX_SIZE 0)) GUARDIAN_SIGNED_EVIDENCE_TRANSCRIPT_MAX_SIZE (Some 0) of
        (result, transcript, n) \<Rightarrow> (result, the transcript, the n))"

definition guardian_signed_evidence_compute_digest ::
  "guardian_signed_evidence_core ptr \<Rightarrow> guardian_security_witness_record ptr \<Rightarrow> u8 list ptr
     \<Rightarrow> guardian_signed_evidence_result \<times> u8 list ptr" where
  "guardian_signed_evidence_compute_digest core witness_record digest =
     (case (core, witness_record, digest) of
        (Some c, Some w, Some d) \<Rightarrow>
          (case local_transcript c of
             (result, transcript, transcript_length) \<Rightarrow>
               if result \<noteq> GUARDIAN_SIGNED_EVIDENCE_OK then (result, digest)
               else if length guardian_signed_evidence_digest_domain + transcript_length + GUARDIAN_SECURITY_WITNESS_SIGNATURE_SIZE
                 > GUARDIAN_SIGNED_EVIDENCE_DIGEST_INPUT_MAX_SIZE
               then (GUARDIAN_SIGNED_EVIDENCE_ERROR_TRANSCRIPT, digest)
               else
                 let o1 = length guardian_signed_evidence_digest_domain;
                     i1 = buf_write (replicate GUARDIAN_SIGNED_EVIDENCE_DIGEST_INPUT_MAX_SIZE 0) 0 guardian_signed_evidence_digest_domain;
                     i2 = buf_write i1 o1 (take transcript_length transcript);
                     i3 = buf_write i2 (o1 + transcript_length) (wr_signature w) in
                 (GUARDIAN_SIGNED_EVIDENCE_OK,
                  guardian_sha256 (Some i3) (o1 + transcript_length + GUARDIAN_SECURITY_WITNESS_SIGNATURE_SIZE) (Some d)))
      | _ \<Rightarrow> (GUARDIAN_SIGNED_EVIDENCE_ERROR_NULL_ARGUMENT, digest))"

text \<open>The entry of a producer, or the first inactive one.\<close>

definition producer_matches :: "guardian_signed_evidence_core \<Rightarrow> guardian_signed_evidence_producer_state \<Rightarrow> bool" where
  "producer_matches core s \<longleftrightarrow> ep_active s = 1 \<and> ep_producer_node_id s = ec_producer_node_id core
     \<and> ep_producer_id s = ec_producer_id core \<and> ep_producer_key_id s = ec_producer_key_id core"

fun find_state_loop ::
  "guardian_signed_evidence_core \<Rightarrow> nat \<Rightarrow> nat option \<Rightarrow> guardian_signed_evidence_producer_state list \<Rightarrow> nat option \<times> nat option" where
  "find_state_loop core i free [] = (None, free)"
| "find_state_loop core i free (s # ss) =
     (if producer_matches core s then (Some i, free)
      else find_state_loop core (i + 1) (if free = None \<and> ep_active s = 0 then Some i else free) ss)"

definition guardian_signed_evidence_find_state ::
  "('p, 'l) guardian_signed_evidence \<Rightarrow> guardian_signed_evidence_core \<Rightarrow> nat option \<times> nat option" where
  "guardian_signed_evidence_find_state context core = find_state_loop core 0 None (ex_producers context)"

definition guardian_signed_evidence_init :: "('p, 'l) guardian_signed_evidence ptr \<Rightarrow> ('p, 'l) guardian_signed_evidence ptr" where
  "guardian_signed_evidence_init context = map_option (\<lambda>_. zero_signed_evidence) context"

definition guardian_signed_evidence_configure ::
  "('p, 'l) guardian_signed_evidence ptr \<Rightarrow> 'p guardian_security_witness_node ptr \<Rightarrow> 'l guardian_signed_evidence_config ptr
     \<Rightarrow> guardian_signed_evidence_result \<times> ('p, 'l) guardian_signed_evidence ptr" where
  "guardian_signed_evidence_configure context witness config =
     (case (context, witness, config) of
        (Some x, Some w, Some g) \<Rightarrow>
          if wn_initialized w \<noteq> 1 \<or> eg_lookup g = None then (GUARDIAN_SIGNED_EVIDENCE_ERROR_INVALID_CONFIG, Some x)
          else (GUARDIAN_SIGNED_EVIDENCE_OK, Some (the (guardian_signed_evidence_init (Some x))
            \<lparr>ex_witness := witness, ex_config := g, ex_initialized := 1\<rparr>))
      | _ \<Rightarrow> (GUARDIAN_SIGNED_EVIDENCE_ERROR_NULL_ARGUMENT, context))"

definition guardian_signed_evidence_create ::
  "('p, 'l) guardian_signed_evidence ptr \<Rightarrow> guardian_multinode_node ptr \<Rightarrow> c_enum \<Rightarrow> u32 \<Rightarrow> u32 \<Rightarrow> u8 list ptr \<Rightarrow> u8 list ptr
     \<Rightarrow> u8 list ptr \<Rightarrow> guardian_signed_evidence_envelope ptr
     \<Rightarrow> guardian_signed_evidence_result \<times> ('p, 'l) guardian_signed_evidence ptr \<times> guardian_signed_evidence_envelope ptr" where
  "guardian_signed_evidence_create context producer evidence_class epoch sequence payload_digest analysis_digest
     previous_evidence_digest envelope =
     (case (context, producer, payload_digest, analysis_digest, previous_evidence_digest, envelope) of
        (Some x, Some n, Some pd, Some ad, Some prev, Some _) \<Rightarrow>
          if ex_initialized x \<noteq> 1 \<or> ex_witness x = None
          then (GUARDIAN_SIGNED_EVIDENCE_ERROR_INVALID_CONFIG, context, Some zero_envelope)
          else if guardian_multinode_validate_node producer \<noteq> GUARDIAN_MULTINODE_OK
            \<or> \<not> guardian_signed_evidence_class_valid evidence_class \<or> epoch = 0 \<or> sequence = 0
          then (GUARDIAN_SIGNED_EVIDENCE_ERROR_INVALID_PRODUCER, context, Some zero_envelope)
          else
            let c = \<lparr>ec_schema_version = GUARDIAN_SIGNED_EVIDENCE_SCHEMA_VERSION, ec_evidence_class = evidence_class,
                  ec_producer_role = mn_role n, ec_actuation_authorized = GUARDIAN_SIGNED_EVIDENCE_AUTHORITY_NONE,
                  ec_producer_node_id = mn_node_id n, ec_producer_id = mn_producer_id n, ec_producer_key_id = mn_key_id n,
                  ec_epoch = epoch, ec_sequence = sequence,
                  ec_payload_digest = take GUARDIAN_SHA256_SIZE pd, ec_analysis_digest = take GUARDIAN_SHA256_SIZE ad,
                  ec_previous_evidence_digest = take GUARDIAN_SHA256_SIZE prev\<rparr>;
                e1 = zero_envelope\<lparr>ev_core := c\<rparr> in
            case local_transcript c of
              (result, transcript, transcript_length) \<Rightarrow>
                if result \<noteq> GUARDIAN_SIGNED_EVIDENCE_OK then (result, context, Some e1)
                else
                  let input = \<lparr>wi_subject_node_id = mn_node_id n, wi_subject_producer_id = mn_producer_id n,
                        wi_subject_key_id = mn_key_id n, wi_epoch = epoch, wi_sequence = sequence,
                        wi_evidence_type = guardian_signed_evidence_witness_type evidence_class,
                        wi_payload = Some transcript, wi_payload_length = transcript_length\<rparr> in
                  case guardian_security_witness_create (ex_witness x) (Some input) (Some (ev_witness_record e1)) of
                    (witness_result, w, r) \<Rightarrow>
                      let x1 = x\<lparr>ex_witness := w\<rparr>; e2 = e1\<lparr>ev_witness_record := the r\<rparr> in
                      if witness_result \<noteq> GUARDIAN_SECURITY_WITNESS_OK
                      then (guardian_signed_evidence_map_witness_result witness_result, Some x1, Some zero_envelope)
                      else
                        case guardian_signed_evidence_compute_digest (Some c) r (Some (ev_evidence_digest e2)) of
                          (digest_result, digest) \<Rightarrow>
                            if digest_result \<noteq> GUARDIAN_SIGNED_EVIDENCE_OK then (digest_result, Some x1, Some zero_envelope)
                            else (GUARDIAN_SIGNED_EVIDENCE_OK, Some x1, Some (e2\<lparr>ev_evidence_digest := the digest\<rparr>))
      | _ \<Rightarrow> (GUARDIAN_SIGNED_EVIDENCE_ERROR_NULL_ARGUMENT, context, envelope))"

text \<open>Acceptance has two parts: the checks of the envelope by itself, up to the authorization of the producer, and
  the linking of the envelope to the accepted state of the producer.  Both fill the verdict as they go.\<close>

definition evidence_checks ::
  "('p, 'l) guardian_signed_evidence \<Rightarrow> guardian_signed_evidence_envelope \<Rightarrow> guardian_signed_evidence_verdict
     \<Rightarrow> guardian_signed_evidence_result \<times> guardian_signed_evidence_verdict" where
  "evidence_checks x e v =
     (let c = ev_core e; w = ev_witness_record e in
      case local_transcript c of
        (result, transcript, transcript_length) \<Rightarrow>
          if result \<noteq> GUARDIAN_SIGNED_EVIDENCE_OK then (result, v)
          else if wr_subject_node_id w \<noteq> ec_producer_node_id c \<or> wr_subject_producer_id w \<noteq> ec_producer_id c
            \<or> wr_subject_key_id w \<noteq> ec_producer_key_id c \<or> wr_epoch w \<noteq> ec_epoch c \<or> wr_sequence w \<noteq> ec_sequence c
            \<or> wr_evidence_type w \<noteq> guardian_signed_evidence_witness_type (ec_evidence_class c)
          then (GUARDIAN_SIGNED_EVIDENCE_ERROR_INVALID_ENVELOPE, v)
          else if \<not> guardian_crypto_constant_time_equal
              (guardian_sha256 (Some transcript) transcript_length (Some (replicate GUARDIAN_SHA256_SIZE 0)))
              (Some (wr_payload_digest w)) GUARDIAN_SHA256_SIZE
          then (GUARDIAN_SIGNED_EVIDENCE_ERROR_SIGNATURE_INVALID, v)
          else
            let witness_result = guardian_security_witness_verify (ex_witness x) (Some w) in
            if witness_result \<noteq> GUARDIAN_SECURITY_WITNESS_OK
            then (guardian_signed_evidence_map_witness_result witness_result, v)
            else
              let v1 = v\<lparr>vd_signature_valid := 1\<rparr> in
              case guardian_signed_evidence_compute_digest (Some c) (Some w) (Some (replicate GUARDIAN_SHA256_SIZE 0)) of
                (digest_result, recomputed) \<Rightarrow>
                  if digest_result \<noteq> GUARDIAN_SIGNED_EVIDENCE_OK then (digest_result, v1)
                  else if \<not> guardian_crypto_constant_time_equal recomputed (Some (ev_evidence_digest e)) GUARDIAN_SHA256_SIZE
                  then (GUARDIAN_SIGNED_EVIDENCE_ERROR_INVALID_ENVELOPE, v1)
                  else
                    case the (eg_lookup (ex_config x)) (eg_lookup_context (ex_config x)) (ec_producer_node_id c) (ec_producer_id c)
                        (ec_producer_key_id c) zero_multinode_node GUARDIAN_SIGNED_EVIDENCE_TRUST_UNKNOWN of
                      (found, n, trust) \<Rightarrow>
                        if \<not> found then (GUARDIAN_SIGNED_EVIDENCE_ERROR_KEY_UNKNOWN, v1)
                        else if trust = GUARDIAN_SIGNED_EVIDENCE_TRUST_REVOKED
                        then (GUARDIAN_SIGNED_EVIDENCE_ERROR_KEY_REVOKED, v1)
                        else if trust \<noteq> GUARDIAN_SIGNED_EVIDENCE_TRUST_TRUSTED
                        then (GUARDIAN_SIGNED_EVIDENCE_ERROR_UNTRUSTED, v1)
                        else
                          let v2 = v1\<lparr>vd_trusted := 1\<rparr> in
                          if mn_node_id n \<noteq> ec_producer_node_id c \<or> mn_producer_id n \<noteq> ec_producer_id c
                            \<or> mn_key_id n \<noteq> ec_producer_key_id c \<or> mn_role n \<noteq> ec_producer_role c
                            \<or> guardian_multinode_validate_node (Some n) \<noteq> GUARDIAN_MULTINODE_OK
                            \<or> \<not> guardian_signed_evidence_role_authorized (ec_evidence_class c) (Some n)
                          then (GUARDIAN_SIGNED_EVIDENCE_ERROR_UNAUTHORIZED_ROLE, v2)
                          else (GUARDIAN_SIGNED_EVIDENCE_OK, v2\<lparr>vd_authorized := 1\<rparr>))"

definition evidence_record ::
  "('p, 'l) guardian_signed_evidence \<Rightarrow> guardian_signed_evidence_envelope \<Rightarrow> nat \<Rightarrow> ('p, 'l) guardian_signed_evidence" where
  "evidence_record x e k =
     (let c = ev_core e; s = ex_producers x ! k;
          s0 = (if ep_active s = 0
            then zero_producer_state\<lparr>ep_producer_node_id := ec_producer_node_id c, ep_producer_id := ec_producer_id c,
              ep_producer_key_id := ec_producer_key_id c, ep_producer_role := ec_producer_role c, ep_active := 1\<rparr>
            else s);
          s1 = s0\<lparr>ep_accepted_epoch := ec_epoch c, ep_accepted_sequence := ec_sequence c,
            ep_last_evidence_digest := take GUARDIAN_SHA256_SIZE (ev_evidence_digest e)\<rparr> in
      x\<lparr>ex_producers := (ex_producers x)[k := s1],
        ex_producer_count := (if ep_active s = 0 then ex_producer_count x + 1 else ex_producer_count x)\<rparr>)"

definition evidence_link ::
  "('p, 'l) guardian_signed_evidence \<Rightarrow> guardian_signed_evidence_envelope \<Rightarrow> guardian_signed_evidence_verdict
     \<Rightarrow> guardian_signed_evidence_result \<times> ('p, 'l) guardian_signed_evidence \<times> guardian_signed_evidence_verdict" where
  "evidence_link x e v =
     (let c = ev_core e in
      case guardian_signed_evidence_find_state x c of
        (None, None) \<Rightarrow> (GUARDIAN_SIGNED_EVIDENCE_ERROR_TRACKING_TABLE_FULL, x, v)
      | (None, Some k) \<Rightarrow>
          if \<not> guardian_signed_evidence_all_zero (ec_previous_evidence_digest c)
          then (GUARDIAN_SIGNED_EVIDENCE_ERROR_CHAIN_MISMATCH, x, v)
          else (GUARDIAN_SIGNED_EVIDENCE_OK, evidence_record x e k,
            v\<lparr>vd_chain_valid := 1, vd_fresh := 1, vd_accepted := 1, vd_actuation_authorized := GUARDIAN_SIGNED_EVIDENCE_AUTHORITY_NONE\<rparr>)
      | (Some k, _) \<Rightarrow>
          let s = ex_producers x ! k in
          if \<not> guardian_crypto_constant_time_equal (Some (ec_previous_evidence_digest c)) (Some (ep_last_evidence_digest s))
            GUARDIAN_SHA256_SIZE
          then (GUARDIAN_SIGNED_EVIDENCE_ERROR_CHAIN_MISMATCH, x, v)
          else if ec_epoch c < ep_accepted_epoch s
            \<or> (ec_epoch c = ep_accepted_epoch s \<and> ec_sequence c \<le> ep_accepted_sequence s)
          then (GUARDIAN_SIGNED_EVIDENCE_ERROR_REPLAY_OR_REGRESSION, x, v\<lparr>vd_chain_valid := 1\<rparr>)
          else (GUARDIAN_SIGNED_EVIDENCE_OK, evidence_record x e k,
            v\<lparr>vd_chain_valid := 1, vd_fresh := 1, vd_accepted := 1, vd_actuation_authorized := GUARDIAN_SIGNED_EVIDENCE_AUTHORITY_NONE\<rparr>))"

definition guardian_signed_evidence_verify_and_accept ::
  "('p, 'l) guardian_signed_evidence ptr \<Rightarrow> guardian_signed_evidence_envelope ptr \<Rightarrow> guardian_signed_evidence_verdict ptr
     \<Rightarrow> guardian_signed_evidence_result \<times> ('p, 'l) guardian_signed_evidence ptr \<times> guardian_signed_evidence_verdict ptr" where
  "guardian_signed_evidence_verify_and_accept context envelope verdict =
     (case (context, envelope, verdict) of
        (Some x, Some e, Some _) \<Rightarrow>
          if ex_initialized x \<noteq> 1 \<or> ex_witness x = None \<or> eg_lookup (ex_config x) = None
          then (GUARDIAN_SIGNED_EVIDENCE_ERROR_INVALID_CONFIG, context, Some zero_verdict)
          else
            (case evidence_checks x e (zero_verdict\<lparr>vd_actuation_authorized := GUARDIAN_SIGNED_EVIDENCE_AUTHORITY_NONE\<rparr>) of
               (result, v) \<Rightarrow>
                 if result \<noteq> GUARDIAN_SIGNED_EVIDENCE_OK then (result, context, Some v)
                 else case evidence_link x e v of (r, x1, v1) \<Rightarrow> (r, Some x1, Some v1))
      | _ \<Rightarrow> (GUARDIAN_SIGNED_EVIDENCE_ERROR_NULL_ARGUMENT, context, verdict))"

definition guardian_signed_evidence_can_actuate ::
  "('p, 'l) guardian_signed_evidence ptr \<Rightarrow> u8 ptr \<Rightarrow> guardian_signed_evidence_result \<times> u8 ptr" where
  "guardian_signed_evidence_can_actuate context allowed =
     (case (context, allowed) of
        (Some _, Some _) \<Rightarrow> (GUARDIAN_SIGNED_EVIDENCE_ERROR_ACTUATION_PROHIBITED, Some 0)
      | _ \<Rightarrow> (GUARDIAN_SIGNED_EVIDENCE_ERROR_NULL_ARGUMENT, allowed))"

section \<open>Transcripts\<close>

definition witness_bytes :: "guardian_security_witness_record \<Rightarrow> u8 list" where
  "witness_bytes r = guardian_security_witness_domain
     @ [wr_schema_version r, ucast (wr_evidence_type r), wr_signature_algorithm r, wr_authority_flags r]
     @ be32_bytes (wr_witness_node_id r) @ be32_bytes (wr_witness_producer_id r) @ be32_bytes (wr_witness_key_id r)
     @ be32_bytes (wr_subject_node_id r) @ be32_bytes (wr_subject_producer_id r) @ be32_bytes (wr_subject_key_id r)
     @ be32_bytes (wr_epoch r) @ be32_bytes (wr_sequence r) @ be32_bytes (wr_payload_length r) @ wr_payload_digest r"

definition core_bytes :: "guardian_signed_evidence_core \<Rightarrow> u8 list" where
  "core_bytes c = guardian_signed_evidence_domain
     @ [ec_schema_version c, ucast (ec_evidence_class c), ucast (ec_producer_role c), ec_actuation_authorized c]
     @ be32_bytes (ec_producer_node_id c) @ be32_bytes (ec_producer_id c) @ be32_bytes (ec_producer_key_id c)
     @ be32_bytes (ec_epoch c) @ be32_bytes (ec_sequence c)
     @ ec_payload_digest c @ ec_analysis_digest c @ ec_previous_evidence_digest c"

text \<open>The digests are arrays of 32 bytes, the signature one of 64.\<close>

definition core_sized :: "guardian_signed_evidence_core \<Rightarrow> bool" where
  "core_sized c \<longleftrightarrow> length (ec_payload_digest c) = 32 \<and> length (ec_analysis_digest c) = 32 \<and> length (ec_previous_evidence_digest c) = 32"

definition witness_sized :: "guardian_security_witness_record \<Rightarrow> bool" where
  "witness_sized r \<longleftrightarrow> length (wr_payload_digest r) = 32 \<and> length (wr_signature r) = 64"

definition envelope_sized :: "guardian_signed_evidence_envelope \<Rightarrow> bool" where
  "envelope_sized e \<longleftrightarrow> core_sized (ev_core e) \<and> witness_sized (ev_witness_record e) \<and> length (ev_evidence_digest e) = 32"

lemma length_domains [simp]:
  "length guardian_security_witness_domain = 37" "length guardian_signed_evidence_domain = 36"
  "length guardian_signed_evidence_digest_domain = 43"
  by (simp_all add: guardian_security_witness_domain_def guardian_signed_evidence_domain_def guardian_signed_evidence_digest_domain_def)

lemma put_u32_be_buf_write:
  "i + 4 \<le> length b \<Longrightarrow> guardian_security_witness_put_u32_be b i v = buf_write b i (be32_bytes v)"
  "i + 4 \<le> length b \<Longrightarrow> guardian_signed_evidence_put_u32_be b i v = buf_write b i (be32_bytes v)"
  by (simp_all add: guardian_security_witness_put_u32_be_def guardian_signed_evidence_put_u32_be_def be32_bytes_def
      list_update_buf_write buf_write_adjacent)

lemma length_witness_bytes: "witness_sized r \<Longrightarrow> length (witness_bytes r) = 109"
  by (simp add: witness_bytes_def witness_sized_def)

lemma length_core_bytes: "core_sized c \<Longrightarrow> length (core_bytes c) = 156"
  by (simp add: core_bytes_def core_sized_def)

lemma witness_transcript_store_bytes:
  assumes "witness_sized r" "109 \<le> length out"
  shows "witness_transcript_store r out = (buf_write out 0 (witness_bytes r), 109)"
  using assms by (simp add: witness_transcript_store_def witness_bytes_def witness_sized_def Let_def put_u32_be_buf_write
      list_update_buf_write buf_write_adjacent)

lemma core_transcript_store_bytes:
  assumes "core_sized c" "156 \<le> length out"
  shows "core_transcript_store c out = (buf_write out 0 (core_bytes c), 156)"
  using assms by (simp add: core_transcript_store_def core_bytes_def core_sized_def Let_def put_u32_be_buf_write
      list_update_buf_write buf_write_adjacent)

lemma local_transcript_ok:
  assumes "core_sized c" "local_transcript c = (GUARDIAN_SIGNED_EVIDENCE_OK, t, n)"
  shows "n = 156 \<and> take 156 t = core_bytes c \<and> 156 \<le> length t \<and> ec_actuation_authorized c = 0 \<and> ec_epoch c \<noteq> 0 \<and> ec_sequence c \<noteq> 0"
  using assms length_core_bytes [OF assms(1)]
  by (simp add: local_transcript_def guardian_signed_evidence_build_transcript_def core_transcript_store_bytes take_buf_write_0
      Let_def split: if_splits)
   (auto simp: take_buf_write_0)

lemma witness_local_transcript:
  assumes "witness_sized r" "guardian_security_witness_build_transcript (Some r) (Some (replicate 128 0)) 128 (Some 0)
    = (GUARDIAN_SECURITY_WITNESS_OK, t, n)"
  shows "n = Some 109 \<and> take (the n) (the t) = witness_bytes r"
  using assms length_witness_bytes [OF assms(1)]
  by (simp add: guardian_security_witness_build_transcript_def witness_transcript_store_bytes Let_def split: if_splits)
    (auto simp: take_buf_write_0)

text \<open>A record passes verification only if the provider accepts its signature over its bytes.\<close>

lemma witness_verify_ok:
  assumes "witness_sized r" "guardian_security_witness_verify (Some w) (Some r) = GUARDIAN_SECURITY_WITNESS_OK"
  shows "wn_initialized w = 1 \<and> guardian_security_witness_record_structurally_valid r \<and> wr_witness_key_id r = mn_key_id (wn_self w)
    \<and> the (wp_verify (wn_provider w)) (wp_context (wn_provider w)) (wr_signature_algorithm r) (wr_witness_key_id r) (witness_bytes r)
        (wr_signature r) = GUARDIAN_SECURITY_WITNESS_PROVIDER_OK"
proof -
  obtain res t n where b: "guardian_security_witness_build_transcript (Some r) (Some (replicate 128 0)) 128 (Some 0) = (res, t, n)"
    by (metis prod_cases3)
  have m: "guardian_security_witness_map_provider p = GUARDIAN_SECURITY_WITNESS_OK \<longleftrightarrow> p = GUARDIAN_SECURITY_WITNESS_PROVIDER_OK" for p
    by (simp add: guardian_security_witness_map_provider_def)
  show ?thesis using assms(2) b witness_local_transcript [OF assms(1), of t n]
    by (cases "res = GUARDIAN_SECURITY_WITNESS_OK") (auto simp: guardian_security_witness_verify_def m split: if_splits)
qed

definition evidence_digest_bytes :: "guardian_signed_evidence_core \<Rightarrow> guardian_security_witness_record \<Rightarrow> u8 list" where
  "evidence_digest_bytes c r = guardian_signed_evidence_digest_domain @ core_bytes c @ wr_signature r"

lemma compute_digest_ok:
  assumes "core_sized c" "witness_sized r" "length d = 32"
    and "guardian_signed_evidence_compute_digest (Some c) (Some r) (Some d) = (GUARDIAN_SIGNED_EVIDENCE_OK, d')"
  shows "d' = Some (sha256_reference (evidence_digest_bytes c r))"
proof -
  obtain res t n where l: "local_transcript c = (res, t, n)" by (metis prod_cases3)
  then have ok: "res = GUARDIAN_SIGNED_EVIDENCE_OK" using assms(4) by (auto simp: guardian_signed_evidence_compute_digest_def split: if_splits)
  note k = local_transcript_ok [OF assms(1) l [unfolded ok]]
  have "length (wr_signature r) = 64" using assms(2) by (simp add: witness_sized_def)
  then have "d' = guardian_sha256 (Some (buf_write (replicate 320 0) 0 (evidence_digest_bytes c r))) 263 (Some d)"
    using assms(4) l ok k length_core_bytes [OF assms(1)]
    by (simp add: guardian_signed_evidence_compute_digest_def evidence_digest_bytes_def Let_def buf_write_adjacent)
  moreover have "length (evidence_digest_bytes c r) = 263"
    using length_core_bytes [OF assms(1)] assms(2) by (simp add: evidence_digest_bytes_def witness_sized_def)
  ultimately show ?thesis using assms(3)
    by (simp add: guardian_sha256_reference take_buf_write_0 buf_write_whole)
qed

section \<open>Accepting evidence\<close>

text \<open>What an accepted envelope rests on, in the context that accepts it.\<close>

definition evidence_justified :: "('p, 'l) guardian_signed_evidence \<Rightarrow> guardian_signed_evidence_envelope \<Rightarrow> bool" where
  "evidence_justified x e \<longleftrightarrow> (let c = ev_core e; r = ev_witness_record e; w = the (ex_witness x) in
     (\<exists>n. the (eg_lookup (ex_config x)) (eg_lookup_context (ex_config x)) (ec_producer_node_id c) (ec_producer_id c)
           (ec_producer_key_id c) zero_multinode_node GUARDIAN_SIGNED_EVIDENCE_TRUST_UNKNOWN = (True, n, GUARDIAN_SIGNED_EVIDENCE_TRUST_TRUSTED)
         \<and> mn_node_id n = ec_producer_node_id c \<and> mn_producer_id n = ec_producer_id c \<and> mn_key_id n = ec_producer_key_id c
         \<and> mn_role n = ec_producer_role c \<and> mn_capabilities n AND GUARDIAN_CAP_ACTUATION_GATE = 0
         \<and> guardian_signed_evidence_role_authorized (ec_evidence_class c) (Some n))
     \<and> the (wp_verify (wn_provider w)) (wp_context (wn_provider w)) GUARDIAN_SECURITY_WITNESS_SIGNATURE_ED25519 (mn_key_id (wn_self w))
         (witness_bytes r) (wr_signature r) = GUARDIAN_SECURITY_WITNESS_PROVIDER_OK
     \<and> wr_subject_node_id r = ec_producer_node_id c \<and> wr_subject_producer_id r = ec_producer_id c
     \<and> wr_subject_key_id r = ec_producer_key_id c \<and> wr_epoch r = ec_epoch c \<and> wr_sequence r = ec_sequence c
     \<and> wr_payload_digest r = sha256_reference (core_bytes c)
     \<and> ev_evidence_digest e = sha256_reference (evidence_digest_bytes c r)
     \<and> ec_actuation_authorized c = 0 \<and> wr_authority_flags r = 0 \<and> ec_epoch c \<noteq> 0)"

lemma role_authorized_no_gate:
  "guardian_signed_evidence_role_authorized k (Some n) \<Longrightarrow> mn_capabilities n AND GUARDIAN_CAP_ACTUATION_GATE = 0"
  by (simp add: guardian_signed_evidence_role_authorized_def split: if_splits)

lemma map_witness_result_ok:
  "guardian_signed_evidence_map_witness_result r = GUARDIAN_SIGNED_EVIDENCE_OK \<longleftrightarrow> r = GUARDIAN_SECURITY_WITNESS_OK"
  by (cases r) (simp_all add: guardian_signed_evidence_map_witness_result_def)

lemma evidence_checks_ok:
  assumes "envelope_sized e" "ex_witness x \<noteq> None" "evidence_checks x e v = (GUARDIAN_SIGNED_EVIDENCE_OK, v')"
  shows "evidence_justified x e" "v' = v\<lparr>vd_signature_valid := 1, vd_trusted := 1, vd_authorized := 1\<rparr>"
proof -
  let ?c = "ev_core e" and ?r = "ev_witness_record e"
  have cs: "core_sized ?c" "witness_sized ?r" "length (ev_evidence_digest e) = 32" using assms(1) by (simp_all add: envelope_sized_def)
  obtain res t n where l: "local_transcript ?c = (res, t, n)" by (metis prod_cases3)
  obtain w where w: "ex_witness x = Some w" using assms(2) by blast
  obtain f nd tr where lk: "the (eg_lookup (ex_config x)) (eg_lookup_context (ex_config x)) (ec_producer_node_id ?c) (ec_producer_id ?c)
           (ec_producer_key_id ?c) zero_multinode_node GUARDIAN_SIGNED_EVIDENCE_TRUST_UNKNOWN = (f, nd, tr)" by (metis prod_cases3)
  obtain dr d where dg: "guardian_signed_evidence_compute_digest (Some ?c) (Some ?r) (Some (replicate GUARDIAN_SHA256_SIZE 0)) = (dr, d)"
    by fastforce
  note chk = assms(3) [unfolded evidence_checks_def Let_def l dg lk w prod.case]
  have ok: "res = GUARDIAN_SIGNED_EVIDENCE_OK" using chk by (auto split: if_splits)
  note t = local_transcript_ok [OF cs(1) l [unfolded ok]]
  have ver: "guardian_security_witness_verify (Some w) (Some ?r) = GUARDIAN_SECURITY_WITNESS_OK"
    using chk by (auto simp: map_witness_result_ok split: if_splits)
  have dok: "dr = GUARDIAN_SIGNED_EVIDENCE_OK" using chk by (auto simp: map_witness_result_ok split: if_splits)
  have deq: "d = Some (sha256_reference (evidence_digest_bytes ?c ?r))"
    using compute_digest_ok [OF cs(1,2) _ dg [unfolded dok]] by simp
  have sha: "guardian_sha256 (Some t) n (Some (replicate GUARDIAN_SHA256_SIZE 0)) = Some (sha256_reference (core_bytes ?c))"
    using t by (simp add: guardian_sha256_reference buf_write_whole)
  have "length (wr_payload_digest ?r) = 32" using cs(2) by (simp add: witness_sized_def)
  then have eqs: "guardian_crypto_constant_time_equal (Some (sha256_reference (core_bytes ?c))) (Some (wr_payload_digest ?r)) GUARDIAN_SHA256_SIZE
      \<longleftrightarrow> sha256_reference (core_bytes ?c) = wr_payload_digest ?r"
    "guardian_crypto_constant_time_equal d (Some (ev_evidence_digest e)) GUARDIAN_SHA256_SIZE
      \<longleftrightarrow> sha256_reference (evidence_digest_bytes ?c ?r) = ev_evidence_digest e"
    using cs(3) by (simp_all add: deq constant_time_equal_full)
  note chk' = chk [unfolded sha eqs]
  have res: "f \<and> tr = GUARDIAN_SIGNED_EVIDENCE_TRUST_TRUSTED \<and> mn_node_id nd = ec_producer_node_id ?c \<and> mn_producer_id nd = ec_producer_id ?c
      \<and> mn_key_id nd = ec_producer_key_id ?c \<and> mn_role nd = ec_producer_role ?c
      \<and> guardian_signed_evidence_role_authorized (ec_evidence_class ?c) (Some nd)"
    "wr_subject_node_id ?r = ec_producer_node_id ?c \<and> wr_subject_producer_id ?r = ec_producer_id ?c
      \<and> wr_subject_key_id ?r = ec_producer_key_id ?c \<and> wr_epoch ?r = ec_epoch ?c \<and> wr_sequence ?r = ec_sequence ?c"
    "wr_payload_digest ?r = sha256_reference (core_bytes ?c)" "ev_evidence_digest e = sha256_reference (evidence_digest_bytes ?c ?r)"
    "v' = v\<lparr>vd_signature_valid := 1, vd_trusted := 1, vd_authorized := 1\<rparr>"
    using chk' by (auto simp: map_witness_result_ok split: if_splits)
  have "wr_authority_flags ?r = 0" "wr_signature_algorithm ?r = GUARDIAN_SECURITY_WITNESS_SIGNATURE_ED25519"
    using witness_verify_ok [OF cs(2) ver] by (simp_all add: guardian_security_witness_record_structurally_valid_def)
  moreover have "mn_capabilities nd AND GUARDIAN_CAP_ACTUATION_GATE = 0" using res(1) role_authorized_no_gate by blast
  moreover have "the (wp_verify (wn_provider w)) (wp_context (wn_provider w)) GUARDIAN_SECURITY_WITNESS_SIGNATURE_ED25519 (mn_key_id (wn_self w))
         (witness_bytes ?r) (wr_signature ?r) = GUARDIAN_SECURITY_WITNESS_PROVIDER_OK"
    using witness_verify_ok [OF cs(2) ver] calculation(2) by auto
  ultimately show "evidence_justified x e" using res(1-4) t
    unfolding evidence_justified_def Let_def w lk by simp
  show "v' = v\<lparr>vd_signature_valid := 1, vd_trusted := 1, vd_authorized := 1\<rparr>" by (fact res(5))
qed

lemma find_state_loop_some:
  "find_state_loop c i f ss = (Some k, f') \<Longrightarrow> i \<le> k \<and> k < i + length ss \<and> producer_matches c (ss ! (k - i))"
proof (induction c i f ss rule: find_state_loop.induct)
  case (2 c i f s ss)
  then show ?case by (cases "k = i") (auto simp: nth_Cons' split: if_splits)
qed simp

lemma find_state_loop_none:
  "find_state_loop c i f ss = (None, f') \<Longrightarrow> (\<forall>s\<in>set ss. \<not> producer_matches c s)
   \<and> (f = None \<longrightarrow> (\<forall>k. f' = Some k \<longrightarrow> i \<le> k \<and> k < i + length ss \<and> ep_active (ss ! (k - i)) = 0)) \<and> (f \<noteq> None \<longrightarrow> f' = f)"
proof (induction c i f ss rule: find_state_loop.induct)
  case (2 c i f s ss)
  then show ?case by (cases "f = None \<and> ep_active s = 0") (auto simp: nth_Cons' split: if_splits)
qed simp

lemma all_zero_iff:
  "length d = 32 \<Longrightarrow> guardian_signed_evidence_all_zero d \<longleftrightarrow> d = replicate 32 0"
  unfolding guardian_signed_evidence_all_zero_def fold_or_zero by (auto simp: list_eq_iff_nth_eq)

section \<open>The log of accepted evidence\<close>

text \<open>A run of the context: evidence is created, envelopes are offered, the witness signs for others, and the
  provider of trust behind the lookup changes its answers.  The log lists the accepted envelopes, each with the
  context that accepted it.\<close>

inductive evidence_trace ::
  "(('p, 'l) guardian_signed_evidence \<times> guardian_signed_evidence_envelope) list \<Rightarrow> ('p, 'l) guardian_signed_evidence \<Rightarrow> bool" where
  evidence_configured: "guardian_signed_evidence_configure (Some x0) w (Some g) = (GUARDIAN_SIGNED_EVIDENCE_OK, Some x)
    \<Longrightarrow> evidence_trace [] x"
| evidence_created: "evidence_trace log x
    \<Longrightarrow> guardian_signed_evidence_create (Some x) n k epoch sequence pd ad prev envelope = (r, Some x', envelope')
    \<Longrightarrow> evidence_trace log x'"
| evidence_accepted: "evidence_trace log x \<Longrightarrow> envelope_sized e
    \<Longrightarrow> guardian_signed_evidence_verify_and_accept (Some x) (Some e) (Some v) = (GUARDIAN_SIGNED_EVIDENCE_OK, Some x', Some v')
    \<Longrightarrow> evidence_trace (log @ [(x, e)]) x'"
| evidence_refused: "evidence_trace log x
    \<Longrightarrow> guardian_signed_evidence_verify_and_accept (Some x) envelope verdict = (r, Some x', verdict') \<Longrightarrow> r \<noteq> GUARDIAN_SIGNED_EVIDENCE_OK
    \<Longrightarrow> evidence_trace log x'"
| evidence_witness_used: "evidence_trace log x
    \<Longrightarrow> guardian_security_witness_create (ex_witness x) i record0 = (wr, w, record')
    \<Longrightarrow> evidence_trace log (x\<lparr>ex_witness := w\<rparr>)"
| evidence_trust_changed: "evidence_trace log x \<Longrightarrow> eg_lookup g \<noteq> None \<Longrightarrow> evidence_trace log (x\<lparr>ex_config := g\<rparr>)"

definition producer_of :: "guardian_signed_evidence_core \<Rightarrow> u32 \<times> u32 \<times> u32" where
  "producer_of c = (ec_producer_node_id c, ec_producer_id c, ec_producer_key_id c)"

definition state_producer :: "guardian_signed_evidence_producer_state \<Rightarrow> u32 \<times> u32 \<times> u32" where
  "state_producer s = (ep_producer_node_id s, ep_producer_id s, ep_producer_key_id s)"

definition from_producer :: "u32 \<times> u32 \<times> u32 \<Rightarrow> ('x \<times> guardian_signed_evidence_envelope) list \<Rightarrow> guardian_signed_evidence_envelope list" where
  "from_producer p log = filter (\<lambda>e. producer_of (ev_core e) = p) (map snd log)"

definition later_evidence :: "guardian_signed_evidence_core \<Rightarrow> guardian_signed_evidence_core \<Rightarrow> bool" where
  "later_evidence c d \<longleftrightarrow> ec_epoch c < ec_epoch d \<or> (ec_epoch c = ec_epoch d \<and> ec_sequence c < ec_sequence d)"

text \<open>A chain starts with no predecessor, and each item names the one before it and is later.\<close>

fun chained :: "guardian_signed_evidence_envelope option \<Rightarrow> guardian_signed_evidence_envelope list \<Rightarrow> bool" where
  "chained before [] \<longleftrightarrow> True"
| "chained before (e # es) \<longleftrightarrow>
     (case before of
        None \<Rightarrow> ec_previous_evidence_digest (ev_core e) = replicate 32 0
      | Some b \<Rightarrow> ec_previous_evidence_digest (ev_core e) = ev_evidence_digest b \<and> later_evidence (ev_core b) (ev_core e))
     \<and> chained (Some e) es"

lemma chained_snoc:
  "chained b (es @ [e]) \<longleftrightarrow> chained b es
     \<and> chained (if es = [] then b else Some (List.last es)) [e]"
  by (induction es arbitrary: b) auto

lemma producer_matches_iff: "producer_matches c s \<longleftrightarrow> ep_active s = 1 \<and> state_producer s = producer_of c"
  by (auto simp: producer_matches_def state_producer_def producer_of_def)

text \<open>The table holds, for each producer in the log, the end of its chain.\<close>

definition entry_holds :: "('x \<times> guardian_signed_evidence_envelope) list \<Rightarrow> guardian_signed_evidence_producer_state \<Rightarrow> bool" where
  "entry_holds log s \<longleftrightarrow> (let es = from_producer (state_producer s) log in
     es \<noteq> [] \<and> ep_last_evidence_digest s = ev_evidence_digest (List.last es)
     \<and> ep_accepted_epoch s = ec_epoch (ev_core (List.last es)) \<and> ep_accepted_sequence s = ec_sequence (ev_core (List.last es)))"

definition active_producers :: "guardian_signed_evidence_producer_state list \<Rightarrow> (u32 \<times> u32 \<times> u32) list" where
  "active_producers ss = map state_producer (filter (\<lambda>s. ep_active s = 1) ss)"

definition evidence_inv ::
  "(('p, 'l) guardian_signed_evidence \<times> guardian_signed_evidence_envelope) list \<Rightarrow> ('p, 'l) guardian_signed_evidence \<Rightarrow> bool" where
  "evidence_inv log x \<longleftrightarrow> length (ex_producers x) = 5
     \<and> (\<forall>s\<in>set (ex_producers x). ep_active s \<in> {0, 1} \<and> (ep_active s = 1 \<longrightarrow> entry_holds log s))
     \<and> distinct (active_producers (ex_producers x)) \<and> ex_producer_count x = length (active_producers (ex_producers x))
     \<and> set (active_producers (ex_producers x)) = (producer_of \<circ> ev_core \<circ> snd) ` set log
     \<and> (\<forall>p. chained None (from_producer p log)) \<and> (\<forall>(y, e)\<in>set log. envelope_sized e \<and> evidence_justified y e)"

lemma from_producer_snoc:
  "from_producer p (log @ [(x, e)]) = from_producer p log @ (if producer_of (ev_core e) = p then [e] else [])"
  by (simp add: from_producer_def)

lemma from_producer_Nil_iff: "from_producer p log = [] \<longleftrightarrow> p \<notin> (producer_of \<circ> ev_core \<circ> snd) ` set log"
  by (auto simp: from_producer_def filter_empty_conv)

lemma nth_split: "k < length ss \<Longrightarrow> \<exists>a b. ss = a @ ss ! k # b \<and> length a = k"
  by (rule exI [of _ "take k ss"], rule exI [of _ "drop (Suc k) ss"]) (simp add: id_take_nth_drop)

lemma active_producers_append [simp]:
  "active_producers (a @ b) = active_producers a @ active_producers b"
  "active_producers (s # b) = (if ep_active s = 1 then [state_producer s] else []) @ active_producers b"
  by (simp_all add: active_producers_def)

lemma evidence_inv_record:
  assumes inv: "evidence_inv log x" and e: "envelope_sized e" "evidence_justified x e" and k: "k < 5"
    and link: "if ep_active (ex_producers x ! k) = 1
      then producer_matches (ev_core e) (ex_producers x ! k)
        \<and> ec_previous_evidence_digest (ev_core e) = ep_last_evidence_digest (ex_producers x ! k)
        \<and> \<not> (ec_epoch (ev_core e) < ep_accepted_epoch (ex_producers x ! k)
          \<or> (ec_epoch (ev_core e) = ep_accepted_epoch (ex_producers x ! k) \<and> ec_sequence (ev_core e) \<le> ep_accepted_sequence (ex_producers x ! k)))
      else (\<forall>s\<in>set (ex_producers x). \<not> producer_matches (ev_core e) s) \<and> ec_previous_evidence_digest (ev_core e) = replicate 32 0"
  shows "evidence_inv (log @ [(x, e)]) (evidence_record x e k)"
proof -
  let ?s = "ex_producers x ! k" and ?p = "producer_of (ev_core e)" and ?log = "log @ [(x, e)]"
  note i = inv [unfolded evidence_inv_def]
  obtain a b where ab: "ex_producers x = a @ ?s # b" "length a = k" using nth_split k i by metis
  define s1 where "s1 = ex_producers (evidence_record x e k) ! k"
  have len: "length (ev_evidence_digest e) = 32" using e(1) by (simp add: envelope_sized_def)
  have ex: "ex_producers (evidence_record x e k) = a @ s1 # b"
    unfolding s1_def evidence_record_def Let_def by (subst (1 5) ab(1)) (simp add: ab(2) [symmetric])
  have act: "ep_active ?s = 0 \<or> ep_active ?s = 1" using i ab by (metis (no_types) in_set_conv_decomp insertE singletonD)
  have s1: "ep_active s1 = 1" "state_producer s1 = ?p" "ep_last_evidence_digest s1 = ev_evidence_digest e"
    "ep_accepted_epoch s1 = ec_epoch (ev_core e)" "ep_accepted_sequence s1 = ec_sequence (ev_core e)"
    using i k act link len by (auto simp: s1_def evidence_record_def producer_matches_iff Let_def state_producer_def producer_of_def split: if_splits)
  have new: "entry_holds ?log s1"
    using s1 by (simp add: entry_holds_def from_producer_snoc)
  have others: "entry_holds ?log s" if "s \<in> set a \<union> set b" "ep_active s = 1" for s
  proof -
    have "state_producer s \<noteq> ?p"
    proof (cases "ep_active ?s = 1")
      case True
      have "distinct (active_producers (a @ ?s # b))" using i ab(1) by simp
      then have "state_producer ?s \<notin> set (active_producers a) \<union> set (active_producers b)" using True by auto
      moreover have "state_producer s \<in> set (active_producers a) \<union> set (active_producers b)" using that by (auto simp: active_producers_def)
      ultimately show ?thesis using link True by (auto simp: producer_matches_iff)
    next
      case False
      then show ?thesis using link that ab(1) by (metis (no_types) Un_iff list.set_intros(2) producer_matches_iff set_append)
    qed
    moreover have "entry_holds log s" using i that ab(1) by (metis (no_types) Un_iff list.set_intros(2) set_append)
    ultimately show ?thesis by (simp add: entry_holds_def from_producer_snoc)
  qed
  have acts: "\<forall>s\<in>set (a @ s1 # b). ep_active s \<in> {0, 1} \<and> (ep_active s = 1 \<longrightarrow> entry_holds ?log s)"
  proof
    fix s assume "s \<in> set (a @ s1 # b)"
    then consider "s = s1" | "s \<in> set a \<union> set b" by auto
    then show "ep_active s \<in> {0, 1} \<and> (ep_active s = 1 \<longrightarrow> entry_holds ?log s)"
    proof cases
      case 2
      then have "s \<in> set (ex_producers x)" using ab(1) by (metis Un_iff list.set_intros(2) set_append)
      then show ?thesis using i others [OF 2] by blast
    qed (use new s1(1) in simp)
  qed
  let ?old = "active_producers (ex_producers x)" and ?new = "active_producers (a @ s1 # b)"
  have prods: "distinct ?new \<and> ex_producer_count (evidence_record x e k) = length ?new
      \<and> set ?new = insert ?p (set ?old) \<and> chained None (from_producer ?p ?log)"
  proof (cases "ep_active ?s = 1")
    case True
    then have p: "state_producer ?s = ?p" using link by (simp add: producer_matches_iff)
    then have "?new = ?old" "?p \<in> set ?old" using True s1 by (subst ab(1), simp)+
    then have sets: "?new = ?old" "set ?new = insert ?p (set ?old)" by auto
    have "entry_holds log ?s" using i True ab(1) by (metis (no_types) in_set_conv_decomp)
    then have "chained None (from_producer ?p ?log)" using i link True
      by (auto simp: p entry_holds_def Let_def from_producer_snoc chained_snoc later_evidence_def simp del: split_paired_All)
    moreover have "ex_producer_count (evidence_record x e k) = ex_producer_count x" using True by (simp add: evidence_record_def Let_def)
    ultimately show ?thesis using i sets by simp
  next
    case False
    have "?p \<notin> set ?old" using link False by (auto simp: active_producers_def producer_matches_iff)
    have "mset ?old = mset (active_producers a) + mset (active_producers b)" using False by (subst ab(1)) simp
    then have "mset ?new = mset (?p # ?old)" using s1 by simp
    note this mset_eq_imp_distinct_iff [OF this] mset_eq_setD [OF this] mset_eq_length [OF this]
    with \<open>?p \<notin> set ?old\<close> show ?thesis using i act False link
      by (simp add: evidence_record_def Let_def from_producer_snoc chained_snoc from_producer_Nil_iff [THEN iffD2])
  qed
  have old: "chained None (from_producer p log)" for p using i by blast
  have "chained None (from_producer p ?log)" for p
    using prods old by (cases "p = ?p") (simp_all add: from_producer_snoc)
  moreover have "set ?new = (producer_of \<circ> ev_core \<circ> snd) ` set ?log" using prods i by auto
  moreover have "length (a @ s1 # b) = 5" using i ab(1) by (metis length_append length_Cons)
  moreover have "\<forall>(y, e)\<in>set ?log. envelope_sized e \<and> evidence_justified y e" using i e by auto
  ultimately show ?thesis using acts prods unfolding evidence_inv_def ex by blast
qed

lemma evidence_link_cases:
  assumes "evidence_link x e v = (r, x', v')"
  shows "(r \<noteq> GUARDIAN_SIGNED_EVIDENCE_OK \<and> x' = x \<and> vd_accepted v' = vd_accepted v) \<or> (r = GUARDIAN_SIGNED_EVIDENCE_OK
    \<and> v' = v\<lparr>vd_chain_valid := 1, vd_fresh := 1, vd_accepted := 1, vd_actuation_authorized := GUARDIAN_SIGNED_EVIDENCE_AUTHORITY_NONE\<rparr>
    \<and> (\<exists>k. x' = evidence_record x e k \<and>
       ((\<exists>f. guardian_signed_evidence_find_state x (ev_core e) = (Some k, f)
          \<and> guardian_crypto_constant_time_equal (Some (ec_previous_evidence_digest (ev_core e)))
              (Some (ep_last_evidence_digest (ex_producers x ! k))) GUARDIAN_SHA256_SIZE
          \<and> \<not> (ec_epoch (ev_core e) < ep_accepted_epoch (ex_producers x ! k)
            \<or> (ec_epoch (ev_core e) = ep_accepted_epoch (ex_producers x ! k) \<and> ec_sequence (ev_core e) \<le> ep_accepted_sequence (ex_producers x ! k))))
        \<or> (guardian_signed_evidence_find_state x (ev_core e) = (None, Some k)
          \<and> guardian_signed_evidence_all_zero (ec_previous_evidence_digest (ev_core e))))))"
  using assms unfolding evidence_link_def Let_def by (auto split: prod.splits option.splits if_splits)

lemma evidence_link_inv:
  assumes inv: "evidence_inv log x" and e: "envelope_sized e" "evidence_justified x e"
    and link: "evidence_link x e v = (GUARDIAN_SIGNED_EVIDENCE_OK, x', v')"
  shows "evidence_inv (log @ [(x, e)]) x'"
proof -
  have ps: "length (ex_producers x) = 5" using inv by (simp add: evidence_inv_def)
  have es: "length (ec_previous_evidence_digest (ev_core e)) = 32" using e(1) by (simp add: envelope_sized_def core_sized_def)
  obtain k where k: "x' = evidence_record x e k" and c: "(\<exists>f. guardian_signed_evidence_find_state x (ev_core e) = (Some k, f)
          \<and> guardian_crypto_constant_time_equal (Some (ec_previous_evidence_digest (ev_core e)))
              (Some (ep_last_evidence_digest (ex_producers x ! k))) GUARDIAN_SHA256_SIZE
          \<and> \<not> (ec_epoch (ev_core e) < ep_accepted_epoch (ex_producers x ! k)
            \<or> (ec_epoch (ev_core e) = ep_accepted_epoch (ex_producers x ! k) \<and> ec_sequence (ev_core e) \<le> ep_accepted_sequence (ex_producers x ! k))))
        \<or> (guardian_signed_evidence_find_state x (ev_core e) = (None, Some k)
          \<and> guardian_signed_evidence_all_zero (ec_previous_evidence_digest (ev_core e)))"
    using evidence_link_cases [OF link] by blast
  show ?thesis unfolding k using c
  proof
    assume "\<exists>f. guardian_signed_evidence_find_state x (ev_core e) = (Some k, f)
          \<and> guardian_crypto_constant_time_equal (Some (ec_previous_evidence_digest (ev_core e)))
              (Some (ep_last_evidence_digest (ex_producers x ! k))) GUARDIAN_SHA256_SIZE
          \<and> \<not> (ec_epoch (ev_core e) < ep_accepted_epoch (ex_producers x ! k)
            \<or> (ec_epoch (ev_core e) = ep_accepted_epoch (ex_producers x ! k) \<and> ec_sequence (ev_core e) \<le> ep_accepted_sequence (ex_producers x ! k)))"
    then obtain f where f: "find_state_loop (ev_core e) 0 None (ex_producers x) = (Some k, f)"
      and eq: "guardian_crypto_constant_time_equal (Some (ec_previous_evidence_digest (ev_core e)))
              (Some (ep_last_evidence_digest (ex_producers x ! k))) GUARDIAN_SHA256_SIZE"
      and late: "\<not> (ec_epoch (ev_core e) < ep_accepted_epoch (ex_producers x ! k)
            \<or> (ec_epoch (ev_core e) = ep_accepted_epoch (ex_producers x ! k) \<and> ec_sequence (ev_core e) \<le> ep_accepted_sequence (ex_producers x ! k)))"
      unfolding guardian_signed_evidence_find_state_def by blast
    have m: "k < 5" "producer_matches (ev_core e) (ex_producers x ! k)" using find_state_loop_some [OF f] ps by simp_all
    then have a: "ep_active (ex_producers x ! k) = 1" by (simp add: producer_matches_def)
    then have "entry_holds log (ex_producers x ! k)" using inv m(1) ps by (simp add: evidence_inv_def)
    then obtain d where "d \<in> set (map snd log)" "ep_last_evidence_digest (ex_producers x ! k) = ev_evidence_digest d"
      unfolding entry_holds_def Let_def from_producer_def by (metis filter_is_subset last_in_set subsetD)
    then have "length (ep_last_evidence_digest (ex_producers x ! k)) = 32"
      using inv by (auto simp: evidence_inv_def envelope_sized_def)
    then show "evidence_inv (log @ [(x, e)]) (evidence_record x e k)"
      using eq es late m a by (intro evidence_inv_record [OF inv e]) (simp_all add: constant_time_equal_full)
  next
    assume n: "guardian_signed_evidence_find_state x (ev_core e) = (None, Some k)
          \<and> guardian_signed_evidence_all_zero (ec_previous_evidence_digest (ev_core e))"
    then have "\<forall>s\<in>set (ex_producers x). \<not> producer_matches (ev_core e) s" "k < 5" "ep_active (ex_producers x ! k) = 0"
      using find_state_loop_none [of "ev_core e" 0 None "ex_producers x" "Some k"] ps
      unfolding guardian_signed_evidence_find_state_def by auto
    then show "evidence_inv (log @ [(x, e)]) (evidence_record x e k)"
      using n es by (intro evidence_inv_record [OF inv e]) (simp_all add: all_zero_iff)
  qed
qed

lemma verify_and_accept_cases:
  assumes "guardian_signed_evidence_verify_and_accept (Some x) (Some e) (Some v0) = (r, Some x', Some v')" "envelope_sized e"
  shows "(r \<noteq> GUARDIAN_SIGNED_EVIDENCE_OK \<and> x' = x \<and> vd_accepted v' = 0) \<or> (r = GUARDIAN_SIGNED_EVIDENCE_OK \<and> evidence_justified x e
     \<and> (\<exists>v. evidence_link x e v = (GUARDIAN_SIGNED_EVIDENCE_OK, x', v')) \<and> vd_accepted v' = 1 \<and> vd_actuation_authorized v' = 0)"
proof (cases "ex_initialized x \<noteq> 1 \<or> ex_witness x = None \<or> eg_lookup (ex_config x) = None")
  case False
  obtain cr v where c: "evidence_checks x e (zero_verdict\<lparr>vd_actuation_authorized := 0\<rparr>) = (cr, v)" by fastforce
  obtain lr x1 v1 where l: "evidence_link x e v = (lr, x1, v1)" by (metis prod_cases3)
  have acc: "vd_accepted v = 0" using c by (auto simp: evidence_checks_def zero_verdict_def Let_def split: prod.splits if_splits)
  show ?thesis
  proof (cases "cr = GUARDIAN_SIGNED_EVIDENCE_OK")
    case True
    then show ?thesis using False assms(1) c l acc evidence_checks_ok(1) [OF assms(2) _ c [unfolded True]] evidence_link_cases [OF l]
      by (auto simp: guardian_signed_evidence_verify_and_accept_def)
  next
    case f: False
    then show ?thesis using False assms(1) c acc by (auto simp: guardian_signed_evidence_verify_and_accept_def)
  qed
next
  case True
  then have "r = GUARDIAN_SIGNED_EVIDENCE_ERROR_INVALID_CONFIG \<and> x' = x \<and> v' = zero_verdict"
    using assms(1) by (simp add: guardian_signed_evidence_verify_and_accept_def)
  then show ?thesis by (simp add: zero_verdict_def)
qed

lemma refused_keeps_context:
  assumes "guardian_signed_evidence_verify_and_accept (Some x) e v = (r, Some x', v')" "r \<noteq> GUARDIAN_SIGNED_EVIDENCE_OK"
  shows "x' = x"
proof -
  have "x1 = x" if "evidence_link x e v = (r, x1, v1)" for e v x1 v1 using evidence_link_cases [OF that] assms(2) by blast
  then show ?thesis using assms by (auto simp: guardian_signed_evidence_verify_and_accept_def split: option.splits if_splits prod.splits)
qed

lemma verdict_never_actuates:
  assumes "guardian_signed_evidence_verify_and_accept (Some x) (Some e) (Some v) = (r, x', Some v')"
  shows "vd_actuation_authorized v' = 0"
proof -
  have "vd_actuation_authorized v1 = 0" if "evidence_checks x e (zero_verdict\<lparr>vd_actuation_authorized := 0\<rparr>) = (r, v1)" for r v1
    using that by (auto simp: evidence_checks_def zero_verdict_def Let_def split: prod.splits if_splits)
  moreover have "vd_actuation_authorized v2 = 0" if "evidence_link x e v1 = (r, y, v2)" "vd_actuation_authorized v1 = 0" for v1 r y v2
    using that by (auto simp: evidence_link_def Let_def split: prod.splits option.splits if_splits)
  moreover have "vd_actuation_authorized zero_verdict = 0" by (simp add: zero_verdict_def)
  ultimately show ?thesis using assms by (auto simp: guardian_signed_evidence_verify_and_accept_def split: if_splits prod.splits)
qed

lemma evidence_inv_congs:
  "ex_producers x' = ex_producers x \<Longrightarrow> ex_producer_count x' = ex_producer_count x \<Longrightarrow> evidence_inv log x \<Longrightarrow> evidence_inv log x'"
  by (simp add: evidence_inv_def)

lemma create_keeps_producers:
  assumes "guardian_signed_evidence_create (Some x) n k epoch sequence pd ad prev envelope = (r, Some x', envelope')"
  shows "ex_producers x' = ex_producers x \<and> ex_producer_count x' = ex_producer_count x"
  using assms by (auto simp: guardian_signed_evidence_create_def Let_def split: option.splits if_splits prod.splits)

lemma configured_inv:
  assumes "guardian_signed_evidence_configure (Some x0) w (Some g) = (GUARDIAN_SIGNED_EVIDENCE_OK, Some x)"
  shows "evidence_inv [] x"
proof -
  have "ex_producers x = replicate 5 zero_producer_state \<and> ex_producer_count x = 0"
    using assms by (auto simp: guardian_signed_evidence_configure_def guardian_signed_evidence_init_def zero_signed_evidence_def
        split: option.splits if_splits)
  then show ?thesis
    by (auto simp: evidence_inv_def active_producers_def zero_producer_state_def from_producer_def)
qed

lemma evidence_trace_inv: "evidence_trace log x \<Longrightarrow> evidence_inv log x"
proof (induction rule: evidence_trace.induct)
  case (evidence_accepted log x e v x' v')
  show ?case using verify_and_accept_cases [OF evidence_accepted.hyps(3,2)] evidence_link_inv [OF evidence_accepted.IH evidence_accepted.hyps(2)]
    by blast
next
  case (evidence_refused log x envelope verdict r x' verdict')
  then show ?case using refused_keeps_context by blast
next
  case (evidence_created log x n k epoch sequence pd ad prev envelope r x' envelope')
  then show ?case using create_keeps_producers evidence_inv_congs by blast
qed (auto intro: configured_inv elim: evidence_inv_congs [rotated 2])

section \<open>Properties\<close>

text \<open>C34: Accepted evidence forms authentic chains.  In every run of a configured context, with evidence created,
  envelopes offered and the trust in producers changing between calls, each accepted envelope was found, at that
  moment, to come from a trusted producer whose role may make that kind of claim and who cannot actuate, with a
  witness signature the provider accepts over the exact bytes of the record, the record over the SHA-256 of the core and the
  evidence digest over core and signature.  The accepted envelopes of one producer form a chain: the first has
  no predecessor, each other names the digest of the one before it and has a later epoch or sequence.  At most five producers are tracked,
  no verdict ever authorizes actuation, and a verdict says accepted exactly if the call does.\<close>

theorem accepted_evidence_is_chained:
  assumes "evidence_trace log x"
  shows "(\<forall>(y, e)\<in>set log. evidence_justified y e) \<and> (\<forall>p. chained None (from_producer p log))
    \<and> ex_producer_count x = card ((producer_of \<circ> ev_core \<circ> snd) ` set log) \<and> ex_producer_count x \<le> 5
    \<and> (\<forall>e v r x' v'. envelope_sized e \<and> guardian_signed_evidence_verify_and_accept (Some x) (Some e) (Some v) = (r, Some x', Some v')
        \<longrightarrow> vd_actuation_authorized v' = 0 \<and> (vd_accepted v' = 1 \<longleftrightarrow> r = GUARDIAN_SIGNED_EVIDENCE_OK))"
proof -
  note i = evidence_trace_inv [OF assms, unfolded evidence_inv_def]
  have "length (active_producers (ex_producers x)) \<le> length (ex_producers x)" by (simp add: active_producers_def)
  moreover have "card ((producer_of \<circ> ev_core \<circ> snd) ` set log) = length (active_producers (ex_producers x))"
    using i by (metis distinct_card)
  moreover have "vd_actuation_authorized v' = 0 \<and> (vd_accepted v' = 1 \<longleftrightarrow> r = GUARDIAN_SIGNED_EVIDENCE_OK)"
    if "envelope_sized e" "guardian_signed_evidence_verify_and_accept (Some x) (Some e) (Some v) = (r, Some x', Some v')" for e v r x' v'
    using verify_and_accept_cases [OF that(2,1)] verdict_never_actuates [OF that(2)] by auto
  ultimately show ?thesis using i by auto
qed


text \<open>The converse of the checks: an envelope made as the code makes it passes them.\<close>

lemma evidence_checks_complete:
  assumes "envelope_sized e" "evidence_justified x e" "ex_witness x = Some w" "wn_initialized w = 1"
    and "guardian_security_witness_record_structurally_valid (ev_witness_record e)"
    and "wr_witness_node_id (ev_witness_record e) = mn_node_id (wn_self w)"
      "wr_witness_producer_id (ev_witness_record e) = mn_producer_id (wn_self w)"
      "wr_witness_key_id (ev_witness_record e) = mn_key_id (wn_self w)"
    and "ec_schema_version (ev_core e) = GUARDIAN_SIGNED_EVIDENCE_SCHEMA_VERSION"
      "guardian_signed_evidence_class_valid (ec_evidence_class (ev_core e))"
      "wr_evidence_type (ev_witness_record e) = guardian_signed_evidence_witness_type (ec_evidence_class (ev_core e))"
    and "\<And>n. the (eg_lookup (ex_config x)) (eg_lookup_context (ex_config x)) (ec_producer_node_id (ev_core e)) (ec_producer_id (ev_core e))
           (ec_producer_key_id (ev_core e)) zero_multinode_node 0 = (True, n, 1)
         \<Longrightarrow> guardian_multinode_validate_node (Some n) = GUARDIAN_MULTINODE_OK"
  shows "fst (evidence_checks x e v) = GUARDIAN_SIGNED_EVIDENCE_OK"
proof -
  let ?c = "ev_core e" and ?r = "ev_witness_record e"
  have cs: "core_sized ?c" "witness_sized ?r" "length (ev_evidence_digest e) = 32" using assms(1) by (simp_all add: envelope_sized_def)
  note j = assms(2) [unfolded evidence_justified_def Let_def assms(3) option.sel]
  obtain n where n: "the (eg_lookup (ex_config x)) (eg_lookup_context (ex_config x)) (ec_producer_node_id ?c) (ec_producer_id ?c)
           (ec_producer_key_id ?c) zero_multinode_node 0 = (True, n, 1)"
    "mn_node_id n = ec_producer_node_id ?c" "mn_producer_id n = ec_producer_id ?c" "mn_key_id n = ec_producer_key_id ?c"
    "mn_role n = ec_producer_role ?c" "guardian_signed_evidence_role_authorized (ec_evidence_class ?c) (Some n)" using j by blast
  have v: "guardian_multinode_validate_node (Some n) = GUARDIAN_MULTINODE_OK" by (rule assms(12) [OF n(1)])
  then have nz: "ec_producer_node_id ?c \<noteq> 0" "ec_producer_id ?c \<noteq> 0" "ec_producer_key_id ?c \<noteq> 0" "ec_producer_role ?c \<noteq> 0"
    using n(2-5) by (auto simp: guardian_multinode_validate_node_def split: if_splits)
  have r: "ec_epoch ?c \<noteq> 0" "ec_sequence ?c \<noteq> 0" using j assms(5) by (auto simp: guardian_security_witness_record_structurally_valid_def)
  let ?t = "buf_write (buf_write (replicate 192 0) 0 (replicate 192 0)) 0 (core_bytes ?c)"
  have t: "local_transcript ?c = (GUARDIAN_SIGNED_EVIDENCE_OK, ?t, 156)"
    using j assms(9,10) nz r cs(1) by (simp add: local_transcript_def guardian_signed_evidence_build_transcript_def core_transcript_store_bytes Let_def)
  have sha: "guardian_sha256 (Some ?t) 156 (Some (replicate GUARDIAN_SHA256_SIZE 0)) = Some (sha256_reference (core_bytes ?c))"
    using length_core_bytes [OF cs(1)] by (simp add: guardian_sha256_reference buf_write_whole take_buf_write_0)
  obtain dr d where dg: "guardian_signed_evidence_compute_digest (Some ?c) (Some ?r) (Some (replicate GUARDIAN_SHA256_SIZE 0)) = (dr, d)"
    by fastforce
  have dok: "dr = GUARDIAN_SIGNED_EVIDENCE_OK"
    using dg t by (simp add: guardian_signed_evidence_compute_digest_def Let_def)
  have deq: "d = Some (sha256_reference (evidence_digest_bytes ?c ?r))"
    using compute_digest_ok [OF cs(1,2) _ dg [unfolded dok]] by simp
  have wv: "guardian_security_witness_verify (Some w) (Some ?r) = GUARDIAN_SECURITY_WITNESS_OK"
    using j assms(4-8) cs(2) length_witness_bytes [OF cs(2)]
    by (simp add: guardian_security_witness_verify_def guardian_security_witness_build_transcript_def witness_transcript_store_bytes
        Let_def take_buf_write_0 guardian_security_witness_map_provider_def)
       (simp add: guardian_security_witness_record_structurally_valid_def)
  have "guardian_crypto_constant_time_equal (Some (sha256_reference (core_bytes ?c))) (Some (wr_payload_digest ?r)) GUARDIAN_SHA256_SIZE"
    "guardian_crypto_constant_time_equal d (Some (ev_evidence_digest e)) GUARDIAN_SHA256_SIZE"
    using j by (simp_all add: deq constant_time_equal_full)
  then show ?thesis using j assms(11) n v sha dok wv
    by (simp add: evidence_checks_def Let_def t sha dg assms(3))
qed

text \<open>A measurement node signs two items, the second naming the first; both are accepted.\<close>

definition sample_producer :: guardian_multinode_node where
  "sample_producer = zero_multinode_node\<lparr>mn_node_id := 21, mn_producer_id := 22, mn_key_id := 23, mn_role := GUARDIAN_NODE_ROLE_ST_MEASUREMENT_REFERENCE,
     mn_authority_class := GUARDIAN_AUTHORITY_CLASS_OBSERVE,
     mn_capabilities := guardian_multinode_required_capabilities GUARDIAN_NODE_ROLE_ST_MEASUREMENT_REFERENCE\<rparr>"

definition sample_witness :: "unit guardian_security_witness_node" where
  "sample_witness = zero_witness_node\<lparr>wn_self := zero_multinode_node\<lparr>mn_node_id := 31, mn_producer_id := 32, mn_key_id := 33\<rparr>,
     wn_provider := \<lparr>wp_context = None, wp_sign = Some (\<lambda>_ _ _ _ _. (0, replicate 64 7)),
       wp_verify = Some (\<lambda>_ _ _ _ s. if s = replicate 64 7 then 0 else 1), wp_signature_algorithm = 1\<rparr>, wn_initialized := 1\<rparr>"

definition sample_evidence_config :: "unit guardian_signed_evidence_config" where
  "sample_evidence_config = \<lparr>eg_lookup = Some (\<lambda>_ _ _ _ _ _. (True, sample_producer, 1)), eg_lookup_context = None\<rparr>"

definition sample_evidence :: "(unit, unit) guardian_signed_evidence" where
  "sample_evidence = zero_signed_evidence\<lparr>ex_witness := Some sample_witness, ex_config := sample_evidence_config, ex_initialized := 1\<rparr>"

definition sample_envelope :: "u32 \<Rightarrow> u8 list \<Rightarrow> guardian_signed_evidence_envelope" where
  "sample_envelope sequence prev =
     (let c = \<lparr>ec_schema_version = 1, ec_evidence_class = GUARDIAN_SIGNED_EVIDENCE_CLASS_MEASUREMENT,
            ec_producer_role = GUARDIAN_NODE_ROLE_ST_MEASUREMENT_REFERENCE, ec_actuation_authorized = 0, ec_producer_node_id = 21,
            ec_producer_id = 22, ec_producer_key_id = 23, ec_epoch = 1, ec_sequence = sequence,
            ec_payload_digest = replicate 32 5, ec_analysis_digest = replicate 32 6, ec_previous_evidence_digest = prev\<rparr>;
          r = \<lparr>wr_schema_version = 1, wr_evidence_type = GUARDIAN_SECURITY_WITNESS_EVIDENCE_OBSERVATION, wr_signature_algorithm = 1,
            wr_authority_flags = 0, wr_witness_node_id = 31, wr_witness_producer_id = 32, wr_witness_key_id = 33,
            wr_subject_node_id = 21, wr_subject_producer_id = 22, wr_subject_key_id = 23, wr_epoch = 1, wr_sequence = sequence,
            wr_payload_length = 156, wr_payload_digest = sha256_reference (core_bytes c), wr_signature = replicate 64 7\<rparr> in
      \<lparr>ev_core = c, ev_witness_record = r, ev_evidence_digest = sha256_reference (evidence_digest_bytes c r)\<rparr>)"

lemma sample_producer_ok:
  "guardian_multinode_validate_node (Some sample_producer) = GUARDIAN_MULTINODE_OK"
  "guardian_signed_evidence_role_authorized GUARDIAN_SIGNED_EVIDENCE_CLASS_MEASUREMENT (Some sample_producer)"
  "mn_capabilities sample_producer AND GUARDIAN_CAP_ACTUATION_GATE = 0"
  by code_simp+

lemma sample_envelope_checked:
  assumes "length prev = 32" "sequence \<noteq> 0" "ex_witness x = Some sample_witness" "ex_config x = sample_evidence_config"
  shows "fst (evidence_checks x (sample_envelope sequence prev) v) = GUARDIAN_SIGNED_EVIDENCE_OK \<and> envelope_sized (sample_envelope sequence prev)"
proof -
  have s: "envelope_sized (sample_envelope sequence prev)"
    using assms(1) by (simp add: sample_envelope_def Let_def envelope_sized_def core_sized_def witness_sized_def)
  have j: "evidence_justified x (sample_envelope sequence prev)"
    using assms sample_producer_ok(2,3) unfolding evidence_justified_def
    by (simp add: sample_envelope_def Let_def sample_evidence_config_def sample_witness_def sample_producer_def)
  have "fst (evidence_checks x (sample_envelope sequence prev) v) = GUARDIAN_SIGNED_EVIDENCE_OK"
    using assms(2,4) sample_producer_ok(1)
    by (intro evidence_checks_complete [OF s j assms(3)])
      (simp_all add: sample_envelope_def sample_witness_def sample_evidence_config_def Let_def guardian_security_witness_record_structurally_valid_def
        guardian_security_witness_evidence_type_valid_def guardian_signed_evidence_class_valid_def guardian_signed_evidence_witness_type_def
        zero_multinode_node_def)
  with s show ?thesis by blast
qed

lemma accept_step:
  assumes "evidence_trace log x" "ex_witness x = Some sample_witness" "ex_config x = sample_evidence_config" "ex_initialized x = 1"
    and "length prev = 32" "sequence \<noteq> 0" "\<And>v. \<exists>v'. evidence_link x (sample_envelope sequence prev) v = (GUARDIAN_SIGNED_EVIDENCE_OK, y, v')"
  shows "evidence_trace (log @ [(x, sample_envelope sequence prev)]) y"
proof -
  let ?e = "sample_envelope sequence prev"
  obtain v where v: "evidence_checks x ?e (zero_verdict\<lparr>vd_actuation_authorized := 0\<rparr>) = (GUARDIAN_SIGNED_EVIDENCE_OK, v)"
    using sample_envelope_checked [OF assms(5,6,2,3)] by (metis prod.collapse)
  obtain v' where "evidence_link x ?e v = (GUARDIAN_SIGNED_EVIDENCE_OK, y, v')" using assms(7) by blast
  then have "guardian_signed_evidence_verify_and_accept (Some x) (Some ?e) (Some zero_verdict) = (GUARDIAN_SIGNED_EVIDENCE_OK, Some y, Some v')"
    using assms(2-4) v by (simp add: guardian_signed_evidence_verify_and_accept_def sample_evidence_config_def)
  then show ?thesis using assms(1) sample_envelope_checked [OF assms(5,6,2,3)] by (blast intro: evidence_accepted)
qed

theorem accepted_evidence_is_chained_witness:
  "\<exists>log (x :: (unit, unit) guardian_signed_evidence). evidence_trace log x \<and> length (from_producer (21, 22, 23) log) = 2 \<and> chained None (from_producer (21, 22, 23) log)
     \<and> ex_producer_count x = card ((producer_of \<circ> ev_core \<circ> snd) ` set log)"
proof -
  let ?e1 = "sample_envelope 1 (replicate 32 0)"
  let ?e2 = "sample_envelope 2 (ev_evidence_digest ?e1)"
  let ?x1 = "evidence_record sample_evidence ?e1 0"
  let ?x2 = "evidence_record ?x1 ?e2 0"
  have core: "ec_producer_node_id (ev_core (sample_envelope s p)) = 21" "ec_producer_id (ev_core (sample_envelope s p)) = 22"
    "ec_producer_key_id (ev_core (sample_envelope s p)) = 23" "ec_epoch (ev_core (sample_envelope s p)) = 1"
    "ec_sequence (ev_core (sample_envelope s p)) = s" "ec_previous_evidence_digest (ev_core (sample_envelope s p)) = p"
    "length (ev_evidence_digest (sample_envelope s p)) = 32" for s p
    by (simp_all add: sample_envelope_def Let_def)
  have "eg_lookup sample_evidence_config \<noteq> None" "wn_initialized sample_witness = 1"
    by (simp_all add: sample_evidence_config_def sample_witness_def)
  then have "guardian_signed_evidence_configure (Some zero_signed_evidence) (Some sample_witness) (Some sample_evidence_config)
      = (GUARDIAN_SIGNED_EVIDENCE_OK, Some sample_evidence)"
    by (simp add: guardian_signed_evidence_configure_def guardian_signed_evidence_init_def sample_evidence_def)
  then have t0: "evidence_trace [] sample_evidence" by (rule evidence_configured)
  have f0: "guardian_signed_evidence_find_state sample_evidence (ev_core ?e1) = (None, Some 0)"
    by (simp add: guardian_signed_evidence_find_state_def sample_evidence_def zero_signed_evidence_def zero_producer_state_def
        producer_matches_def numeral_eq_Suc)
  have t1: "evidence_trace ([] @ [(sample_evidence, ?e1)]) ?x1"
    by (rule accept_step [OF t0]) (simp_all add: evidence_link_def Let_def f0 core all_zero_iff, simp_all add: sample_evidence_def)
  have p1: "ex_producers ?x1 ! 0 = zero_producer_state\<lparr>ep_producer_node_id := 21, ep_producer_id := 22, ep_producer_key_id := 23,
      ep_producer_role := ec_producer_role (ev_core ?e1), ep_active := 1, ep_accepted_epoch := 1, ep_accepted_sequence := 1,
      ep_last_evidence_digest := ev_evidence_digest ?e1\<rparr>" "0 < length (ex_producers ?x1)"
    by (simp_all add: evidence_record_def sample_evidence_def zero_signed_evidence_def zero_producer_state_def Let_def core)
  obtain s ss where ss: "ex_producers ?x1 = s # ss" using p1(2) by (metis length_greater_0_conv neq_Nil_conv)
  then have f1: "guardian_signed_evidence_find_state ?x1 (ev_core ?e2) = (Some 0, None)"
    using p1(1) by (simp add: guardian_signed_evidence_find_state_def producer_matches_def core)
  have t2: "evidence_trace (([] @ [(sample_evidence, ?e1)]) @ [(?x1, ?e2)]) ?x2"
    by (rule accept_step [OF t1])
      (simp_all add: evidence_link_def Let_def f1 p1(1) core constant_time_equal_full word_le_nat_alt,
       simp_all add: evidence_record_def sample_evidence_def Let_def)
  moreover have "length (from_producer (21, 22, 23) (([] @ [(sample_evidence, ?e1)]) @ [(?x1, ?e2)])) = 2"
    by (simp add: from_producer_def producer_of_def core)
  ultimately obtain log and x :: "(unit, unit) guardian_signed_evidence" where log: "evidence_trace log x" "length (from_producer (21, 22, 23) log) = 2"
    by blast
  have "chained None (from_producer (21, 22, 23) log)" "ex_producer_count x = card ((producer_of \<circ> ev_core \<circ> snd) ` set log)"
    using accepted_evidence_is_chained [OF log(1)] by blast+
  with log show ?thesis by (intro exI conjI)
qed

end
