(* ===== verification/Guardian_High_Compute.thy ===== *)
theory Guardian_High_Compute
  imports Guardian_Multinode Guardian_Acquisition "HOL-Library.Monad_Syntax"
begin

text \<open>
  The high-compute node (\<open>src/firmware/MultiNode/Src/guardian_high_compute_node.c\<close>): statistics of one window
  of samples, and correlation and fusion of two windows.  The node only observes.  Signed sums and products are
  \<open>int64_t\<close> in C, whose overflow is undefined; where the code does not exclude it the model computes with
  \<open>i64\<close>, which gives no result on overflow.  The digit-by-digit square root is the loop of the acquisition.
\<close>

unbundle bit_operations_syntax

section \<open>Types\<close>

abbreviation (input) GUARDIAN_HIGH_COMPUTE_MAX_SAMPLES :: nat where "GUARDIAN_HIGH_COMPUTE_MAX_SAMPLES \<equiv> 16"
abbreviation (input) GUARDIAN_HIGH_COMPUTE_MAX_QUALITY :: u8 where "GUARDIAN_HIGH_COMPUTE_MAX_QUALITY \<equiv> 100"
abbreviation (input) GUARDIAN_HIGH_COMPUTE_NORMALIZED_LIMIT_MILLI :: int where "GUARDIAN_HIGH_COMPUTE_NORMALIZED_LIMIT_MILLI \<equiv> 100000"
abbreviation (input) GUARDIAN_HIGH_COMPUTE_CORRELATION_SCALE :: int where "GUARDIAN_HIGH_COMPUTE_CORRELATION_SCALE \<equiv> 1000"
abbreviation (input) GUARDIAN_HIGH_COMPUTE_AUTHORITY_NONE :: u8 where "GUARDIAN_HIGH_COMPUTE_AUTHORITY_NONE \<equiv> 0"

datatype guardian_high_compute_result =
    GUARDIAN_HIGH_COMPUTE_OK | GUARDIAN_HIGH_COMPUTE_ERROR_NULL_ARGUMENT | GUARDIAN_HIGH_COMPUTE_ERROR_INVALID_NODE
  | GUARDIAN_HIGH_COMPUTE_ERROR_INVALID_POLICY | GUARDIAN_HIGH_COMPUTE_ERROR_INVALID_WINDOW
  | GUARDIAN_HIGH_COMPUTE_ERROR_SEQUENCE_REGRESSION | GUARDIAN_HIGH_COMPUTE_ERROR_TIMESTAMP_REGRESSION
  | GUARDIAN_HIGH_COMPUTE_ERROR_OUT_OF_RANGE | GUARDIAN_HIGH_COMPUTE_ERROR_SATURATED | GUARDIAN_HIGH_COMPUTE_ERROR_QUALITY
  | GUARDIAN_HIGH_COMPUTE_ERROR_CORRELATION_UNDEFINED | GUARDIAN_HIGH_COMPUTE_ERROR_ACTUATION_PROHIBITED

record guardian_high_compute_policy =
  hp_minimum_quality :: u8
  hp_drift_threshold_milli :: u32
  hp_minimum_correlation_milli :: i32

record guardian_high_compute_sample =
  hs_sequence :: u32
  hs_timestamp_us :: u64
  hs_normalized_milli :: i32
  hs_quality :: u8
  hs_saturated :: u8

text \<open>The samples are an array of at least \<open>hw_sample_count\<close> elements.\<close>

record guardian_high_compute_window =
  hw_subject_node_id :: u32
  hw_subject_producer_id :: u32
  hw_signal_id :: u32
  hw_epoch :: u32
  hw_baseline_milli :: i32
  hw_samples :: "guardian_high_compute_sample list ptr"
  hw_sample_count :: nat

record guardian_high_compute_analysis =
  ha_subject_node_id :: u32
  ha_subject_producer_id :: u32
  ha_signal_id :: u32
  ha_epoch :: u32
  ha_first_sequence :: u32
  ha_last_sequence :: u32
  ha_first_timestamp_us :: u64
  ha_last_timestamp_us :: u64
  ha_sample_count :: nat
  ha_mean_milli :: i32
  ha_minimum_milli :: i32
  ha_maximum_milli :: i32
  ha_peak_to_peak_milli :: u32
  ha_mean_square_milli2 :: u64
  ha_drift_milli :: u32
  ha_minimum_quality :: u8
  ha_drift_detected :: u8
  ha_actuation_authorized :: u8

record guardian_high_compute_fusion =
  hf_correlation_milli :: i32
  hf_fused_mean_milli :: i32
  hf_contradiction_detected :: u8
  hf_actuation_authorized :: u8

record guardian_high_compute_node =
  hn_self :: guardian_multinode_node
  hn_policy :: guardian_high_compute_policy
  hn_accepted_windows :: u32
  hn_rejected_windows :: u32
  hn_initialized :: u8

definition zero_hc_node :: guardian_high_compute_node where
  "zero_hc_node = \<lparr>hn_self = zero_multinode_node, hn_policy = \<lparr>hp_minimum_quality = 0, hp_drift_threshold_milli = 0,
     hp_minimum_correlation_milli = 0\<rparr>, hn_accepted_windows = 0, hn_rejected_windows = 0, hn_initialized = 0\<rparr>"

definition zero_analysis :: guardian_high_compute_analysis where
  "zero_analysis = \<lparr>ha_subject_node_id = 0, ha_subject_producer_id = 0, ha_signal_id = 0, ha_epoch = 0, ha_first_sequence = 0,
     ha_last_sequence = 0, ha_first_timestamp_us = 0, ha_last_timestamp_us = 0, ha_sample_count = 0, ha_mean_milli = 0,
     ha_minimum_milli = 0, ha_maximum_milli = 0, ha_peak_to_peak_milli = 0, ha_mean_square_milli2 = 0, ha_drift_milli = 0,
     ha_minimum_quality = 0, ha_drift_detected = 0, ha_actuation_authorized = 0\<rparr>"

definition zero_fusion :: guardian_high_compute_fusion where
  "zero_fusion = \<lparr>hf_correlation_milli = 0, hf_fused_mean_milli = 0, hf_contradiction_detected = 0, hf_actuation_authorized = 0\<rparr>"

section \<open>Operations\<close>

definition guardian_high_compute_isqrt_u64 :: "int \<Rightarrow> int" where
  "guardian_high_compute_isqrt_u64 v = isqrt_loop (isqrt_skip (2 ^ 62) v) v 0"

definition guardian_high_compute_abs_i64_to_u32 :: "int \<Rightarrow> u32" where
  "guardian_high_compute_abs_i64_to_u32 v =
     (let magnitude = (if v < 0 then to_u64 (to_i64 (- v)) else to_u64 v) in
      if magnitude > 0xFFFFFFFF then 0xFFFFFFFF else word_of_int magnitude)"

definition guardian_high_compute_window_basic_valid :: "guardian_high_compute_window ptr \<Rightarrow> bool" where
  "guardian_high_compute_window_basic_valid window =
     (case window of
        None \<Rightarrow> False
      | Some w \<Rightarrow>
          if hw_samples w = None \<or> hw_subject_node_id w = 0 \<or> hw_subject_producer_id w = 0 \<or> hw_signal_id w = 0 \<or> hw_epoch w = 0
            \<or> hw_sample_count w < 2 \<or> hw_sample_count w > GUARDIAN_HIGH_COMPUTE_MAX_SAMPLES then False
          else if sint (hw_baseline_milli w) < - GUARDIAN_HIGH_COMPUTE_NORMALIZED_LIMIT_MILLI
            \<or> sint (hw_baseline_milli w) > GUARDIAN_HIGH_COMPUTE_NORMALIZED_LIMIT_MILLI then False
          else True)"

definition guardian_high_compute_init :: "guardian_high_compute_node ptr \<Rightarrow> guardian_high_compute_node ptr" where
  "guardian_high_compute_init node = map_option (\<lambda>_. zero_hc_node) node"

definition guardian_high_compute_configure ::
  "guardian_high_compute_node ptr \<Rightarrow> guardian_multinode_node ptr \<Rightarrow> guardian_high_compute_policy ptr
     \<Rightarrow> guardian_high_compute_result \<times> guardian_high_compute_node ptr" where
  "guardian_high_compute_configure node self policy =
     (case (node, self, policy) of
        (Some d, Some n, Some p) \<Rightarrow>
          if guardian_multinode_validate_node (Some n) \<noteq> GUARDIAN_MULTINODE_OK
          then (GUARDIAN_HIGH_COMPUTE_ERROR_INVALID_NODE, node)
          else if mn_role n \<noteq> GUARDIAN_NODE_ROLE_HIGH_COMPUTE_PROCESSING \<or> mn_authority_class n \<noteq> GUARDIAN_AUTHORITY_CLASS_OBSERVE
            \<or> mn_capabilities n AND GUARDIAN_CAP_SIGNAL_PROCESSING = 0 \<or> mn_capabilities n AND GUARDIAN_CAP_ACTUATION_GATE \<noteq> 0
          then (GUARDIAN_HIGH_COMPUTE_ERROR_INVALID_NODE, node)
          else if hp_minimum_quality p = 0 \<or> hp_minimum_quality p > GUARDIAN_HIGH_COMPUTE_MAX_QUALITY
            \<or> hp_drift_threshold_milli p = 0
            \<or> uint (hp_drift_threshold_milli p) > GUARDIAN_HIGH_COMPUTE_NORMALIZED_LIMIT_MILLI
            \<or> sint (hp_minimum_correlation_milli p) < - GUARDIAN_HIGH_COMPUTE_CORRELATION_SCALE
            \<or> sint (hp_minimum_correlation_milli p) > GUARDIAN_HIGH_COMPUTE_CORRELATION_SCALE
          then (GUARDIAN_HIGH_COMPUTE_ERROR_INVALID_POLICY, node)
          else (GUARDIAN_HIGH_COMPUTE_OK, Some (the (guardian_high_compute_init node)
            \<lparr>hn_self := n, hn_policy := p, hn_initialized := 1\<rparr>))
      | _ \<Rightarrow> (GUARDIAN_HIGH_COMPUTE_ERROR_NULL_ARGUMENT, node))"

text \<open>The accumulators of the loop over the samples.\<close>

record window_stats =
  acc_minimum :: i32
  acc_maximum :: i32
  acc_quality :: u8
  acc_sum :: int
  acc_square :: int

text \<open>The checks of one sample, with the sample before it.\<close>

definition sample_check :: "guardian_high_compute_policy \<Rightarrow> guardian_high_compute_sample option \<Rightarrow> guardian_high_compute_sample
     \<Rightarrow> guardian_high_compute_result" where
  "sample_check p before s =
     (if hs_sequence s = 0 \<or> hs_timestamp_us s = 0 then GUARDIAN_HIGH_COMPUTE_ERROR_INVALID_WINDOW
      else if sint (hs_normalized_milli s) < - GUARDIAN_HIGH_COMPUTE_NORMALIZED_LIMIT_MILLI
        \<or> sint (hs_normalized_milli s) > GUARDIAN_HIGH_COMPUTE_NORMALIZED_LIMIT_MILLI then GUARDIAN_HIGH_COMPUTE_ERROR_OUT_OF_RANGE
      else if hs_saturated s \<noteq> 0 then GUARDIAN_HIGH_COMPUTE_ERROR_SATURATED
      else if hs_quality s = 0 \<or> hs_quality s > GUARDIAN_HIGH_COMPUTE_MAX_QUALITY \<or> hs_quality s < hp_minimum_quality p
      then GUARDIAN_HIGH_COMPUTE_ERROR_QUALITY
      else (case before of
              None \<Rightarrow> GUARDIAN_HIGH_COMPUTE_OK
            | Some b \<Rightarrow>
                if hs_sequence s \<le> hs_sequence b then GUARDIAN_HIGH_COMPUTE_ERROR_SEQUENCE_REGRESSION
                else if hs_timestamp_us s \<le> hs_timestamp_us b then GUARDIAN_HIGH_COMPUTE_ERROR_TIMESTAMP_REGRESSION
                else GUARDIAN_HIGH_COMPUTE_OK))"

definition sample_add :: "window_stats \<Rightarrow> guardian_high_compute_sample \<Rightarrow> window_stats" where
  "sample_add a s =
     (let value64 = sint (hs_normalized_milli s) in
      \<lparr>acc_minimum = (if sint (hs_normalized_milli s) < sint (acc_minimum a) then hs_normalized_milli s else acc_minimum a),
       acc_maximum = (if sint (hs_normalized_milli s) > sint (acc_maximum a) then hs_normalized_milli s else acc_maximum a),
       acc_quality = (if hs_quality s < acc_quality a then hs_quality s else acc_quality a),
       acc_sum = to_i64 (acc_sum a + value64), acc_square = to_u64 (acc_square a + to_u64 (to_i64 (value64 * value64)))\<rparr>)"

fun analyze_loop :: "guardian_high_compute_policy \<Rightarrow> guardian_high_compute_sample option \<Rightarrow> window_stats
     \<Rightarrow> guardian_high_compute_sample list \<Rightarrow> guardian_high_compute_result + window_stats" where
  "analyze_loop p before a [] = Inr a"
| "analyze_loop p before a (s # ss) =
     (let result = sample_check p before s in
      if result \<noteq> GUARDIAN_HIGH_COMPUTE_OK then Inl result else analyze_loop p (Some s) (sample_add a s) ss)"

definition guardian_high_compute_analyze ::
  "guardian_high_compute_node ptr \<Rightarrow> guardian_high_compute_window ptr \<Rightarrow> guardian_high_compute_analysis ptr
     \<Rightarrow> guardian_high_compute_result \<times> guardian_high_compute_node ptr \<times> guardian_high_compute_analysis ptr" where
  "guardian_high_compute_analyze node window analysis =
     (case (node, window, analysis) of
        (Some d, Some w, Some _) \<Rightarrow>
          let rejected = d\<lparr>hn_rejected_windows := hn_rejected_windows d + 1\<rparr> in
          if hn_initialized d \<noteq> 1 then (GUARDIAN_HIGH_COMPUTE_ERROR_INVALID_NODE, node, Some zero_analysis)
          else if \<not> guardian_high_compute_window_basic_valid window
          then (GUARDIAN_HIGH_COMPUTE_ERROR_INVALID_WINDOW, Some rejected, Some zero_analysis)
          else
            let n = hw_sample_count w; ss = take n (the (hw_samples w)); first = ss ! 0; final = ss ! (n - 1) in
            (case analyze_loop (hn_policy d) None \<lparr>acc_minimum = hs_normalized_milli first, acc_maximum = hs_normalized_milli first,
                acc_quality = hs_quality first, acc_sum = 0, acc_square = 0\<rparr> ss of
               Inl result \<Rightarrow> (result, Some rejected, Some zero_analysis)
             | Inr a \<Rightarrow>
                 let mean = word_of_int (acc_sum a sdiv int n) :: i32;
                     drift = guardian_high_compute_abs_i64_to_u32 (sint mean - sint (hw_baseline_milli w)) in
                 (GUARDIAN_HIGH_COMPUTE_OK, Some (d\<lparr>hn_accepted_windows := hn_accepted_windows d + 1\<rparr>),
                  Some \<lparr>ha_subject_node_id = hw_subject_node_id w, ha_subject_producer_id = hw_subject_producer_id w,
                    ha_signal_id = hw_signal_id w, ha_epoch = hw_epoch w, ha_first_sequence = hs_sequence first,
                    ha_last_sequence = hs_sequence final, ha_first_timestamp_us = hs_timestamp_us first,
                    ha_last_timestamp_us = hs_timestamp_us final, ha_sample_count = n, ha_mean_milli = mean,
                    ha_minimum_milli = acc_minimum a, ha_maximum_milli = acc_maximum a,
                    ha_peak_to_peak_milli = word_of_int (sint (acc_maximum a) - sint (acc_minimum a)),
                    ha_mean_square_milli2 = word_of_int (acc_square a div int n), ha_drift_milli = drift,
                    ha_minimum_quality = acc_quality a,
                    ha_drift_detected = (if drift \<ge> hp_drift_threshold_milli (hn_policy d) then 1 else 0),
                    ha_actuation_authorized = GUARDIAN_HIGH_COMPUTE_AUTHORITY_NONE\<rparr>))
      | _ \<Rightarrow> (GUARDIAN_HIGH_COMPUTE_ERROR_NULL_ARGUMENT, node, analysis))"

text \<open>Signed 64-bit arithmetic with overflow as no result.\<close>

definition i64_checked :: "int \<Rightarrow> int option" where
  "i64_checked x = (if - (2 ^ 63) \<le> x \<and> x < 2 ^ 63 then Some x else None)"

fun sum_loop :: "int \<Rightarrow> guardian_high_compute_sample list \<Rightarrow> int option" where
  "sum_loop so_far [] = Some so_far"
| "sum_loop so_far (s # ss) = do { t \<leftarrow> i64_checked (so_far + sint (hs_normalized_milli s)); sum_loop t ss }"

text \<open>The second loop, over the pairs of samples: the two sums and the count give the centred values.\<close>

fun correlate_loop :: "int \<Rightarrow> int \<Rightarrow> int \<Rightarrow> int \<times> int \<times> int \<Rightarrow> (guardian_high_compute_sample \<times> guardian_high_compute_sample) list
     \<Rightarrow> (int \<times> int \<times> int) option" where
  "correlate_loop n left_sum right_sum acc [] = Some acc"
| "correlate_loop n left_sum right_sum (dot, left_square, right_square) ((l, r) # rest) =
     do { pl \<leftarrow> i64_checked (sint (hs_normalized_milli l) * n); cl \<leftarrow> i64_checked (pl - left_sum);
          pr \<leftarrow> i64_checked (sint (hs_normalized_milli r) * n); cr \<leftarrow> i64_checked (pr - right_sum);
          lr \<leftarrow> i64_checked (cl * cr); dot' \<leftarrow> i64_checked (dot + lr);
          ll \<leftarrow> i64_checked (cl * cl); rr \<leftarrow> i64_checked (cr * cr);
          correlate_loop n left_sum right_sum (dot', to_u64 (left_square + to_u64 ll), to_u64 (right_square + to_u64 rr)) rest }"

definition clamp_correlation :: "int \<Rightarrow> int" where
  "clamp_correlation c =
     (if c > GUARDIAN_HIGH_COMPUTE_CORRELATION_SCALE then GUARDIAN_HIGH_COMPUTE_CORRELATION_SCALE
      else if c < - GUARDIAN_HIGH_COMPUTE_CORRELATION_SCALE then - GUARDIAN_HIGH_COMPUTE_CORRELATION_SCALE else c)"

text \<open>The check of the two windows and their analyses.\<close>

definition fusion_rejects :: "guardian_high_compute_window \<Rightarrow> guardian_high_compute_window \<Rightarrow> guardian_high_compute_analysis
     \<Rightarrow> guardian_high_compute_analysis \<Rightarrow> bool" where
  "fusion_rejects l r la ra \<longleftrightarrow>
     \<not> guardian_high_compute_window_basic_valid (Some l) \<or> \<not> guardian_high_compute_window_basic_valid (Some r)
     \<or> hw_sample_count l \<noteq> hw_sample_count r \<or> ha_sample_count la \<noteq> hw_sample_count l \<or> ha_sample_count ra \<noteq> hw_sample_count r
     \<or> ha_actuation_authorized la \<noteq> GUARDIAN_HIGH_COMPUTE_AUTHORITY_NONE
     \<or> ha_actuation_authorized ra \<noteq> GUARDIAN_HIGH_COMPUTE_AUTHORITY_NONE"

definition guardian_high_compute_correlate_and_fuse ::
  "guardian_high_compute_node ptr \<Rightarrow> guardian_high_compute_window ptr \<Rightarrow> guardian_high_compute_window ptr
     \<Rightarrow> guardian_high_compute_analysis ptr \<Rightarrow> guardian_high_compute_analysis ptr \<Rightarrow> guardian_high_compute_fusion ptr
     \<Rightarrow> (guardian_high_compute_result \<times> guardian_high_compute_fusion ptr) option" where
  "guardian_high_compute_correlate_and_fuse node left right left_analysis right_analysis fusion =
     (case (node, left, right, left_analysis, right_analysis, fusion) of
        (Some d, Some l, Some r, Some la, Some ra, Some _) \<Rightarrow>
          if hn_initialized d \<noteq> 1 then Some (GUARDIAN_HIGH_COMPUTE_ERROR_INVALID_NODE, Some zero_fusion)
          else if fusion_rejects l r la ra
          then Some (GUARDIAN_HIGH_COMPUTE_ERROR_INVALID_WINDOW, Some zero_fusion)
          else
            let n = hw_sample_count l; ls = take n (the (hw_samples l)); rs = take n (the (hw_samples r)) in
            do { left_sum \<leftarrow> sum_loop 0 ls; right_sum \<leftarrow> sum_loop 0 rs;
                 (dot, left_square, right_square) \<leftarrow> correlate_loop (int n) left_sum right_sum (0, 0, 0) (zip ls rs);
                 if left_square = 0 \<or> right_square = 0 then Some (GUARDIAN_HIGH_COMPUTE_ERROR_CORRELATION_UNDEFINED, Some zero_fusion)
                 else
                   let denominator = to_u64 (guardian_high_compute_isqrt_u64 left_square * guardian_high_compute_isqrt_u64 right_square) in
                   if denominator = 0 then Some (GUARDIAN_HIGH_COMPUTE_ERROR_CORRELATION_UNDEFINED, Some zero_fusion)
                   else
                     do { scaled_dot \<leftarrow> i64_checked (dot * GUARDIAN_HIGH_COMPUTE_CORRELATION_SCALE);
                          correlation \<leftarrow> i64_checked (scaled_dot sdiv to_i64 denominator);
                          let fused_sum = sint (ha_mean_milli la) + sint (ha_mean_milli ra);
                              corr = word_of_int (clamp_correlation correlation) :: i32 in
                          Some (GUARDIAN_HIGH_COMPUTE_OK,
                            Some \<lparr>hf_correlation_milli = corr, hf_fused_mean_milli = word_of_int (fused_sum sdiv 2),
                              hf_contradiction_detected =
                                (if sint corr < sint (hp_minimum_correlation_milli (hn_policy d)) then 1 else 0),
                              hf_actuation_authorized = GUARDIAN_HIGH_COMPUTE_AUTHORITY_NONE\<rparr>) } }
      | _ \<Rightarrow> Some (GUARDIAN_HIGH_COMPUTE_ERROR_NULL_ARGUMENT, fusion))"

definition guardian_high_compute_can_actuate ::
  "guardian_high_compute_node ptr \<Rightarrow> u8 ptr \<Rightarrow> guardian_high_compute_result \<times> u8 ptr" where
  "guardian_high_compute_can_actuate node allowed =
     (case (node, allowed) of
        (Some _, Some _) \<Rightarrow> (GUARDIAN_HIGH_COMPUTE_ERROR_ACTUATION_PROHIBITED, Some 0)
      | _ \<Rightarrow> (GUARDIAN_HIGH_COMPUTE_ERROR_NULL_ARGUMENT, allowed))"

section \<open>Window statistics are exact\<close>

definition sample_value :: "guardian_high_compute_sample \<Rightarrow> int" where
  "sample_value s = sint (hs_normalized_milli s)"

definition in_range :: "guardian_high_compute_sample \<Rightarrow> bool" where
  "in_range s \<longleftrightarrow> \<bar>sample_value s\<bar> \<le> GUARDIAN_HIGH_COMPUTE_NORMALIZED_LIMIT_MILLI"

text \<open>A window is good if each sample is usable and sequence and time increase.\<close>

definition good_window :: "guardian_high_compute_policy \<Rightarrow> guardian_high_compute_sample list \<Rightarrow> bool" where
  "good_window p ss \<longleftrightarrow> (\<forall>s\<in>set ss. hs_sequence s \<noteq> 0 \<and> hs_timestamp_us s \<noteq> 0 \<and> in_range s \<and> hs_saturated s = 0
       \<and> hs_quality s \<noteq> 0 \<and> hs_quality s \<le> GUARDIAN_HIGH_COMPUTE_MAX_QUALITY \<and> hp_minimum_quality p \<le> hs_quality s)
     \<and> successively (\<lambda>b s. hs_sequence b < hs_sequence s \<and> hs_timestamp_us b < hs_timestamp_us s) ss"

lemma analyze_loop_iff:
  "analyze_loop p before a ss = Inr a' \<longleftrightarrow> a' = fold (\<lambda>s a. sample_add a s) ss a \<and> good_window p ss
     \<and> (case (before, ss) of (Some b, s # _) \<Rightarrow> hs_sequence b < hs_sequence s \<and> hs_timestamp_us b < hs_timestamp_us s | _ \<Rightarrow> True)"
proof (induction ss arbitrary: before a)
  case Nil
  then show ?case by (auto simp: good_window_def split: option.splits)
next
  case (Cons s ss)
  show ?case
  proof (cases "sample_check p before s = GUARDIAN_HIGH_COMPUTE_OK")
    case True
    then have s: "hs_sequence s \<noteq> 0 \<and> hs_timestamp_us s \<noteq> 0 \<and> in_range s \<and> hs_saturated s = 0 \<and> hs_quality s \<noteq> 0
        \<and> hs_quality s \<le> GUARDIAN_HIGH_COMPUTE_MAX_QUALITY \<and> hp_minimum_quality p \<le> hs_quality s"
      "case before of Some b \<Rightarrow> hs_sequence b < hs_sequence s \<and> hs_timestamp_us b < hs_timestamp_us s | None \<Rightarrow> True"
      by (auto simp: sample_check_def in_range_def sample_value_def abs_le_iff not_less not_le split: if_splits option.splits)
    have "analyze_loop p before a (s # ss) = analyze_loop p (Some s) (sample_add a s) ss" using True by (simp add: Let_def)
    then show ?thesis using s unfolding \<open>_ = analyze_loop p (Some s) (sample_add a s) ss\<close> Cons.IH
      by (cases ss) (auto simp: good_window_def simp del: analyze_loop.simps split: option.splits)
  next
    case False
    then have "\<not> (good_window p (s # ss)
        \<and> (case before of Some b \<Rightarrow> hs_sequence b < hs_sequence s \<and> hs_timestamp_us b < hs_timestamp_us s | None \<Rightarrow> True))"
      by (auto simp: sample_check_def good_window_def in_range_def sample_value_def abs_le_iff not_less not_le split: if_splits option.splits)
    then show ?thesis using False by (auto simp: Let_def split: option.splits)
  qed
qed

lemma in_range_bounds: "in_range s \<Longrightarrow> -100000 \<le> sample_value s \<and> sample_value s \<le> 100000"
  by (simp add: in_range_def abs_le_iff)

lemma in_range_square: "in_range s \<Longrightarrow> 0 \<le> (sample_value s)\<^sup>2 \<and> (sample_value s)\<^sup>2 \<le> 10000000000"
  using abs_le_square_iff [of "sample_value s" 100000] by (simp add: in_range_def)

lemma fold_sample_add:
  assumes "\<forall>s\<in>set ss. in_range s" "\<bar>acc_sum a\<bar> \<le> 100000 * int k" "0 \<le> acc_square a" "acc_square a \<le> 10000000000 * int k" "k + length ss \<le> 16"
  defines "b \<equiv> fold (\<lambda>s a. sample_add a s) ss a"
  shows "acc_sum b = acc_sum a + (\<Sum>s\<leftarrow>ss. sample_value s) \<and> acc_square b = acc_square a + (\<Sum>s\<leftarrow>ss. (sample_value s)\<^sup>2)
    \<and> sint (acc_minimum b) = fold (\<lambda>s m. min m (sample_value s)) ss (sint (acc_minimum a))
    \<and> sint (acc_maximum b) = fold (\<lambda>s m. max m (sample_value s)) ss (sint (acc_maximum a))
    \<and> acc_quality b = fold (\<lambda>s q. min q (hs_quality s)) ss (acc_quality a)"
  using assms(1-5) unfolding b_def
proof (induction ss arbitrary: a k)
  case (Cons s ss)
  have s: "in_range s" "k \<le> 15" using Cons.prems by auto
  note r = in_range_bounds [OF s(1)] in_range_square [OF s(1)]
  have k: "int k \<le> 15" using s(2) by simp
  let ?a = "sample_add a s"
  have bs: "\<bar>acc_sum a + sample_value s\<bar> \<le> 100000 * int (Suc k)" using Cons.prems(2) r unfolding abs_le_iff by auto
  have v: "acc_sum ?a = acc_sum a + sample_value s" "acc_square ?a = acc_square a + (sample_value s)\<^sup>2"
  proof -
    have "to_i64 ((sample_value s)\<^sup>2) = (sample_value s)\<^sup>2" using r by (intro to_i64_id) linarith+
    moreover have "to_i64 (acc_sum a + sample_value s) = acc_sum a + sample_value s"
      using bs [unfolded abs_le_iff] k by (intro to_i64_id) auto
    moreover have "to_u64 ((sample_value s)\<^sup>2) = (sample_value s)\<^sup>2"
      "to_u64 (acc_square a + (sample_value s)\<^sup>2) = acc_square a + (sample_value s)\<^sup>2"
    proof -
      have "0 \<le> acc_square a + (sample_value s)\<^sup>2" "acc_square a + (sample_value s)\<^sup>2 \<le> 160000000000"
        using r Cons.prems(3,4) k by linarith+
      then show "to_u64 ((sample_value s)\<^sup>2) = (sample_value s)\<^sup>2"
        "to_u64 (acc_square a + (sample_value s)\<^sup>2) = acc_square a + (sample_value s)\<^sup>2"
        using r by (simp_all add: to_u64_def)
    qed
    ultimately show "acc_sum ?a = acc_sum a + sample_value s" "acc_square ?a = acc_square a + (sample_value s)\<^sup>2"
      unfolding sample_add_def Let_def sample_value_def [symmetric] by (simp_all flip: power2_eq_square)
  qed
  have "\<forall>s\<in>set ss. in_range s" "\<bar>acc_sum ?a\<bar> \<le> 100000 * int (Suc k)" "0 \<le> acc_square ?a"
    "acc_square ?a \<le> 10000000000 * int (Suc k)" "Suc k + length ss \<le> 16"
    using Cons.prems r bs v by auto
  note ih = Cons.IH [OF this]
  have "sint (acc_minimum ?a) = min (sint (acc_minimum a)) (sample_value s)"
    "sint (acc_maximum ?a) = max (sint (acc_maximum a)) (sample_value s)"
    by (simp_all add: sample_add_def Let_def sample_value_def min_def max_def)
  moreover have "acc_quality ?a = min (acc_quality a) (hs_quality s)" by (auto simp: sample_add_def Let_def min_def)
  ultimately show ?case using ih v by simp
qed simp

text \<open>A window is analysed exactly if it is good; the statistics are those of the unbounded integers, and the
  analysis never authorizes actuation.\<close>

lemma fold_min_eq: "ss \<noteq> [] \<Longrightarrow> fold (\<lambda>s m. min m (f s)) ss (f (hd ss)) = Min (f ` set ss)" for f :: "'a \<Rightarrow> 'b::linorder"
proof -
  have "fold (\<lambda>s m. min m (f s)) ss m = Min (set (m # map f ss))" for m
    unfolding Min.set_eq_fold by (simp add: fold_map comp_def min.commute [of _ "f _"])
  then show "ss \<noteq> [] \<Longrightarrow> ?thesis" by (simp add: insert_absorb)
qed

lemma fold_max_eq: "ss \<noteq> [] \<Longrightarrow> fold (\<lambda>s m. max m (f s)) ss (f (hd ss)) = Max (f ` set ss)" for f :: "'a \<Rightarrow> 'b::linorder"
proof -
  have "fold (\<lambda>s m. max m (f s)) ss m = Max (set (m # map f ss))" for m
    unfolding Max.set_eq_fold by (simp add: fold_map comp_def max.commute [of _ "f _"])
  then show "ss \<noteq> [] \<Longrightarrow> ?thesis" by (simp add: insert_absorb)
qed

lemma sum_in_range:
  "\<forall>s\<in>set ss. in_range s \<Longrightarrow> \<bar>\<Sum>s\<leftarrow>ss. sample_value s\<bar> \<le> 100000 * int (length ss)"
proof (induction ss)
  case (Cons s ss)
  then show ?case using in_range_bounds [of s] by (auto simp: abs_le_iff)
qed simp

lemma squares_in_range:
  "\<forall>s\<in>set ss. in_range s \<Longrightarrow> 0 \<le> (\<Sum>s\<leftarrow>ss. (sample_value s)\<^sup>2) \<and> (\<Sum>s\<leftarrow>ss. (sample_value s)\<^sup>2) \<le> 10000000000 * int (length ss)"
proof (induction ss)
  case (Cons s ss)
  then show ?case using in_range_square [of s] by auto
qed simp

lemma abs_to_u32:
  assumes "\<bar>v\<bar> \<le> 200000"
  shows "uint (guardian_high_compute_abs_i64_to_u32 v) = \<bar>v\<bar>"
proof -
  have "(if v < 0 then to_u64 (to_i64 (- v)) else to_u64 v) = \<bar>v\<bar>"
    using assms by (simp add: to_i64_id to_u64_def abs_le_iff)
  then show ?thesis using assms by (simp add: guardian_high_compute_abs_i64_to_u32_def uint_word_of_int)
qed

lemma div_le_dividend_int: "a div b \<le> a" if "0 \<le> a" "0 < b" for a b :: int
  using that div_le_dividend [of "nat a" "nat b"] by (metis int_nat_eq le_less nat_div_distrib nat_le_eq_zle of_nat_0_le_iff nat_0_le zle_int)

lemma mean_in_range:
  assumes "\<bar>x\<bar> \<le> b * int n" "0 < n" "0 \<le> b"
  shows "\<bar>x sdiv int n\<bar> \<le> b"
proof -
  have "\<bar>x\<bar> div int n \<le> b * int n div int n" using assms by (intro zdiv_mono1) auto
  then show ?thesis using assms(2,3) by (simp add: signed_divide_int_def abs_mult abs_sgn_eq pos_imp_zdiv_nonneg_iff)
qed

theorem analysis_is_exact:
  assumes "hn_initialized d = 1" "hw_samples w = Some samples" "hw_sample_count w \<le> length samples"
    and "guardian_high_compute_analyze (Some d) (Some w) (Some an0) = (r, d', Some an)"
  defines "ss \<equiv> take (hw_sample_count w) samples"
  shows "(r = GUARDIAN_HIGH_COMPUTE_OK \<longleftrightarrow> guardian_high_compute_window_basic_valid (Some w) \<and> good_window (hn_policy d) ss)
    \<and> ha_actuation_authorized an = 0
    \<and> (r = GUARDIAN_HIGH_COMPUTE_OK \<longrightarrow>
        sint (ha_mean_milli an) = (\<Sum>s\<leftarrow>ss. sample_value s) sdiv int (length ss)
        \<and> sint (ha_minimum_milli an) = Min (sample_value ` set ss) \<and> sint (ha_maximum_milli an) = Max (sample_value ` set ss)
        \<and> uint (ha_mean_square_milli2 an) = (\<Sum>s\<leftarrow>ss. (sample_value s)\<^sup>2) div int (length ss)
        \<and> uint (ha_drift_milli an) = \<bar>sint (ha_mean_milli an) - sint (hw_baseline_milli w)\<bar>)"
proof (cases "guardian_high_compute_window_basic_valid (Some w)")
  case False
  then show ?thesis using assms by (auto simp: guardian_high_compute_analyze_def zero_analysis_def)
next
  case True
  then have n: "2 \<le> hw_sample_count w" "hw_sample_count w \<le> 16" and bl: "\<bar>sint (hw_baseline_milli w)\<bar> \<le> 100000"
    by (auto simp: guardian_high_compute_window_basic_valid_def abs_le_iff not_less split: if_splits)
  have len: "length ss = hw_sample_count w" using assms(3) by (simp add: ss_def)
  then have ne: "ss \<noteq> []" using n by auto
  then have hd: "ss ! 0 = hd ss" by (simp add: hd_conv_nth)
  define a0 where "a0 = \<lparr>acc_minimum = hs_normalized_milli (ss ! 0), acc_maximum = hs_normalized_milli (ss ! 0),
                acc_quality = hs_quality (ss ! 0), acc_sum = 0, acc_square = 0\<rparr>"
  note call = assms(4) [unfolded guardian_high_compute_analyze_def option.case prod.case Let_def assms(2) option.sel,
      folded ss_def, folded a0_def]
  show ?thesis
  proof (cases "analyze_loop (hn_policy d) None a0 ss")
    case (Inl e)
    then have "\<not> good_window (hn_policy d) ss" using analyze_loop_iff [of "hn_policy d" None a0 ss] by auto
    moreover have "e \<noteq> GUARDIAN_HIGH_COMPUTE_OK" if "analyze_loop p b a l = Inl e" for p b a l
      using that by (induction p b a l rule: analyze_loop.induct) (auto simp: Let_def split: if_splits)
    ultimately show ?thesis using call assms(1) True Inl by (auto simp: zero_analysis_def)
  next
    case (Inr b)
    then have b: "b = fold (\<lambda>s a. sample_add a s) ss a0" and g: "good_window (hn_policy d) ss"
      by (simp_all add: analyze_loop_iff)
    then have ir: "\<forall>s\<in>set ss. in_range s" by (simp add: good_window_def)
    have st: "acc_sum b = (\<Sum>s\<leftarrow>ss. sample_value s)" "acc_square b = (\<Sum>s\<leftarrow>ss. (sample_value s)\<^sup>2)"
      "sint (acc_minimum b) = Min (sample_value ` set ss)" "sint (acc_maximum b) = Max (sample_value ` set ss)"
      using fold_sample_add [OF ir, of a0 0] n(2) len ne hd
      by (simp_all add: b a0_def fold_min_eq [of ss sample_value, folded sample_value_def] fold_max_eq sample_value_def [symmetric])
    have mean: "\<bar>acc_sum b sdiv int (hw_sample_count w)\<bar> \<le> 100000"
      using sum_in_range [OF ir] n(1) unfolding st len by (intro mean_in_range) simp_all
    then have m: "sint (word_of_int (acc_sum b sdiv int (hw_sample_count w)) :: i32) = acc_sum b sdiv int (hw_sample_count w)"
      by (simp add: signed_of_int take_bit_int_eq_self_iff signed_take_bit_int_eq_self_iff abs_le_iff)
    have sq: "0 \<le> acc_square b" "acc_square b \<le> 10000000000 * 16"
      using squares_in_range [OF ir] n(2) len unfolding st by auto
    have "0 \<le> acc_square b div int (hw_sample_count w)" "acc_square b div int (hw_sample_count w) \<le> 160000000000"
      using sq n(1) by (simp add: pos_imp_zdiv_nonneg_iff, intro order_trans [OF div_le_dividend_int]) simp_all
    then have ms: "uint (word_of_int (acc_square b div int (hw_sample_count w)) :: u64) = acc_square b div int (hw_sample_count w)"
      by (simp add: uint_word_of_int)
    let ?m = "sint (word_of_int (acc_sum b sdiv int (hw_sample_count w)) :: i32)"
    have dr: "uint (guardian_high_compute_abs_i64_to_u32 (?m - sint (hw_baseline_milli w))) = \<bar>?m - sint (hw_baseline_milli w)\<bar>"
      using mean bl unfolding m by (intro abs_to_u32) linarith
    have "guardian_high_compute_window_basic_valid (Some w)" "good_window (hn_policy d) ss" using True g by simp_all
    then show ?thesis using call assms(1) Inr st ms dr m len by (simp add: Let_def) (auto simp: m)
  qed
qed

section \<open>Fusion of analysed windows is defined\<close>

lemma i64_checked_ok: "\<bar>x\<bar> \<le> 1000000000000000000 \<Longrightarrow> i64_checked x = Some x"
  by (simp add: i64_checked_def abs_le_iff)

lemma sum_loop_ok:
  "\<forall>s\<in>set ss. in_range s \<Longrightarrow> \<bar>t\<bar> \<le> 100000 * int k \<Longrightarrow> k + length ss \<le> 16 \<Longrightarrow>
   sum_loop t ss = Some (t + (\<Sum>s\<leftarrow>ss. sample_value s))"
proof (induction ss arbitrary: t k)
  case (Cons s ss)
  have r: "-100000 \<le> sample_value s \<and> sample_value s \<le> 100000" using Cons.prems(1) in_range_bounds by simp
  have t: "\<bar>t + sample_value s\<bar> \<le> 100000 * int (Suc k)" using r Cons.prems(2) by auto
  have "int (Suc k) \<le> 16" using Cons.prems(3) by simp
  then have "i64_checked (t + sint (hs_normalized_milli s)) = Some (t + sample_value s)"
    unfolding sample_value_def [symmetric] using t by (intro i64_checked_ok) auto
  then show ?case using Cons.IH [OF _ t] Cons.prems by simp
qed simp

text \<open>The centred value of a sample, scaled by the number of samples.\<close>

definition centred :: "guardian_high_compute_sample list \<Rightarrow> guardian_high_compute_sample \<Rightarrow> int" where
  "centred ss s = sample_value s * int (length ss) - (\<Sum>s\<leftarrow>ss. sample_value s)"

lemma centred_bound:
  assumes "\<forall>s\<in>set ss. in_range s" "in_range s" "length ss \<le> 16"
  shows "\<bar>centred ss s\<bar> \<le> 3200000" "\<bar>sample_value s * int (length ss)\<bar> \<le> 1600000"
proof -
  have "\<bar>sample_value s * int (length ss)\<bar> = \<bar>sample_value s\<bar> * int (length ss)" by (simp add: abs_mult)
  also have "\<dots> \<le> 100000 * 16" using assms(2,3) by (intro mult_mono) (simp_all add: in_range_def)
  finally show m: "\<bar>sample_value s * int (length ss)\<bar> \<le> 1600000" by simp
  have "100000 * int (length ss) \<le> 1600000" using assms(3) by simp
  then show "\<bar>centred ss s\<bar> \<le> 3200000" using m sum_in_range [OF assms(1)] unfolding centred_def by linarith
qed

lemma product_bound: "\<bar>a\<bar> \<le> 3200000 \<Longrightarrow> \<bar>b\<bar> \<le> 3200000 \<Longrightarrow> \<bar>a * b\<bar> \<le> 10240000000000" for a b :: int
  unfolding abs_mult by (rule order_trans [OF mult_mono [of _ 3200000 _ 3200000]]) simp_all

lemma correlate_loop_ok:
  assumes "\<forall>s\<in>set ls. in_range s" "\<forall>s\<in>set rs. in_range s" "length ls = length rs" "length ls \<le> 16"
    and "\<forall>(l, r)\<in>set ps. in_range l \<and> in_range r" "k + length ps \<le> 16"
    and "\<bar>d\<bar> \<le> 10240000000000 * int k" "0 \<le> x" "x \<le> 10240000000000 * int k" "0 \<le> y" "y \<le> 10240000000000 * int k"
  shows "correlate_loop (int (length ls)) (\<Sum>s\<leftarrow>ls. sample_value s) (\<Sum>s\<leftarrow>rs. sample_value s) (d, x, y) ps
    = Some (d + (\<Sum>(l, r)\<leftarrow>ps. centred ls l * centred rs r), x + (\<Sum>(l, r)\<leftarrow>ps. (centred ls l)\<^sup>2), y + (\<Sum>(l, r)\<leftarrow>ps. (centred rs r)\<^sup>2))"
  using assms(5-)
proof (induction ps arbitrary: k d x y)
  case (Cons q ps)
  obtain l r where q: "q = (l, r)" by fastforce
  then have lr: "in_range l" "in_range r" using Cons.prems(1) by auto
  note cl = centred_bound [OF assms(1) lr(1) assms(4)] and cr = centred_bound [OF assms(2) lr(2)] 
  have cr: "\<bar>centred rs r\<bar> \<le> 3200000" "\<bar>sample_value r * int (length ls)\<bar> \<le> 1600000" using cr assms(3,4) by simp_all
  note p = product_bound [OF cl(1) cr(1)] product_bound [OF cl(1) cl(1)] product_bound [OF cr(1) cr(1)]
  have k: "int (Suc k) \<le> 16" using Cons.prems(2) by simp
  have sq: "0 \<le> centred ls l * centred ls l" "0 \<le> centred rs r * centred rs r" by simp_all
  have n: "\<bar>d + centred ls l * centred rs r\<bar> \<le> 10240000000000 * int (Suc k)"
    "0 \<le> x + centred ls l * centred ls l" "x + centred ls l * centred ls l \<le> 10240000000000 * int (Suc k)"
    "0 \<le> y + centred rs r * centred rs r" "y + centred rs r * centred rs r \<le> 10240000000000 * int (Suc k)"
    using Cons.prems(3-) p sq by auto
  have c: "i64_checked (sint (hs_normalized_milli l) * int (length ls)) = Some (sample_value l * int (length ls))"
    "i64_checked (sample_value l * int (length ls) - (\<Sum>s\<leftarrow>ls. sample_value s)) = Some (centred ls l)"
    "i64_checked (sint (hs_normalized_milli r) * int (length ls)) = Some (sample_value r * int (length ls))"
    "i64_checked (sample_value r * int (length ls) - (\<Sum>s\<leftarrow>rs. sample_value s)) = Some (centred rs r)"
    using cl cr assms(3) unfolding sample_value_def [symmetric] centred_def by (simp_all add: i64_checked_ok)
  have d: "\<bar>d + centred ls l * centred rs r\<bar> \<le> 163840000000000" using n(1) k by auto
  have m: "i64_checked (centred ls l * centred rs r) = Some (centred ls l * centred rs r)"
    "i64_checked (d + centred ls l * centred rs r) = Some (d + centred ls l * centred rs r)"
    "i64_checked (centred ls l * centred ls l) = Some (centred ls l * centred ls l)"
    "i64_checked (centred rs r * centred rs r) = Some (centred rs r * centred rs r)"
    using p d by (simp_all add: i64_checked_ok)
  have u: "to_u64 (centred ls l * centred ls l) = centred ls l * centred ls l" "to_u64 (centred rs r * centred rs r) = centred rs r * centred rs r"
    "to_u64 (x + centred ls l * centred ls l) = x + centred ls l * centred ls l"
    "to_u64 (y + centred rs r * centred rs r) = y + centred rs r * centred rs r"
    using p sq n(2-) k unfolding to_u64_def by simp_all
  have "correlate_loop (int (length ls)) (\<Sum>s\<leftarrow>ls. sample_value s) (\<Sum>s\<leftarrow>rs. sample_value s) (d, x, y) (q # ps)
    = correlate_loop (int (length ls)) (\<Sum>s\<leftarrow>ls. sample_value s) (\<Sum>s\<leftarrow>rs. sample_value s)
        (d + centred ls l * centred rs r, x + centred ls l * centred ls l, y + centred rs r * centred rs r) ps"
    unfolding q by (simp add: c m u)
  also note Cons.IH [OF _ _ n]
  finally show ?case using Cons.prems q by (simp add: power2_eq_square)
qed simp

lemma isqrt_int_sqrt:
  assumes "0 \<le> n" "n < 2 ^ 64"
  shows "guardian_high_compute_isqrt_u64 n = int_sqrt n"
proof -
  obtain r where r: "guardian_high_compute_isqrt_u64 n = r" "0 \<le> r" "r\<^sup>2 \<le> n" "n < (r + 1)\<^sup>2"
    using isqrt_loops_exact [OF assms] unfolding guardian_high_compute_isqrt_u64_def by blast
  then show ?thesis using int_sqrt_bounds [OF assms(1)] square_root_unique [of r n "int_sqrt n"] by (simp add: power2_eq_square)
qed

lemma zip_sum_le:
  assumes "\<forall>q\<in>set ps. \<bar>f q\<bar> \<le> b" "length ps \<le> 16" "(0::int) \<le> b"
  shows "\<bar>\<Sum>q\<leftarrow>ps. f q\<bar> \<le> b * 16"
proof -
  have "\<bar>\<Sum>q\<leftarrow>ps. f q\<bar> \<le> b * int (length ps)" using assms(1)
    by (induction ps) (auto simp: abs_le_iff distrib_left)
  also have "\<dots> \<le> b * 16" using assms(2,3) by (intro mult_left_mono) simp_all
  finally show ?thesis .
qed

text \<open>On windows whose samples lie within the limit, as every analysed window does, no signed operation overflows
  and the correlation is the scaled quotient of the centred sums, clamped to its range.\<close>

definition correlation_reference :: "guardian_high_compute_sample list \<Rightarrow> guardian_high_compute_sample list \<Rightarrow> int" where
  "correlation_reference ls rs = clamp_correlation ((1000 * (\<Sum>(l, r)\<leftarrow>zip ls rs. centred ls l * centred rs r)) sdiv
     (int_sqrt (\<Sum>(l, r)\<leftarrow>zip ls rs. (centred ls l)\<^sup>2) * int_sqrt (\<Sum>(l, r)\<leftarrow>zip ls rs. (centred rs r)\<^sup>2)))"

lemma correlation_reference_range:
  "\<bar>correlation_reference ls rs\<bar> \<le> 1000" "sint (word_of_int (correlation_reference ls rs) :: i32) = correlation_reference ls rs"
proof -
  show "\<bar>correlation_reference ls rs\<bar> \<le> 1000" by (simp add: correlation_reference_def clamp_correlation_def abs_le_iff)
  then show "sint (word_of_int (correlation_reference ls rs) :: i32) = correlation_reference ls rs"
    by (simp add: signed_of_int signed_take_bit_int_eq_self_iff abs_le_iff)
qed

lemma root_bound: "0 \<le> v \<Longrightarrow> \<bar>v\<bar> \<le> 10240000000000 * 16 \<Longrightarrow> 0 \<le> int_sqrt v \<and> int_sqrt v \<le> 12800000"
  using int_sqrt_bounds [of v] power2_le_imp_le [of "int_sqrt v" 12800000] by (auto simp: power2_eq_square)

theorem fusion_is_defined:
  assumes "hw_samples l = Some lss" "hw_sample_count l \<le> length lss" "hw_samples r = Some rss" "hw_sample_count r \<le> length rss"
  defines "ls \<equiv> take (hw_sample_count l) lss" and "rs \<equiv> take (hw_sample_count r) rss"
  assumes "\<forall>s\<in>set ls. in_range s" "\<forall>s\<in>set rs. in_range s"
  shows "\<exists>res f. guardian_high_compute_correlate_and_fuse (Some d) (Some l) (Some r) (Some la) (Some ra) (Some f0) = Some (res, Some f)
    \<and> hf_actuation_authorized f = 0
    \<and> (res = GUARDIAN_HIGH_COMPUTE_OK \<longrightarrow> sint (hf_correlation_milli f) = correlation_reference ls rs
        \<and> \<bar>sint (hf_correlation_milli f)\<bar> \<le> 1000)"
proof -
  let ?call = "guardian_high_compute_correlate_and_fuse (Some d) (Some l) (Some r) (Some la) (Some ra) (Some f0)"
  show ?thesis
  proof (cases "hn_initialized d = 1 \<and> \<not> fusion_rejects l r la ra")
    case False
    then have "?call = Some (GUARDIAN_HIGH_COMPUTE_ERROR_INVALID_NODE, Some zero_fusion)
        \<or> ?call = Some (GUARDIAN_HIGH_COMPUTE_ERROR_INVALID_WINDOW, Some zero_fusion)"
      by (cases "hn_initialized d = 1") (simp_all add: guardian_high_compute_correlate_and_fuse_def)
    then show ?thesis by (auto simp: zero_fusion_def)
  next
    case True
    then have good: "hn_initialized d = 1" "\<not> fusion_rejects l r la ra" "guardian_high_compute_window_basic_valid (Some l)"
      "hw_sample_count l = hw_sample_count r" by (simp_all add: fusion_rejects_def)
    then have n: "hw_sample_count l \<le> 16" by (auto simp: guardian_high_compute_window_basic_valid_def split: if_splits)
    have len: "length ls = hw_sample_count l" "length rs = length ls" using assms(2,4) good(4) by (simp_all add: ls_def rs_def)
    have ps: "\<forall>(l, r)\<in>set (zip ls rs). in_range l \<and> in_range r" using assms(7,8) by (auto dest: set_zip_leftD set_zip_rightD)
    define dot where "dot = (\<Sum>(l, r)\<leftarrow>zip ls rs. centred ls l * centred rs r)"
    define x where "x = (\<Sum>(l, r)\<leftarrow>zip ls rs. (centred ls l)\<^sup>2)"
    define y where "y = (\<Sum>(l, r)\<leftarrow>zip ls rs. (centred rs r)\<^sup>2)"
    have loops: "sum_loop 0 ls = Some (\<Sum>s\<leftarrow>ls. sample_value s)" "sum_loop 0 rs = Some (\<Sum>s\<leftarrow>rs. sample_value s)"
      "correlate_loop (int (hw_sample_count l)) (\<Sum>s\<leftarrow>ls. sample_value s) (\<Sum>s\<leftarrow>rs. sample_value s) (0, 0, 0) (zip ls rs) = Some (dot, x, y)"
      using sum_loop_ok [OF assms(7), of 0 0] sum_loop_ok [OF assms(8), of 0 0] n len
        correlate_loop_ok [OF assms(7,8) len(2) [symmetric] _ ps, of 0 0 0 0]
      by (simp_all add: dot_def x_def y_def)
    have cb: "\<bar>centred ls a\<bar> \<le> 3200000 \<and> \<bar>centred rs b\<bar> \<le> 3200000" if "(a, b) \<in> set (zip ls rs)" for a b
      using that ps centred_bound(1) [OF assms(7), of a] centred_bound(1) [OF assms(8), of b] n len by auto
    have bounds: "\<bar>dot\<bar> \<le> 10240000000000 * 16" "\<bar>x\<bar> \<le> 10240000000000 * 16" "\<bar>y\<bar> \<le> 10240000000000 * 16"
      unfolding dot_def x_def y_def power2_eq_square using cb n len product_bound by (intro zip_sum_le; force)+
    have nn: "0 \<le> x" "0 \<le> y" unfolding x_def y_def by (auto intro!: sum_list_nonneg)
    have rt: "guardian_high_compute_isqrt_u64 x = int_sqrt x" "guardian_high_compute_isqrt_u64 y = int_sqrt y"
      using bounds nn by (simp_all add: isqrt_int_sqrt)
    define q where "q = int_sqrt x * int_sqrt y"
    have q: "0 \<le> q" "q \<le> 12800000 * 12800000"
      unfolding q_def using root_bound [OF nn(1) bounds(2)] root_bound [OF nn(2) bounds(3)] by (simp, intro mult_mono) simp_all
    then have u: "to_u64 q = q" "to_i64 q = q" "to_u64 0 = 0" by (simp_all add: to_u64_def to_i64_id)
    have s: "i64_checked (dot * 1000) = Some (dot * 1000)" using bounds(1) by (intro i64_checked_ok) (simp add: abs_mult)
    have call: "?call = (if x = 0 \<or> y = 0 \<or> q = 0 then Some (GUARDIAN_HIGH_COMPUTE_ERROR_CORRELATION_UNDEFINED, Some zero_fusion)
        else do { correlation \<leftarrow> i64_checked ((dot * 1000) sdiv q);
          let fused_sum = sint (ha_mean_milli la) + sint (ha_mean_milli ra); corr = word_of_int (clamp_correlation correlation) :: i32 in
          Some (GUARDIAN_HIGH_COMPUTE_OK, Some \<lparr>hf_correlation_milli = corr, hf_fused_mean_milli = word_of_int (fused_sum sdiv 2),
              hf_contradiction_detected = (if sint corr < sint (hp_minimum_correlation_milli (hn_policy d)) then 1 else 0),
              hf_actuation_authorized = 0\<rparr>) })"
      using good(1,2,4) assms(1,3) loops rt u s ls_def rs_def
      by (simp add: guardian_high_compute_correlate_and_fuse_def q_def [symmetric] Let_def)
    show ?thesis
    proof (cases "x = 0 \<or> y = 0 \<or> q = 0")
      case True
      then show ?thesis unfolding call by (simp add: zero_fusion_def)
    next
      case False
      then have "\<bar>(dot * 1000) sdiv q\<bar> \<le> 1000000000000000000" "0 < q"
        using bounds(1) q mean_in_range [of "dot * 1000" "1000000000000000000" "nat q"] by (auto simp: abs_mult)
      then have c: "i64_checked ((dot * 1000) sdiv q) = Some ((dot * 1000) sdiv q)" by (intro i64_checked_ok)
      have "clamp_correlation ((dot * 1000) sdiv q) = correlation_reference ls rs"
        by (simp add: correlation_reference_def dot_def x_def y_def q_def mult.commute)
      then show ?thesis unfolding call using False c correlation_reference_range by (auto simp: Let_def)
    qed
  qed
qed

text \<open>The fusion itself does not check the samples: on windows that were not analysed the products can overflow,
  which is undefined in C.\<close>

lemma unchecked_fusion_overflows:
  defines "s \<equiv> \<lambda>v. \<lparr>hs_sequence = 1, hs_timestamp_us = 1, hs_normalized_milli = v, hs_quality = 100, hs_saturated = 0\<rparr>"
  defines "w \<equiv> \<lparr>hw_subject_node_id = 1, hw_subject_producer_id = 1, hw_signal_id = 1, hw_epoch = 1, hw_baseline_milli = 0,
     hw_samples = Some [s 0x7FFFFFFF, s 0x80000000], hw_sample_count = 2\<rparr>"
  shows "guardian_high_compute_correlate_and_fuse (Some (zero_hc_node\<lparr>hn_initialized := 1\<rparr>)) (Some w) (Some w)
     (Some (zero_analysis\<lparr>ha_sample_count := 2\<rparr>)) (Some (zero_analysis\<lparr>ha_sample_count := 2\<rparr>)) (Some zero_fusion) = None"
  unfolding s_def w_def by code_simp

end
