(* ===== verification/Guardian_Trusted_Keys.thy ===== *)
theory Guardian_Trusted_Keys
  imports Guardian_Firmware
begin

text \<open>
  The trusted-key store and the signature adapter that the firmware lifecycle is meant to use:
  \<open>guardian_firmware_trusted_key_provider.c\<close>, \<open>guardian_firmware_trusted_signature_adapter.c\<close>
  and the thin Ed25519 backend over the vendored Monocypher library, whose
  \<open>crypto_ed25519_check\<close> is the parameter \<open>check\<close> of the 64 signature bytes, the 32 key bytes
  and the message bytes it is pointed to (zero means the signature is good).  The
  lookups are written over a key table and then fixed to the table the firmware ships.
\<close>

section \<open>Key records\<close>

datatype guardian_firmware_trusted_key_algorithm =
    GUARDIAN_FIRMWARE_TRUSTED_KEY_ALGORITHM_UNKNOWN | GUARDIAN_FIRMWARE_TRUSTED_KEY_ALGORITHM_ED25519

datatype guardian_firmware_trusted_key_state =
    GUARDIAN_FIRMWARE_TRUSTED_KEY_STATE_UNKNOWN | GUARDIAN_FIRMWARE_TRUSTED_KEY_STATE_ACTIVE
  | GUARDIAN_FIRMWARE_TRUSTED_KEY_STATE_RETIRED | GUARDIAN_FIRMWARE_TRUSTED_KEY_STATE_REVOKED

datatype guardian_firmware_trusted_key_provenance_state =
    GUARDIAN_FIRMWARE_TRUSTED_KEY_PROVENANCE_UNKNOWN
  | GUARDIAN_FIRMWARE_TRUSTED_KEY_PROVENANCE_LEGACY_UNVERIFIED
  | GUARDIAN_FIRMWARE_TRUSTED_KEY_PROVENANCE_PRODUCTION_APPROVED
  | GUARDIAN_FIRMWARE_TRUSTED_KEY_PROVENANCE_REVOKED

record guardian_firmware_trusted_key_record =
  tk_key_id :: u32
  tk_algorithm :: guardian_firmware_trusted_key_algorithm
  tk_state :: guardian_firmware_trusted_key_state
  tk_public_key :: "u8 list"
  tk_provenance_state :: guardian_firmware_trusted_key_provenance_state
  tk_provenance_digest :: "u8 list"

datatype guardian_firmware_trusted_key_resolution =
    GUARDIAN_FIRMWARE_TRUSTED_KEY_RESOLUTION_OK
  | GUARDIAN_FIRMWARE_TRUSTED_KEY_RESOLUTION_UNKNOWN_KEY
  | GUARDIAN_FIRMWARE_TRUSTED_KEY_RESOLUTION_AMBIGUOUS_KEY
  | GUARDIAN_FIRMWARE_TRUSTED_KEY_RESOLUTION_NON_ACTIVE_KEY
  | GUARDIAN_FIRMWARE_TRUSTED_KEY_RESOLUTION_ALGORITHM_MISMATCH
  | GUARDIAN_FIRMWARE_TRUSTED_KEY_RESOLUTION_INVALID_ARGUMENT
  | GUARDIAN_FIRMWARE_TRUSTED_KEY_RESOLUTION_UNVERIFIED_PROVENANCE

text \<open>The table compiled into the firmware.\<close>

definition g_guardian_firmware_trusted_keys :: "guardian_firmware_trusted_key_record list" where
  "g_guardian_firmware_trusted_keys =
     [\<lparr>tk_key_id = 2, tk_algorithm = GUARDIAN_FIRMWARE_TRUSTED_KEY_ALGORITHM_ED25519,
       tk_state = GUARDIAN_FIRMWARE_TRUSTED_KEY_STATE_ACTIVE,
       tk_public_key =
         [0x33, 0x0E, 0x6D, 0xB6, 0xBB, 0x72, 0x3F, 0xFE, 0x2B, 0x98, 0x7A, 0xD6, 0x0E, 0x07, 0x73, 0x97,
          0xCC, 0x33, 0x3F, 0x04, 0x7B, 0x4B, 0x77, 0x06, 0x68, 0x9F, 0xA2, 0x49, 0x69, 0x26, 0xCB, 0xC4],
       tk_provenance_state = GUARDIAN_FIRMWARE_TRUSTED_KEY_PROVENANCE_LEGACY_UNVERIFIED,
       tk_provenance_digest = replicate 32 0\<rparr>]"

section \<open>Key resolution\<close>

definition guardian_firmware_trusted_key_digest_is_zero :: "u8 list \<Rightarrow> bool" where
  "guardian_firmware_trusted_key_digest_is_zero digest \<longleftrightarrow>
     fold (\<lambda>i combined. combined OR digest ! i) [0..<32] 0 = 0"

definition key_scan ::
  "u32 \<Rightarrow> guardian_firmware_trusted_key_record list \<Rightarrow> guardian_firmware_trusted_key_record ptr \<times> nat" where
  "key_scan key_id table =
     fold (\<lambda>r (found, match_count). if tk_key_id r = key_id then (Some r, Suc match_count) else (found, match_count))
       table (None, 0)"

definition resolve_in ::
  "guardian_firmware_trusted_key_record list \<Rightarrow> u32 \<Rightarrow> guardian_firmware_trusted_key_algorithm
     \<Rightarrow> guardian_firmware_trusted_key_record ptr ptr
     \<Rightarrow> guardian_firmware_trusted_key_resolution \<times> guardian_firmware_trusted_key_record ptr ptr" where
  "resolve_in table key_id required_algorithm out_record =
     (case out_record of
        None \<Rightarrow> (GUARDIAN_FIRMWARE_TRUSTED_KEY_RESOLUTION_INVALID_ARGUMENT, out_record)
      | Some _ \<Rightarrow>
          let (found, match_count) = key_scan key_id table
          in if match_count = 0
          then (GUARDIAN_FIRMWARE_TRUSTED_KEY_RESOLUTION_UNKNOWN_KEY, Some None)
          else if match_count \<noteq> 1
          then (GUARDIAN_FIRMWARE_TRUSTED_KEY_RESOLUTION_AMBIGUOUS_KEY, Some None)
          else if tk_state (the found) \<noteq> GUARDIAN_FIRMWARE_TRUSTED_KEY_STATE_ACTIVE
          then (GUARDIAN_FIRMWARE_TRUSTED_KEY_RESOLUTION_NON_ACTIVE_KEY, Some None)
          else if tk_algorithm (the found) \<noteq> required_algorithm
          then (GUARDIAN_FIRMWARE_TRUSTED_KEY_RESOLUTION_ALGORITHM_MISMATCH, Some None)
          else (GUARDIAN_FIRMWARE_TRUSTED_KEY_RESOLUTION_OK, Some found))"

definition guardian_firmware_trusted_key_provider_resolve ::
  "u32 \<Rightarrow> guardian_firmware_trusted_key_algorithm \<Rightarrow> guardian_firmware_trusted_key_record ptr ptr
     \<Rightarrow> guardian_firmware_trusted_key_resolution \<times> guardian_firmware_trusted_key_record ptr ptr" where
  "guardian_firmware_trusted_key_provider_resolve = resolve_in g_guardian_firmware_trusted_keys"

definition resolve_production_in ::
  "guardian_firmware_trusted_key_record list \<Rightarrow> u32 \<Rightarrow> guardian_firmware_trusted_key_algorithm
     \<Rightarrow> guardian_firmware_trusted_key_record ptr ptr
     \<Rightarrow> guardian_firmware_trusted_key_resolution \<times> guardian_firmware_trusted_key_record ptr ptr" where
  "resolve_production_in table key_id required_algorithm out_record =
     (case out_record of
        None \<Rightarrow> (GUARDIAN_FIRMWARE_TRUSTED_KEY_RESOLUTION_INVALID_ARGUMENT, out_record)
      | Some _ \<Rightarrow>
          let (resolution, rec_ptr) = resolve_in table key_id required_algorithm (Some None);
              record_found = the rec_ptr
          in if resolution \<noteq> GUARDIAN_FIRMWARE_TRUSTED_KEY_RESOLUTION_OK
          then (resolution, Some None)
          else if record_found = None
             \<or> tk_provenance_state (the record_found) \<noteq> GUARDIAN_FIRMWARE_TRUSTED_KEY_PROVENANCE_PRODUCTION_APPROVED
             \<or> guardian_firmware_trusted_key_digest_is_zero (tk_provenance_digest (the record_found))
          then (GUARDIAN_FIRMWARE_TRUSTED_KEY_RESOLUTION_UNVERIFIED_PROVENANCE, Some None)
          else (GUARDIAN_FIRMWARE_TRUSTED_KEY_RESOLUTION_OK, Some record_found))"

definition guardian_firmware_trusted_key_provider_resolve_production ::
  "u32 \<Rightarrow> guardian_firmware_trusted_key_algorithm \<Rightarrow> guardian_firmware_trusted_key_record ptr ptr
     \<Rightarrow> guardian_firmware_trusted_key_resolution \<times> guardian_firmware_trusted_key_record ptr ptr" where
  "guardian_firmware_trusted_key_provider_resolve_production =
     resolve_production_in g_guardian_firmware_trusted_keys"

section \<open>Signature verification\<close>

text \<open>The backend guards its pointers and hands an empty message a one-byte sentinel.\<close>

definition guardian_firmware_ed25519_backend_verify ::
  "(u8 list \<Rightarrow> u8 list \<Rightarrow> u8 list \<Rightarrow> int) \<Rightarrow> u8 list ptr \<Rightarrow> u8 list ptr \<Rightarrow> u8 list ptr \<Rightarrow> nat \<Rightarrow> int" where
  "guardian_firmware_ed25519_backend_verify check sig public_key msg message_length =
     (case (sig, public_key) of
        (Some s, Some k) \<Rightarrow>
          if msg = None \<and> message_length \<noteq> 0 then 0
          else
            let safe_message = (case msg of None \<Rightarrow> [0] | Some b \<Rightarrow> b)
            in if check (take 64 s) (take 32 k) (take message_length safe_message) = 0 then 1 else 0
      | _ \<Rightarrow> 0)"

definition guardian_firmware_provenance_digest_is_zero :: "u8 list ptr \<Rightarrow> bool" where
  "guardian_firmware_provenance_digest_is_zero digest =
     (case digest of
        None \<Rightarrow> True
      | Some d \<Rightarrow> fold (\<lambda>i combined. combined OR d ! i) [0..<32] 0 = 0)"

definition trusted_verify_in ::
  "guardian_firmware_trusted_key_record list \<Rightarrow> (u8 list \<Rightarrow> u8 list \<Rightarrow> u8 list \<Rightarrow> int)
     \<Rightarrow> 'c ptr \<Rightarrow> u8 \<Rightarrow> u32 \<Rightarrow> u8 list ptr \<Rightarrow> nat \<Rightarrow> u8 list ptr \<Rightarrow> u8 \<Rightarrow> bool \<times> 'c ptr" where
  "trusted_verify_in table check ctx signature_algorithm key_id signed_message signed_message_length sig sig_length =
     (if signed_message = None \<or> sig = None \<or> signed_message_length = 0 then (False, ctx)
      else if signature_algorithm \<noteq> GUARDIAN_FIRMWARE_SIGNATURE_ED25519 then (False, ctx)
      else if sig_length \<noteq> 64 then (False, ctx)
      else
        let (resolution, rec_ptr) = resolve_production_in table key_id
              GUARDIAN_FIRMWARE_TRUSTED_KEY_ALGORITHM_ED25519 (Some None)
        in (case the rec_ptr of
              None \<Rightarrow> (False, ctx)
            | Some r \<Rightarrow>
                if resolution \<noteq> GUARDIAN_FIRMWARE_TRUSTED_KEY_RESOLUTION_OK then (False, ctx)
                else if tk_key_id r \<noteq> key_id
                   \<or> tk_state r \<noteq> GUARDIAN_FIRMWARE_TRUSTED_KEY_STATE_ACTIVE
                   \<or> tk_algorithm r \<noteq> GUARDIAN_FIRMWARE_TRUSTED_KEY_ALGORITHM_ED25519
                   \<or> tk_provenance_state r \<noteq> GUARDIAN_FIRMWARE_TRUSTED_KEY_PROVENANCE_PRODUCTION_APPROVED
                   \<or> guardian_firmware_provenance_digest_is_zero (Some (tk_provenance_digest r))
                then (False, ctx)
                else (guardian_firmware_ed25519_backend_verify check sig (Some (tk_public_key r))
                        signed_message signed_message_length = 1, ctx)))"

definition guardian_firmware_trusted_signature_verify ::
  "(u8 list \<Rightarrow> u8 list \<Rightarrow> u8 list \<Rightarrow> int)
     \<Rightarrow> 'c ptr \<Rightarrow> u8 \<Rightarrow> u32 \<Rightarrow> u8 list ptr \<Rightarrow> nat \<Rightarrow> u8 list ptr \<Rightarrow> u8 \<Rightarrow> bool \<times> 'c ptr" where
  "guardian_firmware_trusted_signature_verify = trusted_verify_in g_guardian_firmware_trusted_keys"

section \<open>Which keys resolve\<close>

text \<open>A record a production signature may be checked with.\<close>

definition approved :: "guardian_firmware_trusted_key_record \<Rightarrow> bool" where
  "approved r \<longleftrightarrow> tk_state r = GUARDIAN_FIRMWARE_TRUSTED_KEY_STATE_ACTIVE
     \<and> tk_algorithm r = GUARDIAN_FIRMWARE_TRUSTED_KEY_ALGORITHM_ED25519
     \<and> tk_provenance_state r = GUARDIAN_FIRMWARE_TRUSTED_KEY_PROVENANCE_PRODUCTION_APPROVED
     \<and> (\<exists>i < 32. tk_provenance_digest r ! i \<noteq> 0)"

text \<open>The record a table designates for a key identifier: the only one, and approved.\<close>

definition designated :: "guardian_firmware_trusted_key_record list \<Rightarrow> u32 \<Rightarrow> guardian_firmware_trusted_key_record ptr" where
  "designated table k = (case filter (\<lambda>r. tk_key_id r = k) table of
     [r] \<Rightarrow> if approved r then Some r else None | _ \<Rightarrow> None)"

lemma key_scan_acc:
  "fold (\<lambda>r (found, match_count). if tk_key_id r = k then (Some r, Suc match_count) else (found, match_count)) table (f, n)
     = (if filter (\<lambda>r. tk_key_id r = k) table = [] then f else Some (last (filter (\<lambda>r. tk_key_id r = k) table)),
        n + length (filter (\<lambda>r. tk_key_id r = k) table))"
  by (induction table arbitrary: f n) auto

lemma key_scan_eq:
  "key_scan k table = (if filter (\<lambda>r. tk_key_id r = k) table = [] then None
       else Some (last (filter (\<lambda>r. tk_key_id r = k) table)), length (filter (\<lambda>r. tk_key_id r = k) table))"
  by (simp add: key_scan_def key_scan_acc)

lemma digest_zero_iff:
  "guardian_firmware_trusted_key_digest_is_zero d \<longleftrightarrow> (\<forall>i < 32. d ! i = 0)"
  "guardian_firmware_provenance_digest_is_zero (Some d) \<longleftrightarrow> (\<forall>i < 32. d ! i = 0)"
  by (simp_all only: guardian_firmware_trusted_key_digest_is_zero_def guardian_firmware_provenance_digest_is_zero_def
      fold_or_zero option.case) auto

lemma resolve_production_iff:
  "resolve_production_in table k GUARDIAN_FIRMWARE_TRUSTED_KEY_ALGORITHM_ED25519 (Some x)
      = (GUARDIAN_FIRMWARE_TRUSTED_KEY_RESOLUTION_OK, Some (Some r)) \<longleftrightarrow> designated table k = Some r"
  by (auto simp: resolve_production_in_def resolve_in_def key_scan_eq designated_def approved_def digest_zero_iff
      Let_def split: list.splits if_splits)

lemma resolve_production_none:
  "designated table k = None \<Longrightarrow>
   snd (resolve_production_in table k GUARDIAN_FIRMWARE_TRUSTED_KEY_ALGORITHM_ED25519 (Some x)) = Some None"
  by (auto simp: resolve_production_in_def resolve_in_def key_scan_eq designated_def approved_def digest_zero_iff
      Let_def split: list.splits if_splits)

section \<open>The verifier as the lifecycle's callback\<close>

text \<open>What the lifecycle needs of a verifier: it accepts only trusted signatures and leaves the
  platform context, and so any view of the staged image, alone.\<close>

locale signature_verifier =
  fixes verify :: "'c ptr \<Rightarrow> u8 \<Rightarrow> u32 \<Rightarrow> u8 list ptr \<Rightarrow> nat \<Rightarrow> u8 list ptr \<Rightarrow> u8 \<Rightarrow> bool \<times> 'c ptr"
    and trusts :: "u8 \<Rightarrow> u32 \<Rightarrow> u8 list \<Rightarrow> u8 list \<Rightarrow> bool"
  assumes sound: "fst (verify c a k (Some msg) n (Some sig) sl) \<Longrightarrow> trusts a k (take n msg) (take (unat sl) sig)"
    and pure: "snd (verify c a k msg' n sig' sl) = c"
begin

lemma fulfils_contract: "verify_contract img trusts verify"
  unfolding verify_contract_def by (metis fst_conv pure snd_conv sound)

lemma distrusted_rejected:
  "(\<And>msg sig. \<not> trusts a k msg sig) \<Longrightarrow> verify c a k (Some msg) n (Some sig) sl = (False, c)"
  by (metis (full_types) prod.collapse pure sound)

end

definition ed25519_trusts ::
  "guardian_firmware_trusted_key_record list \<Rightarrow> (u8 list \<Rightarrow> u8 list \<Rightarrow> u8 list \<Rightarrow> int)
     \<Rightarrow> u8 \<Rightarrow> u32 \<Rightarrow> u8 list \<Rightarrow> u8 list \<Rightarrow> bool" where
  "ed25519_trusts table check a k msg sig \<longleftrightarrow> a = GUARDIAN_FIRMWARE_SIGNATURE_ED25519
     \<and> (case designated table k of None \<Rightarrow> False | Some r \<Rightarrow> check sig (take 32 (tk_public_key r)) msg = 0)"

lemma designated_key: "designated table k = Some r \<Longrightarrow> tk_key_id r = k \<and> approved r"
proof -
  assume d: "designated table k = Some r"
  then have "filter (\<lambda>r. tk_key_id r = k) table = [r]" "approved r"
    by (auto simp: designated_def split: list.splits if_splits)
  moreover from this(1) have "tk_key_id r = k" by (auto dest: filter_eq_ConsD)
  ultimately show ?thesis by simp
qed

lemma trusted_verify_eq:
  "trusted_verify_in table check c a k (Some msg) n (Some sig) sl =
     (n \<noteq> 0 \<and> sl = 64 \<and> ed25519_trusts table check a k (take n msg) (take (unat sl) sig), c)"
proof (cases "designated table k")
  case None
  with resolve_production_none [OF None, of None] show ?thesis
    by (auto simp: trusted_verify_in_def ed25519_trusts_def split: prod.splits option.splits)
next
  case (Some r)
  have res: "resolve_production_in table k GUARDIAN_FIRMWARE_TRUSTED_KEY_ALGORITHM_ED25519 (Some None)
      = (GUARDIAN_FIRMWARE_TRUSTED_KEY_RESOLUTION_OK, Some (Some r))"
    using Some by (simp add: resolve_production_iff)
  show ?thesis
    using designated_key [OF Some]
    by (auto simp: trusted_verify_in_def ed25519_trusts_def res Some approved_def digest_zero_iff
        guardian_firmware_ed25519_backend_verify_def)
qed

lemma trusted_verify_context: "snd (trusted_verify_in table check c a k msg n sig sl) = c"
  by (auto simp: trusted_verify_in_def Let_def split: prod.splits option.splits)

interpretation trusted: signature_verifier "trusted_verify_in table check :: 'c ptr \<Rightarrow> _" "ed25519_trusts table check"
  for table check
  by unfold_locales (simp_all add: trusted_verify_eq trusted_verify_context)

text \<open>The shipped table designates no key, so its verifier accepts nothing.\<close>

lemma shipped_designates_none: "designated g_guardian_firmware_trusted_keys k = None"
  by (simp add: designated_def g_guardian_firmware_trusted_keys_def approved_def)

lemma shipped_verify: "guardian_firmware_trusted_signature_verify check c a k msg n sig sl = (False, c)"
proof -
  have "guardian_firmware_trusted_signature_verify check c a k (Some m) n (Some s) sl = (False, c)" for m s
    unfolding guardian_firmware_trusted_signature_verify_def
    by (rule trusted.distrusted_rejected) (simp add: ed25519_trusts_def shipped_designates_none)
  then show ?thesis
    by (cases msg; cases sig) (simp_all add: guardian_firmware_trusted_signature_verify_def trusted_verify_in_def)
qed

section \<open>Properties\<close>

definition sample_key :: guardian_firmware_trusted_key_record where
  "sample_key = \<lparr>tk_key_id = 7, tk_algorithm = GUARDIAN_FIRMWARE_TRUSTED_KEY_ALGORITHM_ED25519,
     tk_state = GUARDIAN_FIRMWARE_TRUSTED_KEY_STATE_ACTIVE, tk_public_key = replicate 32 0xAB,
     tk_provenance_state = GUARDIAN_FIRMWARE_TRUSTED_KEY_PROVENANCE_PRODUCTION_APPROVED,
     tk_provenance_digest = 1 # replicate 31 0\<rparr>"

text \<open>Signature acceptance. For every key table, the adapter accepts a message exactly when the message is not
  empty, the algorithm is Ed25519 with a 64-byte signature, exactly one record of the table has
  the key identifier, that record is active, of the right algorithm, approved for production and
  carries a non-zero provenance digest, and the Ed25519 check under its public key succeeds.\<close>

theorem trusted_signature_accepted_iff:
  "fst (trusted_verify_in table check c a k (Some msg) n (Some sig) sl) \<longleftrightarrow>
     n \<noteq> 0 \<and> a = GUARDIAN_FIRMWARE_SIGNATURE_ED25519 \<and> sl = 64
     \<and> (\<exists>r. filter (\<lambda>r. tk_key_id r = k) table = [r]
          \<and> tk_state r = GUARDIAN_FIRMWARE_TRUSTED_KEY_STATE_ACTIVE
          \<and> tk_algorithm r = GUARDIAN_FIRMWARE_TRUSTED_KEY_ALGORITHM_ED25519
          \<and> tk_provenance_state r = GUARDIAN_FIRMWARE_TRUSTED_KEY_PROVENANCE_PRODUCTION_APPROVED
          \<and> (\<exists>i < 32. tk_provenance_digest r ! i \<noteq> 0)
          \<and> check (take 64 sig) (take 32 (tk_public_key r)) (take n msg) = 0)"
  by (auto simp: trusted_verify_eq ed25519_trusts_def designated_def approved_def
      split: option.splits list.splits if_splits)

text \<open>The shipped table is fail closed. With the key table compiled into the firmware no key identifier resolves
  for production, and the adapter rejects every signature, whatever the Ed25519 library says.\<close>

theorem shipped_table_rejects_all:
  "fst (guardian_firmware_trusted_key_provider_resolve_production k alg (Some out)) \<noteq>
     GUARDIAN_FIRMWARE_TRUSTED_KEY_RESOLUTION_OK
   \<and> guardian_firmware_trusted_signature_verify check c a k msg n sig sl = (False, c)"
proof
  show "fst (guardian_firmware_trusted_key_provider_resolve_production k alg (Some out)) \<noteq>
      GUARDIAN_FIRMWARE_TRUSTED_KEY_RESOLUTION_OK"
    by (auto simp: guardian_firmware_trusted_key_provider_resolve_production_def resolve_production_in_def
        resolve_in_def key_scan_def g_guardian_firmware_trusted_keys_def)
qed (rule shipped_verify)

end
