(* ===== verification/Guardian_Node_Link.thy ===== *)
theory Guardian_Node_Link
  imports Guardian_Protocol
begin

text \<open>
  The frames nodes exchange among themselves (\<open>firmware/NodeLink/Src/guardian_node_link.c\<close>):
  the 20-byte header, the second CRC-32 implementation of the firmware (branch-free, with a
  mask in place of the conditional), the encoder, the decoder and the volatile sequence guard.
  The lemmas show that the two CRCs are the same function and that the decoder accepts exactly
  the byte strings the encoder can produce.
\<close>

section \<open>Constants and types\<close>

abbreviation (input) GUARDIAN_NODE_LINK_MAGIC_0 :: u8 where "GUARDIAN_NODE_LINK_MAGIC_0 \<equiv> 0x47"
abbreviation (input) GUARDIAN_NODE_LINK_MAGIC_1 :: u8 where "GUARDIAN_NODE_LINK_MAGIC_1 \<equiv> 0x4E"
abbreviation (input) GUARDIAN_NODE_LINK_VERSION :: u8 where "GUARDIAN_NODE_LINK_VERSION \<equiv> 0x01"
abbreviation (input) GUARDIAN_NODE_LINK_HEADER_SIZE :: nat where "GUARDIAN_NODE_LINK_HEADER_SIZE \<equiv> 20"
abbreviation (input) GUARDIAN_NODE_LINK_CRC_SIZE :: nat where "GUARDIAN_NODE_LINK_CRC_SIZE \<equiv> 4"
abbreviation (input) GUARDIAN_NODE_LINK_MAX_PAYLOAD :: nat where "GUARDIAN_NODE_LINK_MAX_PAYLOAD \<equiv> 64"
abbreviation (input) GUARDIAN_NODE_LINK_MAX_FRAME :: nat where "GUARDIAN_NODE_LINK_MAX_FRAME \<equiv> 88"
abbreviation (input) GUARDIAN_NODE_LINK_SUPPORTED_FLAGS :: u8 where
  "GUARDIAN_NODE_LINK_SUPPORTED_FLAGS \<equiv> 0x00"

abbreviation (input) GUARDIAN_NODE_LINK_MESSAGE_HELLO :: c_enum where
  "GUARDIAN_NODE_LINK_MESSAGE_HELLO \<equiv> 0x01"
abbreviation (input) GUARDIAN_NODE_LINK_MESSAGE_CHALLENGE :: c_enum where
  "GUARDIAN_NODE_LINK_MESSAGE_CHALLENGE \<equiv> 0x02"
abbreviation (input) GUARDIAN_NODE_LINK_MESSAGE_RESPONSE :: c_enum where
  "GUARDIAN_NODE_LINK_MESSAGE_RESPONSE \<equiv> 0x03"
abbreviation (input) GUARDIAN_NODE_LINK_MESSAGE_HEARTBEAT :: c_enum where
  "GUARDIAN_NODE_LINK_MESSAGE_HEARTBEAT \<equiv> 0x04"
abbreviation (input) GUARDIAN_NODE_LINK_MESSAGE_HEALTH :: c_enum where
  "GUARDIAN_NODE_LINK_MESSAGE_HEALTH \<equiv> 0x05"
abbreviation (input) GUARDIAN_NODE_LINK_MESSAGE_SUPERVISION_STATE :: c_enum where
  "GUARDIAN_NODE_LINK_MESSAGE_SUPERVISION_STATE \<equiv> 0x06"
abbreviation (input) GUARDIAN_NODE_LINK_MESSAGE_ERROR :: c_enum where
  "GUARDIAN_NODE_LINK_MESSAGE_ERROR \<equiv> 0x7F"

abbreviation (input) GUARDIAN_NODE_STATE_FAULT :: c_enum where "GUARDIAN_NODE_STATE_FAULT \<equiv> 0x05"

datatype guardian_node_link_result =
    GUARDIAN_NODE_LINK_OK
  | GUARDIAN_NODE_LINK_ERROR_NULL_ARGUMENT | GUARDIAN_NODE_LINK_ERROR_OUTPUT_TOO_SMALL
  | GUARDIAN_NODE_LINK_ERROR_FRAME_TOO_SHORT | GUARDIAN_NODE_LINK_ERROR_MAGIC
  | GUARDIAN_NODE_LINK_ERROR_VERSION | GUARDIAN_NODE_LINK_ERROR_MESSAGE_TYPE
  | GUARDIAN_NODE_LINK_ERROR_FLAGS | GUARDIAN_NODE_LINK_ERROR_STATE
  | GUARDIAN_NODE_LINK_ERROR_SEQUENCE_ZERO | GUARDIAN_NODE_LINK_ERROR_PAYLOAD_TOO_LARGE
  | GUARDIAN_NODE_LINK_ERROR_LENGTH_MISMATCH | GUARDIAN_NODE_LINK_ERROR_CRC
  | GUARDIAN_NODE_LINK_ERROR_REPLAY_OR_REGRESSION

text \<open>\<open>nf_payload\<close> is the inline array of 64 bytes.\<close>

record guardian_node_link_frame =
  nf_message_type :: c_enum
  nf_flags :: u8
  nf_node_state :: c_enum
  nf_payload_length :: u16
  nf_sequence :: u32
  nf_sender_epoch :: u32
  nf_sender_node_id :: u32
  nf_payload :: "u8 list"

record guardian_node_link_sequence_guard =
  sg_last_sequence :: u32
  sg_initialized :: u8

definition zero_node_frame :: guardian_node_link_frame where
  "zero_node_frame = \<lparr>nf_message_type = 0, nf_flags = 0, nf_node_state = 0, nf_payload_length = 0,
     nf_sequence = 0, nf_sender_epoch = 0, nf_sender_node_id = 0,
     nf_payload = replicate GUARDIAN_NODE_LINK_MAX_PAYLOAD 0\<rparr>"

section \<open>Operations\<close>

text \<open>The pointer argument of a byte-order helper is a buffer and an offset into it.\<close>

definition node_write_u16_be :: "u8 list \<Rightarrow> nat \<Rightarrow> u16 \<Rightarrow> u8 list" where
  "node_write_u16_be output i v = output[i := ucast (drop_bit 8 v), i + 1 := ucast v]"

definition node_write_u32_be :: "u8 list \<Rightarrow> nat \<Rightarrow> u32 \<Rightarrow> u8 list" where
  "node_write_u32_be output i v =
     output[i := ucast (drop_bit 24 v), i + 1 := ucast (drop_bit 16 v),
       i + 2 := ucast (drop_bit 8 v), i + 3 := ucast v]"

definition node_read_u16_be :: "u8 list \<Rightarrow> nat \<Rightarrow> u16" where
  "node_read_u16_be input i = push_bit 8 (ucast (input ! i)) OR ucast (input ! (i + 1))"

definition node_read_u32_be :: "u8 list \<Rightarrow> nat \<Rightarrow> u32" where
  "node_read_u32_be input i =
     push_bit 24 (ucast (input ! i)) OR push_bit 16 (ucast (input ! (i + 1)))
     OR push_bit 8 (ucast (input ! (i + 2))) OR ucast (input ! (i + 3))"

definition valid_message_type :: "u8 \<Rightarrow> bool" where
  "valid_message_type v \<longleftrightarrow> (ucast v :: c_enum) \<in>
     {GUARDIAN_NODE_LINK_MESSAGE_HELLO, GUARDIAN_NODE_LINK_MESSAGE_CHALLENGE,
      GUARDIAN_NODE_LINK_MESSAGE_RESPONSE, GUARDIAN_NODE_LINK_MESSAGE_HEARTBEAT,
      GUARDIAN_NODE_LINK_MESSAGE_HEALTH, GUARDIAN_NODE_LINK_MESSAGE_SUPERVISION_STATE,
      GUARDIAN_NODE_LINK_MESSAGE_ERROR}"

definition valid_state :: "u8 \<Rightarrow> bool" where
  "valid_state v \<longleftrightarrow> v \<le> ucast GUARDIAN_NODE_STATE_FAULT"

text \<open>The inner loop of the CRC selects the polynomial with the mask \<open>0 - (crc & 1)\<close>.\<close>

definition node_crc32_bit_step :: "u32 \<Rightarrow> u32" where
  "node_crc32_bit_step crc =
     (let mask = 0 - (crc AND 1) in drop_bit 1 crc XOR (0xEDB88320 AND mask))"

definition guardian_node_link_crc32 :: "u8 list ptr \<Rightarrow> nat \<Rightarrow> u32" where
  "guardian_node_link_crc32 data n =
     (if data = None \<and> n \<noteq> 0 then 0
      else NOT (fold (\<lambda>b crc. (node_crc32_bit_step ^^ 8) (crc XOR ucast b))
        (case data of None \<Rightarrow> [] | Some bytes \<Rightarrow> take n bytes) 0xFFFFFFFF))"

text \<open>The stores of the encoder once every check has passed.\<close>

definition node_link_store :: "guardian_node_link_frame \<Rightarrow> u8 list \<Rightarrow> u8 list" where
  "node_link_store f out =
     (let n = unat (nf_payload_length f);
          out1 = out[0 := GUARDIAN_NODE_LINK_MAGIC_0, 1 := GUARDIAN_NODE_LINK_MAGIC_1,
            2 := GUARDIAN_NODE_LINK_VERSION, 3 := ucast (nf_message_type f), 4 := nf_flags f,
            5 := ucast (nf_node_state f)];
          out2 = node_write_u16_be out1 6 (nf_payload_length f);
          out3 = node_write_u32_be out2 8 (nf_sequence f);
          out4 = node_write_u32_be out3 12 (nf_sender_epoch f);
          out5 = node_write_u32_be out4 16 (nf_sender_node_id f);
          out6 = (if nf_payload_length f \<noteq> 0
                  then buf_write out5 GUARDIAN_NODE_LINK_HEADER_SIZE (take n (nf_payload f)) else out5);
          crc = guardian_node_link_crc32 (Some out6) (GUARDIAN_NODE_LINK_HEADER_SIZE + n)
      in node_write_u32_be out6 (GUARDIAN_NODE_LINK_HEADER_SIZE + n) crc)"

definition guardian_node_link_encode ::
  "guardian_node_link_frame ptr \<Rightarrow> u8 list ptr \<Rightarrow> nat \<Rightarrow> nat ptr
     \<Rightarrow> guardian_node_link_result \<times> u8 list ptr \<times> nat ptr" where
  "guardian_node_link_encode frame output output_capacity output_size =
     (case (frame, output, output_size) of
        (Some f, Some out, Some _) \<Rightarrow>
          if \<not> valid_message_type (ucast (nf_message_type f))
          then (GUARDIAN_NODE_LINK_ERROR_MESSAGE_TYPE, output, output_size)
          else if nf_flags f \<noteq> GUARDIAN_NODE_LINK_SUPPORTED_FLAGS
          then (GUARDIAN_NODE_LINK_ERROR_FLAGS, output, output_size)
          else if \<not> valid_state (ucast (nf_node_state f))
          then (GUARDIAN_NODE_LINK_ERROR_STATE, output, output_size)
          else if nf_sequence f = 0
          then (GUARDIAN_NODE_LINK_ERROR_SEQUENCE_ZERO, output, output_size)
          else if unat (nf_payload_length f) > GUARDIAN_NODE_LINK_MAX_PAYLOAD
          then (GUARDIAN_NODE_LINK_ERROR_PAYLOAD_TOO_LARGE, output, output_size)
          else
            let frame_size = GUARDIAN_NODE_LINK_HEADER_SIZE + unat (nf_payload_length f)
                  + GUARDIAN_NODE_LINK_CRC_SIZE
            in if output_capacity < frame_size
            then (GUARDIAN_NODE_LINK_ERROR_OUTPUT_TOO_SMALL, output, output_size)
            else (GUARDIAN_NODE_LINK_OK, Some (node_link_store f out), Some frame_size)
      | _ \<Rightarrow> (GUARDIAN_NODE_LINK_ERROR_NULL_ARGUMENT, output, output_size))"

definition guardian_node_link_decode ::
  "u8 list ptr \<Rightarrow> nat \<Rightarrow> guardian_node_link_frame ptr
     \<Rightarrow> guardian_node_link_result \<times> guardian_node_link_frame ptr" where
  "guardian_node_link_decode input input_size frame =
     (case (input, frame) of
        (Some inp, Some f) \<Rightarrow>
          if input_size < GUARDIAN_NODE_LINK_HEADER_SIZE + GUARDIAN_NODE_LINK_CRC_SIZE
          then (GUARDIAN_NODE_LINK_ERROR_FRAME_TOO_SHORT, frame)
          else if inp ! 0 \<noteq> GUARDIAN_NODE_LINK_MAGIC_0 \<or> inp ! 1 \<noteq> GUARDIAN_NODE_LINK_MAGIC_1
          then (GUARDIAN_NODE_LINK_ERROR_MAGIC, frame)
          else if inp ! 2 \<noteq> GUARDIAN_NODE_LINK_VERSION
          then (GUARDIAN_NODE_LINK_ERROR_VERSION, frame)
          else if \<not> valid_message_type (inp ! 3)
          then (GUARDIAN_NODE_LINK_ERROR_MESSAGE_TYPE, frame)
          else if inp ! 4 \<noteq> GUARDIAN_NODE_LINK_SUPPORTED_FLAGS
          then (GUARDIAN_NODE_LINK_ERROR_FLAGS, frame)
          else if \<not> valid_state (inp ! 5)
          then (GUARDIAN_NODE_LINK_ERROR_STATE, frame)
          else
            let plen = node_read_u16_be inp 6; n = unat plen in
            if n > GUARDIAN_NODE_LINK_MAX_PAYLOAD
            then (GUARDIAN_NODE_LINK_ERROR_PAYLOAD_TOO_LARGE, frame)
            else
              let expected_size = GUARDIAN_NODE_LINK_HEADER_SIZE + n + GUARDIAN_NODE_LINK_CRC_SIZE in
              if input_size \<noteq> expected_size
              then (GUARDIAN_NODE_LINK_ERROR_LENGTH_MISMATCH, frame)
              else if node_read_u32_be inp 8 = 0
              then (GUARDIAN_NODE_LINK_ERROR_SEQUENCE_ZERO, frame)
              else
                let encoded_crc = node_read_u32_be inp (GUARDIAN_NODE_LINK_HEADER_SIZE + n);
                    calculated_crc = guardian_node_link_crc32 (Some inp) (GUARDIAN_NODE_LINK_HEADER_SIZE + n)
                in if encoded_crc \<noteq> calculated_crc
                then (GUARDIAN_NODE_LINK_ERROR_CRC, frame)
                else
                  let payload1 = (if plen \<noteq> 0
                        then buf_write (nf_payload f) 0 (buf_read inp GUARDIAN_NODE_LINK_HEADER_SIZE n)
                        else nf_payload f);
                      payload2 = (if n < GUARDIAN_NODE_LINK_MAX_PAYLOAD
                        then buf_write payload1 n (replicate (GUARDIAN_NODE_LINK_MAX_PAYLOAD - n) 0)
                        else payload1)
                  in (GUARDIAN_NODE_LINK_OK,
                      Some (f\<lparr>nf_message_type := ucast (inp ! 3), nf_flags := inp ! 4,
                        nf_node_state := ucast (inp ! 5), nf_payload_length := plen,
                        nf_sequence := node_read_u32_be inp 8, nf_sender_epoch := node_read_u32_be inp 12,
                        nf_sender_node_id := node_read_u32_be inp 16, nf_payload := payload2\<rparr>))
      | _ \<Rightarrow> (GUARDIAN_NODE_LINK_ERROR_NULL_ARGUMENT, frame))"

definition guardian_node_link_accept_sequence ::
  "guardian_node_link_sequence_guard ptr \<Rightarrow> u32
     \<Rightarrow> guardian_node_link_result \<times> guardian_node_link_sequence_guard ptr" where
  "guardian_node_link_accept_sequence guard seq =
     (case guard of
        None \<Rightarrow> (GUARDIAN_NODE_LINK_ERROR_NULL_ARGUMENT, guard)
      | Some g \<Rightarrow>
          if seq = 0 then (GUARDIAN_NODE_LINK_ERROR_SEQUENCE_ZERO, guard)
          else if sg_initialized g \<noteq> 0 \<and> seq \<le> sg_last_sequence g
          then (GUARDIAN_NODE_LINK_ERROR_REPLAY_OR_REGRESSION, guard)
          else (GUARDIAN_NODE_LINK_OK, Some (g\<lparr>sg_last_sequence := seq, sg_initialized := 1\<rparr>)))"

section \<open>The wire format\<close>

text \<open>The frames the encoder accepts and the decoder produces: 64 payload bytes of which those
  behind the length are zero, enumerators of the protocol, a non-zero sequence.\<close>

definition node_frame_valid :: "guardian_node_link_frame \<Rightarrow> bool" where
  "node_frame_valid f \<longleftrightarrow> length (nf_payload f) = GUARDIAN_NODE_LINK_MAX_PAYLOAD
     \<and> nf_message_type f \<in> {1, 2, 3, 4, 5, 6, 0x7F} \<and> nf_flags f = 0
     \<and> nf_node_state f \<le> GUARDIAN_NODE_STATE_FAULT \<and> nf_sequence f \<noteq> 0
     \<and> unat (nf_payload_length f) \<le> GUARDIAN_NODE_LINK_MAX_PAYLOAD
     \<and> drop (unat (nf_payload_length f)) (nf_payload f)
       = replicate (GUARDIAN_NODE_LINK_MAX_PAYLOAD - unat (nf_payload_length f)) 0"

definition node_payload :: "guardian_node_link_frame \<Rightarrow> u8 list" where
  "node_payload f = take (unat (nf_payload_length f)) (nf_payload f)"

definition node_body :: "guardian_node_link_frame \<Rightarrow> u8 list" where
  "node_body f =
     [GUARDIAN_NODE_LINK_MAGIC_0, GUARDIAN_NODE_LINK_MAGIC_1, GUARDIAN_NODE_LINK_VERSION,
      ucast (nf_message_type f), nf_flags f, ucast (nf_node_state f)]
     @ be16_bytes (nf_payload_length f) @ be32_bytes (nf_sequence f)
     @ be32_bytes (nf_sender_epoch f) @ be32_bytes (nf_sender_node_id f) @ node_payload f"

definition node_bytes :: "guardian_node_link_frame \<Rightarrow> u8 list" where
  "node_bytes f = node_body f @ be32_bytes (crc32_block (node_body f))"

section \<open>The two CRCs agree\<close>

lemma node_crc32_bit_step_eq: "node_crc32_bit_step = crc32_bit_step"
proof
  fix c :: u32
  have "c AND 1 = 0 \<or> c AND 1 = 1" by (simp add: and_one_eq mod_2_eq_odd)
  then show "node_crc32_bit_step c = crc32_bit_step c"
    by (auto simp: node_crc32_bit_step_def crc32_bit_step_def)
qed

lemma node_crc32_Some: "guardian_node_link_crc32 (Some b) n = crc32_block (take n b)"
proof -
  have "NOT v = v XOR 0xFFFFFFFF" for v :: u32
  proof -
    have "(0xFFFFFFFF :: u32) = - 1" by simp
    then show ?thesis by (simp only: bit.xor_one_right)
  qed
  then show ?thesis
    by (simp add: guardian_node_link_crc32_def crc32_block_def node_crc32_bit_step_eq
        crc32_byte_step_def [abs_def])
qed

section \<open>Codec lemmas\<close>

lemma node_read_be [be_simps]:
  "node_read_u16_be b i = be16_at b i" "node_read_u32_be b i = be32_at b i"
  by (simp_all add: node_read_u16_be_def node_read_u32_be_def be16_at_def be32_at_def or.assoc)

lemma node_write_be [be_simps]:
  "i + 2 \<le> length b \<Longrightarrow> node_write_u16_be b i v = buf_write b i (be16_bytes v)"
  "i + 4 \<le> length b \<Longrightarrow> node_write_u32_be b i w = buf_write b i (be32_bytes w)"
  by (simp_all add: node_write_u16_be_def node_write_u32_be_def be16_bytes_def ucast_and_255
      be32_bytes_def list_update_buf_write buf_write_adjacent)

lemma node_payload_length:
  "node_frame_valid f \<Longrightarrow> length (node_payload f) = unat (nf_payload_length f)"
  by (simp add: node_frame_valid_def node_payload_def)

lemma node_payload_padded:
  "node_frame_valid f \<Longrightarrow>
   nf_payload f = node_payload f @ replicate (64 - unat (nf_payload_length f)) 0"
  unfolding node_frame_valid_def node_payload_def by (metis append_take_drop_id)

lemma length_node_body: "node_frame_valid f \<Longrightarrow> length (node_body f) = 20 + unat (nf_payload_length f)"
  by (simp add: node_body_def node_payload_length)

lemma length_node_bytes: "node_frame_valid f \<Longrightarrow> length (node_bytes f) = 24 + unat (nf_payload_length f)"
  by (simp add: node_bytes_def length_node_body)

lemma enum_byte_roundtrip: "w < 256 \<Longrightarrow> (ucast (ucast w :: u8) :: c_enum) = w"
  by (simp add: word_unat_eq_iff unsigned_ucast_eq unsigned_take_bit_eq take_bit_nat_eq_self
      word_less_nat_alt)

lemma valid_message_type_enum:
  "w < 256 \<Longrightarrow> valid_message_type (ucast w) \<longleftrightarrow> w \<in> {1, 2, 3, 4, 5, 6, 0x7F}" for w :: c_enum
  by (simp add: valid_message_type_def enum_byte_roundtrip)

lemma valid_state_byte: "valid_state b \<longleftrightarrow> (ucast b :: c_enum) \<le> 5"
proof -
  have "unat b < 256" using unsigned_less [of b] by simp
  then show ?thesis
    by (simp add: valid_state_def word_le_nat_alt unsigned_ucast_eq take_bit_nat_eq_self)
qed

lemma node_frame_valid_enums:
  assumes "node_frame_valid f"
  shows "nf_message_type f < 256" "nf_node_state f < 256"
    "valid_message_type (ucast (nf_message_type f))" "valid_state (ucast (nf_node_state f))"
proof -
  have le: "nf_message_type f \<le> 0x7F" "nf_node_state f \<le> 5"
    using assms by (auto simp: node_frame_valid_def)
  show m: "nf_message_type f < 256" and n: "nf_node_state f < 256"
    by (rule order.strict_trans1 [OF le(1)], simp, rule order.strict_trans1 [OF le(2)], simp)
  show "valid_message_type (ucast (nf_message_type f))" "valid_state (ucast (nf_node_state f))"
    using assms le m n
    by (simp_all add: valid_message_type_enum valid_state_byte enum_byte_roundtrip node_frame_valid_def)
qed

lemma node_link_store_eq:
  assumes f: "node_frame_valid f" and l: "24 + unat (nf_payload_length f) \<le> length out"
  shows "node_link_store f out = buf_write out 0 (node_bytes f)"
proof -
  let ?n = "unat (nf_payload_length f)"
  let ?hdr = "[GUARDIAN_NODE_LINK_MAGIC_0, GUARDIAN_NODE_LINK_MAGIC_1, GUARDIAN_NODE_LINK_VERSION,
      ucast (nf_message_type f), nf_flags f, ucast (nf_node_state f)]"
  have pl: "length (node_payload f) = ?n" by (rule node_payload_length [OF f])
  have ne: "out \<noteq> []" using l by auto
  define out5 where "out5 = node_write_u32_be (node_write_u32_be (node_write_u32_be
     (node_write_u16_be (out[0 := GUARDIAN_NODE_LINK_MAGIC_0, 1 := GUARDIAN_NODE_LINK_MAGIC_1,
       2 := GUARDIAN_NODE_LINK_VERSION, 3 := ucast (nf_message_type f), 4 := nf_flags f,
       5 := ucast (nf_node_state f)]) 6 (nf_payload_length f)) 8 (nf_sequence f)) 12
     (nf_sender_epoch f)) 16 (nf_sender_node_id f)"
  have out5: "out5 = buf_write out 0 (?hdr @ be16_bytes (nf_payload_length f)
      @ be32_bytes (nf_sequence f) @ be32_bytes (nf_sender_epoch f) @ be32_bytes (nf_sender_node_id f))"
    using l ne by (simp add: out5_def node_write_be list_update_buf_write
        list_update_0_buf_write buf_write_adjacent [where off = 0])
  define out6 where "out6 = (if nf_payload_length f \<noteq> 0
     then buf_write out5 20 (take ?n (nf_payload f)) else out5)"
  have out6: "out6 = buf_write out 0 (node_body f)"
    using l pl by (simp add: out6_def out5 buf_write_adjacent node_body_def node_payload_def)
  have crc: "guardian_node_link_crc32 (Some out6) (20 + ?n) = crc32_block (node_body f)"
    by (simp add: node_crc32_Some out6 take_buf_write_0 length_node_body [OF f])
  have "node_link_store f out = node_write_u32_be out6 (20 + ?n) (crc32_block (node_body f))"
    unfolding crc [symmetric] out6_def out5_def node_link_store_def Let_def ..
  also have "\<dots> = buf_write out 0 (node_bytes f)"
    using l unfolding out6
    by (simp add: node_write_be buf_write_adjacent node_bytes_def length_node_body [OF f])
  finally show ?thesis .
qed

lemma node_encode_ok:
  assumes "node_frame_valid f" "24 + unat (nf_payload_length f) \<le> cap" "cap \<le> length out"
  shows "guardian_node_link_encode (Some f) (Some out) cap (Some n0) =
    (GUARDIAN_NODE_LINK_OK, Some (buf_write out 0 (node_bytes f)), Some (24 + unat (nf_payload_length f)))"
  using assms node_frame_valid_enums [OF assms(1)]
  by (simp add: guardian_node_link_encode_def node_link_store_eq node_frame_valid_def Let_def)

lemma zero_padding:
  "length p = 64 \<Longrightarrow> k \<le> 64 \<Longrightarrow>
   (if k < 64 then buf_write p k (replicate (64 - k) 0) else p) = take k p @ replicate (64 - k) 0"
  by (auto simp: buf_write_def)

lemma node_decode_bytes:
  assumes f: "node_frame_valid f" and f0: "length (nf_payload f0) = 64"
  shows "guardian_node_link_decode (Some (node_bytes f @ rest)) (24 + unat (nf_payload_length f)) (Some f0)
    = (GUARDIAN_NODE_LINK_OK, Some f)"
proof -
  let ?n = "unat (nf_payload_length f)" and ?w = "node_bytes f @ rest"
  note v = f [unfolded node_frame_valid_def] and e = node_frame_valid_enums [OF f]
  have ix: "?w ! 0 = 0x47" "?w ! 1 = 0x4E" "?w ! 2 = 1" "?w ! 3 = ucast (nf_message_type f)"
    "?w ! 4 = 0" "?w ! 5 = ucast (nf_node_state f)"
    using v by (simp_all add: node_bytes_def node_body_def)
  have rd: "be16_at ?w 6 = nf_payload_length f" "be32_at ?w 8 = nf_sequence f"
    "be32_at ?w 12 = nf_sender_epoch f" "be32_at ?w 16 = nf_sender_node_id f"
    by (simp_all add: node_bytes_def node_body_def buf_simps)
  have crc: "be32_at ?w (20 + ?n) = crc32_block (node_body f)"
    by (simp add: node_bytes_def buf_simps length_node_body [OF f])
  have body: "take (20 + ?n) ?w = node_body f"
    by (simp add: node_bytes_def length_node_body [OF f])
  have pay: "buf_read ?w 20 ?n = node_payload f"
    by (simp add: node_bytes_def node_body_def buf_read_def node_payload_length [OF f])
  let ?p = "if nf_payload_length f \<noteq> 0 then buf_write (nf_payload f0) 0 (node_payload f) else nf_payload f0"
  have "take ?n ?p = node_payload f" "length ?p = 64"
    using f0 node_payload_length [OF f] v by (auto simp: take_buf_write_0)
  then have p: "(if ?n < 64 then buf_write ?p ?n (replicate (64 - ?n) 0) else ?p) = nf_payload f"
    using v node_payload_padded [OF f] by (simp only: zero_padding)
  have eq: "f0\<lparr>nf_message_type := nf_message_type f, nf_flags := 0, nf_node_state := nf_node_state f,
      nf_payload_length := nf_payload_length f, nf_sequence := nf_sequence f,
      nf_sender_epoch := nf_sender_epoch f, nf_sender_node_id := nf_sender_node_id f,
      nf_payload := nf_payload f\<rparr> = f"
    using v by (cases f, cases f0) simp
  show ?thesis
    unfolding guardian_node_link_decode_def Let_def option.case prod.case node_read_be rd ix crc pay
      node_crc32_Some body p
    using v e eq by (simp add: enum_byte_roundtrip)
qed

lemma node_decode_ok_bytes:
  assumes dec: "guardian_node_link_decode (Some inp) n (Some f0) = (GUARDIAN_NODE_LINK_OK, Some f)"
    and n: "n \<le> length inp" and f0: "length (nf_payload f0) = 64"
  shows "node_frame_valid f \<and> n = 24 + unat (nf_payload_length f) \<and> take n inp = node_bytes f"
proof -
  let ?k = "unat (be16_at inp 6)"
  let ?p = "if be16_at inp 6 \<noteq> 0 then buf_write (nf_payload f0) 0 (buf_read inp 20 ?k) else nf_payload f0"
  let ?q = "if ?k < 64 then buf_write ?p ?k (replicate (64 - ?k) 0) else ?p"
  from dec have g: "24 \<le> n" "inp ! 0 = 0x47" "inp ! 1 = 0x4E" "inp ! 2 = 1"
    "valid_message_type (inp ! 3)" "inp ! 4 = 0" "valid_state (inp ! 5)" "?k \<le> 64" "n = 24 + ?k"
    "be32_at inp 8 \<noteq> 0" "be32_at inp (20 + ?k) = crc32_block (take (20 + ?k) inp)"
    and f: "f = f0\<lparr>nf_message_type := ucast (inp ! 3), nf_flags := 0, nf_node_state := ucast (inp ! 5),
      nf_payload_length := be16_at inp 6, nf_sequence := be32_at inp 8,
      nf_sender_epoch := be32_at inp 12, nf_sender_node_id := be32_at inp 16, nf_payload := ?q\<rparr>"
    unfolding guardian_node_link_decode_def Let_def option.case prod.case node_read_be node_crc32_Some
    by (simp_all split: if_split_asm)
  have pl: "length (buf_read inp 20 ?k) = ?k" using g(1,9) n by (simp add: length_buf_read)
  have p: "take ?k ?p = buf_read inp 20 ?k" "length ?p = 64"
    using pl f0 g(8) by (auto simp: take_buf_write_0)
  then have "?q = buf_read inp 20 ?k @ replicate (64 - ?k) 0"
    using g(8) by (simp only: zero_padding)
  then have q: "length ?q = 64" "take ?k ?q = buf_read inp 20 ?k" "drop ?k ?q = replicate (64 - ?k) 0"
    using pl g(8) by simp_all
  have valid: "node_frame_valid f"
    unfolding node_frame_valid_def f using q g
    by (auto simp: valid_message_type_def valid_state_byte)
  have nth: "take 20 inp = [inp ! 0, inp ! 1, inp ! 2, inp ! 3, inp ! 4, inp ! 5] @
      [inp ! 6, inp ! 7] @ [inp ! 8, inp ! 9, inp ! 10, inp ! 11] @
      [inp ! 12, inp ! 13, inp ! 14, inp ! 15] @ [inp ! 16, inp ! 17, inp ! 18, inp ! 19]"
    using g(1) n by (intro nth_equalityI) (auto simp: nth_Cons' less_Suc_eq numeral_eq_Suc)
  have "node_body f = take 20 inp @ buf_read inp 20 ?k"
    unfolding node_body_def nth using g q(2) by (simp add: f node_payload_def be_bytes_at)
  also have "\<dots> = take (20 + ?k) inp" by (simp add: buf_read_def take_add)
  finally have body: "node_body f = take (20 + ?k) inp" .
  have "be32_bytes (crc32_block (take (20 + ?k) inp)) = take 4 (drop (20 + ?k) inp)"
    unfolding g(11) [symmetric] be32_bytes_at
    using g(1,9) n by (intro nth_equalityI) (auto simp: nth_Cons' less_Suc_eq numeral_eq_Suc)
  then have "node_bytes f = take (20 + ?k) inp @ take 4 (drop (20 + ?k) inp)"
    unfolding node_bytes_def body by simp
  also have "\<dots> = take n inp" unfolding g(9) by (simp add: take_add [symmetric] del: take_take)
  finally show ?thesis using valid g(9) by (simp add: f)
qed

section \<open>The sequence guard\<close>

definition sequence_offer ::
  "guardian_node_link_sequence_guard \<Rightarrow> u32 \<Rightarrow> bool \<times> guardian_node_link_sequence_guard" where
  "sequence_offer g seq = (case guardian_node_link_accept_sequence (Some g) seq of
     (r, g') \<Rightarrow> (r = GUARDIAN_NODE_LINK_OK, the g'))"

definition guard_level :: "guardian_node_link_sequence_guard \<Rightarrow> nat" where
  "guard_level g = (if sg_initialized g \<noteq> 0 then unat (sg_last_sequence g) else 0)"

interpretation sequence_guard: replay_guard sequence_offer "\<lambda>_. True" "\<lambda>_. True" "\<lambda>_. ()" "\<lambda>_. ()"
  guard_level unat
  by unfold_locales
    (auto simp: sequence_offer_def guardian_node_link_accept_sequence_def guard_level_def
      word_less_nat_alt word_le_nat_alt unat_gt_0 split: if_split_asm)

section \<open>Properties\<close>

text \<open>C31: The node-link wire format is exact in both directions. Into a caller frame with a full
  payload array, the decoder reports success with frame \<open>f\<close> exactly if \<open>f\<close> is a valid frame
  (padding zeroed) and the input is, byte for byte, what the encoder writes for \<open>f\<close>; and the
  CRC the encoder appends is the function the host protocol computes.\<close>

theorem node_link_decode_iff:
  assumes "n \<le> length inp" "length (nf_payload f0) = GUARDIAN_NODE_LINK_MAX_PAYLOAD"
  shows "guardian_node_link_decode (Some inp) n (Some f0) = (GUARDIAN_NODE_LINK_OK, Some f) \<longleftrightarrow>
    node_frame_valid f \<and>
    (\<exists>out. guardian_node_link_encode (Some f) (Some (replicate GUARDIAN_NODE_LINK_MAX_FRAME 0))
        GUARDIAN_NODE_LINK_MAX_FRAME (Some 0) = (GUARDIAN_NODE_LINK_OK, Some out, Some n)
      \<and> take n inp = take n out
      \<and> be32_at inp (n - 4) = guardian_crc32 (Some inp) (n - 4))" (is "?L \<longleftrightarrow> ?R")
proof
  assume ?L
  from node_decode_ok_bytes [OF this assms]
  have v: "node_frame_valid f" and n: "n = 24 + unat (nf_payload_length f)"
    and b: "take n inp = node_bytes f" by auto
  have l: "length (node_bytes f) = n" using n length_node_bytes [OF v] by simp
  have "be32_at (node_bytes f) (n - 4) = crc32_block (node_body f)"
    unfolding node_bytes_def using n by (simp add: buf_simps length_node_body [OF v])
  moreover have "take (n - 4) (node_bytes f) = node_body f"
    unfolding node_bytes_def using n by (simp add: length_node_body [OF v])
  ultimately have "be32_at (take n inp) (n - 4) = crc32_block (take (n - 4) (take n inp))"
    unfolding b by simp
  then have "be32_at inp (n - 4) = guardian_crc32 (Some inp) (n - 4)"
    using n by (simp add: be_at_take guardian_crc32_Some)
  then show ?R
    using v n b l node_encode_ok [OF v, of 88 "replicate 88 0" 0]
    by (simp add: take_buf_write_0 node_frame_valid_def)
next
  assume r: ?R
  then have v: "node_frame_valid f" by simp
  have e: "guardian_node_link_encode (Some f) (Some (replicate 88 0)) 88 (Some 0) =
      (GUARDIAN_NODE_LINK_OK, Some (buf_write (replicate 88 0) 0 (node_bytes f)),
       Some (24 + unat (nf_payload_length f)))"
    using v by (intro node_encode_ok) (simp_all add: node_frame_valid_def)
  with r have n: "n = 24 + unat (nf_payload_length f)"
    and "take n inp = take n (buf_write (replicate 88 0) 0 (node_bytes f))" by auto
  then have "take n inp = node_bytes f"
    by (simp add: take_buf_write_0 length_node_bytes [OF v])
  then have "inp = node_bytes f @ drop n inp" by (metis append_take_drop_id)
  then show ?L using node_decode_bytes [OF v assms(2)] n by metis
qed

text \<open>A heartbeat with a two-byte payload.\<close>

definition sample_node_frame :: guardian_node_link_frame where
  "sample_node_frame = zero_node_frame\<lparr>nf_message_type := GUARDIAN_NODE_LINK_MESSAGE_HEARTBEAT,
     nf_node_state := 2, nf_payload_length := 2, nf_sequence := 41, nf_sender_epoch := 3,
     nf_sender_node_id := 9, nf_payload := [0xAA, 0x55] @ replicate 62 0\<rparr>"

lemma sample_node_frame_valid: "node_frame_valid sample_node_frame"
  by (simp add: node_frame_valid_def sample_node_frame_def zero_node_frame_def)

theorem node_link_decode_iff_witness:
  "length (node_bytes sample_node_frame) = 26
   \<and> guardian_node_link_decode (Some (node_bytes sample_node_frame)) 26 (Some zero_node_frame)
     = (GUARDIAN_NODE_LINK_OK, Some sample_node_frame)
   \<and> be32_at (node_bytes sample_node_frame) 22 = guardian_crc32 (Some (node_bytes sample_node_frame)) 22"
proof -
  note v = sample_node_frame_valid
  have l: "length (node_bytes sample_node_frame) = 26"
    using length_node_bytes [OF v] by (simp add: sample_node_frame_def)
  have d: "guardian_node_link_decode (Some (node_bytes sample_node_frame)) 26 (Some zero_node_frame)
      = (GUARDIAN_NODE_LINK_OK, Some sample_node_frame)"
    using node_decode_bytes [OF v, of zero_node_frame "[]"] by (simp add: zero_node_frame_def sample_node_frame_def)
  have "length (nf_payload zero_node_frame) = 64" by (simp add: zero_node_frame_def)
  from iffD1 [OF node_link_decode_iff [OF _ this] d] l have
    "be32_at (node_bytes sample_node_frame) (26 - 4) = guardian_crc32 (Some (node_bytes sample_node_frame)) (26 - 4)"
    by auto
  with l d show ?thesis by simp
qed

end
