(* ===== verification/Guardian_Node_Auth.thy ===== *)
theory Guardian_Node_Auth
  imports Guardian_Node_Link
begin

text \<open>
  Authentication and semantic compatibility of node-link messages
  (\<open>firmware/NodeLink/Src/guardian_node_link_auth.c\<close> and \<open>guardian_node_link_semantic.c\<close>): the
  registry of at most eight peers, the domain-separated transcript a peer signs, the check of
  the signature by an external provider, and the resolution of the sender's semantic binding
  by an external compatibility provider. Both providers are function pointers with a context
  the provider may change; the context is threaded through. A reference (\<open>char[96]\<close>) is its
  array of bytes.
\<close>

section \<open>C strings\<close>

text \<open>\<open>strnlen(s, n)\<close>, and \<open>strncmp(a, b, n) == 0\<close>.\<close>

definition c_string :: "nat \<Rightarrow> u8 list \<Rightarrow> u8 list" where
  "c_string n s = takeWhile (\<lambda>c. c \<noteq> 0) (take n s)"

definition c_strnlen :: "u8 list \<Rightarrow> nat \<Rightarrow> nat" where
  "c_strnlen s n = length (c_string n s)"

definition c_strncmp_equal :: "u8 list \<Rightarrow> u8 list \<Rightarrow> nat \<Rightarrow> bool" where
  "c_strncmp_equal a b n \<longleftrightarrow> c_string n a = c_string n b"

section \<open>Authentication: constants and types\<close>

abbreviation (input) GUARDIAN_NODE_LINK_SIGNATURE_ED25519 :: u8 where
  "GUARDIAN_NODE_LINK_SIGNATURE_ED25519 \<equiv> 0x01"
abbreviation (input) GUARDIAN_NODE_LINK_ED25519_SIGNATURE_SIZE :: nat where
  "GUARDIAN_NODE_LINK_ED25519_SIGNATURE_SIZE \<equiv> 64"
abbreviation (input) GUARDIAN_NODE_LINK_AUTH_MAX_PEERS :: nat where
  "GUARDIAN_NODE_LINK_AUTH_MAX_PEERS \<equiv> 8"
abbreviation (input) GUARDIAN_NODE_LINK_AUTH_DOMAIN_SIZE :: nat where
  "GUARDIAN_NODE_LINK_AUTH_DOMAIN_SIZE \<equiv> 30"
abbreviation (input) GUARDIAN_NODE_LINK_AUTH_TRANSCRIPT_FIXED_SIZE :: nat where
  "GUARDIAN_NODE_LINK_AUTH_TRANSCRIPT_FIXED_SIZE \<equiv> 56"
abbreviation (input) GUARDIAN_NODE_LINK_AUTH_TRANSCRIPT_MAX_SIZE :: nat where
  "GUARDIAN_NODE_LINK_AUTH_TRANSCRIPT_MAX_SIZE \<equiv> 120"

definition node_auth_domain :: "u8 list" where
  "node_auth_domain = map of_char ''GUARDIAN-F401:NODELINK:AUTH:V1''"

text \<open>What the signature provider answers; it may return any integer.\<close>

abbreviation (input) GUARDIAN_NODE_LINK_VERIFY_VERIFIED :: c_enum where
  "GUARDIAN_NODE_LINK_VERIFY_VERIFIED \<equiv> 0"
abbreviation (input) GUARDIAN_NODE_LINK_VERIFY_SIGNATURE_INVALID :: c_enum where
  "GUARDIAN_NODE_LINK_VERIFY_SIGNATURE_INVALID \<equiv> 1"
abbreviation (input) GUARDIAN_NODE_LINK_VERIFY_KEY_UNKNOWN :: c_enum where
  "GUARDIAN_NODE_LINK_VERIFY_KEY_UNKNOWN \<equiv> 2"
abbreviation (input) GUARDIAN_NODE_LINK_VERIFY_KEY_REVOKED :: c_enum where
  "GUARDIAN_NODE_LINK_VERIFY_KEY_REVOKED \<equiv> 3"
abbreviation (input) GUARDIAN_NODE_LINK_VERIFY_ALGORITHM_UNSUPPORTED :: c_enum where
  "GUARDIAN_NODE_LINK_VERIFY_ALGORITHM_UNSUPPORTED \<equiv> 4"
abbreviation (input) GUARDIAN_NODE_LINK_VERIFY_PROVIDER_UNAVAILABLE :: c_enum where
  "GUARDIAN_NODE_LINK_VERIFY_PROVIDER_UNAVAILABLE \<equiv> 5"

datatype guardian_node_link_auth_result =
    GUARDIAN_NODE_LINK_AUTH_OK
  | GUARDIAN_NODE_LINK_AUTH_ERROR_NULL_ARGUMENT | GUARDIAN_NODE_LINK_AUTH_ERROR_UNCONFIGURED
  | GUARDIAN_NODE_LINK_AUTH_ERROR_PEER_UNKNOWN | GUARDIAN_NODE_LINK_AUTH_ERROR_KEY_UNKNOWN
  | GUARDIAN_NODE_LINK_AUTH_ERROR_KEY_REVOKED
  | GUARDIAN_NODE_LINK_AUTH_ERROR_ALGORITHM_UNSUPPORTED
  | GUARDIAN_NODE_LINK_AUTH_ERROR_TRANSCRIPT | GUARDIAN_NODE_LINK_AUTH_ERROR_SIGNATURE_INVALID
  | GUARDIAN_NODE_LINK_AUTH_ERROR_PROVIDER_UNAVAILABLE
  | GUARDIAN_NODE_LINK_AUTH_ERROR_PROVIDER_FAILURE

record guardian_node_link_peer_identity =
  pe_sender_node_id :: u32
  pe_producer_id :: u32
  pe_key_id :: u32
  pe_signature_algorithm :: u8

record guardian_node_link_authenticated_message =
  am_frame :: guardian_node_link_frame
  am_producer_id :: u32
  am_key_id :: u32
  am_signature_algorithm :: u8

text \<open>Arguments of the provider: context, algorithm, producer, key, transcript and its length,
  signature and its length.\<close>

type_synonym 'c verify_signature_fn =
  "'c ptr \<Rightarrow> u8 \<Rightarrow> u32 \<Rightarrow> u32 \<Rightarrow> u8 list \<Rightarrow> nat \<Rightarrow> u8 list \<Rightarrow> nat \<Rightarrow> c_enum \<times> 'c ptr"

record 'c guardian_node_link_auth_config =
  ac_context :: "'c ptr"
  ac_verify_signature :: "'c verify_signature_fn ptr"
  ac_peers :: "guardian_node_link_peer_identity list ptr"
  ac_peer_count :: nat
  ac_required_signature_algorithm :: u8

record 'c guardian_node_link_authenticator =
  au_context :: "'c ptr"
  au_verify_signature :: "'c verify_signature_fn ptr"
  au_peers :: "guardian_node_link_peer_identity list"
  au_peer_count :: nat
  au_required_signature_algorithm :: u8
  au_configured :: u8

definition zero_peer :: guardian_node_link_peer_identity where
  "zero_peer = \<lparr>pe_sender_node_id = 0, pe_producer_id = 0, pe_key_id = 0, pe_signature_algorithm = 0\<rparr>"

abbreviation (input) zero_peers :: "guardian_node_link_peer_identity list" where
  "zero_peers \<equiv> replicate GUARDIAN_NODE_LINK_AUTH_MAX_PEERS zero_peer"

definition zero_authenticator :: "'c guardian_node_link_authenticator" where
  "zero_authenticator = \<lparr>au_context = None, au_verify_signature = None,
     au_peers = zero_peers, au_peer_count = 0,
     au_required_signature_algorithm = 0, au_configured = 0\<rparr>"

definition zero_authenticated_message :: guardian_node_link_authenticated_message where
  "zero_authenticated_message = \<lparr>am_frame = zero_node_frame, am_producer_id = 0, am_key_id = 0,
     am_signature_algorithm = 0\<rparr>"

section \<open>Authentication: operations\<close>

definition guardian_node_link_auth_write_u16 :: "u8 list \<Rightarrow> nat \<Rightarrow> u16 \<Rightarrow> u8 list" where
  "guardian_node_link_auth_write_u16 output i v =
     output[i := ucast (drop_bit 8 v AND 0xFF), i + 1 := ucast (v AND 0xFF)]"

definition guardian_node_link_auth_write_u32 :: "u8 list \<Rightarrow> nat \<Rightarrow> u32 \<Rightarrow> u8 list" where
  "guardian_node_link_auth_write_u32 output i v =
     output[i := ucast (drop_bit 24 v AND 0xFF), i + 1 := ucast (drop_bit 16 v AND 0xFF),
       i + 2 := ucast (drop_bit 8 v AND 0xFF), i + 3 := ucast (v AND 0xFF)]"

definition guardian_node_link_auth_message_type_valid :: "c_enum \<Rightarrow> bool" where
  "guardian_node_link_auth_message_type_valid t \<longleftrightarrow> t \<in>
     {GUARDIAN_NODE_LINK_MESSAGE_HELLO, GUARDIAN_NODE_LINK_MESSAGE_CHALLENGE,
      GUARDIAN_NODE_LINK_MESSAGE_RESPONSE, GUARDIAN_NODE_LINK_MESSAGE_HEARTBEAT,
      GUARDIAN_NODE_LINK_MESSAGE_HEALTH, GUARDIAN_NODE_LINK_MESSAGE_SUPERVISION_STATE,
      GUARDIAN_NODE_LINK_MESSAGE_ERROR}"

definition guardian_node_link_auth_state_valid :: "c_enum \<Rightarrow> bool" where
  "guardian_node_link_auth_state_valid s \<longleftrightarrow> s \<le> GUARDIAN_NODE_STATE_FAULT"

definition guardian_node_link_auth_resolve_peer ::
  "'c guardian_node_link_authenticator ptr \<Rightarrow> u32 \<Rightarrow> guardian_node_link_peer_identity ptr" where
  "guardian_node_link_auth_resolve_peer authenticator sender_node_id =
     (case authenticator of
        None \<Rightarrow> None
      | Some a \<Rightarrow> find (\<lambda>p. pe_sender_node_id p = sender_node_id) (take (au_peer_count a) (au_peers a)))"

definition guardian_node_link_auth_map_verify_result :: "c_enum \<Rightarrow> guardian_node_link_auth_result" where
  "guardian_node_link_auth_map_verify_result r =
     (if r = GUARDIAN_NODE_LINK_VERIFY_VERIFIED then GUARDIAN_NODE_LINK_AUTH_OK
      else if r = GUARDIAN_NODE_LINK_VERIFY_SIGNATURE_INVALID
      then GUARDIAN_NODE_LINK_AUTH_ERROR_SIGNATURE_INVALID
      else if r = GUARDIAN_NODE_LINK_VERIFY_KEY_UNKNOWN then GUARDIAN_NODE_LINK_AUTH_ERROR_KEY_UNKNOWN
      else if r = GUARDIAN_NODE_LINK_VERIFY_KEY_REVOKED then GUARDIAN_NODE_LINK_AUTH_ERROR_KEY_REVOKED
      else if r = GUARDIAN_NODE_LINK_VERIFY_ALGORITHM_UNSUPPORTED
      then GUARDIAN_NODE_LINK_AUTH_ERROR_ALGORITHM_UNSUPPORTED
      else if r = GUARDIAN_NODE_LINK_VERIFY_PROVIDER_UNAVAILABLE
      then GUARDIAN_NODE_LINK_AUTH_ERROR_PROVIDER_UNAVAILABLE
      else GUARDIAN_NODE_LINK_AUTH_ERROR_PROVIDER_FAILURE)"

definition guardian_node_link_authenticator_init ::
  "'c guardian_node_link_authenticator ptr \<Rightarrow> 'c guardian_node_link_authenticator ptr" where
  "guardian_node_link_authenticator_init authenticator = map_option (\<lambda>_. zero_authenticator) authenticator"

text \<open>The loop over the configured peers; the inner loop compares a peer with the later ones.\<close>

fun auth_check_peers ::
  "u8 \<Rightarrow> guardian_node_link_peer_identity list \<Rightarrow> guardian_node_link_auth_result" where
  "auth_check_peers required [] = GUARDIAN_NODE_LINK_AUTH_OK"
| "auth_check_peers required (peer # later) =
     (if pe_sender_node_id peer = 0 \<or> pe_producer_id peer = 0 \<or> pe_key_id peer = 0
      then GUARDIAN_NODE_LINK_AUTH_ERROR_UNCONFIGURED
      else if pe_signature_algorithm peer \<noteq> required
      then GUARDIAN_NODE_LINK_AUTH_ERROR_ALGORITHM_UNSUPPORTED
      else if list_ex (\<lambda>p. pe_sender_node_id peer = pe_sender_node_id p) later
      then GUARDIAN_NODE_LINK_AUTH_ERROR_UNCONFIGURED
      else auth_check_peers required later)"

definition guardian_node_link_authenticator_configure ::
  "'c guardian_node_link_authenticator ptr \<Rightarrow> 'c guardian_node_link_auth_config ptr
     \<Rightarrow> guardian_node_link_auth_result \<times> 'c guardian_node_link_authenticator ptr" where
  "guardian_node_link_authenticator_configure authenticator config =
     (case (authenticator, config) of
        (Some _, Some cfg) \<Rightarrow>
          if ac_verify_signature cfg = None
          then (GUARDIAN_NODE_LINK_AUTH_ERROR_UNCONFIGURED, Some zero_authenticator)
          else if ac_peer_count cfg > GUARDIAN_NODE_LINK_AUTH_MAX_PEERS
          then (GUARDIAN_NODE_LINK_AUTH_ERROR_UNCONFIGURED, Some zero_authenticator)
          else if ac_peer_count cfg > 0 \<and> ac_peers cfg = None
          then (GUARDIAN_NODE_LINK_AUTH_ERROR_UNCONFIGURED, Some zero_authenticator)
          else if ac_required_signature_algorithm cfg \<noteq> GUARDIAN_NODE_LINK_SIGNATURE_ED25519
          then (GUARDIAN_NODE_LINK_AUTH_ERROR_ALGORITHM_UNSUPPORTED, Some zero_authenticator)
          else
            let peers = (case ac_peers cfg of None \<Rightarrow> [] | Some ps \<Rightarrow> take (ac_peer_count cfg) ps);
                checked = auth_check_peers (ac_required_signature_algorithm cfg) peers
            in if checked \<noteq> GUARDIAN_NODE_LINK_AUTH_OK then (checked, Some zero_authenticator)
            else (GUARDIAN_NODE_LINK_AUTH_OK,
              Some (zero_authenticator\<lparr>au_context := ac_context cfg,
                au_verify_signature := ac_verify_signature cfg, au_peer_count := ac_peer_count cfg,
                au_required_signature_algorithm := ac_required_signature_algorithm cfg,
                au_peers := (if ac_peer_count cfg > 0
                  then buf_write zero_peers 0 peers else zero_peers),
                au_configured := 1\<rparr>))
      | _ \<Rightarrow> (GUARDIAN_NODE_LINK_AUTH_ERROR_NULL_ARGUMENT, authenticator))"

text \<open>Every store advances \<open>offset\<close> by the size of what it wrote, so at the end \<open>offset\<close> is
  \<open>required\<close> and the last check cannot fail; it is kept.\<close>

definition guardian_node_link_build_auth_transcript ::
  "guardian_node_link_frame ptr \<Rightarrow> u32 \<Rightarrow> u32 \<Rightarrow> u8 list ptr \<Rightarrow> nat \<Rightarrow> nat ptr
     \<Rightarrow> guardian_node_link_auth_result \<times> u8 list ptr \<times> nat ptr" where
  "guardian_node_link_build_auth_transcript frame producer_id key_id output output_capacity output_length =
     (case (frame, output, output_length) of
        (Some f, Some out, Some _) \<Rightarrow>
          if nf_flags f \<noteq> GUARDIAN_NODE_LINK_SUPPORTED_FLAGS
             \<or> \<not> guardian_node_link_auth_message_type_valid (nf_message_type f)
             \<or> \<not> guardian_node_link_auth_state_valid (nf_node_state f)
             \<or> nf_sequence f = 0 \<or> nf_sender_epoch f = 0 \<or> nf_sender_node_id f = 0
             \<or> producer_id = 0 \<or> key_id = 0
             \<or> unat (nf_payload_length f) > GUARDIAN_NODE_LINK_MAX_PAYLOAD
          then (GUARDIAN_NODE_LINK_AUTH_ERROR_TRANSCRIPT, output, Some 0)
          else
            let n = unat (nf_payload_length f);
                required = GUARDIAN_NODE_LINK_AUTH_TRANSCRIPT_FIXED_SIZE + n
            in if output_capacity < required
            then (GUARDIAN_NODE_LINK_AUTH_ERROR_TRANSCRIPT, output, Some 0)
            else
              let o1 = buf_write out 0 (take GUARDIAN_NODE_LINK_AUTH_DOMAIN_SIZE node_auth_domain);
                  o2 = o1[30 := GUARDIAN_NODE_LINK_VERSION, 31 := ucast (nf_message_type f),
                    32 := nf_flags f, 33 := ucast (nf_node_state f)];
                  o3 = guardian_node_link_auth_write_u32 o2 34 (nf_sequence f);
                  o4 = guardian_node_link_auth_write_u32 o3 38 (nf_sender_epoch f);
                  o5 = guardian_node_link_auth_write_u32 o4 42 (nf_sender_node_id f);
                  o6 = guardian_node_link_auth_write_u32 o5 46 producer_id;
                  o7 = guardian_node_link_auth_write_u32 o6 50 key_id;
                  o8 = guardian_node_link_auth_write_u16 o7 54 (nf_payload_length f);
                  (o9, offset) = (if nf_payload_length f > 0
                    then (buf_write o8 56 (take n (nf_payload f)), 56 + n) else (o8, 56))
              in if offset \<noteq> required
              then (GUARDIAN_NODE_LINK_AUTH_ERROR_TRANSCRIPT,
                    Some (buf_write o9 0 (replicate output_capacity 0)), Some 0)
              else (GUARDIAN_NODE_LINK_AUTH_OK, Some o9, Some offset)
      | _ \<Rightarrow> (GUARDIAN_NODE_LINK_AUTH_ERROR_NULL_ARGUMENT, output, output_length))"

text \<open>The authenticator is constant; what changes is the provider's context behind it. The
  local transcript is wiped before it goes out of scope, which leaves no trace in the result.\<close>

definition guardian_node_link_authenticate ::
  "'c guardian_node_link_authenticator ptr \<Rightarrow> guardian_node_link_frame ptr \<Rightarrow> u8 list ptr \<Rightarrow> nat
     \<Rightarrow> guardian_node_link_authenticated_message ptr
     \<Rightarrow> guardian_node_link_auth_result \<times> 'c guardian_node_link_authenticator ptr
        \<times> guardian_node_link_authenticated_message ptr" where
  "guardian_node_link_authenticate authenticator frame signature signature_length message =
     (let cleared = map_option (\<lambda>_. zero_authenticated_message) message in
      case (authenticator, frame, signature, cleared) of
        (Some a, Some f, Some sig, Some _) \<Rightarrow>
          (case au_verify_signature a of
             None \<Rightarrow> (GUARDIAN_NODE_LINK_AUTH_ERROR_UNCONFIGURED, authenticator, cleared)
           | Some verify_signature \<Rightarrow>
               if au_configured a = 0
               then (GUARDIAN_NODE_LINK_AUTH_ERROR_UNCONFIGURED, authenticator, cleared)
               else if signature_length \<noteq> GUARDIAN_NODE_LINK_ED25519_SIGNATURE_SIZE
               then (GUARDIAN_NODE_LINK_AUTH_ERROR_SIGNATURE_INVALID, authenticator, cleared)
               else
                 case guardian_node_link_auth_resolve_peer authenticator (nf_sender_node_id f) of
                   None \<Rightarrow> (GUARDIAN_NODE_LINK_AUTH_ERROR_PEER_UNKNOWN, authenticator, cleared)
                 | Some peer \<Rightarrow>
                     if pe_signature_algorithm peer \<noteq> au_required_signature_algorithm a
                     then (GUARDIAN_NODE_LINK_AUTH_ERROR_ALGORITHM_UNSUPPORTED, authenticator, cleared)
                     else
                       case guardian_node_link_build_auth_transcript frame (pe_producer_id peer)
                           (pe_key_id peer)
                           (Some (replicate GUARDIAN_NODE_LINK_AUTH_TRANSCRIPT_MAX_SIZE 0))
                           GUARDIAN_NODE_LINK_AUTH_TRANSCRIPT_MAX_SIZE (Some 0) of
                         (transcript_result, transcript, transcript_length) \<Rightarrow>
                           if transcript_result \<noteq> GUARDIAN_NODE_LINK_AUTH_OK
                           then (transcript_result, authenticator, cleared)
                           else
                             let (verify_result, context') = verify_signature (au_context a)
                                   (pe_signature_algorithm peer) (pe_producer_id peer) (pe_key_id peer)
                                   (the transcript) (the transcript_length) sig signature_length;
                                 authenticator' = Some (a\<lparr>au_context := context'\<rparr>);
                                 mapped_result = guardian_node_link_auth_map_verify_result verify_result
                             in if mapped_result \<noteq> GUARDIAN_NODE_LINK_AUTH_OK
                             then (mapped_result, authenticator', cleared)
                             else (GUARDIAN_NODE_LINK_AUTH_OK, authenticator',
                               Some \<lparr>am_frame = f, am_producer_id = pe_producer_id peer,
                                 am_key_id = pe_key_id peer,
                                 am_signature_algorithm = pe_signature_algorithm peer\<rparr>))
      | _ \<Rightarrow> (GUARDIAN_NODE_LINK_AUTH_ERROR_NULL_ARGUMENT, authenticator, cleared))"

section \<open>Semantic compatibility: types\<close>

abbreviation (input) GUARDIAN_NODE_LINK_SEMANTIC_MAX_BINDINGS :: nat where
  "GUARDIAN_NODE_LINK_SEMANTIC_MAX_BINDINGS \<equiv> 8"
abbreviation (input) GUARDIAN_NODE_LINK_SEMANTIC_REF_CAPACITY :: nat where
  "GUARDIAN_NODE_LINK_SEMANTIC_REF_CAPACITY \<equiv> 96"

abbreviation (input) GUARDIAN_NODE_LINK_COMPAT_PROVIDER_COMPATIBLE :: c_enum where
  "GUARDIAN_NODE_LINK_COMPAT_PROVIDER_COMPATIBLE \<equiv> 0"
abbreviation (input) GUARDIAN_NODE_LINK_COMPAT_PROVIDER_INCOMPATIBLE :: c_enum where
  "GUARDIAN_NODE_LINK_COMPAT_PROVIDER_INCOMPATIBLE \<equiv> 1"
abbreviation (input) GUARDIAN_NODE_LINK_COMPAT_PROVIDER_UNKNOWN :: c_enum where
  "GUARDIAN_NODE_LINK_COMPAT_PROVIDER_UNKNOWN \<equiv> 2"
abbreviation (input) GUARDIAN_NODE_LINK_COMPAT_PROVIDER_UNSUPPORTED :: c_enum where
  "GUARDIAN_NODE_LINK_COMPAT_PROVIDER_UNSUPPORTED \<equiv> 3"
abbreviation (input) GUARDIAN_NODE_LINK_COMPAT_PROVIDER_HISTORICALLY_IMPOSSIBLE :: c_enum where
  "GUARDIAN_NODE_LINK_COMPAT_PROVIDER_HISTORICALLY_IMPOSSIBLE \<equiv> 4"
abbreviation (input) GUARDIAN_NODE_LINK_COMPAT_PROVIDER_CONTEXT_INCOMPLETE :: c_enum where
  "GUARDIAN_NODE_LINK_COMPAT_PROVIDER_CONTEXT_INCOMPLETE \<equiv> 5"
abbreviation (input) GUARDIAN_NODE_LINK_COMPAT_PROVIDER_UNAVAILABLE :: c_enum where
  "GUARDIAN_NODE_LINK_COMPAT_PROVIDER_UNAVAILABLE \<equiv> 6"

datatype guardian_node_link_semantic_result =
    GUARDIAN_NODE_LINK_SEMANTIC_OK
  | GUARDIAN_NODE_LINK_SEMANTIC_ERROR_NULL_ARGUMENT | GUARDIAN_NODE_LINK_SEMANTIC_ERROR_UNCONFIGURED
  | GUARDIAN_NODE_LINK_SEMANTIC_ERROR_BINDING_MISSING
  | GUARDIAN_NODE_LINK_SEMANTIC_ERROR_BINDING_AMBIGUOUS
  | GUARDIAN_NODE_LINK_SEMANTIC_ERROR_CONTEXT_INCOMPLETE
  | GUARDIAN_NODE_LINK_SEMANTIC_ERROR_INCOMPATIBLE | GUARDIAN_NODE_LINK_SEMANTIC_ERROR_UNKNOWN
  | GUARDIAN_NODE_LINK_SEMANTIC_ERROR_UNSUPPORTED
  | GUARDIAN_NODE_LINK_SEMANTIC_ERROR_HISTORICALLY_IMPOSSIBLE
  | GUARDIAN_NODE_LINK_SEMANTIC_ERROR_PROVIDER_UNAVAILABLE
  | GUARDIAN_NODE_LINK_SEMANTIC_ERROR_PROVIDER_FAILURE

record guardian_node_link_semantic_binding_config =
  bc_sender_node_id :: u32
  bc_producer_id :: u32
  bc_key_id :: u32
  bc_signature_algorithm :: u8
  bc_producer_semantic_profile_id :: "u8 list ptr"

record guardian_node_link_semantic_binding =
  sb_sender_node_id :: u32
  sb_producer_id :: u32
  sb_key_id :: u32
  sb_signature_algorithm :: u8
  sb_producer_semantic_profile_id :: "u8 list"

text \<open>Arguments of the compatibility provider: context, producer profile, consumer profile,
  protocol version, the contract buffer it fills and its capacity.\<close>

type_synonym 'c compatibility_resolve_fn =
  "'c ptr \<Rightarrow> u8 list \<Rightarrow> u8 list \<Rightarrow> u8 \<Rightarrow> u8 list \<Rightarrow> nat \<Rightarrow> c_enum \<times> u8 list \<times> 'c ptr"

record 'c guardian_node_link_semantic_config =
  sc_context :: "'c ptr"
  sc_resolve :: "'c compatibility_resolve_fn ptr"
  sc_consumer_semantic_profile_id :: "u8 list ptr"
  sc_bindings :: "guardian_node_link_semantic_binding_config list ptr"
  sc_binding_count :: nat

record 'c guardian_node_link_semantic_resolver =
  sr_context :: "'c ptr"
  sr_resolve :: "'c compatibility_resolve_fn ptr"
  sr_consumer_semantic_profile_id :: "u8 list"
  sr_bindings :: "guardian_node_link_semantic_binding list"
  sr_binding_count :: nat
  sr_configured :: u8

record guardian_node_link_pre_freshness_compatible_message =
  cm_authenticated_message :: guardian_node_link_authenticated_message
  cm_producer_semantic_profile_id :: "u8 list"
  cm_consumer_semantic_profile_id :: "u8 list"
  cm_compatibility_contract_id :: "u8 list"

abbreviation (input) zero_ref :: "u8 list" where
  "zero_ref \<equiv> replicate GUARDIAN_NODE_LINK_SEMANTIC_REF_CAPACITY 0"

definition zero_binding :: guardian_node_link_semantic_binding where
  "zero_binding = \<lparr>sb_sender_node_id = 0, sb_producer_id = 0, sb_key_id = 0,
     sb_signature_algorithm = 0, sb_producer_semantic_profile_id = zero_ref\<rparr>"

definition zero_resolver :: "'c guardian_node_link_semantic_resolver" where
  "zero_resolver = \<lparr>sr_context = None, sr_resolve = None,
     sr_consumer_semantic_profile_id = zero_ref,
     sr_bindings = replicate GUARDIAN_NODE_LINK_SEMANTIC_MAX_BINDINGS zero_binding,
     sr_binding_count = 0, sr_configured = 0\<rparr>"

definition zero_compatible_message :: guardian_node_link_pre_freshness_compatible_message where
  "zero_compatible_message = \<lparr>cm_authenticated_message = zero_authenticated_message,
     cm_producer_semantic_profile_id = zero_ref, cm_consumer_semantic_profile_id = zero_ref,
     cm_compatibility_contract_id = zero_ref\<rparr>"

section \<open>Semantic compatibility: operations\<close>

definition guardian_node_link_semantic_snapshot_ref ::
  "u8 list \<Rightarrow> nat \<Rightarrow> u8 list ptr \<Rightarrow> bool \<times> u8 list" where
  "guardian_node_link_semantic_snapshot_ref destination destination_capacity source =
     (case source of
        None \<Rightarrow> (False, destination)
      | Some src \<Rightarrow>
          if destination_capacity = 0 then (False, destination)
          else
            let len = c_strnlen src destination_capacity in
            if len = 0 \<or> len \<ge> destination_capacity then (False, destination)
            else (True, (buf_write destination 0 (take len src))[len := 0]))"

definition guardian_node_link_semantic_identity_equal ::
  "guardian_node_link_semantic_binding \<Rightarrow> guardian_node_link_authenticated_message \<Rightarrow> bool" where
  "guardian_node_link_semantic_identity_equal binding message \<longleftrightarrow>
     sb_sender_node_id binding = nf_sender_node_id (am_frame message)
     \<and> sb_producer_id binding = am_producer_id message \<and> sb_key_id binding = am_key_id message
     \<and> sb_signature_algorithm binding = am_signature_algorithm message"

definition guardian_node_link_semantic_map_provider_result ::
  "c_enum \<Rightarrow> guardian_node_link_semantic_result" where
  "guardian_node_link_semantic_map_provider_result r =
     (if r = GUARDIAN_NODE_LINK_COMPAT_PROVIDER_COMPATIBLE then GUARDIAN_NODE_LINK_SEMANTIC_OK
      else if r = GUARDIAN_NODE_LINK_COMPAT_PROVIDER_INCOMPATIBLE
      then GUARDIAN_NODE_LINK_SEMANTIC_ERROR_INCOMPATIBLE
      else if r = GUARDIAN_NODE_LINK_COMPAT_PROVIDER_UNKNOWN then GUARDIAN_NODE_LINK_SEMANTIC_ERROR_UNKNOWN
      else if r = GUARDIAN_NODE_LINK_COMPAT_PROVIDER_UNSUPPORTED
      then GUARDIAN_NODE_LINK_SEMANTIC_ERROR_UNSUPPORTED
      else if r = GUARDIAN_NODE_LINK_COMPAT_PROVIDER_HISTORICALLY_IMPOSSIBLE
      then GUARDIAN_NODE_LINK_SEMANTIC_ERROR_HISTORICALLY_IMPOSSIBLE
      else if r = GUARDIAN_NODE_LINK_COMPAT_PROVIDER_CONTEXT_INCOMPLETE
      then GUARDIAN_NODE_LINK_SEMANTIC_ERROR_CONTEXT_INCOMPLETE
      else if r = GUARDIAN_NODE_LINK_COMPAT_PROVIDER_UNAVAILABLE
      then GUARDIAN_NODE_LINK_SEMANTIC_ERROR_PROVIDER_UNAVAILABLE
      else GUARDIAN_NODE_LINK_SEMANTIC_ERROR_PROVIDER_FAILURE)"

definition guardian_node_link_semantic_resolver_init ::
  "'c guardian_node_link_semantic_resolver ptr \<Rightarrow> 'c guardian_node_link_semantic_resolver ptr" where
  "guardian_node_link_semantic_resolver_init resolver = map_option (\<lambda>_. zero_resolver) resolver"

text \<open>The loop over the configured bindings, from index \<open>first\<close>. An error leaves the bindings
  written so far in an unconfigured resolver.\<close>

fun semantic_bind_loop ::
  "nat \<Rightarrow> guardian_node_link_semantic_binding_config list \<Rightarrow> 'c guardian_node_link_semantic_resolver
     \<Rightarrow> guardian_node_link_semantic_result \<times> 'c guardian_node_link_semantic_resolver" where
  "semantic_bind_loop first [] r = (GUARDIAN_NODE_LINK_SEMANTIC_OK, r)"
| "semantic_bind_loop first (source # rest) r =
     (if bc_sender_node_id source = 0 \<or> bc_producer_id source = 0 \<or> bc_key_id source = 0
      then (GUARDIAN_NODE_LINK_SEMANTIC_ERROR_CONTEXT_INCOMPLETE, r)
      else if bc_signature_algorithm source \<noteq> GUARDIAN_NODE_LINK_SIGNATURE_ED25519
      then (GUARDIAN_NODE_LINK_SEMANTIC_ERROR_UNSUPPORTED, r)
      else
        case guardian_node_link_semantic_snapshot_ref
            (sb_producer_semantic_profile_id (sr_bindings r ! first))
            GUARDIAN_NODE_LINK_SEMANTIC_REF_CAPACITY (bc_producer_semantic_profile_id source) of
          (ok, ref) \<Rightarrow>
            if \<not> ok then (GUARDIAN_NODE_LINK_SEMANTIC_ERROR_CONTEXT_INCOMPLETE, r)
            else
              let destination = \<lparr>sb_sender_node_id = bc_sender_node_id source,
                    sb_producer_id = bc_producer_id source, sb_key_id = bc_key_id source,
                    sb_signature_algorithm = bc_signature_algorithm source,
                    sb_producer_semantic_profile_id = ref\<rparr>;
                  r1 = r\<lparr>sr_bindings := (sr_bindings r)[first := destination]\<rparr>
              in if list_ex (\<lambda>existing.
                     sb_sender_node_id existing = sb_sender_node_id destination
                     \<and> sb_producer_id existing = sb_producer_id destination
                     \<and> sb_key_id existing = sb_key_id destination
                     \<and> sb_signature_algorithm existing = sb_signature_algorithm destination)
                   (take first (sr_bindings r1))
              then (GUARDIAN_NODE_LINK_SEMANTIC_ERROR_BINDING_AMBIGUOUS, r1)
              else semantic_bind_loop (first + 1) rest r1)"

definition guardian_node_link_semantic_resolver_configure ::
  "'c guardian_node_link_semantic_resolver ptr \<Rightarrow> 'c guardian_node_link_semantic_config ptr
     \<Rightarrow> guardian_node_link_semantic_result \<times> 'c guardian_node_link_semantic_resolver ptr" where
  "guardian_node_link_semantic_resolver_configure resolver config =
     (case (resolver, config) of
        (Some _, Some cfg) \<Rightarrow>
          if sc_resolve cfg = None
          then (GUARDIAN_NODE_LINK_SEMANTIC_ERROR_UNCONFIGURED, Some zero_resolver)
          else if sc_binding_count cfg > GUARDIAN_NODE_LINK_SEMANTIC_MAX_BINDINGS
          then (GUARDIAN_NODE_LINK_SEMANTIC_ERROR_UNCONFIGURED, Some zero_resolver)
          else if sc_binding_count cfg > 0 \<and> sc_bindings cfg = None
          then (GUARDIAN_NODE_LINK_SEMANTIC_ERROR_UNCONFIGURED, Some zero_resolver)
          else
            let (ok, consumer) = guardian_node_link_semantic_snapshot_ref
                  zero_ref
                  GUARDIAN_NODE_LINK_SEMANTIC_REF_CAPACITY (sc_consumer_semantic_profile_id cfg)
            in if \<not> ok then (GUARDIAN_NODE_LINK_SEMANTIC_ERROR_CONTEXT_INCOMPLETE, Some zero_resolver)
            else
              let sources = (case sc_bindings cfg of None \<Rightarrow> [] | Some bs \<Rightarrow> take (sc_binding_count cfg) bs);
                  (bound, r) = semantic_bind_loop 0 sources
                    (zero_resolver\<lparr>sr_consumer_semantic_profile_id := consumer\<rparr>)
              in if bound \<noteq> GUARDIAN_NODE_LINK_SEMANTIC_OK then (bound, Some r)
              else (GUARDIAN_NODE_LINK_SEMANTIC_OK,
                Some (r\<lparr>sr_context := sc_context cfg, sr_resolve := sc_resolve cfg,
                  sr_binding_count := sc_binding_count cfg, sr_configured := 1\<rparr>))
      | _ \<Rightarrow> (GUARDIAN_NODE_LINK_SEMANTIC_ERROR_NULL_ARGUMENT, resolver))"

text \<open>The loop over the bindings counts the matches and remembers the last one.\<close>

definition guardian_node_link_resolve_pre_freshness_compatibility ::
  "'c guardian_node_link_semantic_resolver ptr \<Rightarrow> guardian_node_link_authenticated_message ptr
     \<Rightarrow> guardian_node_link_pre_freshness_compatible_message ptr
     \<Rightarrow> guardian_node_link_semantic_result \<times> 'c guardian_node_link_semantic_resolver ptr
        \<times> guardian_node_link_pre_freshness_compatible_message ptr" where
  "guardian_node_link_resolve_pre_freshness_compatibility resolver message compatible =
     (let cleared = map_option (\<lambda>_. zero_compatible_message) compatible in
      case (resolver, message, cleared) of
        (Some r, Some m, Some c0) \<Rightarrow>
          (case sr_resolve r of
             None \<Rightarrow> (GUARDIAN_NODE_LINK_SEMANTIC_ERROR_UNCONFIGURED, resolver, cleared)
           | Some resolve \<Rightarrow>
               if sr_configured r = 0
               then (GUARDIAN_NODE_LINK_SEMANTIC_ERROR_UNCONFIGURED, resolver, cleared)
               else
                 let matching = filter (\<lambda>b. guardian_node_link_semantic_identity_equal b m)
                       (take (sr_binding_count r) (sr_bindings r))
                 in if length matching = 0
                 then (GUARDIAN_NODE_LINK_SEMANTIC_ERROR_BINDING_MISSING, resolver, cleared)
                 else if length matching \<noteq> 1
                 then (GUARDIAN_NODE_LINK_SEMANTIC_ERROR_BINDING_AMBIGUOUS, resolver, cleared)
                 else
                   let binding = last matching;
                       (provider_result, contract_id, context') = resolve (sr_context r)
                         (sb_producer_semantic_profile_id binding) (sr_consumer_semantic_profile_id r)
                         GUARDIAN_NODE_LINK_VERSION zero_ref GUARDIAN_NODE_LINK_SEMANTIC_REF_CAPACITY;
                       resolver' = Some (r\<lparr>sr_context := context'\<rparr>);
                       mapped_result = guardian_node_link_semantic_map_provider_result provider_result
                   in if mapped_result \<noteq> GUARDIAN_NODE_LINK_SEMANTIC_OK
                   then (mapped_result, resolver', cleared)
                   else
                     let (ok1, contract) = guardian_node_link_semantic_snapshot_ref
                           (cm_compatibility_contract_id c0) GUARDIAN_NODE_LINK_SEMANTIC_REF_CAPACITY
                           (Some contract_id)
                     in if \<not> ok1
                     then (GUARDIAN_NODE_LINK_SEMANTIC_ERROR_PROVIDER_FAILURE, resolver', cleared)
                     else
                       let (ok2, producer) = guardian_node_link_semantic_snapshot_ref
                             (cm_producer_semantic_profile_id c0) GUARDIAN_NODE_LINK_SEMANTIC_REF_CAPACITY
                             (Some (sb_producer_semantic_profile_id binding))
                       in if \<not> ok2
                       then (GUARDIAN_NODE_LINK_SEMANTIC_ERROR_PROVIDER_FAILURE, resolver', cleared)
                       else
                         let (ok3, consumer) = guardian_node_link_semantic_snapshot_ref
                               (cm_consumer_semantic_profile_id c0) GUARDIAN_NODE_LINK_SEMANTIC_REF_CAPACITY
                               (Some (sr_consumer_semantic_profile_id r))
                         in if \<not> ok3
                         then (GUARDIAN_NODE_LINK_SEMANTIC_ERROR_PROVIDER_FAILURE, resolver', cleared)
                         else (GUARDIAN_NODE_LINK_SEMANTIC_OK, resolver',
                           Some \<lparr>cm_authenticated_message = m,
                             cm_producer_semantic_profile_id = producer,
                             cm_consumer_semantic_profile_id = consumer,
                             cm_compatibility_contract_id = contract\<rparr>))
      | _ \<Rightarrow> (GUARDIAN_NODE_LINK_SEMANTIC_ERROR_NULL_ARGUMENT, resolver, cleared))"

section \<open>The transcript\<close>

definition transcript_valid :: "guardian_node_link_frame \<Rightarrow> u32 \<Rightarrow> u32 \<Rightarrow> bool" where
  "transcript_valid f producer key \<longleftrightarrow> nf_flags f = 0
     \<and> guardian_node_link_auth_message_type_valid (nf_message_type f)
     \<and> guardian_node_link_auth_state_valid (nf_node_state f) \<and> nf_sequence f \<noteq> 0
     \<and> nf_sender_epoch f \<noteq> 0 \<and> nf_sender_node_id f \<noteq> 0 \<and> producer \<noteq> 0 \<and> key \<noteq> 0
     \<and> unat (nf_payload_length f) \<le> GUARDIAN_NODE_LINK_MAX_PAYLOAD"

definition node_transcript :: "guardian_node_link_frame \<Rightarrow> u32 \<Rightarrow> u32 \<Rightarrow> u8 list" where
  "node_transcript f producer key = node_auth_domain
     @ [GUARDIAN_NODE_LINK_VERSION, ucast (nf_message_type f), nf_flags f, ucast (nf_node_state f)]
     @ be32_bytes (nf_sequence f) @ be32_bytes (nf_sender_epoch f) @ be32_bytes (nf_sender_node_id f)
     @ be32_bytes producer @ be32_bytes key @ be16_bytes (nf_payload_length f) @ node_payload f"

lemma length_node_auth_domain [simp]: "length node_auth_domain = 30"
  by (simp add: node_auth_domain_def)

lemma auth_write_be [be_simps]:
  "i + 2 \<le> length b \<Longrightarrow> guardian_node_link_auth_write_u16 b i v = buf_write b i (be16_bytes v)"
  "i + 4 \<le> length b \<Longrightarrow> guardian_node_link_auth_write_u32 b i w = buf_write b i (be32_bytes w)"
  by (simp_all add: guardian_node_link_auth_write_u16_def guardian_node_link_auth_write_u32_def
      be16_bytes_def be32_bytes_def list_update_buf_write buf_write_adjacent)

lemma length_node_transcript:
  "length (nf_payload f) = 64 \<Longrightarrow> unat (nf_payload_length f) \<le> 64 \<Longrightarrow>
   length (node_transcript f p k) = 56 + unat (nf_payload_length f)"
  by (simp add: node_transcript_def node_payload_def)

lemma build_transcript_ok:
  assumes "transcript_valid f p k" "length (nf_payload f) = 64" "length out = 120"
  shows "guardian_node_link_build_auth_transcript (Some f) p k (Some out) 120 (Some n0) =
    (GUARDIAN_NODE_LINK_AUTH_OK, Some (buf_write out 0 (node_transcript f p k)),
     Some (56 + unat (nf_payload_length f)))"
proof -
  let ?n = "unat (nf_payload_length f)"
  have n: "?n \<le> 64" using assms(1) by (simp add: transcript_valid_def)
  define o8 where "o8 = guardian_node_link_auth_write_u16 (guardian_node_link_auth_write_u32
     (guardian_node_link_auth_write_u32 (guardian_node_link_auth_write_u32
     (guardian_node_link_auth_write_u32 (guardian_node_link_auth_write_u32
     ((buf_write out 0 (take 30 node_auth_domain))[30 := GUARDIAN_NODE_LINK_VERSION,
        31 := ucast (nf_message_type f), 32 := nf_flags f, 33 := ucast (nf_node_state f)])
     34 (nf_sequence f)) 38 (nf_sender_epoch f)) 42 (nf_sender_node_id f)) 46 p) 50 k) 54 (nf_payload_length f)"
  have o8: "o8 = buf_write out 0 (node_auth_domain @ [GUARDIAN_NODE_LINK_VERSION,
       ucast (nf_message_type f), nf_flags f, ucast (nf_node_state f)]
     @ be32_bytes (nf_sequence f) @ be32_bytes (nf_sender_epoch f) @ be32_bytes (nf_sender_node_id f)
     @ be32_bytes p @ be32_bytes k @ be16_bytes (nf_payload_length f))"
    using assms(3) by (simp add: o8_def auth_write_be list_update_buf_write buf_write_adjacent [where off = 0])
  have o9: "(if nf_payload_length f > 0 then (buf_write o8 56 (take ?n (nf_payload f)), 56 + ?n)
      else (o8, 56)) = (buf_write out 0 (node_transcript f p k), 56 + ?n)"
    using assms(2,3) n
    by (simp add: o8 node_transcript_def node_payload_def buf_write_adjacent word_gt_0)
  show ?thesis
    unfolding guardian_node_link_build_auth_transcript_def Let_def option.case prod.case
      o9 [unfolded o8_def]
    using assms(1) n by (simp add: transcript_valid_def)
qed

lemma build_transcript_error:
  "\<not> transcript_valid f p k \<Longrightarrow>
   guardian_node_link_build_auth_transcript (Some f) p k (Some out) cap (Some n0) =
     (GUARDIAN_NODE_LINK_AUTH_ERROR_TRANSCRIPT, Some out, Some 0)"
  by (auto simp: guardian_node_link_build_auth_transcript_def transcript_valid_def)

text \<open>The transcript fixes everything a frame says: two frames of the format with the same
  transcript agree in every field and in the payload.\<close>

lemma node_transcript_inj:
  assumes "node_transcript f p k = node_transcript f' p' k'"
    and "nf_message_type f < 256" "nf_message_type f' < 256" "nf_node_state f < 256" "nf_node_state f' < 256"
  shows "p = p' \<and> k = k' \<and> nf_message_type f = nf_message_type f' \<and> nf_flags f = nf_flags f'
    \<and> nf_node_state f = nf_node_state f' \<and> nf_sequence f = nf_sequence f'
    \<and> nf_sender_epoch f = nf_sender_epoch f' \<and> nf_sender_node_id f = nf_sender_node_id f'
    \<and> nf_payload_length f = nf_payload_length f' \<and> node_payload f = node_payload f'"
proof -
  have "(ucast (nf_message_type f) :: u8) = ucast (nf_message_type f')"
    "(ucast (nf_node_state f) :: u8) = ucast (nf_node_state f')"
    and rest: "p = p'" "k = k'" "nf_flags f = nf_flags f'" "nf_sequence f = nf_sequence f'"
    "nf_sender_epoch f = nf_sender_epoch f'" "nf_sender_node_id f = nf_sender_node_id f'"
    "nf_payload_length f = nf_payload_length f'" "node_payload f = node_payload f'"
    using assms(1) by (simp_all add: node_transcript_def)
  then have "nf_message_type f = nf_message_type f'" "nf_node_state f = nf_node_state f'"
    using assms(2-5) enum_byte_roundtrip by metis+
  with rest show ?thesis by simp
qed

section \<open>Configuration\<close>

lemma auth_check_peers_ok:
  "auth_check_peers required ps = GUARDIAN_NODE_LINK_AUTH_OK \<longleftrightarrow>
   distinct (map pe_sender_node_id ps) \<and>
   (\<forall>p\<in>set ps. pe_sender_node_id p \<noteq> 0 \<and> pe_producer_id p \<noteq> 0 \<and> pe_key_id p \<noteq> 0
      \<and> pe_signature_algorithm p = required)"
  by (induction ps) (auto simp: list_ex_iff)

definition config_peers :: "'c guardian_node_link_auth_config \<Rightarrow> guardian_node_link_peer_identity list" where
  "config_peers cfg = (case ac_peers cfg of None \<Rightarrow> [] | Some ps \<Rightarrow> take (ac_peer_count cfg) ps)"

lemma configure_ok:
  assumes "guardian_node_link_authenticator_configure (Some a0) (Some cfg)
      = (GUARDIAN_NODE_LINK_AUTH_OK, Some a)"
    and "\<forall>ps. ac_peers cfg = Some ps \<longrightarrow> ac_peer_count cfg \<le> length ps"
  shows "au_context a = ac_context cfg" "au_verify_signature a = ac_verify_signature cfg"
    "au_verify_signature a \<noteq> None" "au_configured a \<noteq> 0" "au_required_signature_algorithm a = 1"
    "take (au_peer_count a) (au_peers a) = config_peers cfg"
    "distinct (map pe_sender_node_id (config_peers cfg))"
    "\<forall>p\<in>set (config_peers cfg). pe_sender_node_id p \<noteq> 0 \<and> pe_producer_id p \<noteq> 0 \<and> pe_key_id p \<noteq> 0
       \<and> pe_signature_algorithm p = 1"
proof -
  have g: "ac_verify_signature cfg \<noteq> None" "ac_peer_count cfg \<le> 8"
    "ac_peer_count cfg > 0 \<longrightarrow> ac_peers cfg \<noteq> None"
    "ac_required_signature_algorithm cfg = 1"
    "auth_check_peers 1 (config_peers cfg) = GUARDIAN_NODE_LINK_AUTH_OK"
    and a: "a = zero_authenticator\<lparr>au_context := ac_context cfg,
        au_verify_signature := ac_verify_signature cfg, au_peer_count := ac_peer_count cfg,
        au_required_signature_algorithm := 1,
        au_peers := (if ac_peer_count cfg > 0
          then buf_write zero_peers 0 (config_peers cfg) else zero_peers),
        au_configured := 1\<rparr>"
    using assms(1) unfolding guardian_node_link_authenticator_configure_def config_peers_def Let_def
    by (auto split: if_split_asm)
  have len: "length (config_peers cfg) = ac_peer_count cfg"
    using g(3) assms(2) by (cases "ac_peers cfg") (auto simp: config_peers_def)
  show "au_context a = ac_context cfg" "au_verify_signature a = ac_verify_signature cfg"
    "au_verify_signature a \<noteq> None" "au_configured a \<noteq> 0" "au_required_signature_algorithm a = 1"
    using g(1) by (simp_all add: a)
  show "take (au_peer_count a) (au_peers a) = config_peers cfg"
    using len by (cases "ac_peer_count cfg = 0") (simp_all add: a take_buf_write_0)
  show "distinct (map pe_sender_node_id (config_peers cfg))"
    "\<forall>p\<in>set (config_peers cfg). pe_sender_node_id p \<noteq> 0 \<and> pe_producer_id p \<noteq> 0 \<and> pe_key_id p \<noteq> 0
       \<and> pe_signature_algorithm p = 1"
    using g(5) unfolding auth_check_peers_ok by simp_all
qed

lemma find_distinct_key:
  "distinct (map key xs) \<Longrightarrow> find (\<lambda>x. key x = v) xs = Some y \<longleftrightarrow> y \<in> set xs \<and> key y = v"
  by (induction xs) auto

lemma unique_key_ex:
  "distinct (map key xs) \<Longrightarrow>
   (\<exists>p c. p \<in> set xs \<and> key p = x \<and> Q p c) \<longleftrightarrow>
   (\<exists>p c. p \<in> set xs \<and> key p = x \<and> (\<forall>q\<in>set xs. key q = x \<longrightarrow> q = p) \<and> Q p c)"
  unfolding distinct_map inj_on_def by blast

lemma ex_designated:
  "(\<And>q. A q \<and> B q \<longleftrightarrow> q = p) \<Longrightarrow> (\<exists>q c. A q \<and> B q \<and> Q q c) \<longleftrightarrow> (\<exists>c. Q p c)"
  by metis

lemma map_verify_result_ok [simp]:
  "guardian_node_link_auth_map_verify_result r = GUARDIAN_NODE_LINK_AUTH_OK \<longleftrightarrow> r = 0"
  by (simp add: guardian_node_link_auth_map_verify_result_def)

lemma authenticate_iff:
  assumes cfg: "au_verify_signature a = Some v" "au_configured a \<noteq> 0" "au_required_signature_algorithm a = 1"
    and peers: "distinct (map pe_sender_node_id (take (au_peer_count a) (au_peers a)))"
      "\<forall>p\<in>set (take (au_peer_count a) (au_peers a)). pe_signature_algorithm p = 1"
    and f: "length (nf_payload f) = 64"
  shows "guardian_node_link_authenticate (Some a) (Some f) (Some sig) n (Some m0)
      = (GUARDIAN_NODE_LINK_AUTH_OK, a', Some m) \<longleftrightarrow>
    n = 64 \<and> (\<exists>p c'. p \<in> set (take (au_peer_count a) (au_peers a))
      \<and> pe_sender_node_id p = nf_sender_node_id f \<and> transcript_valid f (pe_producer_id p) (pe_key_id p)
      \<and> v (au_context a) 1 (pe_producer_id p) (pe_key_id p)
          (buf_write (replicate 120 0) 0 (node_transcript f (pe_producer_id p) (pe_key_id p)))
          (56 + unat (nf_payload_length f)) sig 64 = (0, c')
      \<and> a' = Some (a\<lparr>au_context := c'\<rparr>)
      \<and> m = \<lparr>am_frame = f, am_producer_id = pe_producer_id p, am_key_id = pe_key_id p,
            am_signature_algorithm = 1\<rparr>)" (is "?L \<longleftrightarrow> ?R")
proof (cases "guardian_node_link_auth_resolve_peer (Some a) (nf_sender_node_id f)")
  case None
  then have "\<not> (\<exists>p\<in>set (take (au_peer_count a) (au_peers a)). pe_sender_node_id p = nf_sender_node_id f)"
    by (auto simp: guardian_node_link_auth_resolve_peer_def find_None_iff)
  moreover have "\<not> ?L"
    using None cfg by (simp add: guardian_node_link_authenticate_def Let_def)
  ultimately show ?thesis by blast
next
  case (Some p)
  then have find: "find (\<lambda>q. pe_sender_node_id q = nf_sender_node_id f) (take (au_peer_count a) (au_peers a)) = Some p"
    by (simp add: guardian_node_link_auth_resolve_peer_def)
  have p: "q \<in> set (take (au_peer_count a) (au_peers a)) \<and> pe_sender_node_id q = nf_sender_node_id f
      \<longleftrightarrow> q = p" for q
    unfolding find_distinct_key [OF peers(1), symmetric] find by auto
  then have alg: "pe_signature_algorithm p = 1" using peers(2) by blast
  let ?r = "v (au_context a) 1 (pe_producer_id p) (pe_key_id p)
    (buf_write (replicate 120 0) 0 (node_transcript f (pe_producer_id p) (pe_key_id p)))
    (56 + unat (nf_payload_length f)) sig 64"
  have "?L \<longleftrightarrow> n = 64 \<and> transcript_valid f (pe_producer_id p) (pe_key_id p) \<and> fst ?r = 0
      \<and> a' = Some (a\<lparr>au_context := snd ?r\<rparr>)
      \<and> m = \<lparr>am_frame = f, am_producer_id = pe_producer_id p, am_key_id = pe_key_id p,
            am_signature_algorithm = 1\<rparr>"
  proof (cases "transcript_valid f (pe_producer_id p) (pe_key_id p)")
    case True
    then show ?thesis
      unfolding guardian_node_link_authenticate_def Let_def option.map option.case prod.case Some cfg(1)
        build_transcript_ok [OF True f, of "replicate 120 0" 0, simplified]
      using cfg(2,3) alg True by (cases ?r) auto
  next
    case False
    then show ?thesis
      using Some cfg alg build_transcript_error [OF False]
      by (simp add: guardian_node_link_authenticate_def Let_def)
  qed
  moreover have "?R \<longleftrightarrow> n = 64 \<and> (\<exists>c'. transcript_valid f (pe_producer_id p) (pe_key_id p)
      \<and> ?r = (0, c') \<and> a' = Some (a\<lparr>au_context := c'\<rparr>)
      \<and> m = \<lparr>am_frame = f, am_producer_id = pe_producer_id p, am_key_id = pe_key_id p,
            am_signature_algorithm = 1\<rparr>)"
    by (simp only: ex_designated [OF p])
  ultimately show ?thesis by (cases ?r) auto
qed

section \<open>Properties of authentication\<close>

text \<open>C32: What an authenticated node message rests on. After a successful configuration, a frame is
  reported authenticated exactly if the signature has 64 bytes, the sender is a registered peer
  (and there is only one with that identifier), the frame is complete (no zero sequence, epoch,
  identifier; a message type and state of the protocol; at most 64 payload bytes), and the
  provider answers VERIFIED for that peer's producer and key on exactly the transcript of this
  frame; the message carries the frame and the identity of the registered peer.\<close>

theorem node_message_authenticated_iff:
  assumes "guardian_node_link_authenticator_configure (Some a0) (Some cfg)
      = (GUARDIAN_NODE_LINK_AUTH_OK, Some a)"
    and "\<forall>ps. ac_peers cfg = Some ps \<longrightarrow> ac_peer_count cfg \<le> length ps"
    and "length (nf_payload f) = GUARDIAN_NODE_LINK_MAX_PAYLOAD"
  shows "guardian_node_link_authenticate (Some a) (Some f) (Some sig) n (Some m0)
      = (GUARDIAN_NODE_LINK_AUTH_OK, a', Some m) \<longleftrightarrow>
    n = GUARDIAN_NODE_LINK_ED25519_SIGNATURE_SIZE
    \<and> (\<exists>p c'. p \<in> set (config_peers cfg) \<and> pe_sender_node_id p = nf_sender_node_id f
      \<and> (\<forall>q\<in>set (config_peers cfg). pe_sender_node_id q = nf_sender_node_id f \<longrightarrow> q = p)
      \<and> transcript_valid f (pe_producer_id p) (pe_key_id p)
      \<and> the (ac_verify_signature cfg) (ac_context cfg) GUARDIAN_NODE_LINK_SIGNATURE_ED25519
          (pe_producer_id p) (pe_key_id p)
          (buf_write (replicate GUARDIAN_NODE_LINK_AUTH_TRANSCRIPT_MAX_SIZE 0) 0
            (node_transcript f (pe_producer_id p) (pe_key_id p)))
          (GUARDIAN_NODE_LINK_AUTH_TRANSCRIPT_FIXED_SIZE + unat (nf_payload_length f)) sig
          GUARDIAN_NODE_LINK_ED25519_SIGNATURE_SIZE = (GUARDIAN_NODE_LINK_VERIFY_VERIFIED, c')
      \<and> a' = Some (a\<lparr>au_context := c'\<rparr>)
      \<and> m = \<lparr>am_frame = f, am_producer_id = pe_producer_id p, am_key_id = pe_key_id p,
            am_signature_algorithm = GUARDIAN_NODE_LINK_SIGNATURE_ED25519\<rparr>)"
proof -
  note c = configure_ok [OF assms(1,2)]
  from c(3) obtain v where v: "au_verify_signature a = Some v" by blast
  have v': "v = the (ac_verify_signature cfg)" using v c(2) by simp
  have d: "distinct (map pe_sender_node_id (take (au_peer_count a) (au_peers a)))"
    "\<forall>p\<in>set (take (au_peer_count a) (au_peers a)). pe_signature_algorithm p = 1"
    using c(6,7,8) by simp_all
  show ?thesis
    unfolding authenticate_iff [OF v c(4,5) d assms(3)] c(1,6) v'
    by (subst unique_key_ex [OF c(7)]) (rule refl)
qed

text \<open>A verifier that accepts only transcripts of even length, with a registry of one peer.\<close>

definition sample_auth_config :: "nat guardian_node_link_auth_config" where
  "sample_auth_config = \<lparr>ac_context = Some 0,
     ac_verify_signature = Some (\<lambda>ctx alg producer key transcript n sig sl.
       (if even n \<and> take 64 sig = replicate 64 7 then 0 else 1, map_option Suc ctx)),
     ac_peers = Some [\<lparr>pe_sender_node_id = 9, pe_producer_id = 4, pe_key_id = 5, pe_signature_algorithm = 1\<rparr>],
     ac_peer_count = 1, ac_required_signature_algorithm = 1\<rparr>"

definition sample_authenticator :: "nat guardian_node_link_authenticator" where
  "sample_authenticator =
     the (snd (guardian_node_link_authenticator_configure (Some zero_authenticator) (Some sample_auth_config)))"

lemma sample_authenticator_ok:
  "guardian_node_link_authenticator_configure (Some zero_authenticator) (Some sample_auth_config)
     = (GUARDIAN_NODE_LINK_AUTH_OK, Some sample_authenticator)"
  by (simp add: sample_authenticator_def guardian_node_link_authenticator_configure_def
      sample_auth_config_def)

theorem node_message_authenticated_iff_witness:
  "\<exists>a'. guardian_node_link_authenticate (Some sample_authenticator) (Some sample_node_frame)
     (Some (replicate 64 7)) 64 (Some zero_authenticated_message)
     = (GUARDIAN_NODE_LINK_AUTH_OK, a', Some \<lparr>am_frame = sample_node_frame, am_producer_id = 4,
          am_key_id = 5, am_signature_algorithm = 1\<rparr>)"
proof -
  have f: "length (nf_payload sample_node_frame) = 64" "nf_sender_node_id sample_node_frame = 9"
    "unat (nf_payload_length sample_node_frame) = 2" "transcript_valid sample_node_frame 4 5"
    by (simp_all add: sample_node_frame_def zero_node_frame_def transcript_valid_def
        guardian_node_link_auth_message_type_valid_def guardian_node_link_auth_state_valid_def)
  have p: "config_peers sample_auth_config = [\<lparr>pe_sender_node_id = 9, pe_producer_id = 4,
      pe_key_id = 5, pe_signature_algorithm = 1\<rparr>]"
    by (simp add: config_peers_def sample_auth_config_def)
  show ?thesis
    by (rule exI, rule iffD2 [OF node_message_authenticated_iff [OF sample_authenticator_ok _ f(1)]])
      (simp add: sample_auth_config_def, use f in \<open>simp add: p, simp add: sample_auth_config_def\<close>)
qed

section \<open>References\<close>

text \<open>A stored reference: 96 bytes that hold a non-empty terminated string.\<close>

definition ref_wf :: "u8 list \<Rightarrow> bool" where
  "ref_wf r \<longleftrightarrow> length r = GUARDIAN_NODE_LINK_SEMANTIC_REF_CAPACITY
     \<and> 0 < c_strnlen r GUARDIAN_NODE_LINK_SEMANTIC_REF_CAPACITY
     \<and> c_strnlen r GUARDIAN_NODE_LINK_SEMANTIC_REF_CAPACITY < GUARDIAN_NODE_LINK_SEMANTIC_REF_CAPACITY"

lemma c_string_eq_take: "c_strnlen s n \<le> n \<and> c_string n s = take (c_strnlen s n) s"
proof -
  have "c_strnlen s n \<le> length (take n s)"
    by (simp add: c_strnlen_def c_string_def length_takeWhile_le del: length_take)
  moreover have "c_string n s = take (c_strnlen s n) (take n s)"
    unfolding c_strnlen_def c_string_def by (rule takeWhile_eq_take)
  ultimately show ?thesis by (metis length_take min.bounded_iff min_absorb1 take_take)
qed

lemma c_string_terminated:
  assumes "length (c_string n s) < n"
  shows "c_string n (c_string n s @ 0 # rest) = c_string n s"
proof -
  have nz: "\<forall>c\<in>set (c_string n s). c \<noteq> 0" by (auto simp: c_string_def dest: set_takeWhileD)
  have "take n (c_string n s @ 0 # rest) = c_string n s @ 0 # take (n - length (c_string n s) - 1) rest"
    using assms by (cases "n - length (c_string n s)") simp_all
  then have "c_string n (c_string n s @ 0 # rest)
      = takeWhile (\<lambda>c. c \<noteq> 0) (c_string n s @ 0 # take (n - length (c_string n s) - 1) rest)"
    unfolding c_string_def by simp
  also have "\<dots> = c_string n s" using nz by (simp add: takeWhile_append2)
  finally show ?thesis .
qed

lemma append_drop_update:
  "length xs < length d \<Longrightarrow>
   (xs @ drop (length xs) d)[length xs := v] = xs @ v # drop (Suc (length xs)) d"
  by (subst Cons_nth_drop_Suc [symmetric]) (simp_all add: list_update_append)

lemma snapshot_ref_eq:
  assumes "length dest = 96"
  shows "guardian_node_link_semantic_snapshot_ref dest 96 (Some src) =
    (if 0 < c_strnlen src 96 \<and> c_strnlen src 96 < 96
     then (True, c_string 96 src @ 0 # drop (Suc (c_strnlen src 96)) dest) else (False, dest))"
proof -
  have "c_strnlen src 96 < 96 \<Longrightarrow> (buf_write dest 0 (take (c_strnlen src 96) src))[c_strnlen src 96 := 0]
      = c_string 96 src @ 0 # drop (Suc (c_strnlen src 96)) dest"
    unfolding c_string_eq_take [THEN conjunct2, symmetric] buf_write_0
    using append_drop_update [of "c_string 96 src" dest 0] assms by (simp add: c_strnlen_def)
  then show ?thesis
    unfolding guardian_node_link_semantic_snapshot_ref_def Let_def by simp
qed

lemma snapshot_ref_wf:
  assumes "guardian_node_link_semantic_snapshot_ref dest 96 (Some src) = (True, r)" "length dest = 96"
  shows "ref_wf r" "c_string 96 r = c_string 96 src"
proof -
  from assms(1) have r: "r = c_string 96 src @ 0 # drop (Suc (c_strnlen src 96)) dest"
    and l: "0 < c_strnlen src 96" "c_strnlen src 96 < 96"
    unfolding snapshot_ref_eq [OF assms(2)] by (auto split: if_split_asm)
  show s: "c_string 96 r = c_string 96 src"
    unfolding r using l by (intro c_string_terminated) (simp add: c_strnlen_def)
  show "ref_wf r"
    unfolding ref_wf_def c_strnlen_def s using l assms(2) by (simp add: r c_strnlen_def)
qed

text \<open>A compatible message carries the authenticated message unchanged, and three references in
  the stored form; the compatibility provider answered COMPATIBLE for the only binding that
  has the message's identity.\<close>

lemma resolve_compatible:
  assumes "guardian_node_link_resolve_pre_freshness_compatibility (Some r) (Some m) (Some c0)
      = (GUARDIAN_NODE_LINK_SEMANTIC_OK, r', Some c)"
  shows "cm_authenticated_message c = m" "ref_wf (cm_producer_semantic_profile_id c)"
    "ref_wf (cm_consumer_semantic_profile_id c)" "ref_wf (cm_compatibility_contract_id c)"
    "\<exists>b. filter (\<lambda>b. guardian_node_link_semantic_identity_equal b m)
         (take (sr_binding_count r) (sr_bindings r)) = [b]
       \<and> c_string 96 (cm_producer_semantic_profile_id c) = c_string 96 (sb_producer_semantic_profile_id b)
       \<and> c_string 96 (cm_consumer_semantic_profile_id c) = c_string 96 (sr_consumer_semantic_profile_id r)
       \<and> fst (the (sr_resolve r) (sr_context r) (sb_producer_semantic_profile_id b)
            (sr_consumer_semantic_profile_id r) GUARDIAN_NODE_LINK_VERSION zero_ref 96)
         = GUARDIAN_NODE_LINK_COMPAT_PROVIDER_COMPATIBLE"
proof -
  let ?ms = "filter (\<lambda>b. guardian_node_link_semantic_identity_equal b m)
    (take (sr_binding_count r) (sr_bindings r))"
  obtain resolve where res: "sr_resolve r = Some resolve"
    using assms by (cases "sr_resolve r") (simp_all add: guardian_node_link_resolve_pre_freshness_compatibility_def)
  obtain pr contract ctx where pr: "resolve (sr_context r) (sb_producer_semantic_profile_id (last ?ms))
      (sr_consumer_semantic_profile_id r) GUARDIAN_NODE_LINK_VERSION zero_ref 96 = (pr, contract, ctx)"
    by (cases "resolve (sr_context r) (sb_producer_semantic_profile_id (last ?ms))
      (sr_consumer_semantic_profile_id r) GUARDIAN_NODE_LINK_VERSION zero_ref 96") auto
  note d = assms [unfolded guardian_node_link_resolve_pre_freshness_compatibility_def Let_def
      option.map option.case prod.case res pr zero_compatible_message_def
      guardian_node_link_pre_freshness_compatible_message.select_convs]
  from d have len: "length ?ms = 1"
    and ok: "guardian_node_link_semantic_map_provider_result pr = GUARDIAN_NODE_LINK_SEMANTIC_OK"
    by (auto split: if_split_asm)
  from d len ok obtain x y z where c:
    "guardian_node_link_semantic_snapshot_ref zero_ref 96 (Some contract) = (True, x)"
    "guardian_node_link_semantic_snapshot_ref zero_ref 96
       (Some (sb_producer_semantic_profile_id (last ?ms))) = (True, y)"
    "guardian_node_link_semantic_snapshot_ref zero_ref 96 (Some (sr_consumer_semantic_profile_id r)) = (True, z)"
    "c = \<lparr>cm_authenticated_message = m, cm_producer_semantic_profile_id = y,
        cm_consumer_semantic_profile_id = z, cm_compatibility_contract_id = x\<rparr>"
    by (auto split: if_split_asm prod.split_asm)
  note w = c(1-3) [THEN snapshot_ref_wf(1)] c(2,3) [THEN snapshot_ref_wf(2)]
  show "cm_authenticated_message c = m" "ref_wf (cm_producer_semantic_profile_id c)"
    "ref_wf (cm_consumer_semantic_profile_id c)" "ref_wf (cm_compatibility_contract_id c)"
    using w by (simp_all add: c(4))
  obtain b where b: "?ms = [b]" using len by (auto simp: length_Suc_conv)
  have "pr = 0"
    using ok by (simp add: guardian_node_link_semantic_map_provider_result_def split: if_split_asm)
  then show "\<exists>b. ?ms = [b]
       \<and> c_string 96 (cm_producer_semantic_profile_id c) = c_string 96 (sb_producer_semantic_profile_id b)
       \<and> c_string 96 (cm_consumer_semantic_profile_id c) = c_string 96 (sr_consumer_semantic_profile_id r)
       \<and> fst (the (sr_resolve r) (sr_context r) (sb_producer_semantic_profile_id b)
            (sr_consumer_semantic_profile_id r) GUARDIAN_NODE_LINK_VERSION zero_ref 96)
         = GUARDIAN_NODE_LINK_COMPAT_PROVIDER_COMPATIBLE"
    using w pr by (intro exI [of _ b]) (simp add: b c(4) res)
qed

end
