(* ===== verification/Guardian_Freshness.thy ===== *)
theory Guardian_Freshness
  imports Guardian_Node_Auth
begin

text \<open>
  Anti-replay of node-link messages in RAM
  (\<open>firmware/NodeLink/Src/guardian_node_link_freshness.c\<close>): the identity a sequence belongs to,
  the runtime state with its validity flags and its validator, the decision table of the
  evaluation, the evaluation that also applies an acceptance, and the classification of what
  the persistence provider found at boot. The lemmas relate the runtime to an abstract monitor
  that keeps the last accepted sequence of one session.
\<close>

section \<open>Types\<close>

abbreviation (input) GUARDIAN_NODE_LINK_FRESHNESS_UNINITIALIZED :: c_enum where
  "GUARDIAN_NODE_LINK_FRESHNESS_UNINITIALIZED \<equiv> 0"
abbreviation (input) GUARDIAN_NODE_LINK_FRESHNESS_ACTIVE :: c_enum where
  "GUARDIAN_NODE_LINK_FRESHNESS_ACTIVE \<equiv> 1"
abbreviation (input) GUARDIAN_NODE_LINK_FRESHNESS_UNKNOWN :: c_enum where
  "GUARDIAN_NODE_LINK_FRESHNESS_UNKNOWN \<equiv> 2"
abbreviation (input) GUARDIAN_NODE_LINK_FRESHNESS_REJOIN_REQUIRED :: c_enum where
  "GUARDIAN_NODE_LINK_FRESHNESS_REJOIN_REQUIRED \<equiv> 3"
abbreviation (input) GUARDIAN_NODE_LINK_FRESHNESS_SESSION_REPLACEMENT_REQUIRED :: c_enum where
  "GUARDIAN_NODE_LINK_FRESHNESS_SESSION_REPLACEMENT_REQUIRED \<equiv> 4"

datatype guardian_node_link_freshness_result =
    GUARDIAN_NODE_LINK_FRESHNESS_OK
  | GUARDIAN_NODE_LINK_FRESHNESS_ERROR_NULL_ARGUMENT
  | GUARDIAN_NODE_LINK_FRESHNESS_ERROR_INVALID_CONDITION
  | GUARDIAN_NODE_LINK_FRESHNESS_ERROR_INVALID_STATE
  | GUARDIAN_NODE_LINK_FRESHNESS_ERROR_INVALID_POLICY
  | GUARDIAN_NODE_LINK_FRESHNESS_ERROR_INVALID_MESSAGE
  | GUARDIAN_NODE_LINK_FRESHNESS_ERROR_INVALID_EVALUATION

datatype guardian_node_link_freshness_decision =
    GUARDIAN_NODE_LINK_FRESHNESS_DECISION_INVALID
  | GUARDIAN_NODE_LINK_FRESHNESS_DECISION_ACCEPT
  | GUARDIAN_NODE_LINK_FRESHNESS_DECISION_OBSERVE_ONLY
  | GUARDIAN_NODE_LINK_FRESHNESS_DECISION_REPLAY_DUPLICATE
  | GUARDIAN_NODE_LINK_FRESHNESS_DECISION_REPLAY_REGRESSION
  | GUARDIAN_NODE_LINK_FRESHNESS_DECISION_FORWARD_GAP_EXCEEDED
  | GUARDIAN_NODE_LINK_FRESHNESS_DECISION_EPOCH_TRANSITION_REQUIRED
  | GUARDIAN_NODE_LINK_FRESHNESS_DECISION_SESSION_REPLACEMENT_REQUIRED
  | GUARDIAN_NODE_LINK_FRESHNESS_DECISION_IDENTITY_MISMATCH
  | GUARDIAN_NODE_LINK_FRESHNESS_DECISION_STATE_BLOCKED

record guardian_node_link_freshness_identity =
  fi_sender_node_id :: u32
  fi_producer_id :: u32
  fi_key_id :: u32
  fi_signature_algorithm :: u8
  fi_producer_semantic_profile_id :: "u8 list"
  fi_consumer_semantic_profile_id :: "u8 list"
  fi_compatibility_contract_id :: "u8 list"

record guardian_node_link_freshness_runtime =
  fr_condition :: c_enum
  fr_identity :: guardian_node_link_freshness_identity
  fr_observed_epoch :: u32
  fr_observed_sequence :: u32
  fr_accepted_epoch :: u32
  fr_accepted_sequence :: u32
  fr_identity_valid :: u8
  fr_observation_valid :: u8
  fr_accepted_epoch_valid :: u8
  fr_accepted_sequence_valid :: u8

record guardian_node_link_freshness_policy =
  fp_max_forward_gap :: u32
  fp_configured :: u8

record guardian_node_link_freshness_evaluation =
  fe_decision :: guardian_node_link_freshness_decision
  fe_identity :: guardian_node_link_freshness_identity
  fe_observed_epoch :: u32
  fe_observed_sequence :: u32
  fe_prior_condition :: c_enum
  fe_prior_observed_epoch :: u32
  fe_prior_observed_sequence :: u32
  fe_prior_accepted_epoch :: u32
  fe_prior_accepted_sequence :: u32
  fe_evaluated_max_forward_gap :: u32
  fe_prior_observation_valid :: u8
  fe_prior_accepted_epoch_valid :: u8
  fe_prior_accepted_sequence_valid :: u8
  fe_transition_applied :: u8

definition zero_identity :: guardian_node_link_freshness_identity where
  "zero_identity = \<lparr>fi_sender_node_id = 0, fi_producer_id = 0, fi_key_id = 0,
     fi_signature_algorithm = 0, fi_producer_semantic_profile_id = zero_ref,
     fi_consumer_semantic_profile_id = zero_ref, fi_compatibility_contract_id = zero_ref\<rparr>"

definition zero_runtime :: guardian_node_link_freshness_runtime where
  "zero_runtime = \<lparr>fr_condition = 0, fr_identity = zero_identity, fr_observed_epoch = 0,
     fr_observed_sequence = 0, fr_accepted_epoch = 0, fr_accepted_sequence = 0,
     fr_identity_valid = 0, fr_observation_valid = 0, fr_accepted_epoch_valid = 0,
     fr_accepted_sequence_valid = 0\<rparr>"

definition zero_evaluation :: guardian_node_link_freshness_evaluation where
  "zero_evaluation = \<lparr>fe_decision = GUARDIAN_NODE_LINK_FRESHNESS_DECISION_INVALID,
     fe_identity = zero_identity, fe_observed_epoch = 0, fe_observed_sequence = 0,
     fe_prior_condition = 0, fe_prior_observed_epoch = 0, fe_prior_observed_sequence = 0,
     fe_prior_accepted_epoch = 0, fe_prior_accepted_sequence = 0, fe_evaluated_max_forward_gap = 0,
     fe_prior_observation_valid = 0, fe_prior_accepted_epoch_valid = 0,
     fe_prior_accepted_sequence_valid = 0, fe_transition_applied = 0\<rparr>"

text \<open>What the persistence provider reports at boot, and the record it stores.\<close>

abbreviation (input) GUARDIAN_NODE_LINK_FRESHNESS_PERSISTENCE_SCHEMA_VERSION :: u32 where
  "GUARDIAN_NODE_LINK_FRESHNESS_PERSISTENCE_SCHEMA_VERSION \<equiv> 1"

abbreviation (input) GUARDIAN_NODE_LINK_PERSISTENCE_STATUS_INVALID :: c_enum where
  "GUARDIAN_NODE_LINK_PERSISTENCE_STATUS_INVALID \<equiv> 0"
abbreviation (input) GUARDIAN_NODE_LINK_PERSISTENCE_STATUS_VALID_PERSISTED_STATE :: c_enum where
  "GUARDIAN_NODE_LINK_PERSISTENCE_STATUS_VALID_PERSISTED_STATE \<equiv> 1"
abbreviation (input) GUARDIAN_NODE_LINK_PERSISTENCE_STATUS_NO_PERSISTED_STATE :: c_enum where
  "GUARDIAN_NODE_LINK_PERSISTENCE_STATUS_NO_PERSISTED_STATE \<equiv> 2"
abbreviation (input) GUARDIAN_NODE_LINK_PERSISTENCE_STATUS_CORRUPTED_STATE :: c_enum where
  "GUARDIAN_NODE_LINK_PERSISTENCE_STATUS_CORRUPTED_STATE \<equiv> 3"
abbreviation (input) GUARDIAN_NODE_LINK_PERSISTENCE_STATUS_TORN_OR_INCOMPLETE_UPDATE :: c_enum where
  "GUARDIAN_NODE_LINK_PERSISTENCE_STATUS_TORN_OR_INCOMPLETE_UPDATE \<equiv> 4"
abbreviation (input) GUARDIAN_NODE_LINK_PERSISTENCE_STATUS_ROLLBACK_SUSPECTED :: c_enum where
  "GUARDIAN_NODE_LINK_PERSISTENCE_STATUS_ROLLBACK_SUSPECTED \<equiv> 5"
abbreviation (input) GUARDIAN_NODE_LINK_PERSISTENCE_STATUS_UNAVAILABLE_STATE :: c_enum where
  "GUARDIAN_NODE_LINK_PERSISTENCE_STATUS_UNAVAILABLE_STATE \<equiv> 6"

datatype guardian_node_link_freshness_persistence_classification =
    GUARDIAN_NODE_LINK_PERSISTENCE_CLASSIFICATION_INVALID
  | GUARDIAN_NODE_LINK_PERSISTENCE_CLASSIFICATION_VALIDATED_RECORD_CANDIDATE
  | GUARDIAN_NODE_LINK_PERSISTENCE_CLASSIFICATION_NO_STATE_BOOTSTRAP
  | GUARDIAN_NODE_LINK_PERSISTENCE_CLASSIFICATION_FRESHNESS_UNKNOWN

record guardian_node_link_freshness_persisted_record =
  pr_schema_version :: u32
  pr_identity :: guardian_node_link_freshness_identity
  pr_accepted_epoch :: u32
  pr_accepted_sequence :: u32
  pr_record_generation :: u32

section \<open>Operations\<close>

definition guardian_node_link_freshness_ref_valid :: "u8 list ptr \<Rightarrow> nat \<Rightarrow> bool" where
  "guardian_node_link_freshness_ref_valid reference capacity =
     (case reference of
        None \<Rightarrow> False
      | Some ref \<Rightarrow>
          if capacity = 0 then False
          else
            let len = c_strnlen ref capacity in
            if len = 0 \<or> len \<ge> capacity then False else True)"

definition guardian_node_link_freshness_condition_valid :: "c_enum \<Rightarrow> bool" where
  "guardian_node_link_freshness_condition_valid c \<longleftrightarrow> c \<in>
     {GUARDIAN_NODE_LINK_FRESHNESS_UNINITIALIZED, GUARDIAN_NODE_LINK_FRESHNESS_ACTIVE,
      GUARDIAN_NODE_LINK_FRESHNESS_UNKNOWN, GUARDIAN_NODE_LINK_FRESHNESS_REJOIN_REQUIRED,
      GUARDIAN_NODE_LINK_FRESHNESS_SESSION_REPLACEMENT_REQUIRED}"

definition guardian_node_link_freshness_runtime_init ::
  "guardian_node_link_freshness_runtime ptr \<Rightarrow> guardian_node_link_freshness_runtime ptr" where
  "guardian_node_link_freshness_runtime_init runtime =
     map_option (\<lambda>_. zero_runtime\<lparr>fr_condition := GUARDIAN_NODE_LINK_FRESHNESS_UNINITIALIZED\<rparr>) runtime"

definition guardian_node_link_freshness_runtime_validate ::
  "guardian_node_link_freshness_runtime ptr \<Rightarrow> guardian_node_link_freshness_result" where
  "guardian_node_link_freshness_runtime_validate runtime =
     (case runtime of
        None \<Rightarrow> GUARDIAN_NODE_LINK_FRESHNESS_ERROR_NULL_ARGUMENT
      | Some r \<Rightarrow>
          if \<not> guardian_node_link_freshness_condition_valid (fr_condition r)
          then GUARDIAN_NODE_LINK_FRESHNESS_ERROR_INVALID_CONDITION
          else if fr_identity_valid r > 1 \<or> fr_observation_valid r > 1
             \<or> fr_accepted_epoch_valid r > 1 \<or> fr_accepted_sequence_valid r > 1
          then GUARDIAN_NODE_LINK_FRESHNESS_ERROR_INVALID_STATE
          else if (fr_observation_valid r \<noteq> 0 \<or> fr_accepted_epoch_valid r \<noteq> 0
               \<or> fr_accepted_sequence_valid r \<noteq> 0) \<and> fr_identity_valid r = 0
          then GUARDIAN_NODE_LINK_FRESHNESS_ERROR_INVALID_STATE
          else if fr_identity_valid r \<noteq> 0
             \<and> (fi_sender_node_id (fr_identity r) = 0 \<or> fi_producer_id (fr_identity r) = 0
               \<or> fi_key_id (fr_identity r) = 0
               \<or> fi_signature_algorithm (fr_identity r) \<noteq> GUARDIAN_NODE_LINK_SIGNATURE_ED25519
               \<or> \<not> guardian_node_link_freshness_ref_valid
                   (Some (fi_producer_semantic_profile_id (fr_identity r)))
                   GUARDIAN_NODE_LINK_SEMANTIC_REF_CAPACITY
               \<or> \<not> guardian_node_link_freshness_ref_valid
                   (Some (fi_consumer_semantic_profile_id (fr_identity r)))
                   GUARDIAN_NODE_LINK_SEMANTIC_REF_CAPACITY
               \<or> \<not> guardian_node_link_freshness_ref_valid
                   (Some (fi_compatibility_contract_id (fr_identity r)))
                   GUARDIAN_NODE_LINK_SEMANTIC_REF_CAPACITY)
          then GUARDIAN_NODE_LINK_FRESHNESS_ERROR_INVALID_STATE
          else if fr_observation_valid r \<noteq> 0 \<and> fr_observed_sequence r = 0
          then GUARDIAN_NODE_LINK_FRESHNESS_ERROR_INVALID_STATE
          else if fr_accepted_epoch_valid r \<noteq> 0 \<and> fr_accepted_epoch r = 0
          then GUARDIAN_NODE_LINK_FRESHNESS_ERROR_INVALID_STATE
          else if fr_accepted_sequence_valid r \<noteq> 0 \<and> fr_accepted_sequence r = 0
          then GUARDIAN_NODE_LINK_FRESHNESS_ERROR_INVALID_STATE
          else if fr_condition r = GUARDIAN_NODE_LINK_FRESHNESS_UNINITIALIZED
          then
            if fr_accepted_epoch_valid r \<noteq> 0 \<or> fr_accepted_sequence_valid r \<noteq> 0
            then GUARDIAN_NODE_LINK_FRESHNESS_ERROR_INVALID_STATE
            else GUARDIAN_NODE_LINK_FRESHNESS_OK
          else if fr_accepted_sequence_valid r \<noteq> 0 \<and> fr_accepted_epoch_valid r = 0
          then GUARDIAN_NODE_LINK_FRESHNESS_ERROR_INVALID_STATE
          else if fr_condition r = GUARDIAN_NODE_LINK_FRESHNESS_ACTIVE
             \<and> (fr_identity_valid r = 0 \<or> fr_accepted_epoch_valid r = 0
               \<or> fr_accepted_sequence_valid r = 0 \<or> fr_accepted_sequence r = 0)
          then GUARDIAN_NODE_LINK_FRESHNESS_ERROR_INVALID_STATE
          else GUARDIAN_NODE_LINK_FRESHNESS_OK)"

text \<open>The copy loop stops at the terminator, which \<open>ref_valid\<close> has found in range, or one byte
  before the end; the rest of the destination was cleared.\<close>

definition guardian_node_link_freshness_copy_ref ::
  "u8 list \<Rightarrow> nat \<Rightarrow> u8 list ptr \<Rightarrow> bool \<times> u8 list" where
  "guardian_node_link_freshness_copy_ref destination destination_capacity source =
     (case source of
        None \<Rightarrow> (False, destination)
      | Some src \<Rightarrow>
          if destination_capacity = 0 then (False, destination)
          else if \<not> guardian_node_link_freshness_ref_valid source destination_capacity
          then (False, destination)
          else
            let cleared = buf_write destination 0 (replicate destination_capacity 0);
                index = c_strnlen src (destination_capacity - 1)
            in (True, (buf_write cleared 0 (take index src))[index := 0]))"

definition guardian_node_link_freshness_identity_equal ::
  "guardian_node_link_freshness_identity ptr \<Rightarrow> guardian_node_link_freshness_identity ptr \<Rightarrow> bool" where
  "guardian_node_link_freshness_identity_equal left right =
     (case (left, right) of
        (Some l, Some r) \<Rightarrow>
          if fi_sender_node_id l \<noteq> fi_sender_node_id r \<or> fi_producer_id l \<noteq> fi_producer_id r
             \<or> fi_key_id l \<noteq> fi_key_id r \<or> fi_signature_algorithm l \<noteq> fi_signature_algorithm r
          then False
          else if \<not> c_strncmp_equal (fi_producer_semantic_profile_id l) (fi_producer_semantic_profile_id r)
                 GUARDIAN_NODE_LINK_SEMANTIC_REF_CAPACITY
          then False
          else if \<not> c_strncmp_equal (fi_consumer_semantic_profile_id l) (fi_consumer_semantic_profile_id r)
                 GUARDIAN_NODE_LINK_SEMANTIC_REF_CAPACITY
          then False
          else c_strncmp_equal (fi_compatibility_contract_id l) (fi_compatibility_contract_id r)
                 GUARDIAN_NODE_LINK_SEMANTIC_REF_CAPACITY
      | _ \<Rightarrow> False)"

definition guardian_node_link_freshness_identity_structurally_valid ::
  "guardian_node_link_freshness_identity ptr \<Rightarrow> bool" where
  "guardian_node_link_freshness_identity_structurally_valid identity =
     (case identity of
        None \<Rightarrow> False
      | Some i \<Rightarrow>
          if fi_sender_node_id i = 0 \<or> fi_producer_id i = 0 \<or> fi_key_id i = 0
             \<or> fi_signature_algorithm i \<noteq> GUARDIAN_NODE_LINK_SIGNATURE_ED25519
          then False
          else
            guardian_node_link_freshness_ref_valid (Some (fi_producer_semantic_profile_id i))
              GUARDIAN_NODE_LINK_SEMANTIC_REF_CAPACITY
            \<and> guardian_node_link_freshness_ref_valid (Some (fi_consumer_semantic_profile_id i))
              GUARDIAN_NODE_LINK_SEMANTIC_REF_CAPACITY
            \<and> guardian_node_link_freshness_ref_valid (Some (fi_compatibility_contract_id i))
              GUARDIAN_NODE_LINK_SEMANTIC_REF_CAPACITY)"

definition guardian_node_link_freshness_persistence_classify ::
  "c_enum \<Rightarrow> guardian_node_link_freshness_persisted_record ptr
     \<Rightarrow> guardian_node_link_freshness_identity ptr
     \<Rightarrow> guardian_node_link_freshness_persistence_classification ptr
     \<Rightarrow> guardian_node_link_freshness_result
        \<times> guardian_node_link_freshness_persistence_classification ptr" where
  "guardian_node_link_freshness_persistence_classify provider_status persisted expected_identity classification =
     (let invalid = map_option (\<lambda>_. GUARDIAN_NODE_LINK_PERSISTENCE_CLASSIFICATION_INVALID) classification in
      if expected_identity = None \<or> classification = None
      then (GUARDIAN_NODE_LINK_FRESHNESS_ERROR_NULL_ARGUMENT, invalid)
      else if \<not> guardian_node_link_freshness_identity_structurally_valid expected_identity
      then (GUARDIAN_NODE_LINK_FRESHNESS_ERROR_INVALID_STATE, invalid)
      else if provider_status = GUARDIAN_NODE_LINK_PERSISTENCE_STATUS_NO_PERSISTED_STATE
      then (GUARDIAN_NODE_LINK_FRESHNESS_OK,
            Some GUARDIAN_NODE_LINK_PERSISTENCE_CLASSIFICATION_NO_STATE_BOOTSTRAP)
      else if provider_status \<in> {GUARDIAN_NODE_LINK_PERSISTENCE_STATUS_CORRUPTED_STATE,
             GUARDIAN_NODE_LINK_PERSISTENCE_STATUS_TORN_OR_INCOMPLETE_UPDATE,
             GUARDIAN_NODE_LINK_PERSISTENCE_STATUS_ROLLBACK_SUSPECTED,
             GUARDIAN_NODE_LINK_PERSISTENCE_STATUS_UNAVAILABLE_STATE}
      then (GUARDIAN_NODE_LINK_FRESHNESS_OK,
            Some GUARDIAN_NODE_LINK_PERSISTENCE_CLASSIFICATION_FRESHNESS_UNKNOWN)
      else if provider_status \<noteq> GUARDIAN_NODE_LINK_PERSISTENCE_STATUS_VALID_PERSISTED_STATE
      then (GUARDIAN_NODE_LINK_FRESHNESS_ERROR_INVALID_STATE, invalid)
      else
        case persisted of
          None \<Rightarrow> (GUARDIAN_NODE_LINK_FRESHNESS_ERROR_NULL_ARGUMENT, invalid)
        | Some p \<Rightarrow>
            if pr_schema_version p \<noteq> GUARDIAN_NODE_LINK_FRESHNESS_PERSISTENCE_SCHEMA_VERSION
            then (GUARDIAN_NODE_LINK_FRESHNESS_ERROR_INVALID_STATE, invalid)
            else if \<not> guardian_node_link_freshness_identity_structurally_valid (Some (pr_identity p))
            then (GUARDIAN_NODE_LINK_FRESHNESS_ERROR_INVALID_STATE, invalid)
            else if \<not> guardian_node_link_freshness_identity_equal (Some (pr_identity p)) expected_identity
            then (GUARDIAN_NODE_LINK_FRESHNESS_ERROR_INVALID_STATE, invalid)
            else if pr_accepted_epoch p = 0 \<or> pr_accepted_sequence p = 0
            then (GUARDIAN_NODE_LINK_FRESHNESS_ERROR_INVALID_STATE, invalid)
            else (GUARDIAN_NODE_LINK_FRESHNESS_OK,
                  Some GUARDIAN_NODE_LINK_PERSISTENCE_CLASSIFICATION_VALIDATED_RECORD_CANDIDATE))"

definition guardian_node_link_freshness_identity_from_message ::
  "guardian_node_link_pre_freshness_compatible_message ptr \<Rightarrow> guardian_node_link_freshness_identity ptr
     \<Rightarrow> bool \<times> guardian_node_link_freshness_identity ptr" where
  "guardian_node_link_freshness_identity_from_message message identity =
     (case (message, identity) of
        (Some msg, Some _) \<Rightarrow>
          let am = cm_authenticated_message msg in
          if nf_sender_node_id (am_frame am) = 0 \<or> am_producer_id am = 0 \<or> am_key_id am = 0
             \<or> am_signature_algorithm am \<noteq> GUARDIAN_NODE_LINK_SIGNATURE_ED25519
             \<or> nf_sequence (am_frame am) = 0 \<or> nf_sender_epoch (am_frame am) = 0
          then (False, identity)
          else if \<not> guardian_node_link_freshness_ref_valid (Some (cm_producer_semantic_profile_id msg))
                 GUARDIAN_NODE_LINK_SEMANTIC_REF_CAPACITY
          then (False, identity)
          else if \<not> guardian_node_link_freshness_ref_valid (Some (cm_consumer_semantic_profile_id msg))
                 GUARDIAN_NODE_LINK_SEMANTIC_REF_CAPACITY
          then (False, identity)
          else if \<not> guardian_node_link_freshness_ref_valid (Some (cm_compatibility_contract_id msg))
                 GUARDIAN_NODE_LINK_SEMANTIC_REF_CAPACITY
          then (False, identity)
          else
            let i0 = zero_identity\<lparr>fi_sender_node_id := nf_sender_node_id (am_frame am),
                  fi_producer_id := am_producer_id am, fi_key_id := am_key_id am,
                  fi_signature_algorithm := am_signature_algorithm am\<rparr>;
                (ok1, producer) = guardian_node_link_freshness_copy_ref
                  (fi_producer_semantic_profile_id i0) GUARDIAN_NODE_LINK_SEMANTIC_REF_CAPACITY
                  (Some (cm_producer_semantic_profile_id msg));
                i1 = i0\<lparr>fi_producer_semantic_profile_id := producer\<rparr>
            in if \<not> ok1 then (False, Some i1)
            else
              let (ok2, consumer) = guardian_node_link_freshness_copy_ref
                    (fi_consumer_semantic_profile_id i1) GUARDIAN_NODE_LINK_SEMANTIC_REF_CAPACITY
                    (Some (cm_consumer_semantic_profile_id msg));
                  i2 = i1\<lparr>fi_consumer_semantic_profile_id := consumer\<rparr>
              in if \<not> ok2 then (False, Some i2)
              else
                let (ok3, contract) = guardian_node_link_freshness_copy_ref
                      (fi_compatibility_contract_id i2) GUARDIAN_NODE_LINK_SEMANTIC_REF_CAPACITY
                      (Some (cm_compatibility_contract_id msg));
                    i3 = i2\<lparr>fi_compatibility_contract_id := contract\<rparr>
                in if \<not> ok3 then (False, Some i3) else (True, Some i3)
      | _ \<Rightarrow> (False, identity))"

definition guardian_node_link_freshness_bind_prior_state ::
  "guardian_node_link_freshness_runtime \<Rightarrow> guardian_node_link_freshness_evaluation
     \<Rightarrow> guardian_node_link_freshness_evaluation" where
  "guardian_node_link_freshness_bind_prior_state r e =
     e\<lparr>fe_prior_condition := fr_condition r, fe_prior_observation_valid := fr_observation_valid r,
       fe_prior_observed_epoch := fr_observed_epoch r,
       fe_prior_observed_sequence := fr_observed_sequence r,
       fe_prior_accepted_epoch_valid := fr_accepted_epoch_valid r,
       fe_prior_accepted_sequence_valid := fr_accepted_sequence_valid r,
       fe_prior_accepted_epoch := fr_accepted_epoch r,
       fe_prior_accepted_sequence := fr_accepted_sequence r\<rparr>"

text \<open>The decision table, from the switch over the condition to the end of the function; \<open>None\<close> is
  the default branch of the switch.\<close>

definition freshness_decide ::
  "guardian_node_link_freshness_policy \<Rightarrow> guardian_node_link_freshness_runtime
     \<Rightarrow> guardian_node_link_freshness_identity \<Rightarrow> u32 \<Rightarrow> u32
     \<Rightarrow> guardian_node_link_freshness_decision option" where
  "freshness_decide policy r incoming_identity incoming_epoch incoming_sequence =
     (if fr_condition r = GUARDIAN_NODE_LINK_FRESHNESS_UNINITIALIZED
      then Some GUARDIAN_NODE_LINK_FRESHNESS_DECISION_OBSERVE_ONLY
      else if fr_condition r = GUARDIAN_NODE_LINK_FRESHNESS_UNKNOWN
         \<or> fr_condition r = GUARDIAN_NODE_LINK_FRESHNESS_REJOIN_REQUIRED
         \<or> fr_condition r = GUARDIAN_NODE_LINK_FRESHNESS_SESSION_REPLACEMENT_REQUIRED
      then Some GUARDIAN_NODE_LINK_FRESHNESS_DECISION_STATE_BLOCKED
      else if fr_condition r \<noteq> GUARDIAN_NODE_LINK_FRESHNESS_ACTIVE then None
      else if \<not> guardian_node_link_freshness_identity_equal (Some (fr_identity r)) (Some incoming_identity)
      then Some GUARDIAN_NODE_LINK_FRESHNESS_DECISION_IDENTITY_MISMATCH
      else if fr_accepted_sequence r = 0xFFFFFFFF
      then Some GUARDIAN_NODE_LINK_FRESHNESS_DECISION_SESSION_REPLACEMENT_REQUIRED
      else if incoming_epoch \<noteq> fr_accepted_epoch r
      then Some GUARDIAN_NODE_LINK_FRESHNESS_DECISION_EPOCH_TRANSITION_REQUIRED
      else if incoming_sequence = fr_accepted_sequence r
      then Some GUARDIAN_NODE_LINK_FRESHNESS_DECISION_REPLAY_DUPLICATE
      else if incoming_sequence < fr_accepted_sequence r
      then Some GUARDIAN_NODE_LINK_FRESHNESS_DECISION_REPLAY_REGRESSION
      else
        let delta = incoming_sequence - fr_accepted_sequence r in
        if delta > fp_max_forward_gap policy
        then Some GUARDIAN_NODE_LINK_FRESHNESS_DECISION_FORWARD_GAP_EXCEEDED
        else Some GUARDIAN_NODE_LINK_FRESHNESS_DECISION_ACCEPT)"

definition guardian_node_link_freshness_evaluate_internal ::
  "guardian_node_link_freshness_policy ptr \<Rightarrow> guardian_node_link_freshness_runtime ptr
     \<Rightarrow> guardian_node_link_pre_freshness_compatible_message ptr
     \<Rightarrow> guardian_node_link_freshness_evaluation ptr
     \<Rightarrow> guardian_node_link_freshness_result \<times> guardian_node_link_freshness_evaluation ptr" where
  "guardian_node_link_freshness_evaluate_internal policy runtime message evaluation =
     (case (policy, runtime, message, evaluation) of
        (Some p, Some r, Some msg, Some e) \<Rightarrow>
          if fp_configured p \<noteq> 1 \<or> fp_max_forward_gap p = 0
          then (GUARDIAN_NODE_LINK_FRESHNESS_ERROR_INVALID_POLICY, evaluation)
          else if guardian_node_link_freshness_runtime_validate runtime \<noteq> GUARDIAN_NODE_LINK_FRESHNESS_OK
          then (GUARDIAN_NODE_LINK_FRESHNESS_ERROR_INVALID_STATE, evaluation)
          else
            let (ok, incoming) = guardian_node_link_freshness_identity_from_message message (Some zero_identity)
            in if \<not> ok then (GUARDIAN_NODE_LINK_FRESHNESS_ERROR_INVALID_MESSAGE, evaluation)
            else
              let incoming_identity = the incoming;
                  incoming_epoch = nf_sender_epoch (am_frame (cm_authenticated_message msg));
                  incoming_sequence = nf_sequence (am_frame (cm_authenticated_message msg));
                  e1 = guardian_node_link_freshness_bind_prior_state r
                    (e\<lparr>fe_identity := incoming_identity, fe_observed_epoch := incoming_epoch,
                       fe_observed_sequence := incoming_sequence,
                       fe_evaluated_max_forward_gap := fp_max_forward_gap p\<rparr>)
              in (case freshness_decide p r incoming_identity incoming_epoch incoming_sequence of
                    None \<Rightarrow> (GUARDIAN_NODE_LINK_FRESHNESS_ERROR_INVALID_STATE, Some e1)
                  | Some decision \<Rightarrow> (GUARDIAN_NODE_LINK_FRESHNESS_OK, Some (e1\<lparr>fe_decision := decision\<rparr>)))
      | _ \<Rightarrow> (GUARDIAN_NODE_LINK_FRESHNESS_ERROR_NULL_ARGUMENT, evaluation))"

definition guardian_node_link_freshness_evaluate ::
  "guardian_node_link_freshness_policy ptr \<Rightarrow> guardian_node_link_freshness_runtime ptr
     \<Rightarrow> guardian_node_link_pre_freshness_compatible_message ptr
     \<Rightarrow> guardian_node_link_freshness_evaluation ptr
     \<Rightarrow> guardian_node_link_freshness_result \<times> guardian_node_link_freshness_evaluation ptr" where
  "guardian_node_link_freshness_evaluate policy runtime message evaluation =
     (if evaluation = None then (GUARDIAN_NODE_LINK_FRESHNESS_ERROR_NULL_ARGUMENT, evaluation)
      else if policy = None \<or> runtime = None \<or> message = None
      then (GUARDIAN_NODE_LINK_FRESHNESS_ERROR_NULL_ARGUMENT, Some zero_evaluation)
      else
        case guardian_node_link_freshness_evaluate_internal policy runtime message (Some zero_evaluation) of
          (result, e) \<Rightarrow>
            if result \<noteq> GUARDIAN_NODE_LINK_FRESHNESS_OK then (result, Some zero_evaluation)
            else (result, e))"

definition guardian_node_link_freshness_evaluate_and_apply ::
  "guardian_node_link_freshness_policy ptr \<Rightarrow> guardian_node_link_freshness_runtime ptr
     \<Rightarrow> guardian_node_link_pre_freshness_compatible_message ptr
     \<Rightarrow> guardian_node_link_freshness_evaluation ptr
     \<Rightarrow> guardian_node_link_freshness_result \<times> guardian_node_link_freshness_runtime ptr
        \<times> guardian_node_link_freshness_evaluation ptr" where
  "guardian_node_link_freshness_evaluate_and_apply policy runtime message evaluation =
     (if evaluation = None then (GUARDIAN_NODE_LINK_FRESHNESS_ERROR_NULL_ARGUMENT, runtime, evaluation)
      else if policy = None \<or> runtime = None \<or> message = None
      then (GUARDIAN_NODE_LINK_FRESHNESS_ERROR_NULL_ARGUMENT, runtime, Some zero_evaluation)
      else
        case guardian_node_link_freshness_evaluate_internal policy runtime message (Some zero_evaluation) of
          (result, e) \<Rightarrow>
            if result \<noteq> GUARDIAN_NODE_LINK_FRESHNESS_OK then (result, runtime, Some zero_evaluation)
            else if fe_decision (the e) \<noteq> GUARDIAN_NODE_LINK_FRESHNESS_DECISION_ACCEPT
            then (GUARDIAN_NODE_LINK_FRESHNESS_OK, runtime, e)
            else
              let candidate = (the runtime)\<lparr>fr_observation_valid := 1,
                    fr_observed_epoch := fe_observed_epoch (the e),
                    fr_observed_sequence := fe_observed_sequence (the e),
                    fr_accepted_sequence_valid := 1,
                    fr_accepted_sequence := fe_observed_sequence (the e)\<rparr>
              in if guardian_node_link_freshness_runtime_validate (Some candidate)
                   \<noteq> GUARDIAN_NODE_LINK_FRESHNESS_OK
              then (GUARDIAN_NODE_LINK_FRESHNESS_ERROR_INVALID_EVALUATION, runtime, Some zero_evaluation)
              else (GUARDIAN_NODE_LINK_FRESHNESS_OK, Some candidate,
                    Some ((the e)\<lparr>fe_transition_applied := 1\<rparr>)))"

section \<open>The abstract monitor\<close>

text \<open>
  The identity a sequence number belongs to, as the code compares it: the four numbers and the
  three strings. A monitor either follows one session (principal, epoch, last accepted
  sequence) or follows none; it accepts a message of that session whose sequence lies ahead of
  the last one by at most the allowed gap.
\<close>

type_synonym principal = "u32 \<times> u32 \<times> u32 \<times> u8 \<times> u8 list \<times> u8 list \<times> u8 list"
type_synonym monitor = "(principal \<times> u32 \<times> nat) option"
type_synonym numbered_message = "principal \<times> u32 \<times> nat"

definition identity_principal :: "guardian_node_link_freshness_identity \<Rightarrow> principal" where
  "identity_principal i = (fi_sender_node_id i, fi_producer_id i, fi_key_id i, fi_signature_algorithm i,
     c_string 96 (fi_producer_semantic_profile_id i), c_string 96 (fi_consumer_semantic_profile_id i),
     c_string 96 (fi_compatibility_contract_id i))"

definition message_principal :: "guardian_node_link_pre_freshness_compatible_message \<Rightarrow> principal" where
  "message_principal m = (nf_sender_node_id (am_frame (cm_authenticated_message m)),
     am_producer_id (cm_authenticated_message m), am_key_id (cm_authenticated_message m),
     am_signature_algorithm (cm_authenticated_message m),
     c_string 96 (cm_producer_semantic_profile_id m), c_string 96 (cm_consumer_semantic_profile_id m),
     c_string 96 (cm_compatibility_contract_id m))"

definition abs_message :: "guardian_node_link_pre_freshness_compatible_message \<Rightarrow> numbered_message" where
  "abs_message m = (message_principal m, nf_sender_epoch (am_frame (cm_authenticated_message m)),
     unat (nf_sequence (am_frame (cm_authenticated_message m))))"

definition abs_runtime :: "guardian_node_link_freshness_runtime \<Rightarrow> monitor" where
  "abs_runtime r = (if fr_condition r = GUARDIAN_NODE_LINK_FRESHNESS_ACTIVE
     then Some (identity_principal (fr_identity r), fr_accepted_epoch r, unat (fr_accepted_sequence r))
     else None)"

fun monitor_accepts :: "nat \<Rightarrow> monitor \<Rightarrow> numbered_message \<Rightarrow> bool" where
  "monitor_accepts gap None m = False"
| "monitor_accepts gap (Some (who, epoch, prev)) (who', epoch', n) \<longleftrightarrow>
     who' = who \<and> epoch' = epoch \<and> prev < n \<and> n \<le> prev + gap"

definition monitor_step :: "nat \<Rightarrow> monitor \<Rightarrow> numbered_message \<Rightarrow> monitor" where
  "monitor_step gap s m = (if monitor_accepts gap s m then Some m else s)"

text \<open>A message the semantic stage can hand over.\<close>

definition message_ok :: "guardian_node_link_pre_freshness_compatible_message \<Rightarrow> bool" where
  "message_ok msg \<longleftrightarrow> (let am = cm_authenticated_message msg in
     nf_sender_node_id (am_frame am) \<noteq> 0 \<and> am_producer_id am \<noteq> 0 \<and> am_key_id am \<noteq> 0
     \<and> am_signature_algorithm am = 1 \<and> nf_sequence (am_frame am) \<noteq> 0 \<and> nf_sender_epoch (am_frame am) \<noteq> 0
     \<and> ref_wf (cm_producer_semantic_profile_id msg) \<and> ref_wf (cm_consumer_semantic_profile_id msg)
     \<and> ref_wf (cm_compatibility_contract_id msg))"

abbreviation (input) runtime_valid :: "guardian_node_link_freshness_runtime \<Rightarrow> bool" where
  "runtime_valid r \<equiv> guardian_node_link_freshness_runtime_validate (Some r) = GUARDIAN_NODE_LINK_FRESHNESS_OK"

section \<open>Strings and identities\<close>

lemma takeWhile_take: "takeWhile P (take n xs) = take n (takeWhile P xs)"
proof (induction xs arbitrary: n)
  case (Cons x xs)
  then show ?case by (cases n) auto
qed simp

lemma c_string_take: "c_string n s = take n (takeWhile (\<lambda>c. c \<noteq> 0) s)"
  by (simp add: c_string_def takeWhile_take)

lemma ref_valid_iff:
  "guardian_node_link_freshness_ref_valid (Some r) 96 \<longleftrightarrow> 0 < c_strnlen r 96 \<and> c_strnlen r 96 < 96"
  by (auto simp: guardian_node_link_freshness_ref_valid_def Let_def)

lemma ref_wf_valid: "ref_wf r \<Longrightarrow> guardian_node_link_freshness_ref_valid (Some r) 96"
  by (simp add: ref_valid_iff ref_wf_def)

lemma copy_ref_eq:
  assumes "ref_wf src" "length dest = 96"
  shows "guardian_node_link_freshness_copy_ref dest 96 (Some src)
    = (True, c_string 96 src @ replicate (96 - c_strnlen src 96) 0)"
proof -
  let ?w = "takeWhile (\<lambda>c. c \<noteq> 0) src"
  have w: "length ?w < 96"
    using assms(1) by (auto simp: ref_wf_def c_strnlen_def c_string_take)
  then have i: "c_strnlen src 95 = length ?w" "c_strnlen src 96 = length ?w" "c_string 96 src = ?w"
    by (simp_all add: c_strnlen_def c_string_take)
  have t: "take (length ?w) src = ?w" by (rule takeWhile_eq_take [symmetric])
  have "drop (length ?w) (replicate 96 (0 :: u8)) = 0 # replicate (95 - length ?w) 0"
    using w by (cases "96 - length ?w") (auto simp: drop_replicate)
  moreover have "replicate (96 - length ?w) (0 :: u8) = 0 # replicate (95 - length ?w) 0"
    using w by (cases "96 - length ?w") auto
  ultimately show ?thesis
    using assms(2) w ref_wf_valid [OF assms(1)]
    by (simp add: guardian_node_link_freshness_copy_ref_def Let_def i t buf_write_0
        min_absorb2 length_takeWhile_le)
qed

lemma copied_ref_wf:
  assumes "ref_wf src"
  shows "ref_wf (c_string 96 src @ replicate (96 - c_strnlen src 96) 0)"
    "c_string 96 (c_string 96 src @ replicate (96 - c_strnlen src 96) 0) = c_string 96 src"
proof -
  have l: "length (c_string 96 src) < 96" "0 < length (c_string 96 src)"
    using assms by (auto simp: ref_wf_def c_strnlen_def)
  then obtain k where k: "96 - length (c_string 96 src) = Suc k" by (cases "96 - length (c_string 96 src)") auto
  show s: "c_string 96 (c_string 96 src @ replicate (96 - c_strnlen src 96) 0) = c_string 96 src"
    unfolding c_strnlen_def k replicate_Suc by (rule c_string_terminated [OF l(1)])
  show "ref_wf (c_string 96 src @ replicate (96 - c_strnlen src 96) 0)"
    using l s by (simp add: ref_wf_def c_strnlen_def)
qed

definition message_identity ::
  "guardian_node_link_pre_freshness_compatible_message \<Rightarrow> guardian_node_link_freshness_identity" where
  "message_identity msg = \<lparr>fi_sender_node_id = nf_sender_node_id (am_frame (cm_authenticated_message msg)),
     fi_producer_id = am_producer_id (cm_authenticated_message msg),
     fi_key_id = am_key_id (cm_authenticated_message msg),
     fi_signature_algorithm = am_signature_algorithm (cm_authenticated_message msg),
     fi_producer_semantic_profile_id = c_string 96 (cm_producer_semantic_profile_id msg)
       @ replicate (96 - c_strnlen (cm_producer_semantic_profile_id msg) 96) 0,
     fi_consumer_semantic_profile_id = c_string 96 (cm_consumer_semantic_profile_id msg)
       @ replicate (96 - c_strnlen (cm_consumer_semantic_profile_id msg) 96) 0,
     fi_compatibility_contract_id = c_string 96 (cm_compatibility_contract_id msg)
       @ replicate (96 - c_strnlen (cm_compatibility_contract_id msg) 96) 0\<rparr>"

lemma identity_from_message_ok:
  "message_ok msg \<Longrightarrow>
   guardian_node_link_freshness_identity_from_message (Some msg) (Some i0) = (True, Some (message_identity msg))"
  by (simp add: guardian_node_link_freshness_identity_from_message_def message_ok_def Let_def
      ref_wf_valid copy_ref_eq zero_identity_def message_identity_def)

lemma message_identity_principal:
  "message_ok msg \<Longrightarrow> identity_principal (message_identity msg) = message_principal msg"
  by (simp add: message_ok_def Let_def identity_principal_def message_identity_def message_principal_def
      copied_ref_wf)

lemma identity_equal_iff:
  "guardian_node_link_freshness_identity_equal (Some a) (Some b) \<longleftrightarrow> identity_principal a = identity_principal b"
  by (auto simp: guardian_node_link_freshness_identity_equal_def identity_principal_def c_strncmp_equal_def)

section \<open>The runtime\<close>

lemma runtime_valid_active:
  assumes "runtime_valid r" "fr_condition r = GUARDIAN_NODE_LINK_FRESHNESS_ACTIVE"
  shows "fr_identity_valid r = 1" "fr_accepted_epoch_valid r = 1" "fr_accepted_sequence_valid r = 1"
proof -
  have le: "w \<le> 1 \<Longrightarrow> w \<noteq> 0 \<Longrightarrow> w = 1" for w :: u8
    by (simp add: word_le_nat_alt word_unat_eq_iff)
  from assms have "fr_identity_valid r \<le> 1" "fr_accepted_epoch_valid r \<le> 1"
    "fr_accepted_sequence_valid r \<le> 1" "fr_identity_valid r \<noteq> 0" "fr_accepted_epoch_valid r \<noteq> 0"
    "fr_accepted_sequence_valid r \<noteq> 0"
    by (simp_all add: guardian_node_link_freshness_runtime_validate_def not_less split: if_split_asm)
  then show "fr_identity_valid r = 1" "fr_accepted_epoch_valid r = 1" "fr_accepted_sequence_valid r = 1"
    using le by blast+
qed

text \<open>Moving the accepted sequence of a valid active runtime forward keeps it valid, so the
  re-validation in the code never refuses an acceptance.\<close>

lemma advance_valid:
  assumes "runtime_valid r" "fr_condition r = GUARDIAN_NODE_LINK_FRESHNESS_ACTIVE" "n \<noteq> 0"
  shows "runtime_valid (r\<lparr>fr_observation_valid := 1, fr_observed_epoch := e, fr_observed_sequence := n,
    fr_accepted_sequence_valid := 1, fr_accepted_sequence := n\<rparr>)"
  using assms runtime_valid_active [OF assms(1,2)]
  by (simp add: guardian_node_link_freshness_runtime_validate_def split: if_split_asm)

lemma decide_some:
  "runtime_valid r \<Longrightarrow> freshness_decide p r i e n \<noteq> None"
  by (auto simp: freshness_decide_def guardian_node_link_freshness_runtime_validate_def Let_def
      guardian_node_link_freshness_condition_valid_def split: if_split_asm)

lemma unat_diff_gap:
  fixes a b g :: u32
  assumes "a < b"
  shows "b - a \<le> g \<longleftrightarrow> unat b \<le> unat a + unat g"
proof -
  have "unat (b - a) = unat b - unat a" using assms by (simp add: unat_sub_if' word_less_nat_alt)
  then show ?thesis using assms by (simp add: word_le_nat_alt word_less_nat_alt) arith
qed

lemma decide_accept_iff:
  assumes "message_ok msg"
  shows "freshness_decide p r (message_identity msg)
      (nf_sender_epoch (am_frame (cm_authenticated_message msg)))
      (nf_sequence (am_frame (cm_authenticated_message msg)))
      = Some GUARDIAN_NODE_LINK_FRESHNESS_DECISION_ACCEPT \<longleftrightarrow>
    monitor_accepts (unat (fp_max_forward_gap p)) (abs_runtime r) (abs_message msg)"
proof -
  let ?e = "nf_sender_epoch (am_frame (cm_authenticated_message msg))"
  let ?n = "nf_sequence (am_frame (cm_authenticated_message msg))"
  let ?a = "fr_accepted_sequence r"
  have "unat ?n < 2 ^ 32" using unsigned_less [of ?n] by simp
  then have top: "?a = 0xFFFFFFFF \<Longrightarrow> \<not> ?a < ?n" by (simp add: word_less_nat_alt)
  have "freshness_decide p r (message_identity msg) ?e ?n = Some GUARDIAN_NODE_LINK_FRESHNESS_DECISION_ACCEPT
    \<longleftrightarrow> fr_condition r = 1 \<and> identity_principal (fr_identity r) = message_principal msg
      \<and> ?e = fr_accepted_epoch r \<and> ?a < ?n \<and> ?n - ?a \<le> fp_max_forward_gap p"
    unfolding freshness_decide_def identity_equal_iff message_identity_principal [OF assms]
    using top by (auto simp: not_less Let_def)
  then show ?thesis
    using unat_diff_gap [of ?a ?n "fp_max_forward_gap p"]
    by (auto simp: abs_runtime_def abs_message_def word_less_nat_alt)
qed

text \<open>One evaluation of a well-formed message by a valid runtime.\<close>

lemma evaluate_and_apply_step:
  assumes r: "runtime_valid r" and p: "fp_configured p = 1" "fp_max_forward_gap p \<noteq> 0"
    and msg: "message_ok msg"
  shows "\<exists>r' e. guardian_node_link_freshness_evaluate_and_apply (Some p) (Some r) (Some msg) (Some e0)
      = (GUARDIAN_NODE_LINK_FRESHNESS_OK, Some r', Some e)
    \<and> runtime_valid r'
    \<and> abs_runtime r' = monitor_step (unat (fp_max_forward_gap p)) (abs_runtime r) (abs_message msg)
    \<and> (fe_decision e = GUARDIAN_NODE_LINK_FRESHNESS_DECISION_ACCEPT \<longleftrightarrow>
         monitor_accepts (unat (fp_max_forward_gap p)) (abs_runtime r) (abs_message msg))
    \<and> fe_transition_applied e = (if fe_decision e = GUARDIAN_NODE_LINK_FRESHNESS_DECISION_ACCEPT then 1 else 0)
    \<and> (fe_decision e \<noteq> GUARDIAN_NODE_LINK_FRESHNESS_DECISION_ACCEPT \<longrightarrow> r' = r)"
proof -
  let ?e = "nf_sender_epoch (am_frame (cm_authenticated_message msg))"
  let ?n = "nf_sequence (am_frame (cm_authenticated_message msg))"
  obtain d where d: "freshness_decide p r (message_identity msg) ?e ?n = Some d"
    using decide_some [OF r] by blast
  define ev where "ev = (guardian_node_link_freshness_bind_prior_state r
     (zero_evaluation\<lparr>fe_identity := message_identity msg, fe_observed_epoch := ?e,
        fe_observed_sequence := ?n, fe_evaluated_max_forward_gap := fp_max_forward_gap p\<rparr>))\<lparr>fe_decision := d\<rparr>"
  have ev: "fe_decision ev = d" "fe_observed_epoch ev = ?e" "fe_observed_sequence ev = ?n"
    "fe_transition_applied ev = 0"
    by (simp_all add: ev_def guardian_node_link_freshness_bind_prior_state_def zero_evaluation_def)
  have int: "guardian_node_link_freshness_evaluate_internal (Some p) (Some r) (Some msg) (Some zero_evaluation)
      = (GUARDIAN_NODE_LINK_FRESHNESS_OK, Some ev)"
    using r p by (simp add: guardian_node_link_freshness_evaluate_internal_def
        identity_from_message_ok [OF msg] d ev_def Let_def)
  have acc: "d = GUARDIAN_NODE_LINK_FRESHNESS_DECISION_ACCEPT \<longleftrightarrow>
      monitor_accepts (unat (fp_max_forward_gap p)) (abs_runtime r) (abs_message msg)"
    using decide_accept_iff [OF msg, of p r] d by simp
  show ?thesis
  proof (cases "d = GUARDIAN_NODE_LINK_FRESHNESS_DECISION_ACCEPT")
    case True
    then have m: "monitor_accepts (unat (fp_max_forward_gap p)) (abs_runtime r) (abs_message msg)"
      using acc by simp
    then have act: "fr_condition r = 1" and id: "identity_principal (fr_identity r) = message_principal msg"
      "fr_accepted_epoch r = ?e"
      by (auto simp: abs_runtime_def abs_message_def split: if_split_asm)
    have n: "?n \<noteq> 0" using msg by (simp add: message_ok_def Let_def)
    let ?r = "r\<lparr>fr_observation_valid := 1, fr_observed_epoch := ?e, fr_observed_sequence := ?n,
      fr_accepted_sequence_valid := 1, fr_accepted_sequence := ?n\<rparr>"
    have v: "runtime_valid ?r" by (rule advance_valid [OF r act n])
    have "abs_runtime ?r = Some (abs_message msg)"
      using act id by (simp add: abs_runtime_def abs_message_def)
    then show ?thesis
      using m v True
      by (simp add: guardian_node_link_freshness_evaluate_and_apply_def int ev Let_def monitor_step_def)
  next
    case False
    then show ?thesis
      using acc r by (simp add: guardian_node_link_freshness_evaluate_and_apply_def int ev monitor_step_def)
  qed
qed

section \<open>Streams of messages\<close>

definition freshness_offer ::
  "guardian_node_link_freshness_policy \<Rightarrow> guardian_node_link_freshness_runtime
     \<Rightarrow> guardian_node_link_pre_freshness_compatible_message \<Rightarrow> bool \<times> guardian_node_link_freshness_runtime" where
  "freshness_offer p r msg =
     (case guardian_node_link_freshness_evaluate_and_apply (Some p) (Some r) (Some msg) (Some zero_evaluation) of
        (result, r', e) \<Rightarrow>
          (result = GUARDIAN_NODE_LINK_FRESHNESS_OK \<and>
             fe_decision (the e) = GUARDIAN_NODE_LINK_FRESHNESS_DECISION_ACCEPT, the r'))"

definition policy_ok :: "guardian_node_link_freshness_policy \<Rightarrow> bool" where
  "policy_ok p \<longleftrightarrow> fp_configured p = 1 \<and> fp_max_forward_gap p \<noteq> 0"

lemma freshness_offer_refines:
  assumes "policy_ok p" "runtime_valid r" "message_ok msg" "freshness_offer p r msg = (ok, r')"
  shows "runtime_valid r' \<and> ok = monitor_accepts (unat (fp_max_forward_gap p)) (abs_runtime r) (abs_message msg)
    \<and> abs_runtime r' = (if ok then Some (abs_message msg) else abs_runtime r)
    \<and> (\<not> ok \<longrightarrow> r' = r)"
  using evaluate_and_apply_step [OF assms(2) _ _ assms(3), of p zero_evaluation] assms(1,4)
  by (auto simp: policy_ok_def freshness_offer_def monitor_step_def)

lemma freshness_offer_accepted:
  assumes "policy_ok p" "runtime_valid r" "message_ok msg" "freshness_offer p r msg = (True, r')"
  shows "runtime_valid r' \<and> map_option (\<lambda>(who, epoch, n). (who, epoch)) (abs_runtime r')
      = map_option (\<lambda>(who, epoch, n). (who, epoch)) (abs_runtime r)
    \<and> Some (message_principal msg, nf_sender_epoch (am_frame (cm_authenticated_message msg)))
      = map_option (\<lambda>(who, epoch, n). (who, epoch)) (abs_runtime r)
    \<and> (case abs_runtime r of None \<Rightarrow> 0 | Some (who, epoch, n) \<Rightarrow> n)
      < unat (nf_sequence (am_frame (cm_authenticated_message msg)))
    \<and> (case abs_runtime r' of None \<Rightarrow> 0 | Some (who, epoch, n) \<Rightarrow> n)
      = unat (nf_sequence (am_frame (cm_authenticated_message msg)))"
  using freshness_offer_refines [OF assms]
  by (cases "abs_runtime r") (auto simp: abs_message_def)

definition runtime_level :: "guardian_node_link_freshness_runtime \<Rightarrow> nat" where
  "runtime_level r = (case abs_runtime r of None \<Rightarrow> 0 | Some (who, epoch, n) \<Rightarrow> n)"

definition runtime_session :: "guardian_node_link_freshness_runtime \<Rightarrow> (principal \<times> u32) option" where
  "runtime_session r = map_option (\<lambda>(who, epoch, n). (who, epoch)) (abs_runtime r)"

interpretation freshness_guard: replay_guard "freshness_offer p" "\<lambda>r. policy_ok p \<and> runtime_valid r"
  message_ok runtime_session
  "\<lambda>m. Some (message_principal m, nf_sender_epoch (am_frame (cm_authenticated_message m)))"
  runtime_level "\<lambda>m. unat (nf_sequence (am_frame (cm_authenticated_message m)))"
proof (unfold_locales, goal_cases)
  case (1 s m t)
  then show ?case
    using freshness_offer_accepted [of p s m t] unfolding runtime_session_def runtime_level_def by simp
next
  case (2 s m t)
  then show ?case using freshness_offer_refines [of p s m False t] by auto
qed

section \<open>Properties\<close>

text \<open>C33: The runtime implements the abstract replay monitor. For a valid runtime, a configured
  policy and a well-formed message, the combined evaluation always succeeds, leaves a valid
  runtime, reports ACCEPT exactly if the monitor accepts (same identity, same epoch, sequence
  ahead of the last accepted one by at most the gap, computed without wrap-around), and moves to
  the runtime of the monitor's next state; on every other decision the runtime is unchanged.\<close>

theorem freshness_refines_monitor:
  assumes "guardian_node_link_freshness_runtime_validate (Some r) = GUARDIAN_NODE_LINK_FRESHNESS_OK"
    and "fp_configured p = 1" "fp_max_forward_gap p \<noteq> 0" "message_ok msg"
  shows "\<exists>r' e. guardian_node_link_freshness_evaluate_and_apply (Some p) (Some r) (Some msg) (Some e0)
      = (GUARDIAN_NODE_LINK_FRESHNESS_OK, Some r', Some e)
    \<and> guardian_node_link_freshness_runtime_validate (Some r') = GUARDIAN_NODE_LINK_FRESHNESS_OK
    \<and> abs_runtime r' = monitor_step (unat (fp_max_forward_gap p)) (abs_runtime r) (abs_message msg)
    \<and> (fe_decision e = GUARDIAN_NODE_LINK_FRESHNESS_DECISION_ACCEPT \<longleftrightarrow>
         monitor_accepts (unat (fp_max_forward_gap p)) (abs_runtime r) (abs_message msg))
    \<and> fe_transition_applied e = (if fe_decision e = GUARDIAN_NODE_LINK_FRESHNESS_DECISION_ACCEPT then 1 else 0)
    \<and> (fe_decision e \<noteq> GUARDIAN_NODE_LINK_FRESHNESS_DECISION_ACCEPT \<longrightarrow> r' = r)"
  by (rule evaluate_and_apply_step [OF assms])

text \<open>An active session at sequence 41, and the message with sequence 43.\<close>

definition sample_ref :: "u8 list" where
  "sample_ref = [0x70] @ replicate 95 0"

definition sample_identity :: guardian_node_link_freshness_identity where
  "sample_identity = \<lparr>fi_sender_node_id = 9, fi_producer_id = 4, fi_key_id = 5, fi_signature_algorithm = 1,
     fi_producer_semantic_profile_id = sample_ref, fi_consumer_semantic_profile_id = sample_ref,
     fi_compatibility_contract_id = sample_ref\<rparr>"

definition sample_runtime :: guardian_node_link_freshness_runtime where
  "sample_runtime = \<lparr>fr_condition = GUARDIAN_NODE_LINK_FRESHNESS_ACTIVE, fr_identity = sample_identity,
     fr_observed_epoch = 3, fr_observed_sequence = 41, fr_accepted_epoch = 3, fr_accepted_sequence = 41,
     fr_identity_valid = 1, fr_observation_valid = 1, fr_accepted_epoch_valid = 1,
     fr_accepted_sequence_valid = 1\<rparr>"

definition sample_message :: "u32 \<Rightarrow> guardian_node_link_pre_freshness_compatible_message" where
  "sample_message n = \<lparr>cm_authenticated_message = \<lparr>am_frame = sample_node_frame\<lparr>nf_sequence := n\<rparr>,
     am_producer_id = 4, am_key_id = 5, am_signature_algorithm = 1\<rparr>,
     cm_producer_semantic_profile_id = sample_ref, cm_consumer_semantic_profile_id = sample_ref,
     cm_compatibility_contract_id = sample_ref\<rparr>"

definition sample_policy :: guardian_node_link_freshness_policy where
  "sample_policy = \<lparr>fp_max_forward_gap = 8, fp_configured = 1\<rparr>"

lemma sample_ref_string: "c_string 96 sample_ref = [0x70]" "ref_wf sample_ref"
  by (simp_all add: ref_wf_def c_strnlen_def c_string_take sample_ref_def)

lemma sample_runtime_valid: "runtime_valid sample_runtime"
  using ref_wf_valid [OF sample_ref_string(2)]
  by (simp add: guardian_node_link_freshness_runtime_validate_def sample_runtime_def sample_identity_def
      guardian_node_link_freshness_condition_valid_def)

lemma sample_message_ok: "n \<noteq> 0 \<Longrightarrow> message_ok (sample_message n)"
  by (simp add: message_ok_def sample_message_def sample_node_frame_def zero_node_frame_def
      sample_ref_string)

lemma sample_abs:
  "abs_runtime sample_runtime = Some ((9, 4, 5, 1, [0x70], [0x70], [0x70]), 3, 41)"
  "abs_message (sample_message n) = ((9, 4, 5, 1, [0x70], [0x70], [0x70]), 3, unat n)"
  by (simp_all add: abs_runtime_def sample_runtime_def identity_principal_def sample_identity_def
      abs_message_def message_principal_def sample_message_def sample_node_frame_def
      zero_node_frame_def sample_ref_string)

theorem freshness_refines_monitor_witness:
  "\<exists>r' e. guardian_node_link_freshness_evaluate_and_apply (Some sample_policy) (Some sample_runtime)
      (Some (sample_message 43)) (Some zero_evaluation)
      = (GUARDIAN_NODE_LINK_FRESHNESS_OK, Some r', Some e)
    \<and> fe_decision e = GUARDIAN_NODE_LINK_FRESHNESS_DECISION_ACCEPT
    \<and> abs_runtime r' = Some ((9, 4, 5, 1, [0x70], [0x70], [0x70]), 3, 43)"
  using freshness_refines_monitor [OF sample_runtime_valid _ _ sample_message_ok [of 43], of sample_policy zero_evaluation]
  by (auto simp: sample_policy_def sample_abs monitor_step_def)

text \<open>No replay. Over any stream of well-formed messages, the sequence numbers the runtime accepts
  are strictly increasing from its accepted sequence on, hence no sequence is accepted twice,
  and every accepted message has the identity and epoch of the session the runtime followed at
  the start; the same order holds for the plain sequence guard.\<close>

theorem accepted_sequences_increase:
  assumes "policy_ok p" "guardian_node_link_freshness_runtime_validate (Some r) = GUARDIAN_NODE_LINK_FRESHNESS_OK"
    and "list_all message_ok ms"
  shows "sorted_wrt (<) (runtime_level r #
      map (\<lambda>m. unat (nf_sequence (am_frame (cm_authenticated_message m)))) (accepted (freshness_offer p) r ms))
    \<and> list_all (\<lambda>m. runtime_session r
        = Some (message_principal m, nf_sender_epoch (am_frame (cm_authenticated_message m))))
      (accepted (freshness_offer p) r ms)
    \<and> sorted_wrt (<) (guard_level g # map unat (accepted sequence_offer g ns))"
  using freshness_guard.accepted_increasing [of p r ms] freshness_guard.accepted_same_session [of p r ms]
    sequence_guard.accepted_increasing [where s = g and ms = ns] assms
  by (auto simp: list_all_iff)

theorem accepted_sequences_increase_witness:
  "sorted_wrt (<) (41 # map (\<lambda>m. unat (nf_sequence (am_frame (cm_authenticated_message m))))
     (accepted (freshness_offer sample_policy) sample_runtime [sample_message 43, sample_message 42]))"
  using accepted_sequences_increase [of sample_policy sample_runtime "[sample_message 43, sample_message 42]"]
    sample_runtime_valid sample_message_ok
  by (simp add: policy_ok_def sample_policy_def runtime_level_def sample_abs)

text \<open>C35: The stages fit together. A frame that passed authentication and semantic resolution is a
  well-formed input of the freshness stage: its evaluation by a valid runtime never reports an
  invalid message, and the identity it is judged under is the registered peer's producer and key
  with the profile of the only matching binding and of the consumer.\<close>

theorem authenticated_messages_are_well_formed:
  assumes "guardian_node_link_authenticator_configure (Some a0) (Some cfg)
      = (GUARDIAN_NODE_LINK_AUTH_OK, Some a)"
    and "\<forall>ps. ac_peers cfg = Some ps \<longrightarrow> ac_peer_count cfg \<le> length ps"
    and "length (nf_payload f) = GUARDIAN_NODE_LINK_MAX_PAYLOAD"
    and "guardian_node_link_authenticate (Some a) (Some f) (Some sig) n (Some m0)
      = (GUARDIAN_NODE_LINK_AUTH_OK, a', Some m)"
    and "guardian_node_link_resolve_pre_freshness_compatibility (Some res) (Some m) (Some c0)
      = (GUARDIAN_NODE_LINK_SEMANTIC_OK, res', Some c)"
    and "guardian_node_link_freshness_runtime_validate (Some r) = GUARDIAN_NODE_LINK_FRESHNESS_OK"
    and "policy_ok p"
  shows "fst (guardian_node_link_freshness_evaluate_and_apply (Some p) (Some r) (Some c) (Some e0))
      = GUARDIAN_NODE_LINK_FRESHNESS_OK
    \<and> (\<exists>peer b. peer \<in> set (config_peers cfg) \<and> pe_sender_node_id peer = nf_sender_node_id f
      \<and> filter (\<lambda>b. guardian_node_link_semantic_identity_equal b m)
          (take (sr_binding_count res) (sr_bindings res)) = [b]
      \<and> message_principal c = (pe_sender_node_id peer, pe_producer_id peer, pe_key_id peer,
          GUARDIAN_NODE_LINK_SIGNATURE_ED25519, c_string 96 (sb_producer_semantic_profile_id b),
          c_string 96 (sr_consumer_semantic_profile_id res), c_string 96 (cm_compatibility_contract_id c)))"
proof -
  note cfg = configure_ok [OF assms(1,2)]
  from cfg(3) obtain v where v: "au_verify_signature a = Some v" by blast
  have "distinct (map pe_sender_node_id (take (au_peer_count a) (au_peers a)))"
    "\<forall>q\<in>set (take (au_peer_count a) (au_peers a)). pe_signature_algorithm q = 1"
    using cfg(6-8) by simp_all
  from iffD1 [OF authenticate_iff [OF v cfg(4,5) this assms(3)] assms(4)] cfg(6)
  obtain peer where peer: "peer \<in> set (config_peers cfg)" "pe_sender_node_id peer = nf_sender_node_id f"
    "transcript_valid f (pe_producer_id peer) (pe_key_id peer)"
    "m = \<lparr>am_frame = f, am_producer_id = pe_producer_id peer, am_key_id = pe_key_id peer,
      am_signature_algorithm = 1\<rparr>" by auto
  note c = resolve_compatible [OF assms(5)]
  have ok: "message_ok c"
    using peer(3) c(1-4) by (simp add: message_ok_def transcript_valid_def peer(4))
  have "fst (guardian_node_link_freshness_evaluate_and_apply (Some p) (Some r) (Some c) (Some e0))
      = GUARDIAN_NODE_LINK_FRESHNESS_OK"
    using evaluate_and_apply_step [OF assms(6) _ _ ok, of p e0] assms(7) by (auto simp: policy_ok_def)
  then show ?thesis
    using c(1,5) peer by (auto simp: message_principal_def)
qed

text \<open>A resolver with one binding and a provider that names the contract.\<close>

definition sample_resolver :: "unit guardian_node_link_semantic_resolver" where
  "sample_resolver = the (snd (guardian_node_link_semantic_resolver_configure (Some zero_resolver)
     (Some \<lparr>sc_context = None, sc_resolve = Some (\<lambda>ctx producer consumer version buf cap. (0, sample_ref, ctx)),
        sc_consumer_semantic_profile_id = Some sample_ref,
        sc_bindings = Some [\<lparr>bc_sender_node_id = 9, bc_producer_id = 4, bc_key_id = 5,
          bc_signature_algorithm = 1, bc_producer_semantic_profile_id = Some sample_ref\<rparr>],
        sc_binding_count = 1\<rparr>)))"

lemma sample_snapshot:
  "guardian_node_link_semantic_snapshot_ref zero_ref 96 (Some sample_ref) = (True, sample_ref)"
  by (simp add: snapshot_ref_eq c_strnlen_def sample_ref_string) (simp add: sample_ref_def numeral_eq_Suc)

lemma take_first_update: "xs \<noteq> [] \<Longrightarrow> take (Suc 0) (xs[0 := x]) = [x]"
  by (cases xs) simp_all

lemma sample_resolves:
  "\<exists>res'. guardian_node_link_resolve_pre_freshness_compatibility (Some sample_resolver)
     (Some (cm_authenticated_message (sample_message n))) (Some zero_compatible_message)
     = (GUARDIAN_NODE_LINK_SEMANTIC_OK, res', Some (sample_message n))"
  by (simp add: guardian_node_link_resolve_pre_freshness_compatibility_def sample_resolver_def
      guardian_node_link_semantic_resolver_configure_def sample_snapshot zero_binding_def zero_resolver_def
      guardian_node_link_semantic_identity_equal_def zero_compatible_message_def sample_message_def
      guardian_node_link_semantic_map_provider_result_def sample_node_frame_def zero_node_frame_def take_first_update Let_def)

lemma sample_authenticates:
  "\<exists>a'. guardian_node_link_authenticate (Some sample_authenticator) (Some sample_node_frame)
     (Some (replicate 64 7)) 64 (Some zero_authenticated_message)
     = (GUARDIAN_NODE_LINK_AUTH_OK, a', Some (cm_authenticated_message (sample_message 41)))"
proof -
  have f: "length (nf_payload sample_node_frame) = 64" "nf_sender_node_id sample_node_frame = 9"
    "unat (nf_payload_length sample_node_frame) = 2" "transcript_valid sample_node_frame 4 5"
    "sample_node_frame\<lparr>nf_sequence := 41\<rparr> = sample_node_frame"
    by (simp_all add: sample_node_frame_def zero_node_frame_def transcript_valid_def
        guardian_node_link_auth_message_type_valid_def guardian_node_link_auth_state_valid_def)
  show ?thesis
    using f build_transcript_ok [OF f(4,1), of "replicate 120 0" 0]
    by (simp add: guardian_node_link_authenticate_def guardian_node_link_auth_resolve_peer_def
        sample_authenticator_def guardian_node_link_authenticator_configure_def sample_auth_config_def
        zero_authenticator_def buf_write_0 sample_message_def Let_def)
qed

theorem authenticated_messages_are_well_formed_witness:
  "fst (guardian_node_link_freshness_evaluate_and_apply (Some sample_policy) (Some sample_runtime)
     (Some (sample_message 41)) (Some zero_evaluation)) = GUARDIAN_NODE_LINK_FRESHNESS_OK"
proof -
  obtain a' where a: "guardian_node_link_authenticate (Some sample_authenticator) (Some sample_node_frame)
     (Some (replicate 64 7)) 64 (Some zero_authenticated_message)
     = (GUARDIAN_NODE_LINK_AUTH_OK, a', Some (cm_authenticated_message (sample_message 41)))"
    using sample_authenticates by blast
  obtain res' where r: "guardian_node_link_resolve_pre_freshness_compatibility (Some sample_resolver)
     (Some (cm_authenticated_message (sample_message 41))) (Some zero_compatible_message)
     = (GUARDIAN_NODE_LINK_SEMANTIC_OK, res', Some (sample_message 41))"
    using sample_resolves by blast
  have "length (nf_payload sample_node_frame) = 64"
    by (simp add: sample_node_frame_def)
  from authenticated_messages_are_well_formed
    [OF sample_authenticator_ok _ this a r sample_runtime_valid, of sample_policy zero_evaluation]
  show ?thesis by (simp add: sample_auth_config_def policy_ok_def sample_policy_def)
qed

end
