(* ===== verification/Guardian_Persistence.thy ===== *)
theory Guardian_Persistence
  imports Guardian_Freshness Guardian_Crypto
begin

text \<open>
  The persisted freshness record: the provider interface and the three-stage transaction of
  \<open>firmware/NodeLink/Src/guardian_node_link_freshness_persistence.c\<close>, and the 364-byte
  serialization of \<open>guardian_node_link_freshness_persistence_codec.c\<close>. A provider call returns
  its answer, the provider context and the candidate as it left it, so that the checks the
  transaction makes between the stages are visible. The lemmas show which records a committed
  transaction can carry and that the serialization is canonical.
\<close>

section \<open>Types\<close>

abbreviation (input) GUARDIAN_NODE_LINK_PERSISTENCE_OPERATION_INVALID :: c_enum where
  "GUARDIAN_NODE_LINK_PERSISTENCE_OPERATION_INVALID \<equiv> 0"
abbreviation (input) GUARDIAN_NODE_LINK_PERSISTENCE_OPERATION_OK :: c_enum where
  "GUARDIAN_NODE_LINK_PERSISTENCE_OPERATION_OK \<equiv> 1"
abbreviation (input) GUARDIAN_NODE_LINK_PERSISTENCE_OPERATION_UNAVAILABLE :: c_enum where
  "GUARDIAN_NODE_LINK_PERSISTENCE_OPERATION_UNAVAILABLE \<equiv> 2"
abbreviation (input) GUARDIAN_NODE_LINK_PERSISTENCE_OPERATION_IO_FAILURE :: c_enum where
  "GUARDIAN_NODE_LINK_PERSISTENCE_OPERATION_IO_FAILURE \<equiv> 3"
abbreviation (input) GUARDIAN_NODE_LINK_PERSISTENCE_OPERATION_VERIFY_FAILURE :: c_enum where
  "GUARDIAN_NODE_LINK_PERSISTENCE_OPERATION_VERIFY_FAILURE \<equiv> 4"
abbreviation (input) GUARDIAN_NODE_LINK_PERSISTENCE_OPERATION_COMMIT_FAILURE :: c_enum where
  "GUARDIAN_NODE_LINK_PERSISTENCE_OPERATION_COMMIT_FAILURE \<equiv> 5"
abbreviation (input) GUARDIAN_NODE_LINK_PERSISTENCE_OPERATION_STATE_UNCERTAIN :: c_enum where
  "GUARDIAN_NODE_LINK_PERSISTENCE_OPERATION_STATE_UNCERTAIN \<equiv> 6"
abbreviation (input) GUARDIAN_NODE_LINK_PERSISTENCE_OPERATION_GENERATION_EXHAUSTED :: c_enum where
  "GUARDIAN_NODE_LINK_PERSISTENCE_OPERATION_GENERATION_EXHAUSTED \<equiv> 7"

datatype guardian_node_link_freshness_persistence_transaction_outcome =
    GUARDIAN_NODE_LINK_PERSISTENCE_TRANSACTION_INVALID
  | GUARDIAN_NODE_LINK_PERSISTENCE_TRANSACTION_COMMITTED
  | GUARDIAN_NODE_LINK_PERSISTENCE_TRANSACTION_ABORTED
  | GUARDIAN_NODE_LINK_PERSISTENCE_TRANSACTION_STATE_UNCERTAIN
  | GUARDIAN_NODE_LINK_PERSISTENCE_TRANSACTION_GENERATION_EXHAUSTED

datatype guardian_node_link_freshness_persistence_stage =
    GUARDIAN_NODE_LINK_PERSISTENCE_STAGE_WRITE
  | GUARDIAN_NODE_LINK_PERSISTENCE_STAGE_VERIFY
  | GUARDIAN_NODE_LINK_PERSISTENCE_STAGE_COMMIT

type_synonym persisted_record = guardian_node_link_freshness_persisted_record
type_synonym transaction_outcome = guardian_node_link_freshness_persistence_transaction_outcome

text \<open>The load callback returns its answer, the context and its two out-parameters; the other
  callbacks their answer, the context and the candidate behind the pointer.\<close>

type_synonym 'c load_fn =
  "'c ptr \<Rightarrow> c_enum ptr \<Rightarrow> persisted_record ptr \<Rightarrow> c_enum \<times> 'c ptr \<times> c_enum ptr \<times> persisted_record ptr"
type_synonym 'c candidate_fn =
  "'c ptr \<Rightarrow> persisted_record ptr \<Rightarrow> c_enum \<times> 'c ptr \<times> persisted_record ptr"

record 'c guardian_node_link_freshness_persistence_provider =
  pv_context :: "'c ptr"
  pv_load :: "'c load_fn ptr"
  pv_write_candidate :: "'c candidate_fn ptr"
  pv_verify_candidate :: "'c candidate_fn ptr"
  pv_commit_candidate :: "'c candidate_fn ptr"

definition zero_record :: persisted_record where
  "zero_record = \<lparr>pr_schema_version = 0, pr_identity = zero_identity, pr_accepted_epoch = 0,
     pr_accepted_sequence = 0, pr_record_generation = 0\<rparr>"

section \<open>The transaction\<close>

definition guardian_node_link_freshness_persistence_identity_equal ::
  "guardian_node_link_freshness_identity ptr \<Rightarrow> guardian_node_link_freshness_identity ptr \<Rightarrow> bool" where
  "guardian_node_link_freshness_persistence_identity_equal left right =
     (case (left, right) of
        (Some l, Some r) \<Rightarrow>
          if fi_sender_node_id l \<noteq> fi_sender_node_id r \<or> fi_producer_id l \<noteq> fi_producer_id r
             \<or> fi_key_id l \<noteq> fi_key_id r \<or> fi_signature_algorithm l \<noteq> fi_signature_algorithm r
          then False
          else if \<not> c_strncmp_equal (fi_producer_semantic_profile_id l) (fi_producer_semantic_profile_id r)
                 GUARDIAN_NODE_LINK_SEMANTIC_REF_CAPACITY
          then False
          else if \<not> c_strncmp_equal (fi_consumer_semantic_profile_id l) (fi_consumer_semantic_profile_id r)
                 GUARDIAN_NODE_LINK_SEMANTIC_REF_CAPACITY
          then False
          else if \<not> c_strncmp_equal (fi_compatibility_contract_id l) (fi_compatibility_contract_id r)
                 GUARDIAN_NODE_LINK_SEMANTIC_REF_CAPACITY
          then False
          else True
      | _ \<Rightarrow> False)"

definition guardian_node_link_freshness_persistence_record_equal ::
  "persisted_record ptr \<Rightarrow> persisted_record ptr \<Rightarrow> bool" where
  "guardian_node_link_freshness_persistence_record_equal left right =
     (case (left, right) of
        (Some l, Some r) \<Rightarrow>
          if pr_schema_version l \<noteq> pr_schema_version r \<or> pr_accepted_epoch l \<noteq> pr_accepted_epoch r
             \<or> pr_accepted_sequence l \<noteq> pr_accepted_sequence r
             \<or> pr_record_generation l \<noteq> pr_record_generation r
          then False
          else guardian_node_link_freshness_persistence_identity_equal (Some (pr_identity l)) (Some (pr_identity r))
      | _ \<Rightarrow> False)"

definition guardian_node_link_freshness_persistence_transition_valid ::
  "persisted_record ptr \<Rightarrow> persisted_record ptr \<Rightarrow> bool" where
  "guardian_node_link_freshness_persistence_transition_valid previous_record candidate =
     (case candidate of
        None \<Rightarrow> False
      | Some c \<Rightarrow>
          (case previous_record of
             None \<Rightarrow> True
           | Some p \<Rightarrow>
               if pr_accepted_epoch c \<noteq> pr_accepted_epoch p then False
               else if pr_accepted_sequence c \<le> pr_accepted_sequence p then False
               else True))"

definition guardian_node_link_freshness_persistence_result_valid :: "c_enum \<Rightarrow> bool" where
  "guardian_node_link_freshness_persistence_result_valid result \<longleftrightarrow> result \<in>
     {GUARDIAN_NODE_LINK_PERSISTENCE_OPERATION_OK, GUARDIAN_NODE_LINK_PERSISTENCE_OPERATION_UNAVAILABLE,
      GUARDIAN_NODE_LINK_PERSISTENCE_OPERATION_IO_FAILURE,
      GUARDIAN_NODE_LINK_PERSISTENCE_OPERATION_VERIFY_FAILURE,
      GUARDIAN_NODE_LINK_PERSISTENCE_OPERATION_COMMIT_FAILURE,
      GUARDIAN_NODE_LINK_PERSISTENCE_OPERATION_STATE_UNCERTAIN,
      GUARDIAN_NODE_LINK_PERSISTENCE_OPERATION_GENERATION_EXHAUSTED}"

definition guardian_node_link_freshness_persistence_result_valid_for_stage ::
  "guardian_node_link_freshness_persistence_stage \<Rightarrow> c_enum \<Rightarrow> bool" where
  "guardian_node_link_freshness_persistence_result_valid_for_stage stage result =
     (if \<not> guardian_node_link_freshness_persistence_result_valid result then False
      else
        case stage of
          GUARDIAN_NODE_LINK_PERSISTENCE_STAGE_WRITE \<Rightarrow>
            result = GUARDIAN_NODE_LINK_PERSISTENCE_OPERATION_OK
            \<or> result = GUARDIAN_NODE_LINK_PERSISTENCE_OPERATION_UNAVAILABLE
            \<or> result = GUARDIAN_NODE_LINK_PERSISTENCE_OPERATION_IO_FAILURE
            \<or> result = GUARDIAN_NODE_LINK_PERSISTENCE_OPERATION_STATE_UNCERTAIN
        | GUARDIAN_NODE_LINK_PERSISTENCE_STAGE_VERIFY \<Rightarrow>
            result = GUARDIAN_NODE_LINK_PERSISTENCE_OPERATION_OK
            \<or> result = GUARDIAN_NODE_LINK_PERSISTENCE_OPERATION_UNAVAILABLE
            \<or> result = GUARDIAN_NODE_LINK_PERSISTENCE_OPERATION_IO_FAILURE
            \<or> result = GUARDIAN_NODE_LINK_PERSISTENCE_OPERATION_VERIFY_FAILURE
            \<or> result = GUARDIAN_NODE_LINK_PERSISTENCE_OPERATION_STATE_UNCERTAIN
        | GUARDIAN_NODE_LINK_PERSISTENCE_STAGE_COMMIT \<Rightarrow>
            result = GUARDIAN_NODE_LINK_PERSISTENCE_OPERATION_OK
            \<or> result = GUARDIAN_NODE_LINK_PERSISTENCE_OPERATION_UNAVAILABLE
            \<or> result = GUARDIAN_NODE_LINK_PERSISTENCE_OPERATION_IO_FAILURE
            \<or> result = GUARDIAN_NODE_LINK_PERSISTENCE_OPERATION_COMMIT_FAILURE
            \<or> result = GUARDIAN_NODE_LINK_PERSISTENCE_OPERATION_STATE_UNCERTAIN)"

definition guardian_node_link_freshness_persistence_validate_record ::
  "persisted_record ptr \<Rightarrow> guardian_node_link_freshness_identity ptr \<Rightarrow> c_enum" where
  "guardian_node_link_freshness_persistence_validate_record persisted expected_identity =
     (if persisted = None then GUARDIAN_NODE_LINK_PERSISTENCE_OPERATION_INVALID
      else
        let (result, classification) = guardian_node_link_freshness_persistence_classify
              GUARDIAN_NODE_LINK_PERSISTENCE_STATUS_VALID_PERSISTED_STATE persisted expected_identity
              (Some GUARDIAN_NODE_LINK_PERSISTENCE_CLASSIFICATION_INVALID)
        in if result \<noteq> GUARDIAN_NODE_LINK_FRESHNESS_OK
        then GUARDIAN_NODE_LINK_PERSISTENCE_OPERATION_INVALID
        else if the classification \<noteq> GUARDIAN_NODE_LINK_PERSISTENCE_CLASSIFICATION_VALIDATED_RECORD_CANDIDATE
        then GUARDIAN_NODE_LINK_PERSISTENCE_OPERATION_INVALID
        else GUARDIAN_NODE_LINK_PERSISTENCE_OPERATION_OK)"

definition guardian_node_link_freshness_persistence_next_generation ::
  "persisted_record ptr \<Rightarrow> u32 ptr \<Rightarrow> c_enum \<times> u32 ptr" where
  "guardian_node_link_freshness_persistence_next_generation previous_record next_generation =
     (case next_generation of
        None \<Rightarrow> (GUARDIAN_NODE_LINK_PERSISTENCE_OPERATION_INVALID, next_generation)
      | Some _ \<Rightarrow>
          (case previous_record of
             None \<Rightarrow> (GUARDIAN_NODE_LINK_PERSISTENCE_OPERATION_OK, Some 0)
           | Some p \<Rightarrow>
               if pr_record_generation p = 0xFFFFFFFF
               then (GUARDIAN_NODE_LINK_PERSISTENCE_OPERATION_GENERATION_EXHAUSTED, Some 0)
               else (GUARDIAN_NODE_LINK_PERSISTENCE_OPERATION_OK, Some (pr_record_generation p + 1))))"

definition guardian_node_link_freshness_persistence_handle_stage_result ::
  "guardian_node_link_freshness_persistence_stage \<Rightarrow> c_enum \<Rightarrow> transaction_outcome ptr
     \<Rightarrow> c_enum \<times> transaction_outcome ptr" where
  "guardian_node_link_freshness_persistence_handle_stage_result stage result outcome =
     (if outcome = None then (GUARDIAN_NODE_LINK_PERSISTENCE_OPERATION_INVALID, outcome)
      else if \<not> guardian_node_link_freshness_persistence_result_valid_for_stage stage result
      then (GUARDIAN_NODE_LINK_PERSISTENCE_OPERATION_INVALID,
            Some GUARDIAN_NODE_LINK_PERSISTENCE_TRANSACTION_STATE_UNCERTAIN)
      else if result = GUARDIAN_NODE_LINK_PERSISTENCE_OPERATION_STATE_UNCERTAIN
      then (result, Some GUARDIAN_NODE_LINK_PERSISTENCE_TRANSACTION_STATE_UNCERTAIN)
      else if result \<noteq> GUARDIAN_NODE_LINK_PERSISTENCE_OPERATION_OK
      then (result, Some GUARDIAN_NODE_LINK_PERSISTENCE_TRANSACTION_ABORTED)
      else (GUARDIAN_NODE_LINK_PERSISTENCE_OPERATION_OK, outcome))"

text \<open>One of the three stages: the provider call, the judgement of its answer, and the checks that
  the candidate it was shown is still the validated one. The result is the value to return if
  it is not OK, the context, the candidate and the outcome.\<close>

definition transact_stage ::
  "guardian_node_link_freshness_persistence_stage \<Rightarrow> 'c candidate_fn \<Rightarrow> 'c ptr \<Rightarrow> persisted_record
     \<Rightarrow> persisted_record \<Rightarrow> guardian_node_link_freshness_identity ptr \<Rightarrow> transaction_outcome ptr
     \<Rightarrow> c_enum \<times> 'c ptr \<times> persisted_record \<times> transaction_outcome ptr" where
  "transact_stage stage callback context transaction_candidate validated_candidate expected_identity outcome =
     (let (answer, context', candidate') = callback context (Some transaction_candidate);
          txn = the candidate';
          (result, outcome') = guardian_node_link_freshness_persistence_handle_stage_result stage answer outcome
      in if result \<noteq> GUARDIAN_NODE_LINK_PERSISTENCE_OPERATION_OK then (result, context', txn, outcome')
      else if \<not> guardian_node_link_freshness_persistence_record_equal (Some txn) (Some validated_candidate)
      then (GUARDIAN_NODE_LINK_PERSISTENCE_OPERATION_INVALID, context', txn,
            Some GUARDIAN_NODE_LINK_PERSISTENCE_TRANSACTION_STATE_UNCERTAIN)
      else if guardian_node_link_freshness_persistence_validate_record (Some txn) expected_identity
          \<noteq> GUARDIAN_NODE_LINK_PERSISTENCE_OPERATION_OK
      then (GUARDIAN_NODE_LINK_PERSISTENCE_OPERATION_INVALID, context', txn,
            Some GUARDIAN_NODE_LINK_PERSISTENCE_TRANSACTION_STATE_UNCERTAIN)
      else (GUARDIAN_NODE_LINK_PERSISTENCE_OPERATION_OK, context', txn, outcome'))"

text \<open>The checks before the first provider call: \<open>Some (result, outcome)\<close> is an early return.\<close>

definition transact_precheck ::
  "persisted_record ptr \<Rightarrow> guardian_node_link_freshness_identity ptr \<Rightarrow> persisted_record
     \<Rightarrow> (c_enum \<times> transaction_outcome) option" where
  "transact_precheck previous_record expected_identity c =
     (let vp = guardian_node_link_freshness_persistence_validate_record previous_record expected_identity;
          vc = guardian_node_link_freshness_persistence_validate_record (Some c) expected_identity;
          (ng, expected_generation) =
            guardian_node_link_freshness_persistence_next_generation previous_record (Some 0)
      in if previous_record \<noteq> None \<and> vp \<noteq> GUARDIAN_NODE_LINK_PERSISTENCE_OPERATION_OK
      then Some (vp, GUARDIAN_NODE_LINK_PERSISTENCE_TRANSACTION_ABORTED)
      else if vc \<noteq> GUARDIAN_NODE_LINK_PERSISTENCE_OPERATION_OK
      then Some (vc, GUARDIAN_NODE_LINK_PERSISTENCE_TRANSACTION_ABORTED)
      else if ng = GUARDIAN_NODE_LINK_PERSISTENCE_OPERATION_GENERATION_EXHAUSTED
      then Some (ng, GUARDIAN_NODE_LINK_PERSISTENCE_TRANSACTION_GENERATION_EXHAUSTED)
      else if ng \<noteq> GUARDIAN_NODE_LINK_PERSISTENCE_OPERATION_OK
      then Some (ng, GUARDIAN_NODE_LINK_PERSISTENCE_TRANSACTION_ABORTED)
      else if pr_record_generation c \<noteq> the expected_generation
      then Some (GUARDIAN_NODE_LINK_PERSISTENCE_OPERATION_INVALID,
                 GUARDIAN_NODE_LINK_PERSISTENCE_TRANSACTION_ABORTED)
      else if \<not> guardian_node_link_freshness_persistence_transition_valid previous_record (Some c)
      then Some (GUARDIAN_NODE_LINK_PERSISTENCE_OPERATION_INVALID,
                 GUARDIAN_NODE_LINK_PERSISTENCE_TRANSACTION_ABORTED)
      else None)"

definition guardian_node_link_freshness_persistence_transact_commit ::
  "'c guardian_node_link_freshness_persistence_provider ptr \<Rightarrow> persisted_record ptr
     \<Rightarrow> guardian_node_link_freshness_identity ptr \<Rightarrow> persisted_record ptr \<Rightarrow> transaction_outcome ptr
     \<Rightarrow> c_enum \<times> 'c guardian_node_link_freshness_persistence_provider ptr \<times> transaction_outcome ptr" where
  "guardian_node_link_freshness_persistence_transact_commit provider previous_record expected_identity
     candidate outcome =
     (let out0 = map_option (\<lambda>_. GUARDIAN_NODE_LINK_PERSISTENCE_TRANSACTION_INVALID) outcome in
      case (provider, expected_identity, candidate, out0) of
        (Some p, Some _, Some c, Some _) \<Rightarrow>
          (case (pv_load p, pv_write_candidate p, pv_verify_candidate p, pv_commit_candidate p) of
             (Some _, Some write_fn, Some verify_fn, Some commit_fn) \<Rightarrow>
               (case transact_precheck previous_record expected_identity c of
                  Some (result, out) \<Rightarrow> (result, provider, Some out)
                | None \<Rightarrow>
                    let (r1, ctx1, t1, out1) = transact_stage GUARDIAN_NODE_LINK_PERSISTENCE_STAGE_WRITE
                          write_fn (pv_context p) c c expected_identity out0
                    in if r1 \<noteq> GUARDIAN_NODE_LINK_PERSISTENCE_OPERATION_OK
                    then (r1, Some (p\<lparr>pv_context := ctx1\<rparr>), out1)
                    else
                      let (r2, ctx2, t2, out2) = transact_stage GUARDIAN_NODE_LINK_PERSISTENCE_STAGE_VERIFY
                            verify_fn ctx1 t1 c expected_identity out1
                      in if r2 \<noteq> GUARDIAN_NODE_LINK_PERSISTENCE_OPERATION_OK
                      then (r2, Some (p\<lparr>pv_context := ctx2\<rparr>), out2)
                      else
                        let (r3, ctx3, t3, out3) = transact_stage GUARDIAN_NODE_LINK_PERSISTENCE_STAGE_COMMIT
                              commit_fn ctx2 t2 c expected_identity out2
                        in if r3 \<noteq> GUARDIAN_NODE_LINK_PERSISTENCE_OPERATION_OK
                        then (r3, Some (p\<lparr>pv_context := ctx3\<rparr>), out3)
                        else (GUARDIAN_NODE_LINK_PERSISTENCE_OPERATION_OK, Some (p\<lparr>pv_context := ctx3\<rparr>),
                              Some GUARDIAN_NODE_LINK_PERSISTENCE_TRANSACTION_COMMITTED))
           | _ \<Rightarrow> (GUARDIAN_NODE_LINK_PERSISTENCE_OPERATION_INVALID, provider, out0))
      | _ \<Rightarrow> (GUARDIAN_NODE_LINK_PERSISTENCE_OPERATION_INVALID, provider, out0))"

section \<open>The serialization\<close>

abbreviation (input) GUARDIAN_NODE_LINK_PERSISTENCE_CODEC_SERIALIZED_SIZE :: nat where
  "GUARDIAN_NODE_LINK_PERSISTENCE_CODEC_SERIALIZED_SIZE \<equiv> 364"
abbreviation (input) GUARDIAN_NODE_LINK_PERSISTENCE_CODEC_INTEGRITY_OFFSET :: nat where
  "GUARDIAN_NODE_LINK_PERSISTENCE_CODEC_INTEGRITY_OFFSET \<equiv> 332"

datatype guardian_node_link_freshness_persistence_codec_result =
    GUARDIAN_NODE_LINK_PERSISTENCE_CODEC_INVALID
  | GUARDIAN_NODE_LINK_PERSISTENCE_CODEC_OK
  | GUARDIAN_NODE_LINK_PERSISTENCE_CODEC_BAD_ARGUMENT
  | GUARDIAN_NODE_LINK_PERSISTENCE_CODEC_BUFFER_TOO_SMALL
  | GUARDIAN_NODE_LINK_PERSISTENCE_CODEC_BAD_MAGIC
  | GUARDIAN_NODE_LINK_PERSISTENCE_CODEC_UNSUPPORTED_VERSION
  | GUARDIAN_NODE_LINK_PERSISTENCE_CODEC_BAD_LENGTH
  | GUARDIAN_NODE_LINK_PERSISTENCE_CODEC_RESERVED_NONZERO
  | GUARDIAN_NODE_LINK_PERSISTENCE_CODEC_INVALID_FIELD
  | GUARDIAN_NODE_LINK_PERSISTENCE_CODEC_INTEGRITY_FAILURE
  | GUARDIAN_NODE_LINK_PERSISTENCE_CODEC_TRAILING_DATA

definition r3c_d_put_u16_be :: "u8 list \<Rightarrow> nat \<Rightarrow> u16 \<Rightarrow> u8 list" where
  "r3c_d_put_u16_be output i v =
     output[i := ucast (drop_bit 8 v AND 0xFF), i + 1 := ucast (v AND 0xFF)]"

definition r3c_d_get_u16_be :: "u8 list \<Rightarrow> nat \<Rightarrow> u16" where
  "r3c_d_get_u16_be input i = push_bit 8 (ucast (input ! i)) OR ucast (input ! (i + 1))"

definition r3c_d_put_u32_be :: "u8 list \<Rightarrow> nat \<Rightarrow> u32 \<Rightarrow> u8 list" where
  "r3c_d_put_u32_be output i v =
     output[i := ucast (drop_bit 24 v AND 0xFF), i + 1 := ucast (drop_bit 16 v AND 0xFF),
       i + 2 := ucast (drop_bit 8 v AND 0xFF), i + 3 := ucast (v AND 0xFF)]"

definition r3c_d_get_u32_be :: "u8 list \<Rightarrow> nat \<Rightarrow> u32" where
  "r3c_d_get_u32_be input i =
     push_bit 24 (ucast (input ! i)) OR push_bit 16 (ucast (input ! (i + 1)))
     OR push_bit 8 (ucast (input ! (i + 2))) OR ucast (input ! (i + 3))"

definition r3c_d_ref_length :: "u8 list ptr \<Rightarrow> nat \<Rightarrow> nat" where
  "r3c_d_ref_length reference capacity =
     (case reference of
        None \<Rightarrow> capacity
      | Some ref \<Rightarrow> if capacity = 0 then capacity else c_strnlen ref capacity)"

text \<open>The pointer \<open>&output[i]\<close> is the buffer and the offset.\<close>

definition r3c_d_encode_ref :: "u8 list \<Rightarrow> u8 list \<Rightarrow> nat \<Rightarrow> bool \<times> u8 list" where
  "r3c_d_encode_ref reference output i =
     (let len = r3c_d_ref_length (Some reference) GUARDIAN_NODE_LINK_SEMANTIC_REF_CAPACITY in
      if len = 0 \<or> len \<ge> GUARDIAN_NODE_LINK_SEMANTIC_REF_CAPACITY then (False, output)
      else (True, buf_write (buf_write output i (replicate GUARDIAN_NODE_LINK_SEMANTIC_REF_CAPACITY 0)) i
             (take len reference)))"

definition r3c_d_decode_ref :: "u8 list \<Rightarrow> nat \<Rightarrow> u8 list \<Rightarrow> bool \<times> u8 list" where
  "r3c_d_decode_ref input i reference =
     (let terminator = c_strnlen (drop i input) GUARDIAN_NODE_LINK_SEMANTIC_REF_CAPACITY in
      if terminator = 0 \<or> terminator \<ge> GUARDIAN_NODE_LINK_SEMANTIC_REF_CAPACITY then (False, reference)
      else if list_ex (\<lambda>k. input ! (i + k) \<noteq> 0)
           [terminator + 1 ..< GUARDIAN_NODE_LINK_SEMANTIC_REF_CAPACITY]
      then (False, reference)
      else (True, buf_write (buf_write reference 0 (replicate GUARDIAN_NODE_LINK_SEMANTIC_REF_CAPACITY 0)) 0
             (buf_read input i terminator)))"

definition r3c_d_record_is_logically_valid :: "persisted_record \<Rightarrow> bool" where
  "r3c_d_record_is_logically_valid r =
     (let (result, classification) = guardian_node_link_freshness_persistence_classify
            GUARDIAN_NODE_LINK_PERSISTENCE_STATUS_VALID_PERSISTED_STATE (Some r) (Some (pr_identity r))
            (Some GUARDIAN_NODE_LINK_PERSISTENCE_CLASSIFICATION_INVALID)
      in if result \<noteq> GUARDIAN_NODE_LINK_FRESHNESS_OK then False
      else the classification = GUARDIAN_NODE_LINK_PERSISTENCE_CLASSIFICATION_VALIDATED_RECORD_CANDIDATE)"

definition guardian_node_link_freshness_persistence_encode ::
  "persisted_record ptr \<Rightarrow> u8 list ptr \<Rightarrow> nat \<Rightarrow> nat ptr
     \<Rightarrow> guardian_node_link_freshness_persistence_codec_result \<times> u8 list ptr \<times> nat ptr" where
  "guardian_node_link_freshness_persistence_encode persisted output output_capacity output_written =
     (let written0 = map_option (\<lambda>_. 0) output_written in
      case (persisted, output, written0) of
        (Some r, Some out, Some _) \<Rightarrow>
          if output_capacity < GUARDIAN_NODE_LINK_PERSISTENCE_CODEC_SERIALIZED_SIZE
          then (GUARDIAN_NODE_LINK_PERSISTENCE_CODEC_BUFFER_TOO_SMALL, output, written0)
          else if \<not> r3c_d_record_is_logically_valid r
          then (GUARDIAN_NODE_LINK_PERSISTENCE_CODEC_INVALID_FIELD, output, written0)
          else
            let o1 = (buf_write out 0 (replicate GUARDIAN_NODE_LINK_PERSISTENCE_CODEC_SERIALIZED_SIZE 0))
                  [0 := 0x47, 1 := 0x46, 2 := 0x52, 3 := 0x31];
                o2 = r3c_d_put_u16_be o1 4 1;
                o3 = r3c_d_put_u16_be o2 6 28;
                o4 = r3c_d_put_u32_be o3 8 (pr_schema_version r);
                o5 = r3c_d_put_u32_be o4 12 (fi_sender_node_id (pr_identity r));
                o6 = r3c_d_put_u32_be o5 16 (fi_producer_id (pr_identity r));
                o7 = r3c_d_put_u32_be o6 20 (fi_key_id (pr_identity r));
                o8 = o7[24 := fi_signature_algorithm (pr_identity r)];
                (ok1, o9) = r3c_d_encode_ref (fi_producer_semantic_profile_id (pr_identity r)) o8 28
            in if \<not> ok1 then (GUARDIAN_NODE_LINK_PERSISTENCE_CODEC_INVALID_FIELD, Some o9, written0)
            else
              let (ok2, o10) = r3c_d_encode_ref (fi_consumer_semantic_profile_id (pr_identity r)) o9 124
              in if \<not> ok2 then (GUARDIAN_NODE_LINK_PERSISTENCE_CODEC_INVALID_FIELD, Some o10, written0)
              else
                let (ok3, o11) = r3c_d_encode_ref (fi_compatibility_contract_id (pr_identity r)) o10 220
                in if \<not> ok3 then (GUARDIAN_NODE_LINK_PERSISTENCE_CODEC_INVALID_FIELD, Some o11, written0)
                else
                  let o12 = r3c_d_put_u32_be o11 316 (pr_accepted_epoch r);
                      o13 = r3c_d_put_u32_be o12 320 (pr_accepted_sequence r);
                      o14 = r3c_d_put_u32_be o13 324 (pr_record_generation r);
                      o15 = r3c_d_put_u32_be o14 328 332;
                      digest = guardian_sha256 (Some o15) GUARDIAN_NODE_LINK_PERSISTENCE_CODEC_INTEGRITY_OFFSET
                        (Some (replicate 32 0))
                  in (GUARDIAN_NODE_LINK_PERSISTENCE_CODEC_OK,
                      Some (buf_write o15 GUARDIAN_NODE_LINK_PERSISTENCE_CODEC_INTEGRITY_OFFSET (the digest)),
                      Some GUARDIAN_NODE_LINK_PERSISTENCE_CODEC_SERIALIZED_SIZE)
      | _ \<Rightarrow> (GUARDIAN_NODE_LINK_PERSISTENCE_CODEC_BAD_ARGUMENT, output, written0))"

definition guardian_node_link_freshness_persistence_decode ::
  "u8 list ptr \<Rightarrow> nat \<Rightarrow> persisted_record ptr
     \<Rightarrow> guardian_node_link_freshness_persistence_codec_result \<times> persisted_record ptr" where
  "guardian_node_link_freshness_persistence_decode input input_length persisted =
     (let cleared = map_option (\<lambda>_. zero_record) persisted in
      case (input, cleared) of
        (Some inp, Some _) \<Rightarrow>
          if input_length < GUARDIAN_NODE_LINK_PERSISTENCE_CODEC_SERIALIZED_SIZE
          then (GUARDIAN_NODE_LINK_PERSISTENCE_CODEC_BAD_LENGTH, cleared)
          else if input_length > GUARDIAN_NODE_LINK_PERSISTENCE_CODEC_SERIALIZED_SIZE
          then (GUARDIAN_NODE_LINK_PERSISTENCE_CODEC_TRAILING_DATA, cleared)
          else if inp ! 0 \<noteq> 0x47 \<or> inp ! 1 \<noteq> 0x46 \<or> inp ! 2 \<noteq> 0x52 \<or> inp ! 3 \<noteq> 0x31
          then (GUARDIAN_NODE_LINK_PERSISTENCE_CODEC_BAD_MAGIC, cleared)
          else if r3c_d_get_u16_be inp 4 \<noteq> 1
          then (GUARDIAN_NODE_LINK_PERSISTENCE_CODEC_UNSUPPORTED_VERSION, cleared)
          else if r3c_d_get_u16_be inp 6 \<noteq> 28
          then (GUARDIAN_NODE_LINK_PERSISTENCE_CODEC_BAD_LENGTH, cleared)
          else if inp ! 25 \<noteq> 0 \<or> inp ! 26 \<noteq> 0 \<or> inp ! 27 \<noteq> 0
          then (GUARDIAN_NODE_LINK_PERSISTENCE_CODEC_RESERVED_NONZERO, cleared)
          else if r3c_d_get_u32_be inp 328 \<noteq> 332
          then (GUARDIAN_NODE_LINK_PERSISTENCE_CODEC_BAD_LENGTH, cleared)
          else if \<not> guardian_crypto_constant_time_equal
               (guardian_sha256 (Some inp) GUARDIAN_NODE_LINK_PERSISTENCE_CODEC_INTEGRITY_OFFSET
                 (Some (replicate 32 0)))
               (Some (drop GUARDIAN_NODE_LINK_PERSISTENCE_CODEC_INTEGRITY_OFFSET inp)) 32
          then (GUARDIAN_NODE_LINK_PERSISTENCE_CODEC_INTEGRITY_FAILURE, cleared)
          else
            let (ok1, producer) = r3c_d_decode_ref inp 28 zero_ref;
                (ok2, consumer) = r3c_d_decode_ref inp 124 zero_ref;
                (ok3, contract) = r3c_d_decode_ref inp 220 zero_ref;
                candidate = \<lparr>pr_schema_version = r3c_d_get_u32_be inp 8,
                  pr_identity = \<lparr>fi_sender_node_id = r3c_d_get_u32_be inp 12,
                    fi_producer_id = r3c_d_get_u32_be inp 16, fi_key_id = r3c_d_get_u32_be inp 20,
                    fi_signature_algorithm = inp ! 24, fi_producer_semantic_profile_id = producer,
                    fi_consumer_semantic_profile_id = consumer, fi_compatibility_contract_id = contract\<rparr>,
                  pr_accepted_epoch = r3c_d_get_u32_be inp 316,
                  pr_accepted_sequence = r3c_d_get_u32_be inp 320,
                  pr_record_generation = r3c_d_get_u32_be inp 324\<rparr>
            in if \<not> ok1 \<or> \<not> ok2 \<or> \<not> ok3
            then (GUARDIAN_NODE_LINK_PERSISTENCE_CODEC_INVALID_FIELD, cleared)
            else if \<not> r3c_d_record_is_logically_valid candidate
            then (GUARDIAN_NODE_LINK_PERSISTENCE_CODEC_INVALID_FIELD, cleared)
            else (GUARDIAN_NODE_LINK_PERSISTENCE_CODEC_OK, Some candidate)
      | _ \<Rightarrow> (GUARDIAN_NODE_LINK_PERSISTENCE_CODEC_BAD_ARGUMENT, cleared))"

section \<open>Records and their bytes\<close>

definition record_valid :: "persisted_record \<Rightarrow> bool" where
  "record_valid r \<longleftrightarrow> pr_schema_version r = GUARDIAN_NODE_LINK_FRESHNESS_PERSISTENCE_SCHEMA_VERSION
     \<and> guardian_node_link_freshness_identity_structurally_valid (Some (pr_identity r))
     \<and> pr_accepted_epoch r \<noteq> 0 \<and> pr_accepted_sequence r \<noteq> 0"

text \<open>A reference with the bytes behind its terminator cleared.\<close>

definition pad_ref :: "u8 list \<Rightarrow> u8 list" where
  "pad_ref r = c_string 96 r @ replicate (96 - c_strnlen r 96) 0"

definition normal_identity :: "guardian_node_link_freshness_identity \<Rightarrow> guardian_node_link_freshness_identity" where
  "normal_identity i = i\<lparr>fi_producer_semantic_profile_id := pad_ref (fi_producer_semantic_profile_id i),
     fi_consumer_semantic_profile_id := pad_ref (fi_consumer_semantic_profile_id i),
     fi_compatibility_contract_id := pad_ref (fi_compatibility_contract_id i)\<rparr>"

definition normal_record :: "persisted_record \<Rightarrow> persisted_record" where
  "normal_record r = r\<lparr>pr_identity := normal_identity (pr_identity r)\<rparr>"

definition record_material :: "persisted_record \<Rightarrow> u8 list" where
  "record_material r =
     [0x47, 0x46, 0x52, 0x31] @ be16_bytes 1 @ be16_bytes 28 @ be32_bytes (pr_schema_version r)
     @ be32_bytes (fi_sender_node_id (pr_identity r)) @ be32_bytes (fi_producer_id (pr_identity r))
     @ be32_bytes (fi_key_id (pr_identity r)) @ [fi_signature_algorithm (pr_identity r), 0, 0, 0]
     @ pad_ref (fi_producer_semantic_profile_id (pr_identity r))
     @ pad_ref (fi_consumer_semantic_profile_id (pr_identity r))
     @ pad_ref (fi_compatibility_contract_id (pr_identity r))
     @ be32_bytes (pr_accepted_epoch r) @ be32_bytes (pr_accepted_sequence r)
     @ be32_bytes (pr_record_generation r) @ be32_bytes 332"

definition record_bytes :: "persisted_record \<Rightarrow> u8 list" where
  "record_bytes r = record_material r @ sha256_reference (record_material r)"

section \<open>Codec lemmas\<close>

lemma r3c_d_be [be_simps]:
  "r3c_d_get_u16_be b i = be16_at b i" "r3c_d_get_u32_be b i = be32_at b i"
  "i + 2 \<le> length b \<Longrightarrow> r3c_d_put_u16_be b i v = buf_write b i (be16_bytes v)"
  "i + 4 \<le> length b \<Longrightarrow> r3c_d_put_u32_be b i w = buf_write b i (be32_bytes w)"
  by (simp_all add: r3c_d_get_u16_be_def r3c_d_get_u32_be_def be16_at_def be32_at_def or.assoc
      r3c_d_put_u16_be_def r3c_d_put_u32_be_def be16_bytes_def be32_bytes_def list_update_buf_write
      buf_write_adjacent)

lemma c_strnlen_le: "c_strnlen r n \<le> n"
  by (simp add: c_strnlen_def c_string_take)

lemma length_pad_ref [simp]: "length (pad_ref r) = 96"
  using c_strnlen_le [of r 96] by (simp add: pad_ref_def flip: c_strnlen_def)

lemma c_string_pad_ref [simp]:
  "c_strnlen r 96 < 96 \<Longrightarrow> c_string 96 (pad_ref r) = c_string 96 r"
proof -
  assume l: "c_strnlen r 96 < 96"
  then obtain k where k: "96 - c_strnlen r 96 = Suc k" by (cases "96 - c_strnlen r 96") auto
  show ?thesis
    unfolding pad_ref_def k replicate_Suc using l
    by (intro c_string_terminated) (simp add: c_strnlen_def)
qed

lemma c_strnlen_pad_ref [simp]: "c_strnlen r 96 < 96 \<Longrightarrow> c_strnlen (pad_ref r) 96 = c_strnlen r 96"
  by (simp add: c_strnlen_def [of "pad_ref r"] flip: c_strnlen_def)

lemma pad_ref_idem: "c_strnlen r 96 < 96 \<Longrightarrow> pad_ref (pad_ref r) = pad_ref r"
  by (simp add: pad_ref_def [of "pad_ref r"]) (simp add: pad_ref_def)

definition ref_ok :: "u8 list \<Rightarrow> bool" where
  "ref_ok r \<longleftrightarrow> 0 < c_strnlen r 96 \<and> c_strnlen r 96 < 96"

lemma ref_ok_pad [simp]: "ref_ok r \<Longrightarrow> ref_ok (pad_ref r)"
  by (simp add: ref_ok_def)

lemma structurally_valid_iff:
  "guardian_node_link_freshness_identity_structurally_valid (Some i) \<longleftrightarrow>
     fi_sender_node_id i \<noteq> 0 \<and> fi_producer_id i \<noteq> 0 \<and> fi_key_id i \<noteq> 0 \<and> fi_signature_algorithm i = 1
     \<and> ref_ok (fi_producer_semantic_profile_id i) \<and> ref_ok (fi_consumer_semantic_profile_id i)
     \<and> ref_ok (fi_compatibility_contract_id i)"
  by (auto simp: guardian_node_link_freshness_identity_structurally_valid_def ref_valid_iff ref_ok_def)

lemma record_is_logically_valid_iff: "r3c_d_record_is_logically_valid r \<longleftrightarrow> record_valid r"
  by (simp add: r3c_d_record_is_logically_valid_def guardian_node_link_freshness_persistence_classify_def
      record_valid_def identity_equal_iff Let_def)

lemma normal_record_valid: "record_valid r \<Longrightarrow> record_valid (normal_record r)"
  by (simp add: record_valid_def normal_record_def normal_identity_def structurally_valid_iff)

lemma encode_ref_ok:
  assumes "ref_ok ref" "i + 96 \<le> length b"
  shows "r3c_d_encode_ref ref b i = (True, buf_write b i (pad_ref ref))"
proof -
  have t: "take (c_strnlen ref 96) ref = c_string 96 ref" using c_string_eq_take [of ref 96] by simp
  have l: "length (c_string 96 ref) = c_strnlen ref 96" by (simp add: c_strnlen_def)
  have "buf_write (buf_write b i (replicate 96 0)) i (c_string 96 ref) = buf_write b i (pad_ref ref)"
    unfolding pad_ref_def l [symmetric] using assms l by (intro buf_write_fill) (simp_all add: ref_ok_def)
  then show ?thesis
    using assms t by (simp add: ref_ok_def r3c_d_encode_ref_def r3c_d_ref_length_def Let_def)
qed

lemma length_record_material [simp]: "length (record_material r) = 332"
  by (simp add: record_material_def)

lemma length_record_bytes [simp]: "length (record_bytes r) = 364"
  by (simp add: record_bytes_def)

lemma encode_record_ok:
  assumes r: "record_valid r" and l: "cap \<ge> 364" "length out \<ge> 364"
  shows "guardian_node_link_freshness_persistence_encode (Some r) (Some out) cap (Some w0) =
    (GUARDIAN_NODE_LINK_PERSISTENCE_CODEC_OK, Some (buf_write out 0 (record_bytes r)), Some 364)"
proof -
  let ?i = "pr_identity r"
  let ?hdr = "[0x47, 0x46, 0x52, 0x31] @ be16_bytes 1 @ be16_bytes 28 @ be32_bytes (pr_schema_version r)
     @ be32_bytes (fi_sender_node_id ?i) @ be32_bytes (fi_producer_id ?i) @ be32_bytes (fi_key_id ?i)
     @ [fi_signature_algorithm ?i]"
  have refs: "ref_ok (fi_producer_semantic_profile_id ?i)" "ref_ok (fi_consumer_semantic_profile_id ?i)"
    "ref_ok (fi_compatibility_contract_id ?i)"
    using r by (simp_all add: record_valid_def structurally_valid_iff)
  define base where "base = buf_write out 0 (replicate 364 0)"
  have lb: "length base = length out" using l by (simp add: base_def)
  define o8 where "o8 = (r3c_d_put_u32_be (r3c_d_put_u32_be (r3c_d_put_u32_be (r3c_d_put_u32_be
     (r3c_d_put_u16_be (r3c_d_put_u16_be (base[0 := 0x47, 1 := 0x46, 2 := 0x52, 3 := 0x31]) 4 1) 6 28)
     8 (pr_schema_version r)) 12 (fi_sender_node_id ?i)) 16 (fi_producer_id ?i)) 20 (fi_key_id ?i))
     [24 := fi_signature_algorithm ?i]"
  have "base \<noteq> []" using lb l by auto
  then have "o8 = buf_write base 0 ?hdr"
    using l lb by (simp add: o8_def r3c_d_be list_update_buf_write list_update_0_buf_write
        buf_write_adjacent [where off = 0])
  also have "\<dots> = buf_write out 0 (?hdr @ replicate 339 0)"
    unfolding base_def using l by (simp add: buf_write_fill)
  also have "replicate 339 (0 :: u8) = [0, 0, 0] @ replicate 336 0"
    using replicate_add [of 3 336 "0 :: u8"] by (simp add: numeral_3_eq_3)
  finally have o8: "o8 = buf_write out 0 ((?hdr @ [0, 0, 0]) @ replicate 336 0)" by simp
  let ?p = "pad_ref (fi_producer_semantic_profile_id ?i)" and ?c = "pad_ref (fi_consumer_semantic_profile_id ?i)"
    and ?k = "pad_ref (fi_compatibility_contract_id ?i)"
  let ?x = "?hdr @ [0, 0, 0]"
  define o9 where "o9 = buf_write o8 28 ?p"
  have o9: "o9 = buf_write out 0 ((?x @ ?p) @ replicate 240 0)"
    unfolding o9_def o8 using l by (subst buf_write_into_fill) simp_all
  define o10 where "o10 = buf_write o9 124 ?c"
  have o10: "o10 = buf_write out 0 ((?x @ ?p @ ?c) @ replicate 144 0)"
    unfolding o10_def o9 using l by (subst buf_write_into_fill) simp_all
  define o11 where "o11 = buf_write o10 220 ?k"
  have o11: "o11 = buf_write out 0 ((?x @ ?p @ ?c @ ?k) @ replicate 48 0)"
    unfolding o11_def o10 using l by (subst buf_write_into_fill) simp_all
  have le: "length o8 = length out" "length o9 = length out" "length o10 = length out" "length o11 = length out"
    unfolding o8 o9 o10 o11 using l by simp_all
  define o15 where "o15 = r3c_d_put_u32_be (r3c_d_put_u32_be (r3c_d_put_u32_be (r3c_d_put_u32_be o11
     316 (pr_accepted_epoch r)) 320 (pr_accepted_sequence r)) 324 (pr_record_generation r)) 328 332"
  have "o15 = buf_write o11 316 (be32_bytes (pr_accepted_epoch r) @ be32_bytes (pr_accepted_sequence r)
      @ be32_bytes (pr_record_generation r) @ be32_bytes 332)"
    using l le by (simp add: o15_def r3c_d_be buf_write_adjacent)
  also have "\<dots> = buf_write out 0 (record_material r @ replicate 32 0)"
    unfolding o11 using l by (subst buf_write_into_fill) (simp_all add: record_material_def)
  finally have o15: "o15 = buf_write out 0 (record_material r @ replicate 32 0)" .
  have "take 332 o15 = record_material r" unfolding o15 by (simp add: buf_write_0)
  then have dig: "guardian_sha256 (Some o15) 332 (Some (replicate 32 0))
      = Some (sha256_reference (record_material r))"
    using guardian_sha256_reference [of 332 o15 "replicate 32 0"] l o15 by (simp add: buf_write_whole)
  have fin: "buf_write o15 332 (sha256_reference (record_material r)) = buf_write out 0 (record_bytes r)"
    unfolding o15 using l by (subst buf_write_into_fill) (simp_all add: record_bytes_def)
  have e: "r3c_d_encode_ref (fi_producer_semantic_profile_id ?i) o8 28 = (True, o9)"
    "r3c_d_encode_ref (fi_consumer_semantic_profile_id ?i) o9 124 = (True, o10)"
    "r3c_d_encode_ref (fi_compatibility_contract_id ?i) o10 220 = (True, o11)"
    using refs l le by (simp_all add: encode_ref_ok o9_def o10_def o11_def)
  show ?thesis
    unfolding guardian_node_link_freshness_persistence_encode_def Let_def option.map option.case prod.case
      base_def [symmetric] o8_def [symmetric] e o15_def [symmetric] dig
    using r l fin by (simp add: record_is_logically_valid_iff)
qed

text \<open>A stored reference is in normal form if every byte behind its terminator is zero.\<close>

lemma pad_ref_nth:
  assumes "length s = 96" "k < 96"
  shows "pad_ref s ! k = (if k < c_strnlen s 96 then s ! k else 0)"
proof -
  have "c_string 96 s = take (c_strnlen s 96) s" "length (c_string 96 s) = c_strnlen s 96"
    using c_string_eq_take [of s 96] by (simp_all add: c_strnlen_def)
  then show ?thesis
    using assms by (auto simp: pad_ref_def nth_append)
qed

lemma terminator_zero:
  assumes "length s = 96" "c_strnlen s 96 < 96"
  shows "s ! c_strnlen s 96 = 0"
  using assms nth_length_takeWhile [of "\<lambda>c. c \<noteq> 0" s] by (simp add: c_strnlen_def c_string_def)

lemma normal_ref_iff:
  assumes "length s = 96" "c_strnlen s 96 < 96"
  shows "pad_ref s = s \<longleftrightarrow> (\<forall>k. c_strnlen s 96 < k \<and> k < 96 \<longrightarrow> s ! k = 0)"
proof
  assume "pad_ref s = s"
  then show "\<forall>k. c_strnlen s 96 < k \<and> k < 96 \<longrightarrow> s ! k = 0"
    using pad_ref_nth [OF assms(1)] by (metis not_less_iff_gr_or_eq)
next
  assume z: "\<forall>k. c_strnlen s 96 < k \<and> k < 96 \<longrightarrow> s ! k = 0"
  show "pad_ref s = s"
  proof (rule nth_equalityI)
    fix k assume "k < length (pad_ref s)"
    then show "pad_ref s ! k = s ! k"
      using z terminator_zero [OF assms] pad_ref_nth [OF assms(1), of k]
      by (cases "k = c_strnlen s 96") auto
  qed (simp add: assms)
qed

lemma decode_ref_eq:
  assumes "i + 96 \<le> length inp"
  shows "r3c_d_decode_ref inp i zero_ref =
    (if ref_ok (buf_read inp i 96) \<and> pad_ref (buf_read inp i 96) = buf_read inp i 96
     then (True, buf_read inp i 96) else (False, zero_ref))"
proof -
  let ?s = "buf_read inp i 96"
  let ?t = "c_strnlen ?s 96"
  have l: "length ?s = 96" using assms by (rule length_buf_read)
  have t: "c_strnlen (drop i inp) 96 = ?t" by (simp add: c_strnlen_def c_string_def buf_read_def)
  have nth: "inp ! (i + k) = ?s ! k" if "k < 96" for k
    using assms that by (simp add: buf_read_def)
  have tail: "list_ex (\<lambda>k. inp ! (i + k) \<noteq> 0) [?t + 1 ..< 96] \<longleftrightarrow> \<not> (\<forall>k. ?t < k \<and> k < 96 \<longrightarrow> ?s ! k = 0)"
    by (auto simp: list_ex_iff Bex_def nth Suc_le_eq)
  have "buf_read inp i ?t = take ?t ?s" using c_strnlen_le [of ?s 96] by (simp add: buf_read_def min_absorb1)
  then have w: "buf_write (buf_write zero_ref 0 zero_ref) 0 (buf_read inp i ?t) = pad_ref ?s"
    using c_string_eq_take [of ?s 96] c_strnlen_le [of ?s 96] l
    by (simp add: buf_write_0 pad_ref_def min_absorb2)
  show ?thesis
  proof (cases "ref_ok ?s")
    case True
    then have "?t < 96" by (simp add: ref_ok_def)
    note n = normal_ref_iff [OF l this]
    have "r3c_d_decode_ref inp i zero_ref
        = (if pad_ref ?s = ?s then (True, ?s) else (False, zero_ref))"
      unfolding r3c_d_decode_ref_def t Let_def tail w n [symmetric]
      using True by (simp add: ref_ok_def)
    then show ?thesis using True by simp
  next
    case False
    then show ?thesis unfolding r3c_d_decode_ref_def t Let_def by (auto simp: ref_ok_def)
  qed
qed

definition record_normal :: "persisted_record \<Rightarrow> bool" where
  "record_normal r \<longleftrightarrow> normal_record r = r"

lemma record_normal_iff:
  "record_normal r \<longleftrightarrow> pad_ref (fi_producer_semantic_profile_id (pr_identity r)) = fi_producer_semantic_profile_id (pr_identity r)
    \<and> pad_ref (fi_consumer_semantic_profile_id (pr_identity r)) = fi_consumer_semantic_profile_id (pr_identity r)
    \<and> pad_ref (fi_compatibility_contract_id (pr_identity r)) = fi_compatibility_contract_id (pr_identity r)"
  by (cases r, cases "pr_identity r") (auto simp: record_normal_def normal_record_def normal_identity_def)

lemma buf_read_4: "i + 4 \<le> length b \<Longrightarrow> buf_read b i 4 = [b ! i, b ! (i + 1), b ! (i + 2), b ! (i + 3)]"
  for b :: "u8 list"
  using buf_read_be(2) [of i b] by (simp add: be32_bytes_at)

text \<open>The checks of the decoder on a buffer of at least 364 bytes, and the record it builds.\<close>

definition parsed_record :: "u8 list \<Rightarrow> persisted_record" where
  "parsed_record inp = \<lparr>pr_schema_version = be32_at inp 8,
     pr_identity = \<lparr>fi_sender_node_id = be32_at inp 12, fi_producer_id = be32_at inp 16,
       fi_key_id = be32_at inp 20, fi_signature_algorithm = inp ! 24,
       fi_producer_semantic_profile_id = buf_read inp 28 96,
       fi_consumer_semantic_profile_id = buf_read inp 124 96,
       fi_compatibility_contract_id = buf_read inp 220 96\<rparr>,
     pr_accepted_epoch = be32_at inp 316, pr_accepted_sequence = be32_at inp 320,
     pr_record_generation = be32_at inp 324\<rparr>"

definition frame_checks :: "u8 list \<Rightarrow> bool" where
  "frame_checks inp \<longleftrightarrow> buf_read inp 0 4 = [0x47, 0x46, 0x52, 0x31] \<and> be16_at inp 4 = 1 \<and> be16_at inp 6 = 28
     \<and> inp ! 25 = 0 \<and> inp ! 26 = 0 \<and> inp ! 27 = 0 \<and> be32_at inp 328 = 332
     \<and> sha256_reference (take 332 inp) = buf_read inp 332 32"

lemma decode_record_eq:
  assumes "364 \<le> length inp"
  shows "guardian_node_link_freshness_persistence_decode (Some inp) 364 (Some r0)
      = (GUARDIAN_NODE_LINK_PERSISTENCE_CODEC_OK, Some r) \<longleftrightarrow>
    frame_checks inp \<and> r = parsed_record inp \<and> record_valid r \<and> record_normal r"
proof -
  have dig: "guardian_crypto_constant_time_equal
      (guardian_sha256 (Some inp) 332 (Some (replicate 32 0))) (Some (drop 332 inp)) 32
      \<longleftrightarrow> sha256_reference (take 332 inp) = buf_read inp 332 32"
    using assms guardian_sha256_reference [of 332 inp "replicate 32 0"]
    by (simp add: buf_write_whole constant_time_equal_iff buf_read_def)
  let ?g = "\<lambda>i. ref_ok (buf_read inp i 96) \<and> pad_ref (buf_read inp i 96) = buf_read inp i 96"
  have refs: "record_valid (parsed_record inp) \<and> record_normal (parsed_record inp) \<longleftrightarrow>
      ?g 28 \<and> ?g 124 \<and> ?g 220 \<and> record_valid (parsed_record inp)"
    by (auto simp: record_valid_def record_normal_iff structurally_valid_iff parsed_record_def)
  have magic: "buf_read inp 0 4 = [0x47, 0x46, 0x52, 0x31] \<longleftrightarrow>
      inp ! 0 = 0x47 \<and> inp ! 1 = 0x46 \<and> inp ! 2 = 0x52 \<and> inp ! 3 = 0x31"
    using assms buf_read_4 [of 0 inp] by (simp add: numeral_2_eq_2)
  have d: "i \<in> {28, 124, 220} \<Longrightarrow> r3c_d_decode_ref inp i zero_ref =
      (if ?g i then (True, buf_read inp i 96) else (False, zero_ref))" for i
    using assms by (intro decode_ref_eq) auto
  show ?thesis
  proof (cases "?g 28 \<and> ?g 124 \<and> ?g 220")
    case True
    then have d': "r3c_d_decode_ref inp 28 zero_ref = (True, buf_read inp 28 96)"
      "r3c_d_decode_ref inp 124 zero_ref = (True, buf_read inp 124 96)"
      "r3c_d_decode_ref inp 220 zero_ref = (True, buf_read inp 220 96)"
      using d by simp_all
    have "guardian_node_link_freshness_persistence_decode (Some inp) 364 (Some r0)
        = (GUARDIAN_NODE_LINK_PERSISTENCE_CODEC_OK, Some r) \<longleftrightarrow>
      frame_checks inp \<and> r = parsed_record inp \<and> record_valid r"
      unfolding guardian_node_link_freshness_persistence_decode_def Let_def option.map option.case prod.case
        d' r3c_d_be(1,2) dig record_is_logically_valid_iff parsed_record_def [symmetric] frame_checks_def magic
      by auto
    then show ?thesis using refs True by blast
  next
    case False
    then have "\<not> (fst (r3c_d_decode_ref inp 28 zero_ref) \<and> fst (r3c_d_decode_ref inp 124 zero_ref)
        \<and> fst (r3c_d_decode_ref inp 220 zero_ref))"
      using d by auto
    then have "guardian_node_link_freshness_persistence_decode (Some inp) 364 (Some r0)
        \<noteq> (GUARDIAN_NODE_LINK_PERSISTENCE_CODEC_OK, Some r)"
      unfolding guardian_node_link_freshness_persistence_decode_def Let_def
      by (auto split: prod.split)
    then show ?thesis using refs False by blast
  qed
qed

lemma parsed_record_bytes:
  assumes l: "364 \<le> length inp" and c: "frame_checks inp" and n: "record_normal (parsed_record inp)"
  shows "record_bytes (parsed_record inp) = take 364 inp"
proof -
  let ?r = "parsed_record inp"
  have rd: "be16_bytes 1 = buf_read inp 4 2" "be16_bytes 28 = buf_read inp 6 2"
    "be32_bytes (be32_at inp 8) = buf_read inp 8 4" "be32_bytes (be32_at inp 12) = buf_read inp 12 4"
    "be32_bytes (be32_at inp 16) = buf_read inp 16 4" "be32_bytes (be32_at inp 20) = buf_read inp 20 4"
    "be32_bytes (be32_at inp 316) = buf_read inp 316 4" "be32_bytes (be32_at inp 320) = buf_read inp 320 4"
    "be32_bytes (be32_at inp 324) = buf_read inp 324 4" "be32_bytes 332 = buf_read inp 328 4"
    using c l by (simp_all add: frame_checks_def buf_read_be)
  have fl: "[0x47, 0x46, 0x52, 0x31] = buf_read inp 0 4" "[inp ! 24, 0, 0, 0] = buf_read inp 24 4"
    using c l buf_read_4 [of 24 inp] by (simp_all add: frame_checks_def)
  have pads: "pad_ref (buf_read inp 28 96) = buf_read inp 28 96"
    "pad_ref (buf_read inp 124 96) = buf_read inp 124 96" "pad_ref (buf_read inp 220 96) = buf_read inp 220 96"
    using n by (simp_all add: record_normal_iff parsed_record_def)
  have "record_material ?r = buf_read inp 0 4 @ buf_read inp 4 2 @ buf_read inp 6 2 @ buf_read inp 8 4
      @ buf_read inp 12 4 @ buf_read inp 16 4 @ buf_read inp 20 4 @ buf_read inp 24 4 @ buf_read inp 28 96
      @ buf_read inp 124 96 @ buf_read inp 220 96 @ buf_read inp 316 4 @ buf_read inp 320 4
      @ buf_read inp 324 4 @ buf_read inp 328 4"
    unfolding record_material_def parsed_record_def guardian_node_link_freshness_persisted_record.select_convs
      guardian_node_link_freshness_identity.select_convs rd fl pads ..
  also have "\<dots> = buf_read inp 0 332" by (simp add: buf_read_adjacent)
  also have "\<dots> = take 332 inp" by (rule buf_read_0)
  finally have m: "record_material ?r = take 332 inp" .
  have "record_bytes ?r = take 332 inp @ buf_read inp 332 32"
    using c by (simp add: record_bytes_def m frame_checks_def)
  also have "\<dots> = take 364 inp" using buf_read_adjacent [of 332 0 332 inp 32] by (simp add: buf_read_0)
  finally show ?thesis .
qed

lemma record_bytes_parse:
  assumes "record_normal r"
  shows "parsed_record (record_bytes r @ rest) = r" "frame_checks (record_bytes r @ rest)"
proof -
  let ?w = "record_bytes r @ rest"
  note p = assms [unfolded record_normal_iff]
  have b: "be16_at ?w 4 = 1" "be16_at ?w 6 = 28" "be32_at ?w 8 = pr_schema_version r"
    "be32_at ?w 12 = fi_sender_node_id (pr_identity r)" "be32_at ?w 16 = fi_producer_id (pr_identity r)"
    "be32_at ?w 20 = fi_key_id (pr_identity r)" "be32_at ?w 316 = pr_accepted_epoch r"
    "be32_at ?w 320 = pr_accepted_sequence r" "be32_at ?w 324 = pr_record_generation r" "be32_at ?w 328 = 332"
    by (simp_all add: record_bytes_def record_material_def buf_simps)
  have s: "buf_read ?w 28 96 = pad_ref (fi_producer_semantic_profile_id (pr_identity r))"
    "buf_read ?w 124 96 = pad_ref (fi_consumer_semantic_profile_id (pr_identity r))"
    "buf_read ?w 220 96 = pad_ref (fi_compatibility_contract_id (pr_identity r))"
    by (simp_all add: record_bytes_def record_material_def buf_read_def)
  have n: "?w ! 24 = fi_signature_algorithm (pr_identity r)" "?w ! 25 = 0" "?w ! 26 = 0" "?w ! 27 = 0"
    by (simp_all add: record_bytes_def record_material_def nth_append)
  have t: "take 332 ?w = record_material r" "buf_read ?w 332 32 = sha256_reference (record_material r)"
    "buf_read ?w 0 4 = [0x47, 0x46, 0x52, 0x31]"
    by (simp_all add: record_bytes_def buf_read_def) (simp add: record_material_def)
  show "parsed_record ?w = r"
    unfolding parsed_record_def b s n(1) using p by simp
  show "frame_checks ?w" unfolding frame_checks_def b n(2-4) t by simp
qed

lemma decode_record_iff:
  assumes "364 \<le> length inp"
  shows "guardian_node_link_freshness_persistence_decode (Some inp) 364 (Some r0)
      = (GUARDIAN_NODE_LINK_PERSISTENCE_CODEC_OK, Some r) \<longleftrightarrow>
    record_valid r \<and> record_normal r \<and> take 364 inp = record_bytes r"
  unfolding decode_record_eq [OF assms]
  using parsed_record_bytes [OF assms] record_bytes_parse [of r "drop 364 inp"] assms
  by (metis append_take_drop_id)

section \<open>Properties\<close>

text \<open>C36: The stored record format is exact. A 364-byte buffer decodes to a record exactly if the
  record is valid, its references are zero-padded and the buffer is byte for byte its encoding
  (so a change of any byte is either detected or is the encoding of another valid record); and
  every valid record can be encoded and decodes to itself with its references zero-padded.\<close>

theorem persisted_record_exact:
  assumes "GUARDIAN_NODE_LINK_PERSISTENCE_CODEC_SERIALIZED_SIZE \<le> length inp"
  shows "(guardian_node_link_freshness_persistence_decode (Some inp) 364 (Some r0)
      = (GUARDIAN_NODE_LINK_PERSISTENCE_CODEC_OK, Some r) \<longleftrightarrow>
    record_valid r \<and> record_normal r
    \<and> guardian_node_link_freshness_persistence_encode (Some r) (Some (replicate 364 0)) 364 (Some 0)
      = (GUARDIAN_NODE_LINK_PERSISTENCE_CODEC_OK, Some (take 364 inp), Some 364))
  \<and> (record_valid r \<longrightarrow> (\<exists>out.
      guardian_node_link_freshness_persistence_encode (Some r) (Some (replicate 364 0)) 364 (Some 0)
        = (GUARDIAN_NODE_LINK_PERSISTENCE_CODEC_OK, Some out, Some 364)
      \<and> guardian_node_link_freshness_persistence_decode (Some out) 364 (Some r0)
        = (GUARDIAN_NODE_LINK_PERSISTENCE_CODEC_OK, Some (normal_record r))))"
proof -
  have enc: "record_valid r \<Longrightarrow>
      guardian_node_link_freshness_persistence_encode (Some r) (Some (replicate 364 0)) 364 (Some 0)
        = (GUARDIAN_NODE_LINK_PERSISTENCE_CODEC_OK, Some (record_bytes r), Some 364)"
    by (simp add: encode_record_ok buf_write_whole)
  have norm: "record_valid r \<Longrightarrow> record_normal (normal_record r)" "record_bytes (normal_record r) = record_bytes r"
    if "record_valid r"
    using that by (simp_all add: record_normal_iff normal_record_def normal_identity_def record_valid_def
        structurally_valid_iff ref_ok_def pad_ref_idem record_bytes_def record_material_def)
  have "guardian_node_link_freshness_persistence_decode (Some (record_bytes r)) 364 (Some r0)
      = (GUARDIAN_NODE_LINK_PERSISTENCE_CODEC_OK, Some (normal_record r))" if "record_valid r"
    using that norm normal_record_valid [OF that] by (simp add: decode_record_iff)
  then show ?thesis
    using decode_record_iff [OF assms] enc by auto
qed

definition sample_record :: persisted_record where
  "sample_record = \<lparr>pr_schema_version = 1, pr_identity = sample_identity, pr_accepted_epoch = 3,
     pr_accepted_sequence = 41, pr_record_generation = 0\<rparr>"

lemma sample_record_valid: "record_valid sample_record" "record_normal sample_record"
proof -
  have p: "pad_ref sample_ref = sample_ref"
    by (simp add: pad_ref_def c_strnlen_def sample_ref_string) (simp add: sample_ref_def numeral_eq_Suc)
  have "ref_ok sample_ref" by (simp add: ref_ok_def c_strnlen_def sample_ref_string)
  then show "record_valid sample_record" "record_normal sample_record"
    by (simp_all add: record_valid_def record_normal_iff sample_record_def sample_identity_def
        structurally_valid_iff p)
qed

theorem persisted_record_exact_witness:
  "guardian_node_link_freshness_persistence_encode (Some sample_record) (Some (replicate 364 0)) 364 (Some 0)
     = (GUARDIAN_NODE_LINK_PERSISTENCE_CODEC_OK, Some (record_bytes sample_record), Some 364)
   \<and> guardian_node_link_freshness_persistence_decode (Some (record_bytes sample_record)) 364 (Some zero_record)
     = (GUARDIAN_NODE_LINK_PERSISTENCE_CODEC_OK, Some sample_record)"
proof -
  have "guardian_node_link_freshness_persistence_encode (Some sample_record) (Some (replicate 364 0)) 364 (Some 0)
     = (GUARDIAN_NODE_LINK_PERSISTENCE_CODEC_OK, Some (record_bytes sample_record), Some 364)"
    using encode_record_ok [OF sample_record_valid(1), of 364 "replicate 364 0" 0] by (simp add: buf_write_whole)
  with persisted_record_exact [of "record_bytes sample_record" zero_record sample_record] sample_record_valid
  show ?thesis by simp
qed

end
