(* ===== verification/Guardian_Flash_Backend.thy ===== *)
theory Guardian_Flash_Backend
  imports Guardian_Persistence
begin

text \<open>
  The two-slot flash backend of
  \<open>firmware/NodeLink/Src/guardian_node_link_freshness_persistence_backend.c\<close>: the 448-byte image
  with its header and payload hashes and its commit marker, the scan of a slot, the recovery
  that selects the current record, and the write, verify and commit callbacks of the
  persistence provider. The flash driver is a parameter: three callbacks with a context. The
  contract of the driver (\<open>flash_driver\<close>) allows every call to fail half-way; the lemmas show
  what recovery finds afterwards.
\<close>

section \<open>Types\<close>

datatype guardian_node_link_persistence_slot =
    GUARDIAN_NODE_LINK_PERSISTENCE_SLOT_A | GUARDIAN_NODE_LINK_PERSISTENCE_SLOT_B

type_synonym flash_slot = guardian_node_link_persistence_slot

abbreviation (input) GUARDIAN_NODE_LINK_PERSISTENCE_MEDIA_OK :: c_enum where
  "GUARDIAN_NODE_LINK_PERSISTENCE_MEDIA_OK \<equiv> 1"
abbreviation (input) GUARDIAN_NODE_LINK_PERSISTENCE_MEDIA_UNAVAILABLE :: c_enum where
  "GUARDIAN_NODE_LINK_PERSISTENCE_MEDIA_UNAVAILABLE \<equiv> 2"
abbreviation (input) GUARDIAN_NODE_LINK_PERSISTENCE_MEDIA_IO_FAILURE :: c_enum where
  "GUARDIAN_NODE_LINK_PERSISTENCE_MEDIA_IO_FAILURE \<equiv> 3"

abbreviation (input) GUARDIAN_NODE_LINK_PERSISTENCE_PHYSICAL_IMAGE_SIZE :: nat where
  "GUARDIAN_NODE_LINK_PERSISTENCE_PHYSICAL_IMAGE_SIZE \<equiv> 448"
abbreviation (input) GUARDIAN_NODE_LINK_PERSISTENCE_PHYSICAL_PAYLOAD_OFFSET :: nat where
  "GUARDIAN_NODE_LINK_PERSISTENCE_PHYSICAL_PAYLOAD_OFFSET \<equiv> 80"
abbreviation (input) GUARDIAN_NODE_LINK_PERSISTENCE_PHYSICAL_COMMIT_OFFSET :: nat where
  "GUARDIAN_NODE_LINK_PERSISTENCE_PHYSICAL_COMMIT_OFFSET \<equiv> 444"
abbreviation (input) GUARDIAN_NODE_LINK_PERSISTENCE_PHYSICAL_COMMIT_SIZE :: nat where
  "GUARDIAN_NODE_LINK_PERSISTENCE_PHYSICAL_COMMIT_SIZE \<equiv> 4"

text \<open>The driver callbacks; \<open>read\<close> returns the filled buffer, every call the context.\<close>

record 'm guardian_node_link_persistence_media =
  md_context :: "'m ptr"
  md_read :: "('m ptr \<Rightarrow> flash_slot \<Rightarrow> nat \<Rightarrow> u8 list \<Rightarrow> nat \<Rightarrow> c_enum \<times> 'm ptr \<times> u8 list) ptr"
  md_erase :: "('m ptr \<Rightarrow> flash_slot \<Rightarrow> c_enum \<times> 'm ptr) ptr"
  md_program :: "('m ptr \<Rightarrow> flash_slot \<Rightarrow> nat \<Rightarrow> u8 list \<Rightarrow> nat \<Rightarrow> c_enum \<times> 'm ptr) ptr"

datatype guardian_node_link_persistence_recovery_diagnostic =
    GUARDIAN_NODE_LINK_PERSISTENCE_RECOVERY_INVALID
  | GUARDIAN_NODE_LINK_PERSISTENCE_RECOVERY_NO_STATE
  | GUARDIAN_NODE_LINK_PERSISTENCE_RECOVERY_VALID
  | GUARDIAN_NODE_LINK_PERSISTENCE_RECOVERY_VALID_WITH_TORN_PEER
  | GUARDIAN_NODE_LINK_PERSISTENCE_RECOVERY_TORN_ONLY
  | GUARDIAN_NODE_LINK_PERSISTENCE_RECOVERY_CORRUPTED
  | GUARDIAN_NODE_LINK_PERSISTENCE_RECOVERY_STATE_UNCERTAIN
  | GUARDIAN_NODE_LINK_PERSISTENCE_RECOVERY_IO_FAILURE

type_synonym recovery_diagnostic = guardian_node_link_persistence_recovery_diagnostic

record 'm guardian_node_link_freshness_physical_backend =
  be_media :: "'m guardian_node_link_persistence_media"
  be_pending_slot :: flash_slot
  be_pending_valid :: u8

datatype r3e_slot_state =
    R3E_SLOT_INVALID | R3E_SLOT_ERASED | R3E_SLOT_TORN | R3E_SLOT_CORRUPTED | R3E_SLOT_VALID
  | R3E_SLOT_IO_FAILURE

record r3e_slot_observation =
  so_state :: r3e_slot_state
  so_record :: persisted_record

section \<open>Helpers\<close>

definition r3e_zero_record :: "persisted_record ptr \<Rightarrow> persisted_record ptr" where
  "r3e_zero_record persisted = map_option (\<lambda>_. zero_record) persisted"

definition r3e_put_u16_be :: "u8 list \<Rightarrow> nat \<Rightarrow> u16 \<Rightarrow> u8 list" where
  "r3e_put_u16_be output i v =
     output[i := ucast (drop_bit 8 v AND 0xFF), i + 1 := ucast (v AND 0xFF)]"

definition r3e_get_u16_be :: "u8 list \<Rightarrow> nat \<Rightarrow> u16" where
  "r3e_get_u16_be input i = push_bit 8 (ucast (input ! i)) OR ucast (input ! (i + 1))"

definition r3e_put_u32_be :: "u8 list \<Rightarrow> nat \<Rightarrow> u32 \<Rightarrow> u8 list" where
  "r3e_put_u32_be output i v =
     output[i := ucast (drop_bit 24 v AND 0xFF), i + 1 := ucast (drop_bit 16 v AND 0xFF),
       i + 2 := ucast (drop_bit 8 v AND 0xFF), i + 3 := ucast (v AND 0xFF)]"

definition r3e_get_u32_be :: "u8 list \<Rightarrow> nat \<Rightarrow> u32" where
  "r3e_get_u32_be input i =
     push_bit 24 (ucast (input ! i)) OR push_bit 16 (ucast (input ! (i + 1)))
     OR push_bit 8 (ucast (input ! (i + 2))) OR ucast (input ! (i + 3))"

definition r3e_bytes_all_ff :: "u8 list ptr \<Rightarrow> nat \<Rightarrow> bool" where
  "r3e_bytes_all_ff data n =
     (case data of None \<Rightarrow> False | Some bytes \<Rightarrow> list_all (\<lambda>b. b = 0xFF) (take n bytes))"

definition r3e_commit_marker_is_valid :: "u8 list \<Rightarrow> bool" where
  "r3e_commit_marker_is_valid marker \<longleftrightarrow>
     marker ! 0 = 0x43 \<and> marker ! 1 = 0x4D \<and> marker ! 2 = 0x54 \<and> marker ! 3 = 0x31"

definition r3e_records_equal :: "persisted_record ptr \<Rightarrow> persisted_record ptr \<Rightarrow> bool" where
  "r3e_records_equal left right =
     (if left = None \<or> right = None then False
      else
        let (rl, left_bytes, left_written) = guardian_node_link_freshness_persistence_encode left
              (Some (replicate GUARDIAN_NODE_LINK_PERSISTENCE_CODEC_SERIALIZED_SIZE 0))
              GUARDIAN_NODE_LINK_PERSISTENCE_CODEC_SERIALIZED_SIZE (Some 0);
            (rr, right_bytes, right_written) = guardian_node_link_freshness_persistence_encode right
              (Some (replicate GUARDIAN_NODE_LINK_PERSISTENCE_CODEC_SERIALIZED_SIZE 0))
              GUARDIAN_NODE_LINK_PERSISTENCE_CODEC_SERIALIZED_SIZE (Some 0)
        in if rl \<noteq> GUARDIAN_NODE_LINK_PERSISTENCE_CODEC_OK then False
        else if rr \<noteq> GUARDIAN_NODE_LINK_PERSISTENCE_CODEC_OK then False
        else if left_written \<noteq> Some GUARDIAN_NODE_LINK_PERSISTENCE_CODEC_SERIALIZED_SIZE
             \<or> right_written \<noteq> Some GUARDIAN_NODE_LINK_PERSISTENCE_CODEC_SERIALIZED_SIZE
        then False
        else guardian_crypto_constant_time_equal left_bytes right_bytes
               GUARDIAN_NODE_LINK_PERSISTENCE_CODEC_SERIALIZED_SIZE)"

definition r3e_identity_equal ::
  "guardian_node_link_freshness_identity \<Rightarrow> guardian_node_link_freshness_identity \<Rightarrow> bool" where
  "r3e_identity_equal l r =
     (if fi_sender_node_id l \<noteq> fi_sender_node_id r \<or> fi_producer_id l \<noteq> fi_producer_id r
         \<or> fi_key_id l \<noteq> fi_key_id r \<or> fi_signature_algorithm l \<noteq> fi_signature_algorithm r
      then False
      else if take 96 (fi_producer_semantic_profile_id l) \<noteq> take 96 (fi_producer_semantic_profile_id r)
      then False
      else if take 96 (fi_consumer_semantic_profile_id l) \<noteq> take 96 (fi_consumer_semantic_profile_id r)
      then False
      else take 96 (fi_compatibility_contract_id l) = take 96 (fi_compatibility_contract_id r))"

definition r3e_transition_is_adjacent :: "persisted_record ptr \<Rightarrow> persisted_record ptr \<Rightarrow> bool" where
  "r3e_transition_is_adjacent older newer =
     (case (older, newer) of
        (Some old, Some new) \<Rightarrow>
          if \<not> r3e_identity_equal (pr_identity old) (pr_identity new) then False
          else if pr_accepted_epoch old \<noteq> pr_accepted_epoch new then False
          else if pr_record_generation old = 0xFFFFFFFF then False
          else if pr_record_generation new \<noteq> pr_record_generation old + 1 then False
          else pr_accepted_sequence new > pr_accepted_sequence old
      | _ \<Rightarrow> False)"

definition r3e_media_result_to_operation :: "c_enum \<Rightarrow> c_enum" where
  "r3e_media_result_to_operation media_result =
     (if media_result = GUARDIAN_NODE_LINK_PERSISTENCE_MEDIA_OK
      then GUARDIAN_NODE_LINK_PERSISTENCE_OPERATION_OK
      else if media_result = GUARDIAN_NODE_LINK_PERSISTENCE_MEDIA_UNAVAILABLE
      then GUARDIAN_NODE_LINK_PERSISTENCE_OPERATION_UNAVAILABLE
      else if media_result = GUARDIAN_NODE_LINK_PERSISTENCE_MEDIA_IO_FAILURE
      then GUARDIAN_NODE_LINK_PERSISTENCE_OPERATION_IO_FAILURE
      else GUARDIAN_NODE_LINK_PERSISTENCE_OPERATION_INVALID)"

section \<open>Images\<close>

definition r3e_validate_body :: "u8 list \<Rightarrow> bool \<times> persisted_record" where
  "r3e_validate_body img =
     (if img ! 0 \<noteq> 0x47 \<or> img ! 1 \<noteq> 0x50 \<or> img ! 2 \<noteq> 0x45 \<or> img ! 3 \<noteq> 0x31 then (False, zero_record)
      else if r3e_get_u16_be img 4 \<noteq> 1 then (False, zero_record)
      else if r3e_get_u16_be img 6 \<noteq> 80 then (False, zero_record)
      else if r3e_get_u32_be img 8 \<noteq> 364 then (False, zero_record)
      else if \<not> guardian_crypto_constant_time_equal
             (guardian_sha256 (Some img) 48 (Some (replicate 32 0))) (Some (drop 48 img)) 32
      then (False, zero_record)
      else if \<not> guardian_crypto_constant_time_equal
             (guardian_sha256 (Some (drop GUARDIAN_NODE_LINK_PERSISTENCE_PHYSICAL_PAYLOAD_OFFSET img))
               GUARDIAN_NODE_LINK_PERSISTENCE_CODEC_SERIALIZED_SIZE (Some (replicate 32 0)))
             (Some (drop 16 img)) 32
      then (False, zero_record)
      else
        case guardian_node_link_freshness_persistence_decode
            (Some (drop GUARDIAN_NODE_LINK_PERSISTENCE_PHYSICAL_PAYLOAD_OFFSET img))
            GUARDIAN_NODE_LINK_PERSISTENCE_CODEC_SERIALIZED_SIZE (Some zero_record) of
          (result, candidate) \<Rightarrow>
            if result \<noteq> GUARDIAN_NODE_LINK_PERSISTENCE_CODEC_OK then (False, zero_record)
            else if r3e_get_u32_be img 12 \<noteq> pr_record_generation (the candidate) then (False, zero_record)
            else (True, the candidate))"

text \<open>The payload is encoded in place, at \<open>&image[80]\<close>.\<close>

definition r3e_build_staged_image :: "persisted_record \<Rightarrow> bool \<times> u8 list" where
  "r3e_build_staged_image r =
     (let i1 = (replicate GUARDIAN_NODE_LINK_PERSISTENCE_PHYSICAL_IMAGE_SIZE 0xFF)
            [0 := 0x47, 1 := 0x50, 2 := 0x45, 3 := 0x31];
          i2 = r3e_put_u16_be i1 4 1;
          i3 = r3e_put_u16_be i2 6 80;
          i4 = r3e_put_u32_be i3 8 364;
          i5 = r3e_put_u32_be i4 12 (pr_record_generation r);
          (encoded, payload_out, payload_written) = guardian_node_link_freshness_persistence_encode (Some r)
            (Some (drop GUARDIAN_NODE_LINK_PERSISTENCE_PHYSICAL_PAYLOAD_OFFSET i5))
            GUARDIAN_NODE_LINK_PERSISTENCE_CODEC_SERIALIZED_SIZE (Some 0);
          i6 = take GUARDIAN_NODE_LINK_PERSISTENCE_PHYSICAL_PAYLOAD_OFFSET i5 @ the payload_out
      in if encoded \<noteq> GUARDIAN_NODE_LINK_PERSISTENCE_CODEC_OK then (False, i6)
      else if payload_written \<noteq> Some GUARDIAN_NODE_LINK_PERSISTENCE_CODEC_SERIALIZED_SIZE then (False, i6)
      else
        let digest = the (guardian_sha256
              (Some (drop GUARDIAN_NODE_LINK_PERSISTENCE_PHYSICAL_PAYLOAD_OFFSET i6))
              GUARDIAN_NODE_LINK_PERSISTENCE_CODEC_SERIALIZED_SIZE (Some (replicate 32 0)));
            i7 = buf_write i6 16 digest;
            digest2 = the (guardian_sha256 (Some i7) 48 (Some digest));
            i8 = buf_write i7 48 digest2
        in (True, i8))"

section \<open>Slots and recovery\<close>

definition backend_context :: "'m ptr \<Rightarrow> 'm guardian_node_link_freshness_physical_backend
    \<Rightarrow> 'm guardian_node_link_freshness_physical_backend" where
  "backend_context m b = b\<lparr>be_media := (be_media b)\<lparr>md_context := m\<rparr>\<rparr>"

text \<open>The observation a slot's image gives once it has been read.\<close>

definition observe_image :: "u8 list \<Rightarrow> r3e_slot_observation" where
  "observe_image img =
     (if r3e_bytes_all_ff (Some img) GUARDIAN_NODE_LINK_PERSISTENCE_PHYSICAL_IMAGE_SIZE
      then \<lparr>so_state = R3E_SLOT_ERASED, so_record = zero_record\<rparr>
      else if r3e_bytes_all_ff (Some (drop GUARDIAN_NODE_LINK_PERSISTENCE_PHYSICAL_COMMIT_OFFSET img))
             GUARDIAN_NODE_LINK_PERSISTENCE_PHYSICAL_COMMIT_SIZE
      then \<lparr>so_state = R3E_SLOT_TORN, so_record = zero_record\<rparr>
      else if \<not> r3e_commit_marker_is_valid (drop GUARDIAN_NODE_LINK_PERSISTENCE_PHYSICAL_COMMIT_OFFSET img)
      then \<lparr>so_state = R3E_SLOT_CORRUPTED, so_record = zero_record\<rparr>
      else
        case r3e_validate_body img of
          (ok, r) \<Rightarrow>
            if \<not> ok then \<lparr>so_state = R3E_SLOT_CORRUPTED, so_record = r\<rparr>
            else \<lparr>so_state = R3E_SLOT_VALID, so_record = r\<rparr>)"

definition r3e_scan_slot ::
  "'m guardian_node_link_freshness_physical_backend \<Rightarrow> flash_slot
     \<Rightarrow> c_enum \<times> 'm guardian_node_link_freshness_physical_backend \<times> r3e_slot_observation" where
  "r3e_scan_slot b slot =
     (case the (md_read (be_media b)) (md_context (be_media b)) slot 0
         (replicate GUARDIAN_NODE_LINK_PERSISTENCE_PHYSICAL_IMAGE_SIZE 0)
         GUARDIAN_NODE_LINK_PERSISTENCE_PHYSICAL_IMAGE_SIZE of
        (media_result, m, img) \<Rightarrow>
          let b' = backend_context m b in
          if media_result \<noteq> GUARDIAN_NODE_LINK_PERSISTENCE_MEDIA_OK
          then (r3e_media_result_to_operation media_result, b',
                \<lparr>so_state = R3E_SLOT_IO_FAILURE, so_record = zero_record\<rparr>)
          else (GUARDIAN_NODE_LINK_PERSISTENCE_OPERATION_OK, b', observe_image img))"

text \<open>What the recovery writes to its out-parameters and returns, given the two observations:
  result, status, record, diagnostic, and the selected slot if one is selected.\<close>

definition select_record ::
  "r3e_slot_observation \<Rightarrow> r3e_slot_observation
     \<Rightarrow> c_enum \<times> c_enum \<times> persisted_record \<times> recovery_diagnostic \<times> flash_slot option" where
  "select_record a b =
     (let uncertain = (GUARDIAN_NODE_LINK_PERSISTENCE_OPERATION_STATE_UNCERTAIN,
            GUARDIAN_NODE_LINK_PERSISTENCE_STATUS_UNAVAILABLE_STATE, zero_record,
            GUARDIAN_NODE_LINK_PERSISTENCE_RECOVERY_STATE_UNCERTAIN, None)
      in if so_state a = R3E_SLOT_ERASED \<and> so_state b = R3E_SLOT_ERASED
      then (GUARDIAN_NODE_LINK_PERSISTENCE_OPERATION_OK,
            GUARDIAN_NODE_LINK_PERSISTENCE_STATUS_NO_PERSISTED_STATE, zero_record,
            GUARDIAN_NODE_LINK_PERSISTENCE_RECOVERY_NO_STATE, None)
      else if so_state a = R3E_SLOT_VALID \<and> so_state b = R3E_SLOT_VALID
      then
        if pr_record_generation (so_record a) < pr_record_generation (so_record b)
        then
          if \<not> r3e_transition_is_adjacent (Some (so_record a)) (Some (so_record b)) then uncertain
          else (GUARDIAN_NODE_LINK_PERSISTENCE_OPERATION_OK,
                GUARDIAN_NODE_LINK_PERSISTENCE_STATUS_VALID_PERSISTED_STATE, so_record b,
                GUARDIAN_NODE_LINK_PERSISTENCE_RECOVERY_VALID, Some GUARDIAN_NODE_LINK_PERSISTENCE_SLOT_B)
        else if pr_record_generation (so_record b) < pr_record_generation (so_record a)
        then
          if \<not> r3e_transition_is_adjacent (Some (so_record b)) (Some (so_record a)) then uncertain
          else (GUARDIAN_NODE_LINK_PERSISTENCE_OPERATION_OK,
                GUARDIAN_NODE_LINK_PERSISTENCE_STATUS_VALID_PERSISTED_STATE, so_record a,
                GUARDIAN_NODE_LINK_PERSISTENCE_RECOVERY_VALID, Some GUARDIAN_NODE_LINK_PERSISTENCE_SLOT_A)
        else uncertain
      else if so_state a = R3E_SLOT_VALID \<or> so_state b = R3E_SLOT_VALID
      then
        let (valid, peer, valid_slot) = (if so_state a = R3E_SLOT_VALID
              then (a, b, GUARDIAN_NODE_LINK_PERSISTENCE_SLOT_A)
              else (b, a, GUARDIAN_NODE_LINK_PERSISTENCE_SLOT_B))
        in if so_state peer = R3E_SLOT_CORRUPTED then uncertain
        else if so_state peer \<noteq> R3E_SLOT_ERASED \<and> so_state peer \<noteq> R3E_SLOT_TORN then uncertain
        else (GUARDIAN_NODE_LINK_PERSISTENCE_OPERATION_OK,
              GUARDIAN_NODE_LINK_PERSISTENCE_STATUS_VALID_PERSISTED_STATE, so_record valid,
              (if so_state peer = R3E_SLOT_TORN
               then GUARDIAN_NODE_LINK_PERSISTENCE_RECOVERY_VALID_WITH_TORN_PEER
               else GUARDIAN_NODE_LINK_PERSISTENCE_RECOVERY_VALID), Some valid_slot)
      else if so_state a = R3E_SLOT_CORRUPTED \<or> so_state b = R3E_SLOT_CORRUPTED
      then (GUARDIAN_NODE_LINK_PERSISTENCE_OPERATION_OK,
            GUARDIAN_NODE_LINK_PERSISTENCE_STATUS_CORRUPTED_STATE, zero_record,
            GUARDIAN_NODE_LINK_PERSISTENCE_RECOVERY_CORRUPTED, None)
      else if so_state a = R3E_SLOT_TORN \<or> so_state b = R3E_SLOT_TORN
      then (GUARDIAN_NODE_LINK_PERSISTENCE_OPERATION_OK,
            GUARDIAN_NODE_LINK_PERSISTENCE_STATUS_TORN_OR_INCOMPLETE_UPDATE, zero_record,
            GUARDIAN_NODE_LINK_PERSISTENCE_RECOVERY_TORN_ONLY, None)
      else uncertain)"

text \<open>The recovery itself; the selected slot keeps its old value when none is selected.\<close>

definition r3e_recover_internal ::
  "'m guardian_node_link_freshness_physical_backend ptr \<Rightarrow> c_enum ptr \<Rightarrow> persisted_record ptr
     \<Rightarrow> recovery_diagnostic ptr \<Rightarrow> flash_slot ptr
     \<Rightarrow> c_enum \<times> 'm guardian_node_link_freshness_physical_backend ptr \<times> c_enum ptr
        \<times> persisted_record ptr \<times> recovery_diagnostic ptr \<times> flash_slot ptr" where
  "r3e_recover_internal backend provider_status persisted diagnostic selected_slot =
     (case (backend, provider_status, persisted, diagnostic) of
        (Some b, Some _, Some _, Some _) \<Rightarrow>
          let (op_a, b1, a) = r3e_scan_slot b GUARDIAN_NODE_LINK_PERSISTENCE_SLOT_A;
              (op_b, b2, bb) = r3e_scan_slot b1 GUARDIAN_NODE_LINK_PERSISTENCE_SLOT_B
          in if op_a \<noteq> GUARDIAN_NODE_LINK_PERSISTENCE_OPERATION_OK
              \<or> op_b \<noteq> GUARDIAN_NODE_LINK_PERSISTENCE_OPERATION_OK
          then
            ((if op_a = GUARDIAN_NODE_LINK_PERSISTENCE_OPERATION_UNAVAILABLE
                 \<or> op_b = GUARDIAN_NODE_LINK_PERSISTENCE_OPERATION_UNAVAILABLE
              then GUARDIAN_NODE_LINK_PERSISTENCE_OPERATION_UNAVAILABLE
              else GUARDIAN_NODE_LINK_PERSISTENCE_OPERATION_IO_FAILURE),
             Some b2, Some GUARDIAN_NODE_LINK_PERSISTENCE_STATUS_UNAVAILABLE_STATE, Some zero_record,
             Some GUARDIAN_NODE_LINK_PERSISTENCE_RECOVERY_IO_FAILURE, selected_slot)
          else
            case select_record a bb of
              (result, status, r, d, sel) \<Rightarrow>
                (result, Some b2, Some status, Some r, Some d,
                 (if sel \<noteq> None \<and> selected_slot \<noteq> None then sel else selected_slot))
      | _ \<Rightarrow> (GUARDIAN_NODE_LINK_PERSISTENCE_OPERATION_INVALID, backend, provider_status, persisted,
              diagnostic, selected_slot))"

section \<open>The provider\<close>

definition guardian_node_link_freshness_physical_backend_init ::
  "'m guardian_node_link_freshness_physical_backend ptr \<Rightarrow> 'm guardian_node_link_persistence_media ptr
     \<Rightarrow> c_enum \<times> 'm guardian_node_link_freshness_physical_backend ptr" where
  "guardian_node_link_freshness_physical_backend_init backend media =
     (case (backend, media) of
        (Some _, Some m) \<Rightarrow>
          if md_read m = None \<or> md_erase m = None \<or> md_program m = None
          then (GUARDIAN_NODE_LINK_PERSISTENCE_OPERATION_INVALID, backend)
          else (GUARDIAN_NODE_LINK_PERSISTENCE_OPERATION_OK,
                Some \<lparr>be_media = m, be_pending_slot = GUARDIAN_NODE_LINK_PERSISTENCE_SLOT_A,
                  be_pending_valid = 0\<rparr>)
      | _ \<Rightarrow> (GUARDIAN_NODE_LINK_PERSISTENCE_OPERATION_INVALID, backend))"

definition guardian_node_link_freshness_physical_backend_recover ::
  "'m guardian_node_link_freshness_physical_backend ptr \<Rightarrow> c_enum ptr \<Rightarrow> persisted_record ptr
     \<Rightarrow> recovery_diagnostic ptr
     \<Rightarrow> c_enum \<times> 'm guardian_node_link_freshness_physical_backend ptr \<times> c_enum ptr
        \<times> persisted_record ptr \<times> recovery_diagnostic ptr" where
  "guardian_node_link_freshness_physical_backend_recover backend provider_status persisted diagnostic =
     (case r3e_recover_internal backend provider_status persisted diagnostic None of
        (result, b, status, r, d, _) \<Rightarrow> (result, b, status, r, d))"

definition guardian_node_link_freshness_physical_backend_load ::
  "'m guardian_node_link_freshness_physical_backend load_fn" where
  "guardian_node_link_freshness_physical_backend_load context provider_status persisted =
     (if context = None \<or> provider_status = None \<or> persisted = None
      then (GUARDIAN_NODE_LINK_PERSISTENCE_OPERATION_INVALID, context, provider_status, persisted)
      else
        case guardian_node_link_freshness_physical_backend_recover context provider_status persisted
            (Some GUARDIAN_NODE_LINK_PERSISTENCE_RECOVERY_INVALID) of
          (result, b, status, r, _) \<Rightarrow> (result, b, status, r))"

definition other_slot :: "flash_slot \<Rightarrow> flash_slot" where
  "other_slot s = (if s = GUARDIAN_NODE_LINK_PERSISTENCE_SLOT_A
     then GUARDIAN_NODE_LINK_PERSISTENCE_SLOT_B else GUARDIAN_NODE_LINK_PERSISTENCE_SLOT_A)"

text \<open>The choice of the slot to overwrite: \<open>Inl\<close> is an early return.\<close>

definition write_target ::
  "c_enum \<Rightarrow> persisted_record \<Rightarrow> flash_slot \<Rightarrow> persisted_record \<Rightarrow> c_enum + flash_slot" where
  "write_target status current current_slot candidate =
     (if status = GUARDIAN_NODE_LINK_PERSISTENCE_STATUS_NO_PERSISTED_STATE
      then
        if pr_record_generation candidate \<noteq> 0
        then Inl GUARDIAN_NODE_LINK_PERSISTENCE_OPERATION_VERIFY_FAILURE
        else Inr GUARDIAN_NODE_LINK_PERSISTENCE_SLOT_A
      else if status = GUARDIAN_NODE_LINK_PERSISTENCE_STATUS_VALID_PERSISTED_STATE
      then
        if pr_record_generation current = 0xFFFFFFFF
        then Inl GUARDIAN_NODE_LINK_PERSISTENCE_OPERATION_GENERATION_EXHAUSTED
        else if \<not> r3e_transition_is_adjacent (Some current) (Some candidate)
        then Inl GUARDIAN_NODE_LINK_PERSISTENCE_OPERATION_VERIFY_FAILURE
        else Inr (other_slot current_slot)
      else Inl GUARDIAN_NODE_LINK_PERSISTENCE_OPERATION_STATE_UNCERTAIN)"

definition guardian_node_link_freshness_physical_backend_write_candidate ::
  "'m guardian_node_link_freshness_physical_backend candidate_fn" where
  "guardian_node_link_freshness_physical_backend_write_candidate context candidate =
     (case (context, candidate) of
        (Some b0, Some c) \<Rightarrow>
          (case r3e_recover_internal (Some (b0\<lparr>be_pending_valid := 0\<rparr>))
               (Some GUARDIAN_NODE_LINK_PERSISTENCE_STATUS_INVALID) (Some zero_record)
               (Some GUARDIAN_NODE_LINK_PERSISTENCE_RECOVERY_INVALID)
               (Some GUARDIAN_NODE_LINK_PERSISTENCE_SLOT_A) of
             (operation, b', status, current, _, current_slot) \<Rightarrow>
               let b = the b' in
               if operation \<noteq> GUARDIAN_NODE_LINK_PERSISTENCE_OPERATION_OK then (operation, Some b, candidate)
               else
                 (case write_target (the status) (the current) (the current_slot) c of
                    Inl failure \<Rightarrow> (failure, Some b, candidate)
                  | Inr target_slot \<Rightarrow>
                      let (built, img) = r3e_build_staged_image c in
                      if \<not> built
                      then (GUARDIAN_NODE_LINK_PERSISTENCE_OPERATION_VERIFY_FAILURE, Some b, candidate)
                      else
                        let (erased, m1) = the (md_erase (be_media b)) (md_context (be_media b)) target_slot;
                            b1 = backend_context m1 b
                        in if erased \<noteq> GUARDIAN_NODE_LINK_PERSISTENCE_MEDIA_OK
                        then (r3e_media_result_to_operation erased, Some b1, candidate)
                        else
                          let (programmed, m2) = the (md_program (be_media b1)) (md_context (be_media b1))
                                target_slot 0 img GUARDIAN_NODE_LINK_PERSISTENCE_PHYSICAL_COMMIT_OFFSET;
                              b2 = backend_context m2 b1
                          in if programmed \<noteq> GUARDIAN_NODE_LINK_PERSISTENCE_MEDIA_OK
                          then (r3e_media_result_to_operation programmed, Some b2, candidate)
                          else (GUARDIAN_NODE_LINK_PERSISTENCE_OPERATION_OK,
                                Some (b2\<lparr>be_pending_slot := target_slot, be_pending_valid := 1\<rparr>), candidate)))
      | _ \<Rightarrow> (GUARDIAN_NODE_LINK_PERSISTENCE_OPERATION_INVALID, context, candidate))"

definition guardian_node_link_freshness_physical_backend_verify_candidate ::
  "'m guardian_node_link_freshness_physical_backend candidate_fn" where
  "guardian_node_link_freshness_physical_backend_verify_candidate context candidate =
     (case (context, candidate) of
        (Some b, Some _) \<Rightarrow>
          if be_pending_valid b \<noteq> 1
          then (GUARDIAN_NODE_LINK_PERSISTENCE_OPERATION_VERIFY_FAILURE, context, candidate)
          else
            (case the (md_read (be_media b)) (md_context (be_media b)) (be_pending_slot b) 0
                 (replicate GUARDIAN_NODE_LINK_PERSISTENCE_PHYSICAL_IMAGE_SIZE 0)
                 GUARDIAN_NODE_LINK_PERSISTENCE_PHYSICAL_IMAGE_SIZE of
               (media_result, m, img) \<Rightarrow>
                 let b' = backend_context m b in
                 if media_result \<noteq> GUARDIAN_NODE_LINK_PERSISTENCE_MEDIA_OK
                 then (r3e_media_result_to_operation media_result, Some b', candidate)
                 else if \<not> r3e_bytes_all_ff
                      (Some (drop GUARDIAN_NODE_LINK_PERSISTENCE_PHYSICAL_COMMIT_OFFSET img))
                      GUARDIAN_NODE_LINK_PERSISTENCE_PHYSICAL_COMMIT_SIZE
                 then (GUARDIAN_NODE_LINK_PERSISTENCE_OPERATION_VERIFY_FAILURE, Some b', candidate)
                 else
                   let (ok, decoded) = r3e_validate_body img in
                   if \<not> ok then (GUARDIAN_NODE_LINK_PERSISTENCE_OPERATION_VERIFY_FAILURE, Some b', candidate)
                   else if \<not> r3e_records_equal (Some decoded) candidate
                   then (GUARDIAN_NODE_LINK_PERSISTENCE_OPERATION_VERIFY_FAILURE, Some b', candidate)
                   else (GUARDIAN_NODE_LINK_PERSISTENCE_OPERATION_OK, Some b', candidate))
      | _ \<Rightarrow> (GUARDIAN_NODE_LINK_PERSISTENCE_OPERATION_INVALID, context, candidate))"

definition commit_marker :: "u8 list" where
  "commit_marker = [0x43, 0x4D, 0x54, 0x31]"

definition guardian_node_link_freshness_physical_backend_commit_candidate ::
  "'m guardian_node_link_freshness_physical_backend candidate_fn" where
  "guardian_node_link_freshness_physical_backend_commit_candidate context candidate =
     (case (context, candidate) of
        (Some b, Some _) \<Rightarrow>
          if be_pending_valid b \<noteq> 1
          then (GUARDIAN_NODE_LINK_PERSISTENCE_OPERATION_COMMIT_FAILURE, context, candidate)
          else
            let (verified, vb, _) =
                  guardian_node_link_freshness_physical_backend_verify_candidate context candidate;
                b1 = the vb
            in if verified \<noteq> GUARDIAN_NODE_LINK_PERSISTENCE_OPERATION_OK
            then (GUARDIAN_NODE_LINK_PERSISTENCE_OPERATION_VERIFY_FAILURE,
                  Some (b1\<lparr>be_pending_valid := 0\<rparr>), candidate)
            else
              let (programmed, m2) = the (md_program (be_media b1)) (md_context (be_media b1))
                    (be_pending_slot b1) GUARDIAN_NODE_LINK_PERSISTENCE_PHYSICAL_COMMIT_OFFSET
                    commit_marker GUARDIAN_NODE_LINK_PERSISTENCE_PHYSICAL_COMMIT_SIZE;
                  b2 = backend_context m2 b1
              in if programmed \<noteq> GUARDIAN_NODE_LINK_PERSISTENCE_MEDIA_OK
              then (GUARDIAN_NODE_LINK_PERSISTENCE_OPERATION_STATE_UNCERTAIN,
                    Some (b2\<lparr>be_pending_valid := 0\<rparr>), candidate)
              else
                let (scanned, b3, observation) = r3e_scan_slot b2 (be_pending_slot b2) in
                if scanned \<noteq> GUARDIAN_NODE_LINK_PERSISTENCE_OPERATION_OK
                then (GUARDIAN_NODE_LINK_PERSISTENCE_OPERATION_STATE_UNCERTAIN,
                      Some (b3\<lparr>be_pending_valid := 0\<rparr>), candidate)
                else if so_state observation \<noteq> R3E_SLOT_VALID
                     \<or> \<not> r3e_records_equal (Some (so_record observation)) candidate
                then (GUARDIAN_NODE_LINK_PERSISTENCE_OPERATION_STATE_UNCERTAIN,
                      Some (b3\<lparr>be_pending_valid := 0\<rparr>), candidate)
                else (GUARDIAN_NODE_LINK_PERSISTENCE_OPERATION_OK,
                      Some (b3\<lparr>be_pending_valid := 0\<rparr>), candidate)
      | _ \<Rightarrow> (GUARDIAN_NODE_LINK_PERSISTENCE_OPERATION_INVALID, context, candidate))"

definition guardian_node_link_freshness_physical_backend_make_provider ::
  "'m guardian_node_link_freshness_physical_backend ptr
     \<Rightarrow> 'm guardian_node_link_freshness_physical_backend guardian_node_link_freshness_persistence_provider ptr
     \<Rightarrow> c_enum
        \<times> 'm guardian_node_link_freshness_physical_backend guardian_node_link_freshness_persistence_provider ptr" where
  "guardian_node_link_freshness_physical_backend_make_provider backend provider =
     (if backend = None \<or> provider = None
      then (GUARDIAN_NODE_LINK_PERSISTENCE_OPERATION_INVALID, provider)
      else (GUARDIAN_NODE_LINK_PERSISTENCE_OPERATION_OK,
            Some \<lparr>pv_context = backend, pv_load = Some guardian_node_link_freshness_physical_backend_load,
              pv_write_candidate = Some guardian_node_link_freshness_physical_backend_write_candidate,
              pv_verify_candidate = Some guardian_node_link_freshness_physical_backend_verify_candidate,
              pv_commit_candidate = Some guardian_node_link_freshness_physical_backend_commit_candidate\<rparr>))"

section \<open>Images of records\<close>

definition image_header :: "persisted_record \<Rightarrow> u8 list" where
  "image_header r = [0x47, 0x50, 0x45, 0x31] @ be16_bytes 1 @ be16_bytes 80 @ be32_bytes 364
     @ be32_bytes (pr_record_generation r) @ sha256_reference (record_bytes r)"

definition image_body :: "persisted_record \<Rightarrow> u8 list" where
  "image_body r = image_header r @ sha256_reference (image_header r) @ record_bytes r"

lemma length_image_header [simp]: "length (image_header r) = 48"
  by (simp add: image_header_def)

lemma length_image_body [simp]: "length (image_body r) = 444"
  by (simp add: image_body_def)

lemma r3e_be [be_simps]:
  "r3e_get_u16_be b i = be16_at b i" "r3e_get_u32_be b i = be32_at b i"
  "i + 2 \<le> length b \<Longrightarrow> r3e_put_u16_be b i v = buf_write b i (be16_bytes v)"
  "i + 4 \<le> length b \<Longrightarrow> r3e_put_u32_be b i w = buf_write b i (be32_bytes w)"
  by (simp_all add: r3e_get_u16_be_def r3e_get_u32_be_def be16_at_def be32_at_def or.assoc
      r3e_put_u16_be_def r3e_put_u32_be_def be16_bytes_def be32_bytes_def list_update_buf_write
      buf_write_adjacent)

lemma encode_record_invalid:
  "\<not> record_valid r \<Longrightarrow> cap \<ge> 364 \<Longrightarrow>
   guardian_node_link_freshness_persistence_encode (Some r) (Some out) cap (Some w0) =
     (GUARDIAN_NODE_LINK_PERSISTENCE_CODEC_INVALID_FIELD, Some out, Some 0)"
  by (simp add: guardian_node_link_freshness_persistence_encode_def record_is_logically_valid_iff Let_def)

lemma build_staged_ok:
  assumes "record_valid r"
  shows "r3e_build_staged_image r = (True, image_body r @ replicate 4 0xFF)"
proof -
  let ?h = "[0x47, 0x50, 0x45, 0x31] @ be16_bytes 1 @ be16_bytes 80 @ be32_bytes 364
     @ be32_bytes (pr_record_generation r)"
  let ?ff = "replicate 448 (0xFF :: u8)"
  define i5 where "i5 = r3e_put_u32_be (r3e_put_u32_be (r3e_put_u16_be (r3e_put_u16_be
     (?ff[0 := 0x47, 1 := 0x50, 2 := 0x45, 3 := 0x31]) 4 1) 6 80) 8 364) 12 (pr_record_generation r)"
  have ne: "?ff \<noteq> []" by (simp add: replicate_empty)
  have "i5 = buf_write ?ff 0 ?h"
    unfolding i5_def using ne by (simp add: r3e_be list_update_buf_write list_update_0_buf_write
        buf_write_adjacent [where off = 0])
  also have "\<dots> = ?h @ replicate 432 0xFF" by (simp add: buf_write_0)
  also have "replicate 432 (0xFF :: u8) = replicate 64 0xFF @ replicate 364 0xFF @ replicate 4 0xFF"
    by (simp add: replicate_add [symmetric])
  finally have i5: "i5 = (?h @ replicate 64 0xFF) @ replicate 364 0xFF @ replicate 4 0xFF" by simp
  have enc: "guardian_node_link_freshness_persistence_encode (Some r) (Some (drop 80 i5)) 364 (Some 0)
      = (GUARDIAN_NODE_LINK_PERSISTENCE_CODEC_OK, Some (record_bytes r @ replicate 4 0xFF), Some 364)"
    using encode_record_ok [OF assms, of 364 "drop 80 i5" 0] by (simp add: i5 buf_write_0)
  define i6 where "i6 = take 80 i5 @ record_bytes r @ replicate 4 0xFF"
  have i6: "i6 = ?h @ replicate 32 0xFF @ replicate 32 0xFF @ record_bytes r @ replicate 4 0xFF"
    unfolding i6_def i5 by (simp add: replicate_add [symmetric])
  have d1: "guardian_sha256 (Some (drop 80 i6)) 364 (Some (replicate 32 0)) = Some (sha256_reference (record_bytes r))"
    using guardian_sha256_reference [of 364 "drop 80 i6" "replicate 32 0"]
    by (simp add: i6 buf_write_whole)
  define i7 where "i7 = buf_write i6 16 (sha256_reference (record_bytes r))"
  have i7: "i7 = image_header r @ replicate 32 0xFF @ record_bytes r @ replicate 4 0xFF"
    unfolding i7_def i6 by (simp add: buf_write_def image_header_def)
  have d2: "guardian_sha256 (Some i7) 48 (Some (sha256_reference (record_bytes r)))
      = Some (sha256_reference (image_header r))"
    using guardian_sha256_reference [of 48 i7 "sha256_reference (record_bytes r)"]
    by (simp add: i7 buf_write_whole)
  have i8: "buf_write i7 48 (sha256_reference (image_header r)) = image_body r @ replicate 4 0xFF"
    unfolding i7 by (simp add: buf_write_def image_body_def)
  show ?thesis
    unfolding r3e_build_staged_image_def Let_def i5_def [symmetric] enc prod.case option.sel
      i6_def [symmetric] d1 i7_def [symmetric] d2 i8 by simp
qed

lemma build_staged_invalid: "\<not> record_valid r \<Longrightarrow> \<not> fst (r3e_build_staged_image r)"
  by (simp add: r3e_build_staged_image_def encode_record_invalid Let_def)

text \<open>An image validates to a record exactly if its first 444 bytes are the image of that record.\<close>

definition image_checks :: "u8 list \<Rightarrow> bool" where
  "image_checks img \<longleftrightarrow> buf_read img 0 4 = [0x47, 0x50, 0x45, 0x31] \<and> be16_at img 4 = 1 \<and> be16_at img 6 = 80
     \<and> be32_at img 8 = 364 \<and> sha256_reference (take 48 img) = buf_read img 48 32
     \<and> sha256_reference (buf_read img 80 364) = buf_read img 16 32"

lemma validate_body_eq:
  assumes "444 \<le> length img"
  shows "r3e_validate_body img = (True, r) \<longleftrightarrow> image_checks img
    \<and> guardian_node_link_freshness_persistence_decode (Some (drop 80 img)) 364 (Some zero_record)
      = (GUARDIAN_NODE_LINK_PERSISTENCE_CODEC_OK, Some r)
    \<and> be32_at img 12 = pr_record_generation r"
proof -
  have d1: "guardian_crypto_constant_time_equal (guardian_sha256 (Some img) 48 (Some (replicate 32 0)))
      (Some (drop 48 img)) 32 \<longleftrightarrow> sha256_reference (take 48 img) = buf_read img 48 32"
    using assms guardian_sha256_reference [of 48 img "replicate 32 0"]
    by (simp add: buf_write_whole constant_time_equal_iff buf_read_def)
  have d2: "guardian_crypto_constant_time_equal (guardian_sha256 (Some (drop 80 img)) 364 (Some (replicate 32 0)))
      (Some (drop 16 img)) 32 \<longleftrightarrow> sha256_reference (buf_read img 80 364) = buf_read img 16 32"
    using assms guardian_sha256_reference [of 364 "drop 80 img" "replicate 32 0"]
    by (simp add: buf_write_whole constant_time_equal_iff buf_read_def)
  have magic: "buf_read img 0 4 = [0x47, 0x50, 0x45, 0x31] \<longleftrightarrow>
      img ! 0 = 0x47 \<and> img ! 1 = 0x50 \<and> img ! 2 = 0x45 \<and> img ! 3 = 0x31"
    using assms buf_read_4 [of 0 img] by (simp add: numeral_2_eq_2)
  have some: "\<exists>r. c = Some r" if "guardian_node_link_freshness_persistence_decode (Some (drop 80 img)) 364
      (Some zero_record) = (GUARDIAN_NODE_LINK_PERSISTENCE_CODEC_OK, c)" for c
    using that by (auto simp: guardian_node_link_freshness_persistence_decode_def Let_def
        split: if_split_asm prod.split_asm)
  obtain res c where dec: "guardian_node_link_freshness_persistence_decode (Some (drop 80 img)) 364
      (Some zero_record) = (res, c)" by fastforce
  show ?thesis
    unfolding r3e_validate_body_def r3e_be(1,2) d1 d2 image_checks_def magic dec prod.case
    using some dec by auto
qed

lemma validate_body_iff:
  assumes l: "444 \<le> length img"
  shows "r3e_validate_body img = (True, r) \<longleftrightarrow>
    record_valid r \<and> record_normal r \<and> take 444 img = image_body r" (is "?L \<longleftrightarrow> ?R")
proof -
  have dec: "guardian_node_link_freshness_persistence_decode (Some (drop 80 img)) 364 (Some zero_record)
      = (GUARDIAN_NODE_LINK_PERSISTENCE_CODEC_OK, Some r)
    \<longleftrightarrow> record_valid r \<and> record_normal r \<and> buf_read img 80 364 = record_bytes r"
    using l by (simp add: decode_record_iff buf_read_def)
  show ?thesis
  proof
    assume ?L
    then have c: "image_checks img" and v: "record_valid r" "record_normal r"
      and p: "buf_read img 80 364 = record_bytes r" and g: "be32_at img 12 = pr_record_generation r"
      unfolding validate_body_eq [OF l] dec by auto
    have rd: "be16_bytes 1 = buf_read img 4 2" "be16_bytes 80 = buf_read img 6 2"
      "be32_bytes 364 = buf_read img 8 4" "be32_bytes (pr_record_generation r) = buf_read img 12 4"
      "[0x47, 0x50, 0x45, 0x31] = buf_read img 0 4"
      "sha256_reference (record_bytes r) = buf_read img 16 32"
      using c l g p by (simp_all add: image_checks_def buf_read_be)
    have "image_header r = buf_read img 0 48"
      unfolding image_header_def rd by (simp add: buf_read_adjacent)
    moreover then have "sha256_reference (image_header r) = buf_read img 48 32"
      using c by (simp add: image_checks_def buf_read_0)
    ultimately have "image_body r = buf_read img 0 444"
      unfolding image_body_def p [symmetric] by (simp add: buf_read_adjacent)
    then show ?R using v by (simp add: buf_read_0)
  next
    assume r: ?R
    then have img: "img = image_body r @ drop 444 img" by (metis append_take_drop_id)
    let ?w = "image_body r @ drop 444 img"
    have b: "be16_at ?w 4 = 1" "be16_at ?w 6 = 80" "be32_at ?w 8 = 364" "be32_at ?w 12 = pr_record_generation r"
      by (simp_all add: image_body_def image_header_def buf_simps)
    have t: "buf_read ?w 0 4 = [0x47, 0x50, 0x45, 0x31]" "take 48 ?w = image_header r"
      "buf_read ?w 48 32 = sha256_reference (image_header r)" "buf_read ?w 80 364 = record_bytes r"
      by (simp_all add: image_body_def buf_read_def) (simp add: image_header_def)
    have h: "buf_read ?w 16 32 = sha256_reference (record_bytes r)"
      by (simp add: image_body_def image_header_def buf_read_def)
    have "image_checks ?w" unfolding image_checks_def b t h by simp
    then show ?L
      unfolding validate_body_eq [OF l] dec using r img b(4) t(4) by auto
  qed
qed

section \<open>Observations\<close>

lemma all_ff_iff: "r3e_bytes_all_ff (Some xs) n \<longleftrightarrow> take n xs = replicate (length (take n xs)) 0xFF"
proof -
  have "list_all (\<lambda>b. b = z) ys \<longleftrightarrow> ys = replicate (length ys) z" for ys :: "u8 list" and z
    by (induction ys) auto
  then show ?thesis by (simp add: r3e_bytes_all_ff_def del: length_take)
qed

lemma all_ff_read: "i + n \<le> length xs \<Longrightarrow> r3e_bytes_all_ff (Some (drop i xs)) n \<longleftrightarrow> buf_read xs i n = replicate n 0xFF"
  by (simp add: all_ff_iff buf_read_def)

lemma marker_iff:
  assumes "448 \<le> length img"
  shows "r3e_commit_marker_is_valid (drop 444 img) \<longleftrightarrow> buf_read img 444 4 = commit_marker"
proof -
  have "drop 444 img ! k = img ! (444 + k)" for k using assms by simp
  then show ?thesis
    using assms unfolding r3e_commit_marker_is_valid_def commit_marker_def
    by (subst buf_read_4) simp_all
qed

text \<open>Bytes 444 to 447 decide: all 0xFF means erased or torn; the marker means valid if the body
  validates; anything else is corrupted.\<close>

lemma observe_unmarked:
  assumes "448 \<le> length img" "buf_read img 444 4 = replicate 4 0xFF"
  shows "so_state (observe_image img) \<in> {R3E_SLOT_ERASED, R3E_SLOT_TORN}"
  using assms by (simp add: observe_image_def all_ff_read)

lemma observe_erased:
  assumes "448 \<le> length img" "take 448 img = replicate 448 0xFF"
  shows "so_state (observe_image img) = R3E_SLOT_ERASED"
  using assms by (simp add: observe_image_def all_ff_iff)

lemma observe_erased_iff:
  assumes "448 \<le> length img"
  shows "so_state (observe_image img) = R3E_SLOT_ERASED \<longleftrightarrow> take 448 img = replicate 448 0xFF"
  using assms by (auto simp: observe_image_def all_ff_iff split: prod.split)

lemma observe_valid_iff:
  assumes l: "448 \<le> length img"
  shows "so_state (observe_image img) = R3E_SLOT_VALID \<and> so_record (observe_image img) = r \<longleftrightarrow>
    record_valid r \<and> record_normal r \<and> take 444 img = image_body r \<and> buf_read img 444 4 = commit_marker"
proof -
  have ff: "r3e_bytes_all_ff (Some img) 448 \<longrightarrow> buf_read img 444 4 = replicate 4 0xFF"
  proof
    assume "r3e_bytes_all_ff (Some img) 448"
    then have t: "take 448 img = replicate 448 0xFF" using l by (simp add: all_ff_iff)
    have "buf_read img 444 4 = drop 444 (take 448 img)" by (simp add: buf_read_def drop_take)
    also have "\<dots> = replicate 4 0xFF" unfolding t by simp
    finally show "buf_read img 444 4 = replicate 4 0xFF" .
  qed
  have ne: "commit_marker \<noteq> replicate 4 0xFF"
  proof
    assume "commit_marker = replicate 4 0xFF"
    then have "hd commit_marker = hd (replicate 4 0xFF)" by simp
    then show False by (simp add: commit_marker_def)
  qed
  obtain ok q where v: "r3e_validate_body img = (ok, q)" by fastforce
  have "so_state (observe_image img) = R3E_SLOT_VALID \<and> so_record (observe_image img) = r \<longleftrightarrow>
      buf_read img 444 4 = commit_marker \<and> r3e_validate_body img = (True, r)"
    using ff ne l unfolding observe_image_def marker_iff [OF l] v prod.case
    by (auto simp: all_ff_read)
  then show ?thesis using validate_body_iff [of img r] l by auto
qed

lemma observe_states:
  "448 \<le> length img \<Longrightarrow> so_state (observe_image img) \<in>
   {R3E_SLOT_ERASED, R3E_SLOT_TORN, R3E_SLOT_CORRUPTED, R3E_SLOT_VALID}"
  by (simp add: observe_image_def split: prod.split)

section \<open>The flash driver\<close>

text \<open>
  What the backend relies on. \<open>cells m s\<close> are the bytes of slot \<open>s\<close> in driver state \<open>m\<close>. A read
  changes nothing and, if it reports success, returns the bytes. An erase or a program touches
  only its slot, a program only its range; if it reports success the range holds 0xFF
  respectively the data (provided the range was erased). A call that fails may have done any
  part of its work: an interrupted erase leaves each byte as it was or 0xFF, an interrupted
  program leaves anything in its range.
\<close>

definition partial_erase :: "u8 list \<Rightarrow> u8 list \<Rightarrow> bool" where
  "partial_erase old new \<longleftrightarrow> length new = length old \<and>
     (\<forall>i<length old. new ! i = old ! i \<or> new ! i = 0xFF)"

definition flash_driver ::
  "('m ptr \<Rightarrow> flash_slot \<Rightarrow> nat \<Rightarrow> u8 list \<Rightarrow> nat \<Rightarrow> c_enum \<times> 'm ptr \<times> u8 list)
     \<Rightarrow> ('m ptr \<Rightarrow> flash_slot \<Rightarrow> c_enum \<times> 'm ptr)
     \<Rightarrow> ('m ptr \<Rightarrow> flash_slot \<Rightarrow> nat \<Rightarrow> u8 list \<Rightarrow> nat \<Rightarrow> c_enum \<times> 'm ptr)
     \<Rightarrow> ('m \<Rightarrow> flash_slot \<Rightarrow> u8 list) \<Rightarrow> bool" where
  "flash_driver rd er pg cells \<longleftrightarrow>
     (\<forall>m s. 448 \<le> length (cells m s)) \<and>
     (\<forall>m s buf. length buf = 448 \<longrightarrow> (\<exists>r m1 out. rd (Some m) s 0 buf 448 = (r, Some m1, out) \<and> cells m1 = cells m
        \<and> (r = GUARDIAN_NODE_LINK_PERSISTENCE_MEDIA_OK \<longrightarrow> out = take 448 (cells m s)))) \<and>
     (\<forall>m s. \<exists>r m1. er (Some m) s = (r, Some m1)
        \<and> cells m1 (other_slot s) = cells m (other_slot s) \<and> partial_erase (cells m s) (cells m1 s)
        \<and> (r = GUARDIAN_NODE_LINK_PERSISTENCE_MEDIA_OK \<longrightarrow> take 448 (cells m1 s) = replicate 448 0xFF)) \<and>
     (\<forall>m s off data n. off + n \<le> 448 \<longrightarrow> n \<le> length data \<longrightarrow>
        (\<exists>r m1. pg (Some m) s off data n = (r, Some m1)
          \<and> cells m1 (other_slot s) = cells m (other_slot s)
          \<and> take off (cells m1 s) = take off (cells m s)
          \<and> drop (off + n) (cells m1 s) = drop (off + n) (cells m s)
          \<and> (r = GUARDIAN_NODE_LINK_PERSISTENCE_MEDIA_OK \<longrightarrow>
               buf_read (cells m s) off n = replicate n 0xFF \<longrightarrow> buf_read (cells m1 s) off n = take n data)))"

lemma flash_driver_length: "flash_driver rd er pg cells \<Longrightarrow> 448 \<le> length (cells m s)"
  by (simp add: flash_driver_def)

lemma flash_driver_read:
  "flash_driver rd er pg cells \<Longrightarrow> length buf = 448 \<Longrightarrow> \<exists>r m1 out. rd (Some m) s 0 buf 448 = (r, Some m1, out) \<and> cells m1 = cells m
     \<and> (r = 1 \<longrightarrow> out = take 448 (cells m s))"
  by (simp add: flash_driver_def)

lemma flash_driver_erase:
  "flash_driver rd er pg cells \<Longrightarrow> \<exists>r m1. er (Some m) s = (r, Some m1)
     \<and> cells m1 (other_slot s) = cells m (other_slot s) \<and> partial_erase (cells m s) (cells m1 s)
     \<and> (r = 1 \<longrightarrow> take 448 (cells m1 s) = replicate 448 0xFF)"
  by (simp add: flash_driver_def)

lemma flash_driver_program:
  "flash_driver rd er pg cells \<Longrightarrow> off + n \<le> 448 \<Longrightarrow> n \<le> length data \<Longrightarrow>
   \<exists>r m1. pg (Some m) s off data n = (r, Some m1)
     \<and> cells m1 (other_slot s) = cells m (other_slot s)
     \<and> take off (cells m1 s) = take off (cells m s)
     \<and> drop (off + n) (cells m1 s) = drop (off + n) (cells m s)
     \<and> (r = 1 \<longrightarrow> buf_read (cells m s) off n = replicate n 0xFF \<longrightarrow> buf_read (cells m1 s) off n = take n data)"
  unfolding flash_driver_def by blast

text \<open>A driver none of whose calls fails.\<close>

definition reliable ::
  "('m ptr \<Rightarrow> flash_slot \<Rightarrow> nat \<Rightarrow> u8 list \<Rightarrow> nat \<Rightarrow> c_enum \<times> 'm ptr \<times> u8 list)
     \<Rightarrow> ('m ptr \<Rightarrow> flash_slot \<Rightarrow> c_enum \<times> 'm ptr)
     \<Rightarrow> ('m ptr \<Rightarrow> flash_slot \<Rightarrow> nat \<Rightarrow> u8 list \<Rightarrow> nat \<Rightarrow> c_enum \<times> 'm ptr) \<Rightarrow> bool" where
  "reliable rd er pg \<longleftrightarrow>
     (\<forall>m s buf. fst (rd (Some m) s 0 buf 448) = GUARDIAN_NODE_LINK_PERSISTENCE_MEDIA_OK)
     \<and> (\<forall>m s. fst (er (Some m) s) = GUARDIAN_NODE_LINK_PERSISTENCE_MEDIA_OK)
     \<and> (\<forall>m s off data n. off + n \<le> 448 \<longrightarrow> n \<le> length data \<longrightarrow>
          fst (pg (Some m) s off data n) = GUARDIAN_NODE_LINK_PERSISTENCE_MEDIA_OK)"

lemma reliable_calls:
  assumes "reliable rd er pg"
  shows "rd (Some m) s 0 buf 448 = (r, x) \<Longrightarrow> r = GUARDIAN_NODE_LINK_PERSISTENCE_MEDIA_OK"
    "er (Some m) s = (r, y) \<Longrightarrow> r = GUARDIAN_NODE_LINK_PERSISTENCE_MEDIA_OK"
    "off + n \<le> 448 \<Longrightarrow> n \<le> length data \<Longrightarrow> pg (Some m) s off data n = (r, y)
      \<Longrightarrow> r = GUARDIAN_NODE_LINK_PERSISTENCE_MEDIA_OK"
  using assms unfolding reliable_def by (metis fst_conv)+

text \<open>A backend on driver state \<open>m\<close>.\<close>

definition on_driver where
  "on_driver rd er pg m b \<longleftrightarrow> md_context (be_media b) = Some m \<and> md_read (be_media b) = Some rd
     \<and> md_erase (be_media b) = Some er \<and> md_program (be_media b) = Some pg"

lemma on_driver_context [simp]:
  "on_driver rd er pg m b \<Longrightarrow> on_driver rd er pg m1 (backend_context (Some m1) b)"
  "be_pending_slot (backend_context mm b) = be_pending_slot b"
  "be_pending_valid (backend_context mm b) = be_pending_valid b"
  "on_driver rd er pg m (b\<lparr>be_pending_slot := t, be_pending_valid := v\<rparr>) \<longleftrightarrow> on_driver rd er pg m b"
  "on_driver rd er pg m (b\<lparr>be_pending_valid := v\<rparr>) \<longleftrightarrow> on_driver rd er pg m b"
  by (simp_all add: on_driver_def backend_context_def)

definition slot_image :: "('m \<Rightarrow> flash_slot \<Rightarrow> u8 list) \<Rightarrow> 'm \<Rightarrow> flash_slot \<Rightarrow> r3e_slot_observation" where
  "slot_image cells m s = observe_image (take 448 (cells m s))"

text \<open>What a recovery finds when both reads succeed.\<close>

definition found where
  "found cells m = select_record (slot_image cells m GUARDIAN_NODE_LINK_PERSISTENCE_SLOT_A)
     (slot_image cells m GUARDIAN_NODE_LINK_PERSISTENCE_SLOT_B)"

lemma found_cong: "cells m1 = cells m \<Longrightarrow> found cells m1 = found cells m"
  by (simp add: found_def slot_image_def)

lemma media_failure_not_ok: "r \<noteq> 1 \<Longrightarrow> r3e_media_result_to_operation r \<noteq> 1"
  by (simp add: r3e_media_result_to_operation_def)

lemma scan_on_driver:
  assumes "flash_driver rd er pg cells" "on_driver rd er pg m b"
  shows "\<exists>op m1 obs. r3e_scan_slot b s = (op, backend_context (Some m1) b, obs) \<and> cells m1 = cells m
    \<and> (op = 1 \<longrightarrow> obs = slot_image cells m s) \<and> (reliable rd er pg \<longrightarrow> op = 1)"
proof -
  obtain r m1 out where r: "rd (Some m) s 0 (replicate 448 0) 448 = (r, Some m1, out)" "cells m1 = cells m"
    "r = 1 \<longrightarrow> out = take 448 (cells m s)"
    using flash_driver_read [OF assms(1), of "replicate 448 0" m s] by auto
  show ?thesis
    using assms(2) r media_failure_not_ok [of r] reliable_calls(1) [where rd = rd, OF _ r(1)]
    by (cases "r = 1") (auto simp: r3e_scan_slot_def on_driver_def slot_image_def)
qed

lemma recover_on_driver:
  assumes "flash_driver rd er pg cells" "on_driver rd er pg m b"
  shows "\<exists>op m1 st r d sel. r3e_recover_internal (Some b) (Some s0) (Some r0) (Some d0) (Some sel0)
      = (op, Some (backend_context (Some m1) b), Some st, Some r, Some d, Some sel)
    \<and> cells m1 = cells m
    \<and> (op = 1 \<longrightarrow> (\<exists>so. found cells m = (1, st, r, d, so) \<and> sel = (case so of None \<Rightarrow> sel0 | Some x \<Rightarrow> x)))
    \<and> (reliable rd er pg \<longrightarrow> op = fst (found cells m))"
proof -
  obtain op1 m1 a where a: "r3e_scan_slot b GUARDIAN_NODE_LINK_PERSISTENCE_SLOT_A
      = (op1, backend_context (Some m1) b, a)" "cells m1 = cells m"
    "op1 = 1 \<longrightarrow> a = slot_image cells m GUARDIAN_NODE_LINK_PERSISTENCE_SLOT_A"
    "reliable rd er pg \<longrightarrow> op1 = 1"
    using scan_on_driver [OF assms] by blast
  have b1: "on_driver rd er pg m1 (backend_context (Some m1) b)" using assms(2) by simp
  obtain op2 m2 bb where b2: "r3e_scan_slot (backend_context (Some m1) b) GUARDIAN_NODE_LINK_PERSISTENCE_SLOT_B
      = (op2, backend_context (Some m2) (backend_context (Some m1) b), bb)" "cells m2 = cells m1"
    "op2 = 1 \<longrightarrow> bb = slot_image cells m1 GUARDIAN_NODE_LINK_PERSISTENCE_SLOT_B"
    "reliable rd er pg \<longrightarrow> op2 = 1"
    using scan_on_driver [OF assms(1) b1] by blast
  have ctx: "backend_context (Some m2) (backend_context (Some m1) b) = backend_context (Some m2) b"
    by (simp add: backend_context_def)
  have im: "slot_image cells m1 = slot_image cells m" using a(2) by (intro ext) (simp add: slot_image_def)
  obtain res st r d so where sel: "select_record a bb = (res, st, r, d, so)" by (metis prod_cases5)
  show ?thesis
  proof (cases "op1 = 1 \<and> op2 = 1")
    case True
    then have "found cells m = (res, st, r, d, so)" using a b2 im sel by (simp add: found_def)
    then show ?thesis
      using True a b2 sel ctx by (auto simp: r3e_recover_internal_def split: option.split)
  next
    case False
    then show ?thesis
      using a b2 ctx by (auto simp: r3e_recover_internal_def)
  qed
qed

end
