(* ===== verification/Guardian_Crash_Safety.thy ===== *)
theory Guardian_Crash_Safety
  imports Guardian_Flash_Backend
begin

text \<open>
  What the persistence transaction of \<open>guardian_node_link_freshness_persistence.c\<close> leaves on the
  medium when it runs on the two-slot backend of
  \<open>guardian_node_link_freshness_persistence_backend.c\<close> and the driver may fail at any call. A
  loss of power during a driver call is a failed call that did a part of its work; a loss of power
  between two calls is a failed next call that did nothing. Each callback is described by its
  effect on the bytes of the slots, and the recovery by the two slot images it selects from.
\<close>

section \<open>Selection\<close>

lemma other_slot_simps [simp]:
  "other_slot (other_slot s) = s" "other_slot s \<noteq> s" "s \<noteq> other_slot s"
  by (cases s; simp add: other_slot_def)+

lemma found_valid_torn:
  "so_state (slot_image cells m s) = R3E_SLOT_VALID \<Longrightarrow>
   so_state (slot_image cells m (other_slot s)) \<in> {R3E_SLOT_ERASED, R3E_SLOT_TORN} \<Longrightarrow>
   \<exists>d. found cells m = (GUARDIAN_NODE_LINK_PERSISTENCE_OPERATION_OK,
     GUARDIAN_NODE_LINK_PERSISTENCE_STATUS_VALID_PERSISTED_STATE, so_record (slot_image cells m s), d, Some s)"
  by (cases s) (auto simp: found_def select_record_def other_slot_def)

lemma found_valid_corrupted:
  "so_state (slot_image cells m s) = R3E_SLOT_VALID \<Longrightarrow>
   so_state (slot_image cells m (other_slot s)) = R3E_SLOT_CORRUPTED \<Longrightarrow>
   fst (found cells m) = GUARDIAN_NODE_LINK_PERSISTENCE_OPERATION_STATE_UNCERTAIN"
  by (cases s) (auto simp: found_def select_record_def other_slot_def)

lemma found_valid_valid:
  "so_state (slot_image cells m s) = R3E_SLOT_VALID \<Longrightarrow>
   so_state (slot_image cells m (other_slot s)) = R3E_SLOT_VALID \<Longrightarrow>
   r3e_transition_is_adjacent (Some (so_record (slot_image cells m s)))
     (Some (so_record (slot_image cells m (other_slot s)))) \<Longrightarrow>
   pr_record_generation (so_record (slot_image cells m s))
     < pr_record_generation (so_record (slot_image cells m (other_slot s))) \<Longrightarrow>
   \<exists>d. found cells m = (GUARDIAN_NODE_LINK_PERSISTENCE_OPERATION_OK,
     GUARDIAN_NODE_LINK_PERSISTENCE_STATUS_VALID_PERSISTED_STATE,
     so_record (slot_image cells m (other_slot s)), d, Some (other_slot s))"
  by (cases s) (auto simp: found_def select_record_def other_slot_def Let_def dest: less_asym)

lemma found_erased_peer:
  assumes "so_state (slot_image cells m s) = R3E_SLOT_ERASED"
    and "found cells m = (op, st, r, d, so)"
  shows "(st = GUARDIAN_NODE_LINK_PERSISTENCE_STATUS_VALID_PERSISTED_STATE \<longleftrightarrow>
      so_state (slot_image cells m (other_slot s)) = R3E_SLOT_VALID)
    \<and> (st = GUARDIAN_NODE_LINK_PERSISTENCE_STATUS_NO_PERSISTED_STATE \<longleftrightarrow>
      so_state (slot_image cells m (other_slot s)) = R3E_SLOT_ERASED)
    \<and> (st = GUARDIAN_NODE_LINK_PERSISTENCE_STATUS_VALID_PERSISTED_STATE \<longrightarrow>
        r = so_record (slot_image cells m (other_slot s)))"
  using assms by (cases s) (auto simp: found_def select_record_def other_slot_def Let_def split: if_splits)

lemma found_valid_inv:
  assumes "found cells m = (op, GUARDIAN_NODE_LINK_PERSISTENCE_STATUS_VALID_PERSISTED_STATE, r, d, so)"
  obtains s where "so = Some s" "so_state (slot_image cells m s) = R3E_SLOT_VALID"
    "r = so_record (slot_image cells m s)"
  using assms by (auto simp: found_def select_record_def Let_def split: if_splits)

lemma found_no_state_inv:
  assumes "found cells m = (op, GUARDIAN_NODE_LINK_PERSISTENCE_STATUS_NO_PERSISTED_STATE, r, d, so)"
  shows "so_state (slot_image cells m s) = R3E_SLOT_ERASED"
  using assms by (cases s) (auto simp: found_def select_record_def Let_def split: if_splits)

section \<open>Records in their normal form\<close>

lemma pad_ref_take: "pad_ref (take 96 r) = pad_ref r"
  by (simp add: pad_ref_def c_string_def c_strnlen_def)

lemma normal_record_facts:
  assumes "record_valid r"
  shows "record_valid (normal_record r)" "record_normal (normal_record r)"
    "record_bytes (normal_record r) = record_bytes r" "image_body (normal_record r) = image_body r"
  using assms normal_record_valid [OF assms]
  by (simp_all add: record_normal_iff normal_record_def normal_identity_def record_valid_def
      structurally_valid_iff ref_ok_def pad_ref_idem record_bytes_def record_material_def
      image_body_def image_header_def)

lemma records_equal_iff:
  assumes d: "record_valid d" "record_normal d"
  shows "r3e_records_equal (Some d) (Some c) \<longleftrightarrow> record_valid c \<and> d = normal_record c"
proof (cases "record_valid c")
  case True
  have "r3e_records_equal (Some d) (Some c) \<longleftrightarrow> record_bytes d = record_bytes c"
    using encode_record_ok [OF d(1), of 364 "replicate 364 0"] encode_record_ok [OF True, of 364 "replicate 364 0"]
    by (simp add: r3e_records_equal_def buf_write_whole constant_time_equal_iff)
  moreover have "record_bytes d = record_bytes c \<longleftrightarrow> d = normal_record c"
  proof
    assume "record_bytes d = record_bytes c"
    then have "guardian_node_link_freshness_persistence_decode (Some (record_bytes d)) 364 (Some zero_record)
        = (GUARDIAN_NODE_LINK_PERSISTENCE_CODEC_OK, Some (normal_record c))"
      "guardian_node_link_freshness_persistence_decode (Some (record_bytes d)) 364 (Some zero_record)
        = (GUARDIAN_NODE_LINK_PERSISTENCE_CODEC_OK, Some d)"
      using d normal_record_facts [OF True] by (simp_all add: decode_record_iff)
    then show "d = normal_record c" by simp
  qed (simp add: normal_record_facts [OF True])
  ultimately show ?thesis using True by simp
next
  case False
  then show ?thesis
    using encode_record_ok [OF d(1), of 364 "replicate 364 0"]
    by (simp add: r3e_records_equal_def encode_record_invalid)
qed

text \<open>A candidate adjacent to a stored record has that record's references, so its normal form is
  adjacent too.\<close>

lemma adjacent_normal:
  assumes p: "record_normal p" and adj: "r3e_transition_is_adjacent (Some p) (Some c)"
  shows "r3e_transition_is_adjacent (Some p) (Some (normal_record c))"
proof -
  have norm: "take 96 (pad_ref r) = take 96 q" if "take 96 q = take 96 r" "pad_ref q = q" for q r
    by (metis pad_ref_take that)
  have ids: "r3e_identity_equal (pr_identity p) (pr_identity c)"
    using adj by (simp add: r3e_transition_is_adjacent_def split: if_splits)
  then have t: "take 96 (fi_producer_semantic_profile_id (pr_identity p)) = take 96 (fi_producer_semantic_profile_id (pr_identity c))"
    "take 96 (fi_consumer_semantic_profile_id (pr_identity p)) = take 96 (fi_consumer_semantic_profile_id (pr_identity c))"
    "take 96 (fi_compatibility_contract_id (pr_identity p)) = take 96 (fi_compatibility_contract_id (pr_identity c))"
    unfolding r3e_identity_equal_def by meson+
  note norms = norm [OF t(1)] norm [OF t(2)] norm [OF t(3)]
  have "r3e_identity_equal (pr_identity p) (normal_identity (pr_identity c))"
    using ids p [unfolded record_normal_iff] norms unfolding r3e_identity_equal_def
    by (auto simp: normal_identity_def simp del: length_pad_ref split: if_splits)
  with adj show ?thesis
    by (simp add: r3e_transition_is_adjacent_def normal_record_def split: if_splits)
qed

lemma adjacent_generation:
  assumes "r3e_transition_is_adjacent (Some p) (Some c)"
  shows "pr_record_generation p < pr_record_generation c"
proof -
  have "pr_record_generation p \<noteq> - 1" "pr_record_generation c = pr_record_generation p + 1"
    using assms by (auto simp: r3e_transition_is_adjacent_def split: if_splits)
  then show ?thesis by (metis inc_less_eq_triv_imp not_le)
qed

section \<open>Effects of the callbacks on the medium\<close>

lemma replicate_read: "i + n \<le> length xs \<Longrightarrow> take k xs = replicate k z \<Longrightarrow> i + n \<le> k \<Longrightarrow> buf_read xs i n = replicate n z"
  by (metis add_diff_cancel_left' add_le_imp_le_diff buf_read_def drop_replicate drop_take take_replicate min_def
      take_take le_add_diff_inverse)

text \<open>What writing a candidate may have made of the target slot \<open>t\<close>: an interrupted erase or an
  unmarked image. The commit then leaves the candidate's image with anything in place of the
  marker. The other slot is as it was.\<close>

definition slot_staged :: "('m \<Rightarrow> flash_slot \<Rightarrow> u8 list) \<Rightarrow> 'm \<Rightarrow> 'm \<Rightarrow> flash_slot \<Rightarrow> bool" where
  "slot_staged cells m m1 t \<longleftrightarrow> cells m1 (other_slot t) = cells m (other_slot t) \<and>
     (partial_erase (cells m t) (cells m1 t) \<or> buf_read (cells m1 t) 444 4 = replicate 4 0xFF)"

definition slot_marked :: "('m \<Rightarrow> flash_slot \<Rightarrow> u8 list) \<Rightarrow> 'm \<Rightarrow> 'm \<Rightarrow> flash_slot \<Rightarrow> persisted_record \<Rightarrow> bool" where
  "slot_marked cells m m1 t c \<longleftrightarrow> cells m1 (other_slot t) = cells m (other_slot t) \<and>
     record_valid c \<and> take 444 (cells m1 t) = image_body c"

lemma on_driver_pending: "on_driver rd er pg m (b\<lparr>be_pending_slot := t\<rparr>) \<longleftrightarrow> on_driver rd er pg m b"
  by (simp add: on_driver_def)

text \<open>The slot the backend would overwrite, given what the medium holds.\<close>

definition target :: "('m \<Rightarrow> flash_slot \<Rightarrow> u8 list) \<Rightarrow> 'm \<Rightarrow> persisted_record \<Rightarrow> flash_slot \<Rightarrow> bool" where
  "target cells m c t \<longleftrightarrow> (\<exists>st r d so. found cells m = (GUARDIAN_NODE_LINK_PERSISTENCE_OPERATION_OK, st, r, d, so)
     \<and> write_target st r (case so of None \<Rightarrow> GUARDIAN_NODE_LINK_PERSISTENCE_SLOT_A | Some x \<Rightarrow> x) c = Inr t)"

lemma write_effect:
  assumes drv: "flash_driver rd er pg cells" and b: "on_driver rd er pg m b"
  shows "\<exists>op b1 m1. guardian_node_link_freshness_physical_backend_write_candidate (Some b) (Some c) = (op, Some b1, Some c)
    \<and> on_driver rd er pg m1 b1
    \<and> (cells m1 = cells m \<and> op \<noteq> GUARDIAN_NODE_LINK_PERSISTENCE_OPERATION_OK
       \<or> (\<exists>t. target cells m c t \<and> slot_staged cells m m1 t
            \<and> (op = GUARDIAN_NODE_LINK_PERSISTENCE_OPERATION_OK \<longrightarrow> be_pending_slot b1 = t \<and> be_pending_valid b1 = 1)))
    \<and> (reliable rd er pg \<and> target cells m c u \<and> record_valid c \<longrightarrow>
         op = GUARDIAN_NODE_LINK_PERSISTENCE_OPERATION_OK \<and> be_pending_slot b1 = u \<and> be_pending_valid b1 = 1
         \<and> take 444 (cells m1 u) = image_body c \<and> buf_read (cells m1 u) 444 4 = replicate 4 0xFF)"
proof -
  let ?b = "b\<lparr>be_pending_valid := 0\<rparr>"
  have b0: "on_driver rd er pg m ?b" using b by simp
  obtain op m1 st r d sel where rec: "r3e_recover_internal (Some ?b) (Some 0) (Some zero_record)
      (Some GUARDIAN_NODE_LINK_PERSISTENCE_RECOVERY_INVALID) (Some GUARDIAN_NODE_LINK_PERSISTENCE_SLOT_A)
      = (op, Some (backend_context (Some m1) ?b), Some st, Some r, Some d, Some sel)"
    and m1: "cells m1 = cells m"
    and fnd: "op = 1 \<longrightarrow> (\<exists>so. found cells m = (1, st, r, d, so)
        \<and> sel = (case so of None \<Rightarrow> GUARDIAN_NODE_LINK_PERSISTENCE_SLOT_A | Some x \<Rightarrow> x))"
    and rel: "reliable rd er pg \<longrightarrow> op = fst (found cells m)"
    using recover_on_driver [OF drv b0] by blast
  have goes: "op = 1 \<and> write_target st r sel c = Inr u" if "reliable rd er pg" "target cells m c u" for u
    using that rel fnd by (auto simp: target_def)
  define b1 where "b1 = backend_context (Some m1) ?b"
  have b1: "on_driver rd er pg m1 b1" using b0 by (simp add: b1_def)
  show ?thesis
  proof (cases "op = 1 \<and> (\<exists>t. write_target st r sel c = Inr t) \<and> record_valid c")
    case False
    have inl: "f \<noteq> 1" if "write_target st r sel c = Inl f" for f
      using that by (auto simp: write_target_def split: if_splits)
    obtain built img where bi: "r3e_build_staged_image c = (built, img)" by fastforce
    have nb: "record_valid c \<or> \<not> built" using build_staged_invalid [of c] bi by auto
    have "\<exists>op. guardian_node_link_freshness_physical_backend_write_candidate (Some b) (Some c)
        = (op, Some b1, Some c) \<and> op \<noteq> 1"
    proof (cases "op = 1")
      case True
      then show ?thesis
        using False inl nb
        unfolding guardian_node_link_freshness_physical_backend_write_candidate_def option.case prod.case rec
          b1_def [symmetric] option.sel bi Let_def
        by (cases "write_target st r sel c") auto
    qed (simp add: guardian_node_link_freshness_physical_backend_write_candidate_def rec b1_def Let_def)
    then show ?thesis using b1 m1 goes False by blast
  next
    case True
    then obtain t where t: "write_target st r sel c = Inr t" and v: "record_valid c" and op: "op = 1" by blast
    have tgt: "target cells m c t" using fnd op t by (auto simp: target_def)
    obtain e m2 where e: "er (Some m1) t = (e, Some m2)" "cells m2 (other_slot t) = cells m1 (other_slot t)"
      "partial_erase (cells m1 t) (cells m2 t)" "e = 1 \<longrightarrow> take 448 (cells m2 t) = replicate 448 0xFF"
      using flash_driver_erase [OF drv] by blast
    obtain p m3 where p: "pg (Some m2) t 0 (image_body c @ replicate 4 0xFF) 444 = (p, Some m3)"
      "cells m3 (other_slot t) = cells m2 (other_slot t)" "drop 444 (cells m3 t) = drop 444 (cells m2 t)"
      "p = 1 \<longrightarrow> buf_read (cells m2 t) 0 444 = replicate 444 0xFF \<longrightarrow> buf_read (cells m3 t) 0 444 = image_body c"
      using flash_driver_program [OF drv, of 0 444 "image_body c @ replicate 4 0xFF" m2 t] by auto
    define b2 where "b2 = backend_context (Some m2) b1"
    define b3 where "b3 = backend_context (Some m3) b2"
    have d: "on_driver rd er pg m2 b2" "on_driver rd er pg m3 b3" 
      using b1 by (simp_all add: b2_def b3_def on_driver_def backend_context_def)
    have bd: "md_context (be_media b1) = Some m1" "md_erase (be_media b1) = Some er"
      "md_context (be_media b2) = Some m2" "md_program (be_media b2) = Some pg"
      using b1 d by (simp_all add: on_driver_def)
    have w: "guardian_node_link_freshness_physical_backend_write_candidate (Some b) (Some c) =
        (if e \<noteq> 1 then (r3e_media_result_to_operation e, Some b2, Some c)
         else if p \<noteq> 1 then (r3e_media_result_to_operation p, Some b3, Some c)
         else (1, Some (b3\<lparr>be_pending_slot := t, be_pending_valid := 1\<rparr>), Some c))"
      using op unfolding guardian_node_link_freshness_physical_backend_write_candidate_def rec
        b1_def [symmetric] option.case prod.case option.sel t sum.case build_staged_ok [OF v] Let_def bd e(1)
        b2_def [symmetric] p(1) b3_def [symmetric]
      by simp
    have ov2: "slot_staged cells m m2 t" using e m1 by (simp add: slot_staged_def)
    have len: "448 \<le> length (cells m2 t)" using flash_driver_length [OF drv] .
    have ff: "buf_read (cells m3 t) 444 4 = replicate 4 0xFF" if "e = 1"
    proof -
      have "buf_read (cells m3 t) 444 4 = buf_read (cells m2 t) 444 4" using p(3) by (simp add: buf_read_def)
      also have "\<dots> = replicate 4 0xFF"
        using e(4) that len by (intro replicate_read [where k = 448]) auto
      finally show ?thesis .
    qed
    then have ov3: "slot_staged cells m m3 t" if "e = 1" using that e p m1 by (simp add: slot_staged_def)
    have img: "take 444 (cells m3 t) = image_body c" if "e = 1" "p = 1"
    proof -
      have "buf_read (cells m2 t) 0 444 = replicate 444 0xFF"
        using e(4) that len by (intro replicate_read [where k = 448]) auto
      then show ?thesis using p(4) that(2) by (simp add: buf_read_0)
    qed
    have rel2: "reliable rd er pg \<longrightarrow> e = 1 \<and> p = 1"
      using reliable_calls(2) [where er = er, OF _ e(1)] reliable_calls(3) [where pg = pg, OF _ _ _ p(1)] by auto
    have u: "u = t" if "reliable rd er pg" "target cells m c u" using goes [OF that] t by simp
    show ?thesis
    proof (cases "e = 1 \<and> p = 1")
      case True
      define b4 where "b4 = b3\<lparr>be_pending_slot := t, be_pending_valid := 1\<rparr>"
      have b4: "on_driver rd er pg m3 b4" "be_pending_slot b4 = t" "be_pending_valid b4 = 1"
        using d(2) by (simp_all add: b4_def on_driver_pending)
      have w4: "guardian_node_link_freshness_physical_backend_write_candidate (Some b) (Some c) = (1, Some b4, Some c)"
        using w True by (simp add: b4_def)
      show ?thesis
        using True w4 tgt ov3 b4 ff img u by (intro exI [of _ 1] exI [of _ b4] exI [of _ m3]) auto
    next
      case False
      then have n: "\<not> reliable rd er pg" using rel2 by blast
      show ?thesis
        unfolding w using False tgt ov2 ov3 d n media_failure_not_ok [of e] media_failure_not_ok [of p]
        by (cases "e = 1"; cases "p = 1") auto
    qed
  qed
qed

lemma slot_valid_iff:
  assumes "flash_driver rd er pg cells"
  shows "so_state (slot_image cells m s) = R3E_SLOT_VALID \<and> so_record (slot_image cells m s) = r \<longleftrightarrow>
    record_valid r \<and> record_normal r \<and> take 444 (cells m s) = image_body r \<and> buf_read (cells m s) 444 4 = commit_marker"
proof -
  have "448 \<le> length (cells m s)" using flash_driver_length [OF assms] .
  then show ?thesis
    unfolding slot_image_def by (subst observe_valid_iff) (simp_all add: buf_read_def drop_take)
qed

lemma verify_effect:
  assumes drv: "flash_driver rd er pg cells" and b: "on_driver rd er pg m b"
  shows "\<exists>op b1 m1. guardian_node_link_freshness_physical_backend_verify_candidate (Some b) (Some c) = (op, Some b1, Some c)
    \<and> on_driver rd er pg m1 b1 \<and> cells m1 = cells m
    \<and> be_pending_slot b1 = be_pending_slot b \<and> be_pending_valid b1 = be_pending_valid b
    \<and> (op = GUARDIAN_NODE_LINK_PERSISTENCE_OPERATION_OK \<longrightarrow> record_valid c
        \<and> take 444 (cells m (be_pending_slot b)) = image_body c
        \<and> buf_read (cells m (be_pending_slot b)) 444 4 = replicate 4 0xFF)
    \<and> (reliable rd er pg \<and> be_pending_valid b = 1 \<and> record_valid c
        \<and> take 444 (cells m (be_pending_slot b)) = image_body c
        \<and> buf_read (cells m (be_pending_slot b)) 444 4 = replicate 4 0xFF
       \<longrightarrow> op = GUARDIAN_NODE_LINK_PERSISTENCE_OPERATION_OK)"
proof (cases "be_pending_valid b = 1")
  case True
  let ?t = "be_pending_slot b"
  obtain r m1 img where r: "rd (Some m) ?t 0 (replicate 448 0) 448 = (r, Some m1, img)" "cells m1 = cells m"
    "r = 1 \<longrightarrow> img = take 448 (cells m ?t)"
    using flash_driver_read [OF drv, of "replicate 448 0" m ?t] by auto
  define b1 where "b1 = backend_context (Some m1) b"
  have b1: "on_driver rd er pg m1 b1" "be_pending_slot b1 = ?t" "be_pending_valid b1 = be_pending_valid b"
    using b by (simp_all add: b1_def)
  have bd: "md_context (be_media b) = Some m" "md_read (be_media b) = Some rd"
    using b by (simp_all add: on_driver_def)
  obtain ok d where v: "r3e_validate_body img = (ok, d)" by fastforce
  define op where "op = (if r \<noteq> 1 then r3e_media_result_to_operation r
     else if \<not> r3e_bytes_all_ff (Some (drop 444 img)) 4 \<or> \<not> ok \<or> \<not> r3e_records_equal (Some d) (Some c) then 4 else 1)"
  have eq: "guardian_node_link_freshness_physical_backend_verify_candidate (Some b) (Some c) = (op, Some b1, Some c)"
    using True unfolding guardian_node_link_freshness_physical_backend_verify_candidate_def prod.case option.case
      bd option.sel r(1) Let_def v b1_def [symmetric] op_def by simp
  have "record_valid c \<and> take 444 (cells m ?t) = image_body c \<and> buf_read (cells m ?t) 444 4 = replicate 4 0xFF" if "op = 1"
  proof -
    have o: "r = 1" "r3e_bytes_all_ff (Some (drop 444 img)) 4" "ok" "r3e_records_equal (Some d) (Some c)"
      using that media_failure_not_ok [of r] by (auto simp: op_def split: if_splits)
    then have img: "img = take 448 (cells m ?t)" using r by simp
    have l: "448 \<le> length (cells m ?t)" using flash_driver_length [OF drv] .
    have d: "record_valid d" "record_normal d" "take 444 img = image_body d"
      using validate_body_iff [of img d] v o(3) l by (simp_all add: img)
    then have c: "record_valid c" "d = normal_record c" using o(4) records_equal_iff [OF d(1,2)] by auto
    have "buf_read img 444 4 = replicate 4 0xFF" using o(2) l by (simp add: all_ff_read img)
    then show ?thesis
      using c d(3) normal_record_facts(4) [OF c(1)] by (simp add: img buf_read_def drop_take)
  qed
  moreover have "op = 1" if "reliable rd er pg" and c: "record_valid c" "take 444 (cells m ?t) = image_body c"
      "buf_read (cells m ?t) 444 4 = replicate 4 0xFF"
  proof -
    have "r = 1" using reliable_calls(1) [OF that(1) r(1)] .
    then have img: "img = take 448 (cells m ?t)" using r by simp
    have l: "448 \<le> length (cells m ?t)" using flash_driver_length [OF drv] .
    have "buf_read img 444 4 = replicate 4 0xFF" using c(3) by (simp add: img buf_read_def drop_take)
    then have "r3e_bytes_all_ff (Some (drop 444 img)) 4" using l all_ff_read [of 444 4 img] by (simp add: img)
    moreover have "r3e_validate_body img = (True, normal_record c)"
      using validate_body_iff [of img "normal_record c"] normal_record_facts(1,2,4) [OF c(1)] c(2) l by (simp add: img)
    moreover have "r3e_records_equal (Some (normal_record c)) (Some c)"
      using records_equal_iff [OF normal_record_facts(1,2) [OF c(1)]] c(1) by blast
    ultimately show ?thesis using v \<open>r = 1\<close> by (simp add: op_def)
  qed
  ultimately show ?thesis using eq b1 r(2) by blast
next
  case False
  then have "guardian_node_link_freshness_physical_backend_verify_candidate (Some b) (Some c) = (4, Some b, Some c)"
    by (simp add: guardian_node_link_freshness_physical_backend_verify_candidate_def)
  then show ?thesis using b False by (intro exI conjI) (assumption | simp)+
qed

lemma commit_effect:
  assumes drv: "flash_driver rd er pg cells" and b: "on_driver rd er pg m b"
    and pend: "be_pending_valid b = 1" "be_pending_slot b = t"
  shows "\<exists>op b1 m1. guardian_node_link_freshness_physical_backend_commit_candidate (Some b) (Some c) = (op, Some b1, Some c)
    \<and> on_driver rd er pg m1 b1 \<and> cells m1 (other_slot t) = cells m (other_slot t)
    \<and> (cells m1 = cells m \<or> record_valid c \<and> take 444 (cells m1 t) = image_body c)
    \<and> op \<in> {GUARDIAN_NODE_LINK_PERSISTENCE_OPERATION_OK, GUARDIAN_NODE_LINK_PERSISTENCE_OPERATION_VERIFY_FAILURE,
         GUARDIAN_NODE_LINK_PERSISTENCE_OPERATION_STATE_UNCERTAIN}
    \<and> (op = GUARDIAN_NODE_LINK_PERSISTENCE_OPERATION_OK \<longrightarrow> so_state (slot_image cells m1 t) = R3E_SLOT_VALID
        \<and> so_record (slot_image cells m1 t) = normal_record c)
    \<and> (reliable rd er pg \<and> record_valid c \<and> take 444 (cells m t) = image_body c
        \<and> buf_read (cells m t) 444 4 = replicate 4 0xFF \<longrightarrow> op = GUARDIAN_NODE_LINK_PERSISTENCE_OPERATION_OK)"
proof -
  obtain op1 b1 m1 where v: "guardian_node_link_freshness_physical_backend_verify_candidate (Some b) (Some c) = (op1, Some b1, Some c)"
    and b1: "on_driver rd er pg m1 b1" and m1: "cells m1 = cells m" and p1: "be_pending_slot b1 = t"
    and ok: "op1 = 1 \<longrightarrow> record_valid c \<and> take 444 (cells m t) = image_body c \<and> buf_read (cells m t) 444 4 = replicate 4 0xFF"
    and rel: "reliable rd er pg \<and> record_valid c \<and> take 444 (cells m t) = image_body c
        \<and> buf_read (cells m t) 444 4 = replicate 4 0xFF \<longrightarrow> op1 = 1"
    using verify_effect [OF drv b, of c] pend by blast
  show ?thesis
  proof (cases "op1 = 1")
    case False
    then have "guardian_node_link_freshness_physical_backend_commit_candidate (Some b) (Some c)
        = (4, Some (b1\<lparr>be_pending_valid := 0\<rparr>), Some c)"
      using pend by (simp add: guardian_node_link_freshness_physical_backend_commit_candidate_def v)
    moreover have "on_driver rd er pg m1 (b1\<lparr>be_pending_valid := 0\<rparr>)" using b1 by simp
    ultimately show ?thesis using m1 rel False by (intro exI conjI) (assumption | blast | simp)+
  next
    case True
    obtain r m2 where r: "pg (Some m1) t 444 commit_marker 4 = (r, Some m2)"
      "cells m2 (other_slot t) = cells m1 (other_slot t)" "take 444 (cells m2 t) = take 444 (cells m1 t)"
      "r = 1 \<longrightarrow> buf_read (cells m1 t) 444 4 = replicate 4 0xFF \<longrightarrow> buf_read (cells m2 t) 444 4 = commit_marker"
      using flash_driver_program [OF drv, of 444 4 commit_marker m1 t] by (auto simp: commit_marker_def)
    define b2 where "b2 = backend_context (Some m2) b1"
    have b2: "on_driver rd er pg m2 b2" "be_pending_slot b2 = t"
      using b1 p1 by (simp_all add: b2_def on_driver_def backend_context_def)
    obtain sc m3 obs where s: "r3e_scan_slot b2 t = (sc, backend_context (Some m3) b2, obs)" "cells m3 = cells m2"
      "sc = 1 \<longrightarrow> obs = slot_image cells m2 t" "reliable rd er pg \<longrightarrow> sc = 1"
      using scan_on_driver [OF drv b2(1)] by blast
    define b3 where "b3 = backend_context (Some m3) b2"
    have b3: "on_driver rd er pg m3 b3" using b2 by (simp add: b3_def on_driver_def backend_context_def)
    have bd: "md_context (be_media b1) = Some m1" "md_program (be_media b1) = Some pg"
      using b1 by (simp_all add: on_driver_def)
    define op where "op = (if r \<noteq> 1 \<or> sc \<noteq> 1 \<or> so_state obs \<noteq> R3E_SLOT_VALID
      \<or> \<not> r3e_records_equal (Some (so_record obs)) (Some c) then (6::c_enum) else 1)"
    have eq: "guardian_node_link_freshness_physical_backend_commit_candidate (Some b) (Some c)
        = (op, Some ((if r \<noteq> 1 then b2 else b3)\<lparr>be_pending_valid := 0\<rparr>), Some c)"
      using pend True unfolding guardian_node_link_freshness_physical_backend_commit_candidate_def prod.case option.case
        v Let_def option.sel p1 bd r(1) b2_def [symmetric] b2(2) s(1) b3_def [symmetric] op_def by simp
    have fin: "on_driver rd er pg (if r \<noteq> 1 then m2 else m3) ((if r \<noteq> 1 then b2 else b3)\<lparr>be_pending_valid := 0\<rparr>)"
      using b2 b3 by simp
    have cells: "cells (if r \<noteq> 1 then m2 else m3) = cells m2" using s(2) by simp
    have "so_state (slot_image cells m2 t) = R3E_SLOT_VALID \<and> so_record (slot_image cells m2 t) = normal_record c"
      if "op = 1"
    proof -
      have o: "obs = slot_image cells m2 t" "so_state obs = R3E_SLOT_VALID" "r3e_records_equal (Some (so_record obs)) (Some c)"
        using that s(3) by (auto simp: op_def split: if_splits)
      then have "record_valid (so_record obs)" "record_normal (so_record obs)"
        using observe_valid_iff [of "take 448 (cells m2 t)" "so_record obs"] flash_driver_length [OF drv, of m2 t]
        by (simp_all add: slot_image_def)
      then show ?thesis using o records_equal_iff by auto
    qed
    moreover have "op = 1" if rl: "reliable rd er pg"
    proof -
      have r1: "r = 1" using reliable_calls(3) [OF rl, of 444 4 commit_marker, OF _ _ r(1)] by (simp add: commit_marker_def)
      have c: "record_valid c" "take 444 (cells m2 t) = image_body c" "buf_read (cells m2 t) 444 4 = commit_marker"
        using ok True r m1 r1 by auto
      have "so_state (slot_image cells m2 t) = R3E_SLOT_VALID \<and> so_record (slot_image cells m2 t) = normal_record c"
        using slot_valid_iff [OF drv, of m2 t "normal_record c"] normal_record_facts(1,2,4) [OF c(1)] c(2,3) by argo
      then show ?thesis
        using r1 s(3,4) rl c(1) records_equal_iff [OF normal_record_facts(1,2) [OF c(1)]] by (simp add: op_def)
    qed
    moreover have "slot_image cells (if r \<noteq> 1 then m2 else m3) = slot_image cells m2"
      by (intro ext) (simp only: slot_image_def cells)
    ultimately show ?thesis
      using eq fin cells r m1 ok True by (intro exI conjI) (assumption | simp | simp add: op_def)+
  qed
qed

section \<open>The transaction on the backend\<close>

text \<open>A stage whose callback leaves the candidate alone succeeds only if the callback did, keeps the
  outcome then, and never reports a commit otherwise.\<close>

lemma stage_facts:
  assumes "callback ctx (Some c) = (a, ctx1, Some c)"
    and "transact_stage stage callback ctx c c expected (Some GUARDIAN_NODE_LINK_PERSISTENCE_TRANSACTION_INVALID) = (r, ctx2, t, out)"
  shows "ctx2 = ctx1 \<and> t = c \<and> out \<noteq> Some GUARDIAN_NODE_LINK_PERSISTENCE_TRANSACTION_COMMITTED
    \<and> (r = GUARDIAN_NODE_LINK_PERSISTENCE_OPERATION_OK \<longrightarrow> a = GUARDIAN_NODE_LINK_PERSISTENCE_OPERATION_OK
        \<and> out = Some GUARDIAN_NODE_LINK_PERSISTENCE_TRANSACTION_INVALID)"
  using assms by (auto simp: transact_stage_def guardian_node_link_freshness_persistence_handle_stage_result_def Let_def
      split: if_splits)

lemma commit_stage_not_aborted:
  assumes "callback ctx (Some c) = (a, ctx1, Some c)"
    and "a \<in> {GUARDIAN_NODE_LINK_PERSISTENCE_OPERATION_OK, GUARDIAN_NODE_LINK_PERSISTENCE_OPERATION_VERIFY_FAILURE,
         GUARDIAN_NODE_LINK_PERSISTENCE_OPERATION_STATE_UNCERTAIN}"
    and "transact_stage GUARDIAN_NODE_LINK_PERSISTENCE_STAGE_COMMIT callback ctx c c expected
        (Some GUARDIAN_NODE_LINK_PERSISTENCE_TRANSACTION_INVALID) = (r, ctx2, t, out)"
  shows "out \<noteq> Some GUARDIAN_NODE_LINK_PERSISTENCE_TRANSACTION_ABORTED"
  using assms by (auto simp: transact_stage_def guardian_node_link_freshness_persistence_handle_stage_result_def
      guardian_node_link_freshness_persistence_result_valid_for_stage_def Let_def split: if_splits)

lemma transaction_effect:
  assumes drv: "flash_driver rd er pg cells" and b: "on_driver rd er pg m b"
    and prov: "guardian_node_link_freshness_physical_backend_make_provider (Some b) (Some p0)
      = (GUARDIAN_NODE_LINK_PERSISTENCE_OPERATION_OK, Some p)"
    and run: "guardian_node_link_freshness_persistence_transact_commit (Some p) prev (Some expected) (Some c) (Some out0)
      = (res, Some p1, Some out)"
  shows "\<exists>b1 m1. pv_context p1 = Some b1 \<and> on_driver rd er pg m1 b1
    \<and> (cells m1 = cells m \<and> out \<noteq> GUARDIAN_NODE_LINK_PERSISTENCE_TRANSACTION_COMMITTED
       \<or> (\<exists>t. target cells m c t
            \<and> (slot_staged cells m m1 t
               \<or> slot_marked cells m m1 t c \<and> out \<noteq> GUARDIAN_NODE_LINK_PERSISTENCE_TRANSACTION_ABORTED)
            \<and> (out = GUARDIAN_NODE_LINK_PERSISTENCE_TRANSACTION_COMMITTED \<longrightarrow>
                 so_state (slot_image cells m1 t) = R3E_SLOT_VALID
                 \<and> so_record (slot_image cells m1 t) = normal_record c)))"
proof -
  have p: "pv_context p = Some b" "pv_load p = Some guardian_node_link_freshness_physical_backend_load"
    "pv_write_candidate p = Some guardian_node_link_freshness_physical_backend_write_candidate"
    "pv_verify_candidate p = Some guardian_node_link_freshness_physical_backend_verify_candidate"
    "pv_commit_candidate p = Some guardian_node_link_freshness_physical_backend_commit_candidate"
    using prov by (auto simp: guardian_node_link_freshness_physical_backend_make_provider_def)
  note unfolds = run [unfolded guardian_node_link_freshness_persistence_transact_commit_def Let_def option.map
      prod.case option.case p]
  let ?none = "Some GUARDIAN_NODE_LINK_PERSISTENCE_TRANSACTION_INVALID"
  show ?thesis
  proof (cases "transact_precheck prev (Some expected) c")
    case (Some early)
    then have "p1 = p" "out \<noteq> GUARDIAN_NODE_LINK_PERSISTENCE_TRANSACTION_COMMITTED"
      using unfolds by (auto simp: transact_precheck_def Let_def split: if_splits prod.splits)
    then show ?thesis using p b by blast
  next
    case None
    obtain a1 b1 m1 where w: "guardian_node_link_freshness_physical_backend_write_candidate (Some b) (Some c) = (a1, Some b1, Some c)"
      and b1: "on_driver rd er pg m1 b1"
      and m1: "cells m1 = cells m \<and> a1 \<noteq> 1 \<or> (\<exists>t. target cells m c t \<and> slot_staged cells m m1 t
            \<and> (a1 = 1 \<longrightarrow> be_pending_slot b1 = t \<and> be_pending_valid b1 = 1))"
      using write_effect [OF drv b, of c] by blast
    obtain r1 x1 t1 o1 where s1: "transact_stage GUARDIAN_NODE_LINK_PERSISTENCE_STAGE_WRITE
        guardian_node_link_freshness_physical_backend_write_candidate (Some b) c c (Some expected) ?none = (r1, x1, t1, o1)"
      by (metis prod_cases4)
    note f1 = stage_facts [OF w s1]
    show ?thesis
    proof (cases "r1 = 1")
      case False
      then have "pv_context p1 = Some b1" "Some out = o1"
        using unfolds None s1 f1 by auto
      then show ?thesis using b1 m1 f1 by blast
    next
      case r1: True
      then obtain t where t: "target cells m c t" "slot_staged cells m m1 t" "be_pending_slot b1 = t" "be_pending_valid b1 = 1"
        using m1 f1 by blast
      obtain a2 b2 m2 where v: "guardian_node_link_freshness_physical_backend_verify_candidate (Some b1) (Some c) = (a2, Some b2, Some c)"
        and b2: "on_driver rd er pg m2 b2" "cells m2 = cells m1" "be_pending_slot b2 = t" "be_pending_valid b2 = 1"
        using verify_effect [OF drv b1, of c] t by metis
      obtain r2 x2 t2 o2 where s2: "transact_stage GUARDIAN_NODE_LINK_PERSISTENCE_STAGE_VERIFY
          guardian_node_link_freshness_physical_backend_verify_candidate (Some b1) c c (Some expected) ?none = (r2, x2, t2, o2)"
        by (metis prod_cases4)
      note f2 = stage_facts [OF v s2]
      have ov2: "slot_staged cells m m2 t" using t b2 by (simp add: slot_staged_def)
      obtain a3 b3 m3 where k: "guardian_node_link_freshness_physical_backend_commit_candidate (Some b2) (Some c) = (a3, Some b3, Some c)"
        and b3: "on_driver rd er pg m3 b3" "cells m3 (other_slot t) = cells m2 (other_slot t)"
          "cells m3 = cells m2 \<or> record_valid c \<and> take 444 (cells m3 t) = image_body c" "a3 \<in> {1, 4, 6}"
        and fin: "a3 = 1 \<longrightarrow> so_state (slot_image cells m3 t) = R3E_SLOT_VALID \<and> so_record (slot_image cells m3 t) = normal_record c"
        using commit_effect [OF drv b2(1) b2(4,3), of c] by metis
      obtain r3 x3 t3 o3 where s3: "transact_stage GUARDIAN_NODE_LINK_PERSISTENCE_STAGE_COMMIT
          guardian_node_link_freshness_physical_backend_commit_candidate (Some b2) c c (Some expected) ?none = (r3, x3, t3, o3)"
        by (metis prod_cases4)
      note f3 = stage_facts [OF k s3] commit_stage_not_aborted [OF k b3(4) s3]
      have ov3: "slot_staged cells m m3 t \<or> slot_marked cells m m3 t c" using ov2 b3 by (auto simp: slot_staged_def slot_marked_def)
      show ?thesis
      proof (cases "r2 = 1")
        case False
        then have "pv_context p1 = Some b2" "Some out = o2"
          using unfolds None s1 f1 r1 s2 f2 by auto
        then show ?thesis using b2(1) t(1) ov2 f2 by blast
      next
        case True
        then have "pv_context p1 = Some b3" "out = GUARDIAN_NODE_LINK_PERSISTENCE_TRANSACTION_COMMITTED \<longrightarrow> a3 = 1"
          "out \<noteq> GUARDIAN_NODE_LINK_PERSISTENCE_TRANSACTION_ABORTED"
          using unfolds None s1 f1 r1 s2 f2 s3 f3 by (auto split: if_splits)
        then show ?thesis using b3(1) t(1) ov3 fin by blast
      qed
    qed
  qed
qed

section \<open>What a recovery finds afterwards\<close>

text \<open>The medium holds a status and a record: what a recovery whose reads succeed reports.\<close>

definition medium_holds :: "('m \<Rightarrow> flash_slot \<Rightarrow> u8 list) \<Rightarrow> 'm \<Rightarrow> c_enum \<Rightarrow> persisted_record \<Rightarrow> bool" where
  "medium_holds cells m st r \<longleftrightarrow>
     (\<exists>d so. found cells m = (GUARDIAN_NODE_LINK_PERSISTENCE_OPERATION_OK, st, r, d, so))"

text \<open>The integrity hash does its work on interrupted erases: setting some bytes of a stored image to
  0xFF does not give a valid image with another record.\<close>

definition no_erase_forgery :: "('m \<Rightarrow> flash_slot \<Rightarrow> u8 list) \<Rightarrow> 'm \<Rightarrow> bool" where
  "no_erase_forgery cells m \<longleftrightarrow> (\<forall>s new. partial_erase (cells m s) new \<longrightarrow>
     so_state (observe_image (take 448 new)) = R3E_SLOT_VALID \<longrightarrow>
     observe_image (take 448 new) = observe_image (take 448 (cells m s)))"

lemma slot_states:
  "flash_driver rd er pg cells \<Longrightarrow> so_state (slot_image cells m s) \<in>
    {R3E_SLOT_ERASED, R3E_SLOT_TORN, R3E_SLOT_CORRUPTED, R3E_SLOT_VALID}"
  unfolding slot_image_def using flash_driver_length [of rd er pg cells m s] by (intro observe_states) simp

lemma slot_unmarked:
  assumes "flash_driver rd er pg cells" "buf_read (cells m s) 444 4 = replicate 4 0xFF"
  shows "so_state (slot_image cells m s) \<in> {R3E_SLOT_ERASED, R3E_SLOT_TORN}"
  unfolding slot_image_def
  using assms flash_driver_length [OF assms(1), of m s]
  by (intro observe_unmarked) (simp_all add: buf_read_def drop_take)

lemma erased_stays_erased:
  assumes drv: "flash_driver rd er pg cells" and e: "so_state (slot_image cells m s) = R3E_SLOT_ERASED"
    and p: "partial_erase (cells m s) (cells m1 s)"
  shows "so_state (slot_image cells m1 s) = R3E_SLOT_ERASED"
proof -
  have l: "448 \<le> length (cells m s)" "448 \<le> length (cells m1 s)" using flash_driver_length [OF drv] by auto
  have "take 448 (cells m s) = replicate 448 0xFF"
    using e l by (simp add: slot_image_def observe_erased_iff)
  then have "cells m s ! i = 0xFF" if "i < 448" for i
    using that by (metis nth_replicate nth_take)
  then have "cells m1 s ! i = 0xFF" if "i < 448" for i
    using that p l by (metis order.strict_trans2 partial_erase_def)
  then have "take 448 (cells m1 s) = replicate 448 0xFF"
    using l by (intro nth_equalityI) auto
  then show ?thesis using l by (simp add: slot_image_def observe_erased_iff)
qed

text \<open>The candidate's target: either nothing is stored and both slots are erased, or the other slot
  holds the current record and the candidate is its successor.\<close>

lemma target_cases:
  assumes "target cells m c t"
  obtains (fresh) "\<And>s. so_state (slot_image cells m s) = R3E_SLOT_ERASED"
      "medium_holds cells m GUARDIAN_NODE_LINK_PERSISTENCE_STATUS_NO_PERSISTED_STATE zero_record"
    | (succ) p where "so_state (slot_image cells m (other_slot t)) = R3E_SLOT_VALID"
      "so_record (slot_image cells m (other_slot t)) = p"
      "medium_holds cells m GUARDIAN_NODE_LINK_PERSISTENCE_STATUS_VALID_PERSISTED_STATE p"
      "r3e_transition_is_adjacent (Some p) (Some c)"
proof -
  obtain st r d so where f: "found cells m = (GUARDIAN_NODE_LINK_PERSISTENCE_OPERATION_OK, st, r, d, so)"
    and w: "write_target st r (case so of None \<Rightarrow> GUARDIAN_NODE_LINK_PERSISTENCE_SLOT_A | Some x \<Rightarrow> x) c = Inr t"
    using assms by (auto simp: target_def)
  have "st = GUARDIAN_NODE_LINK_PERSISTENCE_STATUS_NO_PERSISTED_STATE
      \<or> st = GUARDIAN_NODE_LINK_PERSISTENCE_STATUS_VALID_PERSISTED_STATE"
    using w by (auto simp: write_target_def split: if_splits)
  then show thesis
  proof
    assume st: "st = GUARDIAN_NODE_LINK_PERSISTENCE_STATUS_NO_PERSISTED_STATE"
    have e: "so_state (slot_image cells m s) = R3E_SLOT_ERASED" for s
      using found_no_state_inv [OF f [unfolded st]] .
    then have "r = zero_record" using f by (simp add: found_def select_record_def)
    then show thesis using fresh e f st by (auto simp: medium_holds_def)
  next
    assume st: "st = GUARDIAN_NODE_LINK_PERSISTENCE_STATUS_VALID_PERSISTED_STATE"
    obtain s where s: "so = Some s" "so_state (slot_image cells m s) = R3E_SLOT_VALID" "r = so_record (slot_image cells m s)"
      using found_valid_inv [OF f [unfolded st]] by blast
    have "t = other_slot s" "r3e_transition_is_adjacent (Some r) (Some c)"
      using w s by (auto simp: write_target_def st split: if_splits)
    then show thesis using succ [of r] s f st by (auto simp: medium_holds_def)
  qed
qed

lemma slot_image_cong: "cells m1 s = cells m s \<Longrightarrow> slot_image cells m1 s = slot_image cells m s"
  by (simp add: slot_image_def)

lemma staged_outcome:
  assumes drv: "flash_driver rd er pg cells" and t: "target cells m c t" and s: "slot_staged cells m m1 t"
    and nf: "no_erase_forgery cells m" and h: "medium_holds cells m1 st r"
  shows "(st = GUARDIAN_NODE_LINK_PERSISTENCE_STATUS_VALID_PERSISTED_STATE \<longrightarrow> medium_holds cells m st r)
    \<and> (st = GUARDIAN_NODE_LINK_PERSISTENCE_STATUS_NO_PERSISTED_STATE \<longrightarrow> medium_holds cells m st r)"
  using t
proof (cases rule: target_cases)
  case fresh
  have "so_state (slot_image cells m1 t) \<in> {R3E_SLOT_ERASED, R3E_SLOT_TORN}"
    using s erased_stays_erased [OF drv fresh(1) [of t], of m1] slot_unmarked [OF drv, of m1 t]
    unfolding slot_staged_def by blast
  moreover have "so_state (slot_image cells m1 (other_slot t)) = R3E_SLOT_ERASED"
    using s fresh(1) slot_image_cong [of cells m1 "other_slot t" m] by (simp add: slot_staged_def)
  ultimately have "st \<noteq> 1" "st = 2 \<longrightarrow> r = zero_record"
    using h by (cases t; auto simp: medium_holds_def found_def select_record_def other_slot_def)+
  then show ?thesis using fresh(2) by auto
next
  case (succ p)
  have o: "slot_image cells m1 (other_slot t) = slot_image cells m (other_slot t)"
    using s slot_image_cong [of cells m1 "other_slot t" m] by (simp add: slot_staged_def)
  have keep: ?thesis if "so_state (slot_image cells m1 t) \<in> {R3E_SLOT_ERASED, R3E_SLOT_TORN}"
    using found_valid_torn [of cells m1 "other_slot t"] that succ o h by (auto simp: medium_holds_def)
  have corrupt: ?thesis if "so_state (slot_image cells m1 t) = R3E_SLOT_CORRUPTED"
    using found_valid_corrupted [of cells m1 "other_slot t"] that succ o h by (auto simp: medium_holds_def)
  have forge: ?thesis if v: "so_state (slot_image cells m1 t) = R3E_SLOT_VALID" and pe: "partial_erase (cells m t) (cells m1 t)"
  proof -
    have "slot_image cells m1 t = slot_image cells m t"
      using nf pe v unfolding no_erase_forgery_def slot_image_def by blast
    then have "found cells m1 = found cells m" using o by (cases t) (simp_all add: found_def other_slot_def)
    then show ?thesis using h by (auto simp: medium_holds_def)
  qed
  show ?thesis
    using s keep corrupt forge slot_unmarked [OF drv, of m1 t] slot_states [OF drv, of m1 t]
    unfolding slot_staged_def by blast
qed

lemma candidate_found:
  assumes drv: "flash_driver rd er pg cells" and t: "target cells m c t"
    and o: "cells m1 (other_slot t) = cells m (other_slot t)"
    and v: "so_state (slot_image cells m1 t) = R3E_SLOT_VALID" "so_record (slot_image cells m1 t) = normal_record c"
    and h: "found cells m1 = (op, st, r, d, so)"
  shows "op = GUARDIAN_NODE_LINK_PERSISTENCE_OPERATION_OK
    \<and> st = GUARDIAN_NODE_LINK_PERSISTENCE_STATUS_VALID_PERSISTED_STATE \<and> r = normal_record c"
  using t
proof (cases rule: target_cases)
  case fresh
  have "so_state (slot_image cells m1 (other_slot t)) = R3E_SLOT_ERASED"
    using fresh(1) slot_image_cong [where cells = cells, OF o] by simp
  then show ?thesis using found_valid_torn [of cells m1 t] v h by auto
next
  case (succ p)
  have i: "slot_image cells m1 (other_slot t) = slot_image cells m (other_slot t)" using slot_image_cong [where cells = cells, OF o] .
  have "record_normal p" using succ(1,2) slot_valid_iff [OF drv] by blast
  then have "r3e_transition_is_adjacent (Some p) (Some (normal_record c))" using adjacent_normal succ(4) by blast
  then show ?thesis
    using found_valid_valid [of cells m1 "other_slot t"] v succ(1,2) i h adjacent_generation by auto
qed

lemma marked_outcome:
  assumes drv: "flash_driver rd er pg cells" and t: "target cells m c t" and s: "slot_marked cells m m1 t c"
    and h: "medium_holds cells m1 st r"
  shows "(st = GUARDIAN_NODE_LINK_PERSISTENCE_STATUS_VALID_PERSISTED_STATE \<longrightarrow> r = normal_record c \<or> medium_holds cells m st r)
    \<and> st \<noteq> GUARDIAN_NODE_LINK_PERSISTENCE_STATUS_NO_PERSISTED_STATE"
proof (cases "so_state (slot_image cells m1 t) = R3E_SLOT_VALID")
  case True
  have c: "record_valid c" "take 444 (cells m1 t) = image_body c" "cells m1 (other_slot t) = cells m (other_slot t)"
    using s by (auto simp: slot_marked_def)
  have b: "buf_read (cells m1 t) 444 4 = commit_marker" using True slot_valid_iff [OF drv] by blast
  have "so_record (slot_image cells m1 t) = normal_record c"
    using slot_valid_iff [OF drv, of m1 t "normal_record c"] normal_record_facts(1,2,4) [OF c(1)] c(2) b by argo
  moreover obtain d so where "found cells m1 = (1, st, r, d, so)" using h by (auto simp: medium_holds_def)
  ultimately have "st = 1 \<and> r = normal_record c" using candidate_found [OF drv t c(3) True] by blast
  then show ?thesis by simp
next
  case False
  have ne: "so_state (slot_image cells m1 t) \<noteq> R3E_SLOT_ERASED"
  proof
    assume e: "so_state (slot_image cells m1 t) = R3E_SLOT_ERASED"
    have "take 448 (cells m1 t) = replicate 448 0xFF"
      using e flash_driver_length [OF drv, of m1 t] by (simp add: slot_image_def observe_erased_iff)
    then have "cells m1 t ! 0 = 0xFF" by (metis nth_replicate nth_take zero_less_numeral)
    moreover have "cells m1 t ! 0 = image_body c ! 0" using s by (metis slot_marked_def nth_take zero_less_numeral)
    ultimately show False by (simp add: image_body_def image_header_def)
  qed
  have o: "slot_image cells m1 (other_slot t) = slot_image cells m (other_slot t)"
    using s slot_image_cong [of cells m1 "other_slot t" m] by (simp add: slot_marked_def)
  from t show ?thesis
  proof (cases rule: target_cases)
    case fresh
    then have e: "so_state (slot_image cells m1 (other_slot t)) = R3E_SLOT_ERASED" using o by simp
    obtain d so where "found cells m1 = (1, st, r, d, so)" using h by (auto simp: medium_holds_def)
    then show ?thesis using found_erased_peer [OF e] False ne by auto
  next
    case (succ p)
    have "so_state (slot_image cells m1 t) \<in> {R3E_SLOT_TORN, R3E_SLOT_CORRUPTED}"
      using False ne slot_states [OF drv, of m1 t] by blast
    then show ?thesis
      using found_valid_torn [of cells m1 "other_slot t"] found_valid_corrupted [of cells m1 "other_slot t"] succ o h
      by (auto simp: medium_holds_def)
  qed
qed

lemma public_recover:
  assumes drv: "flash_driver rd er pg cells" and b: "on_driver rd er pg m b"
  shows "\<exists>op b1 st r d. guardian_node_link_freshness_physical_backend_recover (Some b) (Some s0) (Some r0) (Some d0)
      = (op, Some b1, Some st, Some r, Some d)
    \<and> (op = GUARDIAN_NODE_LINK_PERSISTENCE_OPERATION_OK \<longrightarrow> medium_holds cells m st r)
    \<and> (reliable rd er pg \<longrightarrow> op = fst (found cells m))"
proof -
  obtain op m1 st r d sel where rec: "r3e_recover_internal (Some b) (Some s0) (Some r0) (Some d0)
      (Some GUARDIAN_NODE_LINK_PERSISTENCE_SLOT_A) = (op, Some (backend_context (Some m1) b), Some st, Some r, Some d, Some sel)"
    and f: "op = 1 \<longrightarrow> (\<exists>so. found cells m = (1, st, r, d, so))" "reliable rd er pg \<longrightarrow> op = fst (found cells m)"
    using recover_on_driver [OF drv b] by blast
  have "guardian_node_link_freshness_physical_backend_recover (Some b) (Some s0) (Some r0) (Some d0)
      = (op, Some (backend_context (Some m1) b), Some st, Some r, Some d)"
    using rec by (auto simp: guardian_node_link_freshness_physical_backend_recover_def r3e_recover_internal_def Let_def
        split: prod.splits if_splits)
  then show ?thesis using f by (auto simp: medium_holds_def)
qed

section \<open>A transaction on a driver that does not fail\<close>

lemma validate_record_ok:
  "guardian_node_link_freshness_persistence_validate_record (Some r) (Some i) = GUARDIAN_NODE_LINK_PERSISTENCE_OPERATION_OK
   \<longleftrightarrow> record_valid r \<and> guardian_node_link_freshness_identity_structurally_valid (Some i)
     \<and> guardian_node_link_freshness_identity_equal (Some (pr_identity r)) (Some i)"
  by (auto simp: guardian_node_link_freshness_persistence_validate_record_def record_valid_def
      guardian_node_link_freshness_persistence_classify_def Let_def)

lemma record_equal_refl: "guardian_node_link_freshness_persistence_record_equal (Some r) (Some r)"
  by (simp add: guardian_node_link_freshness_persistence_record_equal_def
      guardian_node_link_freshness_persistence_identity_equal_def c_strncmp_equal_def)

lemma stage_ok:
  assumes "callback ctx (Some c) = (GUARDIAN_NODE_LINK_PERSISTENCE_OPERATION_OK, ctx1, Some c)"
    and "guardian_node_link_freshness_persistence_validate_record (Some c) expected = GUARDIAN_NODE_LINK_PERSISTENCE_OPERATION_OK"
  shows "transact_stage stage callback ctx c c expected (Some out) = (GUARDIAN_NODE_LINK_PERSISTENCE_OPERATION_OK, ctx1, c, Some out)"
  using assms by (cases stage) (simp_all add: transact_stage_def guardian_node_link_freshness_persistence_handle_stage_result_def
      guardian_node_link_freshness_persistence_result_valid_for_stage_def
      guardian_node_link_freshness_persistence_result_valid_def record_equal_refl)

text \<open>The next record: the first one on an empty medium, or the successor of the stored one.\<close>

definition next_record :: "('m \<Rightarrow> flash_slot \<Rightarrow> u8 list) \<Rightarrow> 'm \<Rightarrow> persisted_record ptr \<Rightarrow> persisted_record \<Rightarrow> bool" where
  "next_record cells m prev c \<longleftrightarrow> record_valid c \<and>
     (case prev of
        None \<Rightarrow> medium_holds cells m GUARDIAN_NODE_LINK_PERSISTENCE_STATUS_NO_PERSISTED_STATE zero_record
          \<and> pr_record_generation c = 0
      | Some p \<Rightarrow> medium_holds cells m GUARDIAN_NODE_LINK_PERSISTENCE_STATUS_VALID_PERSISTED_STATE p
          \<and> r3e_transition_is_adjacent (Some p) (Some c))"

lemma next_record_target:
  assumes "next_record cells m prev c"
  shows "\<exists>t. target cells m c t"
proof (cases prev)
  case None
  then obtain d so where "found cells m = (1, 2, zero_record, d, so)"
    using assms by (auto simp: next_record_def medium_holds_def)
  moreover have "write_target 2 zero_record x c = Inr GUARDIAN_NODE_LINK_PERSISTENCE_SLOT_A" for x
    using assms None by (simp add: write_target_def next_record_def)
  ultimately show ?thesis unfolding target_def by blast
next
  case (Some p)
  then obtain d so where "found cells m = (1, 1, p, d, so)"
    using assms by (auto simp: next_record_def medium_holds_def)
  moreover have adj: "r3e_transition_is_adjacent (Some p) (Some c)" using assms Some by (simp add: next_record_def)
  moreover have "pr_record_generation p \<noteq> 0xFFFFFFFF"
    using adj by (simp add: r3e_transition_is_adjacent_def split: if_splits)
  then have "write_target 1 p x c = Inr (other_slot x)" for x
    using adj by (simp add: write_target_def)
  ultimately show ?thesis unfolding target_def by blast
qed

lemma adjacent_identity_equal:
  assumes "r3e_transition_is_adjacent (Some p) (Some c)"
  shows "guardian_node_link_freshness_identity_equal (Some (pr_identity p)) (Some (pr_identity c))"
proof -
  have c_str: "c_strncmp_equal a b 96" if "take 96 a = take 96 b" for a b
    using that by (simp add: c_strncmp_equal_def c_string_def)
  have "r3e_identity_equal (pr_identity p) (pr_identity c)"
    using assms by (simp add: r3e_transition_is_adjacent_def split: if_splits)
  then show ?thesis
    unfolding r3e_identity_equal_def guardian_node_link_freshness_identity_equal_def
    using c_str by (auto split: if_splits)
qed

lemma next_record_precheck:
  assumes drv: "flash_driver rd er pg cells" and n: "next_record cells m prev c"
  shows "transact_precheck prev (Some (pr_identity c)) c = None"
    "guardian_node_link_freshness_persistence_validate_record (Some c) (Some (pr_identity c)) = GUARDIAN_NODE_LINK_PERSISTENCE_OPERATION_OK"
proof -
  have v: "record_valid c" using n by (simp add: next_record_def)
  then have s: "guardian_node_link_freshness_identity_structurally_valid (Some (pr_identity c))" by (simp add: record_valid_def)
  have refl: "guardian_node_link_freshness_identity_equal (Some (pr_identity c)) (Some (pr_identity c))"
    by (simp add: guardian_node_link_freshness_identity_equal_def c_strncmp_equal_def)
  show vc: "guardian_node_link_freshness_persistence_validate_record (Some c) (Some (pr_identity c)) = 1"
    using v s refl by (simp add: validate_record_ok)
  show "transact_precheck prev (Some (pr_identity c)) c = None"
  proof (cases prev)
    case None
    then show ?thesis
      using n vc by (simp add: transact_precheck_def next_record_def guardian_node_link_freshness_persistence_next_generation_def
          guardian_node_link_freshness_persistence_transition_valid_def)
  next
    case (Some p)
    then have h: "medium_holds cells m 1 p" and adj: "r3e_transition_is_adjacent (Some p) (Some c)"
      using n by (simp_all add: next_record_def)
    obtain d so where f: "found cells m = (1, 1, p, d, so)" using h by (auto simp: medium_holds_def)
    obtain sl where "so_state (slot_image cells m sl) = R3E_SLOT_VALID" "p = so_record (slot_image cells m sl)"
      using found_valid_inv [OF f] by blast
    then have "record_valid p" using slot_valid_iff [OF drv] by blast
    then have "guardian_node_link_freshness_persistence_validate_record (Some p) (Some (pr_identity c)) = 1"
      using s adjacent_identity_equal [OF adj] by (simp add: validate_record_ok)
    then show ?thesis
      using vc Some adj by (auto simp: transact_precheck_def guardian_node_link_freshness_persistence_next_generation_def
          guardian_node_link_freshness_persistence_transition_valid_def r3e_transition_is_adjacent_def split: if_splits)
  qed
qed

lemma reliable_transaction:
  assumes drv: "flash_driver rd er pg cells" and rel: "reliable rd er pg" and b: "on_driver rd er pg m b"
    and prov: "guardian_node_link_freshness_physical_backend_make_provider (Some b) (Some p0)
      = (GUARDIAN_NODE_LINK_PERSISTENCE_OPERATION_OK, Some p)"
    and n: "next_record cells m prev c"
  shows "\<exists>b1. guardian_node_link_freshness_persistence_transact_commit (Some p) prev (Some (pr_identity c)) (Some c) (Some out0)
      = (GUARDIAN_NODE_LINK_PERSISTENCE_OPERATION_OK, Some (p\<lparr>pv_context := Some b1\<rparr>),
         Some GUARDIAN_NODE_LINK_PERSISTENCE_TRANSACTION_COMMITTED)"
proof -
  obtain t where t: "target cells m c t" using next_record_target [OF n] by blast
  have v: "record_valid c" using n by (simp add: next_record_def)
  note pre = next_record_precheck [OF drv n]
  obtain b1 m1 where w: "guardian_node_link_freshness_physical_backend_write_candidate (Some b) (Some c) = (1, Some b1, Some c)"
    and b1: "on_driver rd er pg m1 b1" "be_pending_slot b1 = t" "be_pending_valid b1 = 1"
      "take 444 (cells m1 t) = image_body c" "buf_read (cells m1 t) 444 4 = replicate 4 0xFF"
    using write_effect [OF drv b, of c t] rel t v by blast
  obtain b2 m2 where vf: "guardian_node_link_freshness_physical_backend_verify_candidate (Some b1) (Some c) = (1, Some b2, Some c)"
    and b2: "on_driver rd er pg m2 b2" "cells m2 = cells m1" "be_pending_slot b2 = t" "be_pending_valid b2 = 1"
    using verify_effect [OF drv b1(1), of c] b1 rel v by metis
  obtain b3 where k: "guardian_node_link_freshness_physical_backend_commit_candidate (Some b2) (Some c) = (1, Some b3, Some c)"
    using commit_effect [OF drv b2(1) b2(4,3), of c] b1 b2(2) rel v by metis
  have p: "pv_context p = Some b" "pv_load p = Some guardian_node_link_freshness_physical_backend_load"
    "pv_write_candidate p = Some guardian_node_link_freshness_physical_backend_write_candidate"
    "pv_verify_candidate p = Some guardian_node_link_freshness_physical_backend_verify_candidate"
    "pv_commit_candidate p = Some guardian_node_link_freshness_physical_backend_commit_candidate"
    using prov by (auto simp: guardian_node_link_freshness_physical_backend_make_provider_def)
  show ?thesis
    by (intro exI [of _ b3]) (simp add: guardian_node_link_freshness_persistence_transact_commit_def p pre(1)
        stage_ok [where callback = guardian_node_link_freshness_physical_backend_write_candidate, OF w pre(2)] stage_ok [where callback = guardian_node_link_freshness_physical_backend_verify_candidate, OF vf pre(2)] stage_ok [where callback = guardian_node_link_freshness_physical_backend_commit_candidate, OF k pre(2)])
qed

section \<open>A medium in memory\<close>

text \<open>A driver that keeps the two slots as byte lists, 0xFF behind their end.\<close>

definition disk_cells :: "u8 list \<times> u8 list \<Rightarrow> flash_slot \<Rightarrow> u8 list" where
  "disk_cells m s = take 448 ((if s = GUARDIAN_NODE_LINK_PERSISTENCE_SLOT_A then fst m else snd m) @ replicate 448 0xFF)"

definition disk_put :: "u8 list \<times> u8 list \<Rightarrow> flash_slot \<Rightarrow> u8 list \<Rightarrow> u8 list \<times> u8 list" where
  "disk_put m s xs = (if s = GUARDIAN_NODE_LINK_PERSISTENCE_SLOT_A then (xs, snd m) else (fst m, xs))"

definition disk_read :: "(u8 list \<times> u8 list) ptr \<Rightarrow> flash_slot \<Rightarrow> nat \<Rightarrow> u8 list \<Rightarrow> nat
    \<Rightarrow> c_enum \<times> (u8 list \<times> u8 list) ptr \<times> u8 list" where
  "disk_read m s off buf n = (GUARDIAN_NODE_LINK_PERSISTENCE_MEDIA_OK, m, take n (drop off (disk_cells (the m) s)))"

definition disk_erase :: "(u8 list \<times> u8 list) ptr \<Rightarrow> flash_slot \<Rightarrow> c_enum \<times> (u8 list \<times> u8 list) ptr" where
  "disk_erase m s = (GUARDIAN_NODE_LINK_PERSISTENCE_MEDIA_OK, Some (disk_put (the m) s []))"

definition disk_program :: "(u8 list \<times> u8 list) ptr \<Rightarrow> flash_slot \<Rightarrow> nat \<Rightarrow> u8 list \<Rightarrow> nat
    \<Rightarrow> c_enum \<times> (u8 list \<times> u8 list) ptr" where
  "disk_program m s off data n = (GUARDIAN_NODE_LINK_PERSISTENCE_MEDIA_OK,
     Some (disk_put (the m) s (buf_write (disk_cells (the m) s) off (take n data))))"

definition disk_backend :: "(u8 list \<times> u8 list) guardian_node_link_freshness_physical_backend" where
  "disk_backend = \<lparr>be_media = \<lparr>md_context = Some ([], []), md_read = Some disk_read, md_erase = Some disk_erase,
     md_program = Some disk_program\<rparr>, be_pending_slot = GUARDIAN_NODE_LINK_PERSISTENCE_SLOT_A, be_pending_valid = 0\<rparr>"

definition disk_provider :: "(u8 list \<times> u8 list) guardian_node_link_freshness_physical_backend
    guardian_node_link_freshness_persistence_provider" where
  "disk_provider = \<lparr>pv_context = Some disk_backend, pv_load = Some guardian_node_link_freshness_physical_backend_load,
     pv_write_candidate = Some guardian_node_link_freshness_physical_backend_write_candidate,
     pv_verify_candidate = Some guardian_node_link_freshness_physical_backend_verify_candidate,
     pv_commit_candidate = Some guardian_node_link_freshness_physical_backend_commit_candidate\<rparr>"

lemma length_disk_cells [simp]: "length (disk_cells m s) = 448"
  by (simp add: disk_cells_def)

lemma disk_cells_put:
  "length xs = 448 \<Longrightarrow> disk_cells (disk_put m s xs) s = xs" "disk_cells (disk_put m s []) s = replicate 448 0xFF"
  "disk_cells (disk_put m s ys) (other_slot s) = disk_cells m (other_slot s)"
  by (cases s; simp add: disk_cells_def disk_put_def other_slot_def)+

lemma disk_flash_driver: "flash_driver disk_read disk_erase disk_program disk_cells"
  unfolding flash_driver_def
  by (auto simp: disk_read_def disk_erase_def disk_program_def disk_cells_put partial_erase_def
      buf_write_def buf_read_def)

lemma disk_reliable: "reliable disk_read disk_erase disk_program"
  by (simp add: reliable_def disk_read_def disk_erase_def disk_program_def)

lemma disk_on_driver: "on_driver disk_read disk_erase disk_program ([], []) disk_backend"
  by (simp add: on_driver_def disk_backend_def)

lemma disk_empty: "so_state (slot_image disk_cells ([], []) s) = R3E_SLOT_ERASED"
  by (simp add: slot_image_def disk_cells_def observe_erased_iff)

lemma disk_no_forgery: "no_erase_forgery disk_cells ([], [])"
proof -
  have "so_state (observe_image (take 448 new)) = R3E_SLOT_ERASED" if "partial_erase (disk_cells ([], []) s) new" for s new
  proof -
    have "new = disk_cells (new, new) s" using that by (simp add: disk_cells_def partial_erase_def)
    then show ?thesis
      using erased_stays_erased [OF disk_flash_driver disk_empty [of s], of "(new, new)"] that
      by (simp add: slot_image_def)
  qed
  then show ?thesis by (simp add: no_erase_forgery_def)
qed

lemma disk_make_provider:
  "guardian_node_link_freshness_physical_backend_make_provider (Some disk_backend) (Some disk_provider)
    = (GUARDIAN_NODE_LINK_PERSISTENCE_OPERATION_OK, Some disk_provider)"
  by (simp add: guardian_node_link_freshness_physical_backend_make_provider_def disk_provider_def)

lemma disk_next_record: "next_record disk_cells ([], []) None sample_record"
  using sample_record_valid disk_empty
  by (simp add: next_record_def medium_holds_def found_def select_record_def sample_record_def)

lemma sample_record_normal: "normal_record sample_record = sample_record"
  using sample_record_valid by (simp add: record_normal_def)

section \<open>Properties\<close>

text \<open>C37: A persistence transaction on the flash backend is safe against power loss at any point.
  Whatever the driver does within its contract, and wherever it fails, every later recovery that
  succeeds on the resulting medium reports as valid only the candidate (references zero-padded) or
  the record the medium held before; it reports an empty medium only if it was empty; after an
  aborted transaction it never reports the candidate unless that was already stored; and after a
  committed one it reports exactly the candidate. The assumption on erases says that the
  image hashes detect a half-erased image.\<close>

theorem flash_commit_crash_safe:
  assumes drv: "flash_driver rd er pg cells" and b: "on_driver rd er pg m b"
    and nf: "no_erase_forgery cells m"
    and prov: "guardian_node_link_freshness_physical_backend_make_provider (Some b) (Some p0)
      = (GUARDIAN_NODE_LINK_PERSISTENCE_OPERATION_OK, Some p)"
    and run: "guardian_node_link_freshness_persistence_transact_commit (Some p) prev (Some expected) (Some c) (Some out0)
      = (res, Some p1, Some out)"
  shows "\<exists>b1 m1. pv_context p1 = Some b1 \<and> on_driver rd er pg m1 b1
    \<and> (\<forall>b2 b3 st r d. on_driver rd er pg m1 b2 \<longrightarrow>
        guardian_node_link_freshness_physical_backend_recover (Some b2) (Some s0) (Some r0) (Some d0)
          = (GUARDIAN_NODE_LINK_PERSISTENCE_OPERATION_OK, b3, Some st, Some r, d) \<longrightarrow>
        (st = GUARDIAN_NODE_LINK_PERSISTENCE_STATUS_VALID_PERSISTED_STATE \<longrightarrow>
           r = normal_record c \<and> out \<noteq> GUARDIAN_NODE_LINK_PERSISTENCE_TRANSACTION_ABORTED
           \<or> medium_holds cells m GUARDIAN_NODE_LINK_PERSISTENCE_STATUS_VALID_PERSISTED_STATE r)
        \<and> (st = GUARDIAN_NODE_LINK_PERSISTENCE_STATUS_NO_PERSISTED_STATE \<longrightarrow>
           medium_holds cells m GUARDIAN_NODE_LINK_PERSISTENCE_STATUS_NO_PERSISTED_STATE r)
        \<and> (out = GUARDIAN_NODE_LINK_PERSISTENCE_TRANSACTION_COMMITTED \<longrightarrow>
           st = GUARDIAN_NODE_LINK_PERSISTENCE_STATUS_VALID_PERSISTED_STATE \<and> r = normal_record c))"
proof -
  obtain b1 m1 where b1: "pv_context p1 = Some b1" "on_driver rd er pg m1 b1"
    and eff: "cells m1 = cells m \<and> out \<noteq> GUARDIAN_NODE_LINK_PERSISTENCE_TRANSACTION_COMMITTED
       \<or> (\<exists>t. target cells m c t
            \<and> (slot_staged cells m m1 t \<or> slot_marked cells m m1 t c \<and> out \<noteq> GUARDIAN_NODE_LINK_PERSISTENCE_TRANSACTION_ABORTED)
            \<and> (out = GUARDIAN_NODE_LINK_PERSISTENCE_TRANSACTION_COMMITTED \<longrightarrow>
                 so_state (slot_image cells m1 t) = R3E_SLOT_VALID \<and> so_record (slot_image cells m1 t) = normal_record c))"
    using transaction_effect [OF drv b prov run] by blast
  have "(st = 1 \<longrightarrow> r = normal_record c \<and> out \<noteq> GUARDIAN_NODE_LINK_PERSISTENCE_TRANSACTION_ABORTED \<or> medium_holds cells m 1 r)
      \<and> (st = 2 \<longrightarrow> medium_holds cells m 2 r)
      \<and> (out = GUARDIAN_NODE_LINK_PERSISTENCE_TRANSACTION_COMMITTED \<longrightarrow> st = 1 \<and> r = normal_record c)"
    if b2: "on_driver rd er pg m1 b2"
      and rec: "guardian_node_link_freshness_physical_backend_recover (Some b2) (Some s0) (Some r0) (Some d0)
        = (1, b3, Some st, Some r, d)" for b2 b3 st r d
  proof -
    have h: "medium_holds cells m1 st r"
      using public_recover [OF drv b2, of s0 r0 d0] rec by auto
    show ?thesis
    proof (cases "cells m1 = cells m \<and> out \<noteq> GUARDIAN_NODE_LINK_PERSISTENCE_TRANSACTION_COMMITTED")
      case True
      then show ?thesis using h by (auto simp: medium_holds_def found_cong [of cells m1 m])
    next
      case False
      then obtain t where t: "target cells m c t"
        "slot_staged cells m m1 t \<or> slot_marked cells m m1 t c \<and> out \<noteq> GUARDIAN_NODE_LINK_PERSISTENCE_TRANSACTION_ABORTED"
        "out = GUARDIAN_NODE_LINK_PERSISTENCE_TRANSACTION_COMMITTED \<longrightarrow>
           so_state (slot_image cells m1 t) = R3E_SLOT_VALID \<and> so_record (slot_image cells m1 t) = normal_record c"
        using eff by blast
      have o: "cells m1 (other_slot t) = cells m (other_slot t)" using t(2) by (auto simp: slot_staged_def slot_marked_def)
      have "out = GUARDIAN_NODE_LINK_PERSISTENCE_TRANSACTION_COMMITTED \<longrightarrow> st = 1 \<and> r = normal_record c"
        using candidate_found [OF drv t(1) o] t(3) h unfolding medium_holds_def by blast
      then show ?thesis
        using t(2) staged_outcome [OF drv t(1) _ nf h] marked_outcome [OF drv t(1) _ h] by blast
    qed
  qed
  then show ?thesis using b1 by blast
qed

theorem flash_commit_crash_safe_witness:
  "\<exists>b1 m1 b3 d. guardian_node_link_freshness_persistence_transact_commit (Some disk_provider) None
      (Some (pr_identity sample_record)) (Some sample_record) (Some GUARDIAN_NODE_LINK_PERSISTENCE_TRANSACTION_INVALID)
      = (GUARDIAN_NODE_LINK_PERSISTENCE_OPERATION_OK, Some (disk_provider\<lparr>pv_context := Some b1\<rparr>),
         Some GUARDIAN_NODE_LINK_PERSISTENCE_TRANSACTION_COMMITTED)
    \<and> on_driver disk_read disk_erase disk_program m1 b1
    \<and> guardian_node_link_freshness_physical_backend_recover (Some b1) (Some 0) (Some zero_record)
        (Some GUARDIAN_NODE_LINK_PERSISTENCE_RECOVERY_INVALID)
      = (GUARDIAN_NODE_LINK_PERSISTENCE_OPERATION_OK, b3,
         Some GUARDIAN_NODE_LINK_PERSISTENCE_STATUS_VALID_PERSISTED_STATE, Some sample_record, d)"
proof -
  note disk = disk_flash_driver disk_on_driver
  obtain b1 where run: "guardian_node_link_freshness_persistence_transact_commit (Some disk_provider) None
      (Some (pr_identity sample_record)) (Some sample_record) (Some GUARDIAN_NODE_LINK_PERSISTENCE_TRANSACTION_INVALID)
      = (1, Some (disk_provider\<lparr>pv_context := Some b1\<rparr>), Some GUARDIAN_NODE_LINK_PERSISTENCE_TRANSACTION_COMMITTED)"
    using reliable_transaction [OF disk_flash_driver disk_reliable disk_on_driver disk_make_provider disk_next_record] by blast
  obtain m1 where b1: "on_driver disk_read disk_erase disk_program m1 b1"
    and safe: "\<And>b2 b3 st r d. on_driver disk_read disk_erase disk_program m1 b2 \<Longrightarrow>
        guardian_node_link_freshness_physical_backend_recover (Some b2) (Some 0) (Some zero_record)
          (Some GUARDIAN_NODE_LINK_PERSISTENCE_RECOVERY_INVALID) = (1, b3, Some st, Some r, d) \<Longrightarrow> st = 1 \<and> r = sample_record"
    using flash_commit_crash_safe [OF disk disk_no_forgery disk_make_provider run, of 0 zero_record
        GUARDIAN_NODE_LINK_PERSISTENCE_RECOVERY_INVALID] sample_record_normal by auto
  obtain op b3 st r d where rec: "guardian_node_link_freshness_physical_backend_recover (Some b1) (Some 0) (Some zero_record)
          (Some GUARDIAN_NODE_LINK_PERSISTENCE_RECOVERY_INVALID) = (op, Some b3, Some st, Some r, Some d)"
    "op = fst (found disk_cells m1)"
    using public_recover [OF disk_flash_driver b1] disk_reliable by blast
  obtain m2 t where "on_driver disk_read disk_erase disk_program m2 b1" "target disk_cells ([], []) sample_record t"
    "slot_staged disk_cells ([], []) m2 t \<or> slot_marked disk_cells ([], []) m2 t sample_record"
    "so_state (slot_image disk_cells m2 t) = R3E_SLOT_VALID" "so_record (slot_image disk_cells m2 t) = normal_record sample_record"
    using transaction_effect [OF disk disk_make_provider run] by auto
  moreover then have "m2 = m1" using b1 by (simp add: on_driver_def)
  ultimately have "fst (found disk_cells m1) = 1"
    using candidate_found [OF disk_flash_driver, of "([], [])" sample_record t m1]
    by (cases "found disk_cells m1") (auto simp: slot_staged_def slot_marked_def)
  then have "op = 1" using rec(2) by simp
  then show ?thesis using run b1 rec safe [OF b1] by blast
qed

text \<open>C38: On a driver whose calls succeed, the transaction makes progress: the first record on an
  empty medium, and every successor of the stored record, is committed, and a recovery then
  returns it.\<close>

theorem reliable_flash_commits:
  assumes drv: "flash_driver rd er pg cells" and rel: "reliable rd er pg" and b: "on_driver rd er pg m b"
    and prov: "guardian_node_link_freshness_physical_backend_make_provider (Some b) (Some p0)
      = (GUARDIAN_NODE_LINK_PERSISTENCE_OPERATION_OK, Some p)"
    and n: "next_record cells m prev c"
  shows "\<exists>b1 b2 d. guardian_node_link_freshness_persistence_transact_commit (Some p) prev (Some (pr_identity c)) (Some c) (Some out0)
      = (GUARDIAN_NODE_LINK_PERSISTENCE_OPERATION_OK, Some (p\<lparr>pv_context := Some b1\<rparr>),
         Some GUARDIAN_NODE_LINK_PERSISTENCE_TRANSACTION_COMMITTED)
    \<and> guardian_node_link_freshness_physical_backend_recover (Some b1) (Some s0) (Some r0) (Some d0)
      = (GUARDIAN_NODE_LINK_PERSISTENCE_OPERATION_OK, Some b2,
         Some GUARDIAN_NODE_LINK_PERSISTENCE_STATUS_VALID_PERSISTED_STATE, Some (normal_record c), d)"
proof -
  obtain b1 where run: "guardian_node_link_freshness_persistence_transact_commit (Some p) prev (Some (pr_identity c)) (Some c) (Some out0)
      = (1, Some (p\<lparr>pv_context := Some b1\<rparr>), Some GUARDIAN_NODE_LINK_PERSISTENCE_TRANSACTION_COMMITTED)"
    using reliable_transaction [OF drv rel b prov n] by blast
  obtain m1 t where b1: "on_driver rd er pg m1 b1" and t: "target cells m c t"
    "slot_staged cells m m1 t \<or> slot_marked cells m m1 t c"
    "so_state (slot_image cells m1 t) = R3E_SLOT_VALID" "so_record (slot_image cells m1 t) = normal_record c"
    using transaction_effect [OF drv b prov run] by auto
  have o: "cells m1 (other_slot t) = cells m (other_slot t)" using t(2) by (auto simp: slot_staged_def slot_marked_def)
  obtain op st r d so where f: "found cells m1 = (op, st, r, d, so)" by (metis prod_cases5)
  then have "op = 1" "st = 1" "r = normal_record c" using candidate_found [OF drv t(1) o t(3,4)] by auto
  then show ?thesis
    using run f public_recover [OF drv b1, of s0 r0 d0] rel by (fastforce simp: medium_holds_def)
qed

theorem reliable_flash_commits_witness:
  "\<exists>b1 b2 d. guardian_node_link_freshness_persistence_transact_commit (Some disk_provider) None
      (Some (pr_identity sample_record)) (Some sample_record) (Some GUARDIAN_NODE_LINK_PERSISTENCE_TRANSACTION_INVALID)
      = (GUARDIAN_NODE_LINK_PERSISTENCE_OPERATION_OK, Some (disk_provider\<lparr>pv_context := Some b1\<rparr>),
         Some GUARDIAN_NODE_LINK_PERSISTENCE_TRANSACTION_COMMITTED)
    \<and> guardian_node_link_freshness_physical_backend_recover (Some b1) (Some 0) (Some zero_record)
        (Some GUARDIAN_NODE_LINK_PERSISTENCE_RECOVERY_INVALID)
      = (GUARDIAN_NODE_LINK_PERSISTENCE_OPERATION_OK, Some b2,
         Some GUARDIAN_NODE_LINK_PERSISTENCE_STATUS_VALID_PERSISTED_STATE, Some sample_record, d)"
  using reliable_flash_commits [OF disk_flash_driver disk_reliable disk_on_driver disk_make_provider disk_next_record]
    sample_record_normal by simp

end
