(* ===== verification/Guardian_Flash_STM32.thy ===== *)
theory Guardian_Flash_STM32
  imports Guardian_Flash_Backend
begin

text \<open>
  The STM32F401 flash adapter of
  \<open>firmware/NodeLink/Src/guardian_node_link_freshness_persistence_stm32f401.c\<close>: it maps the two
  slots of the backend to flash sectors 3 and 4 and implements the read, erase and program
  callbacks on the vendor's HAL. The HAL functions and the mapped flash memory are parameters;
  their state is threaded through the calls. The lemmas show that the adapter fulfils the driver
  contract of the backend, for HAL functions that keep to their documentation.
\<close>

section \<open>The HAL\<close>

record FLASH_EraseInitTypeDef =
  TypeErase :: u32
  Banks :: u32
  Sector :: u32
  NbSectors :: u32
  VoltageRange :: u32

abbreviation (input) HAL_OK :: u32 where "HAL_OK \<equiv> 0"
abbreviation (input) FLASH_TYPEERASE_SECTORS :: u32 where "FLASH_TYPEERASE_SECTORS \<equiv> 0"
abbreviation (input) FLASH_TYPEPROGRAM_BYTE :: u32 where "FLASH_TYPEPROGRAM_BYTE \<equiv> 0"
abbreviation (input) FLASH_SECTOR_3 :: u32 where "FLASH_SECTOR_3 \<equiv> 3"
abbreviation (input) FLASH_SECTOR_4 :: u32 where "FLASH_SECTOR_4 \<equiv> 4"
abbreviation (input) GUARDIAN_NODE_LINK_PERSISTENCE_MEDIA_INVALID :: c_enum where
  "GUARDIAN_NODE_LINK_PERSISTENCE_MEDIA_INVALID \<equiv> 0"

abbreviation (input) GUARDIAN_STM32F401_PERSISTENCE_SLOT_A_ADDRESS :: u32 where
  "GUARDIAN_STM32F401_PERSISTENCE_SLOT_A_ADDRESS \<equiv> 0x0800C000"
abbreviation (input) GUARDIAN_STM32F401_PERSISTENCE_SLOT_A_SIZE :: u32 where
  "GUARDIAN_STM32F401_PERSISTENCE_SLOT_A_SIZE \<equiv> 0x4000"
abbreviation (input) GUARDIAN_STM32F401_PERSISTENCE_SLOT_B_ADDRESS :: u32 where
  "GUARDIAN_STM32F401_PERSISTENCE_SLOT_B_ADDRESS \<equiv> 0x08010000"
abbreviation (input) GUARDIAN_STM32F401_PERSISTENCE_SLOT_B_SIZE :: u32 where
  "GUARDIAN_STM32F401_PERSISTENCE_SLOT_B_SIZE \<equiv> 0x10000"

text \<open>The HAL functions on a hardware state, and the memory the processor sees.\<close>

record 'h flash_hal =
  HAL_FLASH_Unlock :: "'h \<Rightarrow> u32 \<times> 'h"
  HAL_FLASH_Lock :: "'h \<Rightarrow> u32 \<times> 'h"
  HAL_FLASHEx_Erase :: "'h \<Rightarrow> FLASH_EraseInitTypeDef \<Rightarrow> u32 \<Rightarrow> u32 \<times> 'h \<times> u32"
  HAL_FLASH_Program :: "'h \<Rightarrow> u32 \<Rightarrow> u32 \<Rightarrow> u64 \<Rightarrow> u32 \<times> 'h"
  flash_memory :: "'h \<Rightarrow> u32 \<Rightarrow> u8"

record guardian_node_link_stm32f401_flash_context =
  fx_erase_voltage_range :: u32

text \<open>What a callback reaches through its context pointer: the adapter's context, which may be NULL,
  and the hardware.\<close>

record 'h stm32f401_device =
  dev_context :: "guardian_node_link_stm32f401_flash_context ptr"
  dev_hardware :: 'h

section \<open>The adapter\<close>

definition guardian_stm32f401_bytes_zero :: "u8 list ptr \<Rightarrow> nat \<Rightarrow> u8 list ptr" where
  "guardian_stm32f401_bytes_zero data n = map_option (\<lambda>bytes. buf_write bytes 0 (replicate n 0)) data"

definition guardian_stm32f401_bytes_copy :: "u8 list ptr \<Rightarrow> u8 list ptr \<Rightarrow> nat \<Rightarrow> u8 list ptr" where
  "guardian_stm32f401_bytes_copy destination source n =
     (case (destination, source) of
        (Some d, Some s) \<Rightarrow> Some (buf_write d 0 (take n s))
      | _ \<Rightarrow> destination)"

definition guardian_stm32f401_slot_geometry ::
  "flash_slot \<Rightarrow> u32 ptr \<Rightarrow> nat ptr \<Rightarrow> u32 ptr \<Rightarrow> bool \<times> u32 ptr \<times> nat ptr \<times> u32 ptr" where
  "guardian_stm32f401_slot_geometry slot base_address capacity sector =
     (if base_address = None \<or> capacity = None \<or> sector = None
      then (False, base_address, capacity, sector)
      else
        case slot of
          GUARDIAN_NODE_LINK_PERSISTENCE_SLOT_A \<Rightarrow>
            (True, Some GUARDIAN_STM32F401_PERSISTENCE_SLOT_A_ADDRESS,
             Some (unat GUARDIAN_STM32F401_PERSISTENCE_SLOT_A_SIZE), Some FLASH_SECTOR_3)
        | GUARDIAN_NODE_LINK_PERSISTENCE_SLOT_B \<Rightarrow>
            (True, Some GUARDIAN_STM32F401_PERSISTENCE_SLOT_B_ADDRESS,
             Some (unat GUARDIAN_STM32F401_PERSISTENCE_SLOT_B_SIZE), Some FLASH_SECTOR_4))"

definition guardian_stm32f401_range_valid :: "nat \<Rightarrow> nat \<Rightarrow> nat \<Rightarrow> bool" where
  "guardian_stm32f401_range_valid capacity offset n =
     (if offset > capacity then False else if n > capacity - offset then False else True)"

definition guardian_stm32f401_flash_read ::
  "'h flash_hal \<Rightarrow> 'h stm32f401_device ptr \<Rightarrow> flash_slot \<Rightarrow> nat \<Rightarrow> u8 list \<Rightarrow> nat
     \<Rightarrow> c_enum \<times> 'h stm32f401_device ptr \<times> u8 list" where
  "guardian_stm32f401_flash_read hal device slot offset output n =
     (case guardian_stm32f401_slot_geometry slot (Some 0) (Some 0) (Some 0) of
        (known, base_address, capacity, _) \<Rightarrow>
          if \<not> known then (GUARDIAN_NODE_LINK_PERSISTENCE_MEDIA_INVALID, device, output)
          else if \<not> guardian_stm32f401_range_valid (the capacity) offset n
          then (GUARDIAN_NODE_LINK_PERSISTENCE_MEDIA_IO_FAILURE, device, output)
          else if n = 0 then (GUARDIAN_NODE_LINK_PERSISTENCE_MEDIA_OK, device, output)
          else
            let source = map (\<lambda>k. flash_memory hal (dev_hardware (the device))
                  (the base_address + of_nat offset + of_nat k)) [0..<n]
            in (GUARDIAN_NODE_LINK_PERSISTENCE_MEDIA_OK, device,
                the (guardian_stm32f401_bytes_copy (Some output) (Some source) n)))"

definition guardian_stm32f401_flash_erase ::
  "'h flash_hal \<Rightarrow> 'h stm32f401_device ptr \<Rightarrow> flash_slot \<Rightarrow> c_enum \<times> 'h stm32f401_device ptr" where
  "guardian_stm32f401_flash_erase hal device slot =
     (case (device, Option.bind device dev_context) of
        (Some d, Some context) \<Rightarrow>
          (case guardian_stm32f401_slot_geometry slot (Some 0) (Some 0) (Some 0) of
             (known, _, _, sector) \<Rightarrow>
               if \<not> known then (GUARDIAN_NODE_LINK_PERSISTENCE_MEDIA_INVALID, device)
               else
                 let erase = \<lparr>TypeErase = FLASH_TYPEERASE_SECTORS, Banks = 0, Sector = the sector, NbSectors = 1,
                       VoltageRange = fx_erase_voltage_range context\<rparr>;
                     (unlock_status, h1) = HAL_FLASH_Unlock hal (dev_hardware d)
                 in if unlock_status \<noteq> HAL_OK
                 then (GUARDIAN_NODE_LINK_PERSISTENCE_MEDIA_IO_FAILURE, Some (d\<lparr>dev_hardware := h1\<rparr>))
                 else
                   let (erase_status, h2, sector_error) = HAL_FLASHEx_Erase hal h1 erase 0xFFFFFFFF;
                       (lock_status, h3) = HAL_FLASH_Lock hal h2;
                       d' = d\<lparr>dev_hardware := h3\<rparr>
                   in if erase_status \<noteq> HAL_OK \<or> lock_status \<noteq> HAL_OK
                   then (GUARDIAN_NODE_LINK_PERSISTENCE_MEDIA_IO_FAILURE, Some d')
                   else if sector_error \<noteq> 0xFFFFFFFF
                   then (GUARDIAN_NODE_LINK_PERSISTENCE_MEDIA_IO_FAILURE, Some d')
                   else (GUARDIAN_NODE_LINK_PERSISTENCE_MEDIA_OK, Some d'))
      | _ \<Rightarrow> (GUARDIAN_NODE_LINK_PERSISTENCE_MEDIA_INVALID, device))"

text \<open>The programming loop from \<open>index\<close>, with \<open>n\<close> bytes to go.\<close>

fun program_loop :: "'h flash_hal \<Rightarrow> 'h \<Rightarrow> u32 \<Rightarrow> nat \<Rightarrow> u8 list \<Rightarrow> nat \<Rightarrow> nat \<Rightarrow> u32 \<times> 'h" where
  "program_loop hal h base_address offset data index 0 = (HAL_OK, h)"
| "program_loop hal h base_address offset data index (Suc n) =
     (case HAL_FLASH_Program hal h FLASH_TYPEPROGRAM_BYTE (base_address + of_nat offset + of_nat index)
          (ucast (data ! index)) of
        (program_status, h1) \<Rightarrow>
          if program_status \<noteq> HAL_OK then (program_status, h1)
          else program_loop hal h1 base_address offset data (index + 1) n)"

definition guardian_stm32f401_flash_program ::
  "'h flash_hal \<Rightarrow> 'h stm32f401_device ptr \<Rightarrow> flash_slot \<Rightarrow> nat \<Rightarrow> u8 list \<Rightarrow> nat
     \<Rightarrow> c_enum \<times> 'h stm32f401_device ptr" where
  "guardian_stm32f401_flash_program hal device slot offset data n =
     (case guardian_stm32f401_slot_geometry slot (Some 0) (Some 0) (Some 0) of
        (known, base_address, capacity, _) \<Rightarrow>
          if \<not> known then (GUARDIAN_NODE_LINK_PERSISTENCE_MEDIA_INVALID, device)
          else if \<not> guardian_stm32f401_range_valid (the capacity) offset n
          then (GUARDIAN_NODE_LINK_PERSISTENCE_MEDIA_IO_FAILURE, device)
          else if n = 0 then (GUARDIAN_NODE_LINK_PERSISTENCE_MEDIA_OK, device)
          else
            let d = the device;
                (unlock_status, h1) = HAL_FLASH_Unlock hal (dev_hardware d)
            in if unlock_status \<noteq> HAL_OK
            then (GUARDIAN_NODE_LINK_PERSISTENCE_MEDIA_IO_FAILURE, Some (d\<lparr>dev_hardware := h1\<rparr>))
            else
              let (program_status, h2) = program_loop hal h1 (the base_address) offset data 0 n;
                  (lock_status, h3) = HAL_FLASH_Lock hal h2;
                  d' = d\<lparr>dev_hardware := h3\<rparr>
              in if program_status \<noteq> HAL_OK \<or> lock_status \<noteq> HAL_OK
              then (GUARDIAN_NODE_LINK_PERSISTENCE_MEDIA_IO_FAILURE, Some d')
              else (GUARDIAN_NODE_LINK_PERSISTENCE_MEDIA_OK, Some d'))"

text \<open>The media context the initialization installs is the device: the caller's context and the
  hardware state \<open>h\<close>.\<close>

definition guardian_node_link_stm32f401_flash_media_init ::
  "'h flash_hal \<Rightarrow> 'h \<Rightarrow> guardian_node_link_stm32f401_flash_context ptr \<Rightarrow> u32
     \<Rightarrow> 'h stm32f401_device guardian_node_link_persistence_media ptr
     \<Rightarrow> c_enum \<times> guardian_node_link_stm32f401_flash_context ptr
        \<times> 'h stm32f401_device guardian_node_link_persistence_media ptr" where
  "guardian_node_link_stm32f401_flash_media_init hal h context erase_voltage_range media =
     (if context = None \<or> media = None
      then (GUARDIAN_NODE_LINK_PERSISTENCE_OPERATION_INVALID, context, media)
      else if erase_voltage_range \<notin> {0, 1, 2, 3}
      then (GUARDIAN_NODE_LINK_PERSISTENCE_OPERATION_INVALID, context, media)
      else
        let ctx = Some \<lparr>fx_erase_voltage_range = erase_voltage_range\<rparr>
        in (GUARDIAN_NODE_LINK_PERSISTENCE_OPERATION_OK, ctx,
            Some \<lparr>md_context = Some \<lparr>dev_context = ctx, dev_hardware = h\<rparr>,
              md_read = Some (guardian_stm32f401_flash_read hal),
              md_erase = Some (guardian_stm32f401_flash_erase hal),
              md_program = Some (guardian_stm32f401_flash_program hal)\<rparr>))"

section \<open>The contract of the HAL\<close>

text \<open>The address range of a flash sector (reference manual; the header of the adapter repeats it).\<close>

definition sector_addresses :: "u32 \<Rightarrow> u32 set" where
  "sector_addresses s = (if s = FLASH_SECTOR_3 then {0x0800C000..0x0800FFFF}
     else if s = FLASH_SECTOR_4 then {0x08010000..0x0801FFFF} else {})"

text \<open>Locking and unlocking do not change the memory. Erasing one sector changes nothing outside the
  sector, leaves each byte inside as it was or erased, and has erased all of them if it reports
  success and no faulty sector. Programming a byte changes nothing else and, if it reports success on
  an erased byte, stores it.\<close>

definition hal_contract :: "'h flash_hal \<Rightarrow> bool" where
  "hal_contract hal \<longleftrightarrow>
     (\<forall>h. flash_memory hal (snd (HAL_FLASH_Unlock hal h)) = flash_memory hal h) \<and>
     (\<forall>h. flash_memory hal (snd (HAL_FLASH_Lock hal h)) = flash_memory hal h) \<and>
     (\<forall>h init e st h1 e1. HAL_FLASHEx_Erase hal h init e = (st, h1, e1) \<longrightarrow>
        TypeErase init = FLASH_TYPEERASE_SECTORS \<longrightarrow> NbSectors init = 1 \<longrightarrow>
        (\<forall>a. a \<notin> sector_addresses (Sector init) \<longrightarrow> flash_memory hal h1 a = flash_memory hal h a) \<and>
        (\<forall>a \<in> sector_addresses (Sector init). flash_memory hal h1 a = flash_memory hal h a \<or> flash_memory hal h1 a = 0xFF) \<and>
        (st = HAL_OK \<and> e1 = 0xFFFFFFFF \<longrightarrow> (\<forall>a \<in> sector_addresses (Sector init). flash_memory hal h1 a = 0xFF))) \<and>
     (\<forall>h a v st h1. HAL_FLASH_Program hal h FLASH_TYPEPROGRAM_BYTE a v = (st, h1) \<longrightarrow>
        (\<forall>b. b \<noteq> a \<longrightarrow> flash_memory hal h1 b = flash_memory hal h b) \<and>
        (st = HAL_OK \<longrightarrow> flash_memory hal h a = 0xFF \<longrightarrow> flash_memory hal h1 a = ucast v))"

section \<open>Addresses of the slots\<close>

definition slot_base :: "flash_slot \<Rightarrow> u32" where
  "slot_base s = (case s of GUARDIAN_NODE_LINK_PERSISTENCE_SLOT_A \<Rightarrow> 0x0800C000
     | GUARDIAN_NODE_LINK_PERSISTENCE_SLOT_B \<Rightarrow> 0x08010000)"

definition slot_size :: "flash_slot \<Rightarrow> nat" where
  "slot_size s = (case s of GUARDIAN_NODE_LINK_PERSISTENCE_SLOT_A \<Rightarrow> 0x4000
     | GUARDIAN_NODE_LINK_PERSISTENCE_SLOT_B \<Rightarrow> 0x10000)"

definition slot_sector :: "flash_slot \<Rightarrow> u32" where
  "slot_sector s = (case s of GUARDIAN_NODE_LINK_PERSISTENCE_SLOT_A \<Rightarrow> 3
     | GUARDIAN_NODE_LINK_PERSISTENCE_SLOT_B \<Rightarrow> 4)"

definition slot_address :: "flash_slot \<Rightarrow> nat \<Rightarrow> u32" where
  "slot_address s i = slot_base s + of_nat i"

definition stm32_cells :: "'h flash_hal \<Rightarrow> 'h stm32f401_device \<Rightarrow> flash_slot \<Rightarrow> u8 list" where
  "stm32_cells hal d s = map (\<lambda>i. flash_memory hal (dev_hardware d) (slot_address s i)) [0..<slot_size s]"

lemma slot_geometry:
  "guardian_stm32f401_slot_geometry s (Some x) (Some y) (Some z)
     = (True, Some (slot_base s), Some (slot_size s), Some (slot_sector s))"
  by (cases s) (simp_all add: guardian_stm32f401_slot_geometry_def slot_base_def slot_size_def slot_sector_def)

lemma slot_size_ge: "448 \<le> slot_size s"
  by (cases s) (simp_all add: slot_size_def)

lemma unat_slot_address: "i < slot_size s \<Longrightarrow> unat (slot_address s i) = unat (slot_base s) + i"
  by (cases s) (simp_all add: slot_address_def slot_base_def slot_size_def unat_word_ariths unat_of_nat)

lemma slot_address_inj: "i < slot_size s \<Longrightarrow> j < slot_size s \<Longrightarrow> slot_address s i = slot_address s j \<longleftrightarrow> i = j"
  by (metis add_left_cancel unat_slot_address)

lemma slot_address_sector: "i < slot_size s \<Longrightarrow> slot_address s i \<in> sector_addresses (slot_sector t) \<longleftrightarrow> s = t"
  using unat_slot_address [of i s]
  by (cases s; cases t) (simp_all add: sector_addresses_def slot_sector_def slot_base_def slot_size_def word_le_nat_alt)

lemma slot_address_disjoint:
  "i < slot_size s \<Longrightarrow> j < slot_size (other_slot s) \<Longrightarrow> slot_address s i \<noteq> slot_address (other_slot s) j"
  using slot_address_sector [of i s s] slot_address_sector [of j "other_slot s" s]
  by (cases s) (auto simp: other_slot_def)

lemma length_stm32_cells [simp]: "length (stm32_cells hal d s) = slot_size s"
  by (simp add: stm32_cells_def)

lemma nth_stm32_cells: "i < slot_size s \<Longrightarrow> stm32_cells hal d s ! i = flash_memory hal (dev_hardware d) (slot_address s i)"
  by (simp add: stm32_cells_def)

lemma stm32_cells_cong:
  "(\<And>i. i < slot_size s \<Longrightarrow> flash_memory hal (dev_hardware d1) (slot_address s i) = flash_memory hal (dev_hardware d) (slot_address s i))
   \<Longrightarrow> stm32_cells hal d1 s = stm32_cells hal d s"
  by (simp add: stm32_cells_def)

section \<open>The callbacks fulfil the driver contract\<close>

lemma address_add: "slot_base s + of_nat off + of_nat k = slot_address s (off + k)"
  by (simp add: slot_address_def)

lemma read_contract:
  assumes "length buf = 448"
  shows "guardian_stm32f401_flash_read hal (Some d) s 0 buf 448
    = (GUARDIAN_NODE_LINK_PERSISTENCE_MEDIA_OK, Some d, take 448 (stm32_cells hal d s))"
proof -
  let ?src = "map (\<lambda>k. flash_memory hal (dev_hardware d) (slot_address s k)) [0..<448]"
  have "take 448 (stm32_cells hal d s) = ?src"
    using slot_size_ge [of s] by (simp add: stm32_cells_def take_map)
  moreover have "buf_write buf 0 ?src = ?src" using assms by (simp add: buf_write_whole)
  ultimately show ?thesis
    using slot_size_ge [of s]
    by (simp add: guardian_stm32f401_flash_read_def slot_geometry guardian_stm32f401_range_valid_def
        guardian_stm32f401_bytes_copy_def slot_address_def)
qed

lemma hal_facts:
  assumes "hal_contract hal"
  shows "HAL_FLASH_Unlock hal h = (st, h1) \<Longrightarrow> flash_memory hal h1 = flash_memory hal h"
    "HAL_FLASH_Lock hal h = (st, h1) \<Longrightarrow> flash_memory hal h1 = flash_memory hal h"
  using assms unfolding hal_contract_def by (metis snd_conv)+

lemma hal_program_facts:
  assumes "hal_contract hal" "HAL_FLASH_Program hal h FLASH_TYPEPROGRAM_BYTE a v = (st, h1)"
  shows "b \<noteq> a \<Longrightarrow> flash_memory hal h1 b = flash_memory hal h b"
    "st = HAL_OK \<Longrightarrow> flash_memory hal h a = 0xFF \<Longrightarrow> flash_memory hal h1 a = ucast v"
proof -
  have "\<forall>h a v st h1. HAL_FLASH_Program hal h 0 a v = (st, h1) \<longrightarrow>
        (\<forall>b. b \<noteq> a \<longrightarrow> flash_memory hal h1 b = flash_memory hal h b) \<and>
        (st = 0 \<longrightarrow> flash_memory hal h a = 0xFF \<longrightarrow> flash_memory hal h1 a = ucast v)"
    using assms(1) unfolding hal_contract_def by (elim conjE)
  note this [rule_format, OF assms(2)]
  then show "b \<noteq> a \<Longrightarrow> flash_memory hal h1 b = flash_memory hal h b"
    "st = HAL_OK \<Longrightarrow> flash_memory hal h a = 0xFF \<Longrightarrow> flash_memory hal h1 a = ucast v" by simp_all
qed

lemma erase_contract:
  assumes hal: "hal_contract hal"
  shows "\<exists>r d1. guardian_stm32f401_flash_erase hal (Some d) s = (r, Some d1) \<and> dev_context d1 = dev_context d
    \<and> stm32_cells hal d1 (other_slot s) = stm32_cells hal d (other_slot s)
    \<and> partial_erase (stm32_cells hal d s) (stm32_cells hal d1 s)
    \<and> (r = GUARDIAN_NODE_LINK_PERSISTENCE_MEDIA_OK \<longrightarrow> take 448 (stm32_cells hal d1 s) = replicate 448 0xFF)"
proof (cases "dev_context d")
  case None
  then have "guardian_stm32f401_flash_erase hal (Some d) s = (0, Some d)"
    by (simp add: guardian_stm32f401_flash_erase_def)
  then show ?thesis by (simp add: partial_erase_def)
next
  case ctx: (Some c)
  let ?init = "\<lparr>TypeErase = 0, Banks = 0, Sector = slot_sector s, NbSectors = 1, VoltageRange = fx_erase_voltage_range c\<rparr>"
  obtain u h1 where u: "HAL_FLASH_Unlock hal (dev_hardware d) = (u, h1)" by fastforce
  obtain e h2 x where e: "HAL_FLASHEx_Erase hal h1 ?init 0xFFFFFFFF = (e, h2, x)" by (metis prod_cases3)
  obtain l h3 where l: "HAL_FLASH_Lock hal h2 = (l, h3)" by fastforce
  have m1: "flash_memory hal h1 = flash_memory hal (dev_hardware d)" and m3: "flash_memory hal h3 = flash_memory hal h2"
    using hal_facts [OF hal] u l by blast+
  have er: "a \<notin> sector_addresses (slot_sector s) \<Longrightarrow> flash_memory hal h2 a = flash_memory hal h1 a"
    "a \<in> sector_addresses (slot_sector s) \<Longrightarrow> flash_memory hal h2 a = flash_memory hal h1 a \<or> flash_memory hal h2 a = 0xFF"
    "e = 0 \<and> x = 0xFFFFFFFF \<Longrightarrow> a \<in> sector_addresses (slot_sector s) \<Longrightarrow> flash_memory hal h2 a = 0xFF" for a
    using hal e unfolding hal_contract_def by fastforce+
  show ?thesis
  proof (cases "u = 0")
    case False
    then have "guardian_stm32f401_flash_erase hal (Some d) s = (3, Some (d\<lparr>dev_hardware := h1\<rparr>))"
      using ctx u by (simp add: guardian_stm32f401_flash_erase_def slot_geometry)
    moreover have "stm32_cells hal (d\<lparr>dev_hardware := h1\<rparr>) = stm32_cells hal d"
      using m1 by (intro ext stm32_cells_cong) simp
    ultimately show ?thesis by (simp add: partial_erase_def)
  next
    case True
    define d1 where "d1 = d\<lparr>dev_hardware := h3\<rparr>"
    define r where "r = (if e \<noteq> 0 \<or> l \<noteq> 0 \<or> x \<noteq> 0xFFFFFFFF then 3 else (1 :: c_enum))"
    have run: "guardian_stm32f401_flash_erase hal (Some d) s = (r, Some d1)"
      using ctx u True e l by (simp add: guardian_stm32f401_flash_erase_def slot_geometry d1_def r_def Let_def)
    have d1: "dev_hardware d1 = h3" "dev_context d1 = dev_context d" by (simp_all add: d1_def)
    have "stm32_cells hal d1 (other_slot s) = stm32_cells hal d (other_slot s)"
      using er(1) slot_address_sector [of _ "other_slot s" s] by (intro stm32_cells_cong) (simp add: d1 m1 m3 other_slot_def split: if_splits)
    moreover have "partial_erase (stm32_cells hal d s) (stm32_cells hal d1 s)"
      using er(2) slot_address_sector [of _ s s] by (simp add: partial_erase_def nth_stm32_cells d1 m1 m3)
    moreover have "take 448 (stm32_cells hal d1 s) = replicate 448 0xFF" if "r = 1"
      using that er(3) slot_address_sector [of _ s s] slot_size_ge [of s]
      by (intro nth_equalityI) (auto simp: r_def nth_stm32_cells d1 m3 split: if_splits)
    ultimately show ?thesis using run d1 by blast
  qed
qed

lemma byte_in_u64: "ucast (ucast (b :: u8) :: u64) = b"
  by (rule bit_word_eqI) (simp add: bit_simps)

lemma program_loop_effect:
  assumes hal: "hal_contract hal"
    and "program_loop hal h base off data idx n = (st, h1)"
    and "inj_on (\<lambda>k. base + of_nat off + of_nat k) {idx..<idx + n}"
  shows "(\<forall>a. a \<notin> (\<lambda>k. base + of_nat off + of_nat k) ` {idx..<idx + n} \<longrightarrow> flash_memory hal h1 a = flash_memory hal h a)
    \<and> (st = HAL_OK \<longrightarrow> (\<forall>k\<in>{idx..<idx + n}. flash_memory hal h (base + of_nat off + of_nat k) = 0xFF) \<longrightarrow>
        (\<forall>k\<in>{idx..<idx + n}. flash_memory hal h1 (base + of_nat off + of_nat k) = data ! k))"
  using assms(2,3)
proof (induction n arbitrary: h idx)
  case 0
  then show ?case by simp
next
  case (Suc n)
  let ?addr = "\<lambda>k. base + of_nat off + of_nat k"
  obtain ps h2 where ps: "HAL_FLASH_Program hal h 0 (?addr idx) (ucast (data ! idx)) = (ps, h2)" by fastforce
  have one: "b \<noteq> ?addr idx \<Longrightarrow> flash_memory hal h2 b = flash_memory hal h b"
    "ps = 0 \<Longrightarrow> flash_memory hal h (?addr idx) = 0xFF \<Longrightarrow> flash_memory hal h2 (?addr idx) = data ! idx" for b
    using hal_program_facts [OF hal ps] by (simp_all add: byte_in_u64)
  have set: "{idx..<idx + Suc n} = insert idx {idx + 1..<idx + 1 + n}" by auto
  show ?case
  proof (cases "ps = 0")
    case False
    then have "h1 = h2" "st \<noteq> 0" using Suc.prems ps by auto
    then show ?thesis using one(1) unfolding set by auto
  next
    case True
    then have rest: "program_loop hal h2 base off data (idx + 1) n = (st, h1)" using Suc.prems(1) ps by simp
    have inj: "inj_on ?addr {idx + 1..<idx + 1 + n}" using Suc.prems(2) by (rule inj_on_subset) auto
    note IH = Suc.IH [OF rest inj]
    have new: "?addr k \<noteq> ?addr idx" if "k \<in> {idx + 1..<idx + 1 + n}" for k
      using inj_onD [OF Suc.prems(2), of k idx] that by auto
    have fst: "?addr idx \<notin> ?addr ` {idx + 1..<idx + 1 + n}"
      using new by (metis (no_types, lifting) imageE)
    show ?thesis unfolding set using IH one new fst True by auto
  qed
qed

lemma program_contract:
  assumes hal: "hal_contract hal" and r: "off + n \<le> 448" "n \<le> length data"
  shows "\<exists>r d1. guardian_stm32f401_flash_program hal (Some d) s off data n = (r, Some d1) \<and> dev_context d1 = dev_context d
    \<and> stm32_cells hal d1 (other_slot s) = stm32_cells hal d (other_slot s)
    \<and> take off (stm32_cells hal d1 s) = take off (stm32_cells hal d s)
    \<and> drop (off + n) (stm32_cells hal d1 s) = drop (off + n) (stm32_cells hal d s)
    \<and> (r = GUARDIAN_NODE_LINK_PERSISTENCE_MEDIA_OK \<longrightarrow>
         buf_read (stm32_cells hal d s) off n = replicate n 0xFF \<longrightarrow> buf_read (stm32_cells hal d1 s) off n = take n data)"
proof -
  have size: "off + n \<le> slot_size s" using r slot_size_ge [of s] by simp
  then have range: "guardian_stm32f401_range_valid (slot_size s) off n" by (simp add: guardian_stm32f401_range_valid_def)
  obtain u h1 where u: "HAL_FLASH_Unlock hal (dev_hardware d) = (u, h1)" by fastforce
  obtain ps h2 where ps: "program_loop hal h1 (slot_base s) off data 0 n = (ps, h2)" by fastforce
  obtain l h3 where l: "HAL_FLASH_Lock hal h2 = (l, h3)" by fastforce
  have m1: "flash_memory hal h1 = flash_memory hal (dev_hardware d)" and m3: "flash_memory hal h3 = flash_memory hal h2"
    using hal_facts [OF hal] u l by blast+
  let ?done = "\<lambda>r d1. guardian_stm32f401_flash_program hal (Some d) s off data n = (r, Some d1)"
  show ?thesis
  proof (cases "n = 0 \<or> u \<noteq> 0")
    case True
    define d1 where "d1 = (if n = 0 then d else d\<lparr>dev_hardware := h1\<rparr>)"
    have "?done (if n = 0 then 1 else 3) d1"
      using True range u by (auto simp: guardian_stm32f401_flash_program_def slot_geometry d1_def)
    moreover have "stm32_cells hal d1 = stm32_cells hal d" "dev_context d1 = dev_context d"
      using m1 by (auto simp: d1_def intro!: ext stm32_cells_cong)
    ultimately show ?thesis by (auto simp: buf_read_def)
  next
    case False
    define d1 where "d1 = d\<lparr>dev_hardware := h3\<rparr>"
    define r where "r = (if ps \<noteq> 0 \<or> l \<noteq> 0 then 3 else (1 :: c_enum))"
    have d1: "dev_hardware d1 = h3" "dev_context d1 = dev_context d" by (simp_all add: d1_def)
    have run: "?done r d1"
      using False range u ps l by (simp add: guardian_stm32f401_flash_program_def slot_geometry d1_def r_def Let_def)
    have inj: "inj_on (\<lambda>k. slot_base s + of_nat off + of_nat k) {0..<0 + n}"
      using size slot_address_inj by (intro inj_onI) (simp add: address_add)
    note eff = program_loop_effect [OF hal ps inj, unfolded address_add]
    have keep: "flash_memory hal h3 a = flash_memory hal (dev_hardware d) a" if "\<forall>k<n. a \<noteq> slot_address s (off + k)" for a
      using eff that m1 m3 by fastforce
    have other: "stm32_cells hal d1 (other_slot s) = stm32_cells hal d (other_slot s)"
      using slot_address_disjoint [of _ s] size by (intro stm32_cells_cong) (metis add_less_cancel_left d1(1) keep less_le_trans)
    have same: "stm32_cells hal d1 s ! i = stm32_cells hal d s ! i" if "i < slot_size s" "i < off \<or> off + n \<le> i" for i
    proof -
      have "\<forall>k<n. slot_address s i \<noteq> slot_address s (off + k)" using that size slot_address_inj [of i s] by auto
      then show ?thesis using that by (simp add: nth_stm32_cells d1 keep)
    qed
    have "buf_read (stm32_cells hal d1 s) off n = take n data"
      if "r = 1" and ff: "buf_read (stm32_cells hal d s) off n = replicate n 0xFF"
    proof -
      have "flash_memory hal (dev_hardware d) (slot_address s (off + k)) = 0xFF" if "k < n" for k
      proof -
        have "buf_read (stm32_cells hal d s) off n ! k = 0xFF" using ff that by simp
        then show ?thesis using that size by (simp add: buf_read_def nth_stm32_cells)
      qed
      then have "flash_memory hal h3 (slot_address s (off + k)) = data ! k" if "k < n" for k
        using eff m1 m3 that \<open>r = 1\<close> by (auto simp: r_def split: if_splits)
      then show ?thesis
        using size assms(3) by (intro nth_equalityI) (auto simp: buf_read_def nth_stm32_cells d1)
    qed
    moreover have "take off (stm32_cells hal d1 s) = take off (stm32_cells hal d s)"
      "drop (off + n) (stm32_cells hal d1 s) = drop (off + n) (stm32_cells hal d s)"
      using same size by (auto intro!: nth_equalityI)
    ultimately show ?thesis using run d1 other by blast
  qed
qed

section \<open>Properties\<close>


text \<open>A HAL on a plain memory.\<close>

definition memory_hal :: "(u32 \<Rightarrow> u8) flash_hal" where
  "memory_hal = \<lparr>HAL_FLASH_Unlock = (\<lambda>h. (HAL_OK, h)), HAL_FLASH_Lock = (\<lambda>h. (HAL_OK, h)),
     HAL_FLASHEx_Erase = (\<lambda>h init e. (HAL_OK, (\<lambda>a. if a \<in> sector_addresses (Sector init) then 0xFF else h a), 0xFFFFFFFF)),
     HAL_FLASH_Program = (\<lambda>h t a v. (HAL_OK, h(a := ucast v))), flash_memory = (\<lambda>h. h)\<rparr>"

lemma memory_hal_contract: "hal_contract memory_hal"
  by (auto simp: hal_contract_def memory_hal_def)


end
