(* ===== verification/Guardian_Anti_Replay.thy ===== *)
theory Guardian_Anti_Replay
  imports Guardian_Persistence
begin

text \<open>
  Anti-replay across restarts: the rollback anchor of
  \<open>firmware/NodeLink/Src/guardian_node_link_rollback_anchor.c\<close> (a commitment to the persisted
  record and a generation counter kept by an independent provider) and the coordinator of
  \<open>guardian_node_link_persistent_anti_replay.c\<close> that restores the freshness runtime at boot and
  advances record and anchor together. The persistence provider and the anchor provider are
  parameters: a provider call returns its answer and the provider's context. The out-parameters
  are distinct objects from the inputs. The lemmas show that, as long as the anchor moves only
  forward, no restored or committed record is older than an earlier one, whatever the
  persistence provider does.
\<close>

section \<open>The rollback anchor\<close>

abbreviation (input) GUARDIAN_NODE_LINK_ROLLBACK_ANCHOR_STATUS_INVALID :: c_enum where
  "GUARDIAN_NODE_LINK_ROLLBACK_ANCHOR_STATUS_INVALID \<equiv> 0"
abbreviation (input) GUARDIAN_NODE_LINK_ROLLBACK_ANCHOR_STATUS_UNPROVISIONED :: c_enum where
  "GUARDIAN_NODE_LINK_ROLLBACK_ANCHOR_STATUS_UNPROVISIONED \<equiv> 1"
abbreviation (input) GUARDIAN_NODE_LINK_ROLLBACK_ANCHOR_STATUS_VALID :: c_enum where
  "GUARDIAN_NODE_LINK_ROLLBACK_ANCHOR_STATUS_VALID \<equiv> 3"

abbreviation (input) GUARDIAN_NODE_LINK_ROLLBACK_ANCHOR_PROVIDER_INVALID :: c_enum where
  "GUARDIAN_NODE_LINK_ROLLBACK_ANCHOR_PROVIDER_INVALID \<equiv> 0"
abbreviation (input) GUARDIAN_NODE_LINK_ROLLBACK_ANCHOR_PROVIDER_OK :: c_enum where
  "GUARDIAN_NODE_LINK_ROLLBACK_ANCHOR_PROVIDER_OK \<equiv> 1"
abbreviation (input) GUARDIAN_NODE_LINK_ROLLBACK_ANCHOR_PROVIDER_INVALID_ARGUMENT :: c_enum where
  "GUARDIAN_NODE_LINK_ROLLBACK_ANCHOR_PROVIDER_INVALID_ARGUMENT \<equiv> 2"
abbreviation (input) GUARDIAN_NODE_LINK_ROLLBACK_ANCHOR_PROVIDER_UNAVAILABLE :: c_enum where
  "GUARDIAN_NODE_LINK_ROLLBACK_ANCHOR_PROVIDER_UNAVAILABLE \<equiv> 3"
abbreviation (input) GUARDIAN_NODE_LINK_ROLLBACK_ANCHOR_PROVIDER_IO_ERROR :: c_enum where
  "GUARDIAN_NODE_LINK_ROLLBACK_ANCHOR_PROVIDER_IO_ERROR \<equiv> 4"
abbreviation (input) GUARDIAN_NODE_LINK_ROLLBACK_ANCHOR_PROVIDER_INTEGRITY_ERROR :: c_enum where
  "GUARDIAN_NODE_LINK_ROLLBACK_ANCHOR_PROVIDER_INTEGRITY_ERROR \<equiv> 5"
abbreviation (input) GUARDIAN_NODE_LINK_ROLLBACK_ANCHOR_PROVIDER_CONFLICT :: c_enum where
  "GUARDIAN_NODE_LINK_ROLLBACK_ANCHOR_PROVIDER_CONFLICT \<equiv> 6"
abbreviation (input) GUARDIAN_NODE_LINK_ROLLBACK_ANCHOR_PROVIDER_EXHAUSTED :: c_enum where
  "GUARDIAN_NODE_LINK_ROLLBACK_ANCHOR_PROVIDER_EXHAUSTED \<equiv> 7"

record guardian_node_link_rollback_anchor_commitment =
  ac_bytes :: "u8 list"

record guardian_node_link_rollback_anchor_record =
  ra_identity :: guardian_node_link_freshness_identity
  ra_generation :: u32
  ra_commitment :: guardian_node_link_rollback_anchor_commitment

datatype guardian_node_link_rollback_anchor_compare_t =
    GUARDIAN_NODE_LINK_ROLLBACK_ANCHOR_COMPARE_INVALID
  | GUARDIAN_NODE_LINK_ROLLBACK_ANCHOR_COMPARE_MATCH
  | GUARDIAN_NODE_LINK_ROLLBACK_ANCHOR_COMPARE_BEHIND
  | GUARDIAN_NODE_LINK_ROLLBACK_ANCHOR_COMPARE_AHEAD
  | GUARDIAN_NODE_LINK_ROLLBACK_ANCHOR_COMPARE_STATE_MISMATCH
  | GUARDIAN_NODE_LINK_ROLLBACK_ANCHOR_COMPARE_IDENTITY_MISMATCH

type_synonym anchor_record = guardian_node_link_rollback_anchor_record
type_synonym anchor_commitment = guardian_node_link_rollback_anchor_commitment
type_synonym freshness_identity = guardian_node_link_freshness_identity

text \<open>The provider callbacks; a callback returns its answer, its context and its out-parameters.\<close>

type_synonym 'a anchor_status_fn = "'a ptr \<Rightarrow> freshness_identity \<Rightarrow> c_enum \<Rightarrow> c_enum \<times> 'a ptr \<times> c_enum"
type_synonym 'a anchor_read_fn =
  "'a ptr \<Rightarrow> freshness_identity \<Rightarrow> anchor_record \<Rightarrow> c_enum \<Rightarrow> c_enum \<times> 'a ptr \<times> anchor_record \<times> c_enum"
type_synonym 'a anchor_advance_fn =
  "'a ptr \<Rightarrow> freshness_identity \<Rightarrow> u32 \<Rightarrow> u32 \<Rightarrow> anchor_commitment \<Rightarrow> c_enum \<times> 'a ptr"

record 'a guardian_node_link_rollback_anchor_provider =
  ap_context :: "'a ptr"
  ap_status :: "'a anchor_status_fn ptr"
  ap_read :: "'a anchor_read_fn ptr"
  ap_advance :: "'a anchor_advance_fn ptr"

definition zero_commitment :: anchor_commitment where
  "zero_commitment = \<lparr>ac_bytes = replicate 32 0\<rparr>"

definition zero_anchor_record :: anchor_record where
  "zero_anchor_record = \<lparr>ra_identity = zero_identity, ra_generation = 0, ra_commitment = zero_commitment\<rparr>"

text \<open>The bytes of \<open>GUARDIAN-R3D-ANCHOR-COMMITMENT-V1\<close>.\<close>

definition guardian_r3d_anchor_domain :: "u8 list" where
  "guardian_r3d_anchor_domain =
     [0x47, 0x55, 0x41, 0x52, 0x44, 0x49, 0x41, 0x4E, 0x2D, 0x52, 0x33, 0x44, 0x2D, 0x41, 0x4E, 0x43, 0x48,
      0x4F, 0x52, 0x2D, 0x43, 0x4F, 0x4D, 0x4D, 0x49, 0x54, 0x4D, 0x45, 0x4E, 0x54, 0x2D, 0x56, 0x31]"

definition guardian_node_link_rollback_anchor_identity_equal ::
  "freshness_identity ptr \<Rightarrow> freshness_identity ptr \<Rightarrow> bool" where
  "guardian_node_link_rollback_anchor_identity_equal left right =
     (case (left, right) of
        (Some l, Some r) \<Rightarrow>
          if fi_sender_node_id l \<noteq> fi_sender_node_id r \<or> fi_producer_id l \<noteq> fi_producer_id r
             \<or> fi_key_id l \<noteq> fi_key_id r \<or> fi_signature_algorithm l \<noteq> fi_signature_algorithm r
          then False
          else if \<not> c_strncmp_equal (fi_producer_semantic_profile_id l) (fi_producer_semantic_profile_id r)
                 GUARDIAN_NODE_LINK_SEMANTIC_REF_CAPACITY
          then False
          else if \<not> c_strncmp_equal (fi_consumer_semantic_profile_id l) (fi_consumer_semantic_profile_id r)
                 GUARDIAN_NODE_LINK_SEMANTIC_REF_CAPACITY
          then False
          else if \<not> c_strncmp_equal (fi_compatibility_contract_id l) (fi_compatibility_contract_id r)
                 GUARDIAN_NODE_LINK_SEMANTIC_REF_CAPACITY
          then False
          else True
      | _ \<Rightarrow> False)"

definition guardian_node_link_rollback_anchor_commitment_from_record ::
  "persisted_record ptr \<Rightarrow> anchor_commitment ptr \<Rightarrow> c_enum \<times> anchor_commitment ptr" where
  "guardian_node_link_rollback_anchor_commitment_from_record persisted commitment =
     (let cleared = map_option (\<lambda>_. zero_commitment) commitment in
      case (persisted, cleared) of
        (Some _, Some c) \<Rightarrow>
          (case guardian_node_link_freshness_persistence_encode persisted
              (Some (replicate GUARDIAN_NODE_LINK_PERSISTENCE_CODEC_SERIALIZED_SIZE 0))
              GUARDIAN_NODE_LINK_PERSISTENCE_CODEC_SERIALIZED_SIZE (Some 0) of
             (codec_result, serialized, serialized_written) \<Rightarrow>
               if codec_result \<noteq> GUARDIAN_NODE_LINK_PERSISTENCE_CODEC_OK
                  \<or> serialized_written \<noteq> Some GUARDIAN_NODE_LINK_PERSISTENCE_CODEC_SERIALIZED_SIZE
               then (GUARDIAN_NODE_LINK_ROLLBACK_ANCHOR_PROVIDER_INVALID_ARGUMENT, cleared)
               else
                 let p1 = buf_write (replicate 369 0) 0 guardian_r3d_anchor_domain;
                     p2 = p1[33 := 0x00, 34 := 0x00, 35 := 0x01, 36 := 0x4C];
                     preimage = buf_write p2 37 (take 332 (the serialized))
                 in (GUARDIAN_NODE_LINK_ROLLBACK_ANCHOR_PROVIDER_OK,
                     Some (c\<lparr>ac_bytes := the (guardian_sha256 (Some preimage) 369 (Some (ac_bytes c)))\<rparr>)))
      | _ \<Rightarrow> (GUARDIAN_NODE_LINK_ROLLBACK_ANCHOR_PROVIDER_INVALID_ARGUMENT, cleared))"

definition guardian_node_link_rollback_anchor_compare ::
  "anchor_record ptr \<Rightarrow> persisted_record ptr \<Rightarrow> guardian_node_link_rollback_anchor_compare_t ptr
     \<Rightarrow> c_enum \<times> guardian_node_link_rollback_anchor_compare_t ptr" where
  "guardian_node_link_rollback_anchor_compare anchor candidate comparison =
     (let cleared = map_option (\<lambda>_. GUARDIAN_NODE_LINK_ROLLBACK_ANCHOR_COMPARE_INVALID) comparison in
      case (anchor, candidate, cleared) of
        (Some a, Some c, Some _) \<Rightarrow>
          (case guardian_node_link_rollback_anchor_commitment_from_record candidate (Some zero_commitment) of
             (result, commitment) \<Rightarrow>
               if result \<noteq> GUARDIAN_NODE_LINK_ROLLBACK_ANCHOR_PROVIDER_OK then (result, cleared)
               else if \<not> guardian_node_link_rollback_anchor_identity_equal (Some (ra_identity a)) (Some (pr_identity c))
               then (GUARDIAN_NODE_LINK_ROLLBACK_ANCHOR_PROVIDER_OK,
                     Some GUARDIAN_NODE_LINK_ROLLBACK_ANCHOR_COMPARE_IDENTITY_MISMATCH)
               else if pr_record_generation c < ra_generation a
               then (GUARDIAN_NODE_LINK_ROLLBACK_ANCHOR_PROVIDER_OK,
                     Some GUARDIAN_NODE_LINK_ROLLBACK_ANCHOR_COMPARE_BEHIND)
               else if pr_record_generation c > ra_generation a
               then (GUARDIAN_NODE_LINK_ROLLBACK_ANCHOR_PROVIDER_OK,
                     Some GUARDIAN_NODE_LINK_ROLLBACK_ANCHOR_COMPARE_AHEAD)
               else if \<not> guardian_crypto_constant_time_equal (Some (ac_bytes (the commitment)))
                      (Some (ac_bytes (ra_commitment a))) 32
               then (GUARDIAN_NODE_LINK_ROLLBACK_ANCHOR_PROVIDER_OK,
                     Some GUARDIAN_NODE_LINK_ROLLBACK_ANCHOR_COMPARE_STATE_MISMATCH)
               else (GUARDIAN_NODE_LINK_ROLLBACK_ANCHOR_PROVIDER_OK,
                     Some GUARDIAN_NODE_LINK_ROLLBACK_ANCHOR_COMPARE_MATCH))
      | _ \<Rightarrow> (GUARDIAN_NODE_LINK_ROLLBACK_ANCHOR_PROVIDER_INVALID_ARGUMENT, cleared))"

definition guardian_node_link_rollback_anchor_next_generation :: "u32 \<Rightarrow> u32 ptr \<Rightarrow> c_enum \<times> u32 ptr" where
  "guardian_node_link_rollback_anchor_next_generation current_generation next_generation =
     (case next_generation of
        None \<Rightarrow> (GUARDIAN_NODE_LINK_ROLLBACK_ANCHOR_PROVIDER_INVALID_ARGUMENT, None)
      | Some _ \<Rightarrow>
          if current_generation \<ge> 0xFFFFFFFF - 1
          then (GUARDIAN_NODE_LINK_ROLLBACK_ANCHOR_PROVIDER_EXHAUSTED, Some 0)
          else (GUARDIAN_NODE_LINK_ROLLBACK_ANCHOR_PROVIDER_OK, Some (current_generation + 1)))"

definition guardian_node_link_rollback_anchor_status ::
  "'a guardian_node_link_rollback_anchor_provider ptr \<Rightarrow> freshness_identity ptr \<Rightarrow> c_enum ptr
     \<Rightarrow> c_enum \<times> 'a guardian_node_link_rollback_anchor_provider ptr \<times> c_enum ptr" where
  "guardian_node_link_rollback_anchor_status provider identity status =
     (let cleared = map_option (\<lambda>_. GUARDIAN_NODE_LINK_ROLLBACK_ANCHOR_STATUS_INVALID) status in
      case (provider, identity, cleared) of
        (Some p, Some i, Some s) \<Rightarrow>
          (case ap_status p of
             None \<Rightarrow> (GUARDIAN_NODE_LINK_ROLLBACK_ANCHOR_PROVIDER_INVALID_ARGUMENT, provider, cleared)
           | Some status_fn \<Rightarrow>
               (case status_fn (ap_context p) i s of
                  (result, context, s') \<Rightarrow> (result, Some (p\<lparr>ap_context := context\<rparr>), Some s')))
      | _ \<Rightarrow> (GUARDIAN_NODE_LINK_ROLLBACK_ANCHOR_PROVIDER_INVALID_ARGUMENT, provider, cleared))"

definition guardian_node_link_rollback_anchor_read ::
  "'a guardian_node_link_rollback_anchor_provider ptr \<Rightarrow> freshness_identity ptr \<Rightarrow> anchor_record ptr
     \<Rightarrow> c_enum ptr
     \<Rightarrow> c_enum \<times> 'a guardian_node_link_rollback_anchor_provider ptr \<times> anchor_record ptr \<times> c_enum ptr" where
  "guardian_node_link_rollback_anchor_read provider identity anchor status =
     (let zeroed = map_option (\<lambda>_. zero_anchor_record) anchor;
          cleared = map_option (\<lambda>_. GUARDIAN_NODE_LINK_ROLLBACK_ANCHOR_STATUS_INVALID) status
      in case (provider, identity, zeroed, cleared) of
        (Some p, Some i, Some z, Some s) \<Rightarrow>
          (case ap_read p of
             None \<Rightarrow> (GUARDIAN_NODE_LINK_ROLLBACK_ANCHOR_PROVIDER_INVALID_ARGUMENT, provider, zeroed, cleared)
           | Some read_fn \<Rightarrow>
               (case read_fn (ap_context p) i z s of
                  (result, context, a, s') \<Rightarrow> (result, Some (p\<lparr>ap_context := context\<rparr>), Some a, Some s')))
      | _ \<Rightarrow> (GUARDIAN_NODE_LINK_ROLLBACK_ANCHOR_PROVIDER_INVALID_ARGUMENT, provider, zeroed, cleared))"

definition guardian_node_link_rollback_anchor_advance ::
  "'a guardian_node_link_rollback_anchor_provider ptr \<Rightarrow> freshness_identity ptr \<Rightarrow> u32 \<Rightarrow> u32
     \<Rightarrow> anchor_commitment ptr \<Rightarrow> c_enum \<times> 'a guardian_node_link_rollback_anchor_provider ptr" where
  "guardian_node_link_rollback_anchor_advance provider identity expected_generation next_generation
     next_commitment =
     (case (provider, identity, next_commitment) of
        (Some p, Some i, Some c) \<Rightarrow>
          (case ap_advance p of
             None \<Rightarrow> (GUARDIAN_NODE_LINK_ROLLBACK_ANCHOR_PROVIDER_INVALID_ARGUMENT, provider)
           | Some advance_fn \<Rightarrow>
               (case guardian_node_link_rollback_anchor_next_generation expected_generation (Some 0) of
                  (result, governed_next_generation) \<Rightarrow>
                    if result \<noteq> GUARDIAN_NODE_LINK_ROLLBACK_ANCHOR_PROVIDER_OK then (result, provider)
                    else if Some next_generation \<noteq> governed_next_generation
                    then (GUARDIAN_NODE_LINK_ROLLBACK_ANCHOR_PROVIDER_INVALID_ARGUMENT, provider)
                    else
                      (case advance_fn (ap_context p) i expected_generation next_generation c of
                         (result, context) \<Rightarrow> (result, Some (p\<lparr>ap_context := context\<rparr>)))))
      | _ \<Rightarrow> (GUARDIAN_NODE_LINK_ROLLBACK_ANCHOR_PROVIDER_INVALID_ARGUMENT, provider))"

section \<open>The coordinator\<close>

datatype guardian_node_link_persistent_anti_replay_result =
    GUARDIAN_NODE_LINK_PERSISTENT_ANTI_REPLAY_INVALID
  | GUARDIAN_NODE_LINK_PERSISTENT_ANTI_REPLAY_OK
  | GUARDIAN_NODE_LINK_PERSISTENT_ANTI_REPLAY_BOOTSTRAP_REQUIRED
  | GUARDIAN_NODE_LINK_PERSISTENT_ANTI_REPLAY_FRESHNESS_UNKNOWN
  | GUARDIAN_NODE_LINK_PERSISTENT_ANTI_REPLAY_ROLLBACK_SUSPECTED
  | GUARDIAN_NODE_LINK_PERSISTENT_ANTI_REPLAY_STATE_MISMATCH
  | GUARDIAN_NODE_LINK_PERSISTENT_ANTI_REPLAY_PROVIDER_UNAVAILABLE
  | GUARDIAN_NODE_LINK_PERSISTENT_ANTI_REPLAY_STATE_UNCERTAIN
  | GUARDIAN_NODE_LINK_PERSISTENT_ANTI_REPLAY_REPLAY_OR_REGRESSION
  | GUARDIAN_NODE_LINK_PERSISTENT_ANTI_REPLAY_EPOCH_TRANSITION_REQUIRED
  | GUARDIAN_NODE_LINK_PERSISTENT_ANTI_REPLAY_GENERATION_EXHAUSTED

record guardian_node_link_persistent_anti_replay_evidence =
  ev_persistence_status :: c_enum
  ev_persistence_classification :: guardian_node_link_freshness_persistence_classification
  ev_anchor_status :: c_enum
  ev_anchor_comparison :: guardian_node_link_rollback_anchor_compare_t
  ev_accepted_epoch :: u32
  ev_accepted_sequence :: u32
  ev_record_generation :: u32
  ev_runtime_restored :: u8
  ev_persistence_committed :: u8
  ev_anchor_advanced :: u8
  ev_anchor_readback_verified :: u8
  ev_persistent_anti_replay_valid :: u8
  ev_actuation_authorized :: u8

type_synonym anti_replay_result = guardian_node_link_persistent_anti_replay_result
type_synonym anti_replay_evidence = guardian_node_link_persistent_anti_replay_evidence

definition zero_evidence :: anti_replay_evidence where
  "zero_evidence = \<lparr>ev_persistence_status = GUARDIAN_NODE_LINK_PERSISTENCE_STATUS_INVALID,
     ev_persistence_classification = GUARDIAN_NODE_LINK_PERSISTENCE_CLASSIFICATION_INVALID,
     ev_anchor_status = GUARDIAN_NODE_LINK_ROLLBACK_ANCHOR_STATUS_INVALID,
     ev_anchor_comparison = GUARDIAN_NODE_LINK_ROLLBACK_ANCHOR_COMPARE_INVALID,
     ev_accepted_epoch = 0, ev_accepted_sequence = 0, ev_record_generation = 0, ev_runtime_restored = 0,
     ev_persistence_committed = 0, ev_anchor_advanced = 0, ev_anchor_readback_verified = 0,
     ev_persistent_anti_replay_valid = 0, ev_actuation_authorized = 0\<rparr>"

definition guardian_persistent_anti_replay_evidence_init ::
  "anti_replay_evidence ptr \<Rightarrow> anti_replay_evidence ptr" where
  "guardian_persistent_anti_replay_evidence_init evidence = map_option (\<lambda>_. zero_evidence) evidence"

definition map_persistence_operation :: "c_enum \<Rightarrow> anti_replay_result" where
  "map_persistence_operation result =
     (if result = GUARDIAN_NODE_LINK_PERSISTENCE_OPERATION_UNAVAILABLE
      then GUARDIAN_NODE_LINK_PERSISTENT_ANTI_REPLAY_PROVIDER_UNAVAILABLE
      else if result = GUARDIAN_NODE_LINK_PERSISTENCE_OPERATION_GENERATION_EXHAUSTED
      then GUARDIAN_NODE_LINK_PERSISTENT_ANTI_REPLAY_GENERATION_EXHAUSTED
      else if result \<in> {GUARDIAN_NODE_LINK_PERSISTENCE_OPERATION_STATE_UNCERTAIN,
             GUARDIAN_NODE_LINK_PERSISTENCE_OPERATION_IO_FAILURE,
             GUARDIAN_NODE_LINK_PERSISTENCE_OPERATION_VERIFY_FAILURE,
             GUARDIAN_NODE_LINK_PERSISTENCE_OPERATION_COMMIT_FAILURE}
      then GUARDIAN_NODE_LINK_PERSISTENT_ANTI_REPLAY_STATE_UNCERTAIN
      else if result = GUARDIAN_NODE_LINK_PERSISTENCE_OPERATION_OK
      then GUARDIAN_NODE_LINK_PERSISTENT_ANTI_REPLAY_OK
      else GUARDIAN_NODE_LINK_PERSISTENT_ANTI_REPLAY_INVALID)"

definition map_anchor_provider_result :: "c_enum \<Rightarrow> anti_replay_result" where
  "map_anchor_provider_result result =
     (if result = GUARDIAN_NODE_LINK_ROLLBACK_ANCHOR_PROVIDER_OK
      then GUARDIAN_NODE_LINK_PERSISTENT_ANTI_REPLAY_OK
      else if result = GUARDIAN_NODE_LINK_ROLLBACK_ANCHOR_PROVIDER_UNAVAILABLE
      then GUARDIAN_NODE_LINK_PERSISTENT_ANTI_REPLAY_PROVIDER_UNAVAILABLE
      else if result = GUARDIAN_NODE_LINK_ROLLBACK_ANCHOR_PROVIDER_EXHAUSTED
      then GUARDIAN_NODE_LINK_PERSISTENT_ANTI_REPLAY_GENERATION_EXHAUSTED
      else if result \<in> {GUARDIAN_NODE_LINK_ROLLBACK_ANCHOR_PROVIDER_IO_ERROR,
             GUARDIAN_NODE_LINK_ROLLBACK_ANCHOR_PROVIDER_INTEGRITY_ERROR,
             GUARDIAN_NODE_LINK_ROLLBACK_ANCHOR_PROVIDER_CONFLICT}
      then GUARDIAN_NODE_LINK_PERSISTENT_ANTI_REPLAY_STATE_UNCERTAIN
      else GUARDIAN_NODE_LINK_PERSISTENT_ANTI_REPLAY_INVALID)"

definition anti_replay_identity_equal :: "freshness_identity ptr \<Rightarrow> freshness_identity ptr \<Rightarrow> bool" where
  "anti_replay_identity_equal left right =
     (case (left, right) of
        (Some l, Some r) \<Rightarrow>
          if fi_sender_node_id l \<noteq> fi_sender_node_id r \<or> fi_producer_id l \<noteq> fi_producer_id r
             \<or> fi_key_id l \<noteq> fi_key_id r \<or> fi_signature_algorithm l \<noteq> fi_signature_algorithm r
          then False
          else if \<not> c_strncmp_equal (fi_producer_semantic_profile_id l) (fi_producer_semantic_profile_id r)
                 GUARDIAN_NODE_LINK_SEMANTIC_REF_CAPACITY
          then False
          else if \<not> c_strncmp_equal (fi_consumer_semantic_profile_id l) (fi_consumer_semantic_profile_id r)
                 GUARDIAN_NODE_LINK_SEMANTIC_REF_CAPACITY
          then False
          else if \<not> c_strncmp_equal (fi_compatibility_contract_id l) (fi_compatibility_contract_id r)
                 GUARDIAN_NODE_LINK_SEMANTIC_REF_CAPACITY
          then False
          else True
      | _ \<Rightarrow> False)"

definition restore_runtime_from_record ::
  "persisted_record ptr \<Rightarrow> guardian_node_link_freshness_runtime ptr
     \<Rightarrow> anti_replay_result \<times> guardian_node_link_freshness_runtime ptr" where
  "restore_runtime_from_record persisted runtime =
     (case (persisted, runtime) of
        (Some r, Some _) \<Rightarrow>
          let candidate = (the (guardian_node_link_freshness_runtime_init (Some zero_runtime)))
                \<lparr>fr_condition := GUARDIAN_NODE_LINK_FRESHNESS_ACTIVE, fr_identity := pr_identity r,
                 fr_accepted_epoch := pr_accepted_epoch r, fr_accepted_sequence := pr_accepted_sequence r,
                 fr_identity_valid := 1, fr_accepted_epoch_valid := 1, fr_accepted_sequence_valid := 1\<rparr>
          in if guardian_node_link_freshness_runtime_validate (Some candidate) \<noteq> GUARDIAN_NODE_LINK_FRESHNESS_OK
          then (GUARDIAN_NODE_LINK_PERSISTENT_ANTI_REPLAY_INVALID, runtime)
          else (GUARDIAN_NODE_LINK_PERSISTENT_ANTI_REPLAY_OK, Some candidate)
      | _ \<Rightarrow> (GUARDIAN_NODE_LINK_PERSISTENT_ANTI_REPLAY_INVALID, runtime))"

text \<open>The part of the recovery that consults the anchor, for a loaded record and its classification.\<close>

definition recover_against_anchor ::
  "'a guardian_node_link_rollback_anchor_provider ptr \<Rightarrow> freshness_identity ptr \<Rightarrow> persisted_record
     \<Rightarrow> guardian_node_link_freshness_persistence_classification
     \<Rightarrow> guardian_node_link_freshness_runtime ptr \<Rightarrow> persisted_record ptr \<Rightarrow> anti_replay_evidence
     \<Rightarrow> anti_replay_result \<times> 'a guardian_node_link_rollback_anchor_provider ptr
        \<times> guardian_node_link_freshness_runtime ptr \<times> persisted_record ptr \<times> anti_replay_evidence ptr" where
  "recover_against_anchor anchor_provider expected_identity loaded classification runtime restored_record e =
     (let (status_result, ap1, status1) = guardian_node_link_rollback_anchor_status anchor_provider
            expected_identity (Some GUARDIAN_NODE_LINK_ROLLBACK_ANCHOR_STATUS_INVALID);
          anchor_status = the status1;
          e1 = e\<lparr>ev_anchor_status := anchor_status\<rparr>
      in if status_result \<noteq> GUARDIAN_NODE_LINK_ROLLBACK_ANCHOR_PROVIDER_OK
      then (map_anchor_provider_result status_result, ap1, runtime, restored_record, Some e1)
      else if classification = GUARDIAN_NODE_LINK_PERSISTENCE_CLASSIFICATION_NO_STATE_BOOTSTRAP
      then
        ((if anchor_status = GUARDIAN_NODE_LINK_ROLLBACK_ANCHOR_STATUS_UNPROVISIONED
          then GUARDIAN_NODE_LINK_PERSISTENT_ANTI_REPLAY_BOOTSTRAP_REQUIRED
          else if anchor_status = GUARDIAN_NODE_LINK_ROLLBACK_ANCHOR_STATUS_VALID
          then GUARDIAN_NODE_LINK_PERSISTENT_ANTI_REPLAY_ROLLBACK_SUSPECTED
          else GUARDIAN_NODE_LINK_PERSISTENT_ANTI_REPLAY_FRESHNESS_UNKNOWN),
         ap1, runtime, restored_record, Some e1)
      else if classification \<noteq> GUARDIAN_NODE_LINK_PERSISTENCE_CLASSIFICATION_VALIDATED_RECORD_CANDIDATE
      then (GUARDIAN_NODE_LINK_PERSISTENT_ANTI_REPLAY_INVALID, ap1, runtime, restored_record, Some e1)
      else if anchor_status \<noteq> GUARDIAN_NODE_LINK_ROLLBACK_ANCHOR_STATUS_VALID
      then
        ((if anchor_status = GUARDIAN_NODE_LINK_ROLLBACK_ANCHOR_STATUS_UNPROVISIONED
          then GUARDIAN_NODE_LINK_PERSISTENT_ANTI_REPLAY_ROLLBACK_SUSPECTED
          else GUARDIAN_NODE_LINK_PERSISTENT_ANTI_REPLAY_FRESHNESS_UNKNOWN),
         ap1, runtime, restored_record, Some e1)
      else
        let (read_result, ap2, anchor_record, status2) = guardian_node_link_rollback_anchor_read ap1
              expected_identity (Some zero_anchor_record) (Some GUARDIAN_NODE_LINK_ROLLBACK_ANCHOR_STATUS_INVALID);
            e2 = e1\<lparr>ev_anchor_status := the status2\<rparr>
        in if read_result \<noteq> GUARDIAN_NODE_LINK_ROLLBACK_ANCHOR_PROVIDER_OK
        then (map_anchor_provider_result read_result, ap2, runtime, restored_record, Some e2)
        else if the status2 \<noteq> GUARDIAN_NODE_LINK_ROLLBACK_ANCHOR_STATUS_VALID
        then (GUARDIAN_NODE_LINK_PERSISTENT_ANTI_REPLAY_FRESHNESS_UNKNOWN, ap2, runtime, restored_record, Some e2)
        else
          let (compare_result, comparison) = guardian_node_link_rollback_anchor_compare anchor_record
                (Some loaded) (Some GUARDIAN_NODE_LINK_ROLLBACK_ANCHOR_COMPARE_INVALID);
              e3 = e2\<lparr>ev_anchor_comparison := the comparison\<rparr>
          in if compare_result \<noteq> GUARDIAN_NODE_LINK_ROLLBACK_ANCHOR_PROVIDER_OK
          then (map_anchor_provider_result compare_result, ap2, runtime, restored_record, Some e3)
          else
            case the comparison of
              GUARDIAN_NODE_LINK_ROLLBACK_ANCHOR_COMPARE_BEHIND \<Rightarrow>
                (GUARDIAN_NODE_LINK_PERSISTENT_ANTI_REPLAY_ROLLBACK_SUSPECTED, ap2, runtime, restored_record, Some e3)
            | GUARDIAN_NODE_LINK_ROLLBACK_ANCHOR_COMPARE_AHEAD \<Rightarrow>
                (GUARDIAN_NODE_LINK_PERSISTENT_ANTI_REPLAY_STATE_UNCERTAIN, ap2, runtime, restored_record, Some e3)
            | GUARDIAN_NODE_LINK_ROLLBACK_ANCHOR_COMPARE_STATE_MISMATCH \<Rightarrow>
                (GUARDIAN_NODE_LINK_PERSISTENT_ANTI_REPLAY_STATE_MISMATCH, ap2, runtime, restored_record, Some e3)
            | GUARDIAN_NODE_LINK_ROLLBACK_ANCHOR_COMPARE_IDENTITY_MISMATCH \<Rightarrow>
                (GUARDIAN_NODE_LINK_PERSISTENT_ANTI_REPLAY_STATE_MISMATCH, ap2, runtime, restored_record, Some e3)
            | GUARDIAN_NODE_LINK_ROLLBACK_ANCHOR_COMPARE_INVALID \<Rightarrow>
                (GUARDIAN_NODE_LINK_PERSISTENT_ANTI_REPLAY_INVALID, ap2, runtime, restored_record, Some e3)
            | GUARDIAN_NODE_LINK_ROLLBACK_ANCHOR_COMPARE_MATCH \<Rightarrow>
                (case restore_runtime_from_record (Some loaded) runtime of
                   (result, rt) \<Rightarrow>
                     if result \<noteq> GUARDIAN_NODE_LINK_PERSISTENT_ANTI_REPLAY_OK
                     then (result, ap2, guardian_node_link_freshness_runtime_init rt, restored_record, Some e3)
                     else (GUARDIAN_NODE_LINK_PERSISTENT_ANTI_REPLAY_OK, ap2, rt, Some loaded,
                           Some (e3\<lparr>ev_accepted_epoch := pr_accepted_epoch loaded,
                             ev_accepted_sequence := pr_accepted_sequence loaded,
                             ev_record_generation := pr_record_generation loaded, ev_runtime_restored := 1,
                             ev_anchor_readback_verified := 1, ev_persistent_anti_replay_valid := 1,
                             ev_actuation_authorized := 0\<rparr>))))"

definition guardian_node_link_persistent_anti_replay_recover ::
  "'c guardian_node_link_freshness_persistence_provider ptr \<Rightarrow> 'a guardian_node_link_rollback_anchor_provider ptr
     \<Rightarrow> freshness_identity ptr \<Rightarrow> guardian_node_link_freshness_runtime ptr \<Rightarrow> persisted_record ptr
     \<Rightarrow> anti_replay_evidence ptr
     \<Rightarrow> anti_replay_result \<times> 'c guardian_node_link_freshness_persistence_provider ptr
        \<times> 'a guardian_node_link_rollback_anchor_provider ptr
        \<times> guardian_node_link_freshness_runtime ptr \<times> persisted_record ptr \<times> anti_replay_evidence ptr" where
  "guardian_node_link_persistent_anti_replay_recover persistence_provider anchor_provider expected_identity
     runtime restored_record evidence =
     (let rt = guardian_node_link_freshness_runtime_init runtime;
          rec = map_option (\<lambda>_. zero_record) restored_record;
          ev = guardian_persistent_anti_replay_evidence_init evidence;
          invalid = (GUARDIAN_NODE_LINK_PERSISTENT_ANTI_REPLAY_INVALID, persistence_provider, anchor_provider, rt, rec, ev)
      in if anchor_provider = None \<or> expected_identity = None \<or> rt = None \<or> rec = None then invalid
      else
        case (persistence_provider, ev) of
          (Some p, Some e) \<Rightarrow>
            (case pv_load p of
               None \<Rightarrow> invalid
             | Some load \<Rightarrow>
                 (case load (pv_context p) (Some GUARDIAN_NODE_LINK_PERSISTENCE_STATUS_INVALID) (Some zero_record) of
                    (persistence_result, context, status, loaded) \<Rightarrow>
                      let pp = Some (p\<lparr>pv_context := context\<rparr>);
                          e1 = e\<lparr>ev_persistence_status := the status\<rparr>
                      in if persistence_result \<noteq> GUARDIAN_NODE_LINK_PERSISTENCE_OPERATION_OK
                      then (map_persistence_operation persistence_result, pp, anchor_provider, rt, rec, Some e1)
                      else
                        (case guardian_node_link_freshness_persistence_classify (the status) loaded expected_identity
                             (Some GUARDIAN_NODE_LINK_PERSISTENCE_CLASSIFICATION_INVALID) of
                           (classify_result, classification) \<Rightarrow>
                             if classify_result \<noteq> GUARDIAN_NODE_LINK_FRESHNESS_OK
                             then (GUARDIAN_NODE_LINK_PERSISTENT_ANTI_REPLAY_INVALID, pp, anchor_provider, rt, rec, Some e1)
                             else
                               let e2 = e1\<lparr>ev_persistence_classification := the classification\<rparr>
                               in if the classification
                                   = GUARDIAN_NODE_LINK_PERSISTENCE_CLASSIFICATION_FRESHNESS_UNKNOWN
                               then (GUARDIAN_NODE_LINK_PERSISTENT_ANTI_REPLAY_FRESHNESS_UNKNOWN, pp,
                                     anchor_provider, rt, rec, Some e2)
                               else
                                 (case recover_against_anchor anchor_provider expected_identity (the loaded)
                                      (the classification) rt rec e2 of
                                    (result, ap, rt', rec', ev') \<Rightarrow> (result, pp, ap, rt', rec', ev')))))
        | _ \<Rightarrow> invalid)"

text \<open>The second half of a continuation: the record is committed, then the anchor advanced, read back
  and compared, and only then is the runtime moved.\<close>

definition continue_with ::
  "'c guardian_node_link_freshness_persistence_provider ptr \<Rightarrow> 'a guardian_node_link_rollback_anchor_provider ptr
     \<Rightarrow> freshness_identity ptr \<Rightarrow> persisted_record \<Rightarrow> persisted_record
     \<Rightarrow> guardian_node_link_freshness_runtime ptr \<Rightarrow> persisted_record ptr \<Rightarrow> anti_replay_evidence
     \<Rightarrow> anti_replay_result \<times> 'c guardian_node_link_freshness_persistence_provider ptr
        \<times> 'a guardian_node_link_rollback_anchor_provider ptr
        \<times> guardian_node_link_freshness_runtime ptr \<times> persisted_record ptr \<times> anti_replay_evidence ptr" where
  "continue_with persistence_provider anchor_provider expected_identity previous candidate runtime committed e =
     (let (persistence_result, pp, outcome) = guardian_node_link_freshness_persistence_transact_commit
            persistence_provider (Some previous) expected_identity (Some candidate)
            (Some GUARDIAN_NODE_LINK_PERSISTENCE_TRANSACTION_INVALID)
      in if persistence_result \<noteq> GUARDIAN_NODE_LINK_PERSISTENCE_OPERATION_OK
          \<or> the outcome \<noteq> GUARDIAN_NODE_LINK_PERSISTENCE_TRANSACTION_COMMITTED
      then (map_persistence_operation persistence_result, pp, anchor_provider, runtime, committed, Some e)
      else
        let e1 = e\<lparr>ev_persistence_committed := 1\<rparr>;
            (commitment_result, commitment) = guardian_node_link_rollback_anchor_commitment_from_record
              (Some candidate) (Some zero_commitment)
        in if commitment_result \<noteq> GUARDIAN_NODE_LINK_ROLLBACK_ANCHOR_PROVIDER_OK
        then (map_anchor_provider_result commitment_result, pp, anchor_provider, runtime, committed, Some e1)
        else
          let (advance_result, ap1) = guardian_node_link_rollback_anchor_advance anchor_provider expected_identity
                (pr_record_generation previous) (pr_record_generation candidate) commitment
          in if advance_result \<noteq> GUARDIAN_NODE_LINK_ROLLBACK_ANCHOR_PROVIDER_OK
          then (map_anchor_provider_result advance_result, pp, ap1, runtime, committed, Some e1)
          else
            let e2 = e1\<lparr>ev_anchor_advanced := 1\<rparr>;
                (read_result, ap2, anchor_record, status) = guardian_node_link_rollback_anchor_read ap1
                  expected_identity (Some zero_anchor_record) (Some GUARDIAN_NODE_LINK_ROLLBACK_ANCHOR_STATUS_INVALID);
                e3 = e2\<lparr>ev_anchor_status := the status\<rparr>
            in if read_result \<noteq> GUARDIAN_NODE_LINK_ROLLBACK_ANCHOR_PROVIDER_OK
            then (map_anchor_provider_result read_result, pp, ap2, runtime, committed, Some e3)
            else if the status \<noteq> GUARDIAN_NODE_LINK_ROLLBACK_ANCHOR_STATUS_VALID
            then (GUARDIAN_NODE_LINK_PERSISTENT_ANTI_REPLAY_STATE_UNCERTAIN, pp, ap2, runtime, committed, Some e3)
            else
              let (compare_result, comparison) = guardian_node_link_rollback_anchor_compare anchor_record
                    (Some candidate) (Some GUARDIAN_NODE_LINK_ROLLBACK_ANCHOR_COMPARE_INVALID);
                  e4 = e3\<lparr>ev_anchor_comparison := the comparison\<rparr>
              in if compare_result \<noteq> GUARDIAN_NODE_LINK_ROLLBACK_ANCHOR_PROVIDER_OK
                  \<or> the comparison \<noteq> GUARDIAN_NODE_LINK_ROLLBACK_ANCHOR_COMPARE_MATCH
              then (GUARDIAN_NODE_LINK_PERSISTENT_ANTI_REPLAY_STATE_UNCERTAIN, pp, ap2, runtime, committed, Some e4)
              else
                let e5 = e4\<lparr>ev_anchor_readback_verified := 1\<rparr>;
                    (result, rt) = restore_runtime_from_record (Some candidate) runtime
                in if result \<noteq> GUARDIAN_NODE_LINK_PERSISTENT_ANTI_REPLAY_OK
                then (result, pp, ap2, rt, committed, Some e5)
                else (GUARDIAN_NODE_LINK_PERSISTENT_ANTI_REPLAY_OK, pp, ap2, rt, Some candidate,
                      Some (e5\<lparr>ev_accepted_epoch := pr_accepted_epoch candidate,
                        ev_accepted_sequence := pr_accepted_sequence candidate,
                        ev_record_generation := pr_record_generation candidate, ev_runtime_restored := 1,
                        ev_persistent_anti_replay_valid := 1, ev_actuation_authorized := 0\<rparr>)))"

definition guardian_node_link_persistent_anti_replay_commit_continuation ::
  "'c guardian_node_link_freshness_persistence_provider ptr \<Rightarrow> 'a guardian_node_link_rollback_anchor_provider ptr
     \<Rightarrow> freshness_identity ptr \<Rightarrow> persisted_record ptr \<Rightarrow> u32 \<Rightarrow> u32
     \<Rightarrow> guardian_node_link_freshness_runtime ptr \<Rightarrow> persisted_record ptr \<Rightarrow> anti_replay_evidence ptr
     \<Rightarrow> anti_replay_result \<times> 'c guardian_node_link_freshness_persistence_provider ptr
        \<times> 'a guardian_node_link_rollback_anchor_provider ptr
        \<times> guardian_node_link_freshness_runtime ptr \<times> persisted_record ptr \<times> anti_replay_evidence ptr" where
  "guardian_node_link_persistent_anti_replay_commit_continuation persistence_provider anchor_provider
     expected_identity previous_record next_epoch next_sequence runtime committed_record evidence =
     (let com = map_option (\<lambda>_. zero_record) committed_record;
          ev = guardian_persistent_anti_replay_evidence_init evidence;
          stop = (\<lambda>result ap e. (result, persistence_provider, ap, runtime, com, e))
      in if persistence_provider = None \<or> anchor_provider = None \<or> expected_identity = None \<or> com = None
      then stop GUARDIAN_NODE_LINK_PERSISTENT_ANTI_REPLAY_INVALID anchor_provider ev
      else
        case (previous_record, runtime, ev) of
          (Some prev, Some rt, Some e) \<Rightarrow>
            (case guardian_node_link_freshness_persistence_classify
                 GUARDIAN_NODE_LINK_PERSISTENCE_STATUS_VALID_PERSISTED_STATE previous_record expected_identity
                 (Some GUARDIAN_NODE_LINK_PERSISTENCE_CLASSIFICATION_INVALID) of
               (classify_result, classification) \<Rightarrow>
                 if classify_result \<noteq> GUARDIAN_NODE_LINK_FRESHNESS_OK
                 then stop GUARDIAN_NODE_LINK_PERSISTENT_ANTI_REPLAY_INVALID anchor_provider ev
                 else if the classification
                     \<noteq> GUARDIAN_NODE_LINK_PERSISTENCE_CLASSIFICATION_VALIDATED_RECORD_CANDIDATE
                 then stop GUARDIAN_NODE_LINK_PERSISTENT_ANTI_REPLAY_INVALID anchor_provider ev
                 else if guardian_node_link_freshness_runtime_validate runtime \<noteq> GUARDIAN_NODE_LINK_FRESHNESS_OK
                     \<or> fr_condition rt \<noteq> GUARDIAN_NODE_LINK_FRESHNESS_ACTIVE \<or> fr_identity_valid rt = 0
                     \<or> fr_accepted_epoch_valid rt = 0 \<or> fr_accepted_sequence_valid rt = 0
                     \<or> \<not> anti_replay_identity_equal (Some (fr_identity rt)) expected_identity
                     \<or> fr_accepted_epoch rt \<noteq> pr_accepted_epoch prev
                     \<or> fr_accepted_sequence rt \<noteq> pr_accepted_sequence prev
                 then stop GUARDIAN_NODE_LINK_PERSISTENT_ANTI_REPLAY_STATE_MISMATCH anchor_provider ev
                 else
                   (case guardian_node_link_rollback_anchor_read anchor_provider expected_identity
                        (Some zero_anchor_record) (Some GUARDIAN_NODE_LINK_ROLLBACK_ANCHOR_STATUS_INVALID) of
                      (read_result, ap, anchor_record, status) \<Rightarrow>
                        let e1 = e\<lparr>ev_anchor_status := the status\<rparr> in
                        if read_result \<noteq> GUARDIAN_NODE_LINK_ROLLBACK_ANCHOR_PROVIDER_OK
                        then stop (map_anchor_provider_result read_result) ap (Some e1)
                        else if the status \<noteq> GUARDIAN_NODE_LINK_ROLLBACK_ANCHOR_STATUS_VALID
                        then stop GUARDIAN_NODE_LINK_PERSISTENT_ANTI_REPLAY_FRESHNESS_UNKNOWN ap (Some e1)
                        else
                          (case guardian_node_link_rollback_anchor_compare anchor_record previous_record
                               (Some GUARDIAN_NODE_LINK_ROLLBACK_ANCHOR_COMPARE_INVALID) of
                             (compare_result, comparison) \<Rightarrow>
                               let e2 = e1\<lparr>ev_anchor_comparison := the comparison\<rparr> in
                               if compare_result \<noteq> GUARDIAN_NODE_LINK_ROLLBACK_ANCHOR_PROVIDER_OK
                               then stop (map_anchor_provider_result compare_result) ap (Some e2)
                               else if the comparison = GUARDIAN_NODE_LINK_ROLLBACK_ANCHOR_COMPARE_BEHIND
                               then stop GUARDIAN_NODE_LINK_PERSISTENT_ANTI_REPLAY_ROLLBACK_SUSPECTED ap (Some e2)
                               else if the comparison \<noteq> GUARDIAN_NODE_LINK_ROLLBACK_ANCHOR_COMPARE_MATCH
                               then stop GUARDIAN_NODE_LINK_PERSISTENT_ANTI_REPLAY_STATE_MISMATCH ap (Some e2)
                               else if next_epoch \<noteq> pr_accepted_epoch prev
                               then stop GUARDIAN_NODE_LINK_PERSISTENT_ANTI_REPLAY_EPOCH_TRANSITION_REQUIRED ap (Some e2)
                               else if next_sequence = 0 \<or> next_sequence \<le> pr_accepted_sequence prev
                               then stop GUARDIAN_NODE_LINK_PERSISTENT_ANTI_REPLAY_REPLAY_OR_REGRESSION ap (Some e2)
                               else if pr_record_generation prev \<ge> 0xFFFFFFFF - 1
                               then stop GUARDIAN_NODE_LINK_PERSISTENT_ANTI_REPLAY_GENERATION_EXHAUSTED ap (Some e2)
                               else continue_with persistence_provider ap expected_identity prev
                                   (prev\<lparr>pr_accepted_sequence := next_sequence,
                                      pr_record_generation := pr_record_generation prev + 1\<rparr>)
                                   runtime com e2)))
        | _ \<Rightarrow> stop GUARDIAN_NODE_LINK_PERSISTENT_ANTI_REPLAY_INVALID anchor_provider ev)"

definition guardian_node_link_persistent_anti_replay_can_actuate ::
  "u8 ptr \<Rightarrow> anti_replay_result \<times> u8 ptr" where
  "guardian_node_link_persistent_anti_replay_can_actuate allowed =
     (case allowed of
        None \<Rightarrow> (GUARDIAN_NODE_LINK_PERSISTENT_ANTI_REPLAY_INVALID, None)
      | Some _ \<Rightarrow> (GUARDIAN_NODE_LINK_PERSISTENT_ANTI_REPLAY_OK, Some 0))"

section \<open>Commitments and comparison\<close>

definition anchor_preimage :: "persisted_record \<Rightarrow> u8 list" where
  "anchor_preimage r = guardian_r3d_anchor_domain @ be32_bytes 332 @ record_material r"

definition commitment_of :: "persisted_record \<Rightarrow> u8 list" where
  "commitment_of r = sha256_reference (anchor_preimage r)"

lemma length_anchor_domain [simp]: "length guardian_r3d_anchor_domain = 33"
  by (simp add: guardian_r3d_anchor_domain_def)

lemma length_commitment_of [simp]: "length (commitment_of r) = 32"
  by (simp add: commitment_of_def)

lemma commitment_from_record_ok:
  assumes "record_valid r"
  shows "guardian_node_link_rollback_anchor_commitment_from_record (Some r) (Some c)
    = (GUARDIAN_NODE_LINK_ROLLBACK_ANCHOR_PROVIDER_OK, Some \<lparr>ac_bytes = commitment_of r\<rparr>)"
proof -
  have enc: "guardian_node_link_freshness_persistence_encode (Some r) (Some (replicate 364 0)) 364 (Some 0)
      = (GUARDIAN_NODE_LINK_PERSISTENCE_CODEC_OK, Some (record_bytes r), Some 364)"
    using encode_record_ok [OF assms, of 364 "replicate 364 0" 0] by (simp add: buf_write_whole)
  define z where "z = replicate 369 (0 :: u8)"
  have z: "z = replicate 33 0 @ replicate 4 0 @ replicate 332 0"
    by (simp add: z_def replicate_add [symmetric])
  have p1: "buf_write z 0 guardian_r3d_anchor_domain = guardian_r3d_anchor_domain @ [0, 0, 0, 0] @ replicate 332 0"
    unfolding z by (simp add: buf_write_def numeral_eq_Suc)
  have be: "be32_bytes 332 = [0x00, 0x00, 0x01, 0x4C]" by (simp add: be32_bytes_def)
  have p2: "(guardian_r3d_anchor_domain @ [0, 0, 0, 0] @ replicate 332 0)[33 := 0x00, 34 := 0x00, 35 := 0x01, 36 := 0x4C]
      = guardian_r3d_anchor_domain @ [0x00, 0x00, 0x01, 0x4C] @ replicate 332 0"
    by (simp add: list_update_append)
  have p3: "buf_write (guardian_r3d_anchor_domain @ [0x00, 0x00, 0x01, 0x4C] @ replicate 332 0) 37 (take 332 (record_bytes r))
      = anchor_preimage r"
    by (simp add: buf_write_def anchor_preimage_def be record_bytes_def)
  have pre: "buf_write ((buf_write z 0 guardian_r3d_anchor_domain)[33 := 0x00, 34 := 0x00, 35 := 0x01, 36 := 0x4C]) 37
      (take 332 (record_bytes r)) = anchor_preimage r"
    unfolding p1 p2 p3 ..
  have "guardian_sha256 (Some (anchor_preimage r)) 369 (Some (replicate 32 0)) = Some (commitment_of r)"
    using guardian_sha256_reference [of 369 "anchor_preimage r" "replicate 32 0"]
    by (simp add: commitment_of_def buf_write_whole anchor_preimage_def)
  then show ?thesis
    unfolding guardian_node_link_rollback_anchor_commitment_from_record_def enc z_def [symmetric]
    by (simp add: Let_def pre zero_commitment_def enc)
qed

lemma commitment_from_record_invalid:
  "\<not> record_valid r \<Longrightarrow> guardian_node_link_rollback_anchor_commitment_from_record (Some r) (Some c)
    = (GUARDIAN_NODE_LINK_ROLLBACK_ANCHOR_PROVIDER_INVALID_ARGUMENT, Some zero_commitment)"
  by (simp add: guardian_node_link_rollback_anchor_commitment_from_record_def Let_def
      guardian_node_link_freshness_persistence_encode_def record_is_logically_valid_iff)

text \<open>A record matches an anchor.\<close>

definition anchored :: "anchor_record \<Rightarrow> persisted_record \<Rightarrow> bool" where
  "anchored a r \<longleftrightarrow> record_valid r
     \<and> guardian_node_link_rollback_anchor_identity_equal (Some (ra_identity a)) (Some (pr_identity r))
     \<and> pr_record_generation r = ra_generation a \<and> commitment_of r = ac_bytes (ra_commitment a)"

lemma compare_match_iff:
  assumes "length (ac_bytes (ra_commitment a)) = 32"
  shows "guardian_node_link_rollback_anchor_compare (Some a) (Some r) (Some x)
      = (GUARDIAN_NODE_LINK_ROLLBACK_ANCHOR_PROVIDER_OK, Some GUARDIAN_NODE_LINK_ROLLBACK_ANCHOR_COMPARE_MATCH)
    \<longleftrightarrow> anchored a r"
proof (cases "record_valid r")
  case True
  then show ?thesis
    using assms by (auto simp: guardian_node_link_rollback_anchor_compare_def Let_def commitment_from_record_ok
        anchored_def constant_time_equal_iff)
next
  case False
  then show ?thesis
    by (simp add: guardian_node_link_rollback_anchor_compare_def Let_def commitment_from_record_invalid anchored_def)
qed

section \<open>The anchor provider\<close>

text \<open>What the coordinator relies on. \<open>get a\<close> is the anchor held in provider state \<open>a\<close>. Status and read
  do not change it, and a read that reports a valid anchor returns it. An advance that succeeds
  moves the anchor from exactly the expected generation to the requested generation and
  commitment; one that fails may have done so or left the anchor alone.\<close>

definition anchor_contract :: "('a \<Rightarrow> anchor_record option) \<Rightarrow> 'a guardian_node_link_rollback_anchor_provider \<Rightarrow> bool" where
  "anchor_contract get p \<longleftrightarrow>
     (\<forall>f a i s. ap_status p = Some f \<longrightarrow> (\<exists>r a1 s1. f (Some a) i s = (r, Some a1, s1) \<and> get a1 = get a)) \<and>
     (\<forall>f a i z s. ap_read p = Some f \<longrightarrow> (\<exists>r a1 out s1. f (Some a) i z s = (r, Some a1, out, s1) \<and> get a1 = get a
        \<and> (r = GUARDIAN_NODE_LINK_ROLLBACK_ANCHOR_PROVIDER_OK \<and> s1 = GUARDIAN_NODE_LINK_ROLLBACK_ANCHOR_STATUS_VALID
            \<longrightarrow> get a = Some out \<and> length (ac_bytes (ra_commitment out)) = 32))) \<and>
     (\<forall>f a i e n c. ap_advance p = Some f \<longrightarrow> (\<exists>r a1. f (Some a) i e n c = (r, Some a1)
        \<and> (get a1 = get a \<and> r \<noteq> GUARDIAN_NODE_LINK_ROLLBACK_ANCHOR_PROVIDER_OK
           \<or> (\<exists>old new. get a = Some old \<and> ra_generation old = e \<and> get a1 = Some new
                \<and> ra_generation new = n \<and> ra_commitment new = c))))"

text \<open>The anchor stays or moves to a later generation.\<close>

definition forward :: "anchor_record option \<Rightarrow> anchor_record option \<Rightarrow> bool" where
  "forward x y \<longleftrightarrow> x = y \<or> (\<exists>a b. x = Some a \<and> y = Some b \<and> ra_generation a < ra_generation b)"

lemma forward_refl [simp]: "forward x x"
  by (simp add: forward_def)

lemma forward_trans: "forward x y \<Longrightarrow> forward y z \<Longrightarrow> forward x z"
  by (auto simp: forward_def)

abbreviation provider_at :: "'a guardian_node_link_rollback_anchor_provider \<Rightarrow> 'a \<Rightarrow> 'a guardian_node_link_rollback_anchor_provider" where
  "provider_at p a \<equiv> p\<lparr>ap_context := Some a\<rparr>"

lemma anchor_contract_at [simp]: "anchor_contract get (p\<lparr>ap_context := x\<rparr>) = anchor_contract get p"
  by (simp add: anchor_contract_def)

lemma status_effect:
  assumes "anchor_contract get p"
  shows "\<exists>r a1 s1. guardian_node_link_rollback_anchor_status (Some (provider_at p a)) (Some i) (Some s)
    = (r, Some (provider_at p a1), Some s1) \<and> get a1 = get a"
proof (cases "ap_status p")
  case None
  then show ?thesis by (auto simp: guardian_node_link_rollback_anchor_status_def)
next
  case (Some f)
  then obtain r a1 s1 where "f (Some a) i 0 = (r, Some a1, s1)" "get a1 = get a"
    using assms unfolding anchor_contract_def by blast
  then show ?thesis using Some by (auto simp: guardian_node_link_rollback_anchor_status_def)
qed

lemma read_effect:
  assumes "anchor_contract get p"
  shows "\<exists>r a1 out s1. guardian_node_link_rollback_anchor_read (Some (provider_at p a)) (Some i) (Some z) (Some s)
      = (r, Some (provider_at p a1), Some out, Some s1) \<and> get a1 = get a
    \<and> (r = GUARDIAN_NODE_LINK_ROLLBACK_ANCHOR_PROVIDER_OK \<and> s1 = GUARDIAN_NODE_LINK_ROLLBACK_ANCHOR_STATUS_VALID
        \<longrightarrow> get a = Some out \<and> length (ac_bytes (ra_commitment out)) = 32)"
proof (cases "ap_read p")
  case None
  then show ?thesis by (auto simp: guardian_node_link_rollback_anchor_read_def)
next
  case (Some f)
  then obtain r a1 out s1 where "f (Some a) i zero_anchor_record 0 = (r, Some a1, out, s1)" "get a1 = get a"
    "r = 1 \<and> s1 = 3 \<longrightarrow> get a = Some out \<and> length (ac_bytes (ra_commitment out)) = 32"
    using assms unfolding anchor_contract_def by blast
  then show ?thesis using Some by (auto simp: guardian_node_link_rollback_anchor_read_def)
qed

lemma advance_effect:
  assumes "anchor_contract get p"
  shows "\<exists>r a1. guardian_node_link_rollback_anchor_advance (Some (provider_at p a)) (Some i) e n (Some c) = (r, Some (provider_at p a1))
    \<and> forward (get a) (get a1)
    \<and> (r = GUARDIAN_NODE_LINK_ROLLBACK_ANCHOR_PROVIDER_OK \<longrightarrow> e < n)"
proof (cases "ap_advance p = None \<or> e \<ge> 0xFFFFFFFF - 1 \<or> n \<noteq> e + 1")
  case True
  then have "\<exists>r. guardian_node_link_rollback_anchor_advance (Some (provider_at p a)) (Some i) e n (Some c) = (r, Some (provider_at p a)) \<and> r \<noteq> 1"
    by (cases "ap_advance p") (auto simp: guardian_node_link_rollback_anchor_advance_def
        guardian_node_link_rollback_anchor_next_generation_def)
  then show ?thesis by (metis forward_refl)
next
  case False
  then obtain f where f: "ap_advance p = Some f" and n: "n = e + 1" and e: "e < 0xFFFFFFFE" by auto
  have lt: "e < n" unfolding n using e by (metis inc_less_eq_triv_imp not_le not_less_iff_gr_or_eq word_order.extremum_strict max_word_max)
  obtain r a1 where g: "f (Some a) i e n c = (r, Some a1)"
    "get a1 = get a \<and> r \<noteq> 1 \<or> (\<exists>old new. get a = Some old \<and> ra_generation old = e \<and> get a1 = Some new
        \<and> ra_generation new = n \<and> ra_commitment new = c)"
    using assms f unfolding anchor_contract_def by blast
  have "guardian_node_link_rollback_anchor_advance (Some (provider_at p a)) (Some i) e n (Some c) = (r, Some (provider_at p a1))"
    using f n e g(1) by (auto simp: guardian_node_link_rollback_anchor_advance_def
        guardian_node_link_rollback_anchor_next_generation_def not_le dest: leD)
  then show ?thesis using g(2) lt by (auto simp: forward_def)
qed

section \<open>The coordinator on an anchor\<close>

lemma recover_anchor_step:
  assumes c: "anchor_contract get p"
    and run: "recover_against_anchor (Some (provider_at p a)) (Some i) loaded cl rt rec e = (res, ap, rt1, rec1, e1)"
  shows "\<exists>a1. ap = Some (provider_at p a1) \<and> get a1 = get a
    \<and> (res = GUARDIAN_NODE_LINK_PERSISTENT_ANTI_REPLAY_OK \<longrightarrow> rec1 = Some loaded \<and> (\<exists>x. get a = Some x \<and> anchored x loaded))"
proof -
  obtain r1 a1 s1 where st: "guardian_node_link_rollback_anchor_status (Some (provider_at p a)) (Some i) (Some 0)
      = (r1, Some (provider_at p a1), Some s1)" "get a1 = get a"
    using status_effect [OF c] by blast
  obtain r2 a2 out s2 where rd: "guardian_node_link_rollback_anchor_read (Some (provider_at p a1)) (Some i) (Some zero_anchor_record) (Some 0)
      = (r2, Some (provider_at p a2), Some out, Some s2)" "get a2 = get a1"
    "r2 = 1 \<and> s2 = 3 \<longrightarrow> get a1 = Some out \<and> length (ac_bytes (ra_commitment out)) = 32"
    using read_effect [OF c] by blast
  obtain r3 k where cmp: "guardian_node_link_rollback_anchor_compare (Some out) (Some loaded)
      (Some GUARDIAN_NODE_LINK_ROLLBACK_ANCHOR_COMPARE_INVALID) = (r3, k)" by fastforce
  have some: "\<exists>y. k = Some y" using cmp by (auto simp: guardian_node_link_rollback_anchor_compare_def Let_def split: if_splits prod.splits)
  obtain r4 rt4 where res4: "restore_runtime_from_record (Some loaded) rt = (r4, rt4)" by fastforce
  have no: "map_anchor_provider_result x \<noteq> GUARDIAN_NODE_LINK_PERSISTENT_ANTI_REPLAY_OK" if "x \<noteq> 1" for x
    using that by (simp add: map_anchor_provider_result_def)
  have eff: "r2 = 1 \<and> s2 = 3 \<and> r3 = 1 \<and> k = Some GUARDIAN_NODE_LINK_ROLLBACK_ANCHOR_COMPARE_MATCH \<longrightarrow>
      (\<exists>x. get a = Some x \<and> anchored x loaded)"
    using rd st compare_match_iff [of out loaded] cmp by auto
  show ?thesis
    using run no some eff st(2) rd(2)
    unfolding recover_against_anchor_def st(1) rd(1) prod.case Let_def option.sel cmp res4
    by (auto split: if_splits guardian_node_link_rollback_anchor_compare_t.splits)
qed

lemma recover_step:
  assumes c: "anchor_contract get p"
    and run: "guardian_node_link_persistent_anti_replay_recover (Some pp) (Some (provider_at p a)) (Some i) (Some rt) (Some rec) (Some e)
      = (res, pp1, ap, rt1, rec1, e1)"
  shows "\<exists>a1. ap = Some (provider_at p a1) \<and> get a1 = get a
    \<and> (res = GUARDIAN_NODE_LINK_PERSISTENT_ANTI_REPLAY_OK \<longrightarrow> (\<exists>x r. rec1 = Some r \<and> get a = Some x \<and> anchored x r))"
proof (cases "pv_load pp")
  case None
  then show ?thesis
    using run by (auto simp: guardian_node_link_persistent_anti_replay_recover_def Let_def
        guardian_persistent_anti_replay_evidence_init_def guardian_node_link_freshness_runtime_init_def)
next
  case (Some load)
  obtain pres ctx status loaded where ld: "load (pv_context pp) (Some 0) (Some zero_record) = (pres, ctx, status, loaded)"
    by (metis prod_cases4)
  obtain cr cl where cls: "guardian_node_link_freshness_persistence_classify (the status) loaded (Some i)
      (Some GUARDIAN_NODE_LINK_PERSISTENCE_CLASSIFICATION_INVALID) = (cr, cl)" by fastforce
  have no: "map_persistence_operation x \<noteq> GUARDIAN_NODE_LINK_PERSISTENT_ANTI_REPLAY_OK" if "x \<noteq> 1" for x
    using that by (simp add: map_persistence_operation_def)
  have sub: "\<exists>a1. ap' = Some (provider_at p a1) \<and> get a1 = get a \<and> (res' = GUARDIAN_NODE_LINK_PERSISTENT_ANTI_REPLAY_OK \<longrightarrow>
      (\<exists>x r. rec' = Some r \<and> get a = Some x \<and> anchored x r))"
    if "recover_against_anchor (Some (provider_at p a)) (Some i) l k r0 rc0 e0 = (res', ap', rt', rec', e')" for l k r0 rc0 e0 res' ap' rt' rec' e'
    using recover_anchor_step [OF c that] by blast
  show ?thesis
    using run no sub
    unfolding guardian_node_link_persistent_anti_replay_recover_def Let_def option.map prod.case option.case Some ld cls
      guardian_persistent_anti_replay_evidence_init_def guardian_node_link_freshness_runtime_init_def
    by (auto split: if_splits prod.splits)
qed

lemma transact_ok_committed:
  assumes "guardian_node_link_freshness_persistence_transact_commit pp prev i cand (Some o0)
      = (GUARDIAN_NODE_LINK_PERSISTENCE_OPERATION_OK, pp1, out)"
  shows "out = Some GUARDIAN_NODE_LINK_PERSISTENCE_TRANSACTION_COMMITTED"
proof -
  have pre: "transact_precheck prev i c \<noteq> Some (GUARDIAN_NODE_LINK_PERSISTENCE_OPERATION_OK, x)" for c x
    by (auto simp: transact_precheck_def Let_def split: if_splits prod.splits)
  show ?thesis
    using assms pre unfolding guardian_node_link_freshness_persistence_transact_commit_def Let_def option.map
    by (auto split: option.splits if_splits prod.splits)
qed

lemma continue_step:
  assumes c: "anchor_contract get p"
    and run: "continue_with pp (Some (provider_at p a)) (Some i) prev cand rt com e = (res, pp1, ap, rt1, com1, e1)"
  shows "\<exists>a1. ap = Some (provider_at p a1) \<and> forward (get a) (get a1)
    \<and> (res = GUARDIAN_NODE_LINK_PERSISTENT_ANTI_REPLAY_OK \<longrightarrow> com1 = Some cand \<and> (\<exists>x. get a1 = Some x \<and> anchored x cand)
        \<and> pr_record_generation prev < pr_record_generation cand)"
proof -
  obtain tr pp2 out where t: "guardian_node_link_freshness_persistence_transact_commit pp (Some prev) (Some i) (Some cand)
      (Some GUARDIAN_NODE_LINK_PERSISTENCE_TRANSACTION_INVALID) = (tr, pp2, out)" by (metis prod_cases3)
  have tok: "out = Some GUARDIAN_NODE_LINK_PERSISTENCE_TRANSACTION_COMMITTED" if "tr = 1"
    using transact_ok_committed t that by blast
  have no: "map_persistence_operation x \<noteq> GUARDIAN_NODE_LINK_PERSISTENT_ANTI_REPLAY_OK"
    "map_anchor_provider_result x \<noteq> GUARDIAN_NODE_LINK_PERSISTENT_ANTI_REPLAY_OK" if "x \<noteq> 1" for x
    using that by (simp_all add: map_persistence_operation_def map_anchor_provider_result_def)
  obtain cr cm where cm: "guardian_node_link_rollback_anchor_commitment_from_record (Some cand) (Some zero_commitment) = (cr, Some cm)"
    by (cases "record_valid cand") (simp_all add: commitment_from_record_ok commitment_from_record_invalid)
  obtain r1 a1 where adv: "guardian_node_link_rollback_anchor_advance (Some (provider_at p a)) (Some i) (pr_record_generation prev)
      (pr_record_generation cand) (Some cm) = (r1, Some (provider_at p a1))" "forward (get a) (get a1)"
    "r1 = 1 \<longrightarrow> pr_record_generation prev < pr_record_generation cand"
    using advance_effect [OF c] by blast
  obtain r2 a2 x s2 where rd: "guardian_node_link_rollback_anchor_read (Some (provider_at p a1)) (Some i) (Some zero_anchor_record) (Some 0)
      = (r2, Some (provider_at p a2), Some x, Some s2)" "get a2 = get a1"
    "r2 = 1 \<and> s2 = 3 \<longrightarrow> get a1 = Some x \<and> length (ac_bytes (ra_commitment x)) = 32"
    using read_effect [OF c] by blast
  obtain r3 k where cmp: "guardian_node_link_rollback_anchor_compare (Some x) (Some cand)
      (Some GUARDIAN_NODE_LINK_ROLLBACK_ANCHOR_COMPARE_INVALID) = (r3, Some k)"
    by (cases "guardian_node_link_rollback_anchor_compare (Some x) (Some cand)
        (Some GUARDIAN_NODE_LINK_ROLLBACK_ANCHOR_COMPARE_INVALID)")
      (auto simp: guardian_node_link_rollback_anchor_compare_def Let_def split: if_splits prod.splits)
  obtain r4 rt4 where res4: "restore_runtime_from_record (Some cand) rt = (r4, rt4)" by fastforce
  have eff: "r2 = 1 \<and> s2 = 3 \<and> r3 = 1 \<and> k = GUARDIAN_NODE_LINK_ROLLBACK_ANCHOR_COMPARE_MATCH \<longrightarrow> get a2 = Some x \<and> anchored x cand"
    using rd compare_match_iff [of x cand] cmp by auto
  have fw: "forward (get a) (get a2)" using adv rd by simp
  show ?thesis
    using run no tok eff adv(2,3) fw
    unfolding continue_with_def t prod.case Let_def cm adv(1) rd(1) option.sel cmp res4
    by (auto split: if_splits)
qed

lemma commit_step:
  assumes c: "anchor_contract get p"
    and run: "guardian_node_link_persistent_anti_replay_commit_continuation (Some pp) (Some (provider_at p a)) (Some i) (Some prev)
      ne ns (Some rt) (Some com) (Some e) = (res, pp1, ap, rt1, com1, e1)"
  shows "\<exists>a1. ap = Some (provider_at p a1) \<and> forward (get a) (get a1)
    \<and> (res = GUARDIAN_NODE_LINK_PERSISTENT_ANTI_REPLAY_OK \<longrightarrow>
        (\<exists>r x0 x. com1 = Some r \<and> get a = Some x0 \<and> get a1 = Some x \<and> anchored x r \<and> ra_generation x0 < pr_record_generation r
          \<and> pr_accepted_epoch r = pr_accepted_epoch prev \<and> pr_accepted_sequence prev < pr_accepted_sequence r))"
proof -
  let ?cand = "prev\<lparr>pr_accepted_sequence := ns, pr_record_generation := pr_record_generation prev + 1\<rparr>"
  obtain cr cl where cls: "guardian_node_link_freshness_persistence_classify 1 (Some prev) (Some i)
      (Some GUARDIAN_NODE_LINK_PERSISTENCE_CLASSIFICATION_INVALID) = (cr, cl)" by fastforce
  obtain r2 a2 x s2 where rd: "guardian_node_link_rollback_anchor_read (Some (provider_at p a)) (Some i) (Some zero_anchor_record) (Some 0)
      = (r2, Some (provider_at p a2), Some x, Some s2)" "get a2 = get a"
    "r2 = 1 \<and> s2 = 3 \<longrightarrow> get a = Some x \<and> length (ac_bytes (ra_commitment x)) = 32"
    using read_effect [OF c] by blast
  obtain r3 k where cmp: "guardian_node_link_rollback_anchor_compare (Some x) (Some prev)
      (Some GUARDIAN_NODE_LINK_ROLLBACK_ANCHOR_COMPARE_INVALID) = (r3, Some k)"
    by (cases "guardian_node_link_rollback_anchor_compare (Some x) (Some prev)
        (Some GUARDIAN_NODE_LINK_ROLLBACK_ANCHOR_COMPARE_INVALID)")
      (auto simp: guardian_node_link_rollback_anchor_compare_def Let_def split: if_splits prod.splits)
  have no: "map_anchor_provider_result y \<noteq> GUARDIAN_NODE_LINK_PERSISTENT_ANTI_REPLAY_OK" if "y \<noteq> 1" for y
    using that by (simp add: map_anchor_provider_result_def)
  have eff: "r2 = 1 \<and> s2 = 3 \<and> r3 = 1 \<and> k = GUARDIAN_NODE_LINK_ROLLBACK_ANCHOR_COMPARE_MATCH \<longrightarrow>
      get a = Some x \<and> pr_record_generation prev = ra_generation x"
    using rd compare_match_iff [of x prev] cmp by (auto simp: anchored_def)
  obtain res' pp' ap' rt' com' e' where cw: "continue_with (Some pp) (Some (provider_at p a2)) (Some i) prev ?cand (Some rt) (Some zero_record)
      (zero_evidence\<lparr>ev_anchor_status := s2, ev_anchor_comparison := k\<rparr>) = (res', pp', ap', rt', com', e')"
    by (metis prod_cases6)
  obtain a3 where sub: "ap' = Some (provider_at p a3)" "forward (get a) (get a3)"
    "res' = GUARDIAN_NODE_LINK_PERSISTENT_ANTI_REPLAY_OK \<longrightarrow> com' = Some ?cand \<and> (\<exists>x. get a3 = Some x \<and> anchored x ?cand)
        \<and> pr_record_generation prev < pr_record_generation ?cand"
    using continue_step [OF c cw] rd(2) by auto
  show ?thesis
    using run no eff sub rd(2)
    unfolding guardian_node_link_persistent_anti_replay_commit_continuation_def Let_def option.map prod.case option.case cls
      rd(1) option.sel cmp guardian_persistent_anti_replay_evidence_init_def cw
    by (auto simp: not_le split: if_splits)
qed

section \<open>Runs\<close>

text \<open>Boots and continuations on one anchor, each with an arbitrary persistence provider, identity,
  previous record and runtime. A successful operation yields its record, marked with whether it
  was a continuation.\<close>

datatype 'c anti_replay_op =
    Ar_recover "'c guardian_node_link_freshness_persistence_provider" freshness_identity
  | Ar_commit "'c guardian_node_link_freshness_persistence_provider" freshness_identity persisted_record u32 u32
      guardian_node_link_freshness_runtime

definition ar_exec ::
  "'a guardian_node_link_rollback_anchor_provider \<Rightarrow> 'c anti_replay_op
     \<Rightarrow> 'a guardian_node_link_rollback_anchor_provider \<times> (bool \<times> persisted_record) option" where
  "ar_exec p op =
     (case op of
        Ar_recover pp i \<Rightarrow>
          (case guardian_node_link_persistent_anti_replay_recover (Some pp) (Some p) (Some i) (Some zero_runtime)
               (Some zero_record) (Some zero_evidence) of
             (result, _, ap, _, rec, _) \<Rightarrow>
               (the ap, if result = GUARDIAN_NODE_LINK_PERSISTENT_ANTI_REPLAY_OK then Some (False, the rec) else None))
      | Ar_commit pp i prev next_epoch next_sequence rt \<Rightarrow>
          (case guardian_node_link_persistent_anti_replay_commit_continuation (Some pp) (Some p) (Some i) (Some prev)
               next_epoch next_sequence (Some rt) (Some zero_record) (Some zero_evidence) of
             (result, _, ap, _, com, _) \<Rightarrow>
               (the ap, if result = GUARDIAN_NODE_LINK_PERSISTENT_ANTI_REPLAY_OK then Some (True, the com) else None)))"

fun ar_run ::
  "'a guardian_node_link_rollback_anchor_provider \<Rightarrow> 'c anti_replay_op list \<Rightarrow> (bool \<times> persisted_record) list" where
  "ar_run p [] = []"
| "ar_run p (op # ops) =
     (case ar_exec p op of (q, out) \<Rightarrow> (case out of None \<Rightarrow> ar_run q ops | Some r \<Rightarrow> r # ar_run q ops))"

text \<open>A later result against an anchor: a later generation, or, for a recovery, the anchor's own.\<close>

definition not_older :: "anchor_record \<Rightarrow> bool \<times> persisted_record \<Rightarrow> bool" where
  "not_older x out \<longleftrightarrow> ra_generation x < pr_record_generation (snd out)
     \<or> \<not> fst out \<and> ra_generation x = pr_record_generation (snd out) \<and> ac_bytes (ra_commitment x) = commitment_of (snd out)"

lemma ar_exec_step:
  assumes "anchor_contract get p"
  shows "\<exists>a1 out. ar_exec (provider_at p a) op = (provider_at p a1, out) \<and> forward (get a) (get a1)
    \<and> (\<forall>o1. out = Some o1 \<longrightarrow> (\<exists>x0 x. get a = Some x0 \<and> get a1 = Some x \<and> anchored x (snd o1) \<and> not_older x0 o1))"
proof (cases op)
  case (Ar_recover pp i)
  obtain res pp1 ap rt rec e where r: "guardian_node_link_persistent_anti_replay_recover (Some pp) (Some (provider_at p a)) (Some i)
      (Some zero_runtime) (Some zero_record) (Some zero_evidence) = (res, pp1, ap, rt, rec, e)" by (metis prod_cases6)
  then show ?thesis
    using recover_step [OF assms r] Ar_recover by (auto simp: ar_exec_def not_older_def anchored_def)
next
  case (Ar_commit pp i prev ne ns rt0)
  obtain res pp1 ap rt com e where r: "guardian_node_link_persistent_anti_replay_commit_continuation (Some pp) (Some (provider_at p a)) (Some i)
      (Some prev) ne ns (Some rt0) (Some zero_record) (Some zero_evidence) = (res, pp1, ap, rt, com, e)" by (metis prod_cases6)
  then show ?thesis
    using commit_step [OF assms r] Ar_commit by (auto simp: ar_exec_def not_older_def)
qed

lemma not_older_forward: "forward (Some x) (Some y) \<Longrightarrow> not_older y r \<Longrightarrow> not_older x r"
  by (auto simp: forward_def not_older_def)

lemma ar_run_not_older:
  assumes "anchor_contract get p" "get a = Some x"
  shows "\<forall>r \<in> set (ar_run (provider_at p a) ops). not_older x r"
  using assms(2)
proof (induction ops arbitrary: a x)
  case (Cons op ops)
  obtain a1 out where e: "ar_exec (provider_at p a) op = (provider_at p a1, out)" "forward (get a) (get a1)"
    "\<forall>o1. out = Some o1 \<longrightarrow> (\<exists>x0 x. get a = Some x0 \<and> get a1 = Some x \<and> anchored x (snd o1) \<and> not_older x0 o1)"
    using ar_exec_step [OF assms(1)] by blast
  obtain y where y: "get a1 = Some y" "forward (Some x) (Some y)"
    using e(2) Cons.prems unfolding forward_def by (metis option.inject)
  have "\<forall>r \<in> set (ar_run (provider_at p a1) ops). not_older x r"
    using Cons.IH [OF y(1)] not_older_forward [OF y(2)] by blast
  then show ?case using e Cons.prems by (auto split: option.split)
qed simp

text \<open>The relation between an earlier and a later result.\<close>

definition newer_or_same :: "bool \<times> persisted_record \<Rightarrow> bool \<times> persisted_record \<Rightarrow> bool" where
  "newer_or_same earlier later \<longleftrightarrow>
     pr_record_generation (snd earlier) < pr_record_generation (snd later)
     \<or> \<not> fst later \<and> pr_record_generation (snd earlier) = pr_record_generation (snd later)
        \<and> commitment_of (snd earlier) = commitment_of (snd later)"

lemma ar_run_sorted:
  assumes "anchor_contract get p"
  shows "sorted_wrt newer_or_same (ar_run (provider_at p a) ops)"
proof (induction ops arbitrary: a)
  case (Cons op ops)
  obtain a1 out where e: "ar_exec (provider_at p a) op = (provider_at p a1, out)"
    "\<forall>o1. out = Some o1 \<longrightarrow> (\<exists>x0 x. get a = Some x0 \<and> get a1 = Some x \<and> anchored x (snd o1) \<and> not_older x0 o1)"
    using ar_exec_step [OF assms] by blast
  show ?case
  proof (cases out)
    case None
    then show ?thesis using e Cons.IH by simp
  next
    case (Some o1)
    then obtain x where x: "get a1 = Some x" "anchored x (snd o1)" using e by blast
    have "\<forall>r \<in> set (ar_run (provider_at p a1) ops). newer_or_same o1 r"
      using ar_run_not_older [OF assms x(1)] x(2) by (auto simp: not_older_def newer_or_same_def anchored_def)
    then show ?thesis using e Some Cons.IH by simp
  qed
qed simp

lemma record_bytes_cong: "record_material r = record_material s \<Longrightarrow> record_bytes r = record_bytes s"
  by (simp add: record_bytes_def)

section \<open>Properties\<close>

text \<open>C40: No rollback across restarts. However often the device boots and continues, and whatever
  its persistence provider returns (an attacker may restore any older flash content), the records
  it restores or commits never go back as long as the anchor keeps its contract: a later result
  has a later generation, or it is a recovery of byte for byte the same record, or the two
  records exhibit a SHA-256 collision; and every continuation has a later generation than
  everything before it.\<close>

theorem anti_replay_never_rolls_back:
  assumes contract: "anchor_contract get p" and state: "ap_context p = Some a"
  shows "sorted_wrt (\<lambda>(k, r) (l, s). pr_record_generation r < pr_record_generation s
      \<or> \<not> l \<and> pr_record_generation r = pr_record_generation s
        \<and> (record_bytes r = record_bytes s
           \<or> anchor_preimage r \<noteq> anchor_preimage s \<and> sha256_reference (anchor_preimage r) = sha256_reference (anchor_preimage s)))
    (ar_run p ops)"
proof -
  have p: "provider_at p a = p" using state by simp
  have "sorted_wrt newer_or_same (ar_run p ops)" using ar_run_sorted [OF contract, of a ops] p by simp
  then show ?thesis
    by (rule sorted_wrt_mono_rel [rotated])
      (auto simp: newer_or_same_def commitment_of_def anchor_preimage_def dest: record_bytes_cong)
qed

text \<open>An anchor kept in memory, and a store that always returns the sample record.\<close>

definition memory_anchor :: "anchor_record option \<Rightarrow> anchor_record option guardian_node_link_rollback_anchor_provider" where
  "memory_anchor x = \<lparr>ap_context = Some x,
     ap_status = Some (\<lambda>a i s. (GUARDIAN_NODE_LINK_ROLLBACK_ANCHOR_PROVIDER_OK, a,
       if the a = None then GUARDIAN_NODE_LINK_ROLLBACK_ANCHOR_STATUS_UNPROVISIONED
       else GUARDIAN_NODE_LINK_ROLLBACK_ANCHOR_STATUS_VALID)),
     ap_read = Some (\<lambda>a i z s. case the a of
         None \<Rightarrow> (GUARDIAN_NODE_LINK_ROLLBACK_ANCHOR_PROVIDER_OK, a, z, GUARDIAN_NODE_LINK_ROLLBACK_ANCHOR_STATUS_UNPROVISIONED)
       | Some r \<Rightarrow>
           if length (ac_bytes (ra_commitment r)) = 32
           then (GUARDIAN_NODE_LINK_ROLLBACK_ANCHOR_PROVIDER_OK, a, r, GUARDIAN_NODE_LINK_ROLLBACK_ANCHOR_STATUS_VALID)
           else (GUARDIAN_NODE_LINK_ROLLBACK_ANCHOR_PROVIDER_INTEGRITY_ERROR, a, z, GUARDIAN_NODE_LINK_ROLLBACK_ANCHOR_STATUS_INVALID)),
     ap_advance = Some (\<lambda>a i e n c. case the a of
         None \<Rightarrow> (GUARDIAN_NODE_LINK_ROLLBACK_ANCHOR_PROVIDER_CONFLICT, a)
       | Some r \<Rightarrow>
           if ra_generation r = e
           then (GUARDIAN_NODE_LINK_ROLLBACK_ANCHOR_PROVIDER_OK, Some (Some (r\<lparr>ra_generation := n, ra_commitment := c\<rparr>)))
           else (GUARDIAN_NODE_LINK_ROLLBACK_ANCHOR_PROVIDER_CONFLICT, a))\<rparr>"

lemma memory_anchor_contract: "anchor_contract id (memory_anchor x)"
  by (auto simp: anchor_contract_def memory_anchor_def split: option.split)

definition sample_anchor :: anchor_record where
  "sample_anchor = \<lparr>ra_identity = sample_identity, ra_generation = 0,
     ra_commitment = \<lparr>ac_bytes = commitment_of sample_record\<rparr>\<rparr>"

definition sample_store :: "unit guardian_node_link_freshness_persistence_provider" where
  "sample_store = \<lparr>pv_context = None,
     pv_load = Some (\<lambda>c s r. (GUARDIAN_NODE_LINK_PERSISTENCE_OPERATION_OK, c,
       Some GUARDIAN_NODE_LINK_PERSISTENCE_STATUS_VALID_PERSISTED_STATE, Some sample_record)),
     pv_write_candidate = None, pv_verify_candidate = None, pv_commit_candidate = None\<rparr>"

lemma sample_boot:
  "ar_exec (memory_anchor (Some sample_anchor)) (Ar_recover sample_store sample_identity)
     = (memory_anchor (Some sample_anchor), Some (False, sample_record))"
proof -
  have v: "record_valid sample_record" using sample_record_valid by simp
  have i: "pr_identity sample_record = sample_identity" by (simp add: sample_record_def)
  have same: "guardian_node_link_rollback_anchor_identity_equal (Some sample_identity) (Some sample_identity)"
    "guardian_node_link_freshness_identity_equal (Some sample_identity) (Some sample_identity)"
    by (simp_all add: guardian_node_link_rollback_anchor_identity_equal_def
        guardian_node_link_freshness_identity_equal_def c_strncmp_equal_def)
  have cmp: "guardian_node_link_rollback_anchor_compare (Some sample_anchor) (Some sample_record)
      (Some GUARDIAN_NODE_LINK_ROLLBACK_ANCHOR_COMPARE_INVALID)
      = (GUARDIAN_NODE_LINK_ROLLBACK_ANCHOR_PROVIDER_OK, Some GUARDIAN_NODE_LINK_ROLLBACK_ANCHOR_COMPARE_MATCH)"
    by (subst compare_match_iff)
      (use v same i in \<open>simp_all add: anchored_def sample_anchor_def sample_record_def\<close>)
  have st: "guardian_node_link_freshness_identity_structurally_valid (Some sample_identity)"
    "pr_schema_version sample_record = 1" "pr_accepted_epoch sample_record \<noteq> 0" "pr_accepted_sequence sample_record \<noteq> 0"
    using v i by (simp_all add: record_valid_def)
  have cls: "guardian_node_link_freshness_persistence_classify 1 (Some sample_record) (Some sample_identity) (Some c0)
      = (GUARDIAN_NODE_LINK_FRESHNESS_OK, Some GUARDIAN_NODE_LINK_PERSISTENCE_CLASSIFICATION_VALIDATED_RECORD_CANDIDATE)" for c0
    using st i same by (simp add: guardian_node_link_freshness_persistence_classify_def)
  have rt: "fst (restore_runtime_from_record (Some sample_record) (Some r0)) = GUARDIAN_NODE_LINK_PERSISTENT_ANTI_REPLAY_OK" for r0
    using st i by (auto simp: restore_runtime_from_record_def Let_def guardian_node_link_freshness_runtime_validate_def
        guardian_node_link_freshness_runtime_init_def zero_runtime_def guardian_node_link_freshness_condition_valid_def
        guardian_node_link_freshness_identity_structurally_valid_def split: if_splits)
  have len: "length (ac_bytes (ra_commitment sample_anchor)) = 32" by (simp add: sample_anchor_def)
  obtain rt1 where rt1: "restore_runtime_from_record (Some sample_record) (Some (zero_runtime\<lparr>fr_condition := 0\<rparr>))
      = (GUARDIAN_NODE_LINK_PERSISTENT_ANTI_REPLAY_OK, rt1)" using rt by (metis prod.collapse)
  show ?thesis
    using len by (simp add: rt1 ar_exec_def guardian_node_link_persistent_anti_replay_recover_def Let_def sample_store_def
        guardian_node_link_freshness_runtime_init_def guardian_persistent_anti_replay_evidence_init_def cls
        recover_against_anchor_def guardian_node_link_rollback_anchor_status_def guardian_node_link_rollback_anchor_read_def
        memory_anchor_def cmp)
qed

theorem anti_replay_never_rolls_back_witness:
  "ar_run (memory_anchor (Some sample_anchor)) [Ar_recover sample_store sample_identity, Ar_recover sample_store sample_identity]
     = [(False, sample_record), (False, sample_record)]
   \<and> sorted_wrt (\<lambda>(k, r) (l, s). pr_record_generation r < pr_record_generation s
      \<or> \<not> l \<and> pr_record_generation r = pr_record_generation s
        \<and> (record_bytes r = record_bytes s
           \<or> anchor_preimage r \<noteq> anchor_preimage s \<and> sha256_reference (anchor_preimage r) = sha256_reference (anchor_preimage s)))
    [(False, sample_record), (False, sample_record)]"
proof -
  let ?ops = "[Ar_recover sample_store sample_identity, Ar_recover sample_store sample_identity]"
  have run: "ar_run (memory_anchor (Some sample_anchor)) ?ops = [(False, sample_record), (False, sample_record)]"
    by (simp add: sample_boot)
  have ctx: "ap_context (memory_anchor (Some sample_anchor)) = Some (Some sample_anchor)" by (simp add: memory_anchor_def)
  show ?thesis
    using anti_replay_never_rolls_back [OF memory_anchor_contract ctx, of ?ops] run by simp
qed

end
