(* ===== verification/Spec2Isabelle.thy ===== *)
theory Spec2Isabelle
  imports Guardian_Link_Transport Guardian_Multinode Guardian_Corroboration Guardian_Evidence Guardian_High_Compute Guardian_Parser Guardian_Security Guardian_Control Guardian_Health_Model Guardian_Trusted_Keys Guardian_Crash_Safety Guardian_Flash_STM32 Guardian_Anti_Replay
begin

text \<open>HEADER\<close>

section \<open>Updates with the trusted-key verifier\<close>

text \<open>A lifecycle operation on a platform whose storage keeps its contract and whose verifier is
  the trusted-signature adapter over a given key table.\<close>

fun adapter_op :: "('c ptr \<Rightarrow> u8 list) \<Rightarrow> guardian_firmware_trusted_key_record list
     \<Rightarrow> (u8 list \<Rightarrow> u8 list \<Rightarrow> u8 list \<Rightarrow> int) \<Rightarrow> 'c fw_op \<Rightarrow> bool" where
  "adapter_op img table check (Fw_configure cfg) \<longleftrightarrow>
     fc_verify_signature cfg = Some (trusted_verify_in table check)
     \<and> pred_option (erase_contract img) (fc_erase cfg) \<and> pred_option (write_contract img) (fc_write cfg)
     \<and> pred_option (hash_contract img) (fc_hash cfg) \<and> pred_option (mark_contract img) (fc_mark_pending cfg)"
| "adapter_op img table check (Fw_begin m) \<longleftrightarrow> manifest_shape m"
| "adapter_op img table check (Fw_chunk k) \<longleftrightarrow> length (ck_data k) = 192"
| "adapter_op img table check _ \<longleftrightarrow> True"

lemma adapter_op_ok: "adapter_op img table check op \<Longrightarrow> fw_op_ok img (ed25519_trusts table check) op"
  by (cases op) (auto simp: platform_contract_def trusted.fulfils_contract)

lemma adapter_ops_ok:
  "list_all (adapter_op img table check) ops \<Longrightarrow> list_all (fw_op_ok img (ed25519_trusts table check)) ops"
  by (induction ops) (auto simp: adapter_op_ok)

text \<open>With the table the firmware ships, whatever the storage does.\<close>

fun shipped_op :: "(u8 list \<Rightarrow> u8 list \<Rightarrow> u8 list \<Rightarrow> int) \<Rightarrow> 'c fw_op \<Rightarrow> bool" where
  "shipped_op check (Fw_configure cfg) \<longleftrightarrow>
     fc_verify_signature cfg = Some (guardian_firmware_trusted_signature_verify check)"
| "shipped_op check _ \<longleftrightarrow> True"

definition shipped_inv :: "(u8 list \<Rightarrow> u8 list \<Rightarrow> u8 list \<Rightarrow> int) \<Rightarrow> 'c guardian_firmware_lifecycle \<Rightarrow> bool" where
  "shipped_inv check l \<longleftrightarrow>
     (lc_configured l \<noteq> 0 \<longrightarrow> fc_verify_signature (lc_config l) = Some (guardian_firmware_trusted_signature_verify check))
     \<and> lc_state l \<in> {GUARDIAN_FIRMWARE_STATE_IDLE, GUARDIAN_FIRMWARE_STATE_RECEIVING, GUARDIAN_FIRMWARE_STATE_FAILED}
     \<and> (lc_state l = GUARDIAN_FIRMWARE_STATE_RECEIVING \<longrightarrow> lc_configured l \<noteq> 0)"

lemma shipped_finalize:
  assumes "shipped_inv check l"
  shows "rejected l (fw_exec l Fw_finalize)"
proof (cases "lc_state l = GUARDIAN_FIRMWARE_STATE_RECEIVING")
  case True
  then have "fc_verify_signature (lc_config l) = Some (guardian_firmware_trusted_signature_verify check)"
    using assms by (simp add: shipped_inv_def)
  then show ?thesis
    using True by (auto simp: fw_exec_def guardian_firmware_finalize_def guardian_firmware_fail_def rejected_fail
        shipped_verify Let_def split: prod.splits)
qed (simp add: fw_exec_def guardian_firmware_finalize_def)

lemma shipped_rejected: "shipped_inv check l \<Longrightarrow> rejected l l' \<Longrightarrow> shipped_inv check l'"
  by (auto simp: shipped_inv_def rejected_def)

lemma shipped_configure:
  "shipped_inv check l \<Longrightarrow> shipped_op check (Fw_configure cfg) \<Longrightarrow> shipped_inv check (fw_exec l (Fw_configure cfg))"
  by (auto simp: fw_exec_def guardian_firmware_lifecycle_configure_def guardian_firmware_lifecycle_init_def
      shipped_inv_def initial_lifecycle_def)

lemma shipped_begin: "shipped_inv check l \<Longrightarrow> shipped_inv check (fw_exec l (Fw_begin m))"
  using begin_cases [of l m "fst (fw_call (Some l) (Fw_begin m))" "snd (fw_call (Some l) (Fw_begin m))"]
    shipped_rejected [of check l]
  by (auto simp: fw_exec_def shipped_inv_def)

lemma shipped_chunk: "shipped_inv check l \<Longrightarrow> shipped_inv check (fw_exec l (Fw_chunk k))"
  using chunk_cases [of l k "fst (fw_call (Some l) (Fw_chunk k))" "snd (fw_call (Some l) (Fw_chunk k))"]
    shipped_rejected [of check l]
  by (auto simp: fw_exec_def shipped_inv_def)

lemma shipped_exec:
  assumes "shipped_inv check l" "shipped_op check op"
  shows "shipped_inv check (fw_exec l op)"
proof -
  have "rejected l (fw_exec l op)" if "op = Fw_activate \<or> (\<exists>v. op = Fw_confirm v \<or> op = Fw_boot_failed v)"
    using that assms(1)
    by (auto simp: fw_exec_def guardian_firmware_activate_def guardian_firmware_confirm_boot_def
        guardian_firmware_report_boot_failure_def shipped_inv_def)
  then show ?thesis
    using assms(2) shipped_configure [OF assms(1)] shipped_begin [OF assms(1)] shipped_chunk [OF assms(1)]
      shipped_rejected [OF assms(1)] shipped_finalize [OF assms(1)]
    by (cases op) simp_all
qed

lemma shipped_run:
  "shipped_inv check l \<Longrightarrow> list_all (shipped_op check) ops \<Longrightarrow> shipped_inv check (fw_run l ops)"
  by (induction ops arbitrary: l) (auto intro: shipped_exec)

section \<open>Sample verifier\<close>

definition sample_check :: "u8 list \<Rightarrow> u8 list \<Rightarrow> u8 list \<Rightarrow> int" where
  "sample_check sig key msg = (if sig = msg \<and> key = replicate 32 0xAB then 0 else -1)"

definition adapter_platform :: "u8 list guardian_firmware_config" where
  "adapter_platform = sample_platform\<lparr>fc_verify_signature := Some (trusted_verify_in [sample_key] sample_check)\<rparr>"

definition adapter_lifecycle :: "u8 list guardian_firmware_lifecycle" where
  "adapter_lifecycle = fw_exec initial_lifecycle (Fw_configure adapter_platform)"

lemma adapter_ops: "list_all (adapter_op sample_image [sample_key] sample_check) (Fw_configure adapter_platform # sample_update)"
  using sample_contract
  by (simp add: adapter_platform_def platform_contract_def transfer_ops_def manifest_shape_def)

lemma adapter_trusts: "ed25519_trusts [sample_key] sample_check a k msg sig \<longleftrightarrow> a = 1 \<and> k = 7 \<and> sig = msg"
proof -
  have "approved sample_key" by (auto simp: approved_def sample_key_def intro: exI [of _ 0])
  then show ?thesis by (simp add: ed25519_trusts_def designated_def sample_check_def) (simp add: sample_key_def)
qed

lemma adapter_lifecycle_eq:
  "adapter_lifecycle = initial_lifecycle\<lparr>lc_config := adapter_platform, lc_configured := 1\<rparr>"
  by (simp add: adapter_lifecycle_def fw_exec_def guardian_firmware_lifecycle_configure_def
      guardian_firmware_lifecycle_init_def adapter_platform_def sample_platform_def)

lemma adapter_verified: "lc_state (fw_run adapter_lifecycle sample_update) = GUARDIAN_FIRMWARE_STATE_VERIFIED"
proof (rule transfer_verified(2))
  show "fw_inv sample_image (ed25519_trusts [sample_key] sample_check) adapter_lifecycle"
    using adapter_ops unfolding adapter_lifecycle_def by (intro fw_exec_inv fw_initial_inv adapter_op_ok) simp
  show "honest_manifest (ed25519_trusts [sample_key] sample_check) (lc_config adapter_lifecycle) sample_manifest [1, 2, 3]"
    using sample_honest
    by (simp add: honest_manifest_def manifest_authentic_def adapter_trusts sample_auth_def adapter_lifecycle_eq
        sample_lifecycle_eq adapter_platform_def)
qed (use sample_available in \<open>simp_all add: adapter_lifecycle_eq adapter_platform_def pieces_ok_def
      platform_available_def trusted_verify_eq adapter_trusts guardian_firmware_signature_valid_def\<close>)

section \<open>Properties that span components\<close>

text \<open>C28: End-to-end authenticity of updates. Run the update lifecycle from power-up over a storage that keeps its
  contract, with the trusted-signature adapter over any key table as verifier. Whenever the
  candidate is verified or pending, the staged image hashes to the manifest's digest and the
  Ed25519 check accepts the manifest's 64-byte signature over its transcript under the public
  key of the one approved table record with the manifest's key identifier.\<close>

theorem update_authentic_end_to_end:
  assumes ops: "list_all (adapter_op img table check) ops"
    and st: "lc_state (fw_run initial_lifecycle ops)
      \<in> {GUARDIAN_FIRMWARE_STATE_VERIFIED, GUARDIAN_FIRMWARE_STATE_PENDING_ACTIVATION}"
  shows "\<exists>r. designated table (m_key_id (lc_manifest (fw_run initial_lifecycle ops))) = Some r
    \<and> approved r
    \<and> sha256_reference (staged img (fw_run initial_lifecycle ops)) = m_image_sha256 (lc_manifest (fw_run initial_lifecycle ops))
    \<and> check (m_signature (lc_manifest (fw_run initial_lifecycle ops))) (take 32 (tk_public_key r))
        (signed_bytes (lc_manifest (fw_run initial_lifecycle ops))) = 0"
proof -
  let ?l = "fw_run initial_lifecycle ops" and ?auth = "ed25519_trusts table check"
  have "reachable (\<lambda>l. l = initial_lifecycle) (fw_step img ?auth) ?l"
    by (rule fw_run_reachable [OF reachable_init adapter_ops_ok [OF ops]]) simp
  note inv = verified_inv [OF lifecycle.reachable_inv [OF this] st]
  have a: "?auth (m_signature_algorithm (lc_manifest ?l)) (m_key_id (lc_manifest ?l)) (signed_bytes (lc_manifest ?l))
      (take (unat (m_signature_length (lc_manifest ?l))) (m_signature (lc_manifest ?l)))"
    and sha: "sha256_reference (staged img ?l) = m_image_sha256 (lc_manifest ?l)"
    using inv(4) by (simp_all add: image_authentic_def manifest_authentic_def)
  have adm: "guardian_firmware_signature_valid (m_signature_algorithm (lc_manifest ?l)) (m_signature_length (lc_manifest ?l))"
      "length (m_signature (lc_manifest ?l)) = 64"
    using inv(3) unfolding candidate_admissible_def manifest_shape_def Let_def by blast+
  with a have "m_signature_length (lc_manifest ?l) = 64"
    by (auto simp: ed25519_trusts_def guardian_firmware_signature_valid_def)
  with a adm sha show ?thesis
    by (auto simp: ed25519_trusts_def dest: designated_key split: option.splits)
qed

theorem update_authentic_end_to_end_witness:
  "designated [sample_key] (m_key_id (lc_manifest (fw_run initial_lifecycle
     (Fw_configure adapter_platform # sample_update)))) \<noteq> None"
proof -
  have "\<exists>r. designated [sample_key] (m_key_id (lc_manifest (fw_run initial_lifecycle
      (Fw_configure adapter_platform # sample_update)))) = Some r \<and> approved r
    \<and> sha256_reference (staged sample_image (fw_run initial_lifecycle (Fw_configure adapter_platform # sample_update)))
      = m_image_sha256 (lc_manifest (fw_run initial_lifecycle (Fw_configure adapter_platform # sample_update)))
    \<and> sample_check (m_signature (lc_manifest (fw_run initial_lifecycle (Fw_configure adapter_platform # sample_update))))
        (take 32 (tk_public_key r))
        (signed_bytes (lc_manifest (fw_run initial_lifecycle (Fw_configure adapter_platform # sample_update)))) = 0"
    by (rule update_authentic_end_to_end)
      (use adapter_ops in simp, use adapter_verified in \<open>simp add: adapter_lifecycle_def\<close>)
  then show ?thesis by auto
qed

text \<open>C29: The shipped device takes no update. With the key table compiled into the firmware, no sequence of update
  operations from power-up, on any storage and with any Ed25519 library, leaves the states IDLE,
  RECEIVING and FAILED: nothing is verified, activated or confirmed.\<close>

theorem shipped_device_never_activates:
  assumes "list_all (shipped_op check) ops"
  shows "lc_state (fw_run initial_lifecycle ops)
    \<in> {GUARDIAN_FIRMWARE_STATE_IDLE, GUARDIAN_FIRMWARE_STATE_RECEIVING, GUARDIAN_FIRMWARE_STATE_FAILED}"
proof -
  have "shipped_inv check initial_lifecycle" by (simp add: shipped_inv_def initial_lifecycle_def)
  from shipped_run [OF this assms] show ?thesis by (simp add: shipped_inv_def)
qed

theorem shipped_device_never_activates_witness:
  "lc_state (fw_run initial_lifecycle (Fw_configure (sample_platform\<lparr>fc_verify_signature :=
       Some (guardian_firmware_trusted_signature_verify sample_check)\<rparr>) # update_ops sample_manifest [[1, 2], [3]]))
    \<in> {GUARDIAN_FIRMWARE_STATE_IDLE, GUARDIAN_FIRMWARE_STATE_RECEIVING, GUARDIAN_FIRMWARE_STATE_FAILED}"
  by (rule shipped_device_never_activates [of sample_check]) (simp add: update_ops_def transfer_ops_def)

text \<open>Every control request is answered through the secure session. For any control state and any request frame,
  the control layer returns a response or error frame for that command and sequence, and an open
  session wraps it into a frame that encodes and whose payload is the authenticated envelope of
  exactly that answer.\<close>

theorem control_answer_wrapped:
  assumes "sec_inv s" "se_valid (s_session s) \<noteq> 0" "wf_frame resp"
  shows "\<exists>c' inner out. guardian_control_handle_request (Some c) (Some req) (Some resp)
      = (GUARDIAN_PROTOCOL_OK, Some c', Some inner)
    \<and> command inner = command req \<and> sequence inner = sequence req
    \<and> message_type inner \<in> {GUARDIAN_MESSAGE_RESPONSE, GUARDIAN_MESSAGE_ERROR}
    \<and> guardian_security_wrap_response (Some s) (Some outer) ctr (Some inner) (Some zero_frame) = (GUARDIAN_SECURITY_OK, Some out)
    \<and> fst (guardian_protocol_encode (Some out) (Some (replicate 272 0)) 272 (Some 0)) = GUARDIAN_PROTOCOL_OK
    \<and> frame_payload out = response_envelope (se_session_key (s_session s)) (se_session_id (s_session s))
        ctr (sequence outer) (ucast (message_type inner)) (command inner) (frame_payload inner)"
proof -
  obtain c' inner where h: "guardian_control_handle_request (Some c) (Some req) (Some resp)
      = (GUARDIAN_PROTOCOL_OK, Some c', Some inner)" and a: "answers req inner"
    using control_answers [OF assms(3), of c req] by blast
  have inner: "wf_frame inner" "unat (payload_length inner) \<le> 223"
    using a by (auto simp: answers_def encodable_def)
  have key: "length (se_session_key (s_session s)) = 32" using assms(1,2) by (simp add: sec_inv_def)
  obtain out where out: "wrap_core s outer ctr inner zero_frame = (GUARDIAN_SECURITY_OK, out)" "encodable out"
      "frame_payload out = response_envelope (se_session_key (s_session s)) (se_session_id (s_session s))
        ctr (sequence outer) (ucast (message_type inner)) (command inner) (frame_payload inner)"
    using wrap_core_ok [OF assms(2) key inner, of outer ctr zero_frame] by blast
  have "fst (guardian_protocol_encode (Some out) (Some (replicate 272 0)) 272 (Some 0)) = GUARDIAN_PROTOCOL_OK"
    using out(2) by (subst encode_ok) (auto simp: encodable_def)
  with h a out show ?thesis by (auto simp: answers_def guardian_security_wrap_response_def)
qed

theorem control_answer_wrapped_witness:
  "\<exists>c' inner out. guardian_control_handle_request (Some tripped_control) (Some sample_outer) (Some zero_frame)
      = (GUARDIAN_PROTOCOL_OK, Some c', Some inner)
    \<and> guardian_security_wrap_response (Some sample_security) (Some sample_outer) 1 (Some inner) (Some zero_frame)
      = (GUARDIAN_SECURITY_OK, Some out)"
proof -
  have "se_valid (s_session sample_security) \<noteq> 0" "wf_frame zero_frame"
    by (simp_all add: sample_security_def zero_frame_def wf_frame_def)
  from control_answer_wrapped [OF sample_security_inv this, of tripped_control sample_outer sample_outer 1]
  show ?thesis by blast
qed

end
